(* ===== verification/Prelude.thy ===== *)
theory Prelude
imports Main
begin

text \<open>
  Shared vocabulary of the development: table operations in the shape of the SQL statements the
  Go code issues (an UPDATE with a WHERE clause is \<^term>\<open>upd_where\<close>, the affected row count is
  \<^term>\<open>rows_affected\<close>, a SELECT of one row is \<^term>\<open>find\<close>), the 64 bit arithmetic of Go's
  \<open>int\<close>, decimal printing, and the lemmas about them that every component uses.
\<close>

named_theorems table_simps \<open>rewrite rules for the table operations\<close>
named_theorems handler_defs \<open>definitions of the handlers that change the database\<close>

section \<open>Tables\<close>

definition upd_where :: "('r \<Rightarrow> bool) \<Rightarrow> ('r \<Rightarrow> 'r) \<Rightarrow> 'r list \<Rightarrow> 'r list" where
  "upd_where P f rs = map (\<lambda>r. if P r then f r else r) rs"

definition rows_affected :: "('r \<Rightarrow> bool) \<Rightarrow> 'r list \<Rightarrow> nat" where
  "rows_affected P rs = length (filter P rs)"

definition exists_row :: "('r \<Rightarrow> bool) \<Rightarrow> 'r list \<Rightarrow> bool" where
  "exists_row P rs = list_ex P rs"

lemma upd_where_Nil [simp]: "upd_where P f [] = []"
  by (simp add: upd_where_def)

lemma upd_where_Cons [simp]:
  "upd_where P f (r # rs) = (if P r then f r else r) # upd_where P f rs"
  by (simp add: upd_where_def)

lemma rows_affected_Nil [simp]: "rows_affected P [] = 0"
  by (simp add: rows_affected_def)

lemma rows_affected_Cons [simp]:
  "rows_affected P (r # rs) = (if P r then Suc (rows_affected P rs) else rows_affected P rs)"
  by (simp add: rows_affected_def)

lemma rows_affected_0 [table_simps]: "rows_affected P rs = 0 \<longleftrightarrow> (\<forall>r\<in>set rs. \<not> P r)"
  by (induction rs) auto

lemma exists_row_iff [table_simps]: "exists_row P rs \<longleftrightarrow> (\<exists>r\<in>set rs. P r)"
  by (simp add: exists_row_def list_ex_iff)

lemma exists_row_code [simp]:
  "exists_row P [] = False" "exists_row P (r # rs) = (P r \<or> exists_row P rs)"
  by (simp_all add: exists_row_def)

lemma length_upd_where [simp]: "length (upd_where P f rs) = length rs"
  by (simp add: upd_where_def)

lemma set_upd_where [table_simps]:
  "set (upd_where P f rs) = (\<lambda>r. if P r then f r else r) ` set rs"
  by (simp add: upd_where_def)

lemma map_upd_where:
  "(\<And>r. P r \<Longrightarrow> k (f r) = k r) \<Longrightarrow> map k (upd_where P f rs) = map k rs"
  by (induction rs) auto

lemma upd_where_mem:
  "r \<in> set (upd_where P f rs) \<Longrightarrow> \<exists>r0\<in>set rs. r = (if P r0 then f r0 else r0)"
  by (auto simp: upd_where_def)

lemma upd_where_memE:
  assumes "r \<in> set (upd_where P f rs)"
  obtains r0 where "r0 \<in> set rs" "P r0" "r = f r0" | "r \<in> set rs" "\<not> P r"
  using assms by (auto simp: upd_where_def split: if_splits)

lemma upd_where_id: "(\<And>r. r \<in> set rs \<Longrightarrow> \<not> P r) \<Longrightarrow> upd_where P f rs = rs"
  by (induction rs) auto

lemma find_None_all: "find P rs = None \<longleftrightarrow> (\<forall>r\<in>set rs. \<not> P r)"
  by (auto simp: find_None_iff)

lemma find_SomeD: "find P rs = Some r \<Longrightarrow> r \<in> set rs \<and> P r"
  by (induction rs) (auto split: if_splits)

text \<open>A key that an update leaves alone identifies the same row before and after.\<close>

lemma find_upd_where:
  assumes "\<And>r. Q (f r) = Q r"
  shows "find Q (upd_where P f rs) =
    (case find Q rs of None \<Rightarrow> None | Some r \<Rightarrow> Some (if P r then f r else r))"
  using assms by (induction rs) auto

lemma distinct_map_unique:
  "distinct (map k rs) \<Longrightarrow> x \<in> set rs \<Longrightarrow> y \<in> set rs \<Longrightarrow> k x = k y \<Longrightarrow> x = y"
  by (auto simp: distinct_map inj_on_def)

lemma find_distinct:
  "distinct (map k rs) \<Longrightarrow> r \<in> set rs \<Longrightarrow> find (\<lambda>x. k x = k r) rs = Some r"
  by (induction rs) (force simp: image_iff)+

lemma upd_where_comp:
  "upd_where P f (upd_where Q g rs) =
   map (\<lambda>r. let s = (if Q r then g r else r) in if P s then f s else s) rs"
  by (simp add: upd_where_def Let_def)

lemma rows_affected_upd_where:
  "(\<And>r. Q (if P r then f r else r) = Q r) \<Longrightarrow> rows_affected Q (upd_where P f rs) = rows_affected Q rs"
  by (induction rs) auto

text \<open>No two rows satisfying \<open>P\<close> share the key \<open>k\<close>: a partial unique index.\<close>

definition unique_where :: "('r \<Rightarrow> bool) \<Rightarrow> ('r \<Rightarrow> 'k) \<Rightarrow> 'r list \<Rightarrow> bool" where
  "unique_where P k rs = distinct (map k (filter P rs))"

lemma unique_where_upd:
  assumes "unique_where P k rs"
    and "\<And>r. r \<in> set rs \<Longrightarrow> Q r \<Longrightarrow> P (f r) \<Longrightarrow> P r"
    and "\<And>r. r \<in> set rs \<Longrightarrow> Q r \<Longrightarrow> P (f r) \<Longrightarrow> k (f r) = k r"
  shows "unique_where P k (upd_where Q f rs)"
proof -
  have "\<forall>r\<in>set rs. Q r \<longrightarrow> P (f r) \<longrightarrow> P r \<and> k (f r) = k r"
    using assms(2,3) by blast
  moreover have "set (map k (filter P (upd_where Q f xs))) \<subseteq> set (map k (filter P xs))"
    if "\<forall>r\<in>set xs. Q r \<longrightarrow> P (f r) \<longrightarrow> P r \<and> k (f r) = k r" for xs
    using that by (induction xs) auto
  ultimately show ?thesis
    using assms(1) unfolding unique_where_def
    by (induction rs) (auto split: if_splits)
qed

lemma unique_where_append:
  "unique_where P k rs \<Longrightarrow> (P r \<Longrightarrow> \<forall>x\<in>set rs. P x \<longrightarrow> k x \<noteq> k r) \<Longrightarrow> unique_where P k (rs @ [r])"
  by (auto simp: unique_where_def)

lemma unique_where_filter: "unique_where P k rs \<Longrightarrow> unique_where P k (filter Q rs)"
  unfolding unique_where_def by (induction rs) auto

section \<open>ORDER BY ... LIMIT 1\<close>

definition min_row :: "('r \<Rightarrow> int) \<Rightarrow> ('r \<Rightarrow> bool) \<Rightarrow> 'r list \<Rightarrow> 'r option" where
  "min_row k P rs = (case filter P rs of [] \<Rightarrow> None
    | x # xs \<Rightarrow> Some (foldl (\<lambda>a b. if k b < k a then b else a) x xs))"

definition max_row :: "('r \<Rightarrow> int) \<Rightarrow> ('r \<Rightarrow> bool) \<Rightarrow> 'r list \<Rightarrow> 'r option" where
  "max_row k P rs = min_row (\<lambda>r. - k r) P rs"

lemma foldl_min:
  "foldl (\<lambda>a b. if k b < k a then b else a) x xs \<in> insert x (set xs) \<and>
   (\<forall>y\<in>insert x (set xs). k (foldl (\<lambda>a b. if k b < (k a :: int) then b else a) x xs) \<le> k y)"
proof (induction xs arbitrary: x)
  case (Cons z xs)
  let ?m = "if k z < k x then z else x"
  from Cons.IH [of ?m] show ?case by (auto split: if_splits)
qed simp

lemma min_row_Some:
  assumes "min_row k P rs = Some r"
  shows "r \<in> set rs" "P r" "\<And>y. y \<in> set rs \<Longrightarrow> P y \<Longrightarrow> k r \<le> k y"
proof -
  from assms obtain x xs where f: "filter P rs = x # xs"
    and r: "r = foldl (\<lambda>a b. if k b < k a then b else a) x xs"
    by (auto simp: min_row_def split: list.splits)
  have s: "insert x (set xs) = {y \<in> set rs. P y}"
    using f by (metis list.simps(15) set_filter)
  from foldl_min [of k x xs] r s
  show "r \<in> set rs" "P r" "\<And>y. y \<in> set rs \<Longrightarrow> P y \<Longrightarrow> k r \<le> k y" by auto
qed

lemma min_row_None: "min_row k P rs = None \<longleftrightarrow> (\<forall>r\<in>set rs. \<not> P r)"
proof (cases "filter P rs")
  case Nil
  then show ?thesis by (auto simp: min_row_def filter_empty_conv)
next
  case (Cons x xs)
  then have "x \<in> set rs \<and> P x" by (metis filter_eq_ConsD in_set_conv_decomp)
  with Cons show ?thesis by (auto simp: min_row_def)
qed

lemma max_row_Some:
  assumes "max_row k P rs = Some r"
  shows "r \<in> set rs" "P r" "\<And>y. y \<in> set rs \<Longrightarrow> P y \<Longrightarrow> k y \<le> k r"
  using min_row_Some [OF assms [unfolded max_row_def]] by auto

lemma max_row_None: "max_row k P rs = None \<longleftrightarrow> (\<forall>r\<in>set rs. \<not> P r)"
  by (simp add: max_row_def min_row_None)

section \<open>Go's 64 bit integers\<close>

definition i64 :: "int \<Rightarrow> int" where
  "i64 x = (x + 2 ^ 63) mod 2 ^ 64 - 2 ^ 63"

lemma i64_id [simp]: "- (2 ^ 63) \<le> x \<Longrightarrow> x < 2 ^ 63 \<Longrightarrow> i64 x = x"
  by (simp add: i64_def)

lemma i64_range: "- (2 ^ 63) \<le> i64 x \<and> i64 x < 2 ^ 63"
proof -
  have "0 \<le> (x + 2 ^ 63) mod 2 ^ 64 \<and> (x + 2 ^ 63) mod 2 ^ 64 < (2::int) ^ 64" by simp
  then show ?thesis unfolding i64_def by simp
qed

text \<open>Go's integer division truncates towards zero.\<close>

definition go_quot :: "int \<Rightarrow> int \<Rightarrow> int" where
  "go_quot a b = sgn a * sgn b * (\<bar>a\<bar> div \<bar>b\<bar>)"

section \<open>Decimal text\<close>

fun nat_dec :: "nat \<Rightarrow> string" where
  "nat_dec n = (if n < 10 then [char_of (48 + n)] else nat_dec (n div 10) @ [char_of (48 + n mod 10)])"

declare nat_dec.simps [simp del]

definition int_dec :: "int \<Rightarrow> string" where
  "int_dec i = (if i < 0 then ''-'' @ nat_dec (nat (- i)) else nat_dec (nat i))"

section \<open>Time\<close>

text \<open>Instants and durations are nanoseconds, as in Go's \<open>time.Duration\<close>.\<close>

type_synonym time = int

definition second :: time where "second = 1000000000"

definition minutes :: "int \<Rightarrow> time" where "minutes n = n * (60 * second)"

definition hours :: "int \<Rightarrow> time" where "hours n = n * (3600 * second)"

lemmas time_defs = second_def minutes_def hours_def

lemma minutes_pos: "0 < n \<Longrightarrow> 0 < minutes n"
  by (simp add: time_defs)

end
