(* ===== verification/GoStrings.thy ===== *)
theory GoStrings
imports Prelude
begin

text \<open>
  The functions of Go's \<open>strings\<close> and \<open>unicode/utf8\<close> packages that the modelled code calls.
  A Go string is a byte sequence, here a \<open>char list\<close> whose elements are the bytes.

  \<open>ToLower\<close> and \<open>EqualFold\<close> are exact on ASCII and on the code points whose case mapping is an
  ASCII letter (U+212A, U+0130, U+017F); every other multi-byte rune maps to a multi-byte rune and
  is left as it is, which no comparison with an ASCII literal can observe.
\<close>

section \<open>Searching\<close>

definition has_prefix :: "string \<Rightarrow> string \<Rightarrow> bool" where
  "has_prefix p s = (take (length p) s = p)"

definition has_suffix :: "string \<Rightarrow> string \<Rightarrow> bool" where
  "has_suffix p s = has_prefix (rev p) (rev s)"

fun contains :: "string \<Rightarrow> string \<Rightarrow> bool" where
  "contains p [] = (p = [])"
| "contains p (c # s) = (has_prefix p (c # s) \<or> contains p s)"

text \<open>\<open>strings.LastIndex\<close>, with None for -1.\<close>

fun last_index :: "string \<Rightarrow> string \<Rightarrow> nat option" where
  "last_index p [] = (if p = [] then Some 0 else None)"
| "last_index p (c # s) =
    (case last_index p s of Some i \<Rightarrow> Some (Suc i)
     | None \<Rightarrow> if has_prefix p (c # s) then Some 0 else None)"

fun split_on :: "char \<Rightarrow> string \<Rightarrow> string list" where
  "split_on d [] = [[]]"
| "split_on d (c # s) =
    (if c = d then [] # split_on d s
     else (case split_on d s of [] \<Rightarrow> [[c]] | w # ws \<Rightarrow> (c # w) # ws))"

definition trim_prefix :: "string \<Rightarrow> string \<Rightarrow> string" where
  "trim_prefix p s = (if has_prefix p s then drop (length p) s else s)"

definition trim_suffix :: "string \<Rightarrow> string \<Rightarrow> string" where
  "trim_suffix p s = (if has_suffix p s then take (length s - length p) s else s)"

definition trim_right :: "char list \<Rightarrow> string \<Rightarrow> string" where
  "trim_right cs s = rev (dropWhile (\<lambda>c. c \<in> set cs) (rev s))"

definition replace_char :: "char \<Rightarrow> string \<Rightarrow> string \<Rightarrow> string" where
  "replace_char c r s = concat (map (\<lambda>x. if x = c then r else [x]) s)"

fun join_with :: "string \<Rightarrow> string list \<Rightarrow> string" where
  "join_with sep [] = []"
| "join_with sep [x] = x"
| "join_with sep (x # xs) = x @ sep @ join_with sep xs"

section \<open>White space\<close>

text \<open>The UTF-8 encodings of the runes \<open>unicode.IsSpace\<close> accepts.\<close>

definition space_runes :: "string list" where
  "space_runes =
    [[CHR 0x09], [CHR 0x0A], [CHR 0x0B], [CHR 0x0C], [CHR 0x0D], [CHR 0x20],
     [CHR 0xC2, CHR 0x85], [CHR 0xC2, CHR 0xA0], [CHR 0xE1, CHR 0x9A, CHR 0x80],
     [CHR 0xE2, CHR 0x80, CHR 0x80], [CHR 0xE2, CHR 0x80, CHR 0x81], [CHR 0xE2, CHR 0x80, CHR 0x82],
     [CHR 0xE2, CHR 0x80, CHR 0x83], [CHR 0xE2, CHR 0x80, CHR 0x84], [CHR 0xE2, CHR 0x80, CHR 0x85],
     [CHR 0xE2, CHR 0x80, CHR 0x86], [CHR 0xE2, CHR 0x80, CHR 0x87], [CHR 0xE2, CHR 0x80, CHR 0x88],
     [CHR 0xE2, CHR 0x80, CHR 0x89], [CHR 0xE2, CHR 0x80, CHR 0x8A], [CHR 0xE2, CHR 0x80, CHR 0xA8],
     [CHR 0xE2, CHR 0x80, CHR 0xA9], [CHR 0xE2, CHR 0x80, CHR 0xAF], [CHR 0xE2, CHR 0x81, CHR 0x9F],
     [CHR 0xE3, CHR 0x80, CHR 0x80]]"

text \<open>Drops the runes of \<open>ps\<close> from the front; the recursion drops the \<open>n\<close> remaining bytes of a rune.\<close>

fun strip_front :: "string list \<Rightarrow> nat \<Rightarrow> string \<Rightarrow> string" where
  "strip_front ps n [] = []"
| "strip_front ps (Suc n) (c # s) = strip_front ps n s"
| "strip_front ps 0 (c # s) =
    (case find (\<lambda>p. has_prefix p (c # s)) ps of
       None \<Rightarrow> c # s
     | Some p \<Rightarrow> strip_front ps (length p - 1) s)"

definition trim_space :: "string \<Rightarrow> string" where
  "trim_space s = rev (strip_front (map rev space_runes) 0 (rev (strip_front space_runes 0 s)))"

section \<open>Case\<close>

definition lower_char :: "char \<Rightarrow> char" where
  "lower_char c = (let n = (of_char c :: nat) in if 65 \<le> n \<and> n \<le> 90 then char_of (n + 32) else c)"

fun to_lower :: "string \<Rightarrow> string" where
  "to_lower (a # b # c # s) =
    (if [a, b, c] = [CHR 0xE2, CHR 0x84, CHR 0xAA] then CHR ''k'' # to_lower s
     else if [a, b] = [CHR 0xC4, CHR 0xB0] then CHR ''i'' # to_lower (c # s)
     else lower_char a # to_lower (b # c # s))"
| "to_lower [a, b] = (if [a, b] = [CHR 0xC4, CHR 0xB0] then ''i'' else [lower_char a, lower_char b])"
| "to_lower [a] = [lower_char a]"
| "to_lower [] = []"

fun fold_case :: "string \<Rightarrow> string" where
  "fold_case (a # b # c # s) =
    (if [a, b, c] = [CHR 0xE2, CHR 0x84, CHR 0xAA] then CHR ''k'' # fold_case s
     else if [a, b] = [CHR 0xC5, CHR 0xBF] then CHR ''s'' # fold_case (c # s)
     else lower_char a # fold_case (b # c # s))"
| "fold_case [a, b] = (if [a, b] = [CHR 0xC5, CHR 0xBF] then ''s'' else [lower_char a, lower_char b])"
| "fold_case [a] = [lower_char a]"
| "fold_case [] = []"

definition equal_fold :: "string \<Rightarrow> string \<Rightarrow> bool" where
  "equal_fold s t = (fold_case s = fold_case t)"

section \<open>UTF-8\<close>

definition byte :: "char \<Rightarrow> nat" where "byte c = of_char c"

lemma byte_less: "byte c < 256"
  by (simp add: byte_def)

text \<open>\<open>utf8.RuneStart\<close>: the byte is not a continuation byte.\<close>

definition rune_start :: "char \<Rightarrow> bool" where
  "rune_start c = (byte c div 64 \<noteq> 2)"

definition in_range :: "nat \<Rightarrow> nat \<Rightarrow> char \<Rightarrow> bool" where
  "in_range lo hi c = (lo \<le> byte c \<and> byte c \<le> hi)"

text \<open>
  The size of the well-formed rune a string starts with, following the first-byte table and the
  acceptance ranges of \<open>utf8.DecodeRuneInString\<close>; None for an invalid encoding (of width one) or
  the empty string. \<open>rune_lead\<close> gives the size and the range of the second byte.
\<close>

definition rune_lead :: "char \<Rightarrow> (nat \<times> nat \<times> nat) option" where
  "rune_lead a = (let n = byte a in
     if n < 128 then Some (1, 0, 255)
     else if n < 194 then None
     else if n < 224 then Some (2, 128, 191)
     else if n = 224 then Some (3, 160, 191)
     else if n = 237 then Some (3, 128, 159)
     else if n < 240 then Some (3, 128, 191)
     else if n = 240 then Some (4, 144, 191)
     else if n < 244 then Some (4, 128, 191)
     else if n = 244 then Some (4, 128, 143)
     else None)"

definition rune_size :: "string \<Rightarrow> nat option" where
  "rune_size s = (case s of [] \<Rightarrow> None | a # t \<Rightarrow>
    (case rune_lead a of None \<Rightarrow> None | Some (k, lo, hi) \<Rightarrow>
      if k = 1 then Some 1
      else if k - 1 \<le> length t \<and> in_range lo hi (t ! 0) \<and>
              list_all (in_range 128 191) (take (k - 2) (tl t)) then Some k
      else None))"

lemma rune_lead_bounds: "rune_lead a = Some (k, lo, hi) \<Longrightarrow> 1 \<le> k \<and> k \<le> 4"
  by (auto simp: rune_lead_def Let_def split: if_splits)

lemma rune_size_bounds: "rune_size s = Some k \<Longrightarrow> 1 \<le> k \<and> k \<le> 4 \<and> k \<le> length s"
  unfolding rune_size_def
  by (auto dest!: rune_lead_bounds split: list.splits option.splits if_splits)

text \<open>
  \<open>strings.ToValidUTF8\<close>: every maximal run of invalid bytes becomes one copy of the replacement.
  The flag says that the previous byte was invalid, \<open>n\<close> counts the bytes left of a valid rune.
\<close>

fun to_valid :: "string \<Rightarrow> bool \<Rightarrow> nat \<Rightarrow> string \<Rightarrow> string" where
  "to_valid rep bad n [] = []"
| "to_valid rep bad (Suc n) (c # s) = c # to_valid rep False n s"
| "to_valid rep bad 0 (c # s) =
    (case rune_size (c # s) of
       Some k \<Rightarrow> c # to_valid rep False (k - 1) s
     | None \<Rightarrow> (if bad then to_valid rep True 0 s else rep @ to_valid rep True 0 s))"

definition to_valid_utf8 :: "string \<Rightarrow> string \<Rightarrow> string" where
  "to_valid_utf8 s rep = to_valid rep False 0 s"

text \<open>A string is valid UTF-8 when it splits into well-formed runes.\<close>

fun valid_from :: "nat \<Rightarrow> string \<Rightarrow> bool" where
  "valid_from n [] = (n = 0)"
| "valid_from (Suc n) (c # s) = valid_from n s"
| "valid_from 0 (c # s) = (case rune_size (c # s) of None \<Rightarrow> False | Some k \<Rightarrow> valid_from (k - 1) s)"

definition valid_utf8 :: "string \<Rightarrow> bool" where
  "valid_utf8 s = valid_from 0 s"

section \<open>Lemmas\<close>

lemma has_prefix_iff: "has_prefix p s \<longleftrightarrow> (\<exists>t. s = p @ t)"
  by (metis append_eq_conv_conj append_take_drop_id has_prefix_def)

lemma has_prefix_Nil [simp]: "has_prefix [] s"
  by (simp add: has_prefix_def)

lemma has_prefix_append [simp]: "has_prefix p (p @ s)"
  by (simp add: has_prefix_def)

lemma contains_append_left: "contains p s \<Longrightarrow> contains p (t @ s)"
  by (induction t) auto

lemma contains_Nil [simp]: "contains [] s"
  by (cases s) auto

lemma contains_prefix: "has_prefix p s \<Longrightarrow> contains p s"
  by (cases s) (auto simp: has_prefix_def)

lemma contains_iff: "contains p s \<longleftrightarrow> (\<exists>u v. s = u @ p @ v)"
proof
  show "contains p s \<Longrightarrow> \<exists>u v. s = u @ p @ v"
  proof (induction s)
    case Nil
    then show ?case by simp
  next
    case (Cons c s)
    show ?case
    proof (cases "has_prefix p (c # s)")
      case True
      then obtain t where "c # s = p @ t" by (auto simp: has_prefix_iff)
      then have "c # s = [] @ p @ t" by simp
      then show ?thesis by blast
    next
      case False
      with Cons obtain u v where "s = u @ p @ v" by auto
      then have "c # s = (c # u) @ p @ v" by simp
      then show ?thesis by blast
    qed
  qed
next
  assume "\<exists>u v. s = u @ p @ v"
  then show "contains p s"
    using contains_append_left contains_prefix has_prefix_append by metis
qed

lemma contains_append_right: "contains p s \<Longrightarrow> contains p (s @ t)"
  by (auto simp: contains_iff) (metis append.assoc)

lemma split_on_not_Nil [simp]: "split_on d s \<noteq> []"
  by (induction s) (auto split: list.splits)

lemma strip_front_suffix: "\<exists>t. s = t @ strip_front ps n s"
proof (induction ps n s rule: strip_front.induct)
  case (2 ps n c s)
  then obtain t where "s = t @ strip_front ps n s" by auto
  then show ?case by (auto intro: exI [of _ "c # t"])
next
  case (3 ps c s)
  then show ?case
    by (auto split: option.splits intro: exI [of _ "[]"])
       (metis append_Cons)
qed simp

lemma strip_front_length: "length (strip_front ps n s) \<le> length s"
  by (metis strip_front_suffix le_add2 length_append)

lemma trim_space_length: "length (trim_space s) \<le> length s"
  unfolding trim_space_def
  by (metis strip_front_length length_rev le_trans)

lemma lower_char_idem: "lower_char (lower_char c) = lower_char c"
  by (auto simp: lower_char_def Let_def)

end
