(* ===== verification/Protocol.thy ===== *)
theory Protocol
imports GoStrings
begin

text \<open>
  \<open>internal/protocol/protocol.go\<close>: the data exchanged between the console and the agents, the
  capability lists an agent reports, the signed path of a command, and the byte-level compatibility
  patch for one agent build.
\<close>

section \<open>Data\<close>

record command_spec =
  cs_script :: string
  cs_interpreter :: string
  cs_args :: "string list"
  cs_env :: "string list"
  cs_work_dir :: string
  cs_timeout :: string
  cs_stdin :: string
  cs_tty :: bool
  cs_ignore_error :: bool

record component_spec =
  sp_name :: string
  sp_deploy_mode :: string
  sp_install_path :: string
  sp_backup_dir :: string
  sp_exec_path :: string
  sp_exec_args :: "string list"
  sp_exec_env :: "string list"
  sp_work_dir :: string
  sp_exec_timeout :: string
  sp_script_url :: string
  sp_ignore_error :: bool
  sp_pre_install :: "string list list"
  sp_post_install :: "string list list"
  sp_post_install_script :: string
  sp_service_name :: string
  sp_service_mgr :: string
  sp_stop_cmd :: "string list list"
  sp_start_cmd :: "string list list"
  sp_restart_cmd :: "string list list"
  sp_version_cmd :: "string list list"
  sp_version_regex :: string
  sp_health_cmd :: "string list list"
  sp_consul_maint :: bool

record artifact =
  ar_id :: int
  ar_version :: string
  ar_arch :: string
  ar_os_family :: string
  ar_url :: string
  ar_md5 :: string
  ar_sha256 :: string
  ar_size :: int
  ar_inner_path :: string

record command_payload =
  pl_component :: component_spec
  pl_artifact :: artifact
  pl_to_version :: string
  pl_rollback_to :: string
  pl_command :: "command_spec option"

record command =
  co_id :: string
  co_type :: string
  co_payload :: command_payload
  co_timestamp :: int
  co_nonce :: string
  co_signature :: string
  co_signature_v2 :: string
  co_expire_at :: time

record report_request =
  rq_status :: string
  rq_stage :: string
  rq_from_version :: string
  rq_to_version :: string
  rq_exit_code :: int
  rq_log :: string

text \<open>The zero values Go gives an unset struct field.\<close>

definition empty_command_spec :: command_spec where
  "empty_command_spec = \<lparr>cs_script = [], cs_interpreter = [], cs_args = [], cs_env = [],
     cs_work_dir = [], cs_timeout = [], cs_stdin = [], cs_tty = False, cs_ignore_error = False\<rparr>"

definition empty_component_spec :: component_spec where
  "empty_component_spec = \<lparr>sp_name = [], sp_deploy_mode = [], sp_install_path = [],
     sp_backup_dir = [], sp_exec_path = [], sp_exec_args = [], sp_exec_env = [], sp_work_dir = [],
     sp_exec_timeout = [], sp_script_url = [], sp_ignore_error = False, sp_pre_install = [],
     sp_post_install = [], sp_post_install_script = [], sp_service_name = [], sp_service_mgr = [],
     sp_stop_cmd = [], sp_start_cmd = [], sp_restart_cmd = [], sp_version_cmd = [],
     sp_version_regex = [], sp_health_cmd = [], sp_consul_maint = False\<rparr>"

definition empty_artifact :: artifact where
  "empty_artifact = \<lparr>ar_id = 0, ar_version = [], ar_arch = [], ar_os_family = [], ar_url = [],
     ar_md5 = [], ar_sha256 = [], ar_size = 0, ar_inner_path = []\<rparr>"

section \<open>Constants\<close>

abbreviation "SignatureModeID \<equiv> ''id''"
abbreviation "SignatureModeSignedPath \<equiv> ''signed_path''"
abbreviation "SignatureModeV2 \<equiv> ''v2''"

abbreviation "AgentCapabilityRunCommand \<equiv> ''run_command''"
abbreviation "AgentCapabilityOptionalCommand \<equiv> ''optional_command''"
abbreviation "AgentCapabilityUninstallDetect \<equiv> ''uninstall_detect''"

abbreviation "CmdUpgradeComponent \<equiv> ''upgrade_component''"
abbreviation "CmdSelfUpdate \<equiv> ''self_update''"
abbreviation "CmdRunCommand \<equiv> ''run_command''"

abbreviation "DeployExec \<equiv> ''exec''"
abbreviation "DeployReplaceExec \<equiv> ''replace_exec''"
abbreviation "DeployScript \<equiv> ''script''"

abbreviation "CmdPending \<equiv> ''pending''"
abbreviation "CmdDispatched \<equiv> ''dispatched''"
abbreviation "CmdAccepted \<equiv> ''accepted''"
abbreviation "CmdRunning \<equiv> ''running''"
abbreviation "CmdSuccess \<equiv> ''success''"
abbreviation "CmdFailed \<equiv> ''failed''"
abbreviation "CmdRolledBack \<equiv> ''rolled_back''"
abbreviation "CmdTimeout \<equiv> ''timeout''"
abbreviation "CmdExpired \<equiv> ''expired''"
abbreviation "CmdCanceled \<equiv> ''canceled''"

abbreviation "StageRunCommand \<equiv> ''run_command''"
abbreviation "StageFailed \<equiv> ''failed''"
abbreviation "StageDone \<equiv> ''done''"

section \<open>Capability lists\<close>

definition SupportedSignatureModes :: "string list" where
  "SupportedSignatureModes = [SignatureModeID, SignatureModeSignedPath, SignatureModeV2]"

definition NormalizeSignatureModes :: "string list \<Rightarrow> string list" where
  "NormalizeSignatureModes modes =
    (let known = map (\<lambda>raw. to_lower (trim_space raw)) modes
     in filter (\<lambda>mode. mode \<in> set known) SupportedSignatureModes)"

definition SupportedCapabilities :: "string list" where
  "SupportedCapabilities =
    [AgentCapabilityRunCommand, AgentCapabilityOptionalCommand, AgentCapabilityUninstallDetect]"

definition NormalizeCapabilities :: "string list \<Rightarrow> string list" where
  "NormalizeCapabilities caps =
    (let known = map (\<lambda>raw. to_lower (trim_space raw)) caps
     in filter (\<lambda>c. c \<in> set known) SupportedCapabilities)"

definition HasCapability :: "string \<Rightarrow> string \<Rightarrow> bool" where
  "HasCapability caps want = list_ex (\<lambda>raw. equal_fold (trim_space raw) want) (split_on CHR '','' caps)"

definition PreferredLegacySignatureMode :: "string list \<Rightarrow> string" where
  "PreferredLegacySignatureMode modes =
    (if SignatureModeSignedPath \<in> set (NormalizeSignatureModes modes)
     then SignatureModeSignedPath else SignatureModeID)"

fun IsUninstallAction :: "string list \<Rightarrow> bool" where
  "IsUninstallAction [] = False"
| "IsUninstallAction (arg # args) =
    (let a = to_lower (trim_space arg)
     in if a = [] \<or> has_prefix ''-'' a then IsUninstallAction args
        else a = ''uninstall'' \<or> a = ''remove'' \<or> a = ''purge'')"

section \<open>Signed path and compatibility bytes\<close>

definition unix_seconds :: "time \<Rightarrow> int" where
  "unix_seconds t = t div second"

definition SignedPath :: "command \<Rightarrow> string" where
  "SignedPath c = co_id c @ ''|'' @ co_type c @ ''|'' @ int_dec (unix_seconds (co_expire_at c))"

definition legacyCommandFragment :: string where
  "legacyCommandFragment =
    '','' @ [CHR 0x22] @ ''command'' @ [CHR 0x22] @ '':{'' @ [CHR 0x22] @ ''script'' @ [CHR 0x22] @
    '':'' @ [CHR 0x22, CHR 0x22] @ ''}}''"

definition CanonicalPayloadWithLegacyCommand :: "string \<Rightarrow> string" where
  "CanonicalPayloadWithLegacyCommand canonical =
    (if length canonical \<le> 2 \<or> last canonical \<noteq> CHR ''}'' then canonical
     else if contains ([CHR 0x22] @ ''command'' @ [CHR 0x22]) canonical then canonical
     else butlast canonical @ legacyCommandFragment)"

section \<open>Lemmas\<close>

lemma NormalizeSignatureModes_mem:
  "m \<in> set (NormalizeSignatureModes modes) \<longleftrightarrow>
   m \<in> set SupportedSignatureModes \<and> (\<exists>raw\<in>set modes. to_lower (trim_space raw) = m)"
  by (auto simp: NormalizeSignatureModes_def Let_def)

lemma supported_modes_normal:
  "m \<in> set SupportedSignatureModes \<Longrightarrow> to_lower (trim_space m) = m"
  by (auto simp: SupportedSignatureModes_def trim_space_def space_runes_def has_prefix_def
      lower_char_def Let_def)

lemma NormalizeSignatureModes_idem:
  "NormalizeSignatureModes (NormalizeSignatureModes modes) = NormalizeSignatureModes modes"
  unfolding NormalizeSignatureModes_def Let_def
proof (rule filter_cong)
  fix m assume m: "m \<in> set SupportedSignatureModes"
  show "m \<in> set (map (\<lambda>raw. to_lower (trim_space raw))
            (filter (\<lambda>mode. mode \<in> set (map (\<lambda>raw. to_lower (trim_space raw)) modes)) SupportedSignatureModes))
        \<longleftrightarrow> m \<in> set (map (\<lambda>raw. to_lower (trim_space raw)) modes)"
    using m supported_modes_normal by (auto simp: image_iff)
qed simp

lemma NormalizeSignatureModes_distinct: "distinct (NormalizeSignatureModes modes)"
  by (simp add: NormalizeSignatureModes_def SupportedSignatureModes_def Let_def)

lemma byte_digit: "d < 10 \<Longrightarrow> byte (char_of (48 + d)) = 48 + d"
  by (simp add: byte_def)

lemma nat_dec_digits: "c \<in> set (nat_dec n) \<Longrightarrow> 48 \<le> byte c \<and> byte c \<le> 57"
proof (induction n rule: nat_dec.induct)
  case (1 n)
  have last_ok: "48 \<le> byte (char_of (48 + n mod 10)) \<and> byte (char_of (48 + n mod 10)) \<le> 57"
    by (subst (1 2) byte_digit) auto
  show ?case
  proof (cases "n < 10")
    case True
    with "1.prems" have "c = char_of (48 + n mod 10)" by (simp add: nat_dec.simps [of n])
    with last_ok show ?thesis by simp
  next
    case False
    have "nat_dec n = nat_dec (n div 10) @ [char_of (48 + n mod 10)]"
      using False by (subst nat_dec.simps) simp
    with "1.prems" have "c \<in> set (nat_dec (n div 10)) \<or> c = char_of (48 + n mod 10)"
      by auto
    with False "1.IH" last_ok show ?thesis by auto
  qed
qed

text \<open>Reading digits back: the printed number determines the number.\<close>

definition digit_value :: "char \<Rightarrow> nat" where "digit_value c = byte c - 48"

definition dec_value :: "string \<Rightarrow> nat" where
  "dec_value s = foldl (\<lambda>a c. 10 * a + digit_value c) 0 s"

lemma digit_value_digit: "d < 10 \<Longrightarrow> digit_value (char_of (48 + d)) = d"
  by (simp add: digit_value_def byte_def)

lemma dec_value_nat_dec: "dec_value (nat_dec n) = n"
proof (induction n rule: nat_dec.induct)
  case (1 n)
  show ?case
  proof (cases "n < 10")
    case True
    then show ?thesis by (simp add: nat_dec.simps [of n] dec_value_def digit_value_digit)
  next
    case False
    then have "dec_value (nat_dec n) = 10 * dec_value (nat_dec (n div 10)) + n mod 10"
      by (subst nat_dec.simps) (simp add: dec_value_def digit_value_digit)
    also have "\<dots> = n" using False "1.IH" by simp
    finally show ?thesis .
  qed
qed

lemma nat_dec_inject [simp]: "nat_dec m = nat_dec n \<longleftrightarrow> m = n"
  by (metis dec_value_nat_dec)

lemma nat_dec_no_minus: "CHR ''-'' \<notin> set (nat_dec n)"
  using nat_dec_digits [of "CHR ''-''" n] by (auto simp: byte_def)

lemma nat_dec_not_Nil: "nat_dec n \<noteq> []"
  by (subst nat_dec.simps) auto

lemma int_dec_inject [simp]: "int_dec i = int_dec j \<longleftrightarrow> i = j"
proof -
  have neg: "''-'' @ nat_dec a \<noteq> nat_dec b" for a b
    using nat_dec_no_minus [of b] by (metis append_Cons list.set_intros(1))
  show ?thesis
    using neg by (auto simp: int_dec_def) (metis neg append_Cons append_Nil)+
qed

lemma append_sep_inject:
  assumes "a @ d # s = a' @ d # s'" and "d \<notin> set a" and "d \<notin> set a'"
  shows "a = a' \<and> s = s'"
  using assms
proof (induction a arbitrary: a')
  case Nil
  then show ?case by (cases a') auto
next
  case (Cons x a)
  then show ?case by (cases a') auto
qed

text \<open>The signed path determines id, type and the second of expiry.\<close>

lemma SignedPath_inject:
  assumes "SignedPath c = SignedPath c'"
    and "CHR ''|'' \<notin> set (co_id c)" "CHR ''|'' \<notin> set (co_id c')"
    and "CHR ''|'' \<notin> set (co_type c)" "CHR ''|'' \<notin> set (co_type c')"
  shows "co_id c = co_id c' \<and> co_type c = co_type c' \<and>
    unix_seconds (co_expire_at c) = unix_seconds (co_expire_at c')"
proof -
  have "co_id c @ CHR ''|'' # (co_type c @ CHR ''|'' # int_dec (unix_seconds (co_expire_at c))) =
        co_id c' @ CHR ''|'' # (co_type c' @ CHR ''|'' # int_dec (unix_seconds (co_expire_at c')))"
    using assms(1) by (simp add: SignedPath_def)
  from append_sep_inject [OF this assms(2,3)]
  have 1: "co_id c = co_id c'"
    and 2: "co_type c @ CHR ''|'' # int_dec (unix_seconds (co_expire_at c)) =
            co_type c' @ CHR ''|'' # int_dec (unix_seconds (co_expire_at c'))" by auto
  from append_sep_inject [OF 2 assms(4,5)] 1 show ?thesis by simp
qed

end
