(* ===== verification/Sanitize.thy ===== *)
theory Sanitize
imports GoStrings
begin

text \<open>
  \<open>internal/logic/agentgw/sanitize.go\<close>: what an agent's text goes through before it is written to a
  column, and \<open>internal/pkg/runner/runner.go\<close>'s bounded output buffer. The lemmas bound the length
  of every stored text, show that no NUL byte survives and that truncation keeps text valid UTF-8.
\<close>

definition maxStageMessageBytes :: nat where "maxStageMessageBytes = 4 * 1024"
definition maxReportLogBytes :: nat where "maxReportLogBytes = 128 * 1024"
definition maxStageBytes :: nat where "maxStageBytes = 32"
definition maxVersionBytes :: nat where "maxVersionBytes = 64"
definition maxReasonBytes :: nat where "maxReasonBytes = 300"

text \<open>U+FFFD, the replacement character.\<close>

definition replacement_char :: string where
  "replacement_char = [CHR 0xEF, CHR 0xBF, CHR 0xBD]"

text \<open>
  A control rune is a single byte of valid UTF-8, so skipping control runes is skipping bytes.
\<close>

definition is_control :: "char \<Rightarrow> bool" where
  "is_control c = ((byte c < 32 \<and> byte c \<noteq> 10 \<and> byte c \<noteq> 13 \<and> byte c \<noteq> 9) \<or> byte c = 127)"

definition sanitizeLog :: "string \<Rightarrow> string" where
  "sanitizeLog s =
    (if s = [] then []
     else let v = to_valid_utf8 s replacement_char;
              w = filter (\<lambda>c. byte c \<noteq> 0) v
          in if list_ex is_control w then filter (\<lambda>c. \<not> is_control c) w else w)"

text \<open>The cut moves left until it stands on a rune start.\<close>

fun cut_at :: "string \<Rightarrow> nat \<Rightarrow> nat" where
  "cut_at s 0 = 0"
| "cut_at s (Suc n) = (if Suc n < length s \<and> \<not> rune_start (s ! Suc n) then cut_at s n else Suc n)"

definition truncateUTF8 :: "string \<Rightarrow> nat \<Rightarrow> string" where
  "truncateUTF8 s maxBytes =
    (if maxBytes = 0 \<or> length s \<le> maxBytes then s else take (cut_at s maxBytes) s)"

definition sanitizeAndTruncate :: "string \<Rightarrow> nat \<Rightarrow> string" where
  "sanitizeAndTruncate s maxBytes =
    (let t = sanitizeLog s
     in if maxBytes = 0 \<or> length t \<le> maxBytes then t else truncateUTF8 t maxBytes)"

definition tailUTF8 :: "string \<Rightarrow> nat \<Rightarrow> string" where
  "tailUTF8 s maxBytes =
    (if maxBytes = 0 \<or> length s \<le> maxBytes then s
     else dropWhile (\<lambda>c. \<not> rune_start c) (drop (length s - maxBytes) s))"

definition truncated_note :: string where
  "truncated_note = [CHR 0xE2, CHR 0x80, CHR 0xA6, CHR 0xEF, CHR 0xBC, CHR 0x88, CHR 0xE6, CHR 0x97, CHR 0xA5, CHR 0xE5, CHR 0xBF, CHR 0x97, CHR 0xE8, CHR 0xBF, CHR 0x87, CHR 0xE9, CHR 0x95, CHR 0xBF, CHR 0xEF, CHR 0xBC, CHR 0x8C, CHR 0xE5, CHR 0xB7, CHR 0xB2, CHR 0xE6, CHR 0x88, CHR 0xAA, CHR 0xE6, CHR 0x96, CHR 0xAD, CHR 0xEF, CHR 0xBC, CHR 0x89, CHR 0xE2, CHR 0x80, CHR 0xA6, CHR 0x0A]"

definition appendLog :: "string \<Rightarrow> string \<Rightarrow> nat \<Rightarrow> string" where
  "appendLog current line maxBytes =
    (if line = [] then current
     else let combined = current @ line
          in if maxBytes = 0 \<or> length combined \<le> maxBytes then combined
             else let tl = tailUTF8 combined maxBytes
                  in if length truncated_note \<ge> length tl then tl else truncated_note @ tl)"

definition normalizeVersion :: "string \<Rightarrow> string" where
  "normalizeVersion s =
    (let t = trim_space (sanitizeLog s)
     in if length t \<le> maxVersionBytes then t else truncateUTF8 t maxVersionBytes)"

definition normalizeStage :: "string \<Rightarrow> string" where
  "normalizeStage s =
    (let t = trim_space (sanitizeLog s)
     in if length t \<le> maxStageBytes then t else truncateUTF8 t maxStageBytes)"

text \<open>\<open>truncateReason\<close> of \<open>gateway.go\<close>.\<close>

definition no_reason_text :: string where "no_reason_text = [CHR 0xE6, CHR 0x9C, CHR 0xAA, CHR 0xE6, CHR 0x8F, CHR 0x90, CHR 0xE4, CHR 0xBE, CHR 0x9B, CHR 0xE5, CHR 0x8E, CHR 0x9F, CHR 0xE5, CHR 0x9B, CHR 0xA0]"

definition truncateReason :: "string \<Rightarrow> string" where
  "truncateReason s =
    (let t = trim_space (replace_char (CHR 0x0A) '' '' s);
         u = sanitizeAndTruncate t maxReasonBytes
     in if u = [] then no_reason_text else u)"

section \<open>The bounded output buffer of the command runner\<close>

record capped_buffer =
  cb_buf :: string
  cb_max :: int
  cb_truncated :: bool

definition capped_write :: "capped_buffer \<Rightarrow> string \<Rightarrow> capped_buffer \<times> nat" where
  "capped_write c p =
    (if cb_max c \<le> 0 then (c\<lparr>cb_buf := cb_buf c @ p\<rparr>, length p)
     else let remain = cb_max c - int (length (cb_buf c))
          in if remain > 0 then
               (if int (length p) \<le> remain then (c\<lparr>cb_buf := cb_buf c @ p\<rparr>, length p)
                else (c\<lparr>cb_buf := cb_buf c @ take (nat remain) p, cb_truncated := True\<rparr>, length p))
             else (c\<lparr>cb_truncated := True\<rparr>, length p))"

definition capped_string :: "capped_buffer \<Rightarrow> string" where
  "capped_string c =
    (if cb_truncated c
     then cb_buf c @ [CHR 0x0A, CHR 0x5B, CHR 0xE8, CHR 0xBE, CHR 0x93, CHR 0xE5, CHR 0x87, CHR 0xBA, CHR 0xE8, CHR 0xB6, CHR 0x85, CHR 0xE8, CHR 0xBF, CHR 0x87, CHR 0x20] @ int_dec (cb_max c) @ [CHR 0x20, CHR 0xE5, CHR 0xAD, CHR 0x97, CHR 0xE8, CHR 0x8A, CHR 0x82, CHR 0xEF, CHR 0xBC, CHR 0x8C, CHR 0xE5, CHR 0xB7, CHR 0xB2, CHR 0xE6, CHR 0x88, CHR 0xAA, CHR 0xE6, CHR 0x96, CHR 0xAD, CHR 0x5D]
     else cb_buf c)"

section \<open>Lemmas\<close>

lemma cut_at_le: "cut_at s n \<le> n"
  by (induction s n rule: cut_at.induct) auto

lemma cut_at_boundary:
  "n < length s \<Longrightarrow> cut_at s n = 0 \<or> rune_start (s ! cut_at s n)"
  by (induction s n rule: cut_at.induct) auto

lemma truncateUTF8_length: "0 < n \<Longrightarrow> length (truncateUTF8 s n) \<le> n"
  using cut_at_le [of s n] by (auto simp: truncateUTF8_def)

lemma truncateUTF8_prefix: "\<exists>t. s = truncateUTF8 s n @ t"
  by (auto simp: truncateUTF8_def intro: exI [of _ "drop (cut_at s n) s"])

lemma sanitizeAndTruncate_length: "0 < n \<Longrightarrow> length (sanitizeAndTruncate s n) \<le> n"
  by (auto simp: sanitizeAndTruncate_def Let_def intro: truncateUTF8_length)

lemma normalizeStage_length: "length (normalizeStage s) \<le> maxStageBytes"
  by (auto simp: normalizeStage_def Let_def maxStageBytes_def intro: truncateUTF8_length)

lemma normalizeVersion_length: "length (normalizeVersion s) \<le> maxVersionBytes"
  by (auto simp: normalizeVersion_def Let_def maxVersionBytes_def intro: truncateUTF8_length)

lemma sanitizeLog_bytes: "c \<in> set (sanitizeLog s) \<Longrightarrow> byte c \<noteq> 0 \<and> \<not> is_control c"
  unfolding sanitizeLog_def Let_def by (auto simp: list_ex_iff split: if_splits)

lemma truncateUTF8_set: "set (truncateUTF8 s n) \<subseteq> set s"
  by (auto simp: truncateUTF8_def dest: in_set_takeD)

lemma sanitizeAndTruncate_bytes:
  "c \<in> set (sanitizeAndTruncate s n) \<Longrightarrow> byte c \<noteq> 0 \<and> \<not> is_control c"
  using truncateUTF8_set [of "sanitizeLog s" n] sanitizeLog_bytes [of c s]
  by (auto simp: sanitizeAndTruncate_def Let_def split: if_splits)

lemma tailUTF8_length: "0 < n \<Longrightarrow> length (tailUTF8 s n) \<le> n"
  by (auto simp: tailUTF8_def intro: le_trans [OF length_dropWhile_le])

lemma tailUTF8_suffix: "\<exists>t. s = t @ tailUTF8 s n"
  unfolding tailUTF8_def
  by (auto intro: exI [of _ "[]"])
     (metis append.assoc append_take_drop_id takeWhile_dropWhile_id)

lemma length_truncated_note: "length truncated_note = 37"
  by (simp add: truncated_note_def)

lemma appendLog_length: "0 < n \<Longrightarrow> length cur \<le> n \<Longrightarrow> length (appendLog cur line n) \<le> n + 37"
  using tailUTF8_length [of n "cur @ line"]
  by (auto simp: appendLog_def Let_def length_truncated_note)

subsection \<open>Truncation at a rune boundary keeps text valid\<close>

text \<open>A rune: a byte sequence that is exactly one well-formed encoding.\<close>

definition is_rune :: "string \<Rightarrow> bool" where
  "is_rune r = (rune_size r = Some (length r))"

lemma rune_size_iff:
  "rune_size s = Some k \<longleftrightarrow>
   (\<exists>a t lo hi. s = a # t \<and> rune_lead a = Some (k, lo, hi) \<and>
     (k = 1 \<or> 2 \<le> k \<and> k \<le> length s \<and> in_range lo hi (s ! 1) \<and>
              list_all (in_range 128 191) (take (k - 2) (drop 2 s))))"
proof (cases s)
  case (Cons a t)
  show ?thesis
  proof (cases "rune_lead a")
    case (Some q)
    obtain j lo hi where q: "q = (j, lo, hi)" by (cases q)
    with Some have "1 \<le> j" using rune_lead_bounds by blast
    then show ?thesis using Cons Some q
      by (auto simp: rune_size_def drop_Suc numeral_2_eq_2)
  qed (simp add: Cons rune_size_def)
qed (simp add: rune_size_def)

lemma rune_size_append: "rune_size s = Some k \<Longrightarrow> rune_size (s @ t) = Some k"
  unfolding rune_size_iff by (fastforce simp: nth_append)

lemma rune_size_take_k: "rune_size s = Some k \<Longrightarrow> rune_size (take k s) = Some k"
  unfolding rune_size_iff
proof (elim exE conjE)
  fix a t lo hi
  assume s: "s = a # t" and l: "rune_lead a = Some (k, lo, hi)"
    and c: "k = 1 \<or> 2 \<le> k \<and> k \<le> length s \<and> in_range lo hi (s ! 1) \<and>
              list_all (in_range 128 191) (take (k - 2) (drop 2 s))"
  then have k: "take k s = a # take (k - 1) t" using rune_lead_bounds [OF l] by (cases k) auto
  show "\<exists>a t lo hi. take k s = a # t \<and> rune_lead a = Some (k, lo, hi) \<and>
     (k = 1 \<or> 2 \<le> k \<and> k \<le> length (take k s) \<and> in_range lo hi (take k s ! 1) \<and>
              list_all (in_range 128 191) (take (k - 2) (drop 2 (take k s))))"
    using k l c s by (auto simp: drop_take min_def)
qed

lemma is_rune_take: "rune_size s = Some k \<Longrightarrow> is_rune (take k s)"
  using rune_size_bounds [of s k] rune_size_take_k [of s k] by (simp add: is_rune_def min_def)

lemma is_rune_not_Nil: "is_rune r \<Longrightarrow> r \<noteq> []"
  using rune_size_bounds [of r "length r"] by (auto simp: is_rune_def)

lemma rune_lead_range:
  "rune_lead a = Some (k, lo, hi) \<Longrightarrow> k \<noteq> 1 \<Longrightarrow> 128 \<le> byte a \<and> 128 \<le> lo \<and> hi \<le> 191"
  by (auto simp: rune_lead_def Let_def split: if_splits)

lemma rune_lead_ascii: "byte a < 128 \<Longrightarrow> rune_lead a = Some (1, 0, 255)"
  by (simp add: rune_lead_def)

lemma is_rune_ascii: "is_rune (c # r) \<Longrightarrow> byte c < 128 \<Longrightarrow> r = []"
  by (simp add: is_rune_def rune_size_def rune_lead_ascii)

lemma is_rune_tail:
  assumes "is_rune (c # r)" and "d \<in> set r"
  shows "128 \<le> byte c \<and> \<not> rune_start d \<and> 128 \<le> byte d"
proof -
  from assms obtain lo hi e r' where lead: "rune_lead c = Some (length (c # r), lo, hi)"
    and r: "r = e # r'" and ok: "in_range lo hi e" "list_all (in_range 128 191) r'"
    by (cases r) (auto simp: is_rune_def rune_size_def split: option.splits if_splits)
  from rune_lead_range [OF lead] r ok assms(2) have "128 \<le> byte c \<and> in_range 128 191 d"
    by (auto simp: in_range_def list_all_iff)
  then show ?thesis by (auto simp: in_range_def rune_start_def)
qed

lemma valid_from_drop: "valid_from n s \<longleftrightarrow> n \<le> length s \<and> valid_from 0 (drop n s)"
  by (induction n s rule: valid_from.induct) auto

lemma valid_utf8_Nil [simp]: "valid_utf8 []"
  by (simp add: valid_utf8_def)

lemma valid_utf8_rune: "is_rune r \<Longrightarrow> valid_utf8 (r @ s) \<longleftrightarrow> valid_utf8 s"
proof -
  assume r: "is_rune r"
  then obtain c r' where c: "r = c # r'" by (cases r) (auto dest: is_rune_not_Nil)
  have "rune_size (r @ s) = Some (length r)"
    using r by (simp add: is_rune_def rune_size_append)
  then show ?thesis
    using valid_from_drop [of "length r'" "r' @ s"] by (simp add: valid_utf8_def c)
qed

lemma valid_utf8_split:
  assumes "valid_utf8 s" "s \<noteq> []"
  obtains r t where "s = r @ t" "is_rune r" "valid_utf8 t" "length t < length s"
proof -
  from assms obtain c s' where s: "s = c # s'" by (cases s) auto
  from assms(1) obtain k where k: "rune_size s = Some k"
    by (auto simp: valid_utf8_def s split: option.splits)
  have "is_rune (take k s)" using k by (rule is_rune_take)
  moreover have "valid_utf8 (drop k s)"
    using assms(1) valid_utf8_rune [OF calculation, of "drop k s"] by simp
  moreover have "length (drop k s) < length s" using rune_size_bounds [OF k] by auto
  ultimately show thesis using that [of "take k s" "drop k s"] by simp
qed

lemma valid_utf8_induct [consumes 1, case_names Nil rune]:
  assumes "valid_utf8 s" and "P []"
    and "\<And>r t. is_rune r \<Longrightarrow> valid_utf8 t \<Longrightarrow> P t \<Longrightarrow> P (r @ t)"
  shows "P s"
  using assms(1)
proof (induction s rule: length_induct)
  case (1 s)
  show ?case
  proof (cases "s = []")
    case True
    then show ?thesis using assms(2) by simp
  next
    case False
    with "1.prems" obtain r t where "s = r @ t" "is_rune r" "valid_utf8 t" "length t < length s"
      by (rule valid_utf8_split)
    then show ?thesis using "1.IH" assms(3) by simp
  qed
qed

lemma valid_utf8_take_boundary:
  "valid_utf8 s \<Longrightarrow> i = 0 \<or> i \<ge> length s \<or> rune_start (s ! i) \<Longrightarrow> valid_utf8 (take i s)"
proof (induction s arbitrary: i rule: valid_utf8_induct)
  case (rune r t)
  then obtain c r' where c: "r = c # r'" by (cases r) (auto dest: is_rune_not_Nil)
  consider "i = 0" | "0 < i" "i < length r" | "length r \<le> i" by linarith
  then show ?case
  proof cases
    case 2
    then obtain j where j: "i = Suc j" "j < length r'" using c by (cases i) auto
    then have "\<not> rune_start (r' ! j)" using rune.hyps(1) is_rune_tail c by fastforce
    then show ?thesis using rune.prems 2 j c by (auto simp: nth_append)
  next
    case 3
    then have "valid_utf8 (take (i - length r) t)"
      using rune.prems by (intro rune.IH) (auto simp: nth_append)
    then show ?thesis using 3 rune.hyps(1) by (simp add: valid_utf8_rune)
  qed simp
qed simp

theorem truncateUTF8_valid: "valid_utf8 s \<Longrightarrow> valid_utf8 (truncateUTF8 s n)"
  using cut_at_boundary [of n s] cut_at_le [of s n]
  by (auto simp: truncateUTF8_def intro: valid_utf8_take_boundary)

lemma valid_utf8_filter:
  assumes "\<And>c. \<not> P c \<Longrightarrow> byte c < 128"
  shows "valid_utf8 s \<Longrightarrow> valid_utf8 (filter P s)"
proof (induction s rule: valid_utf8_induct)
  case (rune r t)
  then obtain c r' where c: "r = c # r'" by (cases r) (auto dest: is_rune_not_Nil)
  have "filter P r = r \<or> filter P r = []"
  proof (cases "byte c < 128")
    case True
    then have "r' = []" using rune.hyps(1) is_rune_ascii c by blast
    then show ?thesis using c by simp
  next
    case False
    moreover have "\<forall>d\<in>set r'. 128 \<le> byte d" using rune.hyps(1) is_rune_tail c by blast
    ultimately have "\<forall>d\<in>set r. P d" using assms c leD by fastforce
    then show ?thesis by simp
  qed
  then show ?case using rune by (auto simp: valid_utf8_rune)
qed simp

lemma to_valid_skip:
  "n \<le> length s \<Longrightarrow> to_valid rep bad n s = take n s @ to_valid rep (if n = 0 then bad else False) 0 (drop n s)"
  by (induction rep bad n s rule: to_valid.induct) auto

lemma to_valid_valid:
  assumes rep: "\<And>t. valid_utf8 (rep @ t) = valid_utf8 t"
  shows "valid_utf8 (to_valid rep bad 0 s)"
proof (induction s arbitrary: bad rule: length_induct)
  case (1 s)
  show ?case
  proof (cases s)
    case (Cons c s')
    show ?thesis
    proof (cases "rune_size s")
      case None
      then show ?thesis using "1.IH" Cons rep by auto
    next
      case (Some k)
      have b: "1 \<le> k" "k \<le> length s" using rune_size_bounds [OF Some] by auto
      have "to_valid rep bad 0 s = c # to_valid rep False (k - 1) s'"
        using Some Cons by simp
      also have "\<dots> = take k s @ to_valid rep False 0 (drop k s)"
        using b Cons to_valid_skip [of "k - 1" s' rep False] by (cases k) auto
      finally show ?thesis
        using "1.IH" b is_rune_take [OF Some] by (simp add: valid_utf8_rune)
    qed
  qed simp
qed

lemma sanitizeLog_valid: "valid_utf8 (sanitizeLog s)"
proof -
  have "is_rune replacement_char"
    by (simp add: is_rune_def replacement_char_def rune_size_def rune_lead_def Let_def byte_def in_range_def)
  then have v: "valid_utf8 (to_valid_utf8 s replacement_char)"
    unfolding to_valid_utf8_def by (intro to_valid_valid) (rule valid_utf8_rune)
  have "valid_utf8 (filter (\<lambda>c. byte c \<noteq> 0) (to_valid_utf8 s replacement_char))"
    using v by (rule valid_utf8_filter [rotated]) simp
  moreover have "valid_utf8 (filter (\<lambda>c. \<not> is_control c) (filter (\<lambda>c. byte c \<noteq> 0) (to_valid_utf8 s replacement_char)))"
    using calculation by (rule valid_utf8_filter [rotated]) (auto simp: is_control_def)
  ultimately show ?thesis by (simp add: sanitizeLog_def Let_def)
qed

lemma sanitizeAndTruncate_valid: "valid_utf8 (sanitizeAndTruncate s n)"
  by (auto simp: sanitizeAndTruncate_def Let_def sanitizeLog_valid intro: truncateUTF8_valid)

subsection \<open>The output buffer\<close>

lemma capped_write_len: "snd (capped_write c p) = length p"
  by (simp add: capped_write_def Let_def)

lemma capped_write_bound:
  "0 < cb_max c \<Longrightarrow> int (length (cb_buf c)) \<le> cb_max c \<Longrightarrow>
   int (length (cb_buf (fst (capped_write c p)))) \<le> cb_max c"
  by (auto simp: capped_write_def Let_def)

end
