(* ===== verification/Schema.thy ===== *)
theory Schema
imports Protocol Sanitize
begin

text \<open>
  The rows of the tables the task engine and the agent gateway share, as the PostgreSQL dialect has
  them, and the integrity constraints of the migrations. A table is the list of its rows in id
  order; a nullable column is an option, a text column (declared \<open>DEFAULT ''\<close>) is a string, a
  JSONB column is the value it decodes to. Statements succeed: a failing statement rolls its
  transaction back and is reported to the caller, which leaves the database as it was.
\<close>

section \<open>Users and scopes\<close>

record user =
  us_username :: string
  us_is_admin :: bool
  us_tenant :: int
  us_roles :: "string list"

abbreviation "RoleAdmin \<equiv> ''admin''"
abbreviation "RoleSuperAdmin \<equiv> ''superadmin''"

definition HasRole :: "user \<Rightarrow> string \<Rightarrow> bool" where
  "HasRole u role = list_ex (\<lambda>r. r = role) (us_roles u)"

definition IsSuperAdmin :: "user \<Rightarrow> bool" where
  "IsSuperAdmin u = HasRole u RoleSuperAdmin"

definition CanAccessTenant :: "user \<Rightarrow> int \<Rightarrow> bool" where
  "CanAccessTenant u tenantID = (if IsSuperAdmin u then True else us_tenant u = tenantID)"

record scope =
  sc_tenant :: int
  sc_cross :: bool

definition scope_new :: "int \<Rightarrow> bool \<Rightarrow> scope" where
  "scope_new tenantID crossTenant =
    \<lparr>sc_tenant = (if tenantID \<le> 0 then 1 else tenantID), sc_cross = crossTenant\<rparr>"

text \<open>The condition \<open>Scope.Where\<close> adds to a statement, on the row's tenant.\<close>

definition scope_where :: "scope \<Rightarrow> int \<Rightarrow> bool" where
  "scope_where sc rowTenant = (if sc_cross sc then True else rowTenant = sc_tenant sc)"

definition scope_allows :: "scope \<Rightarrow> int \<Rightarrow> bool" where
  "scope_allows sc recordTenantID = (if sc_cross sc then True else recordTenantID = sc_tenant sc)"

definition TenantForWrite :: "scope \<Rightarrow> int" where
  "TenantForWrite sc = sc_tenant sc"

definition normalizeTenant :: "int \<Rightarrow> int" where
  "normalizeTenant n = (if n \<le> 0 then 1 else n)"

definition ForUser :: "user option \<Rightarrow> scope" where
  "ForUser mu = (case mu of
     None \<Rightarrow> \<lparr>sc_tenant = -1, sc_cross = False\<rparr>
   | Some u \<Rightarrow> if IsSuperAdmin u then \<lparr>sc_tenant = normalizeTenant (us_tenant u), sc_cross = True\<rparr>
              else \<lparr>sc_tenant = normalizeTenant (us_tenant u), sc_cross = False\<rparr>)"

definition scope_system :: scope where
  "scope_system = \<lparr>sc_tenant = 1, sc_cross = True\<rparr>"

section \<open>Rows\<close>

record selector =
  sl_ip_expr :: string
  sl_exclude_ip_expr :: string
  sl_filters :: "(string \<times> string list) list"

record strategy =
  st_mode :: string
  st_canary_count :: int
  st_batch_size :: int
  st_concurrency :: int
  st_auto_promote :: bool
  st_health_wait :: string
  st_failure_threshold :: string
  st_auto_rollback :: bool

record task_row =
  tk_id :: int
  tk_kind :: string
  tk_name :: string
  tk_component_id :: "int option"
  tk_version :: string
  tk_command :: command_spec
  tk_selector :: selector
  tk_strategy :: strategy
  tk_status :: string
  tk_created_by :: string
  tk_updated_by :: string
  tk_updated_at :: time
  tk_tenant :: int

record batch_row =
  tb_task_id :: int
  tb_index :: int
  tb_status :: string
  tb_total :: int
  tb_started_at :: "time option"
  tb_finished_at :: "time option"

record task_host_row =
  th_id :: int
  th_task_id :: int
  th_host_id :: int
  th_batch_index :: int
  th_status :: string
  th_stage :: string
  th_to_version :: string
  th_attempts :: int
  th_exit_code :: int
  th_log :: string
  th_started_at :: "time option"
  th_finished_at :: "time option"

text \<open>The JSON an ended command carries: the agent's report, or what the server wrote itself.\<close>

datatype result_json =
    ReportResult report_request
  | ServerResult string string "string option" bool

fun result_to_version :: "result_json \<Rightarrow> string" where
  "result_to_version (ReportResult rq) = rq_to_version rq"
| "result_to_version (ServerResult st sg v au) = (case v of None \<Rightarrow> [] | Some x \<Rightarrow> x)"

text \<open>\<open>exit_code\<close> is marked \<open>omitempty\<close>: a zero is absent from the JSON.\<close>

fun result_exit_code :: "result_json \<Rightarrow> int option" where
  "result_exit_code (ReportResult rq) = (if rq_exit_code rq = 0 then None else Some (rq_exit_code rq))"
| "result_exit_code (ServerResult st sg v au) = None"

record command_row =
  cm_id :: int
  cm_task_id :: "int option"
  cm_task_host_id :: "int option"
  cm_host_id :: int
  cm_agent_id :: string
  cm_type :: string
  cm_payload :: command_payload
  cm_status :: string
  cm_attempts :: int
  cm_lease_expire_at :: "time option"
  cm_expire_at :: "time option"
  cm_result :: "result_json option"
  cm_log :: string
  cm_created_at :: time
  cm_dispatched_at :: "time option"
  cm_started_at :: "time option"
  cm_finished_at :: "time option"
  cm_last_stage :: string
  cm_last_stage_at :: "time option"

record host_row =
  ho_id :: int
  ho_ip :: string
  ho_hostname :: string
  ho_exit_ip :: string
  ho_app_code :: string
  ho_biz_group :: string
  ho_os_family :: string
  ho_os_type :: string
  ho_account :: string
  ho_department :: string
  ho_vendor :: string
  ho_arch :: string
  ho_kernel :: string
  ho_agent_id :: string
  ho_agent_server_url :: string
  ho_agent_status :: string
  ho_maintenance_until :: "time option"
  ho_maintenance_reason :: string
  ho_last_stage :: string
  ho_last_seen :: "time option"
  ho_build_hash :: string
  ho_build_variant :: string
  ho_tenant :: int
  ho_os_version :: string
  ho_host_type :: string
  ho_tunnel_ip :: string
  ho_server_url_override :: string
  ho_server_url_auto :: bool
  ho_default_server_url :: string
  ho_custom_fields :: "(string \<times> string) list"
  ho_agent_version :: string
  ho_build_version :: string
  ho_supervisor :: string
  ho_source :: string
  ho_check_ok :: "bool option"
  ho_check_source :: string
  ho_check_at :: "time option"
  ho_check_latency :: int
  ho_check_detail :: string
  ho_check_requested_at :: "time option"

record agent_row =
  ag_agent_id :: string
  ag_token_hash :: string
  ag_secret :: string
  ag_signature_modes :: string
  ag_capabilities :: string
  ag_build_version :: string
  ag_host_id :: "int option"
  ag_ip :: string
  ag_arch :: string
  ag_os :: string
  ag_agent_version :: string
  ag_supervisor :: string
  ag_status :: string
  ag_build_hash :: string
  ag_build_variant :: string
  ag_last_heartbeat_at :: "time option"

text \<open>A token that lets a machine register: \<open>one_time\<close> or \<open>automation\<close>.\<close>

record enroll_token_row =
  et_id :: int
  et_hash :: string
  et_prefix :: string
  et_type :: string
  et_tenant :: int
  et_name :: string
  et_note :: string
  et_created_by :: string
  et_created_at :: time
  et_expires_at :: "time option"
  et_used_at :: "time option"
  et_used_by_ip :: string
  et_max_uses :: int
  et_used_count :: int
  et_last_used_at :: "time option"
  et_last_used_ip :: string
  et_enabled :: bool
  et_revoked_at :: "time option"
  et_revoked_by :: string
  et_cidrs :: "string list"

record component_row =
  cp_id :: int
  cp_tenant :: int
  cp_name :: string
  cp_display_name :: string
  cp_deploy_mode :: string
  cp_binary_name :: string
  cp_install_path :: string
  cp_backup_dir :: string
  cp_exec_path :: string
  cp_exec_args :: "string list"
  cp_exec_as_user :: string
  cp_exec_timeout :: string
  cp_script_url :: string
  cp_exec_env :: "string list"
  cp_work_dir :: string
  cp_ignore_error :: bool
  cp_pre_install :: "string list list"
  cp_post_install :: "string list list"
  cp_post_install_script :: string
  cp_service_name :: string
  cp_service_mgr :: string
  cp_stop_cmd :: "string list list"
  cp_start_cmd :: "string list list"
  cp_restart_cmd :: "string list list"
  cp_version_cmd :: "string list list"
  cp_version_regex :: string
  cp_health_cmd :: "string list list"
  cp_consul_maint :: bool
  cp_os_match :: string
  cp_arch_match :: string
  cp_enabled :: bool

record artifact_row =
  af_id :: int
  af_tenant :: int
  af_component_id :: int
  af_version :: string
  af_os_family :: string
  af_arch :: string
  af_filename :: string
  af_size :: int
  af_md5 :: string
  af_sha256 :: string
  af_storage :: string
  af_path :: string
  af_inner_path :: string
  af_notes :: string
  af_status :: string

datatype delete_failure =
    DelNotFound
  | DelStatus string
  | DelActive nat
  | DelOwner string bool
  | DelError string

record delete_job_row =
  dj_id :: int
  dj_tenant :: int
  dj_cross :: bool
  dj_created_by :: string
  dj_is_admin :: bool
  dj_roles :: "string list"
  dj_ip :: string
  dj_ids :: "int list"
  dj_total :: nat
  dj_processed :: nat
  dj_deleted :: nat
  dj_failed_count :: nat
  dj_failed :: "(int \<times> delete_failure) list"
  dj_status :: string
  dj_cancel_requested :: bool
  dj_created_at :: time
  dj_finished_at :: "time option"

datatype host_failure = HostMissing | HostBusy

record host_job_row =
  hj_id :: int
  hj_tenant :: int
  hj_cross :: bool
  hj_created_by :: string
  hj_actor_id :: string
  hj_ip :: string
  hj_ids :: "int list"
  hj_total :: nat
  hj_processed :: nat
  hj_deleted :: nat
  hj_failed_count :: nat
  hj_failed :: "(int \<times> string \<times> host_failure) list"
  hj_status :: string
  hj_cancel_requested :: bool
  hj_created_at :: time
  hj_finished_at :: "time option"

record db =
  d_tasks :: "task_row list"
  d_batches :: "batch_row list"
  d_thosts :: "task_host_row list"
  d_cmds :: "command_row list"
  d_hosts :: "host_row list"
  d_agents :: "agent_row list"
  d_comps :: "component_row list"
  d_arts :: "artifact_row list"
  d_jobs :: "delete_job_row list"
  d_next_task :: int
  d_next_thost :: int
  d_next_cmd :: int
  d_next_job :: int
  d_next_comp :: int
  d_next_art :: int
  d_tokens :: "enroll_token_row list"
  d_next_token :: int
  d_next_host :: int
  d_hjobs :: "host_job_row list"
  d_next_hjob :: int

section \<open>Status sets\<close>

definition active_statuses :: "string list" where
  "active_statuses = [CmdPending, CmdDispatched, CmdAccepted, CmdRunning]"

text \<open>\<open>isActiveStatus\<close> of \<open>agentupdate/enqueue.go\<close>, \<open>activeCommandStatusList\<close> of the gateway.\<close>

definition is_active :: "string \<Rightarrow> bool" where
  "is_active s = (s \<in> set active_statuses)"

definition in_flight :: "string \<Rightarrow> bool" where
  "in_flight s = (s \<in> set [CmdDispatched, CmdAccepted, CmdRunning])"

text \<open>\<open>isFinalStatus\<close> of the gateway.\<close>

definition isFinalStatus :: "string \<Rightarrow> bool" where
  "isFinalStatus s = (s \<in> set [CmdSuccess, CmdFailed, CmdRolledBack, CmdTimeout])"

text \<open>The guard of every command update: the states it must not overwrite.\<close>

definition cmd_ended :: "string \<Rightarrow> bool" where
  "cmd_ended s = (s \<in> set [CmdSuccess, CmdFailed, CmdRolledBack, CmdTimeout, CmdExpired, CmdCanceled])"

text \<open>The ten statuses of the protocol; every command has one of them.\<close>

definition cmd_status_known :: "string \<Rightarrow> bool" where
  "cmd_status_known s = (is_active s \<or> cmd_ended s)"

definition thost_ended :: "string \<Rightarrow> bool" where
  "thost_ended s = (s \<in> set [''success'', ''failed'', ''rolled_back'', ''timeout'', ''canceled''])"

definition th_open :: "task_host_row \<Rightarrow> bool" where
  "th_open h = (\<not> thost_ended (th_status h))"

definition task_status_known :: "string \<Rightarrow> bool" where
  "task_status_known s =
    (s \<in> set [''draft'', ''running'', ''paused'', ''success'', ''failed'', ''rolled_back'', ''canceled''])"

lemmas status_defs = active_statuses_def is_active_def in_flight_def isFinalStatus_def
  cmd_ended_def cmd_status_known_def thost_ended_def task_status_known_def

lemma ended_not_active: "cmd_ended s \<Longrightarrow> \<not> is_active s"
  by (auto simp: status_defs)

lemma in_flight_active: "in_flight s \<Longrightarrow> is_active s"
  by (auto simp: status_defs)

lemma final_ended: "isFinalStatus s \<Longrightarrow> cmd_ended s"
  by (auto simp: status_defs)

lemma is_active_code [simp]:
  "is_active ''pending''" "is_active ''dispatched''" "is_active ''accepted''" "is_active ''running''"
  "\<not> is_active ''success''" "\<not> is_active ''failed''" "\<not> is_active ''rolled_back''"
  "\<not> is_active ''timeout''" "\<not> is_active ''expired''" "\<not> is_active ''canceled''"
  by (simp_all add: status_defs)

text \<open>The time stamp before a log line.\<close>

definition bracket :: "string \<Rightarrow> string" where "bracket stamp = ''['' @ stamp @ ''] ''"

section \<open>Lookups\<close>

definition find_task :: "int \<Rightarrow> db \<Rightarrow> task_row option" where
  "find_task i d = find (\<lambda>t. tk_id t = i) (d_tasks d)"

definition find_task_scoped :: "scope \<Rightarrow> int \<Rightarrow> db \<Rightarrow> task_row option" where
  "find_task_scoped sc i d = find (\<lambda>t. tk_id t = i \<and> scope_where sc (tk_tenant t)) (d_tasks d)"

definition find_thost :: "int \<Rightarrow> db \<Rightarrow> task_host_row option" where
  "find_thost i d = find (\<lambda>h. th_id h = i) (d_thosts d)"

definition find_cmd :: "int \<Rightarrow> db \<Rightarrow> command_row option" where
  "find_cmd i d = find (\<lambda>c. cm_id c = i) (d_cmds d)"

definition find_agent :: "string \<Rightarrow> db \<Rightarrow> agent_row option" where
  "find_agent a d = find (\<lambda>r. ag_agent_id r = a) (d_agents d)"

definition find_host :: "int \<Rightarrow> db \<Rightarrow> host_row option" where
  "find_host i d = find (\<lambda>h. ho_id h = i) (d_hosts d)"

text \<open>\<open>Repo.Get\<close> of the component package.\<close>

definition comp_get :: "scope \<Rightarrow> int \<Rightarrow> db \<Rightarrow> component_row option" where
  "comp_get sc i d = find (\<lambda>c. cp_id c = i \<and> scope_where sc (cp_tenant c)) (d_comps d)"

section \<open>Integrity\<close>

text \<open>
  The primary keys, the unique constraints and the two partial unique indexes on \<open>commands\<close>
  (\<open>uq_commands_task_host_active\<close>, \<open>uq_commands_agent_active_self_update\<close>); and, beside the
  keys of \<open>commands\<close>, that every command has one of the statuses of the protocol.
\<close>

definition cmd_for_host :: "command_row \<Rightarrow> bool" where
  "cmd_for_host c = (cm_task_host_id c \<noteq> None \<and> is_active (cm_status c))"

definition cmd_self_update :: "command_row \<Rightarrow> bool" where
  "cmd_self_update c = (cm_type c = CmdSelfUpdate \<and> is_active (cm_status c))"

definition uq_task_host_active :: "db \<Rightarrow> bool" where
  "uq_task_host_active d = unique_where cmd_for_host cm_task_host_id (d_cmds d)"

definition uq_self_update_active :: "db \<Rightarrow> bool" where
  "uq_self_update_active d = unique_where cmd_self_update cm_agent_id (d_cmds d)"

definition cmd_keys :: "db \<Rightarrow> bool" where
  "cmd_keys d = (distinct (map cm_id (d_cmds d)) \<and> list_all (\<lambda>c. cm_id c < d_next_cmd d) (d_cmds d) \<and>
     list_all (\<lambda>c. cmd_status_known (cm_status c)) (d_cmds d))"

definition task_keys :: "db \<Rightarrow> bool" where
  "task_keys d = (distinct (map tk_id (d_tasks d)) \<and> list_all (\<lambda>t. tk_id t < d_next_task d) (d_tasks d))"

definition thost_keys :: "db \<Rightarrow> bool" where
  "thost_keys d = (distinct (map th_id (d_thosts d)) \<and> list_all (\<lambda>h. th_id h < d_next_thost d) (d_thosts d))"

definition batch_keys :: "db \<Rightarrow> bool" where
  "batch_keys d = distinct (map (\<lambda>b. (tb_task_id b, tb_index b)) (d_batches d))"

definition integrity :: "db \<Rightarrow> bool" where
  "integrity d = (cmd_keys d \<and> task_keys d \<and> thost_keys d \<and> batch_keys d \<and>
     uq_task_host_active d \<and> uq_self_update_active d)"

lemmas integrity_defs = integrity_def cmd_keys_def task_keys_def thost_keys_def batch_keys_def
  uq_task_host_active_def uq_self_update_active_def

text \<open>Writing one table leaves the constraints of the others alone.\<close>

lemma keys_frame [simp]:
  "cmd_keys (d\<lparr>d_tasks := x_tasks\<rparr>) = cmd_keys d"
  "cmd_keys (d\<lparr>d_batches := x_batches\<rparr>) = cmd_keys d"
  "cmd_keys (d\<lparr>d_thosts := x_thosts\<rparr>) = cmd_keys d"
  "cmd_keys (d\<lparr>d_hosts := x_hosts\<rparr>) = cmd_keys d"
  "cmd_keys (d\<lparr>d_agents := x_agents\<rparr>) = cmd_keys d"
  "cmd_keys (d\<lparr>d_comps := x_comps\<rparr>) = cmd_keys d"
  "cmd_keys (d\<lparr>d_arts := x_arts\<rparr>) = cmd_keys d"
  "cmd_keys (d\<lparr>d_jobs := x_jobs\<rparr>) = cmd_keys d"
  "task_keys (d\<lparr>d_batches := x_batches\<rparr>) = task_keys d"
  "task_keys (d\<lparr>d_thosts := x_thosts\<rparr>) = task_keys d"
  "task_keys (d\<lparr>d_cmds := x_cmds\<rparr>) = task_keys d"
  "task_keys (d\<lparr>d_hosts := x_hosts\<rparr>) = task_keys d"
  "task_keys (d\<lparr>d_agents := x_agents\<rparr>) = task_keys d"
  "task_keys (d\<lparr>d_comps := x_comps\<rparr>) = task_keys d"
  "task_keys (d\<lparr>d_arts := x_arts\<rparr>) = task_keys d"
  "task_keys (d\<lparr>d_jobs := x_jobs\<rparr>) = task_keys d"
  "thost_keys (d\<lparr>d_tasks := x_tasks\<rparr>) = thost_keys d"
  "thost_keys (d\<lparr>d_batches := x_batches\<rparr>) = thost_keys d"
  "thost_keys (d\<lparr>d_cmds := x_cmds\<rparr>) = thost_keys d"
  "thost_keys (d\<lparr>d_hosts := x_hosts\<rparr>) = thost_keys d"
  "thost_keys (d\<lparr>d_agents := x_agents\<rparr>) = thost_keys d"
  "thost_keys (d\<lparr>d_comps := x_comps\<rparr>) = thost_keys d"
  "thost_keys (d\<lparr>d_arts := x_arts\<rparr>) = thost_keys d"
  "thost_keys (d\<lparr>d_jobs := x_jobs\<rparr>) = thost_keys d"
  "batch_keys (d\<lparr>d_tasks := x_tasks\<rparr>) = batch_keys d"
  "batch_keys (d\<lparr>d_thosts := x_thosts\<rparr>) = batch_keys d"
  "batch_keys (d\<lparr>d_cmds := x_cmds\<rparr>) = batch_keys d"
  "batch_keys (d\<lparr>d_hosts := x_hosts\<rparr>) = batch_keys d"
  "batch_keys (d\<lparr>d_agents := x_agents\<rparr>) = batch_keys d"
  "batch_keys (d\<lparr>d_comps := x_comps\<rparr>) = batch_keys d"
  "batch_keys (d\<lparr>d_arts := x_arts\<rparr>) = batch_keys d"
  "batch_keys (d\<lparr>d_jobs := x_jobs\<rparr>) = batch_keys d"
  "uq_task_host_active (d\<lparr>d_tasks := x_tasks\<rparr>) = uq_task_host_active d"
  "uq_task_host_active (d\<lparr>d_batches := x_batches\<rparr>) = uq_task_host_active d"
  "uq_task_host_active (d\<lparr>d_thosts := x_thosts\<rparr>) = uq_task_host_active d"
  "uq_task_host_active (d\<lparr>d_hosts := x_hosts\<rparr>) = uq_task_host_active d"
  "uq_task_host_active (d\<lparr>d_agents := x_agents\<rparr>) = uq_task_host_active d"
  "uq_task_host_active (d\<lparr>d_comps := x_comps\<rparr>) = uq_task_host_active d"
  "uq_task_host_active (d\<lparr>d_arts := x_arts\<rparr>) = uq_task_host_active d"
  "uq_task_host_active (d\<lparr>d_jobs := x_jobs\<rparr>) = uq_task_host_active d"
  "uq_self_update_active (d\<lparr>d_tasks := x_tasks\<rparr>) = uq_self_update_active d"
  "uq_self_update_active (d\<lparr>d_batches := x_batches\<rparr>) = uq_self_update_active d"
  "uq_self_update_active (d\<lparr>d_thosts := x_thosts\<rparr>) = uq_self_update_active d"
  "uq_self_update_active (d\<lparr>d_hosts := x_hosts\<rparr>) = uq_self_update_active d"
  "uq_self_update_active (d\<lparr>d_agents := x_agents\<rparr>) = uq_self_update_active d"
  "uq_self_update_active (d\<lparr>d_comps := x_comps\<rparr>) = uq_self_update_active d"
  "uq_self_update_active (d\<lparr>d_arts := x_arts\<rparr>) = uq_self_update_active d"
  "uq_self_update_active (d\<lparr>d_jobs := x_jobs\<rparr>) = uq_self_update_active d"
  by (simp_all add: integrity_defs)

lemma thosts_upd_keys:
  assumes "thost_keys d"
    and "d_thosts d' = upd_where P f (d_thosts d)" "d_next_thost d' = d_next_thost d"
    and "\<And>h. th_id (f h) = th_id h"
  shows "thost_keys d'"
  using assms unfolding thost_keys_def
  by (auto simp: map_upd_where list_all_iff set_upd_where)

lemma tasks_upd_keys:
  assumes "task_keys d"
    and "d_tasks d' = upd_where P f (d_tasks d)" "d_next_task d' = d_next_task d"
    and "\<And>h. tk_id (f h) = tk_id h"
  shows "task_keys d'"
  using assms unfolding task_keys_def
  by (auto simp: map_upd_where list_all_iff set_upd_where)

lemma batches_upd_keys:
  assumes "batch_keys d" and "d_batches d' = upd_where P f (d_batches d)"
    and "\<And>b. tb_task_id (f b) = tb_task_id b" "\<And>b. tb_index (f b) = tb_index b"
  shows "batch_keys d'"
proof -
  have "map (\<lambda>b. (tb_task_id b, tb_index b)) (d_batches d') = map (\<lambda>b. (tb_task_id b, tb_index b)) (d_batches d)"
    unfolding assms(2) by (rule map_upd_where) (simp add: assms(3,4))
  then show ?thesis using assms(1) by (simp add: batch_keys_def)
qed

end
