(* ===== verification/Access.thy ===== *)
theory Access
imports Schema
begin

text \<open>
  Who may see and operate a task: the functions of \<open>internal/logic/task/task.go\<close> that combine the
  role of the user, the policy of the user's team, the global switch \<open>agent.task_owner_only\<close> and
  component grants. The injected callbacks are fields of \<open>policy\<close>: \<open>None\<close> is a callback that was not
  set, a callback's inner \<open>None\<close> is a failed lookup.
\<close>

datatype task_error =
    TaskNotFound
  | TaskNotAccessible
  | OwnedBy string bool
  | CommandAdminOnly
  | ComponentNotFound
  | DeployDenied
  | HostGroupsFailed
  | HostsDenied "string list" bool
  | NotStartable string
  | StatusChanged
  | NotPaused
  | NotRunning
  | AlreadyTerminal string
  | TooManyHosts
  | ScopeStatementInvalid
  | NotStartedYet
  | BadKind
  | MissingComponent
  | ExecDisabled
  | EmptyScript
  | ScriptTooLong
  | StdinTooLong
  | BadIPExpr
  | AllSkipped nat
  | NoHosts
  | ModeForbidden
  | NothingSelected
  | TooManyTasks
  | NotDeletable string
  | HasActiveCommands nat
  | JobExists int
  | JobNotFound
  | JobFinished

record policy =
  pc_owner_only :: "bool option"
  pc_owner_policy :: "(string \<Rightarrow> string option) option"
  pc_share :: "(string \<Rightarrow> string \<Rightarrow> bool option) option"
  pc_team_mate :: "(string \<Rightarrow> string \<Rightarrow> bool option) option"
  pc_authorize :: "(user \<Rightarrow> int \<Rightarrow> string \<Rightarrow> bool) option"
  pc_host_groups :: "(user \<Rightarrow> string \<Rightarrow> string list option) option"
  pc_allow_exec :: bool
  pc_offline_after :: "string option"
  pc_external_url :: "string option"

section \<open>Owner policy\<close>

definition isPrivilegedActor :: "user option \<Rightarrow> bool" where
  "isPrivilegedActor actor = (case actor of None \<Rightarrow> True
     | Some u \<Rightarrow> us_is_admin u \<or> IsSuperAdmin u \<or> HasRole u RoleAdmin)"

definition CanViewTaskDetail :: "policy \<Rightarrow> user option \<Rightarrow> string \<Rightarrow> bool option" where
  "CanViewTaskDetail pc actor createdBy =
    (if isPrivilegedActor actor then Some True
     else case actor of None \<Rightarrow> Some True | Some u \<Rightarrow>
       (let cb = trim_space createdBy
        in if cb = [] \<or> cb = us_username u then Some True
           else case pc_team_mate pc of None \<Rightarrow> Some False | Some f \<Rightarrow> f (us_username u) cb))"

definition ownerModeFor :: "policy \<Rightarrow> string \<Rightarrow> string" where
  "ownerModeFor pc username =
    (let globalMode = (if pc_owner_only pc = Some True then ''on'' else ''inherit'')
     in case pc_owner_policy pc of None \<Rightarrow> globalMode | Some f \<Rightarrow>
         (case f username of None \<Rightarrow> globalMode | Some p \<Rightarrow>
           (if p = ''on'' \<or> p = ''off'' then p else globalMode)))"

text \<open>What \<open>checkTaskOwner\<close> decides once the creator is known.\<close>

definition share_ok :: "policy \<Rightarrow> string \<Rightarrow> string \<Rightarrow> bool" where
  "share_ok pc a creator = (case pc_share pc of None \<Rightarrow> False | Some f \<Rightarrow> f a creator = Some True)"

definition owner_verdict :: "policy \<Rightarrow> user \<Rightarrow> string \<Rightarrow> string \<Rightarrow> task_error option" where
  "owner_verdict pc u mode createdBy =
    (if createdBy = [] \<or> createdBy = us_username u then None
     else if mode = ''off'' \<and> share_ok pc (us_username u) createdBy then None
     else Some (OwnedBy createdBy (mode = ''off'')))"

definition checkTaskOwner :: "policy \<Rightarrow> user option \<Rightarrow> scope \<Rightarrow> int \<Rightarrow> db \<Rightarrow> task_error option" where
  "checkTaskOwner pc actor sc taskID d = (case actor of None \<Rightarrow> None | Some u \<Rightarrow>
     (if us_is_admin u \<or> IsSuperAdmin u \<or> HasRole u RoleAdmin then None
      else let mode = ownerModeFor pc (us_username u)
           in if mode = ''inherit'' then None
              else case find_task_scoped sc taskID d of
                     None \<Rightarrow> Some TaskNotAccessible
                   | Some t \<Rightarrow> owner_verdict pc u mode (tk_created_by t)))"

text \<open>The checker a batch operation builds once: \<open>None\<close> is unrestricted, the cache is passed along.\<close>

type_synonym share_cache = "string \<Rightarrow> bool option"

definition ownerChecker :: "policy \<Rightarrow> user option \<Rightarrow> (share_cache \<Rightarrow> string \<Rightarrow> task_error option \<times> share_cache) option" where
  "ownerChecker pc actor = (case actor of None \<Rightarrow> None | Some u \<Rightarrow>
     (if us_is_admin u \<or> IsSuperAdmin u \<or> HasRole u RoleAdmin then None
      else let mode = ownerModeFor pc (us_username u)
           in if mode = ''inherit'' then None
              else Some (\<lambda>cache createdBy.
                (if createdBy = [] \<or> createdBy = us_username u then (None, cache)
                 else if mode = ''off'' then
                   (let (ok, cache') =
                      (case cache createdBy of Some ok \<Rightarrow> (ok, cache)
                       | None \<Rightarrow> (case pc_share pc of None \<Rightarrow> (False, cache)
                           | Some f \<Rightarrow> (let ok = (case f (us_username u) createdBy of None \<Rightarrow> False | Some b \<Rightarrow> b)
                                       in (ok, cache(createdBy \<mapsto> ok)))))
                    in if ok then (None, cache') else (Some (OwnedBy createdBy True), cache'))
                 else (Some (OwnedBy createdBy False), cache)))))"

section \<open>Component grants\<close>

definition checkDeploy :: "policy \<Rightarrow> user option \<Rightarrow> int \<Rightarrow> string \<Rightarrow> task_error option" where
  "checkDeploy pc actor cid name = (case (pc_authorize pc, actor) of
     (Some f, Some u) \<Rightarrow> if f u cid name then None else Some DeployDenied
   | _ \<Rightarrow> None)"

definition checkTaskDeploy :: "policy \<Rightarrow> user option \<Rightarrow> scope \<Rightarrow> int \<Rightarrow> db \<Rightarrow> task_error option" where
  "checkTaskDeploy pc actor sc taskID d =
    (if isPrivilegedActor actor then None
     else case find_task_scoped sc taskID d of
        None \<Rightarrow> Some TaskNotAccessible
      | Some t \<Rightarrow> (case tk_component_id t of
           None \<Rightarrow> Some CommandAdminOnly
         | Some cid \<Rightarrow> (case comp_get sc cid d of
              None \<Rightarrow> Some ComponentNotFound
            | Some c \<Rightarrow> checkDeploy pc actor (cp_id c) (cp_name c))))"

text \<open>The target of a task, as \<open>matchHosts\<close> returns it.\<close>

record target_host =
  hr_id :: int
  hr_ip :: string
  hr_exit_ip :: string
  hr_app_code :: string
  hr_biz_group :: string
  hr_os_family :: string

definition checkHostGroups :: "policy \<Rightarrow> user option \<Rightarrow> string \<Rightarrow> target_host list \<Rightarrow> task_error option" where
  "checkHostGroups pc actor componentName hosts =
    (case (pc_host_groups pc, actor) of
       (Some f, Some u) \<Rightarrow>
         (if componentName = [] then None
          else case f u componentName of
             None \<Rightarrow> Some HostGroupsFailed
           | Some allowed \<Rightarrow>
              (if allowed = [] \<or> ''*'' \<in> set allowed then None
               else
                (let denied = map hr_ip (filter (\<lambda>h. \<not> (hr_app_code h \<in> set allowed \<or>
                                 hr_biz_group h \<in> set allowed)) hosts)
                 in if denied = [] then None
                    else Some (HostsDenied (take 10 denied) (length denied > 10)))))
     | _ \<Rightarrow> None)"

section \<open>Lemmas\<close>

lemma owner_verdict_self [simp]: "owner_verdict pc u mode (us_username u) = None"
  by (simp add: owner_verdict_def)

lemma owner_verdict_orphan [simp]: "owner_verdict pc u mode [] = None"
  by (simp add: owner_verdict_def)

lemma ownerModeFor_range: "ownerModeFor pc n \<in> {''on'', ''off'', ''inherit''}"
  by (auto simp: ownerModeFor_def Let_def split: option.split)

text \<open>What a task operation may rely on, whatever the configured policy.\<close>

locale owner_guard =
  fixes guard :: "user option \<Rightarrow> scope \<Rightarrow> int \<Rightarrow> db \<Rightarrow> task_error option"
  assumes internal: "guard None sc i d = None"
    and admin: "isPrivilegedActor actor \<Longrightarrow> guard actor sc i d = None"
    and creator: "find_task_scoped sc i d = Some t \<Longrightarrow> tk_created_by t = us_username u \<Longrightarrow>
        guard (Some u) sc i d = None"
    and reads_task: "find_task_scoped sc i d' = find_task_scoped sc i d \<Longrightarrow> guard actor sc i d' = guard actor sc i d"
begin

text \<open>The guard depends on the actor only through the task that is found.\<close>

lemma denied_needs_other:
  assumes "guard (Some u) sc i d = Some e"
  shows "\<not> isPrivilegedActor (Some u) \<and>
    (\<forall>t. find_task_scoped sc i d = Some t \<longrightarrow> tk_created_by t \<noteq> us_username u)"
  using assms admin [of "Some u"] creator by force

end

interpretation task_owner: owner_guard "checkTaskOwner pc" for pc
proof
  show "isPrivilegedActor actor \<Longrightarrow> checkTaskOwner pc actor sc i d = None" for actor sc i d
    by (auto simp: isPrivilegedActor_def checkTaskOwner_def split: option.splits)
  show "checkTaskOwner pc (Some u) sc i d = None"
    if "find_task_scoped sc i d = Some t" "tk_created_by t = us_username u" for sc i d t u
    using that by (simp add: checkTaskOwner_def Let_def)
  show "checkTaskOwner pc actor sc i d' = checkTaskOwner pc actor sc i d"
    if "find_task_scoped sc i d' = find_task_scoped sc i d" for actor sc i d' d
    unfolding checkTaskOwner_def that ..
qed (simp add: checkTaskOwner_def)

definition cache_ok :: "policy \<Rightarrow> string \<Rightarrow> share_cache \<Rightarrow> bool" where
  "cache_ok pc a cache = (\<forall>c b. cache c = Some b \<longrightarrow> b = share_ok pc a c)"

lemma ownerChecker_step:
  assumes "ownerChecker pc (Some u) = Some chk" "cache_ok pc (us_username u) cache"
  shows "fst (chk cache c) = owner_verdict pc u (ownerModeFor pc (us_username u)) c \<and>
    cache_ok pc (us_username u) (snd (chk cache c))"
proof (cases "c = [] \<or> c = us_username u")
  case True
  with assms show ?thesis
    by (auto simp: ownerChecker_def Let_def owner_verdict_def split: if_splits)
next
  case False
  let ?mode = "ownerModeFor pc (us_username u)"
  have chk: "chk = (\<lambda>cache createdBy.
      (if createdBy = [] \<or> createdBy = us_username u then (None, cache)
       else if ?mode = ''off'' then
         (let (ok, cache') =
            (case cache createdBy of Some ok \<Rightarrow> (ok, cache)
             | None \<Rightarrow> (case pc_share pc of None \<Rightarrow> (False, cache)
                 | Some f \<Rightarrow> (let ok = (case f (us_username u) createdBy of None \<Rightarrow> False | Some b \<Rightarrow> b)
                             in (ok, cache(createdBy \<mapsto> ok)))))
          in if ok then (None, cache') else (Some (OwnedBy createdBy True), cache'))
       else (Some (OwnedBy createdBy False), cache)))"
    using assms(1) by (simp add: ownerChecker_def Let_def split: if_splits)
  show ?thesis
  proof (cases "?mode = ''off''")
    case off: True
    show ?thesis
    proof (cases "cache c")
      case None
      with False off assms(2) show ?thesis
        by (cases "pc_share pc") (auto simp: chk owner_verdict_def cache_ok_def share_ok_def Let_def split: option.splits)
    next
      case (Some b)
      then have "b = share_ok pc (us_username u) c" using assms(2) by (simp add: cache_ok_def)
      with Some False off assms(2) show ?thesis by (simp add: chk owner_verdict_def)
    qed
  next
    case other: False
    with False assms(2) show ?thesis by (simp add: chk owner_verdict_def)
  qed
qed

text \<open>The verdicts of a batch, one task after the other with one cache.\<close>

fun check_all :: "(share_cache \<Rightarrow> string \<Rightarrow> task_error option \<times> share_cache) \<Rightarrow> share_cache \<Rightarrow> string list \<Rightarrow>
    task_error option list" where
  "check_all chk cache [] = []"
| "check_all chk cache (c # cs) = (let (v, cache') = chk cache c in v # check_all chk cache' cs)"

lemma check_all_spec:
  assumes "ownerChecker pc (Some u) = Some chk" "cache_ok pc (us_username u) cache"
  shows "check_all chk cache cs = map (owner_verdict pc u (ownerModeFor pc (us_username u))) cs"
  using assms(2)
proof (induction cs arbitrary: cache)
  case (Cons c cs)
  with ownerChecker_step [OF assms(1) Cons.prems, of c] show ?case
    by (auto simp: Let_def split: prod.split)
qed simp

text \<open>The batch checker, which caches the shares it looked up, gives for every task of a batch the verdict
  the single-task check gives for that task.\<close>

theorem ownerChecker_is_checkTaskOwner:
  assumes "ownerChecker pc (Some u) = Some chk"
    and "\<forall>i\<in>set is. \<exists>t. find_task_scoped sc i d = Some t"
  shows "check_all chk Map.empty (map (\<lambda>i. tk_created_by (the (find_task_scoped sc i d))) is) =
    map (\<lambda>i. checkTaskOwner pc (Some u) sc i d) is"
proof -
  have m: "\<not> (us_is_admin u \<or> IsSuperAdmin u \<or> HasRole u RoleAdmin)"
    "ownerModeFor pc (us_username u) \<noteq> ''inherit''"
    using assms(1) by (auto simp: ownerChecker_def Let_def split: if_splits)
  have "checkTaskOwner pc (Some u) sc i d =
      owner_verdict pc u (ownerModeFor pc (us_username u)) (tk_created_by (the (find_task_scoped sc i d)))"
    if "i \<in> set is" for i
    using assms(2) that m by (auto simp: checkTaskOwner_def Let_def)
  then show ?thesis
    using check_all_spec [OF assms(1), of Map.empty] by (simp add: cache_ok_def)
qed

text \<open>A user who is refused an operation is neither an administrator nor the task's creator; for an
  unrestricted user (policy \<open>inherit\<close>) nothing is refused; a failed team lookup falls back to the
  global switch and never widens access.\<close>

theorem owner_denial_justified:
  assumes "checkTaskOwner pc (Some u) sc i d = Some e"
  shows "\<not> isPrivilegedActor (Some u) \<and> ownerModeFor pc (us_username u) \<noteq> ''inherit'' \<and>
    (\<forall>t. find_task_scoped sc i d = Some t \<longrightarrow>
       tk_created_by t \<noteq> us_username u \<and> tk_created_by t \<noteq> [] \<and>
       (ownerModeFor pc (us_username u) = ''off'' \<longrightarrow> \<not> share_ok pc (us_username u) (tk_created_by t)))"
  using assms task_owner.denied_needs_other [OF assms]
  by (auto simp: checkTaskOwner_def Let_def owner_verdict_def split: if_splits option.splits)

end
