(* ===== verification/TargetOS.thy ===== *)
theory TargetOS
imports Access
begin

text \<open>
  \<open>internal/logic/task/targetos.go\<close>: which system a task is meant for, and which hosts it passes over.
  \<open>urlp\<close> is \<open>net/url\<close>'s \<open>Parse\<close>, reduced to what the code reads of it: the path and the value of the
  query parameter \<open>url\<close>; None is a URL that does not parse.
\<close>

abbreviation "targetOSLinux \<equiv> ''linux''"
abbreviation "targetOSWindows \<equiv> ''windows''"

definition osLabel :: "string \<Rightarrow> string" where
  "osLabel os = (if os = targetOSWindows then ''Windows'' else ''Linux'')"

text \<open>\<open>filepath.Base\<close> on Linux.\<close>

definition path_base :: "string \<Rightarrow> string" where
  "path_base p =
    (if p = [] then ''.''
     else let q = trim_right ''/'' p
          in if q = [] then ''/'' else rev (takeWhile (\<lambda>c. c \<noteq> CHR ''/'') (rev q)))"

text \<open>\<open>path.Ext\<close>: from the last dot after the last slash.\<close>

definition path_ext :: "string \<Rightarrow> string" where
  "path_ext p =
    (let b = takeWhile (\<lambda>c. c \<noteq> CHR ''/'') (rev p)
     in if CHR ''.'' \<in> set b then rev (takeWhile (\<lambda>c. c \<noteq> CHR ''.'') b @ ''.'') else [])"

definition interpreterOS :: "string \<Rightarrow> string" where
  "interpreterOS p0 =
    (let p = trim_space p0
     in if p = [] then []
        else
         (let base = trim_suffix ''.exe'' (to_lower (path_base (replace_char (CHR 0x5C) ''/'' p)))
          in if base \<in> set [''powershell'', ''pwsh'', ''cmd''] then targetOSWindows
             else if base \<in> set [''bash'', ''sh'', ''dash'', ''ksh'', ''zsh''] then targetOSLinux
             else []))"

definition scriptExtOS :: "(string \<Rightarrow> (string \<times> string) option) \<Rightarrow> string \<Rightarrow> string" where
  "scriptExtOS urlp raw0 =
    (let raw = trim_space raw0
     in if raw = [] then []
        else
         (let p = (case urlp raw of None \<Rightarrow> raw
                   | Some (path, inner) \<Rightarrow>
                      (if inner = [] then path
                       else case urlp inner of None \<Rightarrow> path | Some (ip, q) \<Rightarrow> ip));
              ext = to_lower (path_ext p)
          in if ext \<in> set [''.ps1'', ''.cmd'', ''.bat''] then targetOSWindows
             else if ext \<in> set [''.sh'', ''.bash''] then targetOSLinux else []))"

definition shebang_cutset :: "string list" where
  "shebang_cutset = ['' '', [CHR 0x09], [CHR 0x0D], [CHR 0x0A], [CHR 0xEF, CHR 0xBB, CHR 0xBF]]"

definition commandTargetOS :: "command_spec \<Rightarrow> string" where
  "commandTargetOS spec =
    (let os = interpreterOS (cs_interpreter spec)
     in if os \<noteq> [] then os
        else if has_prefix ''#!'' (strip_front shebang_cutset 0 (cs_script spec))
        then targetOSLinux else [])"

definition is_letter :: "char \<Rightarrow> bool" where
  "is_letter c = ((65 \<le> byte c \<and> byte c \<le> 90) \<or> (97 \<le> byte c \<and> byte c \<le> 122))"

definition win_drive_path :: "string \<Rightarrow> bool" where
  "win_drive_path p = (case p of a # b # c # r \<Rightarrow>
     is_letter a \<and> b = CHR '':'' \<and> (c = CHR 0x5C \<or> c = CHR ''/'') | _ \<Rightarrow> False)"

definition componentTargetOS :: "(string \<Rightarrow> (string \<times> string) option) \<Rightarrow> component_row \<Rightarrow> string" where
  "componentTargetOS urlp c =
    (let m = to_lower (trim_space (cp_os_match c))
     in if m = ''windows'' \<or> m = ''win'' then targetOSWindows
        else if m = ''linux'' then targetOSLinux
        else if scriptExtOS urlp (cp_script_url c) \<noteq> [] then scriptExtOS urlp (cp_script_url c)
        else if interpreterOS (cp_exec_path c) \<noteq> [] then interpreterOS (cp_exec_path c)
        else
         (let p = trim_space (cp_install_path c)
          in if win_drive_path p then targetOSWindows
             else if has_prefix ''/'' p then targetOSLinux else []))"

definition hostOS :: "string \<Rightarrow> string" where
  "hostOS osFamily =
    (let f = to_lower (trim_space osFamily)
     in if f = [] then [] else if f = targetOSWindows then targetOSWindows else targetOSLinux)"

definition osMismatch :: "string \<Rightarrow> string \<Rightarrow> bool" where
  "osMismatch target osFamily =
    (if target = [] then False else hostOS osFamily \<noteq> [] \<and> hostOS osFamily \<noteq> target)"

definition filterHostsByOS :: "target_host list \<Rightarrow> string \<Rightarrow> target_host list \<times> nat" where
  "filterHostsByOS hosts target =
    (if target = [] then (hosts, 0)
     else foldl (\<lambda>(kept, skipped) h. if osMismatch target (hr_os_family h) then (kept, Suc skipped)
                                     else (kept @ [h], skipped)) ([], 0) hosts)"

lemma filterHostsByOS_foldl:
  "foldl (\<lambda>(kept, skipped) h. if osMismatch target (hr_os_family h) then (kept, Suc skipped)
      else (kept @ [h], skipped)) (ks, n) hosts =
   (ks @ filter (\<lambda>h. \<not> osMismatch target (hr_os_family h)) hosts,
    n + length (filter (\<lambda>h. osMismatch target (hr_os_family h)) hosts))"
  by (induction hosts arbitrary: ks n) auto

lemma filterHostsByOS_spec:
  "filterHostsByOS hosts target =
    (filter (\<lambda>h. \<not> osMismatch target (hr_os_family h)) hosts,
     length (filter (\<lambda>h. osMismatch target (hr_os_family h)) hosts))"
  unfolding filterHostsByOS_def filterHostsByOS_foldl by (simp add: osMismatch_def [of "[]"])

lemma interpreterOS_range: "interpreterOS p \<in> {[], targetOSLinux, targetOSWindows}"
  by (auto simp: interpreterOS_def Let_def)

lemma componentTargetOS_range: "componentTargetOS urlp c \<in> {[], targetOSLinux, targetOSWindows}"
  by (auto simp: componentTargetOS_def Let_def interpreterOS_def scriptExtOS_def)

lemma commandTargetOS_range: "commandTargetOS spec \<in> {[], targetOSLinux, targetOSWindows}"
  using interpreterOS_range [of "cs_interpreter spec"] by (auto simp: commandTargetOS_def Let_def)

text \<open>A Windows host never stays in a Linux task nor a Linux host in a Windows task, hosts of unknown
  system and tasks of unknown target are never filtered, order is kept and the count of skipped hosts
  is exact.\<close>

theorem filterHostsByOS_sound:
  assumes "filterHostsByOS hosts target = (kept, skipped)"
    and "target = [] \<or> target = targetOSLinux \<or> target = targetOSWindows"
  shows "kept = filter (\<lambda>h. target = [] \<or> hostOS (hr_os_family h) \<in> {[], target}) hosts \<and>
    length kept + skipped = length hosts"
  using assms sum_length_filter_compl [of "\<lambda>h. osMismatch target (hr_os_family h)" hosts]
  by (auto simp: filterHostsByOS_spec osMismatch_def)

end
