(* ===== verification/Contract.thy ===== *)
theory Contract
imports Schema
begin

text \<open>
  What every handler of the control plane promises about the rows it does not own. A command row
  keeps its identity and an ended row is never written again (\<open>cmd_evolves\<close>); a host row of a task
  behaves the same (\<open>thost_evolves\<close>). The locales collect the promise and its consequences; each
  component interprets them on its own operations.
\<close>

definition cmd_evolves :: "command_row \<Rightarrow> command_row \<Rightarrow> bool" where
  "cmd_evolves c c' =
    (cm_id c' = cm_id c \<and> cm_task_id c' = cm_task_id c \<and> cm_task_host_id c' = cm_task_host_id c \<and>
     cm_host_id c' = cm_host_id c \<and> cm_agent_id c' = cm_agent_id c \<and> cm_type c' = cm_type c \<and>
     cm_payload c' = cm_payload c \<and> cm_created_at c' = cm_created_at c \<and>
     (is_active (cm_status c') \<longrightarrow> is_active (cm_status c)) \<and>
     (cmd_status_known (cm_status c) \<longrightarrow> cmd_status_known (cm_status c')) \<and>
     (cmd_ended (cm_status c) \<longrightarrow> c' = c))"

definition thost_evolves :: "task_host_row \<Rightarrow> task_host_row \<Rightarrow> bool" where
  "thost_evolves h h' =
    (th_id h' = th_id h \<and> th_task_id h' = th_task_id h \<and> th_host_id h' = th_host_id h \<and>
     th_batch_index h' = th_batch_index h \<and> (thost_ended (th_status h) \<longrightarrow> h' = h))"

lemma cmd_evolves_refl [simp]: "cmd_evolves c c"
  by (simp add: cmd_evolves_def)

lemma cmd_evolves_trans: "cmd_evolves a b \<Longrightarrow> cmd_evolves b c \<Longrightarrow> cmd_evolves a c"
  by (auto simp: cmd_evolves_def)

lemma thost_evolves_refl [simp]: "thost_evolves h h"
  by (simp add: thost_evolves_def)

lemma thost_evolves_trans: "thost_evolves a b \<Longrightarrow> thost_evolves b c \<Longrightarrow> thost_evolves a c"
  by (auto simp: thost_evolves_def)

lemma list_all2_upd_where:
  assumes "\<And>x. x \<in> set rs \<Longrightarrow> P x \<Longrightarrow> R x (f x)" and "\<And>x. R x x"
  shows "list_all2 R rs (upd_where P f rs)"
  unfolding upd_where_def list_all2_map2 using assms by (auto simp: list_all2_same)

lemma cmds_evolve_refl [simp]: "list_all2 cmd_evolves cs cs"
  by (simp add: list_all2_same)

lemma thosts_evolve_refl [simp]: "list_all2 thost_evolves hs hs"
  by (simp add: list_all2_same)

lemma cmds_evolve_trans:
  "list_all2 cmd_evolves as bs \<Longrightarrow> list_all2 cmd_evolves bs cs \<Longrightarrow> list_all2 cmd_evolves as cs"
  by (rule list_all2_trans [of cmd_evolves cmd_evolves cmd_evolves, OF cmd_evolves_trans])

lemma thosts_evolve_trans:
  "list_all2 thost_evolves as bs \<Longrightarrow> list_all2 thost_evolves bs cs \<Longrightarrow> list_all2 thost_evolves as cs"
  by (rule list_all2_trans [of thost_evolves thost_evolves thost_evolves, OF thost_evolves_trans])

lemma list_all2_map_eq: "(\<And>x y. R x y \<Longrightarrow> k y = k x) \<Longrightarrow> list_all2 R as bs \<Longrightarrow> map k bs = map k as"
  by (induction as arbitrary: bs) (auto simp: list_all2_Cons1)

lemma unique_where_evolve:
  assumes "list_all2 R as bs" and "\<And>x y. R x y \<Longrightarrow> k y = k x" and "\<And>x y. R x y \<Longrightarrow> P y \<Longrightarrow> P x"
    and "unique_where P k as"
  shows "unique_where P k bs"
proof -
  have sub: "set (map k (filter P bs)) \<subseteq> set (map k (filter P as))"
    if "list_all2 R as bs" for as bs
    using that by (induction rule: list_all2_induct) (auto simp: assms(2) dest: assms(3))
  from assms(1,4) show ?thesis unfolding unique_where_def
  proof (induction rule: list_all2_induct)
    case (Cons x xs y ys)
    show ?case
    proof (cases "P y")
      case True
      with Cons(1) have "P x" "k y = k x" using assms(2,3) by auto
      with Cons True sub [OF Cons(2)] show ?thesis by auto
    next
      case False
      with Cons show ?thesis by (auto split: if_splits)
    qed
  qed simp
qed

lemma cmd_by_id: "cmd_keys d \<Longrightarrow> x \<in> set (d_cmds d) \<Longrightarrow> y \<in> set (d_cmds d) \<Longrightarrow> cm_id x = cm_id y \<Longrightarrow> x = y"
  by (auto simp: cmd_keys_def distinct_map inj_on_def)

lemma list_all2_ball: "list_all2 R as bs \<Longrightarrow> (\<And>x y. R x y \<Longrightarrow> Q x \<Longrightarrow> Q y) \<Longrightarrow> \<forall>x\<in>set as. Q x \<Longrightarrow> \<forall>y\<in>set bs. Q y"
  by (induction rule: list_all2_induct) auto

lemma cmds_evolve_keys:
  assumes ev: "list_all2 cmd_evolves (d_cmds d) (d_cmds d')" "d_next_cmd d' = d_next_cmd d"
    and "cmd_keys d"
  shows "cmd_keys d'"
proof -
  have "map cm_id (d_cmds d') = map cm_id (d_cmds d)"
    using ev(1) by (rule list_all2_map_eq [rotated]) (simp add: cmd_evolves_def)
  moreover have "\<forall>c\<in>set (d_cmds d'). cm_id c < d_next_cmd d"
    using assms(3) unfolding cmd_keys_def list_all_iff
    by (intro list_all2_ball [OF ev(1)]) (auto simp: cmd_evolves_def)
  moreover have "\<forall>c\<in>set (d_cmds d'). cmd_status_known (cm_status c)"
    using assms(3) unfolding cmd_keys_def list_all_iff
    by (intro list_all2_ball [OF ev(1)]) (auto simp: cmd_evolves_def)
  ultimately show ?thesis using assms(2,3)
    unfolding cmd_keys_def list_all_iff by simp
qed

lemma thosts_evolve_keys:
  assumes "list_all2 thost_evolves (d_thosts d) (d_thosts d')" "d_next_thost d' = d_next_thost d"
    and "thost_keys d"
  shows "thost_keys d'"
proof -
  have "map th_id (d_thosts d') = map th_id (d_thosts d)"
    using assms(1) by (rule list_all2_map_eq [rotated]) (simp add: thost_evolves_def)
  moreover from this have "set (map th_id (d_thosts d')) = set (map th_id (d_thosts d))" by simp
  ultimately show ?thesis using assms(2,3)
    unfolding thost_keys_def list_all_iff by (metis imageE imageI list.set_map)
qed

lemma cmd_known: "cmd_keys d \<Longrightarrow> c \<in> set (d_cmds d) \<Longrightarrow> is_active (cm_status c) \<or> cmd_ended (cm_status c)"
  by (auto simp: cmd_keys_def list_all_iff cmd_status_known_def)

text \<open>The two shapes of row update: the command found by id, or a row that has not ended.\<close>

lemma found_cmd_evolves:
  assumes "cmd_keys d" "c \<in> set (d_cmds d)" "cmd_evolves c (f c)"
  shows "list_all2 cmd_evolves (d_cmds d) (upd_where (\<lambda>r. cm_id r = cm_id c) f (d_cmds d))"
proof (rule list_all2_upd_where)
  fix x assume "x \<in> set (d_cmds d)" "cm_id x = cm_id c"
  then have "x = c" using cmd_by_id [OF assms(1)] assms(2) by blast
  then show "cmd_evolves x (f x)" using assms(3) by simp
qed simp

lemma open_cmd_evolves:
  assumes "cmd_keys d" and "\<And>r. P r \<Longrightarrow> \<not> cmd_ended (cm_status r)"
    and "\<And>r. P r \<Longrightarrow> is_active (cm_status r) \<Longrightarrow> cmd_evolves r (f r)"
  shows "list_all2 cmd_evolves (d_cmds d) (upd_where P f (d_cmds d))"
  by (rule list_all2_upd_where) (use assms cmd_known [OF assms(1)] cmd_evolves_refl in blast)+

lemma open_thost_evolves:
  assumes "\<And>h. P h \<Longrightarrow> th_open h" and "\<And>h. P h \<Longrightarrow> th_open h \<Longrightarrow> thost_evolves h (f h)"
  shows "list_all2 thost_evolves hs (upd_where P f hs)"
  by (rule list_all2_upd_where) (use assms in auto)

text \<open>The tables most handlers leave alone.\<close>

definition row_frame :: "db \<Rightarrow> db \<Rightarrow> bool" where
  "row_frame d d' = (d_tasks d' = d_tasks d \<and> d_batches d' = d_batches d \<and>
     d_next_cmd d' = d_next_cmd d \<and> d_next_thost d' = d_next_thost d \<and> d_next_task d' = d_next_task d)"

definition row_step :: "db \<Rightarrow> db \<Rightarrow> bool" where
  "row_step d d' = (row_frame d d' \<and>
     (cmd_keys d \<longrightarrow> list_all2 cmd_evolves (d_cmds d) (d_cmds d')) \<and>
     list_all2 thost_evolves (d_thosts d) (d_thosts d'))"

lemma row_step_refl [simp]: "row_step d d"
  by (simp add: row_step_def row_frame_def)

lemma row_step_trans: "row_step d d1 \<Longrightarrow> row_step d1 d2 \<Longrightarrow> row_step d d2"
  unfolding row_step_def row_frame_def
  using cmds_evolve_trans thosts_evolve_trans cmds_evolve_keys by metis

lemma row_step_cmds:
  "(cmd_keys d \<Longrightarrow> list_all2 cmd_evolves (d_cmds d) cs) \<Longrightarrow> row_step d (d\<lparr>d_cmds := cs\<rparr>)"
  by (auto simp: row_step_def row_frame_def)

lemma row_step_thosts:
  "list_all2 thost_evolves (d_thosts d) hs \<Longrightarrow> row_step d (d\<lparr>d_thosts := hs\<rparr>)"
  by (auto simp: row_step_def row_frame_def)

section \<open>Handlers that write commands\<close>

locale command_handler =
  fixes op :: "db \<Rightarrow> db"
  assumes cmds: "cmd_keys d \<Longrightarrow> list_all2 cmd_evolves (d_cmds d) (d_cmds (op d))"
    and next_cmd: "d_next_cmd (op d) = d_next_cmd d"
    and keys: "integrity d \<Longrightarrow> task_keys (op d) \<and> thost_keys (op d) \<and> batch_keys (op d)"
begin

lemma integrity_kept:
  assumes "integrity d"
  shows "integrity (op d)"
proof -
  from assms have k: "cmd_keys d" by (simp add: integrity_def)
  note ev = cmds [OF k]
  have "uq_task_host_active (op d)" using assms unfolding integrity_def uq_task_host_active_def
    by (intro unique_where_evolve [OF ev]) (auto simp: cmd_evolves_def cmd_for_host_def)
  moreover have "uq_self_update_active (op d)" using assms unfolding integrity_def uq_self_update_active_def
    by (intro unique_where_evolve [OF ev]) (auto simp: cmd_evolves_def cmd_self_update_def)
  ultimately show ?thesis
    using cmds_evolve_keys [OF ev next_cmd k] keys [OF assms] by (simp add: integrity_def)
qed

lemma ended_kept:
  assumes "cmd_keys d" "c \<in> set (d_cmds d)" "cmd_ended (cm_status c)"
  shows "c \<in> set (d_cmds (op d))"
proof -
  from assms(2) obtain i where i: "i < length (d_cmds d)" "d_cmds d ! i = c"
    by (auto simp: in_set_conv_nth)
  with cmds [OF assms(1)] have "cmd_evolves c (d_cmds (op d) ! i)" "i < length (d_cmds (op d))"
    by (auto simp: list_all2_conv_all_nth)
  with assms(3) show ?thesis by (auto simp: cmd_evolves_def intro: nth_mem)
qed

lemma ids_kept: "cmd_keys d \<Longrightarrow> map cm_id (d_cmds (op d)) = map cm_id (d_cmds d)"
  by (rule list_all2_map_eq [OF _ cmds]) (simp add: cmd_evolves_def)

lemma find_evolves:
  assumes "cmd_keys d" "find_cmd i d = Some c"
  obtains c' where "find_cmd i (op d) = Some c'" "cmd_evolves c c'"
proof -
  have "\<exists>c'. find (\<lambda>c. cm_id c = i) bs = Some c' \<and> cmd_evolves c c'"
    if "list_all2 cmd_evolves as bs" "find (\<lambda>c. cm_id c = i) as = Some c" for as bs
    using that
    by (induction rule: list_all2_induct) (auto simp: cmd_evolves_def split: if_splits)
  from this [OF cmds [OF assms(1)]] assms(2) that show thesis
    unfolding find_cmd_def by blast
qed

end

locale agent_handler = command_handler +
  assumes thosts: "thost_keys d \<Longrightarrow> list_all2 thost_evolves (d_thosts d) (d_thosts (op d))"
begin

lemma thost_ended_kept:
  assumes "thost_keys d" "h \<in> set (d_thosts d)" "thost_ended (th_status h)"
  shows "h \<in> set (d_thosts (op d))"
proof -
  from assms(2) obtain i where i: "i < length (d_thosts d)" "d_thosts d ! i = h"
    by (auto simp: in_set_conv_nth)
  with thosts [OF assms(1)] have "thost_evolves h (d_thosts (op d) ! i)" "i < length (d_thosts (op d))"
    by (auto simp: list_all2_conv_all_nth)
  with assms(3) show ?thesis by (auto simp: thost_evolves_def intro: nth_mem)
qed

end

lemma row_step_both:
  "list_all2 thost_evolves (d_thosts d) hs \<Longrightarrow> (cmd_keys d \<Longrightarrow> list_all2 cmd_evolves (d_cmds d) cs) \<Longrightarrow>
   row_step d (d\<lparr>d_thosts := hs, d_cmds := cs\<rparr>)"
  by (auto simp: row_step_def row_frame_def)

lemma agent_handlerI:
  assumes "\<And>d. row_step d (op d)"
  shows "agent_handler op"
proof
  fix d
  show "cmd_keys d \<Longrightarrow> list_all2 cmd_evolves (d_cmds d) (d_cmds (op d))"
    using assms by (simp add: row_step_def)
  show "d_next_cmd (op d) = d_next_cmd d"
    using assms by (simp add: row_step_def row_frame_def)
  show "list_all2 thost_evolves (d_thosts d) (d_thosts (op d))"
    using assms by (simp add: row_step_def)
  show "integrity d \<Longrightarrow> task_keys (op d) \<and> thost_keys (op d) \<and> batch_keys (op d)"
    using assms [of d] thosts_evolve_keys [of d "op d"]
    by (auto simp: row_step_def row_frame_def integrity_def task_keys_def batch_keys_def)
qed

end
