(* ===== verification/TaskOps.thy ===== *)
theory TaskOps
imports Access Contract
begin

text \<open>
  The operations on a task: \<open>Start\<close>, \<open>Promote\<close>, \<open>Pause\<close>, \<open>Cancel\<close> of \<open>internal/logic/task/dispatch.go\<close>
  and \<open>Retry\<close> of \<open>retry.go\<close>. An operation is a function from the database to an answer and the new
  database; one that ends with an error has rolled back, so it returns the database it was given.
\<close>

type_synonym 'a task_op = "(task_error + 'a) \<times> db"

section \<open>Row updates\<close>

definition actorUsername :: "user option \<Rightarrow> string" where
  "actorUsername actor = (case actor of None \<Rightarrow> [] | Some u \<Rightarrow> trim_space (us_username u))"

definition set_task_status :: "user option \<Rightarrow> time \<Rightarrow> string \<Rightarrow> task_row \<Rightarrow> task_row" where
  "set_task_status actor now status t = t\<lparr>tk_status := status, tk_updated_at := now,
     tk_updated_by := (if actorUsername actor = [] then tk_updated_by t else actorUsername actor)\<rparr>"

text \<open>The guarded update of the task row: the rows it hits, and its effect.\<close>

definition task_guard :: "scope \<Rightarrow> int \<Rightarrow> string list \<Rightarrow> task_row \<Rightarrow> bool" where
  "task_guard sc taskID from t = (tk_id t = taskID \<and> scope_where sc (tk_tenant t) \<and> tk_status t \<in> set from)"

definition move_task :: "user option \<Rightarrow> time \<Rightarrow> scope \<Rightarrow> int \<Rightarrow> string list \<Rightarrow> string \<Rightarrow> task_error \<Rightarrow> db \<Rightarrow> db \<Rightarrow> unit task_op" where
  "move_task actor now sc taskID from to err d0 d =
    (if rows_affected (task_guard sc taskID from) (d_tasks d) = 0 then (Inl err, d0)
     else (Inr (), d\<lparr>d_tasks := upd_where (task_guard sc taskID from) (set_task_status actor now to) (d_tasks d)\<rparr>))"

section \<open>Start, Promote, Pause\<close>

definition Start :: "policy \<Rightarrow> user option \<Rightarrow> time \<Rightarrow> scope \<Rightarrow> int \<Rightarrow> db \<Rightarrow> unit task_op" where
  "Start pc actor now sc taskID d =
    (case checkTaskOwner pc actor sc taskID d of Some e \<Rightarrow> (Inl e, d) | None \<Rightarrow>
     (case checkTaskDeploy pc actor sc taskID d of Some e \<Rightarrow> (Inl e, d) | None \<Rightarrow>
      (case find_task_scoped sc taskID d of None \<Rightarrow> (Inl TaskNotFound, d) | Some t \<Rightarrow>
        (if tk_status t \<noteq> ''draft'' \<and> tk_status t \<noteq> ''paused'' then (Inl (NotStartable (tk_status t)), d)
         else if (case tk_component_id t of None \<Rightarrow> False | Some cid \<Rightarrow> comp_get sc cid d = None)
              then (Inl ComponentNotFound, d)
         else move_task actor now sc taskID [''draft'', ''paused''] ''running'' StatusChanged d d))))"

definition skip_batch :: "time \<Rightarrow> batch_row \<Rightarrow> batch_row" where
  "skip_batch now b = b\<lparr>tb_status := ''skipped'',
     tb_finished_at := (case tb_finished_at b of None \<Rightarrow> Some now | Some t \<Rightarrow> Some t)\<rparr>"

definition Promote :: "policy \<Rightarrow> user option \<Rightarrow> time \<Rightarrow> scope \<Rightarrow> int \<Rightarrow> db \<Rightarrow> unit task_op" where
  "Promote pc actor now sc taskID d =
    (case checkTaskOwner pc actor sc taskID d of Some e \<Rightarrow> (Inl e, d) | None \<Rightarrow>
     (case checkTaskDeploy pc actor sc taskID d of Some e \<Rightarrow> (Inl e, d) | None \<Rightarrow>
       (let d1 = d\<lparr>d_batches := upd_where (\<lambda>b. tb_task_id b = taskID \<and> tb_status b = ''failed'')
                     (skip_batch now) (d_batches d)\<rparr>
        in move_task actor now sc taskID [''paused''] ''running'' NotPaused d d1)))"

definition Pause :: "policy \<Rightarrow> user option \<Rightarrow> time \<Rightarrow> scope \<Rightarrow> int \<Rightarrow> db \<Rightarrow> unit task_op" where
  "Pause pc actor now sc taskID d =
    (case checkTaskOwner pc actor sc taskID d of Some e \<Rightarrow> (Inl e, d) | None \<Rightarrow>
      move_task actor now sc taskID [''running''] ''paused'' NotRunning d d)"

section \<open>Cancel\<close>

definition cancel_batch :: "time \<Rightarrow> batch_row \<Rightarrow> batch_row" where
  "cancel_batch now b = b\<lparr>tb_status := ''canceled'', tb_finished_at := Some now\<rparr>"

definition cancel_thost :: "time \<Rightarrow> task_host_row \<Rightarrow> task_host_row" where
  "cancel_thost now h = h\<lparr>th_status := ''canceled'', th_finished_at := Some now\<rparr>"

definition cancel_cmd :: "time \<Rightarrow> string \<Rightarrow> command_row \<Rightarrow> command_row" where
  "cancel_cmd now line c = c\<lparr>cm_status := CmdCanceled, cm_finished_at := Some now, cm_log := cm_log c @ line\<rparr>"

definition unfinished :: "string \<Rightarrow> bool" where
  "unfinished s = (s = ''pending'' \<or> s = ''running'')"

definition cancel_rows :: "time \<Rightarrow> int \<Rightarrow> db \<Rightarrow> db" where
  "cancel_rows now taskID d = d\<lparr>
     d_batches := upd_where (\<lambda>b. tb_task_id b = taskID \<and> unfinished (tb_status b)) (cancel_batch now) (d_batches d),
     d_thosts := upd_where (\<lambda>h. th_task_id h = taskID \<and> unfinished (th_status h)) (cancel_thost now) (d_thosts d),
     d_cmds := upd_where (\<lambda>c. cm_task_id c = Some taskID \<and> is_active (cm_status c)) (cancel_cmd now []) (d_cmds d)\<rparr>"

definition Cancel :: "policy \<Rightarrow> user option \<Rightarrow> time \<Rightarrow> scope \<Rightarrow> int \<Rightarrow> db \<Rightarrow> unit task_op" where
  "Cancel pc actor now sc taskID d =
    (case checkTaskOwner pc actor sc taskID d of Some e \<Rightarrow> (Inl e, d) | None \<Rightarrow>
     (case find_task_scoped sc taskID d of None \<Rightarrow> (Inl TaskNotFound, d) | Some t \<Rightarrow>
       (if tk_status t \<notin> set [''draft'', ''running'', ''paused''] then (Inl (AlreadyTerminal (tk_status t)), d)
        else move_task actor now sc taskID [''draft'', ''running'', ''paused''] ''canceled'' StatusChanged d
               (cancel_rows now taskID d))))"

section \<open>Retry\<close>

definition txt_retry :: string where "txt_retry = [CHR 0xE7, CHR 0xAE, CHR 0xA1, CHR 0xE7, CHR 0x90, CHR 0x86, CHR 0xE5, CHR 0x91, CHR 0x98, CHR 0xE8, CHR 0xA7, CHR 0xA6, CHR 0xE5, CHR 0x8F, CHR 0x91, CHR 0xE9, CHR 0x87, CHR 0x8D, CHR 0xE6, CHR 0x96, CHR 0xB0, CHR 0xE6, CHR 0x89, CHR 0xA7, CHR 0xE8, CHR 0xA1, CHR 0x8C, CHR 0xEF, CHR 0xBC, CHR 0x9A, CHR 0xE9, CHR 0x87, CHR 0x8D, CHR 0xE7, CHR 0xBD, CHR 0xAE, CHR 0xE4, CHR 0xB8, CHR 0xBA, CHR 0xE5, CHR 0xBE, CHR 0x85, CHR 0xE4, CHR 0xB8, CHR 0x8B, CHR 0xE5, CHR 0x8F, CHR 0x91, CHR 0xEF, CHR 0xBC, CHR 0x88, CHR 0xE5, CHR 0x8E, CHR 0x86, CHR 0xE5, CHR 0x8F, CHR 0xB2, CHR 0xE6, CHR 0x97, CHR 0xA5, CHR 0xE5, CHR 0xBF, CHR 0x97, CHR 0xE4, CHR 0xBF, CHR 0x9D, CHR 0xE7, CHR 0x95, CHR 0x99, CHR 0xEF, CHR 0xBC, CHR 0x89, CHR 0x0A]"

datatype skip_reason = AlreadyQueued | StillRunning | AlreadySucceeded | UnsupportedStatus string | NotInTask

record retry_request =
  rr_task_host_ids :: "int list"
  rr_force :: bool

record retry_result =
  rs_reset :: nat
  rs_skipped :: "(int \<times> int \<times> string \<times> skip_reason) list"
  rs_task_status :: string

text \<open>The switch on the host row's status: \<open>None\<close> is retryable.\<close>

definition retry_decision :: "string \<Rightarrow> bool \<Rightarrow> bool \<Rightarrow> bool \<Rightarrow> skip_reason option" where
  "retry_decision status explicit force hasLive =
    (if status \<in> set [''failed'', ''timeout'', ''canceled'', ''skipped'', ''rolled_back''] then None
     else if status = ''pending'' then (if explicit then None else Some AlreadyQueued)
     else if status = ''running'' then
       (if hasLive \<and> \<not> (explicit \<and> force) then Some StillRunning else None)
     else if status = ''success'' then (if explicit \<and> force then None else Some AlreadySucceeded)
     else Some (UnsupportedStatus status))"

definition has_live :: "time \<Rightarrow> db \<Rightarrow> int \<Rightarrow> bool" where
  "has_live now d t = exists_row (\<lambda>c. cm_task_host_id c = Some t \<and> is_active (cm_status c) \<and>
     (case cm_lease_expire_at c of None \<Rightarrow> False | Some e \<Rightarrow> e > now)) (d_cmds d)"

definition retry_candidates :: "int \<Rightarrow> int list \<Rightarrow> db \<Rightarrow> (task_host_row \<times> host_row) list" where
  "retry_candidates taskID ids d =
    concat (map (\<lambda>h. case find_host (th_host_id h) d of None \<Rightarrow> [] | Some ho \<Rightarrow> [(h, ho)])
      (sort_key th_id (filter (\<lambda>h. th_task_id h = taskID \<and> (ids = [] \<or> th_id h \<in> set ids)) (d_thosts d))))"

definition reset_thost :: "time \<Rightarrow> string \<Rightarrow> task_host_row \<Rightarrow> task_host_row" where
  "reset_thost now line h = h\<lparr>th_status := ''pending'', th_stage := [], th_exit_code := 0,
     th_started_at := Some now, th_finished_at := None, th_attempts := th_attempts h + 1,
     th_log := th_log h @ line\<rparr>"

definition reset_batch :: "batch_row \<Rightarrow> batch_row" where
  "reset_batch b = b\<lparr>tb_status := ''pending'', tb_started_at := None, tb_finished_at := None\<rparr>"

definition retry_rows :: "user option \<Rightarrow> time \<Rightarrow> string \<Rightarrow> int \<Rightarrow> int list \<Rightarrow> int list \<Rightarrow> db \<Rightarrow> db" where
  "retry_rows actor now line taskID resetIDs batches d = d\<lparr>
     d_cmds := upd_where (\<lambda>c. (case cm_task_host_id c of None \<Rightarrow> False | Some t \<Rightarrow> t \<in> set resetIDs) \<and>
        is_active (cm_status c)) (cancel_cmd now line) (d_cmds d),
     d_thosts := upd_where (\<lambda>h. th_id h \<in> set resetIDs) (reset_thost now line) (d_thosts d),
     d_batches := upd_where (\<lambda>b. tb_task_id b = taskID \<and> tb_index b \<in> set batches \<and> tb_status b \<noteq> ''pending'')
        reset_batch (d_batches d),
     d_tasks := upd_where (\<lambda>t. tk_id t = taskID \<and> tk_status t \<in>
         set [''running'', ''paused'', ''failed'', ''success'', ''canceled'', ''rolled_back''])
        (set_task_status actor now ''running'') (d_tasks d)\<rparr>"

text \<open>
  The first statement numbers its tenant placeholder from 1 although the task id is already \<open>$1\<close>, so
  for a scope that is not cross-tenant it passes two arguments to a statement with one parameter,
  which the driver rejects.
\<close>

definition Retry ::
    "policy \<Rightarrow> user option \<Rightarrow> time \<Rightarrow> string \<Rightarrow> scope \<Rightarrow> int \<Rightarrow> retry_request \<Rightarrow> db \<Rightarrow> retry_result task_op" where
  "Retry pc actor now stamp sc taskID req d =
    (case checkTaskOwner pc actor sc taskID d of Some e \<Rightarrow> (Inl e, d) | None \<Rightarrow>
     (case checkTaskDeploy pc actor sc taskID d of Some e \<Rightarrow> (Inl e, d) | None \<Rightarrow>
       (if length (rr_task_host_ids req) > 5000 then (Inl TooManyHosts, d)
        else if \<not> sc_cross sc then (Inl ScopeStatementInvalid, d)
        else case find_task taskID d of None \<Rightarrow> (Inl TaskNotFound, d) | Some t \<Rightarrow>
         (if tk_status t = ''draft'' then (Inl NotStartedYet, d)
          else
           (let ids = rr_task_host_ids req;
                explicit = (ids \<noteq> []);
                list = retry_candidates taskID ids d;
                verdict = (\<lambda>h. retry_decision (th_status h) explicit (rr_force req) (has_live now d (th_id h)));
                resets = filter (\<lambda>(h, ho). verdict h = None) list;
                resetIDs = map (\<lambda>(h, ho). th_id h) resets;
                skips = concat (map (\<lambda>(h, ho). case verdict h of None \<Rightarrow> []
                            | Some r \<Rightarrow> [(th_id h, th_host_id h, ho_ip ho, r)]) list);
                missing = map (\<lambda>i. (i, 0, [], NotInTask))
                            (filter (\<lambda>i. i \<notin> set (map (\<lambda>(h, ho). th_id h) list)) ids)
            in if resetIDs = [] then
                 (Inr \<lparr>rs_reset = 0, rs_skipped = skips @ missing, rs_task_status = tk_status t\<rparr>, d)
               else
                 (Inr \<lparr>rs_reset = length resetIDs, rs_skipped = skips @ missing, rs_task_status = ''running''\<rparr>,
                  retry_rows actor now (bracket stamp @ txt_retry) taskID resetIDs
                    (map (\<lambda>(h, ho). th_batch_index h) resets) d))))))"

section \<open>The data a dispatched command carries\<close>

definition toComponentSpec :: "component_row \<Rightarrow> component_spec" where
  "toComponentSpec c = \<lparr>sp_name = cp_name c, sp_deploy_mode = cp_deploy_mode c,
     sp_install_path = cp_install_path c, sp_backup_dir = cp_backup_dir c, sp_exec_path = cp_exec_path c,
     sp_exec_args = cp_exec_args c, sp_exec_env = cp_exec_env c, sp_work_dir = cp_work_dir c,
     sp_exec_timeout = cp_exec_timeout c, sp_script_url = cp_script_url c,
     sp_ignore_error = cp_ignore_error c, sp_pre_install = cp_pre_install c,
     sp_post_install = cp_post_install c, sp_post_install_script = cp_post_install_script c,
     sp_service_name = cp_service_name c, sp_service_mgr = cp_service_mgr c,
     sp_stop_cmd = cp_stop_cmd c, sp_start_cmd = cp_start_cmd c, sp_restart_cmd = cp_restart_cmd c,
     sp_version_cmd = cp_version_cmd c, sp_version_regex = cp_version_regex c,
     sp_health_cmd = cp_health_cmd c, sp_consul_maint = cp_consul_maint c\<rparr>"

end
