(* ===== verification/GoNum.thy ===== *)
theory GoNum
imports GoStrings
begin

text \<open>
  The numbers Go's standard library reads and computes for the task engine: \<open>time.ParseDuration\<close>,
  \<open>strconv.ParseFloat\<close> on decimal and hexadecimal literals, and the rounding of a float64 division and multiplication,
  which is what a failure rate is computed with. A finite float64 is kept as an exact fraction.
\<close>

section \<open>Digits\<close>

definition is_digit :: "char \<Rightarrow> bool" where
  "is_digit c = (48 \<le> byte c \<and> byte c \<le> 57)"

definition digits_value :: "string \<Rightarrow> int" where
  "digits_value s = foldl (\<lambda>v c. 10 * v + (of_char c - 48)) 0 s"

section \<open>Durations\<close>

definition unit_value :: "string \<Rightarrow> int option" where
  "unit_value u =
    (if u = ''ns'' then Some 1
     else if u = ''us'' \<or> u = [CHR 0xC2, CHR 0xB5, CHR ''s''] \<or> u = [CHR 0xCE, CHR 0xBC, CHR ''s''] then Some 1000
     else if u = ''ms'' then Some 1000000
     else if u = ''s'' then Some second
     else if u = ''m'' then Some (minutes 1)
     else if u = ''h'' then Some (hours 1) else None)"

text \<open>One number with its unit and what follows it; the fraction is truncated to nanoseconds.\<close>

definition duration_item :: "string \<Rightarrow> (int \<times> string) option" where
  "duration_item s =
    (let ip = takeWhile is_digit s; s1 = dropWhile is_digit s;
         dot = (s1 \<noteq> [] \<and> hd s1 = CHR ''.'');
         fp = (if dot then takeWhile is_digit (tl s1) else []);
         s2 = (if dot then dropWhile is_digit (tl s1) else s1);
         u = takeWhile (\<lambda>c. c \<noteq> CHR ''.'' \<and> \<not> is_digit c) s2;
         rest = dropWhile (\<lambda>c. c \<noteq> CHR ''.'' \<and> \<not> is_digit c) s2
     in if ip = [] \<and> fp = [] then None
        else case unit_value u of None \<Rightarrow> None
          | Some k \<Rightarrow>
             (let v = digits_value ip * k + digits_value fp * k div 10 ^ length fp
              in if digits_value ip > 2 ^ 63 \<or> v > 2 ^ 63 then None else Some (v, rest)))"

lemma duration_item_shorter:
  assumes "duration_item s = Some (v, rest)"
  shows "length rest < length s"
proof -
  define s1 where "s1 = dropWhile is_digit s"
  define dot where "dot = (s1 \<noteq> [] \<and> hd s1 = CHR ''.'')"
  define s2 where "s2 = (if dot then dropWhile is_digit (tl s1) else s1)"
  define u where "u = takeWhile (\<lambda>c. c \<noteq> CHR ''.'' \<and> \<not> is_digit c) s2"
  from assms have r: "rest = dropWhile (\<lambda>c. c \<noteq> CHR ''.'' \<and> \<not> is_digit c) s2" and u: "unit_value u \<noteq> None"
    by (auto simp: duration_item_def Let_def s1_def dot_def s2_def u_def split: if_splits option.splits)
  have "u \<noteq> []" using u by (auto simp: unit_value_def)
  moreover have "length s2 = length u + length rest"
    unfolding r u_def by (metis length_append takeWhile_dropWhile_id)
  moreover have "length s2 \<le> length s"
    unfolding s2_def s1_def using length_dropWhile_le [of is_digit s]
      length_dropWhile_le [of is_digit "tl (dropWhile is_digit s)"] by auto
  ultimately show ?thesis by (cases u) auto
qed

function duration_sum :: "int \<Rightarrow> string \<Rightarrow> int option" where
  "duration_sum acc s =
    (if s = [] then Some acc
     else case duration_item s of None \<Rightarrow> None
       | Some (v, rest) \<Rightarrow> (if acc + v > 2 ^ 63 then None else duration_sum (acc + v) rest))"
  by pat_completeness auto
termination by (relation "measure (\<lambda>(acc, s). length s)") (auto dest: duration_item_shorter)

declare duration_sum.simps [simp del]

definition parse_duration :: "string \<Rightarrow> time option" where
  "parse_duration s0 =
    (let neg = (s0 \<noteq> [] \<and> hd s0 = CHR ''-'');
         s = (if s0 \<noteq> [] \<and> (hd s0 = CHR ''-'' \<or> hd s0 = CHR ''+'') then tl s0 else s0)
     in if s = ''0'' then Some 0
        else if s = [] then None
        else case duration_sum 0 s of None \<Rightarrow> None
          | Some d \<Rightarrow> (if neg then Some (- d) else if d > 2 ^ 63 - 1 then None else Some d))"

section \<open>float64\<close>

function bits :: "int \<Rightarrow> nat" where
  "bits n = (if n \<le> 0 then 0 else Suc (bits (n div 2)))"
  by pat_completeness auto
termination by (relation "measure nat") auto

declare bits.simps [simp del]

text \<open>Round half to even of \<open>n / d\<close>, to an integer.\<close>

definition round_even :: "int \<Rightarrow> int \<Rightarrow> int" where
  "round_even n d =
    (let q = n div d; r = n mod d
     in if 2 * r < d then q else if 2 * r > d then q + 1 else if even q then q else q + 1)"

text \<open>The nearest fraction with a 53 bit significand (no overflow or underflow: see the callers).\<close>

definition round53 :: "int \<Rightarrow> int \<Rightarrow> int \<times> int" where
  "round53 n d =
    (if n = 0 then (0, 1)
     else
      (let up = bits d + 53; down = bits n;
           scaled = (\<lambda>k. if k \<le> up then (n * 2 ^ (up - k), d) else (n, d * 2 ^ (k - up)));
           (a, b) = scaled down;
           k = (if a div b < 2 ^ 53 then down else down + 1);
           (a', b') = scaled k;
           q = round_even a' b'
       in if k \<le> up then (q, 2 ^ (up - k)) else (q * 2 ^ (k - up), 1)))"

datatype go_float = FNaN | FInf bool | Fin bool int int

definition lower_ascii :: "string \<Rightarrow> string" where
  "lower_ascii s = map (\<lambda>c. if 65 \<le> byte c \<and> byte c \<le> 90 then char_of (byte c + 32) else c) s"

definition parse_exponent :: "char \<Rightarrow> string \<Rightarrow> int option" where
  "parse_exponent letter s =
    (if s = [] then Some 0
     else if lower_ascii [hd s] \<noteq> [letter] then None
     else
      (let t = tl s; neg = (t \<noteq> [] \<and> hd t = CHR ''-'');
           ds = (if t \<noteq> [] \<and> (hd t = CHR ''-'' \<or> hd t = CHR ''+'') then tl t else t)
       in if ds = [] \<or> \<not> list_all is_digit ds then None
          else Some (if neg then - digits_value ds else digits_value ds)))"

text \<open>Hexadecimal digits, and the underscores a literal may have between digits.\<close>

definition float_hex_digit :: "char \<Rightarrow> int option" where
  "float_hex_digit c =
    (let b = int (byte c)
     in if 48 \<le> b \<and> b \<le> 57 then Some (b - 48)
        else if 97 \<le> b \<and> b \<le> 102 then Some (b - 87)
        else if 65 \<le> b \<and> b \<le> 70 then Some (b - 55) else None)"

definition is_hex :: "char \<Rightarrow> bool" where "is_hex c = (float_hex_digit c \<noteq> None)"

definition float_hex_value :: "string \<Rightarrow> int" where
  "float_hex_value s = foldl (\<lambda>n c. n * 16 + (case float_hex_digit c of None \<Rightarrow> 0 | Some k \<Rightarrow> k)) 0 s"

fun underscores :: "bool \<Rightarrow> char \<Rightarrow> string \<Rightarrow> bool" where
  "underscores hex saw [] = (saw \<noteq> CHR ''_'')"
| "underscores hex saw (c # s) =
    (if is_digit c \<or> (hex \<and> is_hex c) then underscores hex CHR ''0'' s
     else if c = CHR ''_'' then saw = CHR ''0'' \<and> underscores hex CHR ''_'' s
     else saw \<noteq> CHR ''_'' \<and> underscores hex CHR ''!'' s)"

definition unsigned :: "string \<Rightarrow> string" where
  "unsigned s = (if s \<noteq> [] \<and> (hd s = CHR ''-'' \<or> hd s = CHR ''+'') then tl s else s)"

definition underscoreOK :: "string \<Rightarrow> bool" where
  "underscoreOK s0 =
    (let s = unsigned s0; p = lower_ascii (take 2 s)
     in if p = ''0x'' \<or> p = ''0b'' \<or> p = ''0o'' then underscores (p = ''0x'') CHR ''0'' (drop 2 s)
        else underscores False CHR ''^'' s)"

text \<open>The mantissa and the power of ten or two of a literal without sign and underscores.\<close>

definition decimal_literal :: "string \<Rightarrow> (int \<times> int) option" where
  "decimal_literal s =
    (let ip = takeWhile is_digit s; s1 = dropWhile is_digit s;
         dot = (s1 \<noteq> [] \<and> hd s1 = CHR ''.'');
         fp = (if dot then takeWhile is_digit (tl s1) else []);
         s2 = (if dot then dropWhile is_digit (tl s1) else s1)
     in if ip = [] \<and> fp = [] then None
        else map_option (\<lambda>e. (digits_value (ip @ fp), e - int (length fp))) (parse_exponent CHR ''e'' s2))"

definition hex_literal :: "string \<Rightarrow> (int \<times> int) option" where
  "hex_literal s =
    (let ip = takeWhile is_hex s; s1 = dropWhile is_hex s;
         dot = (s1 \<noteq> [] \<and> hd s1 = CHR ''.'');
         fp = (if dot then takeWhile is_hex (tl s1) else []);
         s2 = (if dot then dropWhile is_hex (tl s1) else s1)
     in if (ip = [] \<and> fp = []) \<or> s2 = [] then None
        else map_option (\<lambda>e. (float_hex_value (ip @ fp), e - 4 * int (length fp))) (parse_exponent CHR ''p'' s2))"

text \<open>\<open>ParseFloat(s, 64)\<close>; None is an error, which includes a value too large for a float64.\<close>

definition parse_float :: "string \<Rightarrow> go_float option" where
  "parse_float s0 =
    (let neg = (s0 \<noteq> [] \<and> hd s0 = CHR ''-''); s = unsigned s0; ls = lower_ascii s;
         digits = filter (\<lambda>c. c \<noteq> CHR ''_'') s;
         hex = (lower_ascii (take 2 digits) = ''0x'' \<and> length digits > 2)
     in if ls = ''inf'' \<or> ls = ''infinity'' then Some (FInf neg)
        else if ls = ''nan'' \<and> s = s0 then Some FNaN
        else if CHR ''_'' \<in> set s0 \<and> \<not> underscoreOK s0 then None
        else case (if hex then hex_literal (drop 2 digits) else decimal_literal digits) of None \<Rightarrow> None
          | Some (m, ex) \<Rightarrow>
             (let b = (if hex then 2 else 10);
                  (n, d) = (if ex \<ge> 0 then round53 (m * b ^ nat ex) 1 else round53 m (b ^ nat (- ex)))
              in if n \<ge> 2 ^ 1024 * d then None else Some (Fin neg n d)))"

text \<open>\<open>parsePercent\<close>: the sign \<open>%\<close> is optional, everything malformed is zero.\<close>

definition parsePercent :: "string \<Rightarrow> go_float" where
  "parsePercent s0 =
    (let s = trim_space (trim_suffix ''%'' (trim_space s0))
     in if s = [] then Fin False 0 1
        else case parse_float s of None \<Rightarrow> Fin False 0 1 | Some f \<Rightarrow> f)"

text \<open>\<open>float64(failed) / float64(total) * 100\<close>: two roundings.\<close>

definition fail_rate :: "nat \<Rightarrow> nat \<Rightarrow> int \<times> int" where
  "fail_rate failed hosts =
    (if hosts > 0 then (let (a, b) = round53 (int failed) (int hosts) in round53 (a * 100) b) else (0, 1))"

definition rate_exceeds :: "int \<times> int \<Rightarrow> go_float \<Rightarrow> bool" where
  "rate_exceeds r f = (case f of FNaN \<Rightarrow> False | FInf neg \<Rightarrow> neg
     | Fin neg n d \<Rightarrow> (if neg then n > 0 \<or> fst r > 0 else fst r * d > n * snd r))"

end
