(* ===== verification/Orchestrator.thy ===== *)
theory Orchestrator
imports TargetOS TaskOps GoNum
begin

text \<open>
  \<open>internal/logic/task/orchestrator.go\<close> and \<open>platform_env.go\<close>: the loop that advances running tasks batch
  by batch. The advisory lock makes rounds of different replicas exclusive; inside a round every
  statement or small transaction below is one atomic step, and agents' requests may run between
  them. \<open>advance\<close> is the round for one task; \<open>urlp\<close> is \<open>net/url\<close>, \<open>stamp\<close> the time of the log line.
\<close>

section \<open>Platform environment\<close>

abbreviation "legacyPlatformEnv \<equiv> ''UPGRADE_MGR_SERVER''"
abbreviation "externalURLEnv \<equiv> ''UPGRADE_MGR_EXTERNAL_URL''"

definition externalURLValue :: "policy \<Rightarrow> string" where
  "externalURLValue pc = (case pc_external_url pc of None \<Rightarrow> [] | Some u \<Rightarrow> trim_right ''/'' (trim_space u))"

definition hostPlatformURL :: "policy \<Rightarrow> string \<Rightarrow> string" where
  "hostPlatformURL pc agentURL =
    (let u = trim_right ''/'' (trim_space agentURL) in if u \<noteq> [] then u else externalURLValue pc)"

definition appendEnv :: "string list \<Rightarrow> string \<Rightarrow> string \<Rightarrow> string list" where
  "appendEnv env key val =
    (if val = [] then env
     else if list_ex (\<lambda>kv. has_prefix (key @ ''='') kv) env then env
     else env @ [key @ ''='' @ val])"

definition appendPlatformEnv :: "string list \<Rightarrow> string \<Rightarrow> string \<Rightarrow> string list" where
  "appendPlatformEnv env platformURL externalURL =
    appendEnv (appendEnv env legacyPlatformEnv platformURL) externalURLEnv externalURL"

definition withPlatformEnv :: "command_spec \<Rightarrow> string \<Rightarrow> string \<Rightarrow> command_spec" where
  "withPlatformEnv spec platformURL externalURL =
    spec\<lparr>cs_env := appendPlatformEnv (cs_env spec) platformURL externalURL\<rparr>"

section \<open>Batches\<close>

definition batches_of :: "int \<Rightarrow> db \<Rightarrow> batch_row list" where
  "batches_of taskID d = sort_key tb_index (filter (\<lambda>b. tb_task_id b = taskID) (d_batches d))"

definition batch_over :: "string \<Rightarrow> bool" where
  "batch_over s = (s = ''success'' \<or> s = ''skipped'' \<or> s = ''canceled'')"

definition currentBatch :: "int \<Rightarrow> db \<Rightarrow> (int \<times> string) option" where
  "currentBatch taskID d = map_option (\<lambda>b. (tb_index b, tb_status b))
     (find (\<lambda>b. \<not> batch_over (tb_status b)) (batches_of taskID d))"

definition hasPendingBatchAfter :: "int \<Rightarrow> int \<Rightarrow> db \<Rightarrow> bool" where
  "hasPendingBatchAfter taskID batchIdx d =
    (rows_affected (\<lambda>b. tb_task_id b = taskID \<and> tb_index b > batchIdx \<and> tb_status b = ''pending'') (d_batches d) > 0)"

definition in_batch :: "int \<Rightarrow> int \<Rightarrow> task_host_row \<Rightarrow> bool" where
  "in_batch taskID batchIdx h = (th_task_id h = taskID \<and> th_batch_index h = batchIdx)"

definition thost_done :: "string \<Rightarrow> bool" where
  "thost_done s = (s \<in> set [''success'', ''failed'', ''rolled_back'', ''timeout'', ''skipped'', ''canceled''])"

definition thost_failed :: "string \<Rightarrow> bool" where
  "thost_failed s = (s \<in> set [''failed'', ''timeout'', ''canceled''])"

definition batchProgress :: "int \<Rightarrow> int \<Rightarrow> db \<Rightarrow> nat \<times> nat \<times> nat" where
  "batchProgress taskID batchIdx d =
    (let hs = filter (in_batch taskID batchIdx) (d_thosts d)
     in (length hs, rows_affected (\<lambda>h. thost_done (th_status h)) hs,
         rows_affected (\<lambda>h. thost_failed (th_status h)) hs))"

definition set_batch :: "time \<Rightarrow> string \<Rightarrow> batch_row \<Rightarrow> batch_row" where
  "set_batch now status b = b\<lparr>tb_status := status,
     tb_started_at := (case tb_started_at b of None \<Rightarrow> Some now | Some t \<Rightarrow> Some t),
     tb_finished_at := (if status = ''success'' \<or> status = ''failed'' then Some now else tb_finished_at b)\<rparr>"

definition markBatch :: "time \<Rightarrow> int \<Rightarrow> int \<Rightarrow> string \<Rightarrow> db \<Rightarrow> db" where
  "markBatch now taskID batchIdx status d = d\<lparr>d_batches :=
     upd_where (\<lambda>b. tb_task_id b = taskID \<and> tb_index b = batchIdx) (set_batch now status) (d_batches d)\<rparr>"

definition touch_task :: "time \<Rightarrow> string \<Rightarrow> task_row \<Rightarrow> task_row" where
  "touch_task now status t = t\<lparr>tk_status := status, tk_updated_at := now\<rparr>"

definition completeBatch :: "time \<Rightarrow> int \<Rightarrow> int \<Rightarrow> string \<Rightarrow> bool \<Rightarrow> bool \<Rightarrow> db \<Rightarrow> db" where
  "completeBatch now taskID batchIdx status rollback pauseTask d =
    (let d1 = markBatch now taskID batchIdx status d;
         d2 = (if rollback then d1\<lparr>d_thosts := upd_where (\<lambda>h. in_batch taskID batchIdx h \<and> th_status h = ''success'')
                  (\<lambda>h. h\<lparr>th_status := ''rolled_back''\<rparr>) (d_thosts d1)\<rparr> else d1)
     in if pauseTask then d2\<lparr>d_tasks := upd_where (\<lambda>t. tk_id t = taskID \<and> tk_status t = ''running'')
              (touch_task now ''paused'') (d_tasks d2)\<rparr> else d2)"

definition finish_status :: "string \<Rightarrow> task_host_row list \<Rightarrow> string" where
  "finish_status kind hs =
    (let failed = rows_affected (\<lambda>h. thost_failed (th_status h)) hs;
         success = rows_affected (\<lambda>h. th_status h = ''success'') hs
     in if failed > 0 \<or> (kind = ''command'' \<and> length hs > 0 \<and> success = 0) then ''failed'' else ''success'')"

definition finishTask :: "time \<Rightarrow> int \<Rightarrow> string \<Rightarrow> db \<Rightarrow> db" where
  "finishTask now taskID kind d =
    (let status = finish_status kind (filter (\<lambda>h. th_task_id h = taskID) (d_thosts d))
     in d\<lparr>d_tasks := upd_where (\<lambda>t. tk_id t = taskID \<and> (tk_status t = ''running'' \<or> tk_status t = ''paused''))
            (touch_task now status) (d_tasks d)\<rparr>)"

section \<open>Hosts\<close>

definition skip_thost :: "time \<Rightarrow> string \<Rightarrow> task_host_row \<Rightarrow> task_host_row" where
  "skip_thost now line h = h\<lparr>th_status := ''skipped'', th_finished_at := Some now, th_log := th_log h @ line\<rparr>"

definition markHostSkipped :: "time \<Rightarrow> int \<Rightarrow> db \<Rightarrow> db" where
  "markHostSkipped now thID d = d\<lparr>d_thosts :=
     upd_where (\<lambda>h. th_id h = thID \<and> th_status h = ''pending'') (skip_thost now []) (d_thosts d)\<rparr>"

definition markHostSkippedWithLog :: "time \<Rightarrow> string \<Rightarrow> int \<Rightarrow> string \<Rightarrow> db \<Rightarrow> db" where
  "markHostSkippedWithLog now stamp thID reason d = d\<lparr>d_thosts :=
     upd_where (\<lambda>h. th_id h = thID \<and> th_status h = ''pending'')
       (skip_thost now (bracket stamp @ reason @ [CHR 0x0A])) (d_thosts d)\<rparr>"

definition agentSupportsCommand :: "string \<Rightarrow> db \<Rightarrow> bool" where
  "agentSupportsCommand agentID d = (case find_agent agentID d of None \<Rightarrow> False
     | Some a \<Rightarrow> HasCapability (ag_capabilities a) AgentCapabilityRunCommand)"

definition run_thost :: "time \<Rightarrow> task_host_row \<Rightarrow> task_host_row" where
  "run_thost now h = h\<lparr>th_status := ''running'',
     th_started_at := (case th_started_at h of None \<Rightarrow> Some now | Some t \<Rightarrow> Some t)\<rparr>"

definition take_thost :: "time \<Rightarrow> int \<Rightarrow> db \<Rightarrow> db" where
  "take_thost now thID d = d\<lparr>d_thosts :=
     upd_where (\<lambda>h. th_id h = thID \<and> th_status h = ''pending'') (run_thost now) (d_thosts d)\<rparr>"

definition new_command ::
    "time \<Rightarrow> int \<Rightarrow> int option \<Rightarrow> int option \<Rightarrow> int \<Rightarrow> string \<Rightarrow> string \<Rightarrow> command_payload \<Rightarrow> time option \<Rightarrow> command_row" where
  "new_command now cid task th host agent typ pl expire = \<lparr>cm_id = cid, cm_task_id = task,
     cm_task_host_id = th, cm_host_id = host, cm_agent_id = agent, cm_type = typ, cm_payload = pl,
     cm_status = CmdPending, cm_attempts = 0, cm_lease_expire_at = None, cm_expire_at = expire,
     cm_result = None, cm_log = [], cm_created_at = now, cm_dispatched_at = None, cm_started_at = None,
     cm_finished_at = None, cm_last_stage = [], cm_last_stage_at = None\<rparr>"

definition insert_command :: "command_row \<Rightarrow> db \<Rightarrow> db" where
  "insert_command c d = d\<lparr>d_cmds := d_cmds d @ [c], d_next_cmd := d_next_cmd d + 1\<rparr>"

definition host_has_active :: "int \<Rightarrow> db \<Rightarrow> bool" where
  "host_has_active thID d = exists_row (\<lambda>c. cm_task_host_id c = Some thID \<and> is_active (cm_status c)) (d_cmds d)"

text \<open>One transaction: the host row is locked, the command written, the row marked running.\<close>

definition dispatchHostWithType ::
    "time \<Rightarrow> int \<Rightarrow> int \<Rightarrow> int \<Rightarrow> string \<Rightarrow> string \<Rightarrow> command_payload \<Rightarrow> db \<Rightarrow> bool \<times> db" where
  "dispatchHostWithType now taskID thID hostID agentID cmdType pl d =
    (case find_thost thID d of None \<Rightarrow> (False, d) | Some h \<Rightarrow>
      (if th_status h \<noteq> ''pending'' then (False, d)
       else case find_task taskID d of None \<Rightarrow> (False, d) | Some t \<Rightarrow>
        (if tk_status t \<noteq> ''running'' then (False, d)
         else if host_has_active thID d then (False, take_thost now thID d)
         else (True, take_thost now thID (insert_command
                (new_command now (d_next_cmd d) (Some taskID) (Some thID) hostID agentID cmdType pl
                   (Some (now + hours 2))) d)))))"

definition dispatchHost :: "time \<Rightarrow> int \<Rightarrow> int \<Rightarrow> int \<Rightarrow> string \<Rightarrow> command_payload \<Rightarrow> db \<Rightarrow> bool \<times> db" where
  "dispatchHost now taskID thID hostID agentID pl d =
    dispatchHostWithType now taskID thID hostID agentID CmdUpgradeComponent pl d"

section \<open>Artifacts\<close>

definition scriptArtifact :: "component_spec \<Rightarrow> string \<Rightarrow> string \<Rightarrow> string \<Rightarrow> artifact option" where
  "scriptArtifact spec version arch osFamily =
    (if sp_deploy_mode spec \<noteq> DeployScript \<and> sp_deploy_mode spec \<noteq> DeployExec then None
     else if sp_script_url spec = [] then None
     else Some (empty_artifact\<lparr>ar_version := version, ar_arch := arch, ar_os_family := osFamily\<rparr>))"

text \<open>\<open>Repo.Find\<close> of the artifact package: an exact architecture before \<open>all\<close>, then an exact system.\<close>

definition artifact_find :: "scope \<Rightarrow> int \<Rightarrow> string \<Rightarrow> string \<Rightarrow> string \<Rightarrow> db \<Rightarrow> artifact_row option" where
  "artifact_find sc compID version arch osFamily d =
    min_row (\<lambda>a. (if af_arch a = arch then 0 else 2) + (if af_os_family a = osFamily then 0 else 1))
      (\<lambda>a. af_component_id a = compID \<and> af_version a = version \<and> (af_arch a = arch \<or> af_arch a = ''all'') \<and>
           (af_os_family a = osFamily \<or> af_os_family a = []) \<and> scope_where sc (af_tenant a)) (d_arts d)"

definition found_artifact :: "artifact_row \<Rightarrow> artifact" where
  "found_artifact f = \<lparr>ar_id = af_id f, ar_version = af_version f, ar_arch = af_arch f,
     ar_os_family = af_os_family f, ar_url = ''/api/artifacts/'' @ int_dec (af_id f) @ ''/download'',
     ar_md5 = af_md5 f, ar_sha256 = af_sha256 f, ar_size = af_size f, ar_inner_path = af_inner_path f\<rparr>"

section \<open>Dispatching a batch\<close>

definition txt_os_a :: string where "txt_os_a = [CHR 0x20, CHR 0xE4, CHR 0xBB, CHR 0xBB, CHR 0xE5, CHR 0x8A, CHR 0xA1, CHR 0xE4, CHR 0xB8, CHR 0x8D, CHR 0xE5, CHR 0x9C, CHR 0xA8, CHR 0x20]"
definition txt_os_b :: string where "txt_os_b = [CHR 0x20, CHR 0xE4, CHR 0xB8, CHR 0xBB, CHR 0xE6, CHR 0x9C, CHR 0xBA, CHR 0xE4, CHR 0xB8, CHR 0x8A, CHR 0xE6, CHR 0x89, CHR 0xA7, CHR 0xE8, CHR 0xA1, CHR 0x8C, CHR 0xEF, CHR 0xBC, CHR 0x8C, CHR 0xE5, CHR 0xB7, CHR 0xB2, CHR 0xE8, CHR 0xB7, CHR 0xB3, CHR 0xE8, CHR 0xBF, CHR 0x87]"
definition txt_offline_a :: string where "txt_offline_a = [CHR 0xE4, CHR 0xB8, CHR 0xBB, CHR 0xE6, CHR 0x9C, CHR 0xBA, CHR 0xE7, CHR 0xA6, CHR 0xBB, CHR 0xE7, CHR 0xBA, CHR 0xBF, CHR 0xEF, CHR 0xBC, CHR 0x88, CHR 0xE5, CHR 0xBF, CHR 0x83, CHR 0xE8, CHR 0xB7, CHR 0xB3, CHR 0xE8, CHR 0xB6, CHR 0x85, CHR 0xE8, CHR 0xBF, CHR 0x87, CHR 0x20]"
definition txt_offline_b :: string where "txt_offline_b = [CHR 0x20, CHR 0xE6, CHR 0x9C, CHR 0xAA, CHR 0xE6, CHR 0x9B, CHR 0xB4, CHR 0xE6, CHR 0x96, CHR 0xB0, CHR 0xEF, CHR 0xBC, CHR 0x89, CHR 0xEF, CHR 0xBC, CHR 0x8C, CHR 0xE5, CHR 0xB7, CHR 0xB2, CHR 0xE8, CHR 0xB7, CHR 0xB3, CHR 0xE8, CHR 0xBF, CHR 0x87]"
definition txt_exec_off :: string where "txt_exec_off = [CHR 0xE6, CHR 0x9C, CHR 0x8D, CHR 0xE5, CHR 0x8A, CHR 0xA1, CHR 0xE7, CHR 0xAB, CHR 0xAF, CHR 0xE5, CHR 0xB7, CHR 0xB2, CHR 0xE7, CHR 0xA6, CHR 0x81, CHR 0xE7, CHR 0x94, CHR 0xA8, CHR 0xE5, CHR 0x91, CHR 0xBD, CHR 0xE4, CHR 0xBB, CHR 0xA4, CHR 0xE6, CHR 0x89, CHR 0xA7, CHR 0xE8, CHR 0xA1, CHR 0x8C, CHR 0xEF, CHR 0xBC, CHR 0x88, CHR 0x61, CHR 0x67, CHR 0x65, CHR 0x6E, CHR 0x74, CHR 0x2E, CHR 0x61, CHR 0x6C, CHR 0x6C, CHR 0x6F, CHR 0x77, CHR 0x5F, CHR 0x65, CHR 0x78, CHR 0x65, CHR 0x63, CHR 0x5F, CHR 0x6D, CHR 0x6F, CHR 0x64, CHR 0x65, CHR 0x3D, CHR 0x66, CHR 0x61, CHR 0x6C, CHR 0x73, CHR 0x65, CHR 0xEF, CHR 0xBC, CHR 0x89, CHR 0xEF, CHR 0xBC, CHR 0x8C, CHR 0xE5, CHR 0xB7, CHR 0xB2, CHR 0xE8, CHR 0xB7, CHR 0xB3, CHR 0xE8, CHR 0xBF, CHR 0x87]"
definition txt_old_agent :: string where "txt_old_agent = [CHR 0x41, CHR 0x67, CHR 0x65, CHR 0x6E, CHR 0x74, CHR 0x20, CHR 0xE7, CHR 0x89, CHR 0x88, CHR 0xE6, CHR 0x9C, CHR 0xAC, CHR 0xE8, CHR 0xBF, CHR 0x87, CHR 0xE4, CHR 0xBD, CHR 0x8E, CHR 0xEF, CHR 0xBC, CHR 0x8C, CHR 0xE4, CHR 0xB8, CHR 0x8D, CHR 0xE6, CHR 0x94, CHR 0xAF, CHR 0xE6, CHR 0x8C, CHR 0x81, CHR 0xE6, CHR 0x89, CHR 0xA7, CHR 0xE8, CHR 0xA1, CHR 0x8C, CHR 0xE5, CHR 0x91, CHR 0xBD, CHR 0xE4, CHR 0xBB, CHR 0xA4, CHR 0xE4, CHR 0xBB, CHR 0xBB, CHR 0xE5, CHR 0x8A, CHR 0xA1, CHR 0xEF, CHR 0xBC, CHR 0x9B, CHR 0xE8, CHR 0xAF, CHR 0xB7, CHR 0xE5, CHR 0x85, CHR 0x88, CHR 0xE5, CHR 0x8D, CHR 0x87, CHR 0xE7, CHR 0xBA, CHR 0xA7, CHR 0x20, CHR 0x41, CHR 0x67, CHR 0x65, CHR 0x6E, CHR 0x74]"

definition offline_after :: "policy \<Rightarrow> string \<times> time" where
  "offline_after pc =
    (let txt = (case pc_offline_after pc of None \<Rightarrow> ''1m'' | Some s \<Rightarrow> s);
         v = (case parse_duration (trim_space txt) of None \<Rightarrow> 0 | Some x \<Rightarrow> x)
     in (txt, if v < second then minutes 1 else v))"

text \<open>What is sent: a component with its specification and target, or a command.\<close>

datatype job = ComponentJob component_spec string | CommandJob command_spec string

fun job_target :: "job \<Rightarrow> string" where
  "job_target (ComponentJob spec os) = os"
| "job_target (CommandJob spec os) = os"

definition plan_job ::
    "(string \<Rightarrow> (string \<times> string) option) \<Rightarrow> policy \<Rightarrow> int \<Rightarrow> int \<Rightarrow> string \<Rightarrow> command_spec \<Rightarrow> db \<Rightarrow> task_error + job" where
  "plan_job urlp pc compID tenantID kind command d =
    (if kind = ''command'' then Inr (CommandJob command (commandTargetOS command))
     else case comp_get (scope_new tenantID False) compID d of
        None \<Rightarrow> Inl ComponentNotFound
      | Some c \<Rightarrow>
         (if \<not> pc_allow_exec pc \<and> sp_deploy_mode (toComponentSpec c) \<in> set [DeployExec, DeployReplaceExec, DeployScript]
          then Inl ModeForbidden
          else Inr (ComponentJob (toComponentSpec c) (componentTargetOS urlp c))))"

definition component_payload ::
    "policy \<Rightarrow> component_spec \<Rightarrow> string \<Rightarrow> int \<Rightarrow> int \<Rightarrow> host_row \<Rightarrow> db \<Rightarrow> command_payload option" where
  "component_payload pc cspec version compID tenantID h d =
    (let arch = (if ho_arch h = [] then ''amd64'' else ho_arch h);
         art = (case scriptArtifact cspec version arch (ho_os_family h) of Some a \<Rightarrow> Some a
           | None \<Rightarrow> (case artifact_find (scope_new tenantID False) compID version arch (ho_os_family h) d of
                Some f \<Rightarrow> Some (found_artifact f)
              | None \<Rightarrow> if sp_deploy_mode cspec = DeployExec then Some empty_artifact else None))
     in map_option (\<lambda>a. \<lparr>pl_component = cspec\<lparr>sp_exec_env := appendPlatformEnv (sp_exec_env cspec)
                           (hostPlatformURL pc (ho_agent_server_url h)) (externalURLValue pc)\<rparr>,
                        pl_artifact = a, pl_to_version = version, pl_rollback_to = [], pl_command = None\<rparr>) art)"

definition command_payload_for :: "policy \<Rightarrow> command_spec \<Rightarrow> string \<Rightarrow> host_row \<Rightarrow> command_payload" where
  "command_payload_for pc spec version h = \<lparr>pl_component = empty_component_spec, pl_artifact = empty_artifact,
     pl_to_version = version, pl_rollback_to = [],
     pl_command = Some (withPlatformEnv spec (hostPlatformURL pc (ho_agent_server_url h)) (externalURLValue pc))\<rparr>"

text \<open>One host of the batch, with the host row read before the loop.\<close>

definition dispatch_one ::
    "policy \<Rightarrow> time \<Rightarrow> string \<Rightarrow> int \<Rightarrow> int \<Rightarrow> string \<Rightarrow> int \<Rightarrow> job \<Rightarrow> int \<times> host_row \<Rightarrow> db \<Rightarrow> db" where
  "dispatch_one pc now stamp taskID compID version tenantID jb r d = (case r of (thID, h) \<Rightarrow>
    (let (offText, off) = offline_after pc
     in if ho_agent_id h = [] then markHostSkipped now thID d
        else if osMismatch (job_target jb) (ho_os_family h) then
          markHostSkippedWithLog now stamp thID
            (osLabel (job_target jb) @ txt_os_a @ osLabel (hostOS (ho_os_family h)) @ txt_os_b) d
        else if (case ho_last_seen h of None \<Rightarrow> True | Some seen \<Rightarrow> now - seen > off) then
          markHostSkippedWithLog now stamp thID (txt_offline_a @ offText @ txt_offline_b) d
        else case jb of
           CommandJob spec os \<Rightarrow>
             (if \<not> pc_allow_exec pc then markHostSkippedWithLog now stamp thID txt_exec_off d
              else if \<not> agentSupportsCommand (ho_agent_id h) d then markHostSkippedWithLog now stamp thID txt_old_agent d
              else snd (dispatchHostWithType now taskID thID (ho_id h) (ho_agent_id h) CmdRunCommand
                          (command_payload_for pc spec version h) d))
         | ComponentJob cspec os \<Rightarrow>
             (case component_payload pc cspec version compID tenantID h d of
                None \<Rightarrow> markHostSkipped now thID d
              | Some pl \<Rightarrow> snd (dispatchHost now taskID thID (ho_id h) (ho_agent_id h) pl d))))"

definition batch_targets :: "int \<Rightarrow> int \<Rightarrow> db \<Rightarrow> (int \<times> host_row) list" where
  "batch_targets taskID batchIdx d = concat (map (\<lambda>h. case find_host (th_host_id h) d of None \<Rightarrow> []
       | Some ho \<Rightarrow> [(th_id h, ho)])
     (sort_key th_id (filter (\<lambda>h. in_batch taskID batchIdx h \<and> th_status h = ''pending'') (d_thosts d))))"

definition dispatchBatch ::
    "(string \<Rightarrow> (string \<times> string) option) \<Rightarrow> policy \<Rightarrow> time \<Rightarrow> string \<Rightarrow> int \<Rightarrow> int \<Rightarrow> string \<Rightarrow> int \<Rightarrow> int \<Rightarrow> string \<Rightarrow>
     command_spec \<Rightarrow> db \<Rightarrow> unit task_op" where
  "dispatchBatch urlp pc now stamp taskID compID version batchIdx tenantID kind command d =
    (case plan_job urlp pc compID tenantID kind command d of
       Inl e \<Rightarrow> (Inl e, d)
     | Inr jb \<Rightarrow>
        (let d1 = fold (dispatch_one pc now stamp taskID compID version tenantID jb) (batch_targets taskID batchIdx d) d
         in (Inr (), if exists_row (\<lambda>h. in_batch taskID batchIdx h \<and> th_status h = ''pending'') (d_thosts d1) then d1
                     else markBatch now taskID batchIdx ''running'' d1)))"

section \<open>One round\<close>

definition advance_running :: "time \<Rightarrow> int \<Rightarrow> int \<Rightarrow> strategy \<Rightarrow> string \<Rightarrow> bool \<Rightarrow> db \<Rightarrow> db" where
  "advance_running now taskID batchIdx st kind paused d =
    (case batchProgress taskID batchIdx d of (n, finished, failed) \<Rightarrow>
      (if finished < n then d
       else
        (let lastBatch = (\<not> hasPendingBatchAfter taskID batchIdx d);
             autoAdvance = (st_auto_promote st \<and> \<not> paused);
             d1 = (if rate_exceeds (fail_rate failed n) (parsePercent (st_failure_threshold st))
                   then completeBatch now taskID batchIdx ''failed'' (st_auto_rollback st) (\<not> paused \<and> \<not> lastBatch) d
                   else completeBatch now taskID batchIdx ''success'' False (\<not> autoAdvance \<and> \<not> lastBatch) d)
         in if lastBatch then finishTask now taskID kind d1 else d1)))"

definition advance ::
    "(string \<Rightarrow> (string \<times> string) option) \<Rightarrow> policy \<Rightarrow> time \<Rightarrow> string \<Rightarrow> task_row \<Rightarrow> db \<Rightarrow> unit task_op" where
  "advance urlp pc now stamp t d =
    (case currentBatch (tk_id t) d of
       None \<Rightarrow> (Inr (), finishTask now (tk_id t) (tk_kind t) d)
     | Some (batchIdx, batchStatus) \<Rightarrow>
        (if batchStatus = ''pending'' then
           (if tk_status t = ''paused'' then (Inr (), d)
            else dispatchBatch urlp pc now stamp (tk_id t)
                   (case tk_component_id t of None \<Rightarrow> 0 | Some c \<Rightarrow> c) (tk_version t) batchIdx (tk_tenant t)
                   (tk_kind t) (tk_command t) d)
         else if batchStatus = ''running'' then
           (Inr (), advance_running now (tk_id t) batchIdx (tk_strategy t) (tk_kind t) (tk_status t = ''paused'') d)
         else (Inr (), d)))"

text \<open>\<open>tick\<close>: reconcile, then advance every task that was running or paused, errors being logged only.\<close>

definition tick ::
    "(db \<Rightarrow> db) option \<Rightarrow> (string \<Rightarrow> (string \<times> string) option) \<Rightarrow> policy \<Rightarrow> time \<Rightarrow> string \<Rightarrow> db \<Rightarrow> db" where
  "tick reconcile urlp pc now stamp d =
    (let d1 = (case reconcile of None \<Rightarrow> d | Some f \<Rightarrow> f d)
     in fold (\<lambda>t. snd \<circ> advance urlp pc now stamp t)
          (filter (\<lambda>t. tk_status t = ''running'' \<or> tk_status t = ''paused'') (d_tasks d1)) d1)"

end
