(* ===== verification/Signer.thy ===== *)
theory Signer
imports Protocol
begin

text \<open>
  \<open>internal/pkg/signer/signer.go\<close>: the signed envelope of a command. The keyed hash (HMAC-SHA256 in
  hexadecimal) is a parameter of the model, so every property holds for any hash.
\<close>

record envelope =
  en_method :: string
  en_path :: string
  en_body :: string
  en_timestamp :: int
  en_nonce :: string

definition signed_bytes :: "envelope \<Rightarrow> string" where
  "signed_bytes e = en_method e @ [CHR 0x0A] @ en_path e @ [CHR 0x0A] @ en_body e @ [CHR 0x0A] @
     int_dec (en_timestamp e) @ [CHR 0x0A] @ en_nonce e"

definition Sign :: "(string \<Rightarrow> string \<Rightarrow> string) \<Rightarrow> string \<Rightarrow> envelope \<Rightarrow> string" where
  "Sign hmac secret e = hmac secret (signed_bytes e)"

datatype sign_error = MissingNonce | SignatureMismatch | TimestampOutOfWindow

text \<open>\<open>time.Now().Unix()\<close> is the argument \<open>now\<close>, \<open>skew\<close> a duration.\<close>

definition Verify ::
    "(string \<Rightarrow> string \<Rightarrow> string) \<Rightarrow> int \<Rightarrow> string \<Rightarrow> string \<Rightarrow> envelope \<Rightarrow> time \<Rightarrow> sign_error option" where
  "Verify hmac now secret signature e skew =
    (if trim_space (en_nonce e) = [] then Some MissingNonce
     else if Sign hmac secret e \<noteq> signature then Some SignatureMismatch
     else let skewSec = go_quot skew second
          in if en_timestamp e < now - skewSec \<or> en_timestamp e > now + skewSec
             then Some TimestampOutOfWindow else None)"

lemma Verify_Sign:
  assumes "trim_space (en_nonce e) \<noteq> []" and "0 \<le> skew" and "en_timestamp e = now"
  shows "Verify hmac now secret (Sign hmac secret e) e skew = None"
proof -
  have "0 \<le> go_quot skew second"
    using assms(2) by (auto simp: go_quot_def second_def sgn_if)
  then show ?thesis using assms by (simp add: Verify_def)
qed

lemma Verify_accepts:
  assumes "Verify hmac now secret sg e skew = None"
  shows "sg = Sign hmac secret e \<and> trim_space (en_nonce e) \<noteq> [] \<and>
    \<bar>en_timestamp e - now\<bar> \<le> go_quot skew second"
  using assms by (auto simp: Verify_def Let_def split: if_splits)

text \<open>
  The five fields are joined by newlines, so the bytes that are hashed determine the envelope when
  no field but the last contains one.
\<close>

lemma int_dec_chars: "c \<in> set (int_dec i) \<Longrightarrow> c = CHR ''-'' \<or> 48 \<le> byte c \<and> byte c \<le> 57"
  by (auto simp: int_dec_def dest: nat_dec_digits split: if_splits)

lemma newline_not_in_int_dec: "CHR 0x0A \<notin> set (int_dec i)"
  using int_dec_chars [of "CHR 0x0A" i] by (auto simp: byte_def)

lemma signed_bytes_inject:
  assumes eq: "signed_bytes e = signed_bytes e'"
    and m: "CHR 0x0A \<notin> set (en_method e)" "CHR 0x0A \<notin> set (en_method e')"
    and p: "CHR 0x0A \<notin> set (en_path e)" "CHR 0x0A \<notin> set (en_path e')"
    and b: "CHR 0x0A \<notin> set (en_body e)" "CHR 0x0A \<notin> set (en_body e')"
  shows "e = e'"
proof -
  let ?n = "CHR 0x0A"
  have 0: "en_method e @ ?n # (en_path e @ ?n # (en_body e @ ?n # (int_dec (en_timestamp e) @ ?n # en_nonce e))) =
    en_method e' @ ?n # (en_path e' @ ?n # (en_body e' @ ?n # (int_dec (en_timestamp e') @ ?n # en_nonce e')))"
    using eq by (simp add: signed_bytes_def)
  from append_sep_inject [OF 0 m] have 1: "en_method e = en_method e'"
    and r1: "en_path e @ ?n # (en_body e @ ?n # (int_dec (en_timestamp e) @ ?n # en_nonce e)) =
      en_path e' @ ?n # (en_body e' @ ?n # (int_dec (en_timestamp e') @ ?n # en_nonce e'))" by auto
  from append_sep_inject [OF r1 p] have 2: "en_path e = en_path e'"
    and r2: "en_body e @ ?n # (int_dec (en_timestamp e) @ ?n # en_nonce e) =
      en_body e' @ ?n # (int_dec (en_timestamp e') @ ?n # en_nonce e')" by auto
  from append_sep_inject [OF r2 b] have 3: "en_body e = en_body e'"
    and r3: "int_dec (en_timestamp e) @ ?n # en_nonce e = int_dec (en_timestamp e') @ ?n # en_nonce e'" by auto
  from append_sep_inject [OF r3 newline_not_in_int_dec newline_not_in_int_dec] 1 2 3
  show ?thesis by simp
qed

end
