(* ===== verification/Gateway.thy ===== *)
theory Gateway
imports Contract Signer
begin

text \<open>
  \<open>internal/logic/agentgw/gateway.go\<close>: the agent side of a command's life. An agent takes the
  oldest pending command (\<open>Dequeue\<close>), acknowledges it (\<open>Ack\<close>), reports stages (\<open>UpdateStage\<close>) and
  a result (\<open>Report\<close>). A handler is a function from the database to its answer and the new
  database; it runs in one transaction, so it is one atomic step. The time of the database is
  \<open>now\<close>, the text \<open>time.Now().Format(...)\<close> that prefixes a log line is \<open>stamp\<close>.
\<close>

datatype gw_error =
    MissingCredential
  | AgentNotFound
  | BadCredential
  | CommandNotFound
  | MissingCommandID

type_synonym 'a gw = "(gw_error + 'a) \<times> db"

section \<open>Texts\<close>

definition txt_mismatch :: string where "txt_mismatch = [CHR 0xE7, CHR 0xAD, CHR 0xBE, CHR 0xE5, CHR 0x90, CHR 0x8D, CHR 0xE4, CHR 0xB8, CHR 0x8D, CHR 0xE5, CHR 0x8C, CHR 0xB9, CHR 0xE9, CHR 0x85, CHR 0x8D]"
definition txt_switch_a :: string where "txt_switch_a = [CHR 0xE6, CHR 0xA3, CHR 0x80, CHR 0xE6, CHR 0xB5, CHR 0x8B, CHR 0xE5, CHR 0x88, CHR 0xB0, CHR 0xE6, CHR 0x97, CHR 0xA7, CHR 0x20, CHR 0x41, CHR 0x67, CHR 0x65, CHR 0x6E, CHR 0x74, CHR 0x20, CHR 0xE7, CHR 0xAD, CHR 0xBE, CHR 0xE5, CHR 0x90, CHR 0x8D, CHR 0xE8, CHR 0xB7, CHR 0xAF, CHR 0xE5, CHR 0xBE, CHR 0x84, CHR 0xE4, CHR 0xB8, CHR 0x8D, CHR 0xE5, CHR 0x8C, CHR 0xB9, CHR 0xE9, CHR 0x85, CHR 0x8D, CHR 0xEF, CHR 0xBC, CHR 0x8C, CHR 0xE8, CHR 0x87, CHR 0xAA, CHR 0xE5, CHR 0x8A, CHR 0xA8, CHR 0xE5, CHR 0x88, CHR 0x87, CHR 0xE6, CHR 0x8D, CHR 0xA2, CHR 0x20, CHR 0x6C, CHR 0x65, CHR 0x67, CHR 0x61, CHR 0x63, CHR 0x79, CHR 0x20, CHR 0xE7, CHR 0xAD, CHR 0xBE, CHR 0xE5, CHR 0x90, CHR 0x8D, CHR 0xE4, CHR 0xB8, CHR 0xBA, CHR 0x20]"
definition txt_switch_b :: string where "txt_switch_b = [CHR 0x20, CHR 0xE5, CHR 0xB9, CHR 0xB6, CHR 0xE9, CHR 0x87, CHR 0x8D, CHR 0xE8, CHR 0xAF, CHR 0x95, CHR 0x0A]"
definition txt_rejected :: string where "txt_rejected = [CHR 0x41, CHR 0x67, CHR 0x65, CHR 0x6E, CHR 0x74, CHR 0x20, CHR 0xE6, CHR 0x8B, CHR 0x92, CHR 0xE7, CHR 0xBB, CHR 0x9D, CHR 0xE6, CHR 0x8C, CHR 0x87, CHR 0xE4, CHR 0xBB, CHR 0xA4, CHR 0xEF, CHR 0xBC, CHR 0x9A]"
definition txt_upgrade_ok :: string where "txt_upgrade_ok = [CHR 0xE5, CHR 0x8D, CHR 0x87, CHR 0xE7, CHR 0xBA, CHR 0xA7, CHR 0xE6, CHR 0x88, CHR 0x90, CHR 0xE5, CHR 0x8A, CHR 0x9F]"
definition txt_command_ok :: string where "txt_command_ok = [CHR 0xE5, CHR 0x91, CHR 0xBD, CHR 0xE4, CHR 0xBB, CHR 0xA4, CHR 0xE6, CHR 0x89, CHR 0xA7, CHR 0xE8, CHR 0xA1, CHR 0x8C, CHR 0xE5, CHR 0xAE, CHR 0x8C, CHR 0xE6, CHR 0x88, CHR 0x90]"
definition txt_current_version :: string where "txt_current_version = [CHR 0xE5, CHR 0xBD, CHR 0x93, CHR 0xE5, CHR 0x89, CHR 0x8D, CHR 0xE7, CHR 0x89, CHR 0x88, CHR 0xE6, CHR 0x9C, CHR 0xAC, CHR 0x3A]"
definition txt_stage :: string where "txt_stage = [CHR 0xE9, CHR 0x98, CHR 0xB6, CHR 0xE6, CHR 0xAE, CHR 0xB5, CHR 0x3A, CHR 0x20]"
definition txt_auto_a :: string where "txt_auto_a = [CHR 0xE6, CHR 0x9C, CHR 0x8D, CHR 0xE5, CHR 0x8A, CHR 0xA1, CHR 0xE7, CHR 0xAB, CHR 0xAF, CHR 0xE6, CHR 0xA0, CHR 0xB9, CHR 0xE6, CHR 0x8D, CHR 0xAE, CHR 0xE7, CHR 0xBB, CHR 0x88, CHR 0xE6, CHR 0x80, CHR 0x81, CHR 0xE9, CHR 0x98, CHR 0xB6, CHR 0xE6, CHR 0xAE, CHR 0xB5, CHR 0xE8, CHR 0x87, CHR 0xAA, CHR 0xE5, CHR 0x8A, CHR 0xA8, CHR 0xE6, CHR 0xA0, CHR 0x87, CHR 0xE8, CHR 0xAE, CHR 0xB0, CHR 0xE4, CHR 0xB8, CHR 0xBA, CHR 0x20]"
definition txt_auto_b :: string where "txt_auto_b = [CHR 0xEF, CHR 0xBC, CHR 0x88, CHR 0xE6, CHR 0x9C, CHR 0x80, CHR 0xE7, CHR 0xBB, CHR 0x88, CHR 0xE7, CHR 0xBB, CHR 0x93, CHR 0xE6, CHR 0x9E, CHR 0x9C, CHR 0xE4, CHR 0xB8, CHR 0x8A, CHR 0xE6, CHR 0x8A, CHR 0xA5, CHR 0xE4, CHR 0xBC, CHR 0x9A, CHR 0xE8, CHR 0x87, CHR 0xAA, CHR 0xE5, CHR 0x8A, CHR 0xA8, CHR 0xE8, CHR 0xA6, CHR 0x86, CHR 0xE7, CHR 0x9B, CHR 0x96, CHR 0x2F, CHR 0xE8, CHR 0xA1, CHR 0xA5, CHR 0xE5, CHR 0x85, CHR 0x85, CHR 0xEF, CHR 0xBC, CHR 0x89, CHR 0x0A]"
definition txt_unknown_stage :: string where "txt_unknown_stage = [CHR 0xE6, CHR 0x9C, CHR 0xAA, CHR 0xE7, CHR 0x9F, CHR 0xA5, CHR 0xE9, CHR 0x98, CHR 0xB6, CHR 0xE6, CHR 0xAE, CHR 0xB5]"
definition txt_bad_status_a :: string where "txt_bad_status_a = [CHR 0x41, CHR 0x67, CHR 0x65, CHR 0x6E, CHR 0x74, CHR 0x20, CHR 0xE4, CHR 0xB8, CHR 0x8A, CHR 0xE6, CHR 0x8A, CHR 0xA5, CHR 0xE4, CHR 0xBA, CHR 0x86, CHR 0xE6, CHR 0x9C, CHR 0xAA, CHR 0xE7, CHR 0x9F, CHR 0xA5, CHR 0xE7, CHR 0x8A, CHR 0xB6, CHR 0xE6, CHR 0x80, CHR 0x81, CHR 0x20]"
definition txt_bad_status_b :: string where "txt_bad_status_b = [CHR 0xEF, CHR 0xBC, CHR 0x8C, CHR 0xE6, CHR 0x8C, CHR 0x89, CHR 0xE5, CHR 0xA4, CHR 0xB1, CHR 0xE8, CHR 0xB4, CHR 0xA5, CHR 0xE5, CHR 0xA4, CHR 0x84, CHR 0xE7, CHR 0x90, CHR 0x86, CHR 0x0A]"

definition stageLabels :: "(string \<times> string) list" where
  "stageLabels =
    [(''accepted'', [CHR 0xE5, CHR 0xB7, CHR 0xB2, CHR 0xE6, CHR 0x8E, CHR 0xA5, CHR 0xE6, CHR 0x94, CHR 0xB6]),
     (''enter_maintenance'', [CHR 0xE8, CHR 0xBF, CHR 0x9B, CHR 0xE5, CHR 0x85, CHR 0xA5, CHR 0xE7, CHR 0xBB, CHR 0xB4, CHR 0xE6, CHR 0x8A, CHR 0xA4, CHR 0xE7, CHR 0xAA, CHR 0x97, CHR 0xE5, CHR 0x8F, CHR 0xA3]),
     (''downloading'', [CHR 0xE4, CHR 0xB8, CHR 0x8B, CHR 0xE8, CHR 0xBD, CHR 0xBD, CHR 0xE5, CHR 0x88, CHR 0xB6, CHR 0xE5, CHR 0x93, CHR 0x81]),
     (''downloaded'', [CHR 0xE4, CHR 0xB8, CHR 0x8B, CHR 0xE8, CHR 0xBD, CHR 0xBD, CHR 0xE5, CHR 0xAE, CHR 0x8C, CHR 0xE6, CHR 0x88, CHR 0x90]),
     (''pre_install'', [CHR 0xE5, CHR 0xAE, CHR 0x89, CHR 0xE8, CHR 0xA3, CHR 0x85, CHR 0xE5, CHR 0x89, CHR 0x8D, CHR 0xE6, CHR 0xA3, CHR 0x80, CHR 0xE6, CHR 0x9F, CHR 0xA5]),
     (''backup'', [CHR 0xE5, CHR 0xA4, CHR 0x87, CHR 0xE4, CHR 0xBB, CHR 0xBD, CHR 0xE5, CHR 0xBD, CHR 0x93, CHR 0xE5, CHR 0x89, CHR 0x8D, CHR 0xE7, CHR 0x89, CHR 0x88, CHR 0xE6, CHR 0x9C, CHR 0xAC]),
     (''stopping'', [CHR 0xE5, CHR 0x81, CHR 0x9C, CHR 0xE6, CHR 0xAD, CHR 0xA2, CHR 0xE6, CHR 0x9C, CHR 0x8D, CHR 0xE5, CHR 0x8A, CHR 0xA1]),
     (''replacing'', [CHR 0xE6, CHR 0x9B, CHR 0xBF, CHR 0xE6, CHR 0x8D, CHR 0xA2, CHR 0xE6, CHR 0x96, CHR 0x87, CHR 0xE4, CHR 0xBB, CHR 0xB6]),
     (''exec'', [CHR 0xE6, CHR 0x89, CHR 0xA7, CHR 0xE8, CHR 0xA1, CHR 0x8C, CHR 0xE5, CHR 0xAE, CHR 0x89, CHR 0xE8, CHR 0xA3, CHR 0x85]),
     (''run_command'', [CHR 0xE6, CHR 0x89, CHR 0xA7, CHR 0xE8, CHR 0xA1, CHR 0x8C, CHR 0xE5, CHR 0x91, CHR 0xBD, CHR 0xE4, CHR 0xBB, CHR 0xA4]),
     (''starting'', [CHR 0xE5, CHR 0x90, CHR 0xAF, CHR 0xE5, CHR 0x8A, CHR 0xA8, CHR 0xE6, CHR 0x9C, CHR 0x8D, CHR 0xE5, CHR 0x8A, CHR 0xA1]),
     (''verifying'', [CHR 0xE9, CHR 0xAA, CHR 0x8C, CHR 0xE8, CHR 0xAF, CHR 0x81, CHR 0xE7, CHR 0x89, CHR 0x88, CHR 0xE6, CHR 0x9C, CHR 0xAC]),
     (''post_install'', [CHR 0xE5, CHR 0xAE, CHR 0x89, CHR 0xE8, CHR 0xA3, CHR 0x85, CHR 0xE5, CHR 0x90, CHR 0x8E, CHR 0xE5, CHR 0xA4, CHR 0x84, CHR 0xE7, CHR 0x90, CHR 0x86]),
     (''rollback'', [CHR 0xE5, CHR 0x9B, CHR 0x9E, CHR 0xE6, CHR 0xBB, CHR 0x9A]),
     (''failed'', [CHR 0xE5, CHR 0xA4, CHR 0xB1, CHR 0xE8, CHR 0xB4, CHR 0xA5]),
     (''done'', [CHR 0xE5, CHR 0xAE, CHR 0x8C, CHR 0xE6, CHR 0x88, CHR 0x90])]"

definition stageLabel :: "string \<Rightarrow> string" where
  "stageLabel stage = (case map_of stageLabels stage of Some v \<Rightarrow> v
     | None \<Rightarrow> if stage = [] then txt_unknown_stage else stage)"

section \<open>Credentials and signing\<close>

definition VerifyToken :: "(string \<Rightarrow> string) \<Rightarrow> string \<Rightarrow> string \<Rightarrow> db \<Rightarrow> gw_error option" where
  "VerifyToken hash agentID token d =
    (if agentID = [] \<or> token = [] then Some MissingCredential
     else case find_agent agentID d of
        None \<Rightarrow> Some AgentNotFound
      | Some a \<Rightarrow> if hash token \<noteq> ag_token_hash a then Some BadCredential else None)"

record agent_signing =
  as_secret :: string
  as_legacy_mode :: string
  as_legacy_command_field :: bool
  as_uninstall_detect :: bool

definition AgentSigningInfo :: "string \<Rightarrow> db \<Rightarrow> agent_signing option" where
  "AgentSigningInfo agentID d = (case find_agent agentID d of None \<Rightarrow> None | Some a \<Rightarrow>
    (let caps = ag_capabilities a;
         hasRunCommand = HasCapability caps AgentCapabilityRunCommand;
         hasOptionalCommand = HasCapability caps AgentCapabilityOptionalCommand;
         legacy = (hasRunCommand \<and> \<not> hasOptionalCommand)
     in Some \<lparr>as_secret = ag_secret a,
          as_legacy_mode = PreferredLegacySignatureMode (split_on CHR '','' (ag_signature_modes a)),
          as_legacy_command_field =
            (if \<not> legacy \<and> \<not> hasOptionalCommand \<and> contains ''g512d1f9'' (ag_build_version a)
             then True else legacy),
          as_uninstall_detect = HasCapability caps AgentCapabilityUninstallDetect\<rparr>))"

definition isEmptyCommandSpec :: "command_spec \<Rightarrow> bool" where
  "isEmptyCommandSpec c =
    (cs_script c = [] \<and> cs_interpreter c = [] \<and> cs_args c = [] \<and> cs_env c = [] \<and>
     cs_work_dir c = [] \<and> cs_timeout c = [] \<and> cs_stdin c = [] \<and> \<not> cs_tty c \<and> \<not> cs_ignore_error c)"

section \<open>Dequeue\<close>

text \<open>
  The stored payload as it is sent: an empty command becomes absent, and the service name is
  stripped from an uninstall for an agent that does not recognise uninstalls.
\<close>

definition outgoing_payload :: "agent_signing \<Rightarrow> command_payload \<Rightarrow> command_payload" where
  "outgoing_payload sg p =
    (let p1 = (case pl_command p of Some c \<Rightarrow> if isEmptyCommandSpec c then p\<lparr>pl_command := None\<rparr> else p
               | None \<Rightarrow> p)
     in if \<not> as_uninstall_detect sg \<and> sp_service_name (pl_component p1) \<noteq> [] \<and>
           IsUninstallAction (sp_exec_args (pl_component p1))
        then p1\<lparr>pl_component := (pl_component p1)\<lparr>sp_service_name := []\<rparr>\<rparr> else p1)"

definition truncate_second :: "time \<Rightarrow> time" where
  "truncate_second t = t - t mod second"

text \<open>The signed command: \<open>marshal\<close> is \<open>json.Marshal\<close>, \<open>nonce\<close> the random nonce.\<close>

definition signed_command ::
    "(string \<Rightarrow> string \<Rightarrow> string) \<Rightarrow> (command_payload \<Rightarrow> string) \<Rightarrow> time \<Rightarrow> string \<Rightarrow> agent_signing \<Rightarrow>
     int \<Rightarrow> string \<Rightarrow> command_payload \<Rightarrow> time \<Rightarrow> command" where
  "signed_command hmac marshal now nonce sg cid typ stored lease =
    (let pl = outgoing_payload sg stored;
         cmd = \<lparr>co_id = int_dec cid, co_type = typ, co_payload = pl, co_timestamp = unix_seconds now,
                co_nonce = nonce, co_signature = [], co_signature_v2 = [],
                co_expire_at = truncate_second lease\<rparr>;
         canonical = (if as_legacy_command_field sg \<and> pl_command pl = None
                      then CanonicalPayloadWithLegacyCommand (marshal pl) else marshal pl);
         env = \<lparr>en_method = ''CMD'', en_path = [], en_body = canonical,
                en_timestamp = co_timestamp cmd, en_nonce = co_nonce cmd\<rparr>;
         path1 = (if as_legacy_mode sg = SignatureModeSignedPath then SignedPath cmd else co_id cmd)
     in cmd\<lparr>co_signature := Sign hmac (as_secret sg) (env\<lparr>en_path := path1\<rparr>),
            co_signature_v2 := Sign hmac (as_secret sg) (env\<lparr>en_path := SignedPath cmd\<rparr>)\<rparr>)"

definition dequeue_ready :: "time \<Rightarrow> string \<Rightarrow> command_row \<Rightarrow> bool" where
  "dequeue_ready now agentID c = (cm_agent_id c = agentID \<and> cm_status c = CmdPending \<and>
     (case cm_expire_at c of None \<Rightarrow> True | Some e \<Rightarrow> e > now))"

definition mark_dispatched :: "time \<Rightarrow> command_row \<Rightarrow> command_row" where
  "mark_dispatched now c = c\<lparr>cm_status := CmdDispatched, cm_dispatched_at := Some now,
     cm_lease_expire_at := Some (now + minutes 30), cm_attempts := cm_attempts c + 1\<rparr>"

text \<open>
  \<open>locked\<close> are the rows other transactions hold locks on: \<open>SKIP LOCKED\<close> passes over them. A signing
  lookup that finds no agent row is an error after the commit: the command stays dispatched.
\<close>

definition Dequeue ::
    "(string \<Rightarrow> string \<Rightarrow> string) \<Rightarrow> (command_payload \<Rightarrow> string) \<Rightarrow> (int \<Rightarrow> bool) \<Rightarrow> time \<Rightarrow> string \<Rightarrow>
     string \<Rightarrow> db \<Rightarrow> command option gw" where
  "Dequeue hmac marshal locked now nonce agentID d =
    (case min_row cm_id (\<lambda>c. dequeue_ready now agentID c \<and> \<not> locked (cm_id c)) (d_cmds d) of
       None \<Rightarrow> (Inr None, d)
     | Some c \<Rightarrow>
        (let d1 = d\<lparr>d_cmds := upd_where (\<lambda>r. cm_id r = cm_id c) (mark_dispatched now) (d_cmds d)\<rparr>
         in case AgentSigningInfo agentID d1 of
              None \<Rightarrow> (Inl AgentNotFound, d1)
            | Some sg \<Rightarrow> (Inr (Some (signed_command hmac marshal now nonce sg
                 (cm_id c) (cm_type c) (cm_payload c) (now + minutes 30))), d1)))"

section \<open>Ack\<close>

definition accept_cmd :: "command_row \<Rightarrow> command_row" where
  "accept_cmd c = c\<lparr>cm_status := CmdAccepted\<rparr>"

definition requeue_cmd :: "string \<Rightarrow> command_row \<Rightarrow> command_row" where
  "requeue_cmd line c = c\<lparr>cm_status := CmdPending, cm_dispatched_at := None,
     cm_lease_expire_at := None, cm_log := cm_log c @ line\<rparr>"

definition reject_cmd :: "time \<Rightarrow> string \<Rightarrow> command_row \<Rightarrow> command_row" where
  "reject_cmd now line c = c\<lparr>cm_status := CmdFailed, cm_finished_at := Some now,
     cm_log := cm_log c @ line\<rparr>"

definition flipped_mode :: "string \<Rightarrow> string" where
  "flipped_mode m = (if m = SignatureModeSignedPath then SignatureModeID else SignatureModeSignedPath)"

text \<open>The single legacy mode a rejected signature switches away from, if the switch applies.\<close>

definition switchable_mode :: "int \<Rightarrow> string \<Rightarrow> string \<Rightarrow> db \<Rightarrow> string option" where
  "switchable_mode attempts reason agentID d =
    (if attempts \<le> 1 \<and> contains txt_mismatch reason then
       (case find_agent agentID d of None \<Rightarrow> None | Some a \<Rightarrow>
         (case NormalizeSignatureModes (split_on CHR '','' (ag_signature_modes a)) of
            [m] \<Rightarrow> if m = SignatureModeID \<or> m = SignatureModeSignedPath then Some m else None
          | _ \<Rightarrow> None))
     else None)"

definition Ack ::
    "time \<Rightarrow> string \<Rightarrow> string \<Rightarrow> int \<Rightarrow> string \<Rightarrow> string \<Rightarrow> db \<Rightarrow> unit gw" where
  "Ack now stamp agentID cmdID status reason d =
    (case find (\<lambda>c. cm_id c = cmdID \<and> cm_agent_id c = agentID) (d_cmds d) of
       None \<Rightarrow> (Inl CommandNotFound, d)
     | Some c \<Rightarrow>
        (if cm_status c \<noteq> CmdDispatched then (Inl CommandNotFound, d)
         else if status \<noteq> ''rejected'' then
           (Inr (), d\<lparr>d_cmds := upd_where (\<lambda>r. cm_id r = cmdID) accept_cmd (d_cmds d)\<rparr>)
         else case switchable_mode (cm_attempts c) reason agentID d of
            Some m \<Rightarrow>
              (let line = bracket stamp @ txt_switch_a @ flipped_mode m @ txt_switch_b
               in (Inr (), d\<lparr>d_agents := upd_where (\<lambda>a. ag_agent_id a = agentID)
                               (\<lambda>a. a\<lparr>ag_signature_modes := flipped_mode m\<rparr>) (d_agents d),
                           d_cmds := upd_where (\<lambda>r. cm_id r = cmdID) (requeue_cmd line) (d_cmds d)\<rparr>))
          | None \<Rightarrow>
              (let line = bracket stamp @ txt_rejected @ truncateReason reason @ [CHR 0x0A]
               in (Inr (), d\<lparr>d_cmds := upd_where (\<lambda>r. cm_id r = cmdID) (reject_cmd now line) (d_cmds d)\<rparr>))))"

section \<open>Maintenance window\<close>

definition EnterMaintenance :: "time \<Rightarrow> string \<Rightarrow> int \<Rightarrow> db \<Rightarrow> db" where
  "EnterMaintenance now agentID expectedSeconds d =
    (let secs = (if expectedSeconds \<le> 0 then 600 else expectedSeconds);
         until = now + i64 (i64 (secs + 120) * second);
         limit = now + hours 1;
         until' = (if until > limit then limit else until)
     in d\<lparr>d_hosts := upd_where (\<lambda>h. ho_agent_id h = agentID)
           (\<lambda>h. h\<lparr>ho_maintenance_until := Some until', ho_maintenance_reason := ''upgrading'',
                  ho_agent_status := ''upgrading''\<rparr>) (d_hosts d)\<rparr>)"


section \<open>Stages\<close>

definition stage_line :: "string \<Rightarrow> string \<Rightarrow> string \<Rightarrow> string" where
  "stage_line stamp stage message =
    (if stage = StageRunCommand then message
     else bracket stamp @ txt_stage @ stageLabel stage @
          (if message \<noteq> [] then '' - '' @ message else []) @ [CHR 0x0A])"

definition renew_lease :: "time \<Rightarrow> time option \<Rightarrow> time option" where
  "renew_lease now lease = (case lease of None \<Rightarrow> None | Some e \<Rightarrow> Some (max e (now + minutes 30)))"

definition stage_thost :: "string \<Rightarrow> string \<Rightarrow> task_host_row \<Rightarrow> task_host_row" where
  "stage_thost stage line h = h\<lparr>th_stage := stage, th_log := th_log h @ line\<rparr>"

definition stage_cmd :: "time \<Rightarrow> string \<Rightarrow> string \<Rightarrow> command_row \<Rightarrow> command_row" where
  "stage_cmd now stage line c = c\<lparr>
     cm_status := (if cm_status c \<in> set [CmdPending, CmdDispatched, CmdAccepted] then CmdRunning
                   else cm_status c),
     cm_started_at := (case cm_started_at c of None \<Rightarrow> Some now | Some t \<Rightarrow> Some t),
     cm_last_stage := stage, cm_last_stage_at := Some now,
     cm_lease_expire_at := renew_lease now (cm_lease_expire_at c),
     cm_log := cm_log c @ line\<rparr>"

definition set_last_stage :: "string \<Rightarrow> string \<Rightarrow> db \<Rightarrow> db" where
  "set_last_stage agentID stage d = d\<lparr>d_hosts := upd_where (\<lambda>h. ho_agent_id h = agentID)
     (\<lambda>h. h\<lparr>ho_last_stage := stage\<rparr>) (d_hosts d)\<rparr>"

definition clear_maintenance :: "string \<Rightarrow> string \<Rightarrow> db \<Rightarrow> db" where
  "clear_maintenance agentID stage d = d\<lparr>d_hosts := upd_where (\<lambda>h. ho_agent_id h = agentID)
     (\<lambda>h. h\<lparr>ho_maintenance_until := None, ho_maintenance_reason := [], ho_agent_status := ''online'',
            ho_last_stage := stage\<rparr>) (d_hosts d)\<rparr>"

text \<open>The result a terminal stage already settles, before the agent's final report.\<close>

definition stage_final :: "string \<Rightarrow> string \<Rightarrow> string option" where
  "stage_final stage message =
    (if stage = StageDone \<and> (contains txt_upgrade_ok message \<or> contains txt_command_ok message)
     then Some CmdSuccess
     else if stage = StageFailed then Some CmdFailed else None)"

definition cmdPayloadVersion :: "int \<Rightarrow> db \<Rightarrow> string" where
  "cmdPayloadVersion cmdID d = normalizeVersion
    (case find_cmd cmdID d of None \<Rightarrow> [] | Some c \<Rightarrow> pl_to_version (cm_payload c))"

definition versionFromSuccessMessage :: "string \<Rightarrow> string" where
  "versionFromSuccessMessage message =
    (case last_index txt_current_version message of
       None \<Rightarrow> []
     | Some idx \<Rightarrow>
        (let v = trim_space (drop (idx + length txt_current_version) message)
         in if v = [] \<or> CHR 0x0D \<in> set v \<or> CHR 0x0A \<in> set v then [] else normalizeVersion v))"

definition finalize_thost ::
    "time \<Rightarrow> string \<Rightarrow> string \<Rightarrow> string \<Rightarrow> string \<Rightarrow> task_host_row \<Rightarrow> task_host_row" where
  "finalize_thost now status stage toVersion note h = h\<lparr>th_status := status, th_stage := stage,
     th_to_version := (if toVersion \<noteq> [] then toVersion else th_to_version h),
     th_finished_at := Some now, th_log := th_log h @ note\<rparr>"

definition finalize_cmd ::
    "time \<Rightarrow> string \<Rightarrow> string \<Rightarrow> result_json \<Rightarrow> string \<Rightarrow> command_row \<Rightarrow> command_row" where
  "finalize_cmd now status stage result note c = c\<lparr>cm_status := status, cm_last_stage := stage,
     cm_last_stage_at := Some now, cm_finished_at := Some now,
     cm_result := (case cm_result c of None \<Rightarrow> Some result | Some r \<Rightarrow> Some r),
     cm_log := cm_log c @ note\<rparr>"

definition auto_finalize ::
    "time \<Rightarrow> string \<Rightarrow> string \<Rightarrow> int \<Rightarrow> int option \<Rightarrow> string \<Rightarrow> string \<Rightarrow> string \<Rightarrow> db \<Rightarrow> db" where
  "auto_finalize now stamp agentID cmdID taskHostID stage message status d =
    (let note = bracket stamp @ txt_auto_a @ status @ txt_auto_b;
         pv = cmdPayloadVersion cmdID d;
         toVersion = (if status = CmdSuccess \<and> versionFromSuccessMessage message \<noteq> []
                      then versionFromSuccessMessage message else pv);
         d1 = (case taskHostID of None \<Rightarrow> d | Some t \<Rightarrow>
                 d\<lparr>d_thosts := upd_where (\<lambda>h. th_id h = t \<and> th_open h)
                     (finalize_thost now status stage toVersion note) (d_thosts d)\<rparr>);
         d2 = d1\<lparr>d_cmds := upd_where (\<lambda>c. cm_id c = cmdID \<and> cm_agent_id c = agentID \<and>
                     \<not> cmd_ended (cm_status c))
                     (finalize_cmd now status stage
                       (ServerResult status stage (Some toVersion) True) note) (d_cmds d1)\<rparr>
     in clear_maintenance agentID stage d2)"

text \<open>The rows both reports read first: the command of this agent and the host row it belongs to.\<close>

definition locked_target :: "string \<Rightarrow> int \<Rightarrow> db \<Rightarrow> command_row option" where
  "locked_target agentID cmdID d =
    (case find (\<lambda>c. cm_id c = cmdID \<and> cm_agent_id c = agentID) (d_cmds d) of
       None \<Rightarrow> None
     | Some c \<Rightarrow> (case cm_task_host_id c of
          None \<Rightarrow> Some c
        | Some t \<Rightarrow> (case find_thost t d of None \<Rightarrow> None | Some h \<Rightarrow> Some c)))"

definition UpdateStage ::
    "time \<Rightarrow> string \<Rightarrow> string \<Rightarrow> int \<Rightarrow> string \<Rightarrow> string \<Rightarrow> db \<Rightarrow> db" where
  "UpdateStage now stamp agentID cmdID stage0 message0 d =
    (let stage = normalizeStage stage0;
         message = sanitizeAndTruncate message0 maxStageMessageBytes
     in case locked_target agentID cmdID d of
          None \<Rightarrow> d
        | Some c \<Rightarrow>
           (if cm_status c = CmdCanceled \<or> cm_status c = CmdExpired then d
            else if isFinalStatus (cm_status c) then set_last_stage agentID stage d
            else
              (let line = stage_line stamp stage message;
                   d1 = (case cm_task_host_id c of None \<Rightarrow> d | Some t \<Rightarrow>
                           d\<lparr>d_thosts := upd_where (\<lambda>h. th_id h = t \<and> th_open h)
                               (stage_thost stage line) (d_thosts d)\<rparr>);
                   d2 = d1\<lparr>d_cmds := upd_where (\<lambda>r. cm_id r = cmdID \<and> cm_agent_id r = agentID \<and>
                               \<not> cmd_ended (cm_status r)) (stage_cmd now stage line) (d_cmds d1)\<rparr>;
                   d3 = set_last_stage agentID stage d2
               in case stage_final stage message of
                    None \<Rightarrow> d3
                  | Some status \<Rightarrow>
                      auto_finalize now stamp agentID cmdID (cm_task_host_id c) stage message status d3)))"

section \<open>Results\<close>

definition report_stale :: "command_row \<Rightarrow> db \<Rightarrow> bool" where
  "report_stale c d = (case cm_task_host_id c of None \<Rightarrow> False | Some t \<Rightarrow>
     (case find_thost t d of None \<Rightarrow> False | Some h \<Rightarrow>
       (case th_started_at h of None \<Rightarrow> False | Some s \<Rightarrow>
          (case cm_finished_at c of None \<Rightarrow> cm_created_at c | Some f \<Rightarrow> f) < s)))"

definition newer_active :: "string \<Rightarrow> command_row \<Rightarrow> db \<Rightarrow> nat" where
  "newer_active agentID c d = (case cm_task_host_id c of
     Some t \<Rightarrow> rows_affected (\<lambda>r. cm_task_host_id r = Some t \<and> cm_id r \<noteq> cm_id c \<and>
                is_active (cm_status r)) (d_cmds d)
   | None \<Rightarrow> rows_affected (\<lambda>r. cm_agent_id r = agentID \<and> cm_id r \<noteq> cm_id c \<and>
                is_active (cm_status r)) (d_cmds d))"

text \<open>The report after cleaning: every agent text is bounded, every unknown status is a failure.\<close>

definition clean_report :: "(string \<Rightarrow> string) \<Rightarrow> string \<Rightarrow> report_request \<Rightarrow> report_request" where
  "clean_report quote stamp rq0 =
    (let rq1 = rq0\<lparr>rq_stage := normalizeStage (rq_stage rq0),
                   rq_to_version := normalizeVersion (rq_to_version rq0),
                   rq_from_version := normalizeVersion (rq_from_version rq0),
                   rq_log := sanitizeAndTruncate (rq_log rq0) maxReportLogBytes,
                   rq_status := (let s = trim_space (rq_status rq0) in if s = [] then CmdRunning else s)\<rparr>
     in if rq_status rq1 \<noteq> CmdRunning \<and> \<not> isFinalStatus (rq_status rq1)
        then rq1\<lparr>rq_log := appendLog (rq_log rq1)
                   (bracket stamp @ txt_bad_status_a @ quote (rq_status rq1) @ txt_bad_status_b)
                   maxReportLogBytes,
                 rq_status := CmdFailed\<rparr>
        else rq1)"

definition report_thost :: "time \<Rightarrow> report_request \<Rightarrow> task_host_row \<Rightarrow> task_host_row" where
  "report_thost now rq h = h\<lparr>th_status := rq_status rq,
     th_stage := (if rq_stage rq = [] then th_stage h else rq_stage rq),
     th_to_version := (if rq_to_version rq \<noteq> [] then rq_to_version rq else th_to_version h),
     th_exit_code := rq_exit_code rq, th_log := rq_log rq, th_finished_at := Some now\<rparr>"

definition report_final_cmd :: "time \<Rightarrow> report_request \<Rightarrow> command_row \<Rightarrow> command_row" where
  "report_final_cmd now rq c = c\<lparr>cm_status := rq_status rq, cm_result := Some (ReportResult rq),
     cm_last_stage := (if rq_stage rq = [] then cm_last_stage c else rq_stage rq),
     cm_last_stage_at := Some now, cm_log := cm_log c @ rq_log rq, cm_finished_at := Some now\<rparr>"

definition report_running_cmd :: "time \<Rightarrow> report_request \<Rightarrow> command_row \<Rightarrow> command_row" where
  "report_running_cmd now rq c = c\<lparr>cm_status := CmdRunning,
     cm_last_stage := (if rq_stage rq = [] then cm_last_stage c else rq_stage rq),
     cm_last_stage_at := Some now, cm_lease_expire_at := renew_lease now (cm_lease_expire_at c),
     cm_log := cm_log c @ rq_log rq\<rparr>"

text \<open>The answer carries the Consul metadata write, when there is one: the host's address and version.\<close>

definition Report ::
    "(string \<Rightarrow> string) \<Rightarrow> time \<Rightarrow> string \<Rightarrow> bool \<Rightarrow> string \<Rightarrow> int option \<Rightarrow> report_request \<Rightarrow> db \<Rightarrow>
     (string \<times> string) option gw" where
  "Report quote now stamp consul agentID cmdIDStr rq0 d = (case cmdIDStr of
     None \<Rightarrow> (Inl MissingCommandID, d)
   | Some cmdID \<Rightarrow>
      (if \<not> exists_row (\<lambda>c. cm_id c = cmdID \<and> cm_agent_id c = agentID) (d_cmds d)
       then (Inl CommandNotFound, d)
       else case locked_target agentID cmdID d of
          None \<Rightarrow> (Inr None, d)
        | Some c \<Rightarrow>
           (if cm_status c = CmdExpired \<or> cm_status c = CmdCanceled then (Inr None, d)
            else
              (let cmdActive = (\<not> isFinalStatus (cm_status c))
               in if isFinalStatus (rq_status rq0) \<and> \<not> cmdActive \<and>
                     (report_stale c d \<or> newer_active agentID c d > 0)
                  then (Inr None, d)
                  else
                    (let rq = clean_report quote stamp rq0;
                         final = isFinalStatus (rq_status rq);
                         d1 = (case cm_task_host_id c of None \<Rightarrow> d | Some t \<Rightarrow>
                                (if final \<and> cmdActive
                                 then d\<lparr>d_thosts := upd_where (\<lambda>h. th_id h = t \<and> th_open h)
                                          (report_thost now rq) (d_thosts d)\<rparr> else d));
                         d2 = d1\<lparr>d_cmds := upd_where (\<lambda>r. cm_id r = cmdID \<and> \<not> cmd_ended (cm_status r))
                                 (if final then report_final_cmd now rq else report_running_cmd now rq)
                                 (d_cmds d1)\<rparr>;
                         d3 = (if final \<and> cmdActive then clear_maintenance agentID (rq_stage rq) d2 else d2);
                         hostIP = (case find (\<lambda>h. ho_agent_id h = agentID) (d_hosts d3) of
                                     None \<Rightarrow> [] | Some h \<Rightarrow> ho_ip h);
                         eligible = (final \<and> rq_status rq = CmdSuccess \<and> cm_type c \<noteq> CmdRunCommand)
                     in (Inr (if eligible \<and> hostIP \<noteq> [] \<and> rq_to_version rq \<noteq> [] \<and> consul
                              then Some (hostIP, rq_to_version rq) else None), d3))))))"


section \<open>The gateway keeps the contract\<close>

lemmas gw_row_defs = mark_dispatched_def accept_cmd_def requeue_cmd_def reject_cmd_def
  stage_cmd_def stage_thost_def finalize_cmd_def finalize_thost_def report_thost_def
  report_final_cmd_def report_running_cmd_def

lemma stage_final_status: "stage_final stage message = Some s \<Longrightarrow> s = CmdSuccess \<or> s = CmdFailed"
  by (auto simp: stage_final_def split: if_splits)

lemma set_last_stage_fields [simp]:
  "d_cmds (set_last_stage a s d) = d_cmds d" "d_thosts (set_last_stage a s d) = d_thosts d"
  "d_tasks (set_last_stage a s d) = d_tasks d" "d_batches (set_last_stage a s d) = d_batches d"
  "d_next_cmd (set_last_stage a s d) = d_next_cmd d"
  "d_next_thost (set_last_stage a s d) = d_next_thost d"
  "d_next_task (set_last_stage a s d) = d_next_task d"
  by (simp_all add: set_last_stage_def)

lemma clear_maintenance_fields [simp]:
  "d_cmds (clear_maintenance a s d) = d_cmds d" "d_thosts (clear_maintenance a s d) = d_thosts d"
  "d_tasks (clear_maintenance a s d) = d_tasks d" "d_batches (clear_maintenance a s d) = d_batches d"
  "d_next_cmd (clear_maintenance a s d) = d_next_cmd d"
  "d_next_thost (clear_maintenance a s d) = d_next_thost d"
  "d_next_task (clear_maintenance a s d) = d_next_task d"
  by (simp_all add: clear_maintenance_def)

lemma stage_cmd_evolves: "is_active (cm_status r) \<Longrightarrow> cmd_evolves r (stage_cmd now stage line r)"
  using ended_not_active [of "cm_status r"]
  by (auto simp: cmd_evolves_def stage_cmd_def cmd_status_known_def)

lemma finalize_cmd_evolves:
  "is_active (cm_status r) \<Longrightarrow> cmd_ended s \<Longrightarrow> cmd_evolves r (finalize_cmd now s stage res note r)"
  using ended_not_active [of "cm_status r"] ended_not_active [of s]
  by (auto simp: cmd_evolves_def finalize_cmd_def cmd_status_known_def)

lemma report_final_cmd_evolves:
  "is_active (cm_status r) \<Longrightarrow> isFinalStatus (rq_status rq) \<Longrightarrow> cmd_evolves r (report_final_cmd now rq r)"
  using ended_not_active [of "cm_status r"] ended_not_active [of "rq_status rq"] final_ended
  by (auto simp: cmd_evolves_def report_final_cmd_def cmd_status_known_def)

lemma report_running_cmd_evolves:
  "is_active (cm_status r) \<Longrightarrow> cmd_evolves r (report_running_cmd now rq r)"
  using ended_not_active [of "cm_status r"]
  by (auto simp: cmd_evolves_def report_running_cmd_def cmd_status_known_def)

lemma thost_row_evolves:
  assumes "th_open h"
  shows "thost_evolves h (stage_thost stage line h)"
    and "thost_evolves h (finalize_thost now s stage ver note h)"
    and "thost_evolves h (report_thost now rq h)"
  using assms by (auto simp: thost_evolves_def th_open_def stage_thost_def finalize_thost_def report_thost_def)

lemma row_step_hosts [simp]:
  "row_step d (set_last_stage a s e) = row_step d e"
  "row_step d (clear_maintenance a s e) = row_step d e"
  by (simp_all add: row_step_def row_frame_def)

lemma row_step_finalize:
  "cmd_ended status \<Longrightarrow> row_step d (auto_finalize now stamp a i t stage message status d)"
  unfolding auto_finalize_def Let_def
  by (auto split: option.split intro!: row_step_both row_step_cmds open_thost_evolves open_cmd_evolves
        thost_row_evolves finalize_cmd_evolves)

lemma row_step_Dequeue: "row_step d (snd (Dequeue hmac marshal locked now nonce a d))"
proof (cases "min_row cm_id (\<lambda>c. dequeue_ready now a c \<and> \<not> locked (cm_id c)) (d_cmds d)")
  case (Some c)
  then have c: "c \<in> set (d_cmds d)" "dequeue_ready now a c"
    by (auto dest: min_row_Some)
  then have "cmd_evolves c (mark_dispatched now c)"
    by (auto simp: dequeue_ready_def cmd_evolves_def mark_dispatched_def status_defs)
  with c Some show ?thesis
    by (auto simp: Dequeue_def Let_def split: option.split intro!: row_step_cmds found_cmd_evolves)
qed (simp add: Dequeue_def)

lemma row_step_Ack: "row_step d (snd (Ack now stamp a i status reason d))"
proof (cases "find (\<lambda>c. cm_id c = i \<and> cm_agent_id c = a) (d_cmds d)")
  case (Some c)
  then have c: "c \<in> set (d_cmds d)" "cm_id c = i" by (auto dest: find_SomeD)
  have ev: "cmd_evolves c (accept_cmd c)" "\<And>l. cmd_evolves c (requeue_cmd l c)"
      "\<And>l. cmd_evolves c (reject_cmd now l c)"
    if "cm_status c = CmdDispatched"
    using that by (auto simp: cmd_evolves_def accept_cmd_def requeue_cmd_def reject_cmd_def status_defs)
  have agents: "row_step e (e\<lparr>d_agents := x, d_cmds := cs\<rparr>)"
    if "cmd_keys e \<Longrightarrow> list_all2 cmd_evolves (d_cmds e) cs" for e x cs
    using that by (auto simp: row_step_def row_frame_def)
  have upd: "list_all2 cmd_evolves (d_cmds d) (upd_where (\<lambda>r. cm_id r = i) f (d_cmds d))"
    if "cmd_keys d" "cmd_evolves c (f c)" for f
    using found_cmd_evolves [of d c f] that c by simp
  show ?thesis using Some
    by (auto simp: Ack_def Let_def split: option.split intro!: row_step_cmds agents upd ev)
qed (simp add: Ack_def)

lemma row_step_UpdateStage: "row_step d (UpdateStage now stamp a i stage message d)"
proof -
  have fin: "stage_final s m = Some st \<Longrightarrow> cmd_ended st" for s m st
    by (auto simp: stage_final_def status_defs split: if_splits)
  show ?thesis unfolding UpdateStage_def Let_def
    by (auto split: option.split
        intro!: row_step_both row_step_cmds row_step_trans [OF _ row_step_finalize]
          open_thost_evolves open_cmd_evolves thost_row_evolves stage_cmd_evolves
        dest: fin)
qed

lemma clean_report_status:
  "rq_status (clean_report quote stamp rq) = CmdRunning \<or> isFinalStatus (rq_status (clean_report quote stamp rq))"
  by (auto simp: clean_report_def Let_def isFinalStatus_def)

lemma row_step_Report: "row_step d (snd (Report quote now stamp consul a i rq d))"
  unfolding Report_def Let_def
  by (auto split: option.split
      intro!: row_step_both row_step_cmds open_thost_evolves open_cmd_evolves thost_row_evolves
        report_final_cmd_evolves report_running_cmd_evolves)

interpretation dequeue: agent_handler "\<lambda>d. snd (Dequeue hmac marshal locked now nonce a d)"
  for hmac marshal locked now nonce a
  by (rule agent_handlerI) (rule row_step_Dequeue)

interpretation ack: agent_handler "\<lambda>d. snd (Ack now stamp a i status reason d)"
  for now stamp a i status reason
  by (rule agent_handlerI) (rule row_step_Ack)

interpretation stage: agent_handler "\<lambda>d. UpdateStage now stamp a i stage message d"
  for now stamp a i stage message
  by (rule agent_handlerI) (rule row_step_UpdateStage)

interpretation report: agent_handler "\<lambda>d. snd (Report quote now stamp consul a i rq d)"
  for quote now stamp consul a i rq
  by (rule agent_handlerI) (rule row_step_Report)

end
