(* ===== verification/AgentVerify.thy ===== *)
theory AgentVerify
imports Gateway
begin

text \<open>
  \<open>internal/agent/agentrun/run.go\<close>: how an agent authenticates a command before it runs it
  (\<open>verifyCommand\<close>), and that what the gateway signs is what the agent accepts. The zero time of
  \<open>ExpireAt\<close> is 0 here, the configured clock skew is what \<open>time.ParseDuration\<close> made of it.
\<close>

datatype verify_error = NoSecret | CommandExpired | BadSignature sign_error

record agent_config =
  ac_secret :: string
  ac_clock_skew :: "time option"

definition agent_skew :: "agent_config \<Rightarrow> time" where
  "agent_skew cfg = (case ac_clock_skew cfg of None \<Rightarrow> minutes 10
     | Some d \<Rightarrow> if d > 0 then d else minutes 10)"

definition verifyCommand ::
    "(string \<Rightarrow> string \<Rightarrow> string) \<Rightarrow> (command_payload \<Rightarrow> string) \<Rightarrow> time \<Rightarrow> agent_config \<Rightarrow> command \<Rightarrow>
     verify_error option" where
  "verifyCommand hmac marshal now cfg cmd =
    (if ac_secret cfg = [] then Some NoSecret
     else if co_expire_at cmd \<noteq> 0 \<and> now > co_expire_at cmd then Some CommandExpired
     else
      (let env = \<lparr>en_method = ''CMD'', en_path = [], en_body = marshal (co_payload cmd),
                  en_timestamp = co_timestamp cmd, en_nonce = co_nonce cmd\<rparr>;
           skew = agent_skew cfg;
           check = (\<lambda>signature path. Verify hmac (unix_seconds now) (ac_secret cfg) signature
                      (env\<lparr>en_path := path\<rparr>) skew)
       in if co_signature_v2 cmd \<noteq> [] then map_option BadSignature (check (co_signature_v2 cmd) (SignedPath cmd))
          else (case check (co_signature cmd) (SignedPath cmd) of
                  None \<Rightarrow> None
                | Some errV2 \<Rightarrow> (case check (co_signature cmd) (co_id cmd) of
                     None \<Rightarrow> None | Some e \<Rightarrow> Some (BadSignature errV2)))))"

lemma agent_skew_pos: "0 < agent_skew cfg"
  by (auto simp: agent_skew_def time_defs split: option.split)

lemma go_quot_mono_pos: "0 \<le> a \<Longrightarrow> 0 < b \<Longrightarrow> go_quot a b = a div b"
  by (auto simp: go_quot_def sgn_if)

lemma SignedPath_signature [simp]:
  "SignedPath (cmd\<lparr>co_signature := a, co_signature_v2 := b\<rparr>) = SignedPath cmd"
  by (simp add: SignedPath_def)

text \<open>What the command carries after signing.\<close>

lemma signed_command_fields:
  "co_payload (signed_command hmac marshal now nonce sg i t pl lease) = outgoing_payload sg pl"
  "co_timestamp (signed_command hmac marshal now nonce sg i t pl lease) = unix_seconds now"
  "co_nonce (signed_command hmac marshal now nonce sg i t pl lease) = nonce"
  "co_id (signed_command hmac marshal now nonce sg i t pl lease) = int_dec i"
  "co_type (signed_command hmac marshal now nonce sg i t pl lease) = t"
  "co_expire_at (signed_command hmac marshal now nonce sg i t pl lease) = truncate_second lease"
  by (simp_all add: signed_command_def Let_def)

lemma signed_command_v2:
  assumes "\<not> (as_legacy_command_field sg \<and> pl_command (outgoing_payload sg pl) = None)"
    and cmd: "cmd = signed_command hmac marshal now nonce sg i t pl lease"
  shows "co_signature_v2 cmd = Sign hmac (as_secret sg)
    \<lparr>en_method = ''CMD'', en_path = SignedPath cmd, en_body = marshal (co_payload cmd),
     en_timestamp = co_timestamp cmd, en_nonce = co_nonce cmd\<rparr>"
  using assms(1) by (auto simp: cmd signed_command_def Let_def SignedPath_def)

lemma Dequeue_command:
  assumes "Dequeue hmac marshal locked now nonce a d = (Inr (Some cmd), d')"
  shows "\<exists>c ag sg. c \<in> set (d_cmds d) \<and> dequeue_ready now a c \<and> \<not> locked (cm_id c) \<and>
    (\<forall>x\<in>set (d_cmds d). dequeue_ready now a x \<longrightarrow> \<not> locked (cm_id x) \<longrightarrow> cm_id c \<le> cm_id x) \<and>
    d' = d\<lparr>d_cmds := upd_where (\<lambda>r. cm_id r = cm_id c) (mark_dispatched now) (d_cmds d)\<rparr> \<and>
    find_agent a d = Some ag \<and> AgentSigningInfo a d = Some sg \<and> as_secret sg = ag_secret ag \<and>
    cmd = signed_command hmac marshal now nonce sg (cm_id c) (cm_type c) (cm_payload c) (now + minutes 30)"
proof (cases "min_row cm_id (\<lambda>c. dequeue_ready now a c \<and> \<not> locked (cm_id c)) (d_cmds d)")
  case (Some c)
  have info: "AgentSigningInfo a (d\<lparr>d_cmds := x\<rparr>) = AgentSigningInfo a d" for x
    by (simp add: AgentSigningInfo_def find_agent_def)
  from Some assms obtain sg where sg: "AgentSigningInfo a d = Some sg"
    "cmd = signed_command hmac marshal now nonce sg (cm_id c) (cm_type c) (cm_payload c) (now + minutes 30)"
    "d' = d\<lparr>d_cmds := upd_where (\<lambda>r. cm_id r = cm_id c) (mark_dispatched now) (d_cmds d)\<rparr>"
    by (auto simp: Dequeue_def Let_def info split: option.splits)
  from sg(1) obtain ag where "find_agent a d = Some ag" "as_secret sg = ag_secret ag"
    by (auto simp: AgentSigningInfo_def Let_def split: option.splits)
  with sg min_row_Some [OF Some] show ?thesis by blast
qed (use assms in \<open>simp add: Dequeue_def\<close>)

lemma current_agent_not_legacy:
  assumes "AgentSigningInfo a d = Some sg" "find_agent a d = Some ag"
    and "HasCapability (ag_capabilities ag) AgentCapabilityOptionalCommand"
  shows "\<not> as_legacy_command_field sg"
  using assms by (auto simp: AgentSigningInfo_def Let_def)

lemma signed_command_v1:
  assumes "\<not> (as_legacy_command_field sg \<and> pl_command (outgoing_payload sg pl) = None)"
    and cmd: "cmd = signed_command hmac marshal now nonce sg i t pl lease"
  shows "co_signature cmd = Sign hmac (as_secret sg)
    \<lparr>en_method = ''CMD'', en_path = (if as_legacy_mode sg = SignatureModeSignedPath then SignedPath cmd else co_id cmd),
     en_body = marshal (co_payload cmd), en_timestamp = co_timestamp cmd, en_nonce = co_nonce cmd\<rparr>"
  using assms(1) by (auto simp: cmd signed_command_def Let_def SignedPath_def)

lemma Verify_Sign_window:
  assumes "trim_space (en_nonce e) \<noteq> []" "\<bar>en_timestamp e - now\<bar> \<le> go_quot skew second"
  shows "Verify hmac now secret (Sign hmac secret e) e skew = None"
  using assms by (auto simp: Verify_def Let_def)

lemma signed_command_verifies:
  assumes nl: "\<not> (as_legacy_command_field sg \<and> pl_command (outgoing_payload sg pl) = None)"
    and cmd: "cmd = signed_command hmac marshal now nonce sg i t pl lease"
    and cfg: "ac_secret cfg = as_secret sg" "ac_secret cfg \<noteq> []"
    and nonce: "trim_space nonce \<noteq> []"
    and exp: "now' \<le> truncate_second lease"
    and clock: "\<bar>unix_seconds now - unix_seconds now'\<bar> \<le> agent_skew cfg div second"
  shows "verifyCommand hmac marshal now' cfg cmd = None"
proof -
  have w: "\<bar>unix_seconds now - unix_seconds now'\<bar> \<le> go_quot (agent_skew cfg) second"
    using clock agent_skew_pos [of cfg] by (simp add: go_quot_mono_pos time_defs)
  have ex: "co_expire_at cmd = truncate_second lease" and ts: "co_timestamp cmd = unix_seconds now"
    and nn: "co_nonce cmd = nonce"
    unfolding cmd by (rule signed_command_fields)+
  have c: "Verify hmac (unix_seconds now') (as_secret sg) (Sign hmac (as_secret sg)
      \<lparr>en_method = ''CMD'', en_path = p, en_body = b, en_timestamp = unix_seconds now, en_nonce = nonce\<rparr>)
      \<lparr>en_method = ''CMD'', en_path = p, en_body = b, en_timestamp = unix_seconds now, en_nonce = nonce\<rparr>
      (agent_skew cfg) = None" for p b
    by (rule Verify_Sign_window) (simp_all add: nonce w)
  let ?e = "\<lambda>p. \<lparr>en_method = ''CMD'', en_path = p, en_body = marshal (co_payload cmd),
    en_timestamp = unix_seconds now, en_nonce = nonce\<rparr>"
  have v2: "Verify hmac (unix_seconds now') (ac_secret cfg) (co_signature_v2 cmd) (?e (SignedPath cmd)) (agent_skew cfg) = None"
    unfolding signed_command_v2 [OF nl cmd] ts nn cfg(1) by (rule c)
  have v1: "Verify hmac (unix_seconds now') (ac_secret cfg) (co_signature cmd) (?e (SignedPath cmd)) (agent_skew cfg) = None
     \<or> Verify hmac (unix_seconds now') (ac_secret cfg) (co_signature cmd) (?e (co_id cmd)) (agent_skew cfg) = None"
    unfolding signed_command_v1 [OF nl cmd] ts nn cfg(1) using c by (cases "as_legacy_mode sg = SignatureModeSignedPath") simp_all
  show ?thesis
    unfolding verifyCommand_def Let_def ex ts nn
    using cfg(2) exp v1 v2 by (auto simp del: SignedPath_signature split: option.splits)
qed

text \<open>C7: a command the gateway hands to a current agent (one that reports \<open>optional_command\<close>) passes
  the agent's own check, under either legacy signature mode, as long as the clocks agree within the
  agent's skew and the lease has not run out.\<close>

theorem Dequeue_accepted_by_agent:
  assumes "Dequeue hmac marshal locked now nonce a d = (Inr (Some cmd), d')"
    and "find_agent a d = Some ag"
    and "HasCapability (ag_capabilities ag) AgentCapabilityOptionalCommand"
    and "ac_secret cfg = ag_secret ag" "ac_secret cfg \<noteq> []"
    and "trim_space nonce \<noteq> []"
    and "now' \<le> truncate_second (now + minutes 30)"
    and "\<bar>unix_seconds now - unix_seconds now'\<bar> \<le> agent_skew cfg div second"
  shows "verifyCommand hmac marshal now' cfg cmd = None"
proof -
  from Dequeue_command [OF assms(1)] obtain c :: command_row and ag' :: agent_row and sg :: agent_signing where
    sg: "AgentSigningInfo a d = Some sg" "find_agent a d = Some ag'" "as_secret sg = ag_secret ag'"
    and cmd: "cmd = signed_command hmac marshal now nonce sg (cm_id c) (cm_type c) (cm_payload c) (now + minutes 30)"
    by auto
  have "\<not> (as_legacy_command_field sg \<and> pl_command (outgoing_payload sg (cm_payload c)) = None)"
    using current_agent_not_legacy [OF sg(1) assms(2,3)] by simp
  from signed_command_verifies [OF this cmd] sg(2,3) assms(2,4-) show ?thesis by simp
qed

text \<open>C14: a command whose second signature is present is run only if that signature is the keyed hash
  of exactly the bytes of its path (id, type, expiry), payload, timestamp and nonce; it has not
  expired and its timestamp is inside the skew. A bad second signature is never excused by the first.\<close>

theorem verifyCommand_v2_only:
  assumes "verifyCommand hmac marshal now cfg cmd = None" and "co_signature_v2 cmd \<noteq> []"
  shows "co_signature_v2 cmd = hmac (ac_secret cfg) (signed_bytes
      \<lparr>en_method = ''CMD'', en_path = SignedPath cmd, en_body = marshal (co_payload cmd),
       en_timestamp = co_timestamp cmd, en_nonce = co_nonce cmd\<rparr>)
    \<and> trim_space (co_nonce cmd) \<noteq> []
    \<and> (co_expire_at cmd = 0 \<or> now \<le> co_expire_at cmd)
    \<and> \<bar>co_timestamp cmd - unix_seconds now\<bar> \<le> agent_skew cfg div second"
proof -
  have "Verify hmac (unix_seconds now) (ac_secret cfg) (co_signature_v2 cmd)
      \<lparr>en_method = ''CMD'', en_path = SignedPath cmd, en_body = marshal (co_payload cmd),
       en_timestamp = co_timestamp cmd, en_nonce = co_nonce cmd\<rparr> (agent_skew cfg) = None"
    using assms by (auto simp: verifyCommand_def Let_def split: if_splits)
  from Verify_accepts [OF this] assms(1) agent_skew_pos [of cfg] show ?thesis
    by (auto simp: Sign_def go_quot_mono_pos time_defs verifyCommand_def split: if_splits)
qed

end
