(* ===== verification/GatewaySafety.thy ===== *)
theory GatewaySafety
imports AgentVerify
begin

text \<open>
  What the gateway guarantees about a command, from dispatch to result: an ended command is never
  written again, an agent cannot touch another agent's commands or hosts, late reports of a canceled
  round are ignored, a final report settles command and host row together, a repeated report
  changes neither.
\<close>

section \<open>Rows of other agents\<close>

lemma upd_where_other: "c \<in> set rs \<Longrightarrow> \<not> P c \<Longrightarrow> c \<in> set (upd_where P f rs)"
  by (auto simp: set_upd_where)

lemma auto_finalize_other:
  "c \<in> set (d_cmds d) \<Longrightarrow> cm_agent_id c \<noteq> a \<Longrightarrow> c \<in> set (d_cmds (auto_finalize now stamp a i t stage m s d))"
  "h \<in> set (d_hosts d) \<Longrightarrow> ho_agent_id h \<noteq> a \<Longrightarrow> h \<in> set (d_hosts (auto_finalize now stamp a i t stage m s d))"
  by (auto simp: auto_finalize_def Let_def clear_maintenance_def intro!: upd_where_other split: option.split)

lemma UpdateStage_other:
  "c \<in> set (d_cmds d) \<Longrightarrow> cm_agent_id c \<noteq> a \<Longrightarrow> c \<in> set (d_cmds (UpdateStage now stamp a i s m d))"
  "h \<in> set (d_hosts d) \<Longrightarrow> ho_agent_id h \<noteq> a \<Longrightarrow> h \<in> set (d_hosts (UpdateStage now stamp a i s m d))"
  by (auto simp: UpdateStage_def Let_def set_last_stage_def intro!: upd_where_other auto_finalize_other
      split: option.split)

lemma locked_target_SomeD:
  "locked_target a i d = Some c \<Longrightarrow> c \<in> set (d_cmds d) \<and> cm_id c = i \<and> cm_agent_id c = a"
  by (auto simp: locked_target_def dest!: find_SomeD split: option.splits)

lemma Report_other:
  assumes "cmd_keys d" "c \<in> set (d_cmds d)" "cm_agent_id c \<noteq> a"
  shows "c \<in> set (d_cmds (snd (Report quote now stamp consul a i rq d)))"
proof -
  have "cm_id c \<noteq> j" if "locked_target a j d = Some x" for j x
    using locked_target_SomeD [OF that] cmd_by_id [OF assms(1,2), of x] assms(3) by auto
  then show ?thesis using assms(2)
    by (auto simp: Report_def Let_def intro!: upd_where_other split: option.split)
qed

lemma Report_other_host:
  "h \<in> set (d_hosts d) \<Longrightarrow> ho_agent_id h \<noteq> a \<Longrightarrow>
   h \<in> set (d_hosts (snd (Report quote now stamp consul a i rq d)))"
  by (auto simp: Report_def Let_def clear_maintenance_def intro!: upd_where_other split: option.split)

lemma Ack_other:
  assumes "cmd_keys d" "c \<in> set (d_cmds d)" "cm_agent_id c \<noteq> a"
  shows "c \<in> set (d_cmds (snd (Ack now stamp a i status reason d)))"
proof -
  have "cm_id c \<noteq> j" if "find (\<lambda>c. cm_id c = j \<and> cm_agent_id c = a) (d_cmds d) = Some x" for j x
    using find_SomeD [OF that] cmd_by_id [OF assms(1,2), of x] assms(3) by auto
  then show ?thesis using assms(2)
    by (auto simp: Ack_def Let_def intro!: upd_where_other split: option.split)
qed

lemma Dequeue_other:
  assumes "cmd_keys d" "c \<in> set (d_cmds d)" "cm_agent_id c \<noteq> a"
  shows "c \<in> set (d_cmds (snd (Dequeue hmac marshal locked now nonce a d)))"
proof -
  have "cm_id c \<noteq> cm_id x"
    if "min_row cm_id (\<lambda>c. dequeue_ready now a c \<and> \<not> locked (cm_id c)) (d_cmds d) = Some x" for x
    using min_row_Some(1,2) [OF that] cmd_by_id [OF assms(1,2), of x] assms(3)
    by (auto simp: dequeue_ready_def)
  then show ?thesis using assms(2)
    by (auto simp: Dequeue_def Let_def intro!: upd_where_other split: option.split)
qed

lemma gateway_hosts_frame:
  "d_hosts (snd (Dequeue hmac marshal locked now nonce a d)) = d_hosts d"
  "d_hosts (snd (Ack now stamp a i status reason d)) = d_hosts d"
  by (auto simp: Dequeue_def Ack_def Let_def split: option.split)

text \<open>C2: the four requests an agent can make about commands leave every command and every host of every
  other agent exactly as it was, whatever command id the agent guesses.\<close>

theorem agent_isolation:
  assumes "cmd_keys d" and "c \<in> set (d_cmds d)" and "cm_agent_id c \<noteq> a"
    and "h \<in> set (d_hosts d)" and "ho_agent_id h \<noteq> a"
    and "d' \<in> {snd (Dequeue hmac marshal locked now nonce a d), snd (Ack now stamp a i status reason d),
               UpdateStage now stamp a i stage message d, snd (Report quote now stamp consul a j rq d)}"
  shows "c \<in> set (d_cmds d') \<and> h \<in> set (d_hosts d')"
  using assms(6) assms(1-5)
  by (auto simp: gateway_hosts_frame intro: Dequeue_other Ack_other UpdateStage_other Report_other Report_other_host)

section \<open>Ended rows\<close>

text \<open>Every request of an agent keeps the keys, the command statuses and the two partial unique
  indexes: one active command for a host row, one active self-update for an agent.\<close>

theorem gateway_integrity:
  assumes "integrity d"
    and "d' \<in> {snd (Dequeue hmac marshal locked now nonce a d), snd (Ack now stamp a i status reason d),
               UpdateStage now stamp a i stage message d, snd (Report quote now stamp consul a j rq d)}"
  shows "integrity d'"
  using assms(2) dequeue.integrity_kept [OF assms(1)] ack.integrity_kept [OF assms(1)]
    stage.integrity_kept [OF assms(1)] report.integrity_kept [OF assms(1)]
  by (elim insertE) simp_all

section \<open>Late reports\<close>

lemma find_cmd_agent:
  assumes "cmd_keys d" "c \<in> set (d_cmds d)" "cm_agent_id c = a"
  shows "find (\<lambda>r. cm_id r = cm_id c \<and> cm_agent_id r = a) (d_cmds d) = Some c"
proof (cases "find (\<lambda>r. cm_id r = cm_id c \<and> cm_agent_id r = a) (d_cmds d)")
  case (Some x)
  with find_SomeD [OF Some] cmd_by_id [OF assms(1), of x c] assms(2) show ?thesis by auto
qed (use assms in \<open>auto simp: find_None_all\<close>)

text \<open>A canceled or expired command (the round was withdrawn or restarted) ignores every late stage
  and every late result of its agent: the whole database is unchanged.\<close>

theorem late_report_ignored:
  assumes "cmd_keys d" and "c \<in> set (d_cmds d)" and "cm_agent_id c = a"
    and "cm_status c = CmdCanceled \<or> cm_status c = CmdExpired"
  shows "UpdateStage now stamp a (cm_id c) stage message d = d \<and>
    Report quote now stamp consul a (Some (cm_id c)) rq d = (Inr None, d)"
proof -
  note f = find_cmd_agent [OF assms(1-3)]
  have e: "exists_row (\<lambda>r. cm_id r = cm_id c \<and> cm_agent_id r = a) (d_cmds d)"
    using assms(2,3) by (auto simp: exists_row_iff)
  have t: "locked_target a (cm_id c) d = Some c \<or> locked_target a (cm_id c) d = None"
    by (auto simp: locked_target_def f split: option.splits)
  then show ?thesis using assms(4) e
    by (auto simp: UpdateStage_def Report_def Let_def)
qed

section \<open>A final report settles the round\<close>

lemma find_cmd_upd:
  assumes "cmd_keys d" "c \<in> set (d_cmds d)" "P c" "\<And>r. cm_id (f r) = cm_id r"
  shows "find (\<lambda>r. cm_id r = cm_id c) (upd_where P f (d_cmds d)) = Some (f c)"
proof -
  have "find (\<lambda>r. cm_id r = cm_id c) (d_cmds d) = Some c"
    using assms(1,2) by (auto simp: cmd_keys_def intro: find_distinct)
  with assms(3,4) show ?thesis by (subst find_upd_where) simp_all
qed

lemma find_thost_upd:
  assumes "find (\<lambda>r. th_id r = t) hs = Some h" "P h" "\<And>r. th_id (f r) = th_id r"
  shows "find (\<lambda>r. th_id r = t) (upd_where P f hs) = Some (f h)"
  using assms by (subst find_upd_where) simp_all

text \<open>C4: a final report of an active command ends it with the reported result and ends its open host row
  with the same status, log and exit code, in one step.\<close>

theorem Report_settles:
  assumes "cmd_keys d" and "c \<in> set (d_cmds d)" and "cm_agent_id c = a"
    and "is_active (cm_status c)" and "cm_task_host_id c = Some t"
    and "find_thost t d = Some h" and "th_open h"
    and "rq' = clean_report quote stamp rq" and "isFinalStatus (rq_status rq')"
    and "Report quote now stamp consul a (Some (cm_id c)) rq d = (r, d')"
  shows "find_cmd (cm_id c) d' = Some (report_final_cmd now rq' c) \<and>
    find_thost t d' = Some (report_thost now rq' h) \<and>
    cm_status (report_final_cmd now rq' c) = rq_status rq' \<and> th_status (report_thost now rq' h) = rq_status rq'"
proof -
  note f = find_cmd_agent [OF assms(1-3)]
  have e: "exists_row (\<lambda>r. cm_id r = cm_id c \<and> cm_agent_id r = a) (d_cmds d)"
    using assms(2,3) by (auto simp: exists_row_iff)
  have t: "locked_target a (cm_id c) d = Some c"
    by (simp add: locked_target_def f assms(5,6))
  have ne: "\<not> cmd_ended (cm_status c)" "\<not> isFinalStatus (cm_status c)"
      "cm_status c \<noteq> CmdExpired" "cm_status c \<noteq> CmdCanceled"
    using assms(4) by (auto simp: status_defs)
  have h: "find (\<lambda>r. th_id r = t) (d_thosts d) = Some h" "th_id h = t"
    using assms(6) find_SomeD [of "\<lambda>h. th_id h = t" "d_thosts d" h] by (auto simp: find_thost_def)
  have "d_cmds d' = upd_where (\<lambda>r. cm_id r = cm_id c \<and> \<not> cmd_ended (cm_status r)) (report_final_cmd now rq') (d_cmds d)"
    "d_thosts d' = upd_where (\<lambda>h. th_id h = t \<and> th_open h) (report_thost now rq') (d_thosts d)"
    using assms(10) by (auto simp: Report_def Let_def e t ne assms(5,9) assms(8)[symmetric])
  moreover have "find (\<lambda>r. cm_id r = cm_id c)
      (upd_where (\<lambda>r. cm_id r = cm_id c \<and> \<not> cmd_ended (cm_status r)) (report_final_cmd now rq') (d_cmds d))
      = Some (report_final_cmd now rq' c)"
    by (rule find_cmd_upd [OF assms(1,2)]) (simp_all add: ne report_final_cmd_def)
  moreover have "find (\<lambda>r. th_id r = t) (upd_where (\<lambda>h. th_id h = t \<and> th_open h) (report_thost now rq') (d_thosts d))
      = Some (report_thost now rq' h)"
    by (rule find_thost_upd [OF h(1)]) (simp_all add: h(2) assms(7) report_thost_def)
  ultimately show ?thesis
    by (simp add: find_cmd_def find_thost_def) (simp add: report_final_cmd_def report_thost_def)
qed

text \<open>Whatever an agent reports, the stored status is running or one of the four results; a status
  that is none of them is stored as a failure; stage, versions and log fit their columns (the log up
  to the 37 bytes of the truncation note).\<close>

theorem clean_report_bounds:
  "let c = clean_report quote stamp rq in (rq_status c = CmdRunning \<or> isFinalStatus (rq_status c)) \<and>
     (trim_space (rq_status rq) \<notin> set [[], CmdRunning, CmdSuccess, CmdFailed, CmdRolledBack, CmdTimeout] \<longrightarrow>
        rq_status c = CmdFailed) \<and>
     length (rq_stage c) \<le> 32 \<and> length (rq_to_version c) \<le> 64 \<and>
     length (rq_from_version c) \<le> 64 \<and> length (rq_log c) \<le> maxReportLogBytes + 37"
proof -
  define c where "c = clean_report quote stamp rq"
  have n: "0 < maxReportLogBytes" by (simp add: maxReportLogBytes_def)
  note log = sanitizeAndTruncate_length [OF n, of "rq_log rq"]
  have "length (rq_log c) \<le> maxReportLogBytes + 37"
    using log appendLog_length [OF n log] by (auto simp: c_def clean_report_def Let_def)
  with clean_report_status [of quote stamp rq] normalizeStage_length [of "rq_stage rq"]
      normalizeVersion_length [of "rq_to_version rq"] normalizeVersion_length [of "rq_from_version rq"]
  show ?thesis
    unfolding Let_def c_def [symmetric]
    by (auto simp: c_def clean_report_def Let_def isFinalStatus_def maxStageBytes_def maxVersionBytes_def)
qed

section \<open>Stages\<close>

text \<open>A stage report of an active command renews its lease (never shortens it) and appends to its log;
  with a terminal stage, \<open>failed\<close>, or \<open>done\<close> with one of the agent's two success texts, the command is
  settled at once, so a lost final report cannot leave it running.\<close>

theorem UpdateStage_progress:
  assumes "cmd_keys d" and "c \<in> set (d_cmds d)" and "cm_agent_id c = a"
    and "is_active (cm_status c)" and "cm_task_host_id c = None"
    and "d' = UpdateStage now stamp a (cm_id c) stage message d"
  shows "\<exists>c'. find_cmd (cm_id c) d' = Some c' \<and> (\<exists>l. cm_log c' = cm_log c @ l) \<and>
    cm_status c' = (case stage_final (normalizeStage stage) (sanitizeAndTruncate message maxStageMessageBytes) of
       None \<Rightarrow> CmdRunning | Some s \<Rightarrow> s) \<and>
    (case cm_lease_expire_at c of None \<Rightarrow> cm_lease_expire_at c' = None
     | Some e \<Rightarrow> (\<exists>e'. cm_lease_expire_at c' = Some e' \<and> e \<le> e' \<and> now + minutes 30 \<le> e'))"
proof -
  note f = find_cmd_agent [OF assms(1-3)]
  have t: "locked_target a (cm_id c) d = Some c"
    by (simp add: locked_target_def f assms(5))
  have ne: "\<not> cmd_ended (cm_status c)" "\<not> isFinalStatus (cm_status c)"
      "cm_status c \<noteq> CmdExpired" "cm_status c \<noteq> CmdCanceled"
    using assms(4) by (auto simp: status_defs)
  define st where "st = normalizeStage stage"
  define m where "m = sanitizeAndTruncate message maxStageMessageBytes"
  define c1 where "c1 = stage_cmd now st (stage_line stamp st m) c"
  let ?P = "\<lambda>r. cm_id r = cm_id c \<and> cm_agent_id r = a \<and> \<not> cmd_ended (cm_status r)"
  let ?cs = "upd_where ?P (stage_cmd now st (stage_line stamp st m)) (d_cmds d)"
  have run: "cm_status c1 = CmdRunning" "\<not> cmd_ended CmdRunning"
    using assms(4) by (auto simp: c1_def stage_cmd_def status_defs)
  have f1: "find (\<lambda>r. cm_id r = cm_id c) ?cs = Some c1"
    unfolding c1_def by (rule find_cmd_upd [OF assms(1,2)]) (simp_all add: assms(3) ne stage_cmd_def)
  have same: "cm_id c1 = cm_id c" "cm_agent_id c1 = a"
    by (simp_all add: c1_def stage_cmd_def assms(3))
  show ?thesis
  proof (cases "stage_final st m")
    case None
    then have "d_cmds d' = ?cs"
      using assms(6) t ne by (simp add: UpdateStage_def Let_def assms(5) st_def m_def)
    with f1 None run show ?thesis unfolding st_def [symmetric] m_def [symmetric]
      by (auto simp: find_cmd_def c1_def stage_cmd_def renew_lease_def split: option.split)
  next
    case (Some s)
    let ?d3 = "set_last_stage a st (d\<lparr>d_cmds := ?cs\<rparr>)"
    have "d' = auto_finalize now stamp a (cm_id c) None st m s ?d3"
      using assms(6) t ne Some by (simp add: UpdateStage_def Let_def assms(5) st_def m_def)
    then obtain ver nt where "d_cmds d' = upd_where ?P
        (finalize_cmd now s st (ServerResult s st (Some ver) True) nt) ?cs"
      by (auto simp: auto_finalize_def Let_def)
    moreover have "find (\<lambda>r. cm_id r = cm_id c) (upd_where ?P (finalize_cmd now s st res nt) ?cs)
        = Some (finalize_cmd now s st res nt c1)" for res nt
      using f1 same run by (subst find_upd_where) (simp_all add: finalize_cmd_def)
    ultimately show ?thesis using Some unfolding st_def [symmetric] m_def [symmetric]
      by (auto simp: find_cmd_def c1_def stage_cmd_def finalize_cmd_def renew_lease_def split: option.split)
  qed
qed

section \<open>Maintenance windows\<close>

text \<open>Whatever duration an agent asks for, even one that overflows Go's 64 bit duration, its hosts'
  maintenance window ends at most one hour from now, and no other host's row changes.\<close>

theorem EnterMaintenance_bound:
  assumes "h \<in> set (d_hosts (EnterMaintenance now a secs d))"
  shows "(ho_agent_id h = a \<and> (\<exists>u. ho_maintenance_until h = Some u \<and> u \<le> now + hours 1)) \<or>
    (ho_agent_id h \<noteq> a \<and> h \<in> set (d_hosts d))"
  using assms by (auto simp: EnterMaintenance_def Let_def elim!: upd_where_memE)

end
