(* ===== verification/Reap.thy ===== *)
theory Reap
imports Gateway
begin

text \<open>
  \<open>internal/logic/agentgw/reap.go\<close>: the reconciliation the orchestrator runs before every round. It
  settles commands whose terminal stage was seen but whose report was lost, times out commands
  whose lease ran out, copies the results of ended commands to their host rows and closes
  maintenance windows nobody needs. All statements are those of the PostgreSQL dialect.
\<close>

section \<open>Lost final reports\<close>

definition txt_phase_install :: string where "txt_phase_install = [CHR 0xE9, CHR 0x98, CHR 0xB6, CHR 0xE6, CHR 0xAE, CHR 0xB5, CHR 0x3A, CHR 0x20, CHR 0xE6, CHR 0x89, CHR 0xA7, CHR 0xE8, CHR 0xA1, CHR 0x8C, CHR 0xE5, CHR 0xAE, CHR 0x89, CHR 0xE8, CHR 0xA3, CHR 0x85]"
definition txt_phase_start :: string where "txt_phase_start = [CHR 0xE9, CHR 0x98, CHR 0xB6, CHR 0xE6, CHR 0xAE, CHR 0xB5, CHR 0x3A, CHR 0x20, CHR 0xE5, CHR 0x90, CHR 0xAF, CHR 0xE5, CHR 0x8A, CHR 0xA8, CHR 0xE6, CHR 0x9C, CHR 0x8D, CHR 0xE5, CHR 0x8A, CHR 0xA1]"
definition txt_phase_post :: string where "txt_phase_post = [CHR 0xE9, CHR 0x98, CHR 0xB6, CHR 0xE6, CHR 0xAE, CHR 0xB5, CHR 0x3A, CHR 0x20, CHR 0xE5, CHR 0xAE, CHR 0x89, CHR 0xE8, CHR 0xA3, CHR 0x85, CHR 0xE5, CHR 0x90, CHR 0x8E, CHR 0xE5, CHR 0xA4, CHR 0x84, CHR 0xE7, CHR 0x90, CHR 0x86]"
definition txt_phase_verify :: string where "txt_phase_verify = [CHR 0xE9, CHR 0x98, CHR 0xB6, CHR 0xE6, CHR 0xAE, CHR 0xB5, CHR 0x3A, CHR 0x20, CHR 0xE9, CHR 0xAA, CHR 0x8C, CHR 0xE8, CHR 0xAF, CHR 0x81, CHR 0xE7, CHR 0x89, CHR 0x88, CHR 0xE6, CHR 0x9C, CHR 0xAC]"
definition txt_fin_success :: string where "txt_fin_success = [CHR 0xE9, CHR 0x98, CHR 0xB6, CHR 0xE6, CHR 0xAE, CHR 0xB5, CHR 0xE5, CHR 0xB7, CHR 0xB2, CHR 0xE5, CHR 0xAE, CHR 0x8C, CHR 0xE6, CHR 0x88, CHR 0x90, CHR 0xE4, CHR 0xB8, CHR 0x94, CHR 0xE5, CHR 0x8C, CHR 0x85, CHR 0xE5, CHR 0x90, CHR 0xAB, CHR 0xE6, CHR 0x88, CHR 0x90, CHR 0xE5, CHR 0x8A, CHR 0x9F, CHR 0xE6, CHR 0xAD, CHR 0xA5, CHR 0xE9, CHR 0xAA, CHR 0xA4, CHR 0xEF, CHR 0xBC, CHR 0x8C, CHR 0xE6, CHR 0x9C, CHR 0x8D, CHR 0xE5, CHR 0x8A, CHR 0xA1, CHR 0xE7, CHR 0xAB, CHR 0xAF, CHR 0xE8, CHR 0xA1, CHR 0xA5, CHR 0xE8, CHR 0xAE, CHR 0xB0, CHR 0xE4, CHR 0xB8, CHR 0xBA, CHR 0xE6, CHR 0x88, CHR 0x90, CHR 0xE5, CHR 0x8A, CHR 0x9F, CHR 0x0A]"
definition txt_fin_failed :: string where "txt_fin_failed = [CHR 0xE6, CHR 0x9C, CHR 0x8D, CHR 0xE5, CHR 0x8A, CHR 0xA1, CHR 0xE7, CHR 0xAB, CHR 0xAF, CHR 0xE6, CHR 0xA0, CHR 0xB9, CHR 0xE6, CHR 0x8D, CHR 0xAE, CHR 0xE5, CHR 0xA4, CHR 0xB1, CHR 0xE8, CHR 0xB4, CHR 0xA5, CHR 0xE9, CHR 0x98, CHR 0xB6, CHR 0xE6, CHR 0xAE, CHR 0xB5, CHR 0xE8, CHR 0xA1, CHR 0xA5, CHR 0xE8, CHR 0xAE, CHR 0xB0, CHR 0xE5, CHR 0xA4, CHR 0xB1, CHR 0xE8, CHR 0xB4, CHR 0xA5, CHR 0xEF, CHR 0xBC, CHR 0x88, CHR 0xE6, CHR 0x9C, CHR 0xAA, CHR 0xE6, CHR 0x94, CHR 0xB6, CHR 0xE5, CHR 0x88, CHR 0xB0, CHR 0xE6, CHR 0x9C, CHR 0x80, CHR 0xE7, CHR 0xBB, CHR 0x88, CHR 0xE7, CHR 0xBB, CHR 0x93, CHR 0xE6, CHR 0x9E, CHR 0x9C, CHR 0xEF, CHR 0xBC, CHR 0x89, CHR 0x0A]"
definition txt_fin_timeout :: string where "txt_fin_timeout = [CHR 0xE9, CHR 0x98, CHR 0xB6, CHR 0xE6, CHR 0xAE, CHR 0xB5, CHR 0xE5, CHR 0xB7, CHR 0xB2, CHR 0xE5, CHR 0xAE, CHR 0x8C, CHR 0xE6, CHR 0x88, CHR 0x90, CHR 0xE4, CHR 0xBD, CHR 0x86, CHR 0xE6, CHR 0x9C, CHR 0xAA, CHR 0xE6, CHR 0x94, CHR 0xB6, CHR 0xE5, CHR 0x88, CHR 0xB0, CHR 0xE6, CHR 0x9C, CHR 0x80, CHR 0xE7, CHR 0xBB, CHR 0x88, CHR 0xE7, CHR 0xBB, CHR 0x93, CHR 0xE6, CHR 0x9E, CHR 0x9C, CHR 0xEF, CHR 0xBC, CHR 0x8C, CHR 0xE6, CHR 0x97, CHR 0xA0, CHR 0xE6, CHR 0xB3, CHR 0x95, CHR 0xE7, CHR 0xA1, CHR 0xAE, CHR 0xE8, CHR 0xAE, CHR 0xA4, CHR 0xE6, CHR 0x88, CHR 0x90, CHR 0xE5, CHR 0x8A, CHR 0x9F, CHR 0xEF, CHR 0xBC, CHR 0x8C, CHR 0xE6, CHR 0x8C, CHR 0x89, CHR 0xE8, CHR 0xB6, CHR 0x85, CHR 0xE6, CHR 0x97, CHR 0xB6, CHR 0xE5, CHR 0xA4, CHR 0x84, CHR 0xE7, CHR 0x90, CHR 0x86, CHR 0x0A]"
definition txt_lease_lost :: string where "txt_lease_lost = [CHR 0xE8, CHR 0xB6, CHR 0x85, CHR 0xE8, CHR 0xBF, CHR 0x87, CHR 0xE7, CHR 0xA7, CHR 0x9F, CHR 0xE7, CHR 0xBA, CHR 0xA6, CHR 0xE6, CHR 0x9C, CHR 0xAA, CHR 0xE6, CHR 0x94, CHR 0xB6, CHR 0xE5, CHR 0x88, CHR 0xB0, CHR 0x20, CHR 0x41, CHR 0x67, CHR 0x65, CHR 0x6E, CHR 0x74, CHR 0x20, CHR 0xE9, CHR 0x98, CHR 0xB6, CHR 0xE6, CHR 0xAE, CHR 0xB5, CHR 0x2F, CHR 0xE7, CHR 0xBB, CHR 0x93, CHR 0xE6, CHR 0x9E, CHR 0x9C, CHR 0xE4, CHR 0xB8, CHR 0x8A, CHR 0xE6, CHR 0x8A, CHR 0xA5, CHR 0xEF, CHR 0xBC, CHR 0x8C, CHR 0xE6, CHR 0x9C, CHR 0x8D, CHR 0xE5, CHR 0x8A, CHR 0xA1, CHR 0xE7, CHR 0xAB, CHR 0xAF, CHR 0xE6, CHR 0xA0, CHR 0x87, CHR 0xE8, CHR 0xAE, CHR 0xB0, CHR 0xE8, CHR 0xB6, CHR 0x85, CHR 0xE6, CHR 0x97, CHR 0xB6, CHR 0x0A]"

definition stage_time :: "command_row \<Rightarrow> time" where
  "stage_time c = (case cm_last_stage_at c of Some t \<Rightarrow> t | None \<Rightarrow>
     (case cm_started_at c of Some t \<Rightarrow> t | None \<Rightarrow>
       (case cm_dispatched_at c of Some t \<Rightarrow> t | None \<Rightarrow> cm_created_at c)))"

definition success_evidence :: "string \<Rightarrow> bool" where
  "success_evidence lg = (contains txt_phase_install lg \<or> contains txt_phase_start lg \<or>
     contains txt_phase_post lg \<or> contains txt_phase_verify lg \<or> contains txt_upgrade_ok lg)"

definition lost_success :: "time \<Rightarrow> command_row \<Rightarrow> bool" where
  "lost_success now c = (in_flight (cm_status c) \<and> cm_last_stage c = StageDone \<and>
     stage_time c < now - minutes 2 \<and> success_evidence (cm_log c))"

definition lost_failure :: "time \<Rightarrow> command_row \<Rightarrow> bool" where
  "lost_failure now c = (in_flight (cm_status c) \<and> cm_last_stage c = StageFailed \<and>
     stage_time c < now - minutes 2)"

definition lost_unknown :: "time \<Rightarrow> command_row \<Rightarrow> bool" where
  "lost_unknown now c = (in_flight (cm_status c) \<and> cm_last_stage c = StageDone \<and>
     stage_time c < now - minutes 10)"

definition settle_lost :: "time \<Rightarrow> string \<Rightarrow> string \<Rightarrow> string option \<Rightarrow> string \<Rightarrow> command_row \<Rightarrow> command_row" where
  "settle_lost now status stage ver line c = c\<lparr>cm_status := status, cm_finished_at := Some now,
     cm_last_stage := stage, cm_last_stage_at := Some now,
     cm_result := Some (ServerResult status stage ver True), cm_log := cm_log c @ line\<rparr>"

definition FinalizeCompletedStages :: "time \<Rightarrow> string \<Rightarrow> db \<Rightarrow> nat \<times> db" where
  "FinalizeCompletedStages now stamp d =
    (let cs0 = d_cmds d;
         cs1 = upd_where (lost_success now) (\<lambda>c. settle_lost now CmdSuccess StageDone
                 (Some (pl_to_version (cm_payload c))) (bracket stamp @ txt_fin_success) c) cs0;
         cs2 = upd_where (lost_failure now) (settle_lost now CmdFailed StageFailed None
                 (bracket stamp @ txt_fin_failed)) cs1;
         cs3 = upd_where (lost_unknown now) (\<lambda>c. settle_lost now CmdTimeout (cm_last_stage c) None
                 (bracket stamp @ txt_fin_timeout) c\<lparr>cm_result := Some (ServerResult CmdTimeout StageDone None True)\<rparr>) cs2
     in (rows_affected (lost_success now) cs0 + rows_affected (lost_failure now) cs1 +
           rows_affected (lost_unknown now) cs2,
         d\<lparr>d_cmds := cs3\<rparr>))"

section \<open>Leases\<close>

definition lease_lost :: "time \<Rightarrow> command_row \<Rightarrow> bool" where
  "lease_lost now c = (in_flight (cm_status c) \<and>
     (case cm_lease_expire_at c of None \<Rightarrow> False | Some e \<Rightarrow> e < now))"

definition timeout_cmd :: "time \<Rightarrow> string \<Rightarrow> command_row \<Rightarrow> command_row" where
  "timeout_cmd now line c = c\<lparr>cm_status := CmdTimeout, cm_last_stage := StageFailed,
     cm_last_stage_at := Some now, cm_finished_at := Some now,
     cm_result := (case cm_result c of None \<Rightarrow> Some (ServerResult CmdTimeout StageFailed None False)
                   | Some r \<Rightarrow> Some r),
     cm_log := cm_log c @ line\<rparr>"

definition th_waiting :: "task_host_row \<Rightarrow> bool" where
  "th_waiting h = (th_status h = ''pending'' \<or> th_status h = ''running'')"

definition timeout_thost :: "time \<Rightarrow> string \<Rightarrow> task_host_row \<Rightarrow> task_host_row" where
  "timeout_thost now line h = h\<lparr>th_status := CmdTimeout, th_stage := StageFailed,
     th_finished_at := Some now, th_log := th_log h @ line\<rparr>"

text \<open>The loop body: the row is read again under its locks, and passed over if it no longer applies.\<close>

definition reap_one ::
    "time \<Rightarrow> string \<Rightarrow> int \<times> string \<times> int \<Rightarrow> db \<times> string list \<times> nat \<Rightarrow> db \<times> string list \<times> nat" where
  "reap_one now line e acc = (case (e, acc) of ((cid, agent, th), (d, agents, n)) \<Rightarrow>
     (if th > 0 \<and> find_thost th d = None then acc
      else case find_cmd cid d of
         None \<Rightarrow> acc
       | Some c \<Rightarrow>
          (if \<not> lease_lost now c then acc
           else
            (let d1 = d\<lparr>d_cmds := upd_where (\<lambda>r. cm_id r = cid \<and> in_flight (cm_status r))
                        (timeout_cmd now line) (d_cmds d)\<rparr>;
                 d2 = (if th > 0 then d1\<lparr>d_thosts := upd_where (\<lambda>h. th_id h = th \<and> th_waiting h)
                        (timeout_thost now line) (d_thosts d1)\<rparr> else d1)
             in (d2, (if agent \<in> set agents then agents else agents @ [agent]), Suc n)))))"

definition leave_upgrading :: "host_row \<Rightarrow> host_row" where
  "leave_upgrading h = h\<lparr>ho_maintenance_until := None, ho_maintenance_reason := [],
     ho_agent_status := (if ho_agent_status h = ''upgrading'' then ''online'' else ho_agent_status h)\<rparr>"

definition agent_idle :: "string \<Rightarrow> db \<Rightarrow> bool" where
  "agent_idle a d = (\<not> exists_row (\<lambda>c. cm_agent_id c = a \<and> is_active (cm_status c)) (d_cmds d))"

definition release_agent :: "string \<Rightarrow> db \<Rightarrow> db" where
  "release_agent a d = d\<lparr>d_hosts := upd_where (\<lambda>h. ho_agent_id h = a \<and> agent_idle a d)
     leave_upgrading (d_hosts d)\<rparr>"

definition reap_list :: "time \<Rightarrow> db \<Rightarrow> (int \<times> string \<times> int) list" where
  "reap_list now d = map (\<lambda>c. (cm_id c, cm_agent_id c,
       (case cm_task_host_id c of None \<Rightarrow> 0 | Some t \<Rightarrow> t)))
     (take 500 (sort_key cm_id (filter (lease_lost now) (d_cmds d))))"

definition ReapExpired :: "time \<Rightarrow> string \<Rightarrow> db \<Rightarrow> nat \<times> db" where
  "ReapExpired now stamp d =
    (case fold (reap_one now (bracket stamp @ txt_lease_lost)) (reap_list now d) (d, [], 0) of
       (d1, agents, n) \<Rightarrow> (n, fold release_agent agents d1))"

section \<open>Host rows follow their commands\<close>

definition sync_source :: "db \<Rightarrow> task_host_row \<Rightarrow> command_row option" where
  "sync_source d h = max_row cm_id (\<lambda>c. cm_task_host_id c = Some (th_id h) \<and>
     cm_status c \<in> set [CmdSuccess, CmdFailed, CmdRolledBack, CmdTimeout, CmdExpired]) (d_cmds d)"

definition coalesce_text :: "string list \<Rightarrow> string" where
  "coalesce_text xs = (case filter (\<lambda>x. x \<noteq> []) xs of [] \<Rightarrow> [] | x # _ \<Rightarrow> x)"

definition sync_thost :: "time \<Rightarrow> command_row \<Rightarrow> task_host_row \<Rightarrow> task_host_row" where
  "sync_thost now c h = h\<lparr>
     th_status := (if cm_status c = CmdExpired then CmdTimeout else cm_status c),
     th_stage := (if cm_last_stage c = [] then th_stage h else cm_last_stage c),
     th_to_version := coalesce_text [(case cm_result c of None \<Rightarrow> [] | Some r \<Rightarrow> result_to_version r),
                        pl_to_version (cm_payload c), th_to_version h],
     th_exit_code := (case cm_result c of None \<Rightarrow> th_exit_code h | Some r \<Rightarrow>
                        (case result_exit_code r of None \<Rightarrow> th_exit_code h | Some x \<Rightarrow> x)),
     th_log := (if cm_log c = [] then th_log h else cm_log c),
     th_finished_at := Some (case cm_finished_at c of None \<Rightarrow> now | Some t \<Rightarrow> t)\<rparr>"

definition sync_applies :: "db \<Rightarrow> task_host_row \<Rightarrow> bool" where
  "sync_applies d h = (th_waiting h \<and>
     (case sync_source d h of None \<Rightarrow> False | Some c \<Rightarrow>
        (case th_started_at h of None \<Rightarrow> True | Some s \<Rightarrow>
           (case cm_finished_at c of None \<Rightarrow> cm_created_at c | Some t \<Rightarrow> t) \<ge> s)) \<and>
     \<not> exists_row (\<lambda>c. cm_task_host_id c = Some (th_id h) \<and> is_active (cm_status c)) (d_cmds d))"

definition SyncTaskHostsFromCommands :: "time \<Rightarrow> db \<Rightarrow> nat \<times> db" where
  "SyncTaskHostsFromCommands now d =
    (rows_affected (sync_applies d) (d_thosts d),
     d\<lparr>d_thosts := upd_where (sync_applies d)
         (\<lambda>h. (case sync_source d h of None \<Rightarrow> h | Some c \<Rightarrow> sync_thost now c h)) (d_thosts d)\<rparr>)"

definition clear_idle_windows :: "db \<Rightarrow> db" where
  "clear_idle_windows d = d\<lparr>d_hosts := upd_where (\<lambda>h. ho_maintenance_reason h = ''upgrading'' \<and>
     agent_idle (ho_agent_id h) d) leave_upgrading (d_hosts d)\<rparr>"

definition ReconcileTasks :: "time \<Rightarrow> string \<Rightarrow> db \<Rightarrow> nat \<times> db" where
  "ReconcileTasks now stamp d =
    (case FinalizeCompletedStages now stamp d of (f, d1) \<Rightarrow>
      (case ReapExpired now stamp d1 of (r, d2) \<Rightarrow>
        (case SyncTaskHostsFromCommands now d2 of (s, d3) \<Rightarrow> (f + r + s, clear_idle_windows d3))))"

section \<open>The contract\<close>

lemma in_flight_cases: "in_flight s \<Longrightarrow> s = CmdDispatched \<or> s = CmdAccepted \<or> s = CmdRunning"
  by (auto simp: in_flight_def)

lemma lost_in_flight:
  "lost_success now c \<Longrightarrow> in_flight (cm_status c)" "lost_failure now c \<Longrightarrow> in_flight (cm_status c)"
  "lost_unknown now c \<Longrightarrow> in_flight (cm_status c)" "lease_lost now c \<Longrightarrow> in_flight (cm_status c)"
  by (auto simp: lost_success_def lost_failure_def lost_unknown_def lease_lost_def)

lemma settle_evolves:
  assumes "in_flight (cm_status c)"
  shows "cmd_ended s \<Longrightarrow> cmd_evolves c (settle_lost now s stage ver line c)"
    "cmd_ended s \<Longrightarrow> cmd_evolves c (settle_lost now s stage ver line c\<lparr>cm_result := res\<rparr>)"
    "cmd_evolves c (timeout_cmd now line c)"
proof -
  have a: "is_active (cm_status c)" using assms by (rule in_flight_active)
  then have n: "\<not> cmd_ended (cm_status c)" using ended_not_active by blast
  have t: "cmd_ended CmdTimeout" by (simp add: cmd_ended_def)
  show "cmd_ended s \<Longrightarrow> cmd_evolves c (settle_lost now s stage ver line c)"
    "cmd_ended s \<Longrightarrow> cmd_evolves c (settle_lost now s stage ver line c\<lparr>cm_result := res\<rparr>)"
    "cmd_evolves c (timeout_cmd now line c)"
    using a n t by (simp_all add: cmd_evolves_def settle_lost_def timeout_cmd_def cmd_status_known_def)
qed

lemma in_flight_upd_evolves:
  assumes "\<And>c. P c \<Longrightarrow> in_flight (cm_status c) \<and> cmd_evolves c (f c)"
  shows "list_all2 cmd_evolves cs (upd_where P f cs)"
  by (rule list_all2_upd_where) (use assms in auto)

lemma waiting_evolves:
  assumes "th_waiting h"
  shows "thost_evolves h (timeout_thost now line h)" "thost_evolves h (sync_thost now c h)"
proof -
  have "\<not> thost_ended (th_status h)" using assms by (auto simp: th_waiting_def thost_ended_def)
  then show "thost_evolves h (timeout_thost now line h)" "thost_evolves h (sync_thost now c h)"
    by (simp_all add: thost_evolves_def timeout_thost_def sync_thost_def)
qed

lemma row_step_Finalize: "row_step d (snd (FinalizeCompletedStages now stamp d))"
proof -
  have ended: "cmd_ended CmdSuccess" "cmd_ended CmdFailed" "cmd_ended CmdTimeout"
    by (simp_all add: status_defs)
  have s1: "list_all2 cmd_evolves cs (upd_where (lost_success now)
      (\<lambda>c. settle_lost now CmdSuccess StageDone (Some (pl_to_version (cm_payload c))) l c) cs)" for cs l
    by (rule in_flight_upd_evolves) (simp add: lost_in_flight ended settle_evolves)
  have s2: "list_all2 cmd_evolves cs (upd_where (lost_failure now)
      (settle_lost now CmdFailed StageFailed None l) cs)" for cs l
    by (rule in_flight_upd_evolves) (simp add: lost_in_flight ended settle_evolves)
  have s3: "list_all2 cmd_evolves cs (upd_where (lost_unknown now)
      (\<lambda>c. settle_lost now CmdTimeout (cm_last_stage c) None l c\<lparr>cm_result := r\<rparr>) cs)" for cs l r
    by (rule in_flight_upd_evolves) (simp add: lost_in_flight ended settle_evolves)
  show ?thesis
    unfolding FinalizeCompletedStages_def Let_def snd_conv
    by (rule row_step_cmds) (rule cmds_evolve_trans [OF cmds_evolve_trans [OF s1 s2] s3])
qed

lemma row_step_reap_one:
  assumes "row_step d0 d"
  shows "row_step d0 (fst (reap_one now line e (d, agents, n)))"
proof -
  have cmds: "list_all2 cmd_evolves (d_cmds d) (upd_where (\<lambda>r. cm_id r = i \<and> in_flight (cm_status r))
      (timeout_cmd now line) (d_cmds d))" for i
    by (rule in_flight_upd_evolves) (auto intro: settle_evolves)
  have ths: "list_all2 thost_evolves (d_thosts d) (upd_where (\<lambda>h. th_id h = t \<and> th_waiting h)
      (timeout_thost now line) (d_thosts d))" for t
    by (rule list_all2_upd_where) (auto intro: waiting_evolves)
  have "row_step d (d\<lparr>d_cmds := cs, d_thosts := hs\<rparr>)"
    if "list_all2 cmd_evolves (d_cmds d) cs" "list_all2 thost_evolves (d_thosts d) hs" for cs hs
    using that by (auto simp: row_step_def row_frame_def)
  then have "row_step d (fst (reap_one now line e (d, agents, n)))"
    by (auto simp: reap_one_def Let_def split: prod.split option.split
        intro!: row_step_cmds cmds ths)
  with assms show ?thesis by (rule row_step_trans)
qed

lemma row_step_release [simp]: "row_step d (release_agent a e) = row_step d e"
  by (simp add: release_agent_def row_step_def row_frame_def)

lemma row_step_release_fold [simp]: "row_step d (fold release_agent as e) = row_step d e"
  by (induction as arbitrary: e) simp_all

lemma row_step_reap_fold:
  "row_step d0 (fst acc) \<Longrightarrow> row_step d0 (fst (fold (reap_one now line) es acc))"
proof (induction es arbitrary: acc)
  case (Cons e es)
  then show ?case using row_step_reap_one [of d0 "fst acc" now line e "fst (snd acc)" "snd (snd acc)"] by simp
qed simp

lemma row_step_Reap: "row_step d (snd (ReapExpired now stamp d))"
  using row_step_reap_fold [of d "(d, [], 0)" now "bracket stamp @ txt_lease_lost" "reap_list now d"]
  by (auto simp: ReapExpired_def split: prod.split)

lemma row_step_Sync: "row_step d (snd (SyncTaskHostsFromCommands now d))"
  unfolding SyncTaskHostsFromCommands_def snd_conv
  by (intro row_step_thosts list_all2_upd_where)
     (auto simp: sync_applies_def intro: waiting_evolves split: option.splits)

lemma row_step_clear [simp]: "row_step d (clear_idle_windows e) = row_step d e"
  by (simp add: clear_idle_windows_def row_step_def row_frame_def)

lemma row_step_Reconcile: "row_step d (snd (ReconcileTasks now stamp d))"
proof -
  obtain f d1 r d2 s d3 where e: "FinalizeCompletedStages now stamp d = (f, d1)"
    "ReapExpired now stamp d1 = (r, d2)" "SyncTaskHostsFromCommands now d2 = (s, d3)"
    by (metis prod.exhaust)
  have "row_step d d1" "row_step d1 d2" "row_step d2 d3"
    using row_step_Finalize [of d now stamp] row_step_Reap [of d1 now stamp] row_step_Sync [of d2 now]
    by (simp_all add: e)
  then show ?thesis by (simp add: ReconcileTasks_def e) (blast intro: row_step_trans)
qed

interpretation reap: agent_handler "\<lambda>d. snd (ReapExpired now stamp d)" for now stamp
  by (rule agent_handlerI) (rule row_step_Reap)

interpretation reconcile: agent_handler "\<lambda>d. snd (ReconcileTasks now stamp d)" for now stamp
  by (rule agent_handlerI) (rule row_step_Reconcile)

end
