(* ===== verification/ReapSafety.thy ===== *)
theory ReapSafety
imports Reap
begin

text \<open>
  The reconciliation does what it is for: lease recovery is one bulk update of the expired rows (at
  most 500 in a round), a second synchronisation finds nothing to do, no maintenance window outlives
  the last active command of its agent.
\<close>

definition host_refs :: "db \<Rightarrow> bool" where
  "host_refs d = list_all (\<lambda>c. case cm_task_host_id c of None \<Rightarrow> True
     | Some t \<Rightarrow> exists_row (\<lambda>h. th_id h = t) (d_thosts d)) (d_cmds d)"

lemma find_thost_None: "find_thost t d = None \<longleftrightarrow> \<not> exists_row (\<lambda>h. th_id h = t) (d_thosts d)"
  by (auto simp: find_thost_def find_None_all exists_row_iff)

lemma timeout_cmd_id [simp]: "cm_id (timeout_cmd now line c) = cm_id c"
  by (simp add: timeout_cmd_def)

lemma timeout_thost_id [simp]: "th_id (timeout_thost now line h) = th_id h"
  by (simp add: timeout_thost_def)

lemma upd_where_cong: "(\<And>r. r \<in> set rs \<Longrightarrow> P r = Q r) \<Longrightarrow> upd_where P f rs = upd_where Q f rs"
  by (simp add: upd_where_def)

lemma upd_where_join:
  assumes "i \<notin> I" "\<And>r. k (f r) = k r"
  shows "upd_where (\<lambda>r. k r \<in> I) f (upd_where (\<lambda>r. k r = i) f rs) = upd_where (\<lambda>r. k r \<in> insert i I) f rs"
  using assms by (induction rs) auto

text \<open>One round of the loop on a row that still applies.\<close>

lemma reap_one_step:
  assumes "cmd_keys d" "find_cmd i d = Some c" "lease_lost now c"
    and "0 < t \<longrightarrow> exists_row (\<lambda>h. th_id h = t) (d_thosts d)"
  shows "reap_one now line (i, a, t) (d, agents, n) =
    (d\<lparr>d_cmds := upd_where (\<lambda>r. cm_id r = i) (timeout_cmd now line) (d_cmds d),
       d_thosts := (if 0 < t then upd_where (\<lambda>h. th_id h = t \<and> th_waiting h) (timeout_thost now line) (d_thosts d)
                    else d_thosts d)\<rparr>,
     (if a \<in> set agents then agents else agents @ [a]), Suc n)"
proof -
  from assms(2) have c: "c \<in> set (d_cmds d)" "cm_id c = i"
    by (auto simp: find_cmd_def dest: find_SomeD)
  have "upd_where (\<lambda>r. cm_id r = i \<and> in_flight (cm_status r)) (timeout_cmd now line) (d_cmds d) =
    upd_where (\<lambda>r. cm_id r = i) (timeout_cmd now line) (d_cmds d)"
  proof (rule upd_where_cong)
    fix r assume r: "r \<in> set (d_cmds d)"
    have "in_flight (cm_status r)" if "cm_id r = i"
      using cmd_by_id [OF assms(1) r c(1)] that c(2) lost_in_flight(4) [OF assms(3)] by simp
    then show "(cm_id r = i \<and> in_flight (cm_status r)) = (cm_id r = i)" by blast
  qed
  then show ?thesis using assms(2-4)
    by (cases "0 < t") (simp_all add: reap_one_def Let_def find_thost_None)
qed

lemma exists_timeout [simp]:
  "exists_row (\<lambda>h. th_id h = s) (upd_where Q (timeout_thost now line) hs) = exists_row (\<lambda>h. th_id h = s) hs"
  by (induction hs) auto

lemma reap_fold_spec:
  assumes "cmd_keys d" "distinct (map fst es)"
    and "\<forall>(i, a, t)\<in>set es. (\<exists>c. find_cmd i d = Some c \<and> lease_lost now c) \<and>
      (0 < t \<longrightarrow> exists_row (\<lambda>h. th_id h = t) (d_thosts d))"
  shows "d_cmds (fst (fold (reap_one now line) es (d, agents, n))) =
      upd_where (\<lambda>r. cm_id r \<in> fst ` set es) (timeout_cmd now line) (d_cmds d) \<and>
    snd (snd (fold (reap_one now line) es (d, agents, n))) = n + length es"
  using assms
proof (induction es arbitrary: d agents n)
  case Nil
  then show ?case by (simp add: upd_where_def)
next
  case (Cons e es)
  obtain i a t where e: "e = (i, a, t)" by (cases e)
  with Cons.prems obtain c where "find_cmd i d = Some c" "lease_lost now c"
    "0 < t \<longrightarrow> exists_row (\<lambda>h. th_id h = t) (d_thosts d)" by auto
  note s = reap_one_step [OF Cons.prems(1) this, of line a agents n]
  define d1 where "d1 = fst (reap_one now line (i, a, t) (d, agents, n))"
  have cs: "d_cmds d1 = upd_where (\<lambda>r. cm_id r = i) (timeout_cmd now line) (d_cmds d)"
    unfolding d1_def s by simp
  have hs: "exists_row (\<lambda>h. th_id h = s) (d_thosts d1) = exists_row (\<lambda>h. th_id h = s) (d_thosts d)" for s
    unfolding d1_def s by simp
  obtain agents' where r: "reap_one now line e (d, agents, n) = (d1, agents', Suc n)"
    unfolding d1_def e s by simp
  have "row_step d d1" unfolding d1_def by (rule row_step_reap_one) simp
  then have k1: "cmd_keys d1" using Cons.prems(1) cmds_evolve_keys by (auto simp: row_step_def row_frame_def)
  have other: "find_cmd j d1 = find_cmd j d" if "j \<noteq> i" for j
    using that unfolding cs find_cmd_def
    by (subst find_upd_where) (auto split: option.split dest: find_SomeD)
  have "\<forall>(j, a, t)\<in>set es. (\<exists>c. find_cmd j d1 = Some c \<and> lease_lost now c) \<and>
      (0 < t \<longrightarrow> exists_row (\<lambda>h. th_id h = t) (d_thosts d1))"
  proof
    fix x assume x: "x \<in> set es"
    obtain j b u where xx: "x = (j, b, u)" by (cases x)
    have "j \<noteq> i" using x Cons.prems(2) unfolding xx e by force
    with x Cons.prems(3) show "case x of (j, a, t) \<Rightarrow> (\<exists>c. find_cmd j d1 = Some c \<and> lease_lost now c) \<and>
      (0 < t \<longrightarrow> exists_row (\<lambda>h. th_id h = t) (d_thosts d1))"
      unfolding xx by (auto simp: other hs)
  qed
  from Cons.IH [OF k1 _ this, of agents' "Suc n"] Cons.prems(2) r cs
  show ?case by (simp add: e upd_where_join)
qed

lemma release_fold_cmds [simp]: "d_cmds (fold release_agent as d) = d_cmds d"
  by (induction as arbitrary: d) (simp_all add: release_agent_def)

lemma reap_list_ids:
  assumes "cmd_keys d" "host_refs d"
  shows "distinct (map fst (reap_list now d))"
    "\<forall>(i, a, t)\<in>set (reap_list now d). (\<exists>c. find_cmd i d = Some c \<and> lease_lost now c) \<and>
      (0 < t \<longrightarrow> exists_row (\<lambda>h. th_id h = t) (d_thosts d))"
proof -
  let ?s = "sort_key cm_id (filter (lease_lost now) (d_cmds d))"
  have "distinct (map cm_id (filter (lease_lost now) (d_cmds d)))"
    using assms(1) by (auto simp: cmd_keys_def distinct_map intro: inj_on_subset)
  then have "distinct (map cm_id ?s)"
    by (auto simp: distinct_map)
  then show "distinct (map fst (reap_list now d))"
    by (simp add: reap_list_def comp_def take_map [symmetric] distinct_take)
  have in_s: "c \<in> set (d_cmds d) \<and> lease_lost now c" if "c \<in> set (take 500 ?s)" for c
    using set_take_subset [of 500 ?s] that by auto
  have f: "find_cmd (cm_id c) d = Some c" if "c \<in> set (d_cmds d)" for c
    using assms(1) that by (auto simp: find_cmd_def cmd_keys_def intro: find_distinct)
  show "\<forall>(i, a, t)\<in>set (reap_list now d). (\<exists>c. find_cmd i d = Some c \<and> lease_lost now c) \<and>
      (0 < t \<longrightarrow> exists_row (\<lambda>h. th_id h = t) (d_thosts d))"
  proof
    fix x assume "x \<in> set (reap_list now d)"
    then obtain c where c: "c \<in> set (take 500 ?s)"
      and x: "x = (cm_id c, cm_agent_id c, (case cm_task_host_id c of None \<Rightarrow> 0 | Some t \<Rightarrow> t))"
      by (auto simp: reap_list_def)
    from in_s [OF c] assms(2) have "case cm_task_host_id c of None \<Rightarrow> True
        | Some t \<Rightarrow> exists_row (\<lambda>h. th_id h = t) (d_thosts d)"
      by (auto simp: host_refs_def list_all_iff)
    with in_s [OF c] f show "case x of (i, a, t) \<Rightarrow> (\<exists>c. find_cmd i d = Some c \<and> lease_lost now c) \<and>
      (0 < t \<longrightarrow> exists_row (\<lambda>h. th_id h = t) (d_thosts d))"
      by (auto simp: x split: option.splits)
  qed
qed

text \<open>C8: lease recovery, a loop that locks and reads every row again, is equivalent to one bulk update:
  exactly the expired commands among the 500 oldest become timeouts, no command with a live lease is
  touched, and the count returned is the number of commands timed out.\<close>

theorem ReapExpired_bulk:
  assumes "cmd_keys d" and "host_refs d"
  shows "d_cmds (snd (ReapExpired now stamp d)) =
      upd_where (\<lambda>c. c \<in> set (take 500 (sort_key cm_id (filter (lease_lost now) (d_cmds d)))))
        (timeout_cmd now (bracket stamp @ txt_lease_lost)) (d_cmds d) \<and>
    fst (ReapExpired now stamp d) = min 500 (rows_affected (lease_lost now) (d_cmds d))"
proof -
  let ?line = "bracket stamp @ txt_lease_lost"
  let ?top = "take 500 (sort_key cm_id (filter (lease_lost now) (d_cmds d)))"
  obtain d1 as n where f: "fold (reap_one now ?line) (reap_list now d) (d, [], 0) = (d1, as, n)"
    by (metis prod.exhaust)
  note spec = reap_fold_spec [OF assms(1) reap_list_ids [OF assms], where line = ?line and agents = "[]" and n = 0]
  have ids: "fst ` set (reap_list now d) = cm_id ` set ?top"
    by (simp add: reap_list_def image_image)
  have "upd_where (\<lambda>r. cm_id r \<in> cm_id ` set ?top) (timeout_cmd now ?line) (d_cmds d) =
      upd_where (\<lambda>c. c \<in> set ?top) (timeout_cmd now ?line) (d_cmds d)"
  proof (rule upd_where_cong)
    fix r assume r: "r \<in> set (d_cmds d)"
    have "set ?top \<subseteq> set (d_cmds d)" using set_take_subset [of 500] by fastforce
    with r cmd_by_id [OF assms(1) r] show "(cm_id r \<in> cm_id ` set ?top) = (r \<in> set ?top)" by auto
  qed
  moreover have "length (reap_list now d) = min 500 (rows_affected (lease_lost now) (d_cmds d))"
    by (simp add: reap_list_def rows_affected_def min.commute)
  ultimately show ?thesis
    using spec [of now] f by (simp add: ReapExpired_def ids)
qed

text \<open>A round leaves no lost lease behind when at most 500 leases are lost, so a crashed agent cannot
  keep its command running for ever.\<close>

theorem ReapExpired_clears:
  assumes "cmd_keys d" and "host_refs d" and "rows_affected (lease_lost now) (d_cmds d) \<le> 500"
  shows "rows_affected (lease_lost now) (d_cmds (snd (ReapExpired now stamp d))) = 0"
proof -
  have "take 500 (sort_key cm_id (filter (lease_lost now) (d_cmds d))) =
      sort_key cm_id (filter (lease_lost now) (d_cmds d))"
    using assms(3) by (simp add: rows_affected_def)
  with ReapExpired_bulk [OF assms(1,2), of now stamp]
  have e: "d_cmds (snd (ReapExpired now stamp d)) =
      upd_where (\<lambda>c. c \<in> set (d_cmds d) \<and> lease_lost now c)
        (timeout_cmd now (bracket stamp @ txt_lease_lost)) (d_cmds d)"
    by simp
  show ?thesis unfolding rows_affected_0 e
    by (auto simp: set_upd_where lease_lost_def timeout_cmd_def in_flight_def split: if_splits option.splits)
qed

section \<open>Synchronisation\<close>

lemma sync_source_ended: "sync_source d h = Some c \<Longrightarrow> cmd_ended (cm_status c)"
  unfolding sync_source_def by (drule max_row_Some(2)) (auto simp: cmd_ended_def)

lemma sync_thost_not_waiting:
  "sync_source d h = Some c \<Longrightarrow> \<not> th_waiting (sync_thost now c h)"
  unfolding sync_source_def
  by (drule max_row_Some(2)) (auto simp: th_waiting_def sync_thost_def split: if_splits)

lemma sync_applies_cmds: "d_cmds d' = d_cmds d \<Longrightarrow> sync_applies d' h = sync_applies d h"
  by (simp add: sync_applies_def sync_source_def)

text \<open>Copying the results of ended commands to their host rows is idempotent: a second run, at any
  later time, finds no row to change.\<close>

theorem Sync_idempotent:
  "SyncTaskHostsFromCommands now' (snd (SyncTaskHostsFromCommands now d)) =
    (0, snd (SyncTaskHostsFromCommands now d))"
proof -
  let ?d = "snd (SyncTaskHostsFromCommands now d)"
  have c: "d_cmds ?d = d_cmds d" by (simp add: SyncTaskHostsFromCommands_def)
  have "\<not> sync_applies ?d h" if "h \<in> set (d_thosts ?d)" for h
  proof -
    from that consider h0 where "h0 \<in> set (d_thosts d)" "sync_applies d h0"
        "h = (case sync_source d h0 of None \<Rightarrow> h0 | Some c \<Rightarrow> sync_thost now c h0)"
      | "\<not> sync_applies d h"
      by (auto simp: SyncTaskHostsFromCommands_def elim!: upd_where_memE)
    then show ?thesis
    proof cases
      case 1
      then obtain c where "sync_source d h0 = Some c" by (auto simp: sync_applies_def split: option.splits)
      with 1 sync_thost_not_waiting have "\<not> th_waiting h" by auto
      then show ?thesis by (simp add: sync_applies_def)
    qed (simp add: sync_applies_cmds [OF c])
  qed
  then show ?thesis
    by (simp add: SyncTaskHostsFromCommands_def [of now' ?d] rows_affected_0 upd_where_id)
qed

text \<open>After a reconciliation no host is shown as upgrading unless its agent has an active command.\<close>

theorem Reconcile_no_zombie_window:
  assumes "h \<in> set (d_hosts (snd (ReconcileTasks now stamp d)))" and "ho_maintenance_reason h = ''upgrading''"
  shows "\<not> agent_idle (ho_agent_id h) (snd (ReconcileTasks now stamp d))"
proof -
  obtain e where e: "snd (ReconcileTasks now stamp d) = clear_idle_windows e"
    by (simp add: ReconcileTasks_def case_prod_unfold)
  have "agent_idle a (clear_idle_windows e) = agent_idle a e" for a
    by (simp add: agent_idle_def clear_idle_windows_def)
  with assms show ?thesis unfolding e
    by (auto simp: clear_idle_windows_def leave_upgrading_def elim!: upd_where_memE)
qed

end
