(* ===== verification/TaskSafety.thy ===== *)
theory TaskSafety
imports TaskOps
begin

text \<open>
  The operations on a task keep the constraints of the tables, never act across tenants, leave the
  database alone when they fail, and move the task and everything below it together.
\<close>

section \<open>Errors and tenants\<close>

lemma move_task_err: "move_task actor now sc i from to err d0 d = (Inl e, d') \<Longrightarrow> d' = d0 \<and> e = err"
  by (auto simp: move_task_def split: if_splits)

lemma move_task_ok:
  "move_task actor now sc i from to err d0 d = (Inr (), d') \<Longrightarrow>
   d' = d\<lparr>d_tasks := upd_where (task_guard sc i from) (set_task_status actor now to) (d_tasks d)\<rparr> \<and>
   (\<exists>t\<in>set (d_tasks d). task_guard sc i from t)"
  by (auto simp: move_task_def rows_affected_0 split: if_splits)

lemmas task_op_defs = Start_def Promote_def Pause_def Cancel_def Retry_def

lemma upd_where_ball:
  "(\<And>r. P r \<Longrightarrow> Q (f r)) \<Longrightarrow> (\<And>r. \<not> P r \<Longrightarrow> Q r) \<Longrightarrow> \<forall>r\<in>set (upd_where P f rs). Q r"
  by (auto simp: upd_where_def)

lemma error_unchanged:
  "Start pc actor now sc i d = (Inl e, d') \<Longrightarrow> d' = d"
  "Promote pc actor now sc i d = (Inl e, d') \<Longrightarrow> d' = d"
  "Pause pc actor now sc i d = (Inl e, d') \<Longrightarrow> d' = d"
  "Cancel pc actor now sc i d = (Inl e, d') \<Longrightarrow> d' = d"
  "Retry pc actor now stamp sc i rq d = (Inl e, d') \<Longrightarrow> d' = d"
  by (auto simp: task_op_defs Let_def dest: move_task_err split: option.splits if_splits)

text \<open>A task operation that reports an error has changed nothing, however far it had come.\<close>

theorem task_op_error_unchanged:
  assumes "r \<in> {Start pc actor now sc i d, Promote pc actor now sc i d, Pause pc actor now sc i d,
      Cancel pc actor now sc i d}" and "r = (Inl e, d')"
  shows "d' = d"
  using assms(1) unfolding assms(2) by (auto dest!: sym [of "(Inl e, d')"] dest: error_unchanged)

lemma move_task_other_tenant:
  assumes "\<And>t. t \<in> set (d_tasks d) \<Longrightarrow> tk_id t = i \<Longrightarrow> \<not> scope_where sc (tk_tenant t)"
  shows "move_task actor now sc i from to err d0 d = (Inl err, d0)"
  using assms by (auto simp: move_task_def rows_affected_0 task_guard_def)

lemma find_scoped_None:
  "find_task_scoped sc i d = None \<longleftrightarrow> (\<forall>t\<in>set (d_tasks d). tk_id t = i \<longrightarrow> \<not> scope_where sc (tk_tenant t))"
  by (auto simp: find_task_scoped_def find_None_all)

section \<open>Cancel\<close>

lemma cancel_rows_fields:
  "d_tasks (cancel_rows now i d) = d_tasks d" "d_next_cmd (cancel_rows now i d) = d_next_cmd d"
  "d_next_thost (cancel_rows now i d) = d_next_thost d" "d_next_task (cancel_rows now i d) = d_next_task d"
  by (simp_all add: cancel_rows_def)

lemma Cancel_ok:
  assumes "Cancel pc actor now sc i d = (Inr (), d')"
  shows "\<exists>t. find_task_scoped sc i d = Some t \<and> tk_status t \<in> set [''draft'', ''running'', ''paused''] \<and>
    d' = (cancel_rows now i d)\<lparr>d_tasks := upd_where (task_guard sc i [''draft'', ''running'', ''paused''])
      (set_task_status actor now ''canceled'') (d_tasks d)\<rparr>"
proof -
  from assms obtain t where t: "find_task_scoped sc i d = Some t" "tk_status t \<in> set [''draft'', ''running'', ''paused'']"
    and m: "move_task actor now sc i [''draft'', ''running'', ''paused''] ''canceled'' StatusChanged d (cancel_rows now i d) = (Inr (), d')"
    by (auto simp: Cancel_def split: option.splits if_splits)
  from move_task_ok [OF m] t show ?thesis by (auto simp: cancel_rows_fields)
qed

text \<open>C5: after a successful cancelation nothing of the task is left to run: no active command, no waiting
  or running host row or batch, and the task, which had not ended, is canceled.\<close>

theorem Cancel_stops_everything:
  assumes "Cancel pc actor now sc i d = (Inr (), d')" and "task_keys d"
  shows "(\<forall>c\<in>set (d_cmds d'). cm_task_id c = Some i \<longrightarrow> \<not> is_active (cm_status c)) \<and>
    (\<forall>h\<in>set (d_thosts d'). th_task_id h = i \<longrightarrow> \<not> unfinished (th_status h)) \<and>
    (\<forall>b\<in>set (d_batches d'). tb_task_id b = i \<longrightarrow> \<not> unfinished (tb_status b)) \<and>
    (\<exists>t. find_task i d' = Some t \<and> tk_status t = ''canceled'')"
proof -
  from Cancel_ok [OF assms(1)] obtain t where t: "find_task_scoped sc i d = Some t"
      "tk_status t \<in> set [''draft'', ''running'', ''paused'']"
    and d': "d' = (cancel_rows now i d)\<lparr>d_tasks := upd_where (task_guard sc i [''draft'', ''running'', ''paused''])
      (set_task_status actor now ''canceled'') (d_tasks d)\<rparr>" by blast
  from t(1) have tt: "t \<in> set (d_tasks d)" "tk_id t = i" "scope_where sc (tk_tenant t)"
    by (auto simp: find_task_scoped_def dest: find_SomeD)
  then have "find (\<lambda>x. tk_id x = i) (d_tasks d) = Some t"
    using assms(2) by (auto simp: task_keys_def intro: find_distinct)
  then have "find_task i d' = Some (set_task_status actor now ''canceled'' t)"
    using tt t(2) unfolding d' find_task_def
    by (simp add: find_upd_where set_task_status_def task_guard_def)
  then have "\<exists>t. find_task i d' = Some t \<and> tk_status t = ''canceled''"
    by (simp add: set_task_status_def)
  moreover have "\<forall>c\<in>set (d_cmds d'). cm_task_id c = Some i \<longrightarrow> \<not> is_active (cm_status c)"
    unfolding d' cancel_rows_def by (simp, rule upd_where_ball) (auto simp: cancel_cmd_def)
  moreover have "\<forall>h\<in>set (d_thosts d'). th_task_id h = i \<longrightarrow> \<not> unfinished (th_status h)"
    unfolding d' cancel_rows_def by (simp, rule upd_where_ball) (auto simp: cancel_thost_def unfinished_def)
  moreover have "\<forall>b\<in>set (d_batches d'). tb_task_id b = i \<longrightarrow> \<not> unfinished (tb_status b)"
    unfolding d' cancel_rows_def by (simp, rule upd_where_ball) (auto simp: cancel_batch_def unfinished_def)
  ultimately show ?thesis by blast
qed

section \<open>The contract of the task operations\<close>

lemma set_task_status_id [simp]: "tk_id (set_task_status actor now s t) = tk_id t"
  by (simp add: set_task_status_def)

lemma list_all_upd_key:
  "(\<And>r. k (f r) = k r) \<Longrightarrow> list_all (\<lambda>r. k r < n) (upd_where P f rs) = list_all (\<lambda>r. k r < n) rs"
  by (induction rs) auto

lemma task_row_id [simp]:
  "th_id (cancel_thost now h) = th_id h" "th_id (reset_thost now line h) = th_id h"
  "tb_task_id (cancel_batch now b) = tb_task_id b" "tb_index (cancel_batch now b) = tb_index b"
  "tb_task_id (skip_batch now b) = tb_task_id b" "tb_index (skip_batch now b) = tb_index b"
  "tb_task_id (reset_batch b) = tb_task_id b" "tb_index (reset_batch b) = tb_index b"
  by (simp_all add: cancel_thost_def reset_thost_def cancel_batch_def skip_batch_def reset_batch_def)

lemmas key_defs = task_keys_def thost_keys_def batch_keys_def map_upd_where list_all_upd_key

lemma cancel_cmd_evolves: "is_active (cm_status c) \<Longrightarrow> cmd_evolves c (cancel_cmd now line c)"
  using ended_not_active [of "cm_status c"]
  by (auto simp: cmd_evolves_def cancel_cmd_def cmd_status_known_def cmd_ended_def)

lemma cancel_upd_evolves:
  "(\<And>c. P c \<Longrightarrow> is_active (cm_status c)) \<Longrightarrow> list_all2 cmd_evolves cs (upd_where P (cancel_cmd now line) cs)"
  by (rule list_all2_upd_where) (auto intro: cancel_cmd_evolves)

lemma cancel_rows_contract:
  "list_all2 cmd_evolves (d_cmds d) (d_cmds (cancel_rows now i d))"
  "list_all2 thost_evolves (d_thosts d) (d_thosts (cancel_rows now i d))"
  "integrity d \<Longrightarrow> thost_keys (cancel_rows now i d) \<and> batch_keys (cancel_rows now i d)"
proof -
  show "list_all2 cmd_evolves (d_cmds d) (d_cmds (cancel_rows now i d))"
    unfolding cancel_rows_def by (simp, rule cancel_upd_evolves) simp
  have "thost_evolves h (cancel_thost now h)" if "unfinished (th_status h)" for h
    using that by (auto simp: thost_evolves_def cancel_thost_def unfinished_def thost_ended_def)
  then show "list_all2 thost_evolves (d_thosts d) (d_thosts (cancel_rows now i d))"
    unfolding cancel_rows_def by (simp, intro list_all2_upd_where) auto
  show "integrity d \<Longrightarrow> thost_keys (cancel_rows now i d) \<and> batch_keys (cancel_rows now i d)"
    unfolding integrity_def cancel_rows_def by (simp add: key_defs)
qed

lemma agent_handler_cases:
  assumes "\<And>d. op d = d \<or> (list_all2 cmd_evolves (d_cmds d) (d_cmds (op d)) \<and>
      list_all2 thost_evolves (d_thosts d) (d_thosts (op d)) \<and> d_next_cmd (op d) = d_next_cmd d \<and>
      (integrity d \<longrightarrow> task_keys (op d) \<and> thost_keys (op d) \<and> batch_keys (op d)))"
  shows "agent_handler op"
proof
  fix d
  show "list_all2 cmd_evolves (d_cmds d) (d_cmds (op d))"
    using assms [of d] by auto
  show "d_next_cmd (op d) = d_next_cmd d" using assms [of d] by auto
  show "integrity d \<Longrightarrow> task_keys (op d) \<and> thost_keys (op d) \<and> batch_keys (op d)"
    using assms [of d] by (auto simp: integrity_def)
  show "list_all2 thost_evolves (d_thosts d) (d_thosts (op d))"
    using assms [of d] by auto
qed

lemma move_task_frame:
  "move_task actor now sc i fr to err d0 d = (r, d') \<Longrightarrow> d' = d0 \<or>
    d' = d\<lparr>d_tasks := upd_where (task_guard sc i fr) (set_task_status actor now to) (d_tasks d)\<rparr>"
  by (auto simp: move_task_def split: if_splits)

interpretation cancel: agent_handler "\<lambda>d. snd (Cancel pc actor now sc i d)" for pc actor now sc i
proof (rule agent_handler_cases)
  fix d
  obtain r d' where e: "Cancel pc actor now sc i d = (r, d')" by (cases "Cancel pc actor now sc i d")
  show "snd (Cancel pc actor now sc i d) = d \<or> (list_all2 cmd_evolves (d_cmds d) (d_cmds (snd (Cancel pc actor now sc i d))) \<and>
      list_all2 thost_evolves (d_thosts d) (d_thosts (snd (Cancel pc actor now sc i d))) \<and>
      d_next_cmd (snd (Cancel pc actor now sc i d)) = d_next_cmd d \<and>
      (integrity d \<longrightarrow> task_keys (snd (Cancel pc actor now sc i d)) \<and>
         thost_keys (snd (Cancel pc actor now sc i d)) \<and> batch_keys (snd (Cancel pc actor now sc i d))))"
  proof (cases r)
    case (Inl er)
    with e error_unchanged(4) show ?thesis by auto
  next
    case (Inr u)
    with e have "Cancel pc actor now sc i d = (Inr (), d')" by simp
    from Cancel_ok [OF this] e cancel_rows_contract [of d now i] show ?thesis
      by (auto simp: cancel_rows_fields integrity_def) (simp_all add: key_defs cancel_rows_fields)
  qed
qed

text \<open>The operations that only move the task and its batches.\<close>

lemma status_op_rows:
  "d_cmds (snd (Start pc actor now sc i d)) = d_cmds d \<and> d_thosts (snd (Start pc actor now sc i d)) = d_thosts d"
  "d_cmds (snd (Promote pc actor now sc i d)) = d_cmds d \<and> d_thosts (snd (Promote pc actor now sc i d)) = d_thosts d"
  "d_cmds (snd (Pause pc actor now sc i d)) = d_cmds d \<and> d_thosts (snd (Pause pc actor now sc i d)) = d_thosts d"
  by (auto simp: task_op_defs Let_def move_task_def split: option.split)

lemma status_op_contract:
  assumes "integrity d"
  shows "integrity (snd (Start pc actor now sc i d))" "integrity (snd (Promote pc actor now sc i d))"
    "integrity (snd (Pause pc actor now sc i d))"
proof -
  note a = assms [unfolded integrity_def]
  show "integrity (snd (Start pc actor now sc i d))" "integrity (snd (Promote pc actor now sc i d))"
    "integrity (snd (Pause pc actor now sc i d))"
    using a by (auto simp: task_op_defs Let_def move_task_def integrity_def key_defs split: option.split)
qed

section \<open>Retry\<close>

lemma retry_candidates_mem:
  "(h, ho) \<in> set (retry_candidates i ids d) \<longleftrightarrow> h \<in> set (d_thosts d) \<and> th_task_id h = i \<and>
     (ids = [] \<or> th_id h \<in> set ids) \<and> find_host (th_host_id h) d = Some ho"
  by (auto simp: retry_candidates_def split: option.splits)

lemma reset_id_evolves:
  "list_all2 cmd_evolves (d_cmds d) (d_cmds (retry_rows actor now line i rids bs d))"
  unfolding retry_rows_def by (simp, rule cancel_upd_evolves) simp

lemma Retry_frame:
  "snd (Retry pc actor now stamp sc i rq d) = d \<or>
   (\<exists>rids bs. snd (Retry pc actor now stamp sc i rq d) = retry_rows actor now (bracket stamp @ txt_retry) i rids bs d)"
  by (auto simp: Retry_def Let_def split: option.split)

interpretation retry: command_handler "\<lambda>d. snd (Retry pc actor now stamp sc i rq d)"
  for pc actor now stamp sc i rq
proof
  fix d
  let ?d = "snd (Retry pc actor now stamp sc i rq d)"
  consider "?d = d" | rids bs where "?d = retry_rows actor now (bracket stamp @ txt_retry) i rids bs d"
    using Retry_frame by blast
  then have "list_all2 cmd_evolves (d_cmds d) (d_cmds ?d) \<and> d_next_cmd ?d = d_next_cmd d \<and>
      (integrity d \<longrightarrow> task_keys ?d \<and> thost_keys ?d \<and> batch_keys ?d)"
  proof cases
    case 2
    then show ?thesis using reset_id_evolves [of d]
      by (simp add: integrity_def) (simp add: retry_rows_def key_defs)
  qed (simp add: integrity_def)
  then show "list_all2 cmd_evolves (d_cmds d) (d_cmds ?d)" "d_next_cmd ?d = d_next_cmd d"
    "integrity d \<Longrightarrow> task_keys ?d \<and> thost_keys ?d \<and> batch_keys ?d" by auto
qed

text \<open>Every task operation keeps the constraints of the tables: keys, statuses, one active command for a
  host row, one active self-update for an agent.\<close>

theorem task_ops_integrity:
  assumes "integrity d"
    and "d' \<in> {snd (Start pc actor now sc i d), snd (Promote pc actor now sc i d), snd (Pause pc actor now sc i d),
      snd (Cancel pc actor now sc i d), snd (Retry pc actor now stamp sc i rq d)}"
  shows "integrity d'"
  using assms(2) status_op_contract [OF assms(1)] cancel.integrity_kept [OF assms(1)]
    retry.integrity_kept [OF assms(1)]
  by (elim insertE) simp_all

text \<open>C11: a retry resets a host row only if its status allows it: never a successful host or one whose agent
  still holds a lease unless it is named and forced; the rows it resets are waiting afterwards and have
  no active command left, every other host row is untouched.\<close>

theorem Retry_resets:
  assumes "Retry pc actor now stamp sc i rq d = (Inr rs, d')" and "thost_keys d" and "h \<in> set (d_thosts d)"
  shows "h \<in> set (d_thosts d') \<or>
    (th_task_id h = i \<and> (rr_task_host_ids rq = [] \<or> th_id h \<in> set (rr_task_host_ids rq)) \<and>
     (th_status h = ''success'' \<or> th_status h = ''running'' \<and> has_live now d (th_id h) \<longrightarrow>
        th_id h \<in> set (rr_task_host_ids rq) \<and> rr_force rq) \<and>
     reset_thost now (bracket stamp @ txt_retry) h \<in> set (d_thosts d') \<and>
     (\<forall>c\<in>set (d_cmds d'). cm_task_host_id c = Some (th_id h) \<longrightarrow> \<not> is_active (cm_status c)))"
proof -
  define ids where "ids = rr_task_host_ids rq"
  define verdict where "verdict = (\<lambda>h :: task_host_row. retry_decision (th_status h) (ids \<noteq> []) (rr_force rq) (has_live now d (th_id h)))"
  define resets where "resets = filter (\<lambda>(h :: task_host_row, ho :: host_row). verdict h = None) (retry_candidates i ids d)"
  define rids where "rids = map (\<lambda>(h :: task_host_row, ho :: host_row). th_id h) resets"
  from assms(1) consider "d' = d" | bs where "d' = retry_rows actor now (bracket stamp @ txt_retry) i rids bs d"
    by (auto simp: Retry_def Let_def rids_def resets_def verdict_def ids_def split: option.splits if_splits)
  then show ?thesis
  proof cases
    case 2
    show ?thesis
    proof (cases "th_id h \<in> set rids")
      case False
      then have "h \<in> set (d_thosts d')" unfolding 2 retry_rows_def using assms(3)
        by (auto simp: set_upd_where)
      then show ?thesis by blast
    next
      case True
      then obtain h' ho where h': "(h', ho) \<in> set (retry_candidates i ids d)" "verdict h' = None" "th_id h' = th_id h"
        by (auto simp: rids_def resets_def)
      moreover from this have "h' = h"
        using assms(2,3) distinct_map_unique [of th_id "d_thosts d" h' h]
        by (auto simp: thost_keys_def retry_candidates_mem)
      ultimately have h: "th_task_id h = i" "ids = [] \<or> th_id h \<in> set ids" "verdict h = None"
        by (auto simp: retry_candidates_mem)
      have "th_status h = ''success'' \<or> th_status h = ''running'' \<and> has_live now d (th_id h) \<longrightarrow>
          th_id h \<in> set ids \<and> rr_force rq"
        using h by (auto simp: verdict_def retry_decision_def split: if_splits)
      moreover have "reset_thost now (bracket stamp @ txt_retry) h \<in> set (d_thosts d')"
        unfolding 2 retry_rows_def using assms(3) True by (auto simp: set_upd_where image_iff)
      moreover have "\<forall>c\<in>set (d_cmds d'). cm_task_host_id c = Some (th_id h) \<longrightarrow> \<not> is_active (cm_status c)"
        unfolding 2 retry_rows_def by (simp, rule upd_where_ball) (use True in \<open>auto simp: cancel_cmd_def\<close>)
      ultimately show ?thesis using h by (simp add: ids_def)
    qed
  qed (use assms(3) in blast)
qed

text \<open>A retry asked for in any scope that is not cross-tenant, every ordinary administrator's, always
  fails and changes nothing: its first statement cannot be executed.\<close>

theorem Retry_needs_cross_tenant:
  assumes "\<not> sc_cross sc"
  shows "\<exists>e. Retry pc actor now stamp sc i rq d = (Inl e, d)"
  using assms by (auto simp: Retry_def split: option.split)

end
