(* ===== verification/OrchestratorSafety.thy ===== *)
theory OrchestratorSafety
imports Orchestrator TaskSafety
begin

text \<open>
  The orchestrator keeps the constraints of the tables, dispatches a host at most once and only when
  its task is running, its batch is due and the host is online and of the right system, never acts
  on a paused task except to end it, and settles the task from its host rows.
\<close>

section \<open>Dispatching one host\<close>

lemma find_thost_mem: "find_thost t d = Some h \<Longrightarrow> h \<in> set (d_thosts d) \<and> th_id h = t"
  by (auto simp: find_thost_def dest: find_SomeD)

lemma take_thost_fields [simp]:
  "d_cmds (take_thost now t d) = d_cmds d" "d_tasks (take_thost now t d) = d_tasks d"
  "d_batches (take_thost now t d) = d_batches d" "d_next_cmd (take_thost now t d) = d_next_cmd d"
  "d_next_thost (take_thost now t d) = d_next_thost d" "d_next_task (take_thost now t d) = d_next_task d"
  "d_hosts (take_thost now t d) = d_hosts d" "d_agents (take_thost now t d) = d_agents d"
  by (simp_all add: take_thost_def)

lemma run_thost_id [simp]:
  "th_id (run_thost now h) = th_id h" "th_task_id (run_thost now h) = th_task_id h"
  "th_host_id (run_thost now h) = th_host_id h" "th_batch_index (run_thost now h) = th_batch_index h"
  "th_status (run_thost now h) = ''running''"
  by (simp_all add: run_thost_def)

lemma skip_thost_id [simp]:
  "th_id (skip_thost now l h) = th_id h" "th_task_id (skip_thost now l h) = th_task_id h"
  "th_host_id (skip_thost now l h) = th_host_id h" "th_batch_index (skip_thost now l h) = th_batch_index h"
  "th_status (skip_thost now l h) = ''skipped''"
  by (simp_all add: skip_thost_def)

text \<open>
  What dispatching does to the database as a whole: host rows of the tables keep their ids, commands
  are only appended, each new one is waiting, belongs to the task and to a host row that is now
  running and had no active command.
\<close>

definition dispatched :: "int \<Rightarrow> db \<Rightarrow> db \<Rightarrow> bool" where
  "dispatched taskID d d' =
    (d_tasks d' = d_tasks d \<and> d_batches d' = d_batches d \<and> d_next_thost d' = d_next_thost d \<and>
     d_next_task d' = d_next_task d \<and> list_all2 thost_evolves (d_thosts d) (d_thosts d') \<and>
     (\<exists>new. d_cmds d' = d_cmds d @ new \<and>
        (\<forall>c\<in>set new. cm_status c = CmdPending \<and> cm_task_id c = Some taskID \<and>
           (\<exists>h\<in>set (d_thosts d). cm_task_host_id c = Some (th_id h) \<and> th_status h = ''pending''))) \<and>
     (integrity d \<longrightarrow> integrity d'))"

lemma dispatched_refl [simp]: "dispatched i d d"
  by (auto simp: dispatched_def)

lemma pending_back:
  assumes "list_all2 thost_evolves as bs" "list_all2 (\<lambda>h h'. th_status h' = ''pending'' \<longrightarrow> th_status h = ''pending'') as bs"
    "h \<in> set bs" "th_status h = ''pending''"
  shows "\<exists>h0\<in>set as. th_id h0 = th_id h \<and> th_status h0 = ''pending''"
  using assms by (induction rule: list_all2_induct) (auto simp: thost_evolves_def)

lemma take_skip_evolves:
  "list_all2 thost_evolves hs (upd_where (\<lambda>h. th_id h = t \<and> th_status h = ''pending'') (run_thost now) hs)"
  "list_all2 thost_evolves hs (upd_where (\<lambda>h. th_id h = t \<and> th_status h = ''pending'') (skip_thost now l) hs)"
  by (rule list_all2_upd_where; auto simp: thost_evolves_def thost_ended_def)+

lemma thosts_only_integrity:
  assumes "integrity d" "list_all2 thost_evolves (d_thosts d) (d_thosts d')"
    and "d_tasks d' = d_tasks d" "d_batches d' = d_batches d" "d_cmds d' = d_cmds d"
      "d_next_cmd d' = d_next_cmd d" "d_next_thost d' = d_next_thost d" "d_next_task d' = d_next_task d"
  shows "integrity d'"
  using assms thosts_evolve_keys [OF assms(2,7)]
  by (simp add: integrity_def cmd_keys_def task_keys_def batch_keys_def uq_task_host_active_def uq_self_update_active_def)

lemma skip_dispatched:
  "dispatched i d (markHostSkipped now t d)" "dispatched i d (markHostSkippedWithLog now stamp t reason d)"
  "dispatched i d (take_thost now t d)"
  unfolding dispatched_def
  by (auto simp: markHostSkipped_def markHostSkippedWithLog_def take_thost_def take_skip_evolves
      intro: thosts_only_integrity)

text \<open>The insertion keeps both partial unique indexes.\<close>

lemma insert_integrity:
  assumes "integrity d" "cm_id c = d_next_cmd d" "cm_status c = CmdPending"
    and "\<And>t. cm_task_host_id c = Some t \<Longrightarrow> \<not> host_has_active t d"
    and "cm_type c = CmdSelfUpdate \<Longrightarrow>
      \<not> exists_row (\<lambda>r. cm_agent_id r = cm_agent_id c \<and> cmd_self_update r) (d_cmds d)"
  shows "integrity (insert_command c d)"
proof -
  have k: "cmd_keys d" "uq_task_host_active d" "uq_self_update_active d"
    using assms(1) by (auto simp: integrity_def)
  have "cm_id c \<notin> cm_id ` set (d_cmds d)"
    using k(1) assms(2) by (auto simp: cmd_keys_def list_all_iff)
  moreover have "list_all (\<lambda>r. cm_id r < d_next_cmd d + 1) (d_cmds d)"
    using k(1) unfolding cmd_keys_def list_all_iff by fastforce
  ultimately have "cmd_keys (insert_command c d)"
    using k(1) assms(2,3) by (simp add: cmd_keys_def insert_command_def cmd_status_known_def)
  moreover have "uq_task_host_active (insert_command c d)"
    using k(2) assms(4) unfolding uq_task_host_active_def insert_command_def
    by (auto intro!: unique_where_append simp: cmd_for_host_def host_has_active_def exists_row_iff)
  moreover have "uq_self_update_active (insert_command c d)"
    using k(3) assms(5) unfolding uq_self_update_active_def insert_command_def
    by (auto intro!: unique_where_append simp: cmd_self_update_def exists_row_iff)
  ultimately show ?thesis
    using assms(1) by (simp add: integrity_def task_keys_def thost_keys_def batch_keys_def insert_command_def)
qed

lemma take_integrity: "integrity d \<Longrightarrow> integrity (take_thost now t d)"
  by (erule thosts_only_integrity) (auto simp: take_thost_def take_skip_evolves)

lemma dispatchHost_cases:
  "dispatchHostWithType now i t host agent ty pl d = (False, d) \<or>
   dispatchHostWithType now i t host agent ty pl d = (False, take_thost now t d) \<or>
   (\<exists>h tk. find_thost t d = Some h \<and> th_status h = ''pending'' \<and> find_task i d = Some tk \<and>
     tk_status tk = ''running'' \<and> \<not> host_has_active t d \<and>
     dispatchHostWithType now i t host agent ty pl d = (True, take_thost now t (insert_command
       (new_command now (d_next_cmd d) (Some i) (Some t) host agent ty pl (Some (now + hours 2))) d)))"
  by (auto simp: dispatchHostWithType_def split: option.split)

lemma dispatchHost_dispatched:
  assumes "ty \<noteq> CmdSelfUpdate"
  shows "dispatched i d (snd (dispatchHostWithType now i t host agent ty pl d))"
proof -
  let ?c = "new_command now (d_next_cmd d) (Some i) (Some t) host agent ty pl (Some (now + hours 2))"
  consider "snd (dispatchHostWithType now i t host agent ty pl d) = d"
    | "snd (dispatchHostWithType now i t host agent ty pl d) = take_thost now t d"
    | h where "find_thost t d = Some h" "th_status h = ''pending''" "\<not> host_has_active t d"
      "snd (dispatchHostWithType now i t host agent ty pl d) = take_thost now t (insert_command ?c d)"
    using dispatchHost_cases[of now i t host agent ty pl d] by (elim disjE exE conjE) auto
  then show ?thesis
  proof cases
    case (3 h)
    have f: "cm_id ?c = d_next_cmd d" "cm_status ?c = CmdPending" "cm_task_id ?c = Some i"
        "cm_task_host_id ?c = Some t" "cm_type ?c = ty"
      by (simp_all add: new_command_def)
    have "integrity d \<Longrightarrow> integrity (insert_command ?c d)"
      by (rule insert_integrity) (use 3 f assms in auto)
    then have "integrity d \<Longrightarrow> integrity (take_thost now t (insert_command ?c d))"
      by (blast intro: take_integrity)
    moreover have "list_all2 thost_evolves (d_thosts d) (d_thosts (take_thost now t (insert_command ?c d)))"
      by (simp add: take_thost_def insert_command_def take_skip_evolves)
    moreover have "\<exists>h\<in>set (d_thosts d). t = th_id h \<and> th_status h = ''pending''"
      using find_thost_mem [OF 3(1)] 3(2) by blast
    ultimately show ?thesis
      unfolding dispatched_def 3(4) using f by (simp add: insert_command_def)
  qed (simp_all add: skip_dispatched)
qed

lemma dispatch_one_dispatched: "dispatched i d (dispatch_one pc now stamp i compID v ten jb r d)"
  by (auto simp: dispatch_one_def dispatchHost_def skip_dispatched dispatchHost_dispatched
      split: prod.split option.split job.split)

text \<open>Dispatching several hosts: each new command's host row was waiting when the loop began.\<close>

lemma dispatched_trans:
  assumes "dispatched i d d1" "dispatched i d1 d2"
    and w: "list_all2 (\<lambda>h h'. th_status h' = ''pending'' \<longrightarrow> th_status h = ''pending'') (d_thosts d) (d_thosts d1)"
  shows "dispatched i d d2"
proof -
  from assms(1) have e1: "list_all2 thost_evolves (d_thosts d) (d_thosts d1)" by (simp add: dispatched_def)
  from assms(1) obtain n1 where n1: "d_cmds d1 = d_cmds d @ n1"
    "\<forall>c\<in>set n1. cm_status c = CmdPending \<and> cm_task_id c = Some i \<and>
       (\<exists>h\<in>set (d_thosts d). cm_task_host_id c = Some (th_id h) \<and> th_status h = ''pending'')"
    by (auto simp: dispatched_def)
  from assms(2) obtain n2 where n2: "d_cmds d2 = d_cmds d1 @ n2"
    "\<forall>c\<in>set n2. cm_status c = CmdPending \<and> cm_task_id c = Some i \<and>
       (\<exists>h\<in>set (d_thosts d1). cm_task_host_id c = Some (th_id h) \<and> th_status h = ''pending'')"
    by (auto simp: dispatched_def)
  have "\<forall>c\<in>set n2. cm_status c = CmdPending \<and> cm_task_id c = Some i \<and>
       (\<exists>h\<in>set (d_thosts d). cm_task_host_id c = Some (th_id h) \<and> th_status h = ''pending'')"
  proof
    fix c assume c: "c \<in> set n2"
    with n2(2) obtain h where h: "h \<in> set (d_thosts d1)" "cm_task_host_id c = Some (th_id h)" "th_status h = ''pending''"
      by blast
    from pending_back [OF e1 w h(1,3)] obtain h0 where "h0 \<in> set (d_thosts d)" "th_id h0 = th_id h" "th_status h0 = ''pending''"
      by blast
    with h(2) n2(2) c show "cm_status c = CmdPending \<and> cm_task_id c = Some i \<and>
       (\<exists>h\<in>set (d_thosts d). cm_task_host_id c = Some (th_id h) \<and> th_status h = ''pending'')"
      by metis
  qed
  with n1 n2(1) have "\<exists>new. d_cmds d2 = d_cmds d @ new \<and>
        (\<forall>c\<in>set new. cm_status c = CmdPending \<and> cm_task_id c = Some i \<and>
           (\<exists>h\<in>set (d_thosts d). cm_task_host_id c = Some (th_id h) \<and> th_status h = ''pending''))"
    by (intro exI [of _ "n1 @ n2"]) auto
  with assms(1,2) show ?thesis
    unfolding dispatched_def by (auto intro: thosts_evolve_trans)
qed

abbreviation waits_less :: "task_host_row list \<Rightarrow> task_host_row list \<Rightarrow> bool" where
  "waits_less \<equiv> list_all2 (\<lambda>h h'. th_status h' = ''pending'' \<longrightarrow> th_status h = ''pending'')"

lemma waits_less_upd:
  "waits_less hs (upd_where (\<lambda>h. th_id h = t \<and> th_status h = ''pending'') (run_thost now) hs)"
  "waits_less hs (upd_where (\<lambda>h. th_id h = t \<and> th_status h = ''pending'') (skip_thost now l) hs)"
  by (rule list_all2_upd_where; simp)+

lemma dispatch_one_waits:
  "waits_less (d_thosts d) (d_thosts (dispatch_one pc now stamp i compID v ten jb r d))"
proof -
  have h: "waits_less (d_thosts d) (d_thosts (snd (dispatchHostWithType now i t host agent ty pl d)))"
    for t host agent ty pl
    using dispatchHost_cases [of now i t host agent ty pl d]
    by (elim disjE exE conjE) (simp_all add: take_thost_def insert_command_def waits_less_upd list_all2_same)
  show ?thesis
    by (auto simp: dispatch_one_def dispatchHost_def h markHostSkipped_def markHostSkippedWithLog_def waits_less_upd
        split: prod.split option.split job.split)
qed

lemma fold_dispatched:
  "dispatched i d (fold (dispatch_one pc now stamp i compID v ten jb) rs d)"
proof (induction rs arbitrary: d)
  case (Cons r rs)
  show ?case
    using dispatched_trans [OF dispatch_one_dispatched Cons.IH dispatch_one_waits] by simp
qed simp

lemma dispatchBatch_cases:
  assumes "dispatchBatch urlp pc now stamp i compID v k ten kind cmd d = (r, d')"
  obtains "d' = d" | d1 where "dispatched i d d1" "d' = d1 \<or> d' = markBatch now i k ''running'' d1"
  using assms fold_dispatched [of i d pc now stamp compID v ten _ "batch_targets i k d"]
  by (auto simp: dispatchBatch_def Let_def split: sum.splits if_splits)

lemma set_batch_id [simp]: "tb_task_id (set_batch now s b) = tb_task_id b" "tb_index (set_batch now s b) = tb_index b"
  "tb_status (set_batch now s b) = s"
  by (simp_all add: set_batch_def)

lemma touch_task_id [simp]: "tk_id (touch_task now s t) = tk_id t" "tk_status (touch_task now s t) = s"
  by (simp_all add: touch_task_def)

lemma markBatch_integrity: "integrity d \<Longrightarrow> integrity (markBatch now i k s d)"
  by (auto simp: integrity_def markBatch_def key_defs)

lemma rolled_id [simp]: "th_id (h\<lparr>th_status := s\<rparr>) = th_id h"
  by simp

lemma completeBatch_integrity: "integrity d \<Longrightarrow> integrity (completeBatch now i k s rb p d)"
  using markBatch_integrity [of d now i k s]
  by (auto simp: integrity_def completeBatch_def Let_def key_defs markBatch_def)

lemma finishTask_integrity: "integrity d \<Longrightarrow> integrity (finishTask now i kind d)"
  by (auto simp: integrity_def finishTask_def Let_def key_defs)

lemma advance_integrity: "integrity d \<Longrightarrow> integrity (snd (advance urlp pc now stamp t d))"
proof -
  assume i: "integrity d"
  have "integrity (snd (dispatchBatch urlp pc now stamp i compID v k ten kind cmd d))" for i compID v k ten kind cmd
  proof -
    obtain r d' where e: "dispatchBatch urlp pc now stamp i compID v k ten kind cmd d = (r, d')"
      by (metis prod.exhaust)
    show ?thesis
      by (rule dispatchBatch_cases [OF e]) (use \<open>integrity d\<close> in \<open>auto simp: e dispatched_def intro: markBatch_integrity\<close>)
  qed
  with i show ?thesis
    by (auto simp: advance_def advance_running_def Let_def finishTask_integrity completeBatch_integrity
        split: option.split prod.split)
qed

text \<open>A round of the orchestrator keeps the constraints of the tables, so a host row never has two
  active commands, whatever the reconciliation before it did within them.\<close>

theorem tick_integrity:
  assumes "integrity d" and "\<forall>d. integrity d \<longrightarrow> integrity (rec d)"
  shows "integrity (tick (Some rec) urlp pc now stamp d)"
proof -
  have "integrity (fold (\<lambda>t. snd \<circ> advance urlp pc now stamp t) ts e)" if "integrity e" for ts e
    using that by (induction ts arbitrary: e) (auto intro: advance_integrity)
  with assms show ?thesis by (simp add: tick_def Let_def)
qed

section \<open>The gates\<close>

lemma sorted_find_before:
  assumes "find P (sort_key k rs) = Some x" "y \<in> set rs" "k y < k x"
  shows "\<not> P y"
proof
  assume "P y"
  from assms(1) obtain i where i: "i < length (sort_key k rs)" "sort_key k rs ! i = x" "\<forall>j<i. \<not> P (sort_key k rs ! j)"
    by (auto simp: find_Some_iff)
  from assms(2) have "y \<in> set (sort_key k rs)" by simp
  then obtain j where j: "j < length (sort_key k rs)" "sort_key k rs ! j = y"
    unfolding in_set_conv_nth by blast
  with \<open>P y\<close> i(3) have "i \<le> j" by (metis not_less)
  have "sorted (map k (sort_key k rs))" by simp
  with i j \<open>i \<le> j\<close> have "k x \<le> k y"
    by (metis length_map nth_map sorted_nth_mono)
  with assms(3) show False by simp
qed

text \<open>Batches run in order: when a batch is the current one, every batch of the task with a smaller index
  is over (succeeded, skipped or canceled); with none left, all of them are.\<close>

theorem currentBatch_in_order:
  assumes "b \<in> set (d_batches d)" and "tb_task_id b = i"
  shows "case currentBatch i d of None \<Rightarrow> batch_over (tb_status b)
    | Some (k, s) \<Rightarrow> tb_index b < k \<longrightarrow> batch_over (tb_status b)"
proof (cases "find (\<lambda>b. \<not> batch_over (tb_status b)) (batches_of i d)")
  case None
  then have "batch_over (tb_status b)" using assms by (auto simp: batches_of_def find_None_all)
  with None show ?thesis by (simp add: currentBatch_def)
next
  case (Some x)
  have "\<not> (\<not> batch_over (tb_status b))" if "tb_index b < tb_index x"
    using assms that by (intro sorted_find_before [OF Some [unfolded batches_of_def]]) auto
  with Some show ?thesis by (simp add: currentBatch_def)
qed

text \<open>The command of one target: for its host row, its host and that host's agent.\<close>

definition command_for :: "int \<Rightarrow> int \<times> host_row \<Rightarrow> command_row \<Rightarrow> bool" where
  "command_for i r c = (cm_status c = CmdPending \<and> cm_task_id c = Some i \<and> cm_task_host_id c = Some (fst r) \<and>
     cm_host_id c = ho_id (snd r) \<and> cm_agent_id c = ho_agent_id (snd r) \<and> ho_agent_id (snd r) \<noteq> [])"

definition task_runs :: "int \<Rightarrow> db \<Rightarrow> bool" where
  "task_runs i d = (\<exists>t. find_task i d = Some t \<and> tk_status t = ''running'')"

lemma dispatchHost_new:
  "d_cmds (snd (dispatchHostWithType now i t host agent ty pl d)) = d_cmds d \<or>
   (task_runs i d \<and> (\<exists>c. d_cmds (snd (dispatchHostWithType now i t host agent ty pl d)) = d_cmds d @ [c] \<and>
     cm_status c = CmdPending \<and> cm_task_id c = Some i \<and> cm_task_host_id c = Some t \<and> cm_host_id c = host \<and> cm_agent_id c = agent))"
  using dispatchHost_cases [of now i t host agent ty pl d]
proof (elim disjE exE conjE)
  fix h tk assume tk: "find_task i d = Some tk" "tk_status tk = ''running''" and
    e: "dispatchHostWithType now i t host agent ty pl d = (True, take_thost now t (insert_command
       (new_command now (d_next_cmd d) (Some i) (Some t) host agent ty pl (Some (now + hours 2))) d))"
  from tk have "task_runs i d" by (auto simp: task_runs_def)
  then show ?thesis by (simp add: e insert_command_def new_command_def)
qed simp_all

lemma dispatch_one_new:
  "d_cmds (dispatch_one pc now stamp i compID v ten jb r d) = d_cmds d \<or>
   (task_runs i d \<and> (\<exists>c. d_cmds (dispatch_one pc now stamp i compID v ten jb r d) = d_cmds d @ [c] \<and> command_for i r c))"
proof -
  have "d_cmds (dispatch_one pc now stamp i compID v ten jb r d) = d_cmds d \<or> (ho_agent_id (snd r) \<noteq> [] \<and>
     (\<exists>ty pl. dispatch_one pc now stamp i compID v ten jb r d =
        snd (dispatchHostWithType now i (fst r) (ho_id (snd r)) (ho_agent_id (snd r)) ty pl d)))"
    by (cases r) (auto simp: dispatch_one_def dispatchHost_def markHostSkipped_def markHostSkippedWithLog_def
      split: prod.split option.split job.split)
  then show ?thesis
  proof (elim disjE conjE exE)
    fix ty pl assume "ho_agent_id (snd r) \<noteq> []" and e: "dispatch_one pc now stamp i compID v ten jb r d =
        snd (dispatchHostWithType now i (fst r) (ho_id (snd r)) (ho_agent_id (snd r)) ty pl d)"
    then show ?thesis
      using dispatchHost_new [of now i "fst r" "ho_id (snd r)" "ho_agent_id (snd r)" ty pl d]
      unfolding e by (auto simp: command_for_def)
  qed simp
qed

lemma fold_new:
  "\<exists>new. d_cmds (fold (dispatch_one pc now stamp i compID v ten jb) rs d) = d_cmds d @ new \<and>
     (\<forall>c\<in>set new. task_runs i d \<and> (\<exists>r\<in>set rs. command_for i r c))"
proof (induction rs arbitrary: d)
  case (Cons r rs)
  let ?d = "dispatch_one pc now stamp i compID v ten jb r d"
  have "d_tasks ?d = d_tasks d" using dispatch_one_dispatched by (simp add: dispatched_def)
  then have t: "task_runs i ?d = task_runs i d" by (simp add: task_runs_def find_task_def)
  obtain new where new: "d_cmds (fold (dispatch_one pc now stamp i compID v ten jb) rs ?d) = d_cmds ?d @ new"
    "\<forall>c\<in>set new. task_runs i d \<and> (\<exists>r\<in>set rs. command_for i r c)"
    using Cons.IH [of ?d] unfolding t by blast
  from dispatch_one_new [of pc now stamp i compID v ten jb r d] show ?case
  proof (elim disjE conjE exE)
    fix c assume "task_runs i d" "d_cmds ?d = d_cmds d @ [c]" "command_for i r c"
    with new show ?thesis by (intro exI [of _ "c # new"]) auto
  qed (use new in auto)
qed simp

lemma batch_targets_row:
  assumes "r \<in> set (batch_targets i k d)" "command_for i r c"
  shows "\<exists>h\<in>set (d_thosts d). cm_task_host_id c = Some (th_id h) \<and> th_task_id h = i \<and> th_batch_index h = k \<and>
    th_status h = ''pending'' \<and> cm_host_id c = th_host_id h \<and>
    (\<exists>ho\<in>set (d_hosts d). ho_id ho = th_host_id h \<and> ho_agent_id ho = cm_agent_id c \<and> cm_agent_id c \<noteq> [])"
proof -
  from assms(1) obtain h ho where h: "h \<in> set (d_thosts d)" "in_batch i k h" "th_status h = ''pending''"
    "find_host (th_host_id h) d = Some ho" "r = (th_id h, ho)"
    by (auto simp: batch_targets_def split: option.splits)
  from h(4) have "ho \<in> set (d_hosts d)" "ho_id ho = th_host_id h" by (auto simp: find_host_def dest: find_SomeD)
  with h assms(2) show ?thesis by (intro bexI [of _ h]) (auto simp: command_for_def in_batch_def)
qed

text \<open>C3: a round appends commands only for a task that runs - both as it was read for the round and as it stands
  when the command is written - and only when its current batch is waiting and every earlier batch is over; each
  new command is waiting and is for a waiting host row of this task and this batch, for the host of that row and
  the agent of that host.\<close>

theorem advance_dispatch_gate:
  assumes "advance urlp pc now stamp t d = (r, d')" and "d_cmds d' \<noteq> d_cmds d"
  shows "tk_status t \<noteq> ''paused'' \<and> (\<exists>t'. find_task (tk_id t) d = Some t' \<and> tk_status t' = ''running'') \<and>
    (\<exists>k. currentBatch (tk_id t) d = Some (k, ''pending'') \<and>
      (\<forall>b\<in>set (d_batches d). tb_task_id b = tk_id t \<and> tb_index b < k \<longrightarrow> batch_over (tb_status b)) \<and>
      (\<exists>new. d_cmds d' = d_cmds d @ new \<and> (\<forall>c\<in>set new. cm_status c = CmdPending \<and> cm_task_id c = Some (tk_id t) \<and>
         (\<exists>h\<in>set (d_thosts d). cm_task_host_id c = Some (th_id h) \<and> th_task_id h = tk_id t \<and> th_batch_index h = k \<and>
            th_status h = ''pending'' \<and> cm_host_id c = th_host_id h \<and>
            (\<exists>ho\<in>set (d_hosts d). ho_id ho = th_host_id h \<and> ho_agent_id ho = cm_agent_id c \<and> cm_agent_id c \<noteq> [])))))"
proof -
  have c: "d_cmds (completeBatch now i k s rb p e) = d_cmds e" "d_cmds (finishTask now i kind e) = d_cmds e"
    for i k s rb p e kind
    by (simp_all add: completeBatch_def finishTask_def markBatch_def Let_def)
  have run: "d_cmds (advance_running now i k st kind p d) = d_cmds d" for i k st kind p
    by (simp add: advance_running_def Let_def c split: prod.split)
  from assms obtain k where k: "currentBatch (tk_id t) d = Some (k, ''pending'')" "tk_status t \<noteq> ''paused''"
    and e: "dispatchBatch urlp pc now stamp (tk_id t) (case tk_component_id t of None \<Rightarrow> 0 | Some c \<Rightarrow> c)
       (tk_version t) k (tk_tenant t) (tk_kind t) (tk_command t) d = (r, d')"
    by (auto simp: advance_def c run split: option.splits if_splits prod.splits)
  from assms(2) e obtain jb where
    "d_cmds d' = d_cmds (fold (dispatch_one pc now stamp (tk_id t) (case tk_component_id t of None \<Rightarrow> 0 | Some c \<Rightarrow> c)
       (tk_version t) (tk_tenant t) jb) (batch_targets (tk_id t) k d) d)"
    by (auto simp: dispatchBatch_def Let_def markBatch_def split: sum.splits if_splits)
  with fold_new [of pc now stamp "tk_id t" _ "tk_version t" "tk_tenant t" jb "batch_targets (tk_id t) k d" d]
  obtain new where new: "d_cmds d' = d_cmds d @ new"
    "\<forall>c\<in>set new. task_runs (tk_id t) d \<and> (\<exists>r\<in>set (batch_targets (tk_id t) k d). command_for (tk_id t) r c)" by metis
  have "new \<noteq> []" using new(1) assms(2) by auto
  then have "task_runs (tk_id t) d" using new(2) by (cases new) auto
  moreover have "cm_status c = CmdPending \<and> cm_task_id c = Some (tk_id t)" if "c \<in> set new" for c
    using new(2) that by (auto simp: command_for_def)
  moreover have "batch_over (tb_status b)" if "b \<in> set (d_batches d)" "tb_task_id b = tk_id t" "tb_index b < k" for b
    using currentBatch_in_order [OF that(1,2)] k(1) that(3) by simp
  ultimately show ?thesis using k new batch_targets_row unfolding task_runs_def by (intro conjI exI [of _ k] exI [of _ new]) blast+
qed

text \<open>Nothing of a paused task is dispatched or promoted: the round leaves commands alone and never sets
  the task running again.\<close>

theorem advance_paused:
  assumes "tk_status t = ''paused''" and "advance urlp pc now stamp t d = (r, d')"
  shows "d_cmds d' = d_cmds d \<and>
    (\<forall>x\<in>set (d_tasks d'). tk_status x = ''running'' \<longrightarrow> x \<in> set (d_tasks d))"
proof -
  have f: "d_cmds (completeBatch now i k s rb p e) = d_cmds e" "d_cmds (finishTask now i kind e) = d_cmds e"
    for i k s rb p e kind
    by (simp_all add: completeBatch_def finishTask_def markBatch_def Let_def)
  have fs: "finish_status kind hs \<noteq> ''running''" for kind hs
    by (auto simp: finish_status_def Let_def)
  have t: "\<forall>x\<in>set (d_tasks (finishTask now i kind e)). tk_status x = ''running'' \<longrightarrow> x \<in> set (d_tasks e)"
    "\<forall>x\<in>set (d_tasks (completeBatch now i k s rb p e)). tk_status x = ''running'' \<longrightarrow> x \<in> set (d_tasks e)"
    for i kind e k s rb p
    using fs by (auto simp: finishTask_def completeBatch_def markBatch_def Let_def elim!: upd_where_memE)
  define P where "P = (\<lambda>e :: db. d_cmds e = d_cmds d \<and>
    (\<forall>x\<in>set (d_tasks e). tk_status x = ''running'' \<longrightarrow> x \<in> set (d_tasks d)))"
  have P0: "P d" by (simp add: P_def)
  have P1: "P (finishTask now i kind e)" if "P e" for i kind e
    using that f t(1) by (fastforce simp: P_def)
  have P2: "P (completeBatch now i k s rb p e)" if "P e" for i k s rb p e
    using that f t(2) by (fastforce simp: P_def)
  have "P d'" using assms P0
    by (auto simp: advance_def advance_running_def Let_def split: option.splits if_splits prod.splits intro: P1 P2)
  then show ?thesis by (simp add: P_def)
qed

text \<open>When the current batch has failed, the round does nothing at all, whatever the task's status: a task
  started again after a failed batch (\<open>Start\<close> accepts paused tasks but leaves failed batches) runs for
  ever without progress until somebody pauses and promotes it.\<close>

theorem advance_stuck_on_failed_batch:
  assumes "currentBatch (tk_id t) d = Some (k, ''failed'')"
  shows "advance urlp pc now stamp t d = (Inr (), d)"
  using assms by (simp add: advance_def)

section \<open>Failure and completion\<close>

text \<open>C10: when every host of a running batch is done and the failure rate exceeds the threshold, a rollout with
  batches left is paused with the batch marked failed; the next round then changes nothing.\<close>

theorem failure_pauses_rollout:
  assumes "task_keys d" and "t \<in> set (d_tasks d)" and "tk_status t = ''running''"
    and "currentBatch (tk_id t) d = Some (k, ''running'')"
    and "batchProgress (tk_id t) k d = (n, n, failed)"
    and "rate_exceeds (fail_rate failed n) (parsePercent (st_failure_threshold (tk_strategy t)))"
    and "hasPendingBatchAfter (tk_id t) k d"
    and "advance urlp pc now stamp t d = (r, d')"
  shows "find_task (tk_id t) d' = Some (touch_task now ''paused'' t) \<and>
    (\<forall>b\<in>set (d_batches d'). tb_task_id b = tk_id t \<and> tb_index b = k \<longrightarrow> tb_status b = ''failed'') \<and>
    d_cmds d' = d_cmds d"
proof -
  have d': "d' = completeBatch now (tk_id t) k ''failed'' (st_auto_rollback (tk_strategy t)) True d"
    using assms(3-8) by (simp add: advance_def advance_running_def)
  have "find (\<lambda>x. tk_id x = tk_id t) (d_tasks d) = Some t"
    using assms(1,2) by (auto simp: task_keys_def intro: find_distinct)
  then have "find_task (tk_id t) d' = Some (touch_task now ''paused'' t)"
    unfolding d' find_task_def using assms(3)
    by (simp add: completeBatch_def markBatch_def Let_def find_upd_where)
  moreover have "\<forall>b\<in>set (d_batches d'). tb_task_id b = tk_id t \<and> tb_index b = k \<longrightarrow> tb_status b = ''failed''"
    unfolding d' completeBatch_def markBatch_def Let_def by (simp, rule upd_where_ball) auto
  moreover have "d_cmds d' = d_cmds d"
    unfolding d' by (simp add: completeBatch_def markBatch_def Let_def)
  ultimately show ?thesis by blast
qed

lemma finish_status_failed:
  "finish_status kind hs = ''failed'' \<longleftrightarrow> (\<exists>h\<in>set hs. thost_failed (th_status h)) \<or>
     (kind = ''command'' \<and> hs \<noteq> [] \<and> (\<forall>h\<in>set hs. th_status h \<noteq> ''success''))"
proof -
  have "(rows_affected P hs > 0) = (\<exists>h\<in>set hs. P h)" "(rows_affected P hs = 0) = (\<forall>h\<in>set hs. \<not> P h)" for P
    using rows_affected_0 [of P hs] by auto
  then show ?thesis by (simp add: finish_status_def Let_def)
qed

text \<open>When every host of the last batch is done the round ends the task, running or paused: it has
  failed exactly if a host failed, timed out or was canceled or, for a command, if none succeeded.\<close>

theorem advance_ends_task:
  assumes "task_keys d" and "t \<in> set (d_tasks d)" and "tk_status t \<in> {''running'', ''paused''}"
    and "currentBatch (tk_id t) d = Some (k, ''running'')"
    and "batchProgress (tk_id t) k d = (n, n, failed)"
    and "\<not> hasPendingBatchAfter (tk_id t) k d"
    and "advance urlp pc now stamp t d = (r, d')"
  shows "\<exists>t'. find_task (tk_id t) d' = Some t' \<and>
    tk_status t' = finish_status (tk_kind t) (filter (\<lambda>h. th_task_id h = tk_id t) (d_thosts d')) \<and>
    (tk_status t' = ''failed'' \<longleftrightarrow> (\<exists>h\<in>set (d_thosts d'). th_task_id h = tk_id t \<and> thost_failed (th_status h)) \<or>
       (tk_kind t = ''command'' \<and> (\<exists>h\<in>set (d_thosts d'). th_task_id h = tk_id t) \<and>
        (\<forall>h\<in>set (d_thosts d'). th_task_id h = tk_id t \<longrightarrow> th_status h \<noteq> ''success'')))"
proof -
  from assms(4-7) obtain s rb where d': "d' = finishTask now (tk_id t) (tk_kind t) (completeBatch now (tk_id t) k s rb False d)"
    by (auto simp: advance_def advance_running_def split: if_splits)
  let ?e = "completeBatch now (tk_id t) k s rb False d"
  have f: "find (\<lambda>x. tk_id x = tk_id t) (d_tasks d) = Some t"
    using assms(1,2) by (auto simp: task_keys_def intro: find_distinct)
  have et: "d_tasks ?e = d_tasks d" by (simp add: completeBatch_def markBatch_def Let_def)
  have th: "d_thosts d' = d_thosts ?e" by (simp add: d' finishTask_def Let_def)
  have "find_task (tk_id t) d' =
      Some (touch_task now (finish_status (tk_kind t) (filter (\<lambda>h. th_task_id h = tk_id t) (d_thosts d'))) t)"
    unfolding th unfolding d' find_task_def finishTask_def Let_def using f assms(3)
    by (auto simp: et find_upd_where)
  moreover have "(filter (\<lambda>h. th_task_id h = tk_id t) (d_thosts d') \<noteq> []) =
      (\<exists>h\<in>set (d_thosts d'). th_task_id h = tk_id t)"
    by (auto simp: filter_empty_conv)
  ultimately show ?thesis
    by (simp add: finish_status_failed) blast
qed

text \<open>A command is created for a host only if the host has an agent, its heartbeat is at most the
  configured age, its system does not contradict the task's, and, for a command task, commands are
  enabled and the agent has declared that it can run them.\<close>

theorem dispatch_preconditions:
  assumes "d_cmds (dispatch_one pc now stamp i compID v ten jb (thID, h) d) \<noteq> d_cmds d"
  shows "ho_agent_id h \<noteq> [] \<and> \<not> osMismatch (job_target jb) (ho_os_family h) \<and>
    (\<exists>seen. ho_last_seen h = Some seen \<and> now - seen \<le> snd (offline_after pc)) \<and>
    (case jb of CommandJob spec os \<Rightarrow> pc_allow_exec pc \<and> agentSupportsCommand (ho_agent_id h) d
     | ComponentJob cspec os \<Rightarrow> component_payload pc cspec v compID ten h d \<noteq> None)"
  using assms
  by (cases jb)
     (auto simp: dispatch_one_def markHostSkipped_def markHostSkippedWithLog_def
       split: prod.splits if_splits option.splits)

lemma offline_after_pos: "second \<le> snd (offline_after pc)"
  by (auto simp: offline_after_def Let_def time_defs)

text \<open>The failure rate is computed in floating point, so a rate that equals the threshold can exceed it:
  7 failures of 100 hosts exceed a threshold of 7 percent (and stop the rollout), while 10 of 100 do
  not exceed 10 percent.\<close>

theorem fail_rate_rounding:
  "rate_exceeds (fail_rate 7 100) (parsePercent ''7%'') \<and>
   \<not> rate_exceeds (fail_rate 10 100) (parsePercent ''10%'')"
  by code_simp

end
