(* ===== verification/TaskDelete.thy ===== *)
theory TaskDelete
imports TaskOps
begin

text \<open>
  \<open>internal/logic/task/delete.go\<close> and \<open>delete_job.go\<close>: deleting tasks one by one, in bulk, and by a
  background job that commits its progress with every chunk. The statements of a transaction
  succeed; a request whose context was canceled between two chunks is not modelled.
\<close>

section \<open>The cascade\<close>

abbreviation MaxBatchDelete :: nat where "MaxBatchDelete \<equiv> 5000"
abbreviation batchDeleteChunk :: nat where "batchDeleteChunk \<equiv> 500"
abbreviation maxJobFailureDetails :: nat where "maxJobFailureDetails \<equiv> 200"

definition deletableStatus :: "string \<Rightarrow> bool" where
  "deletableStatus s = (s \<in> set [''draft'', ''success'', ''failed'', ''canceled'', ''rolled_back''])"

text \<open>\<open>ON DELETE CASCADE\<close>: batches and host rows of the tasks, commands of the tasks or of those host rows.\<close>

definition delete_tasks :: "scope \<Rightarrow> int list \<Rightarrow> db \<Rightarrow> db" where
  "delete_tasks sc ids d =
    (let gone = (\<lambda>t. tk_id t \<in> set ids \<and> scope_where sc (tk_tenant t));
         tids = map tk_id (filter gone (d_tasks d));
         hids = map th_id (filter (\<lambda>h. th_task_id h \<in> set tids) (d_thosts d))
     in d\<lparr>d_tasks := filter (\<lambda>t. \<not> gone t) (d_tasks d),
          d_batches := filter (\<lambda>b. tb_task_id b \<notin> set tids) (d_batches d),
          d_thosts := filter (\<lambda>h. th_task_id h \<notin> set tids) (d_thosts d),
          d_cmds := filter (\<lambda>c. \<not> ((case cm_task_id c of None \<Rightarrow> False | Some i \<Rightarrow> i \<in> set tids) \<or>
             (case cm_task_host_id c of None \<Rightarrow> False | Some h \<Rightarrow> h \<in> set hids))) (d_cmds d)\<rparr>)"

definition active_count :: "int \<Rightarrow> db \<Rightarrow> nat" where
  "active_count i d = rows_affected (\<lambda>c. cm_task_id c = Some i \<and> is_active (cm_status c)) (d_cmds d)"

section \<open>One task\<close>

definition DeleteTask :: "policy \<Rightarrow> user option \<Rightarrow> scope \<Rightarrow> int \<Rightarrow> db \<Rightarrow> unit task_op" where
  "DeleteTask pc actor sc taskID d =
    (case checkTaskOwner pc actor sc taskID d of Some e \<Rightarrow> (Inl e, d) | None \<Rightarrow>
     (case find_task_scoped sc taskID d of None \<Rightarrow> (Inl TaskNotFound, d) | Some t \<Rightarrow>
       (if \<not> deletableStatus (tk_status t) then (Inl (NotDeletable (tk_status t)), d)
        else if active_count taskID d > 0 then (Inl (HasActiveCommands (active_count taskID d)), d)
        else (Inr (), delete_tasks sc [taskID] d))))"

section \<open>A chunk in one transaction\<close>

type_synonym failures = "int \<Rightarrow> delete_failure option"
type_synonym owner_check = "(share_cache \<Rightarrow> string \<Rightarrow> task_error option \<times> share_cache) option"

fun owner_failure :: "task_error \<Rightarrow> delete_failure" where
  "owner_failure (OwnedBy c off) = DelOwner c off"
| "owner_failure e = DelNotFound"

text \<open>The first pass: unknown tasks, refused owners and running tasks fail, the rest are candidates.\<close>

fun chunk_candidates ::
    "scope \<Rightarrow> owner_check \<Rightarrow> db \<Rightarrow> int list \<Rightarrow> share_cache \<Rightarrow> failures \<Rightarrow> int list \<times> share_cache \<times> failures" where
  "chunk_candidates sc chk d [] cache fl = ([], cache, fl)"
| "chunk_candidates sc chk d (i # ids) cache fl =
    (case find_task_scoped sc i d of
       None \<Rightarrow> chunk_candidates sc chk d ids cache (fl(i \<mapsto> DelNotFound))
     | Some t \<Rightarrow>
        (let (verdict, cache') = (case chk of None \<Rightarrow> (None, cache) | Some f \<Rightarrow> f cache (tk_created_by t))
         in case verdict of
              Some e \<Rightarrow> chunk_candidates sc chk d ids cache' (fl(i \<mapsto> owner_failure e))
            | None \<Rightarrow>
               (if \<not> deletableStatus (tk_status t)
                then chunk_candidates sc chk d ids cache' (fl(i \<mapsto> DelStatus (tk_status t)))
                else (let (cs, cache'', fl') = chunk_candidates sc chk d ids cache' fl in (i # cs, cache'', fl')))))"

text \<open>The second pass, after the rows are locked.\<close>

fun chunk_final :: "scope \<Rightarrow> db \<Rightarrow> int list \<Rightarrow> failures \<Rightarrow> int list \<times> failures" where
  "chunk_final sc d [] fl = ([], fl)"
| "chunk_final sc d (i # ids) fl =
    (case find_task_scoped sc i d of
       None \<Rightarrow> chunk_final sc d ids (fl(i \<mapsto> DelNotFound))
     | Some t \<Rightarrow>
        (if \<not> deletableStatus (tk_status t) then chunk_final sc d ids (fl(i \<mapsto> DelStatus (tk_status t)))
         else if active_count i d > 0 then chunk_final sc d ids (fl(i \<mapsto> DelActive (active_count i d)))
         else (let (fs, fl') = chunk_final sc d ids fl in (i # fs, fl'))))"

definition deleteChunkTx ::
    "scope \<Rightarrow> int list \<Rightarrow> owner_check \<Rightarrow> share_cache \<Rightarrow> failures \<Rightarrow> db \<Rightarrow> int list \<times> share_cache \<times> failures \<times> db" where
  "deleteChunkTx sc ids chk cache fl d =
    (let (cands, cache', fl1) = chunk_candidates sc chk d ids cache fl;
         (final, fl2) = chunk_final sc d cands fl1
     in if final = [] then ([], cache', fl2, d)
        else (map tk_id (filter (\<lambda>t. tk_id t \<in> set final \<and> scope_where sc (tk_tenant t)) (d_tasks d)),
              cache', fl2, delete_tasks sc final d))"

section \<open>In bulk\<close>

text \<open>The ids of the request without repetitions and non-positive ones, in order.\<close>

fun dedup_ids :: "int list \<Rightarrow> int set \<Rightarrow> int list" where
  "dedup_ids [] seen = []"
| "dedup_ids (i # is) seen = (if i \<le> 0 \<or> i \<in> seen then dedup_ids is seen else i # dedup_ids is (insert i seen))"

function delete_chunks ::
    "scope \<Rightarrow> owner_check \<Rightarrow> int list \<Rightarrow> share_cache \<Rightarrow> failures \<Rightarrow> db \<Rightarrow> int list \<times> failures \<times> db" where
  "delete_chunks sc chk ids cache fl d =
    (if ids = [] then ([], fl, d)
     else (case deleteChunkTx sc (take batchDeleteChunk ids) chk cache fl d of
        (deleted, cache', fl', d') \<Rightarrow>
          (case delete_chunks sc chk (drop batchDeleteChunk ids) cache' fl' d' of
             (rest, fl'', d'') \<Rightarrow> (deleted @ rest, fl'', d''))))"
  by pat_completeness auto
termination by (relation "measure (\<lambda>(sc, chk, ids, c, f, d). length ids)") auto

declare delete_chunks.simps [simp del]

text \<open>The failures of a list of ids, in its order.\<close>

definition chunk_failed :: "failures \<Rightarrow> int list \<Rightarrow> (int \<times> delete_failure) list" where
  "chunk_failed fl chunk = concat (map (\<lambda>i. case fl i of None \<Rightarrow> [] | Some f \<Rightarrow> [(i, f)]) chunk)"

definition BatchDelete ::
    "policy \<Rightarrow> user option \<Rightarrow> scope \<Rightarrow> int list \<Rightarrow> db \<Rightarrow> (int list \<times> (int \<times> delete_failure) list) task_op" where
  "BatchDelete pc actor sc ids d =
    (if ids = [] then (Inl NothingSelected, d)
     else if length ids > MaxBatchDelete then (Inl TooManyTasks, d)
     else
      (let order = dedup_ids ids {}
       in case delete_chunks sc (ownerChecker pc actor) (sort order) Map.empty Map.empty d of
            (deleted, fl, d') \<Rightarrow>
              (Inr (sort deleted, chunk_failed fl order), d')))"

section \<open>Background jobs\<close>

definition job_active :: "delete_job_row \<Rightarrow> bool" where
  "job_active j = (dj_status j = ''pending'' \<or> dj_status j = ''running'')"

definition job_username :: "user option \<Rightarrow> string" where
  "job_username actor = (case actor of None \<Rightarrow> [] | Some u \<Rightarrow> us_username u)"

text \<open>Whom a job is visible to: the tenant, and for ordinary users only the job's creator.\<close>

definition jobVisibility :: "user option \<Rightarrow> scope \<Rightarrow> delete_job_row \<Rightarrow> bool" where
  "jobVisibility actor sc j =
    (scope_where sc (dj_tenant j) \<and> (isPrivilegedActor actor \<or> dj_created_by j = job_username actor))"

definition GetDeleteJob :: "user option \<Rightarrow> scope \<Rightarrow> int \<Rightarrow> db \<Rightarrow> delete_job_row option" where
  "GetDeleteJob actor sc i d = find (\<lambda>j. dj_id j = i \<and> jobVisibility actor sc j) (d_jobs d)"

definition ActiveDeleteJob :: "user option \<Rightarrow> scope \<Rightarrow> db \<Rightarrow> delete_job_row option" where
  "ActiveDeleteJob actor sc d = max_row dj_id
     (\<lambda>j. dj_created_by j = job_username actor \<and> job_active j \<and> scope_where sc (dj_tenant j)) (d_jobs d)"

definition new_delete_job ::
    "user option \<Rightarrow> time \<Rightarrow> scope \<Rightarrow> string \<Rightarrow> int list \<Rightarrow> int \<Rightarrow> delete_job_row" where
  "new_delete_job actor now sc ip uniq i =
    \<lparr>dj_id = i, dj_tenant = TenantForWrite sc, dj_cross = sc_cross sc,
     dj_created_by = job_username actor,
     dj_is_admin = (case actor of None \<Rightarrow> False | Some u \<Rightarrow> us_is_admin u),
     dj_roles = (case actor of None \<Rightarrow> [] | Some u \<Rightarrow> us_roles u), dj_ip = ip, dj_ids = uniq,
     dj_total = length uniq, dj_processed = 0, dj_deleted = 0, dj_failed_count = 0,
     dj_failed = [], dj_status = ''pending'', dj_cancel_requested = False,
     dj_created_at = now, dj_finished_at = None\<rparr>"

text \<open>A conflict with the partial unique index cannot happen after the lookup in the same step.\<close>

definition CreateDeleteJob ::
    "user option \<Rightarrow> time \<Rightarrow> scope \<Rightarrow> string \<Rightarrow> int list \<Rightarrow> db \<Rightarrow> delete_job_row task_op" where
  "CreateDeleteJob actor now sc ip ids d =
    (if ids = [] then (Inl NothingSelected, d)
     else if length ids > MaxBatchDelete then (Inl TooManyTasks, d)
     else
      (let uniq = sort (dedup_ids ids {})
       in if uniq = [] then (Inl NothingSelected, d)
          else case max_row dj_id (\<lambda>j. dj_tenant j = TenantForWrite sc \<and> dj_created_by j = job_username actor \<and>
                      job_active j) (d_jobs d) of
             Some j \<Rightarrow> (Inl (JobExists (dj_id j)), d)
           | None \<Rightarrow>
              (let job = new_delete_job actor now sc ip uniq (d_next_job d);
                   d1 = d\<lparr>d_jobs := d_jobs d @ [job], d_next_job := d_next_job d + 1\<rparr>
               in case GetDeleteJob actor sc (dj_id job) d1 of
                    None \<Rightarrow> (Inl JobNotFound, d1) | Some j \<Rightarrow> (Inr j, d1))))"

definition CancelDeleteJob :: "user option \<Rightarrow> scope \<Rightarrow> int \<Rightarrow> db \<Rightarrow> delete_job_row task_op" where
  "CancelDeleteJob actor sc i d =
    (let d1 = d\<lparr>d_jobs := upd_where (\<lambda>j. dj_id j = i \<and> job_active j \<and> jobVisibility actor sc j)
                 (\<lambda>j. j\<lparr>dj_cancel_requested := True\<rparr>) (d_jobs d)\<rparr>
     in case GetDeleteJob actor sc i d1 of None \<Rightarrow> (Inl JobNotFound, d1) | Some j \<Rightarrow> (Inr j, d1))"

definition finish_job :: "time \<Rightarrow> string \<Rightarrow> delete_job_row \<Rightarrow> delete_job_row" where
  "finish_job now status j = j\<lparr>dj_status := status, dj_finished_at := Some now\<rparr>"

definition advance_job ::
    "time \<Rightarrow> nat \<Rightarrow> nat \<Rightarrow> (int \<times> delete_failure) list \<Rightarrow> delete_job_row \<Rightarrow> delete_job_row" where
  "advance_job now processed' deleted failed j = j\<lparr>dj_processed := processed',
     dj_deleted := dj_deleted j + deleted, dj_failed_count := dj_failed_count j + length failed,
     dj_failed := dj_failed j @ take (maxJobFailureDetails - length (dj_failed j)) failed,
     dj_status := (if processed' \<ge> length (dj_ids j) then ''done'' else ''running''),
     dj_finished_at := (if processed' \<ge> length (dj_ids j) then Some now else None)\<rparr>"

text \<open>
  One chunk of one job: the oldest active job no other replica holds. The job runs as its creator,
  rebuilt from the job's row. A statement of the chunk may fail: \<open>fault\<close> holds the failures recorded up
  to there and the error, and the savepoint undoes the chunk. The answer is whether there was a job.
\<close>

definition chunk_outcome ::
    "(failures \<times> string) option \<Rightarrow> scope \<Rightarrow> int list \<Rightarrow> owner_check \<Rightarrow> db \<Rightarrow> int list \<times> failures \<times> db" where
  "chunk_outcome fault sc chunk chk d =
    (case fault of
       None \<Rightarrow> (case deleteChunkTx sc chunk chk Map.empty Map.empty d of (deleted, cache, fl, d1) \<Rightarrow> (deleted, fl, d1))
     | Some (fl, e) \<Rightarrow>
         ([], \<lambda>i. if i \<in> set chunk then Some (case fl i of None \<Rightarrow> DelError e | Some f \<Rightarrow> f) else fl i, d))"

definition runDeleteJobOnce ::
    "policy \<Rightarrow> (int \<Rightarrow> bool) \<Rightarrow> (failures \<times> string) option \<Rightarrow> time \<Rightarrow> db \<Rightarrow> bool \<times> db" where
  "runDeleteJobOnce pc locked fault now d =
    (case min_row dj_id (\<lambda>j. job_active j \<and> \<not> locked (dj_id j)) (d_jobs d) of
       None \<Rightarrow> (False, d)
     | Some j \<Rightarrow>
        (if dj_cancel_requested j \<or> dj_processed j \<ge> length (dj_ids j) then
           (let status = (if dj_cancel_requested j \<and> dj_processed j < length (dj_ids j) then ''canceled'' else ''done'')
            in (True, d\<lparr>d_jobs := upd_where (\<lambda>r. dj_id r = dj_id j) (finish_job now status) (d_jobs d)\<rparr>))
         else
           (let stop = min (dj_processed j + batchDeleteChunk) (length (dj_ids j));
                chunk = take (stop - dj_processed j) (drop (dj_processed j) (dj_ids j));
                actor = \<lparr>us_username = dj_created_by j, us_is_admin = dj_is_admin j,
                         us_tenant = dj_tenant j, us_roles = dj_roles j\<rparr>;
                sc = scope_new (dj_tenant j) (dj_cross j)
            in case chunk_outcome fault sc chunk (ownerChecker pc (Some actor)) d of
                 (deleted, fl, d1) \<Rightarrow>
                   (True, d1\<lparr>d_jobs := upd_where (\<lambda>r. dj_id r = dj_id j)
                      (advance_job now stop (length deleted) (chunk_failed fl chunk)) (d_jobs d1)\<rparr>))))"

text \<open>The clean-up of finished jobs.\<close>

definition purge_jobs :: "time \<Rightarrow> db \<Rightarrow> db" where
  "purge_jobs now d = d\<lparr>d_jobs := filter (\<lambda>j. \<not> ((dj_status j = ''done'' \<or> dj_status j = ''canceled'') \<and>
     (case dj_finished_at j of None \<Rightarrow> False | Some t \<Rightarrow> t < now - hours (7 * 24)))) (d_jobs d)\<rparr>"

end
