(* ===== verification/WorkQueue.thy ===== *)
theory WorkQueue
imports Prelude
begin

text \<open>
  What the background deletion jobs of tasks and of hosts have in common: a table of jobs with at most one
  active job per owner, and a worker whose rounds each advance one job. The locale \<open>work_queue\<close> states
  what a worker promises; both kinds of jobs interpret it.
\<close>

section \<open>A table of jobs\<close>

definition table_ok :: "('j \<Rightarrow> int) \<Rightarrow> ('j \<Rightarrow> bool) \<Rightarrow> ('j \<Rightarrow> 'o) \<Rightarrow> ('j \<Rightarrow> bool) \<Rightarrow> int \<Rightarrow> 'j list \<Rightarrow> bool" where
  "table_ok jid active owner good next js =
    (distinct (map jid js) \<and> (\<forall>j\<in>set js. jid j < next \<and> good j) \<and> unique_where active owner js)"

lemma distinct_key_eq: "distinct (map k js) \<Longrightarrow> j \<in> set js \<Longrightarrow> r \<in> set js \<Longrightarrow> k r = k j \<Longrightarrow> r = j"
  by (auto simp: distinct_map inj_on_def)

text \<open>One update of one active job, which may close it.\<close>

lemma table_ok_upd:
  assumes "table_ok jid active owner good next js" "j \<in> set js" "active j" "good (f j)"
    and "\<And>r. jid (f r) = jid r \<and> owner (f r) = owner r"
  shows "table_ok jid active owner good next (upd_where (\<lambda>r. jid r = jid j) f js)"
proof -
  have one: "r = j" if "r \<in> set js" "jid r = jid j" for r
    using assms(1,2) that by (auto simp: table_ok_def dest: distinct_key_eq)
  have "distinct (map jid (upd_where (\<lambda>r. jid r = jid j) f js))"
    using assms(1,5) by (simp add: map_upd_where table_ok_def)
  moreover have "\<forall>r\<in>set (upd_where (\<lambda>r. jid r = jid j) f js). jid r < next \<and> good r"
    using assms(1,4,5) one by (auto simp: set_upd_where table_ok_def)
  moreover have "unique_where active owner (upd_where (\<lambda>r. jid r = jid j) f js)"
    using assms(1,3,5) one by (intro unique_where_upd) (auto simp: table_ok_def)
  ultimately show ?thesis by (simp add: table_ok_def)
qed

text \<open>An update that changes neither who owns a job nor whether it is active.\<close>

lemma table_ok_note:
  assumes "table_ok jid active owner good next js"
    and "\<And>r. jid (f r) = jid r \<and> owner (f r) = owner r \<and> active (f r) = active r" and "\<And>r. good r \<Longrightarrow> good (f r)"
  shows "table_ok jid active owner good next (upd_where P f js)"
proof -
  have "unique_where active owner (upd_where P f js)"
    using assms(1,2) by (intro unique_where_upd) (auto simp: table_ok_def)
  then show ?thesis using assms by (auto simp: table_ok_def map_upd_where set_upd_where)
qed

lemma table_ok_append:
  assumes "table_ok jid active owner good next js" "jid j = next" "good j"
    and "\<not> exists_row (\<lambda>r. owner r = owner j \<and> active r) js"
  shows "table_ok jid active owner good (next + 1) (js @ [j])"
  using assms by (fastforce simp: table_ok_def exists_row_iff intro: unique_where_append)

lemma table_ok_filter:
  "table_ok jid active owner good next js \<Longrightarrow> table_ok jid active owner good next (filter P js)"
  by (auto simp: table_ok_def distinct_map_filter intro: unique_where_filter)

section \<open>Work that is left\<close>

lemma sum_upd_le:
  fixes m :: "'r \<Rightarrow> nat"
  assumes "\<And>r. r \<in> set rs \<Longrightarrow> P r \<Longrightarrow> m (f r) \<le> m r"
  shows "sum_list (map m (upd_where P f rs)) \<le> sum_list (map m rs)"
  using assms by (induction rs) (auto intro: add_mono)

lemma sum_upd_less:
  fixes m :: "'r \<Rightarrow> nat"
  assumes "\<And>r. r \<in> set rs \<Longrightarrow> P r \<Longrightarrow> m (f r) < m r" "r \<in> set rs" "P r"
  shows "sum_list (map m (upd_where P f rs)) < sum_list (map m rs)"
  using assms
proof (induction rs)
  case (Cons a rs)
  have le: "sum_list (map m (upd_where P f rs)) \<le> sum_list (map m rs)"
    using Cons.prems(1) by (intro sum_upd_le) (auto intro: less_imp_le)
  show ?case
  proof (cases "P a")
    case True
    with Cons.prems(1) have "m (f a) < m a" by simp
    with True le show ?thesis by (simp add: add_less_le_mono)
  next
    case False
    with Cons.prems have "r \<in> set rs" by auto
    with Cons.IH Cons.prems False show ?thesis by simp
  qed
qed simp

lemma sum_upd_one:
  fixes m :: "'r \<Rightarrow> nat"
  assumes "distinct (map k rs)" "r \<in> set rs" "m (f r) < m r"
  shows "sum_list (map m (upd_where (\<lambda>x. k x = k r) f rs)) < sum_list (map m rs)"
  using assms by (intro sum_upd_less [OF _ assms(2)]) (auto dest: distinct_key_eq)

text \<open>A worker: a round that does not fail either advances the work or finds none left.\<close>

locale work_queue =
  fixes good :: "'s \<Rightarrow> bool" and todo :: "'s \<Rightarrow> nat" and fails :: "'e \<Rightarrow> bool" and round :: "'e \<Rightarrow> 's \<Rightarrow> bool \<times> 's"
  assumes keeps: "good s \<Longrightarrow> good (snd (round e s))"
    and unchanged: "fails e \<Longrightarrow> snd (round e s) = s"
    and progress: "good s \<Longrightarrow> \<not> fails e \<Longrightarrow> fst (round e s) \<Longrightarrow> todo (snd (round e s)) < todo s"
    and idle: "good s \<Longrightarrow> \<not> fails e \<Longrightarrow> \<not> fst (round e s) \<Longrightarrow> todo (snd (round e s)) = 0"
begin

lemma round_todo:
  assumes "good s"
  shows "todo (snd (round e s)) \<le> todo s - (if fails e then 0 else 1)"
  using progress [OF assms, of e] idle [OF assms, of e] unchanged [of e s] by (cases "fails e"; cases "fst (round e s)") auto

lemma rounds_todo:
  "good s \<Longrightarrow> good (fold (\<lambda>e s. snd (round e s)) es s) \<and>
     todo (fold (\<lambda>e s. snd (round e s)) es s) \<le> todo s - length (filter (\<lambda>e. \<not> fails e) es)"
proof (induction es arbitrary: s)
  case (Cons e es)
  let ?s = "snd (round e s)"
  from Cons.IH [OF keeps [OF Cons.prems, of e]] have "good (fold (\<lambda>e s. snd (round e s)) es ?s)"
    "todo (fold (\<lambda>e s. snd (round e s)) es ?s) \<le> todo ?s - length (filter (\<lambda>e. \<not> fails e) es)" by auto
  with round_todo [OF Cons.prems, of e] show ?case by (auto split: if_splits)
qed simp

lemma all_done:
  "good s \<Longrightarrow> todo s \<le> length (filter (\<lambda>e. \<not> fails e) es) \<Longrightarrow>
     good (fold (\<lambda>e s. snd (round e s)) es s) \<and> todo (fold (\<lambda>e s. snd (round e s)) es s) = 0"
  using rounds_todo [of s es] by simp

end

end
