(* ===== verification/DeleteSafety.thy ===== *)
theory DeleteSafety
imports TaskDelete TaskSafety WorkQueue
begin

text \<open>
  Deleting in bulk, in chunks and with cached owner checks, is deleting one by one; a background job
  accounts for every id exactly once and ends.
\<close>

section \<open>The cascade\<close>

definition refs_agree :: "db \<Rightarrow> bool" where
  "refs_agree d = (\<forall>c\<in>set (d_cmds d). \<forall>h\<in>set (d_thosts d).
     cm_task_host_id c = Some (th_id h) \<longrightarrow> cm_task_id c = Some (th_task_id h))"

lemma delete_tasks_Nil [simp]: "delete_tasks sc [] d = d"
  by (simp add: delete_tasks_def split: option.split)

lemma delete_tasks_cong: "set is = set js \<Longrightarrow> delete_tasks sc is d = delete_tasks sc js d"
  by (simp add: delete_tasks_def)

definition gone_ids :: "scope \<Rightarrow> int list \<Rightarrow> db \<Rightarrow> int set" where
  "gone_ids sc is d = {i \<in> set is. \<exists>t\<in>set (d_tasks d). tk_id t = i \<and> scope_where sc (tk_tenant t)}"

lemma delete_tasks_alt:
  "delete_tasks sc is d = d\<lparr>
     d_tasks := filter (\<lambda>t. \<not> (tk_id t \<in> set is \<and> scope_where sc (tk_tenant t))) (d_tasks d),
     d_batches := filter (\<lambda>b. tb_task_id b \<notin> gone_ids sc is d) (d_batches d),
     d_thosts := filter (\<lambda>h. th_task_id h \<notin> gone_ids sc is d) (d_thosts d),
     d_cmds := filter (\<lambda>c. \<not> ((\<exists>i\<in>gone_ids sc is d. cm_task_id c = Some i) \<or>
        (\<exists>h\<in>set (d_thosts d). th_task_id h \<in> gone_ids sc is d \<and> cm_task_host_id c = Some (th_id h)))) (d_cmds d)\<rparr>"
proof -
  define tids where "tids = map tk_id (filter (\<lambda>t. tk_id t \<in> set is \<and> scope_where sc (tk_tenant t)) (d_tasks d))"
  define hids where "hids = map th_id (filter (\<lambda>h. th_task_id h \<in> set tids) (d_thosts d))"
  have t: "set tids = gone_ids sc is d"
    by (auto simp: gone_ids_def tids_def)
  have "(case a of None \<Rightarrow> False | Some i \<Rightarrow> i \<in> set tids) = (\<exists>i\<in>gone_ids sc is d. a = Some i)" for a
    by (auto simp: t [symmetric] split: option.split)
  moreover have "(case a of None \<Rightarrow> False | Some i \<Rightarrow> i \<in> set hids) =
      (\<exists>h\<in>set (d_thosts d). th_task_id h \<in> gone_ids sc is d \<and> a = Some (th_id h))" for a
    by (auto simp: t [symmetric] hids_def split: option.split)
  ultimately show ?thesis
    unfolding delete_tasks_def Let_def tids_def [symmetric] hids_def [symmetric] by (simp add: t)
qed

lemma gone_ids_after: "gone_ids sc js (delete_tasks sc is d) = gone_ids sc js d - {i. i \<in> set is}"
  by (auto simp: gone_ids_def delete_tasks_alt)

lemma delete_tasks_twice:
  "delete_tasks sc js (delete_tasks sc is d) = delete_tasks sc (is @ js) d"
proof -
  have g: "gone_ids sc (is @ js) d = gone_ids sc is d \<union> gone_ids sc js (delete_tasks sc is d)"
    unfolding gone_ids_after by (auto simp: gone_ids_def)
  define d1 where "d1 = delete_tasks sc is d"
  define g1 where "g1 = gone_ids sc is d"
  define g2 where "g2 = gone_ids sc js d1"
  let ?ref = "\<lambda>g hs (c :: command_row). (\<exists>i\<in>g. cm_task_id c = Some i) \<or>
     (\<exists>h\<in>set hs. th_task_id h \<in> g \<and> cm_task_host_id c = Some (th_id h))"
  have d1: "d1 = d\<lparr>d_tasks := filter (\<lambda>t. \<not> (tk_id t \<in> set is \<and> scope_where sc (tk_tenant t))) (d_tasks d),
     d_batches := filter (\<lambda>b. tb_task_id b \<notin> g1) (d_batches d),
     d_thosts := filter (\<lambda>h. th_task_id h \<notin> g1) (d_thosts d),
     d_cmds := filter (\<lambda>c. \<not> ?ref g1 (d_thosts d) c) (d_cmds d)\<rparr>"
    unfolding d1_def g1_def by (rule delete_tasks_alt)
  have "filter (\<lambda>c. \<not> ?ref g2 (d_thosts d1) c) (d_cmds d1) =
      filter (\<lambda>c. \<not> ?ref (g1 \<union> g2) (d_thosts d) c) (d_cmds d)"
    unfolding d1 by (auto intro!: filter_cong)
  moreover have "filter (\<lambda>t. \<not> (tk_id t \<in> set js \<and> scope_where sc (tk_tenant t))) (d_tasks d1) =
      filter (\<lambda>t. \<not> (tk_id t \<in> set (is @ js) \<and> scope_where sc (tk_tenant t))) (d_tasks d)"
    unfolding d1 by (auto intro!: filter_cong)
  moreover have "filter (\<lambda>b. tb_task_id b \<notin> g2) (d_batches d1) = filter (\<lambda>b. tb_task_id b \<notin> g1 \<union> g2) (d_batches d)"
    "filter (\<lambda>h. th_task_id h \<notin> g2) (d_thosts d1) = filter (\<lambda>h. th_task_id h \<notin> g1 \<union> g2) (d_thosts d)"
    unfolding d1 by (auto intro!: filter_cong)
  ultimately show ?thesis
    unfolding delete_tasks_alt [of sc js "delete_tasks sc is d"] delete_tasks_alt [of sc "is @ js"] g
    unfolding d1_def [symmetric] g1_def [symmetric] g2_def [symmetric] by (simp only:) (simp add: d1)
qed

lemma refs_agree_delete: "refs_agree d \<Longrightarrow> refs_agree (delete_tasks sc is d)"
  by (auto simp: refs_agree_def delete_tasks_alt)

lemma find_filter: "(\<And>x. P x \<Longrightarrow> Q x) \<Longrightarrow> find P (filter Q xs) = find P xs"
  by (induction xs) auto

lemma find_after_delete: "i \<notin> set is \<Longrightarrow> find_task_scoped sc i (delete_tasks sc is d) = find_task_scoped sc i d"
  unfolding find_task_scoped_def delete_tasks_alt by (simp, intro find_filter) auto

lemma active_after_delete:
  assumes "i \<notin> set is" "refs_agree d"
  shows "active_count i (delete_tasks sc is d) = active_count i d"
proof -
  have "i \<notin> gone_ids sc is d" using assms(1) by (simp add: gone_ids_def)
  then have "\<not> ((\<exists>j\<in>gone_ids sc is d. cm_task_id c = Some j) \<or>
        (\<exists>h\<in>set (d_thosts d). th_task_id h \<in> gone_ids sc is d \<and> cm_task_host_id c = Some (th_id h)))"
    if "c \<in> set (d_cmds d)" "cm_task_id c = Some i" for c
    using that assms(2) by (auto simp: refs_agree_def)
  then show ?thesis
    unfolding active_count_def rows_affected_def delete_tasks_alt
    by (simp, intro arg_cong [where f = length] filter_cong) auto
qed

section \<open>One verdict for both ways\<close>

definition owner_ok :: "policy \<Rightarrow> user option \<Rightarrow> string \<Rightarrow> task_error option" where
  "owner_ok pc actor createdBy = (case actor of None \<Rightarrow> None | Some u \<Rightarrow>
     (if ownerChecker pc actor = None then None
      else owner_verdict pc u (ownerModeFor pc (us_username u)) createdBy))"

definition delete_verdict :: "policy \<Rightarrow> user option \<Rightarrow> scope \<Rightarrow> db \<Rightarrow> int \<Rightarrow> delete_failure option" where
  "delete_verdict pc actor sc d i = (case find_task_scoped sc i d of None \<Rightarrow> Some DelNotFound
     | Some t \<Rightarrow> (case owner_ok pc actor (tk_created_by t) of Some e \<Rightarrow> Some (owner_failure e)
        | None \<Rightarrow> if \<not> deletableStatus (tk_status t) then Some (DelStatus (tk_status t))
                 else if active_count i d > 0 then Some (DelActive (active_count i d)) else None))"

lemma ownerChecker_None:
  "ownerChecker pc (Some u) = None \<longleftrightarrow>
     us_is_admin u \<or> IsSuperAdmin u \<or> HasRole u RoleAdmin \<or> ownerModeFor pc (us_username u) = ''inherit''"
  by (auto simp: ownerChecker_def Let_def)

lemma checkTaskOwner_ok:
  "find_task_scoped sc i d = Some t \<Longrightarrow> checkTaskOwner pc actor sc i d = owner_ok pc actor (tk_created_by t)"
  by (auto simp: checkTaskOwner_def owner_ok_def ownerChecker_None Let_def split: option.split)

lemma DeleteTask_verdict:
  "fst (DeleteTask pc actor sc i d) = Inr () \<longleftrightarrow> delete_verdict pc actor sc d i = None"
proof (cases "find_task_scoped sc i d")
  case (Some t)
  then show ?thesis
    by (auto simp: DeleteTask_def delete_verdict_def checkTaskOwner_ok split: option.split)
qed (auto simp: DeleteTask_def delete_verdict_def split: option.split)

lemma DeleteTask_effect:
  "DeleteTask pc actor sc i d = (Inr (), d') \<Longrightarrow> d' = delete_tasks sc [i] d"
  by (auto simp: DeleteTask_def split: option.splits if_splits)

definition chk_cache_ok :: "policy \<Rightarrow> user option \<Rightarrow> share_cache \<Rightarrow> bool" where
  "chk_cache_ok pc actor cache = (case actor of None \<Rightarrow> True | Some u \<Rightarrow> cache_ok pc (us_username u) cache)"

lemma check_step:
  assumes "chk_cache_ok pc actor cache"
    and "(case ownerChecker pc actor of None \<Rightarrow> (None, cache) | Some f \<Rightarrow> f cache c) = (v, cache')"
  shows "v = owner_ok pc actor c \<and> chk_cache_ok pc actor cache'"
proof (cases actor)
  case None
  with assms show ?thesis by (simp add: ownerChecker_def owner_ok_def chk_cache_ok_def)
next
  case (Some u)
  with assms ownerChecker_step [of pc u _ cache c] show ?thesis
    by (auto simp: owner_ok_def chk_cache_ok_def split: option.splits)
qed

text \<open>The failures recorded for a list of ids.\<close>

definition record_failures :: "(int \<Rightarrow> delete_failure option) \<Rightarrow> int list \<Rightarrow> failures \<Rightarrow> failures" where
  "record_failures V ids fl = (\<lambda>i. if i \<in> set ids then (case V i of None \<Rightarrow> fl i | Some f \<Rightarrow> Some f) else fl i)"

lemma record_failures_Nil [simp]: "record_failures V [] fl = fl"
  by (simp add: record_failures_def)

lemma record_failures_Cons_Some:
  "V i = Some f \<Longrightarrow> record_failures V (i # ids) fl = record_failures V ids (fl(i \<mapsto> f))"
  by (auto simp: record_failures_def split: option.split)

lemma record_failures_Cons_None:
  "V i = None \<Longrightarrow> record_failures V (i # ids) fl = record_failures V ids fl"
  by (auto simp: record_failures_def split: option.split)

lemma record_failures_append:
  "(\<And>i. i \<in> set bs \<Longrightarrow> W i = V i) \<Longrightarrow>
     record_failures W bs (record_failures V as fl) = record_failures V (as @ bs) fl"
  by (auto simp: record_failures_def fun_eq_iff split: option.split)

definition pre_verdict :: "policy \<Rightarrow> user option \<Rightarrow> scope \<Rightarrow> db \<Rightarrow> int \<Rightarrow> delete_failure option" where
  "pre_verdict pc actor sc d i = (case find_task_scoped sc i d of None \<Rightarrow> Some DelNotFound
     | Some t \<Rightarrow> (case owner_ok pc actor (tk_created_by t) of Some e \<Rightarrow> Some (owner_failure e)
        | None \<Rightarrow> if \<not> deletableStatus (tk_status t) then Some (DelStatus (tk_status t)) else None))"

lemma chunk_candidates_spec:
  assumes "chk_cache_ok pc actor cache"
  shows "\<exists>cache'. chunk_candidates sc (ownerChecker pc actor) d ids cache fl =
      (filter (\<lambda>i. pre_verdict pc actor sc d i = None) ids, cache',
       record_failures (pre_verdict pc actor sc d) ids fl) \<and> chk_cache_ok pc actor cache'"
  using assms
proof (induction ids arbitrary: cache fl)
  case (Cons i ids)
  show ?case
  proof (cases "find_task_scoped sc i d")
    case None
    then have v: "pre_verdict pc actor sc d i = Some DelNotFound" by (simp add: pre_verdict_def)
    with Cons None show ?thesis by (auto simp: record_failures_Cons_Some)
  next
    case (Some t)
    obtain v cache' where c: "(case ownerChecker pc actor of None \<Rightarrow> (None, cache) | Some f \<Rightarrow> f cache (tk_created_by t)) = (v, cache')"
      by (metis prod.exhaust)
    from check_step [OF Cons.prems c] have v: "v = owner_ok pc actor (tk_created_by t)" "chk_cache_ok pc actor cache'" by auto
    have pv: "pre_verdict pc actor sc d i = (case v of Some e \<Rightarrow> Some (owner_failure e)
        | None \<Rightarrow> if \<not> deletableStatus (tk_status t) then Some (DelStatus (tk_status t)) else None)"
      by (simp add: pre_verdict_def Some v)
    show ?thesis
    proof (cases "pre_verdict pc actor sc d i")
      case None
      with pv have "v = None" "deletableStatus (tk_status t)" by (auto split: option.splits if_splits)
      with Cons.IH [OF v(2), of fl] None show ?thesis
        by (auto simp: Some c record_failures_Cons_None)
    next
      case f: (Some f)
      have e: "chunk_candidates sc (ownerChecker pc actor) d (i # ids) cache fl =
          chunk_candidates sc (ownerChecker pc actor) d ids cache' (fl(i \<mapsto> f))"
        using pv f by (auto simp: Some c split: option.splits if_splits)
      have g: "filter (\<lambda>i. pre_verdict pc actor sc d i = None) (i # ids) =
          filter (\<lambda>i. pre_verdict pc actor sc d i = None) ids"
        using f by simp
      show ?thesis
        unfolding e g record_failures_Cons_Some [of "pre_verdict pc actor sc d", OF f]
        by (rule Cons.IH [OF v(2)])
    qed
  qed
qed simp

lemma chunk_final_spec:
  assumes "\<forall>i\<in>set ids. pre_verdict pc actor sc d i = None"
  shows "chunk_final sc d ids fl = (filter (\<lambda>i. delete_verdict pc actor sc d i = None) ids,
      record_failures (delete_verdict pc actor sc d) ids fl)"
  using assms
proof (induction ids arbitrary: fl)
  case (Cons i ids)
  then obtain t where t: "find_task_scoped sc i d = Some t" "owner_ok pc actor (tk_created_by t) = None"
      "deletableStatus (tk_status t)"
    by (auto simp: pre_verdict_def split: option.splits if_splits)
  show ?case
  proof (cases "active_count i d > 0")
    case True
    with t have "delete_verdict pc actor sc d i = Some (DelActive (active_count i d))" by (simp add: delete_verdict_def)
    with Cons True t show ?thesis by (simp add: record_failures_Cons_Some)
  next
    case False
    with t have "delete_verdict pc actor sc d i = None" by (simp add: delete_verdict_def)
    with Cons False t show ?thesis by (simp add: record_failures_Cons_None)
  qed
qed simp

lemma pre_verdict_Some: "pre_verdict pc actor sc d i = Some f \<Longrightarrow> delete_verdict pc actor sc d i = Some f"
  by (auto simp: pre_verdict_def delete_verdict_def split: option.splits if_splits)

lemma pre_verdict_None: "delete_verdict pc actor sc d i = None \<Longrightarrow> pre_verdict pc actor sc d i = None"
  using pre_verdict_Some [of pc actor sc d i] by (cases "pre_verdict pc actor sc d i") auto

lemma deleteChunkTx_spec:
  assumes "chk_cache_ok pc actor cache" "distinct ids"
  shows "\<exists>del cache'. deleteChunkTx sc ids (ownerChecker pc actor) cache fl d =
      (del, cache', record_failures (delete_verdict pc actor sc d) ids fl,
       delete_tasks sc (filter (\<lambda>i. delete_verdict pc actor sc d i = None) ids) d) \<and>
    set del = {i \<in> set ids. delete_verdict pc actor sc d i = None} \<and> chk_cache_ok pc actor cache'"
proof -
  let ?P = "pre_verdict pc actor sc d" and ?V = "delete_verdict pc actor sc d"
  from chunk_candidates_spec [OF assms(1)] obtain cache' where
    c: "chunk_candidates sc (ownerChecker pc actor) d ids cache fl = (filter (\<lambda>i. ?P i = None) ids, cache', record_failures ?P ids fl)"
    and ok: "chk_cache_ok pc actor cache'" by blast
  have f: "chunk_final sc d (filter (\<lambda>i. ?P i = None) ids) (record_failures ?P ids fl) =
      (filter (\<lambda>i. ?V i = None) ids, record_failures ?V ids fl)"
  proof -
    have "filter (\<lambda>i. ?V i = None) (filter (\<lambda>i. ?P i = None) ids) = filter (\<lambda>i. ?V i = None) ids"
      using pre_verdict_None by (auto intro!: filter_cong)
    moreover have "record_failures ?V (filter (\<lambda>i. ?P i = None) ids) (record_failures ?P ids fl) = record_failures ?V ids fl"
      using pre_verdict_Some by (fastforce simp: record_failures_def split: option.splits)
    ultimately show ?thesis
      using chunk_final_spec [of "filter (\<lambda>i. ?P i = None) ids" pc actor sc d] by simp
  qed
  let ?fin = "filter (\<lambda>i. ?V i = None) ids"
  have "i \<in> tk_id ` {t \<in> set (d_tasks d). scope_where sc (tk_tenant t)}" if "?V i = None" for i
  proof -
    from that obtain t where "find_task_scoped sc i d = Some t"
      by (auto simp: delete_verdict_def split: option.splits)
    then show ?thesis by (auto simp: find_task_scoped_def dest: find_SomeD)
  qed
  then have "tk_id ` {t \<in> set (d_tasks d). tk_id t \<in> set ?fin \<and> scope_where sc (tk_tenant t)} = set ?fin"
    by force
  moreover have "?fin = [] \<Longrightarrow> {i \<in> set ids. ?V i = None} = {}" by (simp add: filter_empty_conv)
  ultimately show ?thesis
    using ok by (simp add: deleteChunkTx_def c f Let_def)
qed

lemma delete_verdict_after:
  assumes "i \<notin> set js" "refs_agree d"
  shows "delete_verdict pc actor sc (delete_tasks sc js d) i = delete_verdict pc actor sc d i"
  using assms by (simp add: delete_verdict_def find_after_delete active_after_delete cong: option.case_cong if_cong)

lemma delete_chunks_spec:
  assumes "distinct ids" "chk_cache_ok pc actor cache" "refs_agree d"
  shows "\<exists>del. delete_chunks sc (ownerChecker pc actor) ids cache fl d =
      (del, record_failures (delete_verdict pc actor sc d) ids fl,
       delete_tasks sc (filter (\<lambda>i. delete_verdict pc actor sc d i = None) ids) d) \<and>
    set del = {i \<in> set ids. delete_verdict pc actor sc d i = None}"
  using assms
proof (induction "length ids" arbitrary: ids cache fl d rule: less_induct)
  case less
  show ?case
  proof (cases "ids = []")
    case False
    let ?a = "take batchDeleteChunk ids" and ?b = "drop batchDeleteChunk ids"
    let ?V = "delete_verdict pc actor sc d"
    have ab: "ids = ?a @ ?b" "distinct ?a" "distinct ?b" "set ?a \<inter> set ?b = {}"
      using less.prems(1) by (auto simp: set_take_disj_set_drop_if_distinct)
    from deleteChunkTx_spec [OF less.prems(2) ab(2)] obtain del1 cache' where
      c: "deleteChunkTx sc ?a (ownerChecker pc actor) cache fl d = (del1, cache', record_failures ?V ?a fl,
         delete_tasks sc (filter (\<lambda>i. ?V i = None) ?a) d)"
      and del1: "set del1 = {i \<in> set ?a. ?V i = None}" and ok: "chk_cache_ok pc actor cache'" by blast
    let ?d1 = "delete_tasks sc (filter (\<lambda>i. ?V i = None) ?a) d"
    have len: "length ?b < length ids" using False by simp
    from less.hyps [OF len ab(3) ok refs_agree_delete [OF less.prems(3)]] obtain del2 where
      r: "delete_chunks sc (ownerChecker pc actor) ?b cache' (record_failures ?V ?a fl) ?d1 =
        (del2, record_failures (delete_verdict pc actor sc ?d1) ?b (record_failures ?V ?a fl),
         delete_tasks sc (filter (\<lambda>i. delete_verdict pc actor sc ?d1 i = None) ?b) ?d1)"
      and del2: "set del2 = {i \<in> set ?b. delete_verdict pc actor sc ?d1 i = None}" by blast
    have same: "delete_verdict pc actor sc ?d1 i = ?V i" if "i \<in> set ?b" for i
      using that ab(4) by (intro delete_verdict_after) (auto simp: less.prems(3))
    have f2: "filter (\<lambda>i. delete_verdict pc actor sc ?d1 i = None) ?b = filter (\<lambda>i. ?V i = None) ?b"
      using same by (auto intro!: filter_cong)
    have r2: "record_failures (delete_verdict pc actor sc ?d1) ?b (record_failures ?V ?a fl) = record_failures ?V ids fl"
      using record_failures_append [of ?b "delete_verdict pc actor sc ?d1" ?V ?a fl] same ab(1) by simp
    have "filter (\<lambda>i. ?V i = None) ?a @ filter (\<lambda>i. ?V i = None) ?b = filter (\<lambda>i. ?V i = None) ids"
      by (metis ab(1) filter_append)
    then have d2: "delete_tasks sc (filter (\<lambda>i. ?V i = None) ?b) ?d1 = delete_tasks sc (filter (\<lambda>i. ?V i = None) ids) d"
      by (simp add: delete_tasks_twice)
    have "set (del1 @ del2) = {i \<in> set ids. ?V i = None}"
    proof -
      have "set ids = set ?a \<union> set ?b" by (metis ab(1) set_append)
      moreover have "set del2 = {i \<in> set ?b. ?V i = None}" using del2 same by auto
      ultimately show ?thesis using del1 by auto
    qed
    moreover have "delete_chunks sc (ownerChecker pc actor) ids cache fl d =
        (del1 @ del2, record_failures ?V ids fl, delete_tasks sc (filter (\<lambda>i. ?V i = None) ids) d)"
      using False by (subst delete_chunks.simps) (simp add: c r f2 r2 d2)
    ultimately show ?thesis by blast
  qed (simp add: delete_chunks.simps)
qed

lemma dedup_ids_spec:
  "distinct (dedup_ids is seen) \<and> set (dedup_ids is seen) = {i \<in> set is. 0 < i \<and> i \<notin> seen}"
  by (induction "is" arbitrary: seen) auto

text \<open>C12: deleting in bulk, in transactions of 500 and with cached owner checks, deletes exactly the tasks that
  deleting one by one would delete from the same database, with their batches, host rows and commands,
  and reports every other valid id of the request as failed.\<close>

theorem BatchDelete_is_Delete:
  assumes "refs_agree d" and "BatchDelete pc actor sc ids d = (Inr (deleted, failed), d')"
  shows "set deleted = {i \<in> set ids. 0 < i \<and> fst (DeleteTask pc actor sc i d) = Inr ()} \<and>
    d' = delete_tasks sc deleted d \<and>
    fst ` set failed = {i \<in> set ids. 0 < i} - set deleted"
proof -
  let ?V = "delete_verdict pc actor sc d" and ?o = "dedup_ids ids {}"
  have o: "distinct (sort ?o)" "set ?o = {i \<in> set ids. 0 < i}"
    using dedup_ids_spec [of ids "{}"] by auto
  have "chk_cache_ok pc actor Map.empty" by (simp add: chk_cache_ok_def cache_ok_def split: option.split)
  from delete_chunks_spec [OF o(1) this assms(1)] obtain del where
    c: "delete_chunks sc (ownerChecker pc actor) (sort ?o) Map.empty Map.empty d =
      (del, record_failures ?V (sort ?o) Map.empty, delete_tasks sc (filter (\<lambda>i. ?V i = None) (sort ?o)) d)"
    and del: "set del = {i \<in> set ?o. ?V i = None}" by force
  from assms(2) c have r: "deleted = sort del"
      "failed = chunk_failed (record_failures ?V (sort ?o) Map.empty) ?o"
      "d' = delete_tasks sc (filter (\<lambda>i. ?V i = None) (sort ?o)) d"
    by (auto simp: BatchDelete_def Let_def split: if_splits)
  have "set deleted = {i \<in> set ids. 0 < i \<and> fst (DeleteTask pc actor sc i d) = Inr ()}"
    using r(1) del o(2) by (auto simp: DeleteTask_verdict)
  moreover have "d' = delete_tasks sc deleted d"
    unfolding r(3) by (rule delete_tasks_cong) (use r(1) del in auto)
  moreover have "fst ` set failed = {i \<in> set ids. 0 < i} - set deleted"
    using r(1,2) del o(2) by (force simp: chunk_failed_def record_failures_def split: option.splits)
  ultimately show ?thesis by blast
qed

section \<open>Jobs\<close>

definition job_ok :: "delete_job_row \<Rightarrow> bool" where
  "job_ok j \<longleftrightarrow> distinct (dj_ids j) \<and> dj_total j = length (dj_ids j) \<and> dj_processed j \<le> length (dj_ids j) \<and>
     dj_deleted j + dj_failed_count j = dj_processed j \<and>
     length (dj_failed j) = min maxJobFailureDetails (dj_failed_count j) \<and>
     (dj_status j = ''done'' \<longrightarrow> dj_processed j = length (dj_ids j)) \<and>
     dj_status j \<in> set [''pending'', ''running'', ''done'', ''canceled'']"

text \<open>The jobs of a database: accounts that add up, and one active job per tenant and creator.\<close>

definition jobs_ok :: "db \<Rightarrow> bool" where
  "jobs_ok d \<longleftrightarrow> distinct (map dj_id (d_jobs d)) \<and> (\<forall>j\<in>set (d_jobs d). dj_id j < d_next_job d \<and> job_ok j) \<and>
     unique_where job_active (\<lambda>j. (dj_tenant j, dj_created_by j)) (d_jobs d)"

lemma chunk_failed_Cons:
  "chunk_failed fl (i # is) = (case fl i of None \<Rightarrow> [] | Some f \<Rightarrow> [(i, f)]) @ chunk_failed fl is"
  by (simp add: chunk_failed_def)

lemma length_chunk_failed: "length (chunk_failed fl is) = length (filter (\<lambda>i. fl i \<noteq> None) is)"
  by (induction "is") (auto simp: chunk_failed_Cons chunk_failed_def split: option.split)

lemma length_filter_split: "length (filter P xs) + length (filter (\<lambda>x. \<not> P x) xs) = length xs"
  by (induction xs) auto

lemma deleteChunkTx_count:
  assumes "distinct (map tk_id (d_tasks d))" "distinct ids" "deleteChunkTx sc ids (ownerChecker pc actor) Map.empty Map.empty d = (del, c, fl, d')"
  shows "length del + length (chunk_failed fl ids) = length ids"
proof -
  let ?V = "delete_verdict pc actor sc d"
  have "chk_cache_ok pc actor Map.empty" by (simp add: chk_cache_ok_def cache_ok_def split: option.split)
  from deleteChunkTx_spec [OF this assms(2), of sc Map.empty d] assms(3)
  have fl: "fl = record_failures ?V ids Map.empty" and del: "set del = {i \<in> set ids. ?V i = None}" by auto
  have "distinct del"
    using assms(1,3) by (auto simp: deleteChunkTx_def Let_def distinct_map intro: inj_on_subset split: prod.splits if_splits)
  then have "length del = card {i \<in> set ids. ?V i = None}"
    using del by (metis distinct_card)
  also have "\<dots> = length (filter (\<lambda>i. ?V i = None) ids)"
    using assms(2) by (simp add: distinct_length_filter Int_def conj_commute)
  finally have "length del = length (filter (\<lambda>i. ?V i = None) ids)" .
  moreover have "filter (\<lambda>i. fl i \<noteq> None) ids = filter (\<lambda>i. \<not> ?V i = None) ids"
    by (auto simp: fl record_failures_def intro!: filter_cong split: option.split)
  ultimately show ?thesis
    using length_filter_split [of "\<lambda>i. ?V i = None" ids] by (simp add: length_chunk_failed)
qed

lemma chunk_outcome_count:
  assumes "distinct (map tk_id (d_tasks d))" "distinct ids" "chunk_outcome fault sc ids (ownerChecker pc actor) d = (del, fl, d')"
  shows "length del + length (chunk_failed fl ids) = length ids"
proof (cases fault)
  case None
  with assms(3) obtain c where "deleteChunkTx sc ids (ownerChecker pc actor) Map.empty Map.empty d = (del, c, fl, d')"
    by (auto simp: chunk_outcome_def split: prod.splits)
  from deleteChunkTx_count [OF assms(1,2) this] show ?thesis .
next
  case (Some x)
  with assms(3) have "del = []" "\<forall>i\<in>set ids. fl i \<noteq> None" by (auto simp: chunk_outcome_def split: prod.splits)
  then show ?thesis by (simp add: length_chunk_failed)
qed

lemma chunk_outcome_jobs:
  "chunk_outcome fault sc ids chk d = (del, fl, d') \<Longrightarrow> d_jobs d' = d_jobs d \<and> d_next_job d' = d_next_job d \<and>
     (distinct (map tk_id (d_tasks d)) \<longrightarrow> distinct (map tk_id (d_tasks d')))"
  by (auto simp: chunk_outcome_def deleteChunkTx_def delete_tasks_def Let_def distinct_map_filter
      split: option.splits prod.splits if_splits)

lemma job_ok_advance:
  assumes "job_ok j" "dj_processed j \<le> stop" "stop \<le> length (dj_ids j)" "job_active j"
    and "deleted + length failed = stop - dj_processed j"
  shows "job_ok (advance_job now stop deleted failed j)"
  using assms by (auto simp: job_ok_def advance_job_def job_active_def min_def)

lemma job_ok_finish:
  "job_ok j \<Longrightarrow> s = ''canceled'' \<or> s = ''done'' \<and> dj_processed j = length (dj_ids j) \<Longrightarrow> job_ok (finish_job now s j)"
  by (auto simp: job_ok_def finish_job_def)

lemma jobs_ok_table:
  "jobs_ok d = table_ok dj_id job_active (\<lambda>j. (dj_tenant j, dj_created_by j)) job_ok (d_next_job d) (d_jobs d)"
  by (auto simp: jobs_ok_def table_ok_def)

lemma jobs_ok_upd:
  assumes "jobs_ok d" "j \<in> set (d_jobs d)" "job_active j" "job_ok (f j)"
    and "\<And>r. dj_id (f r) = dj_id r \<and> dj_tenant (f r) = dj_tenant r \<and> dj_created_by (f r) = dj_created_by r"
    and "d_jobs d' = upd_where (\<lambda>r. dj_id r = dj_id j) f (d_jobs d)" "d_next_job d' = d_next_job d"
  shows "jobs_ok d'"
  unfolding jobs_ok_table assms(6,7)
  by (rule table_ok_upd [where f = f]) (use assms(1-5) in \<open>simp_all add: jobs_ok_table\<close>)

lemma runDeleteJobOnce_ok:
  assumes "jobs_ok d" "distinct (map tk_id (d_tasks d))"
  shows "jobs_ok (snd (runDeleteJobOnce pc locked fault now d)) \<and>
    distinct (map tk_id (d_tasks (snd (runDeleteJobOnce pc locked fault now d))))"
proof (cases "min_row dj_id (\<lambda>j. job_active j \<and> \<not> locked (dj_id j)) (d_jobs d)")
  case None
  then show ?thesis using assms by (simp add: runDeleteJobOnce_def)
next
  case (Some j)
  from min_row_Some [OF Some] have j: "j \<in> set (d_jobs d)" "job_active j" by auto
  with assms(1) have ok: "job_ok j" by (simp add: jobs_ok_def)
  show ?thesis
  proof (cases "dj_cancel_requested j \<or> dj_processed j \<ge> length (dj_ids j)")
    case True
    let ?s = "if dj_cancel_requested j \<and> dj_processed j < length (dj_ids j) then ''canceled'' else ''done''"
    have "job_ok (finish_job now ?s j)"
      using ok True by (intro job_ok_finish) (auto simp: job_ok_def)
    with jobs_ok_upd [OF assms(1) j, of "finish_job now ?s"] True Some assms(2) show ?thesis
      by (simp add: runDeleteJobOnce_def Let_def finish_job_def)
  next
    case False
    define stop where "stop = min (dj_processed j + batchDeleteChunk) (length (dj_ids j))"
    define chunk where "chunk = take (stop - dj_processed j) (drop (dj_processed j) (dj_ids j))"
    define actor where "actor = (\<lparr>us_username = dj_created_by j, us_is_admin = dj_is_admin j,
                         us_tenant = dj_tenant j, us_roles = dj_roles j\<rparr> :: user)"
    obtain del fl d1 where c: "chunk_outcome fault (scope_new (dj_tenant j) (dj_cross j)) chunk (ownerChecker pc (Some actor)) d = (del, fl, d1)"
      by (metis prod_cases3)
    have r: "runDeleteJobOnce pc locked fault now d = (True, d1\<lparr>d_jobs := upd_where (\<lambda>r. dj_id r = dj_id j)
        (advance_job now stop (length del) (chunk_failed fl chunk)) (d_jobs d1)\<rparr>)"
      using False Some c by (simp add: runDeleteJobOnce_def Let_def stop_def chunk_def actor_def)
    have s: "dj_processed j \<le> stop" "stop \<le> length (dj_ids j)" using False by (auto simp: stop_def)
    have "distinct chunk" "length chunk = stop - dj_processed j"
      using ok s by (auto simp: chunk_def job_ok_def)
    with chunk_outcome_count [OF assms(2) _ c] job_ok_advance [OF ok s j(2)]
    have "job_ok (advance_job now stop (length del) (chunk_failed fl chunk) j)" by simp
    with jobs_ok_upd [OF assms(1) j, of "advance_job now stop (length del) (chunk_failed fl chunk)"]
      chunk_outcome_jobs [OF c] assms(2) show ?thesis
      by (simp add: r advance_job_def)
  qed
qed

lemma dedup_sorted_ok: "distinct (sort (dedup_ids is {})) \<and> (\<forall>i\<in>set (dedup_ids is {}). 0 < i)"
  using dedup_ids_spec [of "is" "{}"] by simp

lemma CreateDeleteJob_jobs_ok:
  assumes "jobs_ok d"
  shows "jobs_ok (snd (CreateDeleteJob actor now sc ip ids d))"
proof (cases "snd (CreateDeleteJob actor now sc ip ids d) = d")
  case False
  let ?u = "sort (dedup_ids ids {})"
  from False have none: "max_row dj_id (\<lambda>j. dj_tenant j = TenantForWrite sc \<and> dj_created_by j = job_username actor \<and>
       job_active j) (d_jobs d) = None"
    by (auto simp: CreateDeleteJob_def Let_def split: option.splits if_splits)
  then have free: "\<forall>j\<in>set (d_jobs d). job_active j \<longrightarrow> \<not> (dj_tenant j = TenantForWrite sc \<and> dj_created_by j = job_username actor)"
    by (auto simp: max_row_def min_row_None)
  define job where "job = new_delete_job actor now sc ip ?u (d_next_job d)"
  from False have r: "snd (CreateDeleteJob actor now sc ip ids d) =
      d\<lparr>d_jobs := d_jobs d @ [job], d_next_job := d_next_job d + 1\<rparr>"
    by (auto simp: CreateDeleteJob_def Let_def none job_def split: option.splits if_splits)
  have "job_ok job" using dedup_sorted_ok [of ids] by (simp add: job_ok_def job_def new_delete_job_def)
  moreover have "d_next_job d \<notin> dj_id ` set (d_jobs d)"
    using assms by (auto simp: jobs_ok_def)
  moreover have "unique_where job_active (\<lambda>j. (dj_tenant j, dj_created_by j)) (d_jobs d @ [job])"
    using assms free by (intro unique_where_append) (auto simp: jobs_ok_def job_def new_delete_job_def)
  moreover have "dj_id job = d_next_job d" by (simp add: job_def new_delete_job_def)
  ultimately show ?thesis
    using assms by (auto simp: r jobs_ok_def)
qed (use assms in simp)

lemma CancelDeleteJob_jobs_ok:
  assumes "jobs_ok d"
  shows "jobs_ok (snd (CancelDeleteJob actor sc i d))"
proof -
  let ?js = "upd_where (\<lambda>j. dj_id j = i \<and> job_active j \<and> jobVisibility actor sc j)
                 (\<lambda>j. j\<lparr>dj_cancel_requested := True\<rparr>) (d_jobs d)"
  have "snd (CancelDeleteJob actor sc i d) = d\<lparr>d_jobs := ?js\<rparr>"
    by (simp add: CancelDeleteJob_def Let_def split: option.split)
  moreover have "unique_where job_active (\<lambda>j. (dj_tenant j, dj_created_by j)) ?js"
    using assms by (intro unique_where_upd) (auto simp: jobs_ok_def job_active_def)
  moreover have "\<forall>j\<in>set ?js. dj_id j < d_next_job d \<and> job_ok j"
    using assms by (auto simp: jobs_ok_def set_upd_where job_ok_def)
  ultimately show ?thesis
    using assms by (simp add: jobs_ok_def map_upd_where)
qed

lemma purge_jobs_ok: "jobs_ok d \<Longrightarrow> jobs_ok (purge_jobs now d)"
  by (auto simp: jobs_ok_def purge_jobs_def distinct_map_filter intro: unique_where_filter)

text \<open>Background deletion keeps its accounts: every id of a job is counted once, as deleted or as failed, also
  when a chunk fails and is rolled back; at most 200 failures are kept in detail; a finished job has
  processed every id; and a creator never has two active jobs.\<close>

theorem delete_jobs_integrity:
  assumes "jobs_ok d" and "distinct (map tk_id (d_tasks d))"
  shows "jobs_ok (snd (runDeleteJobOnce pc locked fault now d)) \<and>
    jobs_ok (snd (CreateDeleteJob actor now sc ip ids d)) \<and>
    jobs_ok (snd (CancelDeleteJob actor sc i d)) \<and> jobs_ok (purge_jobs now d)"
  using runDeleteJobOnce_ok [OF assms] CreateDeleteJob_jobs_ok [OF assms(1)] CancelDeleteJob_jobs_ok [OF assms(1)]
    purge_jobs_ok [OF assms(1)] by blast

section \<open>Every job ends\<close>

definition job_todo :: "delete_job_row \<Rightarrow> nat" where
  "job_todo j = (if job_active j then 1 + (length (dj_ids j) - dj_processed j) else 0)"

definition jobs_todo :: "db \<Rightarrow> nat" where
  "jobs_todo d = sum_list (map job_todo (d_jobs d))"

lemma jobs_todo_0: "jobs_todo d = 0 \<longleftrightarrow> (\<forall>j\<in>set (d_jobs d). \<not> job_active j)"
  by (auto simp: jobs_todo_def job_todo_def)

lemma runDeleteJobOnce_todo:
  assumes "distinct (map dj_id (d_jobs d))" "runDeleteJobOnce pc locked fault now d = (True, d')"
  shows "jobs_todo d' < jobs_todo d"
proof -
  from assms(2) obtain j where m: "min_row dj_id (\<lambda>j. job_active j \<and> \<not> locked (dj_id j)) (d_jobs d) = Some j"
    by (auto simp: runDeleteJobOnce_def split: option.splits)
  from min_row_Some [OF m] have j: "j \<in> set (d_jobs d)" "job_active j" by auto
  have less: "jobs_todo d' < jobs_todo d"
    if "d_jobs d' = upd_where (\<lambda>r. dj_id r = dj_id j) f (d_jobs d)" "job_todo (f j) < job_todo j" for f
    unfolding jobs_todo_def that(1) by (rule sum_upd_one [where f = f, OF assms(1) j(1) that(2)])
  show ?thesis
  proof (cases "dj_cancel_requested j \<or> dj_processed j \<ge> length (dj_ids j)")
    case True
    let ?s = "if dj_cancel_requested j \<and> dj_processed j < length (dj_ids j) then ''canceled'' else ''done''"
    have "job_todo (finish_job now ?s j) < job_todo j"
      using j(2) by (simp add: job_todo_def finish_job_def job_active_def)
    with True m assms(2) show ?thesis
      by (intro less [of "finish_job now ?s"]) (auto simp: runDeleteJobOnce_def Let_def)
  next
    case False
    define stop where "stop = min (dj_processed j + batchDeleteChunk) (length (dj_ids j))"
    have s: "dj_processed j < stop" using False by (auto simp: stop_def)
    obtain n fd where "d_jobs d' = upd_where (\<lambda>r. dj_id r = dj_id j) (advance_job now stop n fd) (d_jobs d)"
      using False m assms(2) by (auto simp: runDeleteJobOnce_def Let_def stop_def
          dest!: chunk_outcome_jobs split: prod.splits)
    moreover have "job_todo (advance_job now stop n fd j) < job_todo j"
      using s j(2) by (auto simp: job_todo_def advance_job_def job_active_def)
    ultimately show ?thesis by (rule less)
  qed
qed

lemma runDeleteJobOnce_idle:
  assumes "runDeleteJobOnce pc (\<lambda>i. False) fault now d = (False, d')"
  shows "d' = d \<and> (\<forall>j\<in>set (d_jobs d). \<not> job_active j)"
  using assms by (auto simp: runDeleteJobOnce_def Let_def min_row_None split: option.splits prod.splits if_splits)

text \<open>Rounds one after the other, each with its clock and its fault.\<close>

fun delete_rounds :: "policy \<Rightarrow> (time \<times> (failures \<times> string) option) list \<Rightarrow> db \<Rightarrow> db" where
  "delete_rounds pc [] d = d"
| "delete_rounds pc ((now, fault) # es) d = delete_rounds pc es (snd (runDeleteJobOnce pc (\<lambda>i. False) fault now d))"

lemma delete_rounds_fold:
  "delete_rounds pc es d = fold (\<lambda>e d. snd (runDeleteJobOnce pc (\<lambda>i. False) (snd e) (fst e) d)) es d"
  by (induction es arbitrary: d) auto

interpretation task_jobs: work_queue "\<lambda>d. jobs_ok d \<and> distinct (map tk_id (d_tasks d))" jobs_todo "\<lambda>e. False"
    "\<lambda>e. runDeleteJobOnce pc (\<lambda>i. False) (snd e) (fst e)" for pc
proof unfold_locales
  fix d :: db and e :: "time \<times> (failures \<times> string) option"
  assume g: "jobs_ok d \<and> distinct (map tk_id (d_tasks d))"
  obtain b d' where r: "runDeleteJobOnce pc (\<lambda>i. False) (snd e) (fst e) d = (b, d')" by fastforce
  from g show "jobs_ok (snd (runDeleteJobOnce pc (\<lambda>i. False) (snd e) (fst e) d)) \<and>
      distinct (map tk_id (d_tasks (snd (runDeleteJobOnce pc (\<lambda>i. False) (snd e) (fst e) d))))"
    by (intro runDeleteJobOnce_ok) auto
  show "jobs_todo (snd (runDeleteJobOnce pc (\<lambda>i. False) (snd e) (fst e) d)) < jobs_todo d"
    if "fst (runDeleteJobOnce pc (\<lambda>i. False) (snd e) (fst e) d)"
    using that g r runDeleteJobOnce_todo [of d pc "\<lambda>i. False" "snd e" "fst e" d'] by (simp add: jobs_ok_def)
  show "jobs_todo (snd (runDeleteJobOnce pc (\<lambda>i. False) (snd e) (fst e) d)) = 0"
    if "\<not> fst (runDeleteJobOnce pc (\<lambda>i. False) (snd e) (fst e) d)"
    using that r runDeleteJobOnce_idle [of pc "snd e" "fst e" d d'] jobs_todo_0 [of d'] by auto
qed auto

text \<open>What becomes of a job in a round: its list of ids is never touched, and it is closed as canceled only if that
  was requested.\<close>

definition job_follows :: "delete_job_row \<Rightarrow> delete_job_row \<Rightarrow> bool" where
  "job_follows j j' = (dj_id j' = dj_id j \<and> dj_ids j' = dj_ids j \<and> dj_cancel_requested j' = dj_cancel_requested j \<and>
     (dj_status j' = ''canceled'' \<longrightarrow> dj_status j = ''canceled'' \<or> dj_cancel_requested j))"

lemma job_follows_trans: "job_follows j1 j2 \<Longrightarrow> job_follows j2 j3 \<Longrightarrow> job_follows j1 j3"
  by (auto simp: job_follows_def)

lemma runDeleteJobOnce_follows:
  assumes "distinct (map dj_id (d_jobs d))"
  shows "list_all2 job_follows (d_jobs d) (d_jobs (snd (runDeleteJobOnce pc locked fault now d)))"
proof (cases "min_row dj_id (\<lambda>j. job_active j \<and> \<not> locked (dj_id j)) (d_jobs d)")
  case None
  then show ?thesis by (simp add: runDeleteJobOnce_def job_follows_def list_all2_same)
next
  case (Some j)
  from min_row_Some [OF Some] have j: "j \<in> set (d_jobs d)" by auto
  have one: "list_all2 job_follows (d_jobs d) (upd_where (\<lambda>r. dj_id r = dj_id j) f (d_jobs d))" if "job_follows j (f j)" for f
  proof (rule list_all2_upd_where)
    fix r assume "r \<in> set (d_jobs d)" "dj_id r = dj_id j"
    then have "r = j" using assms j by (auto dest: distinct_key_eq)
    with that show "job_follows r (f r)" by simp
  qed (simp add: job_follows_def)
  show ?thesis
  proof (cases "dj_cancel_requested j \<or> dj_processed j \<ge> length (dj_ids j)")
    case True
    with Some show ?thesis
      by (auto simp: runDeleteJobOnce_def Let_def job_follows_def finish_job_def intro!: one)
  next
    case False
    obtain b d' where r: "runDeleteJobOnce pc locked fault now d = (b, d')" by fastforce
    obtain stop n fd where "d_jobs d' = upd_where (\<lambda>r. dj_id r = dj_id j) (advance_job now stop n fd) (d_jobs d)"
      using False Some r by (auto simp: runDeleteJobOnce_def Let_def dest!: chunk_outcome_jobs split: prod.splits)
    then show ?thesis using one [of "advance_job now stop n fd"] by (simp add: r job_follows_def advance_job_def)
  qed
qed

lemma delete_rounds_follows:
  assumes "jobs_ok d" "distinct (map tk_id (d_tasks d))"
  shows "list_all2 job_follows (d_jobs d) (d_jobs (delete_rounds pc es d))"
  using assms
proof (induction es arbitrary: d)
  case Nil
  then show ?case by (simp add: job_follows_def list_all2_same)
next
  case (Cons e es)
  obtain now fault where e: "e = (now, fault)" by fastforce
  let ?d = "snd (runDeleteJobOnce pc (\<lambda>i. False) fault now d)"
  have "list_all2 job_follows (d_jobs d) (d_jobs ?d)"
    using Cons.prems(1) by (intro runDeleteJobOnce_follows) (simp add: jobs_ok_def)
  moreover have "list_all2 job_follows (d_jobs ?d) (d_jobs (delete_rounds pc es ?d))"
    using runDeleteJobOnce_ok [OF Cons.prems] by (intro Cons.IH) auto
  ultimately show ?case by (auto simp: e intro: list_all2_trans [OF job_follows_trans])
qed

text \<open>C13: every background job that deletes tasks ends: once the worker has made as many rounds as the active jobs
  have unprocessed ids and one more per job, every job is closed, whatever chunk fails on the way - as done, with
  each of its ids counted as deleted or failed, or as canceled, and then only if it was canceled before
  or its cancelation had been requested. The rounds are those that find no job held by another process.\<close>

theorem delete_jobs_end:
  assumes "jobs_ok d" and "distinct (map tk_id (d_tasks d))" and "jobs_todo d \<le> length es"
  shows "list_all2 (\<lambda>j0 j. dj_id j = dj_id j0 \<and> dj_ids j = dj_ids j0 \<and>
      (dj_status j = ''done'' \<and> dj_deleted j + dj_failed_count j = length (dj_ids j0) \<or>
       dj_status j = ''canceled'' \<and> (dj_status j0 = ''canceled'' \<or> dj_cancel_requested j0)))
    (d_jobs d) (d_jobs (delete_rounds pc es d))"
proof -
  from task_jobs.all_done [of d es pc] assms
  have "jobs_ok (delete_rounds pc es d)" "jobs_todo (delete_rounds pc es d) = 0" by (auto simp: delete_rounds_fold)
  then have "\<forall>j\<in>set (d_jobs (delete_rounds pc es d)). job_ok j \<and> \<not> job_active j" by (auto simp: jobs_ok_def jobs_todo_0)
  note closed = this
  show ?thesis
  proof (rule list.rel_mono_strong [OF delete_rounds_follows [OF assms(1,2), of pc es]])
    fix j0 j assume "j \<in> set (d_jobs (delete_rounds pc es d))" and f: "job_follows j0 j"
    with closed have "job_ok j" "\<not> job_active j" by auto
    with f show "dj_id j = dj_id j0 \<and> dj_ids j = dj_ids j0 \<and>
      (dj_status j = ''done'' \<and> dj_deleted j + dj_failed_count j = length (dj_ids j0) \<or>
       dj_status j = ''canceled'' \<and> (dj_status j0 = ''canceled'' \<or> dj_cancel_requested j0))"
      unfolding job_follows_def job_ok_def job_active_def by auto
  qed
qed

section \<open>Tenants\<close>

text \<open>C9: within a scope that does not see the task (it is another tenant's, or there is none) every request on
  it - start, promote, pause, cancel, retry, delete - fails and changes nothing, batches and host rows included.\<close>

theorem task_ops_tenant_isolated:
  assumes "find_task_scoped sc i d = None"
  shows "\<exists>e1 e2 e3 e4 e5 e6. Start pc actor now sc i d = (Inl e1, d) \<and> Promote pc actor now sc i d = (Inl e2, d) \<and>
    Pause pc actor now sc i d = (Inl e3, d) \<and> Cancel pc actor now sc i d = (Inl e4, d) \<and>
    Retry pc actor now stamp sc i rq d = (Inl e5, d) \<and> DeleteTask pc actor sc i d = (Inl e6, d)"
proof -
  have n: "move_task actor now sc i fr to err d0 (d\<lparr>d_batches := bs\<rparr>) = (Inl err, d0)" for fr to err d0 bs
    using assms by (intro move_task_other_tenant) (auto simp: find_scoped_None)
  have m: "move_task actor now sc i fr to err d0 d = (Inl err, d0)" for fr to err d0
    using assms by (intro move_task_other_tenant) (auto simp: find_scoped_None)
  have f: "find_task i d = None" if "sc_cross sc"
    using assms that by (auto simp: find_scoped_None find_task_def find_None_all scope_where_def)
  have "\<exists>e. Start pc actor now sc i d = (Inl e, d)" "\<exists>e. Promote pc actor now sc i d = (Inl e, d)"
    "\<exists>e. Pause pc actor now sc i d = (Inl e, d)" "\<exists>e. Cancel pc actor now sc i d = (Inl e, d)"
    using m n assms by (auto simp: task_op_defs Let_def split: option.split)
  moreover have "\<exists>e. Retry pc actor now stamp sc i rq d = (Inl e, d)" "\<exists>e. DeleteTask pc actor sc i d = (Inl e, d)"
    using f assms by (auto simp: Retry_def DeleteTask_def split: option.split)
  ultimately show ?thesis by blast
qed

end
