(* ===== verification/Inet.thy ===== *)
theory Inet
imports GoNum "HOL-Library.Word"
begin

text \<open>
  The part of Go's \<open>net\<close> package the address expressions rest on: \<open>net.ParseIP\<close>, \<open>net.ParseCIDR\<close>,
  \<open>IP.To4\<close>, \<open>IP.Mask\<close>, \<open>IPNet.Contains\<close> and \<open>IP.String\<close>. An address is its bytes, four or sixteen
  of them; the bytes are words, so that the carry of an increment is the wrap-around of a byte.
\<close>

type_synonym ip = "8 word list"

unbundle bit_operations_syntax

section \<open>Reading\<close>

definition octet_value :: "string \<Rightarrow> nat" where
  "octet_value s = nat (digits_value s)"

text \<open>One field of a dotted address: digits only, no leading zero, at most 255.\<close>

definition octet_ok :: "string \<Rightarrow> bool" where
  "octet_ok s \<longleftrightarrow> s \<noteq> [] \<and> list_all is_digit s \<and> (length s = 1 \<or> hd s \<noteq> CHR ''0'') \<and> length s \<le> 3 \<and> octet_value s \<le> 255"

definition parse_ipv4 :: "string \<Rightarrow> ip option" where
  "parse_ipv4 s = (let fs = split_on CHR ''.'' s in
     if length fs = 4 \<and> list_all octet_ok fs then Some (map (\<lambda>f. of_nat (octet_value f)) fs) else None)"

definition hex_digit :: "char \<Rightarrow> nat option" where
  "hex_digit c = (let n = byte c in
     if 48 \<le> n \<and> n \<le> 57 then Some (n - 48)
     else if 97 \<le> n \<and> n \<le> 102 then Some (n - 87)
     else if 65 \<le> n \<and> n \<le> 70 then Some (n - 55) else None)"

definition hex_value :: "string \<Rightarrow> nat" where
  "hex_value s = foldl (\<lambda>v c. 16 * v + (case hex_digit c of None \<Rightarrow> 0 | Some d \<Rightarrow> d)) 0 s"

definition two_bytes :: "nat \<Rightarrow> ip" where
  "two_bytes n = [of_nat (n div 256), of_nat (n mod 256)]"

text \<open>
  The loop over the groups of an IPv6 address: how many groups may follow, what is left of the text,
  the bytes so far, the place of the ellipsis. The answer keeps the text that is left.
\<close>

fun v6_groups :: "nat \<Rightarrow> string \<Rightarrow> ip \<Rightarrow> nat option \<Rightarrow> (ip \<times> nat option \<times> string) option" where
  "v6_groups 0 s acc el = Some (acc, el, s)"
| "v6_groups (Suc n) s acc el =
    (let hex = takeWhile (\<lambda>c. hex_digit c \<noteq> None) s; rest = dropWhile (\<lambda>c. hex_digit c \<noteq> None) s
     in if hex = [] \<or> length hex > 4 then None
        else if rest \<noteq> [] \<and> hd rest = CHR ''.'' then
          (if el = None \<and> length acc \<noteq> 12 then None
           else if length acc + 4 > 16 then None
           else case parse_ipv4 s of None \<Rightarrow> None | Some v \<Rightarrow> Some (acc @ v, el, []))
        else
          (let acc' = acc @ two_bytes (hex_value hex)
           in if rest = [] then Some (acc', el, [])
              else if hd rest \<noteq> CHR '':'' \<or> tl rest = [] then None
              else if hd (tl rest) = CHR '':'' then
                (if el \<noteq> None then None
                 else if tl (tl rest) = [] then Some (acc', Some (length acc'), [])
                 else v6_groups n (tl (tl rest)) acc' (Some (length acc')))
              else v6_groups n (tl rest) acc' el))"

definition parse_ipv6 :: "string \<Rightarrow> ip option" where
  "parse_ipv6 s =
    (let lead = has_prefix ''::'' s
     in if lead \<and> length s = 2 then Some (replicate 16 0)
        else case v6_groups 8 (if lead then drop 2 s else s) [] (if lead then Some 0 else None) of
          None \<Rightarrow> None
        | Some (acc, el, rest) \<Rightarrow>
           (if rest \<noteq> [] then None
            else if length acc < 16 then
              (case el of None \<Rightarrow> None
               | Some e \<Rightarrow> Some (take e acc @ replicate (16 - length acc) 0 @ drop e acc))
            else if el \<noteq> None then None else Some acc))"

definition v4_prefix :: ip where
  "v4_prefix = replicate 10 0 @ [255, 255]"

text \<open>\<open>netip.ParseAddr\<close> without zones: the first of the three characters decides.\<close>

definition parse_addr :: "string \<Rightarrow> ip option" where
  "parse_addr s = (if CHR ''%'' \<in> set s then None
     else case find (\<lambda>c. c = CHR ''.'' \<or> c = CHR '':'') s of
        None \<Rightarrow> None
      | Some c \<Rightarrow> if c = CHR ''.'' then parse_ipv4 s else parse_ipv6 s)"

text \<open>\<open>net.ParseIP\<close> always answers sixteen bytes.\<close>

definition ParseIP :: "string \<Rightarrow> ip option" where
  "ParseIP s = map_option (\<lambda>a. if length a = 4 then v4_prefix @ a else a) (parse_addr s)"

definition To4 :: "ip \<Rightarrow> ip option" where
  "To4 a = (if length a = 4 then Some a
     else if length a = 16 \<and> take 12 a = v4_prefix then Some (drop 12 a) else None)"

section \<open>Networks\<close>

text \<open>\<open>net.CIDRMask\<close>: the first bits of the mask are set.\<close>

definition cidr_mask :: "nat \<Rightarrow> nat \<Rightarrow> ip" where
  "cidr_mask ones n = map (\<lambda>i. if 8 * (i + 1) \<le> ones then 255
      else if 8 * i < ones then 256 - 2 ^ (8 - (ones - 8 * i)) else 0) [0..<n]"

definition mask_ip :: "ip \<Rightarrow> ip \<Rightarrow> ip" where
  "mask_ip a m = map2 (AND) a m"

text \<open>The prefix length: digits only, below the constant \<open>big\<close> of the package.\<close>

definition dtoi :: "string \<Rightarrow> nat option" where
  "dtoi s = (if s \<noteq> [] \<and> list_all is_digit s \<and> digits_value s < 0xFFFFFF then Some (nat (digits_value s)) else None)"

text \<open>The network address and the prefix length; the mask has as many bytes as the address.\<close>

definition ParseCIDR :: "string \<Rightarrow> (ip \<times> nat) option" where
  "ParseCIDR s =
    (if CHR ''/'' \<notin> set s then None
     else case parse_addr (takeWhile (\<lambda>c. c \<noteq> CHR ''/'') s) of None \<Rightarrow> None
      | Some a \<Rightarrow>
         (case dtoi (tl (dropWhile (\<lambda>c. c \<noteq> CHR ''/'') s)) of None \<Rightarrow> None
          | Some n \<Rightarrow> if n > 8 * length a then None else Some (mask_ip a (cidr_mask n (length a)), n)))"

text \<open>\<open>IPNet.Contains\<close> for a network and mask of the same length.\<close>

definition net_contains :: "ip \<Rightarrow> ip \<Rightarrow> ip \<Rightarrow> bool" where
  "net_contains net m a =
    (let (nn, mm) = (case To4 net of None \<Rightarrow> (net, m) | Some n4 \<Rightarrow> (n4, if length m = 16 then drop 12 m else m));
         x = (case To4 a of None \<Rightarrow> a | Some a4 \<Rightarrow> a4)
     in length x = length nn \<and> mask_ip nn mm = mask_ip x mm)"

section \<open>Writing\<close>

fun hex_text :: "nat \<Rightarrow> string" where
  "hex_text n = (if n < 16 then [''0123456789abcdef'' ! n] else hex_text (n div 16) @ [''0123456789abcdef'' ! (n mod 16)])"

declare hex_text.simps [simp del]

fun groups :: "ip \<Rightarrow> nat list" where
  "groups (a # b # r) = (unat a * 256 + unat b) # groups r"
| "groups _ = []"

text \<open>The first longest run of at least two zero groups: where it begins and ends.\<close>

definition zero_run :: "nat list \<Rightarrow> nat \<Rightarrow> nat" where
  "zero_run gs i = length (takeWhile (\<lambda>g. g = 0) (drop i gs))"

definition longest_zero :: "nat list \<Rightarrow> (nat \<times> nat) option" where
  "longest_zero gs = fold (\<lambda>i best. let l = zero_run gs i in
      if l \<ge> 2 \<and> (case best of None \<Rightarrow> True | Some (s, e) \<Rightarrow> l > e - s) then Some (i, i + l) else best)
    [0..<length gs] None"

definition v6_text :: "ip \<Rightarrow> string" where
  "v6_text a = (let gs = groups a in case longest_zero gs of
      None \<Rightarrow> join_with '':'' (map hex_text gs)
    | Some (s, e) \<Rightarrow> join_with '':'' (map hex_text (take s gs)) @ ''::'' @ join_with '':'' (map hex_text (drop e gs)))"

definition v4_text :: "ip \<Rightarrow> string" where
  "v4_text a = join_with ''.'' (map (\<lambda>b. int_dec (int (unat b))) a)"

definition ip_text :: "ip \<Rightarrow> string" where
  "ip_text a = (case To4 a of Some a4 \<Rightarrow> v4_text a4 | None \<Rightarrow> v6_text a)"

end
