(* ===== verification/IpRange.thy ===== *)
theory IpRange
imports Inet "HOL-Library.List_Lexorder" "HOL-Library.Char_ord"
begin

text \<open>
  \<open>internal/pkg/ipx/ipx.go\<close>: the address expressions of a task's target selector. A loop over
  addresses may not end, so expanding answers an option, \<open>None\<close> for a loop that never returns. A Go
  map is the list of its keys in order of insertion; the order of an iteration over it, and what an
  unstable sort makes of equal keys, is the parameter \<open>order\<close>.
\<close>

datatype ipx_error =
    NoAddress | EmptyExpression | BadAddress string | BadNetwork string | NetworkTooLarge string
  | BadStart string | OnlyIPv4 string | BadEnd string | StartAfterEnd string | RangeTooLarge string
  | TooManyAddresses int | InExclude ipx_error

abbreviation DefaultMaxExpand :: int where "DefaultMaxExpand \<equiv> 65536"

section \<open>Addresses in order\<close>

fun next_rev :: "ip \<Rightarrow> ip" where
  "next_rev [] = []"
| "next_rev (b # bs) = (if b + 1 \<noteq> 0 then (b + 1) # bs else 0 # next_rev bs)"

text \<open>The carry runs from the last byte to the first.\<close>

definition nextIP :: "ip \<Rightarrow> ip" where
  "nextIP a = rev (next_rev (rev a))"

fun compareIP :: "ip \<Rightarrow> ip \<Rightarrow> int" where
  "compareIP (a # as) (b # bs) = (if a < b then -1 else if a > b then 1 else compareIP as bs)"
| "compareIP _ _ = 0"

partial_function (option) ip_loop :: "(ip \<Rightarrow> bool) \<Rightarrow> ip \<Rightarrow> string list option" where
  "ip_loop more cur =
    (if more cur then Option.bind (ip_loop more (nextIP cur)) (\<lambda>rest. Some (ip_text cur # rest)) else Some [])"

declare ip_loop.simps [code]

section \<open>One part of an expression\<close>

text \<open>\<open>strconv.Atoi\<close> on what follows the dash; a value out of range of an int is refused like one above 255.\<close>

definition atoi :: "string \<Rightarrow> int option" where
  "atoi s = (let neg = (s \<noteq> [] \<and> hd s = CHR ''-'');
                 ds = (if s \<noteq> [] \<and> (hd s = CHR ''-'' \<or> hd s = CHR ''+'') then tl s else s)
     in if ds = [] \<or> \<not> list_all is_digit ds then None
        else Some (if neg then - digits_value ds else digits_value ds))"

definition before_dash :: "string \<Rightarrow> string" where
  "before_dash s = takeWhile (\<lambda>c. c \<noteq> CHR ''-'') s"

definition after_dash :: "string \<Rightarrow> string" where
  "after_dash s = tl (dropWhile (\<lambda>c. c \<noteq> CHR ''-'') s)"

text \<open>The two ends of a range, before they are compared.\<close>

definition range_ends :: "string \<Rightarrow> ipx_error + ip \<times> ip" where
  "range_ends part =
    (let startStr = trim_space (before_dash part); endStr = trim_space (after_dash part)
     in case ParseIP startStr of None \<Rightarrow> Inl (BadStart startStr) | Some s \<Rightarrow>
       (case To4 s of None \<Rightarrow> Inl (OnlyIPv4 part) | Some start4 \<Rightarrow>
         (case ParseIP endStr of
            Some e \<Rightarrow> (case To4 e of None \<Rightarrow> Inl (OnlyIPv4 part) | Some end4 \<Rightarrow> Inr (start4, end4))
          | None \<Rightarrow>
             (case atoi endStr of None \<Rightarrow> Inl (BadEnd endStr) | Some n \<Rightarrow>
               (if n < 0 \<or> n > 255 then Inl (BadEnd endStr)
                else Inr (start4, take 3 start4 @ [of_int n]))))))"

definition ip_val :: "ip \<Rightarrow> int" where
  "ip_val a = foldl (\<lambda>v b. v * 256 + uint b) 0 a"

definition expandRange :: "string \<Rightarrow> int \<Rightarrow> (ipx_error + string list) option" where
  "expandRange part maxExpand =
    (case range_ends part of Inl e \<Rightarrow> Some (Inl e) | Inr (start4, end4) \<Rightarrow>
      (if compareIP start4 end4 > 0 then Some (Inl (StartAfterEnd part))
       else if ip_val end4 - ip_val start4 + 1 > maxExpand then Some (Inl (RangeTooLarge part))
       else map_option Inr (ip_loop (\<lambda>cur. compareIP cur end4 \<le> 0) start4)))"

definition expandCIDR :: "string \<Rightarrow> int \<Rightarrow> (ipx_error + string list) option" where
  "expandCIDR part maxExpand =
    (case ParseCIDR part of None \<Rightarrow> Some (Inl (BadNetwork part)) | Some (net, ones) \<Rightarrow>
      (let hostBits = 8 * length net - ones; m = cidr_mask ones (length net)
       in if hostBits > 30 then Some (Inl (NetworkTooLarge part))
          else if (if hostBits > 1 then 2 ^ hostBits - 2 else 2 ^ hostBits) > maxExpand
               then Some (Inl (NetworkTooLarge part))
          else map_option (\<lambda>ips. Inr (if hostBits > 1 \<and> length ips > 2 then butlast (tl ips) else ips))
                 (ip_loop (net_contains net m) (mask_ip net m))))"

definition expandPart :: "string \<Rightarrow> (ipx_error + string list) option" where
  "expandPart part =
    (if CHR ''-'' \<in> set part then expandRange part DefaultMaxExpand
     else if CHR ''/'' \<in> set part then expandCIDR part DefaultMaxExpand
     else case ParseIP part of None \<Rightarrow> Some (Inl (BadAddress part)) | Some a \<Rightarrow> Some (Inr [part]))"

section \<open>Whole expressions\<close>

fun add_all :: "int \<Rightarrow> string list \<Rightarrow> string list \<Rightarrow> ipx_error + string list" where
  "add_all maxExpand found [] = Inr found"
| "add_all maxExpand found (x # xs) =
    (let found' = (if x \<in> set found then found else found @ [x])
     in if int (length found') > maxExpand then Inl (TooManyAddresses maxExpand) else add_all maxExpand found' xs)"

fun expand_parts :: "int \<Rightarrow> string list \<Rightarrow> string list \<Rightarrow> (ipx_error + string list) option" where
  "expand_parts maxExpand found [] = Some (Inr found)"
| "expand_parts maxExpand found (p # ps) =
    (if trim_space p = [] then expand_parts maxExpand found ps
     else case expandPart (trim_space p) of None \<Rightarrow> None
        | Some (Inl e) \<Rightarrow> Some (Inl e)
        | Some (Inr ips) \<Rightarrow>
           (case add_all maxExpand found ips of Inl e \<Rightarrow> Some (Inl e)
            | Inr found' \<Rightarrow> expand_parts maxExpand found' ps))"

definition expandToSet :: "string \<Rightarrow> int \<Rightarrow> (ipx_error + string list) option" where
  "expandToSet input maxExpand =
    (if trim_space input = [] then Some (Inl EmptyExpression)
     else expand_parts maxExpand [] (split_on CHR '','' (trim_space input)))"

text \<open>The order of the result: IPv4 by value, before everything else by text.\<close>

datatype ip_key = V4Key ip | TextKey string

definition ip_key_of :: "string \<Rightarrow> ip_key" where
  "ip_key_of s = (case ParseIP s of None \<Rightarrow> TextKey s
     | Some a \<Rightarrow> (case To4 a of None \<Rightarrow> TextKey s | Some a4 \<Rightarrow> V4Key a4))"

definition ips_less :: "string \<Rightarrow> string \<Rightarrow> bool" where
  "ips_less s t = (case (Option.bind (ParseIP s) To4, Option.bind (ParseIP t) To4) of
      (Some a, Some b) \<Rightarrow> compareIP a b < 0
    | (Some a, None) \<Rightarrow> True
    | (None, Some b) \<Rightarrow> False
    | (None, None) \<Rightarrow> s < t)"

instantiation ip_key :: linorder
begin

fun less_eq_ip_key :: "ip_key \<Rightarrow> ip_key \<Rightarrow> bool" where
  "less_eq_ip_key (V4Key a) (V4Key b) = (a \<le> b)"
| "less_eq_ip_key (V4Key a) (TextKey t) = True"
| "less_eq_ip_key (TextKey s) (V4Key b) = False"
| "less_eq_ip_key (TextKey s) (TextKey t) = (s \<le> t)"

definition less_ip_key :: "ip_key \<Rightarrow> ip_key \<Rightarrow> bool" where
  "less_ip_key k l = (k \<le> l \<and> \<not> l \<le> k)"

instance
proof
  fix x y z :: ip_key
  show "(x < y) = (x \<le> y \<and> \<not> y \<le> x)" by (rule less_ip_key_def)
  show "x \<le> x" by (cases x) auto
  show "x \<le> y \<Longrightarrow> y \<le> z \<Longrightarrow> x \<le> z" by (cases x; cases y; cases z) auto
  show "x \<le> y \<Longrightarrow> y \<le> x \<Longrightarrow> x = y" by (cases x; cases y) auto
  show "x \<le> y \<or> y \<le> x" by (cases x; cases y) auto
qed

end

definition sortIPs :: "string list \<Rightarrow> string list" where
  "sortIPs ips = sort_key ip_key_of ips"

definition ParseWithExclude ::
    "(string list \<Rightarrow> string list) \<Rightarrow> string \<Rightarrow> string \<Rightarrow> int \<Rightarrow> (ipx_error + string list) option" where
  "ParseWithExclude order inc exc max0 =
    (let maxExpand = (if max0 \<le> 0 then DefaultMaxExpand else max0)
     in case expandToSet inc maxExpand of None \<Rightarrow> None
        | Some (Inl e) \<Rightarrow> Some (Inl e)
        | Some (Inr incSet) \<Rightarrow>
           (if incSet = [] then Some (Inl NoAddress)
            else if trim_space exc = [] then Some (Inr (sortIPs (order incSet)))
            else case expandToSet exc maxExpand of None \<Rightarrow> None
               | Some (Inl e) \<Rightarrow> Some (Inl (InExclude e))
               | Some (Inr excSet) \<Rightarrow> Some (Inr (sortIPs (order (filter (\<lambda>x. x \<notin> set excSet) incSet))))))"

end
