(* ===== verification/TaskCreate.thy ===== *)
theory TaskCreate
imports IpRange TargetOS TaskOps
begin

text \<open>
  Creating a task, \<open>internal/logic/task/task.go\<close> from \<open>Preview\<close> on and \<open>helpers.go\<close>: the request is
  checked, the selector resolved to hosts, the hosts filtered by system and split into batches, and
  the task written as a draft with its batches and host rows in one transaction. Reading an address
  expression may never return, so \<open>Preview\<close> and \<open>Create\<close> answer an option, \<open>None\<close> for a call that
  never returns. The order in which a Go map yields the matched hosts is the parameter \<open>order\<close>.
\<close>

abbreviation maxCommandScriptBytes :: nat where "maxCommandScriptBytes \<equiv> 204800"
abbreviation maxCommandStdinBytes :: nat where "maxCommandStdinBytes \<equiv> 4096"

record create_request =
  cr_kind :: string
  cr_name :: string
  cr_component_id :: int
  cr_version :: string
  cr_command :: command_spec
  cr_selector :: selector
  cr_strategy :: strategy
  cr_created_by :: string
  cr_actor :: "user option"

record preview_result =
  pv_total_hosts :: nat
  pv_batches :: "int list"
  pv_sample_ips :: "string list"
  pv_target_os :: string
  pv_skipped_os :: nat

section \<open>Batches\<close>

partial_function (option) split_loop :: "int \<Rightarrow> int \<Rightarrow> int list option" where
  "split_loop batchSize remaining =
    (if remaining > 0 then
       Option.bind (split_loop batchSize (remaining - (if batchSize > remaining then remaining else batchSize)))
         (\<lambda>rest. Some ((if batchSize > remaining then remaining else batchSize) # rest))
     else Some [])"

declare split_loop.simps [code]

definition splitBatches :: "int \<Rightarrow> strategy \<Rightarrow> int list option" where
  "splitBatches n st =
    (if n = 0 then Some []
     else
      (let canary = (st_mode st = ''canary'' \<and> st_canary_count st > 0 \<and> st_canary_count st < n);
           first = (if canary then [st_canary_count st] else []);
           remaining = (if canary then n - st_canary_count st else n);
           size0 = (if st_mode st = ''percent'' \<and> st_batch_size st > 0
                    then (let p = go_quot (i64 (n * st_batch_size st)) 100 in if p < 1 then 1 else p)
                    else st_batch_size st);
           size = (if size0 \<le> 0 then remaining else size0)
       in map_option (\<lambda>rest. first @ rest) (split_loop size remaining)))"

section \<open>Target hosts\<close>

text \<open>The columns a selector may filter on; a condition on any other is passed over.\<close>

definition filter_column :: "string \<Rightarrow> host_row \<Rightarrow> string option" where
  "filter_column col h =
    (if col = ''app_code'' then Some (ho_app_code h)
     else if col = ''os_family'' then Some (ho_os_family h)
     else if col = ''os_type'' then Some (ho_os_type h)
     else if col = ''account'' then Some (ho_account h)
     else if col = ''biz_group'' then Some (ho_biz_group h)
     else if col = ''department'' then Some (ho_department h)
     else if col = ''vendor'' then Some (ho_vendor h)
     else if col = ''arch'' then Some (ho_arch h) else None)"

definition host_selected :: "scope \<Rightarrow> selector \<Rightarrow> host_row \<Rightarrow> bool" where
  "host_selected sc sel h =
    (scope_where sc (ho_tenant h) \<and>
     list_all (\<lambda>(col, vals). vals = [] \<or> (case filter_column col h of None \<Rightarrow> True | Some v \<Rightarrow> v \<in> set vals))
       (sl_filters sel))"

definition to_target :: "host_row \<Rightarrow> target_host" where
  "to_target h = \<lparr>hr_id = ho_id h, hr_ip = ho_ip h, hr_exit_ip = ho_exit_ip h,
     hr_app_code = ho_app_code h, hr_biz_group = ho_biz_group h, hr_os_family = ho_os_family h\<rparr>"

definition host_key :: "target_host \<Rightarrow> string" where
  "host_key h = (if hr_exit_ip h \<noteq> [] then hr_exit_ip h else hr_ip h)"

definition sortHosts :: "target_host list \<Rightarrow> target_host list" where
  "sortHosts hs = sort_key host_key hs"

definition wanted :: "string list option \<Rightarrow> target_host \<Rightarrow> bool" where
  "wanted want h = (case want of None \<Rightarrow> True | Some ips \<Rightarrow>
     hr_ip h \<in> set ips \<or> (hr_exit_ip h \<noteq> [] \<and> hr_exit_ip h \<noteq> hr_ip h \<and> hr_exit_ip h \<in> set ips))"

definition matchHosts ::
    "(target_host list \<Rightarrow> target_host list) \<Rightarrow> scope \<Rightarrow> selector \<Rightarrow> db \<Rightarrow> (task_error + target_host list) option" where
  "matchHosts order sc sel d =
    (let rows = map to_target (filter (host_selected sc sel) (d_hosts d))
     in if sl_ip_expr sel = [] then Some (Inr (sortHosts (order (filter (wanted None) rows))))
        else case ParseWithExclude (\<lambda>ips. ips) (sl_ip_expr sel) (sl_exclude_ip_expr sel) 0 of
           None \<Rightarrow> None
         | Some (Inl e) \<Rightarrow> Some (Inl BadIPExpr)
         | Some (Inr ips) \<Rightarrow> Some (Inr (sortHosts (order (filter (wanted (Some ips)) rows)))))"

section \<open>Preview\<close>

definition request_kind :: "create_request \<Rightarrow> string" where
  "request_kind rq = (if cr_kind rq = [] then ''upgrade'' else cr_kind rq)"

text \<open>The checks before the hosts are looked up: the component's name and the target system.\<close>

definition preview_target ::
    "(string \<Rightarrow> (string \<times> string) option) \<Rightarrow> policy \<Rightarrow> scope \<Rightarrow> create_request \<Rightarrow> db \<Rightarrow> task_error + string \<times> string" where
  "preview_target urlp pc sc rq d =
    (if request_kind rq \<noteq> ''upgrade'' \<and> request_kind rq \<noteq> ''command'' then Inl BadKind
     else if request_kind rq = ''command'' then
       (if \<not> isPrivilegedActor (cr_actor rq) then Inl CommandAdminOnly
        else Inr ([], commandTargetOS (cr_command rq)))
     else if cr_component_id rq = 0 then Inl MissingComponent
     else case comp_get sc (cr_component_id rq) d of None \<Rightarrow> Inl ComponentNotFound | Some c \<Rightarrow>
       (case checkDeploy pc (cr_actor rq) (cp_id c) (cp_name c) of Some e \<Rightarrow> Inl e
        | None \<Rightarrow> Inr (cp_name c, componentTargetOS urlp c)))"

definition Preview ::
    "(target_host list \<Rightarrow> target_host list) \<Rightarrow> (string \<Rightarrow> (string \<times> string) option) \<Rightarrow> policy \<Rightarrow> scope \<Rightarrow>
     create_request \<Rightarrow> db \<Rightarrow> (task_error + preview_result) option" where
  "Preview order urlp pc sc rq d =
    (case preview_target urlp pc sc rq d of Inl e \<Rightarrow> Some (Inl e) | Inr (compName, targetOS) \<Rightarrow>
      (case matchHosts order sc (cr_selector rq) d of None \<Rightarrow> None | Some (Inl e) \<Rightarrow> Some (Inl e)
       | Some (Inr hosts0) \<Rightarrow>
          (case filterHostsByOS hosts0 targetOS of (hosts, skipped) \<Rightarrow>
            (case (if request_kind rq = ''upgrade'' \<and> compName \<noteq> []
                   then checkHostGroups pc (cr_actor rq) compName hosts else None) of
               Some e \<Rightarrow> Some (Inl e)
             | None \<Rightarrow> map_option (\<lambda>batches. Inr
                 \<lparr>pv_total_hosts = length hosts, pv_batches = batches,
                  pv_sample_ips = map host_key (take 20 hosts),
                  pv_target_os = targetOS, pv_skipped_os = skipped\<rparr>)
                (splitBatches (int (length hosts)) (cr_strategy rq))))))"

section \<open>Create\<close>

text \<open>The checks before the hosts are looked up: the version, the component's name, the target system.\<close>

definition create_target ::
    "(string \<Rightarrow> (string \<times> string) option) \<Rightarrow> policy \<Rightarrow> scope \<Rightarrow> create_request \<Rightarrow> db \<Rightarrow> task_error + string \<times> string \<times> string" where
  "create_target urlp pc sc rq d =
    (if request_kind rq \<noteq> ''upgrade'' \<and> request_kind rq \<noteq> ''command'' then Inl BadKind
     else if request_kind rq = ''upgrade'' then
       (if cr_component_id rq = 0 \<or> cr_version rq = [] then Inl MissingComponent
        else case comp_get sc (cr_component_id rq) d of None \<Rightarrow> Inl ComponentNotFound | Some c \<Rightarrow>
          (case checkDeploy pc (cr_actor rq) (cr_component_id rq) (cp_name c) of Some e \<Rightarrow> Inl e
           | None \<Rightarrow> Inr (cr_version rq, cp_name c, componentTargetOS urlp c)))
     else if \<not> isPrivilegedActor (cr_actor rq) then Inl CommandAdminOnly
     else if \<not> pc_allow_exec pc then Inl ExecDisabled
     else if trim_space (cs_script (cr_command rq)) = [] then Inl EmptyScript
     else if length (cs_script (cr_command rq)) > maxCommandScriptBytes then Inl ScriptTooLong
     else if length (cs_stdin (cr_command rq)) > maxCommandStdinBytes then Inl StdinTooLong
     else Inr (if cr_version rq = [] then ''command'' else cr_version rq, [], commandTargetOS (cr_command rq)))"

definition new_task :: "time \<Rightarrow> scope \<Rightarrow> create_request \<Rightarrow> string \<Rightarrow> int \<Rightarrow> task_row" where
  "new_task now sc rq version i =
    \<lparr>tk_id = i, tk_kind = request_kind rq, tk_name = cr_name rq,
     tk_component_id = (if request_kind rq = ''upgrade'' then Some (cr_component_id rq) else None),
     tk_version = version, tk_command = cr_command rq, tk_selector = cr_selector rq,
     tk_strategy = cr_strategy rq, tk_status = ''draft'', tk_created_by = cr_created_by rq,
     tk_updated_by = cr_created_by rq, tk_updated_at = now, tk_tenant = TenantForWrite sc\<rparr>"

definition new_thost :: "int \<Rightarrow> int \<Rightarrow> int \<Rightarrow> int \<Rightarrow> task_host_row" where
  "new_thost i taskID hostID batchIdx =
    \<lparr>th_id = i, th_task_id = taskID, th_host_id = hostID, th_batch_index = batchIdx, th_status = ''pending'',
     th_stage = [], th_to_version = [], th_attempts = 0, th_exit_code = 0, th_log = [],
     th_started_at = None, th_finished_at = None\<rparr>"

text \<open>\<open>ON CONFLICT (task_id, host_id) DO NOTHING\<close>; the sequence moves on all the same.\<close>

definition insert_thost :: "int \<Rightarrow> int \<Rightarrow> int \<Rightarrow> db \<Rightarrow> db" where
  "insert_thost taskID batchIdx hostID d =
    (if exists_row (\<lambda>h. th_task_id h = taskID \<and> th_host_id h = hostID) (d_thosts d)
     then d\<lparr>d_next_thost := d_next_thost d + 1\<rparr>
     else d\<lparr>d_thosts := d_thosts d @ [new_thost (d_next_thost d) taskID hostID batchIdx],
            d_next_thost := d_next_thost d + 1\<rparr>)"

definition insert_batch :: "int \<Rightarrow> int \<Rightarrow> int \<Rightarrow> db \<Rightarrow> db" where
  "insert_batch taskID batchIdx n d = d\<lparr>d_batches := d_batches d @
     [\<lparr>tb_task_id = taskID, tb_index = batchIdx, tb_status = ''pending'', tb_total = n,
       tb_started_at = None, tb_finished_at = None\<rparr>]\<rparr>"

fun place :: "int \<Rightarrow> int \<Rightarrow> int list \<Rightarrow> target_host list \<Rightarrow> db \<Rightarrow> db" where
  "place taskID batchIdx [] hosts d = d"
| "place taskID batchIdx (n # sizes) hosts d =
    place taskID (batchIdx + 1) sizes (drop (nat n) hosts)
      (insert_batch taskID batchIdx n
        (fold (\<lambda>h. insert_thost taskID batchIdx (hr_id h)) (take (nat n) hosts) d))"

definition Create ::
    "(target_host list \<Rightarrow> target_host list) \<Rightarrow> (string \<Rightarrow> (string \<times> string) option) \<Rightarrow> policy \<Rightarrow> time \<Rightarrow> scope \<Rightarrow>
     create_request \<Rightarrow> db \<Rightarrow> int task_op option" where
  "Create order urlp pc now sc rq d =
    (case create_target urlp pc sc rq d of Inl e \<Rightarrow> Some (Inl e, d) | Inr (version, compName, targetOS) \<Rightarrow>
      (case matchHosts order sc (cr_selector rq) d of None \<Rightarrow> None | Some (Inl e) \<Rightarrow> Some (Inl e, d)
       | Some (Inr hosts0) \<Rightarrow>
          (case filterHostsByOS hosts0 targetOS of (hosts, skipped) \<Rightarrow>
            (if hosts = [] \<and> skipped > 0 then Some (Inl (AllSkipped skipped), d)
             else if hosts = [] then Some (Inl NoHosts, d)
             else case (if request_kind rq = ''upgrade'' then checkHostGroups pc (cr_actor rq) compName hosts else None) of
               Some e \<Rightarrow> Some (Inl e, d)
             | None \<Rightarrow>
                map_option (\<lambda>sizes.
                  (let i = d_next_task d;
                       d1 = d\<lparr>d_tasks := d_tasks d @ [new_task now sc rq version i], d_next_task := i + 1\<rparr>
                   in (Inr i, place i 0 sizes hosts d1)))
                (splitBatches (int (length hosts)) (cr_strategy rq))))))"

end
