(* ===== verification/IpSafety.thy ===== *)
theory IpSafety
imports IpRange "HOL-Library.Multiset"
begin

text \<open>
  Address expressions mean what they say: ranges and networks expand to exactly their addresses in
  order, the result of an expression is sorted, free of repetitions and the difference of its two
  sets. The one expression whose expansion never ends is a range that ends at the last address.
\<close>

section \<open>Addresses as numbers\<close>

fun le_val :: "ip \<Rightarrow> int" where
  "le_val [] = 0"
| "le_val (b # bs) = uint b + 256 * le_val bs"

lemma foldl_val: "foldl (\<lambda>v b. v * 256 + uint b) v (a :: ip) = v * 256 ^ length a + foldl (\<lambda>v b. v * 256 + uint b) 0 a"
proof (induction a arbitrary: v)
  case (Cons b a)
  have "foldl (\<lambda>v b. v * 256 + uint b) v (b # a) = (v * 256 + uint b) * 256 ^ length a + foldl (\<lambda>v b. v * 256 + uint b) 0 a"
    by (subst Cons.IH [symmetric]) simp
  moreover have "foldl (\<lambda>v b. v * 256 + uint b) 0 (b # a) = uint b * 256 ^ length a + foldl (\<lambda>v b. v * 256 + uint b) 0 a"
    by (subst Cons.IH [symmetric]) simp
  ultimately show ?case by (simp only: list.size power_Suc) (simp add: algebra_simps)
qed simp

lemma ip_val_Nil [simp]: "ip_val [] = 0"
  by (simp add: ip_val_def)

lemma ip_val_Cons: "ip_val (b # a) = uint b * 256 ^ length a + ip_val a"
  by (simp add: ip_val_def foldl_val [of "uint b"])

lemma ip_val_rev: "ip_val (rev bs) = le_val bs"
proof -
  have "ip_val (a @ [b]) = ip_val a * 256 + uint b" for a b by (simp add: ip_val_def)
  then show ?thesis by (induction bs) auto
qed

lemma byte_uint: "0 \<le> uint (b :: 8 word)" "uint (b :: 8 word) < 256"
  using uint_lt2p [of b] by simp_all

lemma le_val_bounds: "0 \<le> le_val bs" "le_val bs < 256 ^ length bs"
proof (induction bs)
  case (Cons b bs)
  {
    case 1 then show ?case using Cons.IH(1) byte_uint(1) [of b] by simp
  next
    case 2 then show ?case using Cons.IH(2) byte_uint(2) [of b] by simp
  }
qed simp_all

lemma ip_val_bounds: "0 \<le> ip_val a" "ip_val a < 256 ^ length a"
  using le_val_bounds [of "rev a"] ip_val_rev [of "rev a"] by simp_all

lemma uint_inc: "uint (b + 1 :: 8 word) = (if b + 1 = 0 then 0 else uint b + 1)"
proof (cases "b + 1 = 0")
  case False
  then have "1 + b \<noteq> 0" by (metis add.commute)
  then have "int (unat (1 + b)) = int (unat b) + 1" by (simp add: unatSuc)
  then have "uint (1 + b) = uint b + 1" by (simp only: uint_nat)
  then show ?thesis using False by (metis add.commute)
qed simp

lemma uint_last: "b + 1 = 0 \<Longrightarrow> uint (b :: 8 word) = 255"
proof -
  assume "b + 1 = 0"
  then have "b = -1" by (simp add: eq_neg_iff_add_eq_0)
  then show ?thesis by (simp add: unsigned_minus_1_eq_mask mask_eq_exp_minus_1)
qed

lemma digit_unique:
  fixes x y u v :: int
  assumes "0 \<le> x" "x < 256" "0 \<le> y" "y < 256" "x + 256 * u = y + 256 * v"
  shows "x = y \<and> u = v"
proof -
  have "(x + 256 * u) mod 256 = (y + 256 * v) mod 256" using assms(5) by simp
  then have "x = y" using assms(1-4) by simp
  with assms(5) show ?thesis by simp
qed

lemma next_rev_length [simp]: "length (next_rev bs) = length bs"
  by (induction bs) auto

lemma nextIP_length [simp]: "length (nextIP a) = length a"
  by (simp add: nextIP_def)

lemma le_val_next: "le_val (next_rev bs) = (le_val bs + 1) mod 256 ^ length bs"
proof (induction bs)
  case (Cons b bs)
  note bd = le_val_bounds [of bs]
  show ?case
  proof (cases "b + 1 = 0")
    case True
    then have b: "uint b = 255" by (rule uint_last)
    have "(le_val (b # bs) + 1) mod 256 ^ length (b # bs) = (256 * (le_val bs + 1)) mod (256 * 256 ^ length bs)"
      by (simp add: b algebra_simps)
    also have "\<dots> = 256 * ((le_val bs + 1) mod 256 ^ length bs)" by (rule mult_mod_right [symmetric])
    finally show ?thesis using True Cons by simp
  next
    case False
    with uint_inc [of b] have u: "uint (b + 1) = uint b + 1" by simp
    then have "uint b + 1 < 256" using byte_uint(2) [of "b + 1"] by simp
    then have "le_val (b # bs) + 1 < 256 * 256 ^ length bs" using bd by simp
    then show ?thesis using False u bd byte_uint(1) [of b] by simp
  qed
qed simp

lemma ip_val_next: "ip_val (nextIP a) = (ip_val a + 1) mod 256 ^ length a"
  using le_val_next [of "rev a"] ip_val_rev [of "rev a"] by (simp add: nextIP_def ip_val_rev)

lemma le_val_inj: "length as = length bs \<Longrightarrow> le_val as = le_val bs \<Longrightarrow> as = bs"
proof (induction as arbitrary: bs)
  case (Cons a as)
  then obtain b bs' where bs: "bs = b # bs'" by (cases bs) auto
  from Cons.prems have e: "uint a + 256 * le_val as = uint b + 256 * le_val bs'" by (simp add: bs)
  from digit_unique [OF byte_uint [of a] byte_uint [of b] e] have "a = b" "le_val as = le_val bs'"
    by (auto simp: word_uint_eq_iff)
  with Cons bs show ?case by simp
qed simp

lemma ip_val_inj: "length a = length b \<Longrightarrow> ip_val a = ip_val b \<Longrightarrow> a = b"
  using le_val_inj [of "rev a" "rev b"] ip_val_rev [of "rev a"] ip_val_rev [of "rev b"] by simp

lemma compareIP_val:
  "length a = length b \<Longrightarrow> compareIP a b = (if ip_val a < ip_val b then -1 else if ip_val b < ip_val a then 1 else 0)"
proof (induction a b rule: compareIP.induct)
  case (1 a as b bs)
  then have l: "length as = length bs" by simp
  have less: "uint a' * 256 ^ length as' + ip_val as' < uint b' * 256 ^ length as' + ip_val bs'"
    if "a' < b'" "length as' = length bs'" for a' b' :: "8 word" and as' bs'
  proof -
    have "uint a' + 1 \<le> uint b'" using that(1) by (simp add: word_less_def)
    then have "(uint a' + 1) * 256 ^ length as' \<le> uint b' * 256 ^ length as'" by (intro mult_right_mono) simp_all
    with ip_val_bounds(2) [of as'] ip_val_bounds(1) [of bs'] show ?thesis by (simp add: algebra_simps)
  qed
  show ?case
  proof (cases a b rule: linorder_cases)
    case equal
    with 1 show ?thesis by (simp add: ip_val_Cons)
  next
    case below: less
    with less [of a b as bs] l show ?thesis by (simp add: ip_val_Cons)
  next
    case greater
    with less [of b a bs as] l show ?thesis by (auto simp: ip_val_Cons)
  qed
qed simp_all

section \<open>The loop\<close>

lemma ip_loop_steps:
  "(\<And>k. k < m \<Longrightarrow> more ((nextIP ^^ k) x)) \<Longrightarrow> \<not> more ((nextIP ^^ m) x) \<Longrightarrow>
     ip_loop more x = Some (map (\<lambda>k. ip_text ((nextIP ^^ k) x)) [0..<m])"
proof (induction m arbitrary: x)
  case 0
  then show ?case by (simp add: ip_loop.simps)
next
  case (Suc m)
  have "ip_loop more (nextIP x) = Some (map (\<lambda>k. ip_text ((nextIP ^^ k) (nextIP x))) [0..<m])"
  proof (rule Suc.IH)
    fix k assume "k < m"
    then show "more ((nextIP ^^ k) (nextIP x))" using Suc.prems(1) [of "Suc k"] by (simp add: funpow_swap1)
  next
    show "\<not> more ((nextIP ^^ m) (nextIP x))" using Suc.prems(2) by (simp add: funpow_swap1)
  qed
  moreover have "map (\<lambda>k. ip_text ((nextIP ^^ k) x)) [0..<Suc m] =
      ip_text x # map (\<lambda>k. ip_text ((nextIP ^^ k) (nextIP x))) [0..<m]"
    by (simp add: map_upt_Suc funpow_swap1 del: upt_Suc)
  ultimately show ?case
    using Suc.prems(1) [of 0] by (subst ip_loop.simps) (simp del: upt_Suc)
qed

text \<open>A loop returns exactly when some address reached is not one it goes on with.\<close>

lemma ip_loop_returns:
  assumes "ip_loop more x = Some y"
  shows "\<exists>k. \<not> more ((nextIP ^^ k) x)"
proof (rule ip_loop.raw_induct [of "\<lambda>more x y. \<exists>k. \<not> more ((nextIP ^^ k) x)", OF _ assms])
  fix loop :: "(ip \<Rightarrow> bool) \<Rightarrow> ip \<Rightarrow> string list option" and more cur y
  assume IH: "\<And>more x y. loop more x = Some y \<Longrightarrow> \<exists>k. \<not> more ((nextIP ^^ k) x)"
    and body: "(if more cur then Option.bind (loop more (nextIP cur)) (\<lambda>rest. Some (ip_text cur # rest)) else Some []) = Some y"
  show "\<exists>k. \<not> more ((nextIP ^^ k) cur)"
  proof (cases "more cur")
    case True
    with body obtain r where r: "loop more (nextIP cur) = Some r"
      by (cases "loop more (nextIP cur)") auto
    from IH [OF r] obtain k where "\<not> more ((nextIP ^^ k) (nextIP cur))" by blast
    then show ?thesis by (intro exI [of _ "Suc k"]) (simp add: funpow_swap1)
  next
    case False
    then show ?thesis by (intro exI [of _ 0]) simp
  qed
qed

lemma ip_loop_None: "ip_loop more x = None \<longleftrightarrow> (\<forall>k. more ((nextIP ^^ k) x))"
proof
  assume n: "ip_loop more x = None"
  show "\<forall>k. more ((nextIP ^^ k) x)"
  proof (rule ccontr)
    assume "\<not> ?thesis"
    then have e: "\<exists>k. \<not> more ((nextIP ^^ k) x)" by blast
    define m where "m = (LEAST k. \<not> more ((nextIP ^^ k) x))"
    have "\<not> more ((nextIP ^^ m) x)" unfolding m_def using e by (rule LeastI_ex)
    moreover have "more ((nextIP ^^ k) x)" if "k < m" for k
      using that not_less_Least unfolding m_def by blast
    ultimately show False using ip_loop_steps [of m more x] n by simp
  qed
next
  assume "\<forall>k. more ((nextIP ^^ k) x)"
  then show "ip_loop more x = None" using ip_loop_returns [of more x] by (cases "ip_loop more x") auto
qed

lemma funpow_next_length [simp]: "length ((nextIP ^^ k) a) = length a"
  by (induction k) auto

lemma funpow_next_val: "ip_val ((nextIP ^^ k) a) = (ip_val a + int k) mod 256 ^ length a"
proof (induction k)
  case 0
  then show ?case using ip_val_bounds [of a] by simp
next
  case (Suc k)
  then show ?case by (simp add: ip_val_next mod_simps ac_simps)
qed

text \<open>The loop reaches every address of its length.\<close>

lemma funpow_reaches: "length b = length a \<Longrightarrow> \<exists>k. (nextIP ^^ k) a = b"
proof -
  assume l: "length b = length a"
  let ?M = "256 ^ length a :: int"
  let ?k = "nat ((ip_val b - ip_val a) mod ?M)"
  have "ip_val ((nextIP ^^ ?k) a) = (ip_val a + (ip_val b - ip_val a) mod ?M) mod ?M"
    by (simp add: funpow_next_val)
  also have "\<dots> = ip_val b mod ?M" by (simp add: mod_add_right_eq)
  also have "\<dots> = ip_val b" using ip_val_bounds [of b] l by simp
  finally have "(nextIP ^^ ?k) a = b" using l by (intro ip_val_inj) simp_all
  then show ?thesis by blast
qed

section \<open>Ranges\<close>

definition ip4_of :: "int \<Rightarrow> ip" where
  "ip4_of i = [of_int (i div 16777216), of_int (i div 65536), of_int (i div 256), of_int i]"

definition last_ip :: ip where "last_ip = [255, 255, 255, 255]"

lemma ip4_of_length [simp]: "length (ip4_of i) = 4"
  by (simp add: ip4_of_def)

lemma ip4_of_val:
  assumes "0 \<le> i" "i < 2 ^ 32"
  shows "ip_val (ip4_of i) = i"
proof -
  have u: "uint (of_int x :: 8 word) = x mod 256" for x
    by (simp add: unsigned_of_int take_bit_eq_mod)
  have "i div 16777216 < 256" using assms by simp
  moreover have "0 \<le> i div 16777216" using assms by simp
  ultimately have top: "i div 16777216 mod 256 = i div 16777216" by simp
  have "i div 16777216 = i div 65536 div 256" "i div 65536 = i div 256 div 256"
    by (simp_all add: zdiv_zmult2_eq [symmetric])
  then have digits: "i div 16777216 * 256 + i div 65536 mod 256 = i div 65536"
    "i div 65536 * 256 + i div 256 mod 256 = i div 256" "i div 256 * 256 + i mod 256 = i"
    by (simp_all only: div_mult_mod_eq)
  have "ip_val (ip4_of i) = ((i div 16777216 mod 256 * 256 + i div 65536 mod 256) * 256 +
      i div 256 mod 256) * 256 + i mod 256"
    by (simp add: ip4_of_def ip_val_def u)
  then show ?thesis by (simp only: top digits)
qed

lemma ip4_of_ip_val: "length a = 4 \<Longrightarrow> ip4_of (ip_val a) = a"
  using ip_val_bounds [of a] ip4_of_val [of "ip_val a"] by (intro ip_val_inj) simp_all

lemma last_ip_val [simp]: "length last_ip = 4" "ip_val last_ip = 2 ^ 32 - 1"
  by (simp_all add: last_ip_def ip_val_def)

lemma To4_length: "To4 a = Some b \<Longrightarrow> length b = 4"
  by (auto simp: To4_def split: if_splits)

lemma range_ends_length:
  "range_ends part = Inr (s, e) \<Longrightarrow> length s = 4 \<and> length e = 4"
  by (auto simp: range_ends_def Let_def dest!: To4_length split: option.splits if_splits)

lemma To4_4 [simp]: "length a = 4 \<Longrightarrow> To4 a = Some a"
  by (simp add: To4_def)

lemma next_ip4: "length a = 4 \<Longrightarrow> ip_val a + int k < 2 ^ 32 \<Longrightarrow> (nextIP ^^ k) a = ip4_of (ip_val a + int k)"
  using ip_val_bounds(1) [of a]
  by (intro ip_val_inj) (simp_all add: funpow_next_val ip4_of_val)

lemma map_upto: "map (\<lambda>k. f (a + int k)) [0..<n] = map f [a..a + int n - 1]"
  by (induction n) (simp_all add: upto_rec2)

text \<open>A range expands to the text of every address from its start to its end, in order and nothing
  else, provided it does not end at 255.255.255.255.\<close>

theorem expandRange_exact:
  assumes "range_ends part = Inr (s, e)" and "e \<noteq> last_ip"
    and "ip_val s \<le> ip_val e" and "ip_val e - ip_val s < maxExpand"
  shows "expandRange part maxExpand = Some (Inr (map (\<lambda>i. v4_text (ip4_of i)) [ip_val s..ip_val e]))"
proof -
  have l: "length s = 4" "length e = 4" using range_ends_length [OF assms(1)] by auto
  note b = ip_val_bounds [of s] ip_val_bounds [of e]
  have "ip_val e \<noteq> 2 ^ 32 - 1" using assms(2) l ip_val_inj [of e last_ip] by auto
  with b l have e: "ip_val e < 2 ^ 32 - 1" by simp
  define m where "m = nat (ip_val e - ip_val s + 1)"
  have m: "int m = ip_val e - ip_val s + 1" using assms(3) by (simp add: m_def)
  have v: "ip_val ((nextIP ^^ k) s) = ip_val s + int k" if "k \<le> m" for k
    using that b e m l by (simp add: funpow_next_val)
  let ?more = "\<lambda>cur. compareIP cur e \<le> 0"
  have "ip_loop ?more s = Some (map (\<lambda>k. ip_text ((nextIP ^^ k) s)) [0..<m])"
  proof (rule ip_loop_steps)
    show "?more ((nextIP ^^ k) s)" if "k < m" for k
      using v [of k] that m l by (simp add: compareIP_val)
    show "\<not> ?more ((nextIP ^^ m) s)"
      using v [of m] m l by (simp add: compareIP_val)
  qed
  also have "map (\<lambda>k. ip_text ((nextIP ^^ k) s)) [0..<m] = map (\<lambda>k. v4_text (ip4_of (ip_val s + int k))) [0..<m]"
    using next_ip4 [OF l(1)] e m by (auto simp: ip_text_def)
  also have "\<dots> = map (\<lambda>i. v4_text (ip4_of i)) [ip_val s..ip_val e]"
    by (simp add: map_upto [of "\<lambda>i. v4_text (ip4_of i)"] m)
  finally show ?thesis
    using assms(1,3,4) l by (simp add: expandRange_def compareIP_val)
qed

lemma expandRange_None:
  "expandRange part maxExpand = None \<longleftrightarrow>
    (\<exists>s. range_ends part = Inr (s, last_ip) \<and> 2 ^ 32 - ip_val s \<le> maxExpand)"
proof (cases "range_ends part")
  case (Inr se)
  obtain s e where se: "range_ends part = Inr (s, e)" using Inr by (cases se) auto
  have l: "length s = 4" "length e = 4" using range_ends_length [OF se] by auto
  note bs = ip_val_bounds [of s] and be = ip_val_bounds [of e]
  show ?thesis
  proof (cases "e = last_ip")
    case True
    have "compareIP ((nextIP ^^ k) s) e \<le> 0" for k
      using ip_val_bounds(2) [of "(nextIP ^^ k) s"] l by (simp add: True compareIP_val)
    then have "ip_loop (\<lambda>cur. compareIP cur e \<le> 0) s = None" by (simp add: ip_loop_None)
    moreover have "compareIP s e \<le> 0" using bs l by (simp add: True compareIP_val)
    ultimately show ?thesis using bs l
      by (auto simp: expandRange_def se True)
  next
    case False
    have "expandRange part maxExpand \<noteq> None"
      using expandRange_exact [OF se False, of maxExpand] l
      by (cases "ip_val s \<le> ip_val e"; cases "ip_val e - ip_val s < maxExpand")
        (auto simp: expandRange_def se compareIP_val)
    then show ?thesis by (auto simp: se False)
  qed
qed (simp add: expandRange_def)

section \<open>Networks\<close>

lemma byte_mask:
  assumes "m \<le> 8"
  shows "uint (b AND (256 - 2 ^ m) :: 8 word) = uint b div 2 ^ m * 2 ^ m"
proof -
  have "(256 - 2 ^ m :: 8 word) = NOT (mask m)"
    by (simp add: minus_exp_eq_not_mask [symmetric])
  moreover have "uint (b AND NOT (mask m)) = push_bit m (drop_bit m (uint b))"
    using assms by (intro bit_eqI) (auto simp: bit_simps dest: bit_imp_le_length)
  ultimately show ?thesis by (simp add: push_bit_eq_mult drop_bit_eq_div)
qed

lemma and_255: "b AND 255 = (b :: 8 word)"
proof -
  have "(255 :: 8 word) = -1" by simp
  then show ?thesis by (simp only: bit.conj_one_right)
qed

lemma cidr_mask_Suc:
  "cidr_mask n (Suc k) = (if 8 \<le> n then 255 else if 0 < n then 256 - 2 ^ (8 - n) else 0) # cidr_mask (n - 8) k"
  by (auto simp: cidr_mask_def map_upt_Suc simp del: upt_Suc)

lemma cidr_mask_length [simp]: "length (cidr_mask n k) = k"
  by (simp add: cidr_mask_def)

lemma mask_ip_val:
  "n \<le> 8 * length a \<Longrightarrow> ip_val (mask_ip a (cidr_mask n (length a))) =
     ip_val a div 2 ^ (8 * length a - n) * 2 ^ (8 * length a - n)"
proof (induction a arbitrary: n)
  case (Cons b a)
  let ?l = "8 * length a"
  have p: "(256::int) ^ length a = 2 ^ ?l" by (simp add: power_mult)
  note bd = ip_val_bounds [of a, unfolded p]
  have len: "length (mask_ip a (cidr_mask k (length a))) = length a" for k by (simp add: mask_ip_def)
  show ?case
  proof (cases "8 \<le> n")
    case True
    then have n: "n - 8 \<le> ?l" "8 * length (b # a) - n = ?l - (n - 8)" using Cons.prems by auto
    let ?h = "?l - (n - 8)"
    have q: "(2::int) ^ ?l = 2 ^ (n - 8) * 2 ^ ?h" using n(1) by (simp add: power_add [symmetric])
    have d: "(uint b * 2 ^ ?l + ip_val a) div 2 ^ ?h = uint b * 2 ^ (n - 8) + ip_val a div 2 ^ ?h"
      unfolding q by (simp add: mult.assoc [symmetric])
    have "ip_val (mask_ip (b # a) (cidr_mask n (length (b # a)))) =
        uint b * 2 ^ ?l + ip_val (mask_ip a (cidr_mask (n - 8) (length a)))"
      using True len by (simp add: cidr_mask_Suc mask_ip_def ip_val_Cons p and_255)
    also have "\<dots> = (uint b * 2 ^ (n - 8) + ip_val a div 2 ^ ?h) * 2 ^ ?h"
      unfolding Cons.IH [OF n(1)] q by (simp add: distrib_right)
    also have "\<dots> = (ip_val (b # a) div 2 ^ ?h) * 2 ^ ?h"
      unfolding ip_val_Cons p d ..
    finally show ?thesis unfolding n(2) .
  next
    case False
    let ?h = "8 - n"
    have n: "8 * length (b # a) - n = ?h + ?l" "n - 8 = 0" using False by auto
    have q: "(2::int) ^ (?h + ?l) = 2 ^ ?h * 2 ^ ?l" by (rule power_add)
    have d: "(uint b * 2 ^ ?l + ip_val a) div 2 ^ (?h + ?l) = uint b div 2 ^ ?h"
      using bd by (simp add: power_add mult.commute [of "2 ^ ?h"] zdiv_zmult2_eq)
    have z: "ip_val (mask_ip a (cidr_mask 0 (length a))) = 0"
      using Cons.IH [of 0] bd by simp
    have m: "uint (b AND (if 0 < n then 256 - 2 ^ ?h else 0)) = uint b div 2 ^ ?h * 2 ^ ?h"
      using byte_mask [of ?h b] byte_uint [of b] by simp
    have "ip_val (mask_ip (b # a) (cidr_mask n (length (b # a)))) =
        uint (b AND (if 0 < n then 256 - 2 ^ ?h else 0)) * 2 ^ ?l + ip_val (mask_ip a (cidr_mask 0 (length a)))"
      using False len by (simp add: cidr_mask_Suc mask_ip_def ip_val_Cons p n(2))
    also have "\<dots> = (uint b div 2 ^ ?h) * 2 ^ (?h + ?l)"
      unfolding z m q by simp
    also have "\<dots> = (ip_val (b # a) div 2 ^ (?h + ?l)) * 2 ^ (?h + ?l)"
      unfolding ip_val_Cons p d ..
    finally show ?thesis unfolding n(1) .
  qed
qed (simp add: mask_ip_def cidr_mask_def)

lemma net_contains4:
  assumes "length net = 4" "length a = 4" "n \<le> 32"
  shows "net_contains net (cidr_mask n 4) a \<longleftrightarrow> ip_val a div 2 ^ (32 - n) = ip_val net div 2 ^ (32 - n)"
proof -
  have l: "length (mask_ip x (cidr_mask n 4)) = 4" if "length x = 4" for x
    using that by (simp add: mask_ip_def)
  have "net_contains net (cidr_mask n 4) a \<longleftrightarrow> mask_ip net (cidr_mask n 4) = mask_ip a (cidr_mask n 4)"
    using assms by (simp add: net_contains_def)
  also have "\<dots> \<longleftrightarrow> ip_val (mask_ip net (cidr_mask n 4)) = ip_val (mask_ip a (cidr_mask n 4))"
    using ip_val_inj l assms by auto
  also have "\<dots> \<longleftrightarrow> ip_val a div 2 ^ (32 - n) = ip_val net div 2 ^ (32 - n)"
    using mask_ip_val [of n net] mask_ip_val [of n a] assms by auto
  finally show ?thesis .
qed

lemma parse_ipv4_length: "parse_ipv4 s = Some a \<Longrightarrow> length a = 4"
  by (auto simp: parse_ipv4_def Let_def split: if_splits)

lemma two_bytes_length [simp]: "length (two_bytes n) = 2"
  by (simp add: two_bytes_def)

definition el_ok :: "nat option \<Rightarrow> ip \<Rightarrow> bool" where
  "el_ok el acc \<longleftrightarrow> (case el of None \<Rightarrow> True | Some e \<Rightarrow> e \<le> length acc)"

lemma el_ok_simps [simp]: "el_ok None acc" "el_ok (Some e) acc = (e \<le> length acc)"
  "el_ok el acc \<Longrightarrow> el_ok el (acc @ more)"
  by (auto simp: el_ok_def split: option.splits)

lemma v6_groups_length:
  "v6_groups n s acc el = Some (acc', el', s') \<Longrightarrow> length acc + 2 * n \<le> 16 \<Longrightarrow> el_ok el acc \<Longrightarrow>
     length acc' \<le> 16 \<and> el_ok el' acc'"
proof (induction n arbitrary: s acc el)
  case (Suc n)
  from Suc.prems show ?case
    by (auto simp: Let_def dest!: parse_ipv4_length dest: Suc.IH split: if_splits option.splits)
qed simp

lemma parse_ipv6_length: "parse_ipv6 s = Some a \<Longrightarrow> length a = 16"
  using v6_groups_length
  by (fastforce simp: parse_ipv6_def Let_def split: if_splits option.splits)

lemma parse_addr_length: "parse_addr s = Some a \<Longrightarrow> length a = 4 \<or> length a = 16"
  by (auto simp: parse_addr_def dest: parse_ipv4_length parse_ipv6_length split: if_splits option.splits)

text \<open>An IPv4 network expands to its host addresses in order: all of them without the network address and
  the broadcast address when there are more than two, both for a prefix of 31, the one for 32.\<close>

theorem expandCIDR_hosts:
  assumes "ParseCIDR part = Some (net, ones)" and "length net = 4" and "16 \<le> ones" and "maxExpand = DefaultMaxExpand"
  shows "expandCIDR part maxExpand = Some (Inr (map (\<lambda>i. v4_text (ip4_of i))
     (if ones < 31 then [ip_val net + 1..ip_val net + 2 ^ (32 - ones) - 2]
      else [ip_val net..ip_val net + 2 ^ (32 - ones) - 1])))"
proof -
  let ?h = "32 - ones" and ?m = "cidr_mask ones 4"
  from assms(1,2) obtain a where a: "length a = 4" "net = mask_ip a ?m" "ones \<le> 32"
    by (auto simp: ParseCIDR_def mask_ip_def split: option.splits if_splits)
  have val: "ip_val net = ip_val a div 2 ^ ?h * 2 ^ ?h"
    using mask_ip_val [of ones a] a by simp
  define q where "q = ip_val a div 2 ^ ?h"
  have H: "(0::int) < 2 ^ ?h" by simp
  have nq: "ip_val net = q * 2 ^ ?h" by (simp add: val q_def)
  have same: "mask_ip net ?m = net"
    using mask_ip_val [of ones net] assms(2) a(3) by (intro ip_val_inj) (simp_all add: nq mask_ip_def)
  have "ip_val a div 2 ^ ?h < 2 ^ ones"
  proof -
    have "ip_val a < 2 ^ 32" using ip_val_bounds [of a] a(1) by simp
    also have "(2::int) ^ 32 = 2 ^ ones * 2 ^ ?h" using a(3) by (simp add: power_add [symmetric])
    finally have "ip_val a < 2 ^ ones * 2 ^ ?h" .
    moreover have "ip_val a div 2 ^ ?h * 2 ^ ?h \<le> ip_val a" by (simp add: minus_mod_eq_div_mult [symmetric])
    ultimately have "ip_val a div 2 ^ ?h * 2 ^ ?h < 2 ^ ones * 2 ^ ?h" by (rule le_less_trans [rotated])
    then show ?thesis by simp
  qed
  then have "(q + 1) * 2 ^ ?h \<le> 2 ^ ones * 2 ^ ?h" by (intro mult_right_mono) (simp_all add: q_def)
  also have "(2::int) ^ ones * 2 ^ ?h = 2 ^ 32" using a(3) by (simp add: power_add [symmetric])
  finally have top: "ip_val net + 2 ^ ?h \<le> 2 ^ 32" by (simp add: nq distrib_right)
  define m where "m = nat (2 ^ ?h)"
  have m: "int m = 2 ^ ?h" "0 < m" by (simp_all add: m_def)
  have inside: "net_contains net ?m ((nextIP ^^ k) net)" if "k < m" for k
  proof -
    have k: "int k < 2 ^ ?h" using that m(1) by linarith
    with top have "ip_val net + int k < 2 ^ 32" by linarith
    then have "ip_val ((nextIP ^^ k) net) = q * 2 ^ ?h + int k"
      using assms(2) ip_val_bounds(1) [of net] by (simp add: funpow_next_val nq)
    moreover have "(q * 2 ^ ?h + int k) div 2 ^ ?h = q" using k by simp
    ultimately show ?thesis using assms(2) a(3) by (simp add: net_contains4 nq)
  qed
  have outside: "\<not> net_contains net ?m ((nextIP ^^ m) net)"
  proof (cases "ip_val net + 2 ^ ?h = 2 ^ 32")
    case True
    then have "ip_val ((nextIP ^^ m) net) = 0"
      using m assms(2) by (simp add: funpow_next_val)
    moreover have "q \<noteq> 0"
    proof
      assume "q = 0"
      with True nq have "(2::int) ^ ?h = 2 ^ 32" by simp
      then have "?h = 32" by (metis power_inject_exp one_less_numeral_iff semiring_norm(76))
      with assms(3) show False by simp
    qed
    ultimately show ?thesis using assms(2) a(3) by (simp add: net_contains4 nq)
  next
    case False
    with top have "ip_val ((nextIP ^^ m) net) = q * 2 ^ ?h + 1 * 2 ^ ?h"
      using m nq assms(2) ip_val_bounds(1) [of net] by (simp add: funpow_next_val)
    then have "ip_val ((nextIP ^^ m) net) div 2 ^ ?h = q + 1" by (simp add: distrib_right [symmetric])
    then show ?thesis using assms(2) a(3) by (simp add: net_contains4 nq)
  qed
  have "ip_loop (net_contains net ?m) (mask_ip net ?m) = Some (map (\<lambda>k. ip_text ((nextIP ^^ k) net)) [0..<m])"
    unfolding same using inside outside by (rule ip_loop_steps)
  also have "map (\<lambda>k. ip_text ((nextIP ^^ k) net)) [0..<m] = map (\<lambda>k. v4_text (ip4_of (ip_val net + int k))) [0..<m]"
  proof (rule map_cong [OF refl])
    fix k assume "k \<in> set [0..<m]"
    then have "int k < 2 ^ ?h" using m(1) by simp
    with top have "ip_val net + int k < 2 ^ 32" by linarith
    from next_ip4 [OF assms(2) this] show "ip_text ((nextIP ^^ k) net) = v4_text (ip4_of (ip_val net + int k))"
      by (simp add: ip_text_def)
  qed
  also have "\<dots> = map (\<lambda>i. v4_text (ip4_of i)) [ip_val net..ip_val net + 2 ^ ?h - 1]"
    by (simp add: map_upto [of "\<lambda>i. v4_text (ip4_of i)"] m)
  finally have loop: "ip_loop (net_contains net ?m) (mask_ip net ?m) =
    Some (map (\<lambda>i. v4_text (ip4_of i)) [ip_val net..ip_val net + 2 ^ ?h - 1])" .
  have "(2::int) ^ ?h \<le> 2 ^ 16" using assms(3) by (intro power_increasing) simp_all
  moreover have "?h \<le> 30" using assms(3) by simp
  moreover have "butlast (tl (map f [x..x + n - 1])) = map f [x + 1..x + n - 2]" if "n \<ge> 4" for f :: "int \<Rightarrow> string" and x n
  proof -
    have "[x..x + n - 1] = x # [x + 1..x + n - 2] @ [x + n - 1]"
      using that by (simp add: upto_rec1 [of x] upto_rec2 [of "x + 1"])
    then show ?thesis by simp
  qed
  moreover have "(4::int) \<le> 2 ^ ?h" if "ones < 31"
  proof -
    have "(2::int) ^ 2 \<le> 2 ^ ?h" using that by (intro power_increasing) simp_all
    then show ?thesis by simp
  qed
  ultimately show ?thesis
    using assms loop a(3) by (auto simp: expandCIDR_def Let_def)
qed

section \<open>Every part returns, but for one kind of range\<close>

lemma head_masked:
  assumes "8 \<le> n" "a \<noteq> b"
  shows "mask_ip (a # as) (cidr_mask n (Suc k)) \<noteq> mask_ip (b # bs) (cidr_mask n (Suc k))"
proof -
  show ?thesis using assms by (simp add: mask_ip_def cidr_mask_Suc and_255)
qed

lemma zero_neq_numeral_byte: "(0 :: 8 word) \<noteq> 255"
  by simp

lemma cidr_outside:
  assumes "length net = 4 \<or> length net = 16" "8 \<le> n"
  shows "\<exists>a. length a = length net \<and> \<not> net_contains net (cidr_mask n (length net)) a"
proof -
  obtain b r where net: "net = b # r" using assms(1) by (cases net) auto
  have l4: "length net = 4 \<Longrightarrow> ?thesis"
  proof -
    assume "length net = 4"
    moreover from this have "\<not> net_contains net (cidr_mask n 4) ((b + 1) # r)"
      using head_masked [OF assms(2), of b "b + 1" r 3 r] net
      by (simp add: net_contains_def numeral_eq_Suc)
    ultimately show ?thesis by (intro exI [of _ "(b + 1) # r"]) (simp add: net)
  qed
  have l16: "length net = 16 \<Longrightarrow> ?thesis"
  proof -
    assume l: "length net = 16"
    let ?a = "(b + 1) # replicate 15 0 :: ip"
    have p: "v4_prefix ! 11 = 255" by (simp add: v4_prefix_def nth_append)
    have "take 12 ?a ! 11 = 0" by (simp add: nth_append)
    with p have "take 12 ?a \<noteq> v4_prefix" by (metis zero_neq_numeral_byte)
    then have t: "To4 ?a = None" by (simp add: To4_def)
    have "\<not> net_contains net (cidr_mask n 16) ?a"
    proof (cases "To4 net")
      case None
      with t head_masked [OF assms(2), of b "b + 1" r 15 "replicate 15 0"] net show ?thesis
        by (simp add: net_contains_def numeral_eq_Suc)
    next
      case (Some n4)
      with To4_length [OF Some] t show ?thesis by (simp add: net_contains_def)
    qed
    with l show ?thesis by (intro exI [of _ ?a]) simp
  qed
  from assms(1) l4 l16 show ?thesis by blast
qed

lemma expandCIDR_returns:
  assumes "maxExpand = DefaultMaxExpand"
  shows "expandCIDR part maxExpand \<noteq> None"
proof (cases "ParseCIDR part")
  case (Some x)
  obtain net n where e: "ParseCIDR part = Some (net, n)" using Some by (cases x) auto
  then obtain a where a: "parse_addr (takeWhile (\<lambda>c. c \<noteq> CHR ''/'') part) = Some a"
      "net = mask_ip a (cidr_mask n (length a))" "n \<le> 8 * length a"
    by (auto simp: ParseCIDR_def split: option.splits if_splits)
  have l: "length net = 4 \<or> length net = 16" using parse_addr_length [OF a(1)] a(2) by (simp add: mask_ip_def)
  show ?thesis
  proof (cases "8 \<le> n")
    case True
    let ?m = "cidr_mask n (length net)"
    have lm: "length (mask_ip net ?m) = length net" by (simp add: mask_ip_def)
    from cidr_outside [OF l True] obtain b where b: "length b = length net" "\<not> net_contains net ?m b" by blast
    from funpow_reaches [of b "mask_ip net ?m"] b lm obtain k where "(nextIP ^^ k) (mask_ip net ?m) = b" by auto
    with b have "\<not> net_contains net ?m ((nextIP ^^ k) (mask_ip net ?m))" by simp
    then have "ip_loop (net_contains net ?m) (mask_ip net ?m) \<noteq> None"
      unfolding ip_loop_None by blast
    then show ?thesis by (auto simp: expandCIDR_def e Let_def)
  next
    case False
    then have h: "8 * length net - n > 1" using l by auto
    have "(2::int) ^ 24 \<le> 2 ^ (8 * length net - n)" using False l by (intro power_increasing) auto
    then show ?thesis using assms h by (simp add: expandCIDR_def e Let_def)
  qed
qed (simp add: expandCIDR_def)

text \<open>C17: expanding one part of an expression always returns, except for a range of at most 65536 addresses that
  ends at 255.255.255.255: its loop never ends, because the address after the last is the first again.\<close>

theorem expandPart_never_returns:
  "expandPart part = None \<longleftrightarrow>
    CHR ''-'' \<in> set part \<and> (\<exists>s. range_ends part = Inr (s, last_ip) \<and> 2 ^ 32 - ip_val s \<le> DefaultMaxExpand)"
  using expandCIDR_returns [of DefaultMaxExpand part] expandRange_None [of part DefaultMaxExpand]
  by (auto simp: expandPart_def split: option.split)

section \<open>Whole expressions\<close>

lemma compareIP_lex: "length a = length b \<Longrightarrow> compareIP a b < 0 \<longleftrightarrow> a < b"
  by (induction a b rule: compareIP.induct) auto

lemma To4_ParseIP_length: "Option.bind (ParseIP s) To4 = Some a \<Longrightarrow> length a = 4"
  by (cases "ParseIP s") (auto dest: To4_length)

text \<open>The closure given to the sort compares the keys.\<close>

lemma ips_less_key: "ips_less s t \<longleftrightarrow> ip_key_of s < ip_key_of t"
proof -
  have k: "ip_key_of u = (case Option.bind (ParseIP u) To4 of None \<Rightarrow> TextKey u | Some a \<Rightarrow> V4Key a)" for u
    by (auto simp: ip_key_of_def split: option.split)
  show ?thesis
    using compareIP_lex [of "the (Option.bind (ParseIP s) To4)" "the (Option.bind (ParseIP t) To4)"]
    by (auto simp: k ips_less_def less_ip_key_def To4_ParseIP_length split: option.split)
qed

text \<open>The addresses an expression names, each part on its own.\<close>

definition expr_set :: "string \<Rightarrow> string set" where
  "expr_set e = (\<Union>p\<in>set (split_on CHR '','' (trim_space e)).
     case expandPart (trim_space p) of Some (Inr ips) \<Rightarrow> if trim_space p = [] then {} else set ips | _ \<Rightarrow> {})"

lemma add_all_spec:
  "add_all n found xs = Inr found' \<Longrightarrow> distinct found \<Longrightarrow>
     distinct found' \<and> set found' = set found \<union> set xs \<and> (int (length found) \<le> n \<longrightarrow> int (length found') \<le> n)"
  by (induction xs arbitrary: found) (auto simp: Let_def split: if_splits)

lemma expand_parts_spec:
  "expand_parts n found ps = Some (Inr found') \<Longrightarrow> distinct found \<Longrightarrow>
     distinct found' \<and> (int (length found) \<le> n \<longrightarrow> int (length found') \<le> n) \<and>
     set found' = set found \<union> (\<Union>p\<in>set ps.
       case expandPart (trim_space p) of Some (Inr ips) \<Rightarrow> if trim_space p = [] then {} else set ips | _ \<Rightarrow> {})"
proof (induction ps arbitrary: found)
  case (Cons p ps)
  show ?case
  proof (cases "trim_space p = []")
    case True
    with Cons show ?thesis by (auto split: option.splits sum.splits)
  next
    case False
    with Cons.prems(1) obtain ips found1 where e: "expandPart (trim_space p) = Some (Inr ips)"
      "add_all n found ips = Inr found1" "expand_parts n found1 ps = Some (Inr found')"
      by (auto split: option.splits sum.splits)
    from add_all_spec [OF e(2) Cons.prems(2)] Cons.IH [OF e(3)] show ?thesis
      using e(1) False by auto
  qed
qed simp

lemma expandToSet_spec:
  assumes "expandToSet e n = Some (Inr found)" "0 \<le> n"
  shows "distinct found \<and> set found = expr_set e \<and> int (length found) \<le> n"
  using expand_parts_spec [of n "[]" "split_on CHR '','' (trim_space e)" found] assms
  by (auto simp: expandToSet_def expr_set_def split: if_splits)

text \<open>An expression with an exclusion names exactly the addresses of the one without those of the other,
  each once, IPv4 addresses first and in numerical order; never more than the limit.\<close>

theorem ParseWithExclude_spec:
  assumes "\<forall>xs. mset (order xs) = mset xs" and "ParseWithExclude order inc exc n = Some (Inr out)"
  shows "set out = expr_set inc - (if trim_space exc = [] then {} else expr_set exc) \<and> distinct out \<and>
    sorted_wrt (\<lambda>s t. \<not> ips_less t s) out \<and> int (length out) \<le> (if n \<le> 0 then DefaultMaxExpand else n)"
proof -
  let ?n = "if n \<le> 0 then DefaultMaxExpand else n"
  from assms(2) obtain found where f: "expandToSet inc ?n = Some (Inr found)"
    by (auto simp: ParseWithExclude_def Let_def split: option.splits sum.splits if_splits)
  from expandToSet_spec [OF f] have inc: "distinct found" "set found = expr_set inc" "int (length found) \<le> ?n" by auto
  obtain rest where r: "out = sortIPs (order rest)" "distinct rest" "length rest \<le> length found"
    "set rest = expr_set inc - (if trim_space exc = [] then {} else expr_set exc)"
  proof (cases "trim_space exc = []")
    case True
    with assms(2) f inc show thesis
      by (intro that [of found]) (auto simp: ParseWithExclude_def Let_def split: if_splits)
  next
    case False
    with assms(2) f obtain ex where e: "expandToSet exc ?n = Some (Inr ex)"
      "out = sortIPs (order (filter (\<lambda>x. x \<notin> set ex) found))"
      by (auto simp: ParseWithExclude_def Let_def split: option.splits sum.splits if_splits)
    from expandToSet_spec [OF e(1)] have "set ex = expr_set exc" by auto
    with False e(2) inc show thesis
      by (intro that [of "filter (\<lambda>x. x \<notin> set ex) found"]) auto
  qed
  from assms(1) have p: "mset (order rest) = mset rest" by blast
  then have "mset out = mset rest" by (simp add: r(1) sortIPs_def)
  then have "set out = set rest" "length out = length rest" "distinct out"
    using r(2) by (metis mset_eq_setD, metis size_mset, metis distinct_count_atmost_1 set_mset_mset)
  moreover have "sorted (map ip_key_of out)" by (simp add: r(1) sortIPs_def)
  then have "sorted_wrt (\<lambda>s t. \<not> ips_less t s) out"
    by (simp add: sorted_map ips_less_key not_less)
  ultimately show ?thesis using r(3,4) inc(3) by auto
qed

section \<open>Addresses written and read back\<close>

lemma nat_dec_octet:
  assumes "n < 256"
  shows "nat_dec n = (if n < 10 then [char_of (48 + n)]
     else if n < 100 then [char_of (48 + n div 10), char_of (48 + n mod 10)]
     else [char_of (48 + n div 100), char_of (48 + n div 10 mod 10), char_of (48 + n mod 10)])"
proof -
  have "n div 10 < 10 \<longleftrightarrow> n < 100" "n div 10 div 10 = n div 100" "n div 100 < 10" using assms by (auto simp: div_mult2_eq [symmetric])
  then show ?thesis by (simp add: nat_dec.simps [of n] nat_dec.simps [of "n div 10"] nat_dec.simps [of "n div 100"])
qed

lemma octets:
  assumes "n < 256"
  shows "octet_ok (nat_dec n) \<and> octet_value (nat_dec n) = n \<and> list_all is_digit (nat_dec n)"
proof -
  have d: "is_digit (char_of (48 + k))" if "k < 10" for k :: nat
    using that by (simp add: is_digit_def byte_def)
  have v: "(of_char (char_of (48 + k)) :: int) = 48 + int k" if "k < 10" for k :: nat
    using that of_nat_of_char [of "char_of (48 + k)", where ?'a = int, symmetric] by simp
  have z: "char_of (48 + k) \<noteq> CHR ''0''" if "0 < k" "k < 10" for k :: nat
  proof
    assume "char_of (48 + k) = CHR ''0''"
    then have "of_char (char_of (48 + k)) = (of_char (CHR ''0'') :: nat)" by simp
    with that show False by simp
  qed
  have b: "n div 100 < 10" "n div 10 mod 10 < 10" "n mod 10 < 10" using assms by auto
  have "int (10 * (n div 10) + n mod 10) = int n" by (simp only: mult_div_mod_eq)
  then have i2: "10 * int (n div 10) + int (n mod 10) = int n"
    by (simp only: of_nat_add of_nat_mult of_nat_numeral)
  have "int (10 * (10 * (n div 100) + n div 10 mod 10) + n mod 10) = int n"
  proof -
    have "n div 100 = n div 10 div 10" by (simp add: div_mult2_eq [symmetric])
    then show ?thesis by (simp only: mult_div_mod_eq)
  qed
  then have i3: "10 * (10 * int (n div 100) + int (n div 10 mod 10)) + int (n mod 10) = int n"
    by (simp only: of_nat_add of_nat_mult of_nat_numeral)
  let ?D = "\<lambda>k :: nat. char_of (48 + k) :: char"
  have val: "digits_value [?D k] = int k" "digits_value [?D k, ?D l] = 10 * int k + int l"
    "digits_value [?D k, ?D l, ?D m] = 10 * (10 * int k + int l) + int m" if "k < 10" "l < 10" "m < 10" for k l m
    using that by (simp_all add: digits_value_def v)
  consider "n < 10" | "10 \<le> n" "n < 100" | "100 \<le> n" by linarith
  then show ?thesis
  proof cases
    case 1
    then have "nat_dec n = [?D n]" using nat_dec_octet [OF assms] by simp
    then show ?thesis using 1 val(1) [of n 0 0] d [of n] by (simp only: octet_ok_def octet_value_def) simp
  next
    case 2
    then have q: "0 < n div 10" "n div 10 < 10" by auto
    have e: "nat_dec n = [?D (n div 10), ?D (n mod 10)]" using 2 nat_dec_octet [OF assms] by simp
    have "digits_value (nat_dec n) = int n" using val(2) [OF q(2) b(3) b(3)] by (simp only: e i2)
    moreover have "list_all is_digit (nat_dec n)" unfolding e using d q(2) b(3) by simp
    moreover have "hd (nat_dec n) \<noteq> CHR ''0''" unfolding e using z [OF q] by simp
    ultimately show ?thesis using assms e by (simp only: octet_ok_def octet_value_def) simp
  next
    case 3
    then have q: "0 < n div 100" by auto
    have e: "nat_dec n = [?D (n div 100), ?D (n div 10 mod 10), ?D (n mod 10)]" using 3 nat_dec_octet [OF assms] by simp
    have "digits_value (nat_dec n) = int n" using val(3) [OF b] by (simp only: e i3)
    moreover have "list_all is_digit (nat_dec n)" unfolding e using d b by simp
    moreover have "hd (nat_dec n) \<noteq> CHR ''0''" unfolding e using z [OF q b(1)] by simp
    ultimately show ?thesis using assms e by (simp only: octet_ok_def octet_value_def) simp
  qed
qed

lemma octet_word:
  "octet_ok (int_dec (int (unat (b :: 8 word)))) \<and> octet_value (int_dec (int (unat b))) = unat b \<and>
   list_all is_digit (int_dec (int (unat b)))"
  using octets [of "unat b"] unsigned_less [of b, where ?'a = nat] by (simp add: int_dec_def)

lemma split_join: "(\<forall>f\<in>set fs. d \<notin> set f) \<Longrightarrow> fs \<noteq> [] \<Longrightarrow> split_on d (join_with [d] fs) = fs"
proof (induction "[d]" fs rule: join_with.induct)
  have nosep: "d \<notin> set f \<Longrightarrow> split_on d (f @ d # r) = f # split_on d r" for f r
    by (induction f) auto
  have last: "d \<notin> set f \<Longrightarrow> split_on d f = [f]" for f
    by (induction f) auto
  {
    case (2 x) then show ?case by (simp add: last)
  next
    case (3 x y ys) then show ?case by (simp add: nosep)
  }
qed simp

lemma digit_not: "is_digit c \<Longrightarrow> c \<noteq> CHR ''.'' \<and> c \<noteq> CHR '':'' \<and> c \<noteq> CHR ''%''"
  by (auto simp: is_digit_def byte_def)

text \<open>What the expansion writes for an IPv4 address is read back as that address.\<close>

theorem v4_text_roundtrip:
  assumes "length a = 4"
  shows "parse_addr (v4_text a) = Some a \<and> ParseIP (v4_text a) = Some (v4_prefix @ a)"
proof -
  let ?f = "\<lambda>b. int_dec (int (unat (b :: 8 word)))"
  have dg: "\<forall>c\<in>set (?f b). is_digit c" for b using octet_word [of b] by (simp add: list_all_iff)
  have nodot: "\<forall>f\<in>set (map ?f a). CHR ''.'' \<notin> set f" using dg digit_not by auto
  have s: "split_on CHR ''.'' (v4_text a) = map ?f a"
    unfolding v4_text_def by (rule split_join [OF nodot]) (use assms in auto)
  have "list_all octet_ok (map ?f a)" using octet_word by (simp add: list_all_iff)
  moreover have "of_nat (octet_value (?f b)) = b" for b
  proof -
    have "octet_value (?f b) = unat b" using octet_word by blast
    then show ?thesis by (simp only:) simp
  qed
  then have "map (\<lambda>f. of_nat (octet_value f)) (map ?f a) = a"
    by (simp only: map_map comp_def map_ident)
  ultimately have p4: "parse_ipv4 (v4_text a) = Some a"
    using assms unfolding parse_ipv4_def Let_def s by simp
  have chars: "c = CHR ''.'' \<or> is_digit c" if "c \<in> set (v4_text a)" for c
  proof -
    have "\<forall>c\<in>set (join_with ''.'' fs). c = CHR ''.'' \<or> (\<exists>f\<in>set fs. c \<in> set f)" for fs
      by (induction "''.''" fs rule: join_with.induct) auto
    from this [of "map ?f a"] that dg show ?thesis unfolding v4_text_def by auto
  qed
  have "CHR ''.'' \<in> set (v4_text a)"
  proof -
    obtain b c r where "a = b # c # r" using assms by (cases a; cases "tl a") auto
    then show ?thesis by (simp add: v4_text_def)
  qed
  then obtain c where c: "find (\<lambda>c. c = CHR ''.'' \<or> c = CHR '':'') (v4_text a) = Some c"
    by (cases "find (\<lambda>c. c = CHR ''.'' \<or> c = CHR '':'') (v4_text a)") (auto simp: find_None_iff)
  then have "c = CHR ''.''" using chars digit_not by (auto dest!: find_SomeD)
  moreover have "CHR ''%'' \<notin> set (v4_text a)" using chars digit_not by fastforce
  ultimately have "parse_addr (v4_text a) = Some a" by (simp add: parse_addr_def c p4)
  then show ?thesis using assms by (simp add: ParseIP_def)
qed

end
