(* ===== verification/CreateSafety.thy ===== *)
theory CreateSafety
imports TaskCreate IpSafety
begin

text \<open>
  What creating a task promises: the batches are a split of the hosts for every strategy, the hosts
  are those the selector names within the tenant, and the new task is a draft whose batches count
  exactly their host rows.
\<close>

section \<open>Batches\<close>

text \<open>Batches of at most the given size, in front of what is left.\<close>

lemma split_loop_spec:
  assumes "0 \<le> r" "0 < k"
  shows "\<exists>bs. split_loop k r = Some bs \<and> sum_list bs = r \<and> (\<forall>b\<in>set bs. 0 < b \<and> b \<le> k) \<and>
    (\<forall>b\<in>set (butlast bs). b = k)"
  using assms(1)
proof (induction "nat r" arbitrary: r rule: less_induct)
  case less
  show ?case
  proof (cases "r > 0")
    case False
    with less.prems show ?thesis by (simp add: split_loop.simps)
  next
    case True
    show ?thesis
    proof (cases "k > r")
      case True
      with \<open>r > 0\<close> show ?thesis
        by (subst split_loop.simps, simp) (simp add: split_loop.simps)
    next
      case False
      with \<open>r > 0\<close> assms(2) have "nat (r - k) < nat r" "0 \<le> r - k" by auto
      from less.hyps [OF this] obtain bs where bs: "split_loop k (r - k) = Some bs" "sum_list bs = r - k"
        "\<forall>b\<in>set bs. 0 < b \<and> b \<le> k" "\<forall>b\<in>set (butlast bs). b = k" by blast
      then have "split_loop k r = Some (k # bs)"
        using \<open>r > 0\<close> False by (subst split_loop.simps) simp
      with bs assms(2) show ?thesis by auto
    qed
  qed
qed

lemma splitBatches_total:
  assumes "0 \<le> n"
  shows "\<exists>bs. splitBatches n st = Some bs \<and> sum_list bs = n \<and> (\<forall>b\<in>set bs. 0 < b) \<and>
    (st_mode st = ''canary'' \<and> 0 < st_canary_count st \<and> st_canary_count st < n \<longrightarrow> hd bs = st_canary_count st)"
proof (cases "n = 0")
  case False
  define canary where "canary \<longleftrightarrow> st_mode st = ''canary'' \<and> st_canary_count st > 0 \<and> st_canary_count st < n"
  define rest where "rest = (if canary then n - st_canary_count st else n)"
  define size0 where "size0 = (if st_mode st = ''percent'' \<and> st_batch_size st > 0
      then (let p = go_quot (i64 (n * st_batch_size st)) 100 in if p < 1 then 1 else p) else st_batch_size st)"
  define k where "k = (if size0 \<le> 0 then rest else size0)"
  have "0 < rest" using False assms by (auto simp: rest_def canary_def)
  then have "0 \<le> rest" "0 < k" by (auto simp: k_def)
  from split_loop_spec [OF this] obtain bs where bs: "split_loop k rest = Some bs" "sum_list bs = rest" "\<forall>b\<in>set bs. 0 < b" by blast
  have "splitBatches n st = Some ((if canary then [st_canary_count st] else []) @ bs)"
    using False bs(1) unfolding splitBatches_def Let_def canary_def rest_def k_def size0_def by simp
  with bs(2,3) show ?thesis by (auto simp: rest_def canary_def)
qed (auto simp: splitBatches_def intro!: exI [of _ "[]"])

lemma splitBatches_sizes:
  "0 \<le> n \<Longrightarrow> splitBatches n st = Some sizes \<Longrightarrow> sum_list sizes = n \<and> (\<forall>b\<in>set sizes. 0 < b)"
  using splitBatches_total [of n st] by auto

text \<open>Whatever the strategy asks for, splitting returns, and its batches are never empty and add up to the
  hosts, none lost and none twice; a canary strategy starts with its canaries.\<close>

theorem splitBatches_partition:
  assumes "0 \<le> n"
  shows "\<exists>bs. splitBatches n st = Some bs \<and> sum_list bs = n \<and> (\<forall>b\<in>set bs. 0 < b) \<and>
    (st_mode st = ''canary'' \<and> 0 < st_canary_count st \<and> st_canary_count st < n \<longrightarrow> hd bs = st_canary_count st)"
  using assms by (rule splitBatches_total)

section \<open>Hosts\<close>

lemma image_filter_set: "set (filter P (map f (filter Q xs))) = f ` {x \<in> set xs. Q x \<and> P (f x)}"
  by auto

lemma wanted_target [simp]:
  "wanted None h"
  "wanted (Some ips) (to_target h') \<longleftrightarrow> ho_ip h' \<in> set ips \<or> ho_exit_ip h' \<noteq> [] \<and> ho_exit_ip h' \<in> set ips"
  by (auto simp: wanted_def to_target_def)

text \<open>What is looked for: every host of the scope, or those at the addresses the expressions name.\<close>

lemma matchHosts_rows:
  assumes "\<forall>xs. mset (order xs) = mset xs" and "matchHosts order sc sel d = Some (Inr hs)"
  obtains want where "mset hs = mset (filter (wanted want) (map to_target (filter (host_selected sc sel) (d_hosts d))))"
    "sorted (map host_key hs)"
    "(want = None \<and> sl_ip_expr sel = []) \<or> (sl_ip_expr sel \<noteq> [] \<and>
      (\<exists>ips. want = Some ips \<and> ParseWithExclude (\<lambda>ips. ips) (sl_ip_expr sel) (sl_exclude_ip_expr sel) 0 = Some (Inr ips)))"
proof -
  let ?rows = "map to_target (filter (host_selected sc sel) (d_hosts d))"
  obtain want where "hs = sortHosts (order (filter (wanted want) ?rows))"
    "(want = None \<and> sl_ip_expr sel = []) \<or> (sl_ip_expr sel \<noteq> [] \<and>
      (\<exists>ips. want = Some ips \<and> ParseWithExclude (\<lambda>ips. ips) (sl_ip_expr sel) (sl_exclude_ip_expr sel) 0 = Some (Inr ips)))"
    using assms(2) by (auto simp: matchHosts_def Let_def split: if_splits option.splits sum.splits)
  then show thesis using assms(1) by (intro that [of want]) (simp_all add: sortHosts_def)
qed

lemma target_ids:
  assumes "distinct (map ho_id hosts)"
  shows "distinct (map hr_id (filter P (map to_target (filter Q hosts))))"
proof -
  have "hr_id \<circ> to_target = ho_id" by (auto simp: to_target_def)
  then have "map hr_id (map to_target (filter Q hosts)) = map ho_id (filter Q hosts)" by simp
  moreover have "distinct (map ho_id (filter Q hosts))" by (rule distinct_map_filter) (rule assms)
  ultimately show ?thesis by (metis distinct_map_filter)
qed

lemma matchHosts_hosts:
  assumes "\<forall>xs. mset (order xs) = mset xs" and "matchHosts order sc sel d = Some (Inr hs)"
    and "distinct (map ho_id (d_hosts d))"
  shows "distinct (map hr_id hs)" and "hr_id ` set hs \<subseteq> ho_id ` set (d_hosts d)"
proof -
  obtain want where w: "mset hs = mset (filter (wanted want) (map to_target (filter (host_selected sc sel) (d_hosts d))))"
    by (rule matchHosts_rows [OF assms(1,2)])
  then have "mset (map hr_id hs) = mset (map hr_id (filter (wanted want) (map to_target (filter (host_selected sc sel) (d_hosts d)))))"
    by (metis mset_map)
  with target_ids [OF assms(3)] show "distinct (map hr_id hs)" by (metis distinct_count_atmost_1 set_mset_mset)
  show "hr_id ` set hs \<subseteq> ho_id ` set (d_hosts d)" using mset_eq_setD [OF w] by (auto simp: to_target_def)
qed

text \<open>The filters column by column, and the addresses as sets.\<close>

lemma host_selected_iff:
  "host_selected sc sel h \<longleftrightarrow> (sc_cross sc \<or> ho_tenant h = sc_tenant sc) \<and>
    (\<forall>vals. vals \<noteq> [] \<longrightarrow>
         ((''app_code'', vals) \<in> set (sl_filters sel) \<longrightarrow> ho_app_code h \<in> set vals) \<and>
         ((''os_family'', vals) \<in> set (sl_filters sel) \<longrightarrow> ho_os_family h \<in> set vals) \<and>
         ((''os_type'', vals) \<in> set (sl_filters sel) \<longrightarrow> ho_os_type h \<in> set vals) \<and>
         ((''account'', vals) \<in> set (sl_filters sel) \<longrightarrow> ho_account h \<in> set vals) \<and>
         ((''biz_group'', vals) \<in> set (sl_filters sel) \<longrightarrow> ho_biz_group h \<in> set vals) \<and>
         ((''department'', vals) \<in> set (sl_filters sel) \<longrightarrow> ho_department h \<in> set vals) \<and>
         ((''vendor'', vals) \<in> set (sl_filters sel) \<longrightarrow> ho_vendor h \<in> set vals) \<and>
         ((''arch'', vals) \<in> set (sl_filters sel) \<longrightarrow> ho_arch h \<in> set vals))"
proof -
  have "(case filter_column col h of None \<Rightarrow> True | Some v \<Rightarrow> v \<in> set vals) \<longleftrightarrow>
    (col = ''app_code'' \<longrightarrow> ho_app_code h \<in> set vals) \<and> (col = ''os_family'' \<longrightarrow> ho_os_family h \<in> set vals) \<and>
    (col = ''os_type'' \<longrightarrow> ho_os_type h \<in> set vals) \<and> (col = ''account'' \<longrightarrow> ho_account h \<in> set vals) \<and>
    (col = ''biz_group'' \<longrightarrow> ho_biz_group h \<in> set vals) \<and> (col = ''department'' \<longrightarrow> ho_department h \<in> set vals) \<and>
    (col = ''vendor'' \<longrightarrow> ho_vendor h \<in> set vals) \<and> (col = ''arch'' \<longrightarrow> ho_arch h \<in> set vals)" for col vals
    by (simp add: filter_column_def)
  note col = this
  have "list_all (\<lambda>(col, vals). vals = [] \<or> (case filter_column col h of None \<Rightarrow> True | Some v \<Rightarrow> v \<in> set vals)) (sl_filters sel)
    \<longleftrightarrow> (\<forall>vals col. (col, vals) \<in> set (sl_filters sel) \<longrightarrow> vals \<noteq> [] \<longrightarrow>
          (case filter_column col h of None \<Rightarrow> True | Some v \<Rightarrow> v \<in> set vals))"
    by (auto simp: list_all_iff)
  also have "\<dots> \<longleftrightarrow> (\<forall>vals. vals \<noteq> [] \<longrightarrow> (\<forall>col. (col, vals) \<in> set (sl_filters sel) \<longrightarrow>
          (case filter_column col h of None \<Rightarrow> True | Some v \<Rightarrow> v \<in> set vals)))"
    by blast
  finally show ?thesis unfolding host_selected_def scope_where_def col
    by (simp only: imp_conjR all_conj_distrib) simp
qed

lemma wanted_exact:
  assumes "(want = None \<and> sl_ip_expr sel = []) \<or> (sl_ip_expr sel \<noteq> [] \<and>
      (\<exists>ips. want = Some ips \<and> ParseWithExclude (\<lambda>ips. ips) (sl_ip_expr sel) (sl_exclude_ip_expr sel) 0 = Some (Inr ips)))"
  shows "wanted want (to_target h) \<longleftrightarrow> (sl_ip_expr sel \<noteq> [] \<longrightarrow>
         (\<exists>ip \<in> {ho_ip h, ho_exit_ip h} - {x. x = [] \<and> x \<noteq> ho_ip h}.
            ip \<in> expr_set (sl_ip_expr sel) \<and>
            (trim_space (sl_exclude_ip_expr sel) \<noteq> [] \<longrightarrow> ip \<notin> expr_set (sl_exclude_ip_expr sel))))"
  using assms
proof (elim disjE conjE exE)
  fix ips assume i: "sl_ip_expr sel \<noteq> []" "want = Some ips"
    "ParseWithExclude (\<lambda>ips. ips) (sl_ip_expr sel) (sl_exclude_ip_expr sel) 0 = Some (Inr ips)"
  have "set ips = expr_set (sl_ip_expr sel) -
      (if trim_space (sl_exclude_ip_expr sel) = [] then {} else expr_set (sl_exclude_ip_expr sel))"
    using ParseWithExclude_spec [OF _ i(3)] by simp
  then show ?thesis using i(1,2) by auto
qed simp

text \<open>C16: a selector matches exactly the hosts that the scope shows (every host for a scope across tenants),
  whose columns have one of the listed values for every filter with a value on one of the eight filter columns,
  and, where the selector has an address expression, whose registered or exit address is among the addresses
  of that expression but not among those of the exclusion; each host comes once, in the order of the shown
  address. Without an address expression the exclusion is not read.\<close>

theorem matchHosts_exact:
  assumes "\<forall>xs. mset (order xs) = mset xs" and "matchHosts order sc sel d = Some (Inr hs)"
    and "distinct (map ho_id (d_hosts d))"
  shows "set hs = to_target ` {h \<in> set (d_hosts d).
      (sc_cross sc \<or> ho_tenant h = sc_tenant sc) \<and>
      (\<forall>vals. vals \<noteq> [] \<longrightarrow>
         ((''app_code'', vals) \<in> set (sl_filters sel) \<longrightarrow> ho_app_code h \<in> set vals) \<and>
         ((''os_family'', vals) \<in> set (sl_filters sel) \<longrightarrow> ho_os_family h \<in> set vals) \<and>
         ((''os_type'', vals) \<in> set (sl_filters sel) \<longrightarrow> ho_os_type h \<in> set vals) \<and>
         ((''account'', vals) \<in> set (sl_filters sel) \<longrightarrow> ho_account h \<in> set vals) \<and>
         ((''biz_group'', vals) \<in> set (sl_filters sel) \<longrightarrow> ho_biz_group h \<in> set vals) \<and>
         ((''department'', vals) \<in> set (sl_filters sel) \<longrightarrow> ho_department h \<in> set vals) \<and>
         ((''vendor'', vals) \<in> set (sl_filters sel) \<longrightarrow> ho_vendor h \<in> set vals) \<and>
         ((''arch'', vals) \<in> set (sl_filters sel) \<longrightarrow> ho_arch h \<in> set vals)) \<and>
      (sl_ip_expr sel \<noteq> [] \<longrightarrow>
         (\<exists>ip \<in> {ho_ip h, ho_exit_ip h} - {x. x = [] \<and> x \<noteq> ho_ip h}.
            ip \<in> expr_set (sl_ip_expr sel) \<and>
            (trim_space (sl_exclude_ip_expr sel) \<noteq> [] \<longrightarrow> ip \<notin> expr_set (sl_exclude_ip_expr sel))))} \<and>
    distinct (map hr_id hs) \<and> sorted (map host_key hs)"
proof -
  obtain want where w: "mset hs = mset (filter (wanted want) (map to_target (filter (host_selected sc sel) (d_hosts d))))"
    "sorted (map host_key hs)"
    "(want = None \<and> sl_ip_expr sel = []) \<or> (sl_ip_expr sel \<noteq> [] \<and>
      (\<exists>ips. want = Some ips \<and> ParseWithExclude (\<lambda>ips. ips) (sl_ip_expr sel) (sl_exclude_ip_expr sel) 0 = Some (Inr ips)))"
    by (rule matchHosts_rows [OF assms(1,2)])
  have "set hs = to_target ` {h \<in> set (d_hosts d). host_selected sc sel h \<and> wanted want (to_target h)}"
    using mset_eq_setD [OF w(1)] by (simp only: image_filter_set)
  then show ?thesis using matchHosts_hosts(1) [OF assms] w(2)
    by (simp only: host_selected_iff wanted_exact [OF w(3)] conj_assoc simp_thms)
qed

section \<open>The rows of a new task\<close>

text \<open>What the foreign keys promise: a row's task has been created.\<close>

definition refs_below :: "db \<Rightarrow> bool" where
  "refs_below d \<longleftrightarrow> (\<forall>h\<in>set (d_thosts d). th_task_id h < d_next_task d) \<and>
     (\<forall>b\<in>set (d_batches d). tb_task_id b < d_next_task d) \<and>
     (\<forall>c\<in>set (d_cmds d). \<forall>i. cm_task_id c = Some i \<longrightarrow> i < d_next_task d)"

fun new_rows :: "int \<Rightarrow> int \<Rightarrow> int \<Rightarrow> target_host list \<Rightarrow> task_host_row list" where
  "new_rows nx i k [] = []"
| "new_rows nx i k (h # hs) = new_thost nx i (hr_id h) k # new_rows (nx + 1) i k hs"

fun placed_rows :: "int \<Rightarrow> int \<Rightarrow> int \<Rightarrow> int list \<Rightarrow> target_host list \<Rightarrow> task_host_row list" where
  "placed_rows nx i k [] hosts = []"
| "placed_rows nx i k (n # ns) hosts = new_rows nx i k (take (nat n) hosts) @
     placed_rows (nx + int (length (take (nat n) hosts))) i (k + 1) ns (drop (nat n) hosts)"

fun placed_batches :: "int \<Rightarrow> int \<Rightarrow> int list \<Rightarrow> batch_row list" where
  "placed_batches i k [] = []"
| "placed_batches i k (n # ns) = \<lparr>tb_task_id = i, tb_index = k, tb_status = ''pending'', tb_total = n,
     tb_started_at = None, tb_finished_at = None\<rparr> # placed_batches i (k + 1) ns"

lemma fold_insert:
  assumes "distinct (map hr_id hosts)"
    and "\<forall>h\<in>set (d_thosts d). th_task_id h = i \<longrightarrow> th_host_id h \<notin> hr_id ` set hosts"
  shows "fold (\<lambda>h. insert_thost i k (hr_id h)) hosts d =
    d\<lparr>d_thosts := d_thosts d @ new_rows (d_next_thost d) i k hosts,
      d_next_thost := d_next_thost d + int (length hosts)\<rparr>"
  using assms
proof (induction hosts arbitrary: d)
  case (Cons h hosts)
  let ?d = "d\<lparr>d_thosts := d_thosts d @ [new_thost (d_next_thost d) i (hr_id h) k], d_next_thost := d_next_thost d + 1\<rparr>"
  have "insert_thost i k (hr_id h) d = ?d"
    using Cons.prems(2) by (auto simp: insert_thost_def exists_row_iff)
  moreover have "\<forall>r\<in>set (d_thosts ?d). th_task_id r = i \<longrightarrow> th_host_id r \<notin> hr_id ` set hosts"
    using Cons.prems by (auto simp: new_thost_def)
  ultimately show ?case using Cons.IH [of ?d] Cons.prems(1) by simp
qed simp

lemma new_rows_length [simp]: "length (new_rows nx i k hs) = length hs"
  by (induction hs arbitrary: nx) auto

lemma new_rows_host: "map th_host_id (new_rows nx i k hs) = map hr_id hs"
  by (induction hs arbitrary: nx) (auto simp: new_thost_def)

lemma place_spec:
  assumes "distinct (map hr_id hosts)"
    and "\<forall>h\<in>set (d_thosts d). th_task_id h = i \<longrightarrow> th_host_id h \<notin> hr_id ` set hosts"
    and "\<forall>n\<in>set sizes. 0 < n" and "sum_list sizes \<le> int (length hosts)"
  shows "place i k sizes hosts d =
    d\<lparr>d_thosts := d_thosts d @ placed_rows (d_next_thost d) i k sizes hosts,
      d_batches := d_batches d @ placed_batches i k sizes,
      d_next_thost := d_next_thost d + sum_list sizes\<rparr>"
  using assms
proof (induction sizes arbitrary: k hosts d)
  case (Cons n sizes)
  let ?now = "take (nat n) hosts" and ?later = "drop (nat n) hosts"
  have split: "set hosts = set ?now \<union> set ?later" by (metis append_take_drop_id set_append)
  have dd: "distinct (map hr_id ?now)" "distinct (map hr_id ?later)" "hr_id ` set ?now \<inter> hr_id ` set ?later = {}"
    using Cons.prems(1) by (metis append_take_drop_id distinct_append map_append set_map)+
  have pos: "0 < n" "\<forall>n\<in>set sizes. 0 < n" using Cons.prems(3) by auto
  have "0 \<le> sum_list sizes" using pos(2) by (simp add: sum_list_nonneg less_imp_le)
  with Cons.prems(4) have len: "int (length ?now) = n" using pos(1) by simp
  have f: "fold (\<lambda>h. insert_thost i k (hr_id h)) ?now d =
    d\<lparr>d_thosts := d_thosts d @ new_rows (d_next_thost d) i k ?now, d_next_thost := d_next_thost d + n\<rparr>"
    using fold_insert [of ?now d i k] dd(1) Cons.prems(2) split len by auto
  let ?d = "insert_batch i k n (d\<lparr>d_thosts := d_thosts d @ new_rows (d_next_thost d) i k ?now, d_next_thost := d_next_thost d + n\<rparr>)"
  have "th_host_id r \<in> hr_id ` set ?now" if "r \<in> set (new_rows (d_next_thost d) i k ?now)" for r
    using that new_rows_host [of "d_next_thost d" i k ?now] by (metis image_eqI list.set_map)
  then have "\<forall>h\<in>set (d_thosts ?d). th_task_id h = i \<longrightarrow> th_host_id h \<notin> hr_id ` set ?later"
    using Cons.prems(2) split dd(3) by (fastforce simp: insert_batch_def)
  from Cons.IH [OF dd(2) this pos(2)] Cons.prems(4) len show ?case
    by (simp add: f insert_batch_def)
qed simp

lemma new_rows_fields:
  "r \<in> set (new_rows nx i k hs) \<Longrightarrow> th_task_id r = i \<and> th_batch_index r = k \<and> th_status r = ''pending''"
  by (induction hs arbitrary: nx) (auto simp: new_thost_def)

lemma placed_rows_fields:
  "r \<in> set (placed_rows nx i k ns hs) \<Longrightarrow> th_task_id r = i \<and> k \<le> th_batch_index r \<and> th_status r = ''pending''"
proof (induction ns arbitrary: nx k hs)
  case (Cons n ns)
  then show ?case using new_rows_fields [of r nx i k "take (nat n) hs"] by fastforce
qed simp

lemma placed_batches_fields:
  "b \<in> set (placed_batches i k ns) \<Longrightarrow> tb_task_id b = i \<and> k \<le> tb_index b \<and> tb_status b = ''pending''"
  by (induction ns arbitrary: k) fastforce+

lemma placed_rows_hosts:
  assumes "\<forall>n\<in>set ns. 0 < n"
  shows "map th_host_id (placed_rows nx i k ns hs) = map hr_id (take (nat (sum_list ns)) hs)"
  using assms
proof (induction ns arbitrary: nx k hs)
  case (Cons n ns)
  then have "0 < n" "0 \<le> sum_list ns" by (auto simp: sum_list_nonneg less_imp_le)
  with Cons show ?case by (simp add: new_rows_host nat_add_distrib take_add)
qed simp

lemma placed_counts:
  assumes "\<forall>n\<in>set ns. 0 < n" "sum_list ns \<le> int (length hs)" "b \<in> set (placed_batches i k ns)"
  shows "int (length (filter (\<lambda>h. th_batch_index h = tb_index b) (placed_rows nx i k ns hs))) = tb_total b"
  using assms
proof (induction ns arbitrary: nx k hs)
  case (Cons n ns)
  let ?now = "new_rows nx i k (take (nat n) hs)"
  have pos: "0 < n" "0 \<le> sum_list ns" using Cons.prems(1) by (auto simp: sum_list_nonneg less_imp_le)
  have now: "length ?now = nat n"
    using Cons.prems(2) pos by simp
  show ?case
  proof (cases "b \<in> set (placed_batches i (k + 1) ns)")
    case True
    then have "tb_index b \<noteq> k" using placed_batches_fields [OF True] by simp
    then have "filter (\<lambda>h. th_batch_index h = tb_index b) ?now = []"
      using new_rows_fields [of _ nx i k "take (nat n) hs"] by (fastforce simp: filter_empty_conv)
    with Cons.IH [OF _ _ True, of "drop (nat n) hs"] Cons.prems(1,2) pos show ?thesis by simp
  next
    case False
    with Cons.prems(3) have b: "tb_index b = k" "tb_total b = n" by auto
    have "filter (\<lambda>h. th_batch_index h = k) ?now = ?now"
      using new_rows_fields [of _ nx i k "take (nat n) hs"] by (simp add: filter_id_conv)
    moreover have "filter (\<lambda>h. th_batch_index h = k) (placed_rows m i (k + 1) ns xs) = []" for m xs
      using placed_rows_fields [of _ m i "k + 1" ns xs] by (fastforce simp: filter_empty_conv)
    ultimately show ?thesis using b now pos by simp
  qed
qed simp

section \<open>Create\<close>

text \<open>A successful \<open>Create\<close>: the row of the task and what was placed under it.\<close>

definition kept_hosts :: "string \<Rightarrow> target_host list \<Rightarrow> target_host list" where
  "kept_hosts os hosts = filter (\<lambda>h. \<not> osMismatch os (hr_os_family h)) hosts"

lemma Create_success:
  assumes "Create order urlp pc now sc rq d = Some (Inr i, d')"
  shows "\<exists>version name hosts0 os sizes. create_target urlp pc sc rq d = Inr (version, name, os) \<and>
    matchHosts order sc (cr_selector rq) d = Some (Inr hosts0) \<and>
    kept_hosts os hosts0 \<noteq> [] \<and> splitBatches (int (length (kept_hosts os hosts0))) (cr_strategy rq) = Some sizes \<and>
    i = d_next_task d \<and> d' = place i 0 sizes (kept_hosts os hosts0)
      (d\<lparr>d_tasks := d_tasks d @ [new_task now sc rq version i], d_next_task := i + 1\<rparr>)"
  using assms
  by (auto simp: Create_def Let_def filterHostsByOS_spec kept_hosts_def [symmetric]
      split: sum.splits prod.splits option.splits if_splits)

lemma Create_fails_unchanged:
  "Create order urlp pc now sc rq d = Some (Inl e, d') \<Longrightarrow> d' = d"
  by (auto simp: Create_def Let_def split: sum.splits prod.splits option.splits if_splits)

definition task_rows :: "int \<Rightarrow> db \<Rightarrow> task_host_row list" where
  "task_rows i d = filter (\<lambda>h. th_task_id h = i) (d_thosts d)"

definition task_batches :: "int \<Rightarrow> db \<Rightarrow> batch_row list" where
  "task_batches i d = filter (\<lambda>b. tb_task_id b = i) (d_batches d)"

text \<open>The rows a creation adds.\<close>

lemma Create_effect:
  assumes "Create order urlp pc now sc rq d = Some (Inr i, d')" and "\<forall>xs. mset (order xs) = mset xs"
    and "distinct (map ho_id (d_hosts d))" and "refs_below d"
  shows "\<exists>v name os hosts0 sizes hosts. create_target urlp pc sc rq d = Inr (v, name, os) \<and>
    matchHosts order sc (cr_selector rq) d = Some (Inr hosts0) \<and> hosts = kept_hosts os hosts0 \<and>
    hosts \<noteq> [] \<and> distinct (map hr_id hosts) \<and> hr_id ` set hosts \<subseteq> ho_id ` set (d_hosts d) \<and>
    (\<forall>n\<in>set sizes. 0 < n) \<and> sum_list sizes = int (length hosts) \<and> i = d_next_task d \<and>
    (\<forall>h\<in>set (d_thosts d). th_task_id h \<noteq> i) \<and> (\<forall>b\<in>set (d_batches d). tb_task_id b \<noteq> i) \<and>
    d' = d\<lparr>d_tasks := d_tasks d @ [new_task now sc rq v i], d_next_task := i + 1,
      d_thosts := d_thosts d @ placed_rows (d_next_thost d) i 0 sizes hosts,
      d_batches := d_batches d @ placed_batches i 0 sizes, d_next_thost := d_next_thost d + sum_list sizes\<rparr>"
proof -
  obtain version name hosts0 os sizes hosts where t: "create_target urlp pc sc rq d = Inr (version, name, os)"
    and c: "matchHosts order sc (cr_selector rq) d = Some (Inr hosts0)"
    "hosts = kept_hosts os hosts0" "hosts \<noteq> []"
    "splitBatches (int (length hosts)) (cr_strategy rq) = Some sizes" "i = d_next_task d"
    "d' = place i 0 sizes hosts (d\<lparr>d_tasks := d_tasks d @ [new_task now sc rq version i], d_next_task := i + 1\<rparr>)"
    using Create_success [OF assms(1)] by blast
  from matchHosts_hosts [OF assms(2) c(1) assms(3)] have h0: "distinct (map hr_id hosts0)"
    "hr_id ` set hosts0 \<subseteq> ho_id ` set (d_hosts d)" by auto
  have h: "distinct (map hr_id hosts)" "hr_id ` set hosts \<subseteq> ho_id ` set (d_hosts d)"
    using h0 by (auto simp: c(2) kept_hosts_def distinct_map_filter)
  have sizes: "sum_list sizes = int (length hosts)" "\<forall>n\<in>set sizes. 0 < n"
    using splitBatches_sizes [OF _ c(4)] by auto
  have below: "\<forall>h\<in>set (d_thosts d). th_task_id h \<noteq> i" "\<forall>b\<in>set (d_batches d). tb_task_id b \<noteq> i"
    using assms(4) c(5) by (auto simp: refs_below_def)
  let ?d = "d\<lparr>d_tasks := d_tasks d @ [new_task now sc rq version i], d_next_task := i + 1\<rparr>"
  have "d' = ?d\<lparr>d_thosts := d_thosts d @ placed_rows (d_next_thost d) i 0 sizes hosts,
      d_batches := d_batches d @ placed_batches i 0 sizes, d_next_thost := d_next_thost d + sum_list sizes\<rparr>"
    using place_spec [of hosts ?d i sizes 0] h(1) below(1) sizes by (simp add: c(6))
  then have "d' = d\<lparr>d_tasks := d_tasks d @ [new_task now sc rq version i], d_next_task := i + 1,
      d_thosts := d_thosts d @ placed_rows (d_next_thost d) i 0 sizes hosts,
      d_batches := d_batches d @ placed_batches i 0 sizes, d_next_thost := d_next_thost d + sum_list sizes\<rparr>" by simp
  with t c(1,2,3,5) h sizes below show ?thesis by blast
qed

text \<open>C15: creating a task appends the row of a draft with a fresh number, pending host rows for exactly the
  hosts that the selector of the request matches within its scope and whose system is not another one than the
  task's, each once and in that order, and pending batches whose totals count exactly their host rows; nothing else in
  the database changes, and the new rows are all the rows of the task.\<close>

theorem Create_draft:
  assumes "Create order urlp pc now sc rq d = Some (Inr i, d')" and "\<forall>xs. mset (order xs) = mset xs"
    and "distinct (map ho_id (d_hosts d))" and "refs_below d"
  shows "i = d_next_task d \<and>
    (\<exists>v name os hosts rows bs. create_target urlp pc sc rq d = Inr (v, name, os) \<and>
       matchHosts order sc (cr_selector rq) d = Some (Inr hosts) \<and>
       map th_host_id rows = map hr_id (filter (\<lambda>h. \<not> osMismatch os (hr_os_family h)) hosts) \<and>
       d' = d\<lparr>d_tasks := d_tasks d @ [new_task now sc rq v i], d_next_task := i + 1,
         d_thosts := d_thosts d @ rows, d_batches := d_batches d @ bs,
         d_next_thost := d_next_thost d + int (length rows)\<rparr> \<and>
       rows = task_rows i d' \<and> rows \<noteq> [] \<and> distinct (map th_host_id rows) \<and>
       (\<forall>h\<in>set rows. th_status h = ''pending'' \<and> th_host_id h \<in> ho_id ` set (d_hosts d)) \<and>
       bs = task_batches i d' \<and>
       (\<forall>b\<in>set bs. tb_status b = ''pending'' \<and>
          tb_total b = int (length (filter (\<lambda>h. th_batch_index h = tb_index b) rows))))"
proof -
  obtain version name os hosts0 sizes hosts where t: "create_target urlp pc sc rq d = Inr (version, name, os)"
    and m: "matchHosts order sc (cr_selector rq) d = Some (Inr hosts0)" "hosts = kept_hosts os hosts0"
    and c: "hosts \<noteq> []" "i = d_next_task d" and h: "distinct (map hr_id hosts)"
    "hr_id ` set hosts \<subseteq> ho_id ` set (d_hosts d)" and sizes: "sum_list sizes = int (length hosts)" "\<forall>n\<in>set sizes. 0 < n"
    and below: "\<forall>h\<in>set (d_thosts d). th_task_id h \<noteq> i" "\<forall>b\<in>set (d_batches d). tb_task_id b \<noteq> i"
    and e: "d' = d\<lparr>d_tasks := d_tasks d @ [new_task now sc rq version i], d_next_task := i + 1,
      d_thosts := d_thosts d @ placed_rows (d_next_thost d) i 0 sizes hosts,
      d_batches := d_batches d @ placed_batches i 0 sizes, d_next_thost := d_next_thost d + sum_list sizes\<rparr>"
    using Create_effect [OF assms] by blast
  let ?rows = "placed_rows (d_next_thost d) i 0 sizes hosts" and ?bs = "placed_batches i 0 sizes"
  from e have d': "d_thosts d' = d_thosts d @ ?rows" "d_batches d' = d_batches d @ ?bs" by simp_all
  have hosts: "map th_host_id ?rows = map hr_id hosts" using placed_rows_hosts [OF sizes(2)] sizes(1) by simp
  have len: "int (length ?rows) = sum_list sizes" using arg_cong [OF hosts, of length] sizes(1) by simp
  have hosts': "map th_host_id ?rows = map hr_id (filter (\<lambda>h. \<not> osMismatch os (hr_os_family h)) hosts0)"
    using hosts by (simp add: m(2) kept_hosts_def)
  have e2: "d' = d\<lparr>d_tasks := d_tasks d @ [new_task now sc rq version i], d_next_task := i + 1,
      d_thosts := d_thosts d @ ?rows, d_batches := d_batches d @ ?bs,
      d_next_thost := d_next_thost d + int (length ?rows)\<rparr>" unfolding len by (rule e)
  have rows: "task_rows i d' = ?rows"
    using below(1) placed_rows_fields [of _ "d_next_thost d" i 0 sizes hosts]
    by (auto simp: task_rows_def d' filter_empty_conv filter_id_conv)
  have bs: "task_batches i d' = ?bs"
    using below(2) placed_batches_fields [of _ i 0 sizes]
    by (auto simp: task_batches_def d' filter_empty_conv filter_id_conv)
  have host: "th_host_id h \<in> ho_id ` set (d_hosts d)" if "h \<in> set ?rows" for h
  proof -
    from that have "th_host_id h \<in> set (map hr_id hosts)" using hosts by (metis image_eqI list.set_map)
    with h(2) show ?thesis by auto
  qed
  have "th_status h = ''pending'' \<and> th_host_id h \<in> ho_id ` set (d_hosts d)" if "h \<in> set ?rows" for h
    using placed_rows_fields [OF that] host [OF that] by simp
  moreover have "tb_status b = ''pending'' \<and> tb_total b = int (length (filter (\<lambda>h. th_batch_index h = tb_index b) ?rows))"
    if "b \<in> set ?bs" for b
    using placed_batches_fields [OF that] placed_counts [OF sizes(2) _ that, of hosts] sizes(1) by simp
  moreover have "?rows \<noteq> []" using hosts c(1) by (metis list.map_disc_iff)
  moreover have "distinct (map th_host_id ?rows)" using hosts h(1) by simp
  ultimately have "create_target urlp pc sc rq d = Inr (version, name, os) \<and>
      matchHosts order sc (cr_selector rq) d = Some (Inr hosts0) \<and>
      map th_host_id ?rows = map hr_id (filter (\<lambda>h. \<not> osMismatch os (hr_os_family h)) hosts0) \<and>
      d' = d\<lparr>d_tasks := d_tasks d @ [new_task now sc rq version i], d_next_task := i + 1,
         d_thosts := d_thosts d @ ?rows, d_batches := d_batches d @ ?bs,
         d_next_thost := d_next_thost d + int (length ?rows)\<rparr> \<and>
      ?rows = task_rows i d' \<and> ?rows \<noteq> [] \<and> distinct (map th_host_id ?rows) \<and>
      (\<forall>h\<in>set ?rows. th_status h = ''pending'' \<and> th_host_id h \<in> ho_id ` set (d_hosts d)) \<and>
      ?bs = task_batches i d' \<and>
      (\<forall>b\<in>set ?bs. tb_status b = ''pending'' \<and>
         tb_total b = int (length (filter (\<lambda>h. th_batch_index h = tb_index b) ?rows)))"
    using t m(1) hosts' e2 rows [symmetric] bs [symmetric] by blast
  with c(2) show ?thesis by blast
qed

end
