(* ===== verification/TaskExamples.thy ===== *)
theory TaskExamples
  imports Orchestrator GatewaySafety ReapSafety OrchestratorSafety DeleteSafety CreateSafety IpSafety
begin

text \<open>
  A small concrete database, used to show that the hypotheses of the properties can hold: a task of
  two batches whose first host runs a command, a second task that was canceled, two agents.
\<close>

definition ex_user :: user where
  "ex_user = \<lparr>us_username = ''bob'', us_is_admin = False, us_tenant = 1, us_roles = []\<rparr>"

definition ex_policy :: policy where
  "ex_policy = \<lparr>pc_owner_only = Some True, pc_owner_policy = None,
     pc_share = Some (\<lambda>a c. Some (c = ''carol'')), pc_team_mate = None, pc_authorize = None,
     pc_host_groups = None, pc_allow_exec = True, pc_offline_after = Some ''1m'', pc_external_url = None\<rparr>"

definition ex_off_policy :: policy where
  "ex_off_policy = ex_policy\<lparr>pc_owner_policy := Some (\<lambda>u. Some ''off'')\<rparr>"

definition ex_scope :: scope where "ex_scope = \<lparr>sc_tenant = 1, sc_cross = False\<rparr>"
definition ex_other_scope :: scope where "ex_other_scope = \<lparr>sc_tenant = 2, sc_cross = False\<rparr>"

definition ex_payload :: command_payload where
  "ex_payload = \<lparr>pl_component = empty_component_spec, pl_artifact = empty_artifact, pl_to_version = ''2.0'',
     pl_rollback_to = [], pl_command = None\<rparr>"

definition ex_cmd :: command_row where
  "ex_cmd = \<lparr>cm_id = 1, cm_task_id = Some 1, cm_task_host_id = Some 1, cm_host_id = 1, cm_agent_id = ''a1'',
     cm_type = CmdUpgradeComponent, cm_payload = ex_payload, cm_status = CmdRunning, cm_attempts = 1,
     cm_lease_expire_at = Some 50, cm_expire_at = Some 90, cm_result = None, cm_log = [], cm_created_at = 1,
     cm_dispatched_at = Some 2, cm_started_at = Some 3, cm_finished_at = None, cm_last_stage = ''exec'',
     cm_last_stage_at = Some 4\<rparr>"

definition ex_cmd2 :: command_row where
  "ex_cmd2 = ex_cmd\<lparr>cm_id := 2, cm_task_id := None, cm_task_host_id := None, cm_host_id := 2,
     cm_agent_id := ''a2'', cm_type := CmdSelfUpdate, cm_status := CmdPending, cm_attempts := 0,
     cm_lease_expire_at := None, cm_expire_at := None, cm_dispatched_at := None, cm_started_at := None\<rparr>"

definition ex_cmd3 :: command_row where
  "ex_cmd3 = ex_cmd\<lparr>cm_id := 3, cm_task_id := Some 2, cm_task_host_id := Some 3, cm_status := CmdCanceled,
     cm_finished_at := Some 8\<rparr>"

definition ex_thost :: task_host_row where
  "ex_thost = \<lparr>th_id = 1, th_task_id = 1, th_host_id = 1, th_batch_index = 0, th_status = ''running'',
     th_stage = ''exec'', th_to_version = [], th_attempts = 0, th_exit_code = 0, th_log = [],
     th_started_at = Some 1, th_finished_at = None\<rparr>"

definition ex_thost2 :: task_host_row where
  "ex_thost2 = ex_thost\<lparr>th_id := 2, th_host_id := 2, th_batch_index := 1, th_status := ''pending'',
     th_stage := [], th_started_at := None\<rparr>"

definition ex_thost3 :: task_host_row where
  "ex_thost3 = ex_thost\<lparr>th_id := 3, th_task_id := 2, th_status := ''canceled'', th_finished_at := Some 8\<rparr>"

definition ex_strategy :: strategy where
  "ex_strategy = \<lparr>st_mode = ''count'', st_canary_count = 0, st_batch_size = 1, st_concurrency = 1,
     st_auto_promote = False, st_health_wait = [], st_failure_threshold = ''10%'', st_auto_rollback = False\<rparr>"

definition ex_task :: task_row where
  "ex_task = \<lparr>tk_id = 1, tk_kind = ''upgrade'', tk_name = ''roll'', tk_component_id = Some 1,
     tk_version = ''2.0'', tk_command = empty_command_spec,
     tk_selector = \<lparr>sl_ip_expr = [], sl_exclude_ip_expr = [], sl_filters = []\<rparr>,
     tk_strategy = ex_strategy, tk_status = ''running'', tk_created_by = ''alice'', tk_updated_by = ''alice'',
     tk_updated_at = 1, tk_tenant = 1\<rparr>"

definition ex_task2 :: task_row where
  "ex_task2 = ex_task\<lparr>tk_id := 2, tk_status := ''canceled''\<rparr>"

definition ex_batch :: batch_row where
  "ex_batch = \<lparr>tb_task_id = 1, tb_index = 0, tb_status = ''running'', tb_total = 1,
     tb_started_at = Some 1, tb_finished_at = None\<rparr>"

definition ex_batch2 :: batch_row where
  "ex_batch2 = ex_batch\<lparr>tb_index := 1, tb_status := ''pending'', tb_started_at := None\<rparr>"

definition ex_host :: host_row where
  "ex_host = \<lparr>ho_id = 1, ho_ip = ''10.0.0.1'', ho_hostname = ''h1'', ho_exit_ip = [], ho_app_code = [],
     ho_biz_group = [], ho_os_family = ''linux'', ho_os_type = [], ho_account = [], ho_department = [],
     ho_vendor = [], ho_arch = ''amd64'', ho_kernel = [], ho_agent_id = ''a1'', ho_agent_server_url = [],
     ho_agent_status = ''online'', ho_maintenance_until = None, ho_maintenance_reason = [],
     ho_last_stage = [], ho_last_seen = Some 90, ho_build_hash = [], ho_build_variant = [], ho_tenant = 1, ho_os_version = [], ho_host_type = [], ho_tunnel_ip = [],
     ho_server_url_override = [], ho_server_url_auto = False, ho_default_server_url = [], ho_custom_fields = [],
     ho_agent_version = [], ho_build_version = [], ho_supervisor = [], ho_source = ''agent'', ho_check_ok = None,
     ho_check_source = [], ho_check_at = None, ho_check_latency = 0, ho_check_detail = [], ho_check_requested_at = None\<rparr>"

definition ex_host2 :: host_row where
  "ex_host2 = ex_host\<lparr>ho_id := 2, ho_ip := ''10.0.0.2'', ho_agent_id := ''a2''\<rparr>"

definition ex_agent :: agent_row where
  "ex_agent = \<lparr>ag_agent_id = ''a1'', ag_token_hash = ''t'', ag_secret = ''s1'', ag_signature_modes = ''v2'',
     ag_capabilities = ''run_command,optional_command'', ag_build_version = [], ag_host_id = Some 1, ag_ip = ''10.0.0.1'', ag_arch = ''amd64'', ag_os = ''linux'',
     ag_agent_version = [], ag_supervisor = [], ag_status = ''online'', ag_build_hash = [], ag_build_variant = [],
     ag_last_heartbeat_at = None\<rparr>"

definition ex_agent2 :: agent_row where
  "ex_agent2 = ex_agent\<lparr>ag_agent_id := ''a2'', ag_secret := ''s2''\<rparr>"

definition ex_comp :: component_row where
  "ex_comp = \<lparr>cp_id = 1, cp_tenant = 1, cp_name = ''nginx'', cp_display_name = ''Nginx'', cp_deploy_mode = ''exec'', cp_binary_name = [], cp_install_path = ''/opt'',
     cp_backup_dir = [], cp_exec_path = ''/bin/sh'', cp_exec_args = [], cp_exec_as_user = [], cp_exec_timeout = [], cp_script_url = [],
     cp_exec_env = [], cp_work_dir = [], cp_ignore_error = False, cp_pre_install = [], cp_post_install = [],
     cp_post_install_script = [], cp_service_name = [], cp_service_mgr = [], cp_stop_cmd = [],
     cp_start_cmd = [], cp_restart_cmd = [], cp_version_cmd = [], cp_version_regex = [], cp_health_cmd = [],
     cp_consul_maint = False, cp_os_match = [], cp_arch_match = [], cp_enabled = True\<rparr>"

definition ex_db :: db where
  "ex_db = \<lparr>d_tasks = [ex_task, ex_task2], d_batches = [ex_batch, ex_batch2],
     d_thosts = [ex_thost, ex_thost2, ex_thost3], d_cmds = [ex_cmd, ex_cmd2, ex_cmd3],
     d_hosts = [ex_host, ex_host2], d_agents = [ex_agent, ex_agent2], d_comps = [ex_comp], d_arts = [],
     d_jobs = [], d_next_task = 3, d_next_thost = 4, d_next_cmd = 4, d_next_job = 1, d_next_comp = 2, d_next_art = 1,
     d_tokens = [], d_next_token = 1, d_next_host = 3, d_hjobs = [], d_next_hjob = 1\<rparr>"

lemmas ex_rows = ex_cmd_def ex_cmd2_def ex_cmd3_def ex_thost_def ex_thost2_def ex_thost3_def
  ex_task_def ex_task2_def ex_batch_def ex_batch2_def ex_host_def ex_host2_def ex_agent_def ex_agent2_def
  ex_comp_def ex_strategy_def ex_scope_def ex_other_scope_def ex_user_def ex_payload_def

lemma ex_integrity: "integrity ex_db"
  by (simp add: ex_db_def ex_rows integrity_defs unique_where_def cmd_for_host_def cmd_self_update_def
      status_defs)

lemma ex_keys: "cmd_keys ex_db" "task_keys ex_db" "thost_keys ex_db"
  using ex_integrity by (simp_all add: integrity_def)

text \<open>A keyed hash and a serialisation with which the properties of signing can be evaluated.\<close>

definition ex_hmac :: "string \<Rightarrow> string \<Rightarrow> string" where "ex_hmac k m = k @ m"
definition ex_marshal :: "command_payload \<Rightarrow> string" where "ex_marshal p = pl_to_version p @ [CHR ''}'']"

definition ex_report :: report_request where
  "ex_report = \<lparr>rq_status = CmdSuccess, rq_stage = StageDone, rq_from_version = [], rq_to_version = ''2.0'',
     rq_exit_code = 0, rq_log = []\<rparr>"

text \<open>
  Every property that has a hypothesis, applied to the sample database: the hypotheses hold there, so
  the property is not vacuous.
\<close>

section \<open>Agents and the gateway\<close>

lemma ex_cmd_in: "ex_cmd \<in> set (d_cmds ex_db)" "ex_cmd2 \<in> set (d_cmds ex_db)" "ex_cmd3 \<in> set (d_cmds ex_db)"
  by (simp_all add: ex_db_def)

lemma ex_fields [simp]:
  "cm_id ex_cmd = 1" "cm_agent_id ex_cmd = ''a1''" "cm_status ex_cmd = CmdRunning" "cm_task_host_id ex_cmd = Some 1"
  "cm_id ex_cmd2 = 2" "cm_agent_id ex_cmd2 = ''a2''" "cm_status ex_cmd2 = CmdPending" "cm_task_host_id ex_cmd2 = None"
  "cm_id ex_cmd3 = 3" "cm_agent_id ex_cmd3 = ''a1''" "cm_status ex_cmd3 = CmdCanceled" "cm_task_host_id ex_cmd3 = Some 3"
  by (simp_all add: ex_rows)

lemma ex_thost_in: "ex_thost \<in> set (d_thosts ex_db)" "ex_thost2 \<in> set (d_thosts ex_db)" "ex_thost3 \<in> set (d_thosts ex_db)"
  and ex_host_in: "ex_host \<in> set (d_hosts ex_db)" "ex_host2 \<in> set (d_hosts ex_db)"
  and ex_task_in: "ex_task \<in> set (d_tasks ex_db)" "ex_task2 \<in> set (d_tasks ex_db)"
  by (simp_all add: ex_db_def)

lemma ex_clean:
  "rq_status (clean_report q st ex_report) = CmdSuccess"
  "rq_status (clean_report q st (ex_report\<lparr>rq_status := ''odd''\<rparr>)) = CmdFailed"
proof -
  have t: "trim_space CmdSuccess = CmdSuccess" "trim_space ''odd'' = ''odd''" by code_simp+
  show "rq_status (clean_report q st ex_report) = CmdSuccess"
    "rq_status (clean_report q st (ex_report\<lparr>rq_status := ''odd''\<rparr>)) = CmdFailed"
    by (simp_all add: clean_report_def ex_report_def Let_def t isFinalStatus_def)
qed

theorem Dequeue_accepted_by_agent_witness:
  "\<exists>cmd d'. Dequeue ex_hmac ex_marshal (\<lambda>i. False) 60 ''n'' ''a2'' ex_db = (Inr (Some cmd), d') \<and>
    verifyCommand ex_hmac ex_marshal 61 \<lparr>ac_secret = ''s2'', ac_clock_skew = None\<rparr> cmd = None"
proof -
  have "case Dequeue ex_hmac ex_marshal (\<lambda>i. False) 60 ''n'' ''a2'' ex_db of (Inr (Some c), d) \<Rightarrow> True | _ \<Rightarrow> False"
    by code_simp
  then obtain cmd d' where e: "Dequeue ex_hmac ex_marshal (\<lambda>i. False) 60 ''n'' ''a2'' ex_db = (Inr (Some cmd), d')"
    by (auto split: prod.splits sum.splits option.splits)
  have "verifyCommand ex_hmac ex_marshal 61 \<lparr>ac_secret = ''s2'', ac_clock_skew = None\<rparr> cmd = None"
    by (rule Dequeue_accepted_by_agent [OF e, of ex_agent2]) code_simp+
  with e show ?thesis by blast
qed

definition ex_signed :: command where
  "ex_signed = signed_command ex_hmac ex_marshal 60 ''n'' \<lparr>as_secret = ''s2'', as_legacy_mode = ''id'',
     as_legacy_command_field = False, as_uninstall_detect = False\<rparr> 2 CmdSelfUpdate ex_payload 120000000000"

theorem verifyCommand_v2_only_witness:
  "co_signature_v2 ex_signed = ex_hmac ''s2'' (signed_bytes
      \<lparr>en_method = ''CMD'', en_path = SignedPath ex_signed, en_body = ex_marshal (co_payload ex_signed),
       en_timestamp = co_timestamp ex_signed, en_nonce = co_nonce ex_signed\<rparr>)"
proof -
  have v: "verifyCommand ex_hmac ex_marshal 61 \<lparr>ac_secret = ''s2'', ac_clock_skew = None\<rparr> ex_signed = None"
    "co_signature_v2 ex_signed \<noteq> []" by code_simp+
  from verifyCommand_v2_only [OF v] show ?thesis by simp
qed

theorem agent_isolation_witness:
  "ex_cmd2 \<in> set (d_cmds (snd (Report id 60 ''t'' True ''a1'' (Some 2) ex_report ex_db)))"
proof -
  have "ex_cmd2 \<in> set (d_cmds (snd (Report id 60 ''t'' True ''a1'' (Some 2) ex_report ex_db))) \<and>
      ex_host2 \<in> set (d_hosts (snd (Report id 60 ''t'' True ''a1'' (Some 2) ex_report ex_db)))"
    by (rule agent_isolation [OF ex_keys(1) ex_cmd_in(2) _ ex_host_in(2),
        where now = 60 and stamp = "''t''" and a = "''a1''" and quote = id and consul = True and rq = ex_report and j = "Some 2"]) (simp_all add: ex_host2_def)
  then show ?thesis ..
qed

theorem gateway_integrity_witness:
  "integrity (snd (Report id 60 ''t'' True ''a1'' (Some 1) ex_report ex_db))"
  by (rule gateway_integrity [OF ex_integrity, where now = 60 and stamp = "''t''" and a = "''a1''" and quote = id and consul = True and rq = ex_report and j = "Some 1"]) simp

theorem late_report_ignored_witness:
  "Report id 60 ''t'' True ''a1'' (Some 3) ex_report ex_db = (Inr None, ex_db)"
  using late_report_ignored [OF ex_keys(1) ex_cmd_in(3)] by simp

theorem Report_settles_witness:
  "\<exists>c. find_cmd 1 (snd (Report id 60 ''t'' True ''a1'' (Some 1) ex_report ex_db)) = Some c \<and> cm_status c = CmdSuccess"
proof -
  obtain r d' where e: "Report id 60 ''t'' True ''a1'' (Some (cm_id ex_cmd)) ex_report ex_db = (r, d')"
    by (metis prod.exhaust)
  have "find_cmd (cm_id ex_cmd) d' = Some (report_final_cmd 60 (clean_report id ''t'' ex_report) ex_cmd) \<and>
      find_thost 1 d' = Some (report_thost 60 (clean_report id ''t'' ex_report) ex_thost) \<and>
      cm_status (report_final_cmd 60 (clean_report id ''t'' ex_report) ex_cmd) = rq_status (clean_report id ''t'' ex_report) \<and>
      th_status (report_thost 60 (clean_report id ''t'' ex_report) ex_thost) = rq_status (clean_report id ''t'' ex_report)"
    by (rule Report_settles [OF ex_keys(1) ex_cmd_in(1) _ _ _ _ _ refl _ e])
      (simp_all add: ex_clean isFinalStatus_def find_thost_def ex_db_def ex_thost_def th_open_def thost_ended_def)
  then show ?thesis using e by (simp add: ex_clean)
qed

theorem clean_report_bounds_witness:
  "rq_status (clean_report id ''t'' (ex_report\<lparr>rq_status := ''odd''\<rparr>)) = CmdFailed"
proof -
  have t: "trim_space ''odd'' = ''odd''" by code_simp
  from clean_report_bounds [of id "''t''" "ex_report\<lparr>rq_status := ''odd''\<rparr>"]
  show ?thesis unfolding Let_def by (simp add: t)
qed

theorem UpdateStage_progress_witness:
  "\<exists>c'. find_cmd 2 (UpdateStage 60 ''t'' ''a2'' 2 ''exec'' ''x'' ex_db) = Some c'"
  using UpdateStage_progress [OF ex_keys(1) ex_cmd_in(2) _ _ _ refl, of "''a2''" 60 "''t''" "''exec''" "''x''"] by auto

theorem EnterMaintenance_bound_witness:
  "\<exists>h. h \<in> set (d_hosts (EnterMaintenance 60 ''a1'' 99999 ex_db)) \<and> ho_agent_id h = ''a1'' \<and>
     (\<exists>u. ho_maintenance_until h = Some u \<and> u \<le> 60 + hours 1)"
proof -
  let ?h = "ex_host\<lparr>ho_maintenance_until := Some (60 + hours 1), ho_maintenance_reason := ''upgrading'',
    ho_agent_status := ''upgrading''\<rparr>"
  have "?h \<in> set (d_hosts (EnterMaintenance 60 ''a1'' 99999 ex_db))"
    by (simp add: EnterMaintenance_def ex_db_def ex_host_def ex_host2_def Let_def time_defs)
  from EnterMaintenance_bound [OF this] this show ?thesis by (intro exI [of _ ?h]) (auto simp: ex_host_def)
qed

section \<open>Reconciliation\<close>

lemma ex_refs: "host_refs ex_db"
  by (simp add: host_refs_def ex_db_def ex_rows)

theorem ReapExpired_bulk_witness: "fst (ReapExpired 60 ''t'' ex_db) = 1"
proof -
  have "rows_affected (lease_lost 60) (d_cmds ex_db) = 1"
    by (simp add: ex_db_def ex_rows lease_lost_def in_flight_def)
  with ReapExpired_bulk [OF ex_keys(1) ex_refs, of 60 "''t''"] show ?thesis by simp
qed

theorem ReapExpired_clears_witness:
  "rows_affected (lease_lost 60) (d_cmds (snd (ReapExpired 60 ''t'' ex_db))) = 0"
  by (rule ReapExpired_clears [OF ex_keys(1) ex_refs])
     (simp add: ex_db_def ex_rows lease_lost_def in_flight_def)

theorem Reconcile_no_zombie_window_witness:
  "\<exists>d h. h \<in> set (d_hosts (snd (ReconcileTasks 60 ''t'' d))) \<and> ho_maintenance_reason h = ''upgrading'' \<and>
    \<not> agent_idle (ho_agent_id h) (snd (ReconcileTasks 60 ''t'' d))"
proof -
  let ?h = "ex_host2\<lparr>ho_maintenance_reason := ''upgrading''\<rparr>"
  let ?d = "ex_db\<lparr>d_hosts := [?h], d_cmds := [ex_cmd2], d_thosts := []\<rparr>"
  have h: "?h \<in> set (d_hosts (snd (ReconcileTasks 60 ''t'' ?d)))"
    by code_simp
  from Reconcile_no_zombie_window [OF h] h show ?thesis
    by (intro exI [of _ ?d] exI [of _ ?h]) simp
qed

section \<open>Access and task operations\<close>

theorem ownerChecker_is_checkTaskOwner_witness:
  "\<exists>chk. ownerChecker ex_off_policy (Some ex_user) = Some chk \<and>
    check_all chk Map.empty [''alice''] = [Some (OwnedBy ''alice'' True)]"
proof -
  obtain chk where c: "ownerChecker ex_off_policy (Some ex_user) = Some chk"
    by (auto simp: ownerChecker_def ex_off_policy_def ex_policy_def ex_user_def IsSuperAdmin_def HasRole_def
        ownerModeFor_def Let_def)
  have f: "find_task_scoped ex_scope 1 ex_db = Some ex_task"
    by (simp add: find_task_scoped_def ex_db_def ex_rows scope_where_def)
  have "check_all chk Map.empty (map (\<lambda>i. tk_created_by (the (find_task_scoped ex_scope i ex_db))) [1]) =
      map (\<lambda>i. checkTaskOwner ex_off_policy (Some ex_user) ex_scope i ex_db) [1]"
    by (rule ownerChecker_is_checkTaskOwner [OF c]) (simp add: f)
  moreover have "checkTaskOwner ex_off_policy (Some ex_user) ex_scope 1 ex_db = Some (OwnedBy ''alice'' True)"
    by code_simp
  ultimately show ?thesis using c by (simp add: f ex_task_def)
qed

theorem owner_denial_justified_witness:
  "\<not> isPrivilegedActor (Some ex_user) \<and> ownerModeFor ex_policy ''bob'' = ''on''"
proof -
  have "checkTaskOwner ex_policy (Some ex_user) ex_scope 1 ex_db = Some (OwnedBy ''alice'' False)" by code_simp
  from owner_denial_justified [OF this] show ?thesis by (simp add: ownerModeFor_def ex_policy_def)
qed

theorem task_op_error_unchanged_witness:
  "\<exists>e. Cancel ex_policy (Some ex_user) 60 ex_scope 1 ex_db = (Inl e, ex_db)"
proof -
  obtain r d' where e: "Cancel ex_policy (Some ex_user) 60 ex_scope 1 ex_db = (r, d')"
    by (metis prod.exhaust)
  have o: "checkTaskOwner ex_policy (Some ex_user) ex_scope 1 ex_db = Some (OwnedBy ''alice'' False)" by code_simp
  with e obtain x where r: "r = Inl x" by (auto simp: Cancel_def)
  have "d' = ex_db"
    by (rule task_op_error_unchanged [OF _ e [unfolded r], where pc = ex_policy and actor = "Some ex_user"
        and now = 60 and sc = ex_scope and i = 1 and d = ex_db]) simp
  with e r show ?thesis by blast
qed

theorem task_ops_tenant_isolated_witness:
  "\<exists>e e'. Cancel ex_policy None 60 ex_other_scope 1 ex_db = (Inl e, ex_db) \<and> DeleteTask ex_policy None ex_other_scope 1 ex_db = (Inl e', ex_db)"
proof -
  have "find_task_scoped ex_other_scope 1 ex_db = None" by code_simp
  from task_ops_tenant_isolated [OF this, of ex_policy None 60] show ?thesis by blast
qed

lemma ex_cancel: "fst (Cancel ex_policy None 60 ex_scope 1 ex_db) = Inr ()"
  by code_simp

theorem Cancel_stops_everything_witness:
  "\<exists>t. find_task 1 (snd (Cancel ex_policy None 60 ex_scope 1 ex_db)) = Some t \<and> tk_status t = ''canceled''"
proof -
  have "Cancel ex_policy None 60 ex_scope 1 ex_db = (Inr (), snd (Cancel ex_policy None 60 ex_scope 1 ex_db))"
    using ex_cancel by (simp add: prod_eq_iff)
  from Cancel_stops_everything [OF this ex_keys(2)] show ?thesis by blast
qed

theorem task_ops_integrity_witness: "integrity (snd (Cancel ex_policy None 60 ex_scope 1 ex_db))"
  by (rule task_ops_integrity [OF ex_integrity, where pc = ex_policy and actor = None and now = 60 and sc = ex_scope and i = 1]) simp

definition ex_retry :: retry_request where "ex_retry = \<lparr>rr_task_host_ids = [1], rr_force = True\<rparr>"

theorem Retry_resets_witness:
  "\<exists>h. h \<in> set (d_thosts (snd (Retry ex_policy None 60 ''t'' scope_system 1 ex_retry ex_db))) \<and>
    th_id h = 1 \<and> th_status h = ''pending''"
proof -
  obtain rs where rs: "fst (Retry ex_policy None 60 ''t'' scope_system 1 ex_retry ex_db) = Inr rs"
  proof -
    have "isl (fst (Retry ex_policy None 60 ''t'' scope_system 1 ex_retry ex_db)) = False" by code_simp
    then show thesis using that by (cases "fst (Retry ex_policy None 60 ''t'' scope_system 1 ex_retry ex_db)") auto
  qed
  have e: "Retry ex_policy None 60 ''t'' scope_system 1 ex_retry ex_db =
      (Inr rs, snd (Retry ex_policy None 60 ''t'' scope_system 1 ex_retry ex_db))"
    using rs by (simp add: prod_eq_iff)
  have n: "ex_thost \<notin> set (d_thosts (snd (Retry ex_policy None 60 ''t'' scope_system 1 ex_retry ex_db)))"
    by code_simp
  from Retry_resets [OF e ex_keys(3) ex_thost_in(1)] n
  have "reset_thost 60 (bracket ''t'' @ txt_retry) ex_thost \<in>
      set (d_thosts (snd (Retry ex_policy None 60 ''t'' scope_system 1 ex_retry ex_db)))" by blast
  then show ?thesis by (intro exI [of _ "reset_thost 60 (bracket ''t'' @ txt_retry) ex_thost"]) (simp add: reset_thost_def ex_thost_def)
qed

theorem Retry_needs_cross_tenant_witness:
  "\<exists>e. Retry ex_policy None 60 ''t'' ex_scope 1 ex_retry ex_db = (Inl e, ex_db)"
  by (rule Retry_needs_cross_tenant) (simp add: ex_scope_def)

definition ex_target :: target_host where
  "ex_target = \<lparr>hr_id = 1, hr_ip = ''10.0.0.1'', hr_exit_ip = [], hr_app_code = [], hr_biz_group = [],
     hr_os_family = ''windows''\<rparr>"

theorem filterHostsByOS_sound_witness: "fst (filterHostsByOS [ex_target] targetOSLinux) = []"
proof -
  have e: "filterHostsByOS [ex_target] targetOSLinux = ([], 1)" by code_simp
  have "[] = filter (\<lambda>h. targetOSLinux = [] \<or> hostOS (hr_os_family h) \<in> {[], targetOSLinux}) [ex_target] \<and>
      length ([] :: target_host list) + 1 = length [ex_target]"
    by (rule filterHostsByOS_sound [OF e]) simp
  with e show ?thesis by simp
qed

section \<open>The orchestrator\<close>

theorem tick_integrity_witness:
  "integrity (tick (Some (\<lambda>d. snd (ReconcileTasks 60 ''t'' d))) (\<lambda>u. None) ex_policy 60 ''t'' ex_db)"
  by (rule tick_integrity [OF ex_integrity]) (blast intro: reconcile.integrity_kept)

text \<open>The sample task with its first batch over, so that the second one is due.\<close>

definition ex_due :: db where
  "ex_due = ex_db\<lparr>d_batches := [ex_batch\<lparr>tb_status := ''success''\<rparr>, ex_batch2], d_cmds := []\<rparr>"

theorem advance_dispatch_gate_witness:
  "\<exists>d'. advance (\<lambda>u. None) ex_policy 95 ''t'' ex_task ex_due = (Inr (), d') \<and> length (d_cmds d') = 1 \<and>
    currentBatch 1 ex_due = Some (1, ''pending'')"
proof -
  let ?r = "advance (\<lambda>u. None) ex_policy 95 ''t'' ex_task ex_due"
  have l: "fst ?r = Inr ()" "length (d_cmds (snd ?r)) = 1" "d_cmds ex_due = []" by code_simp+
  have e: "?r = (Inr (), snd ?r)" using l(1) by (simp add: prod_eq_iff)
  have n: "d_cmds (snd ?r) \<noteq> d_cmds ex_due" using l by auto
  from advance_dispatch_gate [OF e n] obtain k where "currentBatch (tk_id ex_task) ex_due = Some (k, ''pending'')" by blast
  moreover have "currentBatch 1 ex_due = Some (1, ''pending'')" by code_simp
  ultimately show ?thesis using e l by blast
qed

theorem currentBatch_in_order_witness:
  "currentBatch 1 ex_due = Some (1, ''pending'') \<and> batch_over (tb_status (ex_batch\<lparr>tb_status := ''success''\<rparr>))"
proof -
  have c: "currentBatch 1 ex_due = Some (1, ''pending'')" by code_simp
  have "ex_batch\<lparr>tb_status := ''success''\<rparr> \<in> set (d_batches ex_due)" "tb_task_id (ex_batch\<lparr>tb_status := ''success''\<rparr>) = 1"
    by (simp_all add: ex_due_def ex_batch_def)
  from currentBatch_in_order [OF this] c show ?thesis by (simp add: ex_batch_def)
qed

theorem advance_paused_witness:
  "d_cmds (snd (advance (\<lambda>u. None) ex_policy 95 ''t'' (ex_task\<lparr>tk_status := ''paused''\<rparr>) ex_due)) = []"
proof -
  let ?t = "ex_task\<lparr>tk_status := ''paused''\<rparr>"
  obtain r d' where e: "advance (\<lambda>u. None) ex_policy 95 ''t'' ?t ex_due = (r, d')" by (metis prod.exhaust)
  have "tk_status ?t = ''paused''" by simp
  from advance_paused [OF this e] e show ?thesis by (simp add: ex_due_def)
qed

definition ex_failed :: db where
  "ex_failed = ex_db\<lparr>d_batches := [ex_batch\<lparr>tb_status := ''failed''\<rparr>, ex_batch2]\<rparr>"

theorem advance_stuck_on_failed_batch_witness:
  "advance (\<lambda>u. None) ex_policy 95 ''t'' ex_task ex_failed = (Inr (), ex_failed)"
proof -
  have "currentBatch (tk_id ex_task) ex_failed = Some (0, ''failed'')" by code_simp
  then show ?thesis by (rule advance_stuck_on_failed_batch)
qed

definition ex_done :: db where
  "ex_done = ex_db\<lparr>d_thosts := [ex_thost\<lparr>th_status := ''failed''\<rparr>, ex_thost2]\<rparr>"

theorem failure_pauses_rollout_witness:
  "find_task 1 (snd (advance (\<lambda>u. None) ex_policy 95 ''t'' ex_task ex_done)) = Some (touch_task 95 ''paused'' ex_task)"
proof -
  obtain r d' where e: "advance (\<lambda>u. None) ex_policy 95 ''t'' ex_task ex_done = (r, d')" by (metis prod.exhaust)
  have k: "task_keys ex_done" using ex_keys(2) by (simp add: ex_done_def)
  have "find_task (tk_id ex_task) d' = Some (touch_task 95 ''paused'' ex_task) \<and>
    (\<forall>b\<in>set (d_batches d'). tb_task_id b = tk_id ex_task \<and> tb_index b = 0 \<longrightarrow> tb_status b = ''failed'') \<and>
    d_cmds d' = d_cmds ex_done"
    by (rule failure_pauses_rollout [OF k _ _ _ _ _ _ e, of _ 1 1]) code_simp+
  with e show ?thesis by (simp add: ex_task_def)
qed

definition ex_last :: db where
  "ex_last = ex_db\<lparr>d_batches := [ex_batch], d_thosts := [ex_thost\<lparr>th_status := ''success''\<rparr>]\<rparr>"

theorem advance_ends_task_witness:
  "\<exists>t'. find_task 1 (snd (advance (\<lambda>u. None) ex_policy 95 ''t'' ex_task ex_last)) = Some t' \<and> tk_status t' = ''success''"
proof -
  obtain r d' where e: "advance (\<lambda>u. None) ex_policy 95 ''t'' ex_task ex_last = (r, d')" by (metis prod.exhaust)
  have k: "task_keys ex_last" using ex_keys(2) by (simp add: ex_last_def)
  have "\<exists>t'. find_task (tk_id ex_task) d' = Some t' \<and>
    tk_status t' = finish_status (tk_kind ex_task) (filter (\<lambda>h. th_task_id h = tk_id ex_task) (d_thosts d')) \<and>
    (tk_status t' = ''failed'' \<longleftrightarrow> (\<exists>h\<in>set (d_thosts d'). th_task_id h = tk_id ex_task \<and> thost_failed (th_status h)) \<or>
       (tk_kind ex_task = ''command'' \<and> (\<exists>h\<in>set (d_thosts d'). th_task_id h = tk_id ex_task) \<and>
        (\<forall>h\<in>set (d_thosts d'). th_task_id h = tk_id ex_task \<longrightarrow> th_status h \<noteq> ''success'')))"
    by (rule advance_ends_task [OF k _ _ _ _ _ e, of 0 1 0]) code_simp+
  moreover have "finish_status (tk_kind ex_task) (filter (\<lambda>h. th_task_id h = tk_id ex_task)
      (d_thosts (snd (advance (\<lambda>u. None) ex_policy 95 ''t'' ex_task ex_last)))) = ''success''" by code_simp
  ultimately show ?thesis using e by (auto simp: ex_task_def)
qed

theorem dispatch_preconditions_witness:
  "\<exists>seen. ho_last_seen ex_host2 = Some seen \<and> 95 - seen \<le> snd (offline_after ex_policy)"
proof -
  let ?j = "CommandJob empty_command_spec []"
  have "length (d_cmds (dispatch_one ex_policy 95 ''t'' 1 1 ''2.0'' 1 ?j (2, ex_host2) ex_due)) = 1"
    "d_cmds ex_due = []" by code_simp+
  then have "d_cmds (dispatch_one ex_policy 95 ''t'' 1 1 ''2.0'' 1 ?j (2, ex_host2) ex_due) \<noteq> d_cmds ex_due" by auto
  from dispatch_preconditions [OF this] show ?thesis by blast
qed

section \<open>Deletion\<close>

definition ex_del :: db where
  "ex_del = ex_db\<lparr>d_jobs := [\<lparr>dj_id = 1, dj_tenant = 1, dj_cross = False, dj_created_by = ''alice'',
     dj_is_admin = False, dj_roles = [], dj_ip = [], dj_ids = [1, 2, 9], dj_total = 3, dj_processed = 0,
     dj_deleted = 0, dj_failed_count = 0, dj_failed = [], dj_status = ''pending'', dj_cancel_requested = False,
     dj_created_at = 5, dj_finished_at = None\<rparr>], d_next_job := 2\<rparr>"

lemma ex_del_ok: "jobs_ok ex_del" "distinct (map tk_id (d_tasks ex_del))"
  by (simp_all add: jobs_ok_def ex_del_def ex_db_def job_ok_def job_active_def unique_where_def ex_task_def ex_task2_def)

theorem BatchDelete_is_Delete_witness:
  "d_tasks (snd (BatchDelete ex_policy None ex_scope [2, 1, 2, 0, 7] ex_db)) = [ex_task]"
proof -
  have r: "refs_agree ex_db"
    by (simp add: refs_agree_def ex_db_def ex_rows)
  have "fst (BatchDelete ex_policy None ex_scope [2, 1, 2, 0, 7] ex_db) =
      Inr ([2], [(1, DelStatus ''running''), (7, DelNotFound)])" by code_simp
  then obtain d' where b: "BatchDelete ex_policy None ex_scope [2, 1, 2, 0, 7] ex_db =
      (Inr ([2], [(1, DelStatus ''running''), (7, DelNotFound)]), d')" by (metis prod.collapse)
  from BatchDelete_is_Delete [OF r b] have "d' = delete_tasks ex_scope [2] ex_db" by blast
  moreover have "d_tasks (delete_tasks ex_scope [2] ex_db) = [ex_task]" by code_simp
  ultimately show ?thesis by (simp add: b)
qed

theorem delete_jobs_integrity_witness:
  "jobs_ok (snd (runDeleteJobOnce ex_policy (\<lambda>i. False) None 95 ex_del))"
  using delete_jobs_integrity [OF ex_del_ok, THEN conjunct1] by blast

definition ex_rounds :: "(time \<times> (failures \<times> string) option) list" where
  "ex_rounds = [(95, None), (96, None), (97, Some (Map.empty, ''down'')), (98, None)]"

theorem delete_jobs_end_witness:
  "dj_status (hd (d_jobs (delete_rounds ex_policy ex_rounds ex_del))) = ''done'' \<and>
   dj_deleted (hd (d_jobs (delete_rounds ex_policy ex_rounds ex_del))) +
     dj_failed_count (hd (d_jobs (delete_rounds ex_policy ex_rounds ex_del))) = 3"
proof -
  let ?j = "hd (d_jobs (delete_rounds ex_policy ex_rounds ex_del))"
  have "jobs_todo ex_del \<le> length ex_rounds"
    by (simp add: jobs_todo_def job_todo_def ex_del_def job_active_def ex_rounds_def)
  moreover have "d_jobs (delete_rounds ex_policy ex_rounds ex_del) \<noteq> []" by code_simp
  moreover have "d_jobs ex_del \<noteq> []" "\<not> dj_cancel_requested (hd (d_jobs ex_del))" "dj_status (hd (d_jobs ex_del)) \<noteq> ''canceled''"
    "length (dj_ids (hd (d_jobs ex_del))) = 3" by code_simp+
  ultimately show ?thesis
    using delete_jobs_end [OF ex_del_ok, of ex_rounds ex_policy]
    by (cases "d_jobs ex_del"; cases "d_jobs (delete_rounds ex_policy ex_rounds ex_del)") auto
qed

text \<open>
  Creating a task in the sample database: the properties of batches, of matched hosts and of a new
  draft applied where their hypotheses hold.
\<close>

definition ex_request :: create_request where
  "ex_request = \<lparr>cr_kind = [], cr_name = ''roll'', cr_component_id = 1, cr_version = ''2.1'',
     cr_command = empty_command_spec,
     cr_selector = \<lparr>sl_ip_expr = ''10.0.0.1-10'', sl_exclude_ip_expr = ''10.0.0.3'', sl_filters = [(''arch'', [''amd64''])]\<rparr>,
     cr_strategy = ex_strategy\<lparr>st_mode := ''percent'', st_batch_size := 50\<rparr>,
     cr_created_by = ''alice'', cr_actor = Some (ex_user\<lparr>us_username := ''alice''\<rparr>)\<rparr>"

definition ex_create_policy :: policy where
  "ex_create_policy = ex_policy\<lparr>pc_authorize := Some (\<lambda>a i c. c = ''nginx'')\<rparr>"

theorem splitBatches_partition_witness:
  "\<exists>bs. splitBatches 7 (ex_strategy\<lparr>st_mode := ''canary'', st_canary_count := 2, st_batch_size := 3\<rparr>) = Some bs \<and>
    sum_list bs = 7 \<and> hd bs = 2"
  using splitBatches_partition [of 7 "ex_strategy\<lparr>st_mode := ''canary'', st_canary_count := 2, st_batch_size := 3\<rparr>"]
  by auto

theorem matchHosts_exact_witness:
  "hr_id ` set [to_target ex_host, to_target ex_host2] = {1, 2}
   \<and> sorted (map host_key [to_target ex_host, to_target ex_host2])"
proof -
  have m: "matchHosts rev ex_scope (cr_selector ex_request) ex_db = Some (Inr [to_target ex_host, to_target ex_host2])"
    by code_simp
  have "sorted (map host_key [to_target ex_host, to_target ex_host2])"
    using matchHosts_exact [OF _ m] by (simp add: ex_db_def ex_rows)
  then show ?thesis by (auto simp: to_target_def ex_rows)
qed

theorem Create_draft_witness:
  "case Create rev (\<lambda>s. None) ex_create_policy 100 ex_scope ex_request ex_db of
     Some (Inr i, d') \<Rightarrow> i = 3 \<and> d_cmds d' = d_cmds ex_db \<and> length (task_rows 3 d') = 2 \<and>
       length (task_batches 3 d') = 2
   | _ \<Rightarrow> False"
proof -
  let ?c = "Create rev (\<lambda>s. None) ex_create_policy 100 ex_scope ex_request ex_db"
  have "case ?c of Some (Inr i, d') \<Rightarrow> length (task_rows 3 d') = 2 \<and> length (task_batches 3 d') = 2 | _ \<Rightarrow> False"
    by code_simp
  then obtain i d' where e: "?c = Some (Inr i, d')" "length (task_rows 3 d') = 2" "length (task_batches 3 d') = 2"
    by (auto split: option.splits prod.splits sum.splits)
  have "refs_below ex_db" "distinct (map ho_id (d_hosts ex_db))" by (simp_all add: refs_below_def ex_db_def ex_rows)
  from Create_draft [OF e(1) _ this(2,1)] obtain tks m rows bs n where i: "i = d_next_task ex_db" and
    "d' = ex_db\<lparr>d_tasks := tks, d_next_task := m, d_thosts := rows, d_batches := bs, d_next_thost := n\<rparr>" by auto
  then have "d_cmds d' = d_cmds ex_db" by simp
  with e i show ?thesis by (simp add: ex_db_def)
qed

text \<open>
  The address expressions at concrete inputs: each property of them applied where its hypotheses hold.
\<close>

section \<open>Address expressions\<close>

theorem expandPart_never_returns_witness: "expandPart ''255.255.255.250-255'' = None"
proof -
  have "range_ends ''255.255.255.250-255'' = Inr ([255, 255, 255, 250], last_ip)" by code_simp
  moreover have "2 ^ 32 - ip_val [255, 255, 255, 250] \<le> DefaultMaxExpand" by code_simp
  ultimately show ?thesis unfolding expandPart_never_returns by auto
qed

theorem expandRange_exact_witness:
  "expandRange ''10.1.255.254-10.2.0.1'' DefaultMaxExpand =
     Some (Inr [''10.1.255.254'', ''10.1.255.255'', ''10.2.0.0'', ''10.2.0.1''])"
proof -
  have "range_ends ''10.1.255.254-10.2.0.1'' = Inr ([10, 1, 255, 254], [10, 2, 0, 1])" by code_simp
  from expandRange_exact [OF this, of DefaultMaxExpand]
  have "expandRange ''10.1.255.254-10.2.0.1'' DefaultMaxExpand =
      Some (Inr (map (\<lambda>i. v4_text (ip4_of i)) [ip_val [10, 1, 255, 254]..ip_val [10, 2, 0, 1]]))"
    by (simp add: last_ip_def ip_val_def)
  moreover have "map (\<lambda>i. v4_text (ip4_of i)) [ip_val [10, 1, 255, 254]..ip_val [10, 2, 0, 1]] =
      [''10.1.255.254'', ''10.1.255.255'', ''10.2.0.0'', ''10.2.0.1'']" by code_simp
  ultimately show ?thesis by simp
qed

theorem expandCIDR_hosts_witness:
  "expandCIDR ''10.1.255.77/30'' DefaultMaxExpand = Some (Inr [''10.1.255.77'', ''10.1.255.78''])"
proof -
  have "ParseCIDR ''10.1.255.77/30'' = Some ([10, 1, 255, 76], 30)" by code_simp
  from expandCIDR_hosts [OF this, of DefaultMaxExpand]
  have "expandCIDR ''10.1.255.77/30'' DefaultMaxExpand =
      Some (Inr (map (\<lambda>i. v4_text (ip4_of i)) [ip_val [10, 1, 255, 76] + 1..2 + ip_val [10, 1, 255, 76]]))"
    by simp
  moreover have "map (\<lambda>i. v4_text (ip4_of i)) [ip_val [10, 1, 255, 76] + 1..2 + ip_val [10, 1, 255, 76]] =
      [''10.1.255.77'', ''10.1.255.78'']" by code_simp
  ultimately show ?thesis by simp
qed

theorem ParseWithExclude_spec_witness:
  "expr_set ''10.0.0.1,9.0.0.4'' - expr_set ''10.0.0.1'' = {''9.0.0.4''}"
proof -
  have e: "ParseWithExclude rev ''10.0.0.1,9.0.0.4'' ''10.0.0.1'' 0 = Some (Inr [''9.0.0.4''])" by code_simp
  moreover have "trim_space ''10.0.0.1'' \<noteq> []" by code_simp
  ultimately show ?thesis using ParseWithExclude_spec [OF _ e] by simp
qed

theorem v4_text_roundtrip_witness: "ParseIP (v4_text [10, 0, 255, 7]) = Some (v4_prefix @ [10, 0, 255, 7])"
  using v4_text_roundtrip [of "[10, 0, 255, 7]"] by simp

end
