(* ===== verification/SafePath.thy ===== *)
theory SafePath
imports TargetOS GoNum
begin

text \<open>
  \<open>internal/pkg/safepath/safepath.go\<close> and the functions of Go's \<open>path/filepath\<close> package it calls, on
  Linux: a path is a string, \<open>Clean\<close> resolves it to its elements, \<open>Abs\<close> starts from the working
  directory \<open>cwd\<close>, \<open>Rel\<close> leads from one absolute path to another. Symbolic links are not resolved,
  as in the code.
\<close>

section \<open>Go's path/filepath\<close>

abbreviation slash :: char where "slash \<equiv> CHR ''/''"

definition rooted :: "string \<Rightarrow> bool" where
  "rooted p = (case p of [] \<Rightarrow> False | c # cs \<Rightarrow> c = slash)"

text \<open>One element of a path that is being resolved; the elements so far are in reverse.\<close>

definition clean_step :: "bool \<Rightarrow> string \<Rightarrow> string list \<Rightarrow> string list" where
  "clean_step isroot e st =
    (if e = [] \<or> e = ''.'' then st
     else if e = ''..'' then
       (case st of [] \<Rightarrow> (if isroot then [] else [''..''])
        | x # xs \<Rightarrow> if x = ''..'' then ''..'' # st else xs)
     else e # st)"

definition clean_elems :: "string \<Rightarrow> string list" where
  "clean_elems p = rev (fold (clean_step (rooted p)) (split_on slash p) [])"

definition path_clean :: "string \<Rightarrow> string" where
  "path_clean p =
    (if p = [] then ''.''
     else if rooted p then slash # join_with ''/'' (clean_elems p)
     else if clean_elems p = [] then ''.'' else join_with ''/'' (clean_elems p))"

text \<open>\<open>filepath.Join\<close> of two elements.\<close>

definition path_join :: "string \<Rightarrow> string \<Rightarrow> string" where
  "path_join a b =
    (if a = [] \<and> b = [] then [] else if a = [] then path_clean b else path_clean (a @ slash # b))"

text \<open>\<open>filepath.Abs\<close>; a relative path needs the working directory, which may not be known.\<close>

definition path_abs :: "string option \<Rightarrow> string \<Rightarrow> string option" where
  "path_abs cwd p =
    (if rooted p then Some (path_clean p) else map_option (\<lambda>wd. path_join wd p) cwd)"

text \<open>\<open>filepath.Rel\<close> between absolute paths: up from the base to the common front, then down.\<close>

fun common_front :: "string list \<Rightarrow> string list \<Rightarrow> nat" where
  "common_front (x # xs) (y # ys) = (if x = y then Suc (common_front xs ys) else 0)"
| "common_front _ _ = 0"

definition path_rel :: "string \<Rightarrow> string \<Rightarrow> string" where
  "path_rel base targ =
    (if path_clean base = path_clean targ then ''.''
     else (let bs = clean_elems base; ts = clean_elems targ; k = common_front bs ts
           in join_with ''/'' (replicate (length bs - k) ''..'' @ drop k ts)))"

section \<open>The package\<close>

datatype path_error = BadSegment string | OutsideBase string | NoWorkingDir | EmptyKey | BadKey string

definition seg_char :: "char \<Rightarrow> bool" where
  "seg_char c = (is_letter c \<or> is_digit c \<or> c \<in> set ''._-'')"

definition SafeSegment :: "string \<Rightarrow> path_error option" where
  "SafeSegment s =
    (if s = [] then Some (BadSegment s)
     else if s = ''.'' \<or> s = ''..'' then Some (BadSegment s)
     else if slash \<in> set s \<or> CHR 0x5C \<in> set s then Some (BadSegment s)
     else if contains ''..'' s then Some (BadSegment s)
     else if \<not> list_all seg_char s then Some (BadSegment s)
     else None)"

text \<open>A rune that is not on the list becomes one underscore; the second argument counts its bytes left.\<close>

fun clean_name :: "nat \<Rightarrow> string \<Rightarrow> string" where
  "clean_name n [] = []"
| "clean_name (Suc n) (c # s) = clean_name n s"
| "clean_name 0 (c # s) =
    (if seg_char c then c # clean_name 0 s
     else CHR ''_'' # clean_name (case rune_size (c # s) of None \<Rightarrow> 0 | Some k \<Rightarrow> k - 1) s)"

definition SanitizeFilename :: "string \<Rightarrow> string" where
  "SanitizeFilename name0 =
    (let name = replace_char (CHR 0x5C) ''_'' (path_base name0)
     in if name = [] \<or> name = ''.'' \<or> name = ''..'' then ''file''
        else (let out = dropWhile (\<lambda>c. c = CHR ''.'') (clean_name 0 name)
              in if out = [] then ''file'' else out))"

definition EnsureWithin :: "string option \<Rightarrow> string \<Rightarrow> string \<Rightarrow> path_error option" where
  "EnsureWithin cwd base target =
    (case path_abs cwd base of None \<Rightarrow> Some NoWorkingDir | Some b \<Rightarrow>
      (case path_abs cwd target of None \<Rightarrow> Some NoWorkingDir | Some t \<Rightarrow>
        (let rel = path_rel b t
         in if rel = ''..'' \<or> has_prefix ''../'' rel then Some (OutsideBase target) else None)))"

end
