(* ===== verification/PathSafety.thy ===== *)
theory PathSafety
imports SafePath
begin

text \<open>
  What the path checks promise: a path passes exactly when its elements go on from the elements of the
  base directory, checked names are single elements, and joining them never leaves the base.
\<close>

section \<open>Splitting and joining\<close>

lemma split_on_append: "split_on d (xs @ d # ys) = split_on d xs @ split_on d ys"
proof (induction xs)
  case (Cons c xs)
  then show ?case by (cases "split_on d xs") auto
qed simp

lemma split_on_single: "d \<notin> set xs \<Longrightarrow> split_on d xs = [xs]"
  by (induction xs) auto

lemma split_on_elem: "e \<in> set (split_on d s) \<Longrightarrow> d \<notin> set e"
  by (induction s arbitrary: e) (fastforce split: if_splits list.splits)+

lemma split_first: "split_on d s = x # xs \<Longrightarrow> \<exists>y. s = x @ y"
  by (induction s arbitrary: x xs) (auto split: if_splits list.splits)

lemma split_on_join:
  assumes "\<forall>e\<in>set es. slash \<notin> set e" and "es \<noteq> []"
  shows "split_on slash (join_with ''/'' es) = es"
  using assms
proof (induction es)
  case (Cons e es)
  then show ?case
    by (cases es) (simp_all add: split_on_single split_on_append)
qed simp

lemma join_Cons: "join_with sep (e # es) = (if es = [] then e else e @ sep @ join_with sep es)"
  by (cases es) auto

lemma join_first:
  assumes "es \<noteq> []" and "slash \<notin> set (hd es)"
  shows "takeWhile (\<lambda>c. c \<noteq> slash) (join_with ''/'' es) = hd es"
  using assms by (cases es) (auto simp: join_Cons takeWhile_append)

section \<open>Elements\<close>

definition plain :: "string \<Rightarrow> bool" where
  "plain e \<longleftrightarrow> e \<noteq> [] \<and> e \<noteq> ''.'' \<and> e \<noteq> ''..''"

lemma fold_plain: "\<forall>e\<in>set es. plain e \<Longrightarrow> fold (clean_step r) es st = rev es @ st"
  by (induction es arbitrary: st) (auto simp: clean_step_def plain_def)

definition solid :: "string \<Rightarrow> bool" where
  "solid e \<longleftrightarrow> plain e \<and> slash \<notin> set e"

lemma clean_step_solid:
  assumes "slash \<notin> set e" and "\<forall>x\<in>set st. solid x"
  shows "\<forall>x\<in>set (clean_step True e st). solid x"
proof (cases "plain e")
  case True
  then have "clean_step True e st = e # st" by (simp add: clean_step_def plain_def)
  with True assms show ?thesis by (simp add: solid_def)
next
  case False
  then have "clean_step True e st = st \<or> clean_step True e st = tl st"
    using assms(2) by (cases st) (auto simp: clean_step_def plain_def solid_def)
  with assms(2) show ?thesis by (metis list.set_sel(2) tl_Nil)
qed

lemma fold_clean_solid:
  "\<forall>e\<in>set es. slash \<notin> set e \<Longrightarrow> \<forall>x\<in>set st. solid x \<Longrightarrow> \<forall>x\<in>set (fold (clean_step True) es st). solid x"
proof (induction es arbitrary: st)
  case (Cons e es)
  then show ?case using clean_step_solid [of e st] by simp
qed simp

lemma clean_elems_solid: "rooted p \<Longrightarrow> e \<in> set (clean_elems p) \<Longrightarrow> solid e"
  using fold_clean_solid [of "split_on slash p" "[]"] split_on_elem by (fastforce simp: clean_elems_def)

lemma rooted_Cons: "rooted p \<longleftrightarrow> (\<exists>q. p = slash # q)"
  by (auto simp: rooted_def split: list.splits)

lemma path_clean_rooted: "rooted p \<Longrightarrow> path_clean p = slash # join_with ''/'' (clean_elems p)"
  by (auto simp: path_clean_def rooted_def)

lemma clean_elems_clean:
  assumes "rooted p"
  shows "clean_elems (path_clean p) = clean_elems p" and "rooted (path_clean p)"
proof -
  let ?es = "clean_elems p"
  show r: "rooted (path_clean p)" by (simp add: path_clean_rooted [OF assms] rooted_def)
  have s: "\<forall>e\<in>set ?es. solid e" using clean_elems_solid [OF assms] by blast
  show "clean_elems (path_clean p) = ?es"
  proof (cases "?es = []")
    case True
    then show ?thesis using r by (simp add: path_clean_rooted [OF assms] clean_elems_def [of "[slash]"] clean_step_def)
  next
    case False
    then have "split_on slash (path_clean p) = [] # ?es"
      using s by (simp add: path_clean_rooted [OF assms] split_on_join solid_def)
    then show ?thesis using r s fold_plain [of ?es True "[]"]
      by (simp add: clean_elems_def [of "path_clean p"] clean_step_def [of True "[]"] solid_def)
  qed
qed

lemma path_clean_inj:
  "rooted p \<Longrightarrow> rooted q \<Longrightarrow> path_clean p = path_clean q \<longleftrightarrow> clean_elems p = clean_elems q"
  by (metis clean_elems_clean(1) path_clean_rooted)

section \<open>Staying within the base\<close>

lemma common_front_le: "common_front xs ys \<le> length xs"
  by (induction xs ys rule: common_front.induct) auto

lemma common_front_all: "common_front xs ys = length xs \<longleftrightarrow> take (length xs) ys = xs"
  by (induction xs ys rule: common_front.induct) auto

lemma rel_escapes:
  assumes "es \<noteq> []" and "\<forall>e\<in>set es. slash \<notin> set e"
  shows "join_with ''/'' es = ''..'' \<or> has_prefix ''../'' (join_with ''/'' es) \<longleftrightarrow> hd es = ''..''"
proof
  assume "join_with ''/'' es = ''..'' \<or> has_prefix ''../'' (join_with ''/'' es)"
  then have "takeWhile (\<lambda>c. c \<noteq> slash) (join_with ''/'' es) = ''..''"
    by (auto simp: has_prefix_iff)
  then show "hd es = ''..''" using join_first [of es] assms by simp
next
  assume "hd es = ''..''"
  then show "join_with ''/'' es = ''..'' \<or> has_prefix ''../'' (join_with ''/'' es)"
    using assms(1) by (cases es) (auto simp: join_Cons has_prefix_iff)
qed

lemma rel_within:
  assumes "rooted b" and "rooted t"
  shows "(path_rel b t = ''..'' \<or> has_prefix ''../'' (path_rel b t)) \<longleftrightarrow>
    take (length (clean_elems b)) (clean_elems t) \<noteq> clean_elems b"
proof (cases "clean_elems b = clean_elems t")
  case True
  then show ?thesis using path_clean_inj [OF assms] by (simp add: path_rel_def has_prefix_def)
next
  case False
  let ?bs = "clean_elems b" and ?ts = "clean_elems t"
  let ?k = "common_front ?bs ?ts"
  let ?es = "replicate (length ?bs - ?k) ''..'' @ drop ?k ?ts"
  have rel: "path_rel b t = join_with ''/'' ?es"
    using False path_clean_inj [OF assms] by (simp add: path_rel_def Let_def)
  have solid: "\<forall>e\<in>set (drop ?k ?ts). solid e" using clean_elems_solid [OF assms(2)] by (meson in_set_dropD)
  then have "\<forall>e\<in>set ?es. slash \<notin> set e" by (auto simp: solid_def)
  show ?thesis
  proof (cases "?k = length ?bs")
    case True
    then have "?ts = ?bs @ drop ?k ?ts" by (metis append_take_drop_id common_front_all)
    with False have ne: "drop ?k ?ts \<noteq> []" by auto
    then have "hd ?es \<in> set (drop ?k ?ts)" using True by simp
    then have "hd ?es \<noteq> ''..''" using solid by (auto simp: solid_def plain_def)
    moreover have "?es \<noteq> []" using ne by simp
    ultimately show ?thesis
      using rel_escapes [OF _ \<open>\<forall>e\<in>set ?es. slash \<notin> set e\<close>] True common_front_all [of ?bs ?ts] by (simp add: rel)
  next
    case False
    then have "0 < length ?bs - ?k" using common_front_le [of ?bs ?ts] by simp
    then have "?es \<noteq> []" "hd ?es = ''..''" by (auto simp: hd_append)
    then show ?thesis
      using rel_escapes [OF _ \<open>\<forall>e\<in>set ?es. slash \<notin> set e\<close>] False common_front_all [of ?bs ?ts] by (simp add: rel)
  qed
qed

text \<open>Between absolute paths the check accepts exactly the paths whose elements, once \<open>.\<close>, \<open>..\<close> and
  doubled slashes are resolved, go on from those of the base: a neighbour such as \<open>/data-evil\<close> of
  \<open>/data\<close> is refused, and so is every climb out of the base.\<close>

theorem EnsureWithin_iff:
  assumes "rooted base" and "rooted target"
  shows "EnsureWithin cwd base target = None \<longleftrightarrow> (\<exists>es. clean_elems target = clean_elems base @ es)"
proof -
  have "EnsureWithin cwd base target = None \<longleftrightarrow> take (length (clean_elems base)) (clean_elems target) = clean_elems base"
    using rel_within [OF clean_elems_clean(2) [OF assms(1)] clean_elems_clean(2) [OF assms(2)]]
    by (simp add: EnsureWithin_def path_abs_def Let_def assms clean_elems_clean(1))
  then show ?thesis by (metis append_eq_conv_conj append_take_drop_id)
qed

section \<open>Below the base\<close>

lemma fold_benign:
  "\<forall>e\<in>set es. e \<noteq> ''..'' \<Longrightarrow> fold (clean_step r) es st = rev (filter plain es) @ st"
  by (induction es arbitrary: st) (auto simp: clean_step_def plain_def)

lemma clean_elems_under:
  assumes "rooted base" and "\<forall>e\<in>set (split_on slash key). e \<noteq> ''..''"
  shows "clean_elems (base @ slash # key) = clean_elems base @ filter plain (split_on slash key)"
proof -
  have "rooted (base @ slash # key)" using assms(1) by (auto simp: rooted_Cons)
  then show ?thesis using fold_benign [OF assms(2)] assms(1) by (simp add: clean_elems_def split_on_append)
qed

lemma path_join_under:
  assumes "rooted base" and "\<forall>e\<in>set (split_on slash key). e \<noteq> ''..''"
  shows "clean_elems (path_join base key) = clean_elems base @ filter plain (split_on slash key)"
    and "rooted (path_join base key)"
proof -
  have "rooted (base @ slash # key)" "base \<noteq> []" using assms(1) by (auto simp: rooted_Cons)
  then have "path_join base key = path_clean (base @ slash # key)" "rooted (base @ slash # key)"
    by (simp_all add: path_join_def)
  then show "clean_elems (path_join base key) = clean_elems base @ filter plain (split_on slash key)"
    "rooted (path_join base key)"
    using clean_elems_clean [of "base @ slash # key"] clean_elems_under [OF assms] by auto
qed

lemma EnsureWithin_join:
  assumes "rooted base" and "\<forall>e\<in>set (split_on slash key). e \<noteq> ''..''"
  shows "EnsureWithin cwd base (path_join base key) = None"
proof -
  have "take (length (clean_elems base)) (clean_elems (path_join base key)) = clean_elems base"
    by (simp add: path_join_under(1) [OF assms])
  then show ?thesis
    using rel_within [OF clean_elems_clean(2) [OF assms(1)] clean_elems_clean(2) [OF path_join_under(2) [OF assms]]]
    by (simp add: EnsureWithin_def path_abs_def Let_def assms(1) path_join_under(2) [OF assms]
        clean_elems_clean(1) [OF assms(1)] clean_elems_clean(1) [OF path_join_under(2) [OF assms]])
qed

text \<open>A string without two dots in a row has no element that climbs.\<close>

lemma contains_split:
  "e \<in> set (split_on d s) \<Longrightarrow> contains w e \<Longrightarrow> contains w s"
proof (induction s arbitrary: e)
  case (Cons c s)
  show ?case
  proof (cases "c = d")
    case True
    then have "e = [] \<or> e \<in> set (split_on d s)" using Cons.prems(1) by auto
    then show ?thesis using Cons by auto
  next
    case False
    obtain x xs where s: "split_on d s = x # xs" by (cases "split_on d s") auto
    with False Cons.prems(1) have "e = c # x \<or> e \<in> set xs" by simp
    then show ?thesis
    proof
      assume e: "e = c # x"
      obtain y where y: "s = x @ y" using split_first [OF s] by blast
      show ?thesis
        using Cons.prems(2) Cons.IH [of x] unfolding e y contains_iff
        by (metis append.assoc append_Cons)
    next
      assume "e \<in> set xs"
      then show ?thesis using Cons.IH [of e] Cons.prems(2) s by simp
    qed
  qed
qed simp

lemma no_climb:
  assumes "\<not> contains ''..'' key"
  shows "\<forall>e\<in>set (split_on slash key). e \<noteq> ''..''"
proof
  fix e assume "e \<in> set (split_on slash key)"
  with assms have "\<not> contains ''..'' e" using contains_split by blast
  then show "e \<noteq> ''..''" by (auto simp: has_prefix_def)
qed

section \<open>Checked names\<close>

lemma safe_segment_single:
  assumes "SafeSegment s = None"
  shows "plain s" and "slash \<notin> set s" and "\<forall>e\<in>set (split_on slash s). e \<noteq> ''..''"
  using assms by (auto simp: SafeSegment_def plain_def split_on_single split: if_splits)

text \<open>A segment that passes the check, joined to a directory, names exactly the entry of that name in
  it, and the boundary check never refuses it.\<close>

theorem SafeSegment_joins:
  assumes "rooted base" and "SafeSegment s = None"
  shows "clean_elems (path_join base s) = clean_elems base @ [s] \<and> EnsureWithin cwd base (path_join base s) = None"
  using path_join_under(1) [OF assms(1) safe_segment_single(3) [OF assms(2)]]
    EnsureWithin_join [OF assms(1) safe_segment_single(3) [OF assms(2)]] safe_segment_single(1,2) [OF assms(2)]
  by (simp add: split_on_single)

lemma seg_char_underscore: "seg_char (CHR ''_'')"
  by (simp add: seg_char_def)

lemma clean_name_chars: "c \<in> set (clean_name n s) \<Longrightarrow> seg_char c"
  by (induction n s rule: clean_name.induct) (auto simp: seg_char_underscore split: if_splits)

lemma seg_char_no_slash: "\<not> seg_char slash" "\<not> seg_char (CHR 0x5C)"
  by (simp_all add: seg_char_def is_letter_def is_digit_def byte_def)

text \<open>Whatever a client sends as a file name, the cleaned name is not empty, has only characters of
  the white list, does not start with a dot, and is one element of a path.\<close>

theorem SanitizeFilename_single:
  "SanitizeFilename name \<noteq> [] \<and> list_all seg_char (SanitizeFilename name) \<and>
   hd (SanitizeFilename name) \<noteq> CHR ''.'' \<and> plain (SanitizeFilename name) \<and> slash \<notin> set (SanitizeFilename name)"
proof -
  have *: "out \<noteq> [] \<and> list_all seg_char out \<and> hd out \<noteq> CHR ''.'' \<and> plain out \<and> slash \<notin> set out"
    if "out \<noteq> []" "list_all seg_char out" "hd out \<noteq> CHR ''.''" for out
    using that seg_char_no_slash by (cases out) (auto simp: plain_def list_all_iff)
  have f: "list_all seg_char ''file''" by (simp add: seg_char_def is_letter_def byte_def)
  let ?o = "dropWhile (\<lambda>c. c = CHR ''.'') (clean_name 0 (replace_char (CHR 0x5C) ''_'' (path_base name)))"
  have "list_all seg_char ?o" by (auto simp: list_all_iff dest: set_dropWhileD clean_name_chars)
  moreover have "hd ?o \<noteq> CHR ''.''" if "?o \<noteq> []" using hd_dropWhile [OF that] by simp
  ultimately have o: "?o \<noteq> [] \<Longrightarrow> list_all seg_char ?o \<and> hd ?o \<noteq> CHR ''.''" by blast
  have "SanitizeFilename name = ''file'' \<or> (?o \<noteq> [] \<and> SanitizeFilename name = ?o)"
    unfolding SanitizeFilename_def Let_def by presburger
  then show ?thesis
  proof
    assume "SanitizeFilename name = ''file''"
    then show ?thesis using * [OF _ f] by (simp only:) simp
  next
    assume "?o \<noteq> [] \<and> SanitizeFilename name = ?o"
    then show ?thesis using o * [of ?o] by metis
  qed
qed

section \<open>Examples\<close>

theorem EnsureWithin_iff_witness:
  "EnsureWithin None ''/data'' ''/data/a/../7/x'' = None \<and> EnsureWithin None ''/data'' ''/data-evil/x'' \<noteq> None"
proof -
  have r: "rooted ''/data''" "rooted ''/data/a/../7/x''" "rooted ''/data-evil/x''" by code_simp+
  have e: "clean_elems ''/data'' = [''data'']" "clean_elems ''/data/a/../7/x'' = [''data'', ''7'', ''x'']"
    "clean_elems ''/data-evil/x'' = [''data-evil'', ''x'']" by code_simp+
  show ?thesis
    using EnsureWithin_iff [OF r(1,2), of None] EnsureWithin_iff [OF r(1,3), of None] by (simp add: e)
qed

end
