(* ===== verification/Storage.thy ===== *)
theory Storage
imports PathSafety
begin

text \<open>
  \<open>internal/storage\<close>: the interface of an object store and its implementation on a local directory. The
  file system is a map from absolute paths to contents; a step of the operating system that fails
  (making a directory, writing or renaming the temporary file, ...) is the parameter \<open>fault\<close>. The S3
  and OSS stores are calls to client libraries.
\<close>

datatype storage_error =
    IllegalKey path_error | OutOfBounds string | OsFailed | NoSuchObject string

type_synonym files = "string \<Rightarrow> string option"

section \<open>A store and what its clients rely on\<close>

locale object_store =
  fixes save :: "string \<Rightarrow> string \<Rightarrow> 'w \<Rightarrow> (storage_error + string) \<times> 'w"
    and get :: "string \<Rightarrow> 'w \<Rightarrow> storage_error + string"
    and delete :: "string \<Rightarrow> 'w \<Rightarrow> storage_error option \<times> 'w"
    and same :: "string \<Rightarrow> string \<Rightarrow> bool"
  assumes save_get: "save k v w = (Inr k', w') \<Longrightarrow> k' = k \<and> get k w' = Inr v"
    and save_frame: "save k v w = (r, w') \<Longrightarrow> \<not> same k j \<Longrightarrow> get j w' = get j w"
    and save_fail: "save k v w = (Inl e, w') \<Longrightarrow> w' = w"
    and delete_gone: "delete k w = (None, w') \<Longrightarrow> \<exists>e. get k w' = Inl e"
    and delete_frame: "delete k w = (del, w') \<Longrightarrow> \<not> same k j \<Longrightarrow> get j w' = get j w"
    and delete_fail: "delete k w = (Some e, w') \<Longrightarrow> w' = w"
begin

lemma last_save_wins:
  "save k v w = (Inr k1, w1) \<Longrightarrow> save k v2 w1 = (Inr k2, w2) \<Longrightarrow> get k w2 = Inr v2"
  using save_get by blast

lemma save_then_delete:
  "save k v w = (Inr k1, w1) \<Longrightarrow> delete k w1 = (None, w2) \<Longrightarrow>
   (\<exists>e. get k w2 = Inl e) \<and> (\<forall>j. \<not> same k j \<longrightarrow> get j w2 = get j w)"
  using delete_gone delete_frame save_frame by metis

text \<open>Every other object reads as before, whatever operations on \<open>k\<close> succeed or fail.\<close>

lemma others_kept:
  "\<not> same k j \<Longrightarrow> get j (snd (delete k (snd (save k v w)))) = get j w"
  using save_frame [of k v w "fst (save k v w)" "snd (save k v w)" j]
    delete_frame [of k "snd (save k v w)" "fst (delete k (snd (save k v w)))"] by simp

end

section \<open>The local directory\<close>

text \<open>The file a path names.\<close>

definition file_at :: "string option \<Rightarrow> string \<Rightarrow> string" where
  "file_at cwd p = (case path_abs cwd p of None \<Rightarrow> p | Some a \<Rightarrow> a)"

definition NewLocal :: "string \<Rightarrow> string" where
  "NewLocal baseDir = (if baseDir = [] then ''/data/artifacts'' else baseDir)"

definition validateKey :: "string \<Rightarrow> path_error option" where
  "validateKey key =
    (if key = [] then Some EmptyKey
     else if contains ''..'' key then Some (BadKey key)
     else if has_prefix ''/'' key \<or> has_prefix [CHR 0x5C] key then Some (BadKey key)
     else if length key \<ge> 2 \<and> key ! 1 = CHR '':'' then Some (BadKey key)
     else None)"

text \<open>The checks every operation starts with, and the path it then works on.\<close>

definition local_path :: "string option \<Rightarrow> string \<Rightarrow> string \<Rightarrow> storage_error + string" where
  "local_path cwd baseDir key =
    (case validateKey key of Some e \<Rightarrow> Inl (IllegalKey e) | None \<Rightarrow>
      (let path = path_join baseDir key
       in case EnsureWithin cwd baseDir path of Some e \<Rightarrow> Inl (OutOfBounds key) | None \<Rightarrow> Inr path))"

definition local_save ::
    "string option \<Rightarrow> string \<Rightarrow> bool \<Rightarrow> string \<Rightarrow> string \<Rightarrow> files \<Rightarrow> (storage_error + string) \<times> files" where
  "local_save cwd baseDir fault key data fs =
    (case local_path cwd baseDir key of Inl e \<Rightarrow> (Inl e, fs) | Inr path \<Rightarrow>
      (if fault then (Inl OsFailed, fs)
       else (Inr key, fs(file_at cwd path \<mapsto> data))))"

definition local_get :: "string option \<Rightarrow> string \<Rightarrow> string \<Rightarrow> files \<Rightarrow> storage_error + string" where
  "local_get cwd baseDir key fs =
    (case local_path cwd baseDir key of Inl e \<Rightarrow> Inl e | Inr path \<Rightarrow>
      (case fs (file_at cwd path) of None \<Rightarrow> Inl (NoSuchObject key) | Some data \<Rightarrow> Inr data))"

definition local_delete :: "string option \<Rightarrow> string \<Rightarrow> bool \<Rightarrow> string \<Rightarrow> files \<Rightarrow> storage_error option \<times> files" where
  "local_delete cwd baseDir fault key fs =
    (case local_path cwd baseDir key of Inl e \<Rightarrow> (Some e, fs) | Inr path \<Rightarrow>
      (if fault then (Some OsFailed, fs)
       else case fs (file_at cwd path) of None \<Rightarrow> (Some (NoSuchObject key), fs)
          | Some data \<Rightarrow> (None, fs(file_at cwd path := None))))"

definition local_exists :: "string option \<Rightarrow> string \<Rightarrow> bool \<Rightarrow> string \<Rightarrow> files \<Rightarrow> storage_error + bool" where
  "local_exists cwd baseDir fault key fs =
    (case local_path cwd baseDir key of Inl e \<Rightarrow> Inl e | Inr path \<Rightarrow>
      (if fault then Inl OsFailed else Inr (fs (file_at cwd path) \<noteq> None)))"

definition local_url :: "string \<Rightarrow> storage_error + string" where
  "local_url key =
    (case validateKey key of Some e \<Rightarrow> Inl (IllegalKey e) | None \<Rightarrow> Inr (''/api/artifacts/download/'' @ key))"

text \<open>Two keys that name the same file, such as \<open>a/b\<close> and \<open>a//b\<close>.\<close>

definition same_file :: "string option \<Rightarrow> string \<Rightarrow> string \<Rightarrow> string \<Rightarrow> bool" where
  "same_file cwd baseDir k j = (file_at cwd (path_join baseDir k) = file_at cwd (path_join baseDir j))"

section \<open>The local directory is a store\<close>

lemma local_path_Inr: "local_path cwd baseDir key = Inr path \<Longrightarrow> path = path_join baseDir key"
  by (auto simp: local_path_def Let_def split: option.splits)

interpretation local_store: object_store
  "local_save cwd baseDir fault" "local_get cwd baseDir" "local_delete cwd baseDir fault" "same_file cwd baseDir"
  for cwd baseDir fault
  by unfold_locales
    (auto simp: local_save_def local_get_def local_delete_def same_file_def dest!: local_path_Inr
      split: sum.splits option.splits if_splits)

lemma validateKey_no_climb: "validateKey key = None \<Longrightarrow> \<forall>e\<in>set (split_on slash key). e \<noteq> ''..''"
  by (rule no_climb) (auto simp: validateKey_def split: if_splits)

text \<open>C23: a local store under an absolute directory answers for every key that passes the key check, reads
  back what was saved last, keeps every other object, and only touches files whose path goes on from
  the base directory.\<close>

theorem local_store_contained:
  assumes "rooted baseDir" and "validateKey key = None"
  shows "local_save cwd baseDir False key data fs = (Inr key, fs(path_clean (path_join baseDir key) \<mapsto> data)) \<and>
    local_get cwd baseDir key (snd (local_save cwd baseDir False key data fs)) = Inr data \<and>
    (\<exists>es. clean_elems (path_join baseDir key) = clean_elems baseDir @ es) \<and>
    (\<forall>j. \<not> same_file cwd baseDir key j \<longrightarrow>
       local_get cwd baseDir j (snd (local_save cwd baseDir False key data fs)) = local_get cwd baseDir j fs)"
proof -
  note nc = validateKey_no_climb [OF assms(2)]
  have p: "local_path cwd baseDir key = Inr (path_join baseDir key)"
    using EnsureWithin_join [OF assms(1) nc] assms(2) by (simp add: local_path_def)
  have f: "file_at cwd (path_join baseDir key) = path_clean (path_join baseDir key)"
    using path_join_under(2) [OF assms(1) nc] by (simp add: file_at_def path_abs_def)
  have s: "local_save cwd baseDir False key data fs = (Inr key, fs(path_clean (path_join baseDir key) \<mapsto> data))"
    by (simp add: local_save_def p f)
  show ?thesis
    using s local_store.save_get [OF s] local_store.save_frame [OF s] path_join_under(1) [OF assms(1) nc] by simp
qed

theorem local_store_contained_witness:
  "local_get None ''/data'' ''7/1.0--amd64/x'' (snd (local_save None ''/data'' False ''7/1.0--amd64/x'' ''elf'' Map.empty)) = Inr ''elf''"
proof -
  have "rooted ''/data''" "validateKey ''7/1.0--amd64/x'' = None" by code_simp+
  from local_store_contained [OF this] show ?thesis by blast
qed

end
