(* ===== verification/Artifacts.thy ===== *)
theory Artifacts
imports Storage Orchestrator
begin

text \<open>
  \<open>internal/logic/artifact/artifact.go\<close>: the repository of artifacts, metadata in the database and the
  content in an object store, and the handlers of \<open>internal/handler/artifact.go\<close> that delete. The two
  digests and the inspection of an ELF file are the parameters \<open>md5\<close>, \<open>sha\<close> and \<open>elf\<close>; what can fail
  outside the program (a lock, the temporary file, the metadata statement) is the parameter \<open>fault\<close>.
\<close>

section \<open>The repository\<close>

record 'o world =
  w_files :: files
  w_objects :: 'o

record 'o backend =
  be_save :: "string \<Rightarrow> string \<Rightarrow> 'o world \<Rightarrow> (storage_error + string) \<times> 'o world"
  be_get :: "string \<Rightarrow> 'o world \<Rightarrow> storage_error + string"
  be_delete :: "string \<Rightarrow> 'o world \<Rightarrow> storage_error option \<times> 'o world"

record 'o repo =
  rp_dir :: string
  rp_cwd :: "string option"
  rp_backend :: "'o backend option"
  rp_kind :: string

datatype artifact_error =
    MissingIdentity | ComponentMissing | BadVersion path_error | BadArch path_error | BadOS path_error
  | NoBackend | LockTimeout | UploadBroken | StoreFailed storage_error | MetadataFailed
  | ArtifactMissing | BadComponentID | ErrArtifactInUse | PathRefused path_error | FileMissing

datatype save_fault = LockFault | ReadFault | MetadataFault

text \<open>The local directory as a backend of a repository.\<close>

definition on_files :: "(files \<Rightarrow> 'a \<times> files) \<Rightarrow> 'o world \<Rightarrow> 'a \<times> 'o world" where
  "on_files f w = (case f (w_files w) of (r, fs) \<Rightarrow> (r, w\<lparr>w_files := fs\<rparr>))"

definition local_backend :: "string option \<Rightarrow> string \<Rightarrow> bool \<Rightarrow> 'o backend" where
  "local_backend cwd dir fault =
    \<lparr>be_save = (\<lambda>k v. on_files (local_save cwd dir fault k v)),
     be_get = (\<lambda>k w. local_get cwd dir k (w_files w)),
     be_delete = (\<lambda>k. on_files (local_delete cwd dir fault k))\<rparr>"

definition NewRepo :: "string option \<Rightarrow> string \<Rightarrow> bool \<Rightarrow> 'o repo" where
  "NewRepo cwd dir fault =
    \<lparr>rp_dir = dir, rp_cwd = cwd, rp_backend = Some (local_backend cwd (NewLocal dir) fault), rp_kind = ''local''\<rparr>"

definition NewRepoWithBackend :: "string option \<Rightarrow> string \<Rightarrow> 'o backend option \<Rightarrow> string \<Rightarrow> 'o repo" where
  "NewRepoWithBackend cwd dir b kind =
    \<lparr>rp_dir = dir, rp_cwd = cwd, rp_backend = b, rp_kind = (if kind = [] then ''local'' else kind)\<rparr>"

definition artifactComponentLockKey :: "int \<Rightarrow> string" where
  "artifactComponentLockKey c = ''artifact-component:'' @ int_dec c"

definition artifactIdentityLockKey :: "int \<Rightarrow> string \<Rightarrow> string \<Rightarrow> string \<Rightarrow> string" where
  "artifactIdentityLockKey c version arch os =
    ''artifact-identity:'' @ int_dec c @ ''|'' @ version @ ''|'' @ arch @ ''|'' @ os"

definition storageKey :: "int \<Rightarrow> string \<Rightarrow> string \<Rightarrow> string \<Rightarrow> string \<Rightarrow> string" where
  "storageKey c version os arch filename =
    int_dec c @ ''/'' @ version @ ''-'' @ os @ ''-'' @ arch @ ''/'' @ filename"

text \<open>How long to wait for a lock, in nanoseconds.\<close>

definition SetLockWait :: "int \<Rightarrow> int" where
  "SetLockWait dur =
    (let x = (if dur \<le> 0 then 1800000000000 else dur) in if x > 86400000000000 then 86400000000000 else x)"

section \<open>Save\<close>

text \<open>The checks before anything is written, and the metadata they leave.\<close>

definition checked_meta :: "scope \<Rightarrow> artifact_row \<Rightarrow> db \<Rightarrow> artifact_error + artifact_row" where
  "checked_meta sc meta d =
    (if af_component_id meta = 0 \<or> af_version meta = [] \<or> af_arch meta = [] then Inl MissingIdentity
     else case find (\<lambda>c. cp_id c = af_component_id meta) (d_comps d) of None \<Rightarrow> Inl ComponentMissing | Some c \<Rightarrow>
       (if \<not> scope_allows sc (cp_tenant c) then Inl ComponentMissing
        else case SafeSegment (af_version meta) of Some e \<Rightarrow> Inl (BadVersion e) | None \<Rightarrow>
          (case SafeSegment (af_arch meta) of Some e \<Rightarrow> Inl (BadArch e) | None \<Rightarrow>
            (case (if af_os_family meta = [] then None else SafeSegment (af_os_family meta)) of
               Some e \<Rightarrow> Inl (BadOS e)
             | None \<Rightarrow>
                (let name = (if af_filename meta = []
                             then af_version meta @ ''-'' @ af_os_family meta @ ''-'' @ af_arch meta
                             else af_filename meta)
                 in Inr (meta\<lparr>af_filename := SanitizeFilename name, af_tenant := cp_tenant c\<rparr>))))))"

definition same_identity :: "artifact_row \<Rightarrow> artifact_row \<Rightarrow> bool" where
  "same_identity a b = (af_component_id a = af_component_id b \<and> af_version a = af_version b \<and>
     af_arch a = af_arch b \<and> af_os_family a = af_os_family b)"

text \<open>\<open>ON CONFLICT (component_id, version, arch, os_family) DO UPDATE\<close>: the columns it sets.\<close>

definition overwrite_art :: "artifact_row \<Rightarrow> artifact_row \<Rightarrow> artifact_row" where
  "overwrite_art new old = old\<lparr>af_filename := af_filename new, af_size := af_size new, af_md5 := af_md5 new,
     af_sha256 := af_sha256 new, af_path := af_path new, af_inner_path := af_inner_path new,
     af_notes := af_notes new, af_status := af_status new, af_tenant := af_tenant new\<rparr>"

definition upsert_art :: "artifact_row \<Rightarrow> db \<Rightarrow> artifact_row \<times> db" where
  "upsert_art meta d =
    (case find (same_identity meta) (d_arts d) of
       Some old \<Rightarrow> (meta\<lparr>af_id := af_id old\<rparr>,
         d\<lparr>d_arts := upd_where (same_identity meta) (overwrite_art meta) (d_arts d),
           d_next_art := d_next_art d + 1\<rparr>)
     | None \<Rightarrow> (let row = meta\<lparr>af_id := d_next_art d\<rparr>
               in (row, d\<lparr>d_arts := d_arts d @ [row], d_next_art := d_next_art d + 1\<rparr>)))"

text \<open>The metadata of what was received.\<close>

definition stored_meta ::
    "(string \<Rightarrow> string) \<Rightarrow> (string \<Rightarrow> string) \<Rightarrow> (string \<Rightarrow> string \<Rightarrow> string) \<Rightarrow> string \<Rightarrow> artifact_row \<Rightarrow> string \<Rightarrow> artifact_row" where
  "stored_meta md5 sha elf kind m src =
    (let warn = elf src (af_arch m)
     in m\<lparr>af_size := int (length src), af_md5 := md5 src, af_sha256 := sha src, af_storage := kind,
          af_status := (if af_status m = [] then ''active'' else af_status m),
          af_notes := (if warn = [] then af_notes m
                       else if af_notes m = [] then warn else af_notes m @ ''; '' @ warn),
          af_path := storageKey (af_component_id m) (af_version m) (af_os_family m) (af_arch m) (af_filename m)\<rparr>)"

definition Save ::
    "(string \<Rightarrow> string) \<Rightarrow> (string \<Rightarrow> string) \<Rightarrow> (string \<Rightarrow> string \<Rightarrow> string) \<Rightarrow> save_fault option \<Rightarrow> 'o repo \<Rightarrow> scope \<Rightarrow>
     artifact_row \<Rightarrow> string \<Rightarrow> db \<times> 'o world \<Rightarrow> (artifact_error + artifact_row) \<times> db \<times> 'o world" where
  "Save md5 sha elf fault r sc meta0 src dw =
    (case dw of (d, w) \<Rightarrow>
     (case checked_meta sc meta0 d of Inl e \<Rightarrow> (Inl e, d, w) | Inr meta1 \<Rightarrow>
      (case rp_backend r of None \<Rightarrow> (Inl NoBackend, d, w) | Some b \<Rightarrow>
       (if fault = Some LockFault then (Inl LockTimeout, d, w)
        else if fault = Some ReadFault then (Inl UploadBroken, d, w)
        else
         (let meta = stored_meta md5 sha elf (rp_kind r) meta1 src
          in case be_save b (af_path meta) src w of (Inl e, w1) \<Rightarrow> (Inl (StoreFailed e), d, w1)
             | (Inr k, w1) \<Rightarrow>
                 (if fault = Some MetadataFault then (Inl MetadataFailed, d, snd (be_delete b (af_path meta) w1))
                  else (case upsert_art meta d of (row, d') \<Rightarrow> (Inr row, d', w1))))))))"

section \<open>Reading\<close>

definition List_arts :: "scope \<Rightarrow> int \<Rightarrow> db \<Rightarrow> artifact_row list" where
  "List_arts sc componentID d =
    filter (\<lambda>a. scope_where sc (af_tenant a) \<and> (componentID \<le> 0 \<or> af_component_id a = componentID)) (d_arts d)"

definition art_get :: "scope \<Rightarrow> int \<Rightarrow> db \<Rightarrow> artifact_row option" where
  "art_get sc i d = find (\<lambda>a. af_id a = i \<and> scope_where sc (af_tenant a)) (d_arts d)"

definition PathsByComponent :: "scope \<Rightarrow> int \<Rightarrow> db \<Rightarrow> string list" where
  "PathsByComponent sc c d =
    filter (\<lambda>p. p \<noteq> []) (map af_path (filter (\<lambda>a. af_component_id a = c \<and> scope_where sc (af_tenant a)) (d_arts d)))"

text \<open>The absolute path of an object on the local disk; old rows hold absolute paths.\<close>

definition resolveLocalPath :: "'o repo \<Rightarrow> string \<Rightarrow> path_error + string" where
  "resolveLocalPath r p =
    (let path = (if rooted p then p else path_join (rp_dir r) p)
     in case EnsureWithin (rp_cwd r) (rp_dir r) path of Some e \<Rightarrow> Inl e | None \<Rightarrow> Inr path)"

definition Open :: "'o repo \<Rightarrow> artifact_row \<Rightarrow> 'o world \<Rightarrow> artifact_error + string" where
  "Open r a w =
    (if rp_kind r = ''local'' \<or> af_storage a = ''local'' then
       (case resolveLocalPath r (af_path a) of Inl e \<Rightarrow> Inl (PathRefused e) | Inr path \<Rightarrow>
         (case w_files w (file_at (rp_cwd r) path) of None \<Rightarrow> Inl FileMissing | Some data \<Rightarrow> Inr data))
     else case rp_backend r of None \<Rightarrow> Inl NoBackend | Some b \<Rightarrow>
       (case be_get b (af_path a) w of Inl e \<Rightarrow> Inl (StoreFailed e) | Inr data \<Rightarrow> Inr data))"

section \<open>Deleting\<close>

definition deleteObject :: "'o repo \<Rightarrow> string \<Rightarrow> 'o world \<Rightarrow> artifact_error option \<times> 'o world" where
  "deleteObject r p w =
    (if rp_kind r = ''local'' then
       (case resolveLocalPath r p of Inl e \<Rightarrow> (Some (PathRefused e), w) | Inr path \<Rightarrow>
         (None, w\<lparr>w_files := (w_files w)(file_at (rp_cwd r) path := None)\<rparr>))
     else case rp_backend r of None \<Rightarrow> (Some NoBackend, w) | Some b \<Rightarrow>
       (case be_delete b p w of (None, w') \<Rightarrow> (None, w') | (Some e, w') \<Rightarrow> (Some (StoreFailed e), w')))"

definition RemoveObjects :: "'o repo \<Rightarrow> string list \<Rightarrow> 'o world \<Rightarrow> 'o world" where
  "RemoveObjects r paths w = foldl (\<lambda>w p. snd (deleteObject r p w)) w paths"

definition PurgeByComponent :: "bool \<Rightarrow> 'o repo \<Rightarrow> scope \<Rightarrow> int \<Rightarrow> db \<times> 'o world \<Rightarrow> artifact_error option \<times> db \<times> 'o world" where
  "PurgeByComponent locked r sc c dw =
    (case dw of (d, w) \<Rightarrow>
     (if c \<le> 0 then (Some BadComponentID, d, w)
      else if \<not> locked then (Some LockTimeout, d, w)
      else (None, d\<lparr>d_arts := filter (\<lambda>a. \<not> (af_component_id a = c \<and> scope_where sc (af_tenant a))) (d_arts d)\<rparr>,
            RemoveObjects r (PathsByComponent sc c d) w)))"

text \<open>A running or paused task of that version, or an unfinished command that carries the artifact.\<close>

definition art_in_use :: "artifact_row \<Rightarrow> db \<Rightarrow> bool" where
  "art_in_use a d =
    (exists_row (\<lambda>t. tk_component_id t = Some (af_component_id a) \<and> tk_version t = af_version a \<and>
        tk_status t \<in> set [''running'', ''paused'']) (d_tasks d) \<or>
     exists_row (\<lambda>c. is_active (cm_status c) \<and> ar_id (pl_artifact (cm_payload c)) = af_id a) (d_cmds d))"

definition Delete_art :: "bool \<Rightarrow> 'o repo \<Rightarrow> scope \<Rightarrow> int \<Rightarrow> db \<times> 'o world \<Rightarrow> (artifact_error + artifact_row) \<times> db \<times> 'o world" where
  "Delete_art locked r sc i dw =
    (case dw of (d, w) \<Rightarrow>
     (case art_get sc i d of None \<Rightarrow> (Inl ArtifactMissing, d, w) | Some a \<Rightarrow>
       (if af_component_id a \<le> 0 then (Inl BadComponentID, d, w)
        else if \<not> locked then (Inl LockTimeout, d, w)
        else if art_in_use a d then (Inl ErrArtifactInUse, d, w)
        else (Inr a, d\<lparr>d_arts := filter (\<lambda>x. \<not> (af_id x = i \<and> scope_where sc (af_tenant x))) (d_arts d)\<rparr>,
              (if af_path a = [] then w else RemoveObjects r [af_path a] w)))))"

section \<open>Handlers\<close>

text \<open>\<open>uniquePositiveIDs\<close>: the positive ids, each once, in order.\<close>

fun unique_positive :: "int list \<Rightarrow> int list \<Rightarrow> int list" where
  "unique_positive seen [] = []"
| "unique_positive seen (i # is) =
    (if i \<le> 0 \<or> i \<in> set seen then unique_positive seen is else i # unique_positive (i # seen) is)"

definition artifactDeleteStatus :: "artifact_error \<Rightarrow> nat" where
  "artifactDeleteStatus e =
    (if e = ErrArtifactInUse then 409 else if e = ArtifactMissing then 404 else if e = LockTimeout then 409 else 500)"

fun delete_arts ::
    "bool \<Rightarrow> 'o repo \<Rightarrow> scope \<Rightarrow> int list \<Rightarrow> db \<times> 'o world \<Rightarrow> (int list \<times> (int \<times> artifact_error) list) \<times> db \<times> 'o world" where
  "delete_arts locked r sc [] dw = (([], []), dw)"
| "delete_arts locked r sc (i # is) dw =
    (case Delete_art locked r sc i dw of (res, dw1) \<Rightarrow>
      (case delete_arts locked r sc is dw1 of ((ok, bad), dw2) \<Rightarrow>
        (case res of Inl e \<Rightarrow> ((ok, (i, e) # bad), dw2) | Inr a \<Rightarrow> ((i # ok, bad), dw2))))"

definition ArtifactBatchDelete ::
    "bool \<Rightarrow> 'o repo \<Rightarrow> scope \<Rightarrow> int list \<Rightarrow> db \<times> 'o world \<Rightarrow> (nat + int list \<times> (int \<times> artifact_error) list) \<times> db \<times> 'o world" where
  "ArtifactBatchDelete locked r sc ids0 dw =
    (let ids = unique_positive [] ids0
     in if ids = [] then (Inl 400, dw) else if length ids > 200 then (Inl 400, dw)
        else (case delete_arts locked r sc ids dw of (res, dw') \<Rightarrow> (Inr res, dw')))"

end
