(* ===== verification/ComponentRepo.thy ===== *)
theory ComponentRepo
imports Artifacts TaskDelete "HOL-Library.List_Lexorder" "HOL-Library.Char_ord"
begin

text \<open>
  \<open>internal/logic/component/component.go\<close>: the definitions of components, and the handlers of
  \<open>internal/handler/component.go\<close> that create, change and delete them. Deleting goes through the tasks
  that refer to the component (\<open>ON DELETE RESTRICT\<close>), its artifacts (\<open>ON DELETE CASCADE\<close>) and their
  files. Parsing a URL is the parameter \<open>urlp\<close>, which yields scheme and host.
\<close>

datatype component_error =
    UrlTooLong | UrlNotApi | UrlClimbs | UrlBadChar | UrlUnparsable | UrlScheme | UrlRelative
  | NameTaken | ComponentGone | Referenced nat | BlockedBy nat | UnfinishedCommands nat | StillReferenced

section \<open>Checks and defaults\<close>

definition ValidateScriptURL :: "(string \<Rightarrow> (string \<times> string) option) \<Rightarrow> string \<Rightarrow> component_error option" where
  "ValidateScriptURL urlp raw0 =
    (let raw = trim_space raw0
     in if raw = [] then None
        else if length raw > 2048 then Some UrlTooLong
        else if has_prefix ''/'' raw then
          (if \<not> has_prefix ''/api/'' raw then Some UrlNotApi
           else if contains ''..'' raw then Some UrlClimbs
           else if CHR 0x0D \<in> set raw \<or> CHR 0x0A \<in> set raw then Some UrlBadChar
           else None)
        else case urlp raw of None \<Rightarrow> Some UrlUnparsable | Some (scheme, host) \<Rightarrow>
          (if \<not> equal_fold scheme ''http'' \<and> \<not> equal_fold scheme ''https'' then Some UrlScheme
           else if host = [] then Some UrlRelative
           else None))"

definition defExecTimeout :: "string \<Rightarrow> string" where
  "defExecTimeout s = (if s = [] then ''10m'' else s)"

section \<open>Create and Update\<close>

definition defaulted :: "component_row \<Rightarrow> component_row" where
  "defaulted c = c\<lparr>cp_deploy_mode := (if cp_deploy_mode c = [] then ''replace'' else cp_deploy_mode c),
     cp_backup_dir := (if cp_backup_dir c = [] then ''/var/lib/upgrade-agent/backup'' else cp_backup_dir c),
     cp_service_mgr := (if cp_service_mgr c = [] then ''auto'' else cp_service_mgr c),
     cp_script_url := trim_space (cp_script_url c)\<rparr>"

definition comp_create ::
    "(string \<Rightarrow> (string \<times> string) option) \<Rightarrow> scope \<Rightarrow> component_row \<Rightarrow> db \<Rightarrow> (component_error + int) \<times> db" where
  "comp_create urlp sc c0 d =
    (let c = defaulted c0; i = d_next_comp d; d1 = d\<lparr>d_next_comp := i + 1\<rparr>
     in case ValidateScriptURL urlp (cp_script_url c) of Some e \<Rightarrow> (Inl e, d) | None \<Rightarrow>
       (if exists_row (\<lambda>x. cp_name x = cp_name c) (d_comps d) then (Inl NameTaken, d1)
        else (Inr i, d1\<lparr>d_comps := d_comps d @
          [c\<lparr>cp_id := i, cp_tenant := TenantForWrite sc, cp_exec_timeout := defExecTimeout (cp_exec_timeout c)\<rparr>]\<rparr>)))"

text \<open>The columns \<open>Update\<close> writes: all but the id, the tenant and the name.\<close>

definition comp_set :: "component_row \<Rightarrow> component_row \<Rightarrow> component_row" where
  "comp_set c old = c\<lparr>cp_id := cp_id old, cp_tenant := cp_tenant old, cp_name := cp_name old,
     cp_script_url := trim_space (cp_script_url c), cp_exec_timeout := defExecTimeout (cp_exec_timeout c)\<rparr>"

definition comp_where :: "scope \<Rightarrow> int \<Rightarrow> component_row \<Rightarrow> bool" where
  "comp_where sc i c = (cp_id c = i \<and> scope_where sc (cp_tenant c))"

definition comp_update ::
    "(string \<Rightarrow> (string \<times> string) option) \<Rightarrow> scope \<Rightarrow> component_row \<Rightarrow> db \<Rightarrow> component_error option \<times> db" where
  "comp_update urlp sc c d =
    (case ValidateScriptURL urlp (trim_space (cp_script_url c)) of Some e \<Rightarrow> (Some e, d) | None \<Rightarrow>
      (if rows_affected (comp_where sc (cp_id c)) (d_comps d) = 0 then (Some ComponentGone, d)
       else (None, d\<lparr>d_comps := upd_where (comp_where sc (cp_id c)) (comp_set c) (d_comps d)\<rparr>)))"

section \<open>Reading\<close>

definition comp_get_by_name :: "scope \<Rightarrow> string \<Rightarrow> db \<Rightarrow> component_row option" where
  "comp_get_by_name sc name d = find (\<lambda>c. cp_name c = name \<and> scope_where sc (cp_tenant c)) (d_comps d)"

definition comp_list :: "scope \<Rightarrow> db \<Rightarrow> component_row list" where
  "comp_list sc d = sort_key cp_name (filter (\<lambda>c. scope_where sc (cp_tenant c)) (d_comps d))"

section \<open>Delete\<close>

record delete_plan =
  dp_tasks :: nat
  dp_blocking :: nat
  dp_active :: nat

definition refers :: "scope \<Rightarrow> int \<Rightarrow> task_row \<Rightarrow> bool" where
  "refers sc i t = (tk_component_id t = Some i \<and> scope_where sc (tk_tenant t))"

definition blocking_status :: "string \<Rightarrow> bool" where
  "blocking_status s = (s = ''running'' \<or> s = ''paused'')"

definition active_of_component :: "scope \<Rightarrow> int \<Rightarrow> db \<Rightarrow> nat" where
  "active_of_component sc i d =
    rows_affected (\<lambda>c. is_active (cm_status c) \<and>
      exists_row (\<lambda>t. Some (tk_id t) = cm_task_id c \<and> refers sc i t) (d_tasks d)) (d_cmds d)"

definition CheckDelete :: "scope \<Rightarrow> int \<Rightarrow> bool \<Rightarrow> db \<Rightarrow> delete_plan \<times> component_error option" where
  "CheckDelete sc i cascade d =
    (let none = \<lparr>dp_tasks = 0, dp_blocking = 0, dp_active = 0\<rparr>
     in if \<not> exists_row (comp_where sc i) (d_comps d) then (none, Some ComponentGone)
        else
         (let plan = none\<lparr>dp_tasks := rows_affected (refers sc i) (d_tasks d),
                          dp_blocking := rows_affected (\<lambda>t. refers sc i t \<and> blocking_status (tk_status t)) (d_tasks d)\<rparr>
          in if dp_tasks plan > 0 \<and> \<not> cascade then (plan, Some (Referenced (dp_tasks plan)))
             else if dp_blocking plan > 0 then (plan, Some (BlockedBy (dp_blocking plan)))
             else if dp_tasks plan > 0 then
               (let plan' = plan\<lparr>dp_active := active_of_component sc i d\<rparr>
                in if dp_active plan' > 0 then (plan', Some (UnfinishedCommands (dp_active plan'))) else (plan', None))
             else (plan, None)))"

text \<open>The transaction; a failed statement, such as one a foreign key refuses, rolls it back.\<close>

definition comp_delete_tx :: "scope \<Rightarrow> int \<Rightarrow> bool \<Rightarrow> db \<Rightarrow> (component_error + nat) \<times> db" where
  "comp_delete_tx sc i cascade d =
    (let n = rows_affected (refers sc i) (d_tasks d);
         blocking = rows_affected (\<lambda>t. refers sc i t \<and> blocking_status (tk_status t)) (d_tasks d);
         d1 = (if cascade then delete_tasks sc (map tk_id (filter (refers sc i) (d_tasks d))) d else d)
     in if \<not> exists_row (comp_where sc i) (d_comps d) then (Inl ComponentGone, d)
        else if n > 0 \<and> \<not> cascade then (Inl (Referenced n), d)
        else if cascade \<and> blocking > 0 then (Inl (BlockedBy blocking), d)
        else if cascade \<and> active_of_component sc i d > 0 then (Inl (UnfinishedCommands (active_of_component sc i d)), d)
        else if exists_row (\<lambda>t. tk_component_id t = Some i) (d_tasks d1) then (Inl StillReferenced, d)
        else (Inr (if cascade then n else 0),
              d1\<lparr>d_comps := filter (\<lambda>c. \<not> comp_where sc i c) (d_comps d1),
                 d_arts := filter (\<lambda>a. af_component_id a \<noteq> i) (d_arts d1)\<rparr>))"

definition comp_delete :: "scope \<Rightarrow> int \<Rightarrow> bool \<Rightarrow> db \<Rightarrow> (component_error + nat) \<times> db" where
  "comp_delete sc i cascade d =
    (case snd (CheckDelete sc i cascade d) of Some e \<Rightarrow> (Inl e, d) | None \<Rightarrow> comp_delete_tx sc i cascade d)"

section \<open>Handlers\<close>

text \<open>The answer is the HTTP status of a failure or the number of tasks that went with the component.\<close>

definition deleteComponent ::
    "bool \<Rightarrow> 'o repo \<Rightarrow> scope \<Rightarrow> int \<Rightarrow> bool \<Rightarrow> db \<times> 'o world \<Rightarrow> (nat + nat) \<times> db \<times> 'o world" where
  "deleteComponent locked r sc i cascade dw =
    (case dw of (d, w) \<Rightarrow>
      (case snd (CheckDelete sc i cascade d) of Some e \<Rightarrow> (Inl 400, d, w) | None \<Rightarrow>
        (if i \<le> 0 \<or> \<not> locked then (Inl 409, d, w)
         else (case comp_delete sc i cascade d of (Inl e, d') \<Rightarrow> (Inl 500, d', w)
               | (Inr n, d') \<Rightarrow> (Inr n, d', RemoveObjects r (PathsByComponent sc i d) w)))))"

definition ComponentCreate ::
    "(string \<Rightarrow> (string \<times> string) option) \<Rightarrow> scope \<Rightarrow> component_row \<Rightarrow> db \<Rightarrow> (nat + int) \<times> db" where
  "ComponentCreate urlp sc c d =
    (if cp_name c = [] then (Inl 400, d)
     else case ValidateScriptURL urlp (cp_script_url c) of Some e \<Rightarrow> (Inl 400, d) | None \<Rightarrow>
       (case comp_create urlp sc c d of (Inl e, d') \<Rightarrow> (Inl 500, d') | (Inr i, d') \<Rightarrow> (Inr i, d')))"

definition ComponentUpdate ::
    "(string \<Rightarrow> (string \<times> string) option) \<Rightarrow> scope \<Rightarrow> int \<Rightarrow> component_row \<Rightarrow> db \<Rightarrow> nat option \<times> db" where
  "ComponentUpdate urlp sc i c d =
    (case ValidateScriptURL urlp (cp_script_url c) of Some e \<Rightarrow> (Some 400, d) | None \<Rightarrow>
      (case comp_update urlp sc (c\<lparr>cp_id := i\<rparr>) d of (Some e, d') \<Rightarrow> (Some 500, d') | (None, d') \<Rightarrow> (None, d')))"

fun delete_comps ::
    "bool \<Rightarrow> 'o repo \<Rightarrow> scope \<Rightarrow> int list \<Rightarrow> db \<times> 'o world \<Rightarrow> (int list \<times> (int \<times> nat) list) \<times> db \<times> 'o world" where
  "delete_comps locked r sc [] dw = (([], []), dw)"
| "delete_comps locked r sc (i # is) dw =
    (case deleteComponent locked r sc i False dw of (res, dw1) \<Rightarrow>
      (case delete_comps locked r sc is dw1 of ((ok, bad), dw2) \<Rightarrow>
        (case res of Inl e \<Rightarrow> ((ok, (i, e) # bad), dw2) | Inr n \<Rightarrow> ((i # ok, bad), dw2))))"

definition ComponentBatchDelete ::
    "bool \<Rightarrow> 'o repo \<Rightarrow> scope \<Rightarrow> int list \<Rightarrow> db \<times> 'o world \<Rightarrow> (nat + int list \<times> (int \<times> nat) list) \<times> db \<times> 'o world" where
  "ComponentBatchDelete locked r sc ids0 dw =
    (let ids = unique_positive [] ids0
     in if ids = [] then (Inl 400, dw) else if length ids > 200 then (Inl 400, dw)
        else (case delete_comps locked r sc ids dw of (res, dw') \<Rightarrow> (Inr res, dw')))"

end
