(* ===== verification/ArtifactSafety.thy ===== *)
theory ArtifactSafety
  imports Artifacts ComponentRepo DeleteSafety
begin

text \<open>
  What the artifact repository promises: a download returns the uploaded bytes with the digests that
  were stored, an identity has one row, artifacts in use stay, and where the promise ends.
\<close>

section \<open>Keys and paths\<close>

lemma storageKey_not_rooted:
  assumes "0 \<le> c"
  shows "\<not> rooted (storageKey c v os arch f)"
proof -
  obtain x xs where n: "nat_dec (nat c) = x # xs" by (cases "nat_dec (nat c)") (auto simp: nat_dec_not_Nil)
  then have "48 \<le> byte x" using nat_dec_digits [of x "nat c"] by simp
  then have "x \<noteq> slash" by (auto simp: byte_def)
  then show ?thesis using assms by (simp add: storageKey_def int_dec_def n rooted_def)
qed

lemma save_checks_key:
  "local_save cwd base fault key data fs = (Inr k, fs') \<Longrightarrow>
   validateKey key = None \<and> EnsureWithin cwd base (path_join base key) = None \<and>
   fs' = fs(file_at cwd (path_join base key) \<mapsto> data)"
  by (auto simp: local_save_def local_path_def Let_def split: option.splits if_splits sum.splits)

section \<open>Saving\<close>

lemma checked_meta_fields:
  "checked_meta sc meta d = Inr m \<Longrightarrow> af_component_id m = af_component_id meta \<and> af_version m = af_version meta \<and>
   af_arch m = af_arch meta \<and> af_os_family m = af_os_family meta \<and> af_component_id m \<noteq> 0 \<and>
   (\<exists>c\<in>set (d_comps d). cp_id c = af_component_id m \<and> scope_allows sc (cp_tenant c) \<and> af_tenant m = cp_tenant c)"
  by (auto simp: checked_meta_def Let_def find_Some_iff dest: find_SomeD split: if_splits option.splits)

definition uq_identity :: "db \<Rightarrow> bool" where
  "uq_identity d \<longleftrightarrow> distinct (map (\<lambda>a. (af_component_id a, af_version a, af_arch a, af_os_family a)) (d_arts d))"

lemma same_identity_iff:
  "same_identity a b \<longleftrightarrow> (af_component_id a, af_version a, af_arch a, af_os_family a) =
     (af_component_id b, af_version b, af_arch b, af_os_family b)"
  by (simp add: same_identity_def)

lemma upsert_art_spec:
  assumes "upsert_art m d = (row, d')"
  shows "same_identity m row \<and> af_md5 row = af_md5 m \<and> af_sha256 row = af_sha256 m \<and> af_path row = af_path m \<and>
    af_size row = af_size m \<and> af_tenant row = af_tenant m \<and> (uq_identity d \<longrightarrow> uq_identity d') \<and>
    (\<exists>x\<in>set (d_arts d'). same_identity m x \<and> af_id x = af_id row \<and> af_md5 x = af_md5 m \<and> af_sha256 x = af_sha256 m \<and>
       af_path x = af_path m \<and> af_tenant x = af_tenant m) \<and>
    (\<forall>x\<in>set (d_arts d). \<not> same_identity m x \<longrightarrow> x \<in> set (d_arts d'))"
proof (cases "find (same_identity m) (d_arts d)")
  case None
  then have "\<forall>x\<in>set (d_arts d). \<not> same_identity m x" by (simp add: find_None_all)
  then show ?thesis using assms None
    by (auto simp: upsert_art_def Let_def uq_identity_def same_identity_def)
next
  case (Some old)
  then have old: "old \<in> set (d_arts d)" "same_identity m old" by (auto dest: find_SomeD)
  have d': "d_arts d' = upd_where (same_identity m) (overwrite_art m) (d_arts d)" "row = m\<lparr>af_id := af_id old\<rparr>"
    using assms Some by (auto simp: upsert_art_def)
  have "uq_identity d'" if "uq_identity d"
    using that unfolding uq_identity_def d'(1) by (subst map_upd_where) (auto simp: overwrite_art_def)
  moreover have "overwrite_art m old \<in> set (d_arts d')" using old by (auto simp: d' set_upd_where image_iff)
  moreover have "x \<in> set (d_arts d')" if "x \<in> set (d_arts d)" "\<not> same_identity m x" for x
    using that by (force simp: d' set_upd_where image_iff)
  ultimately show ?thesis using old(2)
    by (auto simp: d'(2) same_identity_def overwrite_art_def intro!: bexI [of _ "overwrite_art m old"])
qed

text \<open>What a successful \<open>Save\<close> has done.\<close>

lemma stored_meta_fields [simp]:
  "af_md5 (stored_meta md5 sha elf k m src) = md5 src" "af_sha256 (stored_meta md5 sha elf k m src) = sha src"
  "af_tenant (stored_meta md5 sha elf k m src) = af_tenant m" "same_identity m (stored_meta md5 sha elf k m src)"
  "same_identity (stored_meta md5 sha elf k m src) x = same_identity m x"
  "af_path (stored_meta md5 sha elf k m src) =
     storageKey (af_component_id m) (af_version m) (af_os_family m) (af_arch m) (af_filename m)"
  by (auto simp: stored_meta_def Let_def same_identity_def)

lemma Save_Inr:
  assumes "Save md5 sha elf fault r sc meta src (d, w) = (Inr row, d', w')"
  obtains m b k where "checked_meta sc meta d = Inr m" "rp_backend r = Some b"
    "upsert_art (stored_meta md5 sha elf (rp_kind r) m src) d = (row, d')"
    "be_save b (af_path (stored_meta md5 sha elf (rp_kind r) m src)) src w = (Inr k, w')"
  using assms by (auto simp: Save_def Let_def split: sum.splits option.splits prod.splits if_splits)

text \<open>The look-up prefers an exact architecture and system, so it finds the row of an identity.\<close>

lemma artifact_find_exact:
  assumes "uq_identity d" "x \<in> set (d_arts d)" "scope_where sc (af_tenant x)"
  shows "artifact_find sc (af_component_id x) (af_version x) (af_arch x) (af_os_family x) d = Some x"
proof -
  let ?k = "\<lambda>a. (if af_arch a = af_arch x then 0 else 2) + (if af_os_family a = af_os_family x then 0 else 1 :: int)"
  let ?P = "\<lambda>a. af_component_id a = af_component_id x \<and> af_version a = af_version x \<and> (af_arch a = af_arch x \<or> af_arch a = ''all'') \<and>
    (af_os_family a = af_os_family x \<or> af_os_family a = []) \<and> scope_where sc (af_tenant a)"
  have "\<exists>r. min_row ?k ?P (d_arts d) = Some r"
    using assms(2,3) min_row_None [of ?k ?P "d_arts d"] by (cases "min_row ?k ?P (d_arts d)") auto
  then obtain r where r: "min_row ?k ?P (d_arts d) = Some r" by blast
  have "?k r \<le> ?k x" by (rule min_row_Some(3) [OF r assms(2)]) (use assms(3) in simp)
  then have "af_arch r = af_arch x" "af_os_family r = af_os_family x" by (auto split: if_splits)
  with min_row_Some(1,2) [OF r] assms(1,2) have "r = x"
    by (auto simp: uq_identity_def dest: distinct_key_eq)
  with r show ?thesis by (simp add: artifact_find_def)
qed

text \<open>C18: with a local store, after a successful upload the look-up by the identity that was uploaded - component,
  version, architecture and system - finds one row, which has the number of the answer, the digests of the
  uploaded bytes and the owner of the component, and opening it yields exactly these bytes; the rows of all other
  identities stay.\<close>

theorem Save_roundtrip:
  assumes "Save md5 sha elf fault (NewRepo cwd dir osfault) sc meta src (d, w) = (Inr row, d', w')"
    and "rooted dir" and "uq_identity d" and "\<forall>c\<in>set (d_comps d). 0 \<le> cp_id c"
  shows "(\<exists>x. artifact_find sc (af_component_id meta) (af_version meta) (af_arch meta) (af_os_family meta) d' = Some x \<and>
       same_identity meta x \<and> af_id x = af_id row \<and> af_md5 x = md5 src \<and> af_sha256 x = sha src \<and>
       (\<exists>c\<in>set (d_comps d). cp_id c = af_component_id x \<and> scope_allows sc (cp_tenant c) \<and> af_tenant x = cp_tenant c) \<and>
       Open (NewRepo cwd dir osfault) x w' = Inr src) \<and>
    same_identity meta row \<and> Open (NewRepo cwd dir osfault) row w' = Inr src \<and> af_md5 row = md5 src \<and> af_sha256 row = sha src \<and>
    uq_identity d' \<and> (\<forall>x\<in>set (d_arts d). \<not> same_identity row x \<longrightarrow> x \<in> set (d_arts d'))"
proof -
  let ?r = "NewRepo cwd dir osfault :: 'a repo"
  obtain m b k where s: "checked_meta sc meta d = Inr m" "rp_backend ?r = Some b"
    "upsert_art (stored_meta md5 sha elf (rp_kind ?r) m src) d = (row, d')"
    "be_save b (af_path (stored_meta md5 sha elf (rp_kind ?r) m src)) src w = (Inr k, w')"
    by (rule Save_Inr [OF assms(1)])
  note u = upsert_art_spec [OF s(3), unfolded stored_meta_fields]
  note cm = checked_meta_fields [OF s(1)]
  have mm: "same_identity m y = same_identity meta y" for y using cm by (simp add: same_identity_def)
  have dir: "NewLocal dir = dir" using assms(2) by (auto simp: NewLocal_def rooted_def)
  have b: "b = local_backend cwd dir osfault" using s(2) by (simp add: NewRepo_def dir)
  with s(4) u have "local_save cwd dir osfault (af_path row) src (w_files w) = (Inr k, w_files w')"
    by (auto simp: local_backend_def on_files_def split: prod.splits)
  note f = save_checks_key [OF this]
  have "0 \<le> af_component_id m" using cm assms(4) by auto
  then have nr: "\<not> rooted (af_path row)" using u by (simp add: storageKey_not_rooted)
  have open_row: "Open ?r x w' = Inr src" if "af_path x = af_path row" for x
    using f that by (simp add: Open_def NewRepo_def resolveLocalPath_def nr Let_def)
  from u obtain x where x: "x \<in> set (d_arts d')" "same_identity m x" "af_id x = af_id row" "af_md5 x = md5 src"
    "af_sha256 x = sha src" "af_path x = af_path row" "af_tenant x = af_tenant m" by auto
  from cm obtain c where c: "c \<in> set (d_comps d)" "cp_id c = af_component_id m" "scope_allows sc (cp_tenant c)"
    "af_tenant m = cp_tenant c" by blast
  have uq: "uq_identity d'" using u assms(3) by blast
  have "scope_where sc (af_tenant x)" using c x(7) by (simp add: scope_where_def scope_allows_def)
  from artifact_find_exact [OF uq x(1) this] x(2)
  have "artifact_find sc (af_component_id meta) (af_version meta) (af_arch meta) (af_os_family meta) d' = Some x"
    unfolding mm by (simp add: same_identity_def)
  moreover have "cp_id c = af_component_id x \<and> af_tenant x = cp_tenant c" using c x(2,7) by (simp add: same_identity_def)
  moreover have "\<forall>x\<in>set (d_arts d). \<not> same_identity row x \<longrightarrow> x \<in> set (d_arts d')"
    using u by (auto simp: same_identity_def)
  ultimately show ?thesis using x c open_row [of x] open_row [of row] u uq mm by blast
qed

text \<open>A repeated upload of an identity replaces the bytes but not the kind of store in its row (\<open>storage\<close> is not among
  the columns that \<open>ON CONFLICT\<close> sets): after the server was moved to another store, the row goes on naming the
  old one, where \<open>Open\<close> then looks.\<close>

lemma reupload_keeps_storage:
  assumes "upsert_art m d = (row, d')" "old \<in> set (d_arts d)" "same_identity m old"
  shows "\<exists>x\<in>set (d_arts d'). same_identity m x \<and> af_path x = af_path m \<and> af_storage x = af_storage old"
proof -
  have "find (same_identity m) (d_arts d) \<noteq> None" using assms(2,3) by (auto simp: find_None_all)
  then have "d_arts d' = upd_where (same_identity m) (overwrite_art m) (d_arts d)"
    using assms(1) by (auto simp: upsert_art_def split: option.splits)
  with assms(2,3) show ?thesis
    by (intro bexI [of _ "overwrite_art m old"]) (auto simp: set_upd_where image_iff overwrite_art_def same_identity_def)
qed

section \<open>Deleting\<close>

lemma Delete_art_Inr:
  assumes "Delete_art locked r sc i (d, w) = (Inr a, d', w')"
  shows "art_get sc i d = Some a" and "\<not> art_in_use a d"
    and "d' = d\<lparr>d_arts := filter (\<lambda>x. \<not> (af_id x = i \<and> scope_where sc (af_tenant x))) (d_arts d)\<rparr>"
  using assms by (auto simp: Delete_art_def split: option.splits if_splits)

text \<open>Deleting an artifact fails without any effect or removes exactly that artifact of the scope, and
  then no running or paused task of its version and no unfinished command uses it.\<close>

theorem Delete_art_safe:
  "(\<exists>e. Delete_art locked r sc i (d, w) = (Inl e, d, w)) \<or>
   (\<exists>a w'. Delete_art locked r sc i (d, w) =
      (Inr a, d\<lparr>d_arts := filter (\<lambda>x. \<not> (af_id x = i \<and> scope_where sc (af_tenant x))) (d_arts d)\<rparr>, w') \<and>
      a \<in> set (d_arts d) \<and> af_id a = i \<and> scope_where sc (af_tenant a) \<and> \<not> art_in_use a d)"
  by (auto simp: Delete_art_def art_get_def dest!: find_SomeD split: option.split)

text \<open>
  Deleting a component never takes anything that is still in use with it, and when it fails nothing has
  happened, neither in the database nor to the files.
\<close>

lemma active_of_component_0:
  "active_of_component sc i d = 0 \<Longrightarrow> c \<in> set (d_cmds d) \<Longrightarrow> is_active (cm_status c) \<Longrightarrow>
   t \<in> set (d_tasks d) \<Longrightarrow> refers sc i t \<Longrightarrow> cm_task_id c \<noteq> Some (tk_id t)"
  by (auto simp: active_of_component_def table_simps)

lemma cascade_keeps_active:
  assumes "refs_agree d" and "active_of_component sc i d = 0" and "distinct (map tk_id (d_tasks d))"
    and "c \<in> set (d_cmds d)" "is_active (cm_status c)"
  shows "c \<in> set (d_cmds (delete_tasks sc (map tk_id (filter (refers sc i) (d_tasks d))) d))"
proof -
  let ?ids = "map tk_id (filter (refers sc i) (d_tasks d))"
  have g: "\<exists>t\<in>set (d_tasks d). refers sc i t \<and> tk_id t = j" if "j \<in> gone_ids sc ?ids d" for j
    using that by (auto simp: gone_ids_def)
  have "cm_task_id c \<noteq> Some j" if "j \<in> gone_ids sc ?ids d" for j
    using g [OF that] active_of_component_0 [OF assms(2,4,5)] by auto
  moreover have "cm_task_host_id c \<noteq> Some (th_id h)" if "h \<in> set (d_thosts d)" "th_task_id h \<in> gone_ids sc ?ids d" for h
    using that calculation assms(1,4) by (auto simp: refs_agree_def)
  ultimately show ?thesis using assms(4) by (auto simp: delete_tasks_alt)
qed

lemma comp_delete_Inr:
  assumes "comp_delete sc i cascade d = (Inr n, d')"
  shows "exists_row (comp_where sc i) (d_comps d)" and "snd (CheckDelete sc i cascade d) = None"
    and "\<exists>d1. d1 = (if cascade then delete_tasks sc (map tk_id (filter (refers sc i) (d_tasks d))) d else d) \<and>
      \<not> exists_row (\<lambda>t. tk_component_id t = Some i) (d_tasks d1) \<and>
      d' = d1\<lparr>d_comps := filter (\<lambda>c. \<not> comp_where sc i c) (d_comps d1), d_arts := filter (\<lambda>a. af_component_id a \<noteq> i) (d_arts d1)\<rparr>"
    and "cascade \<Longrightarrow> rows_affected (\<lambda>t. refers sc i t \<and> blocking_status (tk_status t)) (d_tasks d) = 0 \<and> active_of_component sc i d = 0"
  using assms by (auto simp: comp_delete_def comp_delete_tx_def Let_def split: option.splits if_splits)

lemma comp_delete_Inl: "comp_delete sc i cascade d = (Inl e, d') \<Longrightarrow> d' = d"
  by (auto simp: comp_delete_def comp_delete_tx_def Let_def split: option.splits if_splits)

text \<open>C19: deleting a component either fails and changes neither the database nor a file, or removes the
  component with its artifacts and, only when asked to, the tasks that refer to it; then no task refers
  to it, every task that went was neither running nor paused, and every unfinished command is still
  there.\<close>

theorem deleteComponent_safe:
  assumes "refs_agree d" and "distinct (map tk_id (d_tasks d))"
  shows "(\<exists>e. deleteComponent locked r sc i cascade (d, w) = (Inl e, d, w)) \<or>
    (\<exists>n d' w'. deleteComponent locked r sc i cascade (d, w) = (Inr n, d', w') \<and>
       (\<forall>c\<in>set (d_comps d'). \<not> comp_where sc i c) \<and> (\<forall>a\<in>set (d_arts d'). af_component_id a \<noteq> i) \<and>
       (\<forall>t\<in>set (d_tasks d'). tk_component_id t \<noteq> Some i) \<and> (cascade \<or> d_tasks d' = d_tasks d) \<and>
       (\<forall>t\<in>set (d_tasks d). t \<in> set (d_tasks d') \<or> refers sc i t \<and> \<not> blocking_status (tk_status t)) \<and>
       (\<forall>c\<in>set (d_cmds d). is_active (cm_status c) \<longrightarrow> c \<in> set (d_cmds d')))"
proof (cases "deleteComponent locked r sc i cascade (d, w)")
  case (fields res d' w')
  show ?thesis
  proof (cases res)
    case (Inl e)
    then have "d' = d \<and> w' = w" using fields
      by (auto simp: deleteComponent_def dest: comp_delete_Inl split: option.splits if_splits prod.splits sum.splits)
    then show ?thesis using fields Inl by blast
  next
    case (Inr n)
    then have c: "comp_delete sc i cascade d = (Inr n, d')" using fields
      by (auto simp: deleteComponent_def split: option.splits if_splits prod.splits sum.splits)
    let ?ids = "map tk_id (filter (refers sc i) (d_tasks d))"
    obtain d1 where d1: "d1 = (if cascade then delete_tasks sc ?ids d else d)"
      "\<not> exists_row (\<lambda>t. tk_component_id t = Some i) (d_tasks d1)"
      "d' = d1\<lparr>d_comps := filter (\<lambda>c. \<not> comp_where sc i c) (d_comps d1), d_arts := filter (\<lambda>a. af_component_id a \<noteq> i) (d_arts d1)\<rparr>"
      using comp_delete_Inr(3) [OF c] by blast
    have b: "cascade \<Longrightarrow> t \<in> set (d_tasks d) \<Longrightarrow> refers sc i t \<Longrightarrow> \<not> blocking_status (tk_status t)" for t
      using comp_delete_Inr(4) [OF c] by (auto simp: table_simps)
    have tasks: "t \<in> set (d_tasks d1) \<or> refers sc i t \<and> \<not> blocking_status (tk_status t)" if "t \<in> set (d_tasks d)" for t
    proof (cases "cascade \<and> tk_id t \<in> set ?ids")
      case True
      then obtain t' where "t' \<in> set (d_tasks d)" "refers sc i t'" "tk_id t' = tk_id t" by auto
      then have "refers sc i t" using that distinct_map_unique [OF assms(2)] by blast
      then show ?thesis using b True that by blast
    next
      case False
      then show ?thesis using that by (auto simp: d1(1) delete_tasks_def Let_def)
    qed
    have cmds: "c \<in> set (d_cmds d1)" if "c \<in> set (d_cmds d)" "is_active (cm_status c)" for c
      using that cascade_keeps_active [OF assms(1) _ assms(2) that] comp_delete_Inr(4) [OF c] by (simp add: d1(1))
    show ?thesis
      using fields Inr tasks cmds d1(2) by (intro disjI2) (auto simp: d1(3) table_simps d1(1))
  qed
qed

end
