(* ===== verification/ArtifactExamples.thy ===== *)
theory ArtifactExamples
imports ArtifactSafety TaskExamples
begin

text \<open>
  Uploads to a local directory in the sample database: the properties applied where their hypotheses
  hold, and two concrete runs that show where the repository's promise ends.
\<close>

definition ex_meta :: "string \<Rightarrow> string \<Rightarrow> artifact_row" where
  "ex_meta version os = \<lparr>af_id = 0, af_tenant = 0, af_component_id = 1, af_version = version, af_os_family = os,
     af_arch = ''amd64'', af_filename = ''a.bin'', af_size = 0, af_md5 = [], af_sha256 = [], af_storage = [],
     af_path = [], af_inner_path = [], af_notes = [], af_status = []\<rparr>"

text \<open>The content stands for its digests here.\<close>

definition ex_save ::
    "save_fault option \<Rightarrow> artifact_row \<Rightarrow> string \<Rightarrow> db \<times> unit world \<Rightarrow> (artifact_error + artifact_row) \<times> db \<times> unit world" where
  "ex_save fault meta src dw =
    Save (\<lambda>s. s) (\<lambda>s. s) (\<lambda>s a. []) fault (NewRepo None ''/data'' False) ex_scope meta src dw"

definition ex_world :: "unit world" where
  "ex_world = \<lparr>w_files = (\<lambda>p. None), w_objects = ()\<rparr>"

theorem Save_roundtrip_witness:
  "\<exists>row d' w'. ex_save None (ex_meta ''1.0'' []) ''elf'' (ex_db, ex_world) = (Inr row, d', w') \<and>
    Open (NewRepo None ''/data'' False) row w' = Inr ''elf'' \<and> af_sha256 row = ''elf''"
proof -
  have "case ex_save None (ex_meta ''1.0'' []) ''elf'' (ex_db, ex_world) of (Inr row, dw) \<Rightarrow> True | (Inl e, dw) \<Rightarrow> False"
    by code_simp
  then obtain row d' w' where e: "ex_save None (ex_meta ''1.0'' []) ''elf'' (ex_db, ex_world) = (Inr row, d', w')"
    by (auto split: prod.splits sum.splits)
  have "rooted ''/data''" "uq_identity ex_db" "\<forall>c\<in>set (d_comps ex_db). 0 \<le> cp_id c"
    by (simp_all add: rooted_def uq_identity_def ex_db_def ex_rows)
  from Save_roundtrip [OF e [unfolded ex_save_def] this] e show ?thesis by blast
qed

text \<open>Two artifacts of one component whose version and system join to the same text share their
  storage key: the second upload succeeds and silently replaces the bytes of the first, whose row keeps
  the digests of the lost ones.\<close>

theorem storageKey_collision:
  "\<exists>a d1 w1 b d2 w2.
    ex_save None (ex_meta ''1.0-rhel'' ''7'') ''one'' (ex_db, ex_world) = (Inr a, d1, w1) \<and>
    ex_save None (ex_meta ''1.0'' ''rhel-7'') ''two'' (d1, w1) = (Inr b, d2, w2) \<and>
    \<not> same_identity a b \<and> a \<in> set (d_arts d2) \<and> af_sha256 a = ''one'' \<and>
    Open (NewRepo None ''/data'' False) a w2 = Inr ''two''"
proof -
  let ?s1 = "ex_save None (ex_meta ''1.0-rhel'' ''7'') ''one'' (ex_db, ex_world)"
  have "case ?s1 of (Inl e, dw1) \<Rightarrow> False | (Inr a, dw1) \<Rightarrow>
     (case ex_save None (ex_meta ''1.0'' ''rhel-7'') ''two'' dw1 of (Inl e, dw2) \<Rightarrow> False | (Inr b, d2, w2) \<Rightarrow>
       \<not> same_identity a b \<and> list_ex (\<lambda>x. x = a) (d_arts d2) \<and> af_sha256 a = ''one'' \<and>
       (case Open (NewRepo None ''/data'' False) a w2 of Inl e \<Rightarrow> False | Inr s \<Rightarrow> s = ''two''))"
    by code_simp
  moreover obtain r1 d1 w1 where 1: "?s1 = (r1, d1, w1)" by (cases ?s1) auto
  moreover obtain r2 d2 w2 where 2: "ex_save None (ex_meta ''1.0'' ''rhel-7'') ''two'' (d1, w1) = (r2, d2, w2)"
    by (cases "ex_save None (ex_meta ''1.0'' ''rhel-7'') ''two'' (d1, w1)") auto
  ultimately obtain a b where "r1 = Inr a" "r2 = Inr b" "\<not> same_identity a b" "a \<in> set (d_arts d2)"
    "af_sha256 a = ''one''" "Open (NewRepo None ''/data'' False) a w2 = Inr ''two''"
    by (cases r1; cases r2; simp add: list_ex_iff; cases "Open (NewRepo None ''/data'' False) (projr r1) w2"; simp)
  with 1 2 show ?thesis by blast
qed

text \<open>When the metadata of a repeated upload cannot be written, the clean-up deletes the object under
  the key the existing row still names: the artifact that was there before is lost.\<close>

theorem failed_reupload_loses_file:
  "\<exists>a d1 w1 w2.
    ex_save None (ex_meta ''1.0'' []) ''one'' (ex_db, ex_world) = (Inr a, d1, w1) \<and>
    ex_save (Some MetadataFault) (ex_meta ''1.0'' []) ''two'' (d1, w1) = (Inl MetadataFailed, d1, w2) \<and>
    a \<in> set (d_arts d1) \<and> Open (NewRepo None ''/data'' False) a w2 = Inl FileMissing"
proof -
  let ?s1 = "ex_save None (ex_meta ''1.0'' []) ''one'' (ex_db, ex_world)"
  have *: "case ?s1 of (Inl e, dw1) \<Rightarrow> False | (Inr a, d1, w1) \<Rightarrow> list_ex (\<lambda>x. x = a) (d_arts d1) \<and>
     (case ex_save (Some MetadataFault) (ex_meta ''1.0'' []) ''two'' (d1, w1) of (Inr b, dw2) \<Rightarrow> False | (Inl e, d2, w2) \<Rightarrow>
       e = MetadataFailed \<and> (case Open (NewRepo None ''/data'' False) a w2 of Inl e \<Rightarrow> e = FileMissing | Inr s \<Rightarrow> False))"
    by code_simp
  have "ex_save f m src (d, w) = (Inl e, d2, w2) \<Longrightarrow> d2 = d" for f m src d w e d2 w2
    by (auto simp: ex_save_def Save_def Let_def split: sum.splits option.splits prod.splits if_splits)
  note same = this
  obtain r1 d1 w1 where 1: "?s1 = (r1, d1, w1)" by (cases ?s1) auto
  obtain r2 d2 w2 where 2: "ex_save (Some MetadataFault) (ex_meta ''1.0'' []) ''two'' (d1, w1) = (r2, d2, w2)"
    by (cases "ex_save (Some MetadataFault) (ex_meta ''1.0'' []) ''two'' (d1, w1)") auto
  from * 1 2 obtain a e where "r1 = Inr a" "r2 = Inl e" "a \<in> set (d_arts d1)" "e = MetadataFailed"
    "Open (NewRepo None ''/data'' False) a w2 = Inl FileMissing"
    by (cases r1; cases r2; simp add: list_ex_iff; cases "Open (NewRepo None ''/data'' False) (projr r1) w2"; simp)
  with 1 2 same show ?thesis by blast
qed

text \<open>The sample database without its running task.\<close>

definition ex_quiet_db :: db where
  "ex_quiet_db = ex_db\<lparr>d_tasks := [ex_task2], d_thosts := [ex_thost3], d_cmds := [ex_cmd2, ex_cmd3]\<rparr>"

theorem deleteComponent_safe_witness:
  "\<exists>d' w'. deleteComponent True (NewRepo None ''/data'' False) ex_scope 1 True (ex_quiet_db, ex_world) = (Inr 1, d', w') \<and>
    d_comps d' = [] \<and> d_tasks d' = [] \<and> ex_cmd2 \<in> set (d_cmds d')"
proof -
  have r: "refs_agree ex_quiet_db" "distinct (map tk_id (d_tasks ex_quiet_db))"
    by (simp_all add: refs_agree_def ex_quiet_db_def ex_rows)
  let ?c = "deleteComponent True (NewRepo None ''/data'' False) ex_scope 1 True (ex_quiet_db, ex_world)"
  have "case ?c of (Inl e, dw) \<Rightarrow> False | (Inr n, d', w') \<Rightarrow> n = 1 \<and> d_comps d' = [] \<and> d_tasks d' = []" by code_simp
  then obtain d' w' where e: "?c = (Inr 1, d', w')" "d_comps d' = []" "d_tasks d' = []"
    by (auto split: prod.splits sum.splits)
  have "ex_cmd2 \<in> set (d_cmds ex_quiet_db)" "is_active (cm_status ex_cmd2)" by (simp_all add: ex_quiet_db_def ex_cmd2_def)
  with deleteComponent_safe [OF r, of True "NewRepo None ''/data'' False" ex_scope 1 True ex_world] e
  have "ex_cmd2 \<in> set (d_cmds d')" by auto
  with e show ?thesis by blast
qed

end
