(* ===== verification/UploadLimiter.thy ===== *)
theory UploadLimiter
imports Prelude
begin

text \<open>
  \<open>internal/logic/artifact/limiter.go\<close>: the limiter of concurrent uploads. A request is a goroutine with
  its place in \<open>acquire\<close> or after it; the sections under the mutex are the steps, the order in which
  the runtime wakes, cancels and releases is free. The token in a waiter's channel is that the request
  has left the set of waiters.
\<close>

section \<open>State and steps\<close>

abbreviation defaultArtifactUploadConcurrency :: nat where "defaultArtifactUploadConcurrency \<equiv> 4"
abbreviation maxArtifactUploadConcurrency :: nat where "maxArtifactUploadConcurrency \<equiv> 64"

text \<open>
  \<open>Waiting\<close>: in the select statement. \<open>Leaving\<close>: the context ended and the select took that branch.
  \<open>Returning\<close>: woken, but the context had ended, so the slot is about to be given back.
\<close>

datatype place = Outside | Waiting | Leaving | Returning | Holding | Finished

record limiter =
  lm_limit :: nat
  lm_active :: nat
  lm_waiters :: "nat list"
  lm_place :: "nat \<Rightarrow> place"

definition clamp_limit :: "int \<Rightarrow> nat" where
  "clamp_limit n = (if n \<le> 0 then defaultArtifactUploadConcurrency
     else if n > int maxArtifactUploadConcurrency then maxArtifactUploadConcurrency else nat n)"

definition newUploadLimiter :: "int \<Rightarrow> limiter" where
  "newUploadLimiter n = \<lparr>lm_limit = clamp_limit n, lm_active = 0, lm_waiters = [], lm_place = (\<lambda>r. Outside)\<rparr>"

text \<open>\<open>wakeLocked\<close>: tokens to waiters, in any order, as long as there are slots.\<close>

inductive wakeLocked :: "limiter \<Rightarrow> limiter \<Rightarrow> bool" where
  wake_stop: "\<not> (lm_active l < lm_limit l \<and> lm_waiters l \<noteq> []) \<Longrightarrow> wakeLocked l l"
| wake_next: "lm_active l < lm_limit l \<Longrightarrow> w \<in> set (lm_waiters l) \<Longrightarrow>
    wakeLocked (l\<lparr>lm_waiters := remove1 w (lm_waiters l), lm_active := lm_active l + 1\<rparr>) l' \<Longrightarrow> wakeLocked l l'"

definition drop_slot :: "limiter \<Rightarrow> limiter" where
  "drop_slot l = (if lm_active l > 0 then l\<lparr>lm_active := lm_active l - 1\<rparr> else l)"

definition goes :: "nat \<Rightarrow> place \<Rightarrow> limiter \<Rightarrow> limiter" where
  "goes r p l = l\<lparr>lm_place := (lm_place l)(r := p)\<rparr>"

inductive limiter_step :: "limiter \<Rightarrow> limiter \<Rightarrow> bool" where
  acquire_now: "lm_place l r = Outside \<Longrightarrow> lm_active l < lm_limit l \<Longrightarrow>
    limiter_step l (goes r Holding (l\<lparr>lm_active := lm_active l + 1\<rparr>))"
| acquire_queue: "lm_place l r = Outside \<Longrightarrow> \<not> lm_active l < lm_limit l \<Longrightarrow>
    limiter_step l (goes r Waiting (l\<lparr>lm_waiters := r # lm_waiters l\<rparr>))"
| token_taken: "lm_place l r = Waiting \<Longrightarrow> r \<notin> set (lm_waiters l) \<Longrightarrow> limiter_step l (goes r Holding l)"
| token_late: "lm_place l r = Waiting \<Longrightarrow> r \<notin> set (lm_waiters l) \<Longrightarrow> limiter_step l (goes r Returning l)"
| context_done: "lm_place l r = Waiting \<Longrightarrow> limiter_step l (goes r Leaving l)"
| leave_queue: "lm_place l r = Leaving \<Longrightarrow> r \<in> set (lm_waiters l) \<Longrightarrow>
    limiter_step l (goes r Finished (l\<lparr>lm_waiters := remove1 r (lm_waiters l)\<rparr>))"
| leave_woken: "lm_place l r = Leaving \<Longrightarrow> r \<notin> set (lm_waiters l) \<Longrightarrow> wakeLocked (drop_slot (goes r Finished l)) l' \<Longrightarrow>
    limiter_step l l'"
| give_back: "lm_place l r = Returning \<Longrightarrow> wakeLocked (drop_slot (goes r Finished l)) l' \<Longrightarrow> limiter_step l l'"
| release: "lm_place l r = Holding \<Longrightarrow> wakeLocked (drop_slot (goes r Finished l)) l' \<Longrightarrow> limiter_step l l'"
| setLimit: "wakeLocked (l\<lparr>lm_limit := clamp_limit n\<rparr>) l' \<Longrightarrow> limiter_step l l'"

inductive reachable :: "limiter \<Rightarrow> bool" where
  reach_new: "reachable (newUploadLimiter n)"
| reach_step: "reachable l \<Longrightarrow> limiter_step l l' \<Longrightarrow> reachable l'"

section \<open>The invariant\<close>

text \<open>The requests a slot is counted for.\<close>

definition occupies :: "limiter \<Rightarrow> nat \<Rightarrow> bool" where
  "occupies l r \<longleftrightarrow> lm_place l r \<in> {Holding, Returning} \<or>
     (lm_place l r \<in> {Waiting, Leaving} \<and> r \<notin> set (lm_waiters l))"

definition counted :: "limiter \<Rightarrow> bool" where
  "counted l \<longleftrightarrow> finite {r. occupies l r} \<and> lm_active l = card {r. occupies l r} \<and> distinct (lm_waiters l) \<and>
     (\<forall>r\<in>set (lm_waiters l). lm_place l r \<in> {Waiting, Leaving})"

definition no_idle_slot :: "limiter \<Rightarrow> bool" where
  "no_idle_slot l \<longleftrightarrow> lm_active l < lm_limit l \<longrightarrow> lm_waiters l = []"

lemma counted_enter:
  assumes "counted l" and "\<not> occupies l r" and "{x. occupies l' x} = insert r {x. occupies l x}"
    and "lm_active l' = lm_active l + 1" and "distinct (lm_waiters l')"
    and "\<forall>r\<in>set (lm_waiters l'). lm_place l' r \<in> {Waiting, Leaving}"
  shows "counted l'"
  using assms by (simp add: counted_def)

lemma counted_exit:
  assumes "counted l" and "occupies l r" and "{x. occupies l' x} = {x. occupies l x} - {r}"
    and "lm_active l' = lm_active l - 1" and "distinct (lm_waiters l')"
    and "\<forall>r\<in>set (lm_waiters l'). lm_place l' r \<in> {Waiting, Leaving}"
  shows "counted l'"
  using assms by (simp add: counted_def)

lemma counted_stay:
  assumes "counted l" and "{x. occupies l' x} = {x. occupies l x}"
    and "lm_active l' = lm_active l" and "distinct (lm_waiters l')"
    and "\<forall>r\<in>set (lm_waiters l'). lm_place l' r \<in> {Waiting, Leaving}"
  shows "counted l'"
  using assms by (simp add: counted_def)

lemma wakeLocked_counted: "wakeLocked l l' \<Longrightarrow> counted l \<Longrightarrow> counted l' \<and> no_idle_slot l' \<and> lm_limit l' = lm_limit l"
proof (induction rule: wakeLocked.induct)
  case (wake_stop l)
  then show ?case by (auto simp: no_idle_slot_def)
next
  case (wake_next l w l')
  let ?l = "l\<lparr>lm_waiters := remove1 w (lm_waiters l), lm_active := lm_active l + 1\<rparr>"
  have "lm_place l w \<in> {Waiting, Leaving}" "distinct (lm_waiters l)" using wake_next by (auto simp: counted_def)
  then have "{x. occupies ?l x} = insert w {x. occupies l x}" "\<not> occupies l w"
    using wake_next(2) by (auto simp: occupies_def)
  then have "counted ?l"
    using wake_next(5) by (intro counted_enter [of l w ?l]) (auto simp: counted_def)
  with wake_next.IH show ?case by simp
qed

lemma wakeLocked_total: "\<exists>l'. wakeLocked l l'"
proof (induction "length (lm_waiters l)" arbitrary: l rule: less_induct)
  case less
  show ?case
  proof (cases "lm_active l < lm_limit l \<and> lm_waiters l \<noteq> []")
    case True
    then obtain w where w: "w \<in> set (lm_waiters l)" by (cases "lm_waiters l") auto
    let ?l = "l\<lparr>lm_waiters := remove1 w (lm_waiters l), lm_active := lm_active l + 1\<rparr>"
    have "length (lm_waiters ?l) < length (lm_waiters l)"
      using w by (simp add: length_remove1) (metis Suc_pred length_pos_if_in_set lessI)
    from less [OF this] show ?thesis using True w by (blast intro: wake_next)
  qed (blast intro: wake_stop)
qed

lemma drop_slot_counted:
  assumes "counted l" and "occupies l r" and "r \<notin> set (lm_waiters l)"
  shows "counted (drop_slot (goes r Finished l))"
proof -
  have "0 < lm_active l" using assms(1,2) by (auto simp: counted_def card_gt_0_iff)
  then show ?thesis
    using assms by (intro counted_exit [OF assms(1,2)]) (auto simp: drop_slot_def goes_def occupies_def counted_def)
qed

lemma limiter_step_inv:
  assumes "limiter_step l l'" and "counted l" and "no_idle_slot l"
  shows "counted l' \<and> no_idle_slot l'"
proof -
  have stay: "counted (goes r p l) \<and> no_idle_slot (goes r p l)"
    if "occupies l r = occupies (goes r p l) r" "r \<in> set (lm_waiters l) \<Longrightarrow> p \<in> {Waiting, Leaving}" for r p
  proof
    have "{x. occupies (goes r p l) x} = {x. occupies l x}"
      using that(1) by (auto simp: goes_def occupies_def)
    then show "counted (goes r p l)"
      using assms(2) that(2) by (intro counted_stay [OF assms(2)]) (auto simp: goes_def counted_def)
    show "no_idle_slot (goes r p l)" using assms(3) by (simp add: no_idle_slot_def goes_def)
  qed
  from assms(1) show ?thesis
  proof cases
    case (acquire_now r)
    have "r \<notin> set (lm_waiters l)" using assms(2) acquire_now(2) by (auto simp: counted_def)
    then have "counted l'" using assms(2) acquire_now
      by (intro counted_enter [OF assms(2), of r]) (auto simp: goes_def occupies_def counted_def)
    then show ?thesis using acquire_now assms(3) by (auto simp: no_idle_slot_def goes_def)
  next
    case (acquire_queue r)
    have "r \<notin> set (lm_waiters l)" using assms(2) acquire_queue(2) by (auto simp: counted_def)
    then have "counted l'" using assms(2) acquire_queue
      by (intro counted_stay [OF assms(2)]) (auto simp: goes_def occupies_def counted_def)
    then show ?thesis using acquire_queue by (simp add: no_idle_slot_def goes_def)
  next
    case (leave_queue r)
    have "counted l'" using assms(2) leave_queue
      by (intro counted_stay [OF assms(2)]) (auto simp: goes_def occupies_def counted_def)
    then show ?thesis using leave_queue assms(3) by (auto simp: no_idle_slot_def goes_def)
  next
    case (leave_woken r)
    then have "counted (drop_slot (goes r Finished l))" using assms(2)
      by (intro drop_slot_counted) (auto simp: occupies_def)
    with leave_woken show ?thesis using wakeLocked_counted by blast
  next
    case (give_back r)
    then have "r \<notin> set (lm_waiters l)" using assms(2) by (auto simp: counted_def)
    then have "counted (drop_slot (goes r Finished l))" using assms(2) give_back
      by (intro drop_slot_counted) (auto simp: occupies_def)
    with give_back show ?thesis using wakeLocked_counted by blast
  next
    case (release r)
    then have "r \<notin> set (lm_waiters l)" using assms(2) by (auto simp: counted_def)
    then have "counted (drop_slot (goes r Finished l))" using assms(2) release
      by (intro drop_slot_counted) (auto simp: occupies_def)
    with release show ?thesis using wakeLocked_counted by blast
  next
    case (setLimit n)
    have "counted (l\<lparr>lm_limit := clamp_limit n\<rparr>)" using assms(2) by (simp add: counted_def occupies_def)
    with setLimit show ?thesis using wakeLocked_counted by blast
  next
    case (token_taken r)
    then show ?thesis using stay [of r Holding] by (auto simp: occupies_def goes_def)
  next
    case (token_late r)
    then show ?thesis using stay [of r Returning] by (auto simp: occupies_def goes_def)
  next
    case (context_done r)
    then show ?thesis using stay [of r Leaving] by (auto simp: occupies_def goes_def)
  qed
qed

lemma reachable_inv: "reachable l \<Longrightarrow> counted l \<and> no_idle_slot l"
proof (induction rule: reachable.induct)
  case (reach_new n)
  then show ?case by (simp add: newUploadLimiter_def counted_def occupies_def no_idle_slot_def)
qed (blast dest: limiter_step_inv)

text \<open>C39: However uploads arrive, are woken, canceled and finish, and however the limit is changed in
  between, the counter is exactly the number of requests that have or are owed a slot, so none leaks
  when a woken request is canceled, and no request waits while a slot is free.\<close>

theorem upload_slots_exact:
  assumes "reachable l"
  shows "lm_active l = card {r. occupies l r} \<and> finite {r. occupies l r} \<and>
    (\<forall>r. lm_place l r \<in> {Waiting, Leaving} \<longrightarrow> r \<in> set (lm_waiters l) \<longrightarrow> lm_limit l \<le> card {r. occupies l r})"
  using reachable_inv [OF assms] by (auto simp: counted_def no_idle_slot_def not_less)

text \<open>A request that is let in at a limit of one while a second waits.\<close>

definition ex_limiter :: limiter where
  "ex_limiter = goes 8 Waiting ((goes 7 Holding ((newUploadLimiter 1)\<lparr>lm_active := 1\<rparr>))\<lparr>lm_waiters := [8]\<rparr>)"

theorem upload_slots_exact_witness:
  "reachable ex_limiter \<and> lm_limit ex_limiter \<le> card {r. occupies ex_limiter r}"
proof -
  have 1: "reachable (goes 7 Holding ((newUploadLimiter 1)\<lparr>lm_active := 1\<rparr>))"
    using reach_step [OF reach_new acquire_now [of "newUploadLimiter 1" 7]] by (simp add: newUploadLimiter_def clamp_limit_def)
  have "reachable ex_limiter"
    using reach_step [OF 1 acquire_queue [of _ 8]] by (simp add: ex_limiter_def goes_def newUploadLimiter_def clamp_limit_def)
  moreover have "lm_place ex_limiter 8 = Waiting" "8 \<in> set (lm_waiters ex_limiter)"
    by (simp_all add: ex_limiter_def goes_def)
  ultimately show ?thesis using upload_slots_exact [of ex_limiter] by blast
qed

end
