(* ===== verification/Locks.thy ===== *)
theory Locks
imports GoStrings "HOL-Library.Word" "HOL-Library.Multiset"
begin

text \<open>
  The locks an upload takes: \<open>internal/pkg/keyedlock/keyedlock.go\<close>, a mutex per key inside the process,
  and \<open>internal/pkg/pglock/pglock.go\<close>, PostgreSQL's session advisory locks across processes.
\<close>

section \<open>A mutex per key\<close>

text \<open>
  A thread is outside, queued at the mutex of an entry, inside, or between the two halves of the
  unlock function. Entries are allocated at increasing addresses and never moved.
\<close>

datatype lock_place = Out | Queued string nat | Inside string nat | Unlocking string nat

record lock_entry =
  en_holder :: "nat option"
  en_refs :: nat

record locker =
  lk_locks :: "string \<Rightarrow> nat option"
  lk_entries :: "nat \<Rightarrow> lock_entry"
  lk_next :: nat
  lk_place :: "nat \<Rightarrow> lock_place"

definition new_locker :: locker where
  "new_locker = \<lparr>lk_locks = (\<lambda>k. None), lk_entries = (\<lambda>e. \<lparr>en_holder = None, en_refs = 0\<rparr>), lk_next = 0, lk_place = (\<lambda>t. Out)\<rparr>"

text \<open>The first half of \<open>Lock\<close>, under the outer mutex: find or make the entry and count the caller.\<close>

definition lock_enter :: "nat \<Rightarrow> string \<Rightarrow> locker \<Rightarrow> locker" where
  "lock_enter t key l =
    (case lk_locks l key of
       Some e \<Rightarrow> l\<lparr>lk_entries := (lk_entries l)(e := (lk_entries l e)\<lparr>en_refs := en_refs (lk_entries l e) + 1\<rparr>),
                  lk_place := (lk_place l)(t := Queued key e)\<rparr>
     | None \<Rightarrow> (let e = lk_next l
               in l\<lparr>lk_locks := (lk_locks l)(key \<mapsto> e), lk_next := e + 1,
                    lk_entries := (lk_entries l)(e := \<lparr>en_holder = None, en_refs = 1\<rparr>),
                    lk_place := (lk_place l)(t := Queued key e)\<rparr>))"

definition lock_take :: "nat \<Rightarrow> string \<Rightarrow> nat \<Rightarrow> locker \<Rightarrow> locker" where
  "lock_take t key e l = l\<lparr>lk_entries := (lk_entries l)(e := (lk_entries l e)\<lparr>en_holder := Some t\<rparr>),
     lk_place := (lk_place l)(t := Inside key e)\<rparr>"

definition unlock_mutex :: "nat \<Rightarrow> string \<Rightarrow> nat \<Rightarrow> locker \<Rightarrow> locker" where
  "unlock_mutex t key e l = l\<lparr>lk_entries := (lk_entries l)(e := (lk_entries l e)\<lparr>en_holder := None\<rparr>),
     lk_place := (lk_place l)(t := Unlocking key e)\<rparr>"

definition unlock_leave :: "nat \<Rightarrow> string \<Rightarrow> nat \<Rightarrow> locker \<Rightarrow> locker" where
  "unlock_leave t key e l =
    (let n = en_refs (lk_entries l e) - 1
     in l\<lparr>lk_entries := (lk_entries l)(e := (lk_entries l e)\<lparr>en_refs := n\<rparr>),
          lk_locks := (if n = 0 then (lk_locks l)(key := None) else lk_locks l),
          lk_place := (lk_place l)(t := Out)\<rparr>)"

inductive locker_step :: "locker \<Rightarrow> locker \<Rightarrow> bool" where
  step_enter: "lk_place l t = Out \<Longrightarrow> locker_step l (lock_enter t key l)"
| step_take: "lk_place l t = Queued key e \<Longrightarrow> en_holder (lk_entries l e) = None \<Longrightarrow> locker_step l (lock_take t key e l)"
| step_unlock: "lk_place l t = Inside key e \<Longrightarrow> locker_step l (unlock_mutex t key e l)"
| step_leave: "lk_place l t = Unlocking key e \<Longrightarrow> locker_step l (unlock_leave t key e l)"

inductive locker_reachable :: "locker \<Rightarrow> bool" where
  locker_init: "locker_reachable new_locker"
| locker_next: "locker_reachable l \<Longrightarrow> locker_step l l' \<Longrightarrow> locker_reachable l'"

fun uses_entry :: "lock_place \<Rightarrow> (string \<times> nat) option" where
  "uses_entry Out = None"
| "uses_entry (Queued k e) = Some (k, e)"
| "uses_entry (Inside k e) = Some (k, e)"
| "uses_entry (Unlocking k e) = Some (k, e)"

definition users :: "locker \<Rightarrow> nat \<Rightarrow> nat set" where
  "users l e = {t. \<exists>k. uses_entry (lk_place l t) = Some (k, e)}"

definition locker_ok :: "locker \<Rightarrow> bool" where
  "locker_ok l \<longleftrightarrow>
    (\<forall>t k e. uses_entry (lk_place l t) = Some (k, e) \<longrightarrow> lk_locks l k = Some e) \<and>
    (\<forall>k e. lk_locks l k = Some e \<longrightarrow> e < lk_next l \<and> users l e \<noteq> {}) \<and>
    (\<forall>k j e. lk_locks l k = Some e \<longrightarrow> lk_locks l j = Some e \<longrightarrow> k = j) \<and>
    (\<forall>e. finite (users l e) \<and> en_refs (lk_entries l e) = card (users l e)) \<and>
    (\<forall>t k e. lk_place l t = Inside k e \<longleftrightarrow> lk_locks l k = Some e \<and> en_holder (lk_entries l e) = Some t)"

lemma users_fresh: "locker_ok l \<Longrightarrow> users l (lk_next l) = {}"
  by (fastforce simp: locker_ok_def users_def)

lemma locker_okI:
  assumes "\<And>t k e. uses_entry (lk_place l t) = Some (k, e) \<Longrightarrow> lk_locks l k = Some e"
    and "\<And>k e. lk_locks l k = Some e \<Longrightarrow> e < lk_next l \<and> users l e \<noteq> {}"
    and "\<And>k j e. lk_locks l k = Some e \<Longrightarrow> lk_locks l j = Some e \<Longrightarrow> k = j"
    and "\<And>e. finite (users l e) \<and> en_refs (lk_entries l e) = card (users l e)"
    and "\<And>t k e. lk_place l t = Inside k e \<longleftrightarrow> lk_locks l k = Some e \<and> en_holder (lk_entries l e) = Some t"
  shows "locker_ok l"
  using assms unfolding locker_ok_def by blast

lemma locker_okD:
  assumes "locker_ok l"
  shows "uses_entry (lk_place l t) = Some (k, e) \<Longrightarrow> lk_locks l k = Some e"
    and "lk_locks l k = Some e \<Longrightarrow> e < lk_next l" and "lk_locks l k = Some e \<Longrightarrow> users l e \<noteq> {}"
    and "lk_locks l k = Some e \<Longrightarrow> lk_locks l j = Some e \<Longrightarrow> k = j"
    and "finite (users l e)" and "en_refs (lk_entries l e) = card (users l e)"
    and "lk_place l t = Inside k e \<longleftrightarrow> lk_locks l k = Some e \<and> en_holder (lk_entries l e) = Some t"
  using assms unfolding locker_ok_def by blast+

text \<open>A step that moves one thread: who uses which entry afterwards.\<close>

lemma users_move:
  "lk_place l' = (lk_place l)(t := p) \<Longrightarrow>
   users l' e = (if (\<exists>k. uses_entry p = Some (k, e)) then insert t (users l e) else users l e - {t})"
  by (auto simp: users_def)

lemma enter_ok:
  assumes "locker_ok l" and "lk_place l t = Out"
  shows "locker_ok (lock_enter t key l)"
proof (cases "lk_locks l key")
  case None
  let ?e = "lk_next l" and ?l = "lock_enter t key l"
  note ok = locker_okD [OF assms(1)]
  have l: "lk_place ?l = (lk_place l)(t := Queued key ?e)" "lk_locks ?l = (lk_locks l)(key \<mapsto> ?e)"
    "lk_next ?l = ?e + 1" "lk_entries ?l = (lk_entries l)(?e := \<lparr>en_holder = None, en_refs = 1\<rparr>)"
    using None by (simp_all add: lock_enter_def Let_def)
  have fresh: "users l ?e = {}" "\<And>k. lk_locks l k \<noteq> Some ?e"
    using users_fresh [OF assms(1)] ok(2) by blast+
  have u: "users ?l e = (if e = ?e then {t} else users l e)" for e
    using users_move [OF l(1), of e] fresh(1) assms(2) by (auto simp: users_def)
  show ?thesis
  proof (rule locker_okI)
    fix s k e assume "uses_entry (lk_place ?l s) = Some (k, e)"
    then show "lk_locks ?l k = Some e" using ok(1) [of s k e] None by (auto simp: l split: if_splits)
  next
    fix k e assume "lk_locks ?l k = Some e"
    then show "e < lk_next ?l \<and> users ?l e \<noteq> {}" using ok(2,3) [of k e] by (auto simp: l u split: if_splits)
  next
    fix k j e assume "lk_locks ?l k = Some e" "lk_locks ?l j = Some e"
    then show "k = j" using ok(4) [of k e j] fresh(2) by (auto simp: l split: if_splits)
  next
    fix e show "finite (users ?l e) \<and> en_refs (lk_entries ?l e) = card (users ?l e)"
      using ok(5,6) [of e] by (simp add: u l)
  next
    fix s k e
    show "lk_place ?l s = Inside k e \<longleftrightarrow> lk_locks ?l k = Some e \<and> en_holder (lk_entries ?l e) = Some s"
      using ok(7) [of s k e] fresh(2) [of k] assms(2) None by (auto simp: l split: if_splits)
  qed
next
  case (Some e0)
  let ?l = "lock_enter t key l"
  note ok = locker_okD [OF assms(1)]
  have l: "lk_place ?l = (lk_place l)(t := Queued key e0)" "lk_locks ?l = lk_locks l"
    "lk_next ?l = lk_next l"
    "lk_entries ?l = (lk_entries l)(e0 := (lk_entries l e0)\<lparr>en_refs := en_refs (lk_entries l e0) + 1\<rparr>)"
    using Some by (simp_all add: lock_enter_def)
  have "t \<notin> users l e" for e using assms(2) by (simp add: users_def)
  then have u: "users ?l e = (if e = e0 then insert t (users l e) else users l e)" "t \<notin> users l e" for e
    using users_move [OF l(1), of e] by auto
  show ?thesis
  proof (rule locker_okI)
    fix s k e assume "uses_entry (lk_place ?l s) = Some (k, e)"
    then show "lk_locks ?l k = Some e" using ok(1) [of s k e] Some by (auto simp: l split: if_splits)
  next
    fix k e assume "lk_locks ?l k = Some e"
    then show "e < lk_next ?l \<and> users ?l e \<noteq> {}" using ok(2,3) [of k e] by (auto simp: l u)
  next
    fix k j e assume "lk_locks ?l k = Some e" "lk_locks ?l j = Some e"
    then show "k = j" using ok(4) [of k e j] by (simp add: l)
  next
    fix e show "finite (users ?l e) \<and> en_refs (lk_entries ?l e) = card (users ?l e)"
      using ok(5,6) [of e] u(2) by (cases "e = e0") (auto simp: u l)
  next
    fix s k e
    show "lk_place ?l s = Inside k e \<longleftrightarrow> lk_locks ?l k = Some e \<and> en_holder (lk_entries ?l e) = Some s"
      using ok(7) [of s k e] assms(2) by (auto simp: l)
  qed
qed

text \<open>Taking the mutex and giving it up move a thread on with its entry.\<close>

lemma same_entry_ok:
  assumes "locker_ok l" and "uses_entry (lk_place l t) = Some (key, e0)" and "uses_entry p = Some (key, e0)"
    and l: "lk_place l' = (lk_place l)(t := p)" "lk_locks l' = lk_locks l" "lk_next l' = lk_next l"
      "lk_entries l' = (lk_entries l)(e0 := (lk_entries l e0)\<lparr>en_holder := h\<rparr>)"
    and "\<And>s k e. lk_place l' s = Inside k e \<longleftrightarrow> lk_locks l' k = Some e \<and> en_holder (lk_entries l' e) = Some s"
  shows "locker_ok l'"
proof -
  note ok = locker_okD [OF assms(1)]
  have u: "users l' e = users l e" for e
    using users_move [OF l(1), of e] assms(2,3) by (auto simp: users_def)
  show ?thesis
  proof (rule locker_okI)
    fix s k e assume "uses_entry (lk_place l' s) = Some (k, e)"
    then show "lk_locks l' k = Some e" using ok(1) [of s k e] ok(1) [OF assms(2)] assms(3) by (auto simp: l split: if_splits)
  next
    fix k e assume "lk_locks l' k = Some e"
    then show "e < lk_next l' \<and> users l' e \<noteq> {}" using ok(2,3) [of k e] by (simp add: l u)
  next
    fix k j e assume "lk_locks l' k = Some e" "lk_locks l' j = Some e"
    then show "k = j" using ok(4) [of k e j] by (simp add: l)
  next
    fix e show "finite (users l' e) \<and> en_refs (lk_entries l' e) = card (users l' e)"
      using ok(5,6) [of e] by (cases "e = e0") (auto simp: u l)
  qed (rule assms(8))
qed

lemma leave_ok:
  assumes "locker_ok l" and "lk_place l t = Unlocking key e0"
  shows "locker_ok (unlock_leave t key e0 l)"
proof -
  let ?l = "unlock_leave t key e0 l"
  note ok = locker_okD [OF assms(1)]
  have key: "lk_locks l key = Some e0" "t \<in> users l e0" using ok(1) [of t key e0] assms(2) by (auto simp: users_def)
  have n: "en_refs (lk_entries l e0) - 1 = card (users l e0 - {t})" using ok(5,6) [of e0] key(2) by simp
  have l: "lk_place ?l = (lk_place l)(t := Out)" "lk_next ?l = lk_next l"
    "lk_locks ?l = (if users l e0 - {t} = {} then (lk_locks l)(key := None) else lk_locks l)"
    "lk_entries ?l = (lk_entries l)(e0 := (lk_entries l e0)\<lparr>en_refs := card (users l e0 - {t})\<rparr>)"
    using ok(5) [of e0] unfolding unlock_leave_def Let_def n by simp_all
  have other: "t \<notin> users l e" if "e \<noteq> e0" for e using assms(2) that by (simp add: users_def)
  have u: "users ?l e = users l e - {t}" for e using users_move [OF l(1), of e] by simp
  have used: "lk_locks ?l k = Some e" if "s \<noteq> t" "uses_entry (lk_place l s) = Some (k, e)" for s k e
  proof -
    have "lk_locks l k = Some e" by (rule ok(1) [OF that(2)])
    moreover have "s \<in> users l e - {t}" using that by (auto simp: users_def)
    ultimately show ?thesis using key(1) by (auto simp: l)
  qed
  show ?thesis
  proof (rule locker_okI)
    fix s k e assume "uses_entry (lk_place ?l s) = Some (k, e)"
    then show "lk_locks ?l k = Some e" using used [of s k e] by (auto simp: l(1) split: if_splits)
  next
    fix k e assume k: "lk_locks ?l k = Some e"
    then have ke: "lk_locks l k = Some e" by (auto simp: l split: if_splits)
    have "users l e - {t} \<noteq> {}"
    proof (cases "e = e0")
      case True
      then have "k = key" using ok(4) [OF ke, of key] key(1) by simp
      with k True show ?thesis by (auto simp: l split: if_splits)
    next
      case False
      then show ?thesis using ok(3) [OF ke] other by simp
    qed
    then show "e < lk_next ?l \<and> users ?l e \<noteq> {}" using ok(2) [OF ke] by (simp add: l u)
  next
    fix k j e assume "lk_locks ?l k = Some e" "lk_locks ?l j = Some e"
    then show "k = j" using ok(4) [of k e j] by (auto simp: l split: if_splits)
  next
    fix e show "finite (users ?l e) \<and> en_refs (lk_entries ?l e) = card (users ?l e)"
      using ok(5,6) [of e] other [of e] by (auto simp: u l)
  next
    fix s k e
    have h: "en_holder (lk_entries ?l e) = en_holder (lk_entries l e)" by (simp add: l)
    have "lk_locks ?l k = Some e" if "lk_locks l k = Some e" "en_holder (lk_entries l e) = Some s"
    proof -
      have i: "lk_place l s = Inside k e" using ok(7) [of s k e] that by simp
      then have "s \<noteq> t" using assms(2) by auto
      with i used show ?thesis by simp
    qed
    moreover have "lk_locks l k = Some e" if "lk_locks ?l k = Some e" using that by (auto simp: l split: if_splits)
    ultimately show "lk_place ?l s = Inside k e \<longleftrightarrow> lk_locks ?l k = Some e \<and> en_holder (lk_entries ?l e) = Some s"
      using ok(7) [of s k e] assms(2) unfolding h by (auto simp: l(1))
  qed
qed

lemma locker_step_ok:
  assumes "locker_step l l'" and "locker_ok l"
  shows "locker_ok l'"
  using assms(1)
proof cases
  case (step_enter t key)
  then show ?thesis using enter_ok [OF assms(2)] by simp
next
  case (step_take t key e)
  note ok = locker_okD [OF assms(2)]
  have key: "lk_locks l key = Some e" using ok(1) [of t key e] step_take by simp
  have "lk_place l' s = Inside k f \<longleftrightarrow> lk_locks l' k = Some f \<and> en_holder (lk_entries l' f) = Some s" for s k f
    using ok(7) [of s k f] ok(4) [OF key, of k] key step_take by (auto simp: lock_take_def split: if_splits)
  then show ?thesis
    by (rule same_entry_ok [OF assms(2), of t key e "Inside key e" l' "Some t", rotated -1])
      (auto simp: step_take lock_take_def)
next
  case (step_unlock t key e)
  note ok = locker_okD [OF assms(2)]
  have key: "lk_locks l key = Some e" "en_holder (lk_entries l e) = Some t" using ok(7) [of t key e] step_unlock by auto
  have "lk_place l' s = Inside k f \<longleftrightarrow> lk_locks l' k = Some f \<and> en_holder (lk_entries l' f) = Some s" for s k f
    using ok(7) [of s k f] ok(4) [OF key(1), of k] key step_unlock by (auto simp: unlock_mutex_def split: if_splits)
  then show ?thesis
    by (rule same_entry_ok [OF assms(2), of t key e "Unlocking key e" l' None, rotated -1])
      (auto simp: step_unlock unlock_mutex_def)
next
  case (step_leave t key e)
  then show ?thesis using leave_ok [OF assms(2)] by simp
qed

lemma locker_reachable_ok: "locker_reachable l \<Longrightarrow> locker_ok l"
proof (induction rule: locker_reachable.induct)
  case locker_init
  then show ?case by (simp add: new_locker_def locker_ok_def users_def)
qed (blast dest: locker_step_ok)

text \<open>C22: at any time at most one thread is inside the section of a key, and the table of mutexes holds
  exactly the keys somebody is using, so it does not grow with the keys ever seen.\<close>

theorem keyed_mutual_exclusion:
  assumes "locker_reachable l"
  shows "(\<forall>s t k e f. lk_place l s = Inside k e \<longrightarrow> lk_place l t = Inside k f \<longrightarrow> s = t) \<and>
    (\<forall>k. lk_locks l k \<noteq> None \<longleftrightarrow> (\<exists>t e. uses_entry (lk_place l t) = Some (k, e)))"
proof (intro conjI allI impI iffI)
  note ok = locker_okD [OF locker_reachable_ok [OF assms]]
  { fix s t k e f assume "lk_place l s = Inside k e" "lk_place l t = Inside k f"
    then show "s = t" using ok(7) [of s k e] ok(7) [of t k f] by simp }
  { fix k assume "lk_locks l k \<noteq> None"
    then obtain e where k: "lk_locks l k = Some e" by blast
    then obtain t j where t: "uses_entry (lk_place l t) = Some (j, e)" using ok(3) [OF k] by (auto simp: users_def)
    then have "j = k" using ok(4) [OF ok(1) [OF t] k] by simp
    with t show "\<exists>t e. uses_entry (lk_place l t) = Some (k, e)" by blast }
  { fix k assume "\<exists>t e. uses_entry (lk_place l t) = Some (k, e)"
    then show "lk_locks l k \<noteq> None" using ok(1) by fastforce }
qed

definition ex_locker :: locker where
  "ex_locker = lock_enter 2 ''k'' (lock_take 1 ''k'' 0 (lock_enter 1 ''k'' new_locker))"

theorem keyed_mutual_exclusion_witness:
  "lk_place ex_locker 1 = Inside ''k'' 0 \<and> lk_place ex_locker 2 = Queued ''k'' 0 \<and> lk_locks ex_locker ''k'' \<noteq> None"
proof -
  have p: "lk_place ex_locker 1 = Inside ''k'' 0 \<and> lk_place ex_locker 2 = Queued ''k'' 0"
    by (simp add: ex_locker_def lock_enter_def lock_take_def new_locker_def Let_def)
  let ?l1 = "lock_enter 1 ''k'' new_locker"
  have "locker_reachable ?l1"
    by (rule locker_next [OF locker_init step_enter]) (simp add: new_locker_def)
  then have "locker_reachable (lock_take 1 ''k'' 0 ?l1)"
    by (rule locker_next [OF _ step_take]) (simp_all add: lock_enter_def new_locker_def Let_def)
  then have "locker_reachable ex_locker" unfolding ex_locker_def
    by (rule locker_next [OF _ step_enter]) (simp add: lock_take_def lock_enter_def new_locker_def Let_def)
  from keyed_mutual_exclusion [OF this] p have "lk_locks ex_locker ''k'' \<noteq> None" by (metis uses_entry.simps(3))
  with p show ?thesis by blast
qed

section \<open>Advisory locks across processes\<close>

text \<open>
  The lock table of the database: which session holds which key, shared or not. A session may hold a
  lock several times. \<open>broken\<close> says which of the statements fail; then the connection is dropped and
  the database frees what the session held.
\<close>

record lock_spec =
  ls_key :: int
  ls_shared :: bool

type_synonym lock_table = "(nat \<times> lock_spec) list"

definition conflicting :: "lock_spec \<Rightarrow> lock_spec \<Rightarrow> bool" where
  "conflicting a b = (ls_key a = ls_key b \<and> \<not> (ls_shared a \<and> ls_shared b))"

definition try_lock :: "nat \<Rightarrow> lock_spec \<Rightarrow> lock_table \<Rightarrow> bool" where
  "try_lock s spec held = list_all (\<lambda>(t, other). t = s \<or> \<not> conflicting spec other) held"

fun unlock_all :: "nat \<Rightarrow> lock_spec list \<Rightarrow> lock_table \<Rightarrow> lock_table" where
  "unlock_all s [] held = held"
| "unlock_all s (spec # specs) held = unlock_all s specs (remove1 (s, spec) held)"

fun try_specs :: "nat \<Rightarrow> (nat \<Rightarrow> bool) \<Rightarrow> nat \<Rightarrow> lock_spec list \<Rightarrow> lock_spec list \<Rightarrow> lock_table \<Rightarrow> bool option \<times> lock_table" where
  "try_specs s broken i acquired [] held = (Some True, held)"
| "try_specs s broken i acquired (spec # specs) held =
    (if broken i then (None, unlock_all s (rev acquired) held)
     else if \<not> try_lock s spec held then (Some False, unlock_all s (rev acquired) held)
     else try_specs s broken (i + 1) (acquired @ [spec]) specs ((s, spec) # held))"

text \<open>\<open>None\<close> is an error.\<close>

definition TryMany :: "nat \<Rightarrow> (nat \<Rightarrow> bool) \<Rightarrow> lock_spec list \<Rightarrow> lock_table \<Rightarrow> bool option \<times> lock_table" where
  "TryMany s broken specs held = (if specs = [] then (None, held) else try_specs s broken 0 [] specs held)"

definition Unlock :: "nat \<Rightarrow> lock_spec list \<Rightarrow> lock_table \<Rightarrow> lock_table" where
  "Unlock s specs held = unlock_all s (rev specs) held"

text \<open>The first eight bytes of a digest as a big-endian signed number.\<close>

definition KeyFromString :: "(string \<Rightarrow> string) \<Rightarrow> string \<Rightarrow> int" where
  "KeyFromString sha s = sint (of_int (foldl (\<lambda>v c. v * 256 + of_char c) 0 (take 8 (sha s))) :: 64 word)"

lemma unlock_all_mset: "mset (unlock_all s specs held) = mset held - mset (map (Pair s) specs)"
  by (induction specs arbitrary: held) auto

lemma try_specs_mset:
  assumes "mset held = base + mset (map (Pair s) acquired)"
  shows "case try_specs s broken i acquired specs held of (r, held') \<Rightarrow>
    mset held' = (if r = Some True then mset held + mset (map (Pair s) specs) else base)"
  using assms
proof (induction specs arbitrary: i acquired held)
  case (Cons spec specs)
  have "mset (unlock_all s (rev acquired) held) = base" using Cons.prems by (simp add: unlock_all_mset rev_map [symmetric])
  moreover have "mset ((s, spec) # held) = base + mset (map (Pair s) (acquired @ [spec]))" using Cons.prems by simp
  ultimately show ?case using Cons.IH [of "(s, spec) # held" "acquired @ [spec]" "i + 1"]
    by (auto split: prod.splits)
qed simp

definition compatible :: "lock_table \<Rightarrow> bool" where
  "compatible held \<longleftrightarrow> (\<forall>s a t b. (s, a) \<in> set held \<longrightarrow> (t, b) \<in> set held \<longrightarrow> s \<noteq> t \<longrightarrow> \<not> conflicting a b)"

lemma conflicting_sym: "conflicting a b = conflicting b a"
  by (auto simp: conflicting_def)

lemma compatible_Cons:
  assumes "compatible held" and "try_lock s spec held"
  shows "compatible ((s, spec) # held)"
  using assms conflicting_sym by (fastforce simp: compatible_def try_lock_def list_all_iff)

lemma compatible_unlock_all: "compatible held \<Longrightarrow> compatible (unlock_all s specs held)"
proof (induction specs arbitrary: held)
  case (Cons spec specs)
  have "compatible (remove1 (s, spec) held)"
    using Cons.prems set_remove1_subset [of "(s, spec)" held] unfolding compatible_def by blast
  with Cons.IH show ?case by simp
qed simp

lemma try_specs_compatible: "compatible held \<Longrightarrow> compatible (snd (try_specs s broken i acquired specs held))"
  by (induction specs arbitrary: i acquired held) (auto simp: compatible_unlock_all compatible_Cons)

text \<open>Taking several locks is all or nothing: on success the session holds all of them on top of what it
  held, otherwise, refused or broken off at any point, the table is as before; and no step ever lets
  two sessions hold conflicting locks.\<close>

theorem TryMany_all_or_nothing:
  assumes "compatible held" and "TryMany s broken specs held = (r, held')"
  shows "compatible held' \<and> compatible (Unlock s specs held') \<and>
    mset held' = (if r = Some True then mset held + mset (map (Pair s) specs) else mset held) \<and>
    (r = Some True \<longrightarrow> mset (Unlock s specs held') = mset held)"
proof (cases "specs = []")
  case True
  then show ?thesis using assms by (auto simp: TryMany_def Unlock_def)
next
  case False
  then have t: "try_specs s broken 0 [] specs held = (r, held')" using assms(2) by (simp add: TryMany_def)
  have "compatible held'" using try_specs_compatible [OF assms(1)] t by (metis snd_conv)
  moreover have "mset held' = (if r = Some True then mset held + mset (map (Pair s) specs) else mset held)"
    using try_specs_mset [where base = "mset held" and acquired = "[]" and held = held and s = s and broken = broken and i = 0 and specs = specs] t
    by simp
  ultimately show ?thesis
    using compatible_unlock_all by (simp add: Unlock_def unlock_all_mset rev_map [symmetric])
qed

theorem TryMany_all_or_nothing_witness:
  "mset (snd (TryMany 2 (\<lambda>i. False) [\<lparr>ls_key = 5, ls_shared = True\<rparr>, \<lparr>ls_key = 6, ls_shared = False\<rparr>]
     [(1, \<lparr>ls_key = 6, ls_shared = False\<rparr>)])) = {#(1, \<lparr>ls_key = 6, ls_shared = False\<rparr>)#}"
proof -
  let ?h = "[(1::nat, \<lparr>ls_key = 6, ls_shared = False\<rparr>)]"
  let ?t = "TryMany 2 (\<lambda>i. False) [\<lparr>ls_key = 5, ls_shared = True\<rparr>, \<lparr>ls_key = 6, ls_shared = False\<rparr>] ?h"
  have "fst ?t = Some False" by code_simp
  then have "?t = (Some False, snd ?t)" by (metis prod.collapse)
  from TryMany_all_or_nothing [OF _ this] show ?thesis by (simp add: compatible_def)
qed

end
