(* ===== verification/SelfUpdate.thy ===== *)
theory SelfUpdate
imports ComponentRepo Gateway "HOL-Library.Product_Lexorder"
begin

text \<open>
  \<open>internal/logic/agentupdate\<close>: the agent binaries a server offers, and the commands that make agents
  replace themselves, together with the parts of \<open>internal/handler/agent_update.go\<close> that decide when.
  The directory of binaries is a map from paths to what \<open>Stat\<close> says and what reading yields; the digests
  computed so far are kept in a cache that is passed along. The digest function of the gray release is
  the parameter \<open>sha\<close>.
\<close>

section \<open>Targets\<close>

record update_target =
  tg_os :: string
  tg_arch :: string
  tg_variant :: string
  tg_version :: string
  tg_sha256 :: string
  tg_size :: int
  tg_url :: string

datatype update_error =
    UnknownOS string | NoArch | UnknownArch string | UnknownVariant string | WindowsLegacy | WindowsArch string
  | OutsideDir path_error | NotAvailable string | NotRegular string | NotReadable string
  | NothingSelected | TooManyHosts | NoHostArch

abbreviation "OSLinux \<equiv> ''linux''"
abbreviation "OSWindows \<equiv> ''windows''"

definition DisplayOS :: "update_target \<Rightarrow> string" where
  "DisplayOS t = (if tg_os t = OSWindows then OSWindows else OSLinux)"

definition Filename :: "update_target \<Rightarrow> string" where
  "Filename t = ''upgrade-agent-'' @ DisplayOS t @ ''-'' @ tg_arch t @
     (if tg_variant t = ''legacy'' then ''-legacy'' else []) @ (if DisplayOS t = OSWindows then ''.exe'' else [])"

definition NormalizeOS :: "string \<Rightarrow> update_error + string" where
  "NormalizeOS os0 =
    (let os = trim_space (to_lower os0)
     in if os = [] then Inr OSLinux
        else if os \<noteq> OSLinux \<and> os \<noteq> OSWindows then Inl (UnknownOS os) else Inr os)"

definition valid_arches :: "string list" where
  "valid_arches = [''amd64'', ''arm64'', ''arm'', ''386'']"

definition NormalizeArchVariant :: "string \<Rightarrow> string \<Rightarrow> update_error + string \<times> string" where
  "NormalizeArchVariant arch0 variant0 =
    (let arch1 = trim_space (to_lower arch0); variant1 = trim_space (to_lower variant0);
         legacy = has_suffix ''-legacy'' arch1;
         arch = (if legacy then trim_suffix ''-legacy'' arch1 else arch1);
         variant = (if legacy then ''legacy'' else variant1)
     in if arch = [] then Inl NoArch
        else if arch \<notin> set valid_arches then Inl (UnknownArch arch)
        else if variant \<noteq> [] \<and> variant \<noteq> ''legacy'' then Inl (UnknownVariant variant)
        else Inr (arch, variant))"

definition NormalizeArchVariantForOS :: "string \<Rightarrow> string \<Rightarrow> string \<Rightarrow> update_error + string \<times> string" where
  "NormalizeArchVariantForOS os arch0 variant0 =
    (case NormalizeArchVariant arch0 variant0 of Inl e \<Rightarrow> Inl e | Inr (arch, variant) \<Rightarrow>
      (if os = OSWindows \<and> variant = ''legacy'' then Inl WindowsLegacy
       else if os = OSWindows \<and> arch \<noteq> ''amd64'' \<and> arch \<noteq> ''arm64'' then Inl (WindowsArch arch)
       else Inr (arch, variant)))"

definition ChooseOS :: "string \<Rightarrow> string" where
  "ChooseOS osFamily = (if equal_fold (trim_space osFamily) OSWindows then OSWindows else OSLinux)"

definition ChooseVariant :: "string \<Rightarrow> string \<Rightarrow> string" where
  "ChooseVariant reported0 kern =
    (let reported = trim_space (to_lower reported0)
     in if reported = ''legacy'' then ''legacy''
        else if reported \<noteq> [] then []
        else if has_prefix ''2.'' (trim_space kern) then ''legacy'' else [])"

section \<open>Binaries\<close>

text \<open>What \<open>Stat\<close> says of a path, and the digest of its content; \<open>None\<close> when it cannot be read.\<close>

record file_info =
  fi_is_dir :: bool
  fi_regular :: bool
  fi_size :: int
  fi_mod :: time
  fi_sum :: "string option"

record resolver =
  rs_dir :: string
  rs_version :: string
  rs_cwd :: "string option"
  rs_stat :: "string \<Rightarrow> file_info option"
  rs_names :: "string list option"

type_synonym hash_cache = "string \<Rightarrow> (int \<times> time \<times> string) option"

definition NewResolver :: "string \<Rightarrow> string \<Rightarrow> string \<times> string" where
  "NewResolver dir version =
    (if trim_space dir = [] then ''./dist'' else dir, if trim_space version = [] then ''dev'' else version)"

definition fileSHA256 :: "string \<Rightarrow> file_info \<Rightarrow> hash_cache \<Rightarrow> string option \<times> hash_cache" where
  "fileSHA256 path fi cache =
    (let fresh = (case fi_sum fi of None \<Rightarrow> (None, cache)
                  | Some s \<Rightarrow> (Some s, cache(path \<mapsto> (fi_size fi, fi_mod fi, s))))
     in case cache path of None \<Rightarrow> fresh | Some (sz, md, s) \<Rightarrow>
       (if sz = fi_size fi \<and> md = fi_mod fi then (Some s, cache) else fresh))"

definition ResolveOS ::
    "resolver \<Rightarrow> string \<Rightarrow> string \<Rightarrow> string \<Rightarrow> string \<Rightarrow> hash_cache \<Rightarrow> (update_error + update_target) \<times> hash_cache" where
  "ResolveOS r osName0 arch0 variant0 baseURL cache =
    (case NormalizeOS osName0 of Inl e \<Rightarrow> (Inl e, cache) | Inr osName \<Rightarrow>
     (case NormalizeArchVariantForOS osName arch0 variant0 of Inl e \<Rightarrow> (Inl e, cache) | Inr (arch, variant) \<Rightarrow>
       (let t = \<lparr>tg_os = osName, tg_arch = arch, tg_variant = variant, tg_version = rs_version r,
                 tg_sha256 = [], tg_size = 0, tg_url = []\<rparr>;
            path = path_join (rs_dir r) (Filename t)
        in case EnsureWithin (rs_cwd r) (rs_dir r) path of Some e \<Rightarrow> (Inl (OutsideDir e), cache) | None \<Rightarrow>
          (case rs_stat r path of None \<Rightarrow> (Inl (NotAvailable (Filename t)), cache) | Some fi \<Rightarrow>
            (if \<not> fi_regular fi then (Inl (NotRegular (Filename t)), cache)
             else case fileSHA256 path fi cache of (None, cache') \<Rightarrow> (Inl (NotReadable (Filename t)), cache')
                | (Some digest, cache') \<Rightarrow>
                   (Inr (t\<lparr>tg_sha256 := digest, tg_size := fi_size fi,
                      tg_url := trim_right ''/'' baseURL @ ''/api/agent/binary/'' @ osName @ ''-'' @ arch @
                        (if variant = ''legacy'' then ''-legacy'' else [])\<rparr>), cache'))))))"

definition Resolve :: "resolver \<Rightarrow> string \<Rightarrow> string \<Rightarrow> string \<Rightarrow> hash_cache \<Rightarrow> (update_error + update_target) \<times> hash_cache" where
  "Resolve r arch variant baseURL cache = ResolveOS r OSLinux arch variant baseURL cache"

definition parseBinaryName :: "string \<Rightarrow> (string \<times> string \<times> string) option" where
  "parseBinaryName name =
    (if \<not> has_prefix ''upgrade-agent-'' name then None
     else
      (let rest = trim_suffix ''.exe'' (trim_prefix ''upgrade-agent-'' name)
       in case find (\<lambda>cand. has_prefix (cand @ ''-'') rest) [OSWindows, OSLinux] of None \<Rightarrow> None | Some os \<Rightarrow>
         (let arch = trim_prefix (os @ ''-'') rest
          in if has_suffix ''-legacy'' arch then Some (os, trim_suffix ''-legacy'' arch, ''legacy'')
             else Some (os, arch, []))))"

text \<open>The names in the directory, resolved one after the other.\<close>

fun resolve_names :: "resolver \<Rightarrow> string \<Rightarrow> string list \<Rightarrow> hash_cache \<Rightarrow> update_target list \<times> hash_cache" where
  "resolve_names r baseURL [] cache = ([], cache)"
| "resolve_names r baseURL (name # names) cache =
    (if (case rs_stat r (path_join (rs_dir r) name) of None \<Rightarrow> False | Some fi \<Rightarrow> fi_is_dir fi)
     then resolve_names r baseURL names cache
     else case parseBinaryName name of None \<Rightarrow> resolve_names r baseURL names cache | Some (os, arch, variant) \<Rightarrow>
       (case ResolveOS r os arch variant baseURL cache of (Inl e, cache') \<Rightarrow> resolve_names r baseURL names cache'
        | (Inr t, cache') \<Rightarrow>
            (case resolve_names r baseURL names cache' of (ts, cache'') \<Rightarrow> (t # ts, cache''))))"

definition Available :: "resolver \<Rightarrow> string \<Rightarrow> hash_cache \<Rightarrow> update_target list \<times> hash_cache" where
  "Available r baseURL cache =
    (case rs_names r of None \<Rightarrow> ([], cache) | Some names \<Rightarrow>
      (case resolve_names r baseURL names cache of (ts, cache') \<Rightarrow>
        (sort_key (\<lambda>t. (tg_os t, tg_arch t, tg_variant t)) ts, cache')))"

section \<open>Commands\<close>

record enqueue_request =
  eq_host_ids :: "int list"
  eq_all_outdated :: bool
  eq_force :: bool
  eq_variant :: string

datatype skip_reason = SkipTarget update_error | SkipCurrent | SkipBusy

record enqueue_result =
  er_version :: string
  er_enqueued :: nat
  er_skipped_count :: nat
  er_skipped :: "(int \<times> skip_reason) list"

abbreviation maxSkippedDetail :: nat where "maxSkippedDetail \<equiv> 200"

definition shortHash :: "string \<Rightarrow> string" where
  "shortHash s = (if length s > 12 then take 12 s else s)"

definition resolveForHost ::
    "resolver \<Rightarrow> host_row \<Rightarrow> string \<Rightarrow> string \<Rightarrow> hash_cache \<Rightarrow> (update_error + update_target) \<times> hash_cache" where
  "resolveForHost r h forced baseURL cache =
    (let arch = trim_space (ho_arch h); osName = ChooseOS (ho_os_family h);
         variant = (if osName = OSWindows then []
                    else if forced = [] then ChooseVariant (ho_build_variant h) (ho_kernel h) else forced)
     in if arch = [] then (Inl NoHostArch, cache) else ResolveOS r osName arch variant baseURL cache)"

definition target_payload :: "update_target \<Rightarrow> command_payload" where
  "target_payload t = \<lparr>pl_component = empty_component_spec,
     pl_artifact = empty_artifact\<lparr>ar_version := tg_version t, ar_arch := tg_arch t, ar_url := tg_url t,
       ar_sha256 := tg_sha256 t, ar_size := tg_size t\<rparr>,
     pl_to_version = tg_version t, pl_rollback_to = [], pl_command = None\<rparr>"

definition txt_self_a :: string where "txt_self_a = [CHR 0xE5, CHR 0xB7, CHR 0xB2, CHR 0xE4, CHR 0xB8, CHR 0x8B, CHR 0xE5, CHR 0x8F, CHR 0x91, CHR 0x20, CHR 0x41, CHR 0x67, CHR 0x65, CHR 0x6E, CHR 0x74, CHR 0x20, CHR 0xE8, CHR 0x87, CHR 0xAA, CHR 0xE5, CHR 0x8D, CHR 0x87, CHR 0xE7, CHR 0xBA, CHR 0xA7, CHR 0xEF, CHR 0xBC, CHR 0x9A]"
definition txt_self_b :: string where "txt_self_b = [CHR 0xEF, CHR 0xBC, CHR 0x88]"
definition txt_self_c :: string where "txt_self_c = [CHR 0xEF, CHR 0xBC, CHR 0x89, CHR 0x0A]"
definition txt_force :: string where "txt_force = [CHR 0xE7, CHR 0xAE, CHR 0xA1, CHR 0xE7, CHR 0x90, CHR 0x86, CHR 0xE5, CHR 0x91, CHR 0x98, CHR 0xE5, CHR 0xBC, CHR 0xBA, CHR 0xE5, CHR 0x88, CHR 0xB6, CHR 0xE9, CHR 0x87, CHR 0x8D, CHR 0xE6, CHR 0x96, CHR 0xB0, CHR 0xE4, CHR 0xB8, CHR 0x8B, CHR 0xE5, CHR 0x8F, CHR 0x91, CHR 0x20, CHR 0x41, CHR 0x67, CHR 0x65, CHR 0x6E, CHR 0x74, CHR 0x20, CHR 0xE8, CHR 0x87, CHR 0xAA, CHR 0xE5, CHR 0x8D, CHR 0x87, CHR 0xE7, CHR 0xBA, CHR 0xA7, CHR 0xEF, CHR 0xBC, CHR 0x8C, CHR 0xE5, CHR 0x8F, CHR 0x96, CHR 0xE6, CHR 0xB6, CHR 0x88, CHR 0xE6, CHR 0x97, CHR 0xA7, CHR 0xE6, CHR 0x8C, CHR 0x87, CHR 0xE4, CHR 0xBB, CHR 0xA4, CHR 0x0A]"
definition txt_self_done :: string where "txt_self_done = [CHR 0x41, CHR 0x67, CHR 0x65, CHR 0x6E, CHR 0x74, CHR 0x20, CHR 0xE5, CHR 0xB7, CHR 0xB2, CHR 0xE4, CHR 0xBB, CHR 0xA5, CHR 0xE6, CHR 0x96, CHR 0xB0, CHR 0xE7, CHR 0x89, CHR 0x88, CHR 0xE6, CHR 0x9C, CHR 0xAC, CHR 0xE4, CHR 0xB8, CHR 0x8A, CHR 0xE7, CHR 0xBA, CHR 0xBF, CHR 0xEF, CHR 0xBC, CHR 0x8C, CHR 0xE8, CHR 0x87, CHR 0xAA, CHR 0xE5, CHR 0x8D, CHR 0x87, CHR 0xE7, CHR 0xBA, CHR 0xA7, CHR 0xE5, CHR 0xAE, CHR 0x8C, CHR 0xE6, CHR 0x88, CHR 0x90, CHR 0x0A]"

definition self_command :: "time \<Rightarrow> string \<Rightarrow> int \<Rightarrow> host_row \<Rightarrow> update_target \<Rightarrow> command_row" where
  "self_command now stamp i h t =
    (new_command now i None None (ho_id h) (ho_agent_id h) CmdSelfUpdate (target_payload t) (Some (now + hours 24)))
      \<lparr>cm_log := bracket stamp @ txt_self_a @ tg_version t @ '' -> '' @ Filename t @ txt_self_b @
         shortHash (tg_sha256 t) @ txt_self_c\<rparr>"

definition insertCommand :: "time \<Rightarrow> string \<Rightarrow> host_row \<Rightarrow> update_target \<Rightarrow> db \<Rightarrow> bool \<times> db" where
  "insertCommand now stamp h t d =
    (if exists_row (\<lambda>c. cm_agent_id c = ho_agent_id h \<and> is_active (cm_status c)) (d_cmds d) then (False, d)
     else (True, insert_command (self_command now stamp (d_next_cmd d) h t) d))"

text \<open>The statement of a forced update: unfinished self updates of the named hosts are canceled.\<close>

definition force_cancel :: "time \<Rightarrow> string \<Rightarrow> scope \<Rightarrow> int list \<Rightarrow> db \<Rightarrow> db" where
  "force_cancel now stamp sc ids d = d\<lparr>d_cmds := upd_where
     (\<lambda>c. cm_type c = CmdSelfUpdate \<and> is_active (cm_status c) \<and>
        exists_row (\<lambda>h. ho_id h = cm_host_id c \<and> ho_agent_id h = cm_agent_id c \<and> ho_id h \<in> set ids \<and>
          scope_where sc (ho_tenant h)) (d_hosts d))
     (cancel_cmd now (bracket stamp @ txt_force)) (d_cmds d)\<rparr>"

definition note_skip :: "host_row \<Rightarrow> skip_reason \<Rightarrow> enqueue_result \<Rightarrow> enqueue_result" where
  "note_skip h why res = res\<lparr>er_skipped_count := er_skipped_count res + 1,
     er_skipped := (if length (er_skipped res) < maxSkippedDetail then er_skipped res @ [(ho_id h, why)] else er_skipped res)\<rparr>"

definition enqueue_host ::
    "time \<Rightarrow> string \<Rightarrow> resolver \<Rightarrow> enqueue_request \<Rightarrow> string \<Rightarrow> host_row \<Rightarrow> enqueue_result \<times> hash_cache \<times> db \<Rightarrow>
     enqueue_result \<times> hash_cache \<times> db" where
  "enqueue_host now stamp r rq baseURL h st =
    (case st of (res, cache, d) \<Rightarrow>
      (case resolveForHost r h (eq_variant rq) baseURL cache of
         (Inl e, cache') \<Rightarrow> (note_skip h (SkipTarget e) res, cache', d)
       | (Inr t, cache') \<Rightarrow>
          (if \<not> eq_force rq \<and> equal_fold (ho_build_hash h) (tg_sha256 t) then (note_skip h SkipCurrent res, cache', d)
           else (case insertCommand now stamp h t d of
              (False, d') \<Rightarrow> (note_skip h SkipBusy res, cache', d')
            | (True, d') \<Rightarrow> (res\<lparr>er_enqueued := er_enqueued res + 1\<rparr>, cache', d')))))"

definition update_hosts :: "scope \<Rightarrow> enqueue_request \<Rightarrow> db \<Rightarrow> host_row list" where
  "update_hosts sc rq d = filter (\<lambda>h. scope_where sc (ho_tenant h) \<and> ho_agent_id h \<noteq> [] \<and>
     (eq_host_ids rq = [] \<or> ho_id h \<in> set (eq_host_ids rq))) (d_hosts d)"

definition Enqueue ::
    "time \<Rightarrow> string \<Rightarrow> scope \<Rightarrow> resolver \<Rightarrow> enqueue_request \<Rightarrow> string \<Rightarrow> hash_cache \<times> db \<Rightarrow>
     (update_error + enqueue_result) \<times> hash_cache \<times> db" where
  "Enqueue now stamp sc r rq baseURL st =
    (case st of (cache, d) \<Rightarrow>
      (if eq_host_ids rq = [] \<and> \<not> eq_all_outdated rq then (Inl NothingSelected, st)
       else if length (eq_host_ids rq) > 1000 then (Inl TooManyHosts, st)
       else case NormalizeArchVariant ''amd64'' (eq_variant rq) of Inl e \<Rightarrow> (Inl e, st) | Inr av \<Rightarrow>
         (let d1 = (if eq_force rq \<and> eq_host_ids rq \<noteq> [] then force_cancel now stamp sc (eq_host_ids rq) d else d);
              res0 = \<lparr>er_version = rs_version r, er_enqueued = 0, er_skipped_count = 0, er_skipped = []\<rparr>
          in case fold (enqueue_host now stamp r rq baseURL) (update_hosts sc rq d1) (res0, cache, d1) of
               (res, cache', d') \<Rightarrow> (Inr res, cache', d'))))"

text \<open>The newest self update of an agent: still running, or less than half an hour old.\<close>

definition cooling_down :: "time \<Rightarrow> string \<Rightarrow> db \<Rightarrow> bool" where
  "cooling_down now agentID d =
    (case max_row cm_id (\<lambda>c. cm_agent_id c = agentID \<and> cm_type c = CmdSelfUpdate) (d_cmds d) of
       None \<Rightarrow> False
     | Some c \<Rightarrow> is_active (cm_status c) \<or> now - cm_created_at c < minutes 30)"

definition AutoEnqueue ::
    "time \<Rightarrow> string \<Rightarrow> string \<Rightarrow> resolver \<Rightarrow> string \<Rightarrow> hash_cache \<times> db \<Rightarrow> (update_error + bool) \<times> hash_cache \<times> db" where
  "AutoEnqueue now stamp agentID r baseURL st =
    (case st of (cache, d) \<Rightarrow>
      (if trim_space agentID = [] then (Inr False, st)
       else case find (\<lambda>h. ho_agent_id h = agentID) (d_hosts d) of None \<Rightarrow> (Inr False, st) | Some h \<Rightarrow>
         (if cooling_down now agentID d then (Inr False, st)
          else case resolveForHost r h [] baseURL cache of (Inl e, cache') \<Rightarrow> (Inl e, cache', d)
             | (Inr t, cache') \<Rightarrow>
                (if equal_fold (ho_build_hash h) (tg_sha256 t) then (Inr False, cache', d)
                 else (case insertCommand now stamp h t d of (ok, d') \<Rightarrow> (Inr ok, cache', d'))))))"

section \<open>When\<close>

definition hex_digits :: string where "hex_digits = ''0123456789abcdef''"

definition normalizeAgentBuild :: "string \<Rightarrow> string \<Rightarrow> string \<Rightarrow> string \<times> string \<times> string" where
  "normalizeAgentBuild version0 hash0 variant0 =
    (let version1 = trim_space version0; hash1 = to_lower (trim_space hash0); variant1 = to_lower (trim_space variant0)
     in (if length version1 > 128 then take 128 version1 else version1,
         if length hash1 \<noteq> 64 \<or> dropWhile (\<lambda>c. c \<in> set hex_digits) (trim_right hex_digits hash1) \<noteq> [] then [] else hash1,
         if variant1 \<noteq> ''legacy'' then [] else variant1))"

definition self_update_done :: "string \<Rightarrow> string \<Rightarrow> command_row \<Rightarrow> bool" where
  "self_update_done agentID hash c = (cm_agent_id c = agentID \<and> cm_type c = CmdSelfUpdate \<and>
     in_flight (cm_status c) \<and> ar_sha256 (pl_artifact (cm_payload c)) = hash)"

definition finish_self_update :: "time \<Rightarrow> string \<Rightarrow> command_row \<Rightarrow> command_row" where
  "finish_self_update now stamp c = c\<lparr>cm_status := CmdSuccess, cm_finished_at := Some now, cm_last_stage := ''done'',
     cm_last_stage_at := Some now,
     cm_result := Some (ServerResult ''success'' ''done'' (Some (pl_to_version (cm_payload c))) False),
     cm_log := cm_log c @ bracket stamp @ txt_self_done\<rparr>"

definition markSelfUpdateSuccess :: "time \<Rightarrow> string \<Rightarrow> string \<Rightarrow> string \<Rightarrow> db \<Rightarrow> nat \<times> db" where
  "markSelfUpdateSuccess now stamp agentID hash d =
    (if hash = [] then (0, d)
     else
      (let n = rows_affected (self_update_done agentID hash) (d_cmds d);
           d1 = d\<lparr>d_cmds := upd_where (self_update_done agentID hash) (finish_self_update now stamp) (d_cmds d)\<rparr>
       in (n, if n > 0 then clear_maintenance agentID ''done'' d1 else d1)))"

definition autoUpdateSelected :: "(string \<Rightarrow> string) \<Rightarrow> string \<Rightarrow> int \<Rightarrow> bool" where
  "autoUpdateSelected sha agentID percent =
    (if percent \<ge> 100 then True
     else if percent \<le> 0 \<or> agentID = [] then False
     else foldl (\<lambda>v c. v * 256 + of_char c) (0 :: int) (take 4 (sha agentID)) mod 100 < percent)"

definition maybeAutoUpdateAgent ::
    "(string \<Rightarrow> string) \<Rightarrow> bool \<Rightarrow> int \<Rightarrow> time \<Rightarrow> string \<Rightarrow> string \<Rightarrow> resolver \<Rightarrow> string \<Rightarrow> hash_cache \<times> db \<Rightarrow> hash_cache \<times> db" where
  "maybeAutoUpdateAgent sha auto percent now stamp agentID r baseURL st =
    (if agentID = [] \<or> \<not> auto \<or> \<not> autoUpdateSelected sha agentID percent then st
     else snd (AutoEnqueue now stamp agentID r baseURL st))"

end
