(* ===== verification/SelfUpdateSafety.thy ===== *)
theory SelfUpdateSafety
imports SelfUpdate TaskSafety OrchestratorSafety PathSafety
begin

text \<open>
  Self updates never disturb other work: a command is only made for an idle agent of the tenant and is
  then the agent's only unfinished one, a forced update cancels nothing but self updates, the names of
  binaries survive parsing, and a heartbeat only ends the update whose binary it reports.
\<close>

section \<open>Inserting\<close>

lemma insertCommand_cases:
  obtains "insertCommand now stamp h t d = (False, d)"
  | "insertCommand now stamp h t d = (True, insert_command (self_command now stamp (d_next_cmd d) h t) d)"
    "\<forall>c\<in>set (d_cmds d). is_active (cm_status c) \<longrightarrow> cm_agent_id c \<noteq> ho_agent_id h"
proof (cases "exists_row (\<lambda>c. cm_agent_id c = ho_agent_id h \<and> is_active (cm_status c)) (d_cmds d)")
  case True
  then show thesis by (intro that(1)) (simp add: insertCommand_def)
next
  case False
  then show thesis by (intro that(2)) (auto simp: insertCommand_def exists_row_iff)
qed

lemma self_command_fields [simp]:
  "cm_id (self_command now stamp i h t) = i" "cm_type (self_command now stamp i h t) = CmdSelfUpdate"
  "cm_status (self_command now stamp i h t) = CmdPending" "cm_agent_id (self_command now stamp i h t) = ho_agent_id h"
  "cm_task_host_id (self_command now stamp i h t) = None" "cm_task_id (self_command now stamp i h t) = None"
  "cm_host_id (self_command now stamp i h t) = ho_id h"
  by (simp_all add: self_command_def new_command_def)

lemma insertCommand_integrity: "integrity d \<Longrightarrow> integrity (snd (insertCommand now stamp h t d))"
  by (rule insertCommand_cases [of now stamp h t d])
    (auto intro!: insert_integrity simp: table_simps cmd_self_update_def)

text \<open>The only unfinished command of its agent.\<close>

definition alone :: "db \<Rightarrow> command_row \<Rightarrow> bool" where
  "alone d c \<longleftrightarrow> (\<forall>x\<in>set (d_cmds d). is_active (cm_status x) \<and> cm_agent_id x = cm_agent_id c \<longrightarrow> x = c)"

text \<open>What the round over the hosts has added so far.\<close>

definition updates_only :: "host_row set \<Rightarrow> db \<Rightarrow> db \<Rightarrow> bool" where
  "updates_only H d0 d \<longleftrightarrow> integrity d \<and> d_hosts d = d_hosts d0 \<and> set (d_cmds d0) \<subseteq> set (d_cmds d) \<and>
     (\<forall>c\<in>set (d_cmds d). c \<in> set (d_cmds d0) \<or>
        cm_type c = CmdSelfUpdate \<and> is_active (cm_status c) \<and> (\<exists>h\<in>H. cm_agent_id c = ho_agent_id h \<and> cm_host_id c = ho_id h) \<and> alone d c)"

lemma insertCommand_updates_only:
  assumes "updates_only H d0 d" and "h \<in> H"
  shows "updates_only H d0 (snd (insertCommand now stamp h t d))"
proof (rule insertCommand_cases [of now stamp h t d])
  assume i: "insertCommand now stamp h t d = (True, insert_command (self_command now stamp (d_next_cmd d) h t) d)"
    and free: "\<forall>c\<in>set (d_cmds d). is_active (cm_status c) \<longrightarrow> cm_agent_id c \<noteq> ho_agent_id h"
  let ?n = "self_command now stamp (d_next_cmd d) h t" and ?d = "insert_command (self_command now stamp (d_next_cmd d) h t) d"
  have cmds: "set (d_cmds ?d) = insert ?n (set (d_cmds d))" "d_hosts ?d = d_hosts d" by (auto simp: insert_command_def)
  have n: "alone ?d ?n" using free by (auto simp: alone_def cmds)
  have old: "alone ?d c" if "c \<in> set (d_cmds d)" "is_active (cm_status c)" "alone d c" for c
    using that free by (auto simp: alone_def cmds)
  have "integrity ?d" using insertCommand_integrity [of d now stamp h t] assms(1) i by (simp add: updates_only_def)
  then show ?thesis using assms n old unfolding updates_only_def i snd_conv cmds
    by (auto simp: status_defs)
qed (simp add: assms(1))

lemma enqueue_host_updates_only:
  assumes "updates_only H d0 d" and "h \<in> H"
  shows "updates_only H d0 (snd (snd (enqueue_host now stamp r rq baseURL h (res, cache, d))))"
  using assms insertCommand_updates_only [OF assms]
  by (auto simp: enqueue_host_def split: prod.split sum.split bool.split) (metis snd_conv)+

lemma fold_updates_only:
  assumes "updates_only H d0 d" and "set hs \<subseteq> H"
  shows "updates_only H d0 (snd (snd (fold (enqueue_host now stamp r rq baseURL) hs (res, cache, d))))"
  using assms
proof (induction hs arbitrary: res cache d)
  case (Cons h hs)
  obtain res' cache' d' where e: "enqueue_host now stamp r rq baseURL h (res, cache, d) = (res', cache', d')"
    by (cases "enqueue_host now stamp r rq baseURL h (res, cache, d)") auto
  have "updates_only H d0 d'"
    using enqueue_host_updates_only [OF Cons.prems(1), of h now stamp r rq baseURL res cache] Cons.prems(2) e by simp
  then show ?case using Cons.IH [of d' res' cache'] Cons.prems(2) e by simp
qed simp

section \<open>Forcing\<close>

definition named_update :: "scope \<Rightarrow> int list \<Rightarrow> db \<Rightarrow> command_row \<Rightarrow> bool" where
  "named_update sc ids d c \<longleftrightarrow> cm_type c = CmdSelfUpdate \<and> is_active (cm_status c) \<and>
     (\<exists>h\<in>set (d_hosts d). ho_id h = cm_host_id c \<and> ho_agent_id h = cm_agent_id c \<and> ho_id h \<in> set ids \<and> scope_where sc (ho_tenant h))"

interpretation force: command_handler "force_cancel now stamp sc ids" for now stamp sc ids
proof
  fix d
  show "list_all2 cmd_evolves (d_cmds d) (d_cmds (force_cancel now stamp sc ids d))"
    unfolding force_cancel_def by (simp, rule cancel_upd_evolves) simp
qed (simp_all add: force_cancel_def integrity_def task_keys_def thost_keys_def batch_keys_def)

lemma force_cancel_other:
  "c \<in> set (d_cmds d) \<Longrightarrow> \<not> named_update sc ids d c \<Longrightarrow> c \<in> set (d_cmds (force_cancel now stamp sc ids d))"
  by (force simp: force_cancel_def set_upd_where named_update_def table_simps)

lemma force_cancel_active:
  "c \<in> set (d_cmds (force_cancel now stamp sc ids d)) \<Longrightarrow> is_active (cm_status c) \<Longrightarrow> c \<in> set (d_cmds d)"
  by (auto simp: force_cancel_def cancel_cmd_def elim!: upd_where_memE)

section \<open>Enqueue\<close>

lemma updates_only_start: "integrity d \<Longrightarrow> updates_only H d d"
  by (simp add: updates_only_def)

text \<open>C20: ordering self updates keeps every constraint; no command is lost or changed except, when forced,
  unfinished self updates of hosts that are named and visible; and every command that is added belongs
  to a visible host, and is the only unfinished command of its agent.\<close>

theorem Enqueue_safe:
  assumes "integrity d" and "Enqueue now stamp sc r rq baseURL (cache, d) = (res, cache', d')"
  shows "integrity d' \<and>
    (\<forall>c\<in>set (d_cmds d). c \<in> set (d_cmds d') \<or> eq_force rq \<and> named_update sc (eq_host_ids rq) d c) \<and>
    (\<forall>c\<in>set (d_cmds d'). is_active (cm_status c) \<longrightarrow> c \<in> set (d_cmds d) \<or>
       cm_type c = CmdSelfUpdate \<and> alone d' c \<and>
       (\<exists>h\<in>set (d_hosts d). cm_agent_id c = ho_agent_id h \<and> cm_host_id c = ho_id h \<and> scope_where sc (ho_tenant h)))"
proof -
  define d1 where "d1 = (if eq_force rq \<and> eq_host_ids rq \<noteq> [] then force_cancel now stamp sc (eq_host_ids rq) d else d)"
  let ?H = "set (update_hosts sc rq d1)"
  have i1: "integrity d1" using assms(1) force.integrity_kept by (simp add: d1_def)
  have h1: "d_hosts d1 = d_hosts d" by (simp add: d1_def force_cancel_def)
  have kept: "c \<in> set (d_cmds d1) \<or> eq_force rq \<and> named_update sc (eq_host_ids rq) d c" if "c \<in> set (d_cmds d)" for c
    using that force_cancel_other by (auto simp: d1_def)
  have older: "c \<in> set (d_cmds d)" if "c \<in> set (d_cmds d1)" "is_active (cm_status c)" for c
    using that force_cancel_active by (auto simp: d1_def split: if_splits)
  have "d' = d \<or> updates_only ?H d1 d'"
  proof (cases res)
    case (Inl e)
    then show ?thesis using assms(2) by (auto simp: Enqueue_def Let_def split: if_splits sum.splits prod.splits)
  next
    case (Inr x)
    then obtain res0 where "fold (enqueue_host now stamp r rq baseURL) (update_hosts sc rq d1) (res0, cache, d1) = (x, cache', d')"
      using assms(2) by (auto simp: Enqueue_def Let_def d1_def split: if_splits sum.splits prod.splits)
    then show ?thesis
      using fold_updates_only [OF updates_only_start [OF i1] order_refl [of ?H]] by (metis snd_conv)
  qed
  then show ?thesis
  proof
    assume "d' = d"
    then show ?thesis using assms(1) by blast
  next
    assume u: "updates_only ?H d1 d'"
    have "\<forall>h\<in>?H. h \<in> set (d_hosts d) \<and> scope_where sc (ho_tenant h)" by (auto simp: update_hosts_def h1)
    with u kept older show ?thesis unfolding updates_only_def by blast
  qed
qed

section \<open>Names of binaries\<close>

lemma has_suffix_append [simp]: "has_suffix s (t @ s)"
  by (simp add: has_suffix_def)

lemma trim_suffix_append [simp]: "trim_suffix s (t @ s) = t"
  by (simp add: trim_suffix_def)

lemma trim_prefix_append [simp]: "trim_prefix p (p @ s) = s"
  by (simp add: trim_prefix_def)

text \<open>The file name of every target the server can offer parses back to its system, architecture and
  variant, so the directory listing and the resolver agree on names.\<close>

theorem binary_name_roundtrip:
  assumes "NormalizeOS osName = Inr (tg_os t)"
    and "NormalizeArchVariantForOS (tg_os t) arch variant = Inr (tg_arch t, tg_variant t)"
  shows "parseBinaryName (Filename t) = Some (tg_os t, tg_arch t, tg_variant t) \<and> slash \<notin> set (Filename t)"
proof -
  have os: "tg_os t = OSLinux \<or> tg_os t = OSWindows"
    using assms(1) by (auto simp: NormalizeOS_def Let_def split: if_splits)
  have av: "tg_arch t \<in> set valid_arches" "tg_variant t = [] \<or> tg_variant t = ''legacy''"
    "tg_os t = OSWindows \<Longrightarrow> tg_variant t = []"
    using assms(2) by (auto simp: NormalizeArchVariantForOS_def NormalizeArchVariant_def Let_def split: sum.splits prod.splits if_splits)
  let ?t = "\<lambda>os a v. \<lparr>tg_os = os, tg_arch = a, tg_variant = v, tg_version = [], tg_sha256 = [], tg_size = 0, tg_url = []\<rparr>"
  let ?all = "map (\<lambda>a. (OSLinux, a, [])) valid_arches @ map (\<lambda>a. (OSLinux, a, ''legacy'')) valid_arches @
    map (\<lambda>a. (OSWindows, a, [])) valid_arches"
  have "list_all (\<lambda>(os, a, v). parseBinaryName (Filename (?t os a v)) = Some (os, a, v) \<and>
      list_all (\<lambda>c. c \<noteq> slash) (Filename (?t os a v))) ?all"
    by code_simp
  moreover have "(tg_os t, tg_arch t, tg_variant t) \<in> set ?all" using os av by auto
  ultimately have "parseBinaryName (Filename (?t (tg_os t) (tg_arch t) (tg_variant t))) = Some (tg_os t, tg_arch t, tg_variant t) \<and>
      list_all (\<lambda>c. c \<noteq> slash) (Filename (?t (tg_os t) (tg_arch t) (tg_variant t)))"
    unfolding list_all_iff by fast
  moreover have "Filename (?t (tg_os t) (tg_arch t) (tg_variant t)) = Filename t"
    by (simp add: Filename_def DisplayOS_def)
  ultimately show ?thesis by (simp only:) (auto simp: list_all_iff)
qed

section \<open>Gray release and heartbeat\<close>

text \<open>An agent that is selected at some share of the gray release stays selected at every larger share.\<close>

theorem autoUpdateSelected_mono:
  "autoUpdateSelected sha agentID p \<Longrightarrow> p \<le> q \<Longrightarrow> autoUpdateSelected sha agentID q"
  by (auto simp: autoUpdateSelected_def split: if_splits)

interpretation heartbeat: command_handler "\<lambda>d. snd (markSelfUpdateSuccess now stamp agentID hash d)" for now stamp agentID hash
proof
  fix d assume "cmd_keys d"
  have "list_all2 cmd_evolves (d_cmds d)
      (upd_where (self_update_done agentID hash) (finish_self_update now stamp) (d_cmds d))"
    by (rule list_all2_upd_where)
      (auto simp: self_update_done_def finish_self_update_def cmd_evolves_def status_defs)
  then show "list_all2 cmd_evolves (d_cmds d) (d_cmds (snd (markSelfUpdateSuccess now stamp agentID hash d)))"
    by (auto simp: markSelfUpdateSuccess_def Let_def clear_maintenance_def)
qed (auto simp: markSelfUpdateSuccess_def Let_def clear_maintenance_def integrity_def task_keys_def thost_keys_def batch_keys_def)

end
