(* ===== verification/Accounts.thy ===== *)
theory Accounts
imports GoNum Schema "HOL-Library.List_Lexorder" "HOL-Library.Char_ord"
begin

text \<open>
  Accounts and tenants: \<open>internal/rbac/rbac.go\<close>, the password rules of \<open>internal/auth/auth.go\<close> and the
  handlers of \<open>internal/handler/user.go\<close> that create users and tenants. Hashing a password is the
  parameter \<open>gen\<close> (it fails on what bcrypt refuses); lengths of columns are not modelled.
\<close>

abbreviation "RoleUser \<equiv> ''user''"

datatype account_error =
    MissingCredentials | TooShort | TooLong | SamePassword | BadRole string | NoSuperGrant
  | NotAuthenticated | ForeignTenant int | NoTenant int | HashFailed | UserExists | UserMissing
  | ForeignAccount | AdminAccount | GoneOrAdmin | SelfAccount | MissingName | TenantExists | SuperOnly
  | Unauthorized | WrongPassword | PasswordRaced

record account =
  ac_id :: int
  ac_username :: string
  ac_hash :: string
  ac_display :: string
  ac_is_admin :: bool
  ac_disabled :: bool
  ac_tenant :: int
  ac_roles :: "string list"
  ac_updated_at :: time

record tenant_row =
  tn_id :: int
  tn_name :: string
  tn_display :: string
  tn_status :: string

record accounts =
  a_users :: "account list"
  a_tenants :: "tenant_row list"
  a_members :: "(int \<times> string) list"
  a_fields :: "(string \<times> string) list"
  a_next_user :: int
  a_next_tenant :: int

section \<open>Rules\<close>

definition ValidatePassword :: "string \<Rightarrow> string \<Rightarrow> account_error option" where
  "ValidatePassword oldPassword newPassword =
    (if length newPassword < 8 then Some TooShort
     else if length newPassword > 72 then Some TooLong
     else if oldPassword \<noteq> [] \<and> oldPassword = newPassword then Some SamePassword
     else None)"

definition validRoles :: "string list" where
  "validRoles = [RoleUser, RoleAdmin, RoleSuperAdmin]"

fun collect_roles :: "string list \<Rightarrow> string list \<Rightarrow> account_error + string list" where
  "collect_roles out [] = Inr out"
| "collect_roles out (r0 # rs) =
    (let r = trim_space r0
     in if r = [] then collect_roles out rs
        else if r \<notin> set validRoles then Inl (BadRole r)
        else if r \<in> set out then collect_roles out rs
        else collect_roles (out @ [r]) rs)"

definition normalizeRoles :: "string list \<Rightarrow> account_error + string list" where
  "normalizeRoles roles =
    (if roles = [] then Inr [RoleUser]
     else case collect_roles [] roles of Inl e \<Rightarrow> Inl e | Inr out \<Rightarrow> Inr (if out = [] then [RoleUser] else out))"

definition containsRole :: "string list \<Rightarrow> string \<Rightarrow> bool" where
  "containsRole roles want = list_ex (\<lambda>r. r = want) roles"

definition hasAdminRole :: "string list \<Rightarrow> bool" where
  "hasAdminRole roles = (containsRole roles RoleAdmin \<or> containsRole roles RoleSuperAdmin)"

definition super_actor :: "user option \<Rightarrow> bool" where
  "super_actor actor = (case actor of None \<Rightarrow> False | Some u \<Rightarrow> IsSuperAdmin u)"

text \<open>The tenant of a request without super rights; \<open>-1\<close> for an unknown user, whom no row matches.\<close>

definition actor_tenant :: "user option \<Rightarrow> int" where
  "actor_tenant actor = (case actor of None \<Rightarrow> -1 | Some u \<Rightarrow> us_tenant u)"

definition ensureTenantExists :: "int \<Rightarrow> accounts \<Rightarrow> account_error option" where
  "ensureTenantExists i d = (if exists_row (\<lambda>t. tn_id t = i) (a_tenants d) then None else Some (NoTenant i))"

definition resolveTarget :: "user option \<Rightarrow> int \<Rightarrow> string list \<Rightarrow> accounts \<Rightarrow> account_error + int" where
  "resolveTarget actor wantTenant roles d =
    (if super_actor actor then
       (let want = (if wantTenant \<le> 0 then actor_tenant actor else wantTenant)
        in case ensureTenantExists want d of Some e \<Rightarrow> Inl e | None \<Rightarrow> Inr want)
     else if containsRole roles RoleSuperAdmin then Inl NoSuperGrant
     else case actor of None \<Rightarrow> Inl NotAuthenticated | Some u \<Rightarrow>
       (if wantTenant > 0 \<and> wantTenant \<noteq> us_tenant u then Inl (ForeignTenant wantTenant) else Inr (us_tenant u)))"

definition by_name :: "string \<Rightarrow> accounts \<Rightarrow> account option" where
  "by_name username d = find (\<lambda>a. ac_username a = username) (a_users d)"

definition targetAccount :: "string \<Rightarrow> accounts \<Rightarrow> account_error + int \<times> string list" where
  "targetAccount username d =
    (case by_name username d of None \<Rightarrow> Inl UserMissing | Some a \<Rightarrow> Inr (ac_tenant a, ac_roles a))"

definition set_users :: "(account \<Rightarrow> bool) \<Rightarrow> (account \<Rightarrow> account) \<Rightarrow> accounts \<Rightarrow> accounts" where
  "set_users P f d = d\<lparr>a_users := upd_where P f (a_users d)\<rparr>"

section \<open>Operations\<close>

definition acc_list :: "user option \<Rightarrow> accounts \<Rightarrow> account list" where
  "acc_list actor d = sort_key ac_username
     (filter (\<lambda>a. super_actor actor \<or> ac_tenant a = actor_tenant actor) (a_users d))"

record account_request =
  aq_username :: string
  aq_password :: string
  aq_display :: string
  aq_tenant :: int
  aq_roles :: "string list"

definition acc_create ::
    "(string \<Rightarrow> string option) \<Rightarrow> time \<Rightarrow> user option \<Rightarrow> account_request \<Rightarrow> accounts \<Rightarrow> (account_error + int) \<times> accounts" where
  "acc_create gen now actor rq d =
    (if trim_space (aq_username rq) = [] \<or> aq_password rq = [] then (Inl MissingCredentials, d)
     else case ValidatePassword [] (aq_password rq) of Some e \<Rightarrow> (Inl e, d) | None \<Rightarrow>
      (case normalizeRoles (aq_roles rq) of Inl e \<Rightarrow> (Inl e, d) | Inr roles \<Rightarrow>
       (case resolveTarget actor (aq_tenant rq) roles d of Inl e \<Rightarrow> (Inl e, d) | Inr tenant \<Rightarrow>
        (case gen (aq_password rq) of None \<Rightarrow> (Inl HashFailed, d) | Some hash \<Rightarrow>
          (if by_name (aq_username rq) d \<noteq> None then (Inl UserExists, d)
           else if ensureTenantExists tenant d \<noteq> None then (Inl (NoTenant tenant), d)
           else (Inr (a_next_user d),
             d\<lparr>a_users := a_users d @
                 [\<lparr>ac_id = a_next_user d, ac_username = aq_username rq, ac_hash = hash, ac_display = aq_display rq,
                   ac_is_admin = (containsRole roles RoleAdmin \<or> containsRole roles RoleSuperAdmin),
                   ac_disabled = False, ac_tenant = tenant, ac_roles = roles, ac_updated_at = now\<rparr>],
               a_next_user := a_next_user d + 1\<rparr>))))))"

text \<open>The condition that a statement of an actor without super rights repeats.\<close>

definition still_ordinary :: "user option \<Rightarrow> account \<Rightarrow> bool" where
  "still_ordinary actor a = (ac_tenant a = actor_tenant actor \<and> \<not> hasAdminRole (ac_roles a))"

definition SetTenantRoles ::
    "time \<Rightarrow> user option \<Rightarrow> string \<Rightarrow> int \<Rightarrow> string list \<Rightarrow> accounts \<Rightarrow> account_error option \<times> accounts" where
  "SetTenantRoles now actor username tenantID roles d =
    (case normalizeRoles roles of Inl e \<Rightarrow> (Some e, d) | Inr norm \<Rightarrow>
     (case targetAccount username d of Inl e \<Rightarrow> (Some e, d) | Inr (targetTenant, targetRoles) \<Rightarrow>
      (case resolveTarget actor tenantID norm d of Inl e \<Rightarrow> (Some e, d) | Inr target \<Rightarrow>
        (if \<not> super_actor actor \<and> (actor = None \<or> targetTenant \<noteq> actor_tenant actor) then (Some ForeignAccount, d)
         else if \<not> super_actor actor \<and> hasAdminRole targetRoles then (Some AdminAccount, d)
         else
          (let hit = (\<lambda>a. ac_username a = username \<and> (super_actor actor \<or> still_ordinary actor a))
           in if rows_affected hit (a_users d) = 0 then (Some GoneOrAdmin, d)
              else (None, set_users hit
                (\<lambda>a. a\<lparr>ac_tenant := target, ac_roles := norm,
                       ac_is_admin := (containsRole norm RoleAdmin \<or> containsRole norm RoleSuperAdmin),
                       ac_updated_at := now\<rparr>) d))))))"

definition SetDisabled :: "time \<Rightarrow> user option \<Rightarrow> string \<Rightarrow> bool \<Rightarrow> accounts \<Rightarrow> account_error option \<times> accounts" where
  "SetDisabled now actor username disabled d =
    (let hit = (\<lambda>a. ac_username a = username \<and> (super_actor actor \<or> still_ordinary actor a));
         run = (if rows_affected hit (a_users d) = 0 then (Some GoneOrAdmin, d)
                else (None, set_users hit (\<lambda>a. a\<lparr>ac_disabled := disabled, ac_updated_at := now\<rparr>) d))
     in if (case actor of None \<Rightarrow> False | Some u \<Rightarrow> us_username u = username \<and> disabled) then (Some SelfAccount, d)
        else if super_actor actor then run
        else case targetAccount username d of Inl e \<Rightarrow> (Some e, d) | Inr (targetTenant, targetRoles) \<Rightarrow>
          (if actor = None \<or> targetTenant \<noteq> actor_tenant actor then (Some ForeignAccount, d)
           else if hasAdminRole targetRoles then (Some AdminAccount, d)
           else run))"

text \<open>What \<open>Delete\<close> and \<open>ResetPassword\<close> ask before they touch an account.\<close>

definition may_touch :: "user option \<Rightarrow> int \<times> string list \<Rightarrow> account_error option" where
  "may_touch actor target =
    (if super_actor actor then None
     else if fst target \<noteq> actor_tenant actor then Some ForeignAccount
     else if list_ex (\<lambda>r. r = RoleAdmin \<or> r = RoleSuperAdmin) (snd target) then Some AdminAccount
     else None)"

definition acc_delete :: "user option \<Rightarrow> string \<Rightarrow> accounts \<Rightarrow> account_error option \<times> accounts" where
  "acc_delete actor username0 d =
    (let username = trim_space username0
     in if username = [] then (Some MissingName, d)
        else if (case actor of None \<Rightarrow> False | Some u \<Rightarrow> us_username u = username) then (Some SelfAccount, d)
        else case targetAccount username d of Inl e \<Rightarrow> (Some e, d) | Inr target \<Rightarrow>
          (case may_touch actor target of Some e \<Rightarrow> (Some e, d) | None \<Rightarrow>
            (if by_name username d = None then (Some UserMissing, d)
             else (None, d\<lparr>a_members := filter (\<lambda>m. snd m \<noteq> username) (a_members d),
                           a_fields := filter (\<lambda>f. fst f \<noteq> username) (a_fields d),
                           a_users := filter (\<lambda>a. ac_username a \<noteq> username) (a_users d)\<rparr>))))"

definition ResetPassword ::
    "(string \<Rightarrow> string option) \<Rightarrow> time \<Rightarrow> user option \<Rightarrow> string \<Rightarrow> string \<Rightarrow> accounts \<Rightarrow> account_error option \<times> accounts" where
  "ResetPassword gen now actor username0 password d =
    (let username = trim_space username0
     in if username = [] then (Some MissingName, d)
        else case ValidatePassword [] password of Some e \<Rightarrow> (Some e, d) | None \<Rightarrow>
         (case targetAccount username d of Inl e \<Rightarrow> (Some e, d) | Inr target \<Rightarrow>
          (case may_touch actor target of Some e \<Rightarrow> (Some e, d) | None \<Rightarrow>
           (case gen password of None \<Rightarrow> (Some HashFailed, d) | Some hash \<Rightarrow>
             (if rows_affected (\<lambda>a. ac_username a = username) (a_users d) = 0 then (Some UserMissing, d)
              else (None, set_users (\<lambda>a. ac_username a = username) (\<lambda>a. a\<lparr>ac_hash := hash, ac_updated_at := now\<rparr>) d))))))"

section \<open>Handlers\<close>

text \<open>An empty password is replaced by a random one, the parameter \<open>initial\<close>, which the answer shows.\<close>

definition UserCreate ::
    "(string \<Rightarrow> string option) \<Rightarrow> string \<Rightarrow> time \<Rightarrow> user option \<Rightarrow> account_request \<Rightarrow> accounts \<Rightarrow>
     (account_error + int \<times> string) \<times> accounts" where
  "UserCreate gen initial now actor rq d =
    (let shown = (if aq_password rq = [] then initial else [])
     in case acc_create gen now actor (if aq_password rq = [] then rq\<lparr>aq_password := initial\<rparr> else rq) d of
          (Inl e, d') \<Rightarrow> (Inl e, d') | (Inr i, d') \<Rightarrow> (Inr (i, shown), d'))"

definition TenantList :: "user option \<Rightarrow> accounts \<Rightarrow> tenant_row list" where
  "TenantList actor d = sort_key tn_id
     (filter (\<lambda>t. super_actor actor \<or> tn_id t = actor_tenant actor) (a_tenants d))"

definition TenantCreate :: "user option \<Rightarrow> string \<Rightarrow> string \<Rightarrow> accounts \<Rightarrow> (account_error + int) \<times> accounts" where
  "TenantCreate actor name display d =
    (if \<not> super_actor actor then (Inl SuperOnly, d)
     else if name = [] then (Inl MissingName, d)
     else if exists_row (\<lambda>t. tn_name t = name) (a_tenants d) then (Inl TenantExists, d)
     else (Inr (a_next_tenant d),
           d\<lparr>a_tenants := a_tenants d @ [\<lparr>tn_id = a_next_tenant d, tn_name = name, tn_display = display, tn_status = ''active''\<rparr>],
             a_next_tenant := a_next_tenant d + 1\<rparr>))"

end
