(* ===== verification/ClientAddr.thy ===== *)
theory ClientAddr
imports Inet TargetOS
begin

text \<open>
  Who is calling, and where hosts connect to: \<open>internal/pkg/netutil/clientip.go\<close>, \<open>clientIP\<close> of
  \<open>internal/handler/agent.go\<close>, and \<open>internal/pkg/hostnet/hostnet.go\<close>. Parsing and writing URLs are the
  fields of \<open>url_lib\<close>; the port names of \<open>net.LookupPort\<close> are the parameter \<open>ports\<close>.
\<close>

section \<open>Host and port\<close>

text \<open>\<open>net.SplitHostPort\<close>; its errors are not told apart.\<close>

definition SplitHostPort :: "string \<Rightarrow> (string \<times> string) option" where
  "SplitHostPort s =
    (case last_index '':'' s of None \<Rightarrow> None | Some i \<Rightarrow>
      (let port = drop (i + 1) s
       in if s \<noteq> [] \<and> hd s = CHR ''['' then
            (if CHR '']'' \<notin> set s then None
             else
               (let stop = length (takeWhile (\<lambda>c. c \<noteq> CHR '']'') s)
                in if stop + 1 \<noteq> i then None
                   else if CHR ''['' \<in> set (drop 1 s) \<or> CHR '']'' \<in> set (drop (stop + 1) s) then None
                   else Some (take (stop - 1) (drop 1 s), port)))
          else if CHR '':'' \<in> set (take i s) then None
          else if CHR ''['' \<in> set s \<or> CHR '']'' \<in> set s then None
          else Some (take i s, port)))"

definition remoteHost :: "string \<Rightarrow> string" where
  "remoteHost addr = (case SplitHostPort addr of None \<Rightarrow> addr | Some (host, port) \<Rightarrow> host)"

section \<open>Trusted proxies\<close>

type_synonym network = "ip \<times> nat"

definition network_contains :: "network \<Rightarrow> ip \<Rightarrow> bool" where
  "network_contains n a = net_contains (fst n) (cidr_mask (snd n) (length (fst n))) a"

definition proxy_entry :: "string \<Rightarrow> network option" where
  "proxy_entry s =
    (if CHR ''/'' \<in> set s then ParseCIDR s
     else case ParseIP s of None \<Rightarrow> None | Some a \<Rightarrow>
       ParseCIDR (s @ (if To4 a \<noteq> None then ''/32'' else ''/128'')))"

text \<open>The valid entries, and the invalid ones that the error names.\<close>

fun ParseTrustedProxies :: "string list \<Rightarrow> network list \<times> string list" where
  "ParseTrustedProxies [] = ([], [])"
| "ParseTrustedProxies (raw # rest) =
    (case ParseTrustedProxies rest of (nets, bad) \<Rightarrow>
      (let s = trim_space raw
       in if s = [] then (nets, bad)
          else case proxy_entry s of None \<Rightarrow> (nets, (if CHR ''/'' \<in> set s then raw else s) # bad)
           | Some n \<Rightarrow> (n # nets, bad)))"

definition proxies_contain :: "network list \<Rightarrow> ip option \<Rightarrow> bool" where
  "proxies_contain nets a = (case a of None \<Rightarrow> False | Some x \<Rightarrow> list_ex (\<lambda>n. network_contains n x) nets)"

section \<open>The address of a client\<close>

record http_request =
  hr_remote :: string
  hr_xff :: "string list"
  hr_xri :: string

definition xffEntries :: "http_request \<Rightarrow> string list" where
  "xffEntries r = filter (\<lambda>s. s \<noteq> []) (map trim_space (concat (map (split_on (CHR '','')) (hr_xff r))))"

text \<open>The loop over the entries from the right: stop at an entry that is no address, answer the first
  address that is no trusted proxy, otherwise the last one that was trusted.\<close>

fun rightmost_untrusted :: "network list \<Rightarrow> string option \<Rightarrow> string list \<Rightarrow> string option" where
  "rightmost_untrusted trusted best [] = best"
| "rightmost_untrusted trusted best (e # es) =
    (case ParseIP e of None \<Rightarrow> best | Some a \<Rightarrow>
      (if \<not> proxies_contain trusted (Some a) then Some (ip_text a)
       else rightmost_untrusted trusted (Some (ip_text a)) es))"

definition ClientIPWithProxies :: "http_request \<Rightarrow> bool \<Rightarrow> network list \<Rightarrow> string" where
  "ClientIPWithProxies r trustProxy trusted =
    (let remote = remoteHost (hr_remote r); entries = xffEntries r
     in if \<not> trustProxy then remote
        else if trusted \<noteq> [] \<and> \<not> proxies_contain trusted (ParseIP remote) then remote
        else if entries \<noteq> [] then
          (if trusted = [] then (case ParseIP (last entries) of Some a \<Rightarrow> ip_text a | None \<Rightarrow> remote)
           else case rightmost_untrusted trusted None (rev entries) of Some a \<Rightarrow> a | None \<Rightarrow> remote)
        else
          (let xri = trim_space (hr_xri r)
           in if xri = [] then remote else case ParseIP xri of Some a \<Rightarrow> ip_text a | None \<Rightarrow> remote))"

definition ClientIP :: "http_request \<Rightarrow> bool \<Rightarrow> string" where
  "ClientIP r trustProxy = ClientIPWithProxies r trustProxy []"

text \<open>The handlers' wrapper: the settings say whether proxies are trusted, and which.\<close>

definition clientIP :: "bool \<Rightarrow> string list \<Rightarrow> http_request \<Rightarrow> string" where
  "clientIP trust proxies r =
    (if \<not> trust then ClientIP r False
     else ClientIPWithProxies r True (if proxies = [] then [] else fst (ParseTrustedProxies proxies)))"

lemma rightmost_skip:
  assumes "\<forall>p\<in>set ps. \<exists>b. ParseIP p = Some b \<and> proxies_contain trusted (Some b)"
    and "ParseIP c = Some a" and "\<not> proxies_contain trusted (Some a)"
  shows "rightmost_untrusted trusted best (ps @ c # rest) = Some (ip_text a)"
  using assms by (induction ps arbitrary: best) auto

text \<open>Behind trusted proxies a client cannot choose its address: whatever headers it sends, the address is
  the one the outermost trusted proxy saw; and a peer that is not a trusted proxy is taken at its own
  address.\<close>

theorem ClientIP_unforgeable:
  assumes "trusted \<noteq> []"
    and "proxies_contain trusted (ParseIP (remoteHost (hr_remote r))) \<Longrightarrow>
      xffEntries r = forged @ client # proxies \<and> ParseIP client = Some a \<and> \<not> proxies_contain trusted (Some a) \<and>
      (\<forall>p\<in>set proxies. \<exists>b. ParseIP p = Some b \<and> proxies_contain trusted (Some b))"
  shows "ClientIPWithProxies r True trusted =
    (if proxies_contain trusted (ParseIP (remoteHost (hr_remote r))) then ip_text a else remoteHost (hr_remote r))"
proof (cases "proxies_contain trusted (ParseIP (remoteHost (hr_remote r)))")
  case True
  from assms(2) [OF True] have x: "xffEntries r = forged @ client # proxies" and
    "rightmost_untrusted trusted None (rev proxies @ client # rev forged) = Some (ip_text a)"
    by (auto intro!: rightmost_skip)
  then show ?thesis using True assms(1) by (simp add: ClientIPWithProxies_def Let_def)
qed (use assms(1) in \<open>simp add: ClientIPWithProxies_def Let_def\<close>)

definition ex_proxied :: http_request where
  "ex_proxied = \<lparr>hr_remote = ''10.0.0.7:123'', hr_xff = [''6.6.6.6, 1.2.3.4'', ''10.1.1.1''], hr_xri = []\<rparr>"

theorem ClientIP_unforgeable_witness:
  "ClientIPWithProxies ex_proxied True (fst (ParseTrustedProxies [''10.0.0.0/8''])) = ''1.2.3.4''"
proof -
  let ?t = "fst (ParseTrustedProxies [''10.0.0.0/8''])"
  have t: "?t \<noteq> []" by code_simp
  have x: "xffEntries ex_proxied = [''6.6.6.6''] @ ''1.2.3.4'' # [''10.1.1.1'']" by code_simp
  have c: "ParseIP ''1.2.3.4'' = Some (v4_prefix @ [1, 2, 3, 4])" "\<not> proxies_contain ?t (Some (v4_prefix @ [1, 2, 3, 4]))"
    "ParseIP ''10.1.1.1'' = Some (v4_prefix @ [10, 1, 1, 1])" "proxies_contain ?t (Some (v4_prefix @ [10, 1, 1, 1]))"
    "proxies_contain ?t (ParseIP (remoteHost (hr_remote ex_proxied)))" "ip_text (v4_prefix @ [1, 2, 3, 4]) = ''1.2.3.4''"
    by code_simp+
  show ?thesis
    using ClientIP_unforgeable [OF t, of ex_proxied "[''6.6.6.6'']" "''1.2.3.4''" "[''10.1.1.1'']" "v4_prefix @ [1, 2, 3, 4]"]
      x c by simp
qed

text \<open>A list of proxies without a valid entry counts as no list: then every peer's header is believed.\<close>

lemma invalid_proxies_trust_all:
  "clientIP True [''nginx''] \<lparr>hr_remote = ''8.8.8.8:123'', hr_xff = [''10.0.0.5''], hr_xri = []\<rparr> = ''10.0.0.5''"
  by code_simp

section \<open>Addresses of hosts and of the server\<close>

record url =
  ur_scheme :: string
  ur_host :: string
  ur_hostname :: string
  ur_port :: string
  ur_user :: bool
  ur_path :: string
  ur_query :: string
  ur_fragment :: string

record url_lib =
  ul_parse :: "string \<Rightarrow> url option"
  ul_string :: "url \<Rightarrow> string"

definition control_free :: "string \<Rightarrow> bool" where
  "control_free s = list_all (\<lambda>c. \<not> (byte c < 32 \<or> byte c = 127)) s"

definition label_ok :: "string \<Rightarrow> bool" where
  "label_ok l = (l \<noteq> [] \<and> length l \<le> 63 \<and> list_all (\<lambda>c. is_letter c \<or> is_digit c \<or> c = CHR ''-'') l \<and>
     hd l \<noteq> CHR ''-'' \<and> last l \<noteq> CHR ''-'')"

definition validHostname :: "string \<Rightarrow> bool" where
  "validHostname h = (h \<noteq> [] \<and> length h \<le> 253 \<and> list_all label_ok (split_on (CHR ''.'') h))"

definition trim_set :: "char list \<Rightarrow> string \<Rightarrow> string" where
  "trim_set cs s = trim_right cs (dropWhile (\<lambda>c. c \<in> set cs) s)"

datatype addr_error = AddrTooLong | AddrControl | AddrBadURL | AddrScheme | AddrNoHost | AddrCredentials | AddrBadHost | AddrBadPort

definition NormalizeAddr :: "url_lib \<Rightarrow> (string \<Rightarrow> int option) \<Rightarrow> string \<Rightarrow> addr_error + string" where
  "NormalizeAddr ul ports raw0 =
    (let raw = trim_space raw0
     in if raw = [] then Inr []
        else if length raw > 512 then Inl AddrTooLong
        else if \<not> control_free raw then Inl AddrControl
        else if contains ''://'' raw then
          (case ul_parse ul raw of None \<Rightarrow> Inl AddrBadURL | Some u \<Rightarrow>
            (if ur_scheme u \<noteq> ''http'' \<and> ur_scheme u \<noteq> ''https'' then Inl AddrScheme
             else if ur_hostname u = [] then Inl AddrNoHost
             else if ur_user u then Inl AddrCredentials
             else Inr (trim_right ''/'' (ul_string ul (u\<lparr>ur_path := trim_right ''/'' (ur_path u)\<rparr>)))))
        else
          (let (host, port) = (case SplitHostPort raw of Some hp \<Rightarrow> hp | None \<Rightarrow> (trim_set ''[]'' raw, []))
           in if host = [] then Inl AddrNoHost
              else if ParseIP host = None \<and> \<not> validHostname host then Inl AddrBadHost
              else if port \<noteq> [] \<and> (case ports port of None \<Rightarrow> True | Some p \<Rightarrow> p \<le> 0 \<or> p > 65535) then Inl AddrBadPort
              else Inr raw))"

text \<open>\<open>net.JoinHostPort\<close> brackets what holds a colon.\<close>

definition JoinHostPort :: "string \<Rightarrow> string \<Rightarrow> string" where
  "JoinHostPort host port =
    (if CHR '':'' \<in> set host then ''['' @ host @ '']:'' @ port else host @ '':'' @ port)"

definition ResolveServerURL :: "url_lib \<Rightarrow> string \<Rightarrow> string \<Rightarrow> string" where
  "ResolveServerURL ul tunnel0 defaultURL =
    (let tunnel = trim_space tunnel0
     in if tunnel = [] then []
        else if contains ''://'' tunnel then
          (case ul_parse ul tunnel of None \<Rightarrow> [] | Some u \<Rightarrow>
            (if ur_host u = [] \<or> (ur_scheme u \<noteq> ''http'' \<and> ur_scheme u \<noteq> ''https'') then []
             else trim_right ''/'' (ul_string ul
               (u\<lparr>ur_path := trim_right ''/'' (ur_path u), ur_query := [], ur_fragment := []\<rparr>))))
        else
          (let bare = \<lparr>ur_scheme = ''http'', ur_host = [], ur_hostname = [], ur_port = [], ur_user = False, ur_path = [],
                 ur_query = [], ur_fragment = []\<rparr>;
               base = (case ul_parse ul (trim_space defaultURL) of None \<Rightarrow> bare | Some u \<Rightarrow>
                 (if ur_scheme u = [] \<or> ur_host u = [] then bare else u));
               host = (if SplitHostPort tunnel \<noteq> None then tunnel
                 else JoinHostPort (trim_set ''[]'' tunnel)
                   (if ur_port base \<noteq> [] then ur_port base else if ur_scheme base = ''https'' then ''443'' else ''80''))
           in if host = [] then []
              else trim_right ''/'' (ul_string ul (base\<lparr>ur_host := host, ur_path := [], ur_query := [], ur_fragment := []\<rparr>))))"

definition NormalizeExitIP :: "string \<Rightarrow> string" where
  "NormalizeExitIP raw0 =
    (let raw = trim_space raw0
     in if raw = [] then [] else case ParseIP (trim_set ''[]'' raw) of None \<Rightarrow> [] | Some a \<Rightarrow> ip_text a)"

end
