(* ===== verification/Enrol.thy ===== *)
theory Enrol
imports Accounts ClientAddr SelfUpdate
begin

text \<open>
  Enrolment: the tokens that let a machine register (\<open>internal/handler/agent_enroll_tokens.go\<close> and
  \<open>AgentEnrollToken\<close> of \<open>internal/handler/agent.go\<close>) and registration itself. Random values are
  parameters, so is the digest of a token. A transaction that fails leaves the tables as they were.
\<close>

section \<open>Cleaning what an agent sends\<close>

definition cleanAgentText :: "string \<Rightarrow> nat \<Rightarrow> string" where
  "cleanAgentText s0 maxBytes =
    (let s1 = trim_space (to_valid_utf8 s0 []);
         s = trim_space (filter (\<lambda>c. \<not> (byte c < 32 \<or> byte c = 127)) s1)
     in if s1 = [] then [] else if maxBytes = 0 \<or> length s \<le> maxBytes then s else take (cut_at s maxBytes) s)"

definition agent_states :: "string list" where
  "agent_states = [''online'', ''upgrading'', ''restarting'', ''crash_loop'', ''offline'', ''unknown'']"

definition normalizeAgentStatus :: "string \<Rightarrow> string" where
  "normalizeAgentStatus s = (let t = to_lower (trim_space s) in if t \<in> set agent_states then t else ''online'')"

definition isValidArch :: "string \<Rightarrow> bool" where
  "isValidArch arch = (arch \<in> set [''amd64'', ''arm64'', ''arm'', ''386'', ''amd64-legacy'', ''arm64-legacy'', ''arm-legacy'', ''386-legacy''])"

definition isValidTarget :: "string \<Rightarrow> string \<Rightarrow> bool" where
  "isValidTarget osName arch =
    (let os = to_lower (trim_space osName)
     in if os = [] \<or> os = ''linux'' then isValidArch arch
        else if os = ''windows'' then arch = ''amd64'' \<or> arch = ''arm64'' else False)"

definition normalizeServerURL :: "url_lib \<Rightarrow> string \<Rightarrow> string" where
  "normalizeServerURL ul raw0 =
    (let raw = trim_space raw0
     in if raw = [] \<or> length raw > 512 then []
        else case ul_parse ul raw of None \<Rightarrow> [] | Some u \<Rightarrow>
          (if ur_host u = [] \<or> (ur_scheme u \<noteq> ''http'' \<and> ur_scheme u \<noteq> ''https'') then [] else trim_right ''/'' raw))"

section \<open>Tokens\<close>

definition et_active :: "time \<Rightarrow> enroll_token_row \<Rightarrow> bool" where
  "et_active now t = (et_enabled t \<and> et_revoked_at t = None \<and>
     (case et_expires_at t of None \<Rightarrow> True | Some e \<Rightarrow> e > now) \<and>
     (et_type t = ''one_time'' \<and> et_used_at t = None \<and> et_max_uses t = 1 \<or>
      et_type t = ''automation'' \<and> (et_max_uses t = 0 \<or> et_used_count t < et_max_uses t)))"

text \<open>\<open>NULLIF($3,'')::inet <<= ANY(allowed_cidrs)\<close>: an address that is none matches no network.\<close>

definition et_source_ok :: "string \<Rightarrow> enroll_token_row \<Rightarrow> bool" where
  "et_source_ok ip t = (et_cidrs t = [] \<or>
     (case ParseIP ip of None \<Rightarrow> False | Some a \<Rightarrow>
        list_ex (\<lambda>c. case ParseCIDR c of None \<Rightarrow> False | Some n \<Rightarrow> network_contains n a) (et_cidrs t)))"

definition et_spend :: "time \<Rightarrow> string \<Rightarrow> enroll_token_row \<Rightarrow> enroll_token_row" where
  "et_spend now ip t =
    (if et_type t = ''one_time'' then t\<lparr>et_used_at := Some now, et_used_by_ip := ip\<rparr>
     else if et_type t = ''automation'' then t\<lparr>et_used_count := et_used_count t + 1, et_last_used_at := Some now, et_last_used_ip := ip\<rparr>
     else t)"

definition consumeEnrollTokenTx :: "(string \<Rightarrow> string) \<Rightarrow> time \<Rightarrow> string \<Rightarrow> string \<Rightarrow> db \<Rightarrow> int option \<times> db" where
  "consumeEnrollTokenTx hash now token source d =
    (if token = [] then (None, d)
     else
      (let ip = trim_space source;
           usable = (\<lambda>t. et_hash t = hash token \<and> et_active now t \<and> et_source_ok ip t)
       in case find usable (d_tokens d) of None \<Rightarrow> (None, d) | Some t \<Rightarrow>
            (if et_tenant t \<le> 0 then (None, d)
             else (Some (et_tenant t), d\<lparr>d_tokens := upd_where usable (et_spend now ip) (d_tokens d)\<rparr>))))"

definition new_token :: "time \<Rightarrow> int \<Rightarrow> string \<Rightarrow> string \<Rightarrow> string \<Rightarrow> enroll_token_row" where
  "new_token now i hash typ creator =
    \<lparr>et_id = i, et_hash = hash, et_prefix = [], et_type = typ, et_tenant = 1, et_name = [], et_note = [],
     et_created_by = creator, et_created_at = now, et_expires_at = None, et_used_at = None, et_used_by_ip = [],
     et_max_uses = 1, et_used_count = 0, et_last_used_at = None, et_last_used_ip = [], et_enabled = True,
     et_revoked_at = None, et_revoked_by = [], et_cidrs = []\<rparr>"

definition insert_token :: "enroll_token_row \<Rightarrow> db \<Rightarrow> db" where
  "insert_token t d = d\<lparr>d_tokens := d_tokens d @ [t], d_next_token := d_next_token d + 1\<rparr>"

definition own_tenant :: "user \<Rightarrow> int" where
  "own_tenant u = (if us_tenant u \<le> 0 then 1 else us_tenant u)"

text \<open>A one-time token of an administrator; \<open>want\<close> is the tenant a super administrator may ask for.\<close>

definition AgentEnrollToken ::
    "(string \<Rightarrow> string) \<Rightarrow> string \<Rightarrow> time \<Rightarrow> string \<Rightarrow> user option \<Rightarrow> int option \<Rightarrow> string \<Rightarrow> string \<Rightarrow> db \<Rightarrow> bool \<times> db" where
  "AgentEnrollToken hash token now ttlText actor want os0 arch0 d =
    (let os = (if trim_space (to_lower os0) = [] then ''linux'' else trim_space (to_lower os0));
         arch = trim_space (to_lower (if arch0 = [] then ''amd64'' else arch0));
         ttl = (case parse_duration ttlText of None \<Rightarrow> minutes 15 | Some t \<Rightarrow> if t > 0 then t else minutes 15);
         tenant = (case actor of None \<Rightarrow> 1 | Some u \<Rightarrow>
           (case want of Some n \<Rightarrow> if IsSuperAdmin u \<and> n > 0 then n else own_tenant u | None \<Rightarrow> own_tenant u));
         creator = (case actor of None \<Rightarrow> [] | Some u \<Rightarrow> us_username u)
     in if \<not> isValidTarget os arch then (False, d)
        else (True, insert_token ((new_token now (d_next_token d) (hash token) ''one_time'' creator)
               \<lparr>et_expires_at := Some (now + ttl), et_tenant := tenant\<rparr>) d))"

section \<open>Automation tokens\<close>

datatype token_error = TokenAnonymous | TokenForeignTenant | TokenNoTenant | TokenExpiry | TokenMaxUses | TokenCIDR
  | TokenTarget | TokenMissing | TokenRevoked | TokenExpired | TokenNone | TokenTooMany

record token_request =
  tr_name :: string
  tr_tenant :: int
  tr_expires_in :: string
  tr_expires_at :: string
  tr_permanent :: bool
  tr_max_uses :: int
  tr_cidrs :: "string list"
  tr_os :: string
  tr_arch :: string
  tr_note :: string

definition resolveAutomationTenant :: "user option \<Rightarrow> int \<Rightarrow> token_error + int" where
  "resolveAutomationTenant actor requested =
    (case actor of None \<Rightarrow> Inl TokenAnonymous | Some u \<Rightarrow>
      (if IsSuperAdmin u then Inr (if requested > 0 then requested else if us_tenant u > 0 then us_tenant u else 1)
       else if requested > 0 \<and> requested \<noteq> own_tenant u then Inl TokenForeignTenant
       else Inr (own_tenant u)))"

text \<open>Parsing an RFC 3339 time is the parameter \<open>rfc3339\<close>. The answer's \<open>None\<close> is a permanent token.\<close>

definition resolveAutomationExpiry :: "(string \<Rightarrow> time option) \<Rightarrow> time \<Rightarrow> token_request \<Rightarrow> token_error + time option" where
  "resolveAutomationExpiry rfc3339 now rq =
    (let dur = trim_space (tr_expires_in rq); when = trim_space (tr_expires_at rq)
     in if tr_permanent rq \<or> equal_fold dur ''permanent'' then
          (if when \<noteq> [] \<or> (dur \<noteq> [] \<and> \<not> equal_fold dur ''permanent'') then Inl TokenExpiry else Inr None)
        else if dur \<noteq> [] \<and> when \<noteq> [] then Inl TokenExpiry
        else if when \<noteq> [] then
          (case rfc3339 when of None \<Rightarrow> Inl TokenExpiry | Some t \<Rightarrow> if \<not> t > now then Inl TokenExpiry else Inr (Some t))
        else if dur \<noteq> [] then
          (case parse_duration dur of None \<Rightarrow> Inl TokenExpiry | Some x \<Rightarrow> if x \<le> 0 then Inl TokenExpiry else Inr (Some (now + x)))
        else Inl TokenExpiry)"

definition network_text :: "network \<Rightarrow> string" where
  "network_text n = (case To4 (fst n) of
      Some a \<Rightarrow> v4_text a @ ''/'' @ nat_dec (if length (fst n) = 16 then snd n - 96 else snd n)
    | None \<Rightarrow> v6_text (fst n) @ ''/'' @ nat_dec (snd n))"

fun collect_cidrs :: "string list \<Rightarrow> string list \<Rightarrow> token_error + string list" where
  "collect_cidrs out [] = Inr out"
| "collect_cidrs out (raw # rest) =
    (let item = trim_space raw
     in if item = [] then collect_cidrs out rest
        else case ParseCIDR item of None \<Rightarrow> Inl TokenCIDR | Some n \<Rightarrow>
          (if network_text n \<in> set out then collect_cidrs out rest
           else if length out + 1 > 100 then Inl TokenCIDR
           else collect_cidrs (out @ [network_text n]) rest))"

definition normalizeAutomationCIDRs :: "string list \<Rightarrow> token_error + string list" where
  "normalizeAutomationCIDRs raw = collect_cidrs [] raw"

definition normalizeAutomationTarget :: "string \<Rightarrow> string \<Rightarrow> token_error + string \<times> string" where
  "normalizeAutomationTarget os0 arch0 =
    (let os = trim_space (to_lower os0); arch = trim_space (to_lower arch0);
         os' = (if os = [] then ''linux'' else os); arch' = (if arch = [] then ''amd64'' else arch)
     in if \<not> isValidTarget os' arch' then Inl TokenTarget else Inr (os', arch'))"

definition newAutomationToken :: "string \<Rightarrow> string \<times> string" where
  "newAutomationToken rnd = (let token = ''enr_auto_'' @ rnd in (token, take 20 token))"

definition insertAutomationToken ::
    "(string \<Rightarrow> string) \<Rightarrow> time \<Rightarrow> string \<Rightarrow> string \<Rightarrow> int \<Rightarrow> string \<Rightarrow> string \<Rightarrow> string \<Rightarrow> time option \<Rightarrow> int \<Rightarrow> string list \<Rightarrow> db \<Rightarrow> int \<times> db" where
  "insertAutomationToken hash now token prefix tenant name note creator expires maxUses cidrs d =
    (d_next_token d, insert_token ((new_token now (d_next_token d) (hash token) ''automation'' creator)
       \<lparr>et_prefix := prefix, et_expires_at := expires, et_max_uses := maxUses, et_cidrs := cidrs, et_tenant := tenant,
         et_name := name, et_note := note\<rparr>) d)"

definition AutomationEnrollTokenCreate ::
    "(string \<Rightarrow> string) \<Rightarrow> (string \<Rightarrow> time option) \<Rightarrow> string \<Rightarrow> time \<Rightarrow> user option \<Rightarrow> accounts \<Rightarrow> token_request \<Rightarrow> db \<Rightarrow>
     (token_error + int \<times> string) \<times> db" where
  "AutomationEnrollTokenCreate hash rfc3339 rnd now actor acc rq d =
    (case resolveAutomationTenant actor (tr_tenant rq) of Inl e \<Rightarrow> (Inl e, d) | Inr tenant \<Rightarrow>
      (if ensureTenantExists tenant acc \<noteq> None then (Inl TokenNoTenant, d)
       else case resolveAutomationExpiry rfc3339 now rq of Inl e \<Rightarrow> (Inl e, d) | Inr expires \<Rightarrow>
        (if tr_max_uses rq < 0 \<or> tr_max_uses rq > 1000000 then (Inl TokenMaxUses, d)
         else case normalizeAutomationCIDRs (tr_cidrs rq) of Inl e \<Rightarrow> (Inl e, d) | Inr cidrs \<Rightarrow>
          (let name0 = cleanAgentText (tr_name rq) 100; name = (if name0 = [] then ''automation'' else name0);
               note = cleanAgentText (tr_note rq) 255;
               creator = (case actor of None \<Rightarrow> [] | Some u \<Rightarrow> us_username u);
               (token, prefix) = newAutomationToken rnd
           in case normalizeAutomationTarget (tr_os rq) (tr_arch rq) of Inl e \<Rightarrow> (Inl e, d) | Inr target \<Rightarrow>
             (case insertAutomationToken hash now token prefix tenant name note creator expires (tr_max_uses rq) cidrs d of
                (i, d') \<Rightarrow> (Inr (i, token), d'))))))"

definition token_visible :: "user \<Rightarrow> enroll_token_row \<Rightarrow> bool" where
  "token_visible u t = (et_type t = ''automation'' \<and> (IsSuperAdmin u \<or> et_tenant t = own_tenant u))"

definition token_status :: "time \<Rightarrow> enroll_token_row \<Rightarrow> string" where
  "token_status now t =
    (if \<not> et_enabled t \<or> et_revoked_at t \<noteq> None then ''revoked''
     else if (case et_expires_at t of None \<Rightarrow> False | Some e \<Rightarrow> \<not> e > now) then ''expired''
     else if et_max_uses t > 0 \<and> et_used_count t \<ge> et_max_uses t then ''exhausted''
     else ''active'')"

definition AutomationEnrollTokenList :: "time \<Rightarrow> user option \<Rightarrow> int option \<Rightarrow> db \<Rightarrow> (token_error + (enroll_token_row \<times> string) list)" where
  "AutomationEnrollTokenList now actor requested d =
    (case actor of None \<Rightarrow> Inl TokenAnonymous | Some u \<Rightarrow>
      (if IsSuperAdmin u \<and> (case requested of None \<Rightarrow> False | Some n \<Rightarrow> n \<le> 0) then Inl TokenNoTenant
       else Inr (take 500 (map (\<lambda>t. (t, token_status now t)) (sort_key (\<lambda>t. - et_created_at t)
         (filter (\<lambda>t. token_visible u t \<and> (case requested of None \<Rightarrow> True | Some n \<Rightarrow> IsSuperAdmin u \<longrightarrow> et_tenant t = n)) (d_tokens d)))))))"

definition AutomationEnrollTokenRevoke :: "time \<Rightarrow> user option \<Rightarrow> int \<Rightarrow> db \<Rightarrow> token_error option \<times> db" where
  "AutomationEnrollTokenRevoke now actor i d =
    (if i \<le> 0 then (Some TokenMissing, d)
     else case actor of None \<Rightarrow> (Some TokenAnonymous, d) | Some u \<Rightarrow>
      (let hit = (\<lambda>t. et_id t = i \<and> token_visible u t)
       in if \<not> exists_row hit (d_tokens d) then (Some TokenMissing, d)
          else (None, d\<lparr>d_tokens := upd_where hit
            (\<lambda>t. t\<lparr>et_enabled := False,
                   et_revoked_at := (case et_revoked_at t of None \<Rightarrow> Some now | Some x \<Rightarrow> Some x),
                   et_revoked_by := (if et_revoked_by t = [] then us_username u else et_revoked_by t)\<rparr>) (d_tokens d)\<rparr>)))"

definition AutomationEnrollTokenRotate ::
    "(string \<Rightarrow> string) \<Rightarrow> string \<Rightarrow> time \<Rightarrow> user option \<Rightarrow> int \<Rightarrow> string \<Rightarrow> string \<Rightarrow> db \<Rightarrow> (token_error + int \<times> string) \<times> db" where
  "AutomationEnrollTokenRotate hash rnd now actor i os arch d =
    (if i \<le> 0 then (Inl TokenMissing, d)
     else case normalizeAutomationTarget os arch of Inl e \<Rightarrow> (Inl e, d) | Inr target \<Rightarrow>
      (case actor of None \<Rightarrow> (Inl TokenAnonymous, d) | Some u \<Rightarrow>
        (case find (\<lambda>t. et_id t = i \<and> token_visible u t) (d_tokens d) of None \<Rightarrow> (Inl TokenMissing, d) | Some t \<Rightarrow>
          (if \<not> et_enabled t \<or> et_revoked_at t \<noteq> None then (Inl TokenRevoked, d)
           else if (case et_expires_at t of None \<Rightarrow> False | Some e \<Rightarrow> \<not> e > now) then (Inl TokenExpired, d)
           else
            (let (token, prefix) = newAutomationToken rnd
             in case insertAutomationToken hash now token prefix (et_tenant t) (et_name t) (et_note t) (et_created_by t)
                  (et_expires_at t) (et_max_uses t) (et_cidrs t) d of
                (new, d1) \<Rightarrow> (Inr (new, token), d1\<lparr>d_tokens := upd_where (\<lambda>r. et_id r = i)
                  (\<lambda>r. r\<lparr>et_enabled := False, et_revoked_at := Some now, et_revoked_by := us_username u\<rparr>) (d_tokens d1)\<rparr>))))))"

fun delete_tokens :: "user \<Rightarrow> int list \<Rightarrow> db \<Rightarrow> (int list \<times> int list) \<times> db" where
  "delete_tokens u [] d = (([], []), d)"
| "delete_tokens u (i # is) d =
    (let hit = (\<lambda>t. et_id t = i \<and> token_visible u t);
         d1 = d\<lparr>d_tokens := filter (\<lambda>t. \<not> hit t) (d_tokens d)\<rparr>
     in case delete_tokens u is d1 of ((ok, bad), d2) \<Rightarrow>
          (if exists_row hit (d_tokens d) then ((i # ok, bad), d2) else ((ok, i # bad), d2)))"

definition AutomationEnrollTokenBatchDelete :: "user option \<Rightarrow> int list \<Rightarrow> db \<Rightarrow> (token_error + int list \<times> int list) \<times> db" where
  "AutomationEnrollTokenBatchDelete actor ids0 d =
    (case actor of None \<Rightarrow> (Inl TokenAnonymous, d) | Some u \<Rightarrow>
      (if ids0 = [] then (Inl TokenNone, d)
       else (let ids = unique_positive [] ids0
             in if length ids > 200 then (Inl TokenTooMany, d)
                else (case delete_tokens u ids d of (res, d') \<Rightarrow> (Inr res, d')))))"

section \<open>Registration\<close>

record register_request =
  rr_token :: string
  rr_hostname :: string
  rr_exit_ip :: string
  rr_os :: string
  rr_os_version :: string
  rr_arch :: string
  rr_kernel :: string
  rr_supervisor :: string
  rr_agent_version :: string
  rr_build_version :: string
  rr_build_hash :: string
  rr_build_variant :: string
  rr_signature_modes :: "string list"
  rr_capabilities :: "string list"

record credentials =
  cr_agent_id :: string
  cr_token :: string
  cr_secret :: string

datatype register_error = UnsupportedArch | TokenRefused | AddressOfOtherTenant | AgentIDTaken

text \<open>The columns an insert leaves to their defaults.\<close>

definition blank_host :: "int \<Rightarrow> string \<Rightarrow> int \<Rightarrow> host_row" where
  "blank_host i ip tenant =
    \<lparr>ho_id = i, ho_ip = ip, ho_hostname = [], ho_exit_ip = [], ho_app_code = [], ho_biz_group = [], ho_os_family = [],
     ho_os_type = [], ho_account = [], ho_department = [], ho_vendor = [], ho_arch = [], ho_kernel = [], ho_agent_id = [],
     ho_agent_server_url = [], ho_agent_status = ''unknown'', ho_maintenance_until = None, ho_maintenance_reason = [],
     ho_last_stage = [], ho_last_seen = None, ho_build_hash = [], ho_build_variant = [], ho_tenant = tenant,
     ho_os_version = [], ho_host_type = [], ho_tunnel_ip = [], ho_server_url_override = [], ho_server_url_auto = False,
     ho_default_server_url = [], ho_custom_fields = [], ho_agent_version = [], ho_build_version = [], ho_supervisor = [],
     ho_source = ''consul'', ho_check_ok = None, ho_check_source = [], ho_check_at = None, ho_check_latency = 0,
     ho_check_detail = [], ho_check_requested_at = None\<rparr>"

text \<open>What the request says, cleaned; the fields of both rows come from it.\<close>

definition registered_host :: "time \<Rightarrow> register_request \<Rightarrow> credentials \<Rightarrow> host_row \<Rightarrow> host_row" where
  "registered_host now rq cr h =
    (let (bv, bh, bvar) = normalizeAgentBuild (rr_build_version rq) (rr_build_hash rq) (rr_build_variant rq)
     in h\<lparr>ho_hostname := cleanAgentText (rr_hostname rq) 255, ho_agent_id := cr_agent_id cr,
          ho_agent_version := cleanAgentText (rr_agent_version rq) 64, ho_build_version := cleanAgentText bv 128,
          ho_build_hash := bh, ho_build_variant := bvar, ho_agent_status := ''online'',
          ho_supervisor := cleanAgentText (rr_supervisor rq) 32, ho_source := ''agent'', ho_last_seen := Some now\<rparr>)"

definition upsert_host :: "time \<Rightarrow> string \<Rightarrow> int \<Rightarrow> register_request \<Rightarrow> credentials \<Rightarrow> db \<Rightarrow> (int \<times> db) option" where
  "upsert_host now ip tenant rq cr d =
    (let os = to_lower (cleanAgentText (rr_os rq) 64); arch = to_lower (trim_space (rr_arch rq));
         exitIP = NormalizeExitIP (rr_exit_ip rq)
     in case find (\<lambda>h. ho_ip h = ip) (d_hosts d) of
          None \<Rightarrow> Some (d_next_host d, d\<lparr>d_hosts := d_hosts d @
              [(registered_host now rq cr (blank_host (d_next_host d) ip tenant))
                \<lparr>ho_os_family := os, ho_os_version := cleanAgentText (rr_os_version rq) 64, ho_arch := arch,
                  ho_kernel := cleanAgentText (rr_kernel rq) 128, ho_exit_ip := exitIP\<rparr>],
              d_next_host := d_next_host d + 1\<rparr>)
        | Some h \<Rightarrow>
            (if ho_tenant h \<noteq> tenant then None
             else Some (ho_id h, d\<lparr>d_hosts := upd_where (\<lambda>r. ho_ip r = ip)
               (\<lambda>r. (registered_host now rq cr r)
                 \<lparr>ho_os_family := (if os = [] then ho_os_family r else os), ho_arch := (if arch = [] then ho_arch r else arch),
                   ho_exit_ip := (if exitIP \<noteq> [] then exitIP else ho_exit_ip r)\<rparr>) (d_hosts d),
               d_next_host := d_next_host d + 1\<rparr>)))"

definition new_agent :: "(string \<Rightarrow> string) \<Rightarrow> time \<Rightarrow> int \<Rightarrow> string \<Rightarrow> register_request \<Rightarrow> credentials \<Rightarrow> agent_row" where
  "new_agent hash now hostID ip rq cr =
    (let (bv, bh, bvar) = normalizeAgentBuild (rr_build_version rq) (rr_build_hash rq) (rr_build_variant rq);
         modes0 = NormalizeSignatureModes (rr_signature_modes rq);
         modes = (if modes0 = [] then [SignatureModeID] else modes0)
     in \<lparr>ag_agent_id = cr_agent_id cr, ag_token_hash = hash (cr_token cr), ag_secret = cr_secret cr,
         ag_signature_modes = join_with '','' modes,
         ag_capabilities = join_with '','' (NormalizeCapabilities (rr_capabilities rq)),
         ag_build_version = cleanAgentText bv 128, ag_host_id = Some hostID, ag_ip = ip,
         ag_arch = to_lower (trim_space (rr_arch rq)), ag_os = to_lower (cleanAgentText (rr_os rq) 64),
         ag_agent_version = cleanAgentText (rr_agent_version rq) 64, ag_supervisor = cleanAgentText (rr_supervisor rq) 32,
         ag_status = ''online'', ag_build_hash = bh, ag_build_variant = bvar, ag_last_heartbeat_at = Some now\<rparr>)"

text \<open>\<open>ip\<close> is the address the request came from; what the body says about it is not read.\<close>

definition AgentRegister ::
    "(string \<Rightarrow> string) \<Rightarrow> bool \<Rightarrow> time \<Rightarrow> string \<Rightarrow> register_request \<Rightarrow> credentials \<Rightarrow> db \<Rightarrow> (register_error + credentials) \<times> db" where
  "AgentRegister hash requireToken now ip rq cr d =
    (if \<not> isValidArch (to_lower (trim_space (rr_arch rq))) then (Inl UnsupportedArch, d)
     else case (if requireToken then consumeEnrollTokenTx hash now (rr_token rq) ip d else (Some 1, d)) of
        (None, _) \<Rightarrow> (Inl TokenRefused, d)
      | (Some tenant, d1) \<Rightarrow>
         (case upsert_host now ip tenant rq cr d1 of None \<Rightarrow> (Inl AddressOfOtherTenant, d)
          | Some (hostID, d2) \<Rightarrow>
             (let d3 = d2\<lparr>d_agents := filter (\<lambda>a. \<not> (ag_ip a = ip \<or> ag_host_id a = Some hostID)) (d_agents d2)\<rparr>
              in if exists_row (\<lambda>a. ag_agent_id a = cr_agent_id cr) (d_agents d3) then (Inl AgentIDTaken, d)
                 else (Inr cr, d3\<lparr>d_agents := d_agents d3 @ [new_agent hash now hostID ip rq cr]\<rparr>))))"

end
