(* ===== verification/Heartbeat.thy ===== *)
theory Heartbeat
imports Enrol
begin

text \<open>
  The heartbeat of an agent and the checks of its connection address: \<open>AgentHeartbeat\<close> and
  \<open>migrateLoopbackHostIP\<close> of \<open>internal/handler/agent.go\<close>, \<open>tunnel_check.go\<close> and \<open>HostTunnelTest\<close> of
  \<open>host_tunnel.go\<close>. Probing an address is a parameter. A statement whose failure the code only logs is
  modelled where it succeeds, except where a unique index makes it fail.
\<close>

section \<open>Results of a probe\<close>

record probe_stage =
  ps_name :: string
  ps_ok :: bool
  ps_latency :: int

record probe_result =
  pr_ok :: bool
  pr_stages :: "probe_stage list"
  pr_latency :: int
  pr_hint :: string

definition txt_tick :: string where "txt_tick = [CHR 0xE2, CHR 0x9C, CHR 0x93, CHR 0x20]"
definition txt_cross :: string where "txt_cross = [CHR 0xE2, CHR 0x9C, CHR 0x97, CHR 0x20]"
definition txt_open :: string where "txt_open = [CHR 0xEF, CHR 0xBC, CHR 0x88]"
definition txt_close :: string where "txt_close = [CHR 0x6D, CHR 0x73, CHR 0xEF, CHR 0xBC, CHR 0x89]"
definition txt_semicolon :: string where "txt_semicolon = [CHR 0xEF, CHR 0xBC, CHR 0x9B]"
definition txt_ellipsis :: string where "txt_ellipsis = [CHR 0xE2, CHR 0x80, CHR 0xA6]"
definition txt_probing :: string where "txt_probing = [CHR 0xE5, CHR 0xB9, CHR 0xB3, CHR 0xE5, CHR 0x8F, CHR 0xB0, CHR 0xE4, CHR 0xBE, CHR 0xA7, CHR 0xE6, CHR 0x8B, CHR 0xA8, CHR 0xE6, CHR 0xB5, CHR 0x8B, CHR 0xE4, CHR 0xB8, CHR 0xAD, CHR 0xE2, CHR 0x80, CHR 0xA6]"
definition txt_bad_address :: string where "txt_bad_address = [CHR 0xE8, CHR 0xBF, CHR 0x9E, CHR 0xE6, CHR 0x8E, CHR 0xA5, CHR 0xE5, CHR 0x9C, CHR 0xB0, CHR 0xE5, CHR 0x9D, CHR 0x80, CHR 0xE9, CHR 0x9D, CHR 0x9E, CHR 0xE6, CHR 0xB3, CHR 0x95, CHR 0xEF, CHR 0xBC, CHR 0x9A, CHR 0xE6, CHR 0x94, CHR 0xAF, CHR 0xE6, CHR 0x8C, CHR 0x81, CHR 0x20, CHR 0x49, CHR 0x50, CHR 0xE3, CHR 0x80, CHR 0x81, CHR 0x49, CHR 0x50, CHR 0x3A, CHR 0xE7, CHR 0xAB, CHR 0xAF, CHR 0xE5, CHR 0x8F, CHR 0xA3, CHR 0xE6, CHR 0x88, CHR 0x96, CHR 0x20, CHR 0x68, CHR 0x74, CHR 0x74, CHR 0x70, CHR 0x28, CHR 0x73, CHR 0x29, CHR 0x20, CHR 0x55, CHR 0x52, CHR 0x4C]"

definition tunnelCheckDetail :: "probe_result \<Rightarrow> string" where
  "tunnelCheckDetail r =
    (let parts = map (\<lambda>s. (if ps_ok s then txt_tick else txt_cross) @ ps_name s @ txt_open @ int_dec (ps_latency s) @ txt_close)
                   (pr_stages r) @ (if pr_hint r \<noteq> [] then [pr_hint r] else []);
         detail = join_with txt_semicolon parts
     in if length detail > 2000 then to_valid_utf8 (take 2000 detail) [] @ txt_ellipsis else detail)"

definition set_check :: "time \<Rightarrow> string \<Rightarrow> probe_result \<Rightarrow> host_row \<Rightarrow> host_row" where
  "set_check now source r h = h\<lparr>ho_check_ok := Some (pr_ok r), ho_check_source := source, ho_check_at := Some now,
     ho_check_latency := pr_latency r, ho_check_detail := tunnelCheckDetail r\<rparr>"

definition clear_check :: "string \<Rightarrow> time option \<Rightarrow> host_row \<Rightarrow> host_row" where
  "clear_check detail requested h = h\<lparr>ho_check_ok := None, ho_check_source := [], ho_check_at := None, ho_check_latency := 0,
     ho_check_detail := detail, ho_check_requested_at := requested\<rparr>"

definition upd_hosts :: "(host_row \<Rightarrow> bool) \<Rightarrow> (host_row \<Rightarrow> host_row) \<Rightarrow> db \<Rightarrow> db" where
  "upd_hosts P f d = d\<lparr>d_hosts := upd_where P f (d_hosts d)\<rparr>"

definition savePlatformTunnelCheck :: "time \<Rightarrow> int \<Rightarrow> probe_result \<Rightarrow> db \<Rightarrow> db" where
  "savePlatformTunnelCheck now i r = upd_hosts (\<lambda>h. ho_id h = i \<and> ho_check_source h \<noteq> ''agent'') (set_check now ''platform'' r)"

definition saveAgentTunnelCheck :: "time \<Rightarrow> string \<Rightarrow> probe_result \<Rightarrow> db \<Rightarrow> db" where
  "saveAgentTunnelCheck now agentID r = upd_hosts (\<lambda>h. ho_agent_id h = agentID)
     (\<lambda>h. (set_check now ''agent'' r h)\<lparr>ho_check_requested_at := None\<rparr>)"

text \<open>Saving an address asks for a check; the platform's own probe follows.\<close>

definition triggerTunnelCheck :: "time \<Rightarrow> int \<Rightarrow> db \<Rightarrow> db" where
  "triggerTunnelCheck now i = upd_hosts (\<lambda>h. ho_id h = i) (clear_check txt_probing (Some now))"

text \<open>\<open>external\<close> is the server's own address from the settings, \<open>probe\<close> what probing an address yields.\<close>

definition fallback_url :: "string \<Rightarrow> string \<Rightarrow> string" where
  "fallback_url external agentDefault = (if agentDefault = [] then trim_right ''/'' (trim_space external) else agentDefault)"

definition runPlatformTunnelCheck :: "url_lib \<Rightarrow> string \<Rightarrow> (string \<Rightarrow> probe_result) \<Rightarrow> time \<Rightarrow> int \<Rightarrow> db \<Rightarrow> db" where
  "runPlatformTunnelCheck ul external probe now i d =
    (case find_host i d of None \<Rightarrow> d | Some h \<Rightarrow>
      (let target = trim_space (ho_server_url_override h)
       in if target = [] then upd_hosts (\<lambda>h. ho_id h = i) (clear_check [] None) d
          else (let resolved = ResolveServerURL ul target (fallback_url external (ho_default_server_url h))
                in if resolved = [] then savePlatformTunnelCheck now i
                        \<lparr>pr_ok = False, pr_stages = [], pr_latency = 0, pr_hint = txt_bad_address\<rparr> d
                   else savePlatformTunnelCheck now i (probe resolved) d)))"

definition HostTunnelTest :: "url_lib \<Rightarrow> string \<Rightarrow> (string \<Rightarrow> probe_result) \<Rightarrow> time \<Rightarrow> scope \<Rightarrow> int \<Rightarrow> string \<Rightarrow> db \<Rightarrow> (nat + probe_result) \<times> db" where
  "HostTunnelTest ul external probe now sc i target0 d =
    (if i \<le> 0 then (Inl 400, d)
     else case find (\<lambda>h. ho_id h = i \<and> scope_where sc (ho_tenant h)) (d_hosts d) of None \<Rightarrow> (Inl 404, d) | Some h \<Rightarrow>
      (let target = (if trim_space target0 = [] then ho_server_url_override h else trim_space target0)
       in if target = [] then (Inl 400, d)
          else (let resolved = ResolveServerURL ul target (fallback_url external (ho_default_server_url h))
                in if resolved = [] then (Inl 400, d)
                   else (let r = probe resolved
                         in (Inr r, upd_hosts (\<lambda>h. ho_id h = i) (set_check now ''platform'' r) d)))))"

section \<open>The heartbeat\<close>

record check_report =
  ck_url :: string
  ck_ok :: bool
  ck_latency :: int
  ck_detail :: string

record heartbeat_request =
  hb_status :: string
  hb_exit_ip :: string
  hb_server_url :: string
  hb_default_url :: string
  hb_build_version :: string
  hb_build_hash :: string
  hb_build_variant :: string
  hb_signature_modes :: "string list"
  hb_capabilities :: "string list"
  hb_check :: "check_report option"

record heartbeat_response =
  hp_server_url :: string
  hp_clock_skew :: string
  hp_check_url :: string

definition protocolTunnelCheck :: "check_report \<Rightarrow> probe_result" where
  "protocolTunnelCheck c = \<lparr>pr_ok = ck_ok c, pr_stages = [], pr_latency = ck_latency c,
     pr_hint = (if ck_ok c then [] else ck_detail c)\<rparr>"

definition resolveServerURLOverride :: "url_lib \<Rightarrow> string \<Rightarrow> string \<Rightarrow> string \<Rightarrow> string" where
  "resolveServerURLOverride ul external override agentDefault =
    (let raw = trim_space override
     in if raw = [] then []
        else if contains ''://'' raw then ResolveServerURL ul raw []
        else ResolveServerURL ul raw (fallback_url external agentDefault))"

definition is_loopback :: "ip \<Rightarrow> bool" where
  "is_loopback a = (case To4 a of Some b \<Rightarrow> hd b = 127 | None \<Rightarrow> a = replicate 15 0 @ [1])"

definition loopback_text :: "string \<Rightarrow> bool" where
  "loopback_text s = (s = ''127.0.0.1'' \<or> s = ''::1'')"

text \<open>The first update fails when a host already has the address, or two rows would get it.\<close>

definition migrateLoopbackHostIP :: "string \<Rightarrow> string \<Rightarrow> db \<Rightarrow> db" where
  "migrateLoopbackHostIP agentID newIP d =
    (if agentID = [] \<or> newIP = [] then d
     else case ParseIP newIP of None \<Rightarrow> d | Some a \<Rightarrow>
      (if is_loopback a then d
       else
        (let hit = (\<lambda>h. ho_agent_id h = agentID \<and> loopback_text (ho_ip h));
             n = rows_affected hit (d_hosts d)
         in if n > 1 \<or> (n = 1 \<and> exists_row (\<lambda>h. ho_ip h = newIP) (d_hosts d)) then d
            else (upd_hosts hit (\<lambda>h. h\<lparr>ho_ip := newIP\<rparr>) d)
                  \<lparr>d_agents := upd_where (\<lambda>r. ag_agent_id r = agentID \<and> loopback_text (ag_ip r)) (\<lambda>r. r\<lparr>ag_ip := newIP\<rparr>) (d_agents d)\<rparr>)))"

definition beat_host :: "url_lib \<Rightarrow> time \<Rightarrow> heartbeat_request \<Rightarrow> host_row \<Rightarrow> host_row" where
  "beat_host ul now rq h =
    (let (bv, bh, bvar) = normalizeAgentBuild (hb_build_version rq) (hb_build_hash rq) (hb_build_variant rq);
         exitIP = NormalizeExitIP (hb_exit_ip rq);
         url1 = normalizeServerURL ul (hb_server_url rq); url2 = normalizeServerURL ul (hb_default_url rq);
         upd = (\<lambda>new old. if new \<noteq> [] then new else old)
     in h\<lparr>ho_last_seen := Some now,
          ho_agent_status := (if (case ho_maintenance_until h of None \<Rightarrow> False | Some t \<Rightarrow> t > now) then ho_agent_status h
                              else normalizeAgentStatus (hb_status rq)),
          ho_agent_version := upd bv (ho_agent_version h), ho_build_version := upd bv (ho_build_version h),
          ho_build_hash := upd bh (ho_build_hash h), ho_build_variant := (if bv \<noteq> [] then bvar else ho_build_variant h),
          ho_exit_ip := upd exitIP (ho_exit_ip h), ho_agent_server_url := upd url1 (ho_agent_server_url h),
          ho_default_server_url := upd url2 (ho_default_server_url h)\<rparr>)"

definition beat_agent :: "time \<Rightarrow> heartbeat_request \<Rightarrow> int option \<Rightarrow> agent_row \<Rightarrow> agent_row" where
  "beat_agent now rq hostID a =
    (let (bv, bh, bvar) = normalizeAgentBuild (hb_build_version rq) (hb_build_hash rq) (hb_build_variant rq);
         modes = join_with '','' (NormalizeSignatureModes (hb_signature_modes rq));
         caps = join_with '','' (NormalizeCapabilities (hb_capabilities rq));
         upd = (\<lambda>new old. if new \<noteq> [] then new else old)
     in a\<lparr>ag_last_heartbeat_at := Some now, ag_status := normalizeAgentStatus (hb_status rq),
          ag_agent_version := upd bv (ag_agent_version a),
          ag_host_id := (case ag_host_id a of None \<Rightarrow> hostID | Some i \<Rightarrow> Some i),
          ag_signature_modes := upd modes (ag_signature_modes a), ag_capabilities := upd caps (ag_capabilities a),
          ag_build_version := upd bv (ag_build_version a), ag_build_hash := upd bh (ag_build_hash a),
          ag_build_variant := (if bh \<noteq> [] then bvar else ag_build_variant a)\<rparr>)"

text \<open>What decides about automatic updates.\<close>

record auto_update =
  au_sha :: "string \<Rightarrow> string"
  au_on :: bool
  au_percent :: int
  au_resolver :: resolver
  au_base_url :: string

definition auto_step :: "auto_update \<Rightarrow> time \<Rightarrow> string \<Rightarrow> string \<Rightarrow> hash_cache \<times> db \<Rightarrow> hash_cache \<times> db" where
  "auto_step au now stamp agentID =
    maybeAutoUpdateAgent (au_sha au) (au_on au) (au_percent au) now stamp agentID (au_resolver au) (au_base_url au)"

definition agentCheckWindow :: time where "agentCheckWindow = minutes 10"

definition AgentHeartbeat ::
    "url_lib \<Rightarrow> auto_update \<Rightarrow> string \<Rightarrow> string \<Rightarrow> time \<Rightarrow> string \<Rightarrow> string \<Rightarrow> string \<Rightarrow> heartbeat_request \<Rightarrow> hash_cache \<times> db \<Rightarrow>
     heartbeat_response option \<times> hash_cache \<times> db" where
  "AgentHeartbeat ul au external skew now stamp source agentID rq st =
    (if agentID = [] then (None, st)
     else case st of (cache, d) \<Rightarrow>
      (let (bv, buildHash, bvar) = normalizeAgentBuild (hb_build_version rq) (hb_build_hash rq) (hb_build_variant rq);
           row = find (\<lambda>h. ho_agent_id h = agentID) (d_hosts d);
           override = (case row of None \<Rightarrow> [] | Some h \<Rightarrow> ho_server_url_override h);
           requested = Option.bind row ho_check_requested_at;
           d1 = upd_hosts (\<lambda>h. ho_agent_id h = agentID) (beat_host ul now rq) d;
           hostID = map_option ho_id (min_row ho_id (\<lambda>h. ho_agent_id h = agentID) (d_hosts d1));
           d2 = d1\<lparr>d_agents := upd_where (\<lambda>r. ag_agent_id r = agentID) (beat_agent now rq hostID) (d_agents d1)\<rparr>;
           d3 = migrateLoopbackHostIP agentID source d2;
           d4 = (if buildHash \<noteq> [] then snd (markSelfUpdateSuccess now stamp agentID buildHash d3) else d3)
       in case auto_step au now stamp agentID (cache, d4) of (cache', d5) \<Rightarrow>
        (let d6 = (case hb_check rq of None \<Rightarrow> d5 | Some c \<Rightarrow>
               if ck_url c \<noteq> [] then saveAgentTunnelCheck now agentID (protocolTunnelCheck c) d5 else d5);
             serverURL = resolveServerURLOverride ul external override (normalizeServerURL ul (hb_default_url rq));
             expired = (case requested of None \<Rightarrow> False | Some t \<Rightarrow> \<not> (now - t < agentCheckWindow \<and> serverURL \<noteq> []))
         in (Some \<lparr>hp_server_url = serverURL, hp_clock_skew = trim_space skew,
                   hp_check_url = (if requested \<noteq> None \<and> \<not> expired then serverURL else [])\<rparr>,
             cache',
             if expired then upd_hosts (\<lambda>h. ho_agent_id h = agentID) (\<lambda>h. h\<lparr>ho_check_requested_at := None\<rparr>) d6 else d6))))"

text \<open>Registration with what follows it.\<close>

definition register_and_update ::
    "(string \<Rightarrow> string) \<Rightarrow> auto_update \<Rightarrow> bool \<Rightarrow> time \<Rightarrow> string \<Rightarrow> string \<Rightarrow> register_request \<Rightarrow> credentials \<Rightarrow> hash_cache \<times> db \<Rightarrow>
     (register_error + credentials) \<times> hash_cache \<times> db" where
  "register_and_update hash au requireToken now stamp source rq cr st =
    (case st of (cache, d) \<Rightarrow>
      (case AgentRegister hash requireToken now source rq cr d of
         (Inl e, d') \<Rightarrow> (Inl e, cache, d')
       | (Inr c, d') \<Rightarrow> (Inr c, auto_step au now stamp (cr_agent_id c) (cache, d'))))"

end
