(* ===== verification/FieldDefs.thy ===== *)
theory FieldDefs
imports Accounts SafePath
begin

text \<open>
  User and host fields that administrators define: \<open>internal/logic/fielddef/fielddef.go\<close> and the
  handlers of \<open>internal/handler/fielddef.go\<close> that keep values. Values of users live in a table of their
  own, values of hosts in the hosts' JSON column; both are association lists. A Go map given by a client
  is an association list too, visited in some order. Decoding a JSON array of strings is the parameter
  \<open>json_strings\<close>; times of creation and change are not kept.
\<close>

section \<open>The parts of the standard library\<close>

function rune_count :: "string \<Rightarrow> nat" where
  "rune_count s = (if s = [] then 0
     else Suc (rune_count (drop (case rune_size s of None \<Rightarrow> 1 | Some k \<Rightarrow> k) s)))"
  by pat_completeness auto
termination by (relation "measure length") (auto dest!: rune_size_bounds split: option.split)

declare rune_count.simps [simp del]

text \<open>\<open>time.Parse\<close> with the layout \<open>2006-01-02\<close>.\<close>

definition days_in :: "int \<Rightarrow> int \<Rightarrow> int" where
  "days_in y m = (if m = 2 then (if y mod 4 = 0 \<and> (y mod 100 \<noteq> 0 \<or> y mod 400 = 0) then 29 else 28)
     else if m \<in> {4, 6, 9, 11} then 30 else 31)"

definition parse_date :: "string \<Rightarrow> (int \<times> int \<times> int) option" where
  "parse_date s =
    (let y = digits_value (take 4 s); m = digits_value (take 2 (drop 5 s)); d = digits_value (drop 8 s)
     in if length s = 10 \<and> list_all is_digit (take 4 s @ take 2 (drop 5 s) @ drop 8 s) \<and>
           take 1 (drop 4 s) = ''-'' \<and> take 1 (drop 7 s) = ''-'' \<and> 1 \<le> m \<and> m \<le> 12 \<and> 1 \<le> d \<and> d \<le> days_in y m
        then Some (y, m, d) else None)"

text \<open>\<open>a || b\<close> of two JSON objects of strings: the right one wins.\<close>

definition json_merge :: "(string \<times> string) list \<Rightarrow> (string \<times> string) list \<Rightarrow> (string \<times> string) list" where
  "json_merge old new = filter (\<lambda>kv. fst kv \<notin> fst ` set new) old @ new"

section \<open>Definitions of fields\<close>

record field_def =
  fd_id :: int
  fd_key :: string
  fd_label :: string
  fd_type :: string
  fd_options :: string
  fd_in_list :: bool
  fd_in_form :: bool
  fd_editable :: bool
  fd_builtin :: bool
  fd_order :: int

datatype field_kind = UserFields | HostFields

record field_tables =
  ft_defs :: "field_kind \<Rightarrow> field_def list"
  ft_next :: "field_kind \<Rightarrow> int"
  ft_values :: "(string \<times> string \<times> string) list"

datatype field_error = FieldKind | FieldMissing | FieldBadKey | FieldNoLabel | FieldLongLabel | FieldBadType
  | FieldBadOptions | FieldKeyTaken | FieldBuiltin | ValueTooLong string | ValueNoNumber string
  | ValueNoOption string | ValueNoDate string | FieldHostMissing | FieldForbidden

definition field_repo :: "string \<Rightarrow> field_kind option" where
  "field_repo kind = (if kind = ''user'' then Some UserFields else if kind = ''host'' then Some HostFields else None)"

definition validKey :: "string \<Rightarrow> bool" where
  "validKey s = (s \<noteq> [] \<and> is_letter (hd s) \<and> length s \<le> 64 \<and>
     list_all (\<lambda>c. is_letter c \<or> is_digit c \<or> c = CHR ''_'') (tl s))"

definition field_list :: "field_kind \<Rightarrow> field_tables \<Rightarrow> field_def list" where
  "field_list k t = sort_key fd_order (sort_key fd_id (ft_defs t k))"

definition field_get :: "field_kind \<Rightarrow> int \<Rightarrow> field_tables \<Rightarrow> field_error + field_def" where
  "field_get k i t = (case find (\<lambda>f. fd_id f = i) (ft_defs t k) of None \<Rightarrow> Inl FieldMissing | Some f \<Rightarrow> Inr f)"

definition field_types :: "string list" where
  "field_types = [''text'', ''textarea'', ''number'', ''select'', ''date'']"

definition trimmed_field :: "field_def \<Rightarrow> field_def" where
  "trimmed_field f = f\<lparr>fd_key := trim_space (fd_key f), fd_label := trim_space (fd_label f),
     fd_type := trim_space (fd_type f), fd_options := trim_space (fd_options f)\<rparr>"

definition validate_field :: "(string \<Rightarrow> string list option) \<Rightarrow> field_def \<Rightarrow> field_error + field_def" where
  "validate_field json_strings f0 =
    (let f = trimmed_field f0
     in if \<not> validKey (fd_key f) then Inl FieldBadKey
        else if fd_label f = [] then Inl FieldNoLabel
        else if rune_count (fd_label f) > 200 then Inl FieldLongLabel
        else if fd_type f \<notin> set field_types then Inl FieldBadType
        else if fd_type f = ''select'' \<and> fd_options f \<noteq> [] \<and> json_strings (fd_options f) = None then Inl FieldBadOptions
        else Inr f)"

definition field_create :: "(string \<Rightarrow> string list option) \<Rightarrow> field_kind \<Rightarrow> field_def \<Rightarrow> field_tables \<Rightarrow> (field_error + int) \<times> field_tables" where
  "field_create json_strings k f0 t =
    (case validate_field json_strings f0 of Inl e \<Rightarrow> (Inl e, t) | Inr f \<Rightarrow>
      (let i = ft_next t k; t1 = t\<lparr>ft_next := (ft_next t)(k := i + 1)\<rparr>
       in if exists_row (\<lambda>g. fd_key g = fd_key f) (ft_defs t k) then (Inl FieldKeyTaken, t1)
          else (Inr i, t1\<lparr>ft_defs := (ft_defs t)(k := ft_defs t k @ [f\<lparr>fd_id := i, fd_builtin := False\<rparr>])\<rparr>)))"

definition field_update :: "(string \<Rightarrow> string list option) \<Rightarrow> field_kind \<Rightarrow> field_def \<Rightarrow> field_tables \<Rightarrow> field_error option \<times> field_tables" where
  "field_update json_strings k f0 t =
    (case field_get k (fd_id f0) t of Inl e \<Rightarrow> (Some e, t) | Inr old \<Rightarrow>
      (case validate_field json_strings (if fd_builtin old then f0\<lparr>fd_key := fd_key old\<rparr> else f0) of
         Inl e \<Rightarrow> (Some e, t)
       | Inr f \<Rightarrow>
          (if exists_row (\<lambda>g. fd_key g = fd_key f \<and> fd_id g \<noteq> fd_id f0) (ft_defs t k) then (Some FieldKeyTaken, t)
           else (None, t\<lparr>ft_defs := (ft_defs t)(k := upd_where (\<lambda>g. fd_id g = fd_id f0)
                  (\<lambda>g. f\<lparr>fd_id := fd_id g, fd_builtin := fd_builtin g\<rparr>) (ft_defs t k))\<rparr>))))"

text \<open>Deleting a definition removes its values.\<close>

definition field_delete :: "field_kind \<Rightarrow> int \<Rightarrow> field_tables \<Rightarrow> db \<Rightarrow> field_error option \<times> field_tables \<times> db" where
  "field_delete k i t d =
    (case field_get k i t of Inl e \<Rightarrow> (Some e, t, d) | Inr f \<Rightarrow>
      (if fd_builtin f then (Some FieldBuiltin, t, d)
       else
        (let t1 = t\<lparr>ft_defs := (ft_defs t)(k := filter (\<lambda>g. fd_id g \<noteq> i) (ft_defs t k))\<rparr>
         in (None,
             (case k of UserFields \<Rightarrow> t1\<lparr>ft_values := filter (\<lambda>(u, key, v). key \<noteq> fd_key f) (ft_values t1)\<rparr> | HostFields \<Rightarrow> t1),
             (case k of UserFields \<Rightarrow> d
              | HostFields \<Rightarrow> d\<lparr>d_hosts := map (\<lambda>h. h\<lparr>ho_custom_fields := filter (\<lambda>kv. fst kv \<noteq> fd_key f) (ho_custom_fields h)\<rparr>) (d_hosts d)\<rparr>)))))"

section \<open>Values\<close>

definition check_value :: "(string \<Rightarrow> string list option) \<Rightarrow> field_def \<Rightarrow> string \<Rightarrow> field_error option" where
  "check_value json_strings f v =
    (if rune_count v > 4096 then Some (ValueTooLong (fd_label f))
     else if fd_type f = ''number'' \<and> v \<noteq> [] \<and> parse_float v = None then Some (ValueNoNumber (fd_label f))
     else if fd_type f = ''select'' \<and> v \<noteq> [] \<and> fd_options f \<noteq> [] \<and>
          (case json_strings (fd_options f) of None \<Rightarrow> False | Some os \<Rightarrow> v \<notin> set os) then Some (ValueNoOption (fd_label f))
     else if fd_type f = ''date'' \<and> v \<noteq> [] \<and> parse_date v = None then Some (ValueNoDate (fd_label f))
     else None)"

text \<open>\<open>byKey\<close> holds the last definition of a key; the keys are unique.\<close>

fun ValidateValues :: "(string \<Rightarrow> string list option) \<Rightarrow> field_def list \<Rightarrow> (string \<times> string) list \<Rightarrow> field_error + (string \<times> string) list" where
  "ValidateValues json_strings defs [] = Inr []"
| "ValidateValues json_strings defs ((k, v0) # rest) =
    (case find (\<lambda>f. fd_key f = k) (rev defs) of None \<Rightarrow> ValidateValues json_strings defs rest
     | Some f \<Rightarrow>
        (let v = trim_space v0
         in case check_value json_strings f v of Some e \<Rightarrow> Inl e
            | None \<Rightarrow> (case ValidateValues json_strings defs rest of Inl e \<Rightarrow> Inl e | Inr out \<Rightarrow> Inr ((k, v) # out))))"

definition UserValues :: "string \<Rightarrow> field_tables \<Rightarrow> (string \<times> string) list" where
  "UserValues username t = map snd (filter (\<lambda>r. fst r = username) (ft_values t))"

definition UserValuesForUsernames :: "string list \<Rightarrow> field_tables \<Rightarrow> (string \<times> string \<times> string) list" where
  "UserValuesForUsernames names t = filter (\<lambda>r. fst r \<in> set names) (ft_values t)"

text \<open>An upsert per key, in one transaction.\<close>

definition put_value :: "string \<Rightarrow> string \<times> string \<Rightarrow> (string \<times> string \<times> string) list \<Rightarrow> (string \<times> string \<times> string) list" where
  "put_value username kv rows =
    (if exists_row (\<lambda>r. fst r = username \<and> fst (snd r) = fst kv) rows
     then upd_where (\<lambda>r. fst r = username \<and> fst (snd r) = fst kv) (\<lambda>r. (username, kv)) rows
     else rows @ [(username, kv)])"

definition SaveUserValues :: "string \<Rightarrow> (string \<times> string) list \<Rightarrow> field_tables \<Rightarrow> field_tables" where
  "SaveUserValues username values t =
    t\<lparr>ft_values := fold (put_value username) (sort_key fst values) (ft_values t)\<rparr>"

definition SaveHostValues :: "int \<Rightarrow> (string \<times> string) list \<Rightarrow> db \<Rightarrow> field_error option \<times> db" where
  "SaveHostValues i values d =
    (if \<not> exists_row (\<lambda>h. ho_id h = i) (d_hosts d) then (Some FieldHostMissing, d)
     else (None, d\<lparr>d_hosts := upd_where (\<lambda>h. ho_id h = i)
       (\<lambda>h. h\<lparr>ho_custom_fields := json_merge (ho_custom_fields h) values\<rparr>) (d_hosts d)\<rparr>))"

section \<open>Handlers\<close>

definition ensureUserInTenant :: "user option \<Rightarrow> accounts \<Rightarrow> string \<Rightarrow> bool" where
  "ensureUserInTenant actor acc username =
    (case actor of None \<Rightarrow> False | Some u \<Rightarrow>
      (if IsSuperAdmin u then True
       else case by_name username acc of None \<Rightarrow> False | Some a \<Rightarrow> ac_tenant a = us_tenant u))"

definition GetUserFields :: "user option \<Rightarrow> accounts \<Rightarrow> string \<Rightarrow> field_tables \<Rightarrow> field_error + field_def list \<times> (string \<times> string) list" where
  "GetUserFields actor acc username0 t =
    (let username = trim_space username0
     in if username = [] then Inl FieldMissing
        else if \<not> ensureUserInTenant actor acc username then Inl FieldForbidden
        else Inr (field_list UserFields t, UserValues username t))"

definition SaveUserFields ::
    "(string \<Rightarrow> string list option) \<Rightarrow> user option \<Rightarrow> accounts \<Rightarrow> string \<Rightarrow> (string \<times> string) list \<Rightarrow> field_tables \<Rightarrow> field_error option \<times> field_tables" where
  "SaveUserFields json_strings actor acc username0 values t =
    (let username = trim_space username0
     in if username = [] then (Some FieldMissing, t)
        else if \<not> ensureUserInTenant actor acc username then (Some FieldForbidden, t)
        else case ValidateValues json_strings (filter fd_editable (field_list UserFields t)) values of
          Inl e \<Rightarrow> (Some e, t) | Inr clean \<Rightarrow> (None, SaveUserValues username clean t))"

definition ListUserFieldsWithValues :: "user option \<Rightarrow> accounts \<Rightarrow> field_tables \<Rightarrow> account list \<times> field_def list \<times> (string \<times> string \<times> string) list" where
  "ListUserFieldsWithValues actor acc t =
    (let users = acc_list actor acc
     in (users, field_list UserFields t, UserValuesForUsernames (map ac_username users) t))"

end
