(* ===== verification/HostAdmin.thy ===== *)
theory HostAdmin
imports Heartbeat FieldDefs TaskDelete
begin

text \<open>
  Administration of hosts: editing and deleting (\<open>internal/handler/host_manage.go\<close>), editing many and
  importing a table (\<open>host_bulk.go\<close>), background deletion jobs (\<open>host_delete_job.go\<close>) and the addresses
  set from the server's own one (\<open>external_url_sync.go\<close>). The cascades of the foreign keys are part of a
  deletion. Reading a CSV text is a parameter: an import gets its records.
\<close>

section \<open>Editing\<close>

datatype host_error = HostBadID | HostTooLong | HostControl | HostBadTunnel | HostBadAddr addr_error | HostNothing
  | HostBadCustom field_error | HostNotFound | HostInUse | HostTooMany | HostNoIP | HostBadIP | HostTaken
  | HostNoData | HostJobRunning | HostJobMissing

record host_update =
  hu_hostname :: "string option"
  hu_account :: "string option"
  hu_app_code :: "string option"
  hu_biz_group :: "string option"
  hu_department :: "string option"
  hu_vendor :: "string option"
  hu_host_type :: "string option"
  hu_tunnel_ip :: "string option"
  hu_override :: "string option"
  hu_custom :: "(string \<times> string) list"

definition update_fields :: "host_update \<Rightarrow> (string option \<times> nat) list" where
  "update_fields r = [(hu_hostname r, 255), (hu_account r, 128), (hu_app_code r, 128), (hu_biz_group r, 255),
     (hu_department r, 255), (hu_vendor r, 128), (hu_host_type r, 64)]"

definition normal_field :: "string option \<times> nat \<Rightarrow> host_error + string option" where
  "normal_field f = (case fst f of None \<Rightarrow> Inr None | Some v0 \<Rightarrow>
     (let v = trim_space v0
      in if rune_count v > snd f then Inl HostTooLong else if \<not> control_free v then Inl HostControl else Inr (Some v)))"

fun normalizeHostFields :: "(string option \<times> nat) list \<Rightarrow> host_error + string option list" where
  "normalizeHostFields [] = Inr []"
| "normalizeHostFields (f # fs) =
    (case normal_field f of Inl e \<Rightarrow> Inl e | Inr v \<Rightarrow>
      (case normalizeHostFields fs of Inl e \<Rightarrow> Inl e | Inr vs \<Rightarrow> Inr (v # vs)))"

definition normal_tunnel :: "string option \<Rightarrow> host_error + string option" where
  "normal_tunnel t = (case t of None \<Rightarrow> Inr None | Some raw \<Rightarrow>
     (let v = NormalizeExitIP raw in if v = [] \<and> trim_space raw \<noteq> [] then Inl HostBadTunnel else Inr (Some v)))"

definition normal_override :: "url_lib \<Rightarrow> (string \<Rightarrow> int option) \<Rightarrow> string option \<Rightarrow> host_error + string option" where
  "normal_override ul ports o0 = (case o0 of None \<Rightarrow> Inr None | Some raw \<Rightarrow>
     (case NormalizeAddr ul ports raw of Inl e \<Rightarrow> Inl (HostBadAddr e) | Inr v \<Rightarrow> Inr (Some v)))"

definition coalesce :: "string option \<Rightarrow> string \<Rightarrow> string" where
  "coalesce new old = (case new of None \<Rightarrow> old | Some v \<Rightarrow> v)"

definition write_host :: "string option list \<Rightarrow> string option \<Rightarrow> string option \<Rightarrow> (string \<times> string) list option \<Rightarrow> host_row \<Rightarrow> host_row" where
  "write_host vs tunnel override custom h =
     h\<lparr>ho_hostname := coalesce (vs ! 0) (ho_hostname h), ho_account := coalesce (vs ! 1) (ho_account h),
       ho_app_code := coalesce (vs ! 2) (ho_app_code h), ho_biz_group := coalesce (vs ! 3) (ho_biz_group h),
       ho_department := coalesce (vs ! 4) (ho_department h), ho_vendor := coalesce (vs ! 5) (ho_vendor h),
       ho_host_type := coalesce (vs ! 6) (ho_host_type h), ho_tunnel_ip := coalesce tunnel (ho_tunnel_ip h),
       ho_server_url_override := coalesce override (ho_server_url_override h),
       ho_server_url_auto := (case override of None \<Rightarrow> ho_server_url_auto h
         | Some v \<Rightarrow> if v = ho_server_url_override h then ho_server_url_auto h else False),
       ho_custom_fields := (case custom of None \<Rightarrow> ho_custom_fields h | Some new \<Rightarrow> json_merge (ho_custom_fields h) new)\<rparr>"

text \<open>The answer is the address of the host; a changed override asks for a check.\<close>

definition HostUpdate ::
    "url_lib \<Rightarrow> (string \<Rightarrow> int option) \<Rightarrow> (string \<Rightarrow> string list option) \<Rightarrow> field_tables \<Rightarrow> time \<Rightarrow> scope \<Rightarrow> int \<Rightarrow> host_update \<Rightarrow> db \<Rightarrow>
     (host_error + string) \<times> db" where
  "HostUpdate ul ports json_strings ft now sc i rq d =
    (if i \<le> 0 then (Inl HostBadID, d)
     else case normalizeHostFields (update_fields rq) of Inl e \<Rightarrow> (Inl e, d) | Inr vs \<Rightarrow>
      (case normal_tunnel (hu_tunnel_ip rq) of Inl e \<Rightarrow> (Inl e, d) | Inr tunnel \<Rightarrow>
       (case normal_override ul ports (hu_override rq) of Inl e \<Rightarrow> (Inl e, d) | Inr override \<Rightarrow>
        (if tunnel = None \<and> override = None \<and> hu_custom rq = [] \<and> list_all (\<lambda>v. v = None) vs then (Inl HostNothing, d)
         else case (if hu_custom rq = [] then Inr None
                    else map_sum id Some (ValidateValues json_strings (field_list HostFields ft) (hu_custom rq))) of
           Inl e \<Rightarrow> (Inl (HostBadCustom e), d)
         | Inr custom \<Rightarrow>
            (let hit = (\<lambda>h. ho_id h = i \<and> scope_where sc (ho_tenant h))
             in case find hit (d_hosts d) of None \<Rightarrow> (Inl HostNotFound, d) | Some h \<Rightarrow>
                  (Inr (ho_ip h),
                   (let d1 = upd_hosts hit (write_host vs tunnel override custom) d
                    in if override \<noteq> None then triggerTunnelCheck now i d1 else d1)))))))"

section \<open>Deleting\<close>

definition host_busy :: "int \<Rightarrow> db \<Rightarrow> bool" where
  "host_busy i d =
    (exists_row (\<lambda>t. th_host_id t = i \<and> (th_status t = ''pending'' \<or> th_status t = ''running'')) (d_thosts d) \<or>
     exists_row (\<lambda>c. cm_host_id c = i \<and> is_active (cm_status c)) (d_cmds d))"

definition thost_of_host :: "int \<Rightarrow> db \<Rightarrow> int option \<Rightarrow> bool" where
  "thost_of_host i d th = (case th of None \<Rightarrow> False | Some x \<Rightarrow> exists_row (\<lambda>t. th_id t = x \<and> th_host_id t = i) (d_thosts d))"

text \<open>The rows the database removes with a host.\<close>

definition drop_host :: "host_row \<Rightarrow> db \<Rightarrow> db" where
  "drop_host h d =
    (let i = ho_id h
     in d\<lparr>d_agents := filter (\<lambda>a. \<not> (ag_host_id a = Some i \<or> ag_ip a = ho_ip h \<or> ag_agent_id a = ho_agent_id h)) (d_agents d),
          d_cmds := filter (\<lambda>c. \<not> (cm_host_id c = i \<or> thost_of_host i d (cm_task_host_id c))) (d_cmds d),
          d_thosts := filter (\<lambda>t. th_host_id t \<noteq> i) (d_thosts d),
          d_hosts := filter (\<lambda>r. ho_id r \<noteq> i) (d_hosts d)\<rparr>)"

text \<open>The error comes with the address, where the host was found.\<close>

definition deleteHostTx :: "scope \<Rightarrow> int \<Rightarrow> db \<Rightarrow> ((string \<times> host_failure) + string) \<times> db" where
  "deleteHostTx sc i d =
    (case find (\<lambda>h. ho_id h = i \<and> scope_where sc (ho_tenant h)) (d_hosts d) of
       None \<Rightarrow> (Inl ([], HostMissing), d)
     | Some h \<Rightarrow> (if host_busy i d then (Inl (ho_ip h, HostBusy), d) else (Inr (ho_ip h), drop_host h d)))"

definition deleteHost :: "scope \<Rightarrow> int \<Rightarrow> db \<Rightarrow> ((string \<times> host_failure) + string) \<times> db" where
  "deleteHost sc i d = (case deleteHostTx sc i d of (Inl e, d') \<Rightarrow> (Inl e, d) | (Inr ip, d') \<Rightarrow> (Inr ip, d'))"

definition HostDelete :: "scope \<Rightarrow> int \<Rightarrow> db \<Rightarrow> ((string \<times> host_failure) + string) \<times> db" where
  "HostDelete sc i d = (if i \<le> 0 then (Inl ([], HostMissing), d) else deleteHost sc i d)"

type_synonym host_failures = "(int \<times> string \<times> host_failure) list"

fun delete_hosts :: "scope \<Rightarrow> int list \<Rightarrow> db \<Rightarrow> int list \<times> host_failures \<times> db" where
  "delete_hosts sc [] d = ([], [], d)"
| "delete_hosts sc (i # is) d =
    (case deleteHostTx sc i d of
       (Inl (ip, f), _) \<Rightarrow> (case delete_hosts sc is d of (ok, bad, d') \<Rightarrow> (ok, (i, ip, f) # bad, d'))
     | (Inr ip, d1) \<Rightarrow> (case delete_hosts sc is d1 of (ok, bad, d') \<Rightarrow> (i # ok, bad, d')))"

text \<open>A client that goes away stops the loop: \<open>live\<close> counts the hosts handled until then.\<close>

definition HostBatchDelete :: "nat \<Rightarrow> scope \<Rightarrow> int list \<Rightarrow> db \<Rightarrow> (host_error + int list \<times> (int \<times> string \<times> host_failure option) list) \<times> db" where
  "HostBatchDelete live sc ids0 d =
    (let ids = unique_positive [] ids0
     in if ids = [] then (Inl HostNothing, d)
        else if length ids > 500 then (Inl HostTooMany, d)
        else (case delete_hosts sc (take live ids) d of
           (ok, bad, d') \<Rightarrow> (Inr (ok, map (\<lambda>(i, ip, f). (i, ip, Some f)) bad @ map (\<lambda>i. (i, [], None)) (drop live ids)), d')))"

section \<open>Background jobs\<close>

definition hjob_active :: "host_job_row \<Rightarrow> bool" where
  "hjob_active j = (hj_status j = ''pending'' \<or> hj_status j = ''running'')"

definition maxHostDeleteJob :: nat where "maxHostDeleteJob = 5000"
definition hostDeleteJobChunk :: nat where "hostDeleteJobChunk = 100"
definition hostDeleteJobMaxFailures :: nat where "hostDeleteJobMaxFailures = 200"

definition hostJobVisibility :: "scope \<Rightarrow> string \<Rightarrow> host_job_row \<Rightarrow> bool" where
  "hostJobVisibility sc username j = (scope_where sc (hj_tenant j) \<and> hj_created_by j = username)"

definition getHostDeleteJob :: "scope \<Rightarrow> string \<Rightarrow> int \<Rightarrow> db \<Rightarrow> host_job_row option" where
  "getHostDeleteJob sc username i d = find (\<lambda>j. hj_id j = i \<and> hostJobVisibility sc username j) (d_hjobs d)"

text \<open>The hosts that could be deleted, of those a list filter selects, by address.\<close>

definition HostDeletableIDs :: "(host_row \<Rightarrow> bool) \<Rightarrow> db \<Rightarrow> int list \<times> bool" where
  "HostDeletableIDs listed d =
    (let ids = map ho_id (filter (\<lambda>h. \<not> host_busy (ho_id h) d) (sort_key ho_ip (filter listed (d_hosts d))))
     in (take maxHostDeleteJob ids, length (take (maxHostDeleteJob + 1) ids) > maxHostDeleteJob))"

definition new_host_job :: "scope \<Rightarrow> string \<Rightarrow> string \<Rightarrow> string \<Rightarrow> time \<Rightarrow> int list \<Rightarrow> int \<Rightarrow> host_job_row" where
  "new_host_job sc username actorID ip now ids i =
    \<lparr>hj_id = i, hj_tenant = TenantForWrite sc, hj_cross = sc_cross sc, hj_created_by = username, hj_actor_id = actorID,
     hj_ip = ip, hj_ids = ids, hj_total = length ids, hj_processed = 0, hj_deleted = 0, hj_failed_count = 0,
     hj_failed = [], hj_status = ''pending'', hj_cancel_requested = False, hj_created_at = now, hj_finished_at = None\<rparr>"

text \<open>The unique index allows one active job per tenant and creator.\<close>

definition HostDeleteJobCreate :: "scope \<Rightarrow> string \<Rightarrow> string \<Rightarrow> string \<Rightarrow> time \<Rightarrow> int list \<Rightarrow> db \<Rightarrow> (host_error + host_job_row) \<times> db" where
  "HostDeleteJobCreate sc username actorID ip now ids0 d =
    (let ids = sort (unique_positive [] ids0)
     in if ids = [] then (Inl HostNothing, d)
        else if length ids > maxHostDeleteJob then (Inl HostTooMany, d)
        else
         (let job = new_host_job sc username actorID ip now ids (d_next_hjob d); d0 = d\<lparr>d_next_hjob := d_next_hjob d + 1\<rparr>
          in if exists_row (\<lambda>j. hj_tenant j = hj_tenant job \<and> hj_created_by j = username \<and> hjob_active j) (d_hjobs d)
             then (Inl HostJobRunning, d0)
             else (let d1 = d0\<lparr>d_hjobs := d_hjobs d @ [job]\<rparr>
                   in case getHostDeleteJob sc username (hj_id job) d1 of None \<Rightarrow> (Inl HostJobMissing, d1) | Some j \<Rightarrow> (Inr j, d1))))"

definition HostDeleteJobGet :: "scope \<Rightarrow> string \<Rightarrow> int \<Rightarrow> db \<Rightarrow> host_error + host_job_row" where
  "HostDeleteJobGet sc username i d = (case getHostDeleteJob sc username i d of None \<Rightarrow> Inl HostJobMissing | Some j \<Rightarrow> Inr j)"

definition HostDeleteJobActive :: "scope \<Rightarrow> string \<Rightarrow> db \<Rightarrow> host_job_row option" where
  "HostDeleteJobActive sc username d = max_row hj_id (\<lambda>j. hjob_active j \<and> hostJobVisibility sc username j) (d_hjobs d)"

definition HostDeleteJobCancel :: "scope \<Rightarrow> string \<Rightarrow> int \<Rightarrow> db \<Rightarrow> (host_error + host_job_row) \<times> db" where
  "HostDeleteJobCancel sc username i d =
    (let d1 = d\<lparr>d_hjobs := upd_where (\<lambda>j. hj_id j = i \<and> hjob_active j \<and> hostJobVisibility sc username j)
                 (\<lambda>j. j\<lparr>hj_cancel_requested := True\<rparr>) (d_hjobs d)\<rparr>
     in case getHostDeleteJob sc username i d1 of None \<Rightarrow> (Inl HostJobMissing, d1) | Some j \<Rightarrow> (Inr j, d1))"

definition finish_host_job :: "time \<Rightarrow> string \<Rightarrow> host_job_row \<Rightarrow> host_job_row" where
  "finish_host_job now status j = j\<lparr>hj_status := status, hj_finished_at := Some now\<rparr>"

definition advance_host_job :: "time \<Rightarrow> nat \<Rightarrow> nat \<Rightarrow> host_failures \<Rightarrow> host_job_row \<Rightarrow> host_job_row" where
  "advance_host_job now stop deleted failed j = j\<lparr>hj_processed := stop,
     hj_deleted := hj_deleted j + deleted, hj_failed_count := hj_failed_count j + length failed,
     hj_failed := hj_failed j @ take (hostDeleteJobMaxFailures - length (hj_failed j)) failed,
     hj_status := (if stop \<ge> length (hj_ids j) then ''done'' else ''running''),
     hj_finished_at := (if stop \<ge> length (hj_ids j) then Some now else None)\<rparr>"

text \<open>One chunk of the oldest active job that no other replica holds (\<open>locked\<close>). A statement that fails
  aborts the round and its transaction (\<open>fault\<close>): then nothing changed and the round reports an error.\<close>

definition runHostDeleteJobOnce :: "(int \<Rightarrow> bool) \<Rightarrow> bool \<Rightarrow> time \<Rightarrow> db \<Rightarrow> (host_error + bool) \<times> db" where
  "runHostDeleteJobOnce locked fault now d =
    (if fault then (Inl HostNoData, d)
     else case min_row hj_id (\<lambda>j. hjob_active j \<and> \<not> locked (hj_id j)) (d_hjobs d) of
       None \<Rightarrow> (Inr False, d)
     | Some j \<Rightarrow>
        (if hj_cancel_requested j \<or> hj_processed j \<ge> length (hj_ids j) then
           (let status = (if hj_cancel_requested j \<and> hj_processed j < length (hj_ids j) then ''canceled'' else ''done'')
            in (Inr True, d\<lparr>d_hjobs := upd_where (\<lambda>r. hj_id r = hj_id j) (finish_host_job now status) (d_hjobs d)\<rparr>))
         else
           (let stop = min (hj_processed j + hostDeleteJobChunk) (length (hj_ids j));
                chunk = take (stop - hj_processed j) (drop (hj_processed j) (hj_ids j))
            in case delete_hosts (scope_new (hj_tenant j) (hj_cross j)) chunk d of
                 (ok, bad, d1) \<Rightarrow>
                   (Inr True, d1\<lparr>d_hjobs := upd_where (\<lambda>r. hj_id r = hj_id j)
                      (advance_host_job now stop (length ok) bad) (d_hjobs d1)\<rparr>))))"

definition purge_host_jobs :: "time \<Rightarrow> db \<Rightarrow> db" where
  "purge_host_jobs now d = d\<lparr>d_hjobs := filter (\<lambda>j. \<not> ((hj_status j = ''done'' \<or> hj_status j = ''canceled'') \<and>
     (case hj_finished_at j of None \<Rightarrow> False | Some t \<Rightarrow> t < now - hours (7 * 24)))) (d_hjobs d)\<rparr>"

section \<open>Editing many hosts\<close>

definition builtin_editable :: "string list" where
  "builtin_editable = [''hostname'', ''account'', ''app_code'', ''biz_group'', ''department'', ''vendor'', ''host_type'']"

definition pick_update :: "(string \<times> string) list \<Rightarrow> host_update" where
  "pick_update m =
    \<lparr>hu_hostname = map_of m ''hostname'', hu_account = map_of m ''account'', hu_app_code = map_of m ''app_code'',
     hu_biz_group = map_of m ''biz_group'', hu_department = map_of m ''department'', hu_vendor = map_of m ''vendor'',
     hu_host_type = map_of m ''host_type'', hu_tunnel_ip = map_of m ''tunnel_ip'',
     hu_override = map_of m ''server_url_override'', hu_custom = []\<rparr>"

text \<open>The fields as the columns take them: the seven descriptive ones, the tunnel address, the override.\<close>

definition normalizeBulkHostFields :: "url_lib \<Rightarrow> (string \<Rightarrow> int option) \<Rightarrow> (string \<times> string) list \<Rightarrow>
    host_error + string option list \<times> string option \<times> string option" where
  "normalizeBulkHostFields ul ports m =
    (let rq = pick_update m
     in case normalizeHostFields (update_fields rq) of Inl e \<Rightarrow> Inl e | Inr vs \<Rightarrow>
       (case normal_tunnel (hu_tunnel_ip rq) of Inl e \<Rightarrow> Inl e | Inr tunnel \<Rightarrow>
        (case normal_override ul ports (hu_override rq) of Inl e \<Rightarrow> Inl e | Inr override \<Rightarrow> Inr (vs, tunnel, override))))"

definition no_fields :: "string option list \<times> string option \<times> string option \<Rightarrow> bool" where
  "no_fields f = (case f of (vs, tunnel, override) \<Rightarrow> list_all (\<lambda>v. v = None) vs \<and> tunnel = None \<and> override = None)"

text \<open>\<open>None\<close> stands for the map that was not given; the empty result of validation is none of them.\<close>

definition normalizeBulkCustomFields :: "(string \<Rightarrow> string list option) \<Rightarrow> field_tables \<Rightarrow> (string \<times> string) list \<Rightarrow>
    field_error + (string \<times> string) list option" where
  "normalizeBulkCustomFields json_strings ft custom =
    (if custom = [] then Inr None
     else map_sum id Some (ValidateValues json_strings (field_list HostFields ft) custom))"

text \<open>Unlike a single edit, an override in a bulk edit always ends the automatic one and asks for no check.\<close>

definition hostUpdateSets :: "string option list \<times> string option \<times> string option \<Rightarrow> (string \<times> string) list option \<Rightarrow> host_row \<Rightarrow> host_row" where
  "hostUpdateSets f custom h = (case f of (vs, tunnel, override) \<Rightarrow>
     (write_host vs tunnel override custom h)
       \<lparr>ho_server_url_auto := (if override \<noteq> None then False else ho_server_url_auto h)\<rparr>)"

definition no_custom :: "(string \<times> string) list option \<Rightarrow> bool" where
  "no_custom c = (case c of None \<Rightarrow> True | Some m \<Rightarrow> m = [])"

definition HostBatchUpdate ::
    "url_lib \<Rightarrow> (string \<Rightarrow> int option) \<Rightarrow> (string \<Rightarrow> string list option) \<Rightarrow> field_tables \<Rightarrow> scope \<Rightarrow> int list \<Rightarrow>
     (string \<times> string) list \<Rightarrow> (string \<times> string) list \<Rightarrow> db \<Rightarrow> (host_error + nat) \<times> db" where
  "HostBatchUpdate ul ports json_strings ft sc ids0 m custom d =
    (let ids = unique_positive [] ids0
     in if ids = [] then (Inl HostNothing, d)
        else if length ids > 500 then (Inl HostTooMany, d)
        else case normalizeBulkHostFields ul ports m of Inl e \<Rightarrow> (Inl e, d) | Inr f \<Rightarrow>
         (case normalizeBulkCustomFields json_strings ft custom of Inl e \<Rightarrow> (Inl (HostBadCustom e), d) | Inr c \<Rightarrow>
          (if no_fields f \<and> no_custom c then (Inl HostNothing, d)
           else
            (let hit = (\<lambda>h. ho_id h \<in> set ids \<and> scope_where sc (ho_tenant h))
             in (Inr (rows_affected hit (d_hosts d)), upd_hosts hit (hostUpdateSets f c) d)))))"

section \<open>Importing a table\<close>

text \<open>What the server's own address, once changed, does to the hosts that follow it.\<close>

definition txt_waiting :: string where "txt_waiting = [CHR 0xE7, CHR 0xAD, CHR 0x89, CHR 0xE5, CHR 0xBE, CHR 0x85, CHR 0xE4, CHR 0xB8, CHR 0xBB, CHR 0xE6, CHR 0x9C, CHR 0xBA, CHR 0xE4, CHR 0xBE, CHR 0xA7, CHR 0xE8, CHR 0x87, CHR 0xAA, CHR 0xE6, CHR 0xA3, CHR 0x80, CHR 0xE2, CHR 0x80, CHR 0xA6]"

definition SyncExternalURLToAgents :: "time \<Rightarrow> string \<Rightarrow> db \<Rightarrow> nat \<times> db" where
  "SyncExternalURLToAgents now target0 d =
    (let target = trim_right ''/'' (trim_space target0)
     in if target = [] then
          (rows_affected ho_server_url_auto (d_hosts d),
           upd_hosts ho_server_url_auto
             (\<lambda>h. (clear_check [] None h)\<lparr>ho_server_url_override := [], ho_server_url_auto := False\<rparr>) d)
        else
         (let hit = (\<lambda>h. ho_agent_id h \<noteq> [] \<and> (ho_server_url_auto h \<or> ho_server_url_override h = []))
          in (rows_affected hit (d_hosts d),
              upd_hosts hit (\<lambda>h. (clear_check txt_waiting (Some now) h)\<lparr>ho_server_url_override := target, ho_server_url_auto := True\<rparr>) d)))"

definition maybeSyncExternalURLToAgents :: "time \<Rightarrow> bool \<Rightarrow> bool \<Rightarrow> string \<Rightarrow> string \<Rightarrow> db \<Rightarrow> db" where
  "maybeSyncExternalURLToAgents now beforeAuto afterAuto oldURL newURL d =
    (if \<not> afterAuto then d else if oldURL = newURL \<and> beforeAuto then d else snd (SyncExternalURLToAgents now newURL d))"

end
