(* ===== verification/HostImport.thy ===== *)
theory HostImport
imports HostAdmin "HOL-Library.AList"
begin

text \<open>
  The import of a table of hosts, \<open>HostImportCSV\<close> of \<open>internal/handler/host_bulk.go\<close>. Reading CSV is not
  modelled: the input is the list of records. A JSON object of strings is an association list.
\<close>

definition hostCSVHeaderAliases :: "(string \<times> string) list" where
  "hostCSVHeaderAliases =
    [(''ip'', ''ip''), ([CHR 0xE4, CHR 0xB8, CHR 0xBB, CHR 0xE6, CHR 0x9C, CHR 0xBA, CHR 0x69, CHR 0x70], ''ip''), ([CHR 0x69, CHR 0x70, CHR 0xE5, CHR 0x9C, CHR 0xB0, CHR 0xE5, CHR 0x9D, CHR 0x80], ''ip''), ([CHR 0xE5, CHR 0x9C, CHR 0xB0, CHR 0xE5, CHR 0x9D, CHR 0x80], ''ip''),
     (''exit_ip'', ''exit_ip''), ([CHR 0xE5, CHR 0x87, CHR 0xBA, CHR 0xE5, CHR 0x8F, CHR 0xA3, CHR 0x69, CHR 0x70], ''exit_ip''), ([CHR 0xE5, CHR 0x87, CHR 0xBA, CHR 0xE5, CHR 0x8F, CHR 0xA3, CHR 0x20, CHR 0x69, CHR 0x70], ''exit_ip''),
     (''hostname'', ''hostname''), ([CHR 0xE4, CHR 0xB8, CHR 0xBB, CHR 0xE6, CHR 0x9C, CHR 0xBA, CHR 0xE5, CHR 0x90, CHR 0x8D], ''hostname''),
     (''account'', ''account''), ([CHR 0xE8, CHR 0xB4, CHR 0xA6, CHR 0xE5, CHR 0x8F, CHR 0xB7], ''account''),
     (''app_code'', ''app_code''), (''appcode'', ''app_code''), (''app code'', ''app_code''), ([CHR 0xE5, CHR 0xBA, CHR 0x94, CHR 0xE7, CHR 0x94, CHR 0xA8, CHR 0xE7, CHR 0xBC, CHR 0x96, CHR 0xE7, CHR 0xA0, CHR 0x81], ''app_code''),
     (''biz_group'', ''biz_group''), (''bizgroup'', ''biz_group''), ([CHR 0xE4, CHR 0xB8, CHR 0x9A, CHR 0xE5, CHR 0x8A, CHR 0xA1, CHR 0xE7, CHR 0xBB, CHR 0x84], ''biz_group''),
     (''department'', ''department''), ([CHR 0xE9, CHR 0x83, CHR 0xA8, CHR 0xE9, CHR 0x97, CHR 0xA8], ''department''),
     (''vendor'', ''vendor''), ([CHR 0xE5, CHR 0x8E, CHR 0x82, CHR 0xE5, CHR 0x95, CHR 0x86], ''vendor''),
     (''host_type'', ''host_type''), (''hosttype'', ''host_type''), ([CHR 0xE4, CHR 0xB8, CHR 0xBB, CHR 0xE6, CHR 0x9C, CHR 0xBA, CHR 0xE7, CHR 0xB1, CHR 0xBB, CHR 0xE5, CHR 0x9E, CHR 0x8B], ''host_type''),
     (''tunnel_ip'', ''tunnel_ip''), ([CHR 0xE9, CHR 0x9A, CHR 0xA7, CHR 0xE9, CHR 0x81, CHR 0x93, CHR 0x69, CHR 0x70], ''tunnel_ip''), ([CHR 0xE4, CHR 0xB8, CHR 0xBB, CHR 0xE6, CHR 0x9C, CHR 0xBA, CHR 0xE9, CHR 0x9A, CHR 0xA7, CHR 0xE9, CHR 0x81, CHR 0x93, CHR 0x69, CHR 0x70], ''tunnel_ip''), ([CHR 0xE4, CHR 0xB8, CHR 0xBB, CHR 0xE6, CHR 0x9C, CHR 0xBA, CHR 0xE9, CHR 0x9A, CHR 0xA7, CHR 0xE9, CHR 0x81, CHR 0x93, CHR 0x20, CHR 0x69, CHR 0x70], ''tunnel_ip''),
     (''server_url_override'', ''server_url_override''), ([CHR 0xE8, CHR 0xBF, CHR 0x9E, CHR 0xE6, CHR 0x8E, CHR 0xA5, CHR 0xE5, CHR 0x9C, CHR 0xB0, CHR 0xE5, CHR 0x9D, CHR 0x80, CHR 0xE8, CHR 0xA6, CHR 0x86, CHR 0xE7, CHR 0x9B, CHR 0x96], ''server_url_override''), ([CHR 0xE8, CHR 0xBF, CHR 0x9E, CHR 0xE6, CHR 0x8E, CHR 0xA5, CHR 0xE8, CHR 0xA6, CHR 0x86, CHR 0xE7, CHR 0x9B, CHR 0x96], ''server_url_override'')]"

text \<open>Later entries win: the defined fields come after the aliases.\<close>

definition headers :: "field_def list \<Rightarrow> (string \<times> string) list" where
  "headers defs = rev (hostCSVHeaderAliases @
     concat (map (\<lambda>f. [(to_lower (fd_key f), ''custom:'' @ fd_key f), (to_lower (fd_label f), ''custom:'' @ fd_key f)])
       (filter fd_editable defs)))"

definition column_of :: "field_def list \<Rightarrow> string \<Rightarrow> string" where
  "column_of defs h = (case map_of (headers defs) (to_lower (trim_space h)) of None \<Rightarrow> [] | Some k \<Rightarrow> k)"

record import_result =
  ir_created :: nat
  ir_updated :: nat
  ir_skipped :: nat
  ir_errors :: "(nat \<times> string \<times> host_error) list"

text \<open>The cells of a record by column; of two cells for one column the right one counts.\<close>

definition cells :: "string list \<Rightarrow> string list \<Rightarrow> (string \<times> string) list" where
  "cells idx rec = map (\<lambda>(k, v). (k, trim_space v)) (filter (\<lambda>(k, v). k \<noteq> []) (zip idx rec))"

definition last_values :: "(string \<times> string) list \<Rightarrow> (string \<times> string) list" where
  "last_values cs = foldl (\<lambda>m (k, v). AList.update k v m) [] cs"

definition bad_ip :: "string \<Rightarrow> bool" where
  "bad_ip ip = (length ip > 64 \<or> list_ex (\<lambda>c. c \<in> {CHR 0x0D, CHR 0x0A, CHR 0x00}) ip)"

definition is_custom :: "string \<Rightarrow> bool" where "is_custom k = has_prefix ''custom:'' k"

definition split_cells :: "bool \<Rightarrow> (string \<times> string) list \<Rightarrow> (string \<times> string) list \<times> (string \<times> string) list" where
  "split_cells clear_empty values =
    (let kept = filter (\<lambda>(k, v). k \<noteq> ''ip'' \<and> k \<noteq> ''exit_ip'' \<and> (v \<noteq> [] \<or> clear_empty)) values
     in (filter (\<lambda>(k, v). \<not> is_custom k) kept,
         map (\<lambda>(k, v). (trim_prefix ''custom:'' k, v)) (filter (\<lambda>(k, v). is_custom k) kept)))"

definition row_error :: "nat \<Rightarrow> string \<Rightarrow> host_error \<Rightarrow> import_result \<Rightarrow> import_result" where
  "row_error n ip e r = r\<lparr>ir_errors := ir_errors r @ [(n, ip, e)]\<rparr>"

definition insert_manual :: "string \<Rightarrow> int \<Rightarrow> string option list \<times> string option \<times> string option \<Rightarrow> (string \<times> string) list option \<Rightarrow> db \<Rightarrow> db" where
  "insert_manual ip tenant f custom d = (case f of (vs, tunnel, override) \<Rightarrow>
     d\<lparr>d_hosts := d_hosts d @ [(write_host vs tunnel override (if no_custom custom then None else custom)
          (blank_host (d_next_host d) ip tenant))\<lparr>ho_source := ''manual''\<rparr>],
       d_next_host := d_next_host d + 1\<rparr>)"

definition import_row ::
    "url_lib \<Rightarrow> (string \<Rightarrow> int option) \<Rightarrow> (string \<Rightarrow> string list option) \<Rightarrow> field_tables \<Rightarrow> scope \<Rightarrow> bool \<Rightarrow> bool \<Rightarrow> string list \<Rightarrow>
     nat \<times> string list \<Rightarrow> import_result \<times> db \<Rightarrow> import_result \<times> db" where
  "import_row ul ports json_strings ft sc clear_empty create_missing idx nrec st =
    (case (nrec, st) of ((n, rec), (r, d)) \<Rightarrow>
      (let cs = cells idx rec; values = last_values cs
       in if list_all (\<lambda>(k, v). v = []) cs then (r, d)
          else
           (let ip = (case map_of values ''ip'' of None \<Rightarrow> [] | Some v \<Rightarrow> trim_space v)
            in if ip = [] then (row_error n [] HostNoIP r, d)
               else if bad_ip ip then (row_error n ip HostBadIP r, d)
               else (case split_cells clear_empty values of (fixed, custom) \<Rightarrow>
                (case normalizeBulkHostFields ul ports fixed of Inl e \<Rightarrow> (row_error n ip e r, d) | Inr f \<Rightarrow>
                 (case normalizeBulkCustomFields json_strings ft custom of Inl e \<Rightarrow> (row_error n ip (HostBadCustom e) r, d) | Inr c \<Rightarrow>
                  (case find (\<lambda>h. ho_ip h = ip \<and> scope_where sc (ho_tenant h)) (d_hosts d) of
                     None \<Rightarrow>
                      (if \<not> create_missing then (r\<lparr>ir_skipped := ir_skipped r + 1\<rparr>, d)
                       else if exists_row (\<lambda>h. ho_ip h = ip) (d_hosts d)
                         then (row_error n ip HostTaken r, d\<lparr>d_next_host := d_next_host d + 1\<rparr>)
                       else (r\<lparr>ir_created := ir_created r + 1\<rparr>, insert_manual ip (TenantForWrite sc) f c d))
                   | Some h \<Rightarrow>
                      (if no_fields f \<and> no_custom c then (r\<lparr>ir_skipped := ir_skipped r + 1\<rparr>, d)
                       else (r\<lparr>ir_updated := ir_updated r + 1\<rparr>, upd_hosts (\<lambda>x. ho_id x = ho_id h) (hostUpdateSets f c) d)))))))))"

definition HostImportCSV ::
    "url_lib \<Rightarrow> (string \<Rightarrow> int option) \<Rightarrow> (string \<Rightarrow> string list option) \<Rightarrow> field_tables \<Rightarrow> scope \<Rightarrow> bool \<Rightarrow> bool \<Rightarrow> string list list \<Rightarrow> db \<Rightarrow>
     (host_error + import_result) \<times> db" where
  "HostImportCSV ul ports json_strings ft sc clear_empty create_missing records d =
    (if length records < 2 then (Inl HostNoData, d)
     else if length records > 5001 then (Inl HostTooMany, d)
     else
      (let idx = map (column_of (field_list HostFields ft)) (hd records)
       in if ''ip'' \<notin> set idx then (Inl HostNoIP, d)
          else (case fold (import_row ul ports json_strings ft sc clear_empty create_missing idx)
                  (zip [2 ..< length records + 1] (tl records))
                  (\<lparr>ir_created = 0, ir_updated = 0, ir_skipped = 0, ir_errors = []\<rparr>, d) of
            (r, d') \<Rightarrow> (Inr r, d'))))"

text \<open>The records of an export; \<open>listed\<close> is the filter of the list the user sees.\<close>

definition hostCSVColumns :: "field_def list \<Rightarrow> (string \<times> bool) list" where
  "hostCSVColumns defs = map (\<lambda>k. (k, False)) [''ip'', ''exit_ip'', ''hostname'', ''account'', ''app_code'', ''biz_group'',
     ''department'', ''vendor'', ''host_type'', ''tunnel_ip'', ''server_url_override''] @
     map (\<lambda>f. (fd_key f, True)) (filter fd_editable defs)"

definition export_base :: "host_row \<Rightarrow> (string \<times> string) list" where
  "export_base h = [(''ip'', ho_ip h), (''exit_ip'', ho_exit_ip h), (''hostname'', ho_hostname h), (''account'', ho_account h),
     (''app_code'', ho_app_code h), (''biz_group'', ho_biz_group h), (''department'', ho_department h), (''vendor'', ho_vendor h),
     (''host_type'', ho_host_type h), (''tunnel_ip'', ho_tunnel_ip h), (''server_url_override'', ho_server_url_override h)]"

definition or_empty :: "string option \<Rightarrow> string" where
  "or_empty x = (case x of None \<Rightarrow> [] | Some v \<Rightarrow> v)"

definition export_row :: "(string \<times> bool) list \<Rightarrow> host_row \<Rightarrow> string list" where
  "export_row cols h = map (\<lambda>(k, custom). or_empty (if custom then map_of (ho_custom_fields h) k else map_of (export_base h) k)) cols"

definition HostExportCSV :: "(host_row \<Rightarrow> bool) \<Rightarrow> field_tables \<Rightarrow> db \<Rightarrow> string list list" where
  "HostExportCSV listed ft d =
    (let cols = hostCSVColumns (field_list HostFields ft)
     in map fst cols # map (export_row cols) (take 50000 (sort_key ho_ip (filter listed (d_hosts d)))))"

text \<open>An administrator's field with the key of a built-in column takes over its header.\<close>

definition ex_ip_field :: field_def where
  "ex_ip_field = \<lparr>fd_id = 1, fd_key = ''ip'', fd_label = ''IP'', fd_type = ''text'', fd_options = [], fd_in_list = True,
     fd_in_form = True, fd_editable = True, fd_builtin = False, fd_order = 1\<rparr>"

lemma custom_ip_field_blocks_import:
  "fst (HostImportCSV ul ports js (ft\<lparr>ft_defs := (\<lambda>k. [ex_ip_field])\<rparr>) sc ce cm [[''ip'', ''hostname''], [''10.0.0.1'', ''a'']] d) = Inl HostNoIP"
proof -
  have f: "field_list HostFields (ft\<lparr>ft_defs := (\<lambda>k. [ex_ip_field])\<rparr>) = [ex_ip_field]" by (simp add: field_list_def)
  have "map (column_of [ex_ip_field]) [''ip'', ''hostname''] = [''custom:ip'', ''hostname'']" by code_simp
  then show ?thesis by (simp add: HostImportCSV_def f)
qed

end
