(* ===== verification/Fleet.thy ===== *)
theory Fleet
imports HostImport WorkQueue
begin

text \<open>
  Which agent speaks for which host: the invariant of the hosts and agents tables under registration,
  heartbeats and the administration of hosts, and what a registration can and cannot take over.
\<close>

section \<open>Hosts and their agents\<close>

text \<open>Keys are unique, and every agent belongs to one host, which knows it: its id, address and agent id.
  No two hosts name the same agent.\<close>

definition fleet_ok :: "db \<Rightarrow> bool" where
  "fleet_ok d = (distinct (map ho_id (d_hosts d)) \<and> (\<forall>h\<in>set (d_hosts d). ho_id h < d_next_host d) \<and>
     distinct (map ho_ip (d_hosts d)) \<and> distinct (map ag_agent_id (d_agents d)) \<and>
     distinct (filter (\<lambda>x. x \<noteq> []) (map ho_agent_id (d_hosts d))) \<and>
     (\<forall>a\<in>set (d_agents d). ag_agent_id a \<noteq> [] \<and>
        (\<exists>h\<in>set (d_hosts d). ag_host_id a = Some (ho_id h) \<and> ag_ip a = ho_ip h \<and> ho_agent_id h = ag_agent_id a)))"

definition fleet_key :: "host_row \<Rightarrow> int \<times> string \<times> string \<times> int" where
  "fleet_key h = (ho_id h, ho_ip h, ho_agent_id h, ho_tenant h)"

definition agent_key :: "agent_row \<Rightarrow> string \<times> int option \<times> string \<times> string" where
  "agent_key a = (ag_agent_id a, ag_host_id a, ag_ip a, ag_token_hash a)"

text \<open>The invariant depends on the keys of the rows alone.\<close>

definition same_fleet :: "db \<Rightarrow> db \<Rightarrow> bool" where
  "same_fleet d' d = (map fleet_key (d_hosts d') = map fleet_key (d_hosts d) \<and>
     map agent_key (d_agents d') = map agent_key (d_agents d) \<and> d_next_host d' = d_next_host d)"

lemma map_key: "map k xs = map k ys \<Longrightarrow> (\<And>x. f x = g (k x)) \<Longrightarrow> map f xs = map f ys"
  by (metis (no_types, lifting) list.map_comp comp_apply map_eq_conv)

lemma map_key_mem: "map k xs = map k ys \<Longrightarrow> x \<in> set xs \<Longrightarrow> \<exists>y\<in>set ys. k y = k x"
  by (metis imageE image_eqI list.set_map)

lemma same_fleet_refl [simp, intro]: "same_fleet d d"
  by (simp add: same_fleet_def)

lemma same_fleet_trans: "same_fleet d'' d' \<Longrightarrow> same_fleet d' d \<Longrightarrow> same_fleet d'' d"
  by (simp add: same_fleet_def)

lemma fleet_ok_same:
  assumes "same_fleet d' d" "fleet_ok d"
  shows "fleet_ok d'"
proof -
  from assms(1) have k: "map fleet_key (d_hosts d') = map fleet_key (d_hosts d)"
    "map agent_key (d_agents d') = map agent_key (d_agents d)" "d_next_host d' = d_next_host d"
    by (simp_all add: same_fleet_def)
  have "map ho_id (d_hosts d') = map ho_id (d_hosts d)" "map ho_ip (d_hosts d') = map ho_ip (d_hosts d)"
    by (rule map_key [OF k(1), where g = fst], simp add: fleet_key_def)
      (rule map_key [OF k(1), where g = "fst \<circ> snd"], simp add: fleet_key_def)
  moreover have "map ho_agent_id (d_hosts d') = map ho_agent_id (d_hosts d)"
    by (rule map_key [OF k(1), where g = "fst \<circ> snd \<circ> snd"]) (simp add: fleet_key_def)
  moreover have "map ag_agent_id (d_agents d') = map ag_agent_id (d_agents d)"
    by (rule map_key [OF k(2), where g = fst]) (simp add: agent_key_def)
  moreover have "\<forall>h\<in>set (d_hosts d'). ho_id h < d_next_host d'"
    using map_key_mem [OF k(1)] assms(2) by (fastforce simp: k(3) fleet_ok_def fleet_key_def)
  moreover have "ag_agent_id a \<noteq> [] \<and> (\<exists>h\<in>set (d_hosts d'). ag_host_id a = Some (ho_id h) \<and> ag_ip a = ho_ip h \<and>
      ho_agent_id h = ag_agent_id a)" if a: "a \<in> set (d_agents d')" for a
  proof -
    from map_key_mem [OF k(2) a] obtain b where b: "b \<in> set (d_agents d)" "agent_key b = agent_key a" by auto
    with assms(2) obtain h where h: "h \<in> set (d_hosts d)" "ag_host_id b = Some (ho_id h)" "ag_ip b = ho_ip h"
      "ho_agent_id h = ag_agent_id b" "ag_agent_id b \<noteq> []" by (auto simp: fleet_ok_def)
    from map_key_mem [OF k(1) [symmetric] h(1)] obtain h' where "h' \<in> set (d_hosts d')" "fleet_key h' = fleet_key h" by auto
    with b(2) h show ?thesis by (intro conjI bexI [of _ h']) (auto simp: fleet_key_def agent_key_def)
  qed
  ultimately show ?thesis using assms(2) by (simp add: fleet_ok_def)
qed

lemma same_fleet_hosts:
  "(\<And>h. P h \<Longrightarrow> fleet_key (f h) = fleet_key h) \<Longrightarrow> same_fleet (upd_hosts P f d) d"
  by (simp add: same_fleet_def upd_hosts_def map_upd_where)

lemma same_fleet_agents:
  "(\<And>a. P a \<Longrightarrow> agent_key (f a) = agent_key a) \<Longrightarrow> same_fleet (d\<lparr>d_agents := upd_where P f (d_agents d)\<rparr>) d"
  by (simp add: same_fleet_def map_upd_where)

lemma same_fleet_frame [simp]:
  "same_fleet (d\<lparr>d_tasks := xt\<rparr>) d0 = same_fleet d d0" "same_fleet (d\<lparr>d_batches := xb\<rparr>) d0 = same_fleet d d0"
  "same_fleet (d\<lparr>d_thosts := xh\<rparr>) d0 = same_fleet d d0" "same_fleet (d\<lparr>d_cmds := xc\<rparr>) d0 = same_fleet d d0"
  "same_fleet (d\<lparr>d_jobs := xj\<rparr>) d0 = same_fleet d d0" "same_fleet (d\<lparr>d_hjobs := xk\<rparr>) d0 = same_fleet d d0"
  "same_fleet (d\<lparr>d_tokens := xe\<rparr>) d0 = same_fleet d d0" "same_fleet (d\<lparr>d_next_cmd := n1\<rparr>) d0 = same_fleet d d0"
  "same_fleet (d\<lparr>d_next_hjob := n2\<rparr>) d0 = same_fleet d d0" "same_fleet (d\<lparr>d_next_token := n3\<rparr>) d0 = same_fleet d d0"
  by (simp_all add: same_fleet_def)

lemma fleet_key_writes [simp]:
  "fleet_key (set_check now s r h) = fleet_key h" "fleet_key (clear_check t q h) = fleet_key h"
  "fleet_key (beat_host ul now rq h) = fleet_key h" "fleet_key (write_host vs tunnel override custom h) = fleet_key h"
  "fleet_key (hostUpdateSets f custom h) = fleet_key h"
  by (auto simp: fleet_key_def set_check_def clear_check_def beat_host_def write_host_def hostUpdateSets_def Let_def
      split: prod.splits)

lemma fleet_key_fields [simp]:
  "fleet_key (h\<lparr>ho_check_requested_at := q\<rparr>) = fleet_key h"
  "fleet_key (h\<lparr>ho_server_url_override := u, ho_server_url_auto := b\<rparr>) = fleet_key h"
  by (simp_all add: fleet_key_def)

section \<open>Administration keeps the fleet\<close>

lemma triggerTunnelCheck_same: "same_fleet (triggerTunnelCheck now i d) d"
  by (simp add: triggerTunnelCheck_def same_fleet_hosts)

lemma HostUpdate_same: "same_fleet (snd (HostUpdate ul ports js ft now sc i rq d)) d"
proof -
  have w: "same_fleet (upd_hosts P (write_host vs t ov c) d) d" for P vs t ov c by (simp add: same_fleet_hosts)
  have "same_fleet (triggerTunnelCheck now i (upd_hosts P (write_host vs t ov c) d)) d" for P vs t ov c
    by (rule same_fleet_trans [OF triggerTunnelCheck_same w])
  with w show ?thesis by (auto simp: HostUpdate_def Let_def split: sum.splits option.splits)
qed

lemma HostBatchUpdate_same: "same_fleet (snd (HostBatchUpdate ul ports js ft sc ids m custom d)) d"
  by (auto simp: HostBatchUpdate_def Let_def split: sum.splits intro!: same_fleet_hosts)

lemma tunnel_checks_same:
  "same_fleet (savePlatformTunnelCheck now i r d) d" "same_fleet (saveAgentTunnelCheck now a r d) d"
  "same_fleet (runPlatformTunnelCheck ul ext probe now i d) d"
  "same_fleet (snd (HostTunnelTest ul ext probe now sc i target d)) d"
  "same_fleet (snd (SyncExternalURLToAgents now target d)) d"
  by (auto simp: savePlatformTunnelCheck_def saveAgentTunnelCheck_def runPlatformTunnelCheck_def HostTunnelTest_def
      SyncExternalURLToAgents_def Let_def split: option.splits intro!: same_fleet_hosts)

lemma fleet_ok_drop:
  assumes "fleet_ok d" "h \<in> set (d_hosts d)"
  shows "fleet_ok (drop_host h d)"
proof -
  have "distinct (filter Q (map f xs)) \<Longrightarrow> distinct (filter Q (map f (filter P xs)))" for Q P and f :: "host_row \<Rightarrow> string" and xs
    by (induction xs) auto
  with assms show ?thesis by (fastforce simp: fleet_ok_def drop_host_def Let_def distinct_map_filter)
qed

lemma deleteHostTx_fleet: "fleet_ok d \<Longrightarrow> fleet_ok (snd (deleteHostTx sc i d))"
  by (auto simp: deleteHostTx_def dest!: find_SomeD intro: fleet_ok_drop split: option.splits)

lemma delete_hosts_fleet: "fleet_ok d \<Longrightarrow> fleet_ok (snd (snd (delete_hosts sc is d)))"
proof (induction "is" arbitrary: d)
  case (Cons i "is")
  from deleteHostTx_fleet [OF Cons.prems, of sc i] Cons.IH Cons.prems show ?case
    by (fastforce split: prod.splits sum.splits)
qed simp

lemma fleet_ok_new_host:
  assumes "fleet_ok d" "\<not> exists_row (\<lambda>r. ho_ip r = ho_ip h) (d_hosts d)" "ho_id h = d_next_host d"
    and "\<forall>r\<in>set (d_hosts d). ho_agent_id h \<noteq> [] \<longrightarrow> ho_agent_id r \<noteq> ho_agent_id h"
  shows "fleet_ok (d\<lparr>d_hosts := d_hosts d @ [h], d_next_host := d_next_host d + 1\<rparr>)"
  using assms by (fastforce simp: fleet_ok_def exists_row_iff)

lemma fleet_ok_skip_id: "fleet_ok d \<Longrightarrow> fleet_ok (d\<lparr>d_next_host := d_next_host d + 1\<rparr>)"
  by (auto simp: fleet_ok_def)

end
