(* ===== verification/EnrolSafety.thy ===== *)
theory EnrolSafety
imports Fleet SelfUpdateSafety
begin

text \<open>
  Registration: whom it can displace, what its credentials are worth, and how often a token can be used.
\<close>

section \<open>What a registration writes\<close>

lemma AgentRegister_Inl: "AgentRegister hash req now ip rq cr d = (Inl e, d') \<Longrightarrow> d' = d"
  by (auto simp: AgentRegister_def Let_def split: prod.splits option.splits if_splits)

lemma AgentRegister_Inr:
  assumes "AgentRegister hash req now ip rq cr d = (Inr c, d')"
  shows "\<exists>tenant d1 i d2. c = cr \<and>
    (if req then consumeEnrollTokenTx hash now (rr_token rq) ip d else (Some 1, d)) = (Some tenant, d1) \<and>
    upsert_host now ip tenant rq cr d1 = Some (i, d2) \<and>
    (\<forall>a\<in>set (d_agents d2). ag_agent_id a = cr_agent_id cr \<longrightarrow> ag_ip a = ip \<or> ag_host_id a = Some i) \<and>
    d' = d2\<lparr>d_agents := filter (\<lambda>a. \<not> (ag_ip a = ip \<or> ag_host_id a = Some i)) (d_agents d2) @ [new_agent hash now i ip rq cr]\<rparr>"
  using assms by (auto simp: AgentRegister_def Let_def exists_row_iff split: prod.splits option.splits if_splits)

lemma consume_spec:
  assumes "consumeEnrollTokenTx hash now token source d = (Some tenant, d')"
  shows "(\<exists>t\<in>set (d_tokens d). et_hash t = hash token \<and> et_active now t \<and> et_source_ok (trim_space source) t \<and> et_tenant t = tenant) \<and>
    d' = d\<lparr>d_tokens := upd_where (\<lambda>t. et_hash t = hash token \<and> et_active now t \<and> et_source_ok (trim_space source) t)
      (et_spend now (trim_space source)) (d_tokens d)\<rparr>"
  using assms by (auto simp: consumeEnrollTokenTx_def Let_def dest: find_SomeD split: option.splits if_splits)

lemma host_key_registered:
  "fleet_key (registered_host now rq cr h) = (ho_id h, ho_ip h, cr_agent_id cr, ho_tenant h)"
  by (simp add: fleet_key_def registered_host_def Let_def split: prod.split)

lemma agent_key_new: "agent_key (new_agent hash now i ip rq cr) = (cr_agent_id cr, Some i, ip, hash (cr_token cr))"
  by (simp add: agent_key_def new_agent_def Let_def split: prod.split)

lemma agent_new_fields [simp]:
  "ag_agent_id (new_agent hash now i ip rq cr) = cr_agent_id cr" "ag_host_id (new_agent hash now i ip rq cr) = Some i"
  "ag_ip (new_agent hash now i ip rq cr) = ip" "ag_token_hash (new_agent hash now i ip rq cr) = hash (cr_token cr)"
  using agent_key_new [of hash now i ip rq cr] by (simp_all add: agent_key_def)

text \<open>The host of a registration is new, or the one of its address and tenant.\<close>

lemma upsert_host_Some:
  assumes "upsert_host now ip tenant rq cr d = Some (i, d')"
  shows "\<not> exists_row (\<lambda>h. ho_ip h = ip) (d_hosts d) \<and> i = d_next_host d \<and>
      (\<exists>h. fleet_key h = (i, ip, cr_agent_id cr, tenant) \<and> d' = d\<lparr>d_hosts := d_hosts d @ [h], d_next_host := i + 1\<rparr>) \<or>
    (\<exists>h\<in>set (d_hosts d). ho_ip h = ip \<and> ho_tenant h = tenant \<and> i = ho_id h) \<and>
      (\<exists>f. (\<forall>r. fleet_key (f r) = (ho_id r, ho_ip r, cr_agent_id cr, ho_tenant r)) \<and>
        d' = d\<lparr>d_hosts := upd_where (\<lambda>r. ho_ip r = ip) f (d_hosts d), d_next_host := d_next_host d + 1\<rparr>)"
proof (cases "find (\<lambda>h. ho_ip h = ip) (d_hosts d)")
  case None
  let ?h = "(registered_host now rq cr (blank_host (d_next_host d) ip tenant))
        \<lparr>ho_os_family := to_lower (cleanAgentText (rr_os rq) 64), ho_os_version := cleanAgentText (rr_os_version rq) 64,
         ho_arch := to_lower (trim_space (rr_arch rq)), ho_kernel := cleanAgentText (rr_kernel rq) 128,
         ho_exit_ip := NormalizeExitIP (rr_exit_ip rq)\<rparr>"
  have "fleet_key ?h = (d_next_host d, ip, cr_agent_id cr, tenant)"
    using host_key_registered [of now rq cr "blank_host (d_next_host d) ip tenant"] by (simp add: fleet_key_def blank_host_def)
  moreover have "\<not> exists_row (\<lambda>h. ho_ip h = ip) (d_hosts d)"
    using None by (simp add: find_None_all exists_row_iff)
  ultimately show ?thesis using assms None by (auto simp: upsert_host_def Let_def intro!: exI [of _ ?h])
next
  case (Some h)
  let ?os = "to_lower (cleanAgentText (rr_os rq) 64)" and ?arch = "to_lower (trim_space (rr_arch rq))"
  let ?exit = "NormalizeExitIP (rr_exit_ip rq)"
  let ?f = "\<lambda>r. (registered_host now rq cr r)
      \<lparr>ho_os_family := (if ?os = [] then ho_os_family r else ?os), ho_arch := (if ?arch = [] then ho_arch r else ?arch),
       ho_exit_ip := (if ?exit \<noteq> [] then ?exit else ho_exit_ip r)\<rparr>"
  have "\<forall>r. fleet_key (?f r) = (ho_id r, ho_ip r, cr_agent_id cr, ho_tenant r)"
    using host_key_registered [of now rq cr] by (simp add: fleet_key_def)
  then show ?thesis using assms Some find_SomeD [OF Some]
    by (auto simp: upsert_host_def Let_def split: if_splits intro!: bexI [of _ h] exI [of _ ?f])
qed

lemma host_key_eq: "fleet_key h = (i, ip, a, t) \<longleftrightarrow> ho_id h = i \<and> ho_ip h = ip \<and> ho_agent_id h = a \<and> ho_tenant h = t"
  by (auto simp: fleet_key_def)

section \<open>The fleet stays in order\<close>

lemma distinct_agent_ids_upd:
  assumes "distinct (map ho_ip hs)" "distinct (filter (\<lambda>x. x \<noteq> []) (map ho_agent_id hs))"
    and "\<forall>h\<in>set hs. ho_ip h \<noteq> ip \<longrightarrow> ho_agent_id h \<noteq> x" and "\<And>r. ho_agent_id (f r) = x"
  shows "distinct (filter (\<lambda>x. x \<noteq> []) (map ho_agent_id (upd_where (\<lambda>r. ho_ip r = ip) f hs)))"
  using assms(1-3)
proof (induction hs)
  case (Cons h hs)
  show ?case
  proof (cases "ho_ip h = ip")
    case True
    with Cons.prems(1) have n: "\<forall>r\<in>set hs. ho_ip r \<noteq> ip" by (auto simp: image_iff)
    then have "upd_where (\<lambda>r. ho_ip r = ip) f hs = hs" by (intro upd_where_id) auto
    with n True Cons.prems assms(4) show ?thesis by (auto split: if_splits)
  next
    case False
    have "y = x \<or> y \<in> ho_agent_id ` set hs" if "y \<in> ho_agent_id ` set (upd_where (\<lambda>r. ho_ip r = ip) f hs)" for y
      using that assms(4) by (auto simp: set_upd_where)
    with False Cons show ?thesis by (auto split: if_splits)
  qed
qed simp

lemma AgentRegister_fleet:
  assumes "fleet_ok d" and "cr_agent_id cr \<noteq> []" and "\<forall>h\<in>set (d_hosts d). ho_ip h \<noteq> ip \<longrightarrow> ho_agent_id h \<noteq> cr_agent_id cr"
  shows "fleet_ok (snd (AgentRegister hash req now ip rq cr d))"
proof (cases "AgentRegister hash req now ip rq cr d")
  case (Pair res d')
  show ?thesis
  proof (cases res)
    case (Inl e)
    with Pair AgentRegister_Inl [of hash req now ip rq cr d e d'] assms(1) show ?thesis by auto
  next
    case (Inr c)
    with Pair AgentRegister_Inr [of hash req now ip rq cr d c d'] obtain tenant d1 i d2 where
      tok: "(if req then consumeEnrollTokenTx hash now (rr_token rq) ip d else (Some 1, d)) = (Some tenant, d1)" and
      up: "upsert_host now ip tenant rq cr d1 = Some (i, d2)" and
      id: "\<forall>a\<in>set (d_agents d2). ag_agent_id a = cr_agent_id cr \<longrightarrow> ag_ip a = ip \<or> ag_host_id a = Some i" and
      d': "d' = d2\<lparr>d_agents := filter (\<lambda>a. \<not> (ag_ip a = ip \<or> ag_host_id a = Some i)) (d_agents d2) @ [new_agent hash now i ip rq cr]\<rparr>"
      by auto
    have d1: "d_hosts d1 = d_hosts d" "d_agents d1 = d_agents d" "d_next_host d1 = d_next_host d"
      using tok by (auto dest: consume_spec split: if_splits)
    have f1: "fleet_ok d1" using assms(1) by (simp add: fleet_ok_def d1)
    have ag: "d_agents d2 = d_agents d1" using upsert_host_Some [OF up] by auto
    from upsert_host_Some [OF up] have "fleet_ok d'"
    proof (elim disjE conjE exE bexE)
      fix h
      assume new: "\<not> exists_row (\<lambda>h. ho_ip h = ip) (d_hosts d1)" "i = d_next_host d1"
        and k: "fleet_key h = (i, ip, cr_agent_id cr, tenant)"
        and d2: "d2 = d1\<lparr>d_hosts := d_hosts d1 @ [h], d_next_host := i + 1\<rparr>"
      from fleet_ok_new_host [OF f1, of h] new k assms(3) have "fleet_ok d2"
        by (auto simp: d2 host_key_eq d1 exists_row_iff)
      then show ?thesis using k id assms(2) unfolding d' fleet_ok_def
        by (auto simp: distinct_map_filter host_key_eq d2)
    next
      fix h f
      assume h: "h \<in> set (d_hosts d1)" "ho_ip h = ip" "ho_tenant h = tenant" "i = ho_id h"
        and k: "\<forall>r. fleet_key (f r) = (ho_id r, ho_ip r, cr_agent_id cr, ho_tenant r)"
        and d2: "d2 = d1\<lparr>d_hosts := upd_where (\<lambda>r. ho_ip r = ip) f (d_hosts d1), d_next_host := d_next_host d1 + 1\<rparr>"
      have kf: "ho_id (f r) = ho_id r" "ho_ip (f r) = ho_ip r" "ho_agent_id (f r) = cr_agent_id cr" for r
        using k by (auto simp: host_key_eq)
      have keys: "distinct (map ho_id (d_hosts d2))" "distinct (map ho_ip (d_hosts d2))" "\<forall>h\<in>set (d_hosts d2). ho_id h < d_next_host d2"
        using f1 kf by (auto simp: fleet_ok_def d2 map_upd_where set_upd_where)
      have ids: "distinct (filter (\<lambda>x. x \<noteq> []) (map ho_agent_id (d_hosts d2)))"
        using distinct_agent_ids_upd [of "d_hosts d1" ip "cr_agent_id cr" f] f1 assms(3) kf(3) by (simp add: d2 fleet_ok_def d1)
      have "\<exists>h'\<in>set (d_hosts d2). ag_host_id a = Some (ho_id h') \<and> ag_ip a = ho_ip h' \<and> ho_agent_id h' = ag_agent_id a"
        if a: "a \<in> set (d_agents d1)" "ag_ip a \<noteq> ip" for a
      proof -
        from f1 a(1) obtain g where "g \<in> set (d_hosts d1)" "ag_host_id a = Some (ho_id g)" "ag_ip a = ho_ip g" "ho_agent_id g = ag_agent_id a"
          by (auto simp: fleet_ok_def)
        with a(2) show ?thesis by (intro bexI [of _ g]) (auto simp: d2 set_upd_where)
      qed
      moreover have "\<exists>g\<in>set (d_hosts d2). ho_id h = ho_id g \<and> ho_ip h = ho_ip g \<and> ho_agent_id g = cr_agent_id cr"
        using h kf by (intro bexI [of _ "f h"]) (auto simp: d2 set_upd_where)
      ultimately show ?thesis using keys ids id assms(2) f1 h kf unfolding d' fleet_ok_def ag
        by (auto simp: distinct_map_filter)
    qed
    then show ?thesis by (simp add: Pair)
  qed
qed

text \<open>C24: a registration takes over no host at another address and none of another tenant: a host row that changed, or
  whose agent lost its credentials, has the address the request came from, and, where a token is required (the
  default), a token in force that admits this address belongs to the tenant of the host; where none is required
  (\<open>agent.require_enroll_token\<close> off) the host is one of the first tenant.\<close>

theorem AgentRegister_no_hijack:
  assumes "fleet_ok d" and "AgentRegister hash req now ip rq cr d = (res, d')" and "h \<in> set (d_hosts d)"
    and "h \<in> set (d_hosts d') \<Longrightarrow> a \<in> set (d_agents d) \<and> a \<notin> set (d_agents d') \<and> ag_host_id a = Some (ho_id h)"
  shows "res = Inr cr \<and> ho_ip h = ip \<and>
    (if req then \<exists>t\<in>set (d_tokens d). et_hash t = hash (rr_token rq) \<and> et_active now t \<and>
       et_source_ok (trim_space ip) t \<and> et_tenant t = ho_tenant h
     else ho_tenant h = 1)"
proof (cases res)
  case (Inl e)
  with AgentRegister_Inl [of hash req now ip rq cr d e d'] assms(2-4) show ?thesis by auto
next
  case (Inr c)
  from AgentRegister_Inr [OF assms(2) [unfolded Inr]] obtain tenant d1 i d2 where
    c: "c = cr" and tok: "(if req then consumeEnrollTokenTx hash now (rr_token rq) ip d else (Some 1, d)) = (Some tenant, d1)" and
    up: "upsert_host now ip tenant rq cr d1 = Some (i, d2)" and
    d': "d' = d2\<lparr>d_agents := filter (\<lambda>a. \<not> (ag_ip a = ip \<or> ag_host_id a = Some i)) (d_agents d2) @ [new_agent hash now i ip rq cr]\<rparr>"
    by auto
  have d1: "d_hosts d1 = d_hosts d" "d_agents d1 = d_agents d" "d_next_host d1 = d_next_host d"
    using tok by (auto dest: consume_spec split: if_splits)
  have own: "ag_ip a = ho_ip h" if "a \<in> set (d_agents d)" "ag_host_id a = Some (ho_id h)" for a
  proof -
    from assms(1) that obtain g where "g \<in> set (d_hosts d)" "ho_id g = ho_id h" "ag_ip a = ho_ip g" by (auto simp: fleet_ok_def)
    with distinct_key_eq [of ho_id "d_hosts d" h g] assms(1,3) show ?thesis by (simp add: fleet_ok_def)
  qed
  from upsert_host_Some [OF up] have "ho_ip h = ip \<and> ho_tenant h = tenant"
  proof (elim disjE conjE exE bexE)
    fix g
    assume new: "\<not> exists_row (\<lambda>h. ho_ip h = ip) (d_hosts d1)" "i = d_next_host d1"
      and d2: "d2 = d1\<lparr>d_hosts := d_hosts d1 @ [g], d_next_host := i + 1\<rparr>"
    from assms(3) have "h \<in> set (d_hosts d')" by (simp add: d' d2 d1)
    with assms(4) have a: "a \<in> set (d_agents d)" "a \<notin> set (d_agents d')" "ag_host_id a = Some (ho_id h)" by auto
    have "ho_id h < i" using assms(1,3) new(2) by (simp add: fleet_ok_def d1)
    moreover have "ho_ip h \<noteq> ip" using new(1) assms(3) by (auto simp: exists_row_iff d1)
    ultimately show ?thesis using a own [OF a(1,3)] by (auto simp: d' d2 d1)
  next
    fix g f
    assume g: "g \<in> set (d_hosts d1)" "ho_ip g = ip" "ho_tenant g = tenant" "i = ho_id g"
      and d2: "d2 = d1\<lparr>d_hosts := upd_where (\<lambda>r. ho_ip r = ip) f (d_hosts d1), d_next_host := d_next_host d1 + 1\<rparr>"
    have "ho_ip h = ip"
    proof (rule ccontr)
      assume n: "ho_ip h \<noteq> ip"
      with assms(3) have "h \<in> set (d_hosts d')" by (auto simp: d' d2 d1 set_upd_where)
      with assms(4) have a: "a \<in> set (d_agents d)" "a \<notin> set (d_agents d')" "ag_host_id a = Some (ho_id h)" by auto
      have "ho_id h \<noteq> i" using n g assms(1,3) distinct_key_eq [of ho_id "d_hosts d" g h] by (auto simp: fleet_ok_def d1)
      with a n own [OF a(1,3)] show False by (auto simp: d' d2 d1)
    qed
    with g assms(1,3) distinct_key_eq [of ho_ip "d_hosts d" g h] show ?thesis by (auto simp: fleet_ok_def d1)
  qed
  with tok Inr c show ?thesis by (auto dest: consume_spec split: if_splits)
qed

lemma find_agent_append:
  "find_agent x (d\<lparr>d_agents := as @ [b]\<rparr>) =
    (case find_agent x (d\<lparr>d_agents := as\<rparr>) of Some a \<Rightarrow> Some a | None \<Rightarrow> if ag_agent_id b = x then Some b else None)"
  unfolding find_agent_def by (induction as) auto

lemma find_agent_keep:
  assumes "distinct (map ag_agent_id as)" "a \<in> set as"
  shows "find_agent (ag_agent_id a) (d\<lparr>d_agents := filter P as\<rparr>) = (if P a then Some a else None)"
proof (cases "P a")
  case True
  then show ?thesis using assms find_distinct [of ag_agent_id "filter P as" a] by (simp add: find_agent_def distinct_map_filter)
next
  case False
  with assms show ?thesis by (auto simp: find_agent_def find_None_all dest: distinct_key_eq)
qed

text \<open>After a registration that succeeded the new credentials authenticate; the agents that were at this
  address no longer do, whatever token they show; and the others' credentials are worth what they were.\<close>

theorem AgentRegister_credentials:
  assumes "fleet_ok d" and "AgentRegister hash req now ip rq cr d = (Inr c, d')"
    and "cr_agent_id cr \<noteq> []" and "cr_token cr \<noteq> []" and "a \<in> set (d_agents d)" and "token \<noteq> []"
    and "ag_agent_id a \<noteq> cr_agent_id cr"
  shows "VerifyToken hash (cr_agent_id c) (cr_token c) d' = None \<and>
    VerifyToken hash (ag_agent_id a) token d' =
      (if ag_ip a = ip then Some AgentNotFound else VerifyToken hash (ag_agent_id a) token d)"
proof -
  from AgentRegister_Inr [OF assms(2)] obtain tenant d1 i d2 where
    c: "c = cr" and tok: "(if req then consumeEnrollTokenTx hash now (rr_token rq) ip d else (Some 1, d)) = (Some tenant, d1)" and
    up: "upsert_host now ip tenant rq cr d1 = Some (i, d2)" and
    id: "\<forall>a\<in>set (d_agents d2). ag_agent_id a = cr_agent_id cr \<longrightarrow> ag_ip a = ip \<or> ag_host_id a = Some i" and
    d': "d' = d2\<lparr>d_agents := filter (\<lambda>a. \<not> (ag_ip a = ip \<or> ag_host_id a = Some i)) (d_agents d2) @ [new_agent hash now i ip rq cr]\<rparr>"
    by auto
  have d1: "d_hosts d1 = d_hosts d" "d_agents d1 = d_agents d" "d_next_host d1 = d_next_host d"
    using tok by (auto dest: consume_spec split: if_splits)
  have ag: "d_agents d2 = d_agents d" using upsert_host_Some [OF up] d1 by auto
  let ?P = "\<lambda>a. \<not> (ag_ip a = ip \<or> ag_host_id a = Some i)"
  have at: "?P a = (ag_ip a \<noteq> ip)"
  proof -
    from assms(1,5) obtain g where g: "g \<in> set (d_hosts d)" "ag_host_id a = Some (ho_id g)" "ag_ip a = ho_ip g"
      by (auto simp: fleet_ok_def)
    from upsert_host_Some [OF up] have "ho_id g = i \<longrightarrow> ho_ip g = ip"
      using g(1) assms(1) distinct_key_eq [of ho_id "d_hosts d" _ g] by (auto simp: fleet_ok_def d1)
    with g show ?thesis by auto
  qed
  have dist: "distinct (map ag_agent_id (d_agents d))" using assms(1) by (simp add: fleet_ok_def)
  have none: "find_agent (cr_agent_id cr) (d2\<lparr>d_agents := filter ?P (d_agents d)\<rparr>) = None"
    using id by (auto simp: find_agent_def find_None_all ag)
  have new: "find_agent (cr_agent_id cr) d' = Some (new_agent hash now i ip rq cr)"
    by (simp add: d' ag find_agent_append none [simplified])
  have old: "find_agent (ag_agent_id a) d' = (if ag_ip a = ip then None else Some a)"
    using assms(7) by (simp add: d' ag find_agent_append find_agent_keep [OF dist assms(5), of ?P d2, simplified] at [simplified])
  have "find_agent (ag_agent_id a) d = Some a"
    using find_distinct [OF dist assms(5)] by (simp add: find_agent_def)
  with new old assms(1,3-6) show ?thesis by (auto simp: VerifyToken_def c fleet_ok_def)
qed

section \<open>How often a token is used\<close>

text \<open>What may happen to tokens; the number says whether a machine registered with the token of hash \<open>h\<close>.
  New tokens are random, so their hash is another.\<close>

inductive token_event :: "(string \<Rightarrow> string) \<Rightarrow> string \<Rightarrow> db \<Rightarrow> nat \<Rightarrow> db \<Rightarrow> bool" for hash h where
  registered: "AgentRegister hash True now ip rq cr d = (Inr c, d') \<Longrightarrow>
    token_event hash h d (if hash (rr_token rq) = h then 1 else 0) d'"
| refused: "AgentRegister hash True now ip rq cr d = (Inl e, d') \<Longrightarrow> token_event hash h d 0 d'"
| revoked: "AutomationEnrollTokenRevoke now actor i d = (res, d') \<Longrightarrow> token_event hash h d 0 d'"
| deleted: "AutomationEnrollTokenBatchDelete actor ids d = (res, d') \<Longrightarrow> token_event hash h d 0 d'"
| rotated: "AutomationEnrollTokenRotate hash rnd now actor i os arch d = (res, d') \<Longrightarrow>
    hash (fst (newAutomationToken rnd)) \<noteq> h \<Longrightarrow> token_event hash h d 0 d'"
| created: "AutomationEnrollTokenCreate hash rfc rnd now actor acc rq d = (res, d') \<Longrightarrow>
    hash (fst (newAutomationToken rnd)) \<noteq> h \<Longrightarrow> token_event hash h d 0 d'"
| issued: "AgentEnrollToken hash token now ttl actor want os arch d = (b, d') \<Longrightarrow> hash token \<noteq> h \<Longrightarrow> token_event hash h d 0 d'"
| elsewhere: "d_tokens d' = d_tokens d \<Longrightarrow> token_event hash h d 0 d'"

inductive token_run :: "(string \<Rightarrow> string) \<Rightarrow> string \<Rightarrow> db \<Rightarrow> nat \<Rightarrow> db \<Rightarrow> bool" for hash h where
  start: "token_run hash h d 0 d"
| step: "token_run hash h d n d' \<Longrightarrow> token_event hash h d' k d'' \<Longrightarrow> token_run hash h d (n + k) d''"

text \<open>How many registrations a token still allows; and that it is not one for any number of them.\<close>

definition token_budget :: "enroll_token_row \<Rightarrow> nat" where
  "token_budget t = (if \<not> et_enabled t \<or> et_revoked_at t \<noteq> None then 0
     else if et_type t = ''one_time'' then (if et_used_at t = None then 1 else 0)
     else if et_type t = ''automation'' then nat (et_max_uses t - et_used_count t) else 0)"

definition uses_left :: "string \<Rightarrow> db \<Rightarrow> nat" where
  "uses_left h d = sum_list (map (\<lambda>t. if et_hash t = h then token_budget t else 0) (d_tokens d))"

definition limited :: "string \<Rightarrow> db \<Rightarrow> bool" where
  "limited h d = (\<forall>t\<in>set (d_tokens d). et_hash t = h \<longrightarrow> et_type t = ''automation'' \<longrightarrow> et_max_uses t > 0)"

lemma limited_upd:
  assumes "limited h d" "\<And>t. et_hash (f t) = et_hash t \<and> et_type (f t) = et_type t \<and> et_max_uses (f t) = et_max_uses t"
  shows "limited h (d\<lparr>d_tokens := upd_where P f (d_tokens d)\<rparr>)"
  using assms by (auto simp: limited_def set_upd_where)

lemma et_spend_fields [simp]:
  "et_hash (et_spend now ip t) = et_hash t" "et_type (et_spend now ip t) = et_type t"
  "et_max_uses (et_spend now ip t) = et_max_uses t"
  by (simp_all add: et_spend_def)

lemma spend_budget:
  "et_active now t \<Longrightarrow> (et_type t = ''automation'' \<longrightarrow> et_max_uses t > 0) \<Longrightarrow> token_budget (et_spend now ip t) < token_budget t"
  by (auto simp: et_active_def token_budget_def et_spend_def)

lemma consume_uses:
  assumes "limited h d" and "consumeEnrollTokenTx hash now token source d = (Some tenant, d')"
  shows "limited h d' \<and> uses_left h d' + (if hash token = h then 1 else 0) \<le> uses_left h d"
proof -
  let ?P = "\<lambda>t. et_hash t = hash token \<and> et_active now t \<and> et_source_ok (trim_space source) t"
  let ?m = "\<lambda>t. if et_hash t = h then token_budget t else 0"
  from consume_spec [OF assms(2)] obtain t where t: "t \<in> set (d_tokens d)" "?P t"
    and d': "d' = d\<lparr>d_tokens := upd_where ?P (et_spend now (trim_space source)) (d_tokens d)\<rparr>" by auto
  have less: "?m (et_spend now (trim_space source) r) < ?m r" if "r \<in> set (d_tokens d)" "?P r" "hash token = h" for r
    using that assms(1) by (auto simp: limited_def intro!: spend_budget [where now = now])
  have "uses_left h d' < uses_left h d" if "hash token = h"
    unfolding uses_left_def d' using t less [OF _ _ that] by (simp del: et_spend_fields) (rule sum_upd_less [where r = t], auto)
  moreover have "uses_left h d' \<le> uses_left h d" if "hash token \<noteq> h"
    unfolding uses_left_def d' using that by simp (rule sum_upd_le, auto)
  moreover have "limited h d'" unfolding d' by (rule limited_upd [OF assms(1)]) simp
  ultimately show ?thesis by (cases "hash token = h") auto
qed

lemma budget_none: "\<not> et_enabled t \<Longrightarrow> token_budget t = 0"
  by (simp add: token_budget_def)

lemma uses_upd_le:
  "(\<And>t. et_hash (f t) = et_hash t \<and> token_budget (f t) \<le> token_budget t) \<Longrightarrow>
     uses_left h (d\<lparr>d_tokens := upd_where P f (d_tokens d)\<rparr>) \<le> uses_left h d"
  by (auto simp: uses_left_def intro!: sum_upd_le)

lemma uses_insert: "et_hash t \<noteq> h \<Longrightarrow> uses_left h (insert_token t d) = uses_left h d"
  by (simp add: uses_left_def insert_token_def)

lemma limited_insert: "et_hash t \<noteq> h \<Longrightarrow> limited h (insert_token t d) = limited h d"
  by (auto simp: limited_def insert_token_def)

lemma new_token_hash [simp]: "et_hash (new_token now i hs typ creator) = hs"
  by (simp add: new_token_def)

lemma uses_filter: "uses_left h (d\<lparr>d_tokens := filter P (d_tokens d)\<rparr>) \<le> uses_left h d"
proof -
  have "sum_list (map f (filter P ts)) \<le> sum_list (map f ts)" for ts :: "enroll_token_row list" and f :: "enroll_token_row \<Rightarrow> nat"
    by (induction ts) auto
  then show ?thesis by (simp add: uses_left_def)
qed

lemma delete_tokens_uses: "limited h d \<Longrightarrow>
    limited h (snd (delete_tokens u is d)) \<and> uses_left h (snd (delete_tokens u is d)) \<le> uses_left h d"
proof (induction "is" arbitrary: d)
  case (Cons i "is")
  let ?d = "d\<lparr>d_tokens := filter (\<lambda>t. \<not> (et_id t = i \<and> token_visible u t)) (d_tokens d)\<rparr>"
  have "limited h ?d" using Cons.prems by (auto simp: limited_def)
  from Cons.IH [OF this] uses_filter [of h "\<lambda>t. \<not> (et_id t = i \<and> token_visible u t)" d]
  show ?case by (auto simp: Let_def split: prod.splits)
qed simp

lemma token_event_uses:
  assumes "token_event hash h d n d'" and "limited h d"
  shows "limited h d' \<and> n + uses_left h d' \<le> uses_left h d"
  using assms
proof (cases rule: token_event.cases)
  case (registered now ip rq cr c)
  from AgentRegister_Inr [OF registered(2)] obtain tenant d1 i d2 where
    tok: "consumeEnrollTokenTx hash now (rr_token rq) ip d = (Some tenant, d1)" and
    up: "upsert_host now ip tenant rq cr d1 = Some (i, d2)" and "d_tokens d' = d_tokens d2" by auto
  then have "d_tokens d' = d_tokens d1" using upsert_host_Some [OF up] by auto
  with consume_uses [OF assms(2) tok] registered(1) show ?thesis by (simp add: limited_def uses_left_def add.commute)
next
  case (revoked now actor i res)
  then show ?thesis using assms(2)
    by (auto simp: AutomationEnrollTokenRevoke_def Let_def split: option.splits if_splits
        intro!: limited_upd uses_upd_le simp: budget_none)
next
  case (deleted actor ids res)
  with delete_tokens_uses [OF assms(2)] assms(2) show ?thesis
    by (auto simp: AutomationEnrollTokenBatchDelete_def Let_def split: option.splits if_splits prod.splits)
      (metis snd_conv)+
next
  case (rotated rnd now actor i os arch res)
  let ?cut = "\<lambda>u d. d\<lparr>d_tokens := upd_where (\<lambda>r. et_id r = i)
      (\<lambda>r. r\<lparr>et_enabled := False, et_revoked_at := Some now, et_revoked_by := us_username u\<rparr>) (d_tokens d)\<rparr>"
  have cut: "limited h (?cut u (insert_token t d)) \<and> uses_left h (?cut u (insert_token t d)) \<le> uses_left h d"
    if "et_hash t \<noteq> h" for u t
  proof -
    have "limited h (?cut u (insert_token t d))" by (rule limited_upd) (use that assms(2) limited_insert in auto)
    moreover have "uses_left h (?cut u (insert_token t d)) \<le> uses_left h (insert_token t d)"
      by (rule uses_upd_le) (simp add: budget_none)
    ultimately show ?thesis using uses_insert [OF that, of d] by simp
  qed
  from rotated assms(2) show ?thesis
    by (auto simp: AutomationEnrollTokenRotate_def insertAutomationToken_def newAutomationToken_def Let_def cut
        split: option.splits sum.splits prod.splits if_splits)
next
  case (created rfc rnd now actor acc rq res)
  then show ?thesis using assms(2)
    by (auto simp: AutomationEnrollTokenCreate_def insertAutomationToken_def newAutomationToken_def Let_def
        uses_insert limited_insert split: option.splits sum.splits prod.splits if_splits)
next
  case (issued token now ttl actor want os arch b)
  then show ?thesis using assms(2)
    by (auto simp: AgentEnrollToken_def Let_def uses_insert limited_insert split: option.splits if_splits)
qed (auto simp: limited_def uses_left_def dest: AgentRegister_Inl)

text \<open>C25: a token admits no more machines than it says: whatever else happens to tokens meanwhile, a one-time
  token at most one, a limited automation token at most its remaining uses, and a token that was revoked
  or rotated none.\<close>

theorem enrol_uses_bounded:
  assumes "token_run hash h d n d'" and "limited h d"
  shows "n + uses_left h d' \<le> uses_left h d"
proof -
  from assms have "limited h d' \<and> n + uses_left h d' \<le> uses_left h d"
    by (induction rule: token_run.induct) (auto dest!: token_event_uses)
  then show ?thesis by simp
qed

end
