(* ===== verification/HostSafety.thy ===== *)
theory HostSafety
imports EnrolSafety
begin

text \<open>
  Heartbeats, deletion of hosts and their background jobs: nobody but the host concerned is touched,
  nothing of a deleted host is left, and every job ends with accounts that add up.
\<close>

section \<open>A heartbeat touches its own host\<close>

text \<open>What a heartbeat of \<open>agentID\<close> may write: rows of this agent, and commands.\<close>

definition own_rows :: "string \<Rightarrow> db \<Rightarrow> db \<Rightarrow> bool" where
  "own_rows agentID d d' = (d_next_host d' = d_next_host d \<and>
     map (\<lambda>h. if ho_agent_id h = agentID then None else Some h) (d_hosts d') =
       map (\<lambda>h. if ho_agent_id h = agentID then None else Some h) (d_hosts d) \<and>
     map (\<lambda>a. if ag_agent_id a = agentID then None else Some a) (d_agents d') =
       map (\<lambda>a. if ag_agent_id a = agentID then None else Some a) (d_agents d))"

lemma own_rows_refl [simp]: "own_rows a d d"
  by (simp add: own_rows_def)

lemma own_rows_trans: "own_rows a d d1 \<Longrightarrow> own_rows a d1 d2 \<Longrightarrow> own_rows a d d2"
  by (simp add: own_rows_def)

lemma own_rows_hosts:
  assumes "\<And>h. P h \<Longrightarrow> ho_agent_id h = a \<and> ho_agent_id (f h) = a"
  shows "own_rows a d (upd_hosts P f d)"
proof -
  have "map (\<lambda>h. if ho_agent_id h = a then None else Some h) (upd_where P f hs) =
      map (\<lambda>h. if ho_agent_id h = a then None else Some h) hs" for hs
    using assms by (induction hs) auto
  then show ?thesis by (simp add: own_rows_def upd_hosts_def)
qed

lemma own_rows_agents:
  assumes "\<And>h. P h \<Longrightarrow> ag_agent_id h = a \<and> ag_agent_id (f h) = a"
  shows "own_rows a d (d\<lparr>d_agents := upd_where P f (d_agents d)\<rparr>)"
proof -
  have "map (\<lambda>h. if ag_agent_id h = a then None else Some h) (upd_where P f hs) =
      map (\<lambda>h. if ag_agent_id h = a then None else Some h) hs" for hs
    using assms by (induction hs) auto
  then show ?thesis by (simp add: own_rows_def)
qed

lemma own_rows_cmds [simp]:
  "own_rows a d0 (d\<lparr>d_cmds := xc\<rparr>) = own_rows a d0 d" "own_rows a d0 (d\<lparr>d_next_cmd := n\<rparr>) = own_rows a d0 d"
  by (simp_all add: own_rows_def)

lemma own_rows_host: "own_rows a d d' \<Longrightarrow> h \<in> set (d_hosts d) \<Longrightarrow> ho_agent_id h \<noteq> a \<Longrightarrow> h \<in> set (d_hosts d')"
proof -
  assume o: "own_rows a d d'" and h: "h \<in> set (d_hosts d)" "ho_agent_id h \<noteq> a"
  let ?f = "\<lambda>h. if ho_agent_id h = a then None else Some h"
  from h have "Some h \<in> set (map ?f (d_hosts d))" by force
  with o have "Some h \<in> set (map ?f (d_hosts d'))" by (simp add: own_rows_def)
  then show ?thesis by (auto split: if_splits)
qed

lemma own_rows_agent: "own_rows a d d' \<Longrightarrow> g \<in> set (d_agents d) \<Longrightarrow> ag_agent_id g \<noteq> a \<Longrightarrow> g \<in> set (d_agents d')"
proof -
  assume o: "own_rows a d d'" and h: "g \<in> set (d_agents d)" "ag_agent_id g \<noteq> a"
  let ?f = "\<lambda>h. if ag_agent_id h = a then None else Some h"
  from h have "Some g \<in> set (map ?f (d_agents d))" by force
  with o have "Some g \<in> set (map ?f (d_agents d'))" by (simp add: own_rows_def)
  then show ?thesis by (auto split: if_splits)
qed

lemma clear_maintenance_upd:
  "clear_maintenance a stage d = upd_hosts (\<lambda>h. ho_agent_id h = a) (\<lambda>h. h\<lparr>ho_maintenance_until := None,
     ho_maintenance_reason := [], ho_agent_status := ''online'', ho_last_stage := stage\<rparr>) d"
  by (simp add: clear_maintenance_def upd_hosts_def)

lemma fleet_key_agent: "fleet_key (f h) = fleet_key h \<Longrightarrow> ho_agent_id (f h) = ho_agent_id h"
  by (simp add: fleet_key_def)

lemma beat_host_agent [simp]: "ho_agent_id (beat_host ul now rq h) = ho_agent_id h"
  by (rule fleet_key_agent) simp

lemma set_check_agent [simp]: "ho_agent_id (set_check now s r h) = ho_agent_id h"
  by (rule fleet_key_agent) simp

lemma beat_agent_id [simp]: "ag_agent_id (beat_agent now rq i a) = ag_agent_id a"
  by (simp add: beat_agent_def Let_def split: prod.split)

lemma beat_agent_key: "ag_host_id a \<noteq> None \<Longrightarrow> agent_key (beat_agent now rq i a) = agent_key a"
  by (auto simp: agent_key_def beat_agent_def Let_def split: prod.split)

lemma cmds_same: "\<exists>xc n. d = d\<lparr>d_cmds := xc, d_next_cmd := n\<rparr>"
  by (intro exI [of _ "d_cmds d"] exI [of _ "d_next_cmd d"]) simp

lemma insertCommand_cmds: "\<exists>xc n. snd (insertCommand now stamp h t d) = d\<lparr>d_cmds := xc, d_next_cmd := n\<rparr>"
  using cmds_same [of d] by (auto simp: insertCommand_def insert_command_def)

lemma auto_step_cmds: "\<exists>xc n. snd (auto_step au now stamp a (cache, d)) = d\<lparr>d_cmds := xc, d_next_cmd := n\<rparr>"
proof -
  have "\<exists>xc n. d' = d\<lparr>d_cmds := xc, d_next_cmd := n\<rparr>" if "insertCommand now stamp h t d = (b, d')" for h t b d'
    using insertCommand_cmds [of now stamp h t d] that by simp
  with cmds_same [of d] show ?thesis
    by (auto simp: auto_step_def maybeAutoUpdateAgent_def AutoEnqueue_def Let_def split: option.split prod.split sum.split)
qed

lemma auto_step_frame:
  assumes "auto_step au now stamp a (cache, d) = (cache', d')"
  shows "same_fleet d' d" "own_rows x d d'"
  using auto_step_cmds [of au now stamp a cache d] by (auto simp: assms)

lemma mark_frame:
  "same_fleet (snd (markSelfUpdateSuccess now stamp a hash d)) d" "own_rows a d (snd (markSelfUpdateSuccess now stamp a hash d))"
proof -
  let ?d = "d\<lparr>d_cmds := upd_where (self_update_done a hash) (finish_self_update now stamp) (d_cmds d)\<rparr>"
  have "same_fleet (clear_maintenance a s ?d) ?d" "own_rows a ?d (clear_maintenance a s ?d)" for s
    unfolding clear_maintenance_upd by (rule same_fleet_hosts own_rows_hosts; simp add: fleet_key_def)+
  moreover have "same_fleet ?d d" "own_rows a d ?d" by simp_all
  ultimately have c: "same_fleet (clear_maintenance a s ?d) d" "own_rows a d (clear_maintenance a s ?d)" for s
    using same_fleet_trans own_rows_trans by blast+
  then show "same_fleet (snd (markSelfUpdateSuccess now stamp a hash d)) d" "own_rows a d (snd (markSelfUpdateSuccess now stamp a hash d))"
    by (simp_all add: markSelfUpdateSuccess_def Let_def)
qed

text \<open>Moving a host away from the loopback address keeps host and agent together.\<close>

lemma migrate_own: "own_rows a d (migrateLoopbackHostIP a new d)"
proof -
  let ?P = "\<lambda>h. ho_agent_id h = a \<and> loopback_text (ho_ip h)"
  let ?d = "upd_hosts ?P (\<lambda>h. h\<lparr>ho_ip := new\<rparr>) d"
  have "own_rows a ?d (?d\<lparr>d_agents := upd_where (\<lambda>r. ag_agent_id r = a \<and> loopback_text (ag_ip r)) (\<lambda>r. r\<lparr>ag_ip := new\<rparr>) (d_agents ?d)\<rparr>)"
    by (rule own_rows_agents) simp
  moreover have "own_rows a d ?d" by (rule own_rows_hosts) simp
  ultimately have "own_rows a d (?d\<lparr>d_agents := upd_where (\<lambda>r. ag_agent_id r = a \<and> loopback_text (ag_ip r)) (\<lambda>r. r\<lparr>ag_ip := new\<rparr>) (d_agents d)\<rparr>)"
    by (simp add: own_rows_def upd_hosts_def)
  then show ?thesis by (simp add: migrateLoopbackHostIP_def Let_def split: option.split)
qed

lemma map_ip_upd:
  assumes "distinct (map ho_ip hs)" "new \<notin> ho_ip ` set hs" "rows_affected P hs \<le> 1"
  shows "distinct (map ho_ip (upd_where P (\<lambda>h. h\<lparr>ho_ip := new\<rparr>) hs))"
  using assms
proof (induction hs)
  case (Cons h hs)
  show ?case
  proof (cases "P h")
    case True
    with Cons.prems(3) have "\<forall>r\<in>set hs. \<not> P r" by (simp add: rows_affected_0)
    then have "upd_where P (\<lambda>h. h\<lparr>ho_ip := new\<rparr>) hs = hs" by (intro upd_where_id) auto
    with True Cons.prems show ?thesis by auto
  next
    case False
    have "ho_ip h \<notin> ho_ip ` set (upd_where P (\<lambda>h. h\<lparr>ho_ip := new\<rparr>) hs)"
      using Cons.prems by (auto simp: set_upd_where)
    with False Cons show ?thesis by auto
  qed
qed simp

lemma migrate_fleet:
  assumes "fleet_ok d"
  shows "fleet_ok (migrateLoopbackHostIP a new d)"
proof (cases "migrateLoopbackHostIP a new d = d")
  case False
  let ?P = "\<lambda>h. ho_agent_id h = a \<and> loopback_text (ho_ip h)"
  let ?Q = "\<lambda>r. ag_agent_id r = a \<and> loopback_text (ag_ip r)"
  let ?hs = "upd_where ?P (\<lambda>h. h\<lparr>ho_ip := new\<rparr>) (d_hosts d)"
  let ?as = "upd_where ?Q (\<lambda>r. r\<lparr>ag_ip := new\<rparr>) (d_agents d)"
  from False have r: "migrateLoopbackHostIP a new d = d\<lparr>d_hosts := ?hs, d_agents := ?as\<rparr>"
    and n: "rows_affected ?P (d_hosts d) \<le> 1" "rows_affected ?P (d_hosts d) = 1 \<longrightarrow> \<not> exists_row (\<lambda>h. ho_ip h = new) (d_hosts d)"
    by (auto simp: migrateLoopbackHostIP_def Let_def upd_hosts_def split: option.splits if_splits)
  have ips: "distinct (map ho_ip ?hs)"
  proof (cases "rows_affected ?P (d_hosts d) = 0")
    case True
    then have "?hs = d_hosts d" by (intro upd_where_id) (auto simp: rows_affected_0)
    then show ?thesis using assms by (simp add: fleet_ok_def)
  next
    case False
    with n assms show ?thesis by (intro map_ip_upd) (auto simp: fleet_ok_def exists_row_iff)
  qed
  have ids: "map ho_agent_id ?hs = map ho_agent_id (d_hosts d)" "map ho_id ?hs = map ho_id (d_hosts d)"
    "map ag_agent_id ?as = map ag_agent_id (d_agents d)" by (simp_all add: map_upd_where)
  have "ag_agent_id r \<noteq> [] \<and> (\<exists>h\<in>set ?hs. ag_host_id r = Some (ho_id h) \<and> ag_ip r = ho_ip h \<and> ho_agent_id h = ag_agent_id r)"
    if r: "r \<in> set ?as" for r
  proof -
    from upd_where_mem [OF r] obtain r0 where r0: "r0 \<in> set (d_agents d)" "r = (if ?Q r0 then r0\<lparr>ag_ip := new\<rparr> else r0)" by blast
    with assms obtain h where h: "h \<in> set (d_hosts d)" "ag_host_id r0 = Some (ho_id h)" "ag_ip r0 = ho_ip h"
      "ho_agent_id h = ag_agent_id r0" "ag_agent_id r0 \<noteq> []" by (auto simp: fleet_ok_def)
    let ?h = "if ?P h then h\<lparr>ho_ip := new\<rparr> else h"
    have "?h \<in> set ?hs" using h(1) by (auto simp: set_upd_where)
    then show ?thesis using r0(2) h by (intro conjI bexI [of _ ?h]) auto
  qed
  then show ?thesis using assms ips unfolding r fleet_ok_def by (auto simp: ids set_upd_where)
qed (use assms in simp)

lemma heartbeat_d2:
  assumes "fleet_ok d"
  shows "same_fleet ((upd_hosts (\<lambda>h. ho_agent_id h = a) (beat_host ul now rq) d)
    \<lparr>d_agents := upd_where (\<lambda>r. ag_agent_id r = a) (beat_agent now rq i) (d_agents d)\<rparr>) d"
proof -
  let ?as = "upd_where (\<lambda>r. ag_agent_id r = a) (beat_agent now rq i) (d_agents d)"
  have "map agent_key ?as = map agent_key (d_agents d)"
    using assms by (auto simp: upd_where_def fleet_ok_def intro!: beat_agent_key)
  moreover have "map fleet_key (upd_where (\<lambda>h. ho_agent_id h = a) (beat_host ul now rq) (d_hosts d)) = map fleet_key (d_hosts d)"
    by (simp add: map_upd_where)
  ultimately show ?thesis by (simp add: same_fleet_def upd_hosts_def)
qed

text \<open>The writes of a heartbeat, one after the other.\<close>

lemma AgentHeartbeat_steps:
  assumes "AgentHeartbeat ul au ext skew now stamp src agentID rq (cache, d) = (resp, cache', d')" and "agentID \<noteq> []"
  shows "\<exists>i hs d3 d4 c5 d5 d6.
    d3 = migrateLoopbackHostIP agentID src ((upd_hosts (\<lambda>h. ho_agent_id h = agentID) (beat_host ul now rq) d)
      \<lparr>d_agents := upd_where (\<lambda>r. ag_agent_id r = agentID) (beat_agent now rq i) (d_agents d)\<rparr>) \<and>
    (d4 = d3 \<or> d4 = snd (markSelfUpdateSuccess now stamp agentID hs d3)) \<and>
    auto_step au now stamp agentID (cache, d4) = (c5, d5) \<and>
    (d6 = d5 \<or> (\<exists>r. d6 = saveAgentTunnelCheck now agentID r d5)) \<and>
    (d' = d6 \<or> d' = upd_hosts (\<lambda>h. ho_agent_id h = agentID) (\<lambda>h. h\<lparr>ho_check_requested_at := None\<rparr>) d6)"
proof -
  define d1 where "d1 = upd_hosts (\<lambda>h. ho_agent_id h = agentID) (beat_host ul now rq) d"
  define i where "i = map_option ho_id (min_row ho_id (\<lambda>h. ho_agent_id h = agentID) (d_hosts d1))"
  define d2 where "d2 = d1\<lparr>d_agents := upd_where (\<lambda>r. ag_agent_id r = agentID) (beat_agent now rq i) (d_agents d1)\<rparr>"
  define d3 where "d3 = migrateLoopbackHostIP agentID src d2"
  obtain bv hs bvar where b: "normalizeAgentBuild (hb_build_version rq) (hb_build_hash rq) (hb_build_variant rq) = (bv, hs, bvar)"
    by (metis prod_cases3)
  define d4 where "d4 = (if hs \<noteq> [] then snd (markSelfUpdateSuccess now stamp agentID hs d3) else d3)"
  obtain c5 d5 where s: "auto_step au now stamp agentID (cache, d4) = (c5, d5)" by fastforce
  define d6 where "d6 = (case hb_check rq of None \<Rightarrow> d5 | Some c \<Rightarrow>
      if ck_url c \<noteq> [] then saveAgentTunnelCheck now agentID (protocolTunnelCheck c) d5 else d5)"
  have "d' = d6 \<or> d' = upd_hosts (\<lambda>h. ho_agent_id h = agentID) (\<lambda>h. h\<lparr>ho_check_requested_at := None\<rparr>) d6"
    using assms b s
    by (auto simp: AgentHeartbeat_def Let_def d1_def i_def d2_def d3_def d4_def d6_def split: if_splits)
  moreover have "d6 = d5 \<or> (\<exists>r. d6 = saveAgentTunnelCheck now agentID r d5)"
    by (auto simp: d6_def split: option.split)
  moreover have "d2 = (upd_hosts (\<lambda>h. ho_agent_id h = agentID) (beat_host ul now rq) d)
      \<lparr>d_agents := upd_where (\<lambda>r. ag_agent_id r = agentID) (beat_agent now rq i) (d_agents d)\<rparr>"
    by (simp add: d2_def d1_def upd_hosts_def)
  ultimately show ?thesis using s d3_def d4_def by metis
qed

text \<open>A heartbeat keeps hosts and agents consistent and writes no row of another agent or host, whatever it
  reports and whatever address it comes from.\<close>

theorem heartbeat_isolated:
  assumes "fleet_ok d" and "AgentHeartbeat ul au ext skew now stamp src agentID rq (cache, d) = (resp, cache', d')"
  shows "fleet_ok d' \<and> (\<forall>h\<in>set (d_hosts d). ho_agent_id h \<noteq> agentID \<longrightarrow> h \<in> set (d_hosts d')) \<and>
    (\<forall>a\<in>set (d_agents d). ag_agent_id a \<noteq> agentID \<longrightarrow> a \<in> set (d_agents d'))"
proof (cases "agentID = []")
  case True
  with assms show ?thesis by (simp add: AgentHeartbeat_def)
next
  case False
  from AgentHeartbeat_steps [OF assms(2) False] obtain i hs d3 d4 c5 d5 d6 where
    d3: "d3 = migrateLoopbackHostIP agentID src ((upd_hosts (\<lambda>h. ho_agent_id h = agentID) (beat_host ul now rq) d)
      \<lparr>d_agents := upd_where (\<lambda>r. ag_agent_id r = agentID) (beat_agent now rq i) (d_agents d)\<rparr>)"
    and d4: "d4 = d3 \<or> d4 = snd (markSelfUpdateSuccess now stamp agentID hs d3)"
    and s: "auto_step au now stamp agentID (cache, d4) = (c5, d5)"
    and d6: "d6 = d5 \<or> (\<exists>r. d6 = saveAgentTunnelCheck now agentID r d5)"
    and d': "d' = d6 \<or> d' = upd_hosts (\<lambda>h. ho_agent_id h = agentID) (\<lambda>h. h\<lparr>ho_check_requested_at := None\<rparr>) d6" by blast
  let ?d1 = "upd_hosts (\<lambda>h. ho_agent_id h = agentID) (beat_host ul now rq) d"
  let ?d2 = "?d1\<lparr>d_agents := upd_where (\<lambda>r. ag_agent_id r = agentID) (beat_agent now rq i) (d_agents ?d1)\<rparr>"
  have ag: "d_agents ?d1 = d_agents d" by (simp add: upd_hosts_def)
  have "own_rows agentID d ?d2" by (rule own_rows_trans [OF own_rows_hosts own_rows_agents]) auto
  then have o2: "own_rows agentID d (?d1\<lparr>d_agents := upd_where (\<lambda>r. ag_agent_id r = agentID) (beat_agent now rq i) (d_agents d)\<rparr>)"
    by (simp add: ag)
  note f2 = fleet_ok_same [OF heartbeat_d2 [OF assms(1)] assms(1)]
  have f3: "fleet_ok d3" and o3: "own_rows agentID d d3"
    using migrate_fleet [OF f2] own_rows_trans [OF o2 migrate_own] by (simp_all add: d3)
  have f4: "fleet_ok d4" and o4: "own_rows agentID d d4"
    using fleet_ok_same [OF mark_frame(1) f3] own_rows_trans [OF o3 mark_frame(2)] f3 o3 d4 by auto
  have f5: "fleet_ok d5" and o5: "own_rows agentID d d5"
    using fleet_ok_same [OF auto_step_frame(1) [OF s] f4] own_rows_trans [OF o4 auto_step_frame(2) [OF s]] by auto
  have "own_rows agentID d5 (saveAgentTunnelCheck now agentID r d5)" for r
    unfolding saveAgentTunnelCheck_def by (rule own_rows_hosts) auto
  then have f6: "fleet_ok d6" and o6: "own_rows agentID d d6"
    using fleet_ok_same [OF tunnel_checks_same(2) f5] own_rows_trans [OF o5] f5 o5 d6 by auto
  have "own_rows agentID d6 (upd_hosts (\<lambda>h. ho_agent_id h = agentID) (\<lambda>h. h\<lparr>ho_check_requested_at := None\<rparr>) d6)"
    by (rule own_rows_hosts) auto
  moreover have "same_fleet (upd_hosts (\<lambda>h. ho_agent_id h = agentID) (\<lambda>h. h\<lparr>ho_check_requested_at := None\<rparr>) d6) d6"
    by (rule same_fleet_hosts) simp
  ultimately have "fleet_ok d'" "own_rows agentID d d'"
    using d' f6 o6 fleet_ok_same own_rows_trans by blast+
  then show ?thesis using own_rows_host own_rows_agent by blast
qed

end
