(* ===== verification/HostJobs.thy ===== *)
theory HostJobs
imports HostSafety DeleteSafety
begin

text \<open>
  Deletion of hosts: nothing of a deleted host is left and nothing of another one is touched, deleting many is
  deleting one by one, and the background jobs that do it keep their accounts and end.
\<close>

section \<open>Deleting one host\<close>

lemma distinct_filter_key:
  "distinct (filter Q (map k xs)) \<Longrightarrow> x \<in> set xs \<Longrightarrow> y \<in> set xs \<Longrightarrow> Q (k x) \<Longrightarrow> k y = k x \<Longrightarrow> y = x"
  by (induction xs) (auto split: if_splits simp: image_iff)

text \<open>A command for a target of a task goes to the host of that target.\<close>

definition hosts_agree :: "db \<Rightarrow> bool" where
  "hosts_agree d = (\<forall>c\<in>set (d_cmds d). \<forall>t\<in>set (d_thosts d). cm_task_host_id c = Some (th_id t) \<longrightarrow> cm_host_id c = th_host_id t)"

lemma drop_host_agree:
  assumes "hosts_agree d"
  shows "drop_host h d = d\<lparr>d_agents := filter (\<lambda>a. \<not> (ag_host_id a = Some (ho_id h) \<or> ag_ip a = ho_ip h \<or> ag_agent_id a = ho_agent_id h)) (d_agents d),
    d_cmds := filter (\<lambda>c. cm_host_id c \<noteq> ho_id h) (d_cmds d), d_thosts := filter (\<lambda>t. th_host_id t \<noteq> ho_id h) (d_thosts d),
    d_hosts := filter (\<lambda>r. ho_id r \<noteq> ho_id h) (d_hosts d)\<rparr>"
proof -
  have "cm_host_id c = ho_id h" if "c \<in> set (d_cmds d)" "thost_of_host (ho_id h) d (cm_task_host_id c)" for c
    using assms that by (auto simp: hosts_agree_def thost_of_host_def exists_row_iff split: option.splits)
  then have "filter (\<lambda>c. \<not> (cm_host_id c = ho_id h \<or> thost_of_host (ho_id h) d (cm_task_host_id c))) (d_cmds d) =
      filter (\<lambda>c. cm_host_id c \<noteq> ho_id h) (d_cmds d)"
    by (intro filter_cong) auto
  then show ?thesis by (simp add: drop_host_def Let_def)
qed

lemma hosts_agree_drop: "hosts_agree d \<Longrightarrow> hosts_agree (drop_host h d)"
  by (auto simp: hosts_agree_def drop_host_def Let_def)

lemma deleteHost_Inr:
  "deleteHostTx sc i d = (Inr ip, d') \<longleftrightarrow>
     (\<exists>h. find (\<lambda>h. ho_id h = i \<and> scope_where sc (ho_tenant h)) (d_hosts d) = Some h \<and> \<not> host_busy i d \<and> ip = ho_ip h \<and> d' = drop_host h d)"
  by (auto simp: deleteHostTx_def split: option.splits)

lemma deleteHostTx_Inl: "deleteHostTx sc i d = (Inl e, d') \<Longrightarrow> d' = d"
  by (auto simp: deleteHostTx_def split: option.splits if_splits)

text \<open>C27: deleting a host, which only a scope that sees it can do and only while nothing is waiting or running
  for it, removes its row, its agent with the credential, its commands and its task targets; every other host,
  agent, target and every unfinished command stays as it was, and hosts and agents stay consistent.\<close>

theorem HostDelete_exact:
  assumes "fleet_ok d" and "hosts_agree d" and "HostDelete sc i d = (Inr ip, d')"
  shows "(\<exists>h\<in>set (d_hosts d). ho_id h = i \<and> ho_ip h = ip \<and> scope_where sc (ho_tenant h)) \<and> \<not> host_busy i d \<and> fleet_ok d' \<and>
    d_hosts d' = filter (\<lambda>h. ho_id h \<noteq> i) (d_hosts d) \<and> d_agents d' = filter (\<lambda>a. ag_host_id a \<noteq> Some i) (d_agents d) \<and>
    d_thosts d' = filter (\<lambda>t. th_host_id t \<noteq> i) (d_thosts d) \<and> d_cmds d' = filter (\<lambda>c. cm_host_id c \<noteq> i) (d_cmds d) \<and>
    filter (\<lambda>c. is_active (cm_status c)) (d_cmds d') = filter (\<lambda>c. is_active (cm_status c)) (d_cmds d)"
proof -
  from assms(3) obtain h where h: "find (\<lambda>h. ho_id h = i \<and> scope_where sc (ho_tenant h)) (d_hosts d) = Some h"
    and nb: "\<not> host_busy i d" and ip: "ip = ho_ip h" and d': "d' = drop_host h d"
    by (auto simp: HostDelete_def deleteHost_def deleteHost_Inr split: if_splits prod.splits sum.splits)
  from find_SomeD [OF h] have m: "h \<in> set (d_hosts d)" "ho_id h = i" "scope_where sc (ho_tenant h)" by auto
  have "(ag_host_id a = Some i \<or> ag_ip a = ho_ip h \<or> ag_agent_id a = ho_agent_id h) \<longleftrightarrow> ag_host_id a = Some i"
    if a: "a \<in> set (d_agents d)" for a
  proof -
    from a assms(1) obtain k where k: "k \<in> set (d_hosts d)" "ag_host_id a = Some (ho_id k)" "ag_ip a = ho_ip k"
      "ho_agent_id k = ag_agent_id a" "ag_agent_id a \<noteq> []" by (auto simp: fleet_ok_def)
    have "k = h" if "ho_ip k = ho_ip h"
      using assms(1) k(1) m(1) that by (auto simp: fleet_ok_def dest: distinct_key_eq)
    moreover have "k = h" if "ho_agent_id k = ho_agent_id h"
      using assms(1) k m(1) that distinct_filter_key [of "\<lambda>x. x \<noteq> []" ho_agent_id "d_hosts d" k h] by (auto simp: fleet_ok_def)
    ultimately show ?thesis using k m(2) by auto
  qed
  then have ag: "filter (\<lambda>a. \<not> (ag_host_id a = Some i \<or> ag_ip a = ho_ip h \<or> ag_agent_id a = ho_agent_id h)) (d_agents d) =
      filter (\<lambda>a. ag_host_id a \<noteq> Some i) (d_agents d)" by (intro filter_cong) auto
  have "filter (\<lambda>c. is_active (cm_status c)) (filter (\<lambda>c. cm_host_id c \<noteq> i) (d_cmds d)) = filter (\<lambda>c. is_active (cm_status c)) (d_cmds d)"
    using nb by (auto simp: host_busy_def exists_row_iff intro!: filter_cong)
  with m nb ip ag fleet_ok_drop [OF assms(1) m(1)] show ?thesis
    by (auto simp: d' drop_host_agree [OF assms(2)])
qed

section \<open>Deleting many hosts\<close>

text \<open>The answer for one host, read off the database as it was before anything was deleted.\<close>

definition host_verdict :: "scope \<Rightarrow> db \<Rightarrow> int \<Rightarrow> (string \<times> host_failure) option" where
  "host_verdict sc d i = (case fst (deleteHostTx sc i d) of Inl e \<Rightarrow> Some e | Inr ip \<Rightarrow> None)"

lemma host_verdict_after:
  assumes "hosts_agree d" "j \<noteq> ho_id h"
  shows "host_verdict sc (drop_host h d) j = host_verdict sc d j"
proof -
  have "find (\<lambda>r. ho_id r = j \<and> scope_where sc (ho_tenant r)) (d_hosts (drop_host h d)) =
      find (\<lambda>r. ho_id r = j \<and> scope_where sc (ho_tenant r)) (d_hosts d)"
    using assms(2) by (simp add: drop_host_agree [OF assms(1)]) (rule find_filter, auto)
  moreover have "host_busy j (drop_host h d) = host_busy j d"
    using assms(2) by (auto simp: drop_host_agree [OF assms(1)] host_busy_def exists_row_iff)
  ultimately show ?thesis by (auto simp: host_verdict_def deleteHostTx_def split: option.split)
qed

lemma host_verdict_cases:
  "host_verdict sc d i = None \<and> (\<exists>h. h \<in> set (d_hosts d) \<and> ho_id h = i \<and> deleteHostTx sc i d = (Inr (ho_ip h), drop_host h d)) \<or>
   (\<exists>e. host_verdict sc d i = Some e \<and> deleteHostTx sc i d = (Inl e, d))"
  by (auto simp: host_verdict_def deleteHostTx_def dest: find_SomeD split: option.split)

lemma delete_hosts_verdicts:
  assumes "distinct is" "hosts_agree d" "delete_hosts sc is d = (ok, bad, d')"
  shows "ok = filter (\<lambda>i. host_verdict sc d i = None) is \<and>
    bad = concat (map (\<lambda>i. case host_verdict sc d i of None \<Rightarrow> [] | Some (ip, f) \<Rightarrow> [(i, ip, f)]) is) \<and> hosts_agree d' \<and>
    d_hosts d' = filter (\<lambda>h. \<not> (ho_id h \<in> set is \<and> host_verdict sc d (ho_id h) = None)) (d_hosts d) \<and>
    d_hjobs d' = d_hjobs d \<and> d_next_hjob d' = d_next_hjob d"
  using assms
proof (induction "is" arbitrary: d ok bad)
  case (Cons i "is")
  from host_verdict_cases [of sc d i] show ?case
  proof (elim disjE exE conjE)
    fix h assume v: "host_verdict sc d i = None" and h: "h \<in> set (d_hosts d)" "ho_id h = i"
      and t: "deleteHostTx sc i d = (Inr (ho_ip h), drop_host h d)"
    from Cons.prems(3) obtain ok1 where r: "delete_hosts sc is (drop_host h d) = (ok1, bad, d')" and ok: "ok = i # ok1"
      by (auto simp: t split: prod.splits)
    have same: "host_verdict sc (drop_host h d) j = host_verdict sc d j" if "j \<in> set is" for j
      using Cons.prems(1,2) h(2) that by (intro host_verdict_after) auto
    have "filter (\<lambda>i. host_verdict sc (drop_host h d) i = None) is = filter (\<lambda>i. host_verdict sc d i = None) is"
      by (auto intro!: filter_cong simp: same)
    moreover have "concat (map (\<lambda>i. case host_verdict sc (drop_host h d) i of None \<Rightarrow> [] | Some (ip, f) \<Rightarrow> [(i, ip, f)]) is) =
        concat (map (\<lambda>i. case host_verdict sc d i of None \<Rightarrow> [] | Some (ip, f) \<Rightarrow> [(i, ip, f)]) is)"
      by (rule arg_cong [where f = concat], rule map_cong) (simp_all add: same)
    moreover have "filter (\<lambda>k. \<not> (ho_id k \<in> set is \<and> host_verdict sc (drop_host h d) (ho_id k) = None)) (d_hosts (drop_host h d)) =
        filter (\<lambda>k. \<not> (ho_id k \<in> set (i # is) \<and> host_verdict sc d (ho_id k) = None)) (d_hosts d)"
      using same v h(2) by (auto simp: drop_host_def Let_def intro!: filter_cong)
    moreover have "d_hjobs (drop_host h d) = d_hjobs d" "d_next_hjob (drop_host h d) = d_next_hjob d"
      by (simp_all add: drop_host_def Let_def)
    ultimately show ?thesis
      using Cons.IH [OF _ hosts_agree_drop [OF Cons.prems(2)] r] Cons.prems(1) v ok by auto
  next
    fix e assume v: "host_verdict sc d i = Some e" and t: "deleteHostTx sc i d = (Inl e, d)"
    from Cons.prems(3) obtain bad1 where r: "delete_hosts sc is d = (ok, bad1, d')" and b: "bad = (i, fst e, snd e) # bad1"
      by (auto simp: t split: prod.splits)
    from Cons.IH [OF _ Cons.prems(2) r] Cons.prems(1) v b show ?thesis
      by (auto split: prod.split intro!: filter_cong)
  qed
qed auto

lemma unique_positive_mem: "x \<in> set (unique_positive seen is) \<longleftrightarrow> x \<in> set is \<and> 0 < x \<and> x \<notin> set seen"
  by (induction "is" arbitrary: seen) (simp, auto)

lemma unique_positive_distinct: "distinct (unique_positive seen is)"
  by (induction "is" arbitrary: seen) (simp_all add: unique_positive_mem)

lemma unique_positive_length: "length (unique_positive seen is) \<le> length is"
  by (induction "is" arbitrary: seen) (simp_all add: le_SucI)

text \<open>Deleting many hosts at once is deleting each on its own: an id is reported deleted exactly when a single
  deletion of it would have succeeded, every other id is reported with the error a single deletion gives, and
  exactly the hosts reported deleted are gone, whatever the order of the ids and however often one is listed.\<close>

theorem HostBatchDelete_is_HostDelete:
  assumes "hosts_agree d" and "length ids \<le> live" and "HostBatchDelete live sc ids d = (Inr (ok, bad), d')"
  shows "set ok = {i \<in> set ids. \<exists>ip d1. HostDelete sc i d = (Inr ip, d1)} \<and>
    set bad = {(i, ip, Some f) | i ip f. i \<in> set ids \<and> 0 < i \<and> fst (HostDelete sc i d) = Inl (ip, f)} \<and>
    d_hosts d' = filter (\<lambda>h. ho_id h \<notin> set ok) (d_hosts d)"
proof -
  define us where "us = unique_positive [] ids"
  have us: "distinct us" "set us = {i \<in> set ids. 0 < i}" "length us \<le> live"
    using unique_positive_distinct [of "[]" ids] unique_positive_mem [of _ "[]" ids] unique_positive_length [of "[]" ids] assms(2)
    unfolding us_def by (auto simp del: unique_positive.simps)
  obtain ok1 bad1 d1 where del: "delete_hosts sc us d = (ok1, bad1, d1)" by (metis prod_cases3)
  have ob: "ok = ok1" "bad = map (\<lambda>(i, ip, f). (i, ip, Some f)) bad1" "d' = d1"
    using assms(3) us(3) del by (auto simp: HostBatchDelete_def Let_def us_def [symmetric] split: if_splits)
  note dv = delete_hosts_verdicts [OF us(1) assms(1) del]
  have one: "(\<exists>ip d1. HostDelete sc i d = (Inr ip, d1)) \<longleftrightarrow> 0 < i \<and> host_verdict sc d i = None" for i
    using host_verdict_cases [of sc d i] by (auto simp: HostDelete_def deleteHost_def)
  have err: "fst (HostDelete sc i d) = Inl (ip, f) \<longleftrightarrow> host_verdict sc d i = Some (ip, f)" if "0 < i" for i ip f
    using host_verdict_cases [of sc d i] that by (auto simp: HostDelete_def deleteHost_def)
  have ok: "set ok = {i \<in> set us. host_verdict sc d i = None}" using dv by (simp add: ob)
  have "set bad1 = {(i, ip, f). i \<in> set us \<and> host_verdict sc d i = Some (ip, f)}"
    using dv by (auto split: option.splits)
  then have "set bad = {(i, ip, Some f) | i ip f. i \<in> set us \<and> host_verdict sc d i = Some (ip, f)}"
    by (auto simp: ob image_iff)
  moreover have "d_hosts d' = filter (\<lambda>h. ho_id h \<notin> set ok) (d_hosts d)"
    using dv unfolding ok ob by (auto intro!: filter_cong)
  ultimately show ?thesis unfolding ok by (auto simp: one err us(2))
qed

section \<open>Background jobs\<close>

definition hjob_ok :: "host_job_row \<Rightarrow> bool" where
  "hjob_ok j = (distinct (hj_ids j) \<and> hj_total j = length (hj_ids j) \<and> hj_processed j \<le> length (hj_ids j) \<and>
     hj_deleted j + hj_failed_count j = hj_processed j \<and>
     length (hj_failed j) = min hostDeleteJobMaxFailures (hj_failed_count j) \<and>
     (hj_status j = ''done'' \<longrightarrow> hj_processed j = length (hj_ids j)) \<and>
     hj_status j \<in> set [''pending'', ''running'', ''done'', ''canceled''])"

definition hjob_owner :: "host_job_row \<Rightarrow> int \<times> string" where
  "hjob_owner j = (hj_tenant j, hj_created_by j)"

text \<open>The jobs of a database: accounts that add up, and one active job per tenant and creator.\<close>

definition hjobs_ok :: "db \<Rightarrow> bool" where
  "hjobs_ok d = table_ok hj_id hjob_active hjob_owner hjob_ok (d_next_hjob d) (d_hjobs d)"

lemma delete_hosts_count:
  "delete_hosts sc is d = (ok, bad, d') \<Longrightarrow>
     length ok + length bad = length is \<and> d_hjobs d' = d_hjobs d \<and> d_next_hjob d' = d_next_hjob d"
proof (induction "is" arbitrary: d ok bad)
  case (Cons i "is")
  obtain r d1 where t: "deleteHostTx sc i d = (r, d1)" by fastforce
  have "d_hjobs d1 = d_hjobs d \<and> d_next_hjob d1 = d_next_hjob d"
    using t by (auto simp: deleteHostTx_def drop_host_def Let_def split: option.splits if_splits)
  with Cons t show ?case by (cases r) (fastforce dest: deleteHostTx_Inl split: prod.splits)+
qed simp

lemma hjob_ok_advance:
  assumes "hjob_ok j" "hj_processed j \<le> stop" "stop \<le> length (hj_ids j)" "hjob_active j"
    and "deleted + length failed = stop - hj_processed j"
  shows "hjob_ok (advance_host_job now stop deleted failed j)"
  using assms by (auto simp: hjob_ok_def advance_host_job_def hjob_active_def min_def)

lemma hjob_ok_finish:
  "hjob_ok j \<Longrightarrow> s = ''canceled'' \<or> s = ''done'' \<and> hj_processed j = length (hj_ids j) \<Longrightarrow> hjob_ok (finish_host_job now s j)"
  by (auto simp: hjob_ok_def finish_host_job_def)

definition hjob_todo :: "host_job_row \<Rightarrow> nat" where
  "hjob_todo j = (if hjob_active j then 1 + (length (hj_ids j) - hj_processed j) else 0)"

definition hjobs_todo :: "db \<Rightarrow> nat" where
  "hjobs_todo d = sum_list (map hjob_todo (d_hjobs d))"

lemma hjobs_todo_0: "hjobs_todo d = 0 \<longleftrightarrow> (\<forall>j\<in>set (d_hjobs d). \<not> hjob_active j)"
  by (auto simp: hjobs_todo_def hjob_todo_def)

text \<open>What one round does: nothing, or one step of one active job.\<close>

definition hjob_step :: "host_job_row \<Rightarrow> (host_job_row \<Rightarrow> host_job_row) \<Rightarrow> bool" where
  "hjob_step j f = (hjob_ok (f j) \<and> hjob_todo (f j) < hjob_todo j \<and> (\<forall>r. hj_id (f r) = hj_id r \<and> hjob_owner (f r) = hjob_owner r))"

lemma host_round_cases:
  assumes "hjobs_ok d"
  shows "runHostDeleteJobOnce locked fault now d = (if fault then (Inl HostNoData, d) else (Inr False, d)) \<and>
      (\<not> fault \<longrightarrow> (\<forall>j\<in>set (d_hjobs d). hjob_active j \<longrightarrow> locked (hj_id j))) \<or>
    (\<exists>j f d1. j \<in> set (d_hjobs d) \<and> hjob_active j \<and> hjob_step j f \<and> d_hjobs d1 = d_hjobs d \<and> d_next_hjob d1 = d_next_hjob d \<and>
      runHostDeleteJobOnce locked fault now d =
        (Inr True, d1\<lparr>d_hjobs := upd_where (\<lambda>r. hj_id r = hj_id j) f (d_hjobs d)\<rparr>))"
proof (cases "fault \<or> min_row hj_id (\<lambda>j. hjob_active j \<and> \<not> locked (hj_id j)) (d_hjobs d) = None")
  case True
  show ?thesis
  proof (cases fault)
    case False
    with True have n: "min_row hj_id (\<lambda>j. hjob_active j \<and> \<not> locked (hj_id j)) (d_hjobs d) = None" by simp
    then have "\<forall>j\<in>set (d_hjobs d). hjob_active j \<longrightarrow> locked (hj_id j)" by (auto simp: min_row_None)
    with n False show ?thesis by (intro disjI1) (simp add: runHostDeleteJobOnce_def)
  qed (simp add: runHostDeleteJobOnce_def)
next
  case False
  then obtain j where m: "min_row hj_id (\<lambda>j. hjob_active j \<and> \<not> locked (hj_id j)) (d_hjobs d) = Some j" and nf: "\<not> fault" by auto
  from min_row_Some [OF m] have j: "j \<in> set (d_hjobs d)" "hjob_active j" by auto
  with assms have ok: "hjob_ok j" by (simp add: hjobs_ok_def table_ok_def)
  show ?thesis
  proof (cases "hj_cancel_requested j \<or> hj_processed j \<ge> length (hj_ids j)")
    case True
    let ?s = "if hj_cancel_requested j \<and> hj_processed j < length (hj_ids j) then ''canceled'' else ''done''"
    have "hjob_ok (finish_host_job now ?s j)" using ok True by (intro hjob_ok_finish) (auto simp: hjob_ok_def)
    moreover have "\<not> hjob_active (finish_host_job now ?s j)" by (simp add: hjob_active_def finish_host_job_def)
    ultimately have "hjob_step j (finish_host_job now ?s)"
      using j(2) by (simp add: hjob_step_def hjob_todo_def finish_host_job_def hjob_owner_def)
    with True m nf j show ?thesis by (intro disjI2 exI [of _ j] exI [of _ "finish_host_job now ?s"] exI [of _ d])
      (simp add: runHostDeleteJobOnce_def Let_def)
  next
    case False
    define stop where "stop = min (hj_processed j + hostDeleteJobChunk) (length (hj_ids j))"
    define chunk where "chunk = take (stop - hj_processed j) (drop (hj_processed j) (hj_ids j))"
    obtain okl bad d1 where c: "delete_hosts (scope_new (hj_tenant j) (hj_cross j)) chunk d = (okl, bad, d1)"
      by (metis prod_cases3)
    have s: "hj_processed j < stop" "stop \<le> length (hj_ids j)" using False by (auto simp: stop_def hostDeleteJobChunk_def)
    then have "length chunk = stop - hj_processed j" by (simp add: chunk_def)
    with delete_hosts_count [OF c] have n: "length okl + length bad = stop - hj_processed j"
      and d1: "d_hjobs d1 = d_hjobs d" "d_next_hjob d1 = d_next_hjob d" by auto
    let ?f = "advance_host_job now stop (length okl) bad"
    have "hjob_ok (?f j)" using hjob_ok_advance [OF ok _ s(2) j(2) n] s(1) by simp
    moreover have "hjob_todo (?f j) < hjob_todo j"
      using s j(2) by (auto simp: hjob_todo_def advance_host_job_def hjob_active_def)
    ultimately have "hjob_step j ?f" by (simp add: hjob_step_def advance_host_job_def hjob_owner_def)
    moreover have "runHostDeleteJobOnce locked fault now d = (Inr True, d1\<lparr>d_hjobs := upd_where (\<lambda>r. hj_id r = hj_id j) ?f (d_hjobs d)\<rparr>)"
      using False m nf c d1 by (simp add: runHostDeleteJobOnce_def Let_def stop_def chunk_def)
    ultimately show ?thesis using j d1 by blast
  qed
qed

lemma host_round_ok:
  assumes "hjobs_ok d"
  shows "hjobs_ok (snd (runHostDeleteJobOnce locked fault now d))"
  using host_round_cases [OF assms, of locked fault now]
proof (elim disjE exE conjE)
  fix j f d1 assume j: "j \<in> set (d_hjobs d)" "hjob_active j" "hjob_step j f" and n: "d_next_hjob d1 = d_next_hjob d"
    and r: "runHostDeleteJobOnce locked fault now d = (Inr True, d1\<lparr>d_hjobs := upd_where (\<lambda>r. hj_id r = hj_id j) f (d_hjobs d)\<rparr>)"
  have "table_ok hj_id hjob_active hjob_owner hjob_ok (d_next_hjob d) (upd_where (\<lambda>r. hj_id r = hj_id j) f (d_hjobs d))"
    by (rule table_ok_upd) (use assms j in \<open>auto simp: hjobs_ok_def hjob_step_def\<close>)
  then show ?thesis by (simp add: r n hjobs_ok_def)
qed (use assms in \<open>auto split: if_splits\<close>)

lemma host_round_less:
  assumes "hjobs_ok d" "fst (runHostDeleteJobOnce locked fault now d) = Inr True"
  shows "hjobs_todo (snd (runHostDeleteJobOnce locked fault now d)) < hjobs_todo d"
  using host_round_cases [OF assms(1), of locked fault now]
proof (elim disjE exE conjE)
  fix j f d1 assume j: "j \<in> set (d_hjobs d)" "hjob_step j f"
    and r: "runHostDeleteJobOnce locked fault now d = (Inr True, d1\<lparr>d_hjobs := upd_where (\<lambda>r. hj_id r = hj_id j) f (d_hjobs d)\<rparr>)"
  have "sum_list (map hjob_todo (upd_where (\<lambda>r. hj_id r = hj_id j) f (d_hjobs d))) < sum_list (map hjob_todo (d_hjobs d))"
    by (rule sum_upd_one [where f = f]) (use assms(1) j in \<open>auto simp: hjobs_ok_def table_ok_def hjob_step_def\<close>)
  then show ?thesis by (simp add: r hjobs_todo_def)
qed (use assms(2) in \<open>auto split: if_splits\<close>)

lemma HostDeleteJobCreate_ok:
  assumes "hjobs_ok d"
  shows "hjobs_ok (snd (HostDeleteJobCreate sc u a ip now ids d))"
proof -
  define us where "us = sort (unique_positive [] ids)"
  define job where "job = new_host_job sc u a ip now us (d_next_hjob d)"
  have skip: "hjobs_ok (d\<lparr>d_next_hjob := d_next_hjob d + 1\<rparr>)"
    using assms by (auto simp: hjobs_ok_def table_ok_def)
  have "hjobs_ok (d\<lparr>d_next_hjob := d_next_hjob d + 1, d_hjobs := d_hjobs d @ [job]\<rparr>)"
    if "\<not> exists_row (\<lambda>j. hj_tenant j = hj_tenant job \<and> hj_created_by j = u \<and> hjob_active j) (d_hjobs d)"
  proof -
    have "hjob_ok job" using unique_positive_distinct [of "[]" ids]
      by (simp add: job_def new_host_job_def hjob_ok_def us_def hostDeleteJobMaxFailures_def)
    moreover have "\<not> exists_row (\<lambda>r. hjob_owner r = hjob_owner job \<and> hjob_active r) (d_hjobs d)"
      using that by (auto simp: exists_row_iff hjob_owner_def job_def new_host_job_def)
    ultimately have "table_ok hj_id hjob_active hjob_owner hjob_ok (d_next_hjob d + 1) (d_hjobs d @ [job])"
      using assms by (intro table_ok_append) (simp_all add: hjobs_ok_def job_def new_host_job_def)
    then show ?thesis by (simp add: hjobs_ok_def)
  qed
  with assms skip show ?thesis
    by (auto simp: HostDeleteJobCreate_def Let_def us_def job_def split: option.split)
qed

lemma HostDeleteJobCancel_ok:
  assumes "hjobs_ok d"
  shows "hjobs_ok (snd (HostDeleteJobCancel sc u i d))"
proof -
  have "table_ok hj_id hjob_active hjob_owner hjob_ok (d_next_hjob d) (upd_where P (\<lambda>j. j\<lparr>hj_cancel_requested := True\<rparr>) (d_hjobs d))" for P
    by (rule table_ok_note) (use assms in \<open>simp_all add: hjobs_ok_def hjob_owner_def hjob_active_def hjob_ok_def\<close>)
  then show ?thesis by (simp add: HostDeleteJobCancel_def Let_def hjobs_ok_def split: option.split)
qed

lemma purge_host_jobs_ok: "hjobs_ok d \<Longrightarrow> hjobs_ok (purge_host_jobs now d)"
  by (simp add: hjobs_ok_def purge_host_jobs_def table_ok_filter)

text \<open>One round for each clock; a round may be aborted by a failing statement (its flag).\<close>

definition host_rounds :: "(time \<times> bool) list \<Rightarrow> db \<Rightarrow> db" where
  "host_rounds es d = fold (\<lambda>e d. snd (runHostDeleteJobOnce (\<lambda>i. False) (snd e) (fst e) d)) es d"

interpretation host_jobs: work_queue hjobs_ok hjobs_todo snd
    "\<lambda>e d. (fst (runHostDeleteJobOnce (\<lambda>i. False) (snd e) (fst e) d) = Inr True, snd (runHostDeleteJobOnce (\<lambda>i. False) (snd e) (fst e) d))"
proof unfold_locales
  fix d :: db and e :: "time \<times> bool"
  let ?r = "runHostDeleteJobOnce (\<lambda>i. False) (snd e) (fst e) d"
  show "hjobs_ok (snd (fst ?r = Inr True, snd ?r))" if "hjobs_ok d" using host_round_ok [OF that] by simp
  show "snd (fst ?r = Inr True, snd ?r) = d" if "snd e" using that by (simp add: runHostDeleteJobOnce_def)
  show "hjobs_todo (snd (fst ?r = Inr True, snd ?r)) < hjobs_todo d" if "hjobs_ok d" "fst (fst ?r = Inr True, snd ?r)"
    using host_round_less [OF that(1)] that(2) by simp
  show "hjobs_todo (snd (fst ?r = Inr True, snd ?r)) = 0"
    if "hjobs_ok d" "\<not> snd e" "\<not> fst (fst ?r = Inr True, snd ?r)"
    using host_round_cases [OF that(1), of "\<lambda>i. False" "snd e" "fst e"] that(2,3) by (auto simp: hjobs_todo_0)
qed

text \<open>Deletion jobs for hosts end with accounts that add up: once the worker has made as many rounds that are
  not aborted as there are unprocessed ids and active jobs, however many were aborted in between, every job is
  canceled or has counted each of its hosts once, as deleted or as failed.\<close>

theorem host_delete_jobs_end:
  assumes "hjobs_ok d" and "hjobs_todo d \<le> length (filter (\<lambda>e. \<not> snd e) es)"
    and "j \<in> set (d_hjobs (host_rounds es d))"
  shows "hj_status j = ''canceled'' \<or>
    hj_status j = ''done'' \<and> hj_deleted j + hj_failed_count j = length (hj_ids j)"
proof -
  from host_jobs.all_done [OF assms(1,2)]
  have "hjobs_ok (host_rounds es d)" "hjobs_todo (host_rounds es d) = 0" by (simp_all add: host_rounds_def)
  with assms(3) have "hjob_ok j" "\<not> hjob_active j" by (auto simp: hjobs_ok_def table_ok_def hjobs_todo_0)
  then show ?thesis by (auto simp: hjob_ok_def hjob_active_def)
qed

text \<open>Whatever is created, canceled, run and purged, a creator has at most one active deletion job in a
  tenant, a job counts every id it handled once and keeps the details of at most 200 failures.\<close>

theorem host_jobs_sound:
  assumes "hjobs_ok d"
  shows "hjobs_ok (snd (HostDeleteJobCreate sc u a ip now ids d)) \<and> hjobs_ok (snd (HostDeleteJobCancel sc u i d)) \<and>
    hjobs_ok (snd (runHostDeleteJobOnce locked fault now d)) \<and> hjobs_ok (purge_host_jobs now d)"
  using HostDeleteJobCreate_ok [OF assms] HostDeleteJobCancel_ok [OF assms] host_round_ok [OF assms]
    purge_host_jobs_ok [OF assms] by blast

end
