(* ===== verification/Lifecycle.thy ===== *)
theory Lifecycle
imports HostJobs ArtifactSafety CreateSafety ReapSafety
begin

text \<open>
  The database as a whole. Every transaction of the server - the requests of agents, the rounds of the
  orchestrator, what users do with tasks, components and hosts, enrolment, background jobs - keeps one
  invariant: the keys, the foreign keys, at most one active command for a target, hosts and agents that
  belong together, and jobs whose accounts add up.
\<close>

section \<open>The invariant\<close>

definition cmd_ref :: "command_row \<Rightarrow> int option \<times> int option \<times> int" where
  "cmd_ref c = (cm_task_host_id c, cm_task_id c, cm_host_id c)"

definition thost_ref :: "task_host_row \<Rightarrow> int \<times> int \<times> int" where
  "thost_ref t = (th_id t, th_task_id t, th_host_id t)"

text \<open>The foreign keys: a command for a target belongs to its task and host, and what a row names exists.\<close>

definition cmd_ok :: "db \<Rightarrow> command_row \<Rightarrow> bool" where
  "cmd_ok d c = (cm_host_id c \<in> ho_id ` set (d_hosts d) \<and> (\<forall>i. cm_task_id c = Some i \<longrightarrow> i \<in> tk_id ` set (d_tasks d)) \<and>
     (\<forall>x. cm_task_host_id c = Some x \<longrightarrow>
        (\<exists>t\<in>set (d_thosts d). th_id t = x \<and> cm_task_id c = Some (th_task_id t) \<and> cm_host_id c = th_host_id t)))"

definition refs_ok :: "db \<Rightarrow> bool" where
  "refs_ok d =
    ((\<forall>c\<in>set (d_cmds d). cmd_ok d c) \<and>
     (\<forall>t\<in>set (d_thosts d). th_task_id t \<in> tk_id ` set (d_tasks d) \<and> th_host_id t \<in> ho_id ` set (d_hosts d)) \<and>
     (\<forall>b\<in>set (d_batches d). tb_task_id b \<in> tk_id ` set (d_tasks d)))"

text \<open>A task has a host once.\<close>

definition thost_uq :: "db \<Rightarrow> bool" where
  "thost_uq d = distinct (map (\<lambda>t. (th_task_id t, th_host_id t)) (d_thosts d))"

text \<open>Components have one number and one name, artifacts one number and one identity, and the component that an
  artifact or a task names exists.\<close>

definition store_ok :: "db \<Rightarrow> bool" where
  "store_ok d =
    (distinct (map cp_id (d_comps d)) \<and> (\<forall>c\<in>set (d_comps d). cp_id c < d_next_comp d) \<and> distinct (map cp_name (d_comps d)) \<and>
     distinct (map af_id (d_arts d)) \<and> (\<forall>a\<in>set (d_arts d). af_id a < d_next_art d) \<and> uq_identity d \<and>
     (\<forall>a\<in>set (d_arts d). af_component_id a \<in> cp_id ` set (d_comps d)) \<and>
     (\<forall>t\<in>set (d_tasks d). \<forall>i. tk_component_id t = Some i \<longrightarrow> i \<in> cp_id ` set (d_comps d)))"

definition wf_db :: "db \<Rightarrow> bool" where
  "wf_db d = (integrity d \<and> thost_uq d \<and> refs_ok d \<and> store_ok d \<and> fleet_ok d \<and> jobs_ok d \<and> hjobs_ok d)"

lemma refs_ok_hosts: "refs_ok d \<Longrightarrow> thost_keys d \<Longrightarrow> hosts_agree d"
  by (fastforce simp: refs_ok_def cmd_ok_def hosts_agree_def thost_keys_def dest: distinct_key_eq)

lemma refs_ok_agree: "refs_ok d \<Longrightarrow> thost_keys d \<Longrightarrow> refs_agree d"
  by (fastforce simp: refs_ok_def cmd_ok_def refs_agree_def thost_keys_def dest: distinct_key_eq)

lemma refs_ok_below: "refs_ok d \<Longrightarrow> task_keys d \<Longrightarrow> refs_below d"
  by (fastforce simp: refs_ok_def cmd_ok_def refs_below_def task_keys_def list_all_iff)

lemma refs_ok_host_refs: "refs_ok d \<Longrightarrow> host_refs d"
  by (fastforce simp: refs_ok_def cmd_ok_def host_refs_def list_all_iff exists_row_iff split: option.split)

text \<open>What the invariant says beyond the keys depends on few columns.\<close>

definition task_ref :: "task_row \<Rightarrow> int \<times> int option" where
  "task_ref t = (tk_id t, tk_component_id t)"

definition same_jobs :: "db \<Rightarrow> db \<Rightarrow> bool" where
  "same_jobs d' d = (d_jobs d' = d_jobs d \<and> d_next_job d' = d_next_job d \<and> d_hjobs d' = d_hjobs d \<and> d_next_hjob d' = d_next_hjob d \<and>
     d_comps d' = d_comps d \<and> d_arts d' = d_arts d \<and> d_next_comp d' = d_next_comp d \<and> d_next_art d' = d_next_art d)"

definition quiet :: "db \<Rightarrow> db \<Rightarrow> bool" where
  "quiet d' d = (map cmd_ref (d_cmds d') = map cmd_ref (d_cmds d) \<and> map thost_ref (d_thosts d') = map thost_ref (d_thosts d) \<and>
     map tb_task_id (d_batches d') = map tb_task_id (d_batches d) \<and> map task_ref (d_tasks d') = map task_ref (d_tasks d) \<and>
     same_fleet d' d \<and> same_jobs d' d)"

lemma quiet_refl [simp]: "quiet d d"
  by (simp add: quiet_def same_jobs_def)

lemma quiet_trans: "quiet d'' d' \<Longrightarrow> quiet d' d \<Longrightarrow> quiet d'' d"
  unfolding quiet_def same_jobs_def using same_fleet_trans by metis

lemma same_fleet_ids: "same_fleet d' d \<Longrightarrow> ho_id ` set (d_hosts d') = ho_id ` set (d_hosts d)"
proof -
  assume "same_fleet d' d"
  then have "map fleet_key (d_hosts d') = map fleet_key (d_hosts d)" by (simp add: same_fleet_def)
  then have "map ho_id (d_hosts d') = map ho_id (d_hosts d)" by (rule map_key [where g = fst]) (simp add: fleet_key_def)
  then show ?thesis by (metis list.set_map)
qed

lemma task_ref_writes [simp]:
  "task_ref (set_task_status actor now s t) = task_ref t" "task_ref (touch_task now s t) = task_ref t"
  by (simp_all add: task_ref_def set_task_status_def touch_task_def)

lemma task_ref_ids: "map task_ref ts = map task_ref ts' \<Longrightarrow> map tk_id ts = map tk_id ts'"
  by (erule map_key [where g = fst]) (simp add: task_ref_def)

lemma map_eq_image: "map f xs = map f ys \<Longrightarrow> f ` set xs = f ` set ys"
  by (metis list.set_map)

lemma cmd_ok_keep:
  assumes "map thost_ref (d_thosts d') = map thost_ref (d_thosts d)" "map tk_id (d_tasks d') = map tk_id (d_tasks d)"
    "ho_id ` set (d_hosts d) \<subseteq> ho_id ` set (d_hosts d')" "cmd_ref c' = cmd_ref c" "cmd_ok d c"
  shows "cmd_ok d' c'"
proof -
  have same: "cm_task_host_id c' = cm_task_host_id c" "cm_task_id c' = cm_task_id c" "cm_host_id c' = cm_host_id c"
    using assms(4) by (simp_all add: cmd_ref_def)
  have "\<exists>t\<in>set (d_thosts d'). th_id t = x \<and> cm_task_id c' = Some (th_task_id t) \<and> cm_host_id c' = th_host_id t"
    if x: "cm_task_host_id c' = Some x" for x
  proof -
    from assms(5) x same obtain t0 where t0: "t0 \<in> set (d_thosts d)" "th_id t0 = x" "cm_task_id c = Some (th_task_id t0)"
      "cm_host_id c = th_host_id t0" by (auto simp: cmd_ok_def)
    from map_key_mem [OF assms(1) [symmetric] t0(1)] obtain t1 where "t1 \<in> set (d_thosts d')" "thost_ref t1 = thost_ref t0" by auto
    with t0 same show ?thesis by (intro bexI [of _ t1]) (auto simp: thost_ref_def)
  qed
  moreover have "i \<in> tk_id ` set (d_tasks d')" if "cm_task_id c' = Some i" for i
    using that assms(5) same unfolding map_eq_image [OF assms(2)] by (simp add: cmd_ok_def)
  moreover have "cm_host_id c' \<in> ho_id ` set (d_hosts d')"
    using assms(3,5) same unfolding cmd_ok_def by auto
  ultimately show ?thesis by (simp add: cmd_ok_def)
qed

lemma refs_ok_quiet:
  assumes "quiet d' d" "refs_ok d"
  shows "refs_ok d'"
proof -
  from assms(1) have k: "map cmd_ref (d_cmds d') = map cmd_ref (d_cmds d)" "map thost_ref (d_thosts d') = map thost_ref (d_thosts d)"
    and m: "map tb_task_id (d_batches d') = map tb_task_id (d_batches d)" "map tk_id (d_tasks d') = map tk_id (d_tasks d)" "same_fleet d' d"
    unfolding quiet_def using task_ref_ids by blast+
  note b = map_eq_image [OF m(1)] and t = map_eq_image [OF m(2)] and h = same_fleet_ids [OF m(3)]
  have "cmd_ok d' c" if c: "c \<in> set (d_cmds d')" for c
  proof -
    from map_key_mem [OF k(1) c] obtain c0 where c0: "c0 \<in> set (d_cmds d)" "cmd_ref c0 = cmd_ref c" by auto
    with assms(2) have "cmd_ok d c0" by (simp add: refs_ok_def)
    then show ?thesis by (rule cmd_ok_keep [OF k(2) m(2) eq_refl [OF h [symmetric]] c0(2) [symmetric]])
  qed
  moreover have "th_task_id r \<in> tk_id ` set (d_tasks d') \<and> th_host_id r \<in> ho_id ` set (d_hosts d')" if r: "r \<in> set (d_thosts d')" for r
  proof -
    from map_key_mem [OF k(2) r] obtain r0 where r0: "r0 \<in> set (d_thosts d)" "thost_ref r0 = thost_ref r" by auto
    with assms(2) have "th_task_id r0 \<in> tk_id ` set (d_tasks d) \<and> th_host_id r0 \<in> ho_id ` set (d_hosts d)" by (simp add: refs_ok_def)
    with r0(2) show ?thesis unfolding t h by (simp add: thost_ref_def)
  qed
  moreover have "tb_task_id r \<in> tk_id ` set (d_tasks d')" if "r \<in> set (d_batches d')" for r
  proof -
    from that have "tb_task_id r \<in> tb_task_id ` set (d_batches d)" unfolding b [symmetric] by (rule imageI)
    with assms(2) show ?thesis unfolding t by (auto simp: refs_ok_def)
  qed
  ultimately show ?thesis unfolding refs_ok_def by blast
qed

lemma jobs_same: "same_jobs d' d \<Longrightarrow> jobs_ok d = jobs_ok d'" "same_jobs d' d \<Longrightarrow> hjobs_ok d = hjobs_ok d'"
  by (simp_all add: same_jobs_def jobs_ok_def hjobs_ok_def)

lemma thost_uq_same:
  assumes "map thost_ref (d_thosts d') = map thost_ref (d_thosts d)" "thost_uq d"
  shows "thost_uq d'"
proof -
  have "map (\<lambda>t. (th_task_id t, th_host_id t)) (d_thosts d') = map (\<lambda>t. (th_task_id t, th_host_id t)) (d_thosts d)"
    by (rule map_key [OF assms(1), where g = snd]) (simp add: thost_ref_def)
  with assms(2) show ?thesis by (simp add: thost_uq_def)
qed

lemma store_ok_tasks:
  assumes "store_ok d" "d_comps d' = d_comps d" "d_arts d' = d_arts d" "d_next_comp d' = d_next_comp d" "d_next_art d' = d_next_art d"
    and "tk_component_id ` set (d_tasks d') \<subseteq> tk_component_id ` set (d_tasks d)"
  shows "store_ok d'"
proof -
  have "i \<in> cp_id ` set (d_comps d)" if "t \<in> set (d_tasks d')" "tk_component_id t = Some i" for t i
  proof -
    from that assms(6) have "Some i \<in> tk_component_id ` set (d_tasks d)" by force
    with assms(1) show ?thesis by (auto simp: store_ok_def)
  qed
  then have "\<forall>t\<in>set (d_tasks d'). \<forall>i. tk_component_id t = Some i \<longrightarrow> i \<in> cp_id ` set (d_comps d')" unfolding assms(2) by blast
  with assms(1) show ?thesis by (simp add: store_ok_def uq_identity_def assms(2-5))
qed

lemma store_ok_same:
  assumes "same_jobs d' d" "map task_ref (d_tasks d') = map task_ref (d_tasks d)" "store_ok d"
  shows "store_ok d'"
proof -
  have "map tk_component_id (d_tasks d') = map tk_component_id (d_tasks d)"
    by (rule map_key [OF assms(2), where g = snd]) (simp add: task_ref_def)
  from map_eq_image [OF this] have "tk_component_id ` set (d_tasks d') \<subseteq> tk_component_id ` set (d_tasks d)" by blast
  moreover have "d_comps d' = d_comps d" "d_arts d' = d_arts d" "d_next_comp d' = d_next_comp d" "d_next_art d' = d_next_art d"
    using assms(1) unfolding same_jobs_def by blast+
  ultimately show ?thesis using assms(3) store_ok_tasks by blast
qed

lemma wf_quiet: "wf_db d \<Longrightarrow> quiet d' d \<Longrightarrow> integrity d' \<Longrightarrow> wf_db d'"
  unfolding wf_db_def using refs_ok_quiet [of d' d] fleet_ok_same [of d' d] jobs_same [of d' d] thost_uq_same [of d' d] store_ok_same [of d' d]
  by (auto simp: quiet_def)

section \<open>Quiet operations\<close>

lemma cmds_ref: "list_all2 cmd_evolves cs cs' \<Longrightarrow> map cmd_ref cs' = map cmd_ref cs"
  by (erule list_all2_map_eq [rotated]) (simp add: cmd_evolves_def cmd_ref_def)

lemma thosts_ref: "list_all2 thost_evolves ts ts' \<Longrightarrow> map thost_ref ts' = map thost_ref ts"
  by (erule list_all2_map_eq [rotated]) (simp add: thost_evolves_def thost_ref_def)

lemma row_step_quiet:
  assumes "row_step d d'" "cmd_keys d" "same_fleet d' d" "same_jobs d' d"
  shows "quiet d' d"
  using assms by (simp add: row_step_def row_frame_def quiet_def cmds_ref thosts_ref)

lemma same_jobs_refl [simp]: "same_jobs d d"
  by (simp add: same_jobs_def)

lemma same_jobs_trans: "same_jobs d'' d' \<Longrightarrow> same_jobs d' d \<Longrightarrow> same_jobs d'' d"
  by (simp add: same_jobs_def)

lemma same_jobs_frame [simp]:
  "same_jobs (d\<lparr>d_tasks := xt\<rparr>) d0 = same_jobs d d0" "same_jobs (d\<lparr>d_batches := xb\<rparr>) d0 = same_jobs d d0"
  "same_jobs (d\<lparr>d_thosts := xh\<rparr>) d0 = same_jobs d d0" "same_jobs (d\<lparr>d_cmds := xc\<rparr>) d0 = same_jobs d d0"
  "same_jobs (d\<lparr>d_hosts := xo\<rparr>) d0 = same_jobs d d0" "same_jobs (d\<lparr>d_agents := xa\<rparr>) d0 = same_jobs d d0"
  "same_jobs (d\<lparr>d_tokens := xe\<rparr>) d0 = same_jobs d d0" "same_jobs (d\<lparr>d_next_cmd := n1\<rparr>) d0 = same_jobs d d0"
  "same_jobs (d\<lparr>d_next_host := n2\<rparr>) d0 = same_jobs d d0" "same_jobs (d\<lparr>d_next_token := n3\<rparr>) d0 = same_jobs d d0"
  "same_jobs (d\<lparr>d_next_task := n4\<rparr>) d0 = same_jobs d d0" "same_jobs (d\<lparr>d_next_thost := n5\<rparr>) d0 = same_jobs d d0"
  by (simp_all add: same_jobs_def)

lemma same_fleet_frame2 [simp]:
  "same_fleet (d\<lparr>d_comps := xp\<rparr>) d0 = same_fleet d d0" "same_fleet (d\<lparr>d_arts := xq\<rparr>) d0 = same_fleet d d0"
  "same_fleet (d\<lparr>d_next_task := n4\<rparr>) d0 = same_fleet d d0" "same_fleet (d\<lparr>d_next_thost := n5\<rparr>) d0 = same_fleet d d0"
  "same_fleet (d\<lparr>d_next_comp := n6\<rparr>) d0 = same_fleet d d0" "same_fleet (d\<lparr>d_next_art := n7\<rparr>) d0 = same_fleet d d0"
  "same_fleet (d\<lparr>d_next_job := n8\<rparr>) d0 = same_fleet d d0"
  by (simp_all add: same_fleet_def)

text \<open>Neither hosts, agents nor jobs: what most of a handler's writes have in common.\<close>

definition aside :: "db \<Rightarrow> db \<Rightarrow> bool" where
  "aside d' d = (same_fleet d' d \<and> same_jobs d' d)"

lemma aside_refl [simp]: "aside d d"
  by (simp add: aside_def)

lemma aside_trans: "aside d'' d' \<Longrightarrow> aside d' d \<Longrightarrow> aside d'' d"
  unfolding aside_def using same_fleet_trans same_jobs_trans by blast

lemma aside_frame [simp]:
  "aside (d\<lparr>d_tasks := xt\<rparr>) d0 = aside d d0" "aside (d\<lparr>d_batches := xb\<rparr>) d0 = aside d d0"
  "aside (d\<lparr>d_thosts := xh\<rparr>) d0 = aside d d0" "aside (d\<lparr>d_cmds := xc\<rparr>) d0 = aside d d0"
  "aside (d\<lparr>d_tokens := xe\<rparr>) d0 = aside d d0" "aside (d\<lparr>d_next_cmd := n1\<rparr>) d0 = aside d d0"
  "aside (d\<lparr>d_next_task := n4\<rparr>) d0 = aside d d0" "aside (d\<lparr>d_next_thost := n5\<rparr>) d0 = aside d d0"
  "aside (d\<lparr>d_next_token := n3\<rparr>) d0 = aside d d0"
  by (simp_all add: aside_def)

lemma aside_hosts: "(\<And>h. P h \<Longrightarrow> fleet_key (f h) = fleet_key h) \<Longrightarrow> aside d d0 \<Longrightarrow> aside (d\<lparr>d_hosts := upd_where P f (d_hosts d)\<rparr>) d0"
proof -
  assume k: "\<And>h. P h \<Longrightarrow> fleet_key (f h) = fleet_key h" and a: "aside d d0"
  have "aside (d\<lparr>d_hosts := upd_where P f (d_hosts d)\<rparr>) d"
    using same_fleet_hosts [of P f d] k by (simp add: aside_def upd_hosts_def)
  with a show ?thesis by (rule aside_trans [rotated])
qed

lemma aside_agents: "(\<And>a. P a \<Longrightarrow> agent_key (f a) = agent_key a) \<Longrightarrow> aside d d0 \<Longrightarrow> aside (d\<lparr>d_agents := upd_where P f (d_agents d)\<rparr>) d0"
proof -
  assume k: "\<And>a. P a \<Longrightarrow> agent_key (f a) = agent_key a" and a: "aside d d0"
  have "aside (d\<lparr>d_agents := upd_where P f (d_agents d)\<rparr>) d"
    using same_fleet_agents [of P f d] k by (simp add: aside_def)
  with a show ?thesis by (rule aside_trans [rotated])
qed

lemma aside_hosts_iff:
  "(\<And>h. fleet_key (f h) = fleet_key h) \<Longrightarrow> aside (d\<lparr>d_hosts := upd_where P f (d_hosts d)\<rparr>) d0 = aside d d0"
  by (simp add: aside_def same_fleet_def map_upd_where)

lemma aside_windows [simp]:
  "aside (set_last_stage a s d) d0 = aside d d0" "aside (clear_maintenance a s d) d0 = aside d d0"
  "aside (EnterMaintenance now a n d) d0 = aside d d0"
  "aside (release_agent a d) d0 = aside d d0" "aside (clear_idle_windows d) d0 = aside d d0"
  by (simp_all add: set_last_stage_def clear_maintenance_def EnterMaintenance_def release_agent_def clear_idle_windows_def
      leave_upgrading_def Let_def aside_hosts_iff fleet_key_def)

section \<open>Requests of agents and reconciliation\<close>

lemma aside_Dequeue: "aside (snd (Dequeue hmac marshal locked now nonce a d)) d"
  by (auto simp: Dequeue_def Let_def split: option.split)

lemma aside_Ack: "aside (snd (Ack now stamp a i status reason d)) d"
  by (auto simp: Ack_def Let_def agent_key_def intro!: aside_agents split: option.split)

lemma aside_finalize [simp]: "aside (auto_finalize now stamp a i t stage message status d) d0 = aside d d0"
  by (auto simp: auto_finalize_def Let_def split: option.split)

lemma aside_UpdateStage: "aside (UpdateStage now stamp a i stage message d) d"
  by (auto simp: UpdateStage_def Let_def split: option.split)

lemma aside_Report: "aside (snd (Report quote now stamp consul a i rq d)) d"
  by (auto simp: Report_def Let_def split: option.split)

lemma aside_reap_fold: "aside (fst (fold (reap_one now line) es acc)) d0 = aside (fst acc) d0"
proof (induction es arbitrary: acc)
  case (Cons e es)
  have "aside (fst (reap_one now line e acc)) d0 = aside (fst acc) d0"
    by (auto simp: reap_one_def Let_def split: prod.split option.split)
  with Cons show ?case by simp
qed simp

lemma aside_release_fold [simp]: "aside (fold release_agent as d) d0 = aside d d0"
  by (induction as arbitrary: d) simp_all

lemma aside_Reconcile: "aside (snd (ReconcileTasks now stamp d)) d"
proof -
  have "aside (snd (FinalizeCompletedStages now stamp e)) e" "aside (snd (SyncTaskHostsFromCommands now e)) e" for e
    by (simp_all add: FinalizeCompletedStages_def SyncTaskHostsFromCommands_def Let_def)
  moreover have "aside (snd (ReapExpired now stamp e)) e" for e
    using aside_reap_fold [of now "bracket stamp @ txt_lease_lost" "reap_list now e" "(e, [], 0)" e]
    by (simp add: ReapExpired_def case_prod_unfold)
  ultimately show ?thesis
    by (simp add: ReconcileTasks_def split: prod.split) (metis aside_trans snd_conv)
qed

text \<open>A handler that keeps the contract of rows and writes nothing else is quiet.\<close>

lemma row_step_aside: "row_step d d' \<Longrightarrow> cmd_keys d \<Longrightarrow> aside d' d \<Longrightarrow> quiet d' d"
  by (rule row_step_quiet) (auto simp: aside_def)

lemma wf_row_step:
  assumes "wf_db d" "row_step d d'" "aside d' d" "integrity d'"
  shows "wf_db d'"
proof (rule wf_quiet [OF assms(1)])
  have "cmd_keys d" using assms(1) by (simp add: wf_db_def integrity_def)
  with assms show "quiet d' d" by (intro row_step_aside)
qed (rule assms(4))

lemma wf_agent_request:
  assumes "wf_db d"
  shows "wf_db (snd (Dequeue hmac marshal locked now nonce a d))" "wf_db (snd (Ack now stamp a i status reason d))"
    "wf_db (UpdateStage now stamp a i stage message d)" "wf_db (snd (Report quote now stamp consul a j rq d))"
    "wf_db (snd (ReconcileTasks now stamp d))"
proof -
  have i: "integrity d" using assms by (simp add: wf_db_def)
  show "wf_db (snd (Dequeue hmac marshal locked now nonce a d))" "wf_db (snd (Ack now stamp a i status reason d))"
    "wf_db (UpdateStage now stamp a i stage message d)" "wf_db (snd (Report quote now stamp consul a j rq d))"
    "wf_db (snd (ReconcileTasks now stamp d))"
    by (rule wf_row_step [OF assms], rule row_step_Dequeue row_step_Ack row_step_UpdateStage row_step_Report row_step_Reconcile,
      rule aside_Dequeue aside_Ack aside_UpdateStage aside_Report aside_Reconcile,
      rule dequeue.integrity_kept ack.integrity_kept stage.integrity_kept report.integrity_kept reconcile.integrity_kept, rule i)+
qed

section \<open>Operations on tasks\<close>

lemma task_row_refs [simp]:
  "thost_ref (cancel_thost now h) = thost_ref h" "thost_ref (reset_thost now line h) = thost_ref h"
  by (simp_all add: thost_ref_def cancel_thost_def reset_thost_def)

lemma cancel_cmd_ref [simp]: "cmd_ref (cancel_cmd now line c) = cmd_ref c"
  by (simp add: cmd_ref_def cancel_cmd_def)

lemma quiet_task_op:
  "quiet (snd (Start pc actor now sc i d)) d" "quiet (snd (Promote pc actor now sc i d)) d"
  "quiet (snd (Pause pc actor now sc i d)) d" "quiet (snd (Cancel pc actor now sc i d)) d"
  "quiet (snd (Retry pc actor now stamp sc i rq d)) d"
  by (auto simp: task_op_defs Let_def move_task_def cancel_rows_def retry_rows_def quiet_def map_upd_where split: option.split)

lemma wf_task_op:
  assumes "wf_db d"
  shows "wf_db (snd (Start pc actor now sc i d))" "wf_db (snd (Promote pc actor now sc i d))"
  "wf_db (snd (Pause pc actor now sc i d))" "wf_db (snd (Cancel pc actor now sc i d))"
  "wf_db (snd (Retry pc actor now stamp sc i rq d))"
proof -
  have i: "integrity d" using assms by (simp add: wf_db_def)
  show "wf_db (snd (Start pc actor now sc i d))" "wf_db (snd (Promote pc actor now sc i d))"
    "wf_db (snd (Pause pc actor now sc i d))" "wf_db (snd (Cancel pc actor now sc i d))"
    "wf_db (snd (Retry pc actor now stamp sc i rq d))"
    by (rule wf_quiet [OF assms quiet_task_op(1) status_op_contract(1) [OF i]]
       wf_quiet [OF assms quiet_task_op(2) status_op_contract(2) [OF i]]
       wf_quiet [OF assms quiet_task_op(3) status_op_contract(3) [OF i]]
       wf_quiet [OF assms quiet_task_op(4) cancel.integrity_kept [OF i]]
       wf_quiet [OF assms quiet_task_op(5) retry.integrity_kept [OF i]])+
qed

section \<open>The orchestrator\<close>

lemma aside_take [simp]: "aside (take_thost now t d) d0 = aside d d0"
  by (simp add: take_thost_def)

lemma aside_insert_command [simp]: "aside (insert_command c d) d0 = aside d d0"
  by (simp add: insert_command_def)

text \<open>What dispatching does: commands that name existing rows are added.\<close>

definition grown :: "db \<Rightarrow> db \<Rightarrow> bool" where
  "grown d d' = (aside d' d \<and> map thost_ref (d_thosts d') = map thost_ref (d_thosts d) \<and>
     map task_ref (d_tasks d') = map task_ref (d_tasks d) \<and> map tb_task_id (d_batches d') = map tb_task_id (d_batches d) \<and>
     (\<exists>new. map cmd_ref (d_cmds d') = map cmd_ref (d_cmds d @ new) \<and> (\<forall>c\<in>set new. cmd_ok d c)))"

lemma quiet_grown: "quiet d' d \<Longrightarrow> grown d d'"
  unfolding quiet_def grown_def aside_def by (auto intro: exI [of _ "[]"])

lemma grown_refl [simp]: "grown d d"
  by (simp add: quiet_grown)

lemma grown_trans:
  assumes "grown d d1" "grown d1 d2"
  shows "grown d d2"
proof -
  from assms(1) obtain n1 where n1: "map cmd_ref (d_cmds d1) = map cmd_ref (d_cmds d @ n1)" "\<forall>c\<in>set n1. cmd_ok d c"
    by (auto simp: grown_def)
  from assms(2) obtain n2 where n2: "map cmd_ref (d_cmds d2) = map cmd_ref (d_cmds d1 @ n2)" "\<forall>c\<in>set n2. cmd_ok d1 c"
    by (auto simp: grown_def)
  have "ho_id ` set (d_hosts d1) = ho_id ` set (d_hosts d)" using assms(1) same_fleet_ids by (simp add: grown_def aside_def)
  moreover have "map tk_id (d_tasks d) = map tk_id (d_tasks d1)" using assms(1) task_ref_ids [of "d_tasks d1" "d_tasks d"] by (simp add: grown_def)
  ultimately have "cmd_ok d c" if "cmd_ok d1 c" for c
    using assms(1) that by (intro cmd_ok_keep [of d d1 c c]) (simp_all add: grown_def)
  with n1 n2 have "\<exists>new. map cmd_ref (d_cmds d2) = map cmd_ref (d_cmds d @ new) \<and> (\<forall>c\<in>set new. cmd_ok d c)"
    by (intro exI [of _ "n1 @ n2"]) auto
  with assms show ?thesis unfolding grown_def by (auto intro: aside_trans)
qed

lemma refs_ok_grown:
  assumes "grown d d'" "refs_ok d"
  shows "refs_ok d'"
proof -
  from assms(1) obtain new where new: "map cmd_ref (d_cmds d') = map cmd_ref (d_cmds d @ new)" "\<forall>c\<in>set new. cmd_ok d c"
    by (auto simp: grown_def)
  let ?d = "d\<lparr>d_cmds := d_cmds d @ new\<rparr>"
  have "quiet d' ?d" using assms(1) new(1) by (simp add: grown_def quiet_def aside_def same_fleet_def same_jobs_def)
  moreover have "refs_ok ?d" using assms(2) new(2) by (auto simp: refs_ok_def cmd_ok_def)
  ultimately show ?thesis by (rule refs_ok_quiet)
qed

lemma wf_grown: "wf_db d \<Longrightarrow> grown d d' \<Longrightarrow> integrity d' \<Longrightarrow> wf_db d'"
  unfolding wf_db_def using refs_ok_grown [of d d'] fleet_ok_same [of d' d] jobs_same [of d' d] thost_uq_same [of d' d] store_ok_same [of d' d]
  by (auto simp: grown_def aside_def)

lemma grown_thosts:
  "map thost_ref ts = map thost_ref (d_thosts d) \<Longrightarrow> grown d (d\<lparr>d_thosts := ts\<rparr>)"
  by (auto simp: grown_def intro: exI [of _ "[]"])

lemma run_skip_ref [simp]: "thost_ref (run_thost now h) = thost_ref h" "thost_ref (skip_thost now l h) = thost_ref h"
  by (simp_all add: thost_ref_def)

lemma grown_dispatch:
  assumes "\<exists>h\<in>set (d_thosts d). th_id h = t \<and> th_task_id h = i \<and> th_host_id h = host \<and> host \<in> ho_id ` set (d_hosts d)"
  shows "grown d (snd (dispatchHostWithType now i t host agent ty pl d))"
  using dispatchHost_cases [of now i t host agent ty pl d]
proof (elim disjE exE conjE)
  fix h tk
  let ?c = "new_command now (d_next_cmd d) (Some i) (Some t) host agent ty pl (Some (now + hours 2))"
  assume tk: "find_task i d = Some tk"
    and r: "dispatchHostWithType now i t host agent ty pl d = (True, take_thost now t (insert_command ?c d))"
  have "i \<in> tk_id ` set (d_tasks d)" using tk by (auto simp: find_task_def dest!: find_SomeD)
  with assms have "cmd_ok d ?c" by (auto simp: cmd_ok_def new_command_def)
  then have "\<exists>new. map cmd_ref (d_cmds d @ [?c]) = map cmd_ref (d_cmds d @ new) \<and> (\<forall>c\<in>set new. cmd_ok d c)"
    by (intro exI [of _ "[?c]"]) simp
  then show ?thesis unfolding r snd_conv by (auto simp: grown_def insert_command_def take_thost_def map_upd_where)
qed (simp_all add: take_thost_def grown_thosts map_upd_where)

text \<open>The target of a job: a row of the batch with its host.\<close>

definition target_ok :: "int \<Rightarrow> db \<Rightarrow> int \<times> host_row \<Rightarrow> bool" where
  "target_ok taskID d r = (\<exists>h\<in>set (d_thosts d). th_id h = fst r \<and> th_task_id h = taskID \<and> th_host_id h = ho_id (snd r) \<and>
     ho_id (snd r) \<in> ho_id ` set (d_hosts d))"

lemma batch_targets_ok:
  assumes "r \<in> set (batch_targets i k d)"
  shows "target_ok i d r"
proof -
  from assms obtain h ho where h: "h \<in> set (d_thosts d)" "in_batch i k h" "find_host (th_host_id h) d = Some ho" "r = (th_id h, ho)"
    by (auto simp: batch_targets_def split: option.splits)
  from h(3) have "ho \<in> set (d_hosts d)" "ho_id ho = th_host_id h" by (auto simp: find_host_def dest: find_SomeD)
  with h show ?thesis unfolding target_ok_def by (intro bexI [of _ h]) (force simp: in_batch_def)+
qed

lemma target_ok_keep:
  assumes "target_ok i d r" "grown d d'"
  shows "target_ok i d' r"
proof -
  from assms(2) have m: "map thost_ref (d_thosts d') = map thost_ref (d_thosts d)" "same_fleet d' d"
    by (simp_all add: grown_def aside_def)
  from assms(1) obtain h where h: "h \<in> set (d_thosts d)" "th_id h = fst r" "th_task_id h = i" "th_host_id h = ho_id (snd r)"
    "ho_id (snd r) \<in> ho_id ` set (d_hosts d)" by (auto simp: target_ok_def)
  from map_key_mem [OF m(1) [symmetric] h(1)] obtain h' where "h' \<in> set (d_thosts d')" "thost_ref h' = thost_ref h" by auto
  with h same_fleet_ids [OF m(2)] show ?thesis unfolding target_ok_def by (intro bexI [of _ h']) (auto simp: thost_ref_def)
qed

lemma grown_dispatch_one:
  assumes "target_ok i d r"
  shows "grown d (dispatch_one pc now stamp i compID v ten jb r d)"
proof -
  have "\<exists>h\<in>set (d_thosts d). th_id h = fst r \<and> th_task_id h = i \<and> th_host_id h = ho_id (snd r) \<and> ho_id (snd r) \<in> ho_id ` set (d_hosts d)"
    using assms by (simp add: target_ok_def)
  from grown_dispatch [OF this] show ?thesis
    by (auto simp: dispatch_one_def dispatchHost_def markHostSkipped_def markHostSkippedWithLog_def grown_thosts map_upd_where
        split: prod.split option.split job.split)
qed

lemma grown_dispatch_fold:
  "\<forall>r\<in>set rs. target_ok i d r \<Longrightarrow> grown d (fold (dispatch_one pc now stamp i compID v ten jb) rs d)"
proof (induction rs arbitrary: d)
  case (Cons r rs)
  let ?d = "dispatch_one pc now stamp i compID v ten jb r d"
  have g: "grown d ?d" using Cons.prems by (intro grown_dispatch_one) simp
  have "grown ?d (fold (dispatch_one pc now stamp i compID v ten jb) rs ?d)"
    using Cons.prems target_ok_keep [OF _ g] by (intro Cons.IH) auto
  with g show ?case by (simp add: grown_trans [OF g])
qed simp

lemma grown_batches: "map tb_task_id bs = map tb_task_id (d_batches d) \<Longrightarrow> grown d (d\<lparr>d_batches := bs\<rparr>)"
  by (auto simp: grown_def intro: exI [of _ "[]"])

lemma grown_markBatch: "grown d (markBatch now j k s d)"
  by (simp add: markBatch_def grown_batches map_upd_where)

lemma grown_advance: "grown d (snd (advance urlp pc now stamp t d))"
proof -
  have fin: "quiet (finishTask now j kind e) e" "quiet (completeBatch now j k s rb p e) e" for j kind k s rb p e
    by (auto simp: quiet_def finishTask_def completeBatch_def markBatch_def Let_def map_upd_where thost_ref_def)
  have run: "quiet (advance_running now j k st kind p d) d" for j k st kind p
    using fin quiet_trans [OF fin(1) fin(2)] by (auto simp: advance_running_def Let_def split: prod.split)
  have "grown d (snd (dispatchBatch urlp pc now stamp j compID v k ten kind cmd d))" for j compID v k ten kind cmd
  proof -
    have "grown d (fold (dispatch_one pc now stamp j compID v ten jb) (batch_targets j k d) d)" for jb
      by (intro grown_dispatch_fold ballI batch_targets_ok)
    then show ?thesis
      by (auto simp: dispatchBatch_def Let_def split: sum.split intro: grown_trans grown_markBatch)
  qed
  then show ?thesis by (auto simp: advance_def quiet_grown fin run split: option.split prod.split)
qed

lemma wf_advance: "wf_db d \<Longrightarrow> wf_db (snd (advance urlp pc now stamp t d))"
  using grown_advance [of d urlp pc now stamp t] wf_grown [of d] advance_integrity [of d]
  by (auto simp: wf_db_def)

lemma wf_tick:
  assumes "wf_db d"
  shows "wf_db (tick (Some (\<lambda>d. snd (ReconcileTasks now stamp d))) urlp pc now stamp d)"
proof -
  have "wf_db (fold (\<lambda>t. snd \<circ> advance urlp pc now stamp t) ts e)" if "wf_db e" for ts e
    using that by (induction ts arbitrary: e) (auto intro: wf_advance)
  then show ?thesis by (simp add: tick_def Let_def wf_agent_request(5) assms)
qed

section \<open>Creating tasks\<close>

lemma new_rows_ids: "map th_id (new_rows nx i k hs) = [nx..nx + int (length hs) - 1]"
proof (induction hs arbitrary: nx)
  case (Cons h hs)
  then show ?case by (simp add: upto_rec1 [of nx] new_thost_def)
qed simp

lemma placed_rows_ids:
  "\<forall>n\<in>set ns. 0 < n \<Longrightarrow> sum_list ns \<le> int (length hs) \<Longrightarrow>
     map th_id (placed_rows nx i k ns hs) = [nx..nx + sum_list ns - 1]"
proof (induction ns arbitrary: nx k hs)
  case (Cons n ns)
  have "0 \<le> sum_list ns" using Cons.prems(1) by (intro sum_list_nonneg) (auto intro: less_imp_le)
  with Cons.prems have n: "0 < n" "min (length hs) (nat n) = nat n" "sum_list ns \<le> int (length (drop (nat n) hs))" by auto
  have "map th_id (placed_rows (nx + n) i (k + 1) ns (drop (nat n) hs)) = [nx + n..nx + n + sum_list ns - 1]"
    using Cons.prems(1) n(3) by (intro Cons.IH) auto
  moreover have "[nx..nx + n - 1] @ [nx + n..nx + n + sum_list ns - 1] = [nx..nx + n + sum_list ns - 1]"
    using n(1) \<open>0 \<le> sum_list ns\<close> upto_split1 [of nx "nx + n" "nx + n + sum_list ns - 1"]
    by (cases "sum_list ns = 0") auto
  ultimately show ?case using n by (simp add: new_rows_ids add.assoc)
qed simp

lemma placed_batches_index: "map tb_index (placed_batches i k ns) = [k..k + int (length ns) - 1]"
proof (induction ns arbitrary: k)
  case (Cons n ns)
  then show ?case by (simp add: upto_rec1 [of k])
qed simp

lemma create_target_component:
  "create_target urlp pc sc rq d = Inr (v, name, os) \<Longrightarrow> request_kind rq = ''upgrade'' \<Longrightarrow> cr_component_id rq \<in> cp_id ` set (d_comps d)"
  by (force simp: create_target_def comp_get_def dest!: find_SomeD split: if_splits option.splits)

lemma wf_Create:
  assumes "wf_db d" "\<forall>xs. mset (order xs) = mset xs" "Create order urlp pc now sc rq d = Some (r, d')"
  shows "wf_db d'"
proof (cases r)
  case (Inl e)
  have "d' = d" by (rule Create_fails_unchanged [OF assms(3) [unfolded Inl]])
  with assms(1) show ?thesis by simp
next
  case (Inr i)
  from assms(1) have int: "integrity d" and refs: "refs_ok d" and keys: "task_keys d" "thost_keys d" "batch_keys d"
    and dist: "distinct (map ho_id (d_hosts d))"
    by (auto simp: wf_db_def integrity_def fleet_ok_def)
  from Create_effect [OF assms(3) [unfolded Inr] assms(2) dist refs_ok_below [OF refs keys(1)]] obtain v name os sizes hosts where
    tgt: "create_target urlp pc sc rq d = Inr (v, name, os)" and
    h: "hr_id ` set hosts \<subseteq> ho_id ` set (d_hosts d)" "distinct (map hr_id hosts)" and sizes: "\<forall>n\<in>set sizes. 0 < n" "sum_list sizes = int (length hosts)"
    and i: "i = d_next_task d" and fresh: "\<forall>b\<in>set (d_batches d). tb_task_id b \<noteq> i" "\<forall>h\<in>set (d_thosts d). th_task_id h \<noteq> i"
    and e: "d' = d\<lparr>d_tasks := d_tasks d @ [new_task now sc rq v i], d_next_task := i + 1,
      d_thosts := d_thosts d @ placed_rows (d_next_thost d) i 0 sizes hosts,
      d_batches := d_batches d @ placed_batches i 0 sizes, d_next_thost := d_next_thost d + sum_list sizes\<rparr>" by blast
  let ?rows = "placed_rows (d_next_thost d) i 0 sizes hosts" and ?bs = "placed_batches i 0 sizes"
  have ids: "map th_id ?rows = [d_next_thost d..d_next_thost d + sum_list sizes - 1]"
    using placed_rows_ids sizes by simp
  have "thost_keys d'"
  proof -
    have r: "d_next_thost d \<le> th_id x \<and> th_id x < d_next_thost d + sum_list sizes" if "x \<in> set ?rows" for x
    proof -
      from that have "th_id x \<in> set (map th_id ?rows)" by simp
      then show ?thesis unfolding ids by auto
    qed
    have "0 \<le> sum_list sizes" using sizes(2) by simp
    with keys(2) r have "distinct (map th_id (d_thosts d @ ?rows))" "\<forall>x\<in>set (d_thosts d @ ?rows). th_id x < d_next_thost d + sum_list sizes"
      using ids by (auto simp: thost_keys_def list_all_iff)
    then show ?thesis by (simp add: e thost_keys_def list_all_iff)
  qed
  moreover have "batch_keys d'"
  proof -
    have "distinct (map tb_index ?bs)" by (simp add: placed_batches_index)
    then have "distinct (map (\<lambda>b. (tb_task_id b, tb_index b)) ?bs)" by (auto simp: distinct_map inj_on_def)
    with keys(3) fresh(1) placed_batches_fields [of _ i 0 sizes] show ?thesis by (fastforce simp: e batch_keys_def)
  qed
  moreover have "task_keys d'" using keys(1) by (auto simp: e i task_keys_def list_all_iff new_task_def)
  moreover have "cmd_keys d' = cmd_keys d" "uq_task_host_active d' = uq_task_host_active d" "uq_self_update_active d' = uq_self_update_active d"
    by (simp_all add: e cmd_keys_def uq_task_host_active_def uq_self_update_active_def)
  ultimately have "integrity d'" using int by (simp add: integrity_def)
  moreover have "refs_ok d'"
  proof -
    have new: "th_task_id x = i \<and> th_host_id x \<in> ho_id ` set (d_hosts d)" if x: "x \<in> set ?rows" for x
    proof -
      have "th_host_id x \<in> th_host_id ` set ?rows" using x by simp
      then have "th_host_id x \<in> set (map hr_id hosts)"
        using placed_rows_hosts [OF sizes(1), of "d_next_thost d" i 0 hosts] sizes(2) by (metis list.set_map nat_int take_all_iff order_refl)
      with h(1) placed_rows_fields [OF x] show ?thesis by auto
    qed
    show ?thesis using refs new placed_batches_fields [of _ i 0 sizes] unfolding refs_ok_def cmd_ok_def e
      by (fastforce simp: new_task_def)
  qed
  moreover have "thost_uq d'"
  proof -
    have hs: "map th_host_id ?rows = map hr_id hosts"
      using placed_rows_hosts [OF sizes(1), of "d_next_thost d" i 0 hosts] sizes(2) by simp
    then have "distinct (map th_host_id ?rows)" using h(2) by simp
    then have "distinct (map (\<lambda>t. (th_task_id t, th_host_id t)) ?rows)" by (auto simp: distinct_map inj_on_def)
    with assms(1) fresh(2) placed_rows_fields [of _ "d_next_thost d" i 0 sizes hosts] show ?thesis
      by (fastforce simp: e wf_db_def thost_uq_def)
  qed
  moreover have "store_ok d'"
    using assms(1) create_target_component [OF tgt] by (auto simp: e wf_db_def store_ok_def uq_identity_def new_task_def)
  moreover have "aside d' d" by (simp add: e)
  ultimately show ?thesis using assms(1) fleet_ok_same [of d' d] jobs_same [of d' d]
    by (auto simp: wf_db_def aside_def)
qed

end
