(* ===== verification/Maintenance.thy ===== *)
theory Maintenance
imports TaskDelete
begin

text \<open>
  The daily clean-up of the tables modelled here, \<^verbatim>\<open>internal/maintenance/maintenance.go\<close>: commands nobody fetched,
  forgotten maintenance windows, old commands, and the marking of old tasks. One replica at a time does it (an
  advisory lock); audit logs, actions of the assistant and the access tokens (see AiTokens) are other tables. The answers of
  the database to \<^verbatim>\<open>VACUUM\<close> and \<^verbatim>\<open>REINDEX\<close> do not change rows.
\<close>

definition days :: "int \<Rightarrow> time" where "days n = hours (24 * n)"

text \<open>A comparison with a column that is NULL does not hold.\<close>

definition null_before :: "time option \<Rightarrow> time \<Rightarrow> bool" where
  "null_before t limit = (case t of None \<Rightarrow> False | Some x \<Rightarrow> x < limit)"

definition cleanupExpiredData :: "time \<Rightarrow> db \<Rightarrow> db" where
  "cleanupExpiredData now d = d\<lparr>
     d_cmds := filter (\<lambda>c. \<not> (cm_status c = CmdPending \<and> null_before (cm_expire_at c) (now - days 7))) (d_cmds d),
     d_hosts := upd_where (\<lambda>h. null_before (ho_maintenance_until h) (now - days 1))
       (\<lambda>h. h\<lparr>ho_maintenance_until := None, ho_maintenance_reason := []\<rparr>) (d_hosts d)\<rparr>"

definition cleanupOldCommands :: "time \<Rightarrow> db \<Rightarrow> db" where
  "cleanupOldCommands now d = d\<lparr>
     d_cmds := filter (\<lambda>c. \<not> (cm_status c \<in> set [CmdSuccess, CmdFailed, CmdRolledBack, CmdTimeout, CmdExpired, CmdCanceled] \<and>
       null_before (cm_finished_at c) (now - days 30))) (d_cmds d)\<rparr>"

definition archiveOldTasks :: "time \<Rightarrow> db \<Rightarrow> db" where
  "archiveOldTasks now d = d\<lparr>
     d_tasks := upd_where (\<lambda>t. tk_status t \<in> set [''success'', ''failed'', ''canceled'', ''rolled_back''] \<and>
         tk_updated_at t < now - days 90)
       (\<lambda>t. t\<lparr>tk_status := ''archived''\<rparr>) (d_tasks d)\<rparr>"

text \<open>The round, in the order of the code; \<open>got\<close> says whether the replica got the lock.\<close>

definition runMaintenance :: "bool \<Rightarrow> time \<Rightarrow> db \<Rightarrow> db" where
  "runMaintenance got now d = (if \<not> got then d else archiveOldTasks now (cleanupOldCommands now (cleanupExpiredData now d)))"

text \<open>The clean-up never takes a command an agent has fetched and not finished.\<close>

lemma runMaintenance_keeps_running:
  assumes "c \<in> set (d_cmds d)" "is_active (cm_status c)" "cm_status c \<noteq> CmdPending"
  shows "c \<in> set (d_cmds (runMaintenance got now d))"
  using assms by (auto simp: runMaintenance_def cleanupExpiredData_def cleanupOldCommands_def archiveOldTasks_def is_active_def
      active_statuses_def)

text \<open>An archived task can no longer be deleted on request: \<open>deletableStatus\<close> lists the final statuses but not this one.\<close>

lemma archived_not_deletable:
  assumes "find_task_scoped sc i d = Some t" "tk_status t = ''archived''"
  shows "\<exists>e. DeleteTask pc actor sc i d = (Inl e, d)"
  using assms by (auto simp: DeleteTask_def deletableStatus_def split: option.split)

end
