(* ===== verification/Transactions.thy ===== *)
theory Transactions
imports Lifecycle Maintenance
begin

text \<open>
  The transactions of the server as one relation on databases, and the theorem that every database it
  reaches is well formed.
\<close>

section \<open>Deleting rows\<close>

lemma unique_filter: "unique_where P k rs \<Longrightarrow> unique_where P k (filter Q rs)"
  by (rule unique_where_filter)

lemma integrity_filter:
  assumes "integrity d"
  shows "integrity (d\<lparr>d_tasks := filter P1 (d_tasks d), d_batches := filter P2 (d_batches d),
    d_thosts := filter P3 (d_thosts d), d_cmds := filter P4 (d_cmds d)\<rparr>)"
  using assms by (auto simp: integrity_defs list_all_iff distinct_map_filter unique_where_filter)

lemma wf_delete_tasks:
  assumes "wf_db d"
  shows "wf_db (delete_tasks sc is d)"
proof -
  from assms have k: "integrity d" "refs_ok d" "task_keys d" "thost_uq d" "store_ok d" by (auto simp: wf_db_def integrity_def)
  let ?g = "gone_ids sc is d"
  have t: "tk_id t \<in> ?g \<longleftrightarrow> tk_id t \<in> set is \<and> scope_where sc (tk_tenant t)" if "t \<in> set (d_tasks d)" for t
    using that k(3) by (auto simp: gone_ids_def task_keys_def dest: distinct_key_eq)
  have ids: "tk_id ` set (d_tasks (delete_tasks sc is d)) = tk_id ` set (d_tasks d) - ?g"
    using t by (auto simp: delete_tasks_alt)
  have "cmd_ok (delete_tasks sc is d) c" if c: "c \<in> set (d_cmds (delete_tasks sc is d))" for c
  proof -
    from c have c0: "c \<in> set (d_cmds d)" and n: "\<And>i. cm_task_id c = Some i \<Longrightarrow> i \<notin> ?g"
      "\<And>h. h \<in> set (d_thosts d) \<Longrightarrow> th_task_id h \<in> ?g \<Longrightarrow> cm_task_host_id c \<noteq> Some (th_id h)"
      by (auto simp: delete_tasks_alt)
    from c0 k(2) have "cmd_ok d c" by (simp add: refs_ok_def)
    then show ?thesis using n unfolding cmd_ok_def ids by (fastforce simp: delete_tasks_alt)
  qed
  moreover have "\<forall>r\<in>set (d_thosts (delete_tasks sc is d)). th_task_id r \<in> tk_id ` set (d_tasks d) - ?g \<and>
      th_host_id r \<in> ho_id ` set (d_hosts (delete_tasks sc is d))"
    using k(2) by (auto simp: delete_tasks_alt refs_ok_def)
  moreover have "\<forall>b\<in>set (d_batches (delete_tasks sc is d)). tb_task_id b \<in> tk_id ` set (d_tasks d) - ?g"
    using k(2) by (auto simp: delete_tasks_alt refs_ok_def)
  ultimately have "refs_ok (delete_tasks sc is d)" unfolding refs_ok_def ids by blast
  moreover have "integrity (delete_tasks sc is d)" unfolding delete_tasks_alt by (rule integrity_filter [OF k(1)])
  moreover have "thost_uq (delete_tasks sc is d)" using k(4) by (simp add: delete_tasks_alt thost_uq_def distinct_map_filter)
  moreover have "store_ok (delete_tasks sc is d)"
    by (rule store_ok_tasks [OF k(5)]) (auto simp: delete_tasks_alt)
  moreover have "aside (delete_tasks sc is d) d" by (simp add: delete_tasks_alt)
  ultimately show ?thesis using assms fleet_ok_same [of "delete_tasks sc is d" d] jobs_same [of "delete_tasks sc is d" d]
    by (auto simp: wf_db_def aside_def)
qed

lemma wf_DeleteTask: "wf_db d \<Longrightarrow> wf_db (snd (DeleteTask pc actor sc i d))"
  by (auto simp: DeleteTask_def wf_delete_tasks split: option.split)

lemma deleteChunkTx_result:
  "deleteChunkTx sc ids chk cache fl d = (del, cache', fl', d') \<Longrightarrow> d' = d \<or> (\<exists>js. d' = delete_tasks sc js d)"
  by (auto simp: deleteChunkTx_def Let_def split: prod.splits if_splits)

lemma wf_chunk: "wf_db d \<Longrightarrow> deleteChunkTx sc ids chk cache fl d = (del, cache', fl', d') \<Longrightarrow> wf_db d'"
  using deleteChunkTx_result wf_delete_tasks by blast

lemma wf_delete_chunks:
  "wf_db d \<Longrightarrow> delete_chunks sc chk ids cache fl d = (del, fl', d') \<Longrightarrow> wf_db d'"
proof (induction sc chk ids cache fl d arbitrary: del fl' d' rule: delete_chunks.induct)
  case (1 sc chk ids cache fl d)
  show ?case
  proof (cases "ids = []")
    case True
    with 1(2,3) show ?thesis by (simp add: delete_chunks.simps [of sc chk "[]"])
  next
    case False
    obtain del1 c1 fl1 d1 where t: "deleteChunkTx sc (take batchDeleteChunk ids) chk cache fl d = (del1, c1, fl1, d1)"
      by (metis prod_cases4)
    obtain del2 fl2 d2 where r: "delete_chunks sc chk (drop batchDeleteChunk ids) c1 fl1 d1 = (del2, fl2, d2)"
      by (metis prod_cases3)
    from 1(3) False t r have "d' = d2" by (simp add: delete_chunks.simps [of sc chk ids])
    with "1.IH" [OF False t [symmetric] refl refl wf_chunk [OF 1(2) t] r] show ?thesis by simp
  qed
qed

lemma wf_BatchDelete: "wf_db d \<Longrightarrow> wf_db (snd (BatchDelete pc actor sc ids d))"
  using wf_delete_chunks by (auto simp: BatchDelete_def Let_def split: prod.split)

text \<open>Jobs change their own table, and what a chunk deletes.\<close>

lemma wf_jobs:
  assumes "wf_db d" "jobs_ok d'" "hjobs_ok d'" "d' = d\<lparr>d_jobs := js, d_next_job := n, d_hjobs := hjs, d_next_hjob := m\<rparr>"
  shows "wf_db d'"
proof -
  have "integrity d'" "refs_ok d'" "fleet_ok d'" "thost_uq d'" "store_ok d'"
    using assms(1) unfolding assms(4) wf_db_def integrity_defs refs_ok_def cmd_ok_def fleet_ok_def thost_uq_def store_ok_def uq_identity_def
    by simp_all
  with assms(2,3) show ?thesis by (simp add: wf_db_def)
qed

lemma hjobs_ok_frame [simp]: "hjobs_ok (d\<lparr>d_jobs := js\<rparr>) = hjobs_ok d" "hjobs_ok (d\<lparr>d_jobs := js, d_next_job := n\<rparr>) = hjobs_ok d"
  by (simp_all add: hjobs_ok_def)

lemma jobs_ok_frame [simp]: "jobs_ok (d\<lparr>d_hjobs := js\<rparr>) = jobs_ok d" "jobs_ok (d\<lparr>d_hjobs := js, d_next_hjob := n\<rparr>) = jobs_ok d"
  "jobs_ok (d\<lparr>d_next_hjob := n\<rparr>) = jobs_ok d" "jobs_ok (d\<lparr>d_next_hjob := n, d_hjobs := js\<rparr>) = jobs_ok d"
  by (simp_all add: jobs_ok_def)

lemma wf_jobs_table:
  "wf_db d \<Longrightarrow> jobs_ok (d\<lparr>d_jobs := js\<rparr>) \<Longrightarrow> wf_db (d\<lparr>d_jobs := js\<rparr>)"
  by (rule wf_jobs [where js = js and n = "d_next_job d" and hjs = "d_hjobs d" and m = "d_next_hjob d"]) (auto simp: wf_db_def)

lemma wf_hjobs_table:
  "wf_db d \<Longrightarrow> hjobs_ok (d\<lparr>d_hjobs := js\<rparr>) \<Longrightarrow> wf_db (d\<lparr>d_hjobs := js\<rparr>)"
  by (rule wf_jobs [where js = "d_jobs d" and n = "d_next_job d" and hjs = js and m = "d_next_hjob d"]) (auto simp: wf_db_def)

lemma chunk_outcome_wf: "wf_db d \<Longrightarrow> chunk_outcome fault sc ids chk d = (del, fl, d') \<Longrightarrow> wf_db d'"
  using wf_chunk by (auto simp: chunk_outcome_def split: option.splits prod.splits)

lemma runDeleteJobOnce_writes:
  assumes "wf_db d"
  shows "\<exists>js d1. snd (runDeleteJobOnce pc locked fault now d) = d1\<lparr>d_jobs := js\<rparr> \<and> wf_db d1"
proof (cases "min_row dj_id (\<lambda>j. job_active j \<and> \<not> locked (dj_id j)) (d_jobs d)")
  case None
  then show ?thesis using assms by (intro exI [of _ "d_jobs d"] exI [of _ d]) (simp add: runDeleteJobOnce_def)
next
  case (Some j)
  show ?thesis
  proof (cases "dj_cancel_requested j \<or> dj_processed j \<ge> length (dj_ids j)")
    case True
    with Some assms show ?thesis by (auto simp: runDeleteJobOnce_def Let_def)
  next
    case False
    let ?chunk = "take (min (dj_processed j + batchDeleteChunk) (length (dj_ids j)) - dj_processed j) (drop (dj_processed j) (dj_ids j))"
    let ?actor = "\<lparr>us_username = dj_created_by j, us_is_admin = dj_is_admin j, us_tenant = dj_tenant j, us_roles = dj_roles j\<rparr>"
    obtain del fl d1 where c: "chunk_outcome fault (scope_new (dj_tenant j) (dj_cross j)) ?chunk (ownerChecker pc (Some ?actor)) d = (del, fl, d1)"
      by (metis prod_cases3)
    from chunk_outcome_wf [OF assms c] c Some False show ?thesis
      by (auto simp: runDeleteJobOnce_def Let_def)
  qed
qed

lemma wf_task_jobs:
  assumes "wf_db d"
  shows "wf_db (snd (CreateDeleteJob actor now sc ip ids d))" "wf_db (snd (CancelDeleteJob actor sc i d))"
    "wf_db (snd (runDeleteJobOnce pc locked fault now d))" "wf_db (purge_jobs now d)"
proof -
  from assms have j: "jobs_ok d" "hjobs_ok d" "distinct (map tk_id (d_tasks d))"
    by (auto simp: wf_db_def integrity_def task_keys_def)
  show "wf_db (snd (CreateDeleteJob actor now sc ip ids d))"
  proof (cases "snd (CreateDeleteJob actor now sc ip ids d) = d")
    case False
    then obtain js where e: "snd (CreateDeleteJob actor now sc ip ids d) = d\<lparr>d_jobs := js, d_next_job := d_next_job d + 1\<rparr>"
      by (auto simp: CreateDeleteJob_def Let_def split: option.splits if_splits)
    show ?thesis
      by (rule wf_jobs [OF assms CreateDeleteJob_jobs_ok [OF j(1)], where js = js and n = "d_next_job d + 1" and
          hjs = "d_hjobs d" and m = "d_next_hjob d"]) (use j(2) in \<open>simp_all add: e\<close>)
  qed (use assms in simp)
  show "wf_db (snd (CancelDeleteJob actor sc i d))"
    using CancelDeleteJob_jobs_ok [OF j(1), of actor sc i] wf_jobs_table [OF assms]
    by (auto simp: CancelDeleteJob_def Let_def split: option.split)
  show "wf_db (purge_jobs now d)"
    using purge_jobs_ok [OF j(1), of now] wf_jobs_table [OF assms] by (simp add: purge_jobs_def)
  have ok: "jobs_ok (snd (runDeleteJobOnce pc locked fault now d))"
    using runDeleteJobOnce_ok [OF j(1,3)] by blast
  from runDeleteJobOnce_writes [OF assms, of pc locked fault now] ok wf_jobs_table
  show "wf_db (snd (runDeleteJobOnce pc locked fault now d))" by auto
qed

section \<open>Components\<close>

text \<open>Writes of the tables of components and artifacts.\<close>

lemma wf_store:
  assumes "wf_db d" "store_ok d'" "d' = d\<lparr>d_comps := cs, d_arts := as, d_next_comp := n, d_next_art := m\<rparr>"
  shows "wf_db d'"
  using assms(1,2) unfolding assms(3)
  by (simp add: wf_db_def integrity_defs refs_ok_def cmd_ok_def fleet_ok_def jobs_ok_def hjobs_ok_def thost_uq_def)

lemma store_ok_next:
  "store_ok d \<Longrightarrow> store_ok (d\<lparr>d_next_comp := d_next_comp d + 1\<rparr>)" "store_ok d \<Longrightarrow> store_ok (d\<lparr>d_next_art := d_next_art d + 1\<rparr>)"
  by (fastforce simp: store_ok_def uq_identity_def)+

lemma store_ok_filter_arts: "store_ok d \<Longrightarrow> store_ok (d\<lparr>d_arts := filter P (d_arts d)\<rparr>)"
  by (auto simp: store_ok_def uq_identity_def distinct_map_filter)

lemma wf_comp_create:
  assumes "wf_db d"
  shows "wf_db (snd (comp_create urlp sc c d))"
proof -
  let ?c = "(defaulted c)\<lparr>cp_id := d_next_comp d, cp_tenant := TenantForWrite sc,
     cp_exec_timeout := defExecTimeout (cp_exec_timeout (defaulted c))\<rparr>"
  have st: "store_ok d" using assms by (simp add: wf_db_def)
  have n: "wf_db (d\<lparr>d_next_comp := d_next_comp d + 1\<rparr>)"
    by (rule wf_store [OF assms store_ok_next(1) [OF st], where cs = "d_comps d" and as = "d_arts d" and m = "d_next_art d"]) simp
  have a: "wf_db (d\<lparr>d_next_comp := d_next_comp d + 1, d_comps := d_comps d @ [?c]\<rparr>)"
    if new: "\<not> exists_row (\<lambda>x. cp_name x = cp_name (defaulted c)) (d_comps d)"
  proof (rule wf_store [OF assms, where cs = "d_comps d @ [?c]" and as = "d_arts d" and n = "d_next_comp d + 1" and m = "d_next_art d"])
    show "store_ok (d\<lparr>d_next_comp := d_next_comp d + 1, d_comps := d_comps d @ [?c]\<rparr>)"
      using st new by (fastforce simp: store_ok_def uq_identity_def exists_row_iff)
  qed simp
  show ?thesis using assms n a by (simp add: comp_create_def Let_def split: option.split)
qed

lemma wf_comp_update:
  assumes "wf_db d"
  shows "wf_db (snd (comp_update urlp sc c d))"
proof -
  let ?cs = "upd_where (comp_where sc (cp_id c)) (comp_set c) (d_comps d)"
  have m: "map cp_id ?cs = map cp_id (d_comps d)" "map cp_name ?cs = map cp_name (d_comps d)"
    by (simp_all add: map_upd_where comp_set_def)
  have st: "store_ok d" using assms by (simp add: wf_db_def)
  have "cp_id x < d_next_comp d" if "x \<in> set ?cs" for x
  proof -
    from that have "cp_id x \<in> cp_id ` set (d_comps d)" unfolding map_eq_image [OF m(1), symmetric] by (rule imageI)
    with st show ?thesis by (auto simp: store_ok_def)
  qed
  with st have "store_ok (d\<lparr>d_comps := ?cs\<rparr>)" by (simp add: store_ok_def uq_identity_def m map_eq_image [OF m(1)])
  then have "wf_db (d\<lparr>d_comps := ?cs\<rparr>)"
    by (rule wf_store [OF assms, where cs = ?cs and as = "d_arts d" and n = "d_next_comp d" and m = "d_next_art d"]) simp
  with assms show ?thesis by (simp add: comp_update_def Let_def split: option.split)
qed

lemma wf_drop_comp:
  assumes "wf_db d" "\<not> exists_row (\<lambda>t. tk_component_id t = Some i) (d_tasks d)"
  shows "wf_db (d\<lparr>d_comps := filter (\<lambda>c. \<not> comp_where sc i c) (d_comps d), d_arts := filter (\<lambda>a. af_component_id a \<noteq> i) (d_arts d)\<rparr>)"
proof (rule wf_store [OF assms(1), where cs = "filter (\<lambda>c. \<not> comp_where sc i c) (d_comps d)" and
      as = "filter (\<lambda>a. af_component_id a \<noteq> i) (d_arts d)" and n = "d_next_comp d" and m = "d_next_art d"])
  let ?e = "d\<lparr>d_comps := filter (\<lambda>c. \<not> comp_where sc i c) (d_comps d), d_arts := filter (\<lambda>a. af_component_id a \<noteq> i) (d_arts d)\<rparr>"
  from assms(1) have st: "store_ok d" by (simp add: wf_db_def)
  have keep: "j \<in> cp_id ` {c \<in> set (d_comps d). \<not> comp_where sc i c}" if "j \<in> cp_id ` set (d_comps d)" "j \<noteq> i" for j
    using that by (auto simp: comp_where_def)
  have "af_component_id a \<in> cp_id ` {c \<in> set (d_comps d). \<not> comp_where sc i c}" if "a \<in> set (d_arts d)" "af_component_id a \<noteq> i" for a
    using keep st that by (simp add: store_ok_def)
  moreover have "j \<in> cp_id ` {c \<in> set (d_comps d). \<not> comp_where sc i c}" if "t \<in> set (d_tasks d)" "tk_component_id t = Some j" for t j
    using keep st that assms(2) by (auto simp: store_ok_def exists_row_iff)
  ultimately show "store_ok ?e" using st unfolding store_ok_def uq_identity_def by (simp add: distinct_map_filter)
qed simp

lemma wf_comp_delete_tx:
  assumes "wf_db d"
  shows "wf_db (snd (comp_delete_tx sc i cascade d))"
  using assms by (simp add: comp_delete_tx_def Let_def wf_drop_comp wf_delete_tasks)

lemma wf_comp_delete: "wf_db d \<Longrightarrow> wf_db (snd (comp_delete sc i cascade d))"
  by (simp add: comp_delete_def wf_comp_delete_tx split: option.split)

text \<open>Artifacts.\<close>

lemma wf_Save:
  assumes "wf_db d" "Save md5 sha elf fault r sc meta src (d, w) = (res, d', w')"
  shows "wf_db d'"
proof (cases res)
  case (Inl e)
  with assms show ?thesis by (auto simp: Save_def Let_def split: sum.splits option.splits prod.splits if_splits)
next
  case (Inr row)
  from assms(1) have st: "store_ok d" by (simp add: wf_db_def)
  obtain m0 where m0: "checked_meta sc meta d = Inr m0" "upsert_art (stored_meta md5 sha elf (rp_kind r) m0 src) d = (row, d')"
    using Save_Inr [OF assms(2) [unfolded Inr]] by metis
  let ?m = "stored_meta md5 sha elf (rp_kind r) m0 src"
  have "same_identity m0 ?m" by simp
  then have comp: "af_component_id ?m \<in> cp_id ` set (d_comps d)"
    using checked_meta_fields [OF m0(1)] by (force simp: same_identity_def)
  have uq: "uq_identity d'" using upsert_art_spec [OF m0(2)] st by (simp add: store_ok_def)
  show ?thesis
  proof (cases "find (same_identity ?m) (d_arts d)")
    case None
    then have d': "d' = d\<lparr>d_arts := d_arts d @ [?m\<lparr>af_id := d_next_art d\<rparr>], d_next_art := d_next_art d + 1\<rparr>"
      using m0(2) by (auto simp: upsert_art_def Let_def)
    have "store_ok d'" using st uq comp unfolding d' by (fastforce simp: store_ok_def)
    then show ?thesis
      by (rule wf_store [OF assms(1), where cs = "d_comps d" and n = "d_next_comp d"]) (simp add: d')
  next
    case (Some old)
    let ?as = "upd_where (same_identity ?m) (overwrite_art ?m) (d_arts d)"
    from Some have d': "d' = d\<lparr>d_arts := ?as, d_next_art := d_next_art d + 1\<rparr>"
      using m0(2) by (simp add: upsert_art_def)
    have i: "map af_id ?as = map af_id (d_arts d)" "map af_component_id ?as = map af_component_id (d_arts d)"
      by (simp_all add: map_upd_where overwrite_art_def)
    have "af_id a < d_next_art d + 1 \<and> af_component_id a \<in> cp_id ` set (d_comps d)" if "a \<in> set ?as" for a
    proof -
      from that have "af_id a \<in> af_id ` set (d_arts d)" "af_component_id a \<in> af_component_id ` set (d_arts d)"
        unfolding map_eq_image [OF i(1), symmetric] map_eq_image [OF i(2), symmetric] by simp_all
      with st show ?thesis by (fastforce simp: store_ok_def)
    qed
    then have "store_ok d'" using st uq unfolding d' by (simp add: store_ok_def i)
    then show ?thesis
      by (rule wf_store [OF assms(1), where cs = "d_comps d" and n = "d_next_comp d"]) (simp add: d')
  qed
qed

lemma wf_filter_arts: "wf_db d \<Longrightarrow> wf_db (d\<lparr>d_arts := filter P (d_arts d)\<rparr>)"
proof -
  assume w: "wf_db d"
  then have "store_ok (d\<lparr>d_arts := filter P (d_arts d)\<rparr>)" by (simp add: wf_db_def store_ok_filter_arts)
  then show ?thesis
    by (rule wf_store [OF w, where cs = "d_comps d" and n = "d_next_comp d" and m = "d_next_art d"]) simp
qed

lemma wf_art_delete:
  assumes "wf_db d"
  shows "Delete_art locked r sc i (d, w) = (res, d', w') \<Longrightarrow> wf_db d'" "PurgeByComponent locked r sc c (d, w) = (e, d', w') \<Longrightarrow> wf_db d'"
  using assms wf_filter_arts by (auto simp: Delete_art_def PurgeByComponent_def split: option.splits if_splits)

section \<open>Self updates\<close>

lemma grown_insertCommand:
  assumes "h \<in> set (d_hosts d)"
  shows "grown d (snd (insertCommand now stamp h t d))"
proof (rule insertCommand_cases [of now stamp h t d])
  let ?c = "self_command now stamp (d_next_cmd d) h t"
  assume i: "insertCommand now stamp h t d = (True, insert_command ?c d)"
  have "cmd_ok d ?c" using assms by (simp add: cmd_ok_def)
  then have "\<exists>new. map cmd_ref (d_cmds d @ [?c]) = map cmd_ref (d_cmds d @ new) \<and> (\<forall>c\<in>set new. cmd_ok d c)"
    by (intro exI [of _ "[?c]"]) simp
  then show ?thesis unfolding i snd_conv by (auto simp: grown_def insert_command_def)
qed simp

lemma wf_insertCommand: "wf_db d \<Longrightarrow> h \<in> set (d_hosts d) \<Longrightarrow> wf_db (snd (insertCommand now stamp h t d))"
  using wf_grown [OF _ grown_insertCommand] insertCommand_integrity by (auto simp: wf_db_def)

lemma insertCommand_hosts [simp]: "d_hosts (snd (insertCommand now stamp h t d)) = d_hosts d"
  by (auto simp: insertCommand_def insert_command_def)

lemma enqueue_host_db:
  assumes "enqueue_host now stamp r rq baseURL h (res, cache, d) = (res', cache', d')"
  shows "d' = d \<or> (\<exists>t. d' = snd (insertCommand now stamp h t d))"
proof (cases "resolveForHost r h (eq_variant rq) baseURL cache")
  case (Pair v c)
  show ?thesis
  proof (cases v)
    case (Inr t)
    obtain ok d1 where "insertCommand now stamp h t d = (ok, d1)" by fastforce
    with assms Pair Inr show ?thesis
      by (cases ok) (auto simp: enqueue_host_def split: if_splits intro!: exI [of _ t])
  qed (use assms Pair in \<open>simp add: enqueue_host_def\<close>)
qed

lemma wf_enqueue_fold:
  assumes "set hs \<subseteq> set (d_hosts d)" "wf_db d"
  shows "wf_db (snd (snd (fold (enqueue_host now stamp r rq baseURL) hs (res, cache, d))))"
  using assms
proof (induction hs arbitrary: res cache d)
  case (Cons h hs)
  obtain res' cache' d' where e: "enqueue_host now stamp r rq baseURL h (res, cache, d) = (res', cache', d')"
    by (metis prod_cases3)
  from enqueue_host_db [OF e] have "d' = d \<or> (\<exists>t. d' = snd (insertCommand now stamp h t d))" .
  then have "wf_db d'" "d_hosts d' = d_hosts d" using Cons.prems wf_insertCommand by auto
  with Cons e show ?case by simp
qed simp

lemma wf_Enqueue:
  assumes "wf_db d"
  shows "wf_db (snd (snd (Enqueue now stamp sc r rq baseURL (cache, d))))"
proof -
  define d1 where "d1 = (if eq_force rq \<and> eq_host_ids rq \<noteq> [] then force_cancel now stamp sc (eq_host_ids rq) d else d)"
  have "quiet (force_cancel now stamp sc (eq_host_ids rq) d) d"
    by (simp add: quiet_def force_cancel_def map_upd_where)
  then have "wf_db (force_cancel now stamp sc (eq_host_ids rq) d)"
    using wf_quiet [OF assms] force.integrity_kept assms by (auto simp: wf_db_def)
  then have d1: "wf_db d1" using assms by (simp add: d1_def)
  have "set (update_hosts sc rq d1) \<subseteq> set (d_hosts d1)" by (auto simp: update_hosts_def)
  note fold = wf_enqueue_fold [OF this d1]
  let ?r = "snd (snd (Enqueue now stamp sc r rq baseURL (cache, d)))"
  have "?r = d \<or> (\<exists>res. ?r = snd (snd (fold (enqueue_host now stamp r rq baseURL) (update_hosts sc rq d1) (res, cache, d1))))"
    by (simp add: Enqueue_def Let_def d1_def case_prod_unfold split: sum.split) blast
  then show ?thesis using fold assms by auto
qed

lemma wf_AutoEnqueue: "wf_db d \<Longrightarrow> wf_db (snd (snd (AutoEnqueue now stamp agentID r baseURL (cache, d))))"
  by (auto simp: AutoEnqueue_def case_prod_unfold split: option.split sum.split dest: find_SomeD intro!: wf_insertCommand)

section \<open>Hosts and agents\<close>

text \<open>The tables of tasks and commands are as they were; hosts may have come, none has gone.\<close>

definition core :: "db \<Rightarrow> db \<Rightarrow> bool" where
  "core d' d = (d_tasks d' = d_tasks d \<and> d_batches d' = d_batches d \<and> d_thosts d' = d_thosts d \<and> d_cmds d' = d_cmds d \<and>
     d_next_task d' = d_next_task d \<and> d_next_thost d' = d_next_thost d \<and> d_next_cmd d' = d_next_cmd d \<and> same_jobs d' d)"

lemma core_refl [simp]: "core d d"
  by (simp add: core_def)

lemma core_frame [simp]:
  "core (d\<lparr>d_hosts := xo\<rparr>) d0 = core d d0" "core (d\<lparr>d_agents := xa\<rparr>) d0 = core d d0" "core (d\<lparr>d_tokens := xe\<rparr>) d0 = core d d0"
  "core (d\<lparr>d_next_host := n1\<rparr>) d0 = core d d0" "core (d\<lparr>d_next_token := n2\<rparr>) d0 = core d d0" "core (upd_hosts P f d) d0 = core d d0"
  by (simp_all add: core_def upd_hosts_def)

lemma wf_core:
  assumes "wf_db d" "core d' d" "fleet_ok d'" "ho_id ` set (d_hosts d) \<subseteq> ho_id ` set (d_hosts d')"
  shows "wf_db d'"
proof -
  have c: "core d' d" by (rule assms(2))
  then have "integrity d'" using assms(1) by (simp add: core_def wf_db_def integrity_defs)
  moreover have "refs_ok d'" using assms(1,4) c unfolding core_def wf_db_def refs_ok_def cmd_ok_def by auto
  moreover have "thost_uq d'" using assms(1) c by (simp add: core_def wf_db_def thost_uq_def)
  moreover have "store_ok d'"
    using assms(1) c by (simp add: core_def same_jobs_def wf_db_def store_ok_def uq_identity_def)
  ultimately show ?thesis using assms(1,3) c jobs_same [of d' d] by (simp add: core_def wf_db_def)
qed

lemma wf_same: "wf_db d \<Longrightarrow> core d' d \<Longrightarrow> same_fleet d' d \<Longrightarrow> wf_db d'"
  by (rule wf_core) (auto simp: wf_db_def same_fleet_ids intro: fleet_ok_same)

lemma core_HostUpdate: "core (snd (HostUpdate ul ports js ft now sc i rq d)) d"
  by (auto simp: HostUpdate_def triggerTunnelCheck_def Let_def split: sum.splits option.splits)

lemma core_HostBatchUpdate: "core (snd (HostBatchUpdate ul ports js ft sc ids m custom d)) d"
  by (auto simp: HostBatchUpdate_def Let_def split: sum.splits)

lemma core_checks:
  "core (runPlatformTunnelCheck ul ext probe now i d) d" "core (saveAgentTunnelCheck now a r d) d"
  "core (snd (HostTunnelTest ul ext probe now sc i target d)) d" "core (snd (SyncExternalURLToAgents now target d)) d"
  by (auto simp: savePlatformTunnelCheck_def saveAgentTunnelCheck_def runPlatformTunnelCheck_def HostTunnelTest_def
      SyncExternalURLToAgents_def Let_def split: option.splits)

lemma wf_host_writes:
  assumes "wf_db d"
  shows "wf_db (snd (HostUpdate ul ports js ft now sc i rq d))" "wf_db (snd (HostBatchUpdate ul ports js ft sc ids m custom d))"
    "wf_db (runPlatformTunnelCheck ul ext probe now i d)" "wf_db (snd (HostTunnelTest ul ext probe now sc i target d))"
    "wf_db (snd (SyncExternalURLToAgents now target d))" "wf_db (saveAgentTunnelCheck now a r d)"
proof -
  show "wf_db (snd (HostUpdate ul ports js ft now sc i rq d))" using assms core_HostUpdate HostUpdate_same by (rule wf_same)
  show "wf_db (snd (HostBatchUpdate ul ports js ft sc ids m custom d))" using assms core_HostBatchUpdate HostBatchUpdate_same by (rule wf_same)
  show "wf_db (runPlatformTunnelCheck ul ext probe now i d)" using assms core_checks(1) tunnel_checks_same(3) by (rule wf_same)
  show "wf_db (snd (HostTunnelTest ul ext probe now sc i target d))" using assms core_checks(3) tunnel_checks_same(4) by (rule wf_same)
  show "wf_db (snd (SyncExternalURLToAgents now target d))" using assms core_checks(4) tunnel_checks_same(5) by (rule wf_same)
  show "wf_db (saveAgentTunnelCheck now a r d)" using assms core_checks(2) tunnel_checks_same(2) by (rule wf_same)
qed

lemma wf_AgentRegister:
  assumes "wf_db d" "cr_agent_id cr \<noteq> []" "\<forall>h\<in>set (d_hosts d). ho_ip h \<noteq> ip \<longrightarrow> ho_agent_id h \<noteq> cr_agent_id cr"
  shows "wf_db (snd (AgentRegister hash req now ip rq cr d))"
proof (cases "AgentRegister hash req now ip rq cr d")
  case (Pair res d')
  show ?thesis
  proof (cases res)
    case (Inl e)
    with Pair AgentRegister_Inl [of hash req now ip rq cr d e d'] assms(1) show ?thesis by auto
  next
    case (Inr c)
    from Pair Inr have run: "AgentRegister hash req now ip rq cr d = (Inr c, d')" by simp
    obtain tenant d1 i d2 as where
      tok: "(if req then consumeEnrollTokenTx hash now (rr_token rq) ip d else (Some 1, d)) = (Some tenant, d1)" and
      up: "upsert_host now ip tenant rq cr d1 = Some (i, d2)" and d': "d' = d2\<lparr>d_agents := as\<rparr>"
      using AgentRegister_Inr [OF run] by blast
    have d1: "core d1 d" "d_hosts d1 = d_hosts d" using tok by (auto dest: consume_spec split: if_splits)
    have "core d2 d \<and> ho_id ` set (d_hosts d) \<subseteq> ho_id ` set (d_hosts d2)"
      using upsert_host_Some [OF up]
    proof (elim disjE conjE exE bexE)
      fix f assume k: "\<forall>r. fleet_key (f r) = (ho_id r, ho_ip r, cr_agent_id cr, ho_tenant r)"
        and d2: "d2 = d1\<lparr>d_hosts := upd_where (\<lambda>r. ho_ip r = ip) f (d_hosts d1), d_next_host := d_next_host d1 + 1\<rparr>"
      have "map ho_id (d_hosts d2) = map ho_id (d_hosts d1)" using k by (simp add: d2 map_upd_where fleet_key_def)
      from map_eq_image [OF this] d1 show ?thesis by (simp add: d2)
    qed (use d1 in auto)
    moreover have "fleet_ok d'" using AgentRegister_fleet [OF _ assms(2,3), of hash req now rq] assms(1) Pair by (simp add: wf_db_def)
    ultimately show ?thesis using wf_core [OF assms(1), of d'] Pair d' by simp
  qed
qed

lemma wf_mark:
  assumes "wf_db d"
  shows "wf_db (snd (markSelfUpdateSuccess now stamp a hash d))"
proof (rule wf_quiet [OF assms])
  have i: "integrity d" using assms by (simp add: wf_db_def)
  show "quiet (snd (markSelfUpdateSuccess now stamp a hash d)) d"
    using mark_frame(1) [of now stamp a hash d]
    by (auto simp: quiet_def markSelfUpdateSuccess_def Let_def map_upd_where cmd_ref_def finish_self_update_def
        clear_maintenance_def leave_upgrading_def same_jobs_def)
  show "integrity (snd (markSelfUpdateSuccess now stamp a hash d))" using i by (rule heartbeat.integrity_kept)
qed

lemma wf_auto_step: "wf_db d \<Longrightarrow> auto_step au now stamp a (cache, d) = (cache', d') \<Longrightarrow> wf_db d'"
  using wf_AutoEnqueue [of d now stamp a "au_resolver au" "au_base_url au" cache]
  by (auto simp: auto_step_def maybeAutoUpdateAgent_def split: if_splits)

lemma migrate_core:
  "core (migrateLoopbackHostIP a new d) d" "ho_id ` set (d_hosts d) \<subseteq> ho_id ` set (d_hosts (migrateLoopbackHostIP a new d))"
proof -
  let ?hs = "upd_where (\<lambda>h. ho_agent_id h = a \<and> loopback_text (ho_ip h)) (\<lambda>h. h\<lparr>ho_ip := new\<rparr>) (d_hosts d)"
  have "map ho_id ?hs = map ho_id (d_hosts d)" by (simp add: map_upd_where)
  then have i: "ho_id ` set ?hs = ho_id ` set (d_hosts d)" by (rule map_eq_image)
  have "d_hosts (migrateLoopbackHostIP a new d) = d_hosts d \<or> d_hosts (migrateLoopbackHostIP a new d) = ?hs"
    by (simp add: migrateLoopbackHostIP_def Let_def upd_hosts_def split: option.split)
  with i show "ho_id ` set (d_hosts d) \<subseteq> ho_id ` set (d_hosts (migrateLoopbackHostIP a new d))" by (elim disjE) simp_all
  show "core (migrateLoopbackHostIP a new d) d"
    by (simp add: migrateLoopbackHostIP_def Let_def split: option.split)
qed

lemma wf_migrate: "wf_db d \<Longrightarrow> wf_db (migrateLoopbackHostIP a new d)"
  by (rule wf_core [OF _ migrate_core(1) _ migrate_core(2)]) (simp_all add: wf_db_def migrate_fleet)

lemma wf_AgentHeartbeat:
  assumes "wf_db d" "AgentHeartbeat ul au ext skew now stamp src agentID rq (cache, d) = (resp, cache', d')"
  shows "wf_db d'"
proof (cases "agentID = []")
  case True
  with assms show ?thesis by (simp add: AgentHeartbeat_def)
next
  case False
  from AgentHeartbeat_steps [OF assms(2) False] obtain i hs d3 d4 c5 d5 d6 where
    d3: "d3 = migrateLoopbackHostIP agentID src ((upd_hosts (\<lambda>h. ho_agent_id h = agentID) (beat_host ul now rq) d)
      \<lparr>d_agents := upd_where (\<lambda>r. ag_agent_id r = agentID) (beat_agent now rq i) (d_agents d)\<rparr>)"
    and d4: "d4 = d3 \<or> d4 = snd (markSelfUpdateSuccess now stamp agentID hs d3)"
    and s: "auto_step au now stamp agentID (cache, d4) = (c5, d5)"
    and d6: "d6 = d5 \<or> (\<exists>r. d6 = saveAgentTunnelCheck now agentID r d5)"
    and d': "d' = d6 \<or> d' = upd_hosts (\<lambda>h. ho_agent_id h = agentID) (\<lambda>h. h\<lparr>ho_check_requested_at := None\<rparr>) d6" by blast
  let ?d2 = "(upd_hosts (\<lambda>h. ho_agent_id h = agentID) (beat_host ul now rq) d)
      \<lparr>d_agents := upd_where (\<lambda>r. ag_agent_id r = agentID) (beat_agent now rq i) (d_agents d)\<rparr>"
  have f: "fleet_ok d" using assms(1) by (simp add: wf_db_def)
  have w2: "wf_db ?d2" using wf_same [OF assms(1) _ heartbeat_d2 [OF f]] by simp
  have "wf_db d3" unfolding d3 by (rule wf_migrate [OF w2])
  then have "wf_db d5" using d4 wf_mark wf_auto_step [OF _ s] by auto
  then have w6: "wf_db d6" using d6 wf_host_writes(6) by auto
  have "same_fleet (upd_hosts (\<lambda>h. ho_agent_id h = agentID) (\<lambda>h. h\<lparr>ho_check_requested_at := None\<rparr>) d6) d6"
    by (rule same_fleet_hosts) simp
  with d' w6 wf_same [OF w6] show ?thesis by auto
qed

lemma wf_drop_host:
  assumes "wf_db d" "h \<in> set (d_hosts d)"
  shows "wf_db (drop_host h d)"
proof -
  from assms(1) have k: "integrity d" "refs_ok d" "fleet_ok d" "hosts_agree d"
    by (auto simp: wf_db_def integrity_def intro: refs_ok_hosts)
  note e = drop_host_agree [OF k(4), of h]
  have i: "integrity (drop_host h d)" unfolding e
    using integrity_filter [OF k(1), of "\<lambda>c. cm_host_id c \<noteq> ho_id h" "\<lambda>t. th_host_id t \<noteq> ho_id h" "\<lambda>_. True" "\<lambda>_. True"]
    by (simp add: integrity_defs)
  have "refs_ok (drop_host h d)" unfolding e refs_ok_def cmd_ok_def using k(2)
    by (fastforce simp: refs_ok_def cmd_ok_def)
  moreover have "same_jobs (drop_host h d) d" by (simp add: drop_host_def Let_def same_jobs_def)
  moreover have "thost_uq (drop_host h d)" using assms(1) unfolding e by (simp add: wf_db_def thost_uq_def distinct_map_filter)
  moreover have "store_ok (drop_host h d)" using assms(1) unfolding e by (simp add: wf_db_def store_ok_def uq_identity_def)
  ultimately show ?thesis using assms(1) i fleet_ok_drop [OF k(3) assms(2)] jobs_same [of "drop_host h d" d] by (simp add: wf_db_def)
qed

lemma wf_deleteHostTx: "wf_db d \<Longrightarrow> wf_db (snd (deleteHostTx sc i d))"
  by (auto simp: deleteHostTx_def dest: find_SomeD intro: wf_drop_host split: option.split)

lemma wf_delete_hosts: "wf_db d \<Longrightarrow> wf_db (snd (snd (delete_hosts sc is d)))"
proof (induction "is" arbitrary: d)
  case (Cons i "is")
  from wf_deleteHostTx [OF Cons.prems, of sc i] Cons.IH Cons.prems show ?case
    by (fastforce split: prod.splits sum.splits)
qed simp

lemma wf_host_deletes:
  assumes "wf_db d"
  shows "wf_db (snd (HostDelete sc i d))" "wf_db (snd (HostBatchDelete live sc ids d))"
proof -
  show "wf_db (snd (HostDelete sc i d))"
    using wf_deleteHostTx [OF assms, of sc i] assms by (auto simp: HostDelete_def deleteHost_def split: prod.split sum.split)
  show "wf_db (snd (HostBatchDelete live sc ids d))"
    using wf_delete_hosts [OF assms, of sc "take live (unique_positive [] ids)"] assms
    by (auto simp: HostBatchDelete_def Let_def split: prod.split)
qed

text \<open>The background jobs on hosts.\<close>

lemma runHostDeleteJobOnce_writes:
  assumes "wf_db d"
  shows "\<exists>js d1. snd (runHostDeleteJobOnce locked fault now d) = d1\<lparr>d_hjobs := js\<rparr> \<and> wf_db d1"
proof (cases "fault \<or> min_row hj_id (\<lambda>j. hjob_active j \<and> \<not> locked (hj_id j)) (d_hjobs d) = None")
  case True
  then have "snd (runHostDeleteJobOnce locked fault now d) = d\<lparr>d_hjobs := d_hjobs d\<rparr>" by (auto simp: runHostDeleteJobOnce_def)
  with assms show ?thesis by blast
next
  case False
  then obtain j where j: "\<not> fault" "min_row hj_id (\<lambda>j. hjob_active j \<and> \<not> locked (hj_id j)) (d_hjobs d) = Some j" by auto
  show ?thesis
  proof (cases "hj_cancel_requested j \<or> hj_processed j \<ge> length (hj_ids j)")
    case True
    with j assms show ?thesis by (auto simp: runHostDeleteJobOnce_def Let_def)
  next
    case False
    let ?chunk = "take (min (hj_processed j + hostDeleteJobChunk) (length (hj_ids j)) - hj_processed j) (drop (hj_processed j) (hj_ids j))"
    obtain ok bad d1 where c: "delete_hosts (scope_new (hj_tenant j) (hj_cross j)) ?chunk d = (ok, bad, d1)" by (metis prod_cases3)
    with wf_delete_hosts [OF assms, of "scope_new (hj_tenant j) (hj_cross j)" ?chunk] j False show ?thesis
      by (auto simp: runHostDeleteJobOnce_def Let_def)
  qed
qed

lemma wf_host_jobs:
  assumes "wf_db d"
  shows "wf_db (snd (HostDeleteJobCreate sc u a ip now ids d))" "wf_db (snd (HostDeleteJobCancel sc u i d))"
    "wf_db (snd (runHostDeleteJobOnce locked fault now d))" "wf_db (purge_host_jobs now d)"
proof -
  from assms have j: "hjobs_ok d" "jobs_ok d" by (auto simp: wf_db_def)
  show "wf_db (snd (HostDeleteJobCreate sc u a ip now ids d))"
  proof (cases "snd (HostDeleteJobCreate sc u a ip now ids d) = d")
    case False
    let ?r = "snd (HostDeleteJobCreate sc u a ip now ids d)"
    from False have e: "?r = d\<lparr>d_hjobs := d_hjobs ?r, d_next_hjob := d_next_hjob d + 1\<rparr>"
      by (auto simp: HostDeleteJobCreate_def Let_def split: option.splits if_splits)
    have ok: "jobs_ok ?r" by (subst e) (use j(2) in \<open>simp add: jobs_ok_def\<close>)
    show ?thesis
      by (rule wf_jobs [OF assms _ HostDeleteJobCreate_ok [OF j(1)], where js = "d_jobs d" and n = "d_next_job d" and
          hjs = "d_hjobs ?r" and m = "d_next_hjob d + 1"]) (rule ok, simp add: e [symmetric])
  qed (use assms in simp)
  show "wf_db (snd (HostDeleteJobCancel sc u i d))"
    using HostDeleteJobCancel_ok [OF j(1), of sc u i] wf_hjobs_table [OF assms]
    by (auto simp: HostDeleteJobCancel_def Let_def split: option.split)
  show "wf_db (purge_host_jobs now d)"
    using purge_host_jobs_ok [OF j(1), of now] wf_hjobs_table [OF assms] by (simp add: purge_host_jobs_def)
  show "wf_db (snd (runHostDeleteJobOnce locked fault now d))"
    using runHostDeleteJobOnce_writes [OF assms, of locked fault now] host_round_ok [OF j(1), of locked fault now] wf_hjobs_table by auto
qed

text \<open>An import adds hosts without an agent and edits others.\<close>

lemma wf_next_host: "wf_db d \<Longrightarrow> wf_db (d\<lparr>d_next_host := d_next_host d + 1\<rparr>)"
  by (rule wf_core [where d = d]) (simp_all add: wf_db_def fleet_ok_skip_id)

lemma wf_insert_manual:
  assumes "wf_db d" "\<not> exists_row (\<lambda>h. ho_ip h = ip) (d_hosts d)"
  shows "wf_db (insert_manual ip tenant f c d)"
proof -
  obtain vs t ov where f: "f = (vs, t, ov)" by (metis prod_cases3)
  let ?h = "(write_host vs t ov (if no_custom c then None else c) (blank_host (d_next_host d) ip tenant))\<lparr>ho_source := ''manual''\<rparr>"
  have h: "ho_ip ?h = ip" "ho_id ?h = d_next_host d" "ho_agent_id ?h = []" by (simp_all add: write_host_def blank_host_def)
  have "fleet_ok (d\<lparr>d_hosts := d_hosts d @ [?h], d_next_host := d_next_host d + 1\<rparr>)"
    by (rule fleet_ok_new_host) (use assms h in \<open>simp_all add: wf_db_def\<close>)
  then show ?thesis using assms(1) unfolding f insert_manual_def by (intro wf_core [OF assms(1)]) auto
qed

lemma wf_import_row: "wf_db d \<Longrightarrow> wf_db (snd (import_row ul ports js ft sc ce cm idx nrec (r, d)))"
proof -
  assume w: "wf_db d"
  have u: "wf_db (upd_hosts P (hostUpdateSets f c) d)" for P f c
    by (rule wf_same [OF w]) (simp_all add: same_fleet_hosts)
  show ?thesis using w u wf_next_host [OF w] wf_insert_manual [OF w]
    by (auto simp: import_row_def Let_def split: prod.split sum.split option.split)
qed

lemma wf_import_fold: "wf_db (snd st) \<Longrightarrow> wf_db (snd (fold (import_row ul ports js ft sc ce cm idx) recs st))"
proof (induction recs arbitrary: st)
  case (Cons x recs)
  obtain r d where "st = (r, d)" by fastforce
  with Cons wf_import_row [of d ul ports js ft sc ce cm idx x r] show ?case by simp
qed simp

lemma wf_HostImportCSV: "wf_db d \<Longrightarrow> wf_db (snd (HostImportCSV ul ports js ft sc ce cm recs d))"
proof -
  assume w: "wf_db d"
  let ?idx = "map (column_of (field_list HostFields ft)) (hd recs)"
  have "wf_db (snd (fold (import_row ul ports js ft sc ce cm ?idx) (zip [2 ..< length recs + 1] (tl recs))
      (\<lparr>ir_created = 0, ir_updated = 0, ir_skipped = 0, ir_errors = []\<rparr>, d)))" using w by (intro wf_import_fold) simp
  with w show ?thesis by (auto simp: HostImportCSV_def Let_def case_prod_unfold simp del: upt_Suc fold.simps split: if_splits)
qed

section \<open>Enrolment tokens and field values\<close>

lemma wf_tokens [simp]: "wf_db (d\<lparr>d_tokens := ts\<rparr>) = wf_db d" "wf_db (d\<lparr>d_next_token := n\<rparr>) = wf_db d"
  by (simp_all add: wf_db_def integrity_defs refs_ok_def cmd_ok_def fleet_ok_def jobs_ok_def hjobs_ok_def thost_uq_def store_ok_def uq_identity_def)

lemma wf_insert_token [simp]: "wf_db (insert_token t d) = wf_db d"
  "wf_db (snd (insertAutomationToken hash now token pre tenant name note creator expires uses cidrs d)) = wf_db d"
  by (simp_all add: insert_token_def insertAutomationToken_def Let_def)

lemma wf_delete_tokens: "wf_db (snd (delete_tokens u is d)) = wf_db d"
  by (induction u "is" d rule: delete_tokens.induct) (auto simp: Let_def split: prod.split)

lemma wf_token_requests:
  assumes "wf_db d"
  shows "wf_db (snd (AgentEnrollToken hash token now ttl actor want os arch d))"
    "wf_db (snd (AutomationEnrollTokenCreate hash rfc rnd now actor acc rq d))"
    "wf_db (snd (AutomationEnrollTokenRevoke now actor i d))"
    "wf_db (snd (AutomationEnrollTokenRotate hash rnd now actor i os arch d))"
    "wf_db (snd (AutomationEnrollTokenBatchDelete actor ids d))"
proof -
  show "wf_db (snd (AgentEnrollToken hash token now ttl actor want os arch d))"
    using assms by (simp add: AgentEnrollToken_def Let_def)
  show "wf_db (snd (AutomationEnrollTokenRevoke now actor i d))"
    using assms by (simp add: AutomationEnrollTokenRevoke_def Let_def split: option.split)
  show "wf_db (snd (AutomationEnrollTokenBatchDelete actor ids d))"
    using assms wf_delete_tokens by (simp add: AutomationEnrollTokenBatchDelete_def Let_def case_prod_unfold split: option.split)
  show "wf_db (snd (AutomationEnrollTokenCreate hash rfc rnd now actor acc rq d))"
    using assms by (simp add: AutomationEnrollTokenCreate_def Let_def case_prod_unfold split: sum.split option.split)
  show "wf_db (snd (AutomationEnrollTokenRotate hash rnd now actor i os arch d))"
    using assms by (simp add: AutomationEnrollTokenRotate_def Let_def case_prod_unfold split: sum.split option.split)
qed

lemma wf_field_writes:
  assumes "wf_db d"
  shows "wf_db (snd (SaveHostValues i vs d))" "wf_db (snd (snd (field_delete k i t d)))"
proof -
  have m: "wf_db (d\<lparr>d_hosts := map f (d_hosts d)\<rparr>)" if "\<And>h. fleet_key (f h) = fleet_key h" for f
    by (rule wf_same [OF assms]) (simp_all add: same_fleet_def that comp_def)
  have "wf_db (upd_hosts P f d)" if "\<And>h. fleet_key (f h) = fleet_key h" for P f
    by (rule wf_same [OF assms]) (simp_all add: same_fleet_hosts that)
  then have "wf_db (d\<lparr>d_hosts := upd_where P f (d_hosts d)\<rparr>)" if "\<And>h. fleet_key (f h) = fleet_key h" for P f
    using that by (simp add: upd_hosts_def)
  then show "wf_db (snd (SaveHostValues i vs d))" using assms by (simp add: SaveHostValues_def fleet_key_def)
  have "wf_db (d\<lparr>d_hosts := map (\<lambda>h. h\<lparr>ho_custom_fields := g h\<rparr>) (d_hosts d)\<rparr>)" for g
    by (rule m) (simp add: fleet_key_def)
  then show "wf_db (snd (snd (field_delete k i t d)))"
    using assms by (simp add: field_delete_def Let_def split: sum.split field_kind.split)
qed

section \<open>All transactions\<close>

text \<open>The requests of agents. The credentials of a registration are drawn at random: the new agent id is none that
  a host at another address has.\<close>

inductive agent_request :: "db \<Rightarrow> db \<Rightarrow> bool" where
  Dequeue: "agent_request d (snd (Dequeue hmac marshal locked now nonce a d))"
| Ack: "agent_request d (snd (Ack now stamp a i status reason d))"
| Stage: "agent_request d (UpdateStage now stamp a i stage message d)"
| Report: "agent_request d (snd (Report quote now stamp consul a j rp d))"
| Maintenance: "agent_request d (EnterMaintenance now a secs d)"
| Heartbeat: "agent_request d (snd (snd (AgentHeartbeat ul au ext skew now stamp src a hb (cache, d))))"
| Register: "cr_agent_id cr \<noteq> [] \<Longrightarrow> \<forall>h\<in>set (d_hosts d). ho_ip h \<noteq> src \<longrightarrow> ho_agent_id h \<noteq> cr_agent_id cr \<Longrightarrow>
    agent_request d (snd (AgentRegister hash req now src rr cr d))"
| RegisterUpdate: "cr_agent_id cr \<noteq> [] \<Longrightarrow> \<forall>h\<in>set (d_hosts d). ho_ip h \<noteq> src \<longrightarrow> ho_agent_id h \<noteq> cr_agent_id cr \<Longrightarrow>
    agent_request d (snd (snd (register_and_update hash au req now stamp src rr cr (cache, d))))"

text \<open>The requests of users that concern tasks, components, artifacts and updates of agents. Deleting several components or
  artifacts at once is a sequence of such steps. A remote object store is its contents.\<close>

type_synonym objects = "string \<Rightarrow> string option"

inductive task_request :: "db \<Rightarrow> db \<Rightarrow> bool" where
  Create: "\<forall>xs. mset (order xs) = mset xs \<Longrightarrow> Create order urlp pc now sc rq d = Some (r, d') \<Longrightarrow> task_request d d'"
| Start: "task_request d (snd (Start pc actor now sc i d))"
| Promote: "task_request d (snd (Promote pc actor now sc i d))"
| Pause: "task_request d (snd (Pause pc actor now sc i d))"
| Cancel: "task_request d (snd (Cancel pc actor now sc i d))"
| Retry: "task_request d (snd (Retry pc actor now stamp sc i rt d))"
| DeleteTask: "task_request d (snd (DeleteTask pc actor sc i d))"
| BatchDelete: "task_request d (snd (BatchDelete pc actor sc ids d))"
| CreateDeleteJob: "task_request d (snd (CreateDeleteJob actor now sc ip ids d))"
| CancelDeleteJob: "task_request d (snd (CancelDeleteJob actor sc i d))"
| CreateComponent: "task_request d (snd (comp_create urlp sc c d))"
| UpdateComponent: "task_request d (snd (comp_update urlp sc c d))"
| DeleteComponent: "task_request d (snd (comp_delete sc i cascade d))"
| SaveArtifact: "Save md5 sha elf fault r sc meta src (d, w :: objects world) = (res, d', w') \<Longrightarrow> task_request d d'"
| DeleteArtifact: "Delete_art held r sc i (d, w :: objects world) = (res', d', w') \<Longrightarrow> task_request d d'"
| PurgeArtifacts: "PurgeByComponent held r sc i (d, w :: objects world) = (res'', d', w') \<Longrightarrow> task_request d d'"
| Enqueue: "task_request d (snd (snd (Enqueue now stamp sc r eq baseURL (cache, d))))"

text \<open>The requests of users that concern hosts, their fields and the tokens for new ones.\<close>

inductive host_request :: "db \<Rightarrow> db \<Rightarrow> bool" where
  HostUpdate: "host_request d (snd (HostUpdate ul ports js ft now sc i rq d))"
| HostBatchUpdate: "host_request d (snd (HostBatchUpdate ul ports js ft sc ids m custom d))"
| HostImport: "host_request d (snd (HostImportCSV ul ports js ft sc clear_empty create_missing recs d))"
| HostDelete: "host_request d (snd (HostDelete sc i d))"
| HostBatchDelete: "host_request d (snd (HostBatchDelete live sc ids d))"
| HostJobCreate: "host_request d (snd (HostDeleteJobCreate sc u actor ip now ids d))"
| HostJobCancel: "host_request d (snd (HostDeleteJobCancel sc u i d))"
| TunnelTest: "host_request d (snd (HostTunnelTest ul ext probe now sc i target d))"
| SaveValues: "host_request d (snd (SaveHostValues i vs d))"
| DeleteField: "host_request d (snd (snd (field_delete k i t d)))"
| EnrollToken: "host_request d (snd (AgentEnrollToken hash token now ttl user want os arch d))"
| TokenCreate: "host_request d (snd (AutomationEnrollTokenCreate hash rfc rnd now user acc tr d))"
| TokenRevoke: "host_request d (snd (AutomationEnrollTokenRevoke now user i d))"
| TokenRotate: "host_request d (snd (AutomationEnrollTokenRotate hash rnd now user i os arch d))"
| TokenDelete: "host_request d (snd (AutomationEnrollTokenBatchDelete user ids d))"

text \<open>What the server does on its own. A round of the orchestrator is also given step by step, so that any request may
  come between its steps, and the row of the task it advances may be outdated by then.\<close>

inductive background :: "db \<Rightarrow> db \<Rightarrow> bool" where
  Tick: "background d (tick (Some (\<lambda>d. snd (ReconcileTasks now stamp d))) urlp pc now stamp d)"
| Reconcile: "background d (snd (ReconcileTasks now stamp d))"
| Advance: "background d (snd (advance urlp pc now stamp t d))"
| TaskJobs: "background d (snd (runDeleteJobOnce pc locked tf now d))"
| TaskJobsPurge: "background d (purge_jobs now d)"
| HostJobs: "background d (snd (runHostDeleteJobOnce locked hf now d))"
| HostJobsPurge: "background d (purge_host_jobs now d)"
| TunnelCheck: "background d (runPlatformTunnelCheck ul ext probe now i d)"
| SyncURL: "background d (snd (SyncExternalURLToAgents now target d))"
| CleanExpired: "background d (cleanupExpiredData now d)"
| CleanCommands: "background d (cleanupOldCommands now d)"
| Archive: "background d (archiveOldTasks now d)"

inductive transaction :: "db \<Rightarrow> db \<Rightarrow> bool" where
  "agent_request d d' \<Longrightarrow> transaction d d'"
| "task_request d d' \<Longrightarrow> transaction d d'"
| "host_request d d' \<Longrightarrow> transaction d d'"
| "background d d' \<Longrightarrow> transaction d d'"

inductive_simps transaction_iff: "transaction d d'"

lemma wf_EnterMaintenance: "wf_db d \<Longrightarrow> wf_db (EnterMaintenance now a n d)"
  by (rule wf_same) (auto simp: EnterMaintenance_def Let_def core_def same_fleet_def map_upd_where fleet_key_def)

lemma wf_register_and_update:
  assumes "wf_db d" "cr_agent_id cr \<noteq> []" "\<forall>h\<in>set (d_hosts d). ho_ip h \<noteq> src \<longrightarrow> ho_agent_id h \<noteq> cr_agent_id cr"
  shows "wf_db (snd (snd (register_and_update hash au req now stamp src rr cr (cache, d))))"
proof -
  obtain res d1 where r: "AgentRegister hash req now src rr cr d = (res, d1)" by fastforce
  with wf_AgentRegister [OF assms, of hash req now rr] have "wf_db d1" by simp
  then have "wf_db (snd (auto_step au now stamp a (cache, d1)))" for a
    using wf_auto_step [of d1 au now stamp a cache] by (metis prod.collapse)
  with r \<open>wf_db d1\<close> show ?thesis by (simp add: register_and_update_def split: sum.split)
qed

lemma wf_filter_cmds:
  assumes "wf_db d"
  shows "wf_db (d\<lparr>d_cmds := filter P (d_cmds d)\<rparr>)"
proof -
  have "integrity (d\<lparr>d_cmds := filter P (d_cmds d)\<rparr>)"
    using integrity_filter [of d P "\<lambda>_. True" "\<lambda>_. True" "\<lambda>_. True"] assms by (simp add: wf_db_def)
  moreover have "refs_ok (d\<lparr>d_cmds := filter P (d_cmds d)\<rparr>)" using assms by (auto simp: wf_db_def refs_ok_def cmd_ok_def)
  ultimately show ?thesis using assms
    by (simp add: wf_db_def thost_uq_def store_ok_def uq_identity_def fleet_ok_def jobs_ok_def hjobs_ok_def)
qed

lemma wf_maintenance:
  assumes "wf_db d"
  shows "wf_db (cleanupExpiredData now d)" "wf_db (cleanupOldCommands now d)" "wf_db (archiveOldTasks now d)"
proof -
  let ?P = "\<lambda>c. \<not> (cm_status c = CmdPending \<and> null_before (cm_expire_at c) (now - days 7))"
  have "wf_db (upd_hosts (\<lambda>h. null_before (ho_maintenance_until h) (now - days 1))
       (\<lambda>h. h\<lparr>ho_maintenance_until := None, ho_maintenance_reason := []\<rparr>) (d\<lparr>d_cmds := filter ?P (d_cmds d)\<rparr>))"
    by (rule wf_same [OF wf_filter_cmds [OF assms, of ?P]]) (simp_all add: same_fleet_hosts fleet_key_def)
  then show "wf_db (cleanupExpiredData now d)" by (simp add: cleanupExpiredData_def upd_hosts_def)
  show "wf_db (cleanupOldCommands now d)" unfolding cleanupOldCommands_def by (rule wf_filter_cmds [OF assms])
  show "wf_db (archiveOldTasks now d)"
  proof (rule wf_quiet [OF assms])
    show "quiet (archiveOldTasks now d) d"
      by (simp add: quiet_def archiveOldTasks_def map_upd_where task_ref_def)
    have i: "integrity d" using assms by (simp add: wf_db_def)
    let ?ts = "d_tasks (archiveOldTasks now d)"
    have m: "map tk_id ?ts = map tk_id (d_tasks d)" by (simp add: archiveOldTasks_def map_upd_where)
    have "tk_id t < d_next_task d" if "t \<in> set ?ts" for t
    proof -
      from that have "tk_id t \<in> tk_id ` set (d_tasks d)" unfolding map_eq_image [OF m, symmetric] by (rule imageI)
      with i show ?thesis by (auto simp: integrity_def task_keys_def list_all_iff)
    qed
    then have "list_all (\<lambda>t. tk_id t < d_next_task d) ?ts" by (simp add: list_all_iff)
    with i show "integrity (archiveOldTasks now d)"
      by (simp add: integrity_defs archiveOldTasks_def map_upd_where)
  qed
qed

lemma wf_agents: "agent_request d d' \<Longrightarrow> wf_db d \<Longrightarrow> wf_db d'"
proof (induction rule: agent_request.induct)
  case (Heartbeat d ul au ext skew now stamp src a hb cache)
  then show ?case
    by (cases "AgentHeartbeat ul au ext skew now stamp src a hb (cache, d)") (simp add: wf_AgentHeartbeat)
qed (simp_all add: wf_agent_request wf_AgentRegister wf_EnterMaintenance wf_register_and_update)

lemma wf_users: "task_request d d' \<Longrightarrow> wf_db d \<Longrightarrow> wf_db d'"
proof (induction rule: task_request.induct)
  case Create
  then show ?case by (blast intro: wf_Create)
next
  case SaveArtifact
  then show ?case by (blast intro: wf_Save)
next
  case DeleteArtifact
  then show ?case by (blast intro: wf_art_delete(1))
next
  case PurgeArtifacts
  then show ?case by (blast intro: wf_art_delete(2))
qed (simp_all add: wf_task_op wf_DeleteTask wf_BatchDelete wf_task_jobs wf_comp_create wf_comp_update wf_comp_delete wf_Enqueue)

lemma wf_operators: "host_request d d' \<Longrightarrow> wf_db d \<Longrightarrow> wf_db d'"
  by (induction rule: host_request.induct)
    (simp_all add: wf_host_writes wf_HostImportCSV wf_host_deletes wf_host_jobs wf_field_writes wf_token_requests)

lemma wf_background: "background d d' \<Longrightarrow> wf_db d \<Longrightarrow> wf_db d'"
  by (induction rule: background.induct) (simp_all add: wf_tick wf_agent_request wf_advance wf_task_jobs wf_host_jobs wf_host_writes wf_maintenance)

lemma wf_transaction: "transaction d d' \<Longrightarrow> wf_db d \<Longrightarrow> wf_db d'"
  using wf_agents wf_users wf_operators wf_background by (auto simp: transaction_iff)

definition empty_db :: db where
  "empty_db = \<lparr>d_tasks = [], d_batches = [], d_thosts = [], d_cmds = [], d_hosts = [], d_agents = [], d_comps = [],
     d_arts = [], d_jobs = [], d_next_task = 1, d_next_thost = 1, d_next_cmd = 1, d_next_job = 1, d_next_comp = 1,
     d_next_art = 1, d_tokens = [], d_next_token = 1, d_next_host = 1, d_hjobs = [], d_next_hjob = 1\<rparr>"

lemma wf_empty: "wf_db empty_db"
  by (simp add: wf_db_def empty_db_def integrity_defs refs_ok_def fleet_ok_def jobs_ok_def hjobs_ok_def table_ok_def unique_where_def
      thost_uq_def store_ok_def uq_identity_def)

text \<open>C1: Whatever agents and users ask and the background work of the server does, in any order - every operation of the
  library on these tables; the import of hosts from Consul is not among them, and a registration is given a number
  that no other host has - a database that began empty stays well formed. Numbers of tasks, host rows,
  commands, hosts, agents, components, artifacts and jobs are unique, as are the index of a batch in its task, the host in a
  task, the address and the agent of a host, the name of a component and the identity of an artifact; no two unfinished
  commands are for one host row and no two unfinished self updates for one agent; host rows, batches, commands,
  artifacts and tasks name tasks, hosts, host rows and components that exist, and a command for a host row goes
  to the host of that row; an agent and its host name each other; and the deletion jobs are consistent.\<close>

theorem reachable_wf:
  assumes "transaction^** empty_db d"
  shows "wf_db d"
  using assms by (induction rule: rtranclp_induct) (simp_all add: wf_empty wf_transaction)

section \<open>Ended rows\<close>

text \<open>Ended commands and ended host rows are still there as they were.\<close>

definition keeps_ended :: "db \<Rightarrow> db \<Rightarrow> bool" where
  "keeps_ended d d' = ((\<forall>c\<in>set (d_cmds d). cmd_ended (cm_status c) \<longrightarrow> c \<in> set (d_cmds d')) \<and>
     (\<forall>h\<in>set (d_thosts d). thost_ended (th_status h) \<longrightarrow> h \<in> set (d_thosts d')))"

lemma keeps_ended_trans: "keeps_ended d d1 \<Longrightarrow> keeps_ended d1 d2 \<Longrightarrow> keeps_ended d d2"
  by (auto simp: keeps_ended_def)

lemma keeps_ended_core: "core d' d \<Longrightarrow> keeps_ended d d'"
  by (simp add: keeps_ended_def core_def)

lemma keeps_ended_core_trans: "keeps_ended d d1 \<Longrightarrow> core d2 d1 \<Longrightarrow> keeps_ended d d2"
  by (auto intro: keeps_ended_trans keeps_ended_core)

lemma keeps_ended_gateway:
  assumes "wf_db d"
  shows "keeps_ended d (snd (Dequeue hmac marshal locked now nonce a d))" "keeps_ended d (snd (Ack now stamp a i status reason d))"
    "keeps_ended d (UpdateStage now stamp a i stage message d)" "keeps_ended d (snd (Report quote now stamp consul a j rq d))"
    "keeps_ended d (snd (markSelfUpdateSuccess now stamp a hash d))"
proof -
  from assms have k: "cmd_keys d" "thost_keys d" by (auto simp: wf_db_def integrity_def)
  show "keeps_ended d (snd (Dequeue hmac marshal locked now nonce a d))"
    using dequeue.ended_kept [OF k(1)] dequeue.thost_ended_kept [OF k(2)] by (simp add: keeps_ended_def)
  show "keeps_ended d (snd (Ack now stamp a i status reason d))"
    using ack.ended_kept [OF k(1)] ack.thost_ended_kept [OF k(2)] by (simp add: keeps_ended_def)
  show "keeps_ended d (UpdateStage now stamp a i stage message d)"
    using stage.ended_kept [OF k(1)] stage.thost_ended_kept [OF k(2)] by (simp add: keeps_ended_def)
  show "keeps_ended d (snd (Report quote now stamp consul a j rq d))"
    using report.ended_kept [OF k(1)] report.thost_ended_kept [OF k(2)] by (simp add: keeps_ended_def)
  show "keeps_ended d (snd (markSelfUpdateSuccess now stamp a hash d))"
    using heartbeat.ended_kept [OF k(1)]
    by (auto simp: keeps_ended_def markSelfUpdateSuccess_def Let_def clear_maintenance_def leave_upgrading_def)
qed

lemma keeps_ended_AutoEnqueue: "keeps_ended d (snd (snd (AutoEnqueue now stamp a r baseURL (cache, d))))"
proof -
  have "keeps_ended d (snd (insertCommand now stamp h t d))" for h t
    by (rule insertCommand_cases [of now stamp h t d]) (auto simp: keeps_ended_def insert_command_def)
  then show ?thesis by (auto simp: AutoEnqueue_def case_prod_unfold keeps_ended_core split: option.split sum.split)
qed

lemma keeps_ended_auto_step: "auto_step au now stamp a (cache, d) = (cache', d') \<Longrightarrow> keeps_ended d d'"
  using keeps_ended_AutoEnqueue [of d now stamp a "au_resolver au" "au_base_url au" cache]
  by (auto simp: auto_step_def maybeAutoUpdateAgent_def keeps_ended_core split: if_splits)

lemma keeps_ended_AgentHeartbeat:
  assumes "wf_db d" "AgentHeartbeat ul au ext skew now stamp src agentID rq (cache, d) = (resp, cache', d')"
  shows "keeps_ended d d'"
proof (cases "agentID = []")
  case True
  with assms show ?thesis by (simp add: AgentHeartbeat_def keeps_ended_core)
next
  case False
  from AgentHeartbeat_steps [OF assms(2) False] obtain i hs d3 d4 c5 d5 d6 where
    d3: "d3 = migrateLoopbackHostIP agentID src ((upd_hosts (\<lambda>h. ho_agent_id h = agentID) (beat_host ul now rq) d)
      \<lparr>d_agents := upd_where (\<lambda>r. ag_agent_id r = agentID) (beat_agent now rq i) (d_agents d)\<rparr>)"
    and d4: "d4 = d3 \<or> d4 = snd (markSelfUpdateSuccess now stamp agentID hs d3)"
    and s: "auto_step au now stamp agentID (cache, d4) = (c5, d5)"
    and d6: "d6 = d5 \<or> (\<exists>r. d6 = saveAgentTunnelCheck now agentID r d5)"
    and d': "d' = d6 \<or> d' = upd_hosts (\<lambda>h. ho_agent_id h = agentID) (\<lambda>h. h\<lparr>ho_check_requested_at := None\<rparr>) d6" by blast
  let ?d2 = "(upd_hosts (\<lambda>h. ho_agent_id h = agentID) (beat_host ul now rq) d)
      \<lparr>d_agents := upd_where (\<lambda>r. ag_agent_id r = agentID) (beat_agent now rq i) (d_agents d)\<rparr>"
  have f: "fleet_ok d" using assms(1) by (simp add: wf_db_def)
  have "wf_db ?d2" using wf_same [OF assms(1) _ heartbeat_d2 [OF f]] by simp
  then have w3: "wf_db d3" unfolding d3 by (rule wf_migrate)
  have "keeps_ended ?d2 d3" unfolding d3 by (rule keeps_ended_core [OF migrate_core(1)])
  moreover have "keeps_ended d ?d2" by (rule keeps_ended_core) simp
  ultimately have "keeps_ended d d3" using keeps_ended_trans by blast
  with d4 keeps_ended_gateway(5) [OF w3] have "keeps_ended d d4" using keeps_ended_trans by blast
  with keeps_ended_auto_step [OF s] have "keeps_ended d d5" using keeps_ended_trans by blast
  with d6 core_checks(2) have "keeps_ended d d6" using keeps_ended_core_trans by blast
  with d' show ?thesis by (auto intro: keeps_ended_core_trans)
qed

lemma core_AgentRegister:
  assumes "AgentRegister hash req now ip rq cr d = (Inr c, d')"
  shows "core d' d"
proof -
  obtain tenant d1 i d2 as where
    tok: "(if req then consumeEnrollTokenTx hash now (rr_token rq) ip d else (Some 1, d)) = (Some tenant, d1)" and
    up: "upsert_host now ip tenant rq cr d1 = Some (i, d2)" and d': "d' = d2\<lparr>d_agents := as\<rparr>"
    using AgentRegister_Inr [OF assms] by blast
  have "core d1 d" using tok by (auto dest: consume_spec split: if_splits)
  moreover have "core d2 d1" using upsert_host_Some [OF up] by auto
  ultimately show ?thesis unfolding d' by (simp add: core_def same_jobs_def)
qed

lemma keeps_ended_register: "keeps_ended d (snd (AgentRegister hash req now ip rq cr d))"
proof (cases "AgentRegister hash req now ip rq cr d")
  case (Pair res d')
  then show ?thesis using AgentRegister_Inl [of hash req now ip rq cr d _ d'] core_AgentRegister [of hash req now ip rq cr d _ d']
    by (cases res) (auto simp: keeps_ended_core)
qed

lemma keeps_ended_register_and_update:
  "keeps_ended d (snd (snd (register_and_update hash au req now stamp src rr cr (cache, d))))"
proof -
  obtain res d1 where r: "AgentRegister hash req now src rr cr d = (res, d1)" by fastforce
  have "keeps_ended d d1" using keeps_ended_register [of d hash req now src rr cr] r by simp
  moreover have "keeps_ended d1 (snd (auto_step au now stamp a (cache, d1)))" for a
    using keeps_ended_auto_step [of au now stamp a cache d1] by (metis prod.collapse)
  ultimately show ?thesis using r keeps_ended_trans by (auto simp: register_and_update_def split: sum.split)
qed

lemma keeps_ended_request: "agent_request d d' \<Longrightarrow> wf_db d \<Longrightarrow> keeps_ended d d'"
proof (induction rule: agent_request.induct)
  case (Heartbeat d ul au ext skew now stamp src a hb cache)
  then show ?case
    by (cases "AgentHeartbeat ul au ext skew now stamp src a hb (cache, d)") (simp add: keeps_ended_AgentHeartbeat)
next
  case Maintenance
  show ?case by (rule keeps_ended_core) (simp add: EnterMaintenance_def Let_def)
qed (simp_all add: keeps_ended_gateway keeps_ended_register keeps_ended_register_and_update)

text \<open>C6: no requests of agents, of any kind, in any number and order, write an ended command (success, failed, rolled
  back, timeout, expired, canceled) or an ended host row: lease recovery, cancelation and the first final
  report win.\<close>

theorem gateway_ended_kept:
  assumes "wf_db d" and "agent_request^** d d'"
    and "c \<in> set (d_cmds d)" and "cmd_ended (cm_status c)"
    and "h \<in> set (d_thosts d)" and "thost_ended (th_status h)"
  shows "c \<in> set (d_cmds d') \<and> h \<in> set (d_thosts d')"
proof -
  from assms(2) have "wf_db d' \<and> keeps_ended d d'"
  proof (induction rule: rtranclp_induct)
    case base
    from assms(1) show ?case by (simp add: keeps_ended_core)
  next
    case (step d1 d2)
    with wf_agents keeps_ended_request keeps_ended_trans show ?case by blast
  qed
  with assms(3-6) show ?thesis by (simp add: keeps_ended_def)
qed

end
