(* ===== verification/FleetExamples.thy ===== *)
theory FleetExamples
  imports SelfUpdateSafety TaskExamples HostJobs Transactions
begin

text \<open>
  Self updates in the sample database, where agent \<open>a2\<close> has an unfinished self update and agent \<open>a1\<close> is
  busy with another command.
\<close>

definition ex_resolver :: resolver where
  "ex_resolver = \<lparr>rs_dir = ''/dist'', rs_version = ''2.4'', rs_cwd = None,
     rs_stat = (\<lambda>p. if p = ''/dist/upgrade-agent-linux-amd64''
                    then Some \<lparr>fi_is_dir = False, fi_regular = True, fi_size = 9, fi_mod = 1, fi_sum = Some ''ab''\<rparr> else None),
     rs_names = Some [''upgrade-agent-linux-amd64'', ''notes'']\<rparr>"

definition ex_enqueue :: enqueue_request where
  "ex_enqueue = \<lparr>eq_host_ids = [1, 2], eq_all_outdated = False, eq_force = True, eq_variant = []\<rparr>"

theorem Enqueue_safe_witness:
  "\<exists>res cache' d'. Enqueue 100 ''t'' ex_scope ex_resolver ex_enqueue ''http://s/'' (\<lambda>p. None, ex_db) = (Inr res, cache', d') \<and>
    er_enqueued res = 1 \<and> er_skipped res = [(1, SkipBusy)] \<and> integrity d' \<and> ex_cmd \<in> set (d_cmds d')"
proof -
  let ?e = "Enqueue 100 ''t'' ex_scope ex_resolver ex_enqueue ''http://s/'' (\<lambda>p. None, ex_db)"
  have "case ?e of (Inl e, st) \<Rightarrow> False | (Inr res, st) \<Rightarrow> er_enqueued res = 1 \<and> er_skipped res = [(1, SkipBusy)]"
    by code_simp
  then obtain res cache' d' where e: "?e = (Inr res, cache', d')" "er_enqueued res = 1" "er_skipped res = [(1, SkipBusy)]"
    by (auto split: prod.splits sum.splits)
  have "ex_cmd \<in> set (d_cmds ex_db)" "cm_type ex_cmd \<noteq> CmdSelfUpdate" by (simp_all add: ex_db_def ex_rows)
  with Enqueue_safe [OF ex_integrity e(1)] have "integrity d' \<and> ex_cmd \<in> set (d_cmds d')"
    unfolding named_update_def by blast
  with e show ?thesis by blast
qed

theorem binary_name_roundtrip_witness:
  "parseBinaryName ''upgrade-agent-linux-arm64-legacy'' = Some (''linux'', ''arm64'', ''legacy'')"
proof -
  let ?t = "\<lparr>tg_os = ''linux'', tg_arch = ''arm64'', tg_variant = ''legacy'', tg_version = [], tg_sha256 = [], tg_size = 0, tg_url = []\<rparr>"
  have "NormalizeOS '' Linux '' = Inr (tg_os ?t)"
    "NormalizeArchVariantForOS (tg_os ?t) ''ARM64-legacy'' [] = Inr (tg_arch ?t, tg_variant ?t)"
    "Filename ?t = ''upgrade-agent-linux-arm64-legacy''" by code_simp+
  with binary_name_roundtrip [of "'' Linux ''" ?t "''ARM64-legacy''" "[]"] show ?thesis by simp
qed

theorem autoUpdateSelected_mono_witness:
  "autoUpdateSelected (\<lambda>s. s) ''aaab'' 90"
  by (rule autoUpdateSelected_mono [of "\<lambda>s. s" "''aaab''" 75]) code_simp+

text \<open>
  A fleet of two hosts with their agents and a one-time token, on which the statements about registration,
  heartbeats and deletion of hosts are applied.
\<close>

definition ex_enroll_token :: enroll_token_row where
  "ex_enroll_token = (new_token 5 1 ''tok'' ''one_time'' ''alice'')\<lparr>et_expires_at := Some 900\<rparr>"

definition ex_fleet :: db where
  "ex_fleet = ex_db\<lparr>d_agents := [ex_agent, ex_agent2\<lparr>ag_host_id := Some 2, ag_ip := ''10.0.0.2''\<rparr>], d_tokens := [ex_enroll_token],
     d_next_token := 2\<rparr>"

definition ex_register :: register_request where
  "ex_register = \<lparr>rr_token = ''tok'', rr_hostname = ''h1'', rr_exit_ip = [], rr_os = ''linux'', rr_os_version = [],
     rr_arch = ''amd64'', rr_kernel = [], rr_supervisor = [], rr_agent_version = ''2.4'', rr_build_version = [],
     rr_build_hash = [], rr_build_variant = [], rr_signature_modes = [''v2''], rr_capabilities = []\<rparr>"

definition ex_cred :: credentials where
  "ex_cred = \<lparr>cr_agent_id = ''a9'', cr_token = ''t9'', cr_secret = ''s9''\<rparr>"

definition ex_enrolled :: db where
  "ex_enrolled = snd (AgentRegister id True 10 ''10.0.0.1'' ex_register ex_cred ex_fleet)"

lemma ex_fleet_ok: "fleet_ok ex_fleet"
  by (simp add: fleet_ok_def ex_fleet_def ex_db_def ex_rows)

lemma ex_fleet_agree: "hosts_agree ex_fleet"
  by (simp add: hosts_agree_def ex_fleet_def ex_db_def ex_rows)

lemma ex_register_ok: "fst (AgentRegister id True 10 ''10.0.0.1'' ex_register ex_cred ex_fleet) = Inr ex_cred"
  by code_simp

lemma ex_register_eq: "AgentRegister id True 10 ''10.0.0.1'' ex_register ex_cred ex_fleet = (Inr ex_cred, ex_enrolled)"
  using ex_register_ok by (simp add: ex_enrolled_def prod_eq_iff)

lemma ex_enrolled_agents: "map ag_agent_id (d_agents ex_enrolled) = [''a2'', ''a9'']"
  by code_simp

lemma AgentRegister_no_hijack_witness:
  "ho_ip ex_host = ''10.0.0.1'' \<and> (\<exists>t\<in>set (d_tokens ex_fleet). et_hash t = ''tok'' \<and> et_tenant t = ho_tenant ex_host)"
proof -
  have h: "ex_host \<in> set (d_hosts ex_fleet)" "ex_agent \<in> set (d_agents ex_fleet)" "ag_host_id ex_agent = Some (ho_id ex_host)"
    by (simp_all add: ex_fleet_def ex_db_def ex_rows)
  have "ag_agent_id ex_agent \<notin> set (map ag_agent_id (d_agents ex_enrolled))"
    unfolding ex_enrolled_agents by (simp add: ex_rows)
  then have "ex_agent \<notin> set (d_agents ex_enrolled)" by auto
  with AgentRegister_no_hijack [OF ex_fleet_ok ex_register_eq h(1), where a = ex_agent] h show ?thesis
    by (auto simp: ex_register_def)
qed

lemma AgentRegister_credentials_witness:
  "VerifyToken id ''a9'' ''t9'' ex_enrolled = None \<and> VerifyToken id ''a1'' ''t'' ex_enrolled = Some AgentNotFound"
proof -
  have h: "ex_agent \<in> set (d_agents ex_fleet)" by (simp add: ex_fleet_def)
  from AgentRegister_credentials [OF ex_fleet_ok ex_register_eq _ _ h, of "''t''"] show ?thesis
    by (simp add: ex_cred_def ex_agent_def)
qed

lemma enrol_uses_bounded_witness: "1 + uses_left ''tok'' ex_enrolled \<le> (1 :: nat)"
proof -
  have "token_event id ''tok'' ex_fleet 1 ex_enrolled"
    using token_event.registered [OF ex_register_eq, of "''tok''"] by (simp add: ex_register_def)
  with token_run.step [OF token_run.start] have "token_run id ''tok'' ex_fleet (0 + 1) ex_enrolled" by blast
  moreover have "limited ''tok'' ex_fleet" "uses_left ''tok'' ex_fleet = 1"
    by (simp_all add: limited_def uses_left_def token_budget_def ex_fleet_def ex_enroll_token_def new_token_def)
  ultimately show ?thesis using enrol_uses_bounded [of id "''tok''" ex_fleet "0 + 1" ex_enrolled] by simp
qed

definition ex_beat :: heartbeat_request where
  "ex_beat = \<lparr>hb_status = ''upgrading'', hb_exit_ip = [], hb_server_url = [], hb_default_url = [], hb_build_version = [],
     hb_build_hash = [], hb_build_variant = [], hb_signature_modes = [], hb_capabilities = [], hb_check = None\<rparr>"

definition ex_auto :: auto_update where
  "ex_auto = \<lparr>au_sha = id, au_on = False, au_percent = 0, au_resolver = ex_resolver, au_base_url = []\<rparr>"

definition ex_no_url :: url_lib where "ex_no_url = \<lparr>ul_parse = (\<lambda>s. None), ul_string = ur_host\<rparr>"

definition ex_beaten :: db where
  "ex_beaten = snd (snd (AgentHeartbeat ex_no_url ex_auto [] [] 100 ''t'' ''10.0.0.2'' ''a2'' ex_beat (\<lambda>p. None, ex_fleet)))"

lemma heartbeat_isolated_witness: "fleet_ok ex_beaten \<and> ex_host \<in> set (d_hosts ex_beaten) \<and> ex_agent \<in> set (d_agents ex_beaten)"
proof -
  obtain r c d where e: "AgentHeartbeat ex_no_url ex_auto [] [] 100 ''t'' ''10.0.0.2'' ''a2'' ex_beat (\<lambda>p. None, ex_fleet) = (r, c, d)"
    by (metis prod_cases3)
  have "ex_host \<in> set (d_hosts ex_fleet)" "ho_agent_id ex_host = ''a1''" "ex_agent \<in> set (d_agents ex_fleet)" "ag_agent_id ex_agent = ''a1''"
    by (simp_all add: ex_fleet_def ex_db_def ex_rows)
  with heartbeat_isolated [OF ex_fleet_ok e] show ?thesis by (simp add: ex_beaten_def e)
qed

section \<open>Deletion\<close>

definition ex_idle :: db where
  "ex_idle = ex_fleet\<lparr>d_cmds := [ex_cmd3], d_thosts := [ex_thost3]\<rparr>"

lemma ex_idle_ok: "fleet_ok ex_idle" "hosts_agree ex_idle"
  using ex_fleet_ok by (simp_all add: ex_idle_def fleet_ok_def hosts_agree_def ex_rows)

definition ex_deleted :: db where "ex_deleted = snd (HostDelete ex_scope 1 ex_idle)"

lemma HostDelete_exact_witness:
  "d_hosts ex_deleted = [ex_host2] \<and> map ag_agent_id (d_agents ex_deleted) = [''a2''] \<and> d_cmds ex_deleted = []"
proof -
  have "fst (HostDelete ex_scope 1 ex_idle) = Inr ''10.0.0.1''" by code_simp
  then have e: "HostDelete ex_scope 1 ex_idle = (Inr ''10.0.0.1'', ex_deleted)" by (simp add: ex_deleted_def prod_eq_iff)
  from HostDelete_exact [OF ex_idle_ok e] show ?thesis by (simp add: ex_idle_def ex_fleet_def ex_db_def ex_rows)
qed

lemma HostBatchDelete_is_HostDelete_witness:
  "set (fst (projr (fst (HostBatchDelete 9 ex_scope [1, 7, 1] ex_idle)))) = {1}"
proof -
  have "fst (HostBatchDelete 9 ex_scope [1, 7, 1] ex_idle) = Inr ([1], [(7, [], Some HostMissing)])" by code_simp
  then obtain d where e: "HostBatchDelete 9 ex_scope [1, 7, 1] ex_idle = (Inr ([1], [(7, [], Some HostMissing)]), d)"
    by (metis prod.collapse)
  from HostBatchDelete_is_HostDelete [OF ex_idle_ok(2) _ e] e show ?thesis by simp
qed

definition ex_hjob :: host_job_row where
  "ex_hjob = new_host_job ex_scope ''alice'' [] [] 3 [1, 2] 1"

definition ex_job_db :: db where "ex_job_db = ex_idle\<lparr>d_hjobs := [ex_hjob], d_next_hjob := 2\<rparr>"

lemma ex_job_db_ok: "hjobs_ok ex_job_db"
  by (simp add: hjobs_ok_def table_ok_def ex_job_db_def ex_hjob_def new_host_job_def hjob_ok_def unique_where_def
      hostDeleteJobMaxFailures_def)

definition ex_clocks :: "(time \<times> bool) list" where "ex_clocks = [(1, True), (2, False), (3, True), (4, False), (5, False)]"

lemma host_delete_jobs_end_witness:
  "map hj_status (d_hjobs (host_rounds ex_clocks ex_job_db)) = [''done''] \<and>
   map hj_deleted (d_hjobs (host_rounds ex_clocks ex_job_db)) = [2]"
proof -
  have v: "map (\<lambda>j. (hj_status j, hj_deleted j, hj_failed_count j, hj_ids j)) (d_hjobs (host_rounds ex_clocks ex_job_db)) =
      [(''done'', 2, 0, [1, 2])]" by code_simp
  then obtain j where j: "d_hjobs (host_rounds ex_clocks ex_job_db) = [j]" by auto
  have "hjobs_todo ex_job_db \<le> length (filter (\<lambda>e. \<not> snd e) ex_clocks)" by code_simp
  from host_delete_jobs_end [OF ex_job_db_ok this, of j] v j show ?thesis by simp
qed

lemma host_jobs_sound_witness: "hjobs_ok (snd (HostDeleteJobCreate ex_scope ''bob'' [] [] 3 [2] ex_job_db))"
  using host_jobs_sound [OF ex_job_db_ok, of ex_scope "''bob''" "[]" "[]" 3 "[2]"] by blast

text \<open>
  Concrete runs of the server.
\<close>

definition ex_run :: db where
  "ex_run = snd (HostDeleteJobCreate ex_scope ''op'' [] [] 20 [1]
     (snd (AgentRegister id False 10 ''10.0.0.1'' ex_register ex_cred empty_db)))"

lemma ex_run_reached: "transaction^** empty_db ex_run"
proof -
  have "agent_request empty_db (snd (AgentRegister id False 10 ''10.0.0.1'' ex_register ex_cred empty_db))"
    by (rule agent_request.Register) (simp_all add: ex_cred_def empty_db_def)
  moreover have "host_request (snd (AgentRegister id False 10 ''10.0.0.1'' ex_register ex_cred empty_db)) ex_run"
    unfolding ex_run_def by (rule host_request.HostJobCreate)
  ultimately show ?thesis
    using transaction.intros(1,3) by (meson rtranclp.rtrancl_refl rtranclp.rtrancl_into_rtrancl)
qed

text \<open>The sample database with one agent is well formed, and what the agent sends late leaves what has ended in it.\<close>

definition ex_one :: db where "ex_one = ex_db\<lparr>d_agents := [ex_agent]\<rparr>"

lemma ex_one_wf: "wf_db ex_one"
proof -
  have "integrity ex_one" using ex_integrity by (simp add: ex_one_def integrity_defs)
  moreover have "thost_uq ex_one" "store_ok ex_one" "refs_ok ex_one" "fleet_ok ex_one" "jobs_ok ex_one" "hjobs_ok ex_one"
    by (simp_all add: ex_one_def thost_uq_def store_ok_def uq_identity_def refs_ok_def cmd_ok_def fleet_ok_def jobs_ok_def hjobs_ok_def
      table_ok_def unique_where_def ex_db_def ex_rows)
  ultimately show ?thesis by (simp add: wf_db_def)
qed

theorem gateway_ended_kept_witness:
  "ex_cmd3 \<in> set (d_cmds (EnterMaintenance 60 ''a1'' 5 (UpdateStage 60 ''t'' ''a1'' 3 ''done'' ''x'' ex_one)))"
proof -
  let ?d = "UpdateStage 60 ''t'' ''a1'' 3 ''done'' ''x'' ex_one"
  have "agent_request ex_one ?d" "agent_request ?d (EnterMaintenance 60 ''a1'' 5 ?d)"
    by (rule agent_request.Stage agent_request.Maintenance)+
  then have "agent_request^** ex_one (EnterMaintenance 60 ''a1'' 5 ?d)" by (meson rtranclp.rtrancl_refl rtranclp.rtrancl_into_rtrancl)
  from gateway_ended_kept [OF ex_one_wf this, of ex_cmd3 ex_thost3] show ?thesis
    by (simp add: ex_one_def ex_db_def cmd_ended_def thost_ended_def ex_thost3_def ex_cmd3_def ex_cmd_in)
qed

theorem reachable_wf_witness:
  "map ho_id (d_hosts ex_run) = [1] \<and> map ag_agent_id (d_agents ex_run) = [''a9''] \<and> map hj_ids (d_hjobs ex_run) = [[1]] \<and> wf_db ex_run"
proof (intro conjI)
  show "wf_db ex_run" by (rule reachable_wf [OF ex_run_reached])
qed code_simp+

end
