(* ===== verification/Sessions.thy ===== *)
theory Sessions
imports Accounts
begin

text \<open>
  \<open>internal/auth/builtin.go\<close> and \<open>internal/auth/session.go\<close>: signed session cookies, and the provider that
  checks them against the accounts through a cache of 30 seconds. Every server process has its own cache;
  the table of accounts is shared. The payload's JSON and base64 form and the keyed hash are the fields of
  \<open>codec\<close>, comparing a password with its hash is the parameter \<open>cmp\<close>. Of a failure the caller only learns
  the error; the comparison that hides whether a user exists has no result and is not modelled.
\<close>

section \<open>Session cookies\<close>

record session_user = user +
  us_id :: string
  us_display :: string

record sessionPayload =
  sp_id :: string
  sp_username :: string
  sp_display :: string
  sp_is_admin :: bool
  sp_tenant :: int
  sp_roles :: "string list"
  sp_exp :: int
  sp_iat :: int

record codec =
  cd_seal :: "sessionPayload \<Rightarrow> string"
  cd_open :: "string \<Rightarrow> sessionPayload option"
  cd_mac :: "string \<Rightarrow> string"

definition sessionMaxAge :: time where "sessionMaxAge = 7 * hours 24"

definition unix :: "time \<Rightarrow> int" where "unix t = t div second"

definition issuedAt :: "sessionPayload \<Rightarrow> time" where
  "issuedAt p = (if sp_iat p > 0 then sp_iat p * 1000000 else sp_exp p * second - sessionMaxAge)"

text \<open>A secret that is too short is replaced by random bytes, the parameter \<open>buf\<close>.\<close>

definition newSessionCodec :: "string \<Rightarrow> string \<Rightarrow> string" where
  "newSessionCodec buf secret = (if length secret < 16 then buf else secret)"

definition signAt :: "codec \<Rightarrow> time \<Rightarrow> session_user \<Rightarrow> time \<Rightarrow> string" where
  "signAt cd now u iat =
    (let enc = cd_seal cd \<lparr>sp_id = us_id u, sp_username = us_username u, sp_display = us_display u,
           sp_is_admin = us_is_admin u, sp_tenant = us_tenant u, sp_roles = us_roles u,
           sp_exp = unix (now + sessionMaxAge), sp_iat = go_quot (iat + 999999) 1000000\<rparr>
     in enc @ ''.'' @ cd_mac cd enc)"

definition sign :: "codec \<Rightarrow> time \<Rightarrow> session_user \<Rightarrow> string" where
  "sign cd now u = signAt cd now u now"

text \<open>\<open>SplitN(token, ".", 2)\<close>.\<close>

definition split_dot :: "string \<Rightarrow> (string \<times> string) option" where
  "split_dot token = (if CHR ''.'' \<in> set token
     then Some (takeWhile (\<lambda>c. c \<noteq> CHR ''.'') token, tl (dropWhile (\<lambda>c. c \<noteq> CHR ''.'') token)) else None)"

definition verifyPayload :: "codec \<Rightarrow> time \<Rightarrow> string \<Rightarrow> (session_user \<times> sessionPayload) option" where
  "verifyPayload cd now token =
    (case split_dot token of None \<Rightarrow> None | Some (enc, mac) \<Rightarrow>
      (if mac \<noteq> cd_mac cd enc then None
       else case cd_open cd enc of None \<Rightarrow> None | Some pl0 \<Rightarrow>
        (if unix now > sp_exp pl0 then None
         else (let pl = pl0\<lparr>sp_tenant := (if sp_tenant pl0 \<le> 0 then 1 else sp_tenant pl0)\<rparr>
               in Some (\<lparr>us_username = sp_username pl, us_is_admin = sp_is_admin pl, us_tenant = sp_tenant pl,
                         us_roles = sp_roles pl, us_id = sp_id pl, us_display = sp_display pl\<rparr>, pl)))))"

definition payloadFromRequest :: "codec \<Rightarrow> time \<Rightarrow> string option \<Rightarrow> (session_user \<times> sessionPayload) option" where
  "payloadFromRequest cd now cookie = (case cookie of None \<Rightarrow> None | Some token \<Rightarrow> verifyPayload cd now token)"

section \<open>The cache of accounts\<close>

record cachedUser =
  cu_username :: string
  cu_display :: string
  cu_is_admin :: bool
  cu_disabled :: bool
  cu_tenant :: int
  cu_roles :: "string list"
  cu_updated_at :: time
  cu_cached_at :: time
  cu_password_ok :: bool

type_synonym user_cache = "string \<Rightarrow> cachedUser option"

definition userCacheTTL :: time where "userCacheTTL = 30 * second"

definition cached :: "time \<Rightarrow> bool \<Rightarrow> account \<Rightarrow> cachedUser" where
  "cached now ok a = \<lparr>cu_username = ac_username a, cu_display = ac_display a, cu_is_admin = ac_is_admin a,
     cu_disabled = ac_disabled a, cu_tenant = ac_tenant a, cu_roles = ac_roles a,
     cu_updated_at = ac_updated_at a, cu_cached_at = now, cu_password_ok = ok\<rparr>"

text \<open>\<open>strconv.ParseInt(s, 10, 64)\<close>.\<close>

definition parse_int64 :: "string \<Rightarrow> int option" where
  "parse_int64 s =
    (let neg = has_prefix ''-'' s;
         ds = (if neg \<or> has_prefix ''+'' s then tl s else s);
         v = (if neg then - digits_value ds else digits_value ds)
     in if ds = [] \<or> \<not> list_all is_digit ds \<or> v < - (2 ^ 63) \<or> v \<ge> 2 ^ 63 then None else Some v)"

definition by_id :: "int \<Rightarrow> accounts \<Rightarrow> account option" where
  "by_id i d = find (\<lambda>a. ac_id a = i) (a_users d)"

definition defaultLookup :: "time \<Rightarrow> string \<Rightarrow> accounts \<Rightarrow> user_cache \<Rightarrow> (account_error + cachedUser) \<times> user_cache" where
  "defaultLookup now idStr d cache =
    (let query = (case parse_int64 idStr of None \<Rightarrow> (Inl Unauthorized, cache) | Some i \<Rightarrow>
           (case by_id i d of None \<Rightarrow> (Inl Unauthorized, cache) | Some a \<Rightarrow>
             (Inr (cached now False a), cache(idStr \<mapsto> cached now False a))))
     in case cache idStr of None \<Rightarrow> query | Some cu \<Rightarrow>
          (if now - cu_cached_at cu < userCacheTTL then (Inr cu, cache) else query))"

definition InvalidateUser :: "string \<Rightarrow> user_cache \<Rightarrow> user_cache" where
  "InvalidateUser userID cache = cache(userID := None)"

text \<open>One round of the clean-up.\<close>

definition evictCache :: "time \<Rightarrow> user_cache \<Rightarrow> user_cache" where
  "evictCache now cache = (\<lambda>k. case cache k of None \<Rightarrow> None
     | Some v \<Rightarrow> if now - cu_cached_at v > userCacheTTL * 2 then None else Some v)"

section \<open>The provider\<close>

text \<open>The first account, from the configuration or with a random password \<open>random\<close>.\<close>

definition hashOrPassthrough :: "(string \<Rightarrow> string option) \<Rightarrow> string \<Rightarrow> string option" where
  "hashOrPassthrough gen pw = (if has_prefix ''$2'' pw then Some pw else gen pw)"

definition EnsureAdmin ::
    "(string \<Rightarrow> string option) \<Rightarrow> string \<Rightarrow> time \<Rightarrow> string \<Rightarrow> string \<Rightarrow> accounts \<Rightarrow> account_error option \<times> accounts" where
  "EnsureAdmin gen random now username0 password d =
    (let username = (if username0 = [] then ''admin'' else username0)
     in if length (a_users d) > 0 then (None, d)
        else case hashOrPassthrough gen (if password = [] then random else password) of None \<Rightarrow> (Some HashFailed, d)
         | Some hash \<Rightarrow>
            (if ensureTenantExists 1 d \<noteq> None then (Some (NoTenant 1), d)
             else (None, d\<lparr>a_users := a_users d @
                [\<lparr>ac_id = a_next_user d, ac_username = username, ac_hash = hash, ac_display = username,
                  ac_is_admin = True, ac_disabled = False, ac_tenant = 1,
                  ac_roles = [RoleAdmin, RoleSuperAdmin], ac_updated_at = now\<rparr>],
              a_next_user := a_next_user d + 1\<rparr>)))"

definition session_of :: "account \<Rightarrow> session_user" where
  "session_of a = \<lparr>us_username = ac_username a, us_is_admin = ac_is_admin a, us_tenant = ac_tenant a,
     us_roles = ac_roles a, us_id = int_dec (ac_id a), us_display = ac_display a\<rparr>"

definition Login ::
    "(string \<Rightarrow> string \<Rightarrow> bool) \<Rightarrow> codec \<Rightarrow> time \<Rightarrow> string \<Rightarrow> string \<Rightarrow> accounts \<Rightarrow> user_cache \<Rightarrow>
     (account_error + session_user \<times> string) \<times> user_cache" where
  "Login cmp cd now username password d cache =
    (case by_name username d of None \<Rightarrow> (Inl Unauthorized, cache) | Some a \<Rightarrow>
      (if ac_hash a = [] \<or> ac_disabled a \<or> \<not> cmp (ac_hash a) password then (Inl Unauthorized, cache)
       else (let u = session_of a
             in (Inr (u, sign cd now u), cache(us_id u \<mapsto> (cached now True a)\<lparr>cu_disabled := False\<rparr>)))))"

definition user_now :: "string \<Rightarrow> cachedUser \<Rightarrow> session_user" where
  "user_now i cu = \<lparr>us_username = cu_username cu, us_is_admin = cu_is_admin cu, us_tenant = cu_tenant cu,
     us_roles = cu_roles cu, us_id = i, us_display = cu_display cu\<rparr>"

definition Authenticate ::
    "codec \<Rightarrow> time \<Rightarrow> string option \<Rightarrow> accounts \<Rightarrow> user_cache \<Rightarrow> (account_error + session_user) \<times> user_cache" where
  "Authenticate cd now cookie d cache =
    (case payloadFromRequest cd now cookie of None \<Rightarrow> (Inl Unauthorized, cache) | Some (u, pl) \<Rightarrow>
      (case defaultLookup now (us_id u) d cache of (Inl e, cache') \<Rightarrow> (Inl e, cache') | (Inr cu, cache') \<Rightarrow>
        (if cu_disabled cu then (Inl Unauthorized, cache')
         else if issuedAt pl < cu_updated_at cu then (Inl Unauthorized, cache')
         else (Inr (user_now (us_id u) cu), cache'))))"

text \<open>Changing one's own password: \<open>dbnow\<close> is the database's clock, \<open>now\<close> the server's.\<close>

definition ChangePassword ::
    "(string \<Rightarrow> string option) \<Rightarrow> (string \<Rightarrow> string \<Rightarrow> bool) \<Rightarrow> codec \<Rightarrow> time \<Rightarrow> time \<Rightarrow> string \<Rightarrow> string \<Rightarrow> string \<Rightarrow>
     accounts \<Rightarrow> user_cache \<Rightarrow> (account_error + string) \<times> accounts \<times> user_cache" where
  "ChangePassword gen cmp cd now dbnow userID oldPassword newPassword d cache =
    (case ValidatePassword oldPassword newPassword of Some e \<Rightarrow> (Inl e, d, cache) | None \<Rightarrow>
      (case Option.bind (parse_int64 userID) (\<lambda>i. by_id i d) of None \<Rightarrow> (Inl Unauthorized, d, cache) | Some a \<Rightarrow>
        (if ac_disabled a then (Inl Unauthorized, d, cache)
         else if \<not> cmp (ac_hash a) oldPassword then (Inl WrongPassword, d, cache)
         else case gen newPassword of None \<Rightarrow> (Inl HashFailed, d, cache) | Some hash \<Rightarrow>
          (let hit = (\<lambda>r. ac_id r = ac_id a \<and> ac_hash r = ac_hash a)
           in if rows_affected hit (a_users d) = 0 then (Inl PasswordRaced, d, cache)
              else
               (let d' = set_users hit (\<lambda>r. r\<lparr>ac_hash := hash, ac_updated_at := dbnow\<rparr>) d
                in case defaultLookup now userID d' (InvalidateUser userID cache) of
                     (Inl e, cache') \<Rightarrow> (Inl e, d', cache')
                   | (Inr cu, cache') \<Rightarrow> (Inr (signAt cd now (user_now userID cu) dbnow), d', cache'))))))"

end
