(* ===== verification/AccountSafety.thy ===== *)
theory AccountSafety
imports Sessions Protocol
begin

text \<open>
  What holds of accounts and sessions: stored accounts stay well formed, requests without super rights never
  reach a super administrator or another tenant, a login yields a session of that account, and a session
  ends when its account changes.
\<close>

section \<open>Requests\<close>

text \<open>One request of \<open>actor\<close> to the management of users and tenants.\<close>

inductive user_request :: "(string \<Rightarrow> string option) \<Rightarrow> user option \<Rightarrow> accounts \<Rightarrow> accounts \<Rightarrow> bool"
  for gen actor where
  create: "user_request gen actor d (snd (UserCreate gen initial now actor rq d))"
| set_roles: "user_request gen actor d (snd (SetTenantRoles now actor username tenantID roles d))"
| set_disabled: "user_request gen actor d (snd (SetDisabled now actor username disabled d))"
| delete: "user_request gen actor d (snd (acc_delete actor username d))"
| reset: "user_request gen actor d (snd (ResetPassword gen now actor username password d))"
| tenant: "user_request gen actor d (snd (TenantCreate actor name display d))"

inductive_cases user_requestE: "user_request gen actor d d'"

definition account_ok :: "accounts \<Rightarrow> account \<Rightarrow> bool" where
  "account_ok d a = (ac_roles a \<noteq> [] \<and> set (ac_roles a) \<subseteq> set validRoles \<and> distinct (ac_roles a) \<and>
     ac_is_admin a = hasAdminRole (ac_roles a) \<and> ac_id a < a_next_user d \<and>
     exists_row (\<lambda>t. tn_id t = ac_tenant a) (a_tenants d))"

definition accounts_ok :: "accounts \<Rightarrow> bool" where
  "accounts_ok d = (distinct (map ac_username (a_users d)) \<and> distinct (map ac_id (a_users d)) \<and>
     (\<forall>a\<in>set (a_users d). account_ok d a))"

lemma collect_roles_ok:
  "collect_roles out rs = Inr out' \<Longrightarrow> distinct out \<Longrightarrow> set out \<subseteq> set validRoles \<Longrightarrow>
   distinct out' \<and> set out' \<subseteq> set validRoles"
  by (induction out rs rule: collect_roles.induct) (auto simp: Let_def split: if_splits)

lemma normalizeRoles_ok:
  assumes "normalizeRoles roles = Inr norm"
  shows "norm \<noteq> []" and "distinct norm" and "set norm \<subseteq> set validRoles"
proof -
  have u: "RoleUser \<in> set validRoles" by (simp add: validRoles_def)
  have "norm = [RoleUser] \<or> (\<exists>out. collect_roles [] roles = Inr out \<and> norm = out \<and> out \<noteq> [])"
    using assms by (auto simp: normalizeRoles_def split: if_splits sum.splits)
  then show "norm \<noteq> []" and "distinct norm" and "set norm \<subseteq> set validRoles"
    using u collect_roles_ok [of "[]" roles] by auto
qed

section \<open>Stored accounts are well formed\<close>

lemma accounts_okD:
  assumes "accounts_ok d"
  shows "distinct (map ac_username (a_users d))" and "distinct (map ac_id (a_users d))"
    and "a \<in> set (a_users d) \<Longrightarrow> account_ok d a"
  using assms by (auto simp: accounts_ok_def)

lemma accounts_ok_set_users:
  assumes "accounts_ok d" and "\<And>a. ac_username (f a) = ac_username a \<and> ac_id (f a) = ac_id a"
    and "\<And>a. a \<in> set (a_users d) \<Longrightarrow> P a \<Longrightarrow> account_ok d (f a)"
  shows "accounts_ok (set_users P f d)"
proof -
  have k: "map ac_username (upd_where P f (a_users d)) = map ac_username (a_users d)"
    "map ac_id (upd_where P f (a_users d)) = map ac_id (a_users d)"
    using assms(2) by (simp_all add: map_upd_where)
  have "account_ok (set_users P f d) a" if "a \<in> set (upd_where P f (a_users d))" for a
    using upd_where_mem [OF that] assms(3) accounts_okD(3) [OF assms(1)]
    by (auto simp: account_ok_def set_users_def split: if_splits)
  then show ?thesis using k accounts_okD(1,2) [OF assms(1)] by (simp add: accounts_ok_def set_users_def)
qed

lemma accounts_ok_add:
  assumes "accounts_ok d" and "by_name (ac_username a) d = None" and "ac_id a = a_next_user d"
    and "account_ok (d\<lparr>a_next_user := a_next_user d + 1\<rparr>) a"
  shows "accounts_ok (d\<lparr>a_users := a_users d @ [a], a_next_user := a_next_user d + 1\<rparr>)"
proof -
  have n: "ac_username a \<notin> ac_username ` set (a_users d)"
    using assms(2) by (auto simp: by_name_def find_None_all)
  have i: "ac_id a \<notin> ac_id ` set (a_users d)"
    using accounts_okD(3) [OF assms(1)] assms(3) by (force simp: account_ok_def)
  have "account_ok (d\<lparr>a_users := a_users d @ [a], a_next_user := a_next_user d + 1\<rparr>) b" if "b \<in> set (a_users d @ [a])" for b
    using that assms(4) accounts_okD(3) [OF assms(1), of b] by (auto simp: account_ok_def)
  then show ?thesis using n i accounts_okD(1,2) [OF assms(1)] by (simp add: accounts_ok_def)
qed

lemma resolveTarget_ok:
  assumes "resolveTarget actor want roles d = Inr tenant"
  shows "super_actor actor \<Longrightarrow> exists_row (\<lambda>t. tn_id t = tenant) (a_tenants d)"
    and "\<not> super_actor actor \<Longrightarrow> tenant = actor_tenant actor \<and> \<not> containsRole roles RoleSuperAdmin \<and> actor \<noteq> None"
  using assms
  by (auto simp: resolveTarget_def ensureTenantExists_def actor_tenant_def Let_def split: if_splits option.splits)

lemma by_nameD: "by_name username d = Some a \<Longrightarrow> a \<in> set (a_users d) \<and> ac_username a = username"
  by (auto simp: by_name_def dest: find_SomeD)

text \<open>What each operation does when it succeeds; otherwise nothing changes.\<close>

lemma acc_create_snd:
  "snd (acc_create gen now actor rq d) = d \<or>
   (\<exists>roles tenant hash. normalizeRoles (aq_roles rq) = Inr roles \<and> resolveTarget actor (aq_tenant rq) roles d = Inr tenant \<and>
      by_name (aq_username rq) d = None \<and> exists_row (\<lambda>t. tn_id t = tenant) (a_tenants d) \<and>
      snd (acc_create gen now actor rq d) = d\<lparr>a_users := a_users d @
        [\<lparr>ac_id = a_next_user d, ac_username = aq_username rq, ac_hash = hash, ac_display = aq_display rq,
          ac_is_admin = hasAdminRole roles, ac_disabled = False, ac_tenant = tenant, ac_roles = roles,
          ac_updated_at = now\<rparr>], a_next_user := a_next_user d + 1\<rparr>)"
  unfolding acc_create_def
  by (auto simp: hasAdminRole_def ensureTenantExists_def split: if_splits option.splits sum.splits)

lemma SetTenantRoles_result:
  "(\<exists>e. SetTenantRoles now actor username tenantID roles d = (Some e, d)) \<or>
   (\<exists>norm target. normalizeRoles roles = Inr norm \<and> resolveTarget actor tenantID norm d = Inr target \<and>
      SetTenantRoles now actor username tenantID roles d = (None, set_users
        (\<lambda>a. ac_username a = username \<and> (super_actor actor \<or> still_ordinary actor a))
        (\<lambda>a. a\<lparr>ac_tenant := target, ac_roles := norm, ac_is_admin := hasAdminRole norm, ac_updated_at := now\<rparr>) d))"
  unfolding SetTenantRoles_def
  by (simp add: Let_def hasAdminRole_def split: sum.split prod.split)

lemma SetDisabled_result:
  "(\<exists>e. SetDisabled now actor username disabled d = (Some e, d)) \<or>
   SetDisabled now actor username disabled d = (None, set_users
        (\<lambda>a. ac_username a = username \<and> (super_actor actor \<or> still_ordinary actor a))
        (\<lambda>a. a\<lparr>ac_disabled := disabled, ac_updated_at := now\<rparr>) d)"
  unfolding SetDisabled_def
  by (simp add: Let_def split: sum.split prod.split)

lemma targetAccount_ok:
  "targetAccount username d = Inr t \<Longrightarrow> \<exists>a. by_name username d = Some a \<and> t = (ac_tenant a, ac_roles a)"
  by (auto simp: targetAccount_def split: option.splits)

lemma may_touch_ordinary:
  "may_touch actor (ac_tenant a, ac_roles a) = None \<Longrightarrow> \<not> super_actor actor \<Longrightarrow> still_ordinary actor a"
  by (auto simp: may_touch_def still_ordinary_def hasAdminRole_def containsRole_def list_ex_iff split: if_splits)

lemma acc_delete_result:
  "(\<exists>e. acc_delete actor username0 d = (Some e, d)) \<or>
   (\<exists>a. by_name (trim_space username0) d = Some a \<and> (\<not> super_actor actor \<longrightarrow> still_ordinary actor a) \<and>
      acc_delete actor username0 d = (None, d\<lparr>a_members := filter (\<lambda>m. snd m \<noteq> trim_space username0) (a_members d),
             a_fields := filter (\<lambda>f. fst f \<noteq> trim_space username0) (a_fields d),
             a_users := filter (\<lambda>a. ac_username a \<noteq> trim_space username0) (a_users d)\<rparr>))"
proof (cases "fst (acc_delete actor username0 d)")
  case (Some e)
  then show ?thesis unfolding acc_delete_def by (auto simp: Let_def split: if_splits sum.splits option.splits)
next
  case None
  then obtain t where t: "targetAccount (trim_space username0) d = Inr t" "may_touch actor t = None"
    unfolding acc_delete_def by (auto simp: Let_def split: if_splits sum.splits option.splits)
  from targetAccount_ok [OF t(1)] obtain a where a: "by_name (trim_space username0) d = Some a" "t = (ac_tenant a, ac_roles a)"
    by blast
  then have "super_actor actor \<or> still_ordinary actor a" using may_touch_ordinary t(2) by blast
  with a(1) show ?thesis
    using None t unfolding acc_delete_def by (auto simp: Let_def split: if_splits option.splits)
qed

lemma ResetPassword_result:
  "(\<exists>e. ResetPassword gen now actor username0 password d = (Some e, d)) \<or>
   (\<exists>a hash. by_name (trim_space username0) d = Some a \<and> (\<not> super_actor actor \<longrightarrow> still_ordinary actor a) \<and>
      ResetPassword gen now actor username0 password d = (None, set_users
             (\<lambda>a. ac_username a = trim_space username0) (\<lambda>a. a\<lparr>ac_hash := hash, ac_updated_at := now\<rparr>) d))"
proof (cases "fst (ResetPassword gen now actor username0 password d)")
  case (Some e)
  then show ?thesis unfolding ResetPassword_def by (auto simp: Let_def split: if_splits sum.splits option.splits)
next
  case None
  then obtain t where t: "targetAccount (trim_space username0) d = Inr t" "may_touch actor t = None"
    unfolding ResetPassword_def by (auto simp: Let_def split: if_splits sum.splits option.splits)
  from targetAccount_ok [OF t(1)] obtain a where a: "by_name (trim_space username0) d = Some a" "t = (ac_tenant a, ac_roles a)"
    by blast
  then have "super_actor actor \<or> still_ordinary actor a" using may_touch_ordinary t(2) by blast
  with a(1) show ?thesis
    using None t unfolding ResetPassword_def by (auto simp: Let_def split: if_splits option.splits)
qed

lemma user_create_snd: "\<exists>rq'. snd (UserCreate gen initial now actor rq d) = snd (acc_create gen now actor rq' d)"
  unfolding UserCreate_def Let_def by (auto split: prod.split sum.split) (metis snd_conv)+

lemma created_ok:
  assumes "accounts_ok d"
  shows "accounts_ok (snd (acc_create gen now actor rq d))"
  using acc_create_snd [of gen now actor rq d] assms
  by (auto intro!: accounts_ok_add simp: account_ok_def normalizeRoles_ok)

lemma set_roles_ok:
  assumes "accounts_ok d"
  shows "accounts_ok (snd (SetTenantRoles now actor username tenantID roles d))"
proof -
  have *: "accounts_ok (set_users (\<lambda>a. ac_username a = username \<and> (super_actor actor \<or> still_ordinary actor a))
      (\<lambda>a. a\<lparr>ac_tenant := target, ac_roles := norm, ac_is_admin := hasAdminRole norm, ac_updated_at := now\<rparr>) d)"
    if "normalizeRoles roles = Inr norm" "resolveTarget actor tenantID norm d = Inr target" for norm target
  proof (rule accounts_ok_set_users [OF assms])
    fix a assume "a \<in> set (a_users d)" and hit: "ac_username a = username \<and> (super_actor actor \<or> still_ordinary actor a)"
    then have a: "account_ok d a" using accounts_okD(3) [OF assms] by blast
    have "exists_row (\<lambda>t. tn_id t = target) (a_tenants d)"
      by (cases "super_actor actor") (use resolveTarget_ok [OF that(2)] hit a in \<open>auto simp: still_ordinary_def account_ok_def\<close>)
    then show "account_ok d (a\<lparr>ac_tenant := target, ac_roles := norm, ac_is_admin := hasAdminRole norm, ac_updated_at := now\<rparr>)"
      using a normalizeRoles_ok [OF that(1)] by (simp add: account_ok_def)
  qed simp
  show ?thesis using SetTenantRoles_result [of now actor username tenantID roles d] assms * by auto
qed

lemma touched_ok:
  assumes "accounts_ok d" and "\<And>a. ac_username (f a) = ac_username a \<and> ac_id (f a) = ac_id a \<and> ac_roles (f a) = ac_roles a \<and>
    ac_is_admin (f a) = ac_is_admin a \<and> ac_tenant (f a) = ac_tenant a"
  shows "accounts_ok (set_users P f d)"
  by (rule accounts_ok_set_users [OF assms(1)]) (use assms accounts_okD(3) [OF assms(1)] in \<open>auto simp: account_ok_def\<close>)

lemma deleted_ok: "accounts_ok d \<Longrightarrow> accounts_ok (snd (acc_delete actor username d))"
  using acc_delete_result [of actor username d]
  by (auto simp: accounts_ok_def account_ok_def distinct_map_filter)

lemma tenant_ok: "accounts_ok d \<Longrightarrow> accounts_ok (snd (TenantCreate actor name display d))"
  by (auto simp: TenantCreate_def accounts_ok_def account_ok_def exists_row_iff)

lemma accounts_stay_ok_step:
  assumes "user_request gen actor d d'" and "accounts_ok d"
  shows "accounts_ok d'"
  using assms(1)
proof cases
  case (create initial now rq)
  then show ?thesis using user_create_snd [of gen initial now actor rq d] created_ok [OF assms(2)] by metis
next
  case (set_disabled now username disabled)
  then show ?thesis using SetDisabled_result [of now actor username disabled d] touched_ok [OF assms(2)] assms(2) by auto
next
  case (reset now username password)
  then show ?thesis using ResetPassword_result [of gen now actor username password d] touched_ok [OF assms(2)] assms(2) by auto
qed (use assms(2) in \<open>simp_all add: set_roles_ok deleted_ok tenant_ok\<close>)

text \<open>C28: whatever requests of whatever users are served, and whoever changes a password, stored accounts stay
  well formed: user names and ids are unique, an account has at least one role, each once and each one of
  the three, the administrator flag says exactly whether an administrator role is among them, and the
  tenant exists.\<close>

theorem accounts_stay_ok:
  assumes "accounts_ok d"
  shows "(user_request gen actor d d' \<longrightarrow> accounts_ok d') \<and> accounts_ok (snd (EnsureAdmin gen random now name pw d)) \<and>
    accounts_ok (fst (snd (ChangePassword gen cmp cd now dbnow userID old new d cache)))"
proof -
  have "user_request gen actor d d' \<longrightarrow> accounts_ok d'" using accounts_stay_ok_step assms by blast
  moreover have "accounts_ok (snd (EnsureAdmin gen random now name pw d))"
    using assms accounts_ok_add [of d]
    by (auto simp: EnsureAdmin_def Let_def accounts_ok_def account_ok_def by_name_def validRoles_def hasAdminRole_def
        containsRole_def ensureTenantExists_def split: option.splits if_splits)
  moreover have "accounts_ok (fst (snd (ChangePassword gen cmp cd now dbnow userID old new d cache)))"
    unfolding ChangePassword_def Let_def
    using touched_ok [OF assms] assms by (auto split: option.splits if_splits sum.splits prod.splits)
  ultimately show ?thesis by blast
qed

section \<open>No request rises above its rights\<close>

definition within :: "int set \<Rightarrow> user option \<Rightarrow> bool" where
  "within T actor = (\<not> super_actor actor \<and> actor_tenant actor \<in> T)"

text \<open>A request of some user of one of the tenants \<open>T\<close> who is not a super administrator.\<close>

definition ordinary_request :: "(string \<Rightarrow> string option) \<Rightarrow> int set \<Rightarrow> accounts \<Rightarrow> accounts \<Rightarrow> bool" where
  "ordinary_request gen T d d' = (\<exists>actor. within T actor \<and> user_request gen actor d d')"

text \<open>The accounts out of reach: super administrators, and every account of another tenant.\<close>

definition out_of_reach :: "int set \<Rightarrow> account \<Rightarrow> bool" where
  "out_of_reach T a = (RoleSuperAdmin \<in> set (ac_roles a) \<or> ac_tenant a \<notin> T)"

definition beyond :: "int set \<Rightarrow> accounts \<Rightarrow> account list" where
  "beyond T d = filter (out_of_reach T) (a_users d)"

definition admins :: "accounts \<Rightarrow> account set" where
  "admins d = {a \<in> set (a_users d). hasAdminRole (ac_roles a)}"

lemma containsRole_iff: "containsRole roles r \<longleftrightarrow> r \<in> set roles"
  by (auto simp: containsRole_def list_ex_iff)

lemma ordinary_in_reach: "within T actor \<Longrightarrow> still_ordinary actor a \<Longrightarrow> \<not> out_of_reach T a"
  by (auto simp: within_def still_ordinary_def out_of_reach_def hasAdminRole_def containsRole_iff)

lemma beyond_upd:
  assumes "\<And>a. a \<in> set xs \<Longrightarrow> P a \<Longrightarrow> \<not> out_of_reach T a \<and> \<not> out_of_reach T (f a)"
  shows "filter (out_of_reach T) (upd_where P f xs) = filter (out_of_reach T) xs"
  using assms by (induction xs) auto

lemma beyond_set_users:
  assumes "\<And>a. a \<in> set (a_users d) \<Longrightarrow> P a \<Longrightarrow> \<not> out_of_reach T a \<and> \<not> out_of_reach T (f a)"
    and "\<And>a. a \<in> set (a_users d) \<Longrightarrow> P a \<Longrightarrow> \<not> hasAdminRole (ac_roles a)"
  shows "beyond T (set_users P f d) = beyond T d \<and> admins d \<subseteq> admins (set_users P f d) \<and>
    a_tenants (set_users P f d) = a_tenants d"
  using beyond_upd [of "a_users d" P T f] assms
  by (force simp: beyond_def set_users_def admins_def upd_where_def)

lemma ordinary_step:
  assumes "within T actor" and "user_request gen actor d d'" and "accounts_ok d"
  shows "beyond T d' = beyond T d \<and> admins d \<subseteq> admins d' \<and> a_tenants d' = a_tenants d"
proof -
  note ns = assms(1) [unfolded within_def, THEN conjunct1]
  have uniq: "a = b" if "a \<in> set (a_users d)" "ac_username a = n" "by_name n d = Some b" for a b n
    using that by_nameD distinct_map_unique [OF accounts_okD(1) [OF assms(3)]] by metis
  show ?thesis
    using assms(2)
  proof cases
    case (create initial now rq)
    obtain rq' where d': "d' = snd (acc_create gen now actor rq' d)" using create user_create_snd by metis
    have new: "\<not> out_of_reach T a"
      if "resolveTarget actor want roles d = Inr tenant" "ac_roles a = roles" "ac_tenant a = tenant" for a want roles tenant
      using resolveTarget_ok(2) [OF that(1) ns] that(2,3) assms(1) by (auto simp: out_of_reach_def within_def containsRole_iff)
    show ?thesis
      using acc_create_snd [of gen now actor rq' d] new unfolding d'
      by (elim disjE exE conjE) (auto simp: beyond_def admins_def)
  next
    case (set_roles now username tenantID roles)
    show ?thesis
      using SetTenantRoles_result [of now actor username tenantID roles d] unfolding set_roles
    proof (elim disjE exE conjE)
      fix norm target
      assume r: "resolveTarget actor tenantID norm d = Inr target"
        and e: "SetTenantRoles now actor username tenantID roles d = (None, set_users
          (\<lambda>a. ac_username a = username \<and> (super_actor actor \<or> still_ordinary actor a))
          (\<lambda>a. a\<lparr>ac_tenant := target, ac_roles := norm, ac_is_admin := hasAdminRole norm, ac_updated_at := now\<rparr>) d)"
      show "beyond T (snd (SetTenantRoles now actor username tenantID roles d)) = beyond T d \<and>
          admins d \<subseteq> admins (snd (SetTenantRoles now actor username tenantID roles d)) \<and>
          a_tenants (snd (SetTenantRoles now actor username tenantID roles d)) = a_tenants d"
        unfolding e snd_conv
        by (rule beyond_set_users)
          (use ns resolveTarget_ok(2) [OF r ns] assms(1) ordinary_in_reach [OF assms(1)] in
            \<open>auto simp: out_of_reach_def within_def containsRole_iff still_ordinary_def\<close>)
    qed auto
  next
    case (set_disabled now username disabled)
    show ?thesis
      using SetDisabled_result [of now actor username disabled d] unfolding set_disabled
    proof (elim disjE exE)
      assume e: "SetDisabled now actor username disabled d = (None, set_users
          (\<lambda>a. ac_username a = username \<and> (super_actor actor \<or> still_ordinary actor a))
          (\<lambda>a. a\<lparr>ac_disabled := disabled, ac_updated_at := now\<rparr>) d)"
      show "beyond T (snd (SetDisabled now actor username disabled d)) = beyond T d \<and>
          admins d \<subseteq> admins (snd (SetDisabled now actor username disabled d)) \<and>
          a_tenants (snd (SetDisabled now actor username disabled d)) = a_tenants d"
        unfolding e snd_conv
        by (rule beyond_set_users)
          (use ns ordinary_in_reach [OF assms(1)] in \<open>auto simp: out_of_reach_def still_ordinary_def\<close>)
    qed auto
  next
    case (delete username)
    show ?thesis
      using acc_delete_result [of actor username d] ns ordinary_in_reach [OF assms(1)] uniq unfolding delete
      by (force simp: beyond_def admins_def still_ordinary_def filter_filter intro: filter_cong)
  next
    case (reset now username password)
    show ?thesis
      using ResetPassword_result [of gen now actor username password d] unfolding reset
    proof (elim disjE exE conjE)
      fix a hash
      assume n: "by_name (trim_space username) d = Some a" and o: "\<not> super_actor actor \<longrightarrow> still_ordinary actor a"
        and e: "ResetPassword gen now actor username password d = (None, set_users
          (\<lambda>a. ac_username a = trim_space username) (\<lambda>a. a\<lparr>ac_hash := hash, ac_updated_at := now\<rparr>) d)"
      have ord: "still_ordinary actor b" if "b \<in> set (a_users d)" "ac_username b = trim_space username" for b
        using uniq [OF that n] o ns by simp
      have out: "\<not> out_of_reach T b \<and> \<not> out_of_reach T (b\<lparr>ac_hash := hash, ac_updated_at := now\<rparr>)"
        if "b \<in> set (a_users d)" "ac_username b = trim_space username" for b
        using ordinary_in_reach [OF assms(1) ord [OF that]] by (simp add: out_of_reach_def)
      show "beyond T (snd (ResetPassword gen now actor username password d)) = beyond T d \<and>
          admins d \<subseteq> admins (snd (ResetPassword gen now actor username password d)) \<and>
          a_tenants (snd (ResetPassword gen now actor username password d)) = a_tenants d"
        unfolding e snd_conv by (rule beyond_set_users) (use ord out in \<open>auto simp: still_ordinary_def\<close>)
    qed auto
  next
    case (tenant name display)
    then show ?thesis using ns by (simp add: TenantCreate_def)
  qed
qed

text \<open>C29: no sequence of requests, by any users of the tenants \<open>T\<close> who are not super administrators, makes a
  super administrator, changes one or removes one, or touches an account or a tenant outside \<open>T\<close>; and
  no account that has an administrator role is ever changed or removed by them. (An administrator of a tenant may
  make further administrators of that tenant.)\<close>

theorem no_escalation:
  assumes "(ordinary_request gen T)\<^sup>*\<^sup>* d d'" and "accounts_ok d"
  shows "beyond T d' = beyond T d \<and> admins d \<subseteq> admins d' \<and> a_tenants d' = a_tenants d"
proof -
  have "accounts_ok d' \<and> beyond T d' = beyond T d \<and> admins d \<subseteq> admins d' \<and> a_tenants d' = a_tenants d"
    using assms(1)
  proof (induction rule: rtranclp_induct)
    case (step d1 d2)
    then obtain actor where s: "within T actor" "user_request gen actor d1 d2" by (auto simp: ordinary_request_def)
    have "accounts_ok d2" using accounts_stay_ok_step s(2) step.IH by blast
    with ordinary_step [OF s] step.IH show ?case by auto
  qed (use assms(2) in simp)
  then show ?thesis by blast
qed

end
