(* ===== verification/SessionSafety.thy ===== *)
theory SessionSafety
imports AccountSafety
begin

text \<open>
  What holds of sessions: a login yields a session of that account, a session ends when its account
  changes, and a change of password leaves exactly the new session.
\<close>

section \<open>Opening what was signed\<close>

text \<open>What base64 and JSON promise of a payload whose id is plain text.\<close>

definition codec_ok :: "codec \<Rightarrow> bool" where
  "codec_ok cd = (\<forall>p. CHR ''.'' \<notin> set (cd_seal cd p) \<and>
     (list_all (\<lambda>c. byte c < 128) (sp_id p) \<longrightarrow>
       (\<exists>q. cd_open cd (cd_seal cd p) = Some q \<and> sp_id q = sp_id p \<and> sp_exp q = sp_exp p \<and> sp_iat q = sp_iat p)))"

lemma digits_value_nat_dec: "digits_value (nat_dec n) = int n"
proof (induction n rule: nat_dec.induct)
  case (1 n)
  have b: "byte (char_of (48 + n mod 10)) = 48 + n mod 10" for n by (simp add: byte_def)
  have "(of_char x :: int) = int (byte x)" for x :: char unfolding byte_def by (rule of_nat_of_char [symmetric])
  then have c: "(of_char (char_of (48 + n mod 10) :: char) :: int) = 48 + int (n mod 10)" for n
    using b [of n] by (simp only: of_nat_add of_nat_numeral)
  show ?case
  proof (cases "n < 10")
    case True
    then show ?thesis using c [of n] by (simp add: nat_dec.simps [of n] digits_value_def)
  next
    case False
    have "int n = int (10 * (n div 10) + n mod 10)" by simp
    then have "int n = 10 * int (n div 10) + int (n mod 10)" by (simp only: of_nat_add of_nat_mult of_nat_numeral)
    then show ?thesis using False 1 c [of n] by (simp add: nat_dec.simps [of n] digits_value_def)
  qed
qed

lemma is_digit_nat_dec: "list_all is_digit (nat_dec n)"
  using nat_dec_digits by (auto simp: list_all_iff is_digit_def byte_def)

lemma parse_int64_int_dec:
  assumes "0 \<le> i" and "i < 2 ^ 63"
  shows "parse_int64 (int_dec i) = Some i"
proof -
  have "\<not> has_prefix ''-'' (int_dec i)" "\<not> has_prefix ''+'' (int_dec i)"
    using assms(1) nat_dec_digits [of "CHR ''-''" "nat i"] nat_dec_digits [of "CHR ''+''" "nat i"]
    by (cases "nat_dec (nat i)", auto simp: int_dec_def has_prefix_def byte_def)+
  then show ?thesis
    using assms is_digit_nat_dec [of "nat i"] nat_dec_not_Nil [of "nat i"]
    by (simp add: parse_int64_def Let_def int_dec_def digits_value_nat_dec)
qed

lemma int_dec_ascii: "list_all (\<lambda>c. byte c < 128) (int_dec i)"
  using nat_dec_digits by (fastforce simp: int_dec_def list_all_iff byte_def)

lemma split_dot_append: "CHR ''.'' \<notin> set enc \<Longrightarrow> split_dot (enc @ ''.'' @ mac) = Some (enc, mac)"
proof -
  assume "CHR ''.'' \<notin> set enc"
  then have "takeWhile (\<lambda>c. c \<noteq> CHR ''.'') (enc @ ''.'' @ mac) = enc"
    "dropWhile (\<lambda>c. c \<noteq> CHR ''.'') (enc @ ''.'' @ mac) = ''.'' @ mac"
    by (induction enc) auto
  then show ?thesis by (simp add: split_dot_def)
qed

lemma issuedAt_bounds:
  assumes "0 < iat" and "sp_iat p = go_quot (iat + 999999) 1000000"
  shows "iat \<le> issuedAt p" and "issuedAt p < iat + 1000000"
proof -
  have q: "sp_iat p = (iat + 999999) div 1000000" using assms by (simp add: go_quot_def)
  then have "sp_iat p > 0" using assms(1) by simp
  then show "iat \<le> issuedAt p" and "issuedAt p < iat + 1000000"
    using q assms(1) by (simp_all add: issuedAt_def)
qed

lemma open_signed:
  assumes "codec_ok cd" and "us_id u = int_dec i" and "now' \<le> now + sessionMaxAge" and "0 < iat"
  obtains v p where "payloadFromRequest cd now' (Some (signAt cd now u iat)) = Some (v, p)" and "us_id v = int_dec i"
    and "iat \<le> issuedAt p" and "issuedAt p < iat + 1000000"
proof -
  define p where "p = \<lparr>sp_id = us_id u, sp_username = us_username u, sp_display = us_display u,
           sp_is_admin = us_is_admin u, sp_tenant = us_tenant u, sp_roles = us_roles u,
           sp_exp = unix (now + sessionMaxAge), sp_iat = go_quot (iat + 999999) 1000000\<rparr>"
  have c: "CHR ''.'' \<notin> set (cd_seal cd p)" "list_all (\<lambda>c. byte c < 128) (sp_id p)"
    using assms(1,2) int_dec_ascii by (simp_all add: codec_ok_def p_def)
  then obtain q where q: "cd_open cd (cd_seal cd p) = Some q" "sp_id q = int_dec i" "sp_exp q = unix (now + sessionMaxAge)"
    "sp_iat q = go_quot (iat + 999999) 1000000"
    using assms(1,2) unfolding codec_ok_def by (fastforce simp: p_def)
  have "unix now' \<le> unix (now + sessionMaxAge)"
    using assms(3) by (simp add: unix_def zdiv_mono1 second_def)
  then have "\<exists>v r. payloadFromRequest cd now' (Some (signAt cd now u iat)) = Some (v, r) \<and> us_id v = int_dec i \<and>
      sp_iat r = sp_iat q"
    using q c(1) by (simp add: payloadFromRequest_def verifyPayload_def signAt_def Let_def split_dot_append [simplified] p_def [symmetric])
  then obtain v r where r: "payloadFromRequest cd now' (Some (signAt cd now u iat)) = Some (v, r)" "us_id v = int_dec i"
    "sp_iat r = go_quot (iat + 999999) 1000000" using q(4) by auto
  show thesis by (rule that [OF r(1,2) issuedAt_bounds [OF assms(4) r(3)]])
qed

section \<open>Looking up the account\<close>

text \<open>What the cache or the table knows of an account.\<close>

lemma by_id_unique:
  assumes "distinct (map ac_id (a_users d))" and "a \<in> set (a_users d)"
  shows "by_id (ac_id a) d = Some a"
  using find_distinct [OF assms] by (simp add: by_id_def)

lemma lookup_fresh:
  assumes "\<And>cu. cache (int_dec i) = Some cu \<Longrightarrow> userCacheTTL \<le> now - cu_cached_at cu" and "0 \<le> i" and "i < 2 ^ 63"
  shows "fst (defaultLookup now (int_dec i) d cache) =
    (case by_id i d of None \<Rightarrow> Inl Unauthorized | Some a \<Rightarrow> Inr (cached now False a))"
  using assms by (force simp: defaultLookup_def Let_def parse_int64_int_dec split: option.split)

lemma auth_verdict:
  assumes "payloadFromRequest cd now cookie = Some (v, p)" and "fst (defaultLookup now (us_id v) d cache) = Inr cu"
  shows "fst (Authenticate cd now cookie d cache) =
    (if cu_disabled cu \<or> issuedAt p < cu_updated_at cu then Inl Unauthorized else Inr (user_now (us_id v) cu))"
  using assms by (cases "defaultLookup now (us_id v) d cache") (simp add: Authenticate_def)

lemma auth_unknown:
  assumes "payloadFromRequest cd now cookie = Some (v, p)" and "fst (defaultLookup now (us_id v) d cache) = Inl Unauthorized"
  shows "fst (Authenticate cd now cookie d cache) = Inl Unauthorized"
  using assms by (cases "defaultLookup now (us_id v) d cache") (simp add: Authenticate_def)

lemma Login_ok:
  assumes "Login cmp cd now username password d cache = (Inr (u, token), cache')"
  obtains a where "by_name username d = Some a" and "\<not> ac_disabled a" and "cmp (ac_hash a) password"
    and "u = session_of a" and "token = signAt cd now u now" and "cache' = cache(us_id u \<mapsto> cached now True a)"
proof -
  from assms obtain a where "by_name username d = Some a" "\<not> ac_disabled a" "cmp (ac_hash a) password"
    "u = session_of a" "token = signAt cd now u now"
    "cache' = cache(us_id u \<mapsto> (cached now True a)\<lparr>cu_disabled := False\<rparr>)"
    unfolding Login_def sign_def by (auto simp: Let_def split: option.splits if_splits)
  then show thesis by (intro that) (auto simp: cached_def)
qed

text \<open>A login that succeeds yields the stored account's own data and a cookie with which every server
  process recognises that account, with its stored tenant and roles, for seven days, as long as the
  account does not change.\<close>

theorem login_session:
  assumes "codec_ok cd" and "accounts_ok d" and "Login cmp cd now username password d cache = (Inr (u, token), cache')"
    and "by_name username d = Some a" and "0 \<le> ac_id a" and "ac_id a < 2 ^ 63" and "0 < now" and "ac_updated_at a \<le> now"
    and "now' \<le> now + sessionMaxAge" and "other (us_id u) \<in> {None, cache' (us_id u)}"
  shows "u = session_of a \<and> \<not> ac_disabled a \<and> cmp (ac_hash a) password \<and>
    fst (Authenticate cd now' (Some token) d other) = Inr u"
proof -
  from Login_ok [OF assms(3)] assms(4)
  have l: "\<not> ac_disabled a" "cmp (ac_hash a) password" "u = session_of a" "token = signAt cd now u now"
    "cache' = cache(us_id u \<mapsto> cached now True a)" by (metis option.inject)+
  have id: "us_id u = int_dec (ac_id a)" by (simp add: l(3) session_of_def)
  have a: "a \<in> set (a_users d)" using by_nameD [OF assms(4)] by simp
  have row: "by_id (ac_id a) d = Some a" by (rule by_id_unique [OF accounts_okD(2) [OF assms(2)] a])
  obtain v p where o: "payloadFromRequest cd now' (Some token) = Some (v, p)" "us_id v = int_dec (ac_id a)" "now \<le> issuedAt p"
    using open_signed [OF assms(1) id assms(9,7)] l(4) by metis
  have "\<exists>t ok. fst (defaultLookup now' (us_id v) d other) = Inr (cached t ok a)"
    using assms(10) row parse_int64_int_dec [OF assms(5,6)] o(2)
    by (auto simp: id l(5) defaultLookup_def Let_def split: if_splits) blast+
  then obtain t ok where "fst (defaultLookup now' (us_id v) d other) = Inr (cached t ok a)" by blast
  from auth_verdict [OF o(1) this] have "fst (Authenticate cd now' (Some token) d other) = Inr u"
    using l(1) o(2,3) assms(8) by (simp add: cached_def user_now_def l(3) session_of_def)
  with l show ?thesis by blast
qed

section \<open>Sessions end with a change of the account\<close>

text \<open>A management request that succeeded in changing or removing the account \<open>a\<close> at time \<open>T\<close>.\<close>

definition account_changed :: "(string \<Rightarrow> string option) \<Rightarrow> time \<Rightarrow> user option \<Rightarrow> account \<Rightarrow> accounts \<Rightarrow> accounts \<Rightarrow> bool" where
  "account_changed gen T actor a d d' =
    ((\<exists>tenant roles. SetTenantRoles T actor (ac_username a) tenant roles d = (None, d')) \<or>
     (\<exists>b. SetDisabled T actor (ac_username a) b d = (None, d')) \<or>
     (\<exists>name pw. trim_space name = ac_username a \<and> ResetPassword gen T actor name pw d = (None, d')) \<or>
     (\<exists>name. trim_space name = ac_username a \<and> acc_delete actor name d = (None, d')))"

lemma by_id_set_users:
  assumes "\<And>r. ac_id (f r) = ac_id r" and "by_id i d = Some a"
  shows "by_id i (set_users P f d) = Some (if P a then f a else a)"
  using find_upd_where [of "\<lambda>r. ac_id r = i" f P "a_users d"] assms by (simp add: by_id_def set_users_def)

lemma same_name:
  assumes "accounts_ok d" and "a \<in> set (a_users d)" and "b \<in> set (a_users d)" and "ac_username b = ac_username a"
  shows "b = a"
  using distinct_map_unique [OF accounts_okD(1) [OF assms(1)] assms(3,2,4)] .

text \<open>A statement that affects a row with the name of \<open>a\<close> affects \<open>a\<close>.\<close>

lemma affected_row:
  assumes "accounts_ok d" and "a \<in> set (a_users d)"
    and "rows_affected (\<lambda>r. ac_username r = ac_username a \<and> Q r) (a_users d) \<noteq> 0"
  shows "Q a"
  using assms same_name [OF assms(1,2)] by (auto simp: rows_affected_0)

lemma SetTenantRoles_hit:
  assumes "accounts_ok d" and "a \<in> set (a_users d)" and "SetTenantRoles T actor (ac_username a) tenant roles d = (None, d')"
  shows "\<exists>a'. by_id (ac_id a) d' = Some a' \<and> ac_updated_at a' = T"
proof -
  have "rows_affected (\<lambda>r. ac_username r = ac_username a \<and> (super_actor actor \<or> still_ordinary actor r)) (a_users d) \<noteq> 0"
    using assms(3) by (auto simp: SetTenantRoles_def Let_def split: if_splits sum.splits prod.splits)
  then have "super_actor actor \<or> still_ordinary actor a" by (rule affected_row [OF assms(1,2)])
  then show ?thesis
    using SetTenantRoles_result [of T actor "ac_username a" tenant roles d] assms(3)
      by_id_unique [OF accounts_okD(2) [OF assms(1)] assms(2)] by (auto simp: by_id_set_users)
qed

lemma SetDisabled_hit:
  assumes "accounts_ok d" and "a \<in> set (a_users d)" and "SetDisabled T actor (ac_username a) b d = (None, d')"
  shows "\<exists>a'. by_id (ac_id a) d' = Some a' \<and> ac_updated_at a' = T"
proof -
  have "rows_affected (\<lambda>r. ac_username r = ac_username a \<and> (super_actor actor \<or> still_ordinary actor r)) (a_users d) \<noteq> 0"
    using assms(3) by (auto simp: SetDisabled_def Let_def split: if_splits sum.splits prod.splits)
  then have "super_actor actor \<or> still_ordinary actor a" by (rule affected_row [OF assms(1,2)])
  then show ?thesis
    using SetDisabled_result [of T actor "ac_username a" b d] assms(3)
      by_id_unique [OF accounts_okD(2) [OF assms(1)] assms(2)] by (auto simp: by_id_set_users)
qed

lemma changed_row:
  assumes "accounts_ok d" and "a \<in> set (a_users d)" and "account_changed gen T actor a d d'"
  shows "by_id (ac_id a) d' = None \<or> (\<exists>a'. by_id (ac_id a) d' = Some a' \<and> ac_updated_at a' = T)"
proof -
  have row: "by_id (ac_id a) d = Some a" by (rule by_id_unique [OF accounts_okD(2) [OF assms(1)] assms(2)])
  have gone: "by_id (ac_id a) d' = None" if "trim_space name = ac_username a" "acc_delete actor name d = (None, d')" for name
  proof -
    have "a_users d' = filter (\<lambda>r. ac_username r \<noteq> ac_username a) (a_users d)"
      using acc_delete_result [of actor name d] that by auto
    then show ?thesis
      using distinct_map_unique [OF accounts_okD(2) [OF assms(1)] _ assms(2)] by (auto simp: by_id_def find_None_all)
  qed
  have reset: "\<exists>a'. by_id (ac_id a) d' = Some a' \<and> ac_updated_at a' = T"
    if "trim_space name = ac_username a" "ResetPassword gen T actor name pw d = (None, d')" for name pw
    using ResetPassword_result [of gen T actor name pw d] that row by (auto simp: by_id_set_users)
  show ?thesis
    using assms(3) gone reset SetTenantRoles_hit [OF assms(1,2)] SetDisabled_hit [OF assms(1,2)]
    unfolding account_changed_def by blast
qed

lemma old_session_refused:
  assumes "codec_ok cd" and "us_id u = int_dec i" and "0 < t0" and "now' \<le> t + sessionMaxAge"
    and "0 \<le> i" and "i < 2 ^ 63" and "\<And>cu. cache (int_dec i) = Some cu \<Longrightarrow> userCacheTTL \<le> now' - cu_cached_at cu"
    and "by_id i d = None \<or> (\<exists>a. by_id i d = Some a \<and> t0 + 1000000 \<le> ac_updated_at a)"
  shows "fst (Authenticate cd now' (Some (signAt cd t u t0)) d cache) = Inl Unauthorized"
proof -
  obtain v p where o: "payloadFromRequest cd now' (Some (signAt cd t u t0)) = Some (v, p)" "us_id v = int_dec i"
    "issuedAt p < t0 + 1000000"
    by (rule open_signed [OF assms(1,2,4,3)])
  have l: "fst (defaultLookup now' (us_id v) d cache) = (case by_id i d of None \<Rightarrow> Inl Unauthorized | Some a \<Rightarrow> Inr (cached now' False a))"
    using lookup_fresh [of cache i now' d] assms(5,6,7) by (simp add: o(2))
  show ?thesis
  proof (cases "by_id i d")
    case None
    then show ?thesis using auth_unknown [OF o(1)] l by simp
  next
    case (Some a)
    then show ?thesis using auth_verdict [OF o(1)] l assms(8) o(3) by (simp add: cached_def)
  qed
qed

text \<open>C30: when an account's tenant, roles, password or state is changed by a request, or the account is deleted,
  every session signed at least a millisecond earlier is refused by every server process, at the
  latest when the process's cache entry of the account is 30 seconds old.\<close>

theorem session_revoked:
  assumes "codec_ok cd" and "accounts_ok d" and "a \<in> set (a_users d)" and "account_changed gen T actor a d d'"
    and "us_id u = int_dec (ac_id a)" and "0 < t0" and "t0 + 1000000 \<le> T" and "now' \<le> t0 + sessionMaxAge"
    and "0 \<le> ac_id a" and "ac_id a < 2 ^ 63"
    and "\<And>cu. cache (int_dec (ac_id a)) = Some cu \<Longrightarrow> userCacheTTL \<le> now' - cu_cached_at cu"
  shows "fst (Authenticate cd now' (Some (sign cd t0 u)) d' cache) = Inl Unauthorized"
  unfolding sign_def
  by (rule old_session_refused [OF assms(1,5,6,8,9,10,11)]) (use changed_row [OF assms(2,3,4)] assms(7) in auto)

lemma ChangePassword_ok:
  assumes "ChangePassword gen cmp cd now dbnow userID old new d cache = (Inr token, d', cache')"
    and "userID = int_dec i" and "0 \<le> i" and "i < 2 ^ 63"
  obtains a hash where "by_id i d = Some a" and "\<not> ac_disabled a" and "cmp (ac_hash a) old" and "gen new = Some hash"
    and "ValidatePassword old new = None" and "by_id i d' = Some (a\<lparr>ac_hash := hash, ac_updated_at := dbnow\<rparr>)"
    and "cache' = cache(userID \<mapsto> cached now False (a\<lparr>ac_hash := hash, ac_updated_at := dbnow\<rparr>))"
    and "token = signAt cd now (user_now userID (cached now False (a\<lparr>ac_hash := hash, ac_updated_at := dbnow\<rparr>))) dbnow"
proof -
  note p = parse_int64_int_dec [OF assms(3,4)]
  from assms(1) have v: "ValidatePassword old new = None"
    unfolding ChangePassword_def by (auto split: option.splits)
  from assms(1) obtain a where a: "by_id i d = Some a"
    unfolding ChangePassword_def assms(2) p using v by (cases "by_id i d") auto
  from assms(1) obtain hash where h: "\<not> ac_disabled a" "cmp (ac_hash a) old" "gen new = Some hash"
    unfolding ChangePassword_def assms(2) p using v a by (auto split: if_splits option.splits)
  let ?hit = "\<lambda>r. ac_id r = ac_id a \<and> ac_hash r = ac_hash a"
  let ?new = "a\<lparr>ac_hash := hash, ac_updated_at := dbnow\<rparr>"
  define d1 where "d1 = set_users ?hit (\<lambda>r. r\<lparr>ac_hash := hash, ac_updated_at := dbnow\<rparr>) d"
  have row: "by_id i d1 = Some ?new"
    unfolding d1_def using by_id_set_users [of "\<lambda>r. r\<lparr>ac_hash := hash, ac_updated_at := dbnow\<rparr>" i d a ?hit] a by simp
  have ids: "ac_id a = i" using a find_SomeD [of "\<lambda>r. ac_id r = i"] by (auto simp: by_id_def)
  have l: "defaultLookup now userID d1 (InvalidateUser userID cache) =
      (Inr (cached now False ?new), cache(userID \<mapsto> cached now False ?new))"
    using row p by (simp add: defaultLookup_def InvalidateUser_def assms(2))
  have ne: "rows_affected ?hit (a_users d) \<noteq> 0"
    using a find_SomeD [of "\<lambda>r. ac_id r = i" "a_users d" a] by (auto simp: by_id_def rows_affected_0)
  have "ChangePassword gen cmp cd now dbnow userID old new d cache =
      (Inr (signAt cd now (user_now userID (cached now False ?new)) dbnow), d1, cache(userID \<mapsto> cached now False ?new))"
    unfolding ChangePassword_def using v a h ne l p by (simp add: assms(2) d1_def [symmetric] Let_def)
  then show thesis using that [OF a h(1,2,3) v] assms(1) row by simp
qed

text \<open>After a user changed the password, the answer's cookie is a session of the same account on every server
  process, and on the process that served the change every cookie signed at least a millisecond
  before the change is refused at once.\<close>

theorem password_change_session:
  assumes "codec_ok cd" and "ChangePassword gen cmp cd now dbnow userID old new d cache = (Inr token, d', cache')"
    and "userID = int_dec i" and "0 \<le> i" and "i < 2 ^ 63" and "0 < dbnow" and "now' \<le> now + sessionMaxAge"
    and "us_id u = userID" and "0 < t0" and "t0 + 1000000 \<le> dbnow" and "now' \<le> t0 + sessionMaxAge"
    and "other userID \<in> {None, cache' userID}"
  shows "(\<exists>v. fst (Authenticate cd now' (Some token) d' other) = Inr v \<and> us_id v = userID) \<and>
    fst (Authenticate cd now' (Some (sign cd t0 u)) d' cache') = Inl Unauthorized"
proof -
  from ChangePassword_ok [OF assms(2-5)] obtain a hash where c: "\<not> ac_disabled a"
    "by_id i d' = Some (a\<lparr>ac_hash := hash, ac_updated_at := dbnow\<rparr>)"
    "cache' = cache(userID \<mapsto> cached now False (a\<lparr>ac_hash := hash, ac_updated_at := dbnow\<rparr>))"
    "token = signAt cd now (user_now userID (cached now False (a\<lparr>ac_hash := hash, ac_updated_at := dbnow\<rparr>))) dbnow"
    by metis
  have lookup: "\<exists>t. fst (defaultLookup now' userID d' m) = Inr (cached t False (a\<lparr>ac_hash := hash, ac_updated_at := dbnow\<rparr>))"
    if "m userID \<in> {None, cache' userID}" for m
    using that c(2) parse_int64_int_dec [OF assms(4,5)]
    by (auto simp: c(3) assms(3) defaultLookup_def Let_def split: if_splits)
  obtain v p where o: "payloadFromRequest cd now' (Some token) = Some (v, p)" "us_id v = userID" "dbnow \<le> issuedAt p"
    using open_signed [OF assms(1) _ assms(7,6)] unfolding c(4)
    by (metis assms(3) user_now_def session_user.select_convs(1))
  have new: "\<exists>v. fst (Authenticate cd now' (Some token) d' other) = Inr v \<and> us_id v = userID"
    using lookup [of other, OF assms(12)] auth_verdict [OF o(1)] o(2,3) c(1) by (auto simp: cached_def user_now_def)
  obtain w q where r: "payloadFromRequest cd now' (Some (sign cd t0 u)) = Some (w, q)" "us_id w = userID"
    "issuedAt q < t0 + 1000000"
    using open_signed [OF assms(1) _ assms(11,9)] assms(3,8) unfolding sign_def by metis
  have "fst (Authenticate cd now' (Some (sign cd t0 u)) d' cache') = Inl Unauthorized"
    using lookup [of cache'] auth_verdict [OF r(1)] r(2,3) assms(10) by (auto simp: cached_def)
  with new show ?thesis by blast
qed

end
