(* ===== verification/Middleware.thy ===== *)
theory Middleware
imports Gateway ClientAddr
begin

text \<open>
  What every request passes before a handler runs (\<open>internal/middleware/\<close>, \<open>internal/pkg/corsx\<close>): who the user is,
  the guards against forged requests from other sites, rate limits, and the cache of pages
  (\<open>internal/pkg/cache/cache.go\<close>). A handler maps a state to an answer and a new state; \<open>Inl\<close> is a refusal with
  its status. The order of the chain is the one of \<open>cmd/server/main.go\<close>.
\<close>

section \<open>Who is asking\<close>

type_synonym ('s, 'a) handler = "'s \<Rightarrow> (nat + 'a) \<times> 's"

definition RequireAuth :: "user option \<Rightarrow> (user \<Rightarrow> ('s, 'a) handler) \<Rightarrow> ('s, 'a) handler" where
  "RequireAuth authenticated next s = (case authenticated of None \<Rightarrow> (Inl 401, s) | Some u \<Rightarrow> next u s)"

definition RequireAdmin :: "user option \<Rightarrow> ('s, 'a) handler \<Rightarrow> ('s, 'a) handler" where
  "RequireAdmin ctx next s =
    (case ctx of None \<Rightarrow> (Inl 403, s) | Some u \<Rightarrow> if us_is_admin u then next s else (Inl 403, s))"

definition RequireSuperAdmin :: "user option \<Rightarrow> ('s, 'a) handler \<Rightarrow> ('s, 'a) handler" where
  "RequireSuperAdmin ctx next s =
    (case ctx of None \<Rightarrow> (Inl 403, s) | Some u \<Rightarrow> if IsSuperAdmin u then next s else (Inl 403, s))"

definition WithTenantScope :: "user option \<Rightarrow> (scope \<Rightarrow> ('s, 'a) handler) \<Rightarrow> ('s, 'a) handler" where
  "WithTenantScope ctx next s =
    (case ctx of None \<Rightarrow> (Inl 401, s)
     | Some u \<Rightarrow> next \<lparr>sc_tenant = normalizeTenant (us_tenant u), sc_cross = HasRole u RoleSuperAdmin\<rparr> s)"

text \<open>The agent id of a request whose credential is right.\<close>

definition RequireAgentAuth :: "(string \<Rightarrow> string) \<Rightarrow> string \<Rightarrow> db \<Rightarrow> nat + string" where
  "RequireAgentAuth hash authorization d =
    (if \<not> has_prefix ''Bearer '' authorization then Inl 401
     else
      (let rest = trim_prefix ''Bearer '' authorization
       in if CHR '':'' \<notin> set rest then Inl 401
          else (let agentID = takeWhile (\<lambda>c. c \<noteq> CHR '':'') rest; token = drop (length agentID + 1) rest
                in if VerifyToken hash agentID token d \<noteq> None then Inl 401 else Inr agentID)))"

definition MetricsAuth :: "string \<Rightarrow> user option \<Rightarrow> string \<Rightarrow> bool" where
  "MetricsAuth token authenticated authorization =
    (if token = [] then authenticated \<noteq> None
     else if length authorization \<le> 7 \<or> \<not> equal_fold (take 7 authorization) ''Bearer '' then False
     else trim_space (drop 7 authorization) = token)"

section \<open>Requests from other sites\<close>

fun normalize_origins :: "url_lib \<Rightarrow> string list \<Rightarrow> string list \<Rightarrow> string list option" where
  "normalize_origins ul out [] = Some out"
| "normalize_origins ul out (raw # rest) =
    (let s = trim_right ''/'' (trim_space raw)
     in if s = [] then normalize_origins ul out rest
        else case ul_parse ul s of None \<Rightarrow> None | Some u \<Rightarrow>
         (if (ur_scheme u \<noteq> ''http'' \<and> ur_scheme u \<noteq> ''https'') \<or> ur_host u = [] \<or> ur_user u \<or> ur_path u \<noteq> [] \<or>
             ur_query u \<noteq> [] \<or> ur_fragment u \<noteq> [] then None
          else (let o0 = to_lower (ur_scheme u) @ ''://'' @ to_lower (ur_host u)
                in normalize_origins ul (if o0 \<in> set out then out else out @ [o0]) rest)))"

definition NormalizeOrigins :: "url_lib \<Rightarrow> string list \<Rightarrow> string list option" where
  "NormalizeOrigins ul origins = normalize_origins ul [] origins"

definition Match :: "url_lib \<Rightarrow> string list \<Rightarrow> string \<Rightarrow> bool" where
  "Match ul origins origin =
    (case NormalizeOrigins ul [origin] of
       Some [target] \<Rightarrow> list_ex (\<lambda>allowed. trim_right ''/'' (to_lower (trim_space allowed)) = target) origins
     | _ \<Rightarrow> False)"

record web_request =
  wr_method :: string
  wr_path :: string
  wr_uri :: string
  wr_host :: string
  wr_origin :: string
  wr_referer :: string
  wr_cookie :: string
  wr_preflight :: string

definition originOf :: "url_lib \<Rightarrow> string \<Rightarrow> string" where
  "originOf ul raw0 =
    (let raw = trim_space raw0
     in if raw = [] \<or> equal_fold raw ''null'' then []
        else case ul_parse ul raw of None \<Rightarrow> [] | Some u \<Rightarrow>
         (if ur_host u = [] then []
          else (let scheme = to_lower (ur_scheme u)
                in if scheme \<noteq> ''http'' \<and> scheme \<noteq> ''https'' then [] else scheme @ ''://'' @ to_lower (ur_host u))))"

definition sameHostOrigin :: "url_lib \<Rightarrow> string \<Rightarrow> string \<Rightarrow> bool" where
  "sameHostOrigin ul origin requestHost =
    (case ul_parse ul origin of None \<Rightarrow> False | Some u \<Rightarrow>
      (if ur_hostname u = [] then False
       else (let host = (case SplitHostPort requestHost of Some (h, p) \<Rightarrow> h | None \<Rightarrow> requestHost)
             in equal_fold (ur_hostname u) (trim_set ''[]'' host))))"

definition safe_method :: "string \<Rightarrow> bool" where
  "safe_method m = (m \<in> {''GET'', ''HEAD'', ''OPTIONS'', ''TRACE''})"

text \<open>Whether the request goes on.\<close>

definition CSRFGuard :: "url_lib \<Rightarrow> string list \<Rightarrow> web_request \<Rightarrow> bool" where
  "CSRFGuard ul origins r =
    (if safe_method (wr_method r) then True
     else
      (let raw = (if trim_space (wr_origin r) = [] then trim_space (wr_referer r) else trim_space (wr_origin r))
       in if raw = [] then True
          else (let origin = originOf ul raw
                in if origin = [] then False else sameHostOrigin ul origin (wr_host r) \<or> Match ul origins origin)))"

text \<open>What happens to a request from another origin: it goes on, with or without leave to read the answer, or a
  preflight is answered.\<close>

datatype cors = CorsPass "string option" | CorsPreflight string | CorsDenied

definition CORS :: "url_lib \<Rightarrow> string list \<Rightarrow> web_request \<Rightarrow> cors" where
  "CORS ul origins r =
    (let origin = trim_space (wr_origin r)
     in if origin = [] then CorsPass None
        else
         (let allowed = Match ul origins origin
          in if wr_method r = ''OPTIONS'' \<and> wr_preflight r \<noteq> [] then (if allowed then CorsPreflight origin else CorsDenied)
             else CorsPass (if allowed then Some origin else None)))"

section \<open>Rate limits\<close>

record bucket =
  bk_count :: int
  bk_reset :: time

record rate_limiter =
  rl_max :: int
  rl_window :: time
  rl_limits :: "string \<Rightarrow> bucket option"

definition NewRateLimiter :: "int \<Rightarrow> time \<Rightarrow> rate_limiter" where
  "NewRateLimiter maxReq window = \<lparr>rl_max = maxReq, rl_window = window, rl_limits = Map.empty\<rparr>"

definition Allow :: "time \<Rightarrow> string \<Rightarrow> rate_limiter \<Rightarrow> bool \<times> rate_limiter" where
  "Allow now ip rl =
    (let fresh = (True, rl\<lparr>rl_limits := (rl_limits rl)(ip \<mapsto> \<lparr>bk_count = 1, bk_reset = now + rl_window rl\<rparr>)\<rparr>)
     in case rl_limits rl ip of None \<Rightarrow> fresh | Some b \<Rightarrow>
      (if now > bk_reset b then fresh
       else if bk_count b \<ge> rl_max rl then (False, rl)
       else (True, rl\<lparr>rl_limits := (rl_limits rl)(ip \<mapsto> b\<lparr>bk_count := bk_count b + 1\<rparr>)\<rparr>)))"

definition cleanup :: "time \<Rightarrow> rate_limiter \<Rightarrow> rate_limiter" where
  "cleanup now rl = rl\<lparr>rl_limits := (\<lambda>ip. case rl_limits rl ip of None \<Rightarrow> None
     | Some b \<Rightarrow> if now > bk_reset b then None else Some b)\<rparr>"

text \<open>The limiter of log-ins reads its bound with every request; \<open>stopped\<close> when the server shuts down.\<close>

record dynamic_limiter =
  dl_cur :: "rate_limiter option"
  dl_limit :: int
  dl_window :: time
  dl_stopped :: bool

definition NewDynamicRateLimiter :: "time \<Rightarrow> dynamic_limiter" where
  "NewDynamicRateLimiter window = \<lparr>dl_cur = None, dl_limit = 0, dl_window = window, dl_stopped = False\<rparr>"

definition dyn_allow :: "time \<Rightarrow> string \<Rightarrow> int \<Rightarrow> dynamic_limiter \<Rightarrow> bool \<times> dynamic_limiter" where
  "dyn_allow now ip limit dl =
    (if limit \<le> 0 then (True, dl)
     else if dl_stopped dl then (True, dl)
     else
      (let cur = (case dl_cur dl of Some rl \<Rightarrow> if dl_limit dl \<noteq> limit then NewRateLimiter limit (dl_window dl) else rl
                  | None \<Rightarrow> NewRateLimiter limit (dl_window dl))
       in case Allow now ip cur of (ok, cur') \<Rightarrow> (ok, dl\<lparr>dl_cur := Some cur', dl_limit := limit\<rparr>)))"

definition dyn_stop :: "dynamic_limiter \<Rightarrow> dynamic_limiter" where
  "dyn_stop dl = dl\<lparr>dl_stopped := True, dl_cur := None\<rparr>"

definition RateLimitMiddleware ::
    "bool \<Rightarrow> network list \<Rightarrow> time \<Rightarrow> http_request \<Rightarrow> ('s, 'a) handler \<Rightarrow> rate_limiter \<times> 's \<Rightarrow> (nat + 'a) \<times> rate_limiter \<times> 's" where
  "RateLimitMiddleware trustProxy trusted now r next st = (case st of (rl, s) \<Rightarrow>
    (case Allow now (ClientIPWithProxies r trustProxy trusted) rl of
       (False, rl') \<Rightarrow> (Inl 429, rl', s)
     | (True, rl') \<Rightarrow> (case next s of (a, s') \<Rightarrow> (a, rl', s'))))"

definition DynamicRateLimitMiddleware ::
    "bool \<Rightarrow> network list \<Rightarrow> int \<Rightarrow> time \<Rightarrow> http_request \<Rightarrow> ('s, 'a) handler \<Rightarrow> dynamic_limiter \<times> 's \<Rightarrow>
     (nat + 'a) \<times> dynamic_limiter \<times> 's" where
  "DynamicRateLimitMiddleware trustProxy trusted limit now r next st = (case st of (dl, s) \<Rightarrow>
    (case dyn_allow now (ClientIPWithProxies r trustProxy trusted) limit dl of
       (False, dl') \<Rightarrow> (Inl 429, dl', s)
     | (True, dl') \<Rightarrow> (case next s of (a, s') \<Rightarrow> (a, dl', s'))))"

section \<open>The cache of pages\<close>

text \<open>Redis is a map from keys to values that end; a value that cannot be written is not there.\<close>

type_synonym 'v redis = "string \<Rightarrow> ('v \<times> time) option"

record cache =
  ca_ttl :: time
  ca_hosts_ttl :: time
  ca_prefix :: string

definition normalizePrefix :: "string \<Rightarrow> string" where
  "normalizePrefix p0 =
    (let p = trim_space p0
     in if p = [] then ''upgrade_mgr:''
        else (let q = filter (\<lambda>c. c \<notin> {CHR 0x09, CHR 0x0A, CHR 0x0D}) (map (\<lambda>c. if c = CHR '' '' then CHR ''_'' else c) p)
              in if has_suffix '':'' q then q else q @ '':''))"

definition defaultTTL :: time where "defaultTTL = 10 * second"
definition maxHTTPTTL :: time where "maxHTTPTTL = 30 * second"
definition maxHostsTTL :: time where "maxHostsTTL = minutes 5"

definition new_cache :: "time \<Rightarrow> time \<Rightarrow> string \<Rightarrow> cache" where
  "new_cache ttl0 hosts0 prefix =
    (let ttl = (if ttl0 \<le> 0 then defaultTTL else if ttl0 > maxHTTPTTL then maxHTTPTTL else ttl0);
         hosts1 = (if hosts0 > maxHostsTTL then maxHostsTTL else hosts0);
         hosts = (if hosts1 > 0 \<and> hosts1 < ttl then ttl else hosts1)
     in \<lparr>ca_ttl = ttl, ca_hosts_ttl = hosts, ca_prefix = normalizePrefix prefix\<rparr>)"

definition TTL :: "cache \<Rightarrow> time" where
  "TTL c = (if ca_ttl c \<le> 0 then defaultTTL else ca_ttl c)"

definition HostsTTL :: "cache \<Rightarrow> time" where
  "HostsTTL c = (if ca_hosts_ttl c \<le> 0 then TTL c else ca_hosts_ttl c)"

definition key_part :: "string \<Rightarrow> nat \<times> string \<Rightarrow> string \<Rightarrow> string" where
  "key_part prefix ip0 b = (case ip0 of (i, p0) \<Rightarrow>
    (let p = trim_set '':'' p0
     in if p = [] then b else b @ (if i > 0 \<and> length b > length prefix then '':'' else []) @ p))"

definition Key :: "cache \<Rightarrow> string list \<Rightarrow> string" where
  "Key c parts = fold (key_part (ca_prefix c)) (enumerate 0 parts) (ca_prefix c)"

text \<open>The patterns of Redis: the prefix is one without its wildcards.\<close>

definition DelPrefix :: "cache \<Rightarrow> string \<Rightarrow> 'v redis \<Rightarrow> 'v redis" where
  "DelPrefix c prefix store =
    (let full = ca_prefix c @ trim_prefix '':'' (trim_space prefix) in (\<lambda>k. if has_prefix full k then None else store k))"

definition cacheablePaths :: "string list" where
  "cacheablePaths = [''/api/hosts'', ''/api/hosts/facets'', ''/api/agents/stats'', ''/api/components'', ''/api/artifacts'',
     ''/api/artifacts/paged'', ''/api/tasks'', ''/api/tasks/creators'', ''/api/audit-logs'', ''/api/settings'',
     ''/api/quickstart'', ''/api/my/permissions'', ''/api/users'', ''/api/users/fields'', ''/api/host-field-mappings'',
     ''/api/roles'', ''/api/teams'', ''/api/service-groups'', ''/api/host-groups'', ''/api/org/departments'',
     ''/api/flyiam/users'', ''/api/external/binaries'', ''/api/tenants'']"

definition cacheablePath :: "string \<Rightarrow> bool" where
  "cacheablePath p = (p \<in> set cacheablePaths)"

definition ttlFor :: "cache \<Rightarrow> string \<Rightarrow> time" where
  "ttlFor c p = (if p = ''/api/hosts'' then HostsTTL c else TTL c)"

text \<open>Headers by their canonical names; an answer is the one the client gets.\<close>

type_synonym http_headers = "string \<Rightarrow> string option"

record response =
  rs_status :: nat
  rs_headers :: http_headers
  rs_body :: string

record cached_response =
  cr_status :: nat
  cr_type :: string
  cr_body :: string

type_synonym 's web_handler = "web_request \<Rightarrow> http_headers \<Rightarrow> 's \<Rightarrow> response \<times> 's"

definition header :: "string \<Rightarrow> http_headers \<Rightarrow> string" where
  "header n h = (case h n of None \<Rightarrow> [] | Some v \<Rightarrow> v)"

definition redis_get :: "time \<Rightarrow> string \<Rightarrow> 'v redis \<Rightarrow> 'v option" where
  "redis_get now k store = (case store k of None \<Rightarrow> None | Some (v, until) \<Rightarrow> if now < until then Some v else None)"

definition cache_key :: "(string \<Rightarrow> string) \<Rightarrow> cache \<Rightarrow> web_request \<Rightarrow> string" where
  "cache_key digest c r = Key c [''http'', digest (wr_cookie r), wr_uri r]"

definition invalidates :: "web_request \<Rightarrow> bool" where
  "invalidates r = (wr_method r \<noteq> ''GET'' \<and> wr_method r \<noteq> ''HEAD'' \<and> has_prefix ''/api/'' (wr_path r) \<and>
     \<not> has_prefix ''/api/agent/'' (wr_path r))"

definition storable :: "response \<Rightarrow> bool" where
  "storable a =
    (rs_status a = 200 \<and> length (rs_body a) \<le> 2 * 2 ^ 20 \<and> rs_body a \<noteq> [] \<and>
     \<not> contains ''='' (to_lower (header ''Set-Cookie'' (rs_headers a))) \<and>
     contains ''application/json'' (to_lower (header ''Content-Type'' (rs_headers a))) \<and>
     \<not> equal_fold (header ''Cache-Control'' (rs_headers a)) ''no-store'')"

text \<open>\<open>None\<close> is a server without Redis. \<open>digest\<close> is what the key holds of the cookie.\<close>

definition Cache :: "(string \<Rightarrow> string) \<Rightarrow> cache option \<Rightarrow> time \<Rightarrow> 's web_handler \<Rightarrow> (cached_response redis \<times> 's) web_handler" where
  "Cache digest provider now next r hdrs st = (case st of (store, s) \<Rightarrow>
    (case provider of None \<Rightarrow> (case next r hdrs s of (a, s') \<Rightarrow> (a, store, s'))
     | Some c \<Rightarrow>
       (if invalidates r then
          (case next r hdrs s of (a, s') \<Rightarrow>
            (a, if 200 \<le> rs_status a \<and> rs_status a < 400 then DelPrefix c ''http'' store else store, s'))
        else if wr_method r \<noteq> ''GET'' \<or> \<not> cacheablePath (wr_path r) then (case next r hdrs s of (a, s') \<Rightarrow> (a, store, s'))
        else
         (let k = cache_key digest c r; missed =
            (case next r (hdrs(''X-Cache'' \<mapsto> ''MISS'')) s of (a, s') \<Rightarrow>
              (a, if storable a then store(k \<mapsto> (\<lparr>cr_status = rs_status a, cr_type = header ''Content-Type'' (rs_headers a),
                       cr_body = rs_body a\<rparr>, now + ttlFor c (wr_path r))) else store, s'))
          in case redis_get now k store of None \<Rightarrow> missed | Some v \<Rightarrow>
            (if cr_body v \<noteq> [] \<and> cr_status v = 200
             then (\<lparr>rs_status = cr_status v, rs_headers = hdrs(''Content-Type'' \<mapsto> cr_type v, ''X-Cache'' \<mapsto> ''HIT''),
                    rs_body = cr_body v\<rparr>, store, s)
             else missed)))))"

definition quoted :: "string \<Rightarrow> string" where "quoted s = CHR 0x27 # s @ [CHR 0x27]"

definition content_policy :: string where
  "content_policy = ''default-src '' @ quoted ''self'' @ ''; script-src '' @ quoted ''self'' @ '' '' @ quoted ''unsafe-inline'' @
     ''; style-src '' @ quoted ''self'' @ '' '' @ quoted ''unsafe-inline'' @ ''; img-src '' @ quoted ''self'' @ '' data:; font-src '' @
     quoted ''self'' @ '' data:; connect-src '' @ quoted ''self'' @ ''; object-src '' @ quoted ''none'' @ ''; base-uri '' @
     quoted ''self'' @ ''; form-action '' @ quoted ''self'' @ ''; frame-ancestors '' @ quoted ''none''"

definition SecurityHeaders :: "bool \<Rightarrow> 's web_handler \<Rightarrow> 's web_handler" where
  "SecurityHeaders tls next r hdrs s =
    (let h1 = hdrs(''X-Frame-Options'' \<mapsto> ''DENY'', ''X-Content-Type-Options'' \<mapsto> ''nosniff'',
           ''X-XSS-Protection'' \<mapsto> ''1; mode=block'', ''Referrer-Policy'' \<mapsto> ''strict-origin-when-cross-origin'',
           ''Permissions-Policy'' \<mapsto> ''camera=(), microphone=(), geolocation=()'',
           ''Content-Security-Policy'' \<mapsto> content_policy);
         h2 = (if tls then h1(''Strict-Transport-Security'' \<mapsto> ''max-age=31536000; includeSubDomains'') else h1);
         h3 = (if has_prefix ''/api/'' (wr_path r) then h2(''Cache-Control'' \<mapsto> ''no-store'') else h2)
     in next r h3 s)"

text \<open>The chain of the server from the security headers inwards; \<open>reply\<close> is the text of a refusal.\<close>

definition refuse :: "(nat \<Rightarrow> string) \<Rightarrow> nat \<Rightarrow> http_headers \<Rightarrow> response" where
  "refuse reply code hdrs =
    \<lparr>rs_status = code, rs_headers = hdrs(''Content-Type'' \<mapsto> ''application/json; charset=utf-8''), rs_body = reply code\<rparr>"

definition csrf_guarded :: "url_lib \<Rightarrow> string list \<Rightarrow> (nat \<Rightarrow> string) \<Rightarrow> 's web_handler \<Rightarrow> 's web_handler" where
  "csrf_guarded ul origins reply next r hdrs s =
    (if CSRFGuard ul origins r then next r hdrs s else (refuse reply 403 hdrs, s))"

definition server_chain ::
    "url_lib \<Rightarrow> string list \<Rightarrow> (nat \<Rightarrow> string) \<Rightarrow> bool \<Rightarrow> (string \<Rightarrow> string) \<Rightarrow> cache option \<Rightarrow> time \<Rightarrow> 's web_handler \<Rightarrow>
     (cached_response redis \<times> 's) web_handler" where
  "server_chain ul origins reply tls digest provider now mux =
    SecurityHeaders tls (csrf_guarded ul origins reply (Cache digest provider now mux))"

end
