(* ===== verification/AiTokens.thy ===== *)
theory AiTokens
  imports Sessions Middleware
begin

text \<open>
  Access tokens of the AI bridge: \<^verbatim>\<open>internal/logic/aitoken/aitoken.go\<close>, the handlers of
  \<^verbatim>\<open>internal/handler/ai_tokens.go\<close>, the door of the bridge in \<^verbatim>\<open>ai_mcp.go\<close> and the clean-up of
  \<^verbatim>\<open>internal/maintenance/maintenance.go\<close>. The digest and the random text are parameters. The advisory lock makes
  creations of one user a sequence. The display name of a user, which only a token keeps, is an argument. A write of the last use is made at once here, not in the background.
\<close>

section \<open>Tables and policy\<close>

record ai_token =
  tok_id :: int
  tok_tenant :: int
  tok_username :: string
  tok_display :: string
  tok_provider :: string
  tok_is_admin :: bool
  tok_roles :: "string list"
  tok_name :: string
  tok_hash :: string
  tok_prefix :: string
  tok_allow_write :: bool
  tok_expires :: "time option"
  tok_revoked :: "time option"
  tok_revoked_by :: string
  tok_used :: "time option"
  tok_used_ip :: string
  tok_created_by :: string
  tok_created_at :: time

record ai_repo =
  ai_rows :: "ai_token list"
  ai_next :: int
  ai_touched :: "(int \<times> time) list"

record token_policy =
  tp_prefix :: string
  tp_min_role :: string
  tp_default_ttl :: time
  tp_max_ttl :: time
  tp_permanent :: bool
  tp_max_per_user :: int

record token_input =
  ti_name :: string
  ti_allow_write :: bool
  ti_expires_in :: string
  ti_permanent :: bool

datatype ai_error =
    AiNotAuthenticated | RoleTooLow | PermanentForbidden | PermanentUnbounded | BadTTL | NoDefaultTTL | TTLTooLong
  | NoTokenName | TooManyTokens | RandomFailed | TokenNotStored | TokenMissing | TokenInvalid

section \<open>Who may create what\<close>

definition roleRank :: "user option \<Rightarrow> int" where
  "roleRank u =
    (case u of None \<Rightarrow> -1 | Some v \<Rightarrow>
      if IsSuperAdmin v then 2 else if us_is_admin v \<or> HasRole v RoleAdmin then 1 else 0)"

definition minRoleRank :: "string \<Rightarrow> int" where
  "minRoleRank role = (if role = RoleSuperAdmin then 2 else if role = RoleAdmin then 1 else 0)"

definition CanCreate :: "user option \<Rightarrow> string \<Rightarrow> bool" where
  "CanCreate u minRole = (minRoleRank minRole \<le> roleRank u)"

definition tenantOf :: "user option \<Rightarrow> int" where
  "tenantOf u = (case u of None \<Rightarrow> 1 | Some v \<Rightarrow> if us_tenant v \<le> 0 then 1 else us_tenant v)"

definition resolveExpiry :: "token_input \<Rightarrow> token_policy \<Rightarrow> time \<Rightarrow> ai_error + time option" where
  "resolveExpiry i p now =
    (if ti_permanent i \<or> equal_fold (trim_space (ti_expires_in i)) ''permanent'' then
      (if \<not> tp_permanent p then Inl PermanentForbidden
       else if tp_max_ttl p > 0 then Inl PermanentUnbounded
       else Inr None)
     else
      (let s = trim_space (ti_expires_in i);
           ttl = (if s = [] then Some (tp_default_ttl p)
                  else case parse_duration s of None \<Rightarrow> None | Some d \<Rightarrow> if d \<le> 0 then None else Some d)
       in case ttl of None \<Rightarrow> Inl BadTTL | Some t \<Rightarrow>
            (if t \<le> 0 then Inl NoDefaultTTL
             else if tp_max_ttl p > 0 \<and> t > tp_max_ttl p then Inl TTLTooLong
             else Inr (Some (now + t)))))"

text \<open>The loop over the runes of a name.\<close>

function clean_runes :: "string \<Rightarrow> string \<Rightarrow> string" where
  "clean_runes b s =
    (case rune_size s of None \<Rightarrow> b | Some k \<Rightarrow>
      (if k = 1 \<and> (byte (hd s) < 32 \<or> byte (hd s) = 127) then clean_runes b (drop k s)
       else if length b + k > 100 then b
       else clean_runes (b @ take k s) (drop k s)))"
  by pat_completeness auto
termination
  by (relation "measure (\<lambda>(b, s). length s)") (auto dest!: rune_size_bounds)

declare clean_runes.simps [simp del]

definition cleanName :: "string \<Rightarrow> string" where
  "cleanName s = clean_runes [] (trim_space (to_valid_utf8 s []))"

definition displayPrefix :: "string \<Rightarrow> string \<Rightarrow> string" where
  "displayPrefix prefix plaintext = take (length prefix + 8) plaintext"

text \<open>A token is in force: not revoked, and without an end or with one in the future.\<close>

definition token_alive :: "time \<Rightarrow> ai_token \<Rightarrow> bool" where
  "token_alive now t = (tok_revoked t = None \<and> (case tok_expires t of None \<Rightarrow> True | Some e \<Rightarrow> now < e))"

section \<open>Operations\<close>

definition ai_create ::
    "(string \<Rightarrow> string) \<Rightarrow> string option \<Rightarrow> time \<Rightarrow> user option \<Rightarrow> string \<Rightarrow> string \<Rightarrow> token_input \<Rightarrow> token_policy \<Rightarrow>
     accounts \<Rightarrow> ai_repo \<Rightarrow> (ai_error + ai_token \<times> string) \<times> ai_repo" where
  "ai_create digest random now actor display provider i p acc d =
    (case actor of None \<Rightarrow> (Inl AiNotAuthenticated, d) | Some u \<Rightarrow>
     (if trim_space (us_username u) = [] then (Inl AiNotAuthenticated, d)
      else if \<not> CanCreate actor (tp_min_role p) then (Inl RoleTooLow, d)
      else case resolveExpiry i p now of Inl e \<Rightarrow> (Inl e, d) | Inr expires \<Rightarrow>
       (let name = cleanName (ti_name i); tenant = tenantOf actor
        in if name = [] then (Inl NoTokenName, d)
           else if tp_max_per_user p > 0 \<and>
             int (length (filter (\<lambda>t. tok_username t = us_username u \<and> token_alive now t) (ai_rows d))) \<ge> tp_max_per_user p
           then (Inl TooManyTokens, d)
           else case random of None \<Rightarrow> (Inl RandomFailed, d) | Some r \<Rightarrow>
            (let plaintext = tp_prefix p @ r; h = digest plaintext
             in if exists_row (\<lambda>t. tok_hash t = h) (ai_rows d) \<or> \<not> exists_row (\<lambda>t. tn_id t = tenant) (a_tenants acc)
                then (Inl TokenNotStored, d)
                else
                 (let t = \<lparr>tok_id = ai_next d, tok_tenant = tenant, tok_username = us_username u, tok_display = display,
                           tok_provider = provider, tok_is_admin = us_is_admin u,
                           tok_roles = (if us_roles u = [] then [RoleUser] else us_roles u), tok_name = name, tok_hash = h,
                           tok_prefix = displayPrefix (tp_prefix p) plaintext, tok_allow_write = ti_allow_write i,
                           tok_expires = expires, tok_revoked = None, tok_revoked_by = [], tok_used = None, tok_used_ip = [],
                           tok_created_by = us_username u, tok_created_at = now\<rparr>
                  in (Inr (t, plaintext), d\<lparr>ai_rows := ai_rows d @ [t], ai_next := ai_next d + 1\<rparr>))))))"

text \<open>The rows an actor sees and may revoke: all, those of the tenant, or the actor's own.\<close>

definition visibility :: "user option \<Rightarrow> ai_token \<Rightarrow> bool" where
  "visibility actor t =
    (if roleRank actor = 2 then True
     else if roleRank actor = 1 then tok_tenant t = tenantOf actor
     else case actor of None \<Rightarrow> False | Some u \<Rightarrow> tok_username t = us_username u)"

definition statusOf :: "ai_token \<Rightarrow> time \<Rightarrow> string" where
  "statusOf t now =
    (if tok_revoked t \<noteq> None then ''revoked''
     else case tok_expires t of Some e \<Rightarrow> if e \<le> now then ''expired'' else ''active'' | None \<Rightarrow> ''active'')"

definition ai_list :: "time \<Rightarrow> user option \<Rightarrow> bool \<Rightarrow> int \<Rightarrow> int \<Rightarrow> ai_repo \<Rightarrow> (ai_error + (ai_token \<times> string) list \<times> int)" where
  "ai_list now actor mine page sz d =
    (case actor of None \<Rightarrow> Inl AiNotAuthenticated | Some u \<Rightarrow>
     (let rows = filter (\<lambda>t. visibility actor t \<and> (mine \<longrightarrow> tok_username t = us_username u)) (ai_rows d);
          p = (if page < 1 then 1 else page); offset = i64 (i64 (p - 1) * sz)
      in if offset < 0 \<or> sz < 0 then Inl TokenNotStored
         else Inr (map (\<lambda>t. (t, statusOf t now)) (take (nat sz) (drop (nat offset) (rev (sort_key tok_id rows)))),
                   int (length rows))))"

definition forget_touch :: "int \<Rightarrow> ai_repo \<Rightarrow> ai_repo" where
  "forget_touch i d = d\<lparr>ai_touched := filter (\<lambda>x. fst x \<noteq> i) (ai_touched d)\<rparr>"

definition ai_revoke :: "time \<Rightarrow> user option \<Rightarrow> int \<Rightarrow> ai_repo \<Rightarrow> (ai_error + ai_token) \<times> ai_repo" where
  "ai_revoke now actor i d =
    (case actor of None \<Rightarrow> (Inl AiNotAuthenticated, d) | Some u \<Rightarrow>
     (let hit = (\<lambda>t. tok_id t = i \<and> visibility actor t)
      in case find hit (ai_rows d) of None \<Rightarrow> (Inl TokenMissing, d) | Some t \<Rightarrow>
        (Inr t, forget_touch i (d\<lparr>ai_rows := upd_where hit
           (\<lambda>t. t\<lparr>tok_revoked := (case tok_revoked t of None \<Rightarrow> Some now | Some r \<Rightarrow> Some r),
                  tok_revoked_by := (if tok_revoked_by t = [] then us_username u else tok_revoked_by t)\<rparr>) (ai_rows d)\<rparr>))))"

definition ai_delete :: "user option \<Rightarrow> int \<Rightarrow> ai_repo \<Rightarrow> (ai_error + ai_token) \<times> ai_repo" where
  "ai_delete actor i d =
    (case actor of None \<Rightarrow> (Inl AiNotAuthenticated, d) | Some u \<Rightarrow>
     (let hit = (\<lambda>t. tok_id t = i \<and> visibility actor t)
      in case find hit (ai_rows d) of None \<Rightarrow> (Inl TokenMissing, d) | Some t \<Rightarrow>
        (Inr t, forget_touch i (d\<lparr>ai_rows := filter (\<lambda>t. \<not> hit t) (ai_rows d)\<rparr>))))"

text \<open>Whom a token speaks for: the account of its name as it is now, or the creator as it was for a foreign log-in.\<close>

definition ai_authenticate ::
    "(string \<Rightarrow> string) \<Rightarrow> time \<Rightarrow> string \<Rightarrow> accounts \<Rightarrow> ai_repo \<Rightarrow> ai_error + user \<times> ai_token" where
  "ai_authenticate digest now given acc d =
    (let plaintext = trim_space given
     in if plaintext = [] then Inl TokenInvalid
        else case find (\<lambda>t. tok_hash t = digest plaintext) (ai_rows d) of None \<Rightarrow> Inl TokenInvalid | Some t \<Rightarrow>
         (if statusOf t now \<noteq> ''active'' then Inl TokenInvalid
          else case by_name (tok_username t) acc of
            Some a \<Rightarrow>
             (if ac_disabled a then Inl TokenInvalid
              else Inr (\<lparr>us_username = tok_username t, us_is_admin = ac_is_admin a, us_tenant = ac_tenant a, us_roles = ac_roles a\<rparr>, t))
          | None \<Rightarrow>
             (if tok_provider t = ''builtin'' then Inl TokenInvalid
              else Inr (\<lparr>us_username = tok_username t, us_is_admin = tok_is_admin t, us_tenant = tok_tenant t, us_roles = tok_roles t\<rparr>, t))))"

definition ai_touch :: "time \<Rightarrow> int \<Rightarrow> string \<Rightarrow> time \<Rightarrow> ai_repo \<Rightarrow> ai_repo" where
  "ai_touch now i ip interval d =
    (if (case map_of (ai_touched d) i of Some l \<Rightarrow> now - l < interval | None \<Rightarrow> False) then d
     else d\<lparr>ai_touched := (i, now) # filter (\<lambda>x. fst x \<noteq> i \<and> now - snd x \<le> interval * 2) (ai_touched d),
            ai_rows := upd_where (\<lambda>t. tok_id t = i) (\<lambda>t. t\<lparr>tok_used := Some now, tok_used_ip := ip\<rparr>) (ai_rows d)\<rparr>)"

definition CleanupAITokens :: "time \<Rightarrow> int \<Rightarrow> ai_repo \<Rightarrow> int \<times> ai_repo" where
  "CleanupAITokens now days d =
    (if days \<le> 0 then (0, d)
     else
      (let old = (\<lambda>x. case x of None \<Rightarrow> False | Some e \<Rightarrow> e < now - hours (24 * days));
           hit = (\<lambda>t. old (tok_revoked t) \<or> old (tok_expires t))
       in (int (length (filter hit (ai_rows d))), d\<lparr>ai_rows := filter (\<lambda>t. \<not> hit t) (ai_rows d)\<rparr>)))"

section \<open>Requests\<close>

record ai_settings =
  as_prefix :: string
  as_min_role :: string
  as_default_ttl :: string
  as_max_ttl :: string
  as_permanent :: bool
  as_max_per_user :: int
  as_page_size :: int
  as_mcp_enabled :: bool
  as_mcp_rate :: int
  as_touch_interval :: string

definition parseDur :: "string \<Rightarrow> time" where
  "parseDur s = (case parse_duration (trim_space s) of None \<Rightarrow> 0 | Some d \<Rightarrow> if d \<le> 0 then 0 else d)"

definition aiTokenPolicy :: "ai_settings \<Rightarrow> token_policy" where
  "aiTokenPolicy c =
    \<lparr>tp_prefix = as_prefix c, tp_min_role = as_min_role c, tp_default_ttl = parseDur (as_default_ttl c),
     tp_max_ttl = parseDur (as_max_ttl c), tp_permanent = as_permanent c, tp_max_per_user = as_max_per_user c\<rparr>"

definition atoiDefault :: "string \<Rightarrow> int \<Rightarrow> int" where
  "atoiDefault s def = (case parse_int64 s of None \<Rightarrow> def | Some n \<Rightarrow> if n > 0 then n else def)"

definition with_status :: "nat \<Rightarrow> (ai_error + 'a) \<times> 's \<Rightarrow> (nat + 'a) \<times> 's" where
  "with_status status x = (case x of (Inl e, d) \<Rightarrow> (Inl status, d) | (Inr y, d) \<Rightarrow> (Inr y, d))"

definition CreateAIToken ::
    "(string \<Rightarrow> string) \<Rightarrow> string option \<Rightarrow> time \<Rightarrow> user option \<Rightarrow> string \<Rightarrow> string \<Rightarrow> token_input option \<Rightarrow> ai_settings \<Rightarrow> accounts \<Rightarrow>
     (ai_repo, ai_token \<times> string) handler" where
  "CreateAIToken digest random now actor display provider body c acc d =
    (if actor = None then (Inl 401, d)
     else case body of None \<Rightarrow> (Inl 400, d) | Some i \<Rightarrow>
       with_status 400 (ai_create digest random now actor display provider i (aiTokenPolicy c) acc d))"

definition ListAITokens ::
    "time \<Rightarrow> user option \<Rightarrow> string \<Rightarrow> string \<Rightarrow> string \<Rightarrow> ai_settings \<Rightarrow> (ai_repo, (ai_token \<times> string) list \<times> int \<times> int \<times> int \<times> int) handler" where
  "ListAITokens now actor pageText sizeText mineText c d =
    (if actor = None then (Inl 401, d)
     else
      (let page = atoiDefault pageText 1;
           sz0 = atoiDefault sizeText (as_page_size c);
           sz = (if sz0 < 1 \<or> sz0 > 500 then as_page_size c else sz0)
       in case ai_list now actor (mineText = ''1'' \<or> mineText = ''true'') page sz d of
            Inl e \<Rightarrow> (Inl 500, d)
          | Inr (rows, count_all) \<Rightarrow>
              (let pages = (if (count_all + sz - 1) div sz < 1 then 1 else (count_all + sz - 1) div sz)
               in (Inr (rows, count_all, page, sz, pages), d))))"

definition RevokeAIToken :: "time \<Rightarrow> user option \<Rightarrow> string \<Rightarrow> (ai_repo, int) handler" where
  "RevokeAIToken now actor idText d =
    (if actor = None then (Inl 401, d)
     else case parse_int64 idText of None \<Rightarrow> (Inl 400, d) | Some i \<Rightarrow>
       (if i \<le> 0 then (Inl 400, d)
        else case with_status 404 (ai_revoke now actor i d) of (Inl e, d') \<Rightarrow> (Inl e, d') | (Inr t, d') \<Rightarrow> (Inr i, d')))"

fun delete_tokens :: "user option \<Rightarrow> int list \<Rightarrow> ai_repo \<Rightarrow> int list \<times> int list \<times> ai_repo" where
  "delete_tokens actor [] d = ([], [], d)"
| "delete_tokens actor (i # is) d =
    (case ai_delete actor i d of (res, d1) \<Rightarrow>
      (case delete_tokens actor is d1 of (deleted, failed, d2) \<Rightarrow>
        (case res of Inl e \<Rightarrow> (deleted, i # failed, d2) | Inr t \<Rightarrow> (i # deleted, failed, d2))))"

definition BatchDeleteAITokens :: "user option \<Rightarrow> int list option \<Rightarrow> (ai_repo, int list \<times> int list) handler" where
  "BatchDeleteAITokens actor body d =
    (if actor = None then (Inl 401, d)
     else case body of None \<Rightarrow> (Inl 400, d) | Some ids \<Rightarrow>
       (if ids = [] \<or> length ids > 200 then (Inl 400, d)
        else case delete_tokens actor ids d of (deleted, failed, d') \<Rightarrow> (Inr (deleted, failed), d')))"

section \<open>The door of the bridge\<close>

definition extractBearer :: "string \<Rightarrow> string" where
  "extractBearer h = (if has_prefix ''Bearer '' h then trim_space (drop 7 h) else [])"

record token_bucket =
  tb_count :: int
  tb_start :: time

type_synonym token_buckets = "(int \<times> token_bucket) list"

definition token_cleanup :: "time \<Rightarrow> token_buckets \<Rightarrow> token_buckets" where
  "token_cleanup now bs = (if length bs < 1000 then bs else filter (\<lambda>x. \<not> minutes 2 < now - tb_start (snd x)) bs)"

definition token_allow :: "time \<Rightarrow> int \<Rightarrow> int \<Rightarrow> token_buckets \<Rightarrow> bool \<times> token_buckets" where
  "token_allow now i bound bs =
    (let fresh = (True, token_cleanup now ((i, \<lparr>tb_count = 1, tb_start = now\<rparr>) # filter (\<lambda>x. fst x \<noteq> i) bs))
     in case map_of bs i of None \<Rightarrow> fresh | Some b \<Rightarrow>
      (if now - tb_start b \<ge> minutes 1 then fresh
       else if tb_count b \<ge> bound then (False, bs)
       else (True, upd_where (\<lambda>x. fst x = i) (\<lambda>x. (i, (snd x)\<lparr>tb_count := tb_count (snd x) + 1\<rparr>)) bs)))"

text \<open>What the endpoint answers: a status, or the user and the token the tools are built for.\<close>

definition MCPServer ::
    "(string \<Rightarrow> string) \<Rightarrow> time \<Rightarrow> ai_settings \<Rightarrow> string \<Rightarrow> string \<Rightarrow> string \<Rightarrow> accounts \<Rightarrow>
     (ai_repo \<times> token_buckets, user \<times> ai_token) handler" where
  "MCPServer digest now c method authorization ip acc s =
    (case s of (d, bs) \<Rightarrow>
      (if \<not> as_mcp_enabled c then (Inl 503, s)
       else if method \<noteq> ''POST'' then (Inl 405, s)
       else if extractBearer authorization = [] then (Inl 401, s)
       else case ai_authenticate digest now (extractBearer authorization) acc d of Inl e \<Rightarrow> (Inl 401, s) | Inr (u, t) \<Rightarrow>
        (case (if as_mcp_rate c > 0 then token_allow now (tok_id t) (as_mcp_rate c) bs else (True, bs)) of
           (False, bs') \<Rightarrow> (Inl 429, (d, bs'))
         | (True, bs') \<Rightarrow>
             (let interval = parseDur (as_touch_interval c)
              in (Inr (u, t), (if interval > 0 then ai_touch now (tok_id t) ip interval d else d, bs'))))))"

end
