(* ===== verification/AiTokenSafety.thy ===== *)
theory AiTokenSafety
  imports AiTokens
begin

text \<open>
  What the tokens of the AI bridge promise: whom a token speaks for, that a token that was revoked or deleted is dead
  for good, that nobody has more tokens in force than the policy allows, and that nobody changes tokens out of sight.
\<close>

section \<open>Whom a token speaks for\<close>

lemma statusOf_alive: "statusOf t now = ''active'' \<longleftrightarrow> token_alive now t"
  by (auto simp: statusOf_def token_alive_def split: option.split)

lemma authenticated:
  assumes "ai_authenticate digest now given acc d = Inr (u, t)"
  shows "t \<in> set (ai_rows d) \<and> tok_hash t = digest (trim_space given) \<and> token_alive now t \<and> us_username u = tok_username t \<and>
    (case by_name (tok_username t) acc of
       Some a \<Rightarrow> \<not> ac_disabled a \<and> us_roles u = ac_roles a \<and> us_tenant u = ac_tenant a \<and> us_is_admin u = ac_is_admin a
     | None \<Rightarrow> tok_provider t \<noteq> ''builtin'' \<and> us_roles u = tok_roles t \<and> us_tenant u = tok_tenant t \<and> us_is_admin u = tok_is_admin t)"
  using assms by (auto simp: ai_authenticate_def Let_def statusOf_alive find_Some_iff split: if_splits option.splits)

text \<open>The authority of a token. What authenticates is the text of a token that is in force; it speaks for the
  account of its name with the rights that account has now, never for a disabled one, and for the rights of its
  creation only where a foreign log-in made it and no account of that name exists.\<close>

theorem token_authority:
  assumes "ai_authenticate digest now given acc d = Inr (u, t)"
  shows "t \<in> set (ai_rows d) \<and> tok_hash t = digest (trim_space given) \<and> token_alive now t \<and> us_username u = tok_username t \<and>
    (case by_name (tok_username t) acc of
       Some a \<Rightarrow> \<not> ac_disabled a \<and> us_roles u = ac_roles a \<and> us_tenant u = ac_tenant a \<and> us_is_admin u = ac_is_admin a
     | None \<Rightarrow> tok_provider t \<noteq> ''builtin'' \<and> us_roles u = tok_roles t \<and> us_tenant u = tok_tenant t \<and> us_is_admin u = tok_is_admin t)"
  by (rule authenticated [OF assms])

section \<open>Dead tokens\<close>

text \<open>Requests after which the digest \<^verbatim>\<open>h\<close> was not generated anew.\<close>

inductive ai_step :: "(string \<Rightarrow> string) \<Rightarrow> string \<Rightarrow> ai_repo \<Rightarrow> ai_repo \<Rightarrow> bool" for digest h where
  create: "(\<And>r. random = Some r \<Longrightarrow> digest (tp_prefix p @ r) \<noteq> h) \<Longrightarrow>
    ai_step digest h d (snd (ai_create digest random now actor display provider i p acc d))"
| revoke: "ai_step digest h d (snd (ai_revoke now actor i d))"
| delete: "ai_step digest h d (snd (ai_delete actor i d))"
| touch: "ai_step digest h d (ai_touch now i ip interval d)"
| clean: "ai_step digest h d (snd (CleanupAITokens now days d))"

definition dead_hash :: "string \<Rightarrow> ai_repo \<Rightarrow> bool" where
  "dead_hash h d = (\<forall>t\<in>set (ai_rows d). tok_hash t = h \<longrightarrow> tok_revoked t \<noteq> None)"

lemma ai_create_rows:
  "snd (ai_create digest random now actor display provider i p acc d) = d \<or>
   (\<exists>r t. random = Some r \<and> tok_hash t = digest (tp_prefix p @ r) \<and> tok_id t = ai_next d \<and>
      ai_rows (snd (ai_create digest random now actor display provider i p acc d)) = ai_rows d @ [t])"
  by (auto simp: ai_create_def Let_def split: option.splits sum.splits)

lemma ai_revoke_rows:
  "ai_rows (snd (ai_revoke now actor i d)) = ai_rows d \<or>
   (\<exists>by. ai_rows (snd (ai_revoke now actor i d)) = upd_where (\<lambda>t. tok_id t = i \<and> visibility actor t)
     (\<lambda>t. t\<lparr>tok_revoked := (case tok_revoked t of None \<Rightarrow> Some now | Some r \<Rightarrow> Some r),
            tok_revoked_by := (if tok_revoked_by t = [] then by else tok_revoked_by t)\<rparr>) (ai_rows d))"
  by (auto simp: ai_revoke_def forget_touch_def Let_def split: option.split)

lemma ai_delete_rows:
  "ai_rows (snd (ai_delete actor i d)) = ai_rows d \<or>
   ai_rows (snd (ai_delete actor i d)) = filter (\<lambda>t. \<not> (tok_id t = i \<and> visibility actor t)) (ai_rows d)"
  by (auto simp: ai_delete_def forget_touch_def Let_def split: option.split)

lemma dead_hash_step: "ai_step digest h d d' \<Longrightarrow> dead_hash h d \<Longrightarrow> dead_hash h d'"
proof (induction rule: ai_step.induct)
  case (create random p d now actor display provider i acc)
  then show ?case using ai_create_rows [of digest random now actor display provider i p acc d] by (auto simp: dead_hash_def)
next
  case (revoke d now actor i)
  then show ?case using ai_revoke_rows [of now actor i d] by (auto simp: dead_hash_def set_upd_where split: option.splits)
next
  case (delete d actor i)
  then show ?case using ai_delete_rows [of actor i d] by (auto simp: dead_hash_def)
next
  case (touch d now i ip interval)
  then show ?case by (auto simp: dead_hash_def ai_touch_def set_upd_where split: if_splits)
next
  case (clean d now days)
  then show ?case by (auto simp: dead_hash_def CleanupAITokens_def Let_def)
qed

lemma dead_hash_steps: "(ai_step digest h)^** d d' \<Longrightarrow> dead_hash h d \<Longrightarrow> dead_hash h d'"
  by (induction rule: rtranclp_induct) (blast intro: dead_hash_step)+

lemma dead_hash_invalid:
  assumes "dead_hash h d" "digest (trim_space given) = h"
  shows "ai_authenticate digest now given acc d = Inl TokenInvalid"
proof (cases "ai_authenticate digest now given acc d")
  case (Inl e)
  then show ?thesis by (auto simp: ai_authenticate_def Let_def split: if_splits option.splits)
next
  case (Inr x)
  obtain u t where "x = (u, t)" by (cases x)
  then show ?thesis using authenticated [of digest now given acc d u t] assms Inr by (auto simp: dead_hash_def token_alive_def)
qed

text \<open>C38: Revoked for good. Once a token was revoked or deleted, its text authenticates nobody, at no time and
  whatever the accounts are then, after any further requests.\<close>

theorem revoked_token_dead:
  assumes "distinct (map tok_id (ai_rows d))" "distinct (map tok_hash (ai_rows d))"
    and "ai_revoke now actor i d = (Inr t, d1) \<or> ai_delete actor i d = (Inr t, d1)"
    and "(ai_step digest (tok_hash t))^** d1 d2" "digest (trim_space given) = tok_hash t"
  shows "ai_authenticate digest now' given acc d2 = Inl TokenInvalid"
proof -
  have t: "t \<in> set (ai_rows d)" "tok_id t = i" "visibility actor t"
    using assms(3) by (auto simp: ai_revoke_def ai_delete_def Let_def find_Some_iff split: option.splits)
  have same: "s = t" if "s \<in> set (ai_rows d)" "tok_hash s = tok_hash t" for s
    using that t(1) assms(2) by (auto simp: distinct_map inj_on_def)
  have "dead_hash (tok_hash t) d1"
  proof (cases "ai_revoke now actor i d = (Inr t, d1)")
    case True
    then obtain u where "actor = Some u" by (auto simp: ai_revoke_def split: option.splits)
    with True have "ai_rows d1 = upd_where (\<lambda>t. tok_id t = i \<and> visibility actor t)
       (\<lambda>t. t\<lparr>tok_revoked := (case tok_revoked t of None \<Rightarrow> Some now | Some r \<Rightarrow> Some r),
              tok_revoked_by := (if tok_revoked_by t = [] then us_username u else tok_revoked_by t)\<rparr>) (ai_rows d)"
      by (auto simp: ai_revoke_def forget_touch_def Let_def split: option.splits)
    then show ?thesis using same t by (auto simp: dead_hash_def set_upd_where split: option.splits if_splits)
  next
    case False
    with assms(3) have "ai_rows d1 = filter (\<lambda>t. \<not> (tok_id t = i \<and> visibility actor t)) (ai_rows d)"
      by (auto simp: ai_delete_def forget_touch_def Let_def split: option.splits)
    then show ?thesis using same t by (auto simp: dead_hash_def)
  qed
  then have "dead_hash (tok_hash t) d2" by (rule dead_hash_steps [OF assms(4)])
  then show ?thesis using assms(5) by (rule dead_hash_invalid)
qed

section \<open>How many tokens\<close>

definition in_force :: "string \<Rightarrow> time \<Rightarrow> ai_token list \<Rightarrow> nat" where
  "in_force name now ts = length (filter (\<lambda>t. tok_username t = name \<and> token_alive now t) ts)"

lemma token_alive_mono: "now \<le> now' \<Longrightarrow> token_alive now' t \<Longrightarrow> token_alive now t"
  by (auto simp: token_alive_def split: option.splits)

lemma in_force_mono: "now \<le> now' \<Longrightarrow> in_force name now' ts \<le> in_force name now ts"
  unfolding in_force_def by (induction ts) (auto dest: token_alive_mono)

lemma in_force_filter: "in_force name now (filter P ts) \<le> in_force name now ts"
  unfolding in_force_def by (induction ts) auto

lemma in_force_upd:
  assumes "\<And>t. tok_username (f t) = tok_username t" "\<And>t. token_alive now (f t) \<Longrightarrow> token_alive now t"
  shows "in_force name now (upd_where P f ts) \<le> in_force name now ts"
  using assms unfolding in_force_def by (induction ts) auto

text \<open>The requests while the policy allows \<^verbatim>\<open>bound\<close> tokens; time goes on.\<close>

inductive tokens_reached :: "int \<Rightarrow> time \<Rightarrow> ai_repo \<Rightarrow> bool" for bound where
  start: "tokens_reached bound now \<lparr>ai_rows = [], ai_next = 1, ai_touched = []\<rparr>"
| later: "tokens_reached bound now d \<Longrightarrow> now \<le> now' \<Longrightarrow> tokens_reached bound now' d"
| create: "tokens_reached bound now d \<Longrightarrow> tp_max_per_user p = bound \<Longrightarrow>
    tokens_reached bound now (snd (ai_create digest random now actor display provider i p acc d))"
| revoke: "tokens_reached bound now d \<Longrightarrow> tokens_reached bound now (snd (ai_revoke now actor i d))"
| delete: "tokens_reached bound now d \<Longrightarrow> tokens_reached bound now (snd (ai_delete actor i d))"
| touch: "tokens_reached bound now d \<Longrightarrow> tokens_reached bound now (ai_touch now i ip interval d)"
| clean: "tokens_reached bound now d \<Longrightarrow> tokens_reached bound now (snd (CleanupAITokens now days d))"

lemma in_force_create:
  assumes "0 < tp_max_per_user p" "\<forall>name. int (in_force name now (ai_rows d)) \<le> tp_max_per_user p"
  shows "int (in_force name now (ai_rows (snd (ai_create digest random now actor display provider i p acc d)))) \<le> tp_max_per_user p"
  using assms by (auto simp: ai_create_def in_force_def Let_def split: option.splits sum.splits)

text \<open>The bound on tokens. While the policy allows a positive number of tokens, no user ever has more tokens in
  force, whatever is created, revoked, deleted or cleaned up meanwhile.\<close>

theorem tokens_bounded:
  assumes "tokens_reached bound now d" "0 < bound"
  shows "int (in_force name now (ai_rows d)) \<le> bound"
proof -
  have "\<forall>name. int (in_force name now (ai_rows d)) \<le> bound"
    using assms
  proof (induction rule: tokens_reached.induct)
    case (start now)
    then show ?case by (simp add: in_force_def)
  next
    case (later now d now')
    then show ?case using in_force_mono [of now now' _ "ai_rows d"] by (metis of_nat_mono order_trans)
  next
    case (create now d p digest random actor display provider i acc)
    then show ?case using in_force_create [of p now d] by metis
  next
    case (revoke now d actor i)
    have "in_force name now (ai_rows (snd (ai_revoke now actor i d))) \<le> in_force name now (ai_rows d)" for name
      using ai_revoke_rows [of now actor i d] by (auto intro!: in_force_upd simp: token_alive_def split: option.splits)
    then show ?case using revoke by (metis of_nat_mono order_trans)
  next
    case (delete now d actor i)
    have "in_force name now (ai_rows (snd (ai_delete actor i d))) \<le> in_force name now (ai_rows d)" for name
      using ai_delete_rows [of actor i d] in_force_filter [of name now _ "ai_rows d"] by auto
    then show ?case using delete by (metis of_nat_mono order_trans)
  next
    case (touch now d i ip interval)
    have "in_force name now (ai_rows (ai_touch now i ip interval d)) \<le> in_force name now (ai_rows d)" for name
      by (auto simp: ai_touch_def intro!: in_force_upd simp: token_alive_def split: option.splits)
    then show ?case using touch by (metis of_nat_mono order_trans)
  next
    case (clean now d days)
    have "in_force name now (ai_rows (snd (CleanupAITokens now days d))) \<le> in_force name now (ai_rows d)" for name
      by (simp add: CleanupAITokens_def Let_def in_force_filter)
    then show ?case using clean by (metis of_nat_mono order_trans)
  qed
  then show ?thesis by blast
qed

section \<open>Out of sight\<close>

lemma filter_tokens_upd: "(\<And>t. P t \<Longrightarrow> \<not> Q t) \<Longrightarrow> (\<And>t. P t \<Longrightarrow> \<not> Q (f t)) \<Longrightarrow> filter Q (upd_where P f ts) = filter Q ts"
  by (induction ts) auto

lemma filter_filter_weaker: "(\<And>t. Q t \<Longrightarrow> R t) \<Longrightarrow> filter Q (filter R ts) = filter Q ts"
  by (induction ts) auto

lemma visibility_revoked: "visibility actor (t\<lparr>tok_revoked := x, tok_revoked_by := y\<rparr>) = visibility actor t"
  by (simp add: visibility_def split: option.split)

text \<open>Out of sight, out of reach. Revoking and deleting leave every token alone that the actor does not see:
  those of others for an ordinary user, those of other tenants for an administrator.\<close>

theorem invisible_tokens_kept:
  "filter (\<lambda>t. \<not> visibility actor t) (ai_rows (snd (ai_revoke now actor i d))) = filter (\<lambda>t. \<not> visibility actor t) (ai_rows d) \<and>
   filter (\<lambda>t. \<not> visibility actor t) (ai_rows (snd (ai_delete actor i d))) = filter (\<lambda>t. \<not> visibility actor t) (ai_rows d)"
proof -
  have "filter (\<lambda>t. \<not> visibility actor t) (upd_where (\<lambda>t. tok_id t = i \<and> visibility actor t)
     (\<lambda>t. t\<lparr>tok_revoked := g t, tok_revoked_by := k t\<rparr>) ts) = filter (\<lambda>t. \<not> visibility actor t) ts" for g k ts
    by (rule filter_tokens_upd) (simp_all add: visibility_revoked)
  moreover have "filter (\<lambda>t. \<not> visibility actor t) (filter (\<lambda>t. \<not> (tok_id t = i \<and> visibility actor t)) ts) = filter (\<lambda>t. \<not> visibility actor t) ts" for ts
    by (rule filter_filter_weaker) simp
  ultimately have both: "filter (\<lambda>t. \<not> visibility actor t) (ai_rows (snd (ai_revoke now actor i d))) = filter (\<lambda>t. \<not> visibility actor t) (ai_rows d)"
    "filter (\<lambda>t. \<not> visibility actor t) (ai_rows (snd (ai_delete actor i d))) = filter (\<lambda>t. \<not> visibility actor t) (ai_rows d)"
    using ai_revoke_rows [of now actor i d] ai_delete_rows [of actor i d] by auto
  then show ?thesis by blast
qed

end
