(* ===== verification/AccountExamples.thy ===== *)
theory AccountExamples
  imports SessionSafety PathSafety AiTokenSafety
begin

text \<open>
  A small set of accounts with a concrete codec and password hash, on which the statements about accounts
  and sessions are applied, and two behaviours worth knowing.
\<close>

section \<open>A concrete codec\<close>

definition plain_seal :: "sessionPayload \<Rightarrow> string" where
  "plain_seal p = join_with ''/'' (int_dec (sp_exp p) # int_dec (sp_iat p) # map (\<lambda>c. nat_dec (byte c)) (sp_id p))"

definition dec_int :: "string \<Rightarrow> int" where
  "dec_int s = (if has_prefix ''-'' s then - digits_value (tl s) else digits_value s)"

definition plain_open :: "string \<Rightarrow> sessionPayload option" where
  "plain_open s = (case split_on slash s of e # t # cs \<Rightarrow>
       Some \<lparr>sp_id = map (\<lambda>x. char_of (nat (digits_value x))) cs, sp_username = [], sp_display = [], sp_is_admin = False,
         sp_tenant = 1, sp_roles = [], sp_exp = dec_int e, sp_iat = dec_int t\<rparr>
     | _ \<Rightarrow> None)"

definition ex_codec :: codec where
  "ex_codec = \<lparr>cd_seal = plain_seal, cd_open = plain_open, cd_mac = rev\<rparr>"

lemma nat_dec_free: "\<not> (48 \<le> byte c \<and> byte c \<le> 57) \<Longrightarrow> c \<notin> set (nat_dec n)"
  using nat_dec_digits by blast

lemma int_dec_free: "\<not> (48 \<le> byte c \<and> byte c \<le> 57) \<Longrightarrow> c \<noteq> CHR ''-'' \<Longrightarrow> c \<notin> set (int_dec i)"
  using nat_dec_free by (simp add: int_dec_def)

lemma dec_int_int_dec: "dec_int (int_dec i) = i"
proof (cases "i < 0")
  case True
  then show ?thesis by (simp add: dec_int_def int_dec_def has_prefix_def digits_value_nat_dec)
next
  case False
  have "\<not> has_prefix ''-'' (nat_dec (nat i))"
    using nat_dec_no_minus [of "nat i"] by (cases "nat_dec (nat i)") (auto simp: has_prefix_def)
  then show ?thesis using False by (simp add: dec_int_def int_dec_def digits_value_nat_dec)
qed

lemma join_free: "c \<notin> set sep \<Longrightarrow> \<forall>x\<in>set xs. c \<notin> set x \<Longrightarrow> c \<notin> set (join_with sep xs)"
  by (induction sep xs rule: join_with.induct) auto

lemma ex_codec_ok: "codec_ok ex_codec"
proof -
  have free: "CHR ''.'' \<notin> set (plain_seal p)" for p
    unfolding plain_seal_def by (rule join_free) (auto simp: nat_dec_free int_dec_free byte_def)
  have "split_on slash (plain_seal p) = int_dec (sp_exp p) # int_dec (sp_iat p) # map (\<lambda>c. nat_dec (byte c)) (sp_id p)" for p
    unfolding plain_seal_def by (rule split_on_join) (auto simp: nat_dec_free int_dec_free byte_def)
  then have "\<exists>q. plain_open (plain_seal p) = Some q \<and> sp_id q = sp_id p \<and> sp_exp q = sp_exp p \<and> sp_iat q = sp_iat p" for p
    by (simp add: plain_open_def dec_int_int_dec digits_value_nat_dec byte_def o_def)
  with free show ?thesis by (simp add: codec_ok_def ex_codec_def)
qed

section \<open>Accounts\<close>

definition ex_gen :: "string \<Rightarrow> string option" where "ex_gen pw = Some (''$2'' @ pw)"

definition ex_cmp :: "string \<Rightarrow> string \<Rightarrow> bool" where "ex_cmp hash pw = (hash = ''$2'' @ pw)"

definition ex_account :: "int \<Rightarrow> string \<Rightarrow> int \<Rightarrow> string list \<Rightarrow> account" where
  "ex_account i name tenant roles = \<lparr>ac_id = i, ac_username = name, ac_hash = ''$2secret-'' @ name, ac_display = name,
     ac_is_admin = hasAdminRole roles, ac_disabled = False, ac_tenant = tenant, ac_roles = roles, ac_updated_at = hours 1\<rparr>"

definition ex_accounts :: accounts where
  "ex_accounts = \<lparr>a_users = [ex_account 1 ''root'' 1 [RoleAdmin, RoleSuperAdmin], ex_account 2 ''alice'' 2 [RoleAdmin],
       ex_account 3 ''bob'' 2 [RoleUser]],
     a_tenants = [\<lparr>tn_id = 1, tn_name = ''default'', tn_display = [], tn_status = ''active''\<rparr>,
       \<lparr>tn_id = 2, tn_name = ''lab'', tn_display = [], tn_status = ''active''\<rparr>],
     a_members = [(1, ''bob'')], a_fields = [], a_next_user = 4, a_next_tenant = 3\<rparr>"

definition ex_alice :: user where
  "ex_alice = \<lparr>us_username = ''alice'', us_is_admin = True, us_tenant = 2, us_roles = [RoleAdmin]\<rparr>"

lemma ex_accounts_ok: "accounts_ok ex_accounts"
  by (simp add: accounts_ok_def ex_accounts_def ex_account_def account_ok_def validRoles_def hasAdminRole_def containsRole_def)

theorem accounts_stay_ok_witness:
  "accounts_ok (snd (SetTenantRoles (hours 2) (Some ex_alice) ''bob'' 2 [RoleAdmin] ex_accounts))"
proof -
  have "user_request ex_gen (Some ex_alice) ex_accounts
      (snd (SetTenantRoles (hours 2) (Some ex_alice) ''bob'' 2 [RoleAdmin] ex_accounts))" by (rule user_request.set_roles)
  then show ?thesis using accounts_stay_ok [OF ex_accounts_ok] by metis
qed

text \<open>A tenant administrator resets a member's password and tries to create a super administrator.\<close>

theorem no_escalation_witness:
  "beyond {2} (snd (ResetPassword ex_gen (hours 2) (Some ex_alice) ''bob'' ''new-secret'' ex_accounts)) =
   [ex_account 1 ''root'' 1 [RoleAdmin, RoleSuperAdmin]]"
proof -
  have w: "within {2} (Some ex_alice)" by code_simp
  have "ordinary_request ex_gen {2} ex_accounts
      (snd (ResetPassword ex_gen (hours 2) (Some ex_alice) ''bob'' ''new-secret'' ex_accounts))"
    unfolding ordinary_request_def using w user_request.reset by blast
  then have r: "(ordinary_request ex_gen {2})^** ex_accounts
      (snd (ResetPassword ex_gen (hours 2) (Some ex_alice) ''bob'' ''new-secret'' ex_accounts))" by (rule r_into_rtranclp)
  have "beyond {2} ex_accounts = [ex_account 1 ''root'' 1 [RoleAdmin, RoleSuperAdmin]]"
    by (simp add: beyond_def ex_accounts_def out_of_reach_def ex_account_def)
  then show ?thesis using no_escalation [OF r ex_accounts_ok] by simp
qed

section \<open>Sessions\<close>

definition ex_bob :: account where "ex_bob = ex_account 3 ''bob'' 2 [RoleUser]"

lemma ex_bob_in: "ex_bob \<in> set (a_users ex_accounts)" "by_name ''bob'' ex_accounts = Some ex_bob"
  by (simp_all add: ex_bob_def ex_accounts_def by_name_def ex_account_def)

definition ex_token :: string where "ex_token = sign ex_codec (hours 3) (session_of ex_bob)"

lemma ex_login: "Login ex_cmp ex_codec (hours 3) ''bob'' ''secret-bob'' ex_accounts Map.empty =
  (Inr (session_of ex_bob, ex_token), [us_id (session_of ex_bob) \<mapsto> cached (hours 3) True ex_bob])"
  unfolding Login_def ex_bob_in(2)
  by (simp add: ex_bob_def ex_account_def ex_cmp_def ex_token_def cached_def Let_def)

lemma ex_bob_id: "us_id (session_of ex_bob) = int_dec 3" "ac_id ex_bob = 3"
  by (simp_all add: session_of_def ex_bob_def ex_account_def)

theorem login_session_witness:
  "fst (Authenticate ex_codec (hours 4) (Some ex_token) ex_accounts Map.empty) = Inr (session_of ex_bob)"
proof -
  have "ac_updated_at ex_bob \<le> hours 3" by (simp add: ex_bob_def ex_account_def time_defs)
  then show ?thesis
    using login_session [OF ex_codec_ok ex_accounts_ok ex_login ex_bob_in(2), of "hours 4" Map.empty]
    by (simp add: ex_bob_id time_defs sessionMaxAge_def)
qed

definition ex_disabled :: accounts where
  "ex_disabled = snd (SetDisabled (hours 5) (Some ex_alice) ''bob'' True ex_accounts)"

lemma ex_disabled_ok: "SetDisabled (hours 5) (Some ex_alice) ''bob'' True ex_accounts = (None, ex_disabled)"
  unfolding ex_disabled_def by code_simp

theorem session_revoked_witness:
  "fst (Authenticate ex_codec (hours 6) (Some ex_token) ex_disabled
     [int_dec 3 \<mapsto> cached (hours 4) False ex_bob]) = Inl Unauthorized"
proof -
  have c: "account_changed ex_gen (hours 5) (Some ex_alice) ex_bob ex_accounts ex_disabled"
    using ex_disabled_ok unfolding account_changed_def by (auto simp: ex_bob_def ex_account_def)
  have "userCacheTTL \<le> hours 6 - cu_cached_at cu" if "[int_dec 3 \<mapsto> cached (hours 4) False ex_bob] (int_dec 3) = Some cu" for cu
    using that by (auto simp: cached_def userCacheTTL_def time_defs)
  then show ?thesis
    using session_revoked [OF ex_codec_ok ex_accounts_ok ex_bob_in(1) c, of "session_of ex_bob" "hours 3" "hours 6"
        "[int_dec 3 \<mapsto> cached (hours 4) False ex_bob]"] ex_bob_id
    unfolding ex_token_def by (simp add: time_defs sessionMaxAge_def)
qed

text \<open>Until then the old data of the cache is what counts: 29 seconds after the account was disabled its
  session is still accepted.\<close>

lemma disabled_session_lingers:
  "fst (Authenticate ex_codec (hours 5 + 29 * second) (Some ex_token) ex_disabled
     [int_dec 3 \<mapsto> cached (hours 5) False ex_bob]) = Inr (session_of ex_bob)"
proof -
  obtain v p where o: "payloadFromRequest ex_codec (hours 5 + 29 * second) (Some ex_token) = Some (v, p)" "us_id v = int_dec 3"
    "hours 3 \<le> issuedAt p"
    unfolding ex_token_def sign_def
    by (rule open_signed [OF ex_codec_ok ex_bob_id(1), of "hours 5 + 29 * second" "hours 3" "hours 3"])
      (simp_all add: time_defs sessionMaxAge_def)
  have "fst (defaultLookup (hours 5 + 29 * second) (us_id v) ex_disabled [int_dec 3 \<mapsto> cached (hours 5) False ex_bob]) =
      Inr (cached (hours 5) False ex_bob)"
    by (simp add: o(2) defaultLookup_def cached_def userCacheTTL_def time_defs)
  from auth_verdict [OF o(1) this] show ?thesis
    using o(2,3) by (simp add: cached_def user_now_def session_of_def ex_bob_def ex_account_def time_defs)
qed

lemma ex_change: "fst (ChangePassword ex_gen ex_cmp ex_codec (hours 7) (hours 7) ''3'' ''secret-bob'' ''other-secret''
    ex_accounts Map.empty) = Inr (signAt ex_codec (hours 7) (session_of ex_bob) (hours 7))"
proof -
  have p: "parse_int64 ''3'' = Some 3" by code_simp
  have i: "int_dec 3 = ''3''" by code_simp
  show ?thesis
    by (simp add: i ChangePassword_def p by_id_def ex_accounts_def ex_account_def ValidatePassword_def ex_cmp_def ex_gen_def
        set_users_def defaultLookup_def InvalidateUser_def Let_def user_now_def cached_def session_of_def ex_bob_def)
qed

theorem password_change_session_witness:
  "case ChangePassword ex_gen ex_cmp ex_codec (hours 7) (hours 7) ''3'' ''secret-bob'' ''other-secret'' ex_accounts Map.empty of
     (res, d', cache') \<Rightarrow> fst (Authenticate ex_codec (hours 7 + second) (Some ex_token) d' cache') = Inl Unauthorized"
proof -
  obtain d' cache' where c: "ChangePassword ex_gen ex_cmp ex_codec (hours 7) (hours 7) ''3'' ''secret-bob'' ''other-secret''
      ex_accounts Map.empty = (Inr (signAt ex_codec (hours 7) (session_of ex_bob) (hours 7)), d', cache')"
    using ex_change by (metis prod.collapse)
  have i: "''3'' = int_dec 3" by code_simp
  from password_change_session [OF ex_codec_ok c i, of "hours 7 + second" "session_of ex_bob" "hours 3" Map.empty]
  show ?thesis unfolding c ex_token_def using ex_bob_id(1) by (simp add: i time_defs sessionMaxAge_def)
qed

section \<open>Padded names\<close>

text \<open>A name may be stored with spaces around it; deleting that account removes another one.\<close>

definition ex_padded :: accounts where
  "ex_padded = snd (acc_create ex_gen (hours 2) (Some ex_alice)
     \<lparr>aq_username = ''bob '', aq_password = ''some-secret'', aq_display = [], aq_tenant = 2, aq_roles = []\<rparr> ex_accounts)"

lemma padded_name_deletes_other:
  "map ac_username (a_users ex_padded) = [''root'', ''alice'', ''bob'', ''bob ''] \<and>
   map ac_username (a_users (snd (acc_delete (Some ex_alice) ''bob '' ex_padded))) = [''root'', ''alice'', ''bob '']"
  by code_simp

text \<open>Tokens of the AI bridge at work: their properties at concrete inputs, and what outlives an account.\<close>

definition hash_mark :: "string \<Rightarrow> string" where "hash_mark s = CHR ''#'' # s"

definition ann_account :: account where
  "ann_account = \<lparr>ac_id = 5, ac_username = ''ann'', ac_hash = [], ac_display = [], ac_is_admin = False, ac_disabled = False,
     ac_tenant = 1, ac_roles = [RoleUser], ac_updated_at = 0\<rparr>"

definition ann_accounts :: accounts where
  "ann_accounts = \<lparr>a_users = [ann_account], a_tenants = [\<lparr>tn_id = 1, tn_name = ''t'', tn_display = [], tn_status = []\<rparr>],
     a_members = [], a_fields = [], a_next_user = 6, a_next_tenant = 2\<rparr>"

definition ann_user :: user where
  "ann_user = \<lparr>us_username = ''ann'', us_is_admin = False, us_tenant = 1, us_roles = [RoleUser]\<rparr>"

definition day_policy :: token_policy where
  "day_policy = \<lparr>tp_prefix = ''ifly_'', tp_min_role = RoleUser, tp_default_ttl = hours 24, tp_max_ttl = 0, tp_permanent = False, tp_max_per_user = 1\<rparr>"

definition laptop :: token_input where
  "laptop = \<lparr>ti_name = ''laptop'', ti_allow_write = False, ti_expires_in = [], ti_permanent = False\<rparr>"

definition no_tokens :: ai_repo where
  "no_tokens = \<lparr>ai_rows = [], ai_next = 1, ai_touched = []\<rparr>"

definition one_token :: ai_repo where
  "one_token = snd (ai_create hash_mark (Some ''x1'') 0 (Some ann_user) [] ''builtin'' laptop day_policy ann_accounts no_tokens)"

definition ann_token :: ai_token where
  "ann_token = hd (ai_rows one_token)"

lemma token_authority_witness:
  "\<exists>u t. ai_authenticate hash_mark 1 ''ifly_x1'' ann_accounts one_token = Inr (u, t) \<and> token_alive 1 t \<and> us_roles u = [RoleUser]"
proof -
  have "case ai_authenticate hash_mark 1 ''ifly_x1'' ann_accounts one_token of Inr x \<Rightarrow> True | Inl e \<Rightarrow> False" by code_simp
  then obtain u t where a: "ai_authenticate hash_mark 1 ''ifly_x1'' ann_accounts one_token = Inr (u, t)" by (auto split: sum.splits)
  have rows: "map tok_username (ai_rows one_token) = [''ann'']" by code_simp
  note p = token_authority [OF a]
  then have "t \<in> set (ai_rows one_token)" by blast
  then have "tok_username t \<in> set (map tok_username (ai_rows one_token))" by simp
  then have n: "tok_username t = ''ann''" unfolding rows by simp
  have b: "by_name ''ann'' ann_accounts = Some ann_account" by code_simp
  have r: "ac_roles ann_account = [RoleUser]" by code_simp
  from a p n b r show ?thesis by auto
qed

lemma revoked_token_dead_witness:
  "\<exists>d1. ai_revoke 5 (Some ann_user) 1 one_token = (Inr ann_token, d1) \<and>
    ai_authenticate hash_mark 9 ''ifly_x1'' ann_accounts (ai_touch 6 1 ''10.0.0.9'' 60 d1) = Inl TokenInvalid"
proof -
  have k: "distinct (map tok_id (ai_rows one_token))" "distinct (map tok_hash (ai_rows one_token))" by code_simp+
  have "fst (ai_revoke 5 (Some ann_user) 1 one_token) = Inr ann_token" by code_simp
  then obtain d1 where r: "ai_revoke 5 (Some ann_user) 1 one_token = (Inr ann_token, d1)" by (cases "ai_revoke 5 (Some ann_user) 1 one_token") simp
  have h: "hash_mark (trim_space ''ifly_x1'') = tok_hash ann_token" by code_simp
  have "(ai_step hash_mark (tok_hash ann_token))^** d1 (ai_touch 6 1 ''10.0.0.9'' 60 d1)" by (rule r_into_rtranclp) (rule ai_step.touch)
  from revoked_token_dead [OF k disjI1 [OF r] this h] r show ?thesis by blast
qed

lemma tokens_bounded_witness:
  "tokens_reached 1 0 one_token \<and> in_force ''ann'' 0 (ai_rows one_token) = 1 \<and>
   fst (ai_create hash_mark (Some ''x2'') 0 (Some ann_user) [] ''builtin'' laptop day_policy ann_accounts one_token) = Inl TooManyTokens"
proof -
  have "tokens_reached 1 0 no_tokens" unfolding no_tokens_def by (rule tokens_reached.start)
  then have r: "tokens_reached 1 0 one_token" unfolding one_token_def by (rule tokens_reached.create) (simp add: day_policy_def)
  have "int (in_force ''ann'' 0 (ai_rows one_token)) \<le> 1" by (rule tokens_bounded [OF r]) simp
  moreover have "0 < in_force ''ann'' 0 (ai_rows one_token)" by code_simp
  moreover have "fst (ai_create hash_mark (Some ''x2'') 0 (Some ann_user) [] ''builtin'' laptop day_policy ann_accounts one_token) = Inl TooManyTokens"
    by code_simp
  ultimately show ?thesis using r by linarith
qed

text \<open>A token names its user, not the account: while the account is gone it is dead, but once an account of that name
  is made again, the old token speaks for the new account, with the rights of the new one.\<close>

lemma recreated_account_inherits_token:
  "ai_authenticate hash_mark 1 ''ifly_x1'' (ann_accounts\<lparr>a_users := []\<rparr>) one_token = Inl TokenInvalid \<and>
   (case ai_authenticate hash_mark 2 ''ifly_x1''
       (ann_accounts\<lparr>a_users := [ann_account\<lparr>ac_id := 9, ac_is_admin := True, ac_roles := [RoleSuperAdmin]\<rparr>]\<rparr>) one_token of
      Inr (u, t) \<Rightarrow> IsSuperAdmin u | Inl e \<Rightarrow> False)"
  by code_simp

end
