(* ===== verification/Org.thy ===== *)
theory Org
imports Access FieldDefs "HOL-Library.Char_ord"
begin

text \<open>
  People and what they may do: roles, teams, service groups and the grants of teams on groups
  (\<open>internal/logic/org/org.go\<close>), the department tree (\<open>dept.go\<close>), the checks the task service asks for
  (\<open>authorize.go\<close>) and the handlers (\<open>internal/handler/org.go\<close>, \<open>permission.go\<close>). The logged-in user travels in
  the request's context: \<open>None\<close> is a request without one. Times and the numbers of member and grant rows are
  not kept; the columns' length limits are. A failed insertion may skip a number, which nothing depends on.
\<close>

section \<open>The tables\<close>

record role_row =
  rl_id :: int
  rl_tenant :: int
  rl_name :: string
  rl_code :: string
  rl_description :: string
  rl_permissions :: "string list"

record team_row =
  tm_id :: int
  tm_tenant :: int
  tm_name :: string
  tm_code :: string
  tm_description :: string
  tm_status :: int
  tm_owner_only :: string
  tm_created_by :: string

record group_row =
  sg_id :: int
  sg_tenant :: int
  sg_name :: string
  sg_code :: string
  sg_description :: string
  sg_status :: int
  sg_created_by :: string

record grant_row =
  gp_team :: int
  gp_group :: int
  gp_permissions :: "string list"
  gp_role_ids :: "int list"
  gp_services :: "string list"
  gp_host_groups :: "string list"

record department =
  dp_id :: string
  dp_name :: string
  dp_parent :: string
  dp_level :: int
  dp_path :: string
  dp_users :: int

text \<open>Members are pairs of team and user, components of groups pairs of group and component.\<close>

record org =
  og_roles :: "role_row list"
  og_teams :: "team_row list"
  og_groups :: "group_row list"
  og_members :: "(int \<times> string) list"
  og_group_comps :: "(int \<times> int) list"
  og_grants :: "grant_row list"
  og_departments :: "(int \<times> department) list"
  og_next_role :: int
  og_next_team :: int
  og_next_group :: int

datatype org_error = NoName | BadPerm string | NameTaken string | TooLong | NoSuchRole | NoSuchTeam | NoSuchGroup
  | NoSuchMember | RoleInUse nat | BadRoleIDs | NoSuchComponent | BadID | NoUserName | NoGroupID | NothingUpstream | NotLoggedIn

section \<open>Whose request it is\<close>

definition tenantOf :: "user option \<Rightarrow> int" where
  "tenantOf ctx = (case ctx of None \<Rightarrow> 0 | Some u \<Rightarrow> if IsSuperAdmin u then 0 else normalizeTenant (us_tenant u))"

definition tenantForWrite :: "user option \<Rightarrow> int" where
  "tenantForWrite ctx = (case ctx of None \<Rightarrow> 1 | Some u \<Rightarrow> normalizeTenant (us_tenant u))"

text \<open>The condition the statements add: no tenant is every tenant.\<close>

definition sees :: "user option \<Rightarrow> int \<Rightarrow> bool" where
  "sees ctx t = (tenantOf ctx = 0 \<or> t = tenantOf ctx)"

definition teamInTenant :: "user option \<Rightarrow> int \<Rightarrow> org \<Rightarrow> org_error option" where
  "teamInTenant ctx i og =
    (if tenantOf ctx = 0 then None
     else if exists_row (\<lambda>t. tm_id t = i \<and> tm_tenant t = tenantOf ctx) (og_teams og) then None else Some NoSuchTeam)"

definition groupInTenant :: "user option \<Rightarrow> int \<Rightarrow> org \<Rightarrow> org_error option" where
  "groupInTenant ctx i og =
    (if tenantOf ctx = 0 then None
     else if exists_row (\<lambda>g. sg_id g = i \<and> sg_tenant g = tenantOf ctx) (og_groups og) then None else Some NoSuchGroup)"

definition validPerms :: "string list" where
  "validPerms = [''read'', ''write'', ''delete'', ''deploy'']"

fun normalize_perms :: "string list \<Rightarrow> string list \<Rightarrow> org_error + string list" where
  "normalize_perms out [] = Inr out"
| "normalize_perms out (p0 # ps) =
    (let p = to_lower (trim_space p0)
     in if p = [] then normalize_perms out ps
        else if p \<notin> set validPerms then Inl (BadPerm p)
        else normalize_perms (if p \<in> set out then out else out @ [p]) ps)"

definition normalizePerms :: "string list \<Rightarrow> org_error + string list" where
  "normalizePerms ps = normalize_perms [] ps"

text \<open>The limit of a text column, in characters.\<close>

definition fits :: "nat \<Rightarrow> string \<Rightarrow> bool" where
  "fits n s = (rune_count s \<le> n)"

section \<open>Roles\<close>

definition ListRoles :: "user option \<Rightarrow> org \<Rightarrow> (role_row \<times> nat) list" where
  "ListRoles ctx og =
    map (\<lambda>r. (r, rows_affected (\<lambda>g. rl_id r \<in> set (gp_role_ids g)) (og_grants og)))
      (sort_key rl_id (filter (\<lambda>r. sees ctx (rl_tenant r)) (og_roles og)))"

definition CreateRole :: "user option \<Rightarrow> string \<Rightarrow> string \<Rightarrow> string \<Rightarrow> string list \<Rightarrow> org \<Rightarrow> (org_error + int) \<times> org" where
  "CreateRole ctx name0 code0 desc perms og =
    (let name = trim_space name0
     in if name = [] then (Inl NoName, og)
        else
         (let code = (if trim_space code0 = [] then name else trim_space code0)
          in case normalizePerms perms of Inl e \<Rightarrow> (Inl e, og) | Inr p \<Rightarrow>
           (let t = tenantForWrite ctx; i = og_next_role og
            in if \<not> fits 100 name \<or> \<not> fits 100 code then (Inl TooLong, og)
               else if exists_row (\<lambda>r. rl_tenant r = t \<and> rl_name r = name) (og_roles og) then (Inl (NameTaken name), og)
               else (Inr i, og\<lparr>og_roles := og_roles og @ [\<lparr>rl_id = i, rl_tenant = t, rl_name = name, rl_code = code,
                       rl_description = trim_space desc, rl_permissions = p\<rparr>], og_next_role := i + 1\<rparr>))))"

definition UpdateRole :: "user option \<Rightarrow> int \<Rightarrow> string \<Rightarrow> string \<Rightarrow> string list \<Rightarrow> org \<Rightarrow> org_error option \<times> org" where
  "UpdateRole ctx i name0 desc perms og =
    (let name = trim_space name0
     in if name = [] then (Some NoName, og)
        else case normalizePerms perms of Inl e \<Rightarrow> (Some e, og) | Inr p \<Rightarrow>
         (if \<not> fits 100 name then (Some TooLong, og)
          else
           (let hit = (\<lambda>r. rl_id r = i \<and> sees ctx (rl_tenant r))
            in case find hit (og_roles og) of None \<Rightarrow> (Some NoSuchRole, og) | Some r0 \<Rightarrow>
                 (if exists_row (\<lambda>r. rl_tenant r = rl_tenant r0 \<and> rl_name r = name \<and> rl_id r \<noteq> i) (og_roles og)
                  then (Some (NameTaken name), og)
                  else (None, og\<lparr>og_roles := upd_where hit
                         (\<lambda>r. r\<lparr>rl_name := name, rl_description := trim_space desc, rl_permissions := p\<rparr>) (og_roles og)\<rparr>)))))"

definition DeleteRole :: "user option \<Rightarrow> int \<Rightarrow> org \<Rightarrow> org_error option \<times> org" where
  "DeleteRole ctx i og =
    (let refs = rows_affected (\<lambda>g. i \<in> set (gp_role_ids g)) (og_grants og)
     in if refs > 0 then (Some (RoleInUse refs), og)
        else (let hit = (\<lambda>r. rl_id r = i \<and> sees ctx (rl_tenant r))
              in if \<not> exists_row hit (og_roles og) then (Some NoSuchRole, og)
                 else (None, og\<lparr>og_roles := filter (\<lambda>r. \<not> hit r) (og_roles og)\<rparr>)))"

section \<open>Teams\<close>

definition ListTeams :: "user option \<Rightarrow> org \<Rightarrow> (team_row \<times> nat \<times> nat) list" where
  "ListTeams ctx og =
    map (\<lambda>t. (t, rows_affected (\<lambda>m. fst m = tm_id t) (og_members og), rows_affected (\<lambda>g. gp_team g = tm_id t) (og_grants og)))
      (sort_key tm_id (filter (\<lambda>t. sees ctx (tm_tenant t)) (og_teams og)))"

definition NormalizeTeamOwnerOnly :: "string \<Rightarrow> string" where
  "NormalizeTeamOwnerOnly v =
    (let s = to_lower (trim_space v)
     in if s \<in> {''on'', ''true'', ''1''} then ''on'' else if s \<in> {''off'', ''false'', ''0''} then ''off'' else ''inherit'')"

text \<open>The loop over the names of new members: a name that is a member already is skipped, one that is too long fails.\<close>

fun add_members :: "int \<Rightarrow> string list \<Rightarrow> (int \<times> string) list \<Rightarrow> (int \<times> string) list option" where
  "add_members i [] ms = Some ms"
| "add_members i (u0 # us) ms =
    (let u = trim_space u0
     in if u = [] then add_members i us ms
        else if \<not> fits 100 u then None
        else add_members i us (if (i, u) \<in> set ms then ms else ms @ [(i, u)]))"

definition CreateTeamWithPolicy ::
    "user option \<Rightarrow> string \<Rightarrow> string \<Rightarrow> string \<Rightarrow> string list \<Rightarrow> string \<Rightarrow> string \<Rightarrow> org \<Rightarrow> (org_error + int) \<times> org" where
  "CreateTeamWithPolicy ctx name0 code0 desc members createdBy ownerOnly og =
    (let name = trim_space name0
     in if name = [] then (Inl NoName, og)
        else
         (let code = (if trim_space code0 = [] then name else trim_space code0); t = tenantForWrite ctx; i = og_next_team og
          in if \<not> fits 100 name \<or> \<not> fits 100 code \<or> \<not> fits 100 createdBy then (Inl TooLong, og)
             else if exists_row (\<lambda>r. tm_tenant r = t \<and> tm_name r = name) (og_teams og) then (Inl (NameTaken name), og)
             else case add_members i members (og_members og) of None \<Rightarrow> (Inl TooLong, og) | Some ms \<Rightarrow>
               (Inr i, og\<lparr>og_teams := og_teams og @ [\<lparr>tm_id = i, tm_tenant = t, tm_name = name, tm_code = code,
                   tm_description = trim_space desc, tm_status = 1, tm_owner_only = NormalizeTeamOwnerOnly ownerOnly,
                   tm_created_by = createdBy\<rparr>], og_next_team := i + 1, og_members := ms\<rparr>)))"

definition CreateTeam :: "user option \<Rightarrow> string \<Rightarrow> string \<Rightarrow> string \<Rightarrow> string list \<Rightarrow> string \<Rightarrow> org \<Rightarrow> (org_error + int) \<times> org" where
  "CreateTeam ctx name code desc members createdBy = CreateTeamWithPolicy ctx name code desc members createdBy ''inherit''"

definition UpdateTeamWithPolicy ::
    "user option \<Rightarrow> int \<Rightarrow> string \<Rightarrow> string \<Rightarrow> int \<Rightarrow> string \<Rightarrow> org \<Rightarrow> org_error option \<times> org" where
  "UpdateTeamWithPolicy ctx i name0 desc status ownerOnly og =
    (let name = trim_space name0
     in if name = [] then (Some NoName, og)
        else if \<not> fits 100 name then (Some TooLong, og)
        else
         (let policy = (if trim_space ownerOnly = [] then [] else NormalizeTeamOwnerOnly ownerOnly);
              hit = (\<lambda>t. tm_id t = i \<and> sees ctx (tm_tenant t))
          in case find hit (og_teams og) of None \<Rightarrow> (Some NoSuchTeam, og) | Some t0 \<Rightarrow>
               (if exists_row (\<lambda>t. tm_tenant t = tm_tenant t0 \<and> tm_name t = name \<and> tm_id t \<noteq> i) (og_teams og)
                then (Some (NameTaken name), og)
                else (None, og\<lparr>og_teams := upd_where hit
                   (\<lambda>t. t\<lparr>tm_name := name, tm_description := trim_space desc, tm_status := (if status \<noteq> 0 then 1 else 0),
                          tm_owner_only := (if policy = [] then tm_owner_only t else policy)\<rparr>) (og_teams og)\<rparr>))))"

definition UpdateTeam :: "user option \<Rightarrow> int \<Rightarrow> string \<Rightarrow> string \<Rightarrow> int \<Rightarrow> org \<Rightarrow> org_error option \<times> org" where
  "UpdateTeam ctx i name desc status = UpdateTeamWithPolicy ctx i name desc status []"

definition DeleteTeam :: "user option \<Rightarrow> int \<Rightarrow> org \<Rightarrow> org_error option \<times> org" where
  "DeleteTeam ctx i og =
    (let hit = (\<lambda>t. tm_id t = i \<and> sees ctx (tm_tenant t))
     in if \<not> exists_row hit (og_teams og) then (Some NoSuchTeam, og)
        else (None, og\<lparr>og_teams := filter (\<lambda>t. \<not> hit t) (og_teams og), og_members := filter (\<lambda>m. fst m \<noteq> i) (og_members og),
                       og_grants := filter (\<lambda>g. gp_team g \<noteq> i) (og_grants og)\<rparr>))"

definition ListMembers :: "user option \<Rightarrow> int \<Rightarrow> org \<Rightarrow> org_error + string list" where
  "ListMembers ctx i og = (case teamInTenant ctx i og of Some e \<Rightarrow> Inl e | None \<Rightarrow>
     Inr (map snd (filter (\<lambda>m. fst m = i) (og_members og))))"

text \<open>The foreign key refuses members of a team that is not there.\<close>

definition AddMembers :: "user option \<Rightarrow> int \<Rightarrow> string list \<Rightarrow> org \<Rightarrow> org_error option \<times> org" where
  "AddMembers ctx i names og = (case teamInTenant ctx i og of Some e \<Rightarrow> (Some e, og) | None \<Rightarrow>
     (case add_members i names (og_members og) of None \<Rightarrow> (Some TooLong, og) | Some ms \<Rightarrow>
       (if ms \<noteq> og_members og \<and> \<not> exists_row (\<lambda>t. tm_id t = i) (og_teams og) then (Some NoSuchTeam, og)
        else (None, og\<lparr>og_members := ms\<rparr>))))"

definition RemoveMember :: "user option \<Rightarrow> int \<Rightarrow> string \<Rightarrow> org \<Rightarrow> org_error option \<times> org" where
  "RemoveMember ctx i name og = (case teamInTenant ctx i og of Some e \<Rightarrow> (Some e, og) | None \<Rightarrow>
     (if (i, trim_space name) \<notin> set (og_members og) then (Some NoSuchMember, og)
      else (None, og\<lparr>og_members := filter (\<lambda>m. m \<noteq> (i, trim_space name)) (og_members og)\<rparr>)))"

section \<open>Service groups\<close>

text \<open>The components of a group that exist, by name.\<close>

definition groupComponents :: "component_row list \<Rightarrow> int \<Rightarrow> org \<Rightarrow> (int \<times> string) list" where
  "groupComponents comps i og =
    map (\<lambda>c. (cp_id c, cp_name c)) (sort_key cp_name (filter (\<lambda>c. (i, cp_id c) \<in> set (og_group_comps og)) comps))"

definition ListGroups :: "component_row list \<Rightarrow> user option \<Rightarrow> org \<Rightarrow> (group_row \<times> nat \<times> (int \<times> string) list) list" where
  "ListGroups comps ctx og =
    map (\<lambda>g. (g, rows_affected (\<lambda>p. gp_group p = sg_id g) (og_grants og), groupComponents comps (sg_id g) og))
      (sort_key sg_id (filter (\<lambda>g. sees ctx (sg_tenant g)) (og_groups og)))"

text \<open>A component that does not exist fails the statement.\<close>

fun set_components :: "component_row list \<Rightarrow> int \<Rightarrow> int list \<Rightarrow> (int \<times> int) list \<Rightarrow> (int \<times> int) list option" where
  "set_components comps i [] gs = Some gs"
| "set_components comps i (c # cs) gs =
    (if c \<le> 0 \<or> (i, c) \<in> set gs then set_components comps i cs gs
     else if \<not> exists_row (\<lambda>r. cp_id r = c) comps then None
     else set_components comps i cs (gs @ [(i, c)]))"

definition setGroupComponentsTx :: "component_row list \<Rightarrow> int \<Rightarrow> int list \<Rightarrow> (int \<times> int) list \<Rightarrow> (int \<times> int) list option" where
  "setGroupComponentsTx comps i cs gs = set_components comps i cs (filter (\<lambda>g. fst g \<noteq> i) gs)"

definition CreateGroup ::
    "component_row list \<Rightarrow> user option \<Rightarrow> string \<Rightarrow> string \<Rightarrow> string \<Rightarrow> int list \<Rightarrow> string \<Rightarrow> org \<Rightarrow> (org_error + int) \<times> org" where
  "CreateGroup comps ctx name0 code0 desc cs createdBy og =
    (let name = trim_space name0
     in if name = [] then (Inl NoName, og)
        else
         (let code = (if trim_space code0 = [] then name else trim_space code0); t = tenantForWrite ctx; i = og_next_group og
          in if \<not> fits 100 name \<or> \<not> fits 100 code \<or> \<not> fits 100 createdBy then (Inl TooLong, og)
             else if exists_row (\<lambda>g. sg_tenant g = t \<and> sg_name g = name) (og_groups og) then (Inl (NameTaken name), og)
             else case setGroupComponentsTx comps i cs (og_group_comps og) of None \<Rightarrow> (Inl NoSuchComponent, og) | Some gs \<Rightarrow>
               (Inr i, og\<lparr>og_groups := og_groups og @ [\<lparr>sg_id = i, sg_tenant = t, sg_name = name, sg_code = code,
                   sg_description = trim_space desc, sg_status = 1, sg_created_by = createdBy\<rparr>],
                   og_next_group := i + 1, og_group_comps := gs\<rparr>)))"

definition UpdateGroup ::
    "component_row list \<Rightarrow> user option \<Rightarrow> int \<Rightarrow> string \<Rightarrow> string \<Rightarrow> int list \<Rightarrow> org \<Rightarrow> org_error option \<times> org" where
  "UpdateGroup comps ctx i name0 desc cs og =
    (let name = trim_space name0
     in if name = [] then (Some NoName, og)
        else if \<not> fits 100 name then (Some TooLong, og)
        else
         (let hit = (\<lambda>g. sg_id g = i \<and> sees ctx (sg_tenant g))
          in case find hit (og_groups og) of None \<Rightarrow> (Some NoSuchGroup, og) | Some g0 \<Rightarrow>
               (if exists_row (\<lambda>g. sg_tenant g = sg_tenant g0 \<and> sg_name g = name \<and> sg_id g \<noteq> i) (og_groups og)
                then (Some (NameTaken name), og)
                else case setGroupComponentsTx comps i cs (og_group_comps og) of None \<Rightarrow> (Some NoSuchComponent, og) | Some gs \<Rightarrow>
                  (None, og\<lparr>og_groups := upd_where hit (\<lambda>g. g\<lparr>sg_name := name, sg_description := trim_space desc\<rparr>) (og_groups og),
                            og_group_comps := gs\<rparr>))))"

definition DeleteGroup :: "user option \<Rightarrow> int \<Rightarrow> org \<Rightarrow> org_error option \<times> org" where
  "DeleteGroup ctx i og =
    (let hit = (\<lambda>g. sg_id g = i \<and> sees ctx (sg_tenant g))
     in if \<not> exists_row hit (og_groups og) then (Some NoSuchGroup, og)
        else (None, og\<lparr>og_groups := filter (\<lambda>g. \<not> hit g) (og_groups og),
                       og_group_comps := filter (\<lambda>g. fst g \<noteq> i) (og_group_comps og),
                       og_grants := filter (\<lambda>g. gp_group g \<noteq> i) (og_grants og)\<rparr>))"

section \<open>Grants\<close>

definition ListGroupPermissions :: "user option \<Rightarrow> int \<Rightarrow> org \<Rightarrow> org_error + (grant_row \<times> string) list" where
  "ListGroupPermissions ctx i og = (case teamInTenant ctx i og of Some e \<Rightarrow> Inl e | None \<Rightarrow>
     Inr (map (\<lambda>p. (p, case find (\<lambda>g. sg_id g = gp_group p) (og_groups og) of None \<Rightarrow> [] | Some g \<Rightarrow> sg_name g))
       (sort_key gp_group (filter (\<lambda>p. gp_team p = i) (og_grants og)))))"

definition uniqueInt64 :: "int list \<Rightarrow> int list" where
  "uniqueInt64 xs = rev (remdups (rev xs))"

definition groupServiceNames :: "component_row list \<Rightarrow> int \<Rightarrow> org \<Rightarrow> string list" where
  "groupServiceNames comps i og = map snd (groupComponents comps i og)"

definition SetGroupPermission ::
    "component_row list \<Rightarrow> user option \<Rightarrow> int \<Rightarrow> int \<Rightarrow> string list \<Rightarrow> int list \<Rightarrow> string list \<Rightarrow> string list \<Rightarrow> org \<Rightarrow>
     org_error option \<times> org" where
  "SetGroupPermission comps ctx team grp perms roles services hostGroups og =
    (case teamInTenant ctx team og of Some e \<Rightarrow> (Some e, og) | None \<Rightarrow>
     (case groupInTenant ctx grp og of Some e \<Rightarrow> (Some e, og) | None \<Rightarrow>
      (case normalizePerms perms of Inl e \<Rightarrow> (Some e, og) | Inr p \<Rightarrow>
       (if roles \<noteq> [] \<and> rows_affected (\<lambda>r. rl_id r \<in> set roles \<and> sees ctx (rl_tenant r)) (og_roles og) \<noteq> length (uniqueInt64 roles)
        then (Some BadRoleIDs, og)
        else
         (let valid = groupServiceNames comps grp og;
              services' = filter (\<lambda>s. s \<noteq> [] \<and> (s = ''*'' \<or> s \<in> set valid)) (map trim_space services);
              hosts' = filter (\<lambda>s. s \<noteq> []) (map trim_space hostGroups);
              new = \<lparr>gp_team = team, gp_group = grp, gp_permissions = p, gp_role_ids = roles, gp_services = services',
                     gp_host_groups = hosts'\<rparr>;
              same = (\<lambda>g. gp_team g = team \<and> gp_group g = grp)
          in if \<not> exists_row (\<lambda>t. tm_id t = team) (og_teams og) then (Some NoSuchTeam, og)
             else if \<not> exists_row (\<lambda>g. sg_id g = grp) (og_groups og) then (Some NoSuchGroup, og)
             else (None, og\<lparr>og_grants := (if exists_row same (og_grants og) then upd_where same (\<lambda>g. new) (og_grants og)
                                          else og_grants og @ [new])\<rparr>))))))"

definition DeleteGroupPermission :: "user option \<Rightarrow> int \<Rightarrow> int \<Rightarrow> org \<Rightarrow> org_error option \<times> org" where
  "DeleteGroupPermission ctx team grp og =
    (case teamInTenant ctx team og of Some e \<Rightarrow> (Some e, og) | None \<Rightarrow>
     (case groupInTenant ctx grp og of Some e \<Rightarrow> (Some e, og) | None \<Rightarrow>
      (None, og\<lparr>og_grants := filter (\<lambda>g. \<not> (gp_team g = team \<and> gp_group g = grp)) (og_grants og)\<rparr>)))"

section \<open>What a user may do\<close>

text \<open>The rows of the statement: a grant of a team of the user with a component of its group.\<close>

definition granted_rows :: "component_row list \<Rightarrow> user option \<Rightarrow> string \<Rightarrow> org \<Rightarrow> (grant_row \<times> component_row) list" where
  "granted_rows comps ctx username og =
    concat (map (\<lambda>m. concat (map (\<lambda>t. concat (map (\<lambda>p. concat (map (\<lambda>c. [(p, c)])
        (filter (\<lambda>c. (gp_group p, cp_id c) \<in> set (og_group_comps og)) comps)))
        (filter (\<lambda>p. gp_team p = fst m) (og_grants og))))
        (filter (\<lambda>t. tm_id t = fst m \<and> sees ctx (tm_tenant t)) (og_teams og))))
      (filter (\<lambda>m. snd m = username) (og_members og)))"

definition rolePermissions :: "user option \<Rightarrow> org \<Rightarrow> int \<Rightarrow> string list" where
  "rolePermissions ctx og i =
    (case find (\<lambda>r. rl_id r = i) (filter (\<lambda>r. sees ctx (rl_tenant r)) (og_roles og)) of None \<Rightarrow> [] | Some r \<Rightarrow> rl_permissions r)"

type_synonym named_sets = "string \<Rightarrow> string list option"

definition add_set :: "string \<Rightarrow> string list \<Rightarrow> named_sets \<Rightarrow> named_sets" where
  "add_set n xs m = m(n \<mapsto> (case m n of None \<Rightarrow> [] | Some ys \<Rightarrow> ys) @ xs)"

definition grant_step :: "(int \<Rightarrow> string list) \<Rightarrow> grant_row \<times> component_row \<Rightarrow> named_sets \<times> named_sets \<Rightarrow> named_sets \<times> named_sets" where
  "grant_step role_perms row acc = (case (row, acc) of ((p, c), (perms, hosts)) \<Rightarrow>
    (let n = cp_name c
     in if \<not> list_ex (\<lambda>s. s = ''*'' \<or> s = n) (gp_services p) then (perms, hosts)
        else (add_set n (gp_permissions p @ concat (map role_perms (gp_role_ids p))) perms,
              add_set n (if gp_host_groups p = [] then [''*''] else gp_host_groups p) hosts)))"

definition EffectivePermissionsWithHosts :: "component_row list \<Rightarrow> user option \<Rightarrow> string \<Rightarrow> org \<Rightarrow> named_sets \<times> named_sets" where
  "EffectivePermissionsWithHosts comps ctx username og =
    (case fold (grant_step (rolePermissions ctx og)) (granted_rows comps ctx username og) (Map.empty, Map.empty) of
       (perms, hosts) \<Rightarrow> (perms, \<lambda>n. case hosts n of None \<Rightarrow> None | Some xs \<Rightarrow> Some (if ''*'' \<in> set xs then [''*''] else xs)))"

definition EffectivePermissions :: "component_row list \<Rightarrow> user option \<Rightarrow> string \<Rightarrow> org \<Rightarrow> named_sets" where
  "EffectivePermissions comps ctx username og = fst (EffectivePermissionsWithHosts comps ctx username og)"

definition TeamOwnerPolicy :: "user option \<Rightarrow> string \<Rightarrow> org \<Rightarrow> string" where
  "TeamOwnerPolicy ctx username og =
    (let vs = map (\<lambda>t. NormalizeTeamOwnerOnly (tm_owner_only t))
           (filter (\<lambda>t. sees ctx (tm_tenant t) \<and> (tm_id t, trim_space username) \<in> set (og_members og)) (og_teams og));
         hasOn = ''on'' \<in> set vs; hasOff = ''off'' \<in> set vs; hasInherit = ''inherit'' \<in> set vs
     in if hasOn then ''on'' else if hasOff \<and> \<not> hasInherit then ''off'' else if hasInherit \<or> hasOff then ''inherit'' else [])"

definition common_team :: "(team_row \<Rightarrow> bool) \<Rightarrow> string \<Rightarrow> string \<Rightarrow> org \<Rightarrow> bool" where
  "common_team P a b og =
    exists_row (\<lambda>t. P t \<and> (tm_id t, a) \<in> set (og_members og) \<and> (tm_id t, b) \<in> set (og_members og)) (og_teams og)"

definition CanShareTasks :: "user option \<Rightarrow> string \<Rightarrow> string \<Rightarrow> org \<Rightarrow> bool" where
  "CanShareTasks ctx actor0 creator0 og =
    (let actor = trim_space actor0; creator = trim_space creator0
     in if actor = [] \<or> creator = [] then False
        else if actor = creator then True
        else common_team (\<lambda>t. tm_owner_only t = ''off'' \<and> sees ctx (tm_tenant t)) actor creator og)"

definition TeamMates :: "user option \<Rightarrow> string \<Rightarrow> org \<Rightarrow> string list" where
  "TeamMates ctx name0 og =
    (let name = trim_space name0
     in if name = [] then []
        else remdups (map snd (filter (\<lambda>m. snd m \<noteq> name \<and> (fst m, name) \<in> set (og_members og) \<and>
            exists_row (\<lambda>t. tm_id t = fst m \<and> sees ctx (tm_tenant t)) (og_teams og)) (og_members og))))"

definition SharesTeam :: "user option \<Rightarrow> string \<Rightarrow> string \<Rightarrow> org \<Rightarrow> bool" where
  "SharesTeam ctx a0 b0 og =
    (let a = trim_space a0; b = trim_space b0
     in if a = [] \<or> b = [] then False
        else if a = b then True
        else common_team (\<lambda>t. sees ctx (tm_tenant t)) a b og)"

definition ordinary :: "user \<Rightarrow> bool" where
  "ordinary u = (\<not> (us_is_admin u \<or> IsSuperAdmin u \<or> HasRole u RoleAdmin))"

definition DeployAuthorizer :: "component_row list \<Rightarrow> user option \<Rightarrow> org \<Rightarrow> user \<Rightarrow> int \<Rightarrow> string \<Rightarrow> bool" where
  "DeployAuthorizer comps ctx og u cid name =
    (if \<not> ordinary u then True
     else case fst (EffectivePermissionsWithHosts comps ctx (us_username u) og) name of
       None \<Rightarrow> False | Some ps \<Rightarrow> ''deploy'' \<in> set ps)"

definition HostGroupsFor :: "component_row list \<Rightarrow> user option \<Rightarrow> string \<Rightarrow> string \<Rightarrow> org \<Rightarrow> string list" where
  "HostGroupsFor comps ctx username name og =
    (case snd (EffectivePermissionsWithHosts comps ctx username og) name of None \<Rightarrow> [] | Some hs \<Rightarrow> hs)"

definition HostGroupResolver :: "component_row list \<Rightarrow> user option \<Rightarrow> org \<Rightarrow> user \<Rightarrow> string \<Rightarrow> string list option" where
  "HostGroupResolver comps ctx og u name =
    (if \<not> ordinary u then Some [] else Some (HostGroupsFor comps ctx (us_username u) name og))"

text \<open>How the server wires these into the task service (\<open>internal/svc/context.go\<close>).\<close>

definition org_policy :: "component_row list \<Rightarrow> user option \<Rightarrow> org \<Rightarrow> policy \<Rightarrow> policy" where
  "org_policy comps ctx og pc =
    pc\<lparr>pc_authorize := Some (DeployAuthorizer comps ctx og), pc_host_groups := Some (HostGroupResolver comps ctx og),
       pc_owner_policy := Some (\<lambda>n. Some (TeamOwnerPolicy ctx n og)), pc_share := Some (\<lambda>a c. Some (CanShareTasks ctx a c og)),
       pc_team_mate := Some (\<lambda>a b. Some (SharesTeam ctx a b og))\<rparr>"

section \<open>Departments\<close>

fun take_runes :: "nat \<Rightarrow> string \<Rightarrow> string" where
  "take_runes 0 s = []"
| "take_runes (Suc n) s = (if s = [] then []
     else case rune_size s of
       None \<Rightarrow> [CHR 0xEF, CHR 0xBF, CHR 0xBD] @ take_runes n (tl s)
     | Some k \<Rightarrow> take k s @ take_runes n (drop k s))"

definition cutRunes :: "string \<Rightarrow> nat \<Rightarrow> string" where
  "cutRunes s n = (if n = 0 then [] else if rune_count s \<le> n then s else take_runes n s)"

definition local_department :: "department \<Rightarrow> department" where
  "local_department d = d\<lparr>dp_id := cutRunes (trim_space (dp_id d)) 200, dp_name := cutRunes (trim_space (dp_name d)) 300,
     dp_parent := cutRunes (trim_space (dp_parent d)) 200, dp_path := trim_space (dp_path d)\<rparr>"

fun new_departments :: "string list \<Rightarrow> department list \<Rightarrow> department list" where
  "new_departments seen [] = []"
| "new_departments seen (d # ds) =
    (let d' = local_department d
     in if dp_id d' = [] \<or> dp_id d' \<in> set seen then new_departments seen ds
        else d' # new_departments (dp_id d' # seen) ds)"

definition ReplaceDepartments :: "user option \<Rightarrow> department list \<Rightarrow> org \<Rightarrow> nat \<times> org" where
  "ReplaceDepartments ctx deps og =
    (let t = tenantForWrite ctx; new = new_departments [] deps
     in (length new, og\<lparr>og_departments := filter (\<lambda>d. fst d \<noteq> t) (og_departments og) @ map (\<lambda>d. (t, d)) new\<rparr>))"

definition ListDepartments :: "user option \<Rightarrow> org \<Rightarrow> department list" where
  "ListDepartments ctx og =
    sort_key dp_path (sort_key dp_id (map snd (filter (\<lambda>d. sees ctx (fst d)) (og_departments og))))"

definition DepartmentCount :: "user option \<Rightarrow> org \<Rightarrow> nat" where
  "DepartmentCount ctx og = rows_affected (\<lambda>d. sees ctx (fst d)) (og_departments og)"

text \<open>An empty answer of the directory replaces nothing; \<open>None\<close> is a failed request to it.\<close>

definition SyncDepartmentsFromFlyIAM :: "user option \<Rightarrow> department list option \<Rightarrow> org \<Rightarrow> (nat + nat) \<times> org" where
  "SyncDepartmentsFromFlyIAM ctx fetched og =
    (case fetched of None \<Rightarrow> (Inl 502, og) | Some deps \<Rightarrow>
      (if deps = [] then (Inl 502, og) else (case ReplaceDepartments ctx deps og of (n, og') \<Rightarrow> (Inr n, og'))))"

end
