(* ===== verification/OrgAdmin.thy ===== *)
theory OrgAdmin
  imports Org Middleware TaskOps WorkQueue
begin

text \<open>
  The handlers of roles, teams, groups and grants (\<open>internal/handler/org.go\<close>, \<open>permission.go\<close>, \<open>org_dept.go\<close>):
  the routes admit administrators only. Requests that are no JSON never get here; a path without a positive
  number is number zero. Audit entries are not kept.
\<close>

definition answer :: "nat \<Rightarrow> org_error option \<times> org \<Rightarrow> (nat + unit) \<times> org" where
  "answer code r = (case r of (Some e, og) \<Rightarrow> (Inl code, og) | (None, og) \<Rightarrow> (Inr (), og))"

definition answer_id :: "(org_error + int) \<times> org \<Rightarrow> (nat + int) \<times> org" where
  "answer_id r = (map_sum (\<lambda>_. 400) id (fst r), snd r)"

definition creator_name :: "user option \<Rightarrow> string" where
  "creator_name ctx = (case ctx of None \<Rightarrow> [] | Some u \<Rightarrow> us_username u)"

definition RoleCreate :: "user option \<Rightarrow> string \<Rightarrow> string \<Rightarrow> string \<Rightarrow> string list \<Rightarrow> (org, int) handler" where
  "RoleCreate ctx name code desc perms = RequireAdmin ctx (\<lambda>og. answer_id (CreateRole ctx name code desc perms og))"

definition RoleUpdate :: "user option \<Rightarrow> int \<Rightarrow> string \<Rightarrow> string \<Rightarrow> string list \<Rightarrow> (org, unit) handler" where
  "RoleUpdate ctx i name desc perms = RequireAdmin ctx (\<lambda>og.
     if i \<le> 0 then (Inl 400, og) else answer 400 (UpdateRole ctx i name desc perms og))"

definition RoleDelete :: "user option \<Rightarrow> int \<Rightarrow> (org, unit) handler" where
  "RoleDelete ctx i = RequireAdmin ctx (\<lambda>og. if i \<le> 0 then (Inl 400, og) else answer 409 (DeleteRole ctx i og))"

definition TeamCreate :: "user option \<Rightarrow> string \<Rightarrow> string \<Rightarrow> string \<Rightarrow> string list \<Rightarrow> string \<Rightarrow> (org, int) handler" where
  "TeamCreate ctx name code desc members ownerOnly = RequireAdmin ctx (\<lambda>og.
     answer_id (CreateTeamWithPolicy ctx name code desc members (creator_name ctx) ownerOnly og))"

definition TeamUpdate :: "user option \<Rightarrow> int \<Rightarrow> string \<Rightarrow> string \<Rightarrow> int \<Rightarrow> string \<Rightarrow> (org, unit) handler" where
  "TeamUpdate ctx i name desc status ownerOnly = RequireAdmin ctx (\<lambda>og.
     if i \<le> 0 then (Inl 400, og) else answer 400 (UpdateTeamWithPolicy ctx i name desc status ownerOnly og))"

definition TeamDelete :: "user option \<Rightarrow> int \<Rightarrow> (org, unit) handler" where
  "TeamDelete ctx i = RequireAdmin ctx (\<lambda>og. if i \<le> 0 then (Inl 400, og) else answer 400 (DeleteTeam ctx i og))"

definition TeamMemberAdd :: "user option \<Rightarrow> int \<Rightarrow> string list \<Rightarrow> (org, unit) handler" where
  "TeamMemberAdd ctx i names = RequireAdmin ctx (\<lambda>og. if i \<le> 0 then (Inl 400, og) else answer 400 (AddMembers ctx i names og))"

definition TeamMemberRemove :: "user option \<Rightarrow> int \<Rightarrow> string \<Rightarrow> (org, unit) handler" where
  "TeamMemberRemove ctx i name = RequireAdmin ctx (\<lambda>og.
     if i \<le> 0 \<or> trim_space name = [] then (Inl 400, og) else answer 400 (RemoveMember ctx i (trim_space name) og))"

definition GroupCreate :: "component_row list \<Rightarrow> user option \<Rightarrow> string \<Rightarrow> string \<Rightarrow> string \<Rightarrow> int list \<Rightarrow> (org, int) handler" where
  "GroupCreate comps ctx name code desc cs = RequireAdmin ctx (\<lambda>og.
     answer_id (CreateGroup comps ctx name code desc cs (creator_name ctx) og))"

definition GroupUpdate :: "component_row list \<Rightarrow> user option \<Rightarrow> int \<Rightarrow> string \<Rightarrow> string \<Rightarrow> int list \<Rightarrow> (org, unit) handler" where
  "GroupUpdate comps ctx i name desc cs = RequireAdmin ctx (\<lambda>og.
     if i \<le> 0 then (Inl 400, og) else answer 400 (UpdateGroup comps ctx i name desc cs og))"

definition GroupDelete :: "user option \<Rightarrow> int \<Rightarrow> (org, unit) handler" where
  "GroupDelete ctx i = RequireAdmin ctx (\<lambda>og. if i \<le> 0 then (Inl 400, og) else answer 400 (DeleteGroup ctx i og))"

definition TeamPermissionSet ::
    "component_row list \<Rightarrow> user option \<Rightarrow> int \<Rightarrow> int \<Rightarrow> string list \<Rightarrow> int list \<Rightarrow> string list \<Rightarrow> string list \<Rightarrow> (org, unit) handler" where
  "TeamPermissionSet comps ctx team grp perms roles services hostGroups = RequireAdmin ctx (\<lambda>og.
     if team \<le> 0 \<or> grp \<le> 0 then (Inl 400, og)
     else answer 400 (SetGroupPermission comps ctx team grp perms roles services hostGroups og))"

definition TeamPermissionDelete :: "user option \<Rightarrow> int \<Rightarrow> int \<Rightarrow> (org, unit) handler" where
  "TeamPermissionDelete ctx team grp = RequireAdmin ctx (\<lambda>og.
     if team \<le> 0 \<or> grp \<le> 0 then (Inl 400, og) else answer 400 (DeleteGroupPermission ctx team grp og))"

definition RoleList :: "user option \<Rightarrow> org \<Rightarrow> (role_row \<times> nat) list" where
  "RoleList ctx og = ListRoles ctx og"

definition TeamList :: "user option \<Rightarrow> org \<Rightarrow> (team_row \<times> nat \<times> nat) list" where
  "TeamList ctx og = ListTeams ctx og"

definition GroupList :: "component_row list \<Rightarrow> user option \<Rightarrow> org \<Rightarrow> (group_row \<times> nat \<times> (int \<times> string) list) list" where
  "GroupList comps ctx og = ListGroups comps ctx og"

definition TeamMembers :: "user option \<Rightarrow> int \<Rightarrow> org \<Rightarrow> nat + string list" where
  "TeamMembers ctx i og = (if i \<le> 0 then Inl 400 else map_sum (\<lambda>_. 500) id (ListMembers ctx i og))"

definition TeamPermissions :: "user option \<Rightarrow> int \<Rightarrow> org \<Rightarrow> nat + (grant_row \<times> string) list" where
  "TeamPermissions ctx i og = (if i \<le> 0 then Inl 400 else map_sum (\<lambda>_. 500) id (ListGroupPermissions ctx i og))"

text \<open>What the console asks to know which buttons to show.\<close>

record my_permissions =
  my_admin :: bool
  my_components :: named_sets
  my_host_groups :: named_sets
  my_owner_mode :: string

definition MyPermissions :: "component_row list \<Rightarrow> user option \<Rightarrow> policy \<Rightarrow> org \<Rightarrow> nat + my_permissions" where
  "MyPermissions comps ctx pc og =
    (case ctx of None \<Rightarrow> Inl 401 | Some u \<Rightarrow>
      (if \<not> ordinary u then Inr \<lparr>my_admin = True, my_components = Map.empty, my_host_groups = Map.empty, my_owner_mode = ''off''\<rparr>
       else (case EffectivePermissionsWithHosts comps ctx (us_username u) og of (perms, hosts) \<Rightarrow>
         Inr \<lparr>my_admin = False, my_components = perms, my_host_groups = hosts,
              my_owner_mode = ownerModeFor (org_policy comps ctx og pc) (us_username u)\<rparr>)))"

text \<open>
  What each operation on roles, teams, groups, members and grants writes: nothing, or one row and the rows that
  belong to it.
\<close>

section \<open>Values and tables\<close>

definition perms_ok :: "string list \<Rightarrow> bool" where
  "perms_ok ps = (distinct ps \<and> set ps \<subseteq> set validPerms)"

lemma normalizePerms_ok: "normalizePerms ps = Inr qs \<Longrightarrow> perms_ok qs"
proof -
  have "normalize_perms out ps = Inr qs \<Longrightarrow> perms_ok out \<Longrightarrow> perms_ok qs" for out
    by (induction ps arbitrary: out) (auto simp: Let_def perms_ok_def split: if_splits)
  then show "normalizePerms ps = Inr qs \<Longrightarrow> perms_ok qs" by (simp add: normalizePerms_def perms_ok_def)
qed

definition owner_modes :: "string set" where
  "owner_modes = {''on'', ''off'', ''inherit''}"

lemma owner_only_range: "NormalizeTeamOwnerOnly v \<in> owner_modes"
  by (simp add: NormalizeTeamOwnerOnly_def Let_def owner_modes_def)

lemma image_upd_where: "(\<And>r. k (f r) = k r) \<Longrightarrow> k ` set (upd_where P f rs) = k ` set rs"
  by (metis list.set_map map_upd_where)

text \<open>Renaming one row keeps names unique when no other row of the tenant has the name.\<close>

lemma rename_distinct:
  assumes "distinct (map k rs)" "distinct (map i rs)" "\<And>r. i (f r) = i r"
    and "\<And>r. r \<in> set rs \<Longrightarrow> P r \<Longrightarrow> i r = x" "\<And>r s. r \<in> set rs \<Longrightarrow> s \<in> set rs \<Longrightarrow> P r \<Longrightarrow> k s = k (f r) \<Longrightarrow> i s = x"
  shows "distinct (map k (upd_where P f rs))"
  using assms
proof (induction rs)
  case (Cons a rs)
  have ids: "i r \<noteq> i a" if "r \<in> set rs" for r using Cons.prems(2) that by (metis distinct.simps(2) list.simps(9) image_eqI list.set_map)
  have "k (if P a then f a else a) \<notin> k ` set (upd_where P f rs)"
  proof
    assume "k (if P a then f a else a) \<in> k ` set (upd_where P f rs)"
    then obtain r where r: "r \<in> set rs" "k (if P a then f a else a) = k (if P r then f r else r)"
      by (auto simp: set_upd_where split: if_splits)
    show False
    proof (cases "P a"; cases "P r")
      assume "P a" "P r"
      then have "i a = x" "i r = x" using Cons.prems(4) r(1) by auto
      with ids [OF r(1)] show False by simp
    next
      assume "P a" "\<not> P r"
      then have "i a = x" "i r = x" using Cons.prems(4) [of a] Cons.prems(5) [of a r] r by auto
      with ids [OF r(1)] show False by simp
    next
      assume "\<not> P a" "P r"
      then have "i r = x" "i a = x" using Cons.prems(4) [of r] Cons.prems(5) [of r a] r by auto
      with ids [OF r(1)] show False by simp
    next
      assume "\<not> P a" "\<not> P r"
      with r Cons.prems(1) show False by auto
    qed
  qed
  moreover have "distinct (map k (upd_where P f rs))" using Cons.prems by (intro Cons.IH) auto
  ultimately show ?case by simp
qed simp

lemma add_members_spec:
  "add_members i us ms = Some ms' \<Longrightarrow> distinct ms \<Longrightarrow> distinct ms' \<and> set ms \<subseteq> set ms' \<and> fst ` (set ms' - set ms) \<subseteq> {i} \<and>
     filter (\<lambda>m. fst m \<noteq> i) ms' = filter (\<lambda>m. fst m \<noteq> i) ms"
proof (induction us arbitrary: ms)
  case (Cons u us)
  let ?ms = "if (i, trim_space u) \<in> set ms then ms else ms @ [(i, trim_space u)]"
  show ?case
  proof (cases "trim_space u = []")
    case True
    with Cons show ?thesis by (simp add: Let_def)
  next
    case False
    with Cons.prems(1) have a: "add_members i us ?ms = Some ms'" by (simp add: Let_def split: if_splits)
    have d: "distinct ?ms" using Cons.prems(2) by simp
    note ih = Cons.IH [OF a d]
    have "fst ` (set ms' - set ms) \<subseteq> {i}"
    proof
      fix x assume "x \<in> fst ` (set ms' - set ms)"
      then obtain m where m: "m \<in> set ms'" "m \<notin> set ms" "x = fst m" by auto
      with ih show "x \<in> {i}" by (cases "m = (i, trim_space u)") (auto split: if_splits)
    qed
    with ih show ?thesis by (auto split: if_splits)
  qed
qed simp

lemma set_components_spec:
  "set_components comps i cs gs = Some gs' \<Longrightarrow> distinct gs \<Longrightarrow> distinct gs' \<and> set gs \<subseteq> set gs' \<and> fst ` (set gs' - set gs) \<subseteq> {i} \<and>
     filter (\<lambda>g. fst g \<noteq> i) gs' = filter (\<lambda>g. fst g \<noteq> i) gs"
  by (induction cs arbitrary: gs) (fastforce split: if_splits)+

lemma setGroupComponentsTx_spec:
  assumes "setGroupComponentsTx comps i cs gs = Some gs'" "distinct gs"
  shows "distinct gs' \<and> fst ` set gs' \<subseteq> insert i (fst ` set gs) \<and> filter (\<lambda>g. fst g \<noteq> i) gs' = filter (\<lambda>g. fst g \<noteq> i) gs"
proof -
  from set_components_spec [OF assms(1) [unfolded setGroupComponentsTx_def]] assms(2)
  have s: "distinct gs'" "fst ` (set gs' - set (filter (\<lambda>g. fst g \<noteq> i) gs)) \<subseteq> {i}"
    "filter (\<lambda>g. fst g \<noteq> i) gs' = filter (\<lambda>g. fst g \<noteq> i) (filter (\<lambda>g. fst g \<noteq> i) gs)" by simp_all
  then show ?thesis by (auto simp: image_iff)
qed

section \<open>What operations write\<close>

lemma CreateTeam_cases:
  "snd (CreateTeamWithPolicy ctx name code desc us creator policy og) = og \<or>
   (\<exists>t ms. tm_id t = og_next_team og \<and> tm_tenant t = tenantForWrite ctx \<and> tm_name t \<noteq> [] \<and>
      tm_owner_only t \<in> owner_modes \<and> tm_name t \<notin> tm_name ` {r \<in> set (og_teams og). tm_tenant r = tm_tenant t} \<and>
      add_members (og_next_team og) us (og_members og) = Some ms \<and>
      snd (CreateTeamWithPolicy ctx name code desc us creator policy og) =
        og\<lparr>og_teams := og_teams og @ [t], og_next_team := og_next_team og + 1, og_members := ms\<rparr>)"
  (is "?r = og \<or> ?new")
proof -
  define t where "t = \<lparr>tm_id = og_next_team og, tm_tenant = tenantForWrite ctx, tm_name = trim_space name,
    tm_code = (if trim_space code = [] then trim_space name else trim_space code), tm_description = trim_space desc,
    tm_status = 1, tm_owner_only = NormalizeTeamOwnerOnly policy, tm_created_by = creator\<rparr>"
  have "?r = og \<or> (trim_space name \<noteq> [] \<and>
      \<not> exists_row (\<lambda>r. tm_tenant r = tenantForWrite ctx \<and> tm_name r = trim_space name) (og_teams og) \<and>
      (\<exists>ms. add_members (og_next_team og) us (og_members og) = Some ms \<and>
        ?r = og\<lparr>og_teams := og_teams og @ [t], og_next_team := og_next_team og + 1, og_members := ms\<rparr>))"
    by (auto simp: CreateTeamWithPolicy_def Let_def t_def split: option.split)
  moreover have "tm_id t = og_next_team og" "tm_tenant t = tenantForWrite ctx" "tm_name t = trim_space name"
    "tm_owner_only t \<in> owner_modes" using owner_only_range [of policy] by (simp_all add: t_def)
  ultimately show ?thesis by (auto simp: exists_row_iff)
qed

lemma UpdateTeam_cases:
  "snd (UpdateTeamWithPolicy ctx i name desc status policy og) = og \<or>
   (\<exists>t0 f. t0 \<in> set (og_teams og) \<and> tm_id t0 = i \<and> sees ctx (tm_tenant t0) \<and> trim_space name \<noteq> [] \<and>
      (\<forall>t\<in>set (og_teams og). tm_tenant t = tm_tenant t0 \<longrightarrow> tm_name t = trim_space name \<longrightarrow> tm_id t = i) \<and>
      (\<forall>t. tm_id (f t) = tm_id t \<and> tm_tenant (f t) = tm_tenant t \<and> tm_name (f t) = trim_space name \<and>
         (tm_owner_only t \<in> owner_modes \<longrightarrow> tm_owner_only (f t) \<in> owner_modes)) \<and>
      snd (UpdateTeamWithPolicy ctx i name desc status policy og) =
        og\<lparr>og_teams := upd_where (\<lambda>t. tm_id t = i \<and> sees ctx (tm_tenant t)) f (og_teams og)\<rparr>)"
  (is "?r = og \<or> ?new")
proof -
  let ?pol = "if trim_space policy = [] then [] else NormalizeTeamOwnerOnly policy"
  define f :: "team_row \<Rightarrow> team_row" where "f = (\<lambda>t. t\<lparr>tm_name := trim_space name, tm_description := trim_space desc, tm_status := (if status \<noteq> 0 then 1 else 0),
                tm_owner_only := (if ?pol = [] then tm_owner_only t else ?pol)\<rparr>)"
  have "?r = og \<or> (trim_space name \<noteq> [] \<and> (\<exists>t0. find (\<lambda>t. tm_id t = i \<and> sees ctx (tm_tenant t)) (og_teams og) = Some t0 \<and>
      \<not> exists_row (\<lambda>r. tm_tenant r = tm_tenant t0 \<and> tm_name r = trim_space name \<and> tm_id r \<noteq> i) (og_teams og) \<and>
      ?r = og\<lparr>og_teams := upd_where (\<lambda>t. tm_id t = i \<and> sees ctx (tm_tenant t)) f (og_teams og)\<rparr>))"
    by (auto simp: UpdateTeamWithPolicy_def Let_def f_def split: option.split)
  moreover have "\<forall>t. tm_id (f t) = tm_id t \<and> tm_tenant (f t) = tm_tenant t \<and> tm_name (f t) = trim_space name \<and>
      (tm_owner_only t \<in> owner_modes \<longrightarrow> tm_owner_only (f t) \<in> owner_modes)"
    using owner_only_range [of policy] by (auto simp: f_def)
  ultimately show ?thesis by (fastforce simp: exists_row_iff dest: find_SomeD)
qed

lemma CreateRole_cases:
  "snd (CreateRole ctx name code desc perms og) = og \<or>
   (\<exists>r. rl_id r = og_next_role og \<and> rl_tenant r = tenantForWrite ctx \<and> rl_name r \<noteq> [] \<and> perms_ok (rl_permissions r) \<and>
      rl_name r \<notin> rl_name ` {s \<in> set (og_roles og). rl_tenant s = rl_tenant r} \<and>
      snd (CreateRole ctx name code desc perms og) = og\<lparr>og_roles := og_roles og @ [r], og_next_role := og_next_role og + 1\<rparr>)"
  (is "?r = og \<or> ?new")
proof (cases "normalizePerms perms")
  case (Inr p)
  define t where "t = \<lparr>rl_id = og_next_role og, rl_tenant = tenantForWrite ctx, rl_name = trim_space name,
    rl_code = (if trim_space code = [] then trim_space name else trim_space code), rl_description = trim_space desc,
    rl_permissions = p\<rparr>"
  have "?r = og \<or> (trim_space name \<noteq> [] \<and>
      \<not> exists_row (\<lambda>r. rl_tenant r = tenantForWrite ctx \<and> rl_name r = trim_space name) (og_roles og) \<and>
      ?r = og\<lparr>og_roles := og_roles og @ [t], og_next_role := og_next_role og + 1\<rparr>)"
    using Inr by (auto simp: CreateRole_def Let_def t_def)
  moreover have "rl_id t = og_next_role og" "rl_tenant t = tenantForWrite ctx" "rl_name t = trim_space name" "perms_ok (rl_permissions t)"
    using normalizePerms_ok [OF Inr] by (simp_all add: t_def)
  ultimately show ?thesis by (auto simp: exists_row_iff)
qed (simp add: CreateRole_def Let_def)

lemma UpdateRole_cases:
  "snd (UpdateRole ctx i name desc perms og) = og \<or>
   (\<exists>t0 f. t0 \<in> set (og_roles og) \<and> rl_id t0 = i \<and> sees ctx (rl_tenant t0) \<and> trim_space name \<noteq> [] \<and>
      (\<forall>t\<in>set (og_roles og). rl_tenant t = rl_tenant t0 \<longrightarrow> rl_name t = trim_space name \<longrightarrow> rl_id t = i) \<and>
      (\<forall>t. rl_id (f t) = rl_id t \<and> rl_tenant (f t) = rl_tenant t \<and> rl_name (f t) = trim_space name \<and> perms_ok (rl_permissions (f t))) \<and>
      snd (UpdateRole ctx i name desc perms og) =
        og\<lparr>og_roles := upd_where (\<lambda>t. rl_id t = i \<and> sees ctx (rl_tenant t)) f (og_roles og)\<rparr>)"
  (is "?r = og \<or> ?new")
proof (cases "normalizePerms perms")
  case (Inr p)
  define f :: "role_row \<Rightarrow> role_row" where "f = (\<lambda>r. r\<lparr>rl_name := trim_space name, rl_description := trim_space desc, rl_permissions := p\<rparr>)"
  have "?r = og \<or> (trim_space name \<noteq> [] \<and> (\<exists>t0. find (\<lambda>t. rl_id t = i \<and> sees ctx (rl_tenant t)) (og_roles og) = Some t0 \<and>
      \<not> exists_row (\<lambda>r. rl_tenant r = rl_tenant t0 \<and> rl_name r = trim_space name \<and> rl_id r \<noteq> i) (og_roles og) \<and>
      ?r = og\<lparr>og_roles := upd_where (\<lambda>t. rl_id t = i \<and> sees ctx (rl_tenant t)) f (og_roles og)\<rparr>))"
    using Inr by (auto simp: UpdateRole_def Let_def f_def split: option.split)
  moreover have "\<forall>t. rl_id (f t) = rl_id t \<and> rl_tenant (f t) = rl_tenant t \<and> rl_name (f t) = trim_space name \<and> perms_ok (rl_permissions (f t))"
    using normalizePerms_ok [OF Inr] by (auto simp: f_def)
  ultimately show ?thesis by (fastforce simp: exists_row_iff dest: find_SomeD)
qed (simp add: UpdateRole_def Let_def)

lemma CreateGroup_cases:
  "snd (CreateGroup comps ctx name code desc cs creator og) = og \<or>
   (\<exists>g gs. sg_id g = og_next_group og \<and> sg_tenant g = tenantForWrite ctx \<and> sg_name g \<noteq> [] \<and>
      sg_name g \<notin> sg_name ` {r \<in> set (og_groups og). sg_tenant r = sg_tenant g} \<and>
      setGroupComponentsTx comps (og_next_group og) cs (og_group_comps og) = Some gs \<and>
      snd (CreateGroup comps ctx name code desc cs creator og) =
        og\<lparr>og_groups := og_groups og @ [g], og_next_group := og_next_group og + 1, og_group_comps := gs\<rparr>)"
  (is "?r = og \<or> ?new")
proof -
  define t where "t = \<lparr>sg_id = og_next_group og, sg_tenant = tenantForWrite ctx, sg_name = trim_space name,
    sg_code = (if trim_space code = [] then trim_space name else trim_space code), sg_description = trim_space desc,
    sg_status = 1, sg_created_by = creator\<rparr>"
  have "?r = og \<or> (trim_space name \<noteq> [] \<and>
      \<not> exists_row (\<lambda>r. sg_tenant r = tenantForWrite ctx \<and> sg_name r = trim_space name) (og_groups og) \<and>
      (\<exists>gs. setGroupComponentsTx comps (og_next_group og) cs (og_group_comps og) = Some gs \<and>
        ?r = og\<lparr>og_groups := og_groups og @ [t], og_next_group := og_next_group og + 1, og_group_comps := gs\<rparr>))"
    by (auto simp: CreateGroup_def Let_def t_def split: option.split)
  moreover have "sg_id t = og_next_group og" "sg_tenant t = tenantForWrite ctx" "sg_name t = trim_space name"
    by (simp_all add: t_def)
  ultimately show ?thesis by (auto simp: exists_row_iff)
qed

lemma UpdateGroup_cases:
  "snd (UpdateGroup comps ctx i name desc cs og) = og \<or>
   (\<exists>t0 f gs. t0 \<in> set (og_groups og) \<and> sg_id t0 = i \<and> sees ctx (sg_tenant t0) \<and> trim_space name \<noteq> [] \<and>
      (\<forall>t\<in>set (og_groups og). sg_tenant t = sg_tenant t0 \<longrightarrow> sg_name t = trim_space name \<longrightarrow> sg_id t = i) \<and>
      (\<forall>t. sg_id (f t) = sg_id t \<and> sg_tenant (f t) = sg_tenant t \<and> sg_name (f t) = trim_space name) \<and>
      setGroupComponentsTx comps i cs (og_group_comps og) = Some gs \<and>
      snd (UpdateGroup comps ctx i name desc cs og) =
        og\<lparr>og_groups := upd_where (\<lambda>t. sg_id t = i \<and> sees ctx (sg_tenant t)) f (og_groups og), og_group_comps := gs\<rparr>)"
  (is "?r = og \<or> ?new")
proof -
  define f :: "group_row \<Rightarrow> group_row" where "f = (\<lambda>g. g\<lparr>sg_name := trim_space name, sg_description := trim_space desc\<rparr>)"
  have "?r = og \<or> (trim_space name \<noteq> [] \<and> (\<exists>t0 gs. find (\<lambda>t. sg_id t = i \<and> sees ctx (sg_tenant t)) (og_groups og) = Some t0 \<and>
      \<not> exists_row (\<lambda>r. sg_tenant r = sg_tenant t0 \<and> sg_name r = trim_space name \<and> sg_id r \<noteq> i) (og_groups og) \<and>
      setGroupComponentsTx comps i cs (og_group_comps og) = Some gs \<and>
      ?r = og\<lparr>og_groups := upd_where (\<lambda>t. sg_id t = i \<and> sees ctx (sg_tenant t)) f (og_groups og), og_group_comps := gs\<rparr>))"
    by (auto simp: UpdateGroup_def Let_def f_def split: option.split)
  moreover have "\<forall>t. sg_id (f t) = sg_id t \<and> sg_tenant (f t) = sg_tenant t \<and> sg_name (f t) = trim_space name"
    by (auto simp: f_def)
  ultimately show ?thesis
  proof (elim disjE conjE exE)
    fix t0 gs
    assume t0: "find (\<lambda>t. sg_id t = i \<and> sees ctx (sg_tenant t)) (og_groups og) = Some t0"
      and u: "\<not> exists_row (\<lambda>r. sg_tenant r = sg_tenant t0 \<and> sg_name r = trim_space name \<and> sg_id r \<noteq> i) (og_groups og)"
      and e: "trim_space name \<noteq> []" "setGroupComponentsTx comps i cs (og_group_comps og) = Some gs"
        "?r = og\<lparr>og_groups := upd_where (\<lambda>t. sg_id t = i \<and> sees ctx (sg_tenant t)) f (og_groups og), og_group_comps := gs\<rparr>"
      and f: "\<forall>t. sg_id (f t) = sg_id t \<and> sg_tenant (f t) = sg_tenant t \<and> sg_name (f t) = trim_space name"
    from find_SomeD [OF t0] have "t0 \<in> set (og_groups og)" "sg_id t0 = i" "sees ctx (sg_tenant t0)" by auto
    moreover have "\<forall>t\<in>set (og_groups og). sg_tenant t = sg_tenant t0 \<longrightarrow> sg_name t = trim_space name \<longrightarrow> sg_id t = i"
      using u by (auto simp: exists_row_iff)
    ultimately show ?thesis using e f by (intro disjI2 exI [of _ t0] exI [of _ f] exI [of _ gs] conjI) assumption+
  qed simp
qed

end
