(* ===== verification/OrgSafety.thy ===== *)
theory OrgSafety
  imports OrgAdmin
begin

text \<open>
  Every operation on roles, teams, component groups, memberships and grants keeps the tables well formed
  (\<open>org_ok\<close>), whatever the caller sends.
\<close>

section \<open>Tables with numbers and unique names\<close>

definition rows_ok :: "('r \<Rightarrow> 'k) \<Rightarrow> ('r \<Rightarrow> int) \<Rightarrow> int \<Rightarrow> ('r \<Rightarrow> bool) \<Rightarrow> 'r list \<Rightarrow> bool" where
  "rows_ok k i nx P rs = (distinct (map i rs) \<and> distinct (map k rs) \<and> (\<forall>r\<in>set rs. i r < nx \<and> P r))"

lemma table_add: "rows_ok k i nx P rs \<Longrightarrow> i r = nx \<Longrightarrow> P r \<Longrightarrow> k r \<notin> k ` set rs \<Longrightarrow> rows_ok k i (nx + 1) P (rs @ [r])"
  by (force simp: rows_ok_def)

lemma table_filter: "rows_ok k i nx P rs \<Longrightarrow> rows_ok k i nx P (filter Q rs)"
  by (simp add: rows_ok_def distinct_map_filter)

lemma table_upd:
  assumes "rows_ok k i nx P rs" "\<And>r. i (f r) = i r" "\<And>r. r \<in> set rs \<Longrightarrow> hit r \<Longrightarrow> P (f r)" "\<And>r. hit r \<Longrightarrow> i r = x"
    and u: "\<And>r s. r \<in> set rs \<Longrightarrow> s \<in> set rs \<Longrightarrow> hit r \<Longrightarrow> k s = k (f r) \<Longrightarrow> i s = x"
  shows "rows_ok k i nx P (upd_where hit f rs)"
proof -
  have d: "distinct (map k rs)" "distinct (map i rs)" using assms(1) by (simp_all add: rows_ok_def)
  have "distinct (map k (upd_where hit f rs))"
    by (rule rename_distinct [OF d, where x = x]) (use assms(2,4) u in auto)
  moreover have "distinct (map i (upd_where hit f rs))" using d(2) assms(2) by (simp add: map_upd_where)
  moreover have "i r < nx \<and> P r" if "r \<in> set (upd_where hit f rs)" for r
    using that assms(1,2,3) by (auto simp: set_upd_where rows_ok_def split: if_splits)
  ultimately show ?thesis by (simp add: rows_ok_def)
qed

lemma table_same: "rows_ok k i nx P rs \<Longrightarrow> r \<in> set rs \<Longrightarrow> s \<in> set rs \<Longrightarrow> i r = i s \<Longrightarrow> r = s"
  using distinct_key_eq [of i rs r s] by (simp add: rows_ok_def)

lemma distinct_map_filter2: "distinct (map f xs) \<Longrightarrow> distinct (map f (filter P xs))"
  by (rule distinct_map_filter)

section \<open>Well-formed organisations\<close>

definition roles_ok :: "org \<Rightarrow> bool" where
  "roles_ok og = rows_ok (\<lambda>r. (rl_tenant r, rl_name r)) rl_id (og_next_role og)
     (\<lambda>r. rl_name r \<noteq> [] \<and> perms_ok (rl_permissions r)) (og_roles og)"

definition teams_ok :: "org \<Rightarrow> bool" where
  "teams_ok og = rows_ok (\<lambda>t. (tm_tenant t, tm_name t)) tm_id (og_next_team og)
     (\<lambda>t. tm_name t \<noteq> [] \<and> tm_owner_only t \<in> owner_modes) (og_teams og)"

definition groups_ok :: "org \<Rightarrow> bool" where
  "groups_ok og = rows_ok (\<lambda>g. (sg_tenant g, sg_name g)) sg_id (og_next_group og) (\<lambda>g. sg_name g \<noteq> []) (og_groups og)"

definition members_ok :: "org \<Rightarrow> bool" where
  "members_ok og = (distinct (og_members og) \<and> fst ` set (og_members og) \<subseteq> tm_id ` set (og_teams og))"

definition comps_ok :: "org \<Rightarrow> bool" where
  "comps_ok og = (distinct (og_group_comps og) \<and> fst ` set (og_group_comps og) \<subseteq> sg_id ` set (og_groups og))"

definition grants_ok :: "org \<Rightarrow> bool" where
  "grants_ok og = (distinct (map (\<lambda>g. (gp_team g, gp_group g)) (og_grants og)) \<and>
     (\<forall>g\<in>set (og_grants og). gp_team g \<in> tm_id ` set (og_teams og) \<and> gp_group g \<in> sg_id ` set (og_groups og) \<and>
        perms_ok (gp_permissions g)))"

definition org_ok :: "org \<Rightarrow> bool" where
  "org_ok og = (roles_ok og \<and> teams_ok og \<and> groups_ok og \<and> members_ok og \<and> comps_ok og \<and> grants_ok og)"

lemma org_okI: "roles_ok og \<Longrightarrow> teams_ok og \<Longrightarrow> groups_ok og \<Longrightarrow> members_ok og \<Longrightarrow> comps_ok og \<Longrightarrow> grants_ok og \<Longrightarrow> org_ok og"
  by (simp add: org_ok_def)

lemma org_okD:
  assumes "org_ok og"
  shows "roles_ok og" "teams_ok og" "groups_ok og" "members_ok og" "comps_ok og" "grants_ok og"
  using assms by (simp_all add: org_ok_def)

lemma insert_chain: "A \<subseteq> insert i B \<Longrightarrow> B \<subseteq> C \<Longrightarrow> i \<in> C \<Longrightarrow> A \<subseteq> C"
  by blast

section \<open>Roles\<close>

lemma CreateRole_ok:
  assumes "org_ok og"
  shows "org_ok (snd (CreateRole ctx name code desc perms og))"
  using CreateRole_cases [of ctx name code desc perms og]
proof (elim disjE exE conjE)
  fix r
  let ?og = "og\<lparr>og_roles := og_roles og @ [r], og_next_role := og_next_role og + 1\<rparr>"
  assume r: "rl_id r = og_next_role og" "rl_name r \<noteq> []" "perms_ok (rl_permissions r)"
    and u: "rl_name r \<notin> rl_name ` {s \<in> set (og_roles og). rl_tenant s = rl_tenant r}"
    and e: "snd (CreateRole ctx name code desc perms og) = ?og"
  have "roles_ok ?og" using org_okD(1) [OF assms] r u unfolding roles_ok_def by (auto intro!: table_add)
  with org_okD [OF assms] show ?thesis
    by (auto simp: e org_ok_def teams_ok_def groups_ok_def members_ok_def comps_ok_def grants_ok_def)
qed (use assms in simp)

lemma UpdateRole_ok:
  assumes "org_ok og"
  shows "org_ok (snd (UpdateRole ctx i name desc perms og))"
  using UpdateRole_cases [of ctx i name desc perms og]
proof (elim disjE exE conjE)
  fix t0 f
  let ?hit = "\<lambda>t. rl_id t = i \<and> sees ctx (rl_tenant t)"
  let ?og = "og\<lparr>og_roles := upd_where ?hit f (og_roles og)\<rparr>"
  assume t0: "t0 \<in> set (og_roles og)" "rl_id t0 = i" and n: "trim_space name \<noteq> []"
    and u: "\<forall>t\<in>set (og_roles og). rl_tenant t = rl_tenant t0 \<longrightarrow> rl_name t = trim_space name \<longrightarrow> rl_id t = i"
    and f: "\<forall>t. rl_id (f t) = rl_id t \<and> rl_tenant (f t) = rl_tenant t \<and> rl_name (f t) = trim_space name \<and> perms_ok (rl_permissions (f t))"
    and e: "snd (UpdateRole ctx i name desc perms og) = ?og"
  note tab = org_okD(1) [OF assms, unfolded roles_ok_def]
  have same: "r = t0" if "r \<in> set (og_roles og)" "?hit r" for r using table_same [OF tab that(1) t0(1)] that(2) t0(2) by simp
  have "roles_ok ?og" unfolding roles_ok_def using tab f n u same by (auto intro!: table_upd [where x = i])
  with org_okD [OF assms] show ?thesis
    by (simp add: e org_ok_def teams_ok_def groups_ok_def members_ok_def comps_ok_def grants_ok_def)
qed (use assms in simp)

lemma DeleteRole_ok:
  assumes "org_ok og"
  shows "org_ok (snd (DeleteRole ctx i og))"
proof -
  have "roles_ok (og\<lparr>og_roles := filter P (og_roles og)\<rparr>)" for P
    using org_okD(1) [OF assms] by (simp add: roles_ok_def table_filter)
  with org_okD [OF assms] have "org_ok (og\<lparr>og_roles := filter P (og_roles og)\<rparr>)" for P
    by (simp add: org_ok_def teams_ok_def groups_ok_def members_ok_def comps_ok_def grants_ok_def)
  with assms show ?thesis by (simp add: DeleteRole_def Let_def)
qed

section \<open>Teams and members\<close>

lemma CreateTeam_ok:
  assumes "org_ok og"
  shows "org_ok (snd (CreateTeamWithPolicy ctx name code desc us creator policy og))"
  using CreateTeam_cases [of ctx name code desc us creator policy og]
proof (elim disjE exE conjE)
  fix t ms
  let ?og = "og\<lparr>og_teams := og_teams og @ [t], og_next_team := og_next_team og + 1, og_members := ms\<rparr>"
  assume t: "tm_id t = og_next_team og" "tm_name t \<noteq> []" "tm_owner_only t \<in> owner_modes"
    and u: "tm_name t \<notin> tm_name ` {r \<in> set (og_teams og). tm_tenant r = tm_tenant t}"
    and ms: "add_members (og_next_team og) us (og_members og) = Some ms"
    and e: "snd (CreateTeamWithPolicy ctx name code desc us creator policy og) = ?og"
  note ok = org_okD [OF assms]
  have "distinct (og_members og)" using ok(4) by (simp add: members_ok_def)
  note m = add_members_spec [OF ms this]
  have "fst m \<in> tm_id ` set (og_teams og @ [t])" if "m \<in> set ms" for m
  proof (cases "m \<in> set (og_members og)")
    case True
    with ok(4) show ?thesis by (auto simp: members_ok_def)
  next
    case False
    with that m t(1) show ?thesis by auto
  qed
  with m have "members_ok ?og" by (auto simp: members_ok_def)
  moreover have "teams_ok ?og" using ok(2) t u unfolding teams_ok_def by (auto intro!: table_add)
  moreover have "grants_ok ?og" using ok(6) by (auto simp: grants_ok_def)
  ultimately show ?thesis using ok by (simp add: e org_ok_def roles_ok_def groups_ok_def comps_ok_def)
qed (use assms in simp)

lemma UpdateTeam_ok:
  assumes "org_ok og"
  shows "org_ok (snd (UpdateTeamWithPolicy ctx i name desc status policy og))"
  using UpdateTeam_cases [of ctx i name desc status policy og]
proof (elim disjE exE conjE)
  fix t0 f
  let ?hit = "\<lambda>t. tm_id t = i \<and> sees ctx (tm_tenant t)"
  let ?og = "og\<lparr>og_teams := upd_where ?hit f (og_teams og)\<rparr>"
  assume t0: "t0 \<in> set (og_teams og)" "tm_id t0 = i" and n: "trim_space name \<noteq> []"
    and u: "\<forall>t\<in>set (og_teams og). tm_tenant t = tm_tenant t0 \<longrightarrow> tm_name t = trim_space name \<longrightarrow> tm_id t = i"
    and f: "\<forall>t. tm_id (f t) = tm_id t \<and> tm_tenant (f t) = tm_tenant t \<and> tm_name (f t) = trim_space name \<and>
      (tm_owner_only t \<in> owner_modes \<longrightarrow> tm_owner_only (f t) \<in> owner_modes)"
    and e: "snd (UpdateTeamWithPolicy ctx i name desc status policy og) = ?og"
  note ok = org_okD [OF assms]
  note tab = ok(2) [unfolded teams_ok_def]
  have same: "r = t0" if "r \<in> set (og_teams og)" "?hit r" for r using table_same [OF tab that(1) t0(1)] that(2) t0(2) by simp
  have p: "tm_name (f r) \<noteq> [] \<and> tm_owner_only (f r) \<in> owner_modes" if "r \<in> set (og_teams og)" for r
    using that f n tab unfolding rows_ok_def by metis
  have "teams_ok ?og" unfolding teams_ok_def using tab f p u same by (auto intro!: table_upd [where x = i])
  moreover have "tm_id ` set (upd_where ?hit f (og_teams og)) = tm_id ` set (og_teams og)"
    by (rule image_upd_where) (use f in simp)
  ultimately show ?thesis using ok by (simp add: e org_ok_def roles_ok_def groups_ok_def comps_ok_def members_ok_def grants_ok_def)
qed (use assms in simp)

lemma DeleteTeam_ok:
  assumes "org_ok og"
  shows "org_ok (snd (DeleteTeam ctx i og))"
proof (cases "exists_row (\<lambda>t. tm_id t = i \<and> sees ctx (tm_tenant t)) (og_teams og)")
  case True
  let ?hit = "\<lambda>t. tm_id t = i \<and> sees ctx (tm_tenant t)"
  let ?og = "og\<lparr>og_teams := filter (\<lambda>t. \<not> ?hit t) (og_teams og), og_members := filter (\<lambda>m. fst m \<noteq> i) (og_members og),
    og_grants := filter (\<lambda>g. gp_team g \<noteq> i) (og_grants og)\<rparr>"
  note ok = org_okD [OF assms]
  have e: "snd (DeleteTeam ctx i og) = ?og" using True by (simp add: DeleteTeam_def Let_def)
  have keep: "j \<in> tm_id ` set (og_teams og) \<Longrightarrow> j \<noteq> i \<Longrightarrow> j \<in> tm_id ` {t \<in> set (og_teams og). \<not> ?hit t}" for j by auto
  have "teams_ok ?og" using ok(2) by (simp add: teams_ok_def table_filter)
  moreover have "members_ok ?og" using ok(4) keep by (auto simp: members_ok_def)
  moreover have "grants_ok ?og" using ok(6) keep by (auto simp: grants_ok_def distinct_map_filter)
  ultimately show ?thesis using ok by (simp add: e org_ok_def roles_ok_def groups_ok_def comps_ok_def)
qed (use assms in \<open>simp add: DeleteTeam_def\<close>)

lemma members_change:
  assumes "org_ok og" "members_ok (og\<lparr>og_members := ms\<rparr>)"
  shows "org_ok (og\<lparr>og_members := ms\<rparr>)"
  using org_okD [OF assms(1)] assms(2) by (simp add: org_ok_def roles_ok_def teams_ok_def groups_ok_def comps_ok_def grants_ok_def)

lemma AddMembers_ok:
  assumes "org_ok og"
  shows "org_ok (snd (AddMembers ctx i names og))"
proof (cases "snd (AddMembers ctx i names og) = og")
  case False
  then obtain ms where ms: "add_members i names (og_members og) = Some ms" and r: "exists_row (\<lambda>t. tm_id t = i) (og_teams og)"
    and e: "snd (AddMembers ctx i names og) = og\<lparr>og_members := ms\<rparr>"
    by (auto simp: AddMembers_def split: option.splits if_splits)
  from r have i: "i \<in> tm_id ` set (og_teams og)" by (auto simp: exists_row_iff)
  have mo: "distinct (og_members og)" "fst ` set (og_members og) \<subseteq> tm_id ` set (og_teams og)"
    using org_okD(4) [OF assms] by (simp_all add: members_ok_def)
  note m = add_members_spec [OF ms mo(1)]
  then have "fst ` set ms \<subseteq> insert i (fst ` set (og_members og))" by auto
  from insert_chain [OF this mo(2) i] m have "members_ok (og\<lparr>og_members := ms\<rparr>)" by (simp add: members_ok_def)
  with assms show ?thesis unfolding e by (rule members_change)
qed (use assms in simp)

lemma RemoveMember_ok:
  assumes "org_ok og"
  shows "org_ok (snd (RemoveMember ctx i name og))"
proof -
  have "members_ok (og\<lparr>og_members := filter P (og_members og)\<rparr>)" for P
    using org_okD(4) [OF assms] by (auto simp: members_ok_def)
  from members_change [OF assms this] assms show ?thesis by (simp add: RemoveMember_def split: option.split)
qed

section \<open>Groups and grants\<close>

lemma CreateGroup_ok:
  assumes "org_ok og"
  shows "org_ok (snd (CreateGroup comps ctx name code desc cs creator og))"
  using CreateGroup_cases [of comps ctx name code desc cs creator og]
proof (elim disjE exE conjE)
  fix g gs
  let ?og = "og\<lparr>og_groups := og_groups og @ [g], og_next_group := og_next_group og + 1, og_group_comps := gs\<rparr>"
  assume g: "sg_id g = og_next_group og" "sg_name g \<noteq> []"
    and u: "sg_name g \<notin> sg_name ` {r \<in> set (og_groups og). sg_tenant r = sg_tenant g}"
    and gs: "setGroupComponentsTx comps (og_next_group og) cs (og_group_comps og) = Some gs"
    and e: "snd (CreateGroup comps ctx name code desc cs creator og) = ?og"
  note ok = org_okD [OF assms]
  have "distinct (og_group_comps og)" using ok(5) by (simp add: comps_ok_def)
  note c = setGroupComponentsTx_spec [OF gs this]
  have "fst ` set gs \<subseteq> sg_id ` set (og_groups og @ [g])"
    by (rule insert_chain [of _ "og_next_group og" "fst ` set (og_group_comps og)"]) (use c g ok(5) in \<open>auto simp: comps_ok_def\<close>)
  with c have "comps_ok ?og" by (simp add: comps_ok_def)
  moreover have "groups_ok ?og" using ok(3) g u unfolding groups_ok_def by (auto intro!: table_add)
  moreover have "grants_ok ?og" using ok(6) by (auto simp: grants_ok_def)
  ultimately show ?thesis using ok by (simp add: e org_ok_def roles_ok_def teams_ok_def members_ok_def)
qed (use assms in simp)

lemma UpdateGroup_ok:
  assumes "org_ok og"
  shows "org_ok (snd (UpdateGroup comps ctx i name desc cs og))"
  using UpdateGroup_cases [of comps ctx i name desc cs og]
proof (elim disjE exE conjE)
  fix t0 f gs
  let ?hit = "\<lambda>t. sg_id t = i \<and> sees ctx (sg_tenant t)"
  let ?og = "og\<lparr>og_groups := upd_where ?hit f (og_groups og), og_group_comps := gs\<rparr>"
  assume t0: "t0 \<in> set (og_groups og)" "sg_id t0 = i" and n: "trim_space name \<noteq> []"
    and u: "\<forall>t\<in>set (og_groups og). sg_tenant t = sg_tenant t0 \<longrightarrow> sg_name t = trim_space name \<longrightarrow> sg_id t = i"
    and f: "\<forall>t. sg_id (f t) = sg_id t \<and> sg_tenant (f t) = sg_tenant t \<and> sg_name (f t) = trim_space name"
    and gs: "setGroupComponentsTx comps i cs (og_group_comps og) = Some gs"
    and e: "snd (UpdateGroup comps ctx i name desc cs og) = ?og"
  note ok = org_okD [OF assms]
  note tab = ok(3) [unfolded groups_ok_def]
  have same: "r = t0" if "r \<in> set (og_groups og)" "?hit r" for r using table_same [OF tab that(1) t0(1)] that(2) t0(2) by simp
  have ids: "sg_id ` set (upd_where ?hit f (og_groups og)) = sg_id ` set (og_groups og)"
    by (rule image_upd_where) (use f in simp)
  have i: "i \<in> sg_id ` set (og_groups og)" using t0 by auto
  have co: "distinct (og_group_comps og)" "fst ` set (og_group_comps og) \<subseteq> sg_id ` set (og_groups og)"
    using ok(5) by (simp_all add: comps_ok_def)
  note c = setGroupComponentsTx_spec [OF gs co(1)]
  from c have "fst ` set gs \<subseteq> insert i (fst ` set (og_group_comps og))" by blast
  from insert_chain [OF this co(2) i] c have "comps_ok ?og" by (simp add: comps_ok_def ids)
  moreover have "groups_ok ?og" unfolding groups_ok_def using tab f n u same by (auto intro!: table_upd [where x = i])
  ultimately show ?thesis using ok ids by (simp add: e org_ok_def roles_ok_def teams_ok_def members_ok_def grants_ok_def)
qed (use assms in simp)

lemma DeleteGroup_ok:
  assumes "org_ok og"
  shows "org_ok (snd (DeleteGroup ctx i og))"
proof (cases "exists_row (\<lambda>g. sg_id g = i \<and> sees ctx (sg_tenant g)) (og_groups og)")
  case True
  let ?hit = "\<lambda>g. sg_id g = i \<and> sees ctx (sg_tenant g)"
  let ?og = "og\<lparr>og_groups := filter (\<lambda>g. \<not> ?hit g) (og_groups og), og_group_comps := filter (\<lambda>g. fst g \<noteq> i) (og_group_comps og),
    og_grants := filter (\<lambda>g. gp_group g \<noteq> i) (og_grants og)\<rparr>"
  note ok = org_okD [OF assms]
  have e: "snd (DeleteGroup ctx i og) = ?og" using True by (simp add: DeleteGroup_def Let_def)
  have keep: "j \<in> sg_id ` set (og_groups og) \<Longrightarrow> j \<noteq> i \<Longrightarrow> j \<in> sg_id ` {t \<in> set (og_groups og). \<not> ?hit t}" for j by auto
  have "groups_ok ?og" using ok(3) by (simp add: groups_ok_def table_filter)
  moreover have "comps_ok ?og" using ok(5) keep by (auto simp: comps_ok_def)
  moreover have "grants_ok ?og" using ok(6) keep by (auto simp: grants_ok_def distinct_map_filter)
  ultimately show ?thesis using ok by (simp add: e org_ok_def roles_ok_def teams_ok_def members_ok_def)
qed (use assms in \<open>simp add: DeleteGroup_def\<close>)

lemma grants_change:
  assumes "org_ok og" "grants_ok (og\<lparr>og_grants := gs\<rparr>)"
  shows "org_ok (og\<lparr>og_grants := gs\<rparr>)"
  using org_okD [OF assms(1)] assms(2) by (simp add: org_ok_def roles_ok_def teams_ok_def groups_ok_def comps_ok_def members_ok_def)

lemma SetGroupPermission_cases:
  "snd (SetGroupPermission comps ctx team grp perms roles services hostGroups og) = og \<or>
   (\<exists>new. teamInTenant ctx team og = None \<and> groupInTenant ctx grp og = None \<and>
      gp_team new = team \<and> gp_group new = grp \<and> perms_ok (gp_permissions new) \<and>
      team \<in> tm_id ` set (og_teams og) \<and> grp \<in> sg_id ` set (og_groups og) \<and>
      snd (SetGroupPermission comps ctx team grp perms roles services hostGroups og) =
        og\<lparr>og_grants := (if exists_row (\<lambda>g. gp_team g = team \<and> gp_group g = grp) (og_grants og)
             then upd_where (\<lambda>g. gp_team g = team \<and> gp_group g = grp) (\<lambda>g. new) (og_grants og) else og_grants og @ [new])\<rparr>)"
  (is "?r = og \<or> ?new")
proof (cases "normalizePerms perms")
  case (Inr p)
  define new where "new = \<lparr>gp_team = team, gp_group = grp, gp_permissions = p, gp_role_ids = roles,
    gp_services = filter (\<lambda>s. s \<noteq> [] \<and> (s = ''*'' \<or> s \<in> set (groupServiceNames comps grp og))) (map trim_space services),
    gp_host_groups = filter (\<lambda>s. s \<noteq> []) (map trim_space hostGroups)\<rparr>"
  have "?r = og \<or> (teamInTenant ctx team og = None \<and> groupInTenant ctx grp og = None \<and>
      exists_row (\<lambda>t. tm_id t = team) (og_teams og) \<and> exists_row (\<lambda>g. sg_id g = grp) (og_groups og) \<and>
      ?r = og\<lparr>og_grants := (if exists_row (\<lambda>g. gp_team g = team \<and> gp_group g = grp) (og_grants og)
             then upd_where (\<lambda>g. gp_team g = team \<and> gp_group g = grp) (\<lambda>g. new) (og_grants og) else og_grants og @ [new])\<rparr>)"
    using Inr by (simp add: SetGroupPermission_def Let_def new_def split: option.split)
  moreover have "gp_team new = team" "gp_group new = grp" "perms_ok (gp_permissions new)"
    using normalizePerms_ok [OF Inr] by (simp_all add: new_def)
  moreover have "exists_row (\<lambda>t. tm_id t = team) (og_teams og) \<Longrightarrow> team \<in> tm_id ` set (og_teams og)"
    "exists_row (\<lambda>g. sg_id g = grp) (og_groups og) \<Longrightarrow> grp \<in> sg_id ` set (og_groups og)" by (auto simp: exists_row_iff)
  ultimately show ?thesis by blast
qed (simp add: SetGroupPermission_def split: option.split)

lemma SetGroupPermission_ok:
  assumes "org_ok og"
  shows "org_ok (snd (SetGroupPermission comps ctx team grp perms roles services hostGroups og))"
  using SetGroupPermission_cases [of comps ctx team grp perms roles services hostGroups og]
proof (elim disjE exE conjE)
  fix new
  let ?same = "\<lambda>g. gp_team g = team \<and> gp_group g = grp"
  let ?gs = "if exists_row ?same (og_grants og) then upd_where ?same (\<lambda>g. new) (og_grants og) else og_grants og @ [new]"
  assume n: "gp_team new = team" "gp_group new = grp" "perms_ok (gp_permissions new)"
    and ids: "team \<in> tm_id ` set (og_teams og)" "grp \<in> sg_id ` set (og_groups og)"
    and e: "snd (SetGroupPermission comps ctx team grp perms roles services hostGroups og) = og\<lparr>og_grants := ?gs\<rparr>"
  note g = org_okD(6) [OF assms, unfolded grants_ok_def]
  let ?k = "\<lambda>g. (gp_team g, gp_group g)"
  have "map ?k (upd_where ?same (\<lambda>g. new) (og_grants og)) = map ?k (og_grants og)"
    using n(1,2) by (simp add: upd_where_def)
  moreover have "?k new \<notin> ?k ` set (og_grants og)" if "\<not> exists_row ?same (og_grants og)"
    using that n by (auto simp: exists_row_iff)
  ultimately have "distinct (map ?k ?gs)" using g by simp
  moreover have "gp_team r \<in> tm_id ` set (og_teams og) \<and> gp_group r \<in> sg_id ` set (og_groups og) \<and> perms_ok (gp_permissions r)"
    if "r \<in> set ?gs" for r using that n ids g by (auto simp: set_upd_where split: if_splits)
  ultimately have "grants_ok (og\<lparr>og_grants := ?gs\<rparr>)" by (simp add: grants_ok_def)
  with assms show ?thesis unfolding e by (rule grants_change)
qed (use assms in simp)

lemma DeleteGroupPermission_ok:
  assumes "org_ok og"
  shows "org_ok (snd (DeleteGroupPermission ctx team grp og))"
proof -
  have "grants_ok (og\<lparr>og_grants := filter P (og_grants og)\<rparr>)" for P
    using org_okD(6) [OF assms] by (auto simp: grants_ok_def distinct_map_filter)
  from grants_change [OF assms this] assms show ?thesis by (simp add: DeleteGroupPermission_def split: option.split)
qed

end
