(* ===== verification/OrgIsolation.thy ===== *)
theory OrgIsolation
  imports OrgSafety
begin

text \<open>
  Requests to the organisation service, one rule per handler: the tables stay well formed under all of them, and
  those of a tenant's administrators change nothing that decides what another tenant's users may do.
\<close>

section \<open>Requests\<close>

inductive org_request :: "component_row list \<Rightarrow> user option \<Rightarrow> org \<Rightarrow> org \<Rightarrow> bool" for comps ctx where
  role_create: "org_request comps ctx og (snd (RoleCreate ctx name code desc perms og))"
| role_update: "org_request comps ctx og (snd (RoleUpdate ctx i name desc perms og))"
| role_delete: "org_request comps ctx og (snd (RoleDelete ctx i og))"
| team_create: "org_request comps ctx og (snd (TeamCreate ctx name code desc members policy og))"
| team_update: "org_request comps ctx og (snd (TeamUpdate ctx i name desc status policy og))"
| team_delete: "org_request comps ctx og (snd (TeamDelete ctx i og))"
| member_add: "org_request comps ctx og (snd (TeamMemberAdd ctx i names og))"
| member_remove: "org_request comps ctx og (snd (TeamMemberRemove ctx i name og))"
| group_create: "org_request comps ctx og (snd (GroupCreate comps ctx name code desc cs og))"
| group_update: "org_request comps ctx og (snd (GroupUpdate comps ctx i name desc cs og))"
| group_delete: "org_request comps ctx og (snd (GroupDelete ctx i og))"
| grant: "org_request comps ctx og (snd (TeamPermissionSet comps ctx team grp perms roles services hostGroups og))"
| revoke: "org_request comps ctx og (snd (TeamPermissionDelete ctx team grp og))"
| departments: "org_request comps ctx og (snd (SyncDepartmentsFromFlyIAM ctx fetched og))"

lemmas org_handlers = RoleCreate_def RoleUpdate_def RoleDelete_def TeamCreate_def TeamUpdate_def TeamDelete_def
  TeamMemberAdd_def TeamMemberRemove_def GroupCreate_def GroupUpdate_def GroupDelete_def TeamPermissionSet_def
  TeamPermissionDelete_def

lemma snd_answer [simp]: "snd (answer code r) = snd r"
  by (cases r) (auto simp: answer_def split: option.split)

lemma snd_answer_id [simp]: "snd (answer_id r) = snd r"
  by (simp add: answer_id_def)

text \<open>A handler does nothing or what its operation does, so a property that every operation respects holds of requests.\<close>

lemma handler_respects: "Q og \<Longrightarrow> Q (snd (h og)) \<Longrightarrow> Q (snd (RequireAdmin ctx h og))"
  by (simp add: RequireAdmin_def split: option.split)

definition operations_respect :: "component_row list \<Rightarrow> user option \<Rightarrow> org \<Rightarrow> (org \<Rightarrow> bool) \<Rightarrow> bool" where
  "operations_respect comps ctx og Q = (Q og \<and>
     (\<forall>name code desc perms. Q (snd (CreateRole ctx name code desc perms og))) \<and>
     (\<forall>i name desc perms. Q (snd (UpdateRole ctx i name desc perms og))) \<and>
     (\<forall>i. Q (snd (DeleteRole ctx i og))) \<and>
     (\<forall>name code desc us creator policy. Q (snd (CreateTeamWithPolicy ctx name code desc us creator policy og))) \<and>
     (\<forall>i name desc status policy. Q (snd (UpdateTeamWithPolicy ctx i name desc status policy og))) \<and>
     (\<forall>i. Q (snd (DeleteTeam ctx i og))) \<and>
     (\<forall>i names. Q (snd (AddMembers ctx i names og))) \<and>
     (\<forall>i name. Q (snd (RemoveMember ctx i name og))) \<and>
     (\<forall>name code desc cs creator. Q (snd (CreateGroup comps ctx name code desc cs creator og))) \<and>
     (\<forall>i name desc cs. Q (snd (UpdateGroup comps ctx i name desc cs og))) \<and>
     (\<forall>i. Q (snd (DeleteGroup ctx i og))) \<and>
     (\<forall>team grp perms roles ss hs. Q (snd (SetGroupPermission comps ctx team grp perms roles ss hs og))) \<and>
     (\<forall>team grp. Q (snd (DeleteGroupPermission ctx team grp og))) \<and>
     (\<forall>deps. Q (snd (ReplaceDepartments ctx deps og))))"

lemma org_request_respects:
  assumes "org_request comps ctx og og'" "operations_respect comps ctx og Q"
  shows "Q og'"
  using assms(1)
proof cases
  case (departments fetched)
  then show ?thesis using assms(2)
    by (simp add: operations_respect_def SyncDepartmentsFromFlyIAM_def split: option.split prod.split) (metis snd_conv)
qed (use assms(2) in \<open>simp_all add: operations_respect_def org_handlers handler_respects\<close>)

lemma ReplaceDepartments_ok: "org_ok og \<Longrightarrow> org_ok (snd (ReplaceDepartments ctx deps og))"
  by (simp add: ReplaceDepartments_def Let_def org_ok_def roles_ok_def teams_ok_def groups_ok_def members_ok_def
      comps_ok_def grants_ok_def)

lemma request_ok:
  assumes "org_request comps ctx og og'" "org_ok og"
  shows "org_ok og'"
  using assms(1)
  by (rule org_request_respects) (simp add: operations_respect_def assms(2) CreateRole_ok UpdateRole_ok DeleteRole_ok
      CreateTeam_ok UpdateTeam_ok DeleteTeam_ok AddMembers_ok RemoveMember_ok CreateGroup_ok UpdateGroup_ok DeleteGroup_ok
      SetGroupPermission_ok DeleteGroupPermission_ok ReplaceDepartments_ok)

definition any_request :: "org \<Rightarrow> org \<Rightarrow> bool" where
  "any_request og og' = (\<exists>comps ctx. org_request comps ctx og og')"

definition empty_org :: org where
  "empty_org = \<lparr>og_roles = [], og_teams = [], og_groups = [], og_members = [], og_group_comps = [], og_grants = [],
     og_departments = [], og_next_role = 1, og_next_team = 1, og_next_group = 1\<rparr>"

text \<open> Organisations stay well formed. Whatever requests arrive, in whatever order and from whomever, roles,
  teams and groups keep unique numbers and, within a tenant, unique names; every member row belongs to a team that
  exists, every component row to a group that exists, every grant to a team and a group that exist, at most one
  grant links a team and a group, and the rights a role or a grant carries are of the four the system knows.\<close>

theorem org_stays_ok:
  assumes "any_request^** empty_org og"
  shows "org_ok og"
  using assms
proof induction
  case base
  show ?case by (simp add: empty_org_def org_ok_def roles_ok_def teams_ok_def groups_ok_def members_ok_def comps_ok_def
        grants_ok_def rows_ok_def)
next
  case (step og og')
  then show ?case using request_ok by (auto simp: any_request_def)
qed

section \<open>The part of the tables a tenant's rights come from\<close>

definition team_ids :: "int \<Rightarrow> org \<Rightarrow> int set" where
  "team_ids T og = tm_id ` {t \<in> set (og_teams og). tm_tenant t = T}"

definition group_ids :: "int \<Rightarrow> org \<Rightarrow> int set" where
  "group_ids T og = sg_id ` {g \<in> set (og_groups og). sg_tenant g = T}"

definition tenant_part :: "int \<Rightarrow> org \<Rightarrow> org" where
  "tenant_part T og = \<lparr>og_roles = filter (\<lambda>r. rl_tenant r = T) (og_roles og), og_teams = filter (\<lambda>t. tm_tenant t = T) (og_teams og),
     og_groups = filter (\<lambda>g. sg_tenant g = T) (og_groups og), og_members = filter (\<lambda>m. fst m \<in> team_ids T og) (og_members og),
     og_group_comps = filter (\<lambda>c. fst c \<in> group_ids T og) (og_group_comps og),
     og_grants = filter (\<lambda>p. gp_team p \<in> team_ids T og) (og_grants og),
     og_departments = filter (\<lambda>d. fst d = T) (og_departments og), og_next_role = 0, og_next_team = 0, og_next_group = 0\<rparr>"

text \<open>Grants at home: the team and the group of a grant are of one tenant.\<close>

definition home :: "org \<Rightarrow> bool" where
  "home og = (\<forall>p\<in>set (og_grants og). \<exists>T. gp_team p \<in> team_ids T og \<and> gp_group p \<in> group_ids T og)"

lemma team_ids_unique: "teams_ok og \<Longrightarrow> i \<in> team_ids T og \<Longrightarrow> i \<in> team_ids T' og \<Longrightarrow> T = T'"
  unfolding teams_ok_def team_ids_def using table_same [where i = tm_id] by fast

lemma group_ids_unique: "groups_ok og \<Longrightarrow> i \<in> group_ids T og \<Longrightarrow> i \<in> group_ids T' og \<Longrightarrow> T = T'"
  unfolding groups_ok_def group_ids_def using table_same [where i = sg_id] by fast

lemma filter_upd_other:
  assumes "\<And>r. hit r \<Longrightarrow> \<not> P r" "\<And>r. hit r \<Longrightarrow> \<not> P (f r)"
  shows "filter P (upd_where hit f rs) = filter P rs"
  using assms by (induction rs) auto

lemma filter_filter_other: "(\<And>r. r \<in> set rs \<Longrightarrow> P r \<Longrightarrow> Q r) \<Longrightarrow> filter P (filter Q rs) = filter P rs"
  by (induction rs) auto

lemma filter_except:
  assumes "filter (\<lambda>m. f m \<noteq> i) ms' = filter (\<lambda>m. f m \<noteq> i) ms" "\<And>m. f m = i \<Longrightarrow> \<not> P m"
  shows "filter P ms' = filter P ms"
proof -
  have "filter P ms = filter P (filter (\<lambda>m. f m \<noteq> i) ms)" for ms using assms(2) by (intro filter_filter_other [symmetric]) auto
  then show ?thesis using assms(1) by metis
qed

lemma team_ids_filter: "team_ids T og = tm_id ` set (og_teams (tenant_part T og))"
  by (simp add: team_ids_def tenant_part_def)

lemma group_ids_filter: "group_ids T og = sg_id ` set (og_groups (tenant_part T og))"
  by (simp add: group_ids_def tenant_part_def)

section \<open>Requests of another tenant's administrators keep it\<close>

lemma tenant_part_eqI:
  assumes "filter (\<lambda>r. rl_tenant r = T) (og_roles og') = filter (\<lambda>r. rl_tenant r = T) (og_roles og)"
    and t: "filter (\<lambda>t. tm_tenant t = T) (og_teams og') = filter (\<lambda>t. tm_tenant t = T) (og_teams og)"
    and g: "filter (\<lambda>g. sg_tenant g = T) (og_groups og') = filter (\<lambda>g. sg_tenant g = T) (og_groups og)"
    and "filter (\<lambda>m. fst m \<in> team_ids T og) (og_members og') = filter (\<lambda>m. fst m \<in> team_ids T og) (og_members og)"
    and "filter (\<lambda>c. fst c \<in> group_ids T og) (og_group_comps og') = filter (\<lambda>c. fst c \<in> group_ids T og) (og_group_comps og)"
    and "filter (\<lambda>p. gp_team p \<in> team_ids T og) (og_grants og') = filter (\<lambda>p. gp_team p \<in> team_ids T og) (og_grants og)"
    and "filter (\<lambda>d. fst d = T) (og_departments og') = filter (\<lambda>d. fst d = T) (og_departments og)"
  shows "tenant_part T og' = tenant_part T og"
proof -
  have "team_ids T og' = team_ids T og" using t unfolding team_ids_def by (metis set_filter)
  moreover have "group_ids T og' = group_ids T og" using g unfolding group_ids_def by (metis set_filter)
  ultimately show ?thesis using assms by (simp add: tenant_part_def)
qed

definition other_tenant :: "user option \<Rightarrow> int \<Rightarrow> bool" where
  "other_tenant ctx T = (tenantOf ctx \<noteq> 0 \<and> tenantOf ctx \<noteq> T)"

lemma other_tenantD:
  assumes "other_tenant ctx T"
  shows "tenantForWrite ctx = tenantOf ctx" "tenantForWrite ctx \<noteq> T" "sees ctx t \<longleftrightarrow> t = tenantOf ctx"
    "teamInTenant ctx i og = None \<longleftrightarrow> i \<in> team_ids (tenantOf ctx) og"
    "groupInTenant ctx i og = None \<longleftrightarrow> i \<in> group_ids (tenantOf ctx) og"
  using assms by (auto simp: other_tenant_def tenantOf_def tenantForWrite_def sees_def teamInTenant_def groupInTenant_def
      team_ids_def group_ids_def exists_row_iff split: option.splits if_splits)

text \<open>A team or group of the other tenant is not one of this tenant.\<close>

lemma other_team:
  assumes "org_ok og" "other_tenant ctx T" "i \<in> team_ids (tenantOf ctx) og"
  shows "i \<notin> team_ids T og"
  using team_ids_unique [OF org_okD(2) [OF assms(1)] assms(3)] assms(2) by (auto simp: other_tenant_def)

lemma other_group:
  assumes "org_ok og" "other_tenant ctx T" "i \<in> group_ids (tenantOf ctx) og"
  shows "i \<notin> group_ids T og"
  using group_ids_unique [OF org_okD(3) [OF assms(1)] assms(3)] assms(2) by (auto simp: other_tenant_def)

lemma next_team: "org_ok og \<Longrightarrow> og_next_team og \<notin> team_ids T og"
  by (auto simp: org_ok_def teams_ok_def rows_ok_def team_ids_def)

lemma next_group: "org_ok og \<Longrightarrow> og_next_group og \<notin> group_ids T og"
  by (auto simp: org_ok_def groups_ok_def rows_ok_def group_ids_def)

definition keeps :: "int \<Rightarrow> org \<Rightarrow> org \<Rightarrow> bool" where
  "keeps T og og' = (tenant_part T og' = tenant_part T og \<and> home og')"

lemma keeps_same: "home og \<Longrightarrow> keeps T og og"
  by (simp add: keeps_def)

lemma homeI:
  assumes "home og" "\<And>T i. i \<in> team_ids T og \<Longrightarrow> i \<in> team_ids T og'" "\<And>T i. i \<in> group_ids T og \<Longrightarrow> i \<in> group_ids T og'"
    "og_grants og' = og_grants og"
  shows "home og'"
  using assms unfolding home_def by metis

lemma upd_ids:
  assumes "\<forall>r. k (f r) = k r \<and> t (f r) = t r"
  shows "k ` {r \<in> set (upd_where hit f rs). t r = T} = k ` {r \<in> set rs. t r = T}"
proof -
  have "(\<lambda>r. (k r, t r)) ` set (upd_where hit f rs) = (\<lambda>r. (k r, t r)) ` set rs"
    by (rule image_upd_where) (use assms in simp)
  moreover have "k ` {r \<in> A. t r = T} = fst ` {x \<in> (\<lambda>r. (k r, t r)) ` A. snd x = T}" for A by force
  ultimately show ?thesis by simp
qed

text \<open>What holds when a request of another tenant's administrator arrives.\<close>

definition foreign_request :: "user option \<Rightarrow> int \<Rightarrow> org \<Rightarrow> bool" where
  "foreign_request ctx T og = (org_ok og \<and> other_tenant ctx T \<and> home og)"

lemma foreign_requestD:
  assumes "foreign_request ctx T og"
  shows "org_ok og" "other_tenant ctx T" "home og"
  using assms by (simp_all add: foreign_request_def)

lemma CreateRole_keeps:
  assumes fr: "foreign_request ctx T og"
  shows "keeps T og (snd (CreateRole ctx name code desc perms og))"
  using CreateRole_cases [of ctx name code desc perms og]
proof (elim disjE exE conjE)
  fix r
  let ?og = "og\<lparr>og_roles := og_roles og @ [r], og_next_role := og_next_role og + 1\<rparr>"
  assume r: "rl_tenant r = tenantForWrite ctx" and e: "snd (CreateRole ctx name code desc perms og) = ?og"
  have "home ?og" using foreign_requestD(3) [OF fr] by (rule homeI) (simp_all add: team_ids_def group_ids_def)
  with r show ?thesis using other_tenantD(2) [OF foreign_requestD(2) [OF fr]] by (auto simp: e keeps_def intro!: tenant_part_eqI)
qed (use fr in \<open>simp add: keeps_same foreign_request_def\<close>)

lemma UpdateRole_keeps:
  assumes fr: "foreign_request ctx T og"
  shows "keeps T og (snd (UpdateRole ctx i name desc perms og))"
  using UpdateRole_cases [of ctx i name desc perms og]
proof (elim disjE exE conjE)
  fix f
  let ?hit = "\<lambda>t. rl_id t = i \<and> sees ctx (rl_tenant t)"
  let ?og = "og\<lparr>og_roles := upd_where ?hit f (og_roles og)\<rparr>"
  assume f: "\<forall>t. rl_id (f t) = rl_id t \<and> rl_tenant (f t) = rl_tenant t \<and> rl_name (f t) = trim_space name \<and> perms_ok (rl_permissions (f t))"
    and e: "snd (UpdateRole ctx i name desc perms og) = ?og"
  note other = foreign_requestD(2) [OF fr]
  have "filter (\<lambda>r. rl_tenant r = T) (upd_where ?hit f (og_roles og)) = filter (\<lambda>r. rl_tenant r = T) (og_roles og)"
    by (rule filter_upd_other) (use f other_tenantD(3) [OF other] other in \<open>auto simp: other_tenant_def\<close>)
  moreover have "home ?og" using foreign_requestD(3) [OF fr] by (rule homeI) (simp_all add: team_ids_def group_ids_def)
  ultimately show ?thesis unfolding e keeps_def by (intro conjI tenant_part_eqI) simp_all
qed (use fr in \<open>simp add: keeps_same foreign_request_def\<close>)

lemma DeleteRole_keeps:
  assumes fr: "foreign_request ctx T og"
  shows "keeps T og (snd (DeleteRole ctx i og))"
proof -
  let ?og = "og\<lparr>og_roles := filter (\<lambda>r. \<not> (rl_id r = i \<and> sees ctx (rl_tenant r))) (og_roles og)\<rparr>"
  note other = foreign_requestD(2) [OF fr]
  have "home ?og" using foreign_requestD(3) [OF fr] by (rule homeI) (simp_all add: team_ids_def group_ids_def)
  moreover have "filter (\<lambda>r. rl_tenant r = T) (filter (\<lambda>r. \<not> (rl_id r = i \<and> sees ctx (rl_tenant r))) (og_roles og)) =
      filter (\<lambda>r. rl_tenant r = T) (og_roles og)"
    by (rule filter_filter_other) (use other_tenantD(3) [OF other] other in \<open>auto simp: other_tenant_def\<close>)
  ultimately have "keeps T og ?og" unfolding keeps_def by (intro conjI tenant_part_eqI) simp_all
  with fr show ?thesis by (auto simp: DeleteRole_def Let_def keeps_same foreign_request_def)
qed

lemma CreateTeam_keeps:
  assumes fr: "foreign_request ctx T og"
  shows "keeps T og (snd (CreateTeamWithPolicy ctx name code desc us creator policy og))"
  using CreateTeam_cases [of ctx name code desc us creator policy og]
proof (elim disjE exE conjE)
  fix t ms
  let ?og = "og\<lparr>og_teams := og_teams og @ [t], og_next_team := og_next_team og + 1, og_members := ms\<rparr>"
  assume t: "tm_tenant t = tenantForWrite ctx"
    and ms: "add_members (og_next_team og) us (og_members og) = Some ms"
    and e: "snd (CreateTeamWithPolicy ctx name code desc us creator policy og) = ?og"
  note ok = foreign_requestD(1) [OF fr]
  have "distinct (og_members og)" using org_okD(4) [OF ok] by (simp add: members_ok_def)
  with add_members_spec [OF ms] have m: "filter (\<lambda>m. fst m \<noteq> og_next_team og) ms = filter (\<lambda>m. fst m \<noteq> og_next_team og) (og_members og)" by blast
  have "filter (\<lambda>m. fst m \<in> team_ids T og) ms = filter (\<lambda>m. fst m \<in> team_ids T og) (og_members og)"
    by (rule filter_except [OF m]) (use next_team [OF ok] in auto)
  moreover have "home ?og" using foreign_requestD(3) [OF fr] by (rule homeI) (auto simp: team_ids_def group_ids_def)
  ultimately show ?thesis using t other_tenantD(2) [OF foreign_requestD(2) [OF fr]] by (auto simp: e keeps_def intro!: tenant_part_eqI)
qed (use fr in \<open>simp add: keeps_same foreign_request_def\<close>)

lemma UpdateTeam_keeps:
  assumes fr: "foreign_request ctx T og"
  shows "keeps T og (snd (UpdateTeamWithPolicy ctx i name desc status policy og))"
  using UpdateTeam_cases [of ctx i name desc status policy og]
proof (elim disjE exE conjE)
  fix f
  let ?hit = "\<lambda>t. tm_id t = i \<and> sees ctx (tm_tenant t)"
  let ?og = "og\<lparr>og_teams := upd_where ?hit f (og_teams og)\<rparr>"
  assume f: "\<forall>t. tm_id (f t) = tm_id t \<and> tm_tenant (f t) = tm_tenant t \<and> tm_name (f t) = trim_space name \<and>
      (tm_owner_only t \<in> owner_modes \<longrightarrow> tm_owner_only (f t) \<in> owner_modes)"
    and e: "snd (UpdateTeamWithPolicy ctx i name desc status policy og) = ?og"
  note other = foreign_requestD(2) [OF fr]
  have "filter (\<lambda>r. tm_tenant r = T) (upd_where ?hit f (og_teams og)) = filter (\<lambda>r. tm_tenant r = T) (og_teams og)"
    by (rule filter_upd_other) (use f other_tenantD(3) [OF other] other in \<open>auto simp: other_tenant_def\<close>)
  moreover have "tm_id ` {r \<in> set (upd_where ?hit f (og_teams og)). tm_tenant r = S} = tm_id ` {r \<in> set (og_teams og). tm_tenant r = S}" for S
    by (rule upd_ids) (use f in simp)
  then have "home ?og" by (intro homeI [OF foreign_requestD(3) [OF fr]]) (simp_all add: team_ids_def group_ids_def)
  ultimately show ?thesis unfolding e keeps_def by (intro conjI tenant_part_eqI) simp_all
qed (use fr in \<open>simp add: keeps_same foreign_request_def\<close>)

lemma DeleteTeam_keeps:
  assumes fr: "foreign_request ctx T og"
  shows "keeps T og (snd (DeleteTeam ctx i og))"
proof (cases "exists_row (\<lambda>t. tm_id t = i \<and> sees ctx (tm_tenant t)) (og_teams og)")
  case True
  let ?hit = "\<lambda>t. tm_id t = i \<and> sees ctx (tm_tenant t)"
  let ?og = "og\<lparr>og_teams := filter (\<lambda>t. \<not> ?hit t) (og_teams og), og_members := filter (\<lambda>m. fst m \<noteq> i) (og_members og),
    og_grants := filter (\<lambda>g. gp_team g \<noteq> i) (og_grants og)\<rparr>"
  have e: "snd (DeleteTeam ctx i og) = ?og" using True by (simp add: DeleteTeam_def Let_def)
  note other = foreign_requestD(2) [OF fr]
  from True have "i \<in> team_ids (tenantOf ctx) og" by (auto simp: exists_row_iff team_ids_def other_tenantD(3) [OF other])
  from other_team [OF foreign_requestD(1) [OF fr] other this] have i: "i \<notin> team_ids T og" .
  have keep: "j \<in> team_ids S og \<Longrightarrow> j \<noteq> i \<Longrightarrow> j \<in> team_ids S ?og" for j S by (auto simp: team_ids_def)
  have grp: "group_ids S ?og = group_ids S og" for S by (simp add: group_ids_def)
  have "home ?og" using foreign_requestD(3) [OF fr] keep unfolding home_def grp by fastforce
  moreover have "filter (\<lambda>t. tm_tenant t = T) (filter (\<lambda>t. \<not> ?hit t) (og_teams og)) = filter (\<lambda>t. tm_tenant t = T) (og_teams og)"
    by (rule filter_filter_other) (use other_tenantD(3) [OF other] other in \<open>auto simp: other_tenant_def\<close>)
  moreover have "filter (\<lambda>m. fst m \<in> team_ids T og) (filter (\<lambda>m. fst m \<noteq> i) (og_members og)) = filter (\<lambda>m. fst m \<in> team_ids T og) (og_members og)"
    by (rule filter_filter_other) (use i in auto)
  moreover have "filter (\<lambda>p. gp_team p \<in> team_ids T og) (filter (\<lambda>p. gp_team p \<noteq> i) (og_grants og)) = filter (\<lambda>p. gp_team p \<in> team_ids T og) (og_grants og)"
    by (rule filter_filter_other) (use i in auto)
  ultimately show ?thesis unfolding e keeps_def by (intro conjI tenant_part_eqI) simp_all
qed (use fr in \<open>simp add: DeleteTeam_def keeps_same foreign_request_def\<close>)

lemma members_keeps:
  assumes fr: "foreign_request ctx T og" and i: "i \<in> team_ids (tenantOf ctx) og"
    and m: "filter (\<lambda>m. fst m \<noteq> i) ms = filter (\<lambda>m. fst m \<noteq> i) (og_members og)"
  shows "keeps T og (og\<lparr>og_members := ms\<rparr>)"
proof -
  note i' = other_team [OF foreign_requestD(1,2) [OF fr] i]
  have "home (og\<lparr>og_members := ms\<rparr>)" using foreign_requestD(3) [OF fr] by (rule homeI) (simp_all add: team_ids_def group_ids_def)
  moreover have "filter (\<lambda>m. fst m \<in> team_ids T og) ms = filter (\<lambda>m. fst m \<in> team_ids T og) (og_members og)"
    by (rule filter_except [OF m]) (use i' in auto)
  ultimately show ?thesis unfolding keeps_def by (intro conjI tenant_part_eqI) simp_all
qed

lemma AddMembers_keeps:
  assumes fr: "foreign_request ctx T og"
  shows "keeps T og (snd (AddMembers ctx i names og))"
proof (cases "snd (AddMembers ctx i names og) = og")
  case False
  then obtain ms where t: "teamInTenant ctx i og = None" and ms: "add_members i names (og_members og) = Some ms"
    and e: "snd (AddMembers ctx i names og) = og\<lparr>og_members := ms\<rparr>"
    by (auto simp: AddMembers_def split: option.splits if_splits)
  have "distinct (og_members og)" using org_okD(4) [OF foreign_requestD(1) [OF fr]] by (simp add: members_ok_def)
  with add_members_spec [OF ms] t show ?thesis unfolding e other_tenantD(4) [OF foreign_requestD(2) [OF fr]]
    by (intro members_keeps [OF fr]) blast+
qed (use fr in \<open>simp add: keeps_same foreign_request_def\<close>)

lemma RemoveMember_keeps:
  assumes fr: "foreign_request ctx T og"
  shows "keeps T og (snd (RemoveMember ctx i name og))"
proof (cases "snd (RemoveMember ctx i name og) = og")
  case False
  then have t: "teamInTenant ctx i og = None"
    and e: "snd (RemoveMember ctx i name og) = og\<lparr>og_members := filter (\<lambda>m. m \<noteq> (i, trim_space name)) (og_members og)\<rparr>"
    by (auto simp: RemoveMember_def split: option.splits if_splits)
  have "filter (\<lambda>m. fst m \<noteq> i) (filter (\<lambda>m. m \<noteq> (i, trim_space name)) (og_members og)) = filter (\<lambda>m. fst m \<noteq> i) (og_members og)"
    by (rule filter_filter_other) auto
  with t show ?thesis unfolding e other_tenantD(4) [OF foreign_requestD(2) [OF fr]] by (intro members_keeps [OF fr])
qed (use fr in \<open>simp add: keeps_same foreign_request_def\<close>)

lemma CreateGroup_keeps:
  assumes fr: "foreign_request ctx T og"
  shows "keeps T og (snd (CreateGroup comps ctx name code desc cs creator og))"
  using CreateGroup_cases [of comps ctx name code desc cs creator og]
proof (elim disjE exE conjE)
  fix g gs
  let ?og = "og\<lparr>og_groups := og_groups og @ [g], og_next_group := og_next_group og + 1, og_group_comps := gs\<rparr>"
  assume g: "sg_tenant g = tenantForWrite ctx"
    and gs: "setGroupComponentsTx comps (og_next_group og) cs (og_group_comps og) = Some gs"
    and e: "snd (CreateGroup comps ctx name code desc cs creator og) = ?og"
  note ok = foreign_requestD(1) [OF fr]
  have "distinct (og_group_comps og)" using org_okD(5) [OF ok] by (simp add: comps_ok_def)
  with setGroupComponentsTx_spec [OF gs] have m: "filter (\<lambda>c. fst c \<noteq> og_next_group og) gs = filter (\<lambda>c. fst c \<noteq> og_next_group og) (og_group_comps og)" by blast
  have "filter (\<lambda>c. fst c \<in> group_ids T og) gs = filter (\<lambda>c. fst c \<in> group_ids T og) (og_group_comps og)"
    by (rule filter_except [OF m]) (use next_group [OF ok] in auto)
  moreover have "home ?og" using foreign_requestD(3) [OF fr] by (rule homeI) (auto simp: team_ids_def group_ids_def)
  ultimately show ?thesis using g other_tenantD(2) [OF foreign_requestD(2) [OF fr]] by (auto simp: e keeps_def intro!: tenant_part_eqI)
qed (use fr in \<open>simp add: keeps_same foreign_request_def\<close>)

lemma UpdateGroup_keeps:
  assumes fr: "foreign_request ctx T og"
  shows "keeps T og (snd (UpdateGroup comps ctx i name desc cs og))"
  using UpdateGroup_cases [of comps ctx i name desc cs og]
proof (elim disjE exE conjE)
  fix t0 f gs
  let ?hit = "\<lambda>t. sg_id t = i \<and> sees ctx (sg_tenant t)"
  let ?og = "og\<lparr>og_groups := upd_where ?hit f (og_groups og), og_group_comps := gs\<rparr>"
  assume t0: "t0 \<in> set (og_groups og)" "sg_id t0 = i" "sees ctx (sg_tenant t0)"
    and f: "\<forall>t. sg_id (f t) = sg_id t \<and> sg_tenant (f t) = sg_tenant t \<and> sg_name (f t) = trim_space name"
    and gs: "setGroupComponentsTx comps i cs (og_group_comps og) = Some gs"
    and e: "snd (UpdateGroup comps ctx i name desc cs og) = ?og"
  note ok = foreign_requestD(1) [OF fr] and other = foreign_requestD(2) [OF fr]
  have "i \<in> group_ids (tenantOf ctx) og" using t0 other_tenantD(3) [OF other] by (auto simp: group_ids_def)
  note i = other_group [OF ok other this]
  have "distinct (og_group_comps og)" using org_okD(5) [OF ok] by (simp add: comps_ok_def)
  with setGroupComponentsTx_spec [OF gs] have m: "filter (\<lambda>c. fst c \<noteq> i) gs = filter (\<lambda>c. fst c \<noteq> i) (og_group_comps og)" by blast
  have "filter (\<lambda>c. fst c \<in> group_ids T og) gs = filter (\<lambda>c. fst c \<in> group_ids T og) (og_group_comps og)"
    by (rule filter_except [OF m]) (use i in auto)
  moreover have "filter (\<lambda>r. sg_tenant r = T) (upd_where ?hit f (og_groups og)) = filter (\<lambda>r. sg_tenant r = T) (og_groups og)"
    by (rule filter_upd_other) (use f other_tenantD(3) [OF other] other in \<open>auto simp: other_tenant_def\<close>)
  moreover have "sg_id ` {r \<in> set (upd_where ?hit f (og_groups og)). sg_tenant r = S} = sg_id ` {r \<in> set (og_groups og). sg_tenant r = S}" for S
    by (rule upd_ids) (use f in simp)
  then have "home ?og" by (intro homeI [OF foreign_requestD(3) [OF fr]]) (simp_all add: team_ids_def group_ids_def)
  ultimately show ?thesis unfolding e keeps_def by (intro conjI tenant_part_eqI) simp_all
qed (use fr in \<open>simp add: keeps_same foreign_request_def\<close>)

lemma DeleteGroup_keeps:
  assumes fr: "foreign_request ctx T og"
  shows "keeps T og (snd (DeleteGroup ctx i og))"
proof (cases "exists_row (\<lambda>t. sg_id t = i \<and> sees ctx (sg_tenant t)) (og_groups og)")
  case True
  let ?hit = "\<lambda>t. sg_id t = i \<and> sees ctx (sg_tenant t)"
  let ?og = "og\<lparr>og_groups := filter (\<lambda>t. \<not> ?hit t) (og_groups og), og_group_comps := filter (\<lambda>g. fst g \<noteq> i) (og_group_comps og),
    og_grants := filter (\<lambda>g. gp_group g \<noteq> i) (og_grants og)\<rparr>"
  have e: "snd (DeleteGroup ctx i og) = ?og" using True by (simp add: DeleteGroup_def Let_def)
  note ok = foreign_requestD(1) [OF fr] and other = foreign_requestD(2) [OF fr] and hm = foreign_requestD(3) [OF fr]
  from True have "i \<in> group_ids (tenantOf ctx) og" by (auto simp: exists_row_iff group_ids_def other_tenantD(3) [OF other])
  from other_group [OF ok other this] have i: "i \<notin> group_ids T og" .
  have keep: "j \<in> group_ids S og \<Longrightarrow> j \<noteq> i \<Longrightarrow> j \<in> group_ids S ?og" for j S by (auto simp: group_ids_def)
  have tms: "team_ids S ?og = team_ids S og" for S by (simp add: team_ids_def)
  have "home ?og" using hm keep unfolding home_def tms by fastforce
  moreover have "filter (\<lambda>t. sg_tenant t = T) (filter (\<lambda>t. \<not> ?hit t) (og_groups og)) = filter (\<lambda>t. sg_tenant t = T) (og_groups og)"
    by (rule filter_filter_other) (use other_tenantD(3) [OF other] other in \<open>auto simp: other_tenant_def\<close>)
  moreover have "filter (\<lambda>m. fst m \<in> group_ids T og) (filter (\<lambda>m. fst m \<noteq> i) (og_group_comps og)) = filter (\<lambda>m. fst m \<in> group_ids T og) (og_group_comps og)"
    by (rule filter_filter_other) (use i in auto)
  moreover have "gp_group p \<in> group_ids T og" if "p \<in> set (og_grants og)" "gp_team p \<in> team_ids T og" for p
    using hm that team_ids_unique [OF org_okD(2) [OF ok]] unfolding home_def by metis
  then have "filter (\<lambda>p. gp_team p \<in> team_ids T og) (filter (\<lambda>p. gp_group p \<noteq> i) (og_grants og)) = filter (\<lambda>p. gp_team p \<in> team_ids T og) (og_grants og)"
    using i by (intro filter_filter_other) auto
  ultimately show ?thesis unfolding e keeps_def by (intro conjI tenant_part_eqI) simp_all
qed (use fr in \<open>simp add: DeleteGroup_def keeps_same foreign_request_def\<close>)

lemma grants_keeps:
  assumes fr: "foreign_request ctx T og" and t: "team \<in> team_ids (tenantOf ctx) og"
    and g: "filter (\<lambda>p. gp_team p \<noteq> team) gs = filter (\<lambda>p. gp_team p \<noteq> team) (og_grants og)"
    and h: "\<And>p. p \<in> set gs \<Longrightarrow> p \<in> set (og_grants og) \<or> gp_team p = team \<and> gp_group p \<in> group_ids (tenantOf ctx) og"
  shows "keeps T og (og\<lparr>og_grants := gs\<rparr>)"
proof -
  note i' = other_team [OF foreign_requestD(1,2) [OF fr] t]
  have "home (og\<lparr>og_grants := gs\<rparr>)" unfolding home_def
  proof
    fix p assume "p \<in> set (og_grants (og\<lparr>og_grants := gs\<rparr>))"
    then have "\<exists>S. gp_team p \<in> team_ids S og \<and> gp_group p \<in> group_ids S og"
      using h [of p] foreign_requestD(3) [OF fr] t unfolding home_def by auto
    then show "\<exists>S. gp_team p \<in> team_ids S (og\<lparr>og_grants := gs\<rparr>) \<and> gp_group p \<in> group_ids S (og\<lparr>og_grants := gs\<rparr>)"
      by (simp add: team_ids_def group_ids_def)
  qed
  moreover have "filter (\<lambda>p. gp_team p \<in> team_ids T og) gs = filter (\<lambda>p. gp_team p \<in> team_ids T og) (og_grants og)"
    by (rule filter_except [OF g]) (use i' in auto)
  ultimately show ?thesis unfolding keeps_def by (intro conjI tenant_part_eqI) simp_all
qed

lemma SetGroupPermission_keeps:
  assumes fr: "foreign_request ctx T og"
  shows "keeps T og (snd (SetGroupPermission comps ctx team grp perms roles services hostGroups og))"
  using SetGroupPermission_cases [of comps ctx team grp perms roles services hostGroups og]
proof (elim disjE exE conjE)
  fix new
  let ?same = "\<lambda>g. gp_team g = team \<and> gp_group g = grp"
  let ?gs = "if exists_row ?same (og_grants og) then upd_where ?same (\<lambda>g. new) (og_grants og) else og_grants og @ [new]"
  assume t: "teamInTenant ctx team og = None" and g: "groupInTenant ctx grp og = None" and n: "gp_team new = team" "gp_group new = grp"
    and e: "snd (SetGroupPermission comps ctx team grp perms roles services hostGroups og) = og\<lparr>og_grants := ?gs\<rparr>"
  note dd = other_tenantD(4,5) [OF foreign_requestD(2) [OF fr]]
  have "filter (\<lambda>p. gp_team p \<noteq> team) (upd_where ?same (\<lambda>g. new) (og_grants og)) = filter (\<lambda>p. gp_team p \<noteq> team) (og_grants og)"
    by (rule filter_upd_other) (use n in auto)
  then have "filter (\<lambda>p. gp_team p \<noteq> team) ?gs = filter (\<lambda>p. gp_team p \<noteq> team) (og_grants og)" using n by simp
  moreover have "p \<in> set (og_grants og) \<or> gp_team p = team \<and> gp_group p \<in> group_ids (tenantOf ctx) og" if "p \<in> set ?gs" for p
    using that n g dd(2) by (auto simp: set_upd_where split: if_splits)
  ultimately show ?thesis unfolding e using t dd(1) by (intro grants_keeps [OF fr]) auto
qed (use fr in \<open>simp add: keeps_same foreign_request_def\<close>)

lemma DeleteGroupPermission_keeps:
  assumes fr: "foreign_request ctx T og"
  shows "keeps T og (snd (DeleteGroupPermission ctx team grp og))"
proof (cases "snd (DeleteGroupPermission ctx team grp og) = og")
  case False
  then have t: "teamInTenant ctx team og = None"
    and e: "snd (DeleteGroupPermission ctx team grp og) = og\<lparr>og_grants := filter (\<lambda>g. \<not> (gp_team g = team \<and> gp_group g = grp)) (og_grants og)\<rparr>"
    by (auto simp: DeleteGroupPermission_def split: option.splits)
  have "filter (\<lambda>p. gp_team p \<noteq> team) (filter (\<lambda>g. \<not> (gp_team g = team \<and> gp_group g = grp)) (og_grants og)) = filter (\<lambda>p. gp_team p \<noteq> team) (og_grants og)"
    by (rule filter_filter_other) auto
  with t show ?thesis unfolding e other_tenantD(4) [OF foreign_requestD(2) [OF fr]] by (intro grants_keeps [OF fr]) auto
qed (use fr in \<open>simp add: keeps_same foreign_request_def\<close>)

lemma ReplaceDepartments_keeps:
  assumes fr: "foreign_request ctx T og"
  shows "keeps T og (snd (ReplaceDepartments ctx deps og))"
proof -
  have "home (og\<lparr>og_departments := ds\<rparr>)" for ds
    using foreign_requestD(3) [OF fr] by (rule homeI) (simp_all add: team_ids_def group_ids_def)
  moreover have "filter (\<lambda>d. fst d = T) (filter (\<lambda>d. fst d \<noteq> tenantForWrite ctx) (og_departments og)) = filter (\<lambda>d. fst d = T) (og_departments og)"
    by (rule filter_filter_other) (use other_tenantD(2) [OF foreign_requestD(2) [OF fr]] in auto)
  moreover have "filter (\<lambda>d. fst d = T) (map (\<lambda>d. (tenantForWrite ctx, d)) ds) = []" for ds :: "department list"
    using other_tenantD(2) [OF foreign_requestD(2) [OF fr]] by (simp add: filter_empty_conv)
  ultimately show ?thesis unfolding ReplaceDepartments_def Let_def keeps_def snd_conv by (intro conjI tenant_part_eqI) simp_all
qed

lemma request_keeps:
  assumes "org_request comps ctx og og'" "foreign_request ctx T og"
  shows "keeps T og og'"
  using assms(1)
  by (rule org_request_respects) (simp add: operations_respect_def keeps_same foreign_requestD(3) [OF assms(2)]
      CreateRole_keeps UpdateRole_keeps DeleteRole_keeps CreateTeam_keeps UpdateTeam_keeps DeleteTeam_keeps
      AddMembers_keeps RemoveMember_keeps CreateGroup_keeps UpdateGroup_keeps DeleteGroup_keeps SetGroupPermission_keeps
      DeleteGroupPermission_keeps ReplaceDepartments_keeps assms(2))

text \<open>
  What the task service is told about a user: exactly what the grants say, and, for a user of one tenant, a matter
  of that tenant's rows alone.
\<close>

section \<open>Rights are a matter of the tenant's own rows\<close>

lemma concat_map_filter: "(\<And>x. x \<in> set xs \<Longrightarrow> \<not> P x \<Longrightarrow> f x = []) \<Longrightarrow> concat (map f (filter P xs)) = concat (map f xs)"
  by (induction xs) auto

lemma filter_both: "(\<And>x. x \<in> set xs \<Longrightarrow> Q x \<Longrightarrow> P x) \<Longrightarrow> filter Q (filter P xs) = filter Q xs"
  by (induction xs) auto

lemma granted_rows_part:
  assumes "tenantOf ctx = T" "T \<noteq> 0" "home og" "teams_ok og"
  shows "granted_rows comps ctx n (tenant_part T og) = granted_rows comps ctx n og"
proof -
  have sees: "sees ctx t \<longleftrightarrow> t = T" for t using assms(1,2) by (auto simp: sees_def)
  have grp: "gp_group p \<in> group_ids T og" if "p \<in> set (og_grants og)" "gp_team p \<in> team_ids T og" for p
    using assms(3) that team_ids_unique [OF assms(4)] unfolding home_def by metis
  let ?G = "\<lambda>o'. \<lambda>p. concat (map (\<lambda>c. [(p, c)]) (filter (\<lambda>c. (gp_group p, cp_id c) \<in> set (og_group_comps o')) comps))"
  let ?P = "\<lambda>o'. \<lambda>i. concat (map (?G o') (filter (\<lambda>p. gp_team p = i) (og_grants o')))"
  let ?T = "\<lambda>o'. \<lambda>m. concat (map (\<lambda>t. ?P o' (fst m)) (filter (\<lambda>t. tm_id t = fst m \<and> sees ctx (tm_tenant t)) (og_teams o')))"
  have P: "?P (tenant_part T og) i = ?P og i" if i: "i \<in> team_ids T og" for i
  proof -
    have f: "filter (\<lambda>p. gp_team p = i) (og_grants (tenant_part T og)) = filter (\<lambda>p. gp_team p = i) (og_grants og)"
      by (simp add: tenant_part_def) (rule filter_cong, use i in auto)
    have g: "?G (tenant_part T og) p = ?G og p" if "p \<in> set (filter (\<lambda>p. gp_team p = i) (og_grants og))" for p
      using grp [of p] that i by (simp add: tenant_part_def)
    show ?thesis by (rule arg_cong [where f = concat], rule map_cong [OF f], rule g)
  qed
  have T: "?T (tenant_part T og) m = ?T og m" if m: "fst m \<in> team_ids T og" for m
  proof -
    have "filter (\<lambda>t. tm_id t = fst m \<and> sees ctx (tm_tenant t)) (og_teams (tenant_part T og)) =
        filter (\<lambda>t. tm_id t = fst m \<and> sees ctx (tm_tenant t)) (og_teams og)"
      by (simp add: tenant_part_def sees) (rule filter_cong, auto)
    then show ?thesis using P [OF m] by simp
  qed
  have none: "?T og m = []" if "fst m \<notin> team_ids T og" for m
  proof -
    have "tm_id t \<noteq> fst m" if "t \<in> set (og_teams og)" "tm_tenant t = T" for t
      using \<open>fst m \<notin> team_ids T og\<close> that unfolding team_ids_def by force
    then have "filter (\<lambda>t. tm_id t = fst m \<and> sees ctx (tm_tenant t)) (og_teams og) = []"
      by (auto simp: sees filter_empty_conv)
    then show ?thesis by simp
  qed
  have "granted_rows comps ctx n (tenant_part T og) = concat (map (?T (tenant_part T og)) (filter (\<lambda>m. snd m = n) (filter (\<lambda>m. fst m \<in> team_ids T og) (og_members og))))"
    by (simp add: granted_rows_def tenant_part_def)
  also have "\<dots> = concat (map (?T og) (filter (\<lambda>m. fst m \<in> team_ids T og) (filter (\<lambda>m. snd m = n) (og_members og))))"
    using T by (intro arg_cong [where f = concat]) (auto simp: conj_commute intro!: map_cong)
  also have "\<dots> = concat (map (?T og) (filter (\<lambda>m. snd m = n) (og_members og)))"
    by (rule concat_map_filter) (rule none)
  finally show ?thesis by (simp add: granted_rows_def)
qed

lemma rolePermissions_part:
  assumes "tenantOf ctx = T" "T \<noteq> 0"
  shows "rolePermissions ctx (tenant_part T og) i = rolePermissions ctx og i"
proof -
  have "filter (\<lambda>r. sees ctx (rl_tenant r)) (og_roles (tenant_part T og)) = filter (\<lambda>r. sees ctx (rl_tenant r)) (og_roles og)"
    using assms by (auto simp: tenant_part_def sees_def intro!: filter_both)
  then show ?thesis by (simp add: rolePermissions_def)
qed

lemma common_team_part:
  assumes "\<And>t. P t \<Longrightarrow> tm_tenant t = T"
  shows "common_team P a b (tenant_part T og) = common_team P a b og"
  using assms by (auto simp: common_team_def exists_row_iff tenant_part_def team_ids_def)

lemma TeamOwnerPolicy_part:
  assumes "tenantOf ctx = T" "T \<noteq> 0"
  shows "TeamOwnerPolicy ctx n (tenant_part T og) = TeamOwnerPolicy ctx n og"
proof -
  have "filter (\<lambda>t. sees ctx (tm_tenant t) \<and> (tm_id t, trim_space n) \<in> set (og_members (tenant_part T og))) (og_teams (tenant_part T og)) =
      filter (\<lambda>t. sees ctx (tm_tenant t) \<and> (tm_id t, trim_space n) \<in> set (og_members og)) (og_teams og)"
    using assms by (auto simp: tenant_part_def sees_def team_ids_def intro!: filter_cong)
  then show ?thesis by (simp add: TeamOwnerPolicy_def)
qed

lemma org_policy_part:
  assumes "tenantOf ctx = T" "T \<noteq> 0" "home og" "org_ok og"
  shows "org_policy comps ctx (tenant_part T og) pc = org_policy comps ctx og pc"
proof -
  have sees: "sees ctx t \<longleftrightarrow> t = T" for t using assms(1,2) by (auto simp: sees_def)
  have e: "EffectivePermissionsWithHosts comps ctx n (tenant_part T og) = EffectivePermissionsWithHosts comps ctx n og" for n
  proof -
    have "rolePermissions ctx (tenant_part T og) = rolePermissions ctx og" by (rule ext) (rule rolePermissions_part [OF assms(1,2)])
    then show ?thesis using granted_rows_part [OF assms(1-3) org_okD(2) [OF assms(4)]] by (simp add: EffectivePermissionsWithHosts_def)
  qed
  have "common_team (\<lambda>t. tm_owner_only t = ''off'' \<and> sees ctx (tm_tenant t)) a b (tenant_part T og) =
      common_team (\<lambda>t. tm_owner_only t = ''off'' \<and> sees ctx (tm_tenant t)) a b og"
    "common_team (\<lambda>t. sees ctx (tm_tenant t)) a b (tenant_part T og) = common_team (\<lambda>t. sees ctx (tm_tenant t)) a b og" for a b
    by (rule common_team_part, simp add: sees)+
  then have c: "CanShareTasks ctx a b (tenant_part T og) = CanShareTasks ctx a b og" "SharesTeam ctx a b (tenant_part T og) = SharesTeam ctx a b og" for a b
    by (simp_all add: CanShareTasks_def SharesTeam_def Let_def)
  show ?thesis
    by (simp add: org_policy_def DeployAuthorizer_def HostGroupResolver_def HostGroupsFor_def fun_eq_iff e c TeamOwnerPolicy_part [OF assms(1,2)])
qed

section \<open>Isolation of tenants\<close>

text \<open>A request by a user of tenant \<open>S\<close> who is no super administrator.\<close>

definition tenant_request :: "int \<Rightarrow> org \<Rightarrow> org \<Rightarrow> bool" where
  "tenant_request S og og' =
    (\<exists>comps u. \<not> IsSuperAdmin u \<and> normalizeTenant (us_tenant u) = S \<and> org_request comps (Some u) og og')"

lemma tenant_requests_keep:
  assumes "(tenant_request S)^** og og'" "org_ok og" "home og" "S \<noteq> 0" "S \<noteq> T"
  shows "org_ok og' \<and> keeps T og og'"
  using assms(1)
proof induction
  case base
  show ?case using assms by (simp add: keeps_same)
next
  case (step x y)
  from step.hyps(2) obtain comps u where u: "\<not> IsSuperAdmin u" "normalizeTenant (us_tenant u) = S" "org_request comps (Some u) x y"
    by (auto simp: tenant_request_def)
  have "foreign_request (Some u) T x" using step.IH u assms(4,5)
    by (simp add: foreign_request_def other_tenant_def tenantOf_def keeps_def)
  from request_keeps [OF u(3) this] step.IH request_ok [OF u(3)] show ?case by (simp add: keeps_def)
qed

text \<open>Grants stay at home under all requests of administrators of tenants; only a super administrator can link a team
  and a group of different tenants (\<open>SetGroupPermission\<close> looks at the tenant of an ordinary administrator only).\<close>

lemma requests_stay_home:
  assumes "(\<lambda>x y. \<exists>S. S \<noteq> 0 \<and> tenant_request S x y)^** og og'" "org_ok og" "home og"
  shows "org_ok og' \<and> home og'"
  using assms(1)
proof induction
  case base
  with assms show ?case by simp
next
  case (step x y)
  then obtain S where "S \<noteq> 0" "(tenant_request S)^** x y" by auto
  with tenant_requests_keep [of S x y "S + 1"] step.IH show ?case by (simp add: keeps_def)
qed

text \<open>C31: Tenants are isolated as long as grants are at home, that is, each links a team and a group of one tenant - which
  the requests of these administrators keep, while a super administrator can grant across tenants. From
  well-formed tables of that kind, and with the table of components left as it is, no sequence of requests by the administrators
  of one tenant changes anything the task service is told about the users of another: which components they
  may deploy, on which host groups, who may share tasks, who is a team mate, and the owner policy of their teams.\<close>

theorem tenants_isolated:
  assumes "(tenant_request S)^** og og'" "org_ok og" "home og" "S \<noteq> 0" "tenantOf ctx \<noteq> 0" "tenantOf ctx \<noteq> S"
  shows "org_policy comps ctx og' pc = org_policy comps ctx og pc"
proof -
  let ?T = "tenantOf ctx"
  from tenant_requests_keep [OF assms(1-4), of ?T] assms(6) have k: "org_ok og'" "tenant_part ?T og' = tenant_part ?T og" "home og'"
    by (auto simp: keeps_def)
  have "org_policy comps ctx og' pc = org_policy comps ctx (tenant_part ?T og') pc"
    by (simp only: org_policy_part [OF refl assms(5) k(3,1)])
  also have "\<dots> = org_policy comps ctx og pc" by (simp only: k(2) org_policy_part [OF refl assms(5,3,2)])
  finally show ?thesis .
qed

section \<open>Exactly the rights granted\<close>

definition set_at :: "named_sets \<Rightarrow> string \<Rightarrow> string set" where
  "set_at m n = (case m n of None \<Rightarrow> {} | Some xs \<Rightarrow> set xs)"

definition offers :: "grant_row \<times> component_row \<Rightarrow> string \<Rightarrow> bool" where
  "offers row n = (cp_name (snd row) = n \<and> (''*'' \<in> set (gp_services (fst row)) \<or> n \<in> set (gp_services (fst row))))"

definition row_rights :: "(int \<Rightarrow> string list) \<Rightarrow> grant_row \<times> component_row \<Rightarrow> string set" where
  "row_rights rp row = set (gp_permissions (fst row)) \<union> (\<Union>i\<in>set (gp_role_ids (fst row)). set (rp i))"

lemma grant_step_rights:
  "set_at (fst (grant_step rp row acc)) n = set_at (fst acc) n \<union> (if offers row n then row_rights rp row else {})"
  by (cases row; cases acc) (auto simp: grant_step_def Let_def add_set_def set_at_def offers_def row_rights_def list_ex_iff split: option.split)

lemma fold_grants_rights:
  "set_at (fst (fold (grant_step rp) rows acc)) n = set_at (fst acc) n \<union> (\<Union>row\<in>{r \<in> set rows. offers r n}. row_rights rp row)"
proof (induction rows arbitrary: acc)
  case (Cons row rows)
  then show ?case by (simp add: grant_step_rights) blast
qed simp

lemma granted_rows_iff:
  "(p, c) \<in> set (granted_rows comps ctx n og) \<longleftrightarrow>
   (\<exists>t\<in>set (og_teams og). (tm_id t, n) \<in> set (og_members og) \<and> sees ctx (tm_tenant t) \<and> p \<in> set (og_grants og) \<and> gp_team p = tm_id t \<and>
      c \<in> set comps \<and> (gp_group p, cp_id c) \<in> set (og_group_comps og))"
  by (force simp: granted_rows_def)

lemma effective_rights:
  "set_at (EffectivePermissions comps ctx n og) name =
   (\<Union>row\<in>{r \<in> set (granted_rows comps ctx n og). offers r name}. row_rights (rolePermissions ctx og) row)"
  using fold_grants_rights [of "rolePermissions ctx og" "granted_rows comps ctx n og" "(Map.empty, Map.empty)" name]
  by (simp add: EffectivePermissions_def EffectivePermissionsWithHosts_def split_beta set_at_def)

text \<open>C32: What the task service is told is what was granted. A user who is no administrator may deploy a component
  exactly when some team the user is a member of, in a tenant the request sees, has a grant on a group that holds a
  component of that name, the grant offers the component by name or by the star, and carries the deploy right
  itself or through one of its roles.\<close>

theorem DeployAuthorizer_iff:
  "DeployAuthorizer comps ctx og u cid name \<longleftrightarrow> us_is_admin u \<or> IsSuperAdmin u \<or> HasRole u RoleAdmin \<or>
     (\<exists>t p c. t \<in> set (og_teams og) \<and> (tm_id t, us_username u) \<in> set (og_members og) \<and> sees ctx (tm_tenant t) \<and>
        p \<in> set (og_grants og) \<and> gp_team p = tm_id t \<and> c \<in> set comps \<and> cp_name c = name \<and>
        (gp_group p, cp_id c) \<in> set (og_group_comps og) \<and> (''*'' \<in> set (gp_services p) \<or> name \<in> set (gp_services p)) \<and>
        (''deploy'' \<in> set (gp_permissions p) \<or> (\<exists>i. i \<in> set (gp_role_ids p) \<and> ''deploy'' \<in> set (rolePermissions ctx og i))))"
proof -
  have "DeployAuthorizer comps ctx og u cid name \<longleftrightarrow>
      us_is_admin u \<or> IsSuperAdmin u \<or> HasRole u RoleAdmin \<or> ''deploy'' \<in> set_at (EffectivePermissions comps ctx (us_username u) og) name"
    by (simp add: DeployAuthorizer_def ordinary_def set_at_def EffectivePermissions_def split: option.split)
  moreover have "''deploy'' \<in> set_at (EffectivePermissions comps ctx (us_username u) og) name \<longleftrightarrow>
      (\<exists>p c. (p, c) \<in> set (granted_rows comps ctx (us_username u) og) \<and> offers (p, c) name \<and>
         ''deploy'' \<in> row_rights (rolePermissions ctx og) (p, c))"
    unfolding effective_rights by (simp add: Bex_def)
  ultimately show ?thesis unfolding granted_rows_iff offers_def row_rights_def fst_conv snd_conv by blast
qed

end
