(* ===== verification/MiddlewareSafety.thy ===== *)
theory MiddlewareSafety
imports Middleware
begin

text \<open>
  What the guards of requests achieve: the bound of the rate limiter and its burst, and what becomes of the cache
  of pages in the chain of the server.
\<close>

section \<open>The rate limiter\<close>

text \<open>The times at which requests of one address pass; between requests the limiter may drop old entries.\<close>

datatype limiter_event = Arrive time string | Clean time

definition event_time :: "limiter_event \<Rightarrow> time" where
  "event_time e = (case e of Arrive t a \<Rightarrow> t | Clean t \<Rightarrow> t)"

fun passed :: "string \<Rightarrow> limiter_event list \<Rightarrow> rate_limiter \<Rightarrow> time list" where
  "passed ip [] rl = []"
| "passed ip (Arrive t a # es) rl =
    (case Allow t a rl of (ok, rl') \<Rightarrow> (if ok \<and> a = ip then t # passed ip es rl' else passed ip es rl'))"
| "passed ip (Clean t # es) rl = passed ip es (cleanup t rl)"

fun arrivals :: "string \<Rightarrow> limiter_event list \<Rightarrow> time list" where
  "arrivals ip [] = []"
| "arrivals ip (Arrive t a # es) = (if a = ip then t # arrivals ip es else arrivals ip es)"
| "arrivals ip (Clean t # es) = arrivals ip es"

text \<open>What the limiter is meant to admit: a window begins with the first request after the one before it is over, lasts
  \<open>w\<close>, its end included, and admits its first \<open>m\<close> requests.\<close>

function windows :: "nat \<Rightarrow> time \<Rightarrow> time list \<Rightarrow> time list" where
  "windows m w [] = []"
| "windows m w (t # ts) =
    t # take (m - 1) (takeWhile (\<lambda>s. s \<le> t + w) ts) @ windows m w (dropWhile (\<lambda>s. s \<le> t + w) ts)"
  by pat_completeness auto
termination
  by (relation "measure (\<lambda>(m, w, ts). length ts)") (simp_all add: le_imp_less_Suc length_dropWhile_le)

text \<open>The same from the middle of a window.\<close>

definition admits :: "int \<Rightarrow> time \<Rightarrow> bucket option \<Rightarrow> time list \<Rightarrow> time list" where
  "admits m w b ts =
    (case b of None \<Rightarrow> windows (nat m) w ts
     | Some b \<Rightarrow> take (nat (m - bk_count b)) (takeWhile (\<lambda>s. s \<le> bk_reset b) ts) @
         windows (nat m) w (dropWhile (\<lambda>s. s \<le> bk_reset b) ts))"

lemma Allow_frame [simp]: "rl_max (snd (Allow t a rl)) = rl_max rl" "rl_window (snd (Allow t a rl)) = rl_window rl"
  by (auto simp: Allow_def Let_def split: option.split)

lemma cleanup_frame [simp]: "rl_max (cleanup t rl) = rl_max rl" "rl_window (cleanup t rl) = rl_window rl"
  by (simp_all add: cleanup_def)

lemma Allow_other: "a \<noteq> ip \<Longrightarrow> rl_limits (snd (Allow t a rl)) ip = rl_limits rl ip"
  by (auto simp: Allow_def Let_def split: option.split)

text \<open>A window has admitted the request that began it.\<close>

definition window_sane :: "string \<Rightarrow> rate_limiter \<Rightarrow> bool" where
  "window_sane ip rl = (\<forall>b. rl_limits rl ip = Some b \<longrightarrow> 1 \<le> bk_count b)"

lemma Allow_sane: "window_sane ip rl \<Longrightarrow> window_sane ip (snd (Allow t a rl))"
  by (auto simp: window_sane_def Allow_def Let_def split: option.split)

lemma cleanup_sane: "window_sane ip rl \<Longrightarrow> window_sane ip (cleanup t rl)"
  by (auto simp: window_sane_def cleanup_def split: option.splits if_splits)

lemma arrivals_times: "set (arrivals ip es) \<subseteq> event_time ` set es"
  by (induction ip es rule: arrivals.induct) (auto simp: event_time_def)

lemma arrivals_sorted: "sorted (map event_time es) \<Longrightarrow> sorted (arrivals ip es)"
  using arrivals_times [of ip] by (induction ip es rule: arrivals.induct) (force simp: event_time_def)+

text \<open>A window that is over counts for nothing.\<close>

lemma admits_over: "\<forall>s\<in>set ts. bk_reset b < s \<Longrightarrow> admits m w (Some b) ts = admits m w None ts"
  by (cases ts) (auto simp: admits_def)

lemma admits_Clean:
  assumes "\<forall>s\<in>set ts. t \<le> s"
  shows "admits m w (rl_limits (cleanup t rl) ip) ts = admits m w (rl_limits rl ip) ts"
proof (cases "rl_limits rl ip")
  case (Some b)
  have "\<forall>s\<in>set ts. bk_reset b < s" if "t > bk_reset b" using assms that by fastforce
  then show ?thesis using Some admits_over [of ts b m w] by (auto simp: cleanup_def)
qed (simp add: cleanup_def)

lemma admits_Arrive:
  assumes "window_sane ip rl"
  shows "admits (max 1 (rl_max rl)) (rl_window rl) (rl_limits rl ip) (t # ts) =
    (if fst (Allow t ip rl) then [t] else []) @ admits (max 1 (rl_max rl)) (rl_window rl) (rl_limits (snd (Allow t ip rl)) ip) ts"
proof (cases "rl_limits rl ip")
  case None
  have "nat (max 1 (rl_max rl) - 1) = nat (max 1 (rl_max rl)) - 1" by linarith
  with None show ?thesis by (simp add: admits_def Allow_def Let_def)
next
  case (Some b)
  show ?thesis
  proof (cases "t > bk_reset b")
    case True
    have "nat (max 1 (rl_max rl) - 1) = nat (max 1 (rl_max rl)) - 1" by linarith
    with Some True show ?thesis by (simp add: admits_def Allow_def Let_def)
  next
    case False
    have c: "1 \<le> bk_count b" using assms Some by (simp add: window_sane_def)
    show ?thesis
    proof (cases "bk_count b \<ge> rl_max rl")
      case True
      then have "nat (max 1 (rl_max rl) - bk_count b) = 0" using c by linarith
      with Some False True show ?thesis by (simp add: admits_def Allow_def)
    next
      case room: False
      then have "nat (max 1 (rl_max rl) - bk_count b) = Suc (nat (max 1 (rl_max rl) - (bk_count b + 1)))" using c by linarith
      with Some False room show ?thesis by (simp add: admits_def Allow_def)
    qed
  qed
qed

lemma passed_admits:
  assumes "window_sane ip rl" "sorted (map event_time es)"
  shows "passed ip es rl = admits (max 1 (rl_max rl)) (rl_window rl) (rl_limits rl ip) (arrivals ip es)"
  using assms
proof (induction es arbitrary: rl)
  case Nil
  then show ?case by (simp add: admits_def split: option.split)
next
  case (Cons e es)
  show ?case
  proof (cases e)
    case (Arrive t a)
    have IH: "passed ip es (snd (Allow t a rl)) =
        admits (max 1 (rl_max rl)) (rl_window rl) (rl_limits (snd (Allow t a rl)) ip) (arrivals ip es)"
      using Cons.IH [OF Allow_sane [OF Cons.prems(1), of t a]] Cons.prems(2) by simp
    show ?thesis
    proof (cases "a = ip")
      case True
      with IH Arrive admits_Arrive [OF Cons.prems(1), of t "arrivals ip es"] show ?thesis by (simp add: case_prod_unfold)
    next
      case False
      with IH Arrive show ?thesis by (simp add: Allow_other case_prod_unfold)
    qed
  next
    case (Clean t)
    have "\<forall>s\<in>set (arrivals ip es). t \<le> s" using arrivals_times [of ip es] Cons.prems(2) Clean by (force simp: event_time_def)
    with Cons.IH [OF cleanup_sane [OF Cons.prems(1), of t]] Cons.prems(2) Clean show ?thesis by (simp add: admits_Clean)
  qed
qed

text \<open>How many of a span as long as a window the windows admit.\<close>

definition in_span :: "time \<Rightarrow> time \<Rightarrow> time list \<Rightarrow> nat" where
  "in_span x w ts = length (filter (\<lambda>t. x \<le> t \<and> t \<le> x + w) ts)"

lemma in_span_append [simp]: "in_span x w (ts @ us) = in_span x w ts + in_span x w us"
  by (simp add: in_span_def)

lemma in_span_none: "\<forall>t\<in>set ts. \<not> (x \<le> t \<and> t \<le> x + w) \<Longrightarrow> in_span x w ts = 0"
  by (simp add: in_span_def)

lemma in_span_le: "in_span x w ts \<le> length ts"
  by (simp add: in_span_def)

lemma windows_subset: "set (windows m w ts) \<subseteq> set ts"
proof (induction m w ts rule: windows.induct)
  case (2 m w t ts)
  then show ?case by (auto dest!: in_set_takeD set_takeWhileD set_dropWhileD)
qed simp

lemma later_over:
  assumes "sorted (t # ts)" "s \<in> set (windows m w (dropWhile (\<lambda>s. s \<le> t + w) ts))"
  shows "t + w < s"
proof -
  let ?ds = "dropWhile (\<lambda>s. s \<le> t + w) ts"
  have "sorted ?ds" using assms(1) sorted_dropWhile [of ts] by simp
  moreover have "s \<in> set ?ds" using assms(2) windows_subset by blast
  moreover have "?ds \<noteq> [] \<Longrightarrow> t + w < hd ?ds" using hd_dropWhile [of "\<lambda>s. s \<le> t + w" ts] by simp
  ultimately show ?thesis by (cases ?ds) auto
qed

lemma block_length: "length (t # take (m - 1) xs) \<le> max 1 m"
  by simp

text \<open>A span that begins no later than a window sees that window only.\<close>

lemma windows_span_first:
  assumes "sorted (t # ts)" "x \<le> t"
  shows "in_span x w (windows m w (t # ts)) \<le> max 1 m"
proof -
  let ?b = "t # take (m - 1) (takeWhile (\<lambda>s. s \<le> t + w) ts)" and ?r = "windows m w (dropWhile (\<lambda>s. s \<le> t + w) ts)"
  have "in_span x w ?r = 0" using later_over [OF assms(1)] assms(2) by (intro in_span_none) fastforce
  moreover have "in_span x w ?b \<le> max 1 m" using in_span_le [of x w ?b] block_length by (rule order_trans)
  moreover have "windows m w (t # ts) = ?b @ ?r" by simp
  ultimately show ?thesis by (simp only: in_span_append)
qed

lemma windows_span:
  assumes "sorted ts" "1 \<le> m"
  shows "in_span x w (windows m w ts) \<le> 2 * m - 1"
  using assms
proof (induction m w ts rule: windows.induct)
  case (2 m w t ts)
  let ?b = "take (m - 1) (takeWhile (\<lambda>s. s \<le> t + w) ts)" and ?d = "dropWhile (\<lambda>s. s \<le> t + w) ts"
  show ?case
  proof (cases "x \<le> t")
    case True
    from windows_span_first [OF "2.prems"(1) True, of w m] "2.prems"(2) show ?thesis by linarith
  next
    case False
    have sd: "sorted ?d" using "2.prems"(1) sorted_dropWhile [of ts] by simp
    have first: "in_span x w (windows m w (t # ts)) = in_span x w ?b + in_span x w (windows m w ?d)"
      using False by (simp add: in_span_def)
    show ?thesis
    proof (cases ?d)
      case Nil
      have "in_span x w ?b \<le> m - 1" using in_span_le [of x w ?b] by (rule order_trans) simp
      moreover have "in_span x w (windows m w ?d) = 0" by (simp only: Nil) (simp add: in_span_def)
      ultimately show ?thesis using first "2.prems"(2) by linarith
    next
      case (Cons s ds)
      show ?thesis
      proof (cases "x \<le> s")
        case True
        have "in_span x w ?b \<le> m - 1" using in_span_le [of x w ?b] by (rule order_trans) simp
        moreover have "in_span x w (windows m w ?d) \<le> max 1 m"
          unfolding Cons by (rule windows_span_first) (use sd Cons True in simp_all)
        ultimately show ?thesis using first "2.prems"(2) by linarith
      next
        case early: False
        have "t + w < s" using hd_dropWhile [of "\<lambda>s. s \<le> t + w" ts] Cons by simp
        then have "in_span x w ?b = 0" using early by (intro in_span_none) (auto dest!: in_set_takeD set_takeWhileD)
        then show ?thesis using first "2.IH" [OF sd "2.prems"(2)] by simp
      qed
    qed
  qed
qed (simp add: in_span_def)

text \<open>C37: Whatever requests arrive from whatever addresses, and whenever old entries are dropped, the requests of one
  address that pass are exactly those its windows admit: a window begins with the first request after the former
  window is over and lets the first \<open>maxReq\<close> through (one, if the bound is not positive). So at most twice the bound
  less one pass in any time as long as the window.\<close>

theorem rate_limit_bound:
  assumes "sorted (map event_time es)"
  shows "passed ip es (NewRateLimiter maxReq window) = windows (nat (max 1 maxReq)) window (arrivals ip es) \<and>
    int (in_span x window (passed ip es (NewRateLimiter maxReq window))) \<le> 2 * max 1 maxReq - 1"
proof -
  let ?ws = "windows (nat (max 1 maxReq)) window (arrivals ip es)"
  have e: "passed ip es (NewRateLimiter maxReq window) = ?ws"
    using passed_admits [OF _ assms, of ip "NewRateLimiter maxReq window"]
    by (simp add: window_sane_def NewRateLimiter_def admits_def)
  have "in_span x window ?ws \<le> 2 * nat (max 1 maxReq) - 1"
    by (rule windows_span [OF arrivals_sorted [OF assms]]) simp
  then have "int (in_span x window ?ws) \<le> 2 * max 1 maxReq - 1" by linarith
  then show ?thesis unfolding e by (rule conjI [OF refl])
qed

text \<open>The bound is reached: the window is not a sliding one, so five pass in a window's length where the bound is three.\<close>

definition ex_burst :: "limiter_event list" where
  "ex_burst = [Arrive 0 ''1.2.3.4'', Arrive 99 ''1.2.3.4'', Arrive 100 ''1.2.3.4'', Clean 100, Arrive 100 ''1.2.3.4'',
     Arrive 101 ''1.2.3.4'', Arrive 102 ''1.2.3.4'', Arrive 103 ''1.2.3.4'', Arrive 104 ''1.2.3.4'']"

lemma limiter_burst: "passed ''1.2.3.4'' ex_burst (NewRateLimiter 3 100) = [0, 99, 100, 101, 102, 103]"
  by code_simp

lemma rate_limit_bound_witness:
  "in_span 4 100 (passed ''1.2.3.4'' ex_burst (NewRateLimiter 3 100)) = 5 \<and>
   windows 3 100 (arrivals ''1.2.3.4'' ex_burst) = [0, 99, 100, 101, 102, 103] \<and>
   int (in_span 4 100 (passed ''1.2.3.4'' ex_burst (NewRateLimiter 3 100))) \<le> 2 * 3 - 1"
proof -
  have s: "sorted (map event_time ex_burst)" by (simp add: ex_burst_def event_time_def)
  note r = rate_limit_bound [OF s, of "''1.2.3.4''" 3 100 4]
  have "windows 3 100 (arrivals ''1.2.3.4'' ex_burst) = [0, 99, 100, 101, 102, 103]" using r limiter_burst by simp
  moreover have "in_span 4 100 (passed ''1.2.3.4'' ex_burst (NewRateLimiter 3 100)) = 5" by (simp add: limiter_burst in_span_def)
  ultimately show ?thesis using r by simp
qed

section \<open>The cache of pages\<close>

text \<open>A handler that leaves \<open>Cache-Control\<close> as it found it.\<close>

definition keeps_no_store :: "'s web_handler \<Rightarrow> bool" where
  "keeps_no_store h = (\<forall>r hdrs s. rs_headers (fst (h r hdrs s)) ''Cache-Control'' = hdrs ''Cache-Control'')"

fun serve :: "'s web_handler \<Rightarrow> (time \<Rightarrow> 's web_handler \<Rightarrow> (cached_response redis \<times> 's) web_handler) \<Rightarrow>
    (time \<times> web_request) list \<Rightarrow> cached_response redis \<times> 's \<Rightarrow> response list \<times> cached_response redis \<times> 's" where
  "serve mux chain [] st = ([], st)"
| "serve mux chain ((now, r) # rs) st =
    (case chain now mux r Map.empty st of (a, st1) \<Rightarrow> (case serve mux chain rs st1 of (as, st') \<Rightarrow> (a # as, st')))"

lemma Cache_no_store:
  assumes "keeps_no_store mux" "hdrs ''Cache-Control'' = Some ''no-store'' \<or> \<not> cacheablePath (wr_path r)"
  shows "\<exists>s'. snd (Cache digest provider now mux r hdrs (Map.empty, s)) = (Map.empty, s')"
proof -
  have k: "\<not> storable (fst (mux r (hdrs(''X-Cache'' \<mapsto> ''MISS'')) s))" if "hdrs ''Cache-Control'' = Some ''no-store''"
    using assms(1) that by (simp add: keeps_no_store_def storable_def header_def equal_fold_def)
  show ?thesis using assms(2) k
    by (auto simp: Cache_def redis_get_def DelPrefix_def Let_def case_prod_unfold split: option.split)
qed

lemma cacheable_api: "cacheablePath p \<Longrightarrow> has_prefix ''/api/'' p"
  unfolding cacheablePath_def cacheablePaths_def by (auto simp: has_prefix_def)

text \<open>Behind the security headers, as the server chains them, the cache of pages never holds anything: those
  headers mark every answer under the API as not to be stored, which the cache obeys, and it serves no
  other paths. So every request reaches its handler.\<close>

theorem page_cache_unused:
  assumes "keeps_no_store mux"
  shows "fst (snd (serve mux (server_chain ul origins reply tls digest provider) rs (Map.empty, s))) = Map.empty"
proof -
  have "\<exists>s'. snd (serve mux (server_chain ul origins reply tls digest provider) rs (Map.empty, s)) = (Map.empty, s')" for s
  proof (induction rs arbitrary: s)
    case (Cons e rs)
    obtain now r where e: "e = (now, r)" by fastforce
    have "\<exists>s'. snd (server_chain ul origins reply tls digest provider now mux r Map.empty (Map.empty, s)) = (Map.empty, s')"
      using cacheable_api [of "wr_path r"]
      by (auto simp: server_chain_def SecurityHeaders_def csrf_guarded_def Let_def intro!: Cache_no_store [OF assms])
    then obtain a s' where "server_chain ul origins reply tls digest provider now mux r Map.empty (Map.empty, s) = (a, Map.empty, s')"
      by (metis surjective_pairing snd_conv)
    with Cons [of s'] e show ?case by (auto split: prod.splits)
  qed simp
  from this [of s] show ?thesis by auto
qed

text \<open>Without the headers, two requests that differ in a colon at the end share an entry.\<close>

lemma key_collision:
  "cache_key digest c (r\<lparr>wr_uri := ''/api/hosts?q=a:''\<rparr>) = cache_key digest c (r\<lparr>wr_uri := ''/api/hosts?q=a''\<rparr>)"
  by (simp add: cache_key_def Key_def key_part_def trim_set_def trim_right_def enumerate_eq_zip)

end
