(* ===== verification/OrgExamples.thy ===== *)
theory OrgExamples
  imports OrgIsolation MiddlewareSafety FleetExamples
begin

text \<open>Concrete inputs at which the properties of organisations and of the HTTP middleware apply.\<close>

definition ex_role :: role_row where
  "ex_role = \<lparr>rl_id = 1, rl_tenant = 1, rl_name = ''ops'', rl_code = ''ops'', rl_description = [], rl_permissions = [''deploy'']\<rparr>"

definition ex_team :: team_row where
  "ex_team = \<lparr>tm_id = 1, tm_tenant = 1, tm_name = ''core'', tm_code = ''core'', tm_description = [], tm_status = 1,
     tm_owner_only = ''inherit'', tm_created_by = ''alice''\<rparr>"

definition ex_group :: group_row where
  "ex_group = \<lparr>sg_id = 1, sg_tenant = 1, sg_name = ''web'', sg_code = ''web'', sg_description = [], sg_status = 1, sg_created_by = ''alice''\<rparr>"

definition ex_grant :: grant_row where
  "ex_grant = \<lparr>gp_team = 1, gp_group = 1, gp_permissions = [''read''], gp_role_ids = [1], gp_services = [''*''], gp_host_groups = []\<rparr>"

definition ex_org :: org where
  "ex_org = \<lparr>og_roles = [ex_role], og_teams = [ex_team], og_groups = [ex_group], og_members = [(1, ''bob'')],
     og_group_comps = [(1, 1)], og_grants = [ex_grant], og_departments = [], og_next_role = 2, og_next_team = 2, og_next_group = 2\<rparr>"

definition ex_other_admin :: user where
  "ex_other_admin = \<lparr>us_username = ''eve'', us_is_admin = True, us_tenant = 2, us_roles = [''admin'']\<rparr>"

text \<open>The other tenant's administrator tries to delete the team and makes a role of the same name.\<close>

definition ex_org_after :: org where
  "ex_org_after = snd (RoleCreate (Some ex_other_admin) ''ops'' [] [] [''read''] (snd (TeamDelete (Some ex_other_admin) 1 ex_org)))"

lemmas ex_org_defs = ex_org_def ex_role_def ex_team_def ex_group_def ex_grant_def ex_other_admin_def

lemma ex_org_ok: "org_ok ex_org"
  by (simp add: org_ok_def roles_ok_def teams_ok_def groups_ok_def members_ok_def comps_ok_def grants_ok_def rows_ok_def
      ex_org_defs perms_ok_def validPerms_def owner_modes_def)

lemma ex_org_home: "home ex_org"
proof -
  have "ex_team \<in> {t \<in> set (og_teams ex_org). tm_tenant t = 1}" "ex_group \<in> {g \<in> set (og_groups ex_org). sg_tenant g = 1}"
    by (simp_all add: ex_org_defs)
  then have "tm_id ex_team \<in> team_ids 1 ex_org" "sg_id ex_group \<in> group_ids 1 ex_org"
    unfolding team_ids_def group_ids_def by (simp_all only: imageI)
  then have "gp_team ex_grant \<in> team_ids 1 ex_org \<and> gp_group ex_grant \<in> group_ids 1 ex_org"
    by (simp add: ex_team_def ex_group_def ex_grant_def)
  moreover have "set (og_grants ex_org) = {ex_grant}" by (simp add: ex_org_def)
  ultimately show ?thesis unfolding home_def by simp blast
qed

lemma ex_other_run: "(tenant_request 2)^** ex_org ex_org_after"
proof -
  have u: "\<not> IsSuperAdmin ex_other_admin" "normalizeTenant (us_tenant ex_other_admin) = 2"
    by (simp_all add: ex_other_admin_def IsSuperAdmin_def HasRole_def normalizeTenant_def)
  have "tenant_request 2 ex_org (snd (TeamDelete (Some ex_other_admin) 1 ex_org))"
    "tenant_request 2 (snd (TeamDelete (Some ex_other_admin) 1 ex_org)) ex_org_after"
    unfolding tenant_request_def ex_org_after_def using u org_request.team_delete org_request.role_create by blast+
  then show ?thesis by (meson converse_rtranclp_into_rtranclp r_into_rtranclp)
qed

lemma ex_org_after: "og_roles ex_org_after \<noteq> og_roles ex_org" "og_teams ex_org_after = og_teams ex_org"
  by code_simp+

theorem tenants_isolated_witness:
  "org_policy [] (Some ex_user) ex_org_after ex_policy = org_policy [] (Some ex_user) ex_org ex_policy"
proof (rule tenants_isolated [OF ex_other_run ex_org_ok ex_org_home])
  show "(2::int) \<noteq> 0" "tenantOf (Some ex_user) \<noteq> 0" "tenantOf (Some ex_user) \<noteq> 2"
    by (simp_all add: tenantOf_def ex_user_def IsSuperAdmin_def HasRole_def normalizeTenant_def)
qed

theorem org_stays_ok_witness:
  "org_ok (snd (RoleCreate (Some ex_other_admin) ''ops'' [] [] [''read''] empty_org))"
proof (rule org_stays_ok)
  show "any_request^** empty_org (snd (RoleCreate (Some ex_other_admin) ''ops'' [] [] [''read''] empty_org))"
    unfolding any_request_def by (rule r_into_rtranclp) (use org_request.role_create in blast)
qed

lemma ex_grant_in_force: "DeployAuthorizer [ex_comp] (Some ex_user) ex_org ex_user 1 ''nginx''"
  by code_simp

text \<open>Disabling the team changes nothing.\<close>

lemma disabled_team_still_grants:
  "DeployAuthorizer [ex_comp] (Some ex_user) (snd (UpdateTeamWithPolicy None 1 ''core'' [] 0 [] ex_org)) ex_user 1 ''nginx''"
  by code_simp

text \<open>A handler that answers every request with the hosts' page and sets no header of its own.\<close>

definition ex_mux :: "nat web_handler" where
  "ex_mux r hdrs n = (\<lparr>rs_status = 200, rs_headers = hdrs, rs_body = ''[]''\<rparr>, n + 1)"

theorem page_cache_unused_witness:
  "fst (snd (serve ex_mux (server_chain ex_no_url [] (\<lambda>n. []) False (\<lambda>s. s) None)
      [(0, \<lparr>wr_method = ''GET'', wr_path = ''/api/hosts'', wr_uri = ''/api/hosts'', wr_host = ''h'', wr_origin = [],
        wr_referer = [], wr_cookie = [], wr_preflight = []\<rparr>)] (Map.empty, 0))) = Map.empty"
  by (rule page_cache_unused) (simp add: keeps_no_store_def ex_mux_def)

end
