(* ===== verification/Ipam.thy ===== *)
theory Ipam
  imports IpSafety
begin

text \<open>
  \<open>internal/ipam/ipam.go\<close>: the overlay addresses of a network, and the part of Go's \<open>net/netip\<close> package it rests
  on. An address is its bytes, four or sixteen, and its zone. The allocations are rows of a table in which a
  network has each text once, and texts compare as bytes; a query that fails is not modelled.
\<close>

section \<open>Addresses and prefixes\<close>

type_synonym naddr = "ip \<times> string"

type_synonym net_prefix = "ip \<times> nat"

text \<open>\<open>netip.ParseAddr\<close>: the first of the three characters decides.\<close>

definition ParseAddr :: "string \<Rightarrow> naddr option" where
  "ParseAddr s =
    (case find (\<lambda>c. c = CHR ''.'' \<or> c = CHR '':'' \<or> c = CHR ''%'') s of
       None \<Rightarrow> None
     | Some c \<Rightarrow>
        (if c = CHR ''.'' then map_option (\<lambda>a. (a, [])) (parse_ipv4 s)
         else if c = CHR ''%'' then None
         else if CHR ''%'' \<in> set s then
           (let zone = tl (dropWhile (\<lambda>c. c \<noteq> CHR ''%'') s)
            in if zone = [] then None else map_option (\<lambda>a. (a, zone)) (parse_ipv6 (takeWhile (\<lambda>c. c \<noteq> CHR ''%'') s)))
         else map_option (\<lambda>a. (a, [])) (parse_ipv6 s)))"

text \<open>The number after the slash: no sign and no leading zero.\<close>

definition prefix_bits :: "string \<Rightarrow> nat option" where
  "prefix_bits s =
    (if s \<noteq> [] \<and> list_all is_digit s \<and> (length s = 1 \<or> hd s \<noteq> CHR ''0'') then Some (nat (digits_value s)) else None)"

definition ParsePrefix :: "string \<Rightarrow> net_prefix option" where
  "ParsePrefix s =
    (case last_index ''/'' s of None \<Rightarrow> None | Some i \<Rightarrow>
      (case ParseAddr (take i s) of None \<Rightarrow> None | Some (a, zone) \<Rightarrow>
        (if zone \<noteq> [] then None
         else case prefix_bits (drop (i + 1) s) of None \<Rightarrow> None | Some n \<Rightarrow>
           (if n > 8 * length a then None else Some (a, n)))))"

definition Masked :: "net_prefix \<Rightarrow> net_prefix" where
  "Masked p = (mask_ip (fst p) (cidr_mask (snd p) (length (fst p))), snd p)"

definition prefix_contains :: "net_prefix \<Rightarrow> naddr \<Rightarrow> bool" where
  "prefix_contains p x =
    (snd x = [] \<and> length (fst x) = length (fst p) \<and>
     mask_ip (fst x) (cidr_mask (snd p) (length (fst p))) = mask_ip (fst p) (cidr_mask (snd p) (length (fst p))))"

definition addr_text :: "naddr \<Rightarrow> string" where
  "addr_text x =
    (if length (fst x) = 4 then v4_text (fst x)
     else (if take 12 (fst x) = v4_prefix then ''::ffff:'' @ v4_text (drop 12 (fst x)) else v6_text (fst x)) @
          (if snd x = [] then [] else ''%'' @ snd x))"

text \<open>\<open>Addr.Next\<close>: no address follows the last one.\<close>

definition next_addr :: "ip \<Rightarrow> ip option" where
  "next_addr a = (if list_all (\<lambda>b. b = 0) (nextIP a) then None else Some (nextIP a))"

section \<open>Allocations\<close>

record alloc_row =
  al_network :: int
  al_ip :: string
  al_family :: int
  al_node :: "int option"
  al_state :: string

datatype alloc_error = BadCIDR | BadIP string | OutsideNetwork string | IPTaken string | Exhausted string

definition familyOf :: "ip \<Rightarrow> int" where
  "familyOf a = (if length a = 4 then 4 else 6)"

text \<open>The last address of an IPv4 prefix, in 32 bit arithmetic.\<close>

definition lastIPv4 :: "net_prefix \<Rightarrow> ip" where
  "lastIPv4 p = ip4_of ((ip_val (fst p) + (2 ^ (32 - snd p) - 1)) mod 2 ^ 32)"

definition allocated :: "int \<Rightarrow> alloc_row list \<Rightarrow> string list" where
  "allocated net al = map al_ip (filter (\<lambda>r. al_network r = net) al)"

definition insert_alloc :: "int \<Rightarrow> string \<Rightarrow> int \<Rightarrow> alloc_row list \<Rightarrow> alloc_row list option" where
  "insert_alloc net ip family al =
    (if exists_row (\<lambda>r. al_network r = net \<and> al_ip r = ip) al then None
     else Some (al @ [\<lparr>al_network = net, al_ip = ip, al_family = family, al_node = None, al_state = ''allocated''\<rparr>]))"

lemma ip_val_zero: "list_all (\<lambda>b. b = 0) (a :: ip) \<longleftrightarrow> ip_val a = 0"
proof (induction a)
  case (Cons b a)
  have "0 \<le> ip_val a" "0 \<le> uint b" by (simp_all add: ip_val_bounds)
  then have "ip_val (b # a) = 0 \<longleftrightarrow> uint b = 0 \<and> ip_val a = 0"
    by (simp add: ip_val_Cons add_nonneg_eq_0_iff)
  then show ?case using Cons by (simp add: uint_0_iff)
qed simp

lemma next_addr_val:
  assumes "next_addr a = Some b"
  shows "ip_val b = ip_val a + 1" "length b = length a"
proof -
  from assms have b: "b = nextIP a" "ip_val b \<noteq> 0" by (auto simp: next_addr_def ip_val_zero split: if_splits)
  have "ip_val a + 1 < 256 ^ length a \<or> ip_val a + 1 = 256 ^ length a" using ip_val_bounds(2) [of a] by linarith
  then show "ip_val b = ip_val a + 1" using b ip_val_next [of a] ip_val_bounds(1) [of a] by auto
  show "length b = length a" using b(1) by simp
qed

text \<open>The search for a free address; it ends because an address grows until none follows.\<close>

function (sequential) alloc_loop ::
    "int \<Rightarrow> net_prefix \<Rightarrow> string list \<Rightarrow> ip option \<Rightarrow> alloc_row list \<Rightarrow> (string \<times> alloc_row list) option" where
  "alloc_loop net p reserved None al = None"
| "alloc_loop net p reserved (Some a) al =
    (if \<not> prefix_contains p (a, []) then None
     else if addr_text (a, []) \<in> set reserved then alloc_loop net p reserved (next_addr a) al
     else case insert_alloc net (addr_text (a, [])) (familyOf a) al of
       Some al' \<Rightarrow> Some (addr_text (a, []), al')
     | None \<Rightarrow> alloc_loop net p reserved (next_addr a) al)"
  by pat_completeness auto

termination
proof (relation "measure (\<lambda>(net, p, reserved, x, al). case x of None \<Rightarrow> 0 | Some a \<Rightarrow> Suc (nat (256 ^ length a - ip_val a)))")
  have dec: "(case next_addr a of None \<Rightarrow> 0 | Some b \<Rightarrow> Suc (nat (256 ^ length b - ip_val b))) < Suc (nat (256 ^ length a - ip_val a))" for a
    using next_addr_val [of a] ip_val_bounds(2) [of a] by (auto split: option.split)
  show "((net, p, reserved, next_addr a, al), (net, p, reserved, Some a, al))
      \<in> measure (\<lambda>(net, p, reserved, x, al). case x of None \<Rightarrow> 0 | Some a \<Rightarrow> Suc (nat (256 ^ length a - ip_val a)))"
    for net p a al and reserved :: "string list" using dec by simp
  then show "((net, p, reserved, next_addr a, al), (net, p, reserved, Some a, al))
      \<in> measure (\<lambda>(net, p, reserved, x, al). case x of None \<Rightarrow> 0 | Some a \<Rightarrow> Suc (nat (256 ^ length a - ip_val a)))"
    for net p a al and reserved :: "string list" .
qed simp

text \<open>The addresses that are never given out: those excluded by the caller, the network's own and an IPv4 broadcast.\<close>

definition kept_back :: "string list \<Rightarrow> net_prefix \<Rightarrow> string list" where
  "kept_back exclude p =
    filter (\<lambda>e. e \<noteq> []) exclude @ [addr_text (fst p, [])] @
    (if length (fst p) = 4 \<and> snd p < 32 then [addr_text (lastIPv4 p, [])] else [])"

definition Allocate ::
    "int \<Rightarrow> string \<Rightarrow> string \<Rightarrow> string list \<Rightarrow> alloc_row list \<Rightarrow> (alloc_error + string) \<times> alloc_row list" where
  "Allocate net cidr requested exclude al =
    (case ParsePrefix cidr of None \<Rightarrow> (Inl BadCIDR, al) | Some p0 \<Rightarrow>
      (let p = Masked p0;
           reserved = kept_back exclude p @ allocated net al
       in if requested \<noteq> [] then
            (case ParseAddr requested of None \<Rightarrow> (Inl (BadIP requested), al) | Some a \<Rightarrow>
              (if \<not> prefix_contains p a then (Inl (OutsideNetwork requested), al)
               else if requested \<in> set reserved then (Inl (IPTaken requested), al)
               else case insert_alloc net requested (familyOf (fst a)) al of
                 None \<Rightarrow> (Inl (IPTaken requested), al)
               | Some al' \<Rightarrow> (Inr requested, al')))
          else case alloc_loop net p reserved (next_addr (fst p)) al of
            None \<Rightarrow> (Inl (Exhausted cidr), al)
          | Some (ip, al') \<Rightarrow> (Inr ip, al')))"

definition BindNode :: "int \<Rightarrow> string \<Rightarrow> int \<Rightarrow> alloc_row list \<Rightarrow> alloc_row list" where
  "BindNode net ip node = upd_where (\<lambda>r. al_network r = net \<and> al_ip r = ip) (\<lambda>r. r\<lparr>al_node := Some node\<rparr>)"

definition ReleaseIP :: "int \<Rightarrow> string \<Rightarrow> alloc_row list \<Rightarrow> alloc_row list" where
  "ReleaseIP net ip = filter (\<lambda>r. \<not> (al_network r = net \<and> al_ip r = ip))"

definition ReleaseNode :: "int \<Rightarrow> alloc_row list \<Rightarrow> alloc_row list" where
  "ReleaseNode node = filter (\<lambda>r. al_node r \<noteq> Some node)"

definition List_allocs :: "int \<Rightarrow> alloc_row list \<Rightarrow> (string \<times> int \<times> int \<times> string) list" where
  "List_allocs net al =
    map (\<lambda>r. (al_ip r, al_family r, case al_node r of None \<Rightarrow> 0 | Some n \<Rightarrow> n, al_state r))
      (sort_key al_ip (filter (\<lambda>r. al_network r = net) al))"

end
