(* ===== verification/Overlay.thy ===== *)
theory Overlay
  imports Ipam Middleware
begin

text \<open>
  The control plane of the overlay network: \<open>internal/handler/networks.go\<close>, \<open>clients.go\<close>, \<open>server_nodes.go\<close>,
  \<open>routes.go\<close>, \<open>edge.go\<close>, \<open>cert.go\<close>, \<open>config.go\<close>, \<open>tunnel_agent.go\<close> and \<open>internal/configgen/configgen.go\<close>. Keys and
  certificates (\<open>internal/pki\<close>) and random tokens are parameters, as is the digest of a token; the YAML text of a
  configuration is the parameter \<open>yaml\<close>. A path without a number is refused before a handler runs. A statement fails
  only for a key that is taken or a row that is missing.
\<close>

section \<open>The tables\<close>

record nebula_settings =
  nb_cipher :: string
  nb_lighthouse_interval :: int
  nb_listen_port :: int
  nb_punch :: bool
  nb_punch_respond :: bool
  nb_punch_delay :: string
  nb_am_relay :: bool
  nb_use_relays :: bool
  nb_relays :: "string list"
  nb_tun_device :: string
  nb_tun_disabled :: bool
  nb_preferred_ranges :: "string list"
  nb_remote_allow_list :: "(string \<times> bool) list"
  nb_handshake_try_interval :: string
  nb_handshake_retries :: int
  nb_log_level :: string
  nb_log_format :: string
  nb_stats_type :: string
  nb_stats_listen :: string

record network =
  nw_id :: int
  nw_name :: string
  nw_cidr4 :: string
  nw_cidr6 :: string
  nw_gateway4 :: string
  nw_gateway6 :: string
  nw_dns :: string
  nw_mtu :: int
  nw_nebula :: nebula_settings
  nw_created_at :: string

record ca_row =
  ca_network :: int
  ca_cert :: string
  ca_key :: string
  ca_fingerprint :: string

record client_node =
  cn_id :: int
  cn_network :: int
  cn_name :: string
  cn_ipv4 :: string
  cn_ipv6 :: string
  cn_public_key :: string
  cn_cert :: string
  cn_key :: string
  cn_groups :: string
  cn_subnets :: string
  cn_os :: string
  cn_arch :: string
  cn_kernel :: string
  cn_version :: string
  cn_status :: string
  cn_last_seen :: string
  cn_config_rev :: int
  cn_enroll_hash :: string
  cn_secret_hash :: string
  cn_updated_at :: string

record server_node =
  sn_id :: int
  sn_network :: int
  sn_name :: string
  sn_roles :: string
  sn_region :: string
  sn_ip4 :: string
  sn_ip6 :: string
  sn_public_host :: string
  sn_public_port :: int
  sn_public_key :: string
  sn_cert :: string
  sn_key :: string

record subnet_route =
  rt_id :: int
  rt_network :: int
  rt_cidr :: string
  rt_mtu :: int
  rt_metric :: int
  rt_mode :: string
  rt_all_down :: string
  rt_enabled :: bool
  rt_description :: string

record route_gateway =
  gw_id :: int
  gw_route :: int
  gw_node :: int
  gw_ip :: string
  gw_weight :: int
  gw_priority :: int
  gw_health_target :: string
  gw_health_port :: int
  gw_enabled :: bool

record edge_service =
  es_id :: int
  es_network :: int
  es_name :: string
  es_host :: string
  es_target :: string
  es_protocol :: string
  es_tls_mode :: string
  es_public_port :: int
  es_enabled :: bool

record overlay_db =
  ov_networks :: "network list"
  ov_cas :: "ca_row list"
  ov_clients :: "client_node list"
  ov_servers :: "server_node list"
  ov_allocs :: "alloc_row list"
  ov_routes :: "subnet_route list"
  ov_gateways :: "route_gateway list"
  ov_edges :: "edge_service list"
  ov_revoked :: "(int \<times> string) list"
  ov_next_network :: int
  ov_next_client :: int
  ov_next_server :: int
  ov_next_route :: int
  ov_next_gateway :: int
  ov_next_edge :: int

text \<open>Keys and certificates: a new authority (certificate, key, fingerprint), a new key pair, a node's certificate
  from authority, key, public key, name, networks, unsafe networks and groups, and the fingerprint of a certificate.\<close>

record pki_lib =
  pk_ca :: "string \<Rightarrow> (string \<times> string \<times> string) option"
  pk_key :: "(string \<times> string) option"
  pk_issue :: "string \<Rightarrow> string \<Rightarrow> string \<Rightarrow> string \<Rightarrow> (ip \<times> nat option) list \<Rightarrow> net_prefix list \<Rightarrow> string list \<Rightarrow> string option"
  pk_parse :: "string \<Rightarrow> string option"

section \<open>Networks\<close>

record network_req =
  nr_name :: string
  nr_cidr4 :: string
  nr_cidr6 :: string
  nr_gateway4 :: string
  nr_gateway6 :: string
  nr_dns :: string
  nr_mtu :: int
  nr_nebula :: nebula_settings

definition getNetwork :: "int \<Rightarrow> overlay_db \<Rightarrow> network option" where
  "getNetwork i d = find (\<lambda>n. nw_id n = i) (ov_networks d)"

text \<open>The newest authority of the network.\<close>

definition getCA :: "int \<Rightarrow> overlay_db \<Rightarrow> (string \<times> string) option" where
  "getCA net d = map_option (\<lambda>c. (ca_cert c, ca_key c)) (find (\<lambda>c. ca_network c = net) (rev (ov_cas d)))"

definition getNebulaSettings :: "int \<Rightarrow> overlay_db \<Rightarrow> nebula_settings option" where
  "getNebulaSettings net d = map_option nw_nebula (getNetwork net d)"

definition ListNetworks :: "overlay_db \<Rightarrow> network list" where
  "ListNetworks d = sort_key nw_id (ov_networks d)"

definition CreateNetwork :: "pki_lib \<Rightarrow> string \<Rightarrow> network_req \<Rightarrow> (overlay_db, network) handler" where
  "CreateNetwork pki now r d =
    (if nr_name r = [] \<or> nr_cidr4 r = [] then (Inl 400, d)
     else case pk_ca pki (''iFlyGo CA ('' @ nr_name r @ '')'') of None \<Rightarrow> (Inl 500, d) | Some (cert, key, fp) \<Rightarrow>
       (if exists_row (\<lambda>n. nw_name n = nr_name r) (ov_networks d) then (Inl 500, d)
        else
         (let i = ov_next_network d;
              n = \<lparr>nw_id = i, nw_name = nr_name r, nw_cidr4 = nr_cidr4 r, nw_cidr6 = nr_cidr6 r, nw_gateway4 = nr_gateway4 r,
                   nw_gateway6 = nr_gateway6 r, nw_dns = nr_dns r, nw_mtu = (if nr_mtu r = 0 then 1300 else nr_mtu r),
                   nw_nebula = nr_nebula r, nw_created_at = now\<rparr>
          in (Inr n, d\<lparr>ov_networks := ov_networks d @ [n], ov_next_network := i + 1,
                       ov_cas := ov_cas d @ [\<lparr>ca_network = i, ca_cert = cert, ca_key = key, ca_fingerprint = fp\<rparr>]\<rparr>))))"

text \<open>Every table that refers to the network loses its rows.\<close>

definition DeleteNetwork :: "int \<Rightarrow> (overlay_db, unit) handler" where
  "DeleteNetwork i d =
    (Inr (), d\<lparr>ov_networks := filter (\<lambda>n. nw_id n \<noteq> i) (ov_networks d), ov_cas := filter (\<lambda>c. ca_network c \<noteq> i) (ov_cas d),
       ov_clients := filter (\<lambda>c. cn_network c \<noteq> i) (ov_clients d), ov_servers := filter (\<lambda>n. sn_network n \<noteq> i) (ov_servers d),
       ov_allocs := filter (\<lambda>r. al_network r \<noteq> i) (ov_allocs d), ov_routes := filter (\<lambda>r. rt_network r \<noteq> i) (ov_routes d),
       ov_gateways := filter (\<lambda>g. \<not> exists_row (\<lambda>r. rt_id r = gw_route g \<and> rt_network r = i) (ov_routes d)) (ov_gateways d),
       ov_edges := filter (\<lambda>e. es_network e \<noteq> i) (ov_edges d), ov_revoked := filter (\<lambda>r. fst r \<noteq> i) (ov_revoked d)\<rparr>)"

section \<open>Addresses of nodes\<close>

definition splitList :: "string \<Rightarrow> string list" where
  "splitList csv = filter (\<lambda>s. s \<noteq> []) (map trim_space (split_on CHR '','' csv))"

definition parsePrefixes :: "string \<Rightarrow> net_prefix list" where
  "parsePrefixes csv = concat (map (\<lambda>s. case ParsePrefix s of None \<Rightarrow> [] | Some p \<Rightarrow> [p]) (splitList csv))"

text \<open>A node's address with the length of its network's prefix, \<open>None\<close> for one that is too long for it.\<close>

definition node_prefix :: "string \<Rightarrow> string \<Rightarrow> (ip \<times> nat option) list" where
  "node_prefix ip cidr =
    (if ip = [] \<or> cidr = [] then []
     else case ParsePrefix cidr of None \<Rightarrow> [] | Some p \<Rightarrow>
       (case ParseAddr ip of None \<Rightarrow> [] | Some a \<Rightarrow> [(fst a, if snd p \<le> 8 * length (fst a) then Some (snd p) else None)]))"

definition nodePrefixes :: "network \<Rightarrow> string \<Rightarrow> string \<Rightarrow> (ip \<times> nat option) list" where
  "nodePrefixes n ip4 ip6 = node_prefix ip4 (nw_cidr4 n) @ node_prefix ip6 (nw_cidr6 n)"

definition rollbackIPs :: "int \<Rightarrow> string list \<Rightarrow> overlay_db \<Rightarrow> overlay_db" where
  "rollbackIPs net ips d = d\<lparr>ov_allocs := fold (\<lambda>ip al. if ip = [] then al else ReleaseIP net ip al) ips (ov_allocs d)\<rparr>"

text \<open>Both families of an address, the first given back when the second cannot be had. The two creating handlers
  begin alike.\<close>

definition allocate_both :: "network \<Rightarrow> string \<Rightarrow> string \<Rightarrow> overlay_db \<Rightarrow> (nat + string \<times> string) \<times> overlay_db" where
  "allocate_both n want4 want6 d =
    (let four = (if nw_cidr4 n = [] then (Inr [], ov_allocs d) else Allocate (nw_id n) (nw_cidr4 n) want4 [nw_gateway4 n] (ov_allocs d))
     in case four of (Inl e, al) \<Rightarrow> (Inl 400, d\<lparr>ov_allocs := al\<rparr>) | (Inr ip4, al) \<Rightarrow>
         (case (if nw_cidr6 n = [] then (Inr [], al) else Allocate (nw_id n) (nw_cidr6 n) want6 [nw_gateway6 n] al) of
            (Inl e, al') \<Rightarrow> (Inl 400, d\<lparr>ov_allocs := (if ip4 = [] then al' else ReleaseIP (nw_id n) ip4 al')\<rparr>)
          | (Inr ip6, al') \<Rightarrow> (Inr (ip4, ip6), d\<lparr>ov_allocs := al'\<rparr>)))"

definition bind_both :: "int \<Rightarrow> string \<Rightarrow> string \<Rightarrow> int \<Rightarrow> overlay_db \<Rightarrow> overlay_db" where
  "bind_both net ip4 ip6 node d =
    d\<lparr>ov_allocs := (if ip6 = [] then id else BindNode net ip6 node) ((if ip4 = [] then id else BindNode net ip4 node) (ov_allocs d))\<rparr>"

section \<open>Clients\<close>

record client_req =
  cq_network :: int
  cq_name :: string
  cq_ipv4 :: string
  cq_ipv6 :: string
  cq_groups :: string
  cq_subnets :: string

definition ListClients :: "overlay_db \<Rightarrow> client_node list" where
  "ListClients d = sort_key cn_id (ov_clients d)"

definition getClientRow :: "int \<Rightarrow> overlay_db \<Rightarrow> client_node option" where
  "getClientRow i d = find (\<lambda>c. cn_id c = i) (ov_clients d)"

definition CreateClient ::
    "pki_lib \<Rightarrow> string option \<Rightarrow> (string \<Rightarrow> string) \<Rightarrow> string \<Rightarrow> client_req \<Rightarrow> (overlay_db, client_node \<times> string) handler" where
  "CreateClient pki random digest now q d =
    (if cq_name q = [] \<or> cq_network q = 0 then (Inl 400, d)
     else case getNetwork (cq_network q) d of None \<Rightarrow> (Inl 404, d) | Some n \<Rightarrow>
       (case getCA (nw_id n) d of None \<Rightarrow> (Inl 500, d) | Some (caCert, caKey) \<Rightarrow>
         (case allocate_both n (cq_ipv4 q) (cq_ipv6 q) d of (Inl e, d1) \<Rightarrow> (Inl e, d1) | (Inr (ip4, ip6), d1) \<Rightarrow>
           (case pk_key pki of None \<Rightarrow> (Inl 500, rollbackIPs (nw_id n) [ip4, ip6] d1) | Some (pub, priv) \<Rightarrow>
             (case pk_issue pki caCert caKey pub (cq_name q) (nodePrefixes n ip4 ip6) (parsePrefixes (cq_subnets q)) (splitList (cq_groups q)) of
                None \<Rightarrow> (Inl 500, rollbackIPs (nw_id n) [ip4, ip6] d1)
              | Some cert \<Rightarrow>
                 (case random of None \<Rightarrow> (Inl 500, rollbackIPs (nw_id n) [ip4, ip6] d1) | Some token \<Rightarrow>
                   (if exists_row (\<lambda>c. cn_name c = cq_name q) (ov_clients d1)
                    then (Inl 500, rollbackIPs (nw_id n) [ip4, ip6] d1)
                    else
                     (let i = ov_next_client d1;
                          c = \<lparr>cn_id = i, cn_network = nw_id n, cn_name = cq_name q, cn_ipv4 = ip4, cn_ipv6 = ip6,
                               cn_public_key = pub, cn_cert = cert, cn_key = priv, cn_groups = cq_groups q,
                               cn_subnets = cq_subnets q, cn_os = [], cn_arch = [], cn_kernel = [], cn_version = [],
                               cn_status = ''offline'', cn_last_seen = [], cn_config_rev = 0,
                               cn_enroll_hash = digest token, cn_secret_hash = [], cn_updated_at = now\<rparr>
                      in (Inr (c, token), bind_both (nw_id n) ip4 ip6 i
                            (d1\<lparr>ov_clients := ov_clients d1 @ [c], ov_next_client := i + 1\<rparr>))))))))))"

definition GetClient :: "int \<Rightarrow> (overlay_db, client_node) handler" where
  "GetClient i d = (case getClientRow i d of None \<Rightarrow> (Inl 404, d) | Some c \<Rightarrow> (Inr c, d))"

definition DeleteClient :: "int \<Rightarrow> (overlay_db, unit) handler" where
  "DeleteClient i d =
    (Inr (), d\<lparr>ov_allocs := ReleaseNode i (ov_allocs d), ov_clients := filter (\<lambda>c. cn_id c \<noteq> i) (ov_clients d)\<rparr>)"

definition ClientEnrollToken :: "string option \<Rightarrow> (string \<Rightarrow> string) \<Rightarrow> string \<Rightarrow> int \<Rightarrow> (overlay_db, string) handler" where
  "ClientEnrollToken random digest now i d =
    (case getClientRow i d of None \<Rightarrow> (Inl 404, d) | Some c \<Rightarrow>
      (case random of None \<Rightarrow> (Inl 500, d) | Some token \<Rightarrow>
        (Inr token, d\<lparr>ov_clients := upd_where (\<lambda>c. cn_id c = i)
           (\<lambda>c. c\<lparr>cn_enroll_hash := digest token, cn_updated_at := now\<rparr>) (ov_clients d)\<rparr>)))"

section \<open>Servers\<close>

record server_req =
  sq_network :: int
  sq_name :: string
  sq_roles :: string
  sq_region :: string
  sq_ip4 :: string
  sq_ip6 :: string
  sq_public_host :: string
  sq_public_port :: int

definition ListServerNodes :: "overlay_db \<Rightarrow> server_node list" where
  "ListServerNodes d = sort_key sn_id (ov_servers d)"

definition CreateServerNode :: "pki_lib \<Rightarrow> server_req \<Rightarrow> (overlay_db, server_node) handler" where
  "CreateServerNode pki q d =
    (if sq_name q = [] \<or> sq_network q = 0 then (Inl 400, d)
     else case getNetwork (sq_network q) d of None \<Rightarrow> (Inl 404, d) | Some n \<Rightarrow>
       (case getCA (nw_id n) d of None \<Rightarrow> (Inl 500, d) | Some (caCert, caKey) \<Rightarrow>
         (case allocate_both n (sq_ip4 q) (sq_ip6 q) d of (Inl e, d1) \<Rightarrow> (Inl e, d1) | (Inr (ip4, ip6), d1) \<Rightarrow>
           (case pk_key pki of None \<Rightarrow> (Inl 500, rollbackIPs (nw_id n) [ip4, ip6] d1) | Some (pub, priv) \<Rightarrow>
             (case pk_issue pki caCert caKey pub (sq_name q) (nodePrefixes n ip4 ip6) [] [] of
                None \<Rightarrow> (Inl 500, rollbackIPs (nw_id n) [ip4, ip6] d1)
              | Some cert \<Rightarrow>
                 (if exists_row (\<lambda>s. sn_name s = sq_name q) (ov_servers d1)
                  then (Inl 500, rollbackIPs (nw_id n) [ip4, ip6] d1)
                  else
                   (let i = ov_next_server d1;
                        s = \<lparr>sn_id = i, sn_network = nw_id n, sn_name = sq_name q, sn_roles = sq_roles q, sn_region = sq_region q,
                             sn_ip4 = ip4, sn_ip6 = ip6, sn_public_host = sq_public_host q, sn_public_port = sq_public_port q,
                             sn_public_key = pub, sn_cert = cert, sn_key = priv\<rparr>
                    in (Inr s, bind_both (nw_id n) ip4 ip6 i
                          (d1\<lparr>ov_servers := ov_servers d1 @ [s], ov_next_server := i + 1\<rparr>)))))))))"

definition DeleteServerNode :: "int \<Rightarrow> (overlay_db, unit) handler" where
  "DeleteServerNode i d =
    (Inr (), d\<lparr>ov_allocs := ReleaseNode i (ov_allocs d), ov_servers := filter (\<lambda>s. sn_id s \<noteq> i) (ov_servers d)\<rparr>)"

end
