(* ===== verification/OverlayConfig.thy ===== *)
theory OverlayConfig
  imports Overlay Sessions
begin

text \<open>
  What nodes of the overlay are told: routes and edge services, the configuration of a node
  (\<open>internal/handler/config.go\<close>, \<open>internal/configgen/configgen.go\<close>), certificates, and the requests of the tunnel
  agent. A statement without an order answers the rows in the order of the table; a Go map is an association list.
\<close>

section \<open>Routes\<close>

record gateway_req =
  gq_node :: int
  gq_ip :: string
  gq_weight :: int
  gq_priority :: int
  gq_health_target :: string
  gq_health_port :: int

record route_req =
  rq_cidr :: string
  rq_mtu :: int
  rq_metric :: int
  rq_mode :: string
  rq_all_down :: string
  rq_description :: string
  rq_gateways :: "gateway_req list"

definition loadGateways :: "int \<Rightarrow> overlay_db \<Rightarrow> route_gateway list" where
  "loadGateways route d =
    sort_key gw_priority (sort_key gw_id (filter (\<lambda>g. gw_route g = route \<and> gw_enabled g) (ov_gateways d)))"

definition loadRoutes :: "int \<Rightarrow> overlay_db \<Rightarrow> (subnet_route \<times> route_gateway list) list" where
  "loadRoutes net d =
    map (\<lambda>r. (r, loadGateways (rt_id r) d)) (sort_key rt_id (filter (\<lambda>r. rt_network r = net \<and> rt_enabled r) (ov_routes d)))"

definition ListRoutes :: "int \<Rightarrow> overlay_db \<Rightarrow> (subnet_route \<times> route_gateway list) list" where
  "ListRoutes net d = loadRoutes net d"

definition insert_gateway :: "int \<Rightarrow> gateway_req \<Rightarrow> overlay_db \<Rightarrow> overlay_db" where
  "insert_gateway route q d =
    d\<lparr>ov_gateways := ov_gateways d @ [\<lparr>gw_id = ov_next_gateway d, gw_route = route, gw_node = gq_node q, gw_ip = gq_ip q,
         gw_weight = (if gq_weight q = 0 then 1 else gq_weight q), gw_priority = gq_priority q,
         gw_health_target = gq_health_target q, gw_health_port = gq_health_port q, gw_enabled = True\<rparr>],
      ov_next_gateway := ov_next_gateway d + 1\<rparr>"

definition CreateRoute :: "int \<Rightarrow> route_req \<Rightarrow> (overlay_db, (subnet_route \<times> route_gateway list) option) handler" where
  "CreateRoute net q d =
    (if rq_cidr q = [] \<or> rq_gateways q = [] then (Inl 400, d)
     else if getNetwork net d = None then (Inl 500, d)
     else
      (let i = ov_next_route d;
           r = \<lparr>rt_id = i, rt_network = net, rt_cidr = rq_cidr q, rt_mtu = rq_mtu q, rt_metric = rq_metric q,
                rt_mode = (if rq_mode q = [] then ''active_active'' else rq_mode q),
                rt_all_down = (if rq_all_down q = [] then ''fail_closed'' else rq_all_down q), rt_enabled = True,
                rt_description = rq_description q\<rparr>;
           d' = fold (insert_gateway i) (rq_gateways q) (d\<lparr>ov_routes := ov_routes d @ [r], ov_next_route := i + 1\<rparr>)
       in (Inr (find (\<lambda>x. rt_id (fst x) = i) (loadRoutes net d')), d')))"

definition DeleteRoute :: "int \<Rightarrow> (overlay_db, unit) handler" where
  "DeleteRoute i d =
    (Inr (), d\<lparr>ov_routes := filter (\<lambda>r. rt_id r \<noteq> i) (ov_routes d), ov_gateways := filter (\<lambda>g. gw_route g \<noteq> i) (ov_gateways d)\<rparr>)"

section \<open>Edge services\<close>

record edge_req =
  eq_network :: int
  eq_name :: string
  eq_host :: string
  eq_target :: string
  eq_protocol :: string
  eq_tls_mode :: string
  eq_public_port :: int

text \<open>One entry of an edge node's table: a host name for HTTP, a port for TCP.\<close>

record edge_route =
  er_host :: string
  er_port :: int
  er_target :: string

definition ListEdgeServices :: "int option \<Rightarrow> overlay_db \<Rightarrow> edge_service list" where
  "ListEdgeServices net d =
    sort_key es_id (filter (\<lambda>e. case net of None \<Rightarrow> True | Some n \<Rightarrow> es_network e = n) (ov_edges d))"

text \<open>The host of a service is unique, also the empty one of a TCP service.\<close>

definition CreateEdgeService :: "edge_req \<Rightarrow> (overlay_db, edge_service) handler" where
  "CreateEdgeService q d =
    (if eq_target q = [] \<or> eq_network q = 0 then (Inl 400, d)
     else
      (let protocol = (if eq_protocol q = [] then ''http'' else eq_protocol q);
           tls = (if eq_tls_mode q = [] then ''terminate'' else eq_tls_mode q)
       in if protocol = ''tcp'' \<and> eq_public_port q = 0 then (Inl 400, d)
          else if protocol \<noteq> ''tcp'' \<and> eq_host q = [] then (Inl 400, d)
          else if getNetwork (eq_network q) d = None \<or> exists_row (\<lambda>e. es_host e = eq_host q) (ov_edges d) then (Inl 500, d)
          else
           (let i = ov_next_edge d;
                e = \<lparr>es_id = i, es_network = eq_network q, es_name = eq_name q, es_host = eq_host q, es_target = eq_target q,
                     es_protocol = protocol, es_tls_mode = tls, es_public_port = eq_public_port q, es_enabled = True\<rparr>
            in (Inr e, d\<lparr>ov_edges := ov_edges d @ [e], ov_next_edge := i + 1\<rparr>))))"

definition DeleteEdgeService :: "int \<Rightarrow> (overlay_db, unit) handler" where
  "DeleteEdgeService i d = (Inr (), d\<lparr>ov_edges := filter (\<lambda>e. es_id e \<noteq> i) (ov_edges d)\<rparr>)"

definition EdgeRoutes :: "int \<Rightarrow> (overlay_db, edge_route list) handler" where
  "EdgeRoutes server d =
    (case find (\<lambda>s. sn_id s = server) (ov_servers d) of None \<Rightarrow> (Inl 404, d) | Some s \<Rightarrow>
      (Inr (map (\<lambda>e. if es_protocol e = ''tcp'' then \<lparr>er_host = [], er_port = es_public_port e, er_target = es_target e\<rparr>
                     else \<lparr>er_host = es_host e, er_port = 0, er_target = es_target e\<rparr>)
         (sort_key es_id (filter (\<lambda>e. es_network e = sn_network s \<and> es_enabled e) (ov_edges d)))), d))"

section \<open>The configuration of a node\<close>

datatype via = OneGateway string | Gateways "(string \<times> int) list"

record nebula_route =
  nt_route :: string
  nt_via :: via
  nt_mtu :: int
  nt_metric :: int

record gateway_spec =
  gs_ip :: string
  gs_weight :: int
  gs_priority :: int
  gs_health_target :: string
  gs_health_port :: int

record route_spec =
  rs_cidr :: string
  rs_mtu :: int
  rs_metric :: int
  rs_mode :: string
  rs_all_down :: string
  rs_gateways :: "gateway_spec list"

text \<open>What \<^verbatim>\<open>configgen.Input\<close> carries.\<close>

record config_input =
  ci_blocklist :: "string list"
  ci_lighthouse :: bool
  ci_listen_port :: int
  ci_lighthouses :: "string list"
  ci_static_hosts :: "(string \<times> string list) list"
  ci_am_relay :: bool
  ci_use_relays :: bool
  ci_relays :: "string list"
  ci_mtu :: int
  ci_dns :: "string list"
  ci_settings :: nebula_settings
  ci_unsafe_routes :: "nebula_route list"

record nebula_config =
  nc_pki :: "string \<times> string \<times> string"
  nc_blocklist :: "string list"
  nc_static_hosts :: "(string \<times> string list) list"
  nc_am_lighthouse :: bool
  nc_hosts :: "string list"
  nc_allow_list :: "(string \<times> bool) list"
  nc_port :: int
  nc_punchy :: "(bool \<times> bool \<times> string) option"
  nc_cipher :: string
  nc_preferred_ranges :: "string list"
  nc_relays :: "string list"
  nc_am_relay :: bool
  nc_use_relays :: bool
  nc_tun_disabled :: bool
  nc_tun_dev :: string
  nc_mtu :: int
  nc_unsafe_routes :: "nebula_route list"
  nc_logging :: "(string \<times> string) option"
  nc_handshakes :: "(string \<times> int) option"
  nc_outbound :: "(string \<times> string \<times> string) list"
  nc_inbound :: "(string \<times> string \<times> string) list"
  nc_stats :: "(string \<times> string) option"
  nc_dns :: "string option"

definition allow_any :: "string \<times> string \<times> string" where "allow_any = (''any'', ''any'', ''any'')"

definition defaultFirewall :: "(string \<times> string \<times> string) list \<times> (string \<times> string \<times> string) list" where
  "defaultFirewall = ([allow_any], [allow_any])"

definition Build :: "config_input \<Rightarrow> nebula_config" where
  "Build ci =
    (let s = ci_settings ci
     in \<lparr>nc_pki = (''ca.crt'', ''node.crt'', ''node.key''), nc_blocklist = ci_blocklist ci, nc_static_hosts = ci_static_hosts ci,
         nc_am_lighthouse = ci_lighthouse ci, nc_hosts = ci_lighthouses ci, nc_allow_list = nb_remote_allow_list s,
         nc_port = ci_listen_port ci,
         nc_punchy = (if nb_punch s \<or> nb_punch_respond s \<or> nb_punch_delay s \<noteq> []
                      then Some (nb_punch s, nb_punch_respond s, nb_punch_delay s) else None),
         nc_cipher = nb_cipher s, nc_preferred_ranges = nb_preferred_ranges s, nc_relays = ci_relays ci,
         nc_am_relay = ci_am_relay ci, nc_use_relays = ci_use_relays ci, nc_tun_disabled = nb_tun_disabled s,
         nc_tun_dev = nb_tun_device s, nc_mtu = ci_mtu ci, nc_unsafe_routes = ci_unsafe_routes ci,
         nc_logging = (if nb_log_level s \<noteq> [] \<or> nb_log_format s \<noteq> [] then Some (nb_log_level s, nb_log_format s) else None),
         nc_handshakes = (if nb_handshake_try_interval s \<noteq> [] \<or> nb_handshake_retries s \<noteq> 0
                          then Some (nb_handshake_try_interval s, nb_handshake_retries s) else None),
         nc_outbound = fst defaultFirewall, nc_inbound = snd defaultFirewall,
         nc_stats = (if nb_stats_type s \<noteq> [] \<or> nb_stats_listen s \<noteq> [] then Some (nb_stats_type s, nb_stats_listen s) else None),
         nc_dns = (case ci_dns ci of [] \<Rightarrow> None | x # _ \<Rightarrow> Some x)\<rparr>)"

definition endpoint :: "string \<Rightarrow> int \<Rightarrow> string" where
  "endpoint host port = host @ '':'' @ int_dec port"

definition add_endpoint :: "string \<Rightarrow> string \<Rightarrow> (string \<times> string list) list \<Rightarrow> (string \<times> string list) list" where
  "add_endpoint ip e m =
    (if exists_row (\<lambda>x. fst x = ip) m then upd_where (\<lambda>x. fst x = ip) (\<lambda>x. (fst x, snd x @ [e])) m else m @ [(ip, [e])])"

definition add_lighthouse :: "server_node \<Rightarrow> string list \<times> (string \<times> string list) list \<Rightarrow> string list \<times> (string \<times> string list) list" where
  "add_lighthouse s acc =
    (if sn_public_host s = [] \<or> sn_public_port s \<le> 0 then acc
     else fold (\<lambda>ip (hosts, m). if ip = [] then (hosts, m) else (hosts @ [ip], add_endpoint ip (endpoint (sn_public_host s) (sn_public_port s)) m))
            [sn_ip4 s, sn_ip6 s] acc)"

definition loadLighthouses :: "int \<Rightarrow> overlay_db \<Rightarrow> string list \<times> (string \<times> string list) list" where
  "loadLighthouses net d =
    fold add_lighthouse (filter (\<lambda>s. sn_network s = net \<and> contains ''lighthouse'' (sn_roles s)) (ov_servers d)) ([], [])"

definition loadRelayIPs :: "int \<Rightarrow> overlay_db \<Rightarrow> string list" where
  "loadRelayIPs net d =
    concat (map (\<lambda>s. filter (\<lambda>ip. ip \<noteq> []) [sn_ip4 s, sn_ip6 s])
      (filter (\<lambda>s. sn_network s = net \<and> contains ''relay'' (sn_roles s)) (ov_servers d)))"

definition loadRevocations :: "int \<Rightarrow> overlay_db \<Rightarrow> string list" where
  "loadRevocations net d = map snd (filter (\<lambda>r. fst r = net) (ov_revoked d))"

definition config_route :: "subnet_route \<times> route_gateway list \<Rightarrow> nebula_route" where
  "config_route x =
    \<lparr>nt_route = rt_cidr (fst x),
     nt_via = (case snd x of [g] \<Rightarrow> OneGateway (gw_ip g) | gs \<Rightarrow> Gateways (map (\<lambda>g. (gw_ip g, gw_weight g)) gs)),
     nt_mtu = rt_mtu (fst x), nt_metric = rt_metric (fst x)\<rparr>"

definition client_route :: "subnet_route \<times> route_gateway list \<Rightarrow> route_spec" where
  "client_route x =
    \<lparr>rs_cidr = rt_cidr (fst x), rs_mtu = rt_mtu (fst x), rs_metric = rt_metric (fst x), rs_mode = rt_mode (fst x),
     rs_all_down = rt_all_down (fst x),
     rs_gateways = map (\<lambda>g. \<lparr>gs_ip = gw_ip g, gs_weight = gw_weight g, gs_priority = gw_priority g,
        gs_health_target = gw_health_target g, gs_health_port = gw_health_port g\<rparr>) (snd x)\<rparr>"

definition loadRouteConfig :: "int \<Rightarrow> overlay_db \<Rightarrow> nebula_route list \<times> route_spec list" where
  "loadRouteConfig net d = (map config_route (loadRoutes net d), map client_route (loadRoutes net d))"

definition buildNebulaInput :: "int \<Rightarrow> bool \<Rightarrow> int \<Rightarrow> bool \<Rightarrow> overlay_db \<Rightarrow> config_input option" where
  "buildNebulaInput net isLighthouse listenPort amRelay d =
    (case getNetwork net d of None \<Rightarrow> None | Some n \<Rightarrow>
     (case getNebulaSettings net d of None \<Rightarrow> None | Some s \<Rightarrow>
      (case loadLighthouses net d of (hosts, static) \<Rightarrow>
        Some \<lparr>ci_blocklist = loadRevocations net d, ci_lighthouse = isLighthouse, ci_listen_port = listenPort,
              ci_lighthouses = hosts, ci_static_hosts = static, ci_am_relay = amRelay, ci_use_relays = nb_use_relays s,
              ci_relays = nb_relays s @ loadRelayIPs net d, ci_mtu = nw_mtu n,
              ci_dns = (if nw_dns n = [] then [] else split_on CHR '','' (nw_dns n)), ci_settings = s,
              ci_unsafe_routes = fst (loadRouteConfig net d)\<rparr>)))"

record node_bundle =
  bu_network :: string
  bu_ipv4 :: string
  bu_ipv6 :: string
  bu_mtu :: int
  bu_dns :: string
  bu_ca :: string
  bu_cert :: string
  bu_key :: string
  bu_config :: string
  bu_config_rev :: int
  bu_routes :: "route_spec list"

definition buildBundle :: "(nebula_config \<Rightarrow> string) \<Rightarrow> client_node \<Rightarrow> overlay_db \<Rightarrow> node_bundle option" where
  "buildBundle yaml c d =
    (case getNetwork (cn_network c) d of None \<Rightarrow> None | Some n \<Rightarrow>
     (case getCA (nw_id n) d of None \<Rightarrow> None | Some (caCert, _) \<Rightarrow>
      (case buildNebulaInput (cn_network c) False 0 False d of None \<Rightarrow> None | Some ci \<Rightarrow>
        Some \<lparr>bu_network = nw_name n, bu_ipv4 = cn_ipv4 c, bu_ipv6 = cn_ipv6 c, bu_mtu = nw_mtu n, bu_dns = nw_dns n,
              bu_ca = caCert, bu_cert = cn_cert c, bu_key = cn_key c, bu_config = yaml (Build ci),
              bu_config_rev = cn_config_rev c, bu_routes = snd (loadRouteConfig (cn_network c) d)\<rparr>)))"

definition or_500 :: "'b option \<Rightarrow> overlay_db \<Rightarrow> (nat + 'b) \<times> overlay_db" where
  "or_500 x d = (case x of None \<Rightarrow> (Inl 500, d) | Some b \<Rightarrow> (Inr b, d))"

definition ClientBundle :: "(nebula_config \<Rightarrow> string) \<Rightarrow> int \<Rightarrow> (overlay_db, node_bundle) handler" where
  "ClientBundle yaml i d =
    (case getClientRow i d of None \<Rightarrow> (Inl 404, d) | Some c \<Rightarrow> or_500 (buildBundle yaml c d) d)"

definition ServerNodeBundle :: "(nebula_config \<Rightarrow> string) \<Rightarrow> int \<Rightarrow> (overlay_db, node_bundle) handler" where
  "ServerNodeBundle yaml i d =
    (case find (\<lambda>s. sn_id s = i) (ov_servers d) of None \<Rightarrow> (Inl 404, d) | Some s \<Rightarrow>
      (case getCA (sn_network s) d of None \<Rightarrow> (Inl 500, d) | Some (caCert, _) \<Rightarrow>
        or_500 (map_option (\<lambda>ci. \<lparr>bu_network = [], bu_ipv4 = [], bu_ipv6 = [], bu_mtu = 0, bu_dns = [], bu_ca = caCert,
              bu_cert = sn_cert s, bu_key = sn_key s, bu_config = yaml (Build ci), bu_config_rev = 0, bu_routes = []\<rparr>)
            (buildNebulaInput (sn_network s) (contains ''lighthouse'' (sn_roles s)) (sn_public_port s)
               (contains ''relay'' (sn_roles s)) d)) d))"

section \<open>Certificates\<close>

definition bumpConfigRev :: "int \<Rightarrow> overlay_db \<Rightarrow> overlay_db" where
  "bumpConfigRev net d =
    d\<lparr>ov_clients := upd_where (\<lambda>c. cn_network c = net) (\<lambda>c. c\<lparr>cn_config_rev := cn_config_rev c + 1\<rparr>) (ov_clients d)\<rparr>"

definition RenewCert :: "pki_lib \<Rightarrow> string \<Rightarrow> int \<Rightarrow> (overlay_db, unit) handler" where
  "RenewCert pki now i d =
    (case getClientRow i d of None \<Rightarrow> (Inl 404, d) | Some c \<Rightarrow>
     (case getNetwork (cn_network c) d of None \<Rightarrow> (Inl 500, d) | Some n \<Rightarrow>
      (case getCA (nw_id n) d of None \<Rightarrow> (Inl 500, d) | Some (caCert, caKey) \<Rightarrow>
       (case pk_issue pki caCert caKey (cn_public_key c) (cn_name c) (nodePrefixes n (cn_ipv4 c) (cn_ipv6 c))
               (parsePrefixes (cn_subnets c)) (splitList (cn_groups c)) of
          None \<Rightarrow> (Inl 500, d)
        | Some cert \<Rightarrow>
           (Inr (), bumpConfigRev (cn_network c) (d\<lparr>ov_clients := upd_where (\<lambda>r. cn_id r = i)
              (\<lambda>r. r\<lparr>cn_cert := cert, cn_updated_at := now\<rparr>) (ov_clients d)\<rparr>))))))"

definition RevokeCert :: "pki_lib \<Rightarrow> int \<Rightarrow> (overlay_db, unit) handler" where
  "RevokeCert pki i d =
    (case getClientRow i d of None \<Rightarrow> (Inl 404, d) | Some c \<Rightarrow>
     (case pk_parse pki (cn_cert c) of None \<Rightarrow> (Inl 500, d) | Some fp \<Rightarrow>
       (Inr (), bumpConfigRev (cn_network c) (d\<lparr>ov_revoked := ov_revoked d @ [(cn_network c, fp)]\<rparr>))))"

definition ListRevocations :: "int \<Rightarrow> overlay_db \<Rightarrow> string list" where
  "ListRevocations net d = loadRevocations net d"

section \<open>Requests of the tunnel agent\<close>

record tunnel_register =
  tr_token :: string
  tr_os :: string
  tr_arch :: string
  tr_kernel :: string
  tr_version :: string

text \<open>Registration is a SELECT of the token's client, an UPDATE of that client, and the answer, outside a transaction:
  other requests may come between the first two.\<close>

definition register_select :: "(string \<Rightarrow> string) \<Rightarrow> tunnel_register \<Rightarrow> overlay_db \<Rightarrow> int option" where
  "register_select digest q d =
    (if tr_token q = [] then None else map_option cn_id (find (\<lambda>c. cn_enroll_hash c = digest (tr_token q)) (ov_clients d)))"

definition register_store :: "(string \<Rightarrow> string) \<Rightarrow> string \<Rightarrow> tunnel_register \<Rightarrow> int \<Rightarrow> string \<Rightarrow> overlay_db \<Rightarrow> overlay_db" where
  "register_store digest now q i secret d =
    d\<lparr>ov_clients := upd_where (\<lambda>c. cn_id c = i)
      (\<lambda>c. c\<lparr>cn_enroll_hash := [], cn_secret_hash := digest secret, cn_os := tr_os q, cn_arch := tr_arch q,
             cn_kernel := tr_kernel q, cn_version := tr_version q, cn_status := ''online'', cn_last_seen := now,
             cn_updated_at := now\<rparr>) (ov_clients d)\<rparr>"

definition register_answer ::
    "(nebula_config \<Rightarrow> string) \<Rightarrow> int \<Rightarrow> string \<Rightarrow> (overlay_db, int \<times> string \<times> node_bundle) handler" where
  "register_answer yaml i secret d =
    (case getClientRow i d of None \<Rightarrow> (Inl 500, d) | Some c \<Rightarrow>
      (case buildBundle yaml c d of None \<Rightarrow> (Inl 500, d) | Some b \<Rightarrow> (Inr (i, secret, b), d)))"

text \<open>A registration that no other request overlaps.\<close>

definition TunnelAgentRegister ::
    "string option \<Rightarrow> (string \<Rightarrow> string) \<Rightarrow> (nebula_config \<Rightarrow> string) \<Rightarrow> string \<Rightarrow> tunnel_register \<Rightarrow>
     (overlay_db, int \<times> string \<times> node_bundle) handler" where
  "TunnelAgentRegister random digest yaml now q d =
    (case register_select digest q d of None \<Rightarrow> (Inl 401, d) | Some i \<Rightarrow>
      (case random of None \<Rightarrow> (Inl 500, d) | Some secret \<Rightarrow>
        register_answer yaml i secret (register_store digest now q i secret d)))"

text \<open>The credentials of an agent: its number and its secret after a colon.\<close>

definition tunnelAgentClient :: "(string \<Rightarrow> string) \<Rightarrow> string \<Rightarrow> overlay_db \<Rightarrow> client_node option" where
  "tunnelAgentClient digest authorization d =
    (let h = trim_prefix ''Bearer '' authorization
     in if CHR '':'' \<notin> set h then None
        else case parse_int64 (takeWhile (\<lambda>c. c \<noteq> CHR '':'') h) of None \<Rightarrow> None | Some i \<Rightarrow>
         (case getClientRow i d of None \<Rightarrow> None | Some c \<Rightarrow>
           (if cn_secret_hash c = digest (tl (dropWhile (\<lambda>c. c \<noteq> CHR '':'') h)) then Some c else None)))"

definition TunnelAgentHeartbeat :: "(string \<Rightarrow> string) \<Rightarrow> string \<Rightarrow> string \<Rightarrow> (overlay_db, int) handler" where
  "TunnelAgentHeartbeat digest now authorization d =
    (case tunnelAgentClient digest authorization d of None \<Rightarrow> (Inl 401, d) | Some c \<Rightarrow>
      (Inr (cn_config_rev c), d\<lparr>ov_clients := upd_where (\<lambda>r. cn_id r = cn_id c)
         (\<lambda>r. r\<lparr>cn_status := ''online'', cn_last_seen := now, cn_updated_at := now\<rparr>) (ov_clients d)\<rparr>))"

definition TunnelAgentConfig :: "(string \<Rightarrow> string) \<Rightarrow> (nebula_config \<Rightarrow> string) \<Rightarrow> string \<Rightarrow> (overlay_db, node_bundle) handler" where
  "TunnelAgentConfig digest yaml authorization d =
    (case tunnelAgentClient digest authorization d of None \<Rightarrow> (Inl 401, d) | Some c \<Rightarrow> or_500 (buildBundle yaml c d) d)"

end
