(* ===== verification/OverlaySafety.thy ===== *)
theory OverlaySafety
  imports OverlayConfig
begin

text \<open>
  What the overlay's control plane keeps: an automatic address is the first free one of its network, and no two nodes
  have the same address text as long as no deletion hits the number of a node of the other kind.
\<close>

section \<open>The first free address\<close>

lemma prefix_contains_val:
  assumes "length b = length (fst p)" "snd p \<le> 8 * length (fst p)"
  shows "prefix_contains p (b, []) \<longleftrightarrow>
    ip_val b div 2 ^ (8 * length (fst p) - snd p) = ip_val (fst p) div 2 ^ (8 * length (fst p) - snd p)"
proof -
  have "prefix_contains p (b, []) \<longleftrightarrow> ip_val (mask_ip b (cidr_mask (snd p) (length (fst p)))) = ip_val (mask_ip (fst p) (cidr_mask (snd p) (length (fst p))))"
    using assms ip_val_inj [of "mask_ip b (cidr_mask (snd p) (length (fst p)))" "mask_ip (fst p) (cidr_mask (snd p) (length (fst p)))"]
    by (auto simp: prefix_contains_def mask_ip_def)
  then show ?thesis using mask_ip_val [of "snd p" b] mask_ip_val [of "snd p" "fst p"] assms by simp
qed

definition taken :: "int \<Rightarrow> string list \<Rightarrow> alloc_row list \<Rightarrow> ip \<Rightarrow> bool" where
  "taken net reserved al b =
    (addr_text (b, []) \<in> set reserved \<or> exists_row (\<lambda>r. al_network r = net \<and> al_ip r = addr_text (b, [])) al)"

text \<open>From an address on, all addresses of a prefix are there until the first that is not.\<close>

lemma prefix_interval:
  assumes "length a = length (fst p)" "length b = length (fst p)" "snd p \<le> 8 * length (fst p)"
    and "ip_val (fst p) \<le> ip_val a" "ip_val a \<le> ip_val b" "prefix_contains p (b, [])"
  shows "prefix_contains p (a, [])"
proof -
  let ?h = "2 ^ (8 * length (fst p) - snd p) :: int"
  have "ip_val b div ?h = ip_val (fst p) div ?h" using assms(6) prefix_contains_val [OF assms(2,3)] by simp
  moreover have "ip_val (fst p) div ?h \<le> ip_val a div ?h" "ip_val a div ?h \<le> ip_val b div ?h"
    using assms(4,5) by (simp_all add: zdiv_mono1)
  ultimately show ?thesis using prefix_contains_val [OF assms(1,3)] by simp
qed

definition alloc_found :: "int \<Rightarrow> net_prefix \<Rightarrow> string list \<Rightarrow> ip \<Rightarrow> alloc_row list \<Rightarrow> string \<times> alloc_row list \<Rightarrow> bool" where
  "alloc_found net p reserved a0 al x =
    (\<exists>a. length a = length (fst p) \<and> ip_val a0 \<le> ip_val a \<and> prefix_contains p (a, []) \<and> fst x = addr_text (a, []) \<and>
       \<not> taken net reserved al a \<and> insert_alloc net (fst x) (familyOf a) al = Some (snd x) \<and>
       (\<forall>b. length b = length (fst p) \<longrightarrow> ip_val a0 \<le> ip_val b \<longrightarrow> ip_val b < ip_val a \<longrightarrow> taken net reserved al b))"

definition none_free :: "int \<Rightarrow> net_prefix \<Rightarrow> string list \<Rightarrow> ip \<Rightarrow> alloc_row list \<Rightarrow> bool" where
  "none_free net p reserved a0 al =
    (\<forall>b. length b = length (fst p) \<longrightarrow> ip_val a0 \<le> ip_val b \<longrightarrow> prefix_contains p (b, []) \<longrightarrow> taken net reserved al b)"

lemma next_addr_None: "next_addr a = None \<Longrightarrow> length b = length a \<Longrightarrow> ip_val b \<le> ip_val a"
  using ip_val_bounds(2) [of b] ip_val_bounds [of a] ip_val_next [of a]
  by (cases "ip_val a + 1 = 256 ^ length a") (auto simp: next_addr_def ip_val_zero split: if_splits)

lemma alloc_loop_spec:
  assumes "length a = length (fst p)" "snd p \<le> 8 * length (fst p)" "ip_val (fst p) \<le> ip_val a"
  shows "case alloc_loop net p reserved (Some a) al of
      Some x \<Rightarrow> alloc_found net p reserved a al x | None \<Rightarrow> none_free net p reserved a al"
  using assms(1,3)
proof (induction "nat (256 ^ length a - ip_val a)" arbitrary: a rule: less_induct)
  case less
  show ?case
  proof (cases "prefix_contains p (a, []) \<and> taken net reserved al a")
    case False
    show ?thesis
    proof (cases "prefix_contains p (a, [])")
      case True
      with False have t: "\<not> taken net reserved al a" by simp
      then have e: "insert_alloc net (addr_text (a, [])) (familyOf a) al =
          Some (al @ [\<lparr>al_network = net, al_ip = addr_text (a, []), al_family = familyOf a, al_node = None, al_state = ''allocated''\<rparr>])"
        by (simp add: taken_def insert_alloc_def)
      have "alloc_loop net p reserved (Some a) al = Some (addr_text (a, []), the (insert_alloc net (addr_text (a, [])) (familyOf a) al))"
        using True t e by (simp add: taken_def)
      moreover have "alloc_found net p reserved a al (addr_text (a, []), the (insert_alloc net (addr_text (a, [])) (familyOf a) al))"
        unfolding alloc_found_def using True t e less.prems by (intro exI [of _ a]) auto
      ultimately show ?thesis by simp
    next
      case out: False
      have "none_free net p reserved a al" unfolding none_free_def
        using out prefix_interval [OF less.prems(1) _ assms(2) less.prems(2)] by blast
      with out show ?thesis by simp
    qed
  next
    case True
    then have go: "alloc_loop net p reserved (Some a) al = alloc_loop net p reserved (next_addr a) al"
      by (auto simp: taken_def insert_alloc_def)
    show ?thesis
    proof (cases "next_addr a")
      case None
      have "none_free net p reserved a al" unfolding none_free_def
      proof (intro allI impI)
        fix b assume b: "length b = length (fst p)" "ip_val a \<le> ip_val b"
        with next_addr_None [OF None, of b] less.prems(1) have "ip_val b = ip_val a" by simp
        then have "b = a" using b(1) less.prems(1) by (intro ip_val_inj) simp_all
        with True show "taken net reserved al b" by simp
      qed
      with go None show ?thesis by simp
    next
      case (Some b)
      note v = next_addr_val [OF Some]
      have l: "length b = length (fst p)" using v(2) less.prems(1) by simp
      have "ip_val a < 256 ^ length a" by (rule ip_val_bounds(2))
      then have "nat (256 ^ length b - ip_val b) < nat (256 ^ length a - ip_val a)" using v by simp
      from less.hyps [OF this l] v less.prems(2)
      have ih: "case alloc_loop net p reserved (Some b) al of
          Some x \<Rightarrow> alloc_found net p reserved b al x | None \<Rightarrow> none_free net p reserved b al" by simp
      have c: "taken net reserved al y" if "length y = length (fst p)" "ip_val a \<le> ip_val y" "\<not> ip_val b \<le> ip_val y" for y
      proof -
        have "ip_val y = ip_val a" using that v(1) by simp
        then have "y = a" using that(1) less.prems(1) by (intro ip_val_inj) simp_all
        with True show ?thesis by simp
      qed
      show ?thesis
      proof (cases "alloc_loop net p reserved (Some b) al")
        case None
        with ih c have "none_free net p reserved a al" unfolding none_free_def by (simp, metis)
        with go Some None show ?thesis by simp
      next
        case (Some x)
        with ih have f: "alloc_found net p reserved b al x" by simp
        then have "alloc_found net p reserved a al x" unfolding alloc_found_def using c v(1)
          by (elim exE conjE) (rule exI, intro conjI, assumption, simp, assumption, assumption, assumption, assumption, metis)
        with go Some \<open>next_addr a = Some b\<close> show ?thesis by simp
      qed
    qed
  qed
qed

lemma ParsePrefix_bits: "ParsePrefix s = Some p \<Longrightarrow> snd p \<le> 8 * length (fst p)"
  by (auto simp: ParsePrefix_def split: option.splits if_splits)

lemma allocated_taken: "taken net (reserved @ allocated net al) al b \<longleftrightarrow> taken net reserved al b"
  by (auto simp: taken_def allocated_def exists_row_iff)

text \<open>C40: Automatic addresses. A node that asks for no particular address gets the first one after the address of
  the network that lies in the network, is not held back (the gateway, the broadcast address) and is not given to
  anyone, and the table gains exactly that row; the network is said to be exhausted only when there is none.\<close>

theorem Allocate_first_free:
  assumes "ParsePrefix cidr = Some p0"
  shows "case Allocate net cidr [] exclude al of
      (Inr ip, al') \<Rightarrow> (\<exists>a. length a = length (fst p0) \<and> ip_val (fst (Masked p0)) < ip_val a \<and> prefix_contains (Masked p0) (a, []) \<and>
          ip = addr_text (a, []) \<and> \<not> taken net (kept_back exclude (Masked p0)) al a \<and>
          al' = al @ [\<lparr>al_network = net, al_ip = ip, al_family = familyOf a, al_node = None, al_state = ''allocated''\<rparr>] \<and>
          (\<forall>b. length b = length (fst p0) \<and> ip_val (fst (Masked p0)) < ip_val b \<and> ip_val b < ip_val a \<longrightarrow>
             taken net (kept_back exclude (Masked p0)) al b))
    | (Inl e, al') \<Rightarrow> e = Exhausted cidr \<and> al' = al \<and>
        (\<forall>b. length b = length (fst p0) \<and> ip_val (fst (Masked p0)) < ip_val b \<and> prefix_contains (Masked p0) (b, []) \<longrightarrow>
             taken net (kept_back exclude (Masked p0)) al b)"
proof -
  let ?p = "Masked p0"
  let ?r = "kept_back exclude ?p @ allocated net al"
  have len: "length (fst ?p) = length (fst p0)" by (simp add: Masked_def mask_ip_def)
  have bits: "snd ?p \<le> 8 * length (fst ?p)" using ParsePrefix_bits [OF assms] by (simp add: len) (simp add: Masked_def)
  have e: "Allocate net cidr [] exclude al = (case alloc_loop net ?p ?r (next_addr (fst ?p)) al of
      None \<Rightarrow> (Inl (Exhausted cidr), al) | Some (ip, al') \<Rightarrow> (Inr ip, al'))"
    using assms by (simp add: Allocate_def Let_def)
  show ?thesis
  proof (cases "next_addr (fst ?p)")
    case None
    then have "ip_val b \<le> ip_val (fst ?p)" if "length b = length (fst p0)" for b using next_addr_None [OF None, of b] that len by simp
    then have "\<not> (length b = length (fst p0) \<and> ip_val (fst ?p) < ip_val b)" for b by fastforce
    then show ?thesis using None by (auto simp: e)
  next
    case (Some a0)
    note v = next_addr_val [OF Some]
    have spec: "case alloc_loop net ?p ?r (Some a0) al of
        Some x \<Rightarrow> alloc_found net ?p ?r a0 al x | None \<Rightarrow> none_free net ?p ?r a0 al"
      by (rule alloc_loop_spec) (use v bits in simp_all)
    have le: "ip_val a0 \<le> ip_val b \<longleftrightarrow> ip_val (fst ?p) < ip_val b" for b using v(1) by linarith
    show ?thesis
    proof (cases "alloc_loop net ?p ?r (Some a0) al")
      case None
      then show ?thesis using spec Some by (simp add: e none_free_def allocated_taken le len)
    next
      case (Some x)
      obtain ip al' where x: "x = (ip, al')" by (cases x)
      from spec Some x obtain a where a: "length a = length (fst ?p)" "ip_val a0 \<le> ip_val a" "prefix_contains ?p (a, [])"
        "ip = addr_text (a, [])" "\<not> taken net ?r al a" "insert_alloc net ip (familyOf a) al = Some al'"
        "\<forall>b. length b = length (fst ?p) \<longrightarrow> ip_val a0 \<le> ip_val b \<longrightarrow> ip_val b < ip_val a \<longrightarrow> taken net ?r al b"
        by (auto simp: alloc_found_def)
      have "al' = al @ [\<lparr>al_network = net, al_ip = ip, al_family = familyOf a, al_node = None, al_state = ''allocated''\<rparr>]"
        using a(6) by (simp add: insert_alloc_def split: if_splits)
      with a show ?thesis using Some \<open>next_addr (fst ?p) = Some a0\<close> x
        by (simp add: e allocated_taken le len) (intro exI [of _ a], simp)
    qed
  qed
qed

text \<open>
  Every request to the control plane as a step, and what all of them keep: nodes that are there own their addresses,
  so no two nodes have the same one - as long as no node is deleted whose number a node of the other kind has too.
  Without that proviso it fails, because the table of allocations does not tell the kinds apart.
\<close>

section \<open>Requests\<close>

definition no_client :: "int \<Rightarrow> overlay_db \<Rightarrow> bool" where
  "no_client i d = (\<not> exists_row (\<lambda>c. cn_id c = i) (ov_clients d))"

definition no_server :: "int \<Rightarrow> overlay_db \<Rightarrow> bool" where
  "no_server i d = (\<not> exists_row (\<lambda>s. sn_id s = i) (ov_servers d))"

text \<open>What a step does that the properties below speak of: a deletion by number, the digest of a token that is given out,
  a registration of a client.\<close>

datatype overlay_action =
  NetworkDelete int
| ClientDelete int
| ServerDelete int
| TokenIssued "string option"
| Registered int
| OtherRequest

text \<open>A registration is its UPDATE alone, of the client that some earlier SELECT answered.\<close>

inductive overlay_step :: "overlay_action \<Rightarrow> overlay_db \<Rightarrow> overlay_db \<Rightarrow> bool" where
  network_create: "overlay_step OtherRequest d (snd (CreateNetwork pki now r d))"
| network_delete: "overlay_step (NetworkDelete i) d (snd (DeleteNetwork i d))"
| client_create: "overlay_step (TokenIssued (map_option digest random)) d (snd (CreateClient pki random digest now q d))"
| client_delete: "overlay_step (ClientDelete i) d (snd (DeleteClient i d))"
| client_token: "overlay_step (TokenIssued (map_option digest random)) d (snd (ClientEnrollToken random digest now i d))"
| server_create: "overlay_step OtherRequest d (snd (CreateServerNode pki sq d))"
| server_delete: "overlay_step (ServerDelete i) d (snd (DeleteServerNode i d))"
| route_create: "overlay_step OtherRequest d (snd (CreateRoute i rq d))"
| route_delete: "overlay_step OtherRequest d (snd (DeleteRoute i d))"
| edge_create: "overlay_step OtherRequest d (snd (CreateEdgeService eq d))"
| edge_delete: "overlay_step OtherRequest d (snd (DeleteEdgeService i d))"
| renew: "overlay_step OtherRequest d (snd (RenewCert pki now i d))"
| revoke: "overlay_step OtherRequest d (snd (RevokeCert pki i d))"
| register: "overlay_step (Registered i) d (register_store digest now tr i secret d)"
| heartbeat: "overlay_step OtherRequest d (snd (TunnelAgentHeartbeat digest now authorization d))"

definition overlay_request :: "overlay_db \<Rightarrow> overlay_db \<Rightarrow> bool" where
  "overlay_request d d' = (\<exists>a. overlay_step a d d')"

text \<open>A step that deletes no node whose number a node of the other kind has.\<close>

definition careful :: "overlay_action \<Rightarrow> overlay_db \<Rightarrow> bool" where
  "careful a d = (case a of ClientDelete i \<Rightarrow> no_server i d | ServerDelete i \<Rightarrow> no_client i d | _ \<Rightarrow> True)"

definition careful_request :: "overlay_db \<Rightarrow> overlay_db \<Rightarrow> bool" where
  "careful_request d d' = (\<exists>a. overlay_step a d d' \<and> careful a d)"

lemma careful_is_request: "careful_request d d' \<Longrightarrow> overlay_request d d'"
  by (auto simp: careful_request_def overlay_request_def)

text \<open>A whole registration is such a step, or none.\<close>

lemma TunnelAgentRegister_steps:
  "snd (TunnelAgentRegister random digest yaml now q d) = d \<or>
   (\<exists>i secret. snd (TunnelAgentRegister random digest yaml now q d) = register_store digest now q i secret d)"
  by (auto simp: TunnelAgentRegister_def register_answer_def split: option.splits)

definition empty_overlay :: overlay_db where
  "empty_overlay = \<lparr>ov_networks = [], ov_cas = [], ov_clients = [], ov_servers = [], ov_allocs = [], ov_routes = [],
     ov_gateways = [], ov_edges = [], ov_revoked = [], ov_next_network = 1, ov_next_client = 1, ov_next_server = 1,
     ov_next_route = 1, ov_next_gateway = 1, ov_next_edge = 1\<rparr>"

section \<open>Who has which address\<close>

definition uses :: "int \<Rightarrow> string \<Rightarrow> string \<Rightarrow> (int \<times> string) list" where
  "uses net ip4 ip6 = map (\<lambda>ip. (net, ip)) (filter (\<lambda>ip. ip \<noteq> []) [ip4, ip6])"

definition owned :: "client_node list \<Rightarrow> server_node list \<Rightarrow> (int \<times> int \<times> string) list" where
  "owned cs ss =
    concat (map (\<lambda>c. map (\<lambda>u. (cn_id c, u)) (uses (cn_network c) (cn_ipv4 c) (cn_ipv6 c))) cs) @
    concat (map (\<lambda>s. map (\<lambda>u. (sn_id s, u)) (uses (sn_network s) (sn_ip4 s) (sn_ip6 s))) ss)"

definition alloc_key :: "alloc_row \<Rightarrow> int \<times> string" where
  "alloc_key r = (al_network r, al_ip r)"

definition owners_ok :: "(int \<times> int \<times> string) list \<Rightarrow> alloc_row list \<Rightarrow> bool" where
  "owners_ok ow al =
    (distinct (map snd ow) \<and> distinct (map alloc_key al) \<and>
     (\<forall>x\<in>set ow. \<exists>r\<in>set al. alloc_key r = snd x \<and> al_node r = Some (fst x)))"

definition nodes_ok :: "overlay_db \<Rightarrow> bool" where
  "nodes_ok d =
    (distinct (map cn_id (ov_clients d)) \<and> (\<forall>c\<in>set (ov_clients d). cn_id c < ov_next_client d) \<and>
     distinct (map sn_id (ov_servers d)) \<and> (\<forall>s\<in>set (ov_servers d). sn_id s < ov_next_server d))"

definition addresses_ok :: "overlay_db \<Rightarrow> bool" where
  "addresses_ok d = (nodes_ok d \<and> owners_ok (owned (ov_clients d) (ov_servers d)) (ov_allocs d))"

section \<open>Allocation and release\<close>

lemma insert_alloc_spec:
  assumes "insert_alloc net ip f al = Some al'"
  shows "\<exists>r. al' = al @ [r] \<and> alloc_key r = (net, ip) \<and> (net, ip) \<notin> alloc_key ` set al"
  using assms by (force simp: insert_alloc_def alloc_key_def exists_row_iff split: if_splits)

lemma alloc_loop_row:
  "alloc_loop net p reserved x al = Some (ip, al') \<Longrightarrow>
   \<exists>r. al' = al @ [r] \<and> alloc_key r = (net, ip) \<and> (net, ip) \<notin> alloc_key ` set al"
proof (induction net p reserved x al rule: alloc_loop.induct)
  case (2 net p reserved a al)
  show ?case
  proof (cases "insert_alloc net (addr_text (a, [])) (familyOf a) al")
    case None
    then show ?thesis using "2.prems" "2.IH" by (auto split: if_splits)
  next
    case (Some al1)
    then show ?thesis using "2.prems" "2.IH" insert_alloc_spec [OF Some] by (auto split: if_splits)
  qed
qed simp

lemma Allocate_row:
  assumes "Allocate net cidr want exclude al = (res, al')"
  shows "case res of Inl e \<Rightarrow> al' = al | Inr ip \<Rightarrow> \<exists>r. al' = al @ [r] \<and> alloc_key r = (net, ip) \<and> (net, ip) \<notin> alloc_key ` set al"
  using assms unfolding Allocate_def Let_def
  by (auto split: option.splits if_splits prod.splits dest!: insert_alloc_spec alloc_loop_row)

text \<open>What is there after addresses were taken: the old rows, and the new ones with new keys.\<close>

definition grown :: "int \<Rightarrow> alloc_row list \<Rightarrow> string \<Rightarrow> string \<Rightarrow> alloc_row list \<Rightarrow> bool" where
  "grown net al ip4 ip6 al' =
    (distinct (map alloc_key al') \<and> set al \<subseteq> set al' \<and> distinct (uses net ip4 ip6) \<and>
     (\<forall>u\<in>set (uses net ip4 ip6). u \<in> alloc_key ` set al' \<and> u \<notin> alloc_key ` set al))"

lemma ReleaseIP_key: "ReleaseIP net ip = filter (\<lambda>r. alloc_key r \<noteq> (net, ip))"
  by (simp add: ReleaseIP_def alloc_key_def fun_eq_iff)

lemma grown_release:
  assumes "grown net al ip4 ip6 al'" "ip = [] \<or> (net, ip) \<notin> alloc_key ` set al"
  shows "grown net al [] [] (if ip = [] then al' else ReleaseIP net ip al')"
proof -
  have "r \<in> set (if ip = [] then al' else ReleaseIP net ip al')" if "r \<in> set al" for r
  proof -
    have "r \<in> set al'" "alloc_key r \<in> alloc_key ` set al" using assms(1) that by (auto simp: grown_def)
    with assms(2) show ?thesis by (auto simp: ReleaseIP_key)
  qed
  moreover have "distinct (map alloc_key (if ip = [] then al' else ReleaseIP net ip al'))"
    using assms(1) by (simp add: grown_def ReleaseIP_key distinct_map_filter)
  ultimately show ?thesis by (auto simp: grown_def uses_def)
qed

lemma allocate_both_spec:
  assumes "allocate_both n w4 w6 d = (res, d')" "distinct (map alloc_key (ov_allocs d))"
  shows "case res of Inl e \<Rightarrow> d' = d\<lparr>ov_allocs := ov_allocs d'\<rparr> \<and> grown (nw_id n) (ov_allocs d) [] [] (ov_allocs d')
    | Inr (ip4, ip6) \<Rightarrow> d' = d\<lparr>ov_allocs := ov_allocs d'\<rparr> \<and> grown (nw_id n) (ov_allocs d) ip4 ip6 (ov_allocs d')"
proof -
  let ?al = "ov_allocs d" and ?net = "nw_id n"
  obtain r4 al4 where four: "(if nw_cidr4 n = [] then (Inr [], ?al) else Allocate ?net (nw_cidr4 n) w4 [nw_gateway4 n] ?al) = (r4, al4)"
    by (cases "if nw_cidr4 n = [] then (Inr [], ?al) else Allocate ?net (nw_cidr4 n) w4 [nw_gateway4 n] ?al")
  obtain r6 al6 where six: "(if nw_cidr6 n = [] then (Inr [], al4) else Allocate ?net (nw_cidr6 n) w6 [nw_gateway6 n] al4) = (r6, al6)"
    by (cases "if nw_cidr6 n = [] then (Inr [], al4) else Allocate ?net (nw_cidr6 n) w6 [nw_gateway6 n] al4")
  have s4: "case r4 of Inl e \<Rightarrow> al4 = ?al | Inr ip \<Rightarrow> (ip = [] \<and> al4 = ?al) \<or>
      (\<exists>r. al4 = ?al @ [r] \<and> alloc_key r = (?net, ip) \<and> (?net, ip) \<notin> alloc_key ` set ?al)"
    using four Allocate_row [of ?net "nw_cidr4 n" w4 "[nw_gateway4 n]" ?al r4 al4] by (auto split: if_splits sum.splits)
  have s6: "case r6 of Inl e \<Rightarrow> al6 = al4 | Inr ip \<Rightarrow> (ip = [] \<and> al6 = al4) \<or>
      (\<exists>r. al6 = al4 @ [r] \<and> alloc_key r = (?net, ip) \<and> (?net, ip) \<notin> alloc_key ` set al4)"
    using six Allocate_row [of ?net "nw_cidr6 n" w6 "[nw_gateway6 n]" al4 r6 al6] by (auto split: if_splits sum.splits)
  show ?thesis
  proof (cases r4)
    case (Inl e)
    then show ?thesis using assms four s4 by (auto simp: allocate_both_def grown_def uses_def)
  next
    case r4: (Inr ip4)
    have g4: "grown ?net ?al ip4 [] al4" using s4 assms(2) r4 by (auto simp: grown_def uses_def)
    show ?thesis
    proof (cases r6)
      case (Inl e)
      have d': "res = Inl 400" "d' = d\<lparr>ov_allocs := (if ip4 = [] then al4 else ReleaseIP ?net ip4 al4)\<rparr>"
        using assms(1) four six r4 Inl s6 by (auto simp: allocate_both_def)
      have "ip4 = [] \<or> (?net, ip4) \<notin> alloc_key ` set ?al" using g4 by (auto simp: grown_def uses_def)
      from grown_release [OF g4 this] d' show ?thesis by simp
    next
      case r6: (Inr ip6)
      have d': "res = Inr (ip4, ip6)" "d' = d\<lparr>ov_allocs := al6\<rparr>"
        using assms(1) four six r4 r6 by (simp_all add: allocate_both_def)
      have "grown ?net ?al ip4 ip6 al6"
        using s4 s6 assms(2) r4 r6 by (auto simp: grown_def uses_def)
      with d' show ?thesis by simp
    qed
  qed
qed

section \<open>Owners stay owners\<close>

lemma owned_add_client:
  "owned (cs @ [c]) ss = concat (map (\<lambda>c. map (\<lambda>u. (cn_id c, u)) (uses (cn_network c) (cn_ipv4 c) (cn_ipv6 c))) cs) @
     map (\<lambda>u. (cn_id c, u)) (uses (cn_network c) (cn_ipv4 c) (cn_ipv6 c)) @
     concat (map (\<lambda>s. map (\<lambda>u. (sn_id s, u)) (uses (sn_network s) (sn_ip4 s) (sn_ip6 s))) ss)"
  by (simp add: owned_def)

lemma BindNode_keys: "map alloc_key (BindNode net ip i al) = map alloc_key al"
  by (simp add: BindNode_def upd_where_def alloc_key_def)

lemma BindNode_map: "BindNode net ip i al = map (\<lambda>r. if alloc_key r = (net, ip) then r\<lparr>al_node := Some i\<rparr> else r) al"
  by (simp add: BindNode_def upd_where_def alloc_key_def)

lemma alloc_key_node [simp]: "alloc_key (r\<lparr>al_node := x\<rparr>) = alloc_key r"
  by (simp add: alloc_key_def)

definition bind_alloc :: "int \<Rightarrow> string \<Rightarrow> string \<Rightarrow> int \<Rightarrow> alloc_row list \<Rightarrow> alloc_row list" where
  "bind_alloc net ip4 ip6 i al =
    (if ip6 = [] then id else BindNode net ip6 i) ((if ip4 = [] then id else BindNode net ip4 i) al)"

lemma bind_both_alloc: "bind_both net ip4 ip6 i d = d\<lparr>ov_allocs := bind_alloc net ip4 ip6 i (ov_allocs d)\<rparr>"
  by (simp add: bind_both_def bind_alloc_def)

lemma bind_alloc_keys: "map alloc_key (bind_alloc net ip4 ip6 i al) = map alloc_key al"
  by (simp add: bind_alloc_def BindNode_keys)

lemma bind_alloc_map:
  "bind_alloc net ip4 ip6 i al = map (\<lambda>r. if alloc_key r \<in> set (uses net ip4 ip6) then r\<lparr>al_node := Some i\<rparr> else r) al"
  by (simp add: bind_alloc_def BindNode_map uses_def)

lemma bind_alloc_other:
  "r \<in> set al \<Longrightarrow> alloc_key r \<notin> set (uses net ip4 ip6) \<Longrightarrow> r \<in> set (bind_alloc net ip4 ip6 i al)"
  by (auto simp: bind_alloc_map image_iff intro: bexI [of _ r])

lemma bind_alloc_own:
  "r \<in> set al \<Longrightarrow> alloc_key r \<in> set (uses net ip4 ip6) \<Longrightarrow> r\<lparr>al_node := Some i\<rparr> \<in> set (bind_alloc net ip4 ip6 i al)"
  by (auto simp: bind_alloc_map image_iff intro: bexI [of _ r])

lemma owners_ok_add:
  assumes "owners_ok ow al" "grown net al ip4 ip6 al'" "set ow' = set ow \<union> (\<lambda>u. (i, u)) ` set (uses net ip4 ip6)"
    and "distinct (map snd ow) \<Longrightarrow> snd ` set ow \<inter> set (uses net ip4 ip6) = {} \<Longrightarrow> distinct (uses net ip4 ip6) \<Longrightarrow> distinct (map snd ow')"
  shows "owners_ok ow' (bind_alloc net ip4 ip6 i al')"
proof -
  note o = assms(1) [unfolded owners_ok_def] and g = assms(2) [unfolded grown_def]
  have keys: "snd ` set ow \<subseteq> alloc_key ` set al"
  proof
    fix k
    assume "k \<in> snd ` set ow"
    then obtain x where "x \<in> set ow" "k = snd x" by blast
    with o obtain r where "r \<in> set al" "alloc_key r = k" by blast
    then show "k \<in> alloc_key ` set al" by blast
  qed
  then have disj: "snd ` set ow \<inter> set (uses net ip4 ip6) = {}" using g by blast
  have "\<exists>r\<in>set (bind_alloc net ip4 ip6 i al'). alloc_key r = snd x \<and> al_node r = Some (fst x)" if "x \<in> set ow'" for x
  proof (cases "x \<in> set ow")
    case True
    with o obtain r where r: "r \<in> set al" "alloc_key r = snd x" "al_node r = Some (fst x)" by blast
    moreover have "snd x \<notin> set (uses net ip4 ip6)" using True disj by auto
    ultimately have "r \<in> set (bind_alloc net ip4 ip6 i al')" using g by (intro bind_alloc_other) auto
    with r show ?thesis by blast
  next
    case False
    with that assms(3) obtain u where u: "x = (i, u)" "u \<in> set (uses net ip4 ip6)" by auto
    with g obtain r where r: "r \<in> set al'" "alloc_key r = u" by auto
    with u(2) have "r\<lparr>al_node := Some i\<rparr> \<in> set (bind_alloc net ip4 ip6 i al')" by (intro bind_alloc_own) simp_all
    with r(2) u(1) show ?thesis by (intro bexI [of _ "r\<lparr>al_node := Some i\<rparr>"]) simp_all
  qed
  moreover have "distinct (map snd ow')" using assms(4) o disj g by blast
  moreover have "distinct (map alloc_key (bind_alloc net ip4 ip6 i al'))" using g by (simp only: bind_alloc_keys)
  ultimately show ?thesis by (simp add: owners_ok_def)
qed

lemma owners_ok_grown: "owners_ok ow al \<Longrightarrow> grown net al [] [] al' \<Longrightarrow> owners_ok ow al'"
  unfolding owners_ok_def grown_def by blast

text \<open>Deleting rows and nodes: enough that every row of a node that stays is kept.\<close>

lemma owners_ok_shrink:
  assumes "owners_ok ow al" "set ow' \<subseteq> set ow" "distinct (map snd ow')"
    and "\<And>r x. r \<in> set al \<Longrightarrow> x \<in> set ow' \<Longrightarrow> alloc_key r = snd x \<Longrightarrow> al_node r = Some (fst x) \<Longrightarrow> P r"
  shows "owners_ok ow' (filter P al)"
proof -
  have "\<exists>r\<in>set (filter P al). alloc_key r = snd x \<and> al_node r = Some (fst x)" if "x \<in> set ow'" for x
  proof -
    from that assms(1,2) obtain r where "r \<in> set al" "alloc_key r = snd x" "al_node r = Some (fst x)" unfolding owners_ok_def by blast
    with assms(4) [OF this(1) that this(2,3)] show ?thesis by auto
  qed
  then show ?thesis using assms(1,3) by (simp add: owners_ok_def distinct_map_filter)
qed

lemma owned_filter:
  "map snd (owned (filter P cs) (filter Q ss)) = concat (map (\<lambda>c. uses (cn_network c) (cn_ipv4 c) (cn_ipv6 c)) (filter P cs)) @
     concat (map (\<lambda>s. uses (sn_network s) (sn_ip4 s) (sn_ip6 s)) (filter Q ss))"
  by (simp add: owned_def map_concat comp_def)

lemma distinct_concat_filter: "distinct (concat (map f xs)) \<Longrightarrow> distinct (concat (map f (filter P xs)))"
  by (induction xs) auto

lemma owned_filter_distinct:
  assumes "distinct (map snd (owned cs ss))"
  shows "distinct (map snd (owned (filter P cs) (filter Q ss)))"
proof -
  have e: "map snd (owned cs ss) = concat (map (\<lambda>c. uses (cn_network c) (cn_ipv4 c) (cn_ipv6 c)) cs) @
     concat (map (\<lambda>s. uses (sn_network s) (sn_ip4 s) (sn_ip6 s)) ss)"
    by (simp add: owned_def map_concat comp_def)
  show ?thesis using assms unfolding owned_filter e by (auto intro: distinct_concat_filter)
qed

lemma owned_filter_subset: "set (owned (filter P cs) (filter Q ss)) \<subseteq> set (owned cs ss)"
  by (auto simp: owned_def)

lemma owned_mem:
  "x \<in> set (owned cs ss) \<longleftrightarrow>
    (\<exists>c\<in>set cs. fst x = cn_id c \<and> snd x \<in> set (uses (cn_network c) (cn_ipv4 c) (cn_ipv6 c))) \<or>
    (\<exists>s\<in>set ss. fst x = sn_id s \<and> snd x \<in> set (uses (sn_network s) (sn_ip4 s) (sn_ip6 s)))"
  by (cases x) (auto simp: owned_def image_iff)

lemma owned_snd:
  "map snd (owned cs ss) = concat (map (\<lambda>c. uses (cn_network c) (cn_ipv4 c) (cn_ipv6 c)) cs) @
     concat (map (\<lambda>s. uses (sn_network s) (sn_ip4 s) (sn_ip6 s)) ss)"
  by (simp add: owned_def map_concat comp_def)

section \<open>Every request keeps the owners\<close>

text \<open>Handlers that touch neither nodes nor addresses.\<close>

definition same_nodes :: "overlay_db \<Rightarrow> overlay_db \<Rightarrow> bool" where
  "same_nodes d d' =
    (map (\<lambda>c. (cn_id c, cn_network c, cn_ipv4 c, cn_ipv6 c)) (ov_clients d') = map (\<lambda>c. (cn_id c, cn_network c, cn_ipv4 c, cn_ipv6 c)) (ov_clients d) \<and>
     map (\<lambda>s. (sn_id s, sn_network s, sn_ip4 s, sn_ip6 s)) (ov_servers d') = map (\<lambda>s. (sn_id s, sn_network s, sn_ip4 s, sn_ip6 s)) (ov_servers d) \<and>
     ov_next_client d' = ov_next_client d \<and> ov_next_server d' = ov_next_server d \<and> ov_allocs d' = ov_allocs d)"

lemma owned_cong:
  assumes "same_nodes d d'"
  shows "owned (ov_clients d') (ov_servers d') = owned (ov_clients d) (ov_servers d)"
proof -
  let ?f = "\<lambda>(i, net, ip4, ip6). map (\<lambda>u. (i, u)) (uses net ip4 ip6)"
  have e: "owned cs ss = concat (map ?f (map (\<lambda>c. (cn_id c, cn_network c, cn_ipv4 c, cn_ipv6 c)) cs)) @
      concat (map ?f (map (\<lambda>s. (sn_id s, sn_network s, sn_ip4 s, sn_ip6 s)) ss))" for cs ss
    by (simp add: owned_def comp_def)
  show ?thesis using assms unfolding e same_nodes_def by simp
qed

lemma nodes_ok_ids:
  "nodes_ok d \<longleftrightarrow> distinct (map cn_id (ov_clients d)) \<and> (\<forall>i\<in>set (map cn_id (ov_clients d)). i < ov_next_client d) \<and>
     distinct (map sn_id (ov_servers d)) \<and> (\<forall>i\<in>set (map sn_id (ov_servers d)). i < ov_next_server d)"
  by (simp add: nodes_ok_def)

lemma same_nodes_keeps:
  assumes "same_nodes d d'" "addresses_ok d"
  shows "addresses_ok d'"
proof -
  have "map fst (map (\<lambda>c. (cn_id c, cn_network c, cn_ipv4 c, cn_ipv6 c)) (ov_clients d')) =
      map fst (map (\<lambda>c. (cn_id c, cn_network c, cn_ipv4 c, cn_ipv6 c)) (ov_clients d))"
    "map fst (map (\<lambda>s. (sn_id s, sn_network s, sn_ip4 s, sn_ip6 s)) (ov_servers d')) =
      map fst (map (\<lambda>s. (sn_id s, sn_network s, sn_ip4 s, sn_ip6 s)) (ov_servers d))"
    using assms(1) by (simp_all only: same_nodes_def)
  then have ids: "map cn_id (ov_clients d') = map cn_id (ov_clients d)" "map sn_id (ov_servers d') = map sn_id (ov_servers d)"
    by (simp_all add: comp_def)
  have rest: "ov_next_client d' = ov_next_client d" "ov_next_server d' = ov_next_server d" "ov_allocs d' = ov_allocs d"
    using assms(1) by (simp_all only: same_nodes_def)
  show ?thesis using assms(2) unfolding addresses_ok_def nodes_ok_ids ids rest owned_cong [OF assms(1)] .
qed

lemma same_nodes_upd:
  assumes "\<And>c. cn_id (f c) = cn_id c \<and> cn_network (f c) = cn_network c \<and> cn_ipv4 (f c) = cn_ipv4 c \<and> cn_ipv6 (f c) = cn_ipv6 c"
  shows "map (\<lambda>c. (cn_id c, cn_network c, cn_ipv4 c, cn_ipv6 c)) (upd_where P f cs) =
    map (\<lambda>c. (cn_id c, cn_network c, cn_ipv4 c, cn_ipv6 c)) cs"
  using assms by (simp add: upd_where_def comp_def)

text \<open>A failed creation leaves more addresses taken at most.\<close>

lemma more_allocs_keeps:
  assumes "addresses_ok d" "grown net (ov_allocs d) [] [] (ov_allocs d')" "d' = d\<lparr>ov_allocs := ov_allocs d'\<rparr>"
  shows "addresses_ok d'"
proof -
  have "ov_clients d' = ov_clients d" "ov_servers d' = ov_servers d" "ov_next_client d' = ov_next_client d" "ov_next_server d' = ov_next_server d"
    by (subst assms(3), simp)+
  then show ?thesis using assms(1,2) by (auto simp: addresses_ok_def nodes_ok_def intro: owners_ok_grown)
qed

lemma rollback_keeps:
  assumes "addresses_ok d" "grown net (ov_allocs d) ip4 ip6 al"
  shows "addresses_ok (rollbackIPs net [ip4, ip6] (d\<lparr>ov_allocs := al\<rparr>))"
proof (rule more_allocs_keeps [of _ net, OF assms(1)])
  have "grown net (ov_allocs d) [] [] (if ip4 = [] then al else ReleaseIP net ip4 al)"
    by (rule grown_release [OF assms(2)]) (use assms(2) in \<open>auto simp: grown_def uses_def\<close>)
  from grown_release [OF this, of ip6]
  show "grown net (ov_allocs d) [] [] (ov_allocs (rollbackIPs net [ip4, ip6] (d\<lparr>ov_allocs := al\<rparr>)))"
    using assms(2) by (auto simp: rollbackIPs_def grown_def uses_def)
qed (simp add: rollbackIPs_def)

text \<open>A creation that succeeds adds one node with its addresses, bound to its number.\<close>

lemma add_client_keeps:
  assumes "addresses_ok d" "grown net (ov_allocs d) ip4 ip6 al" "cn_id c = ov_next_client d" "cn_network c = net" "cn_ipv4 c = ip4" "cn_ipv6 c = ip6"
  shows "addresses_ok (bind_both net ip4 ip6 (ov_next_client d)
    (d\<lparr>ov_allocs := al, ov_clients := ov_clients d @ [c], ov_next_client := ov_next_client d + 1\<rparr>))"
proof -
  have "owners_ok (owned (ov_clients d @ [c]) (ov_servers d)) (bind_alloc net ip4 ip6 (ov_next_client d) al)"
  proof (rule owners_ok_add [OF _ assms(2)])
    show "owners_ok (owned (ov_clients d) (ov_servers d)) (ov_allocs d)" using assms(1) by (simp add: addresses_ok_def)
    show "set (owned (ov_clients d @ [c]) (ov_servers d)) =
        set (owned (ov_clients d) (ov_servers d)) \<union> (\<lambda>u. (ov_next_client d, u)) ` set (uses net ip4 ip6)"
      using assms(3-) by (auto simp: owned_def)
    show "distinct (map snd (owned (ov_clients d @ [c]) (ov_servers d)))"
      if "distinct (map snd (owned (ov_clients d) (ov_servers d)))"
        "snd ` set (owned (ov_clients d) (ov_servers d)) \<inter> set (uses net ip4 ip6) = {}" "distinct (uses net ip4 ip6)"
    proof -
      have "set (map snd (owned (ov_clients d) (ov_servers d))) \<inter> set (uses net ip4 ip6) = {}" using that(2) by simp
      with that(1,3) show ?thesis unfolding owned_snd using assms(4-) by auto
    qed
  qed
  moreover have "nodes_ok d" using assms(1) by (simp add: addresses_ok_def)
  ultimately show ?thesis using assms(3) by (auto simp: addresses_ok_def bind_both_alloc nodes_ok_def)
qed

lemma add_server_keeps:
  assumes "addresses_ok d" "grown net (ov_allocs d) ip4 ip6 al" "sn_id s = ov_next_server d" "sn_network s = net" "sn_ip4 s = ip4" "sn_ip6 s = ip6"
  shows "addresses_ok (bind_both net ip4 ip6 (ov_next_server d)
    (d\<lparr>ov_allocs := al, ov_servers := ov_servers d @ [s], ov_next_server := ov_next_server d + 1\<rparr>))"
proof -
  have "owners_ok (owned (ov_clients d) (ov_servers d @ [s])) (bind_alloc net ip4 ip6 (ov_next_server d) al)"
  proof (rule owners_ok_add [OF _ assms(2)])
    show "owners_ok (owned (ov_clients d) (ov_servers d)) (ov_allocs d)" using assms(1) by (simp add: addresses_ok_def)
    show "set (owned (ov_clients d) (ov_servers d @ [s])) =
        set (owned (ov_clients d) (ov_servers d)) \<union> (\<lambda>u. (ov_next_server d, u)) ` set (uses net ip4 ip6)"
      using assms(3-) by (auto simp: owned_def)
    show "distinct (map snd (owned (ov_clients d) (ov_servers d @ [s])))"
      if "distinct (map snd (owned (ov_clients d) (ov_servers d)))"
        "snd ` set (owned (ov_clients d) (ov_servers d)) \<inter> set (uses net ip4 ip6) = {}" "distinct (uses net ip4 ip6)"
    proof -
      have "set (map snd (owned (ov_clients d) (ov_servers d))) \<inter> set (uses net ip4 ip6) = {}" using that(2) by simp
      with that(1,3) show ?thesis unfolding owned_snd using assms(4-) by auto
    qed
  qed
  moreover have "nodes_ok d" using assms(1) by (simp add: addresses_ok_def)
  ultimately show ?thesis using assms(3) by (auto simp: addresses_ok_def bind_both_alloc nodes_ok_def)
qed

text \<open>The two creating handlers, from what \<^const>\<open>allocate_both\<close> did.\<close>

lemma allocated_cases:
  assumes "addresses_ok d" "allocate_both n w4 w6 d = (res, d1)"
  obtains (failed) e where "res = Inl e" "addresses_ok d1"
  | (got) ip4 ip6 al where "res = Inr (ip4, ip6)" "d1 = d\<lparr>ov_allocs := al\<rparr>" "grown (nw_id n) (ov_allocs d) ip4 ip6 al"
proof (cases res)
  case (Inl e)
  then show ?thesis using failed allocate_both_spec [OF assms(2)] assms(1) more_allocs_keeps [of d "nw_id n" d1]
    by (simp add: addresses_ok_def owners_ok_def)
next
  case (Inr x)
  then show ?thesis using got [of "fst x" "snd x" "ov_allocs d1"] allocate_both_spec [OF assms(2)] assms(1)
    by (cases x) (simp add: addresses_ok_def owners_ok_def)
qed

lemma CreateClient_keeps:
  assumes "addresses_ok d"
  shows "addresses_ok (snd (CreateClient pki random digest now q d))"
proof (cases "getNetwork (cq_network q) d")
  case None
  then show ?thesis using assms by (simp add: CreateClient_def)
next
  case n: (Some n)
  obtain res d1 where a: "allocate_both n (cq_ipv4 q) (cq_ipv6 q) d = (res, d1)" by fastforce
  show ?thesis using assms a
  proof (cases rule: allocated_cases)
    case (failed e)
    then show ?thesis using assms n a by (auto simp: CreateClient_def split: option.split)
  next
    case (got ip4 ip6 al)
    note roll = rollback_keeps [OF assms got(3)] and add = add_client_keeps [OF assms got(3)]
    show ?thesis using assms n a got roll
      by (auto simp: CreateClient_def Let_def split: option.split intro: add [simplified])
  qed
qed

lemma CreateServerNode_keeps:
  assumes "addresses_ok d"
  shows "addresses_ok (snd (CreateServerNode pki q d))"
proof (cases "getNetwork (sq_network q) d")
  case None
  then show ?thesis using assms by (simp add: CreateServerNode_def)
next
  case n: (Some n)
  obtain res d1 where a: "allocate_both n (sq_ip4 q) (sq_ip6 q) d = (res, d1)" by fastforce
  show ?thesis using assms a
  proof (cases rule: allocated_cases)
    case (failed e)
    then show ?thesis using assms n a by (auto simp: CreateServerNode_def split: option.split)
  next
    case (got ip4 ip6 al)
    note roll = rollback_keeps [OF assms got(3)] and add = add_server_keeps [OF assms got(3)]
    show ?thesis using assms n a got roll
      by (auto simp: CreateServerNode_def Let_def split: option.split intro: add [simplified])
  qed
qed

text \<open>Deleting by number, where no node of the other kind has the number, and by network.\<close>

lemma delete_keeps:
  assumes "addresses_ok d"
    and "\<And>x r. x \<in> set (owned (filter P (ov_clients d)) (filter Q (ov_servers d))) \<Longrightarrow> alloc_key r = snd x \<Longrightarrow> al_node r = Some (fst x) \<Longrightarrow> R r"
    and "ov_clients d' = filter P (ov_clients d)" "ov_servers d' = filter Q (ov_servers d)" "ov_allocs d' = filter R (ov_allocs d)"
    and "ov_next_client d' = ov_next_client d" "ov_next_server d' = ov_next_server d"
  shows "addresses_ok d'"
proof -
  have o: "owners_ok (owned (ov_clients d) (ov_servers d)) (ov_allocs d)" and n: "nodes_ok d"
    using assms(1) by (simp_all add: addresses_ok_def)
  have "owners_ok (owned (filter P (ov_clients d)) (filter Q (ov_servers d))) (filter R (ov_allocs d))"
    by (rule owners_ok_shrink [OF o owned_filter_subset owned_filter_distinct])
      (use o assms(2) in \<open>simp_all add: owners_ok_def\<close>)
  then show ?thesis using n assms(3-) by (simp add: addresses_ok_def nodes_ok_def distinct_map_filter)
qed

lemma DeleteClient_keeps:
  assumes "addresses_ok d" "no_server i d"
  shows "addresses_ok (snd (DeleteClient i d))"
  by (rule delete_keeps [OF assms(1), of "\<lambda>c. cn_id c \<noteq> i" "\<lambda>s. True" "\<lambda>r. al_node r \<noteq> Some i"])
    (use assms(2) in \<open>auto simp: DeleteClient_def ReleaseNode_def owned_mem no_server_def exists_row_iff\<close>)

lemma DeleteServerNode_keeps:
  assumes "addresses_ok d" "no_client i d"
  shows "addresses_ok (snd (DeleteServerNode i d))"
  by (rule delete_keeps [OF assms(1), of "\<lambda>c. True" "\<lambda>s. sn_id s \<noteq> i" "\<lambda>r. al_node r \<noteq> Some i"])
    (use assms(2) in \<open>auto simp: DeleteServerNode_def ReleaseNode_def owned_mem no_client_def exists_row_iff\<close>)

lemma uses_network: "u \<in> set (uses net ip4 ip6) \<Longrightarrow> fst u = net"
  by (auto simp: uses_def)

lemma DeleteNetwork_keeps:
  assumes "addresses_ok d"
  shows "addresses_ok (snd (DeleteNetwork i d))"
  by (rule delete_keeps [OF assms, of "\<lambda>c. cn_network c \<noteq> i" "\<lambda>s. sn_network s \<noteq> i" "\<lambda>r. al_network r \<noteq> i"])
    (auto simp: DeleteNetwork_def owned_mem alloc_key_def dest!: uses_network)

text \<open>The others write neither nodes nor addresses.\<close>

lemma same_nodes_refl [simp]: "same_nodes d d"
  by (simp add: same_nodes_def)

lemma fold_gateways_same: "same_nodes d0 d \<Longrightarrow> same_nodes d0 (fold (insert_gateway i) qs d)"
  by (induction qs arbitrary: d) (simp_all add: insert_gateway_def same_nodes_def)

lemma CreateRoute_same: "same_nodes d (snd (CreateRoute net q d))"
proof -
  have "same_nodes d (fold (insert_gateway i) qs (d\<lparr>ov_routes := rs, ov_next_route := j\<rparr>))" for i qs rs j
    by (rule fold_gateways_same) (simp add: same_nodes_def)
  then show ?thesis unfolding CreateRoute_def Let_def by simp
qed

lemma small_steps_same:
  "same_nodes d (snd (CreateNetwork pki now r d))" "same_nodes d (snd (ClientEnrollToken random digest now i d))"
  "same_nodes d (snd (DeleteRoute i d))" "same_nodes d (snd (CreateEdgeService q d))" "same_nodes d (snd (DeleteEdgeService i d))"
  "same_nodes d (snd (RenewCert pki now i d))" "same_nodes d (snd (RevokeCert pki i d))"
  "same_nodes d (register_store digest now tr i secret d)"
  "same_nodes d (snd (TunnelAgentHeartbeat digest now authorization d))"
  by (auto simp: CreateNetwork_def ClientEnrollToken_def DeleteRoute_def CreateEdgeService_def DeleteEdgeService_def
      RenewCert_def RevokeCert_def register_store_def TunnelAgentHeartbeat_def bumpConfigRev_def Let_def
      same_nodes_def same_nodes_upd split: option.split)

lemma overlay_step_keeps: "overlay_step a d d' \<Longrightarrow> careful a d \<Longrightarrow> addresses_ok d \<Longrightarrow> addresses_ok d'"
  unfolding careful_def
  by (induction rule: overlay_step.induct)
    (auto simp del: snd_conv intro: CreateClient_keeps CreateServerNode_keeps DeleteClient_keeps DeleteServerNode_keeps DeleteNetwork_keeps
      same_nodes_keeps [OF CreateRoute_same] same_nodes_keeps [OF small_steps_same(1)] same_nodes_keeps [OF small_steps_same(2)]
      same_nodes_keeps [OF small_steps_same(3)] same_nodes_keeps [OF small_steps_same(4)] same_nodes_keeps [OF small_steps_same(5)]
      same_nodes_keeps [OF small_steps_same(6)] same_nodes_keeps [OF small_steps_same(7)] same_nodes_keeps [OF small_steps_same(8)]
      same_nodes_keeps [OF small_steps_same(9)])

lemma careful_requests_keep: "careful_request^** d d' \<Longrightarrow> addresses_ok d \<Longrightarrow> addresses_ok d'"
  by (induction rule: rtranclp_induct) (auto simp: careful_request_def intro: overlay_step_keeps)

lemma empty_overlay_ok: "addresses_ok empty_overlay"
  by (simp add: addresses_ok_def nodes_ok_def owners_ok_def empty_overlay_def owned_def)

text \<open>C33: Addresses are unique as texts. Whatever requests the control plane has served from an empty database, as long
  as no node was deleted by a number that a node of the other kind has too, no two nodes of one network have the same
  address text, and the table of allocations names every node that has an address as its owner. Two spellings of one
  IPv6 address are two texts.\<close>

theorem addresses_unique:
  assumes "careful_request^** empty_overlay d"
  shows "distinct (map snd (owned (ov_clients d) (ov_servers d))) \<and>
    (\<forall>c\<in>set (ov_clients d). \<forall>u\<in>set (uses (cn_network c) (cn_ipv4 c) (cn_ipv6 c)).
       \<exists>r\<in>set (ov_allocs d). alloc_key r = u \<and> al_node r = Some (cn_id c)) \<and>
    (\<forall>s\<in>set (ov_servers d). \<forall>u\<in>set (uses (sn_network s) (sn_ip4 s) (sn_ip6 s)).
       \<exists>r\<in>set (ov_allocs d). alloc_key r = u \<and> al_node r = Some (sn_id s))"
proof -
  have o: "owners_ok (owned (ov_clients d) (ov_servers d)) (ov_allocs d)"
    using careful_requests_keep [OF assms empty_overlay_ok] by (simp add: addresses_ok_def)
  have row: "\<exists>r\<in>set (ov_allocs d). alloc_key r = u \<and> al_node r = Some i" if "(i, u) \<in> set (owned (ov_clients d) (ov_servers d))" for i u
    using o that unfolding owners_ok_def by force
  show ?thesis using o by (auto simp: owners_ok_def owned_mem intro!: row)
qed

end
