(* ===== verification/OverlayTrust.thy ===== *)
theory OverlayTrust
  imports OverlaySafety SessionSafety
begin

text \<open>
  Whom the overlay trusts: a revoked certificate is in the blocklist of every configuration given out from then on,
  and a token enrols one client once, whose secret is its credential until the client is registered anew or deleted.
\<close>

section \<open>Revocation\<close>

definition networks_ok :: "overlay_db \<Rightarrow> bool" where
  "networks_ok d =
    ((\<forall>n\<in>set (ov_networks d). nw_id n < ov_next_network d) \<and> (\<forall>c\<in>set (ov_clients d). cn_network c < ov_next_network d))"

lemma networks_ok_image:
  "networks_ok d \<longleftrightarrow> (\<forall>n\<in>set (ov_networks d). nw_id n < ov_next_network d) \<and> (\<forall>k\<in>cn_network ` set (ov_clients d). k < ov_next_network d)"
  by (simp add: networks_ok_def)

lemma getNetwork_id: "getNetwork i d = Some n \<Longrightarrow> nw_id n = i \<and> n \<in> set (ov_networks d)"
  by (auto simp: getNetwork_def find_Some_iff)

text \<open>The frame of each request: networks, revocations and the networks of clients.\<close>

lemma allocate_both_frame:
  "allocate_both n w4 w6 d = (res, d1) \<Longrightarrow> d1 = d\<lparr>ov_allocs := ov_allocs d1\<rparr>"
  by (auto simp: allocate_both_def Let_def split: prod.splits sum.splits)

definition trust_frame :: "overlay_db \<Rightarrow> overlay_db \<Rightarrow> bool" where
  "trust_frame d d' =
    (ov_networks d' = ov_networks d \<and> ov_next_network d' = ov_next_network d \<and> ov_revoked d' = ov_revoked d \<and>
     cn_network ` set (ov_clients d') \<subseteq> cn_network ` set (ov_clients d) \<union> nw_id ` set (ov_networks d))"

lemma trust_frame_refl [simp]: "trust_frame d d"
  by (auto simp: trust_frame_def)

lemma trust_frame_CreateClient: "trust_frame d (snd (CreateClient pki random digest now q d))"
proof (cases "getNetwork (cq_network q) d")
  case n: (Some n)
  obtain res d1 where a: "allocate_both n (cq_ipv4 q) (cq_ipv6 q) d = (res, d1)" by fastforce
  note f = allocate_both_frame [OF a]
  have e: "ov_networks d1 = ov_networks d" "ov_next_network d1 = ov_next_network d" "ov_revoked d1 = ov_revoked d" "ov_clients d1 = ov_clients d"
    by (subst f, simp)+
  have "nw_id n \<in> nw_id ` set (ov_networks d)" using getNetwork_id [OF n] by blast
  then show ?thesis using n a e getNetwork_id [OF n]
    by (auto simp: CreateClient_def Let_def trust_frame_def rollbackIPs_def bind_both_def split: option.split sum.split)
qed (simp add: CreateClient_def)

lemma trust_frame_CreateServerNode: "trust_frame d (snd (CreateServerNode pki q d))"
proof (cases "getNetwork (sq_network q) d")
  case n: (Some n)
  obtain res d1 where a: "allocate_both n (sq_ip4 q) (sq_ip6 q) d = (res, d1)" by fastforce
  note f = allocate_both_frame [OF a]
  have e: "ov_networks d1 = ov_networks d" "ov_next_network d1 = ov_next_network d" "ov_revoked d1 = ov_revoked d" "ov_clients d1 = ov_clients d"
    by (subst f, simp)+
  show ?thesis using n a e
    by (auto simp: CreateServerNode_def Let_def trust_frame_def rollbackIPs_def bind_both_def split: option.split sum.split)
qed (simp add: CreateServerNode_def)

lemma trust_frame_CreateRoute: "trust_frame d (snd (CreateRoute net q d))"
proof -
  have "trust_frame d0 d \<Longrightarrow> trust_frame d0 (fold (insert_gateway i) qs d)" for d0 i qs and d
    by (induction qs arbitrary: d) (simp_all add: insert_gateway_def trust_frame_def)
  moreover have "trust_frame d (d\<lparr>ov_routes := rs, ov_next_route := j\<rparr>)" for rs j by (auto simp: trust_frame_def)
  ultimately show ?thesis unfolding CreateRoute_def Let_def by simp
qed

lemma upd_where_network:
  "(\<And>c. cn_network (f c) = cn_network c) \<Longrightarrow> cn_network ` set (upd_where P f cs) = cn_network ` set cs"
proof -
  assume "\<And>c. cn_network (f c) = cn_network c"
  then have "map cn_network (upd_where P f cs) = map cn_network cs" by (simp add: upd_where_def)
  then show ?thesis by (metis set_map)
qed

lemma trust_frame_small:
  "trust_frame d (snd (ClientEnrollToken random digest now i d))" "trust_frame d (snd (DeleteClient i d))"
  "trust_frame d (snd (DeleteServerNode i d))"
  "trust_frame d (snd (DeleteRoute i d))" "trust_frame d (snd (CreateEdgeService q d))" "trust_frame d (snd (DeleteEdgeService i d))"
  "trust_frame d (snd (RenewCert pki now i d))"
  "trust_frame d (register_store digest now tr i secret d)"
  "trust_frame d (snd (TunnelAgentHeartbeat digest now authorization d))"
  by (auto simp: ClientEnrollToken_def DeleteRoute_def CreateEdgeService_def DeleteEdgeService_def DeleteClient_def DeleteServerNode_def
      RenewCert_def register_store_def TunnelAgentHeartbeat_def bumpConfigRev_def Let_def
      trust_frame_def upd_where_network split: option.split)

text \<open>A fingerprint that is revoked in a network stays so while the network exists.\<close>

definition revoked_in :: "int \<Rightarrow> string \<Rightarrow> overlay_db \<Rightarrow> bool" where
  "revoked_in net fp d =
    (net < ov_next_network d \<and> ((net, fp) \<in> set (ov_revoked d) \<or> \<not> exists_row (\<lambda>n. nw_id n = net) (ov_networks d)))"

lemma trust_frame_keeps:
  assumes "trust_frame d d'"
  shows "networks_ok d \<Longrightarrow> networks_ok d'" "revoked_in net fp d \<Longrightarrow> revoked_in net fp d'"
  using assms by (fastforce simp: trust_frame_def networks_ok_def, auto simp: trust_frame_def revoked_in_def)

lemma network_steps_keep:
  "networks_ok d \<Longrightarrow> networks_ok (snd (CreateNetwork pki now r d))" "networks_ok d \<Longrightarrow> networks_ok (snd (DeleteNetwork i d))"
  "revoked_in net fp d \<Longrightarrow> revoked_in net fp (snd (CreateNetwork pki now r d))"
  "revoked_in net fp d \<Longrightarrow> revoked_in net fp (snd (DeleteNetwork i d))"
  by (fastforce simp: networks_ok_def CreateNetwork_def Let_def split: option.split,
    simp add: networks_ok_def DeleteNetwork_def,
    auto simp: revoked_in_def CreateNetwork_def DeleteNetwork_def Let_def exists_row_iff split: option.split)

lemma RevokeCert_trust:
  "networks_ok d \<Longrightarrow> networks_ok (snd (RevokeCert pki i d))" "revoked_in net fp d \<Longrightarrow> revoked_in net fp (snd (RevokeCert pki i d))"
proof -
  have "cn_network ` set (ov_clients (snd (RevokeCert pki i d))) = cn_network ` set (ov_clients d)"
    by (simp add: RevokeCert_def bumpConfigRev_def upd_where_network split: option.split)
  moreover have "ov_networks (snd (RevokeCert pki i d)) = ov_networks d" "ov_next_network (snd (RevokeCert pki i d)) = ov_next_network d"
    "set (ov_revoked d) \<subseteq> set (ov_revoked (snd (RevokeCert pki i d)))"
    by (auto simp: RevokeCert_def bumpConfigRev_def split: option.split)
  ultimately show "networks_ok d \<Longrightarrow> networks_ok (snd (RevokeCert pki i d))" "revoked_in net fp d \<Longrightarrow> revoked_in net fp (snd (RevokeCert pki i d))"
    by (simp add: networks_ok_image, auto simp: revoked_in_def)
qed

lemma request_trust:
  assumes "overlay_request d d'"
  shows "(networks_ok d \<longrightarrow> networks_ok d') \<and> (revoked_in net fp d \<longrightarrow> revoked_in net fp d')"
proof -
  from assms obtain a where "overlay_step a d d'" by (auto simp: overlay_request_def)
  then show ?thesis
  by (induction rule: overlay_step.induct)
    (blast intro: trust_frame_keeps trust_frame_CreateClient trust_frame_CreateServerNode trust_frame_CreateRoute
      trust_frame_small network_steps_keep RevokeCert_trust)+
qed

lemma requests_trust:
  assumes "overlay_request^** d d'"
  shows "networks_ok d \<Longrightarrow> networks_ok d'" "revoked_in net fp d \<Longrightarrow> revoked_in net fp d'"
  using assms by (induction rule: rtranclp_induct) (auto dest: request_trust)

text \<open>C34: Revocation holds. Once a certificate of a client is revoked, every configuration that is built from then on
  for a node of its network - client or server, whatever requests come between - has the certificate's fingerprint
  in its blocklist.\<close>

theorem revoked_in_every_bundle:
  assumes "overlay_request^** empty_overlay d" "getClientRow i d = Some c" "pk_parse pki (cn_cert c) = Some fp"
    and "overlay_request^** (snd (RevokeCert pki i d)) d'"
  shows "(\<forall>c'. cn_network c' = cn_network c \<longrightarrow> buildBundle yaml c' d' = Some b \<longrightarrow>
      (\<exists>cfg. bu_config b = yaml cfg \<and> fp \<in> set (nc_blocklist cfg))) \<and>
    (\<forall>s. find (\<lambda>s. sn_id s = j) (ov_servers d') = Some s \<longrightarrow> sn_network s = cn_network c \<longrightarrow> fst (ServerNodeBundle yaml j d') = Inr b \<longrightarrow>
      (\<exists>cfg. bu_config b = yaml cfg \<and> fp \<in> set (nc_blocklist cfg)))"
proof -
  let ?net = "cn_network c"
  have "networks_ok empty_overlay" by (simp add: networks_ok_def empty_overlay_def)
  then have "networks_ok d" using requests_trust(1) [OF assms(1)] by blast
  moreover have "c \<in> set (ov_clients d)" using assms(2) by (auto simp: getClientRow_def find_Some_iff)
  ultimately have "revoked_in ?net fp (snd (RevokeCert pki i d))"
    using assms(2,3) by (auto simp: RevokeCert_def revoked_in_def bumpConfigRev_def networks_ok_def)
  then have r: "revoked_in ?net fp d'" using requests_trust(2) [OF assms(4)] by blast
  have input: "fp \<in> set (nc_blocklist (Build ci))" if ci: "buildNebulaInput ?net lh port relay d' = Some ci" for lh port relay ci
  proof -
    have "exists_row (\<lambda>n. nw_id n = ?net) (ov_networks d')"
      using ci by (auto simp: buildNebulaInput_def getNetwork_def find_Some_iff exists_row_iff split: option.splits)
    then have "fp \<in> set (loadRevocations ?net d')" using r by (force simp: revoked_in_def loadRevocations_def)
    then show ?thesis using ci
      by (auto simp: buildNebulaInput_def Build_def Let_def split: option.splits prod.splits)
  qed
  show ?thesis
    by (auto simp: buildBundle_def ServerNodeBundle_def or_500_def split: option.splits dest: input)
qed

section \<open>Enrolment\<close>

lemma cut_at:
  "c \<notin> set xs \<Longrightarrow> takeWhile (\<lambda>x. x \<noteq> c) (xs @ c # ys) = xs" "c \<notin> set xs \<Longrightarrow> dropWhile (\<lambda>x. x \<noteq> c) (xs @ c # ys) = c # ys"
  by (induction xs) auto

lemma find_filter_one: "filter P xs = [x] \<Longrightarrow> find P xs = Some x"
  by (induction xs) (auto split: if_splits)

text \<open>The steps after a registration: no deletion of the client or its network, no other registration of the client, and
  no new token with the digest of the used one.\<close>

definition later_request :: "int \<Rightarrow> int \<Rightarrow> string \<Rightarrow> overlay_db \<Rightarrow> overlay_db \<Rightarrow> bool" where
  "later_request net i h d d' =
    (\<exists>a. overlay_step a d d' \<and> a \<notin> {NetworkDelete net, ClientDelete i, Registered i, TokenIssued (Some h)})"

text \<open>What a registration leaves behind, and what these steps keep.\<close>

definition enrolled :: "int \<Rightarrow> int \<Rightarrow> string \<Rightarrow> string \<Rightarrow> client_node list \<Rightarrow> bool" where
  "enrolled net i h sh cs =
    ((\<forall>c\<in>set cs. cn_enroll_hash c \<noteq> h) \<and>
     (\<exists>c. find (\<lambda>c. cn_id c = i) cs = Some c \<and> cn_network c = net \<and> cn_secret_hash c = sh))"

lemma enrolled_upd:
  assumes "enrolled net i h sh cs" "\<And>c. cn_id (f c) = cn_id c \<and> cn_network (f c) = cn_network c"
    and "\<And>c. cn_enroll_hash c \<noteq> h \<Longrightarrow> cn_enroll_hash (f c) \<noteq> h"
    and "\<And>c. P c \<Longrightarrow> cn_id c = i \<Longrightarrow> cn_secret_hash (f c) = cn_secret_hash c"
  shows "enrolled net i h sh (upd_where P f cs)"
proof -
  from assms(1) obtain c where c: "find (\<lambda>c. cn_id c = i) cs = Some c" "cn_network c = net" "cn_secret_hash c = sh"
    by (auto simp: enrolled_def)
  have "find (\<lambda>c. cn_id c = i) (upd_where P f xs) = map_option (\<lambda>c. if P c then f c else c) (find (\<lambda>c. cn_id c = i) xs)" for xs
    using assms(2) by (induction xs) (auto simp: upd_where_def)
  moreover have "cn_id c = i" using c(1) by (auto simp: find_Some_iff)
  ultimately show ?thesis using assms c by (auto simp: enrolled_def upd_where_def)
qed

lemma find_filter_other: "find P xs = Some x \<Longrightarrow> Q x \<Longrightarrow> find P (filter Q xs) = Some x"
  by (induction xs) (auto split: if_splits)

lemma enrolled_filter:
  "enrolled net i h sh cs \<Longrightarrow> (\<And>c. cn_id c = i \<Longrightarrow> cn_network c = net \<Longrightarrow> Q c) \<Longrightarrow> enrolled net i h sh (filter Q cs)"
  unfolding enrolled_def by (metis (mono_tags, lifting) find_Some_iff find_filter_other filter_is_subset subsetD)

lemma enrolled_append:
  "enrolled net i h sh cs \<Longrightarrow> cn_enroll_hash c \<noteq> h \<Longrightarrow> enrolled net i h sh (cs @ [c])"
proof -
  have "find P cs = Some x \<Longrightarrow> find P (cs @ [c]) = Some x" for P x
    by (induction cs) (auto split: if_splits)
  then show "enrolled net i h sh cs \<Longrightarrow> cn_enroll_hash c \<noteq> h \<Longrightarrow> enrolled net i h sh (cs @ [c])"
    by (auto simp: enrolled_def)
qed

lemma CreateClient_clients:
  "ov_clients (snd (CreateClient pki random digest now q d)) = ov_clients d \<or>
   (\<exists>c t. ov_clients (snd (CreateClient pki random digest now q d)) = ov_clients d @ [c] \<and> random = Some t \<and> cn_enroll_hash c = digest t)"
proof (cases "getNetwork (cq_network q) d")
  case n: (Some n)
  obtain res d1 where a: "allocate_both n (cq_ipv4 q) (cq_ipv6 q) d = (res, d1)" by fastforce
  have e: "ov_clients d1 = ov_clients d" by (subst allocate_both_frame [OF a]) simp
  show ?thesis using n a e
    by (auto simp: CreateClient_def Let_def rollbackIPs_def bind_both_def split: option.split sum.split)
qed (simp add: CreateClient_def)

lemma same_clients:
  "ov_clients (snd (CreateNetwork pki now r d)) = ov_clients d" "ov_clients (snd (CreateServerNode pki sq d)) = ov_clients d"
  "ov_clients (snd (DeleteServerNode i d)) = ov_clients d" "ov_clients (snd (CreateRoute i rq d)) = ov_clients d"
  "ov_clients (snd (DeleteRoute i d)) = ov_clients d" "ov_clients (snd (CreateEdgeService eq d)) = ov_clients d"
  "ov_clients (snd (DeleteEdgeService i d)) = ov_clients d"
proof -
  show "ov_clients (snd (CreateServerNode pki sq d)) = ov_clients d"
  proof (cases "getNetwork (sq_network sq) d")
    case n: (Some n)
    obtain res d1 where a: "allocate_both n (sq_ip4 sq) (sq_ip6 sq) d = (res, d1)" by fastforce
    have e: "ov_clients d1 = ov_clients d" by (subst allocate_both_frame [OF a]) simp
    show ?thesis using n a e
      by (auto simp: CreateServerNode_def Let_def rollbackIPs_def bind_both_def split: option.split sum.split)
  qed (simp add: CreateServerNode_def)
  have "ov_clients (fold (insert_gateway i) qs d0) = ov_clients d0" for i qs d0
    by (induction qs arbitrary: d0) (simp_all add: insert_gateway_def)
  then show "ov_clients (snd (CreateRoute i rq d)) = ov_clients d" by (simp add: CreateRoute_def Let_def)
qed (auto simp: CreateNetwork_def DeleteServerNode_def DeleteRoute_def CreateEdgeService_def DeleteEdgeService_def Let_def split: option.split)

lemma later_step_keeps:
  assumes "overlay_step a d d'" "a \<notin> {NetworkDelete net, ClientDelete i, Registered i, TokenIssued (Some h)}"
    and "enrolled net i h sh (ov_clients d)" "h \<noteq> []"
  shows "enrolled net i h sh (ov_clients d')"
  using assms
proof cases
  case (client_create digest random pki now q)
  then show ?thesis using assms CreateClient_clients [of pki random digest now q d] by (auto intro!: enrolled_append)
next
  case (client_token digest random now j)
  then show ?thesis using assms by (auto simp: ClientEnrollToken_def split: option.split intro!: enrolled_upd)
next
  case (register j digest now tr secret)
  then show ?thesis using assms by (auto simp: register_store_def intro!: enrolled_upd)
next
  case (renew pki now j)
  then show ?thesis using assms by (auto simp: RenewCert_def bumpConfigRev_def split: option.split intro!: enrolled_upd)
next
  case (revoke pki j)
  then show ?thesis using assms by (auto simp: RevokeCert_def bumpConfigRev_def split: option.split intro!: enrolled_upd)
next
  case (heartbeat digest now authorization)
  then show ?thesis using assms by (auto simp: TunnelAgentHeartbeat_def split: option.split intro!: enrolled_upd)
next
  case (network_delete j)
  then show ?thesis using assms by (auto simp: DeleteNetwork_def intro!: enrolled_filter)
next
  case (client_delete j)
  then show ?thesis using assms by (auto simp: DeleteClient_def intro!: enrolled_filter)
qed (simp_all add: same_clients)

lemma later_requests_keep:
  assumes "(later_request net i h)^** d d'" "enrolled net i h sh (ov_clients d)" "h \<noteq> []"
  shows "enrolled net i h sh (ov_clients d')"
  using assms(1,2)
  by (induction rule: rtranclp_induct) (auto simp: later_request_def dest: later_step_keeps [OF _ _ _ assms(3)])

text \<open>What a registration leaves.\<close>

lemma register_store_enrolled:
  assumes "filter (\<lambda>c. cn_enroll_hash c = h) (ov_clients d) = [c0]" "h \<noteq> []" "distinct (map cn_id (ov_clients d))"
  shows "enrolled (cn_network c0) (cn_id c0) h (digest secret) (ov_clients (register_store digest now q (cn_id c0) secret d))"
proof -
  let ?new = "\<lambda>c. c\<lparr>cn_enroll_hash := [], cn_secret_hash := digest secret, cn_os := tr_os q, cn_arch := tr_arch q,
    cn_kernel := tr_kernel q, cn_version := tr_version q, cn_status := ''online'', cn_last_seen := now, cn_updated_at := now\<rparr>"
  have c0: "c0 \<in> set (ov_clients d)" using assms(1) by (metis filter_is_subset list.set_intros(1) subsetD)
  have "cn_id c = cn_id c0" if "c \<in> set (ov_clients d)" "cn_enroll_hash c = h" for c
  proof -
    have "c \<in> set (filter (\<lambda>c. cn_enroll_hash c = h) (ov_clients d))" using that by simp
    then show ?thesis unfolding assms(1) by simp
  qed
  then have gone: "\<forall>c\<in>set (upd_where (\<lambda>c. cn_id c = cn_id c0) ?new (ov_clients d)). cn_enroll_hash c \<noteq> h"
    using assms(2) by (auto simp: upd_where_def)
  have "distinct (map cn_id xs) \<Longrightarrow> c0 \<in> set xs \<Longrightarrow> find (\<lambda>c. cn_id c = cn_id c0) (upd_where (\<lambda>c. cn_id c = cn_id c0) ?new xs) = Some (?new c0)" for xs
    by (induction xs) (auto simp: upd_where_def)
  then show ?thesis using gone c0 assms(3) by (simp add: enrolled_def register_store_def)
qed

lemma enrolled_credential:
  assumes "enrolled net i h (digest secret) (ov_clients d)" "0 \<le> i" "i < 2 ^ 63"
  shows "\<exists>c. tunnelAgentClient digest (''Bearer '' @ int_dec i @ '':'' @ secret) d = Some c \<and> cn_id c = i"
proof -
  from assms(1) obtain c where c: "getClientRow i d = Some c" "cn_secret_hash c = digest secret"
    by (auto simp: enrolled_def getClientRow_def)
  then have "cn_id c = i" by (auto simp: getClientRow_def find_Some_iff)
  have colon: "CHR '':'' \<notin> set (int_dec i)" using nat_dec_digits [of "CHR '':''"] assms(2) by (auto simp: int_dec_def byte_def)
  have t: "trim_prefix ''Bearer '' (''Bearer '' @ x) = x" for x
    by (simp add: trim_prefix_def has_prefix_def)
  have p: "parse_int64 (int_dec i) = Some i" using assms(2,3) by (intro parse_int64_int_dec) simp_all
  have "tunnelAgentClient digest (''Bearer '' @ int_dec i @ CHR '':'' # secret) d = Some c"
    unfolding tunnelAgentClient_def Let_def t cut_at [OF colon] p option.case c(1) list.sel c(2) by simp
  then show ?thesis using \<open>cn_id c = i\<close> by simp
qed

lemma enrolled_token_dead:
  "enrolled net i (digest (tr_token q)) sh (ov_clients d) \<Longrightarrow> TunnelAgentRegister random digest yaml now q d = (Inl 401, d)"
proof -
  assume "enrolled net i (digest (tr_token q)) sh (ov_clients d)"
  then have "find (\<lambda>c. cn_enroll_hash c = digest (tr_token q)) (ov_clients d) = None" by (simp add: enrolled_def find_None_iff)
  then show ?thesis by (simp add: TunnelAgentRegister_def register_select_def)
qed

text \<open>C35: A token enrols once. When a token registers a client - the one that has the token's digest - and no other
  registration of that client overlaps or follows, then whatever requests come after it, except the deletion of the
  client or of its network and a new token with the very same digest: the token is refused, and the number and the
  secret of the answer are the client's credential. Overlapping registrations are another matter.\<close>

theorem register_once:
  assumes "TunnelAgentRegister random digest yaml now q d = (Inr (i, secret, b), d1)"
    and "filter (\<lambda>c. cn_enroll_hash c = digest (tr_token q)) (ov_clients d) = [c0]" "digest (tr_token q) \<noteq> []"
    and "distinct (map cn_id (ov_clients d))" "0 \<le> cn_id c0" "cn_id c0 < 2 ^ 63"
    and "(later_request (cn_network c0) i (digest (tr_token q)))^** d1 d2" "tr_token q' = tr_token q"
  shows "i = cn_id c0 \<and> TunnelAgentRegister random' digest yaml' now' q' d2 = (Inl 401, d2) \<and>
    (\<exists>c. tunnelAgentClient digest (''Bearer '' @ int_dec i @ '':'' @ secret) d2 = Some c \<and> cn_id c = i)"
proof -
  have f: "find (\<lambda>c. cn_enroll_hash c = digest (tr_token q)) (ov_clients d) = Some c0"
    using assms(2) by (rule find_filter_one)
  with assms(1) have i: "i = cn_id c0" and d1: "d1 = register_store digest now q i secret d"
    by (auto simp: TunnelAgentRegister_def register_select_def register_answer_def split: if_splits option.splits)
  have "enrolled (cn_network c0) i (digest (tr_token q)) (digest secret) (ov_clients d1)"
    unfolding d1 i by (rule register_store_enrolled [OF assms(2,3,4)])
  from later_requests_keep [OF assms(7) this assms(3)]
  have e: "enrolled (cn_network c0) i (digest (tr_token q)) (digest secret) (ov_clients d2)" .
  have "TunnelAgentRegister random' digest yaml' now' q' d2 = (Inl 401, d2)"
    by (rule enrolled_token_dead) (use e assms(8) in simp)
  moreover have "0 \<le> i" "i < 2 ^ 63" using assms(5,6) i by simp_all
  ultimately show ?thesis using i enrolled_credential [where digest = digest and secret = secret, OF e] by blast
qed

end
