(* ===== verification/RouteHealth.thy ===== *)
theory RouteHealth
  imports OverlayConfig
begin

text \<open>
  A client of the overlay keeps its unsafe routes in step with the health of their gateways
  (\<open>internal/client/routehealth.go\<close>) and its configuration in step with the server (\<open>run.go\<close>). What a probe finds,
  whether a configuration can be loaded or a file written, and the JSON text of the routes are parameters. Go
  visits the keys of a map in an order of its own: the parameter \<open>order\<close>.
\<close>

section \<open>Which gateways carry a route\<close>

type_synonym gateway_health = "string \<Rightarrow> bool option"

definition gw_up :: "gateway_health \<Rightarrow> gateway_spec \<Rightarrow> bool" where
  "gw_up h g = (case h (gs_ip g) of None \<Rightarrow> True | Some v \<Rightarrow> v)"

definition best_priority :: "int list \<Rightarrow> int" where
  "best_priority ps = fold (\<lambda>p best. if best = -1 \<or> p < best then p else best) ps (-1)"

definition healthyGateways :: "(int list \<Rightarrow> int list) \<Rightarrow> route_spec \<Rightarrow> gateway_health \<Rightarrow> gateway_spec list" where
  "healthyGateways order rt h =
    (if rs_mode rt = ''active_passive'' then
      (let prio = remdups (map gs_priority (filter (gw_up h) (rs_gateways rt)));
           best = best_priority (order prio)
       in if best < 0 then [] else filter (\<lambda>g. gs_priority g = best \<and> gw_up h g) (rs_gateways rt))
     else filter (gw_up h) (rs_gateways rt))"

definition routeWithGateways :: "route_spec \<Rightarrow> gateway_spec list \<Rightarrow> nebula_route" where
  "routeWithGateways rt gs =
    \<lparr>nt_route = rs_cidr rt,
     nt_via = (case gs of [g] \<Rightarrow> OneGateway (gs_ip g) | _ \<Rightarrow> Gateways (map (\<lambda>g. (gs_ip g, gs_weight g)) gs)),
     nt_mtu = rs_mtu rt, nt_metric = rs_metric rt\<rparr>"

definition effective_route :: "(int list \<Rightarrow> int list) \<Rightarrow> gateway_health \<Rightarrow> route_spec \<Rightarrow> nebula_route list" where
  "effective_route order h rt =
    (let healthy = healthyGateways order rt h
     in if healthy \<noteq> [] then [routeWithGateways rt healthy]
        else if rs_all_down rt = ''fail_open'' \<or> rs_all_down rt = ''blackhole'' then []
        else [routeWithGateways rt (rs_gateways rt)])"

definition EffectiveUnsafeRoutes :: "(int list \<Rightarrow> int list) \<Rightarrow> route_spec list \<Rightarrow> gateway_health \<Rightarrow> nebula_route list" where
  "EffectiveUnsafeRoutes order specs h = concat (map (effective_route order h) specs)"

record yaml_route =
  yr_route :: string
  yr_mtu :: "int option"
  yr_metric :: "int option"
  yr_via :: via

definition routesToYAML :: "nebula_route list \<Rightarrow> yaml_route list" where
  "routesToYAML rs =
    map (\<lambda>r. \<lparr>yr_route = nt_route r, yr_mtu = (if nt_mtu r > 0 then Some (nt_mtu r) else None),
              yr_metric = (if nt_metric r > 0 then Some (nt_metric r) else None), yr_via = nt_via r\<rparr>) rs"

section \<open>The client\<close>

record route_manager =
  rm_routes :: "route_spec list"
  rm_effective :: "nebula_route list"
  rm_hash :: string

text \<open>The files of the state directory, what the overlay runs with (nothing before it starts; the routes that were
  put in place last, if any), and the revision in memory.\<close>

record client_state =
  cs_config :: "nebula_config option"
  cs_routes_file :: "route_spec list option"
  cs_running :: "(nebula_config \<times> yaml_route list option) option"
  cs_rev :: int
  cs_manager :: route_manager

definition NewRouteManager :: route_manager where
  "NewRouteManager = \<lparr>rm_routes = [], rm_effective = [], rm_hash = []\<rparr>"

definition Load :: "client_state \<Rightarrow> client_state" where
  "Load s = (case cs_routes_file s of None \<Rightarrow> s | Some rs \<Rightarrow> s\<lparr>cs_manager := (cs_manager s)\<lparr>rm_routes := rs\<rparr>\<rparr>)"

definition Reload :: "(nebula_config \<times> yaml_route list option \<Rightarrow> bool) \<Rightarrow> nebula_config \<times> yaml_route list option \<Rightarrow> client_state \<Rightarrow> bool \<times> client_state" where
  "Reload loads cfg s =
    (if cs_running s = None \<or> \<not> loads cfg then (False, s) else (True, s\<lparr>cs_running := Some cfg\<rparr>))"

definition apply_routes :: "(nebula_config \<times> yaml_route list option \<Rightarrow> bool) \<Rightarrow> nebula_route list \<Rightarrow> client_state \<Rightarrow> bool \<times> client_state" where
  "apply_routes loads rs s =
    (case cs_config s of None \<Rightarrow> (False, s) | Some cfg \<Rightarrow> Reload loads (cfg, Some (routesToYAML rs)) s)"

definition probe_all :: "(gateway_spec \<Rightarrow> bool) \<Rightarrow> route_spec list \<Rightarrow> gateway_health" where
  "probe_all probe rs = fold (\<lambda>g h. h(gs_ip g \<mapsto> probe g)) (concat (map rs_gateways rs)) Map.empty"

definition ProbeOnce ::
    "(int list \<Rightarrow> int list) \<Rightarrow> (nebula_route list \<Rightarrow> string) \<Rightarrow> (gateway_spec \<Rightarrow> bool) \<Rightarrow>
     (nebula_config \<times> yaml_route list option \<Rightarrow> bool) \<Rightarrow> client_state \<Rightarrow> client_state" where
  "ProbeOnce order json probe loads s =
    (let m = cs_manager s
     in if rm_routes m = [] then s
        else
         (let eff = EffectiveUnsafeRoutes order (rm_routes m) (probe_all probe (rm_routes m)); hash = json eff
          in if hash = rm_hash m then s
             else snd (apply_routes loads eff (s\<lparr>cs_manager := m\<lparr>rm_hash := hash, rm_effective := eff\<rparr>\<rparr>))))"

text \<open>The answer of the server to a request for the configuration: what the files become, and the revision.\<close>

type_synonym bundle_answer = "(nebula_config \<times> route_spec list \<times> int) option"

text \<open>How far writing the files gets: a failure may come before or after the configuration file.\<close>

datatype file_writes = NoConfig | ConfigOnly | AllFiles

definition ApplyBundle :: "file_writes \<Rightarrow> nebula_config \<times> route_spec list \<times> int \<Rightarrow> client_state \<Rightarrow> bool \<times> client_state" where
  "ApplyBundle written b s =
    (case written of NoConfig \<Rightarrow> (False, s)
     | ConfigOnly \<Rightarrow> (False, s\<lparr>cs_config := Some (fst b)\<rparr>)
     | AllFiles \<Rightarrow> (True, s\<lparr>cs_config := Some (fst b), cs_routes_file := (if fst (snd b) = [] then None else Some (fst (snd b)))\<rparr>))"

definition fetchAndApply :: "file_writes \<Rightarrow> bool \<Rightarrow> bundle_answer \<Rightarrow> client_state \<Rightarrow> bool \<times> client_state" where
  "fetchAndApply written saved answer s =
    (case answer of None \<Rightarrow> (False, s) | Some b \<Rightarrow>
      (case ApplyBundle written b s of (False, s') \<Rightarrow> (False, s') | (True, s') \<Rightarrow>
        (saved, s'\<lparr>cs_rev := snd (snd b)\<rparr>)))"

definition reloadOverlay :: "(nebula_config \<times> yaml_route list option \<Rightarrow> bool) \<Rightarrow> client_state \<Rightarrow> bool \<times> client_state" where
  "reloadOverlay loads s = (case cs_config s of None \<Rightarrow> (False, s) | Some cfg \<Rightarrow> Reload loads (cfg, None) s)"

text \<open>One heartbeat of the main loop; \<open>revision\<close> is the server's answer.\<close>

definition heartbeat_step ::
    "(nebula_config \<times> yaml_route list option \<Rightarrow> bool) \<Rightarrow> file_writes \<Rightarrow> bool \<Rightarrow> int option \<Rightarrow> bundle_answer \<Rightarrow> client_state \<Rightarrow> client_state" where
  "heartbeat_step loads written saved revision answer s =
    (case revision of None \<Rightarrow> s | Some r \<Rightarrow>
      (if r = cs_rev s then s
       else case fetchAndApply written saved answer s of
         (False, s') \<Rightarrow> s'
       | (True, s') \<Rightarrow> snd (reloadOverlay loads s')))"

section \<open>What the overlay is given\<close>

lemma best_priority_Min:
  assumes "\<forall>p\<in>set ps. 0 \<le> p" "ps \<noteq> []"
  shows "best_priority ps = Min (set ps)"
proof -
  have step: "fold (\<lambda>p best. if best = -1 \<or> p < best then p else best) ps b = (if b = -1 then (if ps = [] then -1 else Min (set ps)) else Min (insert b (set ps)))"
    if "\<forall>p\<in>set ps. 0 \<le> p" "b = -1 \<or> 0 \<le> b" for ps and b :: int
    using that
  proof (induction ps arbitrary: b)
    case (Cons p ps)
    have "0 \<le> p" using Cons.prems(1) by simp
    show ?case
    proof (cases "b = -1 \<or> p < b")
      case True
      have "fold (\<lambda>p best. if best = -1 \<or> p < best then p else best) (p # ps) b = Min (insert p (set ps))"
        using Cons.IH [of p] Cons.prems True \<open>0 \<le> p\<close> by simp
      moreover have "Min (insert b (insert p (set ps))) = Min (insert p (set ps))" if "b \<noteq> -1"
      proof -
        have "Min (insert p (set ps)) \<le> p" by simp
        moreover have "p \<le> b" using True that by simp
        ultimately have "Min (insert p (set ps)) \<le> b" by (rule order_trans)
        then have "min b (Min (insert p (set ps))) = Min (insert p (set ps))" by (simp add: min_absorb2)
        then show ?thesis by (subst Min_insert) simp_all
      qed
      ultimately show ?thesis by simp
    next
      case False
      then have "fold (\<lambda>p best. if best = -1 \<or> p < best then p else best) (p # ps) b = Min (insert b (set ps))"
        using Cons.IH [of b] Cons.prems by simp
      moreover have "Min (insert b (insert p (set ps))) = Min (insert b (set ps))"
      proof -
        have "Min (insert b (set ps)) \<le> p" using False by (meson List.finite_set Min_le finite.insertI insertI1 linorder_not_less order_trans)
        then have "min p (Min (insert b (set ps))) = Min (insert b (set ps))" by simp
        then show ?thesis by (simp add: insert_commute [of b p])
      qed
      ultimately show ?thesis using False by simp
    qed
  qed simp
  from step [OF assms(1), of "-1"] assms(2) show ?thesis by (simp add: best_priority_def)
qed

text \<open>The gateways the policy names, in the order of the route: all that are up, or with a passive reserve those of the
  best priority among them.\<close>

definition chosen :: "route_spec \<Rightarrow> gateway_health \<Rightarrow> gateway_spec list" where
  "chosen rt h = filter (\<lambda>g. gw_up h g \<and>
     (rs_mode rt = ''active_passive'' \<longrightarrow> (\<forall>g'\<in>set (rs_gateways rt). gw_up h g' \<longrightarrow> gs_priority g \<le> gs_priority g')))
     (rs_gateways rt)"

lemma healthyGateways_chosen:
  assumes "\<And>xs. set (order xs) = set xs" "\<forall>g\<in>set (rs_gateways rt). 0 \<le> gs_priority g"
  shows "healthyGateways order rt h = chosen rt h"
proof (cases "rs_mode rt = ''active_passive''")
  case True
  let ?up = "filter (gw_up h) (rs_gateways rt)"
  let ?ps = "order (remdups (map gs_priority ?up))"
  show ?thesis
  proof (cases "?up = []")
    case up: True
    then have "set ?ps = {}" by (simp only: assms(1)) simp
    then have "?ps = []" by simp
    then have "healthyGateways order rt h = []" using True by (simp add: healthyGateways_def best_priority_def)
    moreover have "chosen rt h = []" using up by (auto simp: chosen_def filter_empty_conv)
    ultimately show ?thesis by simp
  next
    case False
    have s: "set ?ps = gs_priority ` set ?up" by (simp only: assms(1) set_remdups set_map)
    then have ne: "?ps \<noteq> []" using False by (metis image_is_empty set_empty)
    have nn: "\<forall>p\<in>set ?ps. 0 \<le> p" unfolding s using assms(2) by auto
    have b: "best_priority ?ps = Min (gs_priority ` set ?up)" using best_priority_Min [OF nn ne] by (simp only: s)
    have fin: "finite (gs_priority ` set ?up)" "gs_priority ` set ?up \<noteq> {}" using False by (simp_all only: set_empty image_is_empty List.finite_set finite_imageI not_False_eq_True)
    have "0 \<le> best_priority ?ps" unfolding b using Min_in [OF fin] nn s by auto
    then have h: "healthyGateways order rt h = filter (\<lambda>g. gs_priority g = best_priority ?ps \<and> gw_up h g) (rs_gateways rt)"
      using True by (simp add: healthyGateways_def Let_def)
    have m: "gs_priority g = best_priority ?ps \<longleftrightarrow> (\<forall>g'\<in>set ?up. gs_priority g \<le> gs_priority g')" if "g \<in> set ?up" for g
    proof -
      have "gs_priority g = Min (gs_priority ` set ?up) \<longleftrightarrow> (\<forall>p\<in>gs_priority ` set ?up. gs_priority g \<le> p)"
        using that fin by (metis Min_eqI Min_le imageI)
      then show ?thesis unfolding b by blast
    qed
    show ?thesis unfolding h chosen_def using True m by (intro filter_cong) auto
  qed
qed (simp add: healthyGateways_def chosen_def)

text \<open>A route through gateways, as the overlay reads it: one gateway by its address, several with their weights.\<close>

definition route_through :: "route_spec \<Rightarrow> gateway_spec list \<Rightarrow> nebula_route \<Rightarrow> bool" where
  "route_through rt gs r =
    (nt_route r = rs_cidr rt \<and> nt_mtu r = rs_mtu rt \<and> nt_metric r = rs_metric rt \<and>
     (if length gs = 1 then nt_via r = OneGateway (gs_ip (hd gs)) else nt_via r = Gateways (map (\<lambda>g. (gs_ip g, gs_weight g)) gs)))"

lemma routeWithGateways_through: "route_through rt gs r \<longleftrightarrow> r = routeWithGateways rt gs"
  by (cases gs; cases "tl gs") (auto simp: route_through_def routeWithGateways_def)

definition kept_route :: "gateway_health \<Rightarrow> route_spec \<Rightarrow> bool" where
  "kept_route h rt = (chosen rt h \<noteq> [] \<or> rs_all_down rt \<notin> {''fail_open'', ''blackhole''})"

text \<open>C36: What the routes are reached through. For every round of probes and whatever order Go visits its maps in, when
  no priority is negative: the routes that stay are those with a gateway that the policy chooses or without a policy
  to vanish when all are down, in their order; each is given, with their addresses and weights in their order,
  exactly the gateways its policy chooses - those that are up, and with a passive reserve only those of the best
  priority among them - or all its gateways when there are none.\<close>

theorem effective_route_exact:
  assumes "\<forall>xs. set (order xs) = set xs" "\<forall>rt\<in>set specs. \<forall>g\<in>set (rs_gateways rt). 0 \<le> gs_priority g"
  shows "list_all2 (\<lambda>rt r. route_through rt (if chosen rt h \<noteq> [] then chosen rt h else rs_gateways rt) r)
    (filter (kept_route h) specs) (EffectiveUnsafeRoutes order specs h)"
  using assms(2)
proof (induction specs)
  case (Cons rt specs)
  then have "healthyGateways order rt h = chosen rt h" using assms(1) by (intro healthyGateways_chosen) simp_all
  with Cons show ?case
    by (auto simp: EffectiveUnsafeRoutes_def effective_route_def kept_route_def routeWithGateways_through Let_def)
qed (simp add: EffectiveUnsafeRoutes_def)

text \<open>A negative priority is taken for no priority: no gateway is chosen although some are up. The control plane
  accepts any number.\<close>

lemma best_priority_in: "best_priority ps \<in> insert (-1) (set ps)"
proof -
  have "fold (\<lambda>p best. if best = -1 \<or> p < best then p else best) ps b \<in> insert b (set ps)" for b
  proof (induction ps arbitrary: b)
    case (Cons p ps)
    from Cons [of "if b = -1 \<or> p < b then p else b"] show ?case by (auto split: if_splits)
  qed simp
  then show ?thesis by (simp add: best_priority_def)
qed

lemma negative_priority_down:
  assumes "\<And>xs. set (order xs) = set xs" "rs_mode rt = ''active_passive''"
    and "\<forall>g\<in>set (rs_gateways rt). gw_up h g \<longrightarrow> gs_priority g < 0"
  shows "healthyGateways order rt h = []"
proof -
  let ?ps = "order (remdups (map gs_priority (filter (gw_up h) (rs_gateways rt))))"
  have "set ?ps = gs_priority ` set (filter (gw_up h) (rs_gateways rt))" by (simp only: assms(1) set_remdups set_map)
  then have "best_priority ?ps < 0" using best_priority_in [of ?ps] assms(3) by auto
  then show ?thesis using assms(2) by (simp add: healthyGateways_def Let_def)
qed

text \<open>A configuration that could not be loaded is not tried again while the health stays the same.\<close>

lemma failed_reload_not_retried:
  assumes "\<not> loads (cfg, Some (routesToYAML eff))" "cs_config s = Some cfg" "rm_routes (cs_manager s) \<noteq> []"
    and "eff = EffectiveUnsafeRoutes order (rm_routes (cs_manager s)) (probe_all probe (rm_routes (cs_manager s)))"
    and "s' = ProbeOnce order json probe loads s"
  shows "cs_running s' = cs_running s \<and> ProbeOnce order json probe loads2 s' = s'"
proof (cases "json eff = rm_hash (cs_manager s)")
  case True
  then have "s' = s" using assms(4,5) by (simp add: ProbeOnce_def Let_def)
  then show ?thesis using True assms(4) by (simp add: ProbeOnce_def Let_def)
next
  case False
  have "s' = s\<lparr>cs_manager := (cs_manager s)\<lparr>rm_hash := json eff, rm_effective := eff\<rparr>\<rparr>"
    using False assms by (simp add: ProbeOnce_def Let_def apply_routes_def Reload_def)
  then show ?thesis using assms(4) by (simp add: ProbeOnce_def Let_def)
qed

end
