(* ===== verification/Edge.thy ===== *)
theory Edge
  imports OverlayConfig
begin

text \<open>
  The edge node: which target a host name leads to (\<open>internal/edge/edge.go\<close>), and which ports are listened on
  (\<open>tcp.go\<close>). Whether a port can be listened on is a parameter, and so is the order in which Go visits a map of
  ports. A listener keeps the target it was opened with.
\<close>

section \<open>Host names\<close>

record edge_table =
  et_exact :: "string \<Rightarrow> string option"
  et_wildcard :: "string \<Rightarrow> string option"

definition addLocked :: "string \<Rightarrow> string \<Rightarrow> edge_table \<Rightarrow> edge_table" where
  "addLocked host0 target t =
    (let host = to_lower host0
     in if has_prefix ''*.'' host then t\<lparr>et_wildcard := (et_wildcard t)(drop 2 host \<mapsto> target)\<rparr>
        else t\<lparr>et_exact := (et_exact t)(host \<mapsto> target)\<rparr>)"

definition NewTable :: "edge_route list \<Rightarrow> edge_table" where
  "NewTable routes =
    fold (\<lambda>r t. if er_host r = [] then t else addLocked (er_host r) (er_target r) t) routes
      \<lparr>et_exact = Map.empty, et_wildcard = Map.empty\<rparr>"

text \<open>Replacing the table and reading it from JSON build it anew.\<close>

definition Set_table :: "edge_route list \<Rightarrow> edge_table \<Rightarrow> edge_table" where
  "Set_table routes t = NewTable routes"

text \<open>The loop over the dots of a name, from the left.\<close>

fun wildcard_lookup :: "(string \<Rightarrow> string option) \<Rightarrow> string \<Rightarrow> string option" where
  "wildcard_lookup w [] = None"
| "wildcard_lookup w (c # s) =
    (if c = CHR ''.'' then (case w s of Some t \<Rightarrow> Some t | None \<Rightarrow> wildcard_lookup w s) else wildcard_lookup w s)"

definition Lookup :: "edge_table \<Rightarrow> string \<Rightarrow> string option" where
  "Lookup t host0 =
    (let host = to_lower host0
     in case et_exact t host of Some target \<Rightarrow> Some target | None \<Rightarrow> wildcard_lookup (et_wildcard t) host)"

definition hostOnly :: "string \<Rightarrow> string" where
  "hostOnly s = (case SplitHostPort s of Some (h, _) \<Rightarrow> h | None \<Rightarrow> s)"

text \<open>Where a request is sent, and the host name it carries.\<close>

definition director :: "edge_table \<Rightarrow> string \<Rightarrow> string \<times> string" where
  "director t host = (case Lookup t (hostOnly host) of None \<Rightarrow> (''127.0.0.1:9'', host) | Some target \<Rightarrow> (target, host))"

section \<open>Ports\<close>

type_synonym tcp_routes = "int \<Rightarrow> string option"

definition NewTCPRouter :: "edge_route list \<Rightarrow> tcp_routes" where
  "NewTCPRouter routes = fold (\<lambda>r m. if er_port r > 0 then m(er_port r \<mapsto> er_target r) else m) routes Map.empty"

definition Set_tcp :: "edge_route list \<Rightarrow> tcp_routes \<Rightarrow> tcp_routes" where
  "Set_tcp routes m = NewTCPRouter routes"

fun open_ports :: "(int \<Rightarrow> bool) \<Rightarrow> tcp_routes \<Rightarrow> int list \<Rightarrow> tcp_routes \<Rightarrow> bool \<times> tcp_routes" where
  "open_ports can_listen want [] ls = (True, ls)"
| "open_ports can_listen want (p # ps) ls =
    (if ls p \<noteq> None then open_ports can_listen want ps ls
     else if \<not> can_listen p then (False, ls)
     else open_ports can_listen want ps (ls(p := want p)))"

definition Sync :: "(int \<Rightarrow> bool) \<Rightarrow> int list \<Rightarrow> tcp_routes \<Rightarrow> tcp_routes \<Rightarrow> bool \<times> tcp_routes" where
  "Sync can_listen order want ls = open_ports can_listen want order (\<lambda>p. if want p = None then None else ls p)"

definition Close_ports :: "tcp_routes \<Rightarrow> tcp_routes" where
  "Close_ports ls = Map.empty"

text \<open>One reload of the routes file; one that cannot be read is skipped.\<close>

definition reload_edge ::
    "(int \<Rightarrow> bool) \<Rightarrow> int list \<Rightarrow> edge_route list option \<Rightarrow> edge_table \<times> tcp_routes \<times> tcp_routes \<Rightarrow> edge_table \<times> tcp_routes \<times> tcp_routes" where
  "reload_edge can_listen order file s =
    (case file of None \<Rightarrow> s | Some routes \<Rightarrow>
      (case s of (t, want, ls) \<Rightarrow>
        (let want' = Set_tcp routes want in (Set_table routes t, want', snd (Sync can_listen order want' ls)))))"

definition hostPolicy :: "edge_table \<Rightarrow> string \<Rightarrow> bool" where
  "hostPolicy t host = (Lookup t host \<noteq> None)"

section \<open>What the table and the ports promise\<close>

text \<open>What is left of a name after one of its dots.\<close>

definition suffixes_of :: "string \<Rightarrow> string set" where
  "suffixes_of s = {suf. \<exists>pre. s = pre @ CHR ''.'' # suf}"

lemma suffixes_of_Cons: "suffixes_of (c # s) = (if c = CHR ''.'' then insert s (suffixes_of s) else suffixes_of s)"
proof -
  have "c # s = pre @ CHR ''.'' # suf \<longleftrightarrow> (pre = [] \<and> c = CHR ''.'' \<and> suf = s) \<or> (\<exists>p. pre = c # p \<and> s = p @ CHR ''.'' # suf)" for pre suf
    by (cases pre) auto
  then show ?thesis by (auto simp: suffixes_of_def)
qed

lemma suffixes_of_length: "suf \<in> suffixes_of s \<Longrightarrow> length suf < length s"
  by (auto simp: suffixes_of_def)

lemma wildcard_lookup_iff:
  "wildcard_lookup w s = Some t \<longleftrightarrow>
   (\<exists>suf\<in>suffixes_of s. w suf = Some t \<and> (\<forall>suf'\<in>suffixes_of s. length suf < length suf' \<longrightarrow> w suf' = None))"
proof (induction s)
  case Nil
  then show ?case by (simp add: suffixes_of_def)
next
  case (Cons c s)
  show ?case
  proof (cases "c = CHR ''.'' \<and> w s \<noteq> None")
    case True
    then show ?thesis by (fastforce simp: suffixes_of_Cons dest: suffixes_of_length)
  next
    case False
    then have "wildcard_lookup w (c # s) = wildcard_lookup w s" by (auto split: option.split)
    with Cons.IH False show ?thesis by (auto simp: suffixes_of_Cons)
  qed
qed

text \<open>Where a host name leads. A name in the table leads to its target; any other name leads to the target of
  the longest wildcard that covers it, if one does.\<close>

theorem Lookup_longest:
  "Lookup t host = Some target \<longleftrightarrow> et_exact t (to_lower host) = Some target \<or>
     et_exact t (to_lower host) = None \<and>
     (\<exists>suf. suf \<in> suffixes_of (to_lower host) \<and> et_wildcard t suf = Some target \<and>
        {suf' \<in> suffixes_of (to_lower host). length suf < length suf' \<and> et_wildcard t suf' \<noteq> None} = {})"
proof -
  have e: "(\<exists>suf. suf \<in> suffixes_of s \<and> w suf = Some target \<and> {suf' \<in> suffixes_of s. length suf < length suf' \<and> w suf' \<noteq> None} = {}) \<longleftrightarrow>
      wildcard_lookup w s = Some target" for s and w :: "string \<Rightarrow> string option"
  proof -
    have "{x \<in> A. P x \<and> w x \<noteq> None} = {} \<longleftrightarrow> (\<forall>x\<in>A. P x \<longrightarrow> w x = None)" for A and P :: "string \<Rightarrow> bool" by auto
    then show ?thesis unfolding wildcard_lookup_iff Bex_def by (simp only:)
  qed
  show ?thesis unfolding e Lookup_def Let_def by (cases "et_exact t (to_lower host)") simp_all
qed

lemma open_ports_spec:
  assumes "open_ports can_listen want ps ls = (True, ls')"
  shows "ls' = (\<lambda>p. if p \<in> set ps \<and> ls p = None then want p else ls p)"
  using assms
proof (induction ps arbitrary: ls)
  case (Cons p ps)
  then show ?case by (cases "ls p = None") (auto simp: fun_eq_iff split: if_splits)
qed simp

text \<open>The ports of an edge node. After a synchronisation that succeeds, the ports listened on are exactly those
  of the routes, a port that was not open leads to its target, and a port that was open keeps the target it had.\<close>

theorem Sync_ports:
  assumes "Sync can_listen order want ls = (True, ls')" "set order = dom want"
  shows "ls' = (\<lambda>p. if want p = None then None else if ls p = None then want p else ls p)"
proof -
  have "ls' = (\<lambda>p. if p \<in> set order \<and> (if want p = None then None else ls p) = None then want p else (if want p = None then None else ls p))"
    using open_ports_spec [OF assms(1) [unfolded Sync_def]] .
  then show ?thesis using assms(2) by (auto simp: fun_eq_iff)
qed

text \<open>A changed target is therefore never used while the port stays in the routes.\<close>

lemma changed_target_ignored:
  "snd (Sync (\<lambda>p. True) [8080] [8080 \<mapsto> ''10.0.0.2:80''] [8080 \<mapsto> ''10.0.0.1:80'']) 8080 = Some ''10.0.0.1:80''"
  by (simp add: Sync_def)

end
