(* ===== verification/OverlayExamples.thy ===== *)
theory OverlayExamples
  imports OverlayTrust RouteHealth Edge
begin

text \<open>
  The overlay at work on small databases: the properties of the control plane, of a client's routes and of an edge
  node's ports at concrete inputs, and what the code does that one would not expect.
\<close>

section \<open>A network with a client and a server\<close>

definition sample_pki :: pki_lib where
  "sample_pki = \<lparr>pk_ca = (\<lambda>name. Some (''CA'', ''CAKEY'', ''CAFP'')), pk_key = Some (''PUB'', ''PRIV''),
     pk_issue = (\<lambda>ca k pub name nets unsafe groups. Some (''cert of '' @ name)), pk_parse = (\<lambda>cert. Some (''fp of '' @ cert))\<rparr>"

text \<open>The authority a day later: what it issues is another certificate.\<close>

definition later_pki :: pki_lib where
  "later_pki = sample_pki\<lparr>pk_issue := (\<lambda>ca k pub name nets unsafe groups. Some (''new cert of '' @ name))\<rparr>"

definition sample_digest :: "string \<Rightarrow> string" where
  "sample_digest s = CHR ''#'' # s"

definition sample_yaml :: "nebula_config \<Rightarrow> string" where
  "sample_yaml c = concat (nc_blocklist c)"

definition plain_settings :: nebula_settings where
  "plain_settings = \<lparr>nb_cipher = [], nb_lighthouse_interval = 0, nb_listen_port = 0, nb_punch = False, nb_punch_respond = False,
     nb_punch_delay = [], nb_am_relay = False, nb_use_relays = False, nb_relays = [], nb_tun_device = [],
     nb_tun_disabled = False, nb_preferred_ranges = [], nb_remote_allow_list = [], nb_handshake_try_interval = [],
     nb_handshake_retries = 0, nb_log_level = [], nb_log_format = [], nb_stats_type = [], nb_stats_listen = []\<rparr>"

definition office_req :: network_req where
  "office_req = \<lparr>nr_name = ''office'', nr_cidr4 = ''10.0.0.0/29'', nr_cidr6 = [], nr_gateway4 = ''10.0.0.1'', nr_gateway6 = [],
     nr_dns = [], nr_mtu = 0, nr_nebula = plain_settings\<rparr>"

definition client_named :: "string \<Rightarrow> client_req" where
  "client_named n = \<lparr>cq_network = 1, cq_name = n, cq_ipv4 = [], cq_ipv6 = [], cq_groups = [], cq_subnets = []\<rparr>"

definition relay_req :: server_req where
  "relay_req = \<lparr>sq_network = 1, sq_name = ''relay'', sq_roles = ''relay'', sq_region = [], sq_ip4 = [], sq_ip6 = [],
     sq_public_host = [], sq_public_port = 0\<rparr>"

definition office :: overlay_db where
  "office = snd (CreateNetwork sample_pki ''t0'' office_req empty_overlay)"

definition office_client :: overlay_db where
  "office_client = snd (CreateClient sample_pki (Some ''tok'') sample_digest ''t1'' (client_named ''ann'') office)"

definition office_both :: overlay_db where
  "office_both = snd (CreateServerNode sample_pki relay_req office_client)"

text \<open>Their rows.\<close>

definition ann_row :: client_node where
  "ann_row = \<lparr>cn_id = 1, cn_network = 1, cn_name = ''ann'', cn_ipv4 = ''10.0.0.2'', cn_ipv6 = [], cn_public_key = ''PUB'',
     cn_cert = ''cert of ann'', cn_key = ''PRIV'', cn_groups = [], cn_subnets = [], cn_os = [], cn_arch = [], cn_kernel = [],
     cn_version = [], cn_status = ''offline'', cn_last_seen = [], cn_config_rev = 0, cn_enroll_hash = ''#tok'', cn_secret_hash = [],
     cn_updated_at = ''t1''\<rparr>"

definition relay_row :: server_node where
  "relay_row = \<lparr>sn_id = 1, sn_network = 1, sn_name = ''relay'', sn_roles = ''relay'', sn_region = [], sn_ip4 = ''10.0.0.3'',
     sn_ip6 = [], sn_public_host = [], sn_public_port = 0, sn_public_key = ''PUB'', sn_cert = ''cert of relay'', sn_key = ''PRIV''\<rparr>"

definition held_by_1 :: "string \<Rightarrow> alloc_row" where
  "held_by_1 a = \<lparr>al_network = 1, al_ip = a, al_family = 4, al_node = Some 1, al_state = ''allocated''\<rparr>"

definition office_rows :: overlay_db where
  "office_rows =
    \<lparr>ov_networks = [\<lparr>nw_id = 1, nw_name = ''office'', nw_cidr4 = ''10.0.0.0/29'', nw_cidr6 = [], nw_gateway4 = ''10.0.0.1'', nw_gateway6 = [],
       nw_dns = [], nw_mtu = 1300, nw_nebula = plain_settings, nw_created_at = ''t0''\<rparr>],
     ov_cas = [\<lparr>ca_network = 1, ca_cert = ''CA'', ca_key = ''CAKEY'', ca_fingerprint = ''CAFP''\<rparr>],
     ov_clients = [ann_row], ov_servers = [], ov_allocs = [held_by_1 ''10.0.0.2''], ov_routes = [], ov_gateways = [], ov_edges = [],
     ov_revoked = [], ov_next_network = 2, ov_next_client = 2, ov_next_server = 1, ov_next_route = 1, ov_next_gateway = 1, ov_next_edge = 1\<rparr>"

lemma office_client_rows [code]: "office_client = office_rows"
  by code_simp

lemma office_both_rows [code]:
  "office_both = office_rows\<lparr>ov_servers := [relay_row], ov_allocs := [held_by_1 ''10.0.0.2'', held_by_1 ''10.0.0.3''], ov_next_server := 2\<rparr>"
  by code_simp

lemma office_reached: "careful_request^** empty_overlay office"
proof -
  have "careful_request empty_overlay office" unfolding careful_request_def office_def
    by (intro exI [of _ OtherRequest] conjI overlay_step.network_create) (simp add: careful_def)
  then show ?thesis by (rule r_into_rtranclp)
qed

lemma office_client_reached: "careful_request^** empty_overlay office_client"
proof -
  have "careful_request office office_client" unfolding careful_request_def office_client_def
    by (intro exI [of _ "TokenIssued (map_option sample_digest (Some ''tok''))"] conjI overlay_step.client_create) (simp add: careful_def)
  then show ?thesis by (rule rtranclp.rtrancl_into_rtrancl [OF office_reached])
qed

lemma office_both_reached: "careful_request^** empty_overlay office_both"
proof -
  have "careful_request office_client office_both" unfolding careful_request_def office_both_def
    by (intro exI [of _ OtherRequest] conjI overlay_step.server_create) (simp add: careful_def)
  then show ?thesis by (rule rtranclp.rtrancl_into_rtrancl [OF office_client_reached])
qed

lemma office_both_requests: "overlay_request^** empty_overlay office_both"
proof -
  have "careful_request \<le> overlay_request" using careful_is_request by blast
  then show ?thesis using office_both_reached by (rule rtranclp_mono [THEN predicate2D])
qed

lemma office_both_owned:
  "owned (ov_clients office_both) (ov_servers office_both) = [(1, 1, ''10.0.0.2''), (1, 1, ''10.0.0.3'')]"
  by code_simp

lemma addresses_unique_witness:
  "careful_request^** empty_overlay office_both \<and> distinct (map snd (owned (ov_clients office_both) (ov_servers office_both))) \<and>
   length (ov_clients office_both) = 1 \<and> length (ov_servers office_both) = 1"
proof -
  have "length (ov_clients office_both) = 1" "length (ov_servers office_both) = 1" by code_simp+
  then show ?thesis using addresses_unique [OF office_both_reached] office_both_reached by blast
qed

text \<open>The client and the server have the same number, so deleting the server frees the address of the client, and the
  next client is given an address that is in use.\<close>

lemma shared_number_frees_address:
  "(case DeleteServerNode 1 office_both of (_, d) \<Rightarrow>
    (case CreateClient sample_pki (Some ''tok2'') sample_digest ''t2'' (client_named ''bob'') d of (_, d') \<Rightarrow>
      map (\<lambda>c. (cn_name c, cn_ipv4 c)) (ov_clients d'))) = [(''ann'', ''10.0.0.2''), (''bob'', ''10.0.0.2'')]"
  by code_simp

section \<open>Certificates\<close>

text \<open>The certificate is revoked, and then the client deleted, whose number the server has too.\<close>

definition ann_revoked :: overlay_db where
  "ann_revoked = snd (DeleteClient 1 (snd (RevokeCert sample_pki 1 office_both)))"

lemma revoked_in_every_bundle_witness:
  "\<exists>c b. getClientRow 1 office_both = Some c \<and> getClientRow 1 ann_revoked = None \<and>
     fst (ServerNodeBundle sample_yaml 1 ann_revoked) = Inr b \<and>
     (\<exists>cfg. bu_config b = sample_yaml cfg \<and> ''fp of cert of ann'' \<in> set (nc_blocklist cfg))"
proof -
  let ?c = "hd (ov_clients office_both)" and ?s = "hd (ov_servers ann_revoked)"
  have c: "getClientRow 1 office_both = Some ?c" "pk_parse sample_pki (cn_cert ?c) = Some ''fp of cert of ann'' \<and> cn_network ?c = 1"
    by code_simp+
  have s: "find (\<lambda>s. sn_id s = 1) (ov_servers ann_revoked) = Some ?s" "sn_network ?s = 1" "getClientRow 1 ann_revoked = None" by code_simp+
  obtain b where b: "fst (ServerNodeBundle sample_yaml 1 ann_revoked) = Inr b"
  proof -
    have "case fst (ServerNodeBundle sample_yaml 1 ann_revoked) of Inr b \<Rightarrow> True | Inl e \<Rightarrow> False" by code_simp
    then show ?thesis using that by (auto split: sum.splits)
  qed
  have "overlay_request (snd (RevokeCert sample_pki 1 office_both)) ann_revoked"
    unfolding overlay_request_def ann_revoked_def by (rule exI, rule overlay_step.client_delete)
  then have "overlay_request^** (snd (RevokeCert sample_pki 1 office_both)) ann_revoked" by (rule r_into_rtranclp)
  note all = revoked_in_every_bundle [OF office_both_requests c(1) conjunct1 [OF c(2)] this, of sample_yaml b 1]
  then show ?thesis using b c s by fastforce
qed

text \<open>Only the certificate of the moment is revoked: one that was issued before a renewal stays valid, and so does
  that of a client that is deleted.\<close>

lemma earlier_certificate_stays:
  "(case RenewCert later_pki ''t3'' 1 office_both of (_, d) \<Rightarrow> loadRevocations 1 (snd (RevokeCert later_pki 1 d))) =
     [''fp of new cert of ann''] \<and>
   loadRevocations 1 (snd (DeleteClient 1 office_both)) = []"
  by code_simp

definition ann_register :: tunnel_register where
  "ann_register = \<lparr>tr_token = ''tok'', tr_os = ''linux'', tr_arch = ''amd64'', tr_kernel = [], tr_version = ''1''\<rparr>"

definition ann_enrolled :: overlay_db where
  "ann_enrolled = snd (TunnelAgentRegister (Some ''s3'') sample_digest sample_yaml ''t4'' ann_register office_client)"

text \<open>After the registration the client is given another token, which changes nothing for the first one.\<close>

definition ann_retoken :: overlay_db where
  "ann_retoken = snd (ClientEnrollToken (Some ''tok9'') sample_digest ''t5'' 1 ann_enrolled)"

lemma register_once_witness:
  "\<exists>i secret b. TunnelAgentRegister (Some ''s3'') sample_digest sample_yaml ''t4'' ann_register office_client = (Inr (i, secret, b), ann_enrolled) \<and>
     TunnelAgentRegister None sample_digest sample_yaml ''t6'' ann_register ann_retoken = (Inl 401, ann_retoken) \<and>
     (\<exists>c. tunnelAgentClient sample_digest (''Bearer '' @ int_dec i @ '':'' @ secret) ann_retoken = Some c \<and> cn_id c = i)"
proof -
  have "case fst (TunnelAgentRegister (Some ''s3'') sample_digest sample_yaml ''t4'' ann_register office_client) of
      Inr (i, x) \<Rightarrow> i = 1 | Inl e \<Rightarrow> False"
    by code_simp
  then obtain secret b where r: "TunnelAgentRegister (Some ''s3'') sample_digest sample_yaml ''t4'' ann_register office_client = (Inr (1, secret, b), ann_enrolled)"
    unfolding ann_enrolled_def by (auto split: prod.splits sum.splits) (metis prod.collapse)
  have f: "filter (\<lambda>c. cn_enroll_hash c = sample_digest (tr_token ann_register)) (ov_clients office_client) = [hd (ov_clients office_client)]"
    "sample_digest (tr_token ann_register) \<noteq> []" "distinct (map cn_id (ov_clients office_client))"
    "0 \<le> cn_id (hd (ov_clients office_client))" "cn_id (hd (ov_clients office_client)) < 2 ^ 63"
    by code_simp+
  have "overlay_step (TokenIssued (map_option sample_digest (Some ''tok9''))) ann_enrolled ann_retoken"
    unfolding ann_retoken_def by (rule overlay_step.client_token)
  then have "later_request (cn_network (hd (ov_clients office_client))) 1 (sample_digest (tr_token ann_register)) ann_enrolled ann_retoken"
    unfolding later_request_def
    by (intro exI [of _ "TokenIssued (map_option sample_digest (Some ''tok9''))"]) (simp add: sample_digest_def ann_register_def)
  then have l: "(later_request (cn_network (hd (ov_clients office_client))) 1 (sample_digest (tr_token ann_register)))^** ann_enrolled ann_retoken"
    by (rule r_into_rtranclp)
  from register_once [OF r f l refl, of None sample_yaml "''t6''"] r show ?thesis by blast
qed

text \<open>Two registrations with one token overlap: both find the client before either has written, both are answered with a
  credential, and only the later one's is good.\<close>

lemma overlapping_registrations:
  "register_select sample_digest ann_register office_client = Some 1 \<and>
   (let first = register_store sample_digest ''t4'' ann_register 1 ''s3'' office_client;
        both = register_store sample_digest ''t4'' ann_register 1 ''s4'' first
    in (case fst (register_answer sample_yaml 1 ''s3'' first) of Inr (i, s, b) \<Rightarrow> i = 1 \<and> s = ''s3'' | Inl e \<Rightarrow> False) \<and>
       (case fst (register_answer sample_yaml 1 ''s4'' both) of Inr (i, s, b) \<Rightarrow> i = 1 \<and> s = ''s4'' | Inl e \<Rightarrow> False) \<and>
       tunnelAgentClient sample_digest ''Bearer 1:s3'' both = None \<and>
       map_option cn_id (tunnelAgentClient sample_digest ''Bearer 1:s4'' both) = Some 1)"
  by code_simp

section \<open>Addresses\<close>

lemma Allocate_first_free_witness:
  "\<exists>al'. Allocate 1 ''10.0.0.0/29'' [] [''10.0.0.1''] [] = (Inr ''10.0.0.2'', al') \<and>
     (\<exists>a. ''10.0.0.2'' = addr_text (a, []) \<and>
       (\<forall>b. length b = 4 \<and> 167772160 < ip_val b \<and> ip_val b < ip_val a \<longrightarrow>
         taken 1 (kept_back [''10.0.0.1''] (Masked ([10, 0, 0, 0], 29))) [] b))"
proof -
  have p: "ParsePrefix ''10.0.0.0/29'' = Some ([10, 0, 0, 0], 29)" by code_simp
  have a: "fst (Allocate 1 ''10.0.0.0/29'' [] [''10.0.0.1''] []) = Inr ''10.0.0.2''" by code_simp
  then obtain al' where e: "Allocate 1 ''10.0.0.0/29'' [] [''10.0.0.1''] [] = (Inr ''10.0.0.2'', al')" by (metis prod.collapse)
  have v: "ip_val (fst (Masked ([10, 0, 0, 0], 29))) = 167772160" by code_simp
  from Allocate_first_free [OF p, where net = 1 and exclude = "[''10.0.0.1'']" and al = "[]"] e v show ?thesis by auto
qed

text \<open>The text that was asked for is compared as it stands, so one IPv6 address is given out twice.\<close>

lemma same_address_two_texts:
  assumes "ParsePrefix cidr = Some p" "ParseAddr t1 = Some a" "ParseAddr t2 = Some a" "t1 \<noteq> t2" "[] \<notin> {t1, t2}"
    and "prefix_contains (Masked p) a" "t1 \<notin> set (kept_back exclude (Masked p))" "t2 \<notin> set (kept_back exclude (Masked p))"
  shows "\<exists>al. Allocate net cidr t1 exclude [] = (Inr t1, al) \<and> fst (Allocate net cidr t2 exclude al) = Inr t2"
  using assms by (auto simp: Allocate_def Let_def allocated_def insert_alloc_def exists_row_iff)

section \<open>Routes and ports\<close>

definition reserve_route :: route_spec where
  "reserve_route = \<lparr>rs_cidr = ''192.168.0.0/16'', rs_mtu = 0, rs_metric = 0, rs_mode = ''active_passive'', rs_all_down = ''fail_closed'',
     rs_gateways = [\<lparr>gs_ip = ''10.0.0.2'', gs_weight = 1, gs_priority = 0, gs_health_target = [], gs_health_port = 0\<rparr>,
                    \<lparr>gs_ip = ''10.0.0.3'', gs_weight = 1, gs_priority = 10, gs_health_target = [], gs_health_port = 0\<rparr>]\<rparr>"

definition plain_route :: route_spec where
  "plain_route = reserve_route\<lparr>rs_cidr := ''172.16.0.0/12'', rs_mode := ''active_active''\<rparr>"

definition gone_route :: route_spec where
  "gone_route = reserve_route\<lparr>rs_all_down := ''fail_open'', rs_gateways := take 1 (rs_gateways reserve_route)\<rparr>"

lemma effective_route_exact_witness:
  "EffectiveUnsafeRoutes id [reserve_route, gone_route, plain_route] [''10.0.0.2'' \<mapsto> False] =
     [\<lparr>nt_route = ''192.168.0.0/16'', nt_via = OneGateway ''10.0.0.3'', nt_mtu = 0, nt_metric = 0\<rparr>,
      \<lparr>nt_route = ''172.16.0.0/12'', nt_via = OneGateway ''10.0.0.3'', nt_mtu = 0, nt_metric = 0\<rparr>] \<and>
   list_all2 (\<lambda>rt r. route_through rt (if chosen rt [''10.0.0.2'' \<mapsto> False] \<noteq> [] then chosen rt [''10.0.0.2'' \<mapsto> False] else rs_gateways rt) r)
     [reserve_route, plain_route] (EffectiveUnsafeRoutes id [reserve_route, gone_route, plain_route] [''10.0.0.2'' \<mapsto> False])"
proof
  have "\<forall>rt\<in>set [reserve_route, gone_route, plain_route]. \<forall>g\<in>set (rs_gateways rt). 0 \<le> gs_priority g"
    by (simp add: reserve_route_def gone_route_def plain_route_def)
  note r = effective_route_exact [OF _ this, of id "[''10.0.0.2'' \<mapsto> False]"]
  have "filter (kept_route [''10.0.0.2'' \<mapsto> False]) [reserve_route, gone_route, plain_route] = [reserve_route, plain_route]"
    by (simp add: kept_route_def chosen_def reserve_route_def gone_route_def plain_route_def gw_up_def)
  with r show "list_all2 (\<lambda>rt r. route_through rt (if chosen rt [''10.0.0.2'' \<mapsto> False] \<noteq> [] then chosen rt [''10.0.0.2'' \<mapsto> False] else rs_gateways rt) r)
     [reserve_route, plain_route] (EffectiveUnsafeRoutes id [reserve_route, gone_route, plain_route] [''10.0.0.2'' \<mapsto> False])"
    by simp
qed code_simp

text \<open>One gateway that is up with a negative priority, and the route of its network is gone.\<close>

lemma negative_priority_removes_route:
  "EffectiveUnsafeRoutes id [gone_route\<lparr>rs_gateways := [(hd (rs_gateways gone_route))\<lparr>gs_priority := -1\<rparr>]\<rparr>] [''10.0.0.2'' \<mapsto> True] = []"
  by code_simp

lemma Sync_ports_witness:
  "Sync (\<lambda>p. True) [80, 443] [80 \<mapsto> ''b:1'', 443 \<mapsto> ''c:1''] [80 \<mapsto> ''a:1'', 22 \<mapsto> ''d:1''] =
     (True, \<lambda>p. if ([80 \<mapsto> ''b:1'', 443 \<mapsto> ''c:1''] :: tcp_routes) p = None then None
        else if ([80 \<mapsto> ''a:1'', 22 \<mapsto> ''d:1''] :: tcp_routes) p = None then [80 \<mapsto> ''b:1'', 443 \<mapsto> ''c:1''] p
        else [80 \<mapsto> ''a:1'', 22 \<mapsto> ''d:1''] p)"
proof -
  have s: "fst (Sync (\<lambda>p. True) [80, 443] [80 \<mapsto> ''b:1'', 443 \<mapsto> ''c:1''] [80 \<mapsto> ''a:1'', 22 \<mapsto> ''d:1'']) = True" by (simp add: Sync_def)
  have "Sync (\<lambda>p. True) [80, 443] [80 \<mapsto> ''b:1'', 443 \<mapsto> ''c:1''] [80 \<mapsto> ''a:1'', 22 \<mapsto> ''d:1''] =
      (True, snd (Sync (\<lambda>p. True) [80, 443] [80 \<mapsto> ''b:1'', 443 \<mapsto> ''c:1''] [80 \<mapsto> ''a:1'', 22 \<mapsto> ''d:1'']))"
    by (rule prod_eqI) (simp_all only: s fst_conv snd_conv)
  moreover have "set [80, 443] = dom ([80 \<mapsto> ''b:1'', 443 \<mapsto> ''c:1''] :: tcp_routes)" by auto
  ultimately have "snd (Sync (\<lambda>p. True) [80, 443] [80 \<mapsto> ''b:1'', 443 \<mapsto> ''c:1''] [80 \<mapsto> ''a:1'', 22 \<mapsto> ''d:1'']) =
      (\<lambda>p. if ([80 \<mapsto> ''b:1'', 443 \<mapsto> ''c:1''] :: tcp_routes) p = None then None
        else if ([80 \<mapsto> ''a:1'', 22 \<mapsto> ''d:1''] :: tcp_routes) p = None then [80 \<mapsto> ''b:1'', 443 \<mapsto> ''c:1''] p
        else [80 \<mapsto> ''a:1'', 22 \<mapsto> ''d:1''] p)" by (rule Sync_ports)
  from prod_eqI [OF trans [OF s fst_conv [symmetric]] trans [OF this snd_conv [symmetric]]] show ?thesis .
qed

end
