(* ===== verification/ExtBin.thy ===== *)
theory ExtBin
  imports ClientAddr Accounts
begin

unbundle bit_operations_syntax

text \<open>
  The white list of external files the server fetches for old systems: \<^verbatim>\<open>internal/pkg/extbin/extbin.go\<close>. A Go map is
  an association list with distinct keys; parsing addresses (\<^verbatim>\<open>net/url\<close>) and looking up names are parameters. The texts
  of errors are not modelled: a check answers whether it passes.
\<close>

type_synonym table = "(string \<times> string) list"

definition table_put :: "string \<Rightarrow> string \<Rightarrow> table \<Rightarrow> table" where
  "table_put k v m = (if exists_row (\<lambda>x. fst x = k) m then upd_where (\<lambda>x. fst x = k) (\<lambda>x. (k, v)) m else m @ [(k, v)])"

definition sorted_table :: "table \<Rightarrow> table" where
  "sorted_table m = sort_key fst m"

section \<open>Built-in entries\<close>

definition release_of :: "string \<Rightarrow> string \<Rightarrow> string" where
  "release_of project file = ''https://github.com/iflyelf/'' @ project @ ''/releases/download/latest/'' @ file"

definition DefaultBinaries :: table where
  "DefaultBinaries =
    [(''windows-exporter-amd64'', release_of ''windows_exporter'' ''windows_exporter-amd64.exe''),
     (''windows-exporter-arm64'', release_of ''windows_exporter'' ''windows_exporter-arm64.exe''),
     (''windows-exporter-amd64-legacy'', release_of ''windows_exporter'' ''windows_exporter-amd64-legacy.exe''),
     (''windows-exporter-arm64-legacy'', release_of ''windows_exporter'' ''windows_exporter-arm64-legacy.exe''),
     (''windows-exporter-install.ps1'',
      ''script:https://raw.githubusercontent.com/iflyelf/upgrade_mgr/main/examples/windows_exporter/install.ps1''),
     (''node-exporter-install.sh'',
      ''script:https://raw.githubusercontent.com/iflyelf/upgrade_mgr/main/examples/node_exporter/install.sh''),
     (''node-exporter-linux-amd64'', release_of ''node_exporter'' ''node_exporter-linux-amd64''),
     (''node-exporter-linux-arm64'', release_of ''node_exporter'' ''node_exporter-linux-arm64''),
     (''node-exporter-linux-amd64-legacy'', release_of ''node_exporter'' ''node_exporter-linux-amd64-legacy''),
     (''node-exporter-linux-arm64-legacy'', release_of ''node_exporter'' ''node_exporter-linux-arm64-legacy'')]"

definition IsExecutable :: "string \<Rightarrow> bool" where
  "IsExecutable head = (has_prefix ''MZ'' head \<or> has_prefix (CHR 0x7F # ''ELF'') head)"

definition hasNameFold :: "table \<Rightarrow> string \<Rightarrow> bool" where
  "hasNameFold m name = list_ex (\<lambda>x. equal_fold (fst x) name) m"

definition Effective :: "table \<Rightarrow> table" where
  "Effective configured = configured @ filter (\<lambda>x. \<not> hasNameFold configured (fst x)) DefaultBinaries"

definition builtinValue :: "string \<Rightarrow> string option" where
  "builtinValue name = map_option snd (find (\<lambda>x. equal_fold (fst x) name) DefaultBinaries)"

definition IsBuiltin :: "string \<Rightarrow> bool" where
  "IsBuiltin name = (builtinValue name \<noteq> None)"

definition StripBuiltinDefaults :: "table \<Rightarrow> table" where
  "StripBuiltinDefaults raw = filter (\<lambda>x. builtinValue (fst x) \<noteq> Some (trim_space (snd x))) raw"

section \<open>Entries and their text\<close>

record bin_entry =
  en_name :: string
  en_url :: string
  en_script :: bool

definition FileName :: "bin_entry \<Rightarrow> string" where
  "FileName e =
    (let name = to_lower (en_name e)
     in if \<not> en_script e \<and> \<not> contains ''linux'' name then name @ ''.exe'' else name)"

definition name_char :: "char \<Rightarrow> bool" where
  "name_char c = (is_letter c \<or> is_digit c \<or> c = CHR ''.'' \<or> c = CHR ''_'' \<or> c = CHR ''-'')"

definition ValidName :: "string \<Rightarrow> bool" where
  "ValidName name = (name \<noteq> [] \<and> length name \<le> 128 \<and> list_all name_char name)"

definition ValidateURL :: "url_lib \<Rightarrow> string \<Rightarrow> bool" where
  "ValidateURL ul raw =
    (raw \<noteq> [] \<and> length raw \<le> 2048 \<and>
     (case ul_parse ul raw of None \<Rightarrow> False | Some u \<Rightarrow>
       (ur_scheme u = ''http'' \<or> ur_scheme u = ''https'') \<and> ur_host u \<noteq> [] \<and> \<not> ur_user u \<and> ur_fragment u = []))"

definition without_script :: "string \<Rightarrow> bool \<times> string" where
  "without_script raw =
    (if has_prefix ''script:'' (to_lower raw) then (True, trim_space (drop 7 raw)) else (False, raw))"

definition parseOne :: "url_lib \<Rightarrow> string \<Rightarrow> string \<Rightarrow> bin_entry option" where
  "parseOne ul name0 raw0 =
    (let name = trim_space name0
     in if \<not> ValidName name then None
        else case without_script (trim_space raw0) of (script, raw) \<Rightarrow>
         (if \<not> ValidateURL ul raw then None else Some \<lparr>en_name = name, en_url = raw, en_script = script\<rparr>))"

fun parse_entries :: "url_lib \<Rightarrow> table \<Rightarrow> bin_entry list option" where
  "parse_entries ul [] = Some []"
| "parse_entries ul ((name, raw) # m) =
    (case parseOne ul name raw of None \<Rightarrow> None | Some e \<Rightarrow> map_option (\<lambda>es. e # es) (parse_entries ul m))"

definition Parse :: "url_lib \<Rightarrow> table \<Rightarrow> bin_entry list option" where
  "Parse ul raw = parse_entries ul (sorted_table raw)"

text \<open>\<^verbatim>\<open>strings.FieldsFunc\<close> at line ends, commas and semicolons.\<close>

definition field_end :: "char \<Rightarrow> bool" where
  "field_end c = (c = CHR 10 \<or> c = CHR 13 \<or> c = CHR '','' \<or> c = CHR '';'')"

fun split_fields :: "string \<Rightarrow> string list" where
  "split_fields [] = [[]]"
| "split_fields (c # s) =
    (if field_end c then [] # split_fields s
     else (case split_fields s of [] \<Rightarrow> [[c]] | w # ws \<Rightarrow> (c # w) # ws))"

fun parse_fields :: "string list \<Rightarrow> table \<Rightarrow> table option" where
  "parse_fields [] out = Some out"
| "parse_fields (f0 # fs) out =
    (let f = trim_space f0
     in if f = [] \<or> has_prefix ''#'' f then parse_fields fs out
        else if CHR ''='' \<notin> set f then None
        else
         (let k = trim_space (takeWhile (\<lambda>c. c \<noteq> CHR ''='') f);
              v = trim_space (tl (dropWhile (\<lambda>c. c \<noteq> CHR ''='') f))
          in if \<not> ValidName k \<or> v = [] then None else parse_fields fs (table_put k v out)))"

definition ParseText :: "string \<Rightarrow> table option" where
  "ParseText given = parse_fields (split_fields given) []"

definition FormatText :: "table \<Rightarrow> string" where
  "FormatText raw = join_with [CHR 10] (map (\<lambda>x. fst x @ ''='' @ snd x) (sorted_table raw))"

section \<open>Which hosts\<close>

definition DefaultHosts :: "string list" where
  "DefaultHosts = [''github.com'', ''raw.githubusercontent.com'', ''release-assets.githubusercontent.com'',
     ''github-releases.githubusercontent.com'', ''objects.githubusercontent.com'', ''proxy.xiaonuo.live'']"

definition githubAssetHosts :: "string list" where
  "githubAssetHosts = [''release-assets.githubusercontent.com'', ''github-releases.githubusercontent.com'',
     ''objects.githubusercontent.com'']"

definition listed_host :: "string \<Rightarrow> string" where
  "listed_host h0 =
    (let h = to_lower (trim_space h0) in case SplitHostPort h of Some (hh, p) \<Rightarrow> hh | None \<Rightarrow> h)"

definition HostAllowed :: "url_lib \<Rightarrow> string \<Rightarrow> string list \<Rightarrow> bool" where
  "HostAllowed ul raw hosts0 =
    (case ul_parse ul raw of None \<Rightarrow> False | Some u \<Rightarrow>
      (if ur_hostname u = [] then False
       else
        (let host = to_lower (ur_hostname u);
             listed = map listed_host (filter (\<lambda>h. to_lower (trim_space h) \<noteq> []) (if hosts0 = [] then DefaultHosts else hosts0))
         in host \<in> set listed \<or> (''github.com'' \<in> set listed \<and> host \<in> set githubAssetHosts))))"

definition ValidateCIDRs :: "string list \<Rightarrow> bool" where
  "ValidateCIDRs cidrs =
    list_all (\<lambda>c0. let c = trim_space c0 in c = [] \<or> ParseIP c \<noteq> None \<or> ParseCIDR c \<noteq> None) cidrs"

definition ValidateConfig :: "url_lib \<Rightarrow> table \<Rightarrow> string list \<Rightarrow> bool" where
  "ValidateConfig ul raw hosts =
    (Parse ul raw \<noteq> None \<and> list_all (\<lambda>x. HostAllowed ul (snd (without_script (trim_space (snd x)))) hosts) raw)"

section \<open>Which addresses\<close>

record allow_rule =
  ar_private :: bool
  ar_cidrs :: "string list"

definition plain_ip :: "ip \<Rightarrow> ip" where
  "plain_ip a = (case To4 a of Some b \<Rightarrow> b | None \<Rightarrow> a)"

definition permits :: "allow_rule \<Rightarrow> ip \<Rightarrow> bool" where
  "permits r a =
    (list_ex (\<lambda>c0. let c = trim_space c0 in c \<noteq> [] \<and>
        ((case ParseCIDR c of Some n \<Rightarrow> network_contains n a | None \<Rightarrow> False) \<or>
         (case ParseIP c of Some s \<Rightarrow> plain_ip s = plain_ip a | None \<Rightarrow> False))) (ar_cidrs r) \<or>
     ar_private r)"

text \<open>The classes of addresses the package \<^verbatim>\<open>net\<close> tells apart.\<close>

definition is_internal :: "ip \<Rightarrow> bool" where
  "is_internal x =
    (let a = plain_ip x
     in if length a = 4 then
          a ! 0 = 127 \<or> a ! 0 = 10 \<or> (a ! 0 = 172 \<and> a ! 1 AND 0xF0 = 16) \<or> (a ! 0 = 192 \<and> a ! 1 = 168) \<or>
          (a ! 0 = 169 \<and> a ! 1 = 254) \<or> a = [0, 0, 0, 0] \<or> a ! 0 AND 0xF0 = 0xE0
        else
          a = replicate 15 0 @ [1] \<or> a = replicate 16 0 \<or>
          (length a = 16 \<and> (a ! 0 AND 0xFE = 0xFC \<or> (a ! 0 = 0xFE \<and> a ! 1 AND 0xC0 = 0x80) \<or> a ! 0 = 0xFF)))"

definition checkIP :: "allow_rule \<Rightarrow> ip \<Rightarrow> bool" where
  "checkIP r a = (\<not> is_internal a \<or> permits r a)"

definition checkInternal :: "url_lib \<Rightarrow> (string \<Rightarrow> ip list option) \<Rightarrow> string \<Rightarrow> allow_rule \<Rightarrow> bool" where
  "checkInternal ul lookup raw r =
    (case ul_parse ul raw of None \<Rightarrow> False | Some u \<Rightarrow>
      (if ur_hostname u = [] then False
       else case ParseIP (ur_hostname u) of Some a \<Rightarrow> checkIP r a
        | None \<Rightarrow> (case lookup (ur_hostname u) of None \<Rightarrow> True | Some as \<Rightarrow> list_all (checkIP r) as)))"

definition CheckHost :: "url_lib \<Rightarrow> (string \<Rightarrow> ip list option) \<Rightarrow> string \<Rightarrow> string list \<Rightarrow> allow_rule \<Rightarrow> bool" where
  "CheckHost ul lookup raw hosts r = (HostAllowed ul raw hosts \<and> checkInternal ul lookup raw r)"

definition EnsureNotInternal :: "url_lib \<Rightarrow> (string \<Rightarrow> ip list option) \<Rightarrow> string \<Rightarrow> bool" where
  "EnsureNotInternal ul lookup raw = checkInternal ul lookup raw \<lparr>ar_private = False, ar_cidrs = []\<rparr>"

definition ValidateConfigWithRule :: "url_lib \<Rightarrow> table \<Rightarrow> string list \<Rightarrow> allow_rule \<Rightarrow> bool" where
  "ValidateConfigWithRule ul raw hosts r = (ValidateCIDRs (ar_cidrs r) \<and> ValidateConfig ul raw hosts)"

section \<open>Fetching through the proxy\<close>

text \<open>\<^verbatim>\<open>url.QueryEscape\<close>, and \<^verbatim>\<open>strings.ReplaceAll\<close> for a text that is not empty.\<close>

definition hex_upper :: "nat \<Rightarrow> char" where
  "hex_upper n = ''0123456789ABCDEF'' ! n"

definition query_escape :: "string \<Rightarrow> string" where
  "query_escape s =
    concat (map (\<lambda>c. if is_letter c \<or> is_digit c \<or> c \<in> set ''-_.~'' then [c]
                     else if c = CHR '' '' then ''+''
                     else [CHR ''%'', hex_upper (byte c div 16), hex_upper (byte c mod 16)]) s)"

fun replace_from :: "nat \<Rightarrow> string \<Rightarrow> string \<Rightarrow> string \<Rightarrow> string" where
  "replace_from skip old new [] = []"
| "replace_from (Suc skip) old new (c # s) = replace_from skip old new s"
| "replace_from 0 old new (c # s) =
    (if has_prefix old (c # s) then new @ replace_from (length old - 1) old new s else c # replace_from 0 old new s)"

definition ProxyURL :: "url_lib \<Rightarrow> string \<Rightarrow> string \<Rightarrow> string list \<Rightarrow> string \<times> bool" where
  "ProxyURL ul source0 proxy0 hosts =
    (let source = trim_space source0; proxy = trim_space proxy0
     in if source = [] \<or> proxy = [] then (source, False)
        else case ul_parse ul source of None \<Rightarrow> (source, False) | Some su \<Rightarrow>
         (if ur_hostname su = [] \<or> (ur_scheme su \<noteq> ''http'' \<and> ur_scheme su \<noteq> ''https'') then (source, False)
          else case ul_parse ul proxy of None \<Rightarrow> (source, False) | Some bu \<Rightarrow>
           (if ur_hostname bu = [] then (source, False)
            else if equal_fold (ur_host su) (ur_host bu) then (source, False)
            else if to_lower (ur_hostname su) \<notin> set (map listed_host (filter (\<lambda>h. to_lower (trim_space h) \<noteq> []) hosts)) then (source, False)
            else
             (let escaped = query_escape source
              in if contains ''{url}'' proxy then (replace_from 0 ''{url}'' escaped proxy, True)
                 else if contains ''url='' proxy then (proxy @ escaped, True)
                 else
                  (let sep = (if has_suffix ''?'' proxy \<or> has_suffix ''&'' proxy then []
                              else if contains ''?'' proxy then ''&'' else ''?'')
                   in (proxy @ sep @ ''url='' @ escaped, True))))))"

end
