(* ===== verification/Settings.thy ===== *)
theory Settings
  imports ExtBin Middleware Sessions HostAdmin
begin

text \<open>
  The settings administrators change while the server runs: \<^verbatim>\<open>internal/setting/setting.go\<close>, \<^verbatim>\<open>setting/ai.go\<close>, the
  checks of \<^verbatim>\<open>internal/config/ai.go\<close> and the handlers and watchers that use them. A configuration gives each field of
  the Go structure, named by its path, a value of the field's type. The settings of a server process are its
  configuration, the one it started from, the built-in one and which keys a page saved; the table \<^verbatim>\<open>app_settings\<close> is
  shared by all processes. Labels and notes of the page are not modelled. Parsing addresses is a parameter; a
  statement does not fail.
\<close>

section \<open>Values and items\<close>

datatype cval = CStr string | CInt int | CBool bool | CList "string list" | CTable table

type_synonym config = "string \<Rightarrow> cval"

record setting_item =
  it_key :: string
  it_secret :: bool
  it_readonly :: bool
  it_restart :: bool
  it_get :: "config \<Rightarrow> string"
  it_set :: "config \<Rightarrow> string \<Rightarrow> config"
  it_valid :: "(string \<Rightarrow> bool) option"

definition item ::
    "string \<Rightarrow> bool \<Rightarrow> bool \<Rightarrow> bool \<Rightarrow> (config \<Rightarrow> string) \<Rightarrow> (config \<Rightarrow> string \<Rightarrow> config) \<Rightarrow> (string \<Rightarrow> bool) option \<Rightarrow> setting_item" where
  "item k secret readonly restart g s v =
    \<lparr>it_key = k, it_secret = secret, it_readonly = readonly, it_restart = restart, it_get = g, it_set = s, it_valid = v\<rparr>"

definition b2s :: "bool \<Rightarrow> string" where
  "b2s b = (if b then ''true'' else ''false'')"

definition get_str :: "string \<Rightarrow> config \<Rightarrow> string" where
  "get_str f c = (case c f of CStr s \<Rightarrow> s | _ \<Rightarrow> [])"

definition get_int :: "string \<Rightarrow> config \<Rightarrow> string" where
  "get_int f c = (case c f of CInt n \<Rightarrow> int_dec n | _ \<Rightarrow> [])"

definition get_bool :: "string \<Rightarrow> config \<Rightarrow> string" where
  "get_bool f c = (case c f of CBool b \<Rightarrow> b2s b | _ \<Rightarrow> [])"

definition get_list :: "string \<Rightarrow> config \<Rightarrow> string" where
  "get_list f c = (case c f of CList xs \<Rightarrow> join_with '','' xs | _ \<Rightarrow> [])"

definition get_table :: "string \<Rightarrow> config \<Rightarrow> string" where
  "get_table f c = (case c f of CTable m \<Rightarrow> FormatText m | _ \<Rightarrow> [])"

definition splitComma :: "string \<Rightarrow> string list" where
  "splitComma s = filter (\<lambda>p. p \<noteq> []) (map trim_space (split_on CHR '','' s))"

definition normalizeExternalURL :: "string \<Rightarrow> string" where
  "normalizeExternalURL raw = trim_right ''/'' (trim_space raw)"

definition set_verbatim :: "string \<Rightarrow> config \<Rightarrow> string \<Rightarrow> config" where
  "set_verbatim f c v = c(f := CStr v)"

definition set_trimmed :: "string \<Rightarrow> config \<Rightarrow> string \<Rightarrow> config" where
  "set_trimmed f c v = c(f := CStr (trim_space v))"

definition set_lowered :: "string \<Rightarrow> config \<Rightarrow> string \<Rightarrow> config" where
  "set_lowered f c v = c(f := CStr (to_lower (trim_space v)))"

definition set_nonempty :: "string \<Rightarrow> config \<Rightarrow> string \<Rightarrow> config" where
  "set_nonempty f c v = (if trim_space v \<noteq> [] then c(f := CStr (trim_space v)) else c)"

definition set_url :: "string \<Rightarrow> config \<Rightarrow> string \<Rightarrow> config" where
  "set_url f c v = c(f := CStr (normalizeExternalURL v))"

definition set_int :: "string \<Rightarrow> config \<Rightarrow> string \<Rightarrow> config" where
  "set_int f c v = (case parse_int64 v of Some n \<Rightarrow> c(f := CInt n) | None \<Rightarrow> c)"

definition set_int64 :: "string \<Rightarrow> config \<Rightarrow> string \<Rightarrow> config" where
  "set_int64 f c v = (case parse_int64 (trim_space v) of Some n \<Rightarrow> c(f := CInt n) | None \<Rightarrow> c)"

definition set_switch :: "string \<Rightarrow> config \<Rightarrow> string \<Rightarrow> config" where
  "set_switch f c v = c(f := CBool (v = ''true''))"

definition set_list :: "string \<Rightarrow> config \<Rightarrow> string \<Rightarrow> config" where
  "set_list f c v = c(f := CList (splitComma v))"

definition set_list_or_nil :: "string \<Rightarrow> config \<Rightarrow> string \<Rightarrow> config" where
  "set_list_or_nil f c v = (if trim_space v = [] then c(f := CList []) else c(f := CList (splitComma v)))"

definition set_origins :: "url_lib \<Rightarrow> string \<Rightarrow> config \<Rightarrow> string \<Rightarrow> config" where
  "set_origins ul f c v = c(f := CList (case NormalizeOrigins ul (splitComma v) of None \<Rightarrow> [] | Some os \<Rightarrow> os))"

definition set_table :: "string \<Rightarrow> config \<Rightarrow> string \<Rightarrow> config" where
  "set_table f c v = (case ParseText v of None \<Rightarrow> c | Some m \<Rightarrow> c(f := CTable m))"

definition set_nothing :: "string \<Rightarrow> config \<Rightarrow> string \<Rightarrow> config" where
  "set_nothing f c v = c"

section \<open>Checks\<close>

definition validateIntRange :: "int \<Rightarrow> int \<Rightarrow> string \<Rightarrow> bool" where
  "validateIntRange lo hi v = (case parse_int64 (trim_space v) of None \<Rightarrow> False | Some n \<Rightarrow> lo \<le> n \<and> n \<le> hi)"

definition validateDuration :: "bool \<Rightarrow> string \<Rightarrow> bool" where
  "validateDuration allowEmpty v =
    (if trim_space v = [] then allowEmpty
     else case parse_duration (trim_space v) of None \<Rightarrow> False | Some d \<Rightarrow> 0 < d)"

definition duration_between :: "time \<Rightarrow> time \<Rightarrow> string \<Rightarrow> bool" where
  "duration_between lo hi v = (case parse_duration (trim_space v) of None \<Rightarrow> False | Some d \<Rightarrow> lo \<le> d \<and> d \<le> hi)"

definition in_options :: "string list \<Rightarrow> string \<Rightarrow> bool" where
  "in_options os v = (to_lower (trim_space v) \<in> set os)"

definition no_blank :: "string \<Rightarrow> bool" where
  "no_blank a = list_all (\<lambda>c. c \<notin> set [CHR '' '', CHR 9, CHR 13, CHR 10]) a"

definition validateHTTPURL :: "url_lib \<Rightarrow> string \<Rightarrow> bool" where
  "validateHTTPURL ul v =
    (trim_space v = [] \<or>
     (case ul_parse ul (trim_space v) of None \<Rightarrow> False | Some u \<Rightarrow>
       (ur_scheme u = ''http'' \<or> ur_scheme u = ''https'') \<and> ur_host u \<noteq> []))"

definition validateExternalURL :: "url_lib \<Rightarrow> string \<Rightarrow> bool" where
  "validateExternalURL ul raw =
    (let s = trim_space raw
     in s = [] \<or>
        (length s \<le> 2048 \<and> control_free s \<and> CHR 39 \<notin> set s \<and> CHR 34 \<notin> set s \<and>
         (case ul_parse ul s of None \<Rightarrow> False | Some u \<Rightarrow>
           (ur_scheme u = ''http'' \<or> ur_scheme u = ''https'') \<and> ur_host u \<noteq> [] \<and> \<not> ur_user u \<and> ur_query u = [] \<and>
           ur_fragment u = [] \<and> trim_suffix ''/'' (ur_path u) = [])))"

section \<open>Settings of the AI bridge\<close>

datatype ai_kind = KBool | KInt | KString

definition ai_fields :: "(string \<times> ai_kind) list" where
  "ai_fields =
    [(''mcp_enabled'', KBool),
     (''mcp_allow_write'', KBool),
     (''mcp_require_confirm'', KBool),
     (''allow_command_tasks'', KBool),
     (''mcp_server_name'', KString),
     (''mcp_instructions'', KString),
     (''mcp_rate_limit'', KInt),
     (''mcp_max_body_bytes'', KInt),
     (''mcp_list_cache_ttl'', KString),
     (''client_token_env'', KString),
     (''token_prefix'', KString),
     (''token_min_role'', KString),
     (''token_default_ttl'', KString),
     (''token_max_ttl'', KString),
     (''token_allow_permanent'', KBool),
     (''token_max_per_user'', KInt),
     (''token_retention_days'', KInt),
     (''token_touch_interval'', KString),
     (''tool_default_page_size'', KInt),
     (''tool_output_max_bytes'', KInt),
     (''log_max_bytes'', KInt),
     (''audit_args'', KBool),
     (''audit_args_max_bytes'', KInt),
     (''settings_sync_interval'', KString),
     (''skill_install_dirs'', KString),
     (''bridge_binary_prefix'', KString),
     (''assistant_enabled'', KBool),
     (''assistant_allow_write'', KBool),
     (''assistant_system_prompt'', KString),
     (''assistant_max_steps'', KInt),
     (''assistant_max_history'', KInt),
     (''assistant_max_input_chars'', KInt),
     (''assistant_rate_limit'', KInt),
     (''assistant_action_ttl'', KString),
     (''llm_max_response_bytes'', KInt),
     (''llm_base_url'', KString),
     (''llm_api_key'', KString),
     (''llm_model'', KString),
     (''llm_auth_header'', KString),
     (''llm_auth_scheme'', KString),
     (''llm_timeout'', KString),
     (''llm_temperature'', KString),
     (''llm_max_tokens'', KInt)]"

definition AIIntRanges :: "(string \<times> int \<times> int) list" where
  "AIIntRanges =
    [(''mcp_rate_limit'', 0, 100000), (''mcp_max_body_bytes'', 1024, 67108864), (''token_max_per_user'', 1, 10000),
     (''token_retention_days'', 1, 3650), (''tool_default_page_size'', 1, 500), (''tool_output_max_bytes'', 1024, 16777216),
     (''log_max_bytes'', 200, 1048576), (''audit_args_max_bytes'', 0, 65536), (''assistant_max_steps'', 1, 50),
     (''assistant_max_history'', 1, 500), (''assistant_max_input_chars'', 100, 1048576), (''assistant_rate_limit'', 0, 100000),
     (''llm_max_tokens'', 0, 1048576), (''llm_max_response_bytes'', 4096, 67108864)]"

definition AIDurationKeys :: "(string \<times> bool) list" where
  "AIDurationKeys =
    [(''token_default_ttl'', False), (''token_max_ttl'', True), (''token_touch_interval'', False), (''mcp_list_cache_ttl'', False),
     (''settings_sync_interval'', False), (''llm_timeout'', False), (''assistant_action_ttl'', False)]"

definition AIRoleOptions :: "string list" where
  "AIRoleOptions = [RoleUser, RoleAdmin, RoleSuperAdmin]"

definition name_text :: "string \<Rightarrow> bool" where
  "name_text s = (s \<noteq> [] \<and> list_all name_char s)"

definition env_name :: "string \<Rightarrow> bool" where
  "env_name s = (s \<noteq> [] \<and> (is_letter (hd s) \<or> hd s = CHR ''_'') \<and> list_all (\<lambda>c. is_letter c \<or> is_digit c \<or> c = CHR ''_'') (tl s))"

text \<open>Not below 0 and not above 2, as \<^verbatim>\<open>float64\<close> compares.\<close>

definition temperature_ok :: "go_float \<Rightarrow> bool" where
  "temperature_ok f = (case f of FNaN \<Rightarrow> True | FInf neg \<Rightarrow> False | Fin neg n d \<Rightarrow> \<not> (neg \<and> 0 < n) \<and> \<not> (\<not> neg \<and> 2 * d < n))"

fun parse_dirs :: "string list \<Rightarrow> (string \<times> string) list option" where
  "parse_dirs [] = Some []"
| "parse_dirs (p0 # ps) =
    (let p = trim_space p0
     in if p = [] then parse_dirs ps
        else if CHR ''='' \<notin> set p then None
        else
         (let k = trim_space (takeWhile (\<lambda>c. c \<noteq> CHR ''='') p); v = trim_space (tl (dropWhile (\<lambda>c. c \<noteq> CHR ''='') p))
          in if k = [] \<or> v = [] \<or> \<not> name_text k then None
             else if list_ex (\<lambda>c. c \<in> set [CHR 39, CHR 34, CHR 96, CHR ''$'', CHR '';'', CHR ''&'', CHR ''|'', CHR ''<'', CHR ''>'', CHR 13, CHR 10]) v
                  \<or> contains ''..'' v then None
             else map_option (\<lambda>ds. (k, trim_right ''/'' v) # ds) (parse_dirs ps)))"

definition ParseSkillInstallDirs :: "string \<Rightarrow> (string \<times> string) list option" where
  "ParseSkillInstallDirs raw = parse_dirs (split_on CHR '','' raw)"

definition ValidateAIValue :: "string \<Rightarrow> string \<Rightarrow> bool" where
  "ValidateAIValue key raw0 =
    (let raw = trim_space raw0
     in case map_of AIIntRanges key of Some (lo, hi) \<Rightarrow> (case parse_int64 raw of None \<Rightarrow> False | Some n \<Rightarrow> lo \<le> n \<and> n \<le> hi)
        | None \<Rightarrow>
         (case map_of AIDurationKeys key of Some allowEmpty \<Rightarrow> validateDuration allowEmpty raw
          | None \<Rightarrow>
           (if key = ''token_min_role'' then raw \<in> set AIRoleOptions
            else if key = ''mcp_server_name'' \<or> key = ''bridge_binary_prefix'' then length raw \<le> 64 \<and> name_text raw
            else if key = ''client_token_env'' then env_name raw
            else if key = ''token_prefix'' then length raw \<le> 16 \<and> name_text raw
            else if key = ''llm_base_url'' then raw = [] \<or> has_prefix ''http://'' raw \<or> has_prefix ''https://'' raw
            else if key = ''llm_temperature'' then raw = [] \<or> (case parse_float raw of None \<Rightarrow> False | Some f \<Rightarrow> temperature_ok f)
            else if key = ''llm_auth_header'' then raw \<noteq> [] \<and> list_all (\<lambda>c. c \<notin> set [CHR '' '', CHR '':'', CHR 13, CHR 10]) raw
            else if key = ''skill_install_dirs'' then ParseSkillInstallDirs raw \<noteq> None
            else True)))"

definition FieldString :: "string \<Rightarrow> config \<Rightarrow> string" where
  "FieldString k c = (case c (''AI.'' @ k) of CBool b \<Rightarrow> b2s b | CInt n \<Rightarrow> int_dec n | CStr s \<Rightarrow> s | _ \<Rightarrow> [])"

definition SetField :: "string \<Rightarrow> ai_kind \<Rightarrow> config \<Rightarrow> string \<Rightarrow> config" where
  "SetField k kind c raw =
    (case kind of
       KBool \<Rightarrow> c(''AI.'' @ k := CBool (trim_space raw = ''true'' \<or> trim_space raw = ''1''))
     | KInt \<Rightarrow> (case parse_int64 (trim_space raw) of None \<Rightarrow> c | Some n \<Rightarrow> c(''AI.'' @ k := CInt n))
     | KString \<Rightarrow> c(''AI.'' @ k := CStr raw))"

definition aiRegistry :: "setting_item list" where
  "aiRegistry =
    map (\<lambda>(k, kind). item (''ai.'' @ k) (k = ''llm_api_key'') False False (FieldString k)
      (\<lambda>c v. if ValidateAIValue k v then SetField k kind c v else c) (Some (ValidateAIValue k))) ai_fields"

section \<open>All items\<close>

definition server_items :: "url_lib \<Rightarrow> setting_item list" where
  "server_items ul =
    [item ''server.external_url'' False False False (get_str ''Server.ExternalURL'') (set_url ''Server.ExternalURL'') (Some (validateExternalURL ul)),
     item ''server.auto_sync_agent_url'' False False False (get_bool ''Server.AutoSyncAgentURL'') (set_switch ''Server.AutoSyncAgentURL'') None,
     item ''server.agent_binary_dir'' False False False (get_str ''Server.AgentBinaryDir'') (set_nonempty ''Server.AgentBinaryDir'') None,
     item ''server.cors_origins'' False False False (get_list ''Server.CORSOrigins'') (set_origins ul ''Server.CORSOrigins'') (Some (\<lambda>v. NormalizeOrigins ul (splitComma v) \<noteq> None)),
     item ''server.host'' False False True (get_str ''Server.Host'') (set_nonempty ''Server.Host'') None,
     item ''server.port'' False False True (get_int ''Server.Port'') (set_int ''Server.Port'') (Some (validateIntRange 1 65535)),
     item ''server.web_embedded'' False False True (get_bool ''Server.WebEmbedded'') (set_switch ''Server.WebEmbedded'') None,
     item ''server.trust_proxy'' False False True (get_bool ''Server.TrustProxy'') (set_switch ''Server.TrustProxy'') None,
     item ''server.trusted_proxies'' False False True (get_list ''Server.TrustedProxies'') (set_list ''Server.TrustedProxies'') (Some (\<lambda>v. trim_space v = [] \<or> ValidateCIDRs (splitComma v))),
     item ''server.cookie_secure'' False False True (get_str ''Server.CookieSecure'') (set_lowered ''Server.CookieSecure'') (Some (in_options ['''', ''auto'', ''true'', ''false''])),
     item ''server.metrics_token'' True False True (get_str ''Server.MetricsToken'') (set_trimmed ''Server.MetricsToken'') None,
     item ''server.session_secret'' True False True (get_str ''Server.SessionSecret'') (set_trimmed ''Server.SessionSecret'') (Some (\<lambda>v. trim_space v = [] \<or> 16 \<le> length (trim_space v))),
     item ''server.audit_retention_days'' False False False (get_int ''Server.AuditRetentionDays'') (set_int ''Server.AuditRetentionDays'') (Some (validateIntRange 7 3650)),
     item ''server.login_rate_limit'' False False False (get_int ''Server.LoginRateLimit'') (set_int ''Server.LoginRateLimit'') (Some (validateIntRange 0 100000))]"

definition consul_items :: "url_lib \<Rightarrow> setting_item list" where
  "consul_items ul =
    [item ''consul.enabled'' False False False (get_bool ''Consul.Enabled'') (set_switch ''Consul.Enabled'') None,
     item ''consul.address'' False False False (get_str ''Consul.Address'') (set_verbatim ''Consul.Address'') None,
     item ''consul.token'' True False False (get_str ''Consul.Token'') (set_verbatim ''Consul.Token'') None,
     item ''consul.datacenter'' False False False (get_str ''Consul.Datacenter'') (set_verbatim ''Consul.Datacenter'') None,
     item ''consul.sync_interval'' False False False (get_str ''Consul.SyncInterval'') (set_verbatim ''Consul.SyncInterval'') None,
     item ''consul.cleanup_missing'' False False False (get_bool ''Consul.CleanupMissing'') (set_switch ''Consul.CleanupMissing'') None,
     item ''consul.timeout'' False False False (get_int ''Consul.Timeout'') (set_int ''Consul.Timeout'') (Some (validateIntRange 1 300)),
     item ''consul.concurrency'' False False False (get_int ''Consul.Concurrency'') (set_int ''Consul.Concurrency'') (Some (validateIntRange 1 128)),
     item ''consul.sync_on_start'' False False False (get_bool ''Consul.SyncOnStart'') (set_switch ''Consul.SyncOnStart'') None]"

definition login_items :: "url_lib \<Rightarrow> setting_item list" where
  "login_items ul =
    [item ''auth.provider'' False False True (get_str ''Auth.Provider'') (set_lowered ''Auth.Provider'') (Some (in_options ['''', ''builtin'', ''casdoor''])),
     item ''auth.admin_username'' False False True (get_str ''Auth.AdminUsername'') (set_trimmed ''Auth.AdminUsername'') None,
     item ''casdoor.endpoint'' False False True (get_str ''Casdoor.Endpoint'') (set_trimmed ''Casdoor.Endpoint'') None,
     item ''casdoor.public_endpoint'' False False True (get_str ''Casdoor.PublicEndpoint'') (set_trimmed ''Casdoor.PublicEndpoint'') None,
     item ''casdoor.organization'' False False True (get_str ''Casdoor.OrganizationName'') (set_trimmed ''Casdoor.OrganizationName'') None,
     item ''casdoor.application'' False False True (get_str ''Casdoor.ApplicationName'') (set_trimmed ''Casdoor.ApplicationName'') None,
     item ''casdoor.client_id'' False False True (get_str ''Casdoor.ClientId'') (set_trimmed ''Casdoor.ClientId'') None,
     item ''casdoor.client_secret'' True False True (get_str ''Casdoor.ClientSecret'') (set_verbatim ''Casdoor.ClientSecret'') None,
     item ''casdoor.certificate'' True False True (get_str ''Casdoor.Certificate'') (set_verbatim ''Casdoor.Certificate'') None,
     item ''casdoor.redirect_uri'' False False True (get_str ''Casdoor.RedirectURI'') (set_trimmed ''Casdoor.RedirectURI'') (Some (validateHTTPURL ul))]"

definition artifact_items :: "url_lib \<Rightarrow> setting_item list" where
  "artifact_items ul =
    [item ''artifact.dir'' False False True (get_str ''Artifact.Dir'') (set_verbatim ''Artifact.Dir'') None,
     item ''artifact.max_size'' False False False (get_int ''Artifact.MaxSize'') (set_int64 ''Artifact.MaxSize'') (Some (\<lambda>v. case parse_int64 (trim_space v) of None \<Rightarrow> False | Some n \<Rightarrow> 0 \<le> n)),
     item ''artifact.max_concurrent_uploads'' False False False (get_int ''Artifact.MaxConcurrentUploads'') (set_int ''Artifact.MaxConcurrentUploads'') (Some (validateIntRange 1 64)),
     item ''artifact.lock_wait'' False False False (get_str ''Artifact.LockWait'') (set_trimmed ''Artifact.LockWait'') (Some (duration_between second (hours 24))),
     item ''artifact.storage_type'' False False True (get_str ''Artifact.StorageType'') (set_lowered ''Artifact.StorageType'') (Some (in_options ['''', ''local'', ''s3'', ''oss''])),
     item ''artifact.s3_endpoint'' False False True (get_str ''Artifact.S3Endpoint'') (set_trimmed ''Artifact.S3Endpoint'') None,
     item ''artifact.s3_region'' False False True (get_str ''Artifact.S3Region'') (set_trimmed ''Artifact.S3Region'') None,
     item ''artifact.s3_bucket'' False False True (get_str ''Artifact.S3Bucket'') (set_trimmed ''Artifact.S3Bucket'') None,
     item ''artifact.s3_access_key'' False False True (get_str ''Artifact.S3AccessKey'') (set_trimmed ''Artifact.S3AccessKey'') None,
     item ''artifact.s3_secret_key'' True False True (get_str ''Artifact.S3SecretKey'') (set_verbatim ''Artifact.S3SecretKey'') None,
     item ''artifact.s3_use_ssl'' False False True (get_bool ''Artifact.S3UseSSL'') (set_switch ''Artifact.S3UseSSL'') None,
     item ''artifact.oss_endpoint'' False False True (get_str ''Artifact.OSSEndpoint'') (set_trimmed ''Artifact.OSSEndpoint'') None,
     item ''artifact.oss_bucket'' False False True (get_str ''Artifact.OSSBucket'') (set_trimmed ''Artifact.OSSBucket'') None,
     item ''artifact.oss_access_key'' False False True (get_str ''Artifact.OSSAccessKey'') (set_trimmed ''Artifact.OSSAccessKey'') None,
     item ''artifact.oss_secret_key'' True False True (get_str ''Artifact.OSSSecretKey'') (set_verbatim ''Artifact.OSSSecretKey'') None]"

definition agent_items :: "url_lib \<Rightarrow> setting_item list" where
  "agent_items ul =
    [item ''agent.poll_hold'' False False False (get_int ''Agent.PollHold'') (set_int ''Agent.PollHold'') None,
     item ''agent.lease_max'' False False False (get_str ''Agent.LeaseMax'') (set_trimmed ''Agent.LeaseMax'') (Some (validateDuration True)),
     item ''agent.require_enroll_token'' False False False (get_bool ''Agent.RequireEnrollToken'') (set_switch ''Agent.RequireEnrollToken'') None,
     item ''agent.enroll_token_ttl'' False False False (get_str ''Agent.EnrollTokenTTL'') (set_trimmed ''Agent.EnrollTokenTTL'') (Some (validateDuration True)),
     item ''agent.clock_skew'' False False False (get_str ''Agent.ClockSkew'') (set_trimmed ''Agent.ClockSkew'') (Some (duration_between (30 * second) (minutes 30))),
     item ''agent.allow_exec_mode'' False False False (get_bool ''Agent.AllowExecMode'') (set_switch ''Agent.AllowExecMode'') None,
     item ''agent.auto_update'' False False False (get_bool ''Agent.AutoUpdate'') (set_switch ''Agent.AutoUpdate'') None,
     item ''agent.auto_update_percent'' False False False (get_int ''Agent.AutoUpdatePercent'') (set_int ''Agent.AutoUpdatePercent'') (Some (validateIntRange 0 100)),
     item ''agent.task_owner_only'' False False False (get_bool ''Agent.TaskOwnerOnly'') (set_switch ''Agent.TaskOwnerOnly'') None,
     item ''agent.offline_after'' False False False (get_str ''Agent.OfflineAfter'') (set_trimmed ''Agent.OfflineAfter'') (Some (duration_between (30 * second) (minutes 30)))]"

definition partner_items :: "url_lib \<Rightarrow> setting_item list" where
  "partner_items ul =
    [item ''task.host_selector_fields'' False False False (get_str ''Task.HostSelectorFields'') (set_trimmed ''Task.HostSelectorFields'') None,
     item ''flyiam.endpoint'' False False False (get_str ''FlyIAM.Endpoint'') (set_url ''FlyIAM.Endpoint'') (Some (validateHTTPURL ul)),
     item ''flyiam.service_token'' True False False (get_str ''FlyIAM.ServiceToken'') (set_trimmed ''FlyIAM.ServiceToken'') None,
     item ''consul_mgr.endpoint'' False False False (get_str ''ConsulMgr.Endpoint'') (set_url ''ConsulMgr.Endpoint'') (Some (validateHTTPURL ul)),
     item ''consul_mgr.service_token'' True False False (get_str ''ConsulMgr.ServiceToken'') (set_trimmed ''ConsulMgr.ServiceToken'') None,
     item ''consul_mgr.timeout'' False False False (get_int ''ConsulMgr.Timeout'') (set_int ''ConsulMgr.Timeout'') (Some (validateIntRange 5 600)),
     item ''consul_mgr.cleanup_missing'' False False False (get_bool ''ConsulMgr.CleanupMissing'') (set_switch ''ConsulMgr.CleanupMissing'') None]"

definition external_items :: "url_lib \<Rightarrow> setting_item list" where
  "external_items ul =
    [item ''server.external_binaries'' False False False (get_table ''Server.ExternalBinaries'') (set_table ''Server.ExternalBinaries'') (Some (\<lambda>v. case ParseText v of None \<Rightarrow> False | Some m \<Rightarrow> Parse ul m \<noteq> None)),
     item ''server.external_binary_hosts'' False False False (get_list ''Server.ExternalBinaryHosts'') (set_list_or_nil ''Server.ExternalBinaryHosts'') None,
     item ''server.external_binary_proxy'' False False False (get_str ''Server.ExternalBinaryProxy'') (set_trimmed ''Server.ExternalBinaryProxy'') (Some (validateHTTPURL ul)),
     item ''server.external_binary_proxy_hosts'' False False False (get_list ''Server.ExternalBinaryProxyHosts'') (set_list_or_nil ''Server.ExternalBinaryProxyHosts'') None,
     item ''server.external_binary_allow_private'' False False False (get_bool ''Server.ExternalBinaryAllowPrivate'') (set_switch ''Server.ExternalBinaryAllowPrivate'') None,
     item ''server.external_binary_allow_cidrs'' False False False (get_list ''Server.ExternalBinaryAllowCIDRs'') (set_list ''Server.ExternalBinaryAllowCIDRs'') (Some (\<lambda>v. v = [] \<or> ValidateCIDRs (splitComma v))),
     item ''server.external_binary_ttl'' False False False (get_str ''Server.ExternalBinaryTTL'') (set_trimmed ''Server.ExternalBinaryTTL'') (Some (validateDuration True))]"

definition redis_items :: "url_lib \<Rightarrow> setting_item list" where
  "redis_items ul =
    [item ''redis.enabled'' False False False (get_bool ''Redis.Enabled'') (set_switch ''Redis.Enabled'') None,
     item ''redis.mode'' False False False (get_str ''Redis.Mode'') (set_lowered ''Redis.Mode'') (Some (in_options ['''', ''single'', ''cluster'', ''sentinel''])),
     item ''redis.hosts'' False False False (get_list ''Redis.Hosts'') (set_list_or_nil ''Redis.Hosts'') (Some (\<lambda>v. list_all no_blank (splitComma v))),
     item ''redis.master_name'' False False False (get_str ''Redis.MasterName'') (set_trimmed ''Redis.MasterName'') None,
     item ''redis.password'' True False False (get_str ''Redis.Password'') (set_verbatim ''Redis.Password'') None,
     item ''redis.db'' False False False (get_int ''Redis.DB'') (set_int ''Redis.DB'') None,
     item ''redis.ttl'' False False False (get_int ''Redis.TTL'') (set_int ''Redis.TTL'') None,
     item ''redis.hosts_ttl'' False False False (get_int ''Redis.HostsTTL'') (set_int ''Redis.HostsTTL'') None,
     item ''redis.prefix'' False False False (get_str ''Redis.Prefix'') (set_trimmed ''Redis.Prefix'') None]"

definition fixed_items :: "url_lib \<Rightarrow> setting_item list" where
  "fixed_items ul =
    [item ''database.host'' False True False (get_str ''Database.Host'') (set_nothing ''Database.Host'') None,
     item ''database.port'' False True False (get_int ''Database.Port'') (set_nothing ''Database.Port'') None,
     item ''database.user'' False True False (get_str ''Database.User'') (set_nothing ''Database.User'') None,
     item ''database.dbname'' False True False (get_str ''Database.DBName'') (set_nothing ''Database.DBName'') None,
     item ''database.sslmode'' False True False (get_str ''Database.SSLMode'') (set_nothing ''Database.SSLMode'') None,
     item ''database.max_open_conns'' False True False (get_int ''Database.MaxOpenConns'') (set_nothing ''Database.MaxOpenConns'') None,
     item ''database.max_idle_conns'' False True False (get_int ''Database.MaxIdleConns'') (set_nothing ''Database.MaxIdleConns'') None,
     item ''database.conn_max_lifetime'' False True False (get_int ''Database.ConnMaxLifetime'') (set_nothing ''Database.ConnMaxLifetime'') None,
     item ''log.level'' False False False (get_str ''Log.Level'') (set_verbatim ''Log.Level'') None]"

definition Registry :: "url_lib \<Rightarrow> setting_item list" where
  "Registry ul = server_items ul @ consul_items ul @ login_items ul @ artifact_items ul @ agent_items ul @ partner_items ul @
     external_items ul @ redis_items ul @ fixed_items ul @ aiRegistry"

definition item_of :: "url_lib \<Rightarrow> string \<Rightarrow> setting_item option" where
  "item_of ul k = find (\<lambda>it. it_key it = k) (Registry ul)"

definition KeysWithPrefix :: "url_lib \<Rightarrow> string \<Rightarrow> string list" where
  "KeysWithPrefix ul prefix = map it_key (filter (\<lambda>it. \<not> it_readonly it \<and> has_prefix prefix (it_key it)) (Registry ul))"

section \<open>The service\<close>

record settings =
  st_cfg :: config
  st_base :: "config option"
  st_defaults :: config
  st_page :: "string set"

abbreviation "MaskedSecret \<equiv> ''******''"

definition IsMasked :: "string \<Rightarrow> bool" where
  "IsMasked v = (v = MaskedSecret)"

definition NewService :: "config \<Rightarrow> config option \<Rightarrow> settings" where
  "NewService defaults cfg =
    \<lparr>st_cfg = (case cfg of None \<Rightarrow> defaults | Some c \<Rightarrow> c), st_base = cfg, st_defaults = defaults, st_page = {}\<rparr>"

definition sourceOf :: "setting_item \<Rightarrow> settings \<Rightarrow> string" where
  "sourceOf it s =
    (if it_key it \<in> st_page s then ''page''
     else case st_base s of None \<Rightarrow> ''default'' | Some b \<Rightarrow>
       (if it_get it b \<noteq> it_get it (st_defaults s) then ''file_or_env'' else ''default''))"

definition masked :: "setting_item \<Rightarrow> string \<Rightarrow> string" where
  "masked it v = (if it_secret it \<and> v \<noteq> [] then MaskedSecret else v)"

definition BaseValue :: "url_lib \<Rightarrow> string \<Rightarrow> settings \<Rightarrow> string option" where
  "BaseValue ul k s =
    (case item_of ul k of None \<Rightarrow> None | Some it \<Rightarrow> map_option (\<lambda>b. masked it (it_get it b)) (st_base s))"

definition View :: "url_lib \<Rightarrow> settings \<Rightarrow> (string \<times> string \<times> string) list" where
  "View ul s = map (\<lambda>it. (it_key it, masked it (it_get it (st_cfg s)), sourceOf it s)) (Registry ul)"

datatype setting_error = SettingUnknown | SettingReadOnly | SettingRefused

definition Reset :: "url_lib \<Rightarrow> string \<Rightarrow> table \<times> settings \<Rightarrow> setting_error option \<times> table \<times> settings" where
  "Reset ul k x =
    (case x of (db, s) \<Rightarrow>
     (case item_of ul k of None \<Rightarrow> (Some SettingUnknown, x) | Some it \<Rightarrow>
       (if it_readonly it then (Some SettingReadOnly, x)
        else (None, filter (\<lambda>r. fst r \<noteq> k) db,
              s\<lparr>st_cfg := (case st_base s of None \<Rightarrow> st_cfg s | Some b \<Rightarrow> it_set it (st_cfg s) (it_get it b)),
                st_page := st_page s - {k}\<rparr>))))"

definition ReadValues :: "string list \<Rightarrow> table \<Rightarrow> table" where
  "ReadValues keys db = filter (\<lambda>r. fst r \<in> set keys) db"

definition passes :: "setting_item \<Rightarrow> string \<Rightarrow> bool" where
  "passes it v = (case it_valid it of None \<Rightarrow> True | Some f \<Rightarrow> f v)"

text \<open>One key of \<^verbatim>\<open>SyncFromDB\<close>: whether it counts as changed, and the settings then.\<close>

definition sync_key :: "url_lib \<Rightarrow> table \<Rightarrow> string \<Rightarrow> settings \<Rightarrow> bool \<times> settings" where
  "sync_key ul vals k s =
    (case item_of ul k of None \<Rightarrow> (False, s) | Some it \<Rightarrow>
     (if it_readonly it then (False, s)
      else case map_of vals k of
        None \<Rightarrow>
         (if k \<notin> st_page s then (False, s)
          else (True, s\<lparr>st_page := st_page s - {k},
            st_cfg := (case st_base s of None \<Rightarrow> st_cfg s | Some b \<Rightarrow>
              if it_get it (st_cfg s) \<noteq> it_get it b then it_set it (st_cfg s) (it_get it b) else st_cfg s)\<rparr>))
      | Some v \<Rightarrow>
         (let s1 = s\<lparr>st_page := insert k (st_page s)\<rparr>
          in if (it_secret it \<and> IsMasked v) \<or> v = it_get it (st_cfg s) then (False, s1)
             else if \<not> passes it v then (False, s1)
             else (True, s1\<lparr>st_cfg := it_set it (st_cfg s) v\<rparr>))))"

fun sync_keys :: "url_lib \<Rightarrow> table \<Rightarrow> string list \<Rightarrow> settings \<Rightarrow> string list \<times> settings" where
  "sync_keys ul vals [] s = ([], s)"
| "sync_keys ul vals (k # ks) s =
    (case sync_key ul vals k s of (changed, s1) \<Rightarrow>
      (case sync_keys ul vals ks s1 of (rest, s2) \<Rightarrow> (if changed then k # rest else rest, s2)))"

definition SyncFromDB :: "url_lib \<Rightarrow> string list \<Rightarrow> table \<Rightarrow> settings \<Rightarrow> string list \<times> settings" where
  "SyncFromDB ul keys db s = sync_keys ul (ReadValues keys db) keys s"

definition load_row :: "url_lib \<Rightarrow> string \<times> string \<Rightarrow> settings \<Rightarrow> settings" where
  "load_row ul r s =
    (case item_of ul (fst r) of None \<Rightarrow> s | Some it \<Rightarrow>
      s\<lparr>st_cfg := it_set it (st_cfg s) (snd r), st_page := (if it_readonly it then st_page s else insert (fst r) (st_page s))\<rparr>)"

definition Load_settings :: "url_lib \<Rightarrow> table \<Rightarrow> settings \<Rightarrow> settings" where
  "Load_settings ul db s = fold (load_row ul) db s"

text \<open>The check of the white list with the hosts of the same request.\<close>

definition binaries_ok :: "url_lib \<Rightarrow> table \<Rightarrow> config \<Rightarrow> bool" where
  "binaries_ok ul kv c =
    (case map_of kv ''server.external_binaries'' of None \<Rightarrow> True | Some raw \<Rightarrow>
      (let hosts = (case map_of kv ''server.external_binary_hosts'' of Some hv \<Rightarrow> splitComma hv
                    | None \<Rightarrow> (case c ''Server.ExternalBinaryHosts'' of CList hs \<Rightarrow> hs | _ \<Rightarrow> []))
       in case ParseText raw of None \<Rightarrow> False | Some m \<Rightarrow> ValidateConfig ul m hosts))"

definition value_ok :: "url_lib \<Rightarrow> config \<Rightarrow> string \<times> string \<Rightarrow> bool" where
  "value_ok ul c kv =
    (case item_of ul (fst kv) of None \<Rightarrow> True | Some it \<Rightarrow>
      (if it_readonly it then snd kv = it_get it c
       else if it_secret it \<and> IsMasked (snd kv) then True
       else snd kv = it_get it c \<or> passes it (snd kv)))"

definition is_pending :: "url_lib \<Rightarrow> string \<times> string \<Rightarrow> bool" where
  "is_pending ul kv =
    (case item_of ul (fst kv) of None \<Rightarrow> False | Some it \<Rightarrow> \<not> it_readonly it \<and> \<not> (it_secret it \<and> IsMasked (snd kv)))"

definition set_value :: "url_lib \<Rightarrow> string \<times> string \<Rightarrow> config \<Rightarrow> config" where
  "set_value ul kv c = (case item_of ul (fst kv) of None \<Rightarrow> c | Some it \<Rightarrow> it_set it c (snd kv))"

definition Apply :: "url_lib \<Rightarrow> table \<Rightarrow> table \<times> settings \<Rightarrow> (setting_error + string list) \<times> table \<times> settings" where
  "Apply ul kv x =
    (case x of (db, s) \<Rightarrow>
     (if \<not> binaries_ok ul kv (st_cfg s) then (Inl SettingRefused, x)
      else if \<not> list_all (value_ok ul (st_cfg s)) kv then (Inl SettingRefused, x)
      else
       (let pending = sort_key fst (filter (is_pending ul) kv)
        in (Inr (map fst pending), fold (\<lambda>p. table_put (fst p) (snd p)) pending db,
            s\<lparr>st_cfg := fold (set_value ul) pending (st_cfg s), st_page := st_page s \<union> set (map fst pending)\<rparr>))))"

fun ApplyRuntime :: "url_lib \<Rightarrow> table \<Rightarrow> settings \<Rightarrow> string list \<times> settings" where
  "ApplyRuntime ul [] s = ([], s)"
| "ApplyRuntime ul ((k, v) # kv) s =
    (case item_of ul k of None \<Rightarrow> ApplyRuntime ul kv s | Some it \<Rightarrow>
      (if it_readonly it \<or> (it_secret it \<and> IsMasked v) \<or> v = it_get it (st_cfg s) \<or> \<not> passes it v then ApplyRuntime ul kv s
       else case ApplyRuntime ul kv (s\<lparr>st_cfg := it_set it (st_cfg s) v\<rparr>) of (applied, s') \<Rightarrow> (k # applied, s')))"

definition NeedsConsulReload :: "string list \<Rightarrow> bool" where
  "NeedsConsulReload applied = list_ex (has_prefix ''consul.'') applied"

definition NeedsCacheReload :: "string list \<Rightarrow> bool" where
  "NeedsCacheReload applied = list_ex (has_prefix ''redis.'') applied"

definition NeedsArtifactReload :: "string list \<Rightarrow> bool" where
  "NeedsArtifactReload applied = list_ex (\<lambda>k. k = ''artifact.max_concurrent_uploads'' \<or> k = ''artifact.lock_wait'') applied"

definition NeedsCasdoorReload :: "string list \<Rightarrow> bool" where
  "NeedsCasdoorReload applied = list_ex (\<lambda>k. has_prefix ''casdoor.'' k \<or> k = ''auth.provider'') applied"

definition NeedsAIReload :: "string list \<Rightarrow> bool" where
  "NeedsAIReload applied = list_ex (\<lambda>k. 3 < length k \<and> has_prefix ''ai.'' k) applied"

section \<open>Requests and watchers\<close>

text \<open>What a request makes the server do next: reload the clients of Consul and Redis, and the upload limits.\<close>

definition reloads :: "string list \<Rightarrow> bool \<times> bool \<times> bool" where
  "reloads applied = (NeedsConsulReload applied, NeedsCacheReload applied, NeedsArtifactReload applied)"

text \<open>Agents follow the address of the server when it changed, or when following it was just switched on.\<close>

definition follow_url :: "time \<Rightarrow> config \<Rightarrow> config \<Rightarrow> db \<Rightarrow> db" where
  "follow_url now before after d =
    maybeSyncExternalURLToAgents now (before ''Server.AutoSyncAgentURL'' = CBool True) (after ''Server.AutoSyncAgentURL'' = CBool True)
      (get_str ''Server.ExternalURL'' before) (get_str ''Server.ExternalURL'' after) d"

definition UpdateSettings ::
    "url_lib \<Rightarrow> time \<Rightarrow> table option \<Rightarrow> ((table \<times> settings) \<times> db, string list \<times> bool \<times> bool \<times> bool) handler" where
  "UpdateSettings ul now body y =
    (case y of (x, d) \<Rightarrow>
     (case body of None \<Rightarrow> (Inl 400, y) | Some kv \<Rightarrow>
      (case Apply ul kv x of (Inl e, x') \<Rightarrow> (Inl 500, x', d)
       | (Inr applied, x') \<Rightarrow> (Inr (applied, reloads applied), x', follow_url now (st_cfg (snd x)) (st_cfg (snd x')) d))))"

definition ResetSetting ::
    "url_lib \<Rightarrow> time \<Rightarrow> string \<Rightarrow> ((table \<times> settings) \<times> db, string \<times> string option \<times> bool \<times> bool \<times> bool) handler" where
  "ResetSetting ul now key0 y =
    (case y of (x, d) \<Rightarrow>
     (let key = trim_space key0
      in case Reset ul key x of (Some e, x') \<Rightarrow> (Inl 400, x', d)
         | (None, x') \<Rightarrow>
           (Inr (key, BaseValue ul key (snd x'), reloads [key]), x', follow_url now (st_cfg (snd x)) (st_cfg (snd x')) d)))"

definition artifactRuntimeSettings :: "string list" where
  "artifactRuntimeSettings = [''artifact.max_concurrent_uploads'', ''artifact.lock_wait'']"

text \<open>One round of the watcher of the upload limits, with the values it saw last; the flag asks for a reload.\<close>

definition artifact_watch :: "url_lib \<Rightarrow> table \<Rightarrow> string option list option \<times> settings \<Rightarrow> bool \<times> string option list option \<times> settings" where
  "artifact_watch ul db w =
    (case w of (seen, s) \<Rightarrow>
      (let vals = ReadValues artifactRuntimeSettings db;
           cur = map (\<lambda>k. Some (case map_of vals k of None \<Rightarrow> [] | Some v \<Rightarrow> v)) artifactRuntimeSettings
       in if Some cur = seen then (False, w)
          else case ApplyRuntime ul vals s of (applied, s') \<Rightarrow> (applied \<noteq> [], Some cur, s')))"

definition ai_watch :: "url_lib \<Rightarrow> table \<Rightarrow> settings \<Rightarrow> settings" where
  "ai_watch ul db s = snd (SyncFromDB ul (KeysWithPrefix ul ''ai.'') db s)"

end
