(* ===== verification/SettingsSafety.thy ===== *)
theory SettingsSafety
  imports Settings
begin

text \<open>
  What the settings promise: a refused request changes nothing, an accepted one stores and applies exactly what was
  submitted, the page never shows a secret, values in canonical form reach every process, and a reset restores them.
\<close>

section \<open>The registry\<close>

text \<open>An item reads one field, and sets that field or nothing at all, to something that depends on the text only.\<close>

definition gets_only :: "(config \<Rightarrow> string) \<Rightarrow> string \<Rightarrow> bool" where
  "gets_only g f = (\<forall>c c'. c f = c' f \<longrightarrow> g c = g c')"

definition sets_only :: "(config \<Rightarrow> string \<Rightarrow> config) \<Rightarrow> string \<Rightarrow> bool" where
  "sets_only s f = (\<forall>v. (\<forall>c. s c v = c) \<or> (\<exists>w. \<forall>c. s c v = c(f := w)))"

definition own_field :: "setting_item \<Rightarrow> string \<Rightarrow> bool" where
  "own_field it f = (gets_only (it_get it) f \<and> sets_only (it_set it) f)"

lemma own_field_item [simp]: "own_field (item k a b r g s v) f = (gets_only g f \<and> sets_only s f)"
  by (simp add: own_field_def item_def)

lemma sets_only_other: "sets_only s f \<Longrightarrow> g \<noteq> f \<Longrightarrow> s c v g = c g"
  unfolding sets_only_def by (metis fun_upd_other)

lemma sets_only_same:
  assumes "sets_only s f" "c f = c' f"
  shows "s c v f = s c' v f"
proof -
  from assms(1) consider "\<forall>c. s c v = c" | w where "\<forall>c. s c v = c(f := w)" by (auto simp: sets_only_def)
  then show ?thesis using assms(2) by cases simp_all
qed

lemma getters_only [simp]:
  "gets_only (get_str f) f" "gets_only (get_int f) f" "gets_only (get_bool f) f" "gets_only (get_list f) f" "gets_only (get_table f) f"
  "gets_only (FieldString k) (''AI.'' @ k)"
  by (simp_all add: gets_only_def get_str_def get_int_def get_bool_def get_list_def get_table_def FieldString_def)

lemma setters_only [simp]:
  "sets_only (set_verbatim f) f" "sets_only (set_trimmed f) f" "sets_only (set_lowered f) f" "sets_only (set_nonempty f) f"
  "sets_only (set_url f) f" "sets_only (set_int f) f" "sets_only (set_int64 f) f" "sets_only (set_switch f) f"
  "sets_only (set_list f) f" "sets_only (set_list_or_nil f) f" "sets_only (set_origins ul f) f" "sets_only (set_table f) f"
  "sets_only (set_nothing f) f"
  by (auto simp: sets_only_def set_verbatim_def set_trimmed_def set_lowered_def set_nonempty_def set_url_def set_int_def
      set_int64_def set_switch_def set_list_def set_list_or_nil_def set_origins_def set_table_def set_nothing_def split: option.split)

lemma ai_setter_only [simp]: "sets_only (\<lambda>c v. if ValidateAIValue k v then SetField k kind c v else c) (''AI.'' @ k)"
  by (auto simp: sets_only_def SetField_def split: option.split ai_kind.split)

text \<open>The field of each item, in the order of the registry.\<close>

definition base_fields :: "string list" where
  "base_fields =
    [''Server.ExternalURL'', ''Server.AutoSyncAgentURL'', ''Server.AgentBinaryDir'', ''Server.CORSOrigins'', ''Server.Host'',
     ''Server.Port'', ''Server.WebEmbedded'', ''Server.TrustProxy'', ''Server.TrustedProxies'', ''Server.CookieSecure'',
     ''Server.MetricsToken'', ''Server.SessionSecret'', ''Server.AuditRetentionDays'', ''Server.LoginRateLimit'', ''Consul.Enabled'',
     ''Consul.Address'', ''Consul.Token'', ''Consul.Datacenter'', ''Consul.SyncInterval'', ''Consul.CleanupMissing'',
     ''Consul.Timeout'', ''Consul.Concurrency'', ''Consul.SyncOnStart'', ''Auth.Provider'', ''Auth.AdminUsername'',
     ''Casdoor.Endpoint'', ''Casdoor.PublicEndpoint'', ''Casdoor.OrganizationName'', ''Casdoor.ApplicationName'', ''Casdoor.ClientId'',
     ''Casdoor.ClientSecret'', ''Casdoor.Certificate'', ''Casdoor.RedirectURI'', ''Artifact.Dir'', ''Artifact.MaxSize'',
     ''Artifact.MaxConcurrentUploads'', ''Artifact.LockWait'', ''Artifact.StorageType'', ''Artifact.S3Endpoint'', ''Artifact.S3Region'',
     ''Artifact.S3Bucket'', ''Artifact.S3AccessKey'', ''Artifact.S3SecretKey'', ''Artifact.S3UseSSL'', ''Artifact.OSSEndpoint'',
     ''Artifact.OSSBucket'', ''Artifact.OSSAccessKey'', ''Artifact.OSSSecretKey'', ''Agent.PollHold'', ''Agent.LeaseMax'',
     ''Agent.RequireEnrollToken'', ''Agent.EnrollTokenTTL'', ''Agent.ClockSkew'', ''Agent.AllowExecMode'', ''Agent.AutoUpdate'',
     ''Agent.AutoUpdatePercent'', ''Agent.TaskOwnerOnly'', ''Agent.OfflineAfter'', ''Task.HostSelectorFields'', ''FlyIAM.Endpoint'',
     ''FlyIAM.ServiceToken'', ''ConsulMgr.Endpoint'', ''ConsulMgr.ServiceToken'', ''ConsulMgr.Timeout'', ''ConsulMgr.CleanupMissing'',
     ''Server.ExternalBinaries'', ''Server.ExternalBinaryHosts'', ''Server.ExternalBinaryProxy'', ''Server.ExternalBinaryProxyHosts'', ''Server.ExternalBinaryAllowPrivate'',
     ''Server.ExternalBinaryAllowCIDRs'', ''Server.ExternalBinaryTTL'', ''Redis.Enabled'', ''Redis.Mode'', ''Redis.Hosts'',
     ''Redis.MasterName'', ''Redis.Password'', ''Redis.DB'', ''Redis.TTL'', ''Redis.HostsTTL'',
     ''Redis.Prefix'', ''Database.Host'', ''Database.Port'', ''Database.User'', ''Database.DBName'',
     ''Database.SSLMode'', ''Database.MaxOpenConns'', ''Database.MaxIdleConns'', ''Database.ConnMaxLifetime'', ''Log.Level'']"

definition all_fields :: "string list" where
  "all_fields = base_fields @ map (\<lambda>x. ''AI.'' @ fst x) ai_fields"

lemma list_all2_own: "list_all2 own_field (Registry ul) all_fields"
proof -
  have "list_all2 own_field (server_items ul @ consul_items ul @ login_items ul @ artifact_items ul @ agent_items ul @
      partner_items ul @ external_items ul @ redis_items ul @ fixed_items ul) base_fields"
    unfolding server_items_def consul_items_def login_items_def artifact_items_def agent_items_def partner_items_def
      external_items_def redis_items_def fixed_items_def base_fields_def append.simps list_all2_Cons list_all2_Nil own_field_item
    by (simp only: getters_only setters_only simp_thms)
  moreover have "list_all2 own_field aiRegistry (map (\<lambda>x. ''AI.'' @ fst x) ai_fields)"
    unfolding aiRegistry_def list.rel_map by (rule list.rel_refl_strong) (simp only: split_beta own_field_item getters_only ai_setter_only simp_thms)
  ultimately show ?thesis unfolding Registry_def all_fields_def by (simp add: list_all2_appendI flip: append_assoc)
qed

lemma ai_fields_distinct: "distinct (map fst ai_fields)"
  unfolding ai_fields_def by simp

lemma base_fields_distinct: "distinct base_fields"
  unfolding base_fields_def by simp

lemma distinct_prefixed:
  "distinct xs \<Longrightarrow> distinct ys \<Longrightarrow> list_all (\<lambda>x. \<not> has_prefix p x) xs \<Longrightarrow> distinct (xs @ map (\<lambda>y. p @ y) ys)"
  by (auto simp: distinct_map inj_on_def list_all_iff)

lemma all_fields_distinct: "distinct all_fields"
proof -
  have "list_all (\<lambda>x. \<not> has_prefix ''AI.'' x) base_fields" by code_simp
  from distinct_prefixed [OF base_fields_distinct ai_fields_distinct this] show ?thesis by (simp add: all_fields_def comp_def)
qed

definition base_items :: "url_lib \<Rightarrow> setting_item list" where
  "base_items ul = server_items ul @ consul_items ul @ login_items ul @ artifact_items ul @ agent_items ul @ partner_items ul @
     external_items ul @ redis_items ul @ fixed_items ul"

lemmas group_defs = server_items_def consul_items_def login_items_def artifact_items_def agent_items_def partner_items_def
  external_items_def redis_items_def fixed_items_def

lemma Registry_split: "Registry ul = base_items ul @ aiRegistry"
  by (simp add: Registry_def base_items_def)

lemma it_key_item [simp]: "it_key (item k a b r g s v) = k" "it_get (item k a b r g s v) = g" "it_set (item k a b r g s v) = s"
  "it_secret (item k a b r g s v) = a" "it_readonly (item k a b r g s v) = b" "it_valid (item k a b r g s v) = v"
  by (simp_all add: item_def)

lemma base_keys_distinct: "distinct (map it_key (base_items ul))"
  unfolding base_items_def group_defs by simp

lemma Registry_keys_distinct: "distinct (map it_key (Registry ul))"
proof -
  have "list_all (\<lambda>x. \<not> has_prefix ''ai.'' x) (map it_key (base_items ul))"
    unfolding base_items_def group_defs by (simp add: has_prefix_def)
  moreover have "map it_key aiRegistry = map (\<lambda>y. ''ai.'' @ y) (map fst ai_fields)" by (simp add: aiRegistry_def split_beta)
  ultimately show ?thesis
    using distinct_prefixed [OF base_keys_distinct ai_fields_distinct] by (simp only: Registry_split map_append)
qed

section \<open>Items do not disturb each other\<close>

lemma item_ofI:
  assumes "it \<in> set (Registry ul)"
  shows "item_of ul (it_key it) = Some it"
proof (cases "item_of ul (it_key it)")
  case None
  then show ?thesis using assms unfolding item_of_def find_None_iff by blast
next
  case (Some it')
  then have "it' \<in> set (Registry ul)" "it_key it' = it_key it" unfolding item_of_def find_Some_iff by auto
  with assms Registry_keys_distinct [of ul] have "it' = it" unfolding distinct_map inj_on_def by blast
  with Some show ?thesis by simp
qed

lemma item_of_mem: "item_of ul k = Some it \<Longrightarrow> it \<in> set (Registry ul) \<and> it_key it = k"
  by (auto simp: item_of_def find_Some_iff)

text \<open>The field of an item, which no other item sets.\<close>

definition field_of :: "url_lib \<Rightarrow> setting_item \<Rightarrow> string \<Rightarrow> bool" where
  "field_of ul it f = (own_field it f \<and> (\<forall>it2\<in>set (Registry ul). it_key it2 \<noteq> it_key it \<longrightarrow> (\<forall>c v. it_set it2 c v f = c f)))"

lemma field_ofE:
  assumes "it \<in> set (Registry ul)"
  obtains f where "field_of ul it f"
proof -
  from assms obtain i where i: "i < length (Registry ul)" "Registry ul ! i = it" by (auto simp: in_set_conv_nth)
  have len: "length (Registry ul) = length all_fields" using list_all2_own by (rule list_all2_lengthD)
  have own: "own_field (Registry ul ! j) (all_fields ! j)" if "j < length (Registry ul)" for j
    using list_all2_own that by (rule list_all2_nthD)
  have "it_set it2 c v (all_fields ! i) = c (all_fields ! i)" if it2: "it2 \<in> set (Registry ul)" "it_key it2 \<noteq> it_key it" for it2 c v
  proof -
    from it2 obtain j where j: "j < length (Registry ul)" "Registry ul ! j = it2" by (auto simp: in_set_conv_nth)
    with it2(2) i have "i \<noteq> j" by auto
    then have "all_fields ! i \<noteq> all_fields ! j" using all_fields_distinct i(1) j(1) len by (simp add: nth_eq_iff_index_eq)
    then show ?thesis using own [OF j(1)] j(2) sets_only_other by (auto simp: own_field_def)
  qed
  moreover have "own_field it (all_fields ! i)" using own [OF i(1)] i(2) by simp
  ultimately have "field_of ul it (all_fields ! i)" unfolding field_of_def by blast
  then show ?thesis using that by blast
qed

lemma field_gets: "field_of ul it f \<Longrightarrow> c f = c' f \<Longrightarrow> it_get it c = it_get it c'"
  unfolding field_of_def own_field_def gets_only_def by blast

lemma field_sets: "field_of ul it f \<Longrightarrow> c f = c' f \<Longrightarrow> it_set it c v f = it_set it c' v f"
  unfolding field_of_def own_field_def by (blast intro: sets_only_same)

lemma field_other: "field_of ul it f \<Longrightarrow> item_of ul k = Some it2 \<Longrightarrow> k \<noteq> it_key it \<Longrightarrow> it_set it2 c v f = c f"
  using item_of_mem [of ul k it2] by (auto simp: field_of_def)

lemma fold_set_value:
  assumes "it \<in> set (Registry ul)" "field_of ul it f" "distinct (map fst ps)"
  shows "fold (set_value ul) ps c f = (case map_of ps (it_key it) of None \<Rightarrow> c f | Some v \<Rightarrow> it_set it c v f)"
  using assms(3)
proof (induction ps arbitrary: c)
  case (Cons p ps)
  show ?case
  proof (cases "fst p = it_key it")
    case True
    then have "map_of ps (it_key it) = None" using Cons.prems by (auto simp: map_of_eq_None_iff)
    then show ?thesis using Cons True item_ofI [OF assms(1)] by (simp add: set_value_def)
  next
    case False
    have f: "set_value ul p c f = c f" using False field_other [OF assms(2)] by (auto simp: set_value_def split: option.split)
    have "map_of (p # ps) (it_key it) = map_of ps (it_key it)" using False by (cases p) auto
    moreover have "it_set it (set_value ul p c) v f = it_set it c v f" for v using field_sets [OF assms(2)] f by blast
    ultimately show ?thesis using Cons f by (auto split: option.split)
  qed
qed simp

section \<open>Saving\<close>

lemma map_of_upd_key:
  "map_of (upd_where (\<lambda>x. fst x = k) (\<lambda>x. (k, v)) m) j = (if j = k then (if k \<in> fst ` set m then Some v else None) else map_of m j)"
proof (induction m)
  case (Cons x m)
  obtain a b where x: "x = (a, b)" by (cases x)
  have "k \<in> fst ` set (x # m) \<longleftrightarrow> a = k \<or> k \<in> fst ` set m" unfolding x by auto
  then show ?case using Cons by (cases "a = k"; cases "j = k") (simp_all add: x)
qed simp

lemma table_put_map: "map_of (table_put k v m) = (map_of m)(k \<mapsto> v)"
proof -
  have e: "exists_row (\<lambda>x. fst x = k) m \<longleftrightarrow> k \<in> fst ` set m" unfolding exists_row_iff by force
  show ?thesis
  proof (cases "k \<in> fst ` set m")
    case True
    then show ?thesis unfolding table_put_def e by (simp add: fun_eq_iff map_of_upd_key)
  next
    case False
    then have "map_of m k = None" by (simp add: map_of_eq_None_iff)
    then show ?thesis using False unfolding table_put_def e
      by (simp add: fun_eq_iff map_add_def split: option.split)
  qed
qed

lemma fold_table_put:
  "distinct (map fst ps) \<Longrightarrow> map_of (fold (\<lambda>p. table_put (fst p) (snd p)) ps db) k =
     (case map_of ps k of Some v \<Rightarrow> Some v | None \<Rightarrow> map_of db k)"
proof (induction ps arbitrary: db)
  case (Cons p ps)
  show ?case
  proof (cases "fst p = k")
    case True
    then have "map_of ps k = None" using Cons.prems by (auto simp: map_of_eq_None_iff)
    then show ?thesis using Cons True by (cases p) (simp add: table_put_map)
  next
    case False
    then show ?thesis using Cons by (cases p) (auto simp: table_put_map split: option.split)
  qed
qed simp

lemma map_of_sorted:
  assumes "distinct (map fst kv)"
  shows "map_of (sort_key fst (filter P kv)) = map_of (filter P kv)" "distinct (map fst (sort_key fst (filter P kv)))"
proof -
  have d: "distinct (map fst (filter P kv))" using assms by (simp add: distinct_map_filter)
  show s: "distinct (map fst (sort_key fst (filter P kv)))" using d by (simp add: distinct_map)
  show "map_of (sort_key fst (filter P kv)) = map_of (filter P kv)" using d s by (auto simp: map_of_inject_set)
qed

lemma is_pending_iff:
  "is_pending ul x = (\<exists>it\<in>set (Registry ul). it_key it = fst x \<and> \<not> it_readonly it \<and> \<not> (it_secret it \<and> snd x = MaskedSecret))"
proof (cases "item_of ul (fst x)")
  case None
  then have "it_key it \<noteq> fst x" if "it \<in> set (Registry ul)" for it using item_ofI [OF that] by auto
  with None show ?thesis by (auto simp: is_pending_def)
next
  case (Some it)
  have "it' = it" if "it' \<in> set (Registry ul)" "it_key it' = fst x" for it'
    using item_ofI [OF that(1)] that(2) Some by simp
  with Some item_of_mem [OF Some] show ?thesis by (auto simp: is_pending_def IsMasked_def)
qed

lemma Apply_saved:
  assumes "distinct (map fst kv)"
  shows "case Apply ul kv (db, s) of
      (Inl e, db', s') \<Rightarrow> db' = db \<and> s' = s
    | (Inr applied, db', s') \<Rightarrow>
        set applied = fst ` {x \<in> set kv. is_pending ul x} \<and> st_page s' = st_page s \<union> set applied \<and>
        (\<forall>k. map_of db' k = (if k \<in> set applied then map_of kv k else map_of db k)) \<and>
        (\<forall>it\<in>set (Registry ul). it_get it (st_cfg s') =
           (if it_key it \<in> set applied then it_get it (it_set it (st_cfg s) (the (map_of kv (it_key it)))) else it_get it (st_cfg s)))"
proof (cases "binaries_ok ul kv (st_cfg s) \<and> list_all (value_ok ul (st_cfg s)) kv")
  case False
  then show ?thesis by (auto simp: Apply_def)
next
  case True
  let ?ps = "sort_key fst (filter (is_pending ul) kv)"
  let ?s' = "s\<lparr>st_cfg := fold (set_value ul) ?ps (st_cfg s), st_page := st_page s \<union> set (map fst ?ps)\<rparr>"
  have e: "Apply ul kv (db, s) = (Inr (map fst ?ps), fold (\<lambda>p. table_put (fst p) (snd p)) ?ps db, ?s')"
    using True by (simp add: Apply_def Let_def)
  note m = map_of_sorted [OF assms, of "is_pending ul"]
  have fs: "set (map fst ?ps) = fst ` {x \<in> set kv. is_pending ul x}" by simp
  have at: "map_of ?ps k = (if k \<in> set (map fst ?ps) then map_of kv k else None)" for k
  proof (cases "k \<in> set (map fst ?ps)")
    case True
    then obtain v where v: "(k, v) \<in> set ?ps" by auto
    then have "map_of ?ps k = Some v" "map_of kv k = Some v" using m(2) assms by (simp_all only: map_of_eq_Some_iff) simp_all
    with True show ?thesis by simp
  next
    case False
    then show ?thesis by (simp add: map_of_eq_None_iff)
  qed
  have db: "map_of (fold (\<lambda>p. table_put (fst p) (snd p)) ?ps db) k = (if k \<in> set (map fst ?ps) then map_of kv k else map_of db k)" for k
  proof (cases "k \<in> set (map fst ?ps)")
    case True
    then obtain v where "map_of ?ps k = Some v" by (metis map_of_eq_None_iff not_Some_eq set_map)
    then show ?thesis using True at [of k] by (simp only: fold_table_put [OF m(2)] option.case if_True)
  next
    case False
    then show ?thesis using at [of k] by (simp only: fold_table_put [OF m(2)] option.case if_False)
  qed
  have cfg: "it_get it (st_cfg ?s') = (if it_key it \<in> set (map fst ?ps) then it_get it (it_set it (st_cfg s) (the (map_of kv (it_key it))))
      else it_get it (st_cfg s))" if it: "it \<in> set (Registry ul)" for it
  proof -
    obtain f where f: "field_of ul it f" using field_ofE [OF it] .
    note fold = fold_set_value [OF it f m(2), of "st_cfg s"]
    show ?thesis
    proof (cases "it_key it \<in> set (map fst ?ps)")
      case True
      then obtain v where v: "map_of ?ps (it_key it) = Some v" by (metis map_of_eq_None_iff not_Some_eq set_map)
      then have "st_cfg ?s' f = it_set it (st_cfg s) v f" using fold by simp
      then have "it_get it (st_cfg ?s') = it_get it (it_set it (st_cfg s) v)" using field_gets [OF f] by blast
      then show ?thesis using True v at [of "it_key it"] by (simp only: if_True option.sel)
    next
      case False
      then have "st_cfg ?s' f = st_cfg s f" using fold at [of "it_key it"] by (simp only: if_False option.case settings.select_convs settings.update_convs) simp
      then have "it_get it (st_cfg ?s') = it_get it (st_cfg s)" using field_gets [OF f] by blast
      then show ?thesis using False by (simp only: if_False)
    qed
  qed
  show ?thesis unfolding e prod.case sum.case fs [symmetric] using db cfg by (simp only: settings.select_convs settings.update_convs) simp
qed

text \<open>C21: Saving settings. A request that is refused changes nothing. One that is accepted writes exactly the submitted
  values of known keys that may be changed and are no place holder of a secret, to the table and to the configuration,
  each through its item, and leaves every other key and every other setting as it was.\<close>

theorem Apply_exact:
  assumes "distinct (map fst kv)"
  shows "case Apply ul kv (db, s) of
      (Inl e, db', s') \<Rightarrow> db' = db \<and> s' = s
    | (Inr applied, db', s') \<Rightarrow>
        set applied = fst ` {x \<in> set kv. \<exists>it\<in>set (Registry ul).
          it_key it = fst x \<and> \<not> it_readonly it \<and> \<not> (it_secret it \<and> snd x = MaskedSecret)} \<and>
        st_page s' = st_page s \<union> set applied \<and>
        (\<forall>k. map_of db' k = (if k \<in> set applied then map_of kv k else map_of db k)) \<and>
        (\<forall>it\<in>set (Registry ul). it_get it (st_cfg s') =
           (if it_key it \<in> set applied then it_get it (it_set it (st_cfg s) (the (map_of kv (it_key it)))) else it_get it (st_cfg s)))"
  by (rule Apply_saved [OF assms, unfolded is_pending_iff])

section \<open>What the page shows\<close>

text \<open>Secrets stay hidden. Whatever the configuration holds, the page and the value a reset answers show a secret
  only as a place holder or as empty.\<close>

theorem secrets_masked:
  "(\<forall>it\<in>set (Registry ul). it_secret it \<longrightarrow> (\<forall>v src. (it_key it, v, src) \<in> set (View ul s) \<longrightarrow> v \<in> {[], MaskedSecret})) \<and>
   (\<forall>it\<in>set (Registry ul). it_secret it \<longrightarrow> (\<forall>v. BaseValue ul (it_key it) s = Some v \<longrightarrow> v \<in> {[], MaskedSecret}))"
proof -
  have same: "it' = it" if "it \<in> set (Registry ul)" "it' \<in> set (Registry ul)" "it_key it' = it_key it" for it it'
    using that Registry_keys_distinct [of ul] unfolding distinct_map inj_on_def by blast
  have "v \<in> {[], MaskedSecret}" if it: "it \<in> set (Registry ul)" "it_secret it" "(it_key it, v, src) \<in> set (View ul s)" for it v src
  proof -
    from it(3) obtain it' where i: "it' \<in> set (Registry ul)" "it_key it' = it_key it" "v = masked it' (it_get it' (st_cfg s))"
      unfolding View_def by (auto simp only: set_map image_iff prod.inject)
    from same [OF it(1) i(1,2)] i(3) it(2) show ?thesis by (simp add: masked_def)
  qed
  then have "(\<forall>it\<in>set (Registry ul). it_secret it \<longrightarrow> (\<forall>v src. (it_key it, v, src) \<in> set (View ul s) \<longrightarrow> v \<in> {[], MaskedSecret}))"
    by blast
  moreover have "(\<forall>it\<in>set (Registry ul). it_secret it \<longrightarrow> (\<forall>v. BaseValue ul (it_key it) s = Some v \<longrightarrow> v \<in> {[], MaskedSecret}))"
    by (auto simp: BaseValue_def item_ofI masked_def)
  ultimately show ?thesis by blast
qed

section \<open>Other processes\<close>

text \<open>A text is in the form an item prints its values in.\<close>

definition canonical :: "setting_item \<Rightarrow> string \<Rightarrow> bool" where
  "canonical it v = (\<forall>c. it_get it (it_set it c v) = v)"

lemma sync_key_other:
  assumes "field_of ul it f" "k \<noteq> it_key it"
  shows "st_cfg (snd (sync_key ul vals k s)) f = st_cfg s f"
  using field_other [OF assms(1) _ assms(2)] by (auto simp: sync_key_def Let_def split: option.split)

lemma sync_key_sets:
  assumes "it \<in> set (Registry ul)" "\<not> it_readonly it" "map_of vals (it_key it) = Some v" "canonical it v" "passes it v"
    and "\<not> (it_secret it \<and> IsMasked v)"
  shows "it_get it (st_cfg (snd (sync_key ul vals (it_key it) s))) = v"
  using assms item_ofI [OF assms(1)] by (auto simp: sync_key_def Let_def canonical_def)

lemma sync_keys_sets:
  assumes "it \<in> set (Registry ul)" "\<not> it_readonly it" "map_of vals (it_key it) = Some v" "canonical it v" "passes it v"
    and "\<not> (it_secret it \<and> IsMasked v)"
  shows "it_key it \<in> set ks \<or> it_get it (st_cfg s) = v \<Longrightarrow> it_get it (st_cfg (snd (sync_keys ul vals ks s))) = v"
proof (induction ks arbitrary: s)
  case (Cons k ks)
  obtain f where f: "field_of ul it f" using field_ofE [OF assms(1)] .
  have "it_key it \<in> set ks \<or> it_get it (st_cfg (snd (sync_key ul vals k s))) = v"
  proof (cases "k = it_key it")
    case True
    then show ?thesis using sync_key_sets [OF assms] by blast
  next
    case False
    have "it_get it (st_cfg (snd (sync_key ul vals k s))) = it_get it (st_cfg s)"
      using field_gets [OF f] sync_key_other [OF f False] by blast
    then show ?thesis using Cons.prems False by auto
  qed
  from Cons.IH [OF this] show ?case by (simp split: prod.split) (metis snd_conv)
qed simp

text \<open>C26: Settings reach every process. After a value in canonical form that passes its check was saved, the process
  that saved it has it, and any other process has it after its next round over the key, whatever it had before.\<close>

theorem settings_reach_replicas:
  assumes "Apply ul kv (db, s) = (Inr applied, db', s')" "distinct (map fst kv)" "it \<in> set (Registry ul)"
    and "map_of kv (it_key it) = Some v" "it_key it \<in> set applied" "canonical it v" "passes it v" "it_key it \<in> set keys"
  shows "it_get it (st_cfg s') = v \<and> it_get it (st_cfg (snd (SyncFromDB ul keys db' t))) = v"
proof -
  note saved = Apply_saved [OF assms(2), where ul = ul and db = db and s = s, unfolded assms(1) prod.case sum.case]
  have a1: "set applied = fst ` {x \<in> set kv. is_pending ul x}" using saved by (elim conjE) assumption
  have "\<forall>k. map_of db' k = (if k \<in> set applied then map_of kv k else map_of db k)" using saved by (elim conjE) assumption
  from this [rule_format, of "it_key it"] assms(4,5) have a2: "map_of db' (it_key it) = Some v" by (simp only: if_True)
  have "\<forall>it\<in>set (Registry ul). it_get it (st_cfg s') =
           (if it_key it \<in> set applied then it_get it (it_set it (st_cfg s) (the (map_of kv (it_key it)))) else it_get it (st_cfg s))"
    using saved by (elim conjE) assumption
  from bspec [OF this assms(3)] assms(4,5) have a3: "it_get it (st_cfg s') = it_get it (it_set it (st_cfg s) v)"
    by (simp only: if_True option.sel)
  from a1 assms(5) obtain w where w: "(it_key it, w) \<in> set kv" "is_pending ul (it_key it, w)" by auto
  have "w = v" using map_of_is_SomeI [OF assms(2) w(1)] assms(4) by simp
  with w(2) have p: "\<not> it_readonly it" "\<not> (it_secret it \<and> IsMasked v)"
    unfolding is_pending_def fst_conv snd_conv item_ofI [OF assms(3)] by simp_all
  have "map_of (ReadValues keys db') (it_key it) = Some v"
    using a2 assms(8) unfolding ReadValues_def by (induction db') (auto split: if_splits)
  from sync_keys_sets [OF assms(3) p(1) this assms(6,7) p(2), of keys t] assms(8)
  show ?thesis using a3 assms(6) by (simp add: SyncFromDB_def canonical_def)
qed

end
