(* ===== verification/SettingsExamples.thy ===== *)
theory SettingsExamples
  imports SettingsSafety AiTokens FleetExamples
begin

text \<open>Settings at work: their properties at concrete inputs, and values that pass a check but do not mean what it says.\<close>

section \<open>Witnesses\<close>

definition ex_config :: config where
  "ex_config f = (if f = ''Server.Port'' then CInt 80 else if f = ''Consul.Token'' then CStr ''hunter2''
     else if f = ''Artifact.LockWait'' then CStr ''5m'' else CStr [])"

definition ex_settings :: settings where
  "ex_settings = NewService ex_config (Some ex_config)"

lemma ex_settings_parts [simp]: "st_cfg ex_settings = ex_config" "st_base ex_settings = Some ex_config" "st_page ex_settings = {}"
  by (simp_all add: ex_settings_def NewService_def)

text \<open>The items the examples use.\<close>

lemmas in_groups = Registry_def set_append Un_iff list.set insert_iff simp_thms
  server_items_def consul_items_def artifact_items_def

lemma item_port: "item_of ul ''server.port'' = Some (item ''server.port'' False False True
    (get_int ''Server.Port'') (set_int ''Server.Port'') (Some (validateIntRange 1 65535)))" (is "_ = Some ?it")
proof -
  have "?it \<in> set (Registry ul)" by (simp only: in_groups)
  from item_ofI [OF this] show ?thesis by simp
qed

lemma item_address: "item_of ul ''consul.address'' = Some (item ''consul.address'' False False False
    (get_str ''Consul.Address'') (set_verbatim ''Consul.Address'') None)" (is "_ = Some ?it")
proof -
  have "?it \<in> set (Registry ul)" by (simp only: in_groups)
  from item_ofI [OF this] show ?thesis by simp
qed

lemma item_token: "item_of ul ''consul.token'' = Some (item ''consul.token'' True False False
    (get_str ''Consul.Token'') (set_verbatim ''Consul.Token'') None)" (is "_ = Some ?it")
proof -
  have "?it \<in> set (Registry ul)" by (simp only: in_groups)
  from item_ofI [OF this] show ?thesis by simp
qed

lemma item_wait: "item_of ul ''artifact.lock_wait'' = Some (item ''artifact.lock_wait'' False False False
    (get_str ''Artifact.LockWait'') (set_trimmed ''Artifact.LockWait'') (Some (duration_between second (hours 24))))" (is "_ = Some ?it")
proof -
  have "?it \<in> set (Registry ul)" by (simp only: in_groups)
  from item_ofI [OF this] show ?thesis by simp
qed

definition model_item :: setting_item where
  "model_item = item ''ai.llm_model'' False False False (FieldString ''llm_model'')
     (\<lambda>c v. if ValidateAIValue ''llm_model'' v then SetField ''llm_model'' KString c v else c) (Some (ValidateAIValue ''llm_model''))"

lemma model_item_in: "model_item \<in> set (Registry ul)"
proof -
  have "(''llm_model'', KString) \<in> set ai_fields" by code_simp
  then have "model_item \<in> set aiRegistry" unfolding aiRegistry_def set_map by (rule image_eqI [rotated]) (simp add: model_item_def)
  then show ?thesis by (simp add: Registry_split)
qed

lemma item_model: "item_of ul ''ai.llm_model'' = Some model_item"
  using item_ofI [OF model_item_in] by (simp add: model_item_def)

lemma model_checks: "ValidateAIValue ''llm_model'' v"
  by (simp add: ValidateAIValue_def AIIntRanges_def AIDurationKeys_def)

lemmas item_parts = item_port item_address item_token item_wait item_model
lemmas saving = Apply_def binaries_ok_def value_ok_def is_pending_def set_value_def passes_def item_def item_parts model_item_def

definition ex_saved :: table where
  "ex_saved = [(''consul.token'', ''******''), (''consul.address'', ''10.0.0.5'')]"

lemma Apply_exact_witness:
  "\<exists>db' s'. Apply ex_no_url ex_saved ([], ex_settings) = (Inr [''consul.address''], db', s') \<and>
    map_of db' ''consul.token'' = None \<and> map_of db' ''consul.address'' = Some ''10.0.0.5'' \<and> st_page s' = {''consul.address''}"
proof -
  have d: "distinct (map fst ex_saved)" by (simp add: ex_saved_def)
  have r: "fst (Apply ex_no_url ex_saved ([], ex_settings)) = Inr [''consul.address'']"
    by (simp add: saving ex_saved_def IsMasked_def)
  then obtain db' s' where e: "Apply ex_no_url ex_saved ([], ex_settings) = (Inr [''consul.address''], db', s')"
    by (cases "Apply ex_no_url ex_saved ([], ex_settings)") auto
  note p = Apply_exact [OF d, where ul = ex_no_url and db = "[]" and s = ex_settings, unfolded e prod.case sum.case]
  have "st_page s' = st_page ex_settings \<union> set [''consul.address'']" using p by (elim conjE) assumption
  moreover have "\<forall>k. map_of db' k = (if k \<in> set [''consul.address''] then map_of ex_saved k else map_of [] k)"
    using p by (elim conjE) assumption
  ultimately have "st_page s' = {''consul.address''}" "map_of db' ''consul.token'' = None" "map_of db' ''consul.address'' = Some ''10.0.0.5''"
    by (simp_all add: ex_saved_def)
  with e show ?thesis by blast
qed

lemma secrets_masked_witness:
  "(''consul.token'', MaskedSecret, ''default'') \<in> set (View ex_no_url ex_settings) \<and>
   \<not> (\<exists>src. (''consul.token'', ''hunter2'', src) \<in> set (View ex_no_url ex_settings))"
proof -
  obtain it where it: "item_of ex_no_url ''consul.token'' = Some it" "it_secret it" "it_key it = ''consul.token''"
      "it_get it = get_str ''Consul.Token''"
    by (simp add: item_token item_def)
  have "sourceOf it ex_settings = ''default''" "masked it (it_get it (st_cfg ex_settings)) = MaskedSecret"
    by (simp_all add: sourceOf_def masked_def it ex_settings_def NewService_def get_str_def ex_config_def)
  then have m: "(''consul.token'', MaskedSecret, ''default'') \<in> set (View ex_no_url ex_settings)"
    unfolding View_def set_map using item_of_mem [OF it(1)] it(3) by (intro image_eqI [of _ _ it]) simp_all
  from conjunct1 [OF secrets_masked [of ex_no_url ex_settings]] item_of_mem [OF it(1)] it(2)
  have "\<forall>v src. (it_key it, v, src) \<in> set (View ex_no_url ex_settings) \<longrightarrow> v \<in> {[], MaskedSecret}" by blast
  then have "\<not> (\<exists>src. (''consul.token'', ''hunter2'', src) \<in> set (View ex_no_url ex_settings))" unfolding it(3) by auto
  with m show ?thesis by blast
qed

lemma settings_reach_replicas_witness:
  "\<exists>db' s'. Apply ex_no_url [(''ai.llm_model'', ''m1'')] ([], ex_settings) = (Inr [''ai.llm_model''], db', s') \<and>
    it_get model_item (st_cfg s') = ''m1'' \<and>
    it_get model_item (st_cfg (snd (SyncFromDB ex_no_url [''ai.llm_model''] db' ex_settings))) = ''m1''"
proof -
  have r: "fst (Apply ex_no_url [(''ai.llm_model'', ''m1'')] ([], ex_settings)) = Inr [''ai.llm_model'']"
    by (simp add: saving model_checks)
  then obtain db' s' where e: "Apply ex_no_url [(''ai.llm_model'', ''m1'')] ([], ex_settings) = (Inr [''ai.llm_model''], db', s')"
    by (cases "Apply ex_no_url [(''ai.llm_model'', ''m1'')] ([], ex_settings)") auto
  have k: "it_key model_item = ''ai.llm_model''" by (simp add: model_item_def)
  have c: "canonical model_item ''m1''" "passes model_item ''m1''"
    by (simp_all add: canonical_def passes_def model_item_def item_def model_checks SetField_def FieldString_def)
  have "it_get model_item (st_cfg s') = ''m1'' \<and>
    it_get model_item (st_cfg (snd (SyncFromDB ex_no_url [''ai.llm_model''] db' ex_settings))) = ''m1''"
    by (rule settings_reach_replicas [OF e _ model_item_in _ _ c]) (simp_all add: k)
  with e show ?thesis by blast
qed

section \<open>Where check and meaning differ\<close>

text \<open>A port with a leading space passes the check, is stored, and never takes effect.\<close>

lemma padded_port:
  "validateIntRange 1 65535 '' 9090''" "set_int ''Server.Port'' c '' 9090'' = c" "get_int ''Server.Port'' ex_config = ''80''"
proof -
  show "validateIntRange 1 65535 '' 9090''" by code_simp
  have "\<not> is_digit CHR '' ''" "\<not> has_prefix ''-'' '' 9090''" "\<not> has_prefix ''+'' '' 9090''" by code_simp+
  then have "parse_int64 '' 9090'' = None" by (simp add: parse_int64_def Let_def)
  then show "set_int ''Server.Port'' c '' 9090'' = c" by (simp add: set_int_def)
  show "get_int ''Server.Port'' ex_config = ''80''" unfolding get_int_def ex_config_def by code_simp
qed

lemma padded_port_lost:
  "\<exists>s'. Apply ex_no_url [(''server.port'', '' 9090'')] ([], ex_settings) =
      (Inr [''server.port''], [(''server.port'', '' 9090'')], s') \<and> get_int ''Server.Port'' (st_cfg s') = ''80''"
  by (simp add: saving padded_port table_put_def exists_row_def)

text \<open>And every later round of the synchronisation counts it as a change.\<close>

lemma padded_value_never_settles:
  assumes "st_cfg s = ex_config"
  shows "\<exists>s'. SyncFromDB ex_no_url [''server.port''] [(''server.port'', '' 9090'')] s = ([''server.port''], s') \<and> st_cfg s' = ex_config"
  using assms by (simp add: SyncFromDB_def ReadValues_def sync_key_def saving padded_port Let_def)

text \<open>A padded role passes the check, is stored as it is, and then lets every user create tokens.\<close>

lemma padded_role_opens:
  "ValidateAIValue ''token_min_role'' '' superadmin'' \<and>
   FieldString ''token_min_role'' (SetField ''token_min_role'' KString ex_config '' superadmin'') = '' superadmin'' \<and>
   (let u = Some \<lparr>us_username = ''ann'', us_is_admin = False, us_tenant = 1, us_roles = [RoleUser]\<rparr>
    in CanCreate u '' superadmin'' \<and> \<not> CanCreate u RoleSuperAdmin)"
  by code_simp

text \<open>Not a number passes the check for a number from 0 to 2.\<close>

lemma nan_temperature: "ValidateAIValue ''llm_temperature'' ''NaN''"
  by code_simp

text \<open>A value that is reset on one server stays on another: the watcher of the upload limits only takes over rows
  that exist.\<close>

lemma wait_ok: "duration_between second (hours 24) ''9m''" by code_simp

lemma reset_stays_elsewhere:
  "let other = snd (artifact_watch ex_no_url [(''artifact.lock_wait'', ''9m'')] (None, ex_settings));
       later = snd (artifact_watch ex_no_url [] other)
   in get_str ''Artifact.LockWait'' (st_cfg (snd later)) = ''9m'' \<and> get_str ''Artifact.LockWait'' (st_cfg ex_settings) = ''5m''"
proof -
  have t: "trim_space ''9m'' = ''9m''" by code_simp
  show ?thesis
    by (simp add: artifact_watch_def ReadValues_def artifactRuntimeSettings_def saving wait_ok get_str_def set_trimmed_def ex_config_def t Let_def)
qed

end
