(* ===== verification/Spec2Isabelle.thy ===== *)
theory Spec2Isabelle
imports TaskExamples ArtifactExamples UploadLimiter Locks FleetExamples PathSafety Storage AccountExamples OrgExamples OverlayExamples SettingsExamples
begin

text \<open>
  A verification library for iflygo, a console that rolls out upgrades to a fleet of hosts, together with an overlay
  network between them. This text says how the program is put together, which theory models which part, what is
  proved about it, and what is left out.

  \<^bold>\<open>The program.\<close>

  One server binary (\<^verbatim>\<open>cmd/server\<close>) answers browsers, agents and nodes of the overlay. All of its replicas share
  one SQL database. An agent runs on every host (\<^verbatim>\<open>internal/agent\<close>): it registers, sends heartbeats, takes the
  commands meant for it and reports what became of them. Users define components, upload artifacts, create tasks that
  roll a component out in batches, and start, pause, promote, cancel, retry and delete them. The orchestrator
  (\<^verbatim>\<open>internal/logic/task\<close>) advances running tasks batch by batch and writes commands; the gateway
  (\<^verbatim>\<open>internal/logic/agentgw\<close>) hands commands to agents and writes results back into commands and host rows. Both
  meet in the tables of tasks, batches, host rows and commands and nowhere else. The overlay has its own tables of
  networks, addresses, nodes, routes and certificates; its nodes fetch their configuration with the secret they got
  when they enrolled.

  \<^bold>\<open>How the model reads.\<close>

  A table is a list of rows in the order of their numbers, a row is a record with the columns of the migrations, and
  the database is a record of tables (\<open>db\<close> in Schema, \<open>accounts\<close>, \<open>org\<close>, \<open>overlay_db\<close>, \<open>ai_repo\<close> for the other groups
  of tables). A statement of SQL is one of the table operations of Prelude: an update with a condition is \<open>upd_where\<close>, its
  affected rows \<open>rows_affected\<close>, a select of one row \<open>find\<close>. A transaction is a function from the database to its
  answer and the new database, so every transaction is one atomic step; the sections under a mutex in UploadLimiter
  and Locks are single steps of a relation whose order is free. An error is a value of an error type on the left of a
  sum, with the database it leaves behind. Strings are lists of bytes: a text in another script than ASCII is written
  as its UTF-8 bytes. Numbers of Go's \<open>int\<close> that can leave their range are reduced to 64 bits (\<open>i64\<close>), the others are
  integers; bytes of addresses are 8 bit words. Times are nanoseconds and enter as arguments, as do random values.

  Code that is not in the repository is a parameter: the keyed hash and digests, the sealing of cookies, the hash of
  passwords, \<open>net/url\<close> (\<open>url_lib\<close>), the parsing of JSON and CSV, the certificate authority, the printing of YAML, the
  names of ports. Where a property needs a law of such a function (a digest without collisions, a seal that opens to
  what was sealed), the law is a hypothesis, and the property's witness gives a function that has it.

  \<^bold>\<open>Theories.\<close>

  Foundations.
  \<^item> Prelude: tables, 64 bit arithmetic, decimal printing, time, and the collections \<open>table_simps\<close>, \<open>handler_defs\<close>.
  \<^item> GoStrings, GoNum, Inet: the parts of Go's \<open>strings\<close>, \<open>unicode/utf8\<close>, \<open>strconv\<close>, \<open>time\<close> and \<open>net\<close> the code calls.
  \<^item> WorkQueue: the locale \<open>work_queue\<close>, a table of jobs and a worker; interpreted by the deletion jobs of tasks
    (DeleteSafety) and of hosts (HostJobs), both of which end because the ids that are left decrease.

  Commands, agents and tasks.
  \<^item> Protocol, Signer, Sanitize: \<^verbatim>\<open>internal/protocol\<close>, \<^verbatim>\<open>pkg/signer\<close>, \<^verbatim>\<open>agentgw/sanitize.go\<close>. Schema has the
    rows and their constraints (\<open>integrity\<close>), Access \<^verbatim>\<open>task.go\<close> on who may see and operate a task.
  \<^item> Contract: what every handler promises about rows it does not own, as locales \<open>command_handler\<close> and
    \<open>agent_handler\<close>, interpreted on \<open>Dequeue\<close>, \<open>Ack\<close>, \<open>UpdateStage\<close>, \<open>Report\<close>, \<open>ReapExpired\<close>, \<open>ReconcileTasks\<close>, \<open>Cancel\<close>,
    \<open>Retry\<close>, \<open>force_cancel\<close> and \<open>markSelfUpdateSuccess\<close>.
  \<^item> Gateway, Reap, AgentVerify: \<^verbatim>\<open>agentgw/gateway.go\<close>, \<^verbatim>\<open>agentgw/reap.go\<close> and the check of a command in
    \<^verbatim>\<open>agentrun/run.go\<close>. GatewaySafety: an ended command stays as it is, an agent reaches no other agent's rows, a
    final report settles command and host row together. ReapSafety: the loop of lease recovery equals one update.
    Maintenance: the daily clean-up, \<^verbatim>\<open>internal/maintenance\<close>.
  \<^item> TargetOS, TaskOps, TaskCreate, TaskDelete, Orchestrator: \<^verbatim>\<open>internal/logic/task\<close>. TaskSafety: what cancelation and
    retries do, and that an operation that fails changes nothing. CreateSafety: which hosts a selector names, how batches split
    them. DeleteSafety: deletion in bulk equals deletion one by one, deletion jobs end, and operations stay in their
    tenant. OrchestratorSafety: what is dispatched, and when a rollout stops.
  \<^item> IpRange, IpSafety: \<^verbatim>\<open>pkg/ipx\<close>. The loop over a range is a partial function, since one range never ends.
  \<^item> Lifecycle, Transactions: the operations on the tables of \<open>db\<close> as one relation \<open>transaction\<close> - the requests of agents
    (registration, heartbeat and maintenance included), of users on tasks, jobs, components, artifacts, self updates, hosts
    and tokens, and the background work (orchestrator, reconciliation, deletion jobs, connection checks, daily
    clean-up). The invariant \<open>wf_db\<close> of all reachable databases: the primary keys and unique indexes of the migrations
    (\<open>integrity\<close>, \<open>thost_uq\<close>, \<open>store_ok\<close>, \<open>fleet_ok\<close>), their foreign keys (\<open>refs_ok\<close>, \<open>store_ok\<close>), and consistent jobs
    (\<open>jobs_ok\<close>, \<open>hjobs_ok\<close>). The import of hosts from Consul, which also writes hosts, is not part of the relation.
    The other groups of tables have relations of their own (\<open>overlay_step\<close>, \<open>ai_step\<close>, requests on accounts and
    on the organisation).

  Components, artifacts, uploads.
  \<^item> SafePath, PathSafety: \<^verbatim>\<open>pkg/safepath\<close>. Storage: the locale \<open>object_store\<close> of \<^verbatim>\<open>internal/storage\<close>,
    interpreted on the local directory. Artifacts, ComponentRepo, ArtifactSafety: \<^verbatim>\<open>logic/artifact\<close>, \<^verbatim>\<open>logic/component\<close>.
  \<^item> UploadLimiter, Locks: \<^verbatim>\<open>artifact/limiter.go\<close>, \<^verbatim>\<open>pkg/keyedlock\<close>, \<^verbatim>\<open>pkg/pglock\<close>: no slot leaks, no key has two holders.
  \<^item> SelfUpdate, SelfUpdateSafety: \<^verbatim>\<open>logic/agentupdate\<close>.

  Hosts.
  \<^item> ClientAddr, Enrol, Heartbeat, FieldDefs, HostAdmin, HostImport: the handlers of agents and hosts in
    \<^verbatim>\<open>internal/handler\<close>, \<^verbatim>\<open>pkg/netutil\<close>, \<^verbatim>\<open>pkg/hostnet\<close>, \<^verbatim>\<open>logic/fielddef\<close>. Fleet, EnrolSafety, HostSafety,
    HostJobs: hosts and agents name each other, a registration takes over only the host at its own address and, where
    tokens are required, with a token of its tenant, a deleted host leaves nothing behind.

  People.
  \<^item> Accounts, Sessions, AccountSafety, SessionSafety: \<^verbatim>\<open>internal/rbac\<close>, \<^verbatim>\<open>internal/auth\<close>. No request escalates, and a
    changed account ends its sessions within the 30 seconds of the cache of users.
  \<^item> Org, OrgAdmin, OrgSafety, OrgIsolation: \<^verbatim>\<open>logic/org\<close> and its handlers: tables stay well formed, tenants do not
    influence each other's rights while no grant links two of them, the rights are exactly what the grants say.
  \<^item> Middleware, MiddlewareSafety: \<^verbatim>\<open>internal/middleware\<close>, \<^verbatim>\<open>pkg/corsx\<close>, the chain in \<^verbatim>\<open>cmd/server/main.go\<close>. The rate
    limiter admits what a specification by windows says.
  \<^item> AiTokens, AiTokenSafety: \<^verbatim>\<open>logic/aitoken\<close> and its handlers.

  Overlay.
  \<^item> Ipam, Overlay, OverlayConfig: \<^verbatim>\<open>internal/ipam\<close>, the handlers of networks, nodes, routes, edge services,
    certificates and tunnel agents, \<^verbatim>\<open>internal/configgen\<close>. OverlaySafety: requests as labelled steps
    (\<open>overlay_step\<close>; the registration of a tunnel agent is its UPDATE, any time after its SELECT), an automatic address is
    the first free one, addresses are unique in runs whose deletions hit no number of the other kind of nodes
    (\<open>careful_request\<close>). OverlayTrust: a revoked certificate is blocked, a token enrols once unless registrations overlap.
  \<^item> RouteHealth, Edge: \<^verbatim>\<open>internal/client/routehealth.go\<close>, \<^verbatim>\<open>run.go\<close>, \<^verbatim>\<open>internal/edge\<close>. Routes go through the gateways
    their policy chooses among those that are up.

  Settings.
  \<^item> ExtBin, Settings, SettingsSafety: \<^verbatim>\<open>pkg/extbin\<close>, \<^verbatim>\<open>internal/setting\<close>, \<^verbatim>\<open>config/ai.go\<close>, \<^verbatim>\<open>handler/settings.go\<close> and
    the watchers of \<^verbatim>\<open>svc/context.go\<close>. Saving is exact, secrets are not shown, values reach every replica. That one
    item writes one field, and no two items the same, is what these proofs rest on.

  TaskExamples, ArtifactExamples, FleetExamples, AccountExamples, OrgExamples, OverlayExamples and SettingsExamples
  apply the properties to concrete databases and show behaviour that deserves attention.

  \<^bold>\<open>Bounds and recursion.\<close>

  No definition uses fuel. Loops that end have termination proofs: runs of bytes by their length, the search for a
  free overlay address because addresses grow below 256 to the power of their length, the chunks of a deletion by the ids
  that are left. Loops that may not end are partial functions with option: \<open>ip_loop\<close>, which returns for every range
  that ends below the last address, and \<open>split_loop\<close>, which returns for every size the strategy can compute. The
  bounds in the definitions are the code's own: 500 commands per recovery, the chunk size of deletions, the
  limit of expanded addresses, the lengths of texts.

  \<^bold>\<open>Not modelled.\<close>

  Processes, files and services on hosts (\<^verbatim>\<open>internal/agent/executor\<close>, \<open>installer\<close>, \<open>downloader\<close>, \<open>selfupdate\<close>, \<open>watchdog\<close>,
  \<open>svcmgr\<close>) and the agent's main loop are operating system calls. The web terminal, remote desktop and database
  tools (\<^verbatim>\<open>internal/liaison\<close>) are network sessions around third-party protocols. The tunnel itself is the Nebula
  library; certificates (\<^verbatim>\<open>internal/pki\<close>) and external log-in (\<^verbatim>\<open>auth/casdoor.go\<close>) rest on cryptographic libraries. The
  import of inventories from Consul (\<^verbatim>\<open>logic/sync\<close>), the bridges to language models (\<^verbatim>\<open>internal/mcp\<close>, \<^verbatim>\<open>internal/ai\<close>), the
  S3 and OSS stores and the Redis client call services. Configuration files (\<^verbatim>\<open>config.go\<close>), migrations and the SQLite
  variants of statements are outside: the statements are those of PostgreSQL. Audit entries, log lines, metrics and
  texts of error messages that nothing depends on are not kept. Statements that fail are not modelled where the
  code only rolls back and reports them. In the configuration of a node the constant
  \<open>initiating_version\<close> is left out.
\<close>

end
